(* ===== verification/Nodescale_Prelude.thy ===== *)
theory Nodescale_Prelude
  imports Main "HOL-Library.Word"
begin

text \<open>
  Shared vocabulary of the development: machine integers, the result type of fallible
  Rust functions with the question-mark operator, Rust strings as UTF-8 bytes with the
  standard-library predicates the sources use, and fixed-width big-endian digits.
  The collection \<open>guard_simps\<close> holds the rewrite rules for guards and results, so that
  component proofs can say \<open>simp add: guard_simps\<close>.
\<close>

named_theorems guard_simps \<open>rewrite rules for guards, results and their composition\<close>

section \<open>Machine integers\<close>

type_synonym u8 = "8 word"
type_synonym u32 = "32 word"
type_synonym u64 = "64 word"

text \<open>Rust's \<^verbatim>\<open>u64::checked_add\<close>: \<open>None\<close> on overflow.\<close>

definition checked_add_u64 :: "u64 \<Rightarrow> u64 \<Rightarrow> u64 option" where
  "checked_add_u64 a b = (if unat a + unat b < 2 ^ 64 then Some (a + b) else None)"

lemma checked_add_u64_code [code]:
  "checked_add_u64 a b = (if uint a + uint b < 2 ^ 64 then Some (a + b) else None)"
proof -
  have "uint a + uint b < 2 ^ 64 \<longleftrightarrow> int (unat a + unat b) < int (2 ^ 64)" by simp
  then show ?thesis unfolding checked_add_u64_def of_nat_less_iff by simp
qed

lemma unat_u64_less: "unat (x :: u64) < 2 ^ 64"
  using unsigned_less [of x] by simp

lemma checked_add_u64_Some_iff:
  "checked_add_u64 a b = Some c \<longleftrightarrow> unat c = unat a + unat b"
proof
  assume "checked_add_u64 a b = Some c"
  then show "unat c = unat a + unat b"
    by (auto simp: checked_add_u64_def unat_word_ariths split: if_splits)
next
  assume h: "unat c = unat a + unat b"
  have "unat c < 2 ^ 64" using unsigned_less [of c] by simp
  then have lt: "unat a + unat b < 2 ^ 64" using h by simp
  have "unat (a + b) = unat c" using lt h by (simp add: unat_word_ariths)
  then have "a + b = c" by (simp add: word_unat_eq_iff)
  with lt show "checked_add_u64 a b = Some c" by (simp add: checked_add_u64_def)
qed

lemma checked_add_u64_None_iff:
  "checked_add_u64 a b = None \<longleftrightarrow> 2 ^ 64 \<le> unat a + unat b"
  by (auto simp: checked_add_u64_def)

section \<open>Fallible results\<close>

text \<open>
  A Rust \<^verbatim>\<open>Result<T, E>\<close> is a value of \<open>'e + 't\<close>: \<open>Inl\<close> the error, \<open>Inr\<close> the value.
  \<open>and_then\<close> is the question-mark operator, \<open>ensure\<close> an early return of an error,
  \<open>map_err\<close> Rust's \<^verbatim>\<open>map_err\<close>, \<open>ok_or\<close> its \<^verbatim>\<open>Option::ok_or\<close>.
\<close>

definition and_then :: "'e + 'a \<Rightarrow> ('a \<Rightarrow> 'e + 'b) \<Rightarrow> 'e + 'b" where
  "and_then r f = (case r of Inl e \<Rightarrow> Inl e | Inr x \<Rightarrow> f x)"

definition ensure :: "bool \<Rightarrow> 'e \<Rightarrow> 'e + unit" where
  "ensure c e = (if c then Inr () else Inl e)"

definition map_err :: "('e \<Rightarrow> 'f) \<Rightarrow> 'e + 'a \<Rightarrow> 'f + 'a" where
  "map_err f r = (case r of Inl e \<Rightarrow> Inl (f e) | Inr x \<Rightarrow> Inr x)"

definition ok_or :: "'a option \<Rightarrow> 'e \<Rightarrow> 'e + 'a" where
  "ok_or opt e = (case opt of None \<Rightarrow> Inl e | Some x \<Rightarrow> Inr x)"

definition is_ok :: "'e + 'a \<Rightarrow> bool" where
  "is_ok r = (case r of Inl _ \<Rightarrow> False | Inr _ \<Rightarrow> True)"

lemma and_then_Inl [simp]: "and_then (Inl e) f = Inl e"
  by (simp add: and_then_def)

lemma and_then_Inr [simp]: "and_then (Inr x) f = f x"
  by (simp add: and_then_def)

lemma and_then_eq_Inr [guard_simps]:
  "and_then r f = Inr y \<longleftrightarrow> (\<exists>x. r = Inr x \<and> f x = Inr y)"
  by (cases r) auto

lemma and_then_eq_Inl [guard_simps]:
  "and_then r f = Inl e \<longleftrightarrow> r = Inl e \<or> (\<exists>x. r = Inr x \<and> f x = Inl e)"
  by (cases r) auto

lemma and_then_assoc: "and_then (and_then r f) g = and_then r (\<lambda>x. and_then (f x) g)"
  by (cases r) auto

lemma ensure_True [simp]: "ensure True e = Inr ()"
  by (simp add: ensure_def)

lemma ensure_False [simp]: "ensure False e = Inl e"
  by (simp add: ensure_def)

lemma ensure_eq_Inr [guard_simps]: "ensure c e = Inr u \<longleftrightarrow> c"
  by (simp add: ensure_def)

lemma ensure_eq_Inl [guard_simps]: "ensure c e = Inl e' \<longleftrightarrow> \<not> c \<and> e' = e"
  by (auto simp: ensure_def)

lemma map_err_simps [simp]:
  "map_err f (Inl e) = Inl (f e)"
  "map_err f (Inr x) = Inr x"
  by (simp_all add: map_err_def)

lemma map_err_eq_Inr [guard_simps]: "map_err f r = Inr x \<longleftrightarrow> r = Inr x"
  by (cases r) auto

lemma map_err_eq_Inl [guard_simps]: "map_err f r = Inl e \<longleftrightarrow> (\<exists>e'. r = Inl e' \<and> e = f e')"
  by (cases r) auto

lemma ok_or_simps [simp]:
  "ok_or None e = Inl e"
  "ok_or (Some x) e = Inr x"
  by (simp_all add: ok_or_def)

lemma ok_or_eq_Inr [guard_simps]: "ok_or opt e = Inr x \<longleftrightarrow> opt = Some x"
  by (cases opt) auto

lemma ok_or_eq_Inl [guard_simps]: "ok_or opt e = Inl e' \<longleftrightarrow> opt = None \<and> e' = e"
  by (cases opt) auto

lemma is_ok_simps [simp]: "is_ok (Inr x)" "\<not> is_ok (Inl e)"
  by (simp_all add: is_ok_def)

lemma is_ok_iff: "is_ok r \<longleftrightarrow> (\<exists>x. r = Inr x)"
  by (cases r) auto

section \<open>Rust strings\<close>

text \<open>
  A Rust \<^verbatim>\<open>str\<close> is the list of its UTF-8 bytes, each byte a HOL \<open>char\<close>; \<^verbatim>\<open>len\<close> is the
  length of that list. \<open>utf8_chars\<close> reads the code points that \<^verbatim>\<open>str::chars\<close> yields; the
  type guarantees valid UTF-8, so its clauses for stray or missing continuation bytes are
  never reached by a Rust string.
\<close>

definition byte_val :: "char \<Rightarrow> nat" where
  "byte_val c = of_char c"

definition is_ascii_digit :: "char \<Rightarrow> bool" where
  "is_ascii_digit c \<longleftrightarrow> 48 \<le> byte_val c \<and> byte_val c \<le> 57"

definition is_ascii_alphanumeric :: "char \<Rightarrow> bool" where
  "is_ascii_alphanumeric c \<longleftrightarrow>
     is_ascii_digit c \<or> (65 \<le> byte_val c \<and> byte_val c \<le> 90) \<or> (97 \<le> byte_val c \<and> byte_val c \<le> 122)"

fun utf8_chars :: "nat list \<Rightarrow> nat list" where
  "utf8_chars [] = []"
| "utf8_chars (b # bs) =
     (if b < 128 then b # utf8_chars bs
      else if b < 224 then
        (case bs of c1 # bs' \<Rightarrow> ((b - 192) * 64 + (c1 - 128)) # utf8_chars bs' | _ \<Rightarrow> [b])
      else if b < 240 then
        (case bs of c1 # c2 # bs' \<Rightarrow>
            ((b - 224) * 4096 + (c1 - 128) * 64 + (c2 - 128)) # utf8_chars bs' | _ \<Rightarrow> [b])
      else
        (case bs of c1 # c2 # c3 # bs' \<Rightarrow>
            ((b - 240) * 262144 + (c1 - 128) * 4096 + (c2 - 128) * 64 + (c3 - 128)) # utf8_chars bs'
         | _ \<Rightarrow> [b]))"

definition str_chars :: "string \<Rightarrow> nat list" where
  "str_chars s = utf8_chars (map byte_val s)"

text \<open>\<^verbatim>\<open>char::is_control\<close> (general category Cc) and \<^verbatim>\<open>char::is_whitespace\<close> (White\_Space).\<close>

definition cp_is_control :: "nat \<Rightarrow> bool" where
  "cp_is_control n \<longleftrightarrow> n < 32 \<or> (127 \<le> n \<and> n < 160)"

definition cp_is_whitespace :: "nat \<Rightarrow> bool" where
  "cp_is_whitespace n \<longleftrightarrow>
     (9 \<le> n \<and> n \<le> 13) \<or> n = 32 \<or> n = 133 \<or> n = 160 \<or> n = 5760 \<or>
     (8192 \<le> n \<and> n \<le> 8202) \<or> n = 8232 \<or> n = 8233 \<or> n = 8239 \<or> n = 8287 \<or> n = 12288"

text \<open>
  \<^verbatim>\<open>s.trim().is_empty()\<close>: nothing but white space. \<^verbatim>\<open>s.trim() != s\<close> for a non-empty
  string: white space at one of its ends.
\<close>

definition trims_to_empty :: "string \<Rightarrow> bool" where
  "trims_to_empty s \<longleftrightarrow> list_all cp_is_whitespace (str_chars s)"

text \<open>\<^verbatim>\<open>to_ascii_lowercase\<close>, and \<^verbatim>\<open>eq_ignore_ascii_case\<close>.\<close>

definition ascii_lower :: "string \<Rightarrow> string" where
  "ascii_lower s =
     map (\<lambda>c. if 65 \<le> byte_val c \<and> byte_val c \<le> 90 then char_of (byte_val c + 32) else c) s"

definition eq_ignore_ascii_case :: "string \<Rightarrow> string \<Rightarrow> bool" where
  "eq_ignore_ascii_case s t \<longleftrightarrow> ascii_lower s = ascii_lower t"

definition trim_changes :: "string \<Rightarrow> bool" where
  "trim_changes s \<longleftrightarrow>
     (case str_chars s of [] \<Rightarrow> False
      | c # cs \<Rightarrow> cp_is_whitespace c \<or> cp_is_whitespace (last (c # cs)))"

definition has_control_char :: "string \<Rightarrow> bool" where
  "has_control_char s \<longleftrightarrow> list_ex cp_is_control (str_chars s)"

text \<open>\<^verbatim>\<open>str::strip_prefix\<close> and \<^verbatim>\<open>str::split_once\<close> on one ASCII character.\<close>

fun strip_prefix :: "string \<Rightarrow> string \<Rightarrow> string option" where
  "strip_prefix [] s = Some s"
| "strip_prefix (p # ps) [] = None"
| "strip_prefix (p # ps) (c # s) = (if p = c then strip_prefix ps s else None)"

lemma strip_prefix_Some_iff: "strip_prefix p s = Some r \<longleftrightarrow> s = p @ r"
  by (induction p s rule: strip_prefix.induct) auto

lemma strip_prefix_append [simp]: "strip_prefix p (p @ r) = Some r"
  by (simp add: strip_prefix_Some_iff)

fun split_once :: "char \<Rightarrow> string \<Rightarrow> (string \<times> string) option" where
  "split_once d [] = None"
| "split_once d (c # s) =
     (if c = d then Some ([], s)
      else map_option (\<lambda>(a, b). (c # a, b)) (split_once d s))"

lemma split_once_append: "d \<notin> set a \<Longrightarrow> split_once d (a @ d # b) = Some (a, b)"
  by (induction a) auto

lemma split_once_Some: "split_once d s = Some (a, b) \<Longrightarrow> s = a @ d # b \<and> d \<notin> set a"
  by (induction s arbitrary: a b) (auto split: if_splits)

section \<open>Fixed-width big-endian digits\<close>

text \<open>
  \<open>be_digits base n x\<close> is \<open>x\<close> in \<open>n\<close> digits, most significant first;
  \<^verbatim>\<open>u64::to_be_bytes\<close> is base 256 with eight digits.
\<close>

fun be_digits :: "nat \<Rightarrow> nat \<Rightarrow> nat \<Rightarrow> nat list" where
  "be_digits base 0 x = []"
| "be_digits base (Suc n) x = be_digits base n (x div base) @ [x mod base]"

definition be_value :: "nat \<Rightarrow> nat list \<Rightarrow> nat" where
  "be_value base ds = foldl (\<lambda>acc d. acc * base + d) 0 ds"

lemma length_be_digits [simp]: "length (be_digits base n x) = n"
  by (induction n arbitrary: x) auto

lemma be_digits_less: "0 < base \<Longrightarrow> d \<in> set (be_digits base n x) \<Longrightarrow> d < base"
  by (induction n arbitrary: x) auto

lemma be_value_be_digits: "0 < base \<Longrightarrow> x < base ^ n \<Longrightarrow> be_value base (be_digits base n x) = x"
proof (induction n arbitrary: x)
  case 0
  then show ?case by (simp add: be_value_def)
next
  case (Suc n)
  have "x div base < base ^ n"
    using Suc.prems by (simp add: less_mult_imp_div_less mult.commute)
  then have "be_value base (be_digits base n (x div base)) = x div base"
    using Suc.IH Suc.prems(1) by blast
  then show ?case by (simp add: be_value_def)
qed

lemma be_digits_inj:
  assumes "0 < base" "x < base ^ n" "y < base ^ n" "be_digits base n x = be_digits base n y"
  shows "x = y"
  using assms be_value_be_digits by metis

lemma be_value_snoc: "be_value base (ds @ [d]) = be_value base ds * base + d"
  by (simp add: be_value_def)

lemma be_digits_be_value:
  "list_all (\<lambda>d. d < base) ds \<Longrightarrow> be_digits base (length ds) (be_value base ds) = ds"
proof (induction ds rule: rev_induct)
  case Nil
  then show ?case by simp
next
  case (snoc d ds)
  then have "d < base" "be_digits base (length ds) (be_value base ds) = ds" by auto
  then show ?case by (simp add: be_value_snoc)
qed

lemma be_value_less: "list_all (\<lambda>d. d < base) ds \<Longrightarrow> be_value base ds < base ^ length ds"
proof (induction ds rule: rev_induct)
  case Nil
  then show ?case by (simp add: be_value_def)
next
  case (snoc d ds)
  then have "d < base" "Suc (be_value base ds) \<le> base ^ length ds" by auto
  then have "be_value base ds * base + d < Suc (be_value base ds) * base" by simp
  also have "\<dots> \<le> base ^ length ds * base"
    using \<open>Suc (be_value base ds) \<le> base ^ length ds\<close> by (rule mult_le_mono1)
  finally show ?case by (simp add: be_value_snoc mult.commute)
qed

section \<open>Decimal text, hexadecimal text and length prefixes\<close>

text \<open>
  \<^verbatim>\<open>u64::to_string\<close>, the \<^verbatim>\<open>{:02x}\<close> format of a byte, \<^verbatim>\<open>str::as_bytes\<close>, and a
  string written after its length as a big-endian \<^verbatim>\<open>u64\<close>.
\<close>

fun decimal :: "nat \<Rightarrow> string" where
  "decimal n = (if n < 10 then [char_of (48 + n)] else decimal (n div 10) @ [char_of (48 + n mod 10)])"

declare decimal.simps [simp del]

definition decimal_value :: "string \<Rightarrow> nat" where
  "decimal_value s = be_value 10 (map (\<lambda>c. byte_val c - 48) s)"

lemma byte_val_char_of: "n < 256 \<Longrightarrow> byte_val (char_of n) = n"
  by (simp add: byte_val_def)

lemma decimal_value_decimal: "decimal_value (decimal n) = n"
proof (induction n rule: decimal.induct)
  case (1 n)
  show ?case
  proof (cases "n < 10")
    case True
    then show ?thesis
      by (simp add: decimal.simps decimal_value_def be_value_def byte_val_char_of)
  next
    case False
    then have "decimal_value (decimal (n div 10)) = n div 10" using 1 by simp
    with False show ?thesis
      by (subst decimal.simps) (simp add: decimal_value_def be_value_snoc byte_val_char_of)
  qed
qed

lemma decimal_inj: "decimal m = decimal n \<Longrightarrow> m = n"
  by (metis decimal_value_decimal)

lemma length_decimal: "n < 10 ^ k \<Longrightarrow> 0 < k \<Longrightarrow> length (decimal n) \<le> k"
proof (induction k arbitrary: n)
  case 0
  then show ?case by simp
next
  case (Suc k)
  show ?case
  proof (cases "n < 10")
    case True
    then show ?thesis by (simp add: decimal.simps)
  next
    case False
    with Suc.prems have "k \<noteq> 0" "n div 10 < 10 ^ k" by (auto intro: ccontr)
    then have "length (decimal (n div 10)) \<le> k" using Suc.IH by simp
    with False show ?thesis by (subst decimal.simps) simp
  qed
qed

definition hex_char :: "nat \<Rightarrow> char" where
  "hex_char d = (if d < 10 then char_of (48 + d) else char_of (87 + d))"

definition hex_byte :: "u8 \<Rightarrow> string" where
  "hex_byte b = [hex_char (unat b div 16), hex_char (unat b mod 16)]"

definition hex_text :: "u8 list \<Rightarrow> string" where
  "hex_text bs = concat (map hex_byte bs)"

lemma hex_char_inj: "a < 16 \<Longrightarrow> b < 16 \<Longrightarrow> hex_char a = hex_char b \<Longrightarrow> a = b"
  by (auto simp: hex_char_def byte_val_char_of dest!: arg_cong [where f = byte_val] split: if_splits)

lemma unat_u8_less: "unat (b :: u8) < 256"
  using unsigned_less [of b] by simp

lemma hex_byte_inj: "hex_byte a = hex_byte b \<Longrightarrow> a = b"
proof -
  assume h: "hex_byte a = hex_byte b"
  have "unat a div 16 < 16" "unat b div 16 < 16" using unat_u8_less by (simp_all add: less_mult_imp_div_less)
  then have "unat a div 16 = unat b div 16" "unat a mod 16 = unat b mod 16"
    using h by (auto simp: hex_byte_def intro: hex_char_inj)
  then have "unat a = unat b" by (metis div_mult_mod_eq)
  then show "a = b" by (simp add: word_unat_eq_iff)
qed

lemma hex_text_inj: "hex_text as = hex_text bs \<Longrightarrow> as = bs"
proof (induction "as" arbitrary: bs)
  case Nil
  then show ?case by (cases bs) (simp_all add: hex_text_def hex_byte_def)
next
  case (Cons a xs)
  then obtain b ys where bs: "bs = b # ys" by (cases bs) (auto simp: hex_text_def hex_byte_def)
  with Cons.prems have "hex_byte a = hex_byte b" "hex_text xs = hex_text ys"
    by (simp_all add: hex_text_def hex_byte_def)
  with Cons.IH bs hex_byte_inj show ?case by blast
qed

definition str_bytes :: "string \<Rightarrow> u8 list" where
  "str_bytes s = map (\<lambda>c. word_of_nat (byte_val c)) s"

lemma byte_val_less: "byte_val c < 256"
  by (simp add: byte_val_def)

lemma byte_val_inj: "byte_val a = byte_val b \<Longrightarrow> a = b"
  by (simp add: byte_val_def)

lemma length_str_bytes [simp]: "length (str_bytes s) = length s"
  by (simp add: str_bytes_def)

lemma str_bytes_inj: "str_bytes s = str_bytes t \<Longrightarrow> s = t"
proof (induction s arbitrary: t)
  case Nil
  then show ?case by (simp add: str_bytes_def)
next
  case (Cons c s)
  then obtain d t' where t: "t = d # t'" by (cases t) (auto simp: str_bytes_def)
  with Cons.prems have "(word_of_nat (byte_val c) :: u8) = word_of_nat (byte_val d)"
    and rest: "str_bytes s = str_bytes t'" by (simp_all add: str_bytes_def)
  then have "unat (word_of_nat (byte_val c) :: u8) = unat (word_of_nat (byte_val d) :: u8)" by simp
  then have "byte_val c = byte_val d" using byte_val_less [of c] byte_val_less [of d]
    by (simp add: unat_of_nat)
  with byte_val_inj rest Cons.IH t show ?case by blast
qed

definition length_prefixed :: "string \<Rightarrow> u8 list" where
  "length_prefixed s = map word_of_nat (be_digits 256 8 (length s)) @ str_bytes s"

lemma map_word_of_nat_inj:
  "list_all (\<lambda>d. d < 256) ds \<Longrightarrow> list_all (\<lambda>d. d < 256) es \<Longrightarrow>
   map word_of_nat ds = (map word_of_nat es :: u8 list) \<Longrightarrow> ds = es"
proof (induction ds arbitrary: es)
  case Nil
  then show ?case by simp
next
  case (Cons d ds)
  then obtain e es' where es: "es = e # es'" by (cases es) auto
  with Cons.prems have w: "(word_of_nat d :: u8) = word_of_nat e" and lt: "d < 256" "e < 256"
    and rest: "list_all (\<lambda>d. d < 256) ds" "list_all (\<lambda>d. d < 256) es'"
      "map word_of_nat ds = (map word_of_nat es' :: u8 list)"
    by auto
  from w have "unat (word_of_nat d :: u8) = unat (word_of_nat e :: u8)" by (rule arg_cong)
  with lt have "d = e" by (simp add: unat_of_nat)
  with Cons.IH [OF rest] es show ?case by simp
qed

text \<open>A sequence of length-prefixed strings can be cut in one way only.\<close>

lemma length_prefixed_cut:
  assumes "length s < 2 ^ 64" "length t < 2 ^ 64"
    "length_prefixed s @ xs = length_prefixed t @ ys"
  shows "s = t \<and> xs = ys"
proof -
  let ?d = "\<lambda>s. be_digits 256 8 (length s)"
  have small: "list_all (\<lambda>d. d < 256) (?d u)" for u :: string
    unfolding list_all_iff by (auto intro: be_digits_less)
  have eq: "map word_of_nat (?d s) @ (str_bytes s @ xs) =
      (map word_of_nat (?d t) :: u8 list) @ (str_bytes t @ ys)"
    using assms(3) by (simp add: length_prefixed_def)
  then have heads: "map word_of_nat (?d s) = (map word_of_nat (?d t) :: u8 list)"
    and tails: "str_bytes s @ xs = str_bytes t @ ys"
    by simp_all
  have "?d s = ?d t" by (rule map_word_of_nat_inj [OF small small heads])
  then have len: "length s = length t" using assms(1,2) by (intro be_digits_inj) simp_all
  then have "str_bytes s = str_bytes t \<and> xs = ys" using tails by simp
  then show ?thesis using str_bytes_inj by blast
qed

lemma length_prefixed_nonempty: "length_prefixed s \<noteq> []"
proof -
  have "length (length_prefixed s) = 8 + length s" by (simp add: length_prefixed_def)
  then show ?thesis by auto
qed

lemma concat_length_prefixed_inj:
  "list_all (\<lambda>s. length s < 2 ^ 64) ps \<Longrightarrow> list_all (\<lambda>s. length s < 2 ^ 64) qs \<Longrightarrow>
   concat (map length_prefixed ps) = concat (map length_prefixed qs) \<Longrightarrow> ps = qs"
proof (induction ps arbitrary: qs)
  case Nil
  then show ?case by (cases qs) (simp_all add: length_prefixed_nonempty)
next
  case (Cons p ps)
  have "qs \<noteq> []"
  proof
    assume "qs = []"
    with Cons.prems(3) have "length_prefixed p = []" by simp
    then show False using length_prefixed_nonempty by blast
  qed
  then obtain q qs' where qs: "qs = q # qs'" by (meson neq_Nil_conv)
  from Cons.prems(1) have p: "length p < 2 ^ 64" and ps: "list_all (\<lambda>s. length s < 2 ^ 64) ps"
    unfolding list.pred_inject by blast+
  from Cons.prems(2) have q: "length q < 2 ^ 64" and qs': "list_all (\<lambda>s. length s < 2 ^ 64) qs'"
    unfolding qs list.pred_inject by blast+
  from Cons.prems(3) have "length_prefixed p @ concat (map length_prefixed ps) =
      length_prefixed q @ concat (map length_prefixed qs')"
    unfolding qs list.map concat.simps .
  from length_prefixed_cut [OF p q this] Cons.IH [OF ps qs'] show ?case unfolding qs by blast
qed

text \<open>Two lists that end at the first occurrence of a sentinel.\<close>

lemma sentinel_split:
  "e \<notin> set us \<Longrightarrow> e \<notin> set vs \<Longrightarrow> us @ e # xs = vs @ e # ys \<longleftrightarrow> us = vs \<and> xs = ys"
proof (induction us arbitrary: vs)
  case Nil
  then show ?case by (cases vs) auto
next
  case (Cons u us)
  then show ?case by (cases vs) auto
qed

end
