(* ===== verification/Domain_Core.thy ===== *)
theory Domain_Core
  imports Nodescale_Prelude
begin

text \<open>
  The identifiers, generations, roles and operations of
  \<^verbatim>\<open>crates/nodescale-domain/src/lib.rs\<close> (lines 22 to 260), with \<^verbatim>\<open>DomainError\<close>.

  The \<^verbatim>\<open>uuid\<close> crate is not part of the repository: a value of \<open>uuid_ops\<close> stands for its
  \<^verbatim>\<open>Uuid::parse_str\<close> and its \<^verbatim>\<open>Display\<close>, and \<open>uuid_laws\<close> states the one fact the sources
  rely on, that a displayed UUID parses back to itself.
\<close>

section \<open>Errors\<close>

datatype DomainError =
    InvalidValue string string
  | InvalidTransition string string
  | StaleGeneration u64 u64
  | NonMonotonicGeneration

type_synonym 'a domain_result = "DomainError + 'a"

section \<open>UUID identifiers\<close>

type_synonym uuid = "128 word"

record uuid_ops =
  uuid_parse_str :: "string \<Rightarrow> uuid option"
  uuid_display :: "uuid \<Rightarrow> string"

definition uuid_laws :: "uuid_ops \<Rightarrow> bool" where
  "uuid_laws U \<longleftrightarrow> (\<forall>u. uuid_parse_str U (uuid_display U u) = Some u)"

text \<open>
  The macro \<^verbatim>\<open>uuid_id!\<close> declares one new type per identifier. A phantom parameter
  keeps those types apart here; the macro's \<^verbatim>\<open>$kind\<close> literal is an argument of the parser.
\<close>

datatype 'k typed_id = TypedId (id_uuid: uuid)

typedecl network_kind
typedecl device_kind
typedecl invitation_kind
typedecl join_session_kind
typedecl keryx_binding_kind
typedecl keryx_binding_challenge_kind
typedecl keryx_binding_decision_kind
typedecl keryx_binding_authorization_kind
typedecl provider_instance_kind
typedecl provider_credential_kind
typedecl revocation_kind
typedecl audit_event_kind
typedecl provider_binding_kind
typedecl trust_root_kind
typedecl trust_authority_kind
typedecl trust_decision_kind
typedecl trust_action_kind

type_synonym NetworkId = "network_kind typed_id"
type_synonym DeviceId = "device_kind typed_id"
type_synonym InvitationId = "invitation_kind typed_id"
type_synonym JoinSessionId = "join_session_kind typed_id"
type_synonym KeryxBindingId = "keryx_binding_kind typed_id"
type_synonym KeryxBindingChallengeId = "keryx_binding_challenge_kind typed_id"
type_synonym KeryxBindingDecisionId = "keryx_binding_decision_kind typed_id"
type_synonym KeryxBindingAuthorizationId = "keryx_binding_authorization_kind typed_id"
type_synonym ProviderInstanceId = "provider_instance_kind typed_id"
type_synonym ProviderCredentialId = "provider_credential_kind typed_id"
type_synonym RevocationId = "revocation_kind typed_id"
type_synonym AuditEventId = "audit_event_kind typed_id"
type_synonym ProviderBindingId = "provider_binding_kind typed_id"
type_synonym TrustRootId = "trust_root_kind typed_id"
type_synonym TrustAuthorityId = "trust_authority_kind typed_id"
type_synonym TrustDecisionId = "trust_decision_kind typed_id"
type_synonym TrustActionId = "trust_action_kind typed_id"

definition uuid_id_parse :: "uuid_ops \<Rightarrow> string \<Rightarrow> string \<Rightarrow> 'k typed_id domain_result" where
  "uuid_id_parse U kind value =
     and_then (ok_or (uuid_parse_str U value) (InvalidValue kind ''must be a UUID''))
       (\<lambda>parsed. if parsed = 0 then Inl (InvalidValue kind ''nil UUID is forbidden'')
                 else Inr (TypedId parsed))"

definition id_display :: "uuid_ops \<Rightarrow> 'k typed_id \<Rightarrow> string" where
  "id_display U i = uuid_display U (id_uuid i)"

definition parse_NetworkId :: "uuid_ops \<Rightarrow> string \<Rightarrow> NetworkId domain_result" where
  "parse_NetworkId U = uuid_id_parse U ''network ID''"

definition parse_DeviceId :: "uuid_ops \<Rightarrow> string \<Rightarrow> DeviceId domain_result" where
  "parse_DeviceId U = uuid_id_parse U ''device ID''"

definition parse_InvitationId :: "uuid_ops \<Rightarrow> string \<Rightarrow> InvitationId domain_result" where
  "parse_InvitationId U = uuid_id_parse U ''invitation ID''"

definition parse_KeryxBindingId :: "uuid_ops \<Rightarrow> string \<Rightarrow> KeryxBindingId domain_result" where
  "parse_KeryxBindingId U = uuid_id_parse U ''Keryx binding ID''"

definition parse_KeryxBindingChallengeId ::
    "uuid_ops \<Rightarrow> string \<Rightarrow> KeryxBindingChallengeId domain_result" where
  "parse_KeryxBindingChallengeId U = uuid_id_parse U ''Keryx binding challenge ID''"

definition parse_KeryxBindingDecisionId ::
    "uuid_ops \<Rightarrow> string \<Rightarrow> KeryxBindingDecisionId domain_result" where
  "parse_KeryxBindingDecisionId U = uuid_id_parse U ''Keryx binding decision ID''"

definition parse_KeryxBindingAuthorizationId ::
    "uuid_ops \<Rightarrow> string \<Rightarrow> KeryxBindingAuthorizationId domain_result" where
  "parse_KeryxBindingAuthorizationId U = uuid_id_parse U ''Keryx binding authorization ID''"

definition parse_ProviderInstanceId :: "uuid_ops \<Rightarrow> string \<Rightarrow> ProviderInstanceId domain_result" where
  "parse_ProviderInstanceId U = uuid_id_parse U ''provider instance ID''"

definition parse_ProviderCredentialId ::
    "uuid_ops \<Rightarrow> string \<Rightarrow> ProviderCredentialId domain_result" where
  "parse_ProviderCredentialId U = uuid_id_parse U ''provider credential ID''"

definition parse_ProviderBindingId :: "uuid_ops \<Rightarrow> string \<Rightarrow> ProviderBindingId domain_result" where
  "parse_ProviderBindingId U = uuid_id_parse U ''provider binding ID''"

definition parse_TrustRootId :: "uuid_ops \<Rightarrow> string \<Rightarrow> TrustRootId domain_result" where
  "parse_TrustRootId U = uuid_id_parse U ''trust root ID''"

definition parse_TrustAuthorityId :: "uuid_ops \<Rightarrow> string \<Rightarrow> TrustAuthorityId domain_result" where
  "parse_TrustAuthorityId U = uuid_id_parse U ''trust authority ID''"

lemmas uuid_id_parsers =
  parse_NetworkId_def parse_DeviceId_def parse_InvitationId_def parse_KeryxBindingId_def
  parse_KeryxBindingChallengeId_def parse_KeryxBindingDecisionId_def
  parse_KeryxBindingAuthorizationId_def parse_ProviderInstanceId_def
  parse_ProviderCredentialId_def parse_ProviderBindingId_def parse_TrustRootId_def
  parse_TrustAuthorityId_def

lemma uuid_id_parse_Inr:
  "uuid_id_parse U kind s = Inr i \<longleftrightarrow>
     uuid_parse_str U s = Some (id_uuid i) \<and> id_uuid i \<noteq> 0"
  by (cases i) (auto simp: uuid_id_parse_def guard_simps split: if_splits)

text \<open>
  Revalidating a typed identifier through its own text form, as every N6 and N7 boundary
  does, succeeds exactly when the identifier is not nil.
\<close>

lemma uuid_id_reparse:
  assumes "uuid_laws U"
  shows "uuid_id_parse U kind (id_display U i) =
    (if id_uuid i = 0 then Inl (InvalidValue kind ''nil UUID is forbidden'') else Inr i)"
  using assms by (cases i) (simp add: uuid_id_parse_def id_display_def uuid_laws_def)

lemma uuid_id_reparse_Inr [guard_simps]:
  assumes "uuid_laws U"
  shows "uuid_id_parse U kind (id_display U i) = Inr j \<longleftrightarrow> j = i \<and> id_uuid i \<noteq> 0"
  using assms by (auto simp: uuid_id_reparse)

section \<open>Bounded string identifiers\<close>

text \<open>
  \<^verbatim>\<open>bounded_string_id!\<close> (\<^verbatim>\<open>ProviderNodeId\<close>, \<^verbatim>\<open>KeryxPeerId\<close>) accepts one to 255 bytes of a
  fixed alphabet. The same alphabet is spelled out again at \<^verbatim>\<open>AgentVersion\<close>,
  \<^verbatim>\<open>OperationId\<close>, \<^verbatim>\<open>ReasonCode\<close>, the audit actors and the credential references.
\<close>

definition safe_id_byte :: "char \<Rightarrow> bool" where
  "safe_id_byte b \<longleftrightarrow>
     is_ascii_alphanumeric b \<or> b = CHR ''-'' \<or> b = CHR ''_'' \<or> b = CHR '':'' \<or> b = CHR ''.''"

definition bounded_safe :: "nat \<Rightarrow> string \<Rightarrow> bool" where
  "bounded_safe maximum value \<longleftrightarrow>
     value \<noteq> [] \<and> length value \<le> maximum \<and> list_all safe_id_byte value"

definition bounded_string_id_parse ::
    "(string \<Rightarrow> 'a) \<Rightarrow> string \<Rightarrow> string \<Rightarrow> 'a domain_result" where
  "bounded_string_id_parse mk kind value =
     (if \<not> bounded_safe 255 value
      then Inl (InvalidValue kind ''must be 1..=255 safe identifier characters'')
      else Inr (mk value))"

datatype ProviderNodeId = ProviderNodeId (node_id_str: string)
datatype KeryxPeerId = KeryxPeerId (peer_id_str: string)

definition parse_ProviderNodeId :: "string \<Rightarrow> ProviderNodeId domain_result" where
  "parse_ProviderNodeId = bounded_string_id_parse ProviderNodeId ''provider node ID''"

definition parse_KeryxPeerId :: "string \<Rightarrow> KeryxPeerId domain_result" where
  "parse_KeryxPeerId = bounded_string_id_parse KeryxPeerId ''Keryx peer ID''"

text \<open>
  The contract of every validated text type: parsing keeps the text, and the text of a
  parsed value parses again to the same value. The N6 boundary revalidates values through
  their text, so it needs exactly this.
\<close>

locale validated_text =
  fixes parse :: "string \<Rightarrow> DomainError + 'a"
    and as_str :: "'a \<Rightarrow> string"
    and valid :: "string \<Rightarrow> bool"
  assumes parse_ok: "valid s \<Longrightarrow> \<exists>x. parse s = Inr x \<and> as_str x = s"
    and parse_err: "\<not> valid s \<Longrightarrow> \<exists>e. parse s = Inl e"
    and as_str_inj: "as_str x = as_str y \<Longrightarrow> x = y"
begin

lemma parse_Inr_iff: "parse s = Inr x \<longleftrightarrow> valid s \<and> as_str x = s"
proof
  assume p: "parse s = Inr x"
  then have v: "valid s" using parse_err by fastforce
  then show "valid s \<and> as_str x = s" using parse_ok [of s] p by auto
next
  assume h: "valid s \<and> as_str x = s"
  then obtain y where y: "parse s = Inr y" "as_str y = s" using parse_ok by blast
  with h have "y = x" by (intro as_str_inj) simp
  with y show "parse s = Inr x" by simp
qed

lemma reparse: "parse s = Inr x \<Longrightarrow> parse (as_str x) = Inr x"
  by (simp add: parse_Inr_iff)

lemma revalidate_iff: "(\<exists>y. parse (as_str x) = Inr y) \<longleftrightarrow> valid (as_str x)"
  using parse_Inr_iff by blast

end

interpretation node_id: validated_text parse_ProviderNodeId node_id_str "bounded_safe 255"
  by unfold_locales
    (auto simp: parse_ProviderNodeId_def bounded_string_id_parse_def ProviderNodeId.expand)

interpretation peer_id: validated_text parse_KeryxPeerId peer_id_str "bounded_safe 255"
  by unfold_locales
    (auto simp: parse_KeryxPeerId_def bounded_string_id_parse_def KeryxPeerId.expand)

section \<open>Generations\<close>

datatype Generation = Generation (gen_get: u64)

definition Generation_new :: "u64 \<Rightarrow> Generation domain_result" where
  "Generation_new value =
     (if value = 0 then Inl (InvalidValue ''generation'' ''must be positive'')
      else Inr (Generation value))"

definition Generation_initial :: Generation where
  "Generation_initial = Generation 1"

definition next_exact :: "Generation \<Rightarrow> Generation domain_result" where
  "next_exact g =
     and_then (ok_or (checked_add_u64 (gen_get g) 1) NonMonotonicGeneration) Generation_new"

definition validate_advance ::
    "Generation \<Rightarrow> Generation \<Rightarrow> Generation \<Rightarrow> unit domain_result" where
  "validate_advance g expected nxt =
     (if g \<noteq> expected then Inl (StaleGeneration (gen_get expected) (gen_get g))
      else if gen_get nxt \<le> gen_get g then Inl NonMonotonicGeneration
      else Inr ())"

instantiation Generation :: linorder
begin

definition less_eq_Generation :: "Generation \<Rightarrow> Generation \<Rightarrow> bool" where
  "less_eq_Generation a b \<longleftrightarrow> gen_get a \<le> gen_get b"

definition less_Generation :: "Generation \<Rightarrow> Generation \<Rightarrow> bool" where
  "less_Generation a b \<longleftrightarrow> gen_get a < gen_get b"

instance
  by standard (auto simp: less_eq_Generation_def less_Generation_def Generation.expand)

end

lemma next_exact_Inr:
  "next_exact g = Inr h \<longleftrightarrow> unat (gen_get h) = unat (gen_get g) + 1"
proof -
  have one: "unat (1 :: u64) = 1" by simp
  show ?thesis
  proof
    assume "next_exact g = Inr h"
    then obtain v where v: "checked_add_u64 (gen_get g) 1 = Some v"
      and h: "h = Generation v"
      by (auto simp: next_exact_def guard_simps Generation_new_def split: if_splits)
    from v have "unat v = unat (gen_get g) + unat (1 :: u64)"
      by (simp only: checked_add_u64_Some_iff)
    with h one show "unat (gen_get h) = unat (gen_get g) + 1" by simp
  next
    assume h: "unat (gen_get h) = unat (gen_get g) + 1"
    then have v: "checked_add_u64 (gen_get g) 1 = Some (gen_get h)"
      by (simp add: checked_add_u64_Some_iff)
    have "gen_get h \<noteq> 0" using h by (metis unat_0 add_is_0 one_neq_zero)
    with v show "next_exact g = Inr h"
      by (simp add: next_exact_def Generation_new_def)
  qed
qed

lemma next_exact_error:
  "next_exact g = Inl e \<longleftrightarrow> unat (gen_get g) = 2 ^ 64 - 1 \<and> e = NonMonotonicGeneration"
proof (cases "unat (gen_get g) = 2 ^ 64 - 1")
  case True
  then have "checked_add_u64 (gen_get g) 1 = None"
    by (simp add: checked_add_u64_def)
  with True show ?thesis by (auto simp: next_exact_def)
next
  case False
  then have "unat (gen_get g) + 1 < 2 ^ 64"
    using unat_u64_less [of "gen_get g"] by simp
  then have "unat (gen_get g + 1) = unat (gen_get g) + 1"
    by (simp add: unat_word_ariths)
  then have "next_exact g = Inr (Generation (gen_get g + 1))"
    by (simp add: next_exact_Inr)
  with False show ?thesis by simp
qed

lemma validate_advance_Inr [guard_simps]:
  "validate_advance g e n = Inr u \<longleftrightarrow> g = e \<and> g < n"
  by (auto simp: validate_advance_def less_Generation_def split: if_splits)

section \<open>Roles and operations\<close>

datatype Role = Node | Worker | Controller | ProfileHost | Observer | Admin

text \<open>\<^verbatim>\<open>derive(Ord)\<close> orders the variants as they are declared.\<close>

fun role_rank :: "Role \<Rightarrow> nat" where
  "role_rank Node = 0"
| "role_rank Worker = 1"
| "role_rank Controller = 2"
| "role_rank ProfileHost = 3"
| "role_rank Observer = 4"
| "role_rank Admin = 5"

datatype Operation = FleetHealth | FleetInventory | FleetMessage | FleetHermesRun

fun operation_rank :: "Operation \<Rightarrow> nat" where
  "operation_rank FleetHealth = 0"
| "operation_rank FleetInventory = 1"
| "operation_rank FleetMessage = 2"
| "operation_rank FleetHermesRun = 3"

lemma role_rank_inj: "role_rank a = role_rank b \<Longrightarrow> a = b"
  by (cases a; cases b) auto

lemma operation_rank_inj: "operation_rank a = operation_rank b \<Longrightarrow> a = b"
  by (cases a; cases b) auto

instantiation Role :: linorder
begin

definition less_eq_Role :: "Role \<Rightarrow> Role \<Rightarrow> bool" where
  "less_eq_Role a b \<longleftrightarrow> role_rank a \<le> role_rank b"

definition less_Role :: "Role \<Rightarrow> Role \<Rightarrow> bool" where
  "less_Role a b \<longleftrightarrow> role_rank a < role_rank b"

instance
  by standard (auto simp: less_eq_Role_def less_Role_def intro: role_rank_inj)

end

instantiation Operation :: linorder
begin

definition less_eq_Operation :: "Operation \<Rightarrow> Operation \<Rightarrow> bool" where
  "less_eq_Operation a b \<longleftrightarrow> operation_rank a \<le> operation_rank b"

definition less_Operation :: "Operation \<Rightarrow> Operation \<Rightarrow> bool" where
  "less_Operation a b \<longleftrightarrow> operation_rank a < operation_rank b"

instance
  by standard (auto simp: less_eq_Operation_def less_Operation_def intro: operation_rank_inj)

end

text \<open>
  \<^verbatim>\<open>BTreeSet\<close> is a set iterated in ascending order: the model keeps the ascending list of
  its elements without duplicates, built by \<open>btree_of\<close>.
\<close>

definition btree_of :: "'a :: linorder list \<Rightarrow> 'a list" where
  "btree_of xs = sort (remdups xs)"

definition is_btree :: "'a :: linorder list \<Rightarrow> bool" where
  "is_btree xs \<longleftrightarrow> sorted xs \<and> distinct xs"

lemma set_btree_of [simp]: "set (btree_of xs) = set xs"
  by (simp add: btree_of_def)

lemma is_btree_btree_of [simp]: "is_btree (btree_of xs)"
  by (simp add: btree_of_def is_btree_def)

lemma btree_of_is_btree: "is_btree xs \<Longrightarrow> btree_of xs = xs"
  by (simp add: btree_of_def is_btree_def distinct_remdups_id sorted_sort_id)

lemma btree_of_Nil_iff [simp]: "btree_of xs = [] \<longleftrightarrow> xs = []"
  by (metis set_btree_of set_empty)

lemma is_btree_eqI: "is_btree xs \<Longrightarrow> is_btree ys \<Longrightarrow> set xs = set ys \<Longrightarrow> xs = ys"
  by (simp add: is_btree_def sorted_distinct_set_unique)

datatype Roles = Roles (role_list: "Role list")

definition Roles_new :: "Role list \<Rightarrow> Roles domain_result" where
  "Roles_new values =
     (let roles = btree_of values in
      if roles = [] then Inl (InvalidValue ''roles'' ''at least one role is required'')
      else Inr (Roles roles))"

definition Roles_contains :: "Roles \<Rightarrow> Role \<Rightarrow> bool" where
  "Roles_contains rs role \<longleftrightarrow> role \<in> set (role_list rs)"

definition Roles_operations :: "Roles \<Rightarrow> Operation list" where
  "Roles_operations rs = []"

fun operation_str :: "Operation \<Rightarrow> string" where
  "operation_str FleetHealth = ''fleet.health''"
| "operation_str FleetInventory = ''fleet.inventory''"
| "operation_str FleetMessage = ''fleet.message''"
| "operation_str FleetHermesRun = ''fleet.hermes.run''"

definition operation_from_str :: "string \<Rightarrow> Operation domain_result" where
  "operation_from_str value =
     (if value = ''fleet.health'' then Inr FleetHealth
      else if value = ''fleet.inventory'' then Inr FleetInventory
      else if value = ''fleet.message'' then Inr FleetMessage
      else if value = ''fleet.hermes.run'' then Inr FleetHermesRun
      else Inl (InvalidValue ''operation'' ''unknown exact operation''))"

lemma operation_from_str_Inr: "operation_from_str s = Inr op \<longleftrightarrow> s = operation_str op"
  by (cases op) (auto simp: operation_from_str_def)

lemma operation_str_inj: "operation_str a = operation_str b \<Longrightarrow> a = b"
  by (cases a; cases b) auto

end
