(* ===== verification/Lifecycle.thy ===== *)
theory Lifecycle
  imports Domain_Core
begin

text \<open>
  The lifecycle state machines that \<^verbatim>\<open>transition_enum!\<close> declares in
  \<^verbatim>\<open>crates/nodescale-domain/src/lib.rs\<close> (lines 261 to 600) and the hand-written
  \<^verbatim>\<open>KeryxBindingState\<close>. Each machine is the enum, its allowed pairs and the method
  \<^verbatim>\<open>transition\<close>; a run is a list of requested states taken one after the other.

  The locale \<open>lifecycle\<close> is the interface the rest of the program relies on: a transition
  either returns the requested state or an error that names both states. The facts about
  runs are proved once inside it.
\<close>

section \<open>The generic transition\<close>

definition enum_transition ::
    "('s \<Rightarrow> 's \<Rightarrow> bool) \<Rightarrow> ('s \<Rightarrow> string) \<Rightarrow> 's \<Rightarrow> 's \<Rightarrow> 's domain_result" where
  "enum_transition allowed as_str self nxt =
     (if self = nxt \<or> allowed self nxt then Inr nxt
      else Inl (InvalidTransition (as_str self) (as_str nxt)))"

fun run_transitions ::
    "('s \<Rightarrow> 's \<Rightarrow> 's domain_result) \<Rightarrow> 's \<Rightarrow> 's list \<Rightarrow> 's domain_result" where
  "run_transitions t s [] = Inr s"
| "run_transitions t s (n # ns) = and_then (t s n) (\<lambda>s'. run_transitions t s' ns)"

locale lifecycle =
  fixes transition :: "'s \<Rightarrow> 's \<Rightarrow> DomainError + 's"
    and as_str :: "'s \<Rightarrow> string"
    and closed :: "'s \<Rightarrow> bool"
  assumes result: "transition s n = Inr m \<Longrightarrow> m = n"
    and error: "transition s n = Inl e \<Longrightarrow> e = InvalidTransition (as_str s) (as_str n)"
    and closed_step: "closed s \<Longrightarrow> transition s n = Inr m \<Longrightarrow> closed m"
begin

lemma run_end:
  "run_transitions transition s ns = Inr m \<Longrightarrow> m = last (s # ns)"
  by (induction ns arbitrary: s) (auto simp: guard_simps dest: result)

lemma run_closed:
  "closed s \<Longrightarrow> run_transitions transition s ns = Inr m \<Longrightarrow> closed m \<and> list_all closed ns"
  by (induction ns arbitrary: s) (auto simp: guard_simps dest: result closed_step)

lemma run_append:
  "run_transitions transition s (xs @ ys) =
   and_then (run_transitions transition s xs) (\<lambda>m. run_transitions transition m ys)"
  by (induction xs arbitrary: s) (auto simp: and_then_assoc)

text \<open>A run never comes back out of the closed states.\<close>

lemma closed_never_left:
  assumes "run_transitions transition s (xs @ c # ys) = Inr m" "closed c"
  shows "list_all closed ys \<and> closed m"
proof -
  from assms(1) obtain u where u: "run_transitions transition s xs = Inr u"
    and rest: "run_transitions transition u (c # ys) = Inr m"
    by (auto simp: run_append guard_simps)
  from rest have "run_transitions transition c ys = Inr m"
    by (auto simp: guard_simps dest: result)
  with assms(2) show ?thesis using run_closed by blast
qed

end

section \<open>Networks, memberships and device trust\<close>

datatype NetworkState = NSCreating | NSActive | NSSuspended | NSRevoking | NSRevoked

fun NetworkState_str :: "NetworkState \<Rightarrow> string" where
  "NetworkState_str NSCreating = ''Creating''"
| "NetworkState_str NSActive = ''Active''"
| "NetworkState_str NSSuspended = ''Suspended''"
| "NetworkState_str NSRevoking = ''Revoking''"
| "NetworkState_str NSRevoked = ''Revoked''"

fun NetworkState_allowed :: "NetworkState \<Rightarrow> NetworkState \<Rightarrow> bool" where
  "NetworkState_allowed NSCreating b = (b \<in> {NSActive, NSRevoked})"
| "NetworkState_allowed NSActive b = (b \<in> {NSSuspended, NSRevoking})"
| "NetworkState_allowed NSSuspended b = (b \<in> {NSActive, NSRevoking})"
| "NetworkState_allowed NSRevoking b = (b = NSRevoked)"
| "NetworkState_allowed NSRevoked b = False"

definition NetworkState_transition :: "NetworkState \<Rightarrow> NetworkState \<Rightarrow> NetworkState domain_result" where
  "NetworkState_transition = enum_transition NetworkState_allowed NetworkState_str"

datatype MembershipState = MSPending | MSJoining | MSActive | MSSuspended | MSRevoking | MSRevoked

fun MembershipState_str :: "MembershipState \<Rightarrow> string" where
  "MembershipState_str MSPending = ''Pending''"
| "MembershipState_str MSJoining = ''Joining''"
| "MembershipState_str MSActive = ''Active''"
| "MembershipState_str MSSuspended = ''Suspended''"
| "MembershipState_str MSRevoking = ''Revoking''"
| "MembershipState_str MSRevoked = ''Revoked''"

fun MembershipState_allowed :: "MembershipState \<Rightarrow> MembershipState \<Rightarrow> bool" where
  "MembershipState_allowed MSPending b = (b \<in> {MSJoining, MSRevoking, MSRevoked})"
| "MembershipState_allowed MSJoining b = (b \<in> {MSActive, MSRevoking, MSRevoked})"
| "MembershipState_allowed MSActive b = (b \<in> {MSSuspended, MSRevoking})"
| "MembershipState_allowed MSSuspended b = (b = MSRevoking)"
| "MembershipState_allowed MSRevoking b = (b = MSRevoked)"
| "MembershipState_allowed MSRevoked b = False"

definition MembershipState_transition ::
    "MembershipState \<Rightarrow> MembershipState \<Rightarrow> MembershipState domain_result" where
  "MembershipState_transition = enum_transition MembershipState_allowed MembershipState_str"

datatype DeviceTrustState = DTUntrusted | DTTrusted | DTRevoked

fun DeviceTrustState_str :: "DeviceTrustState \<Rightarrow> string" where
  "DeviceTrustState_str DTUntrusted = ''Untrusted''"
| "DeviceTrustState_str DTTrusted = ''Trusted''"
| "DeviceTrustState_str DTRevoked = ''Revoked''"

fun DeviceTrustState_allowed :: "DeviceTrustState \<Rightarrow> DeviceTrustState \<Rightarrow> bool" where
  "DeviceTrustState_allowed DTUntrusted b = (b \<in> {DTTrusted, DTRevoked})"
| "DeviceTrustState_allowed DTTrusted b = (b = DTRevoked)"
| "DeviceTrustState_allowed DTRevoked b = False"

definition DeviceTrustState_transition ::
    "DeviceTrustState \<Rightarrow> DeviceTrustState \<Rightarrow> DeviceTrustState domain_result" where
  "DeviceTrustState_transition = enum_transition DeviceTrustState_allowed DeviceTrustState_str"

datatype ProviderBindingState = PBActive | PBStale | PBCleanupPending | PBRemoved

fun ProviderBindingState_str :: "ProviderBindingState \<Rightarrow> string" where
  "ProviderBindingState_str PBActive = ''Active''"
| "ProviderBindingState_str PBStale = ''Stale''"
| "ProviderBindingState_str PBCleanupPending = ''CleanupPending''"
| "ProviderBindingState_str PBRemoved = ''Removed''"

fun ProviderBindingState_allowed :: "ProviderBindingState \<Rightarrow> ProviderBindingState \<Rightarrow> bool" where
  "ProviderBindingState_allowed PBActive b = (b \<in> {PBStale, PBCleanupPending})"
| "ProviderBindingState_allowed PBStale b = (b \<in> {PBActive, PBCleanupPending, PBRemoved})"
| "ProviderBindingState_allowed PBCleanupPending b = (b = PBRemoved)"
| "ProviderBindingState_allowed PBRemoved b = False"

definition ProviderBindingState_transition ::
    "ProviderBindingState \<Rightarrow> ProviderBindingState \<Rightarrow> ProviderBindingState domain_result" where
  "ProviderBindingState_transition =
     enum_transition ProviderBindingState_allowed ProviderBindingState_str"

datatype DeviceTrustCapability = ActivateDeviceTrust | RevokeDeviceTrust | AdoptExistingProviderDevice

fun DeviceTrustCapability_str :: "DeviceTrustCapability \<Rightarrow> string" where
  "DeviceTrustCapability_str ActivateDeviceTrust = ''ActivateDeviceTrust''"
| "DeviceTrustCapability_str RevokeDeviceTrust = ''RevokeDeviceTrust''"
| "DeviceTrustCapability_str AdoptExistingProviderDevice = ''AdoptExistingProviderDevice''"

datatype TrustDecisionKind = TDActivate | TDRevoke

fun TrustDecisionKind_str :: "TrustDecisionKind \<Rightarrow> string" where
  "TrustDecisionKind_str TDActivate = ''activate''"
| "TrustDecisionKind_str TDRevoke = ''revoke''"

section \<open>Invitations and join sessions\<close>

datatype InvitationState =
  ISIssued | ISRedeeming | ISConsumed | ISRevoking | ISExpiring | ISFailed | ISRedeemed
  | ISExhausted | ISExpired | ISRevoked

fun InvitationState_str :: "InvitationState \<Rightarrow> string" where
  "InvitationState_str ISIssued = ''Issued''"
| "InvitationState_str ISRedeeming = ''Redeeming''"
| "InvitationState_str ISConsumed = ''Consumed''"
| "InvitationState_str ISRevoking = ''Revoking''"
| "InvitationState_str ISExpiring = ''Expiring''"
| "InvitationState_str ISFailed = ''Failed''"
| "InvitationState_str ISRedeemed = ''Redeemed''"
| "InvitationState_str ISExhausted = ''Exhausted''"
| "InvitationState_str ISExpired = ''Expired''"
| "InvitationState_str ISRevoked = ''Revoked''"

fun InvitationState_allowed :: "InvitationState \<Rightarrow> InvitationState \<Rightarrow> bool" where
  "InvitationState_allowed ISIssued b =
     (b \<in> {ISRedeeming, ISRevoking, ISExpiring, ISRedeemed, ISExhausted, ISExpired, ISRevoked})"
| "InvitationState_allowed ISRedeeming b =
     (b \<in> {ISConsumed, ISRevoking, ISExpiring, ISFailed, ISExpired, ISRevoked})"
| "InvitationState_allowed ISFailed b = (b \<in> {ISRevoking, ISExpiring})"
| "InvitationState_allowed ISConsumed b = (b \<in> {ISRevoking, ISExpiring})"
| "InvitationState_allowed ISRevoking b = (b \<in> {ISRevoked, ISFailed})"
| "InvitationState_allowed ISExpiring b = (b \<in> {ISExpired, ISFailed})"
| "InvitationState_allowed ISRedeemed b =
     (b \<in> {ISExhausted, ISRevoking, ISExpiring, ISExpired, ISRevoked})"
| "InvitationState_allowed _ b = False"

definition InvitationState_transition ::
    "InvitationState \<Rightarrow> InvitationState \<Rightarrow> InvitationState domain_result" where
  "InvitationState_transition = enum_transition InvitationState_allowed InvitationState_str"

datatype JoinSessionState =
  JSCreated | JSInvitationValidated | JSProviderCredentialIssuing | JSProviderCredentialIssued
  | JSProviderCredentialAmbiguous | JSProviderCredentialRevocationPending | JSMeshJoinObserved
  | JSAgentRegistered | JSKeryxBindingPending | JSKeryxBindingVerified | JSFleetProjectionPending
  | JSActive | JSExpired | JSFailed | JSRevoked

fun JoinSessionState_str :: "JoinSessionState \<Rightarrow> string" where
  "JoinSessionState_str JSCreated = ''Created''"
| "JoinSessionState_str JSInvitationValidated = ''InvitationValidated''"
| "JoinSessionState_str JSProviderCredentialIssuing = ''ProviderCredentialIssuing''"
| "JoinSessionState_str JSProviderCredentialIssued = ''ProviderCredentialIssued''"
| "JoinSessionState_str JSProviderCredentialAmbiguous = ''ProviderCredentialAmbiguous''"
| "JoinSessionState_str JSProviderCredentialRevocationPending =
     ''ProviderCredentialRevocationPending''"
| "JoinSessionState_str JSMeshJoinObserved = ''MeshJoinObserved''"
| "JoinSessionState_str JSAgentRegistered = ''AgentRegistered''"
| "JoinSessionState_str JSKeryxBindingPending = ''KeryxBindingPending''"
| "JoinSessionState_str JSKeryxBindingVerified = ''KeryxBindingVerified''"
| "JoinSessionState_str JSFleetProjectionPending = ''FleetProjectionPending''"
| "JoinSessionState_str JSActive = ''Active''"
| "JoinSessionState_str JSExpired = ''Expired''"
| "JoinSessionState_str JSFailed = ''Failed''"
| "JoinSessionState_str JSRevoked = ''Revoked''"

definition JoinSessionState_allowed :: "JoinSessionState \<Rightarrow> JoinSessionState \<Rightarrow> bool" where
  "JoinSessionState_allowed a b \<longleftrightarrow>
     (let terminal = b \<in> {JSExpired, JSFailed, JSRevoked} \<and>
                     a \<notin> {JSActive, JSExpired, JSFailed, JSRevoked} in
      terminal \<or>
      (case a of
         JSCreated \<Rightarrow> b = JSInvitationValidated
       | JSInvitationValidated \<Rightarrow> b = JSProviderCredentialIssuing
       | JSProviderCredentialIssuing \<Rightarrow>
           b \<in> {JSProviderCredentialIssued, JSProviderCredentialAmbiguous,
                JSProviderCredentialRevocationPending}
       | JSProviderCredentialIssued \<Rightarrow>
           b \<in> {JSProviderCredentialRevocationPending, JSMeshJoinObserved}
       | JSProviderCredentialAmbiguous \<Rightarrow> b = JSProviderCredentialRevocationPending
       | JSProviderCredentialRevocationPending \<Rightarrow> b \<in> {JSRevoked, JSExpired}
       | JSMeshJoinObserved \<Rightarrow> b = JSAgentRegistered
       | JSAgentRegistered \<Rightarrow> b = JSKeryxBindingPending
       | JSKeryxBindingPending \<Rightarrow> b = JSKeryxBindingVerified
       | JSKeryxBindingVerified \<Rightarrow> b = JSFleetProjectionPending
       | JSFleetProjectionPending \<Rightarrow> b = JSActive
       | _ \<Rightarrow> False))"

definition JoinSessionState_transition ::
    "JoinSessionState \<Rightarrow> JoinSessionState \<Rightarrow> JoinSessionState domain_result" where
  "JoinSessionState_transition = enum_transition JoinSessionState_allowed JoinSessionState_str"

section \<open>Keryx bindings, projections and revocations\<close>

datatype KeryxBindingState = KBPending | KBActive | KBStale | KBRotated | KBRevoked

fun KeryxBindingState_str :: "KeryxBindingState \<Rightarrow> string" where
  "KeryxBindingState_str KBPending = ''pending''"
| "KeryxBindingState_str KBActive = ''active''"
| "KeryxBindingState_str KBStale = ''stale''"
| "KeryxBindingState_str KBRotated = ''rotated''"
| "KeryxBindingState_str KBRevoked = ''revoked''"

text \<open>Unlike the macro, this machine has no reflexive step.\<close>

definition KeryxBindingState_transition ::
    "KeryxBindingState \<Rightarrow> KeryxBindingState \<Rightarrow> KeryxBindingState domain_result" where
  "KeryxBindingState_transition self nxt =
     (if (case self of
            KBPending \<Rightarrow> nxt \<in> {KBActive, KBRevoked}
          | KBActive \<Rightarrow> nxt \<in> {KBStale, KBRotated, KBRevoked}
          | KBStale \<Rightarrow> nxt \<in> {KBRotated, KBRevoked}
          | _ \<Rightarrow> False)
      then Inr nxt
      else Inl (InvalidTransition (KeryxBindingState_str self) (KeryxBindingState_str nxt)))"

datatype ProjectionStatus =
  PSNotRequested | PSPending | PSApplied | PSFailedRetryable | PSConflict | PSRevoked

fun ProjectionStatus_str :: "ProjectionStatus \<Rightarrow> string" where
  "ProjectionStatus_str PSNotRequested = ''NotRequested''"
| "ProjectionStatus_str PSPending = ''Pending''"
| "ProjectionStatus_str PSApplied = ''Applied''"
| "ProjectionStatus_str PSFailedRetryable = ''FailedRetryable''"
| "ProjectionStatus_str PSConflict = ''Conflict''"
| "ProjectionStatus_str PSRevoked = ''Revoked''"

fun ProjectionStatus_allowed :: "ProjectionStatus \<Rightarrow> ProjectionStatus \<Rightarrow> bool" where
  "ProjectionStatus_allowed PSNotRequested b = (b \<in> {PSPending, PSRevoked})"
| "ProjectionStatus_allowed PSPending b =
     (b \<in> {PSApplied, PSFailedRetryable, PSConflict, PSRevoked})"
| "ProjectionStatus_allowed PSFailedRetryable b = (b \<in> {PSPending, PSRevoked})"
| "ProjectionStatus_allowed PSConflict b = (b \<in> {PSPending, PSRevoked})"
| "ProjectionStatus_allowed PSApplied b = (b \<in> {PSPending, PSRevoked})"
| "ProjectionStatus_allowed PSRevoked b = False"

definition ProjectionStatus_transition ::
    "ProjectionStatus \<Rightarrow> ProjectionStatus \<Rightarrow> ProjectionStatus domain_result" where
  "ProjectionStatus_transition = enum_transition ProjectionStatus_allowed ProjectionStatus_str"

datatype RevocationState =
  RSRequested | RSApplicationTrustRemovalPending | RSCredentialRevocationPending
  | RSKeryxBindingDisablePending | RSProviderCleanupPending | RSRevoked

fun RevocationState_str :: "RevocationState \<Rightarrow> string" where
  "RevocationState_str RSRequested = ''Requested''"
| "RevocationState_str RSApplicationTrustRemovalPending = ''ApplicationTrustRemovalPending''"
| "RevocationState_str RSCredentialRevocationPending = ''CredentialRevocationPending''"
| "RevocationState_str RSKeryxBindingDisablePending = ''KeryxBindingDisablePending''"
| "RevocationState_str RSProviderCleanupPending = ''ProviderCleanupPending''"
| "RevocationState_str RSRevoked = ''Revoked''"

fun RevocationState_allowed :: "RevocationState \<Rightarrow> RevocationState \<Rightarrow> bool" where
  "RevocationState_allowed RSRequested b = (b = RSApplicationTrustRemovalPending)"
| "RevocationState_allowed RSApplicationTrustRemovalPending b = (b = RSCredentialRevocationPending)"
| "RevocationState_allowed RSCredentialRevocationPending b = (b = RSKeryxBindingDisablePending)"
| "RevocationState_allowed RSKeryxBindingDisablePending b = (b = RSProviderCleanupPending)"
| "RevocationState_allowed RSProviderCleanupPending b = (b = RSRevoked)"
| "RevocationState_allowed RSRevoked b = False"

definition RevocationState_transition ::
    "RevocationState \<Rightarrow> RevocationState \<Rightarrow> RevocationState domain_result" where
  "RevocationState_transition = enum_transition RevocationState_allowed RevocationState_str"

lemmas lifecycle_transitions =
  enum_transition_def NetworkState_transition_def MembershipState_transition_def
  DeviceTrustState_transition_def ProviderBindingState_transition_def
  InvitationState_transition_def JoinSessionState_transition_def KeryxBindingState_transition_def
  ProjectionStatus_transition_def RevocationState_transition_def

section \<open>The machines meet the interface\<close>

text \<open>The states a subject cannot leave again once it has entered one of them.\<close>

definition network_closed :: "NetworkState \<Rightarrow> bool" where
  "network_closed s \<longleftrightarrow> s \<in> {NSRevoking, NSRevoked}"

definition membership_closed :: "MembershipState \<Rightarrow> bool" where
  "membership_closed s \<longleftrightarrow> s \<in> {MSRevoking, MSRevoked}"

definition trust_closed :: "DeviceTrustState \<Rightarrow> bool" where
  "trust_closed s \<longleftrightarrow> s = DTRevoked"

definition provider_binding_closed :: "ProviderBindingState \<Rightarrow> bool" where
  "provider_binding_closed s \<longleftrightarrow> s \<in> {PBCleanupPending, PBRemoved}"

definition invitation_spent :: "InvitationState \<Rightarrow> bool" where
  "invitation_spent s \<longleftrightarrow> s \<notin> {ISIssued, ISRedeeming, ISRedeemed}"

definition join_session_terminal :: "JoinSessionState \<Rightarrow> bool" where
  "join_session_terminal s \<longleftrightarrow> s \<in> {JSActive, JSExpired, JSFailed, JSRevoked}"

definition keryx_retired :: "KeryxBindingState \<Rightarrow> bool" where
  "keryx_retired s \<longleftrightarrow> s \<in> {KBRotated, KBRevoked}"

interpretation network_lc: lifecycle NetworkState_transition NetworkState_str network_closed
  by unfold_locales
    (auto simp: lifecycle_transitions network_closed_def split: if_splits)

interpretation membership_lc:
  lifecycle MembershipState_transition MembershipState_str membership_closed
  by unfold_locales
    (auto simp: lifecycle_transitions membership_closed_def split: if_splits)

interpretation trust_lc: lifecycle DeviceTrustState_transition DeviceTrustState_str trust_closed
  by unfold_locales
    (auto simp: lifecycle_transitions trust_closed_def split: if_splits)

interpretation provider_binding_lc:
  lifecycle ProviderBindingState_transition ProviderBindingState_str provider_binding_closed
  by unfold_locales
    (auto simp: lifecycle_transitions provider_binding_closed_def split: if_splits)

lemma invitation_spent_step:
  "invitation_spent s \<Longrightarrow> InvitationState_allowed s n \<Longrightarrow> invitation_spent n"
  by (cases s) (auto simp: invitation_spent_def)

interpretation invitation_lc:
  lifecycle InvitationState_transition InvitationState_str invitation_spent
  by unfold_locales
    (auto simp: lifecycle_transitions intro: invitation_spent_step split: if_splits)

interpretation join_session_lc:
  lifecycle JoinSessionState_transition JoinSessionState_str join_session_terminal
  by unfold_locales
    (auto simp: lifecycle_transitions join_session_terminal_def JoinSessionState_allowed_def
        split: if_splits)

interpretation keryx_lc:
  lifecycle KeryxBindingState_transition KeryxBindingState_str keryx_retired
  by unfold_locales
    (auto simp: KeryxBindingState_transition_def keryx_retired_def split: if_splits)

interpretation projection_lc:
  lifecycle ProjectionStatus_transition ProjectionStatus_str "\<lambda>s. s = PSRevoked"
  by unfold_locales (auto simp: lifecycle_transitions split: if_splits)

interpretation revocation_lc:
  lifecycle RevocationState_transition RevocationState_str "\<lambda>s. s = RSRevoked"
  by unfold_locales (auto simp: lifecycle_transitions split: if_splits)

section \<open>Orders of the histories\<close>

text \<open>The stages a revocation still has before it.\<close>

fun revocation_rest :: "RevocationState \<Rightarrow> RevocationState list" where
  "revocation_rest RSRevoked = []"
| "revocation_rest RSProviderCleanupPending = [RSRevoked]"
| "revocation_rest RSKeryxBindingDisablePending = [RSProviderCleanupPending, RSRevoked]"
| "revocation_rest RSCredentialRevocationPending =
     [RSKeryxBindingDisablePending, RSProviderCleanupPending, RSRevoked]"
| "revocation_rest RSApplicationTrustRemovalPending =
     [RSCredentialRevocationPending, RSKeryxBindingDisablePending, RSProviderCleanupPending,
      RSRevoked]"
| "revocation_rest RSRequested =
     [RSApplicationTrustRemovalPending, RSCredentialRevocationPending,
      RSKeryxBindingDisablePending, RSProviderCleanupPending, RSRevoked]"

lemma revocation_rest_step:
  "RevocationState_allowed s n \<Longrightarrow> s \<noteq> n \<and> revocation_rest s = n # revocation_rest n"
  by (cases s) auto

lemma revocation_run_rest:
  "run_transitions RevocationState_transition s ns = Inr RSRevoked \<Longrightarrow>
   remdups_adj (s # ns) = s # revocation_rest s"
proof (induction ns arbitrary: s)
  case Nil
  then show ?case by simp
next
  case (Cons n ns)
  then have step: "s = n \<or> RevocationState_allowed s n"
    and IH: "remdups_adj (n # ns) = n # revocation_rest n"
    by (auto simp: guard_simps lifecycle_transitions split: if_splits)
  from step show ?case
  proof
    assume "s = n"
    with IH show ?thesis by simp
  next
    assume "RevocationState_allowed s n"
    from revocation_rest_step [OF this] IH show ?thesis by simp
  qed
qed

text \<open>A revocation that starts as requested and ends as revoked has passed, apart from
  repeated stages, through exactly the declared sequence: application trust is removed first,
  then the credential is revoked, the Keryx binding disabled, and provider cleanup comes last
  before the revoked state. No stage is skipped and none is taken out of order.\<close>
theorem revocation_stages_in_order:
  assumes "run_transitions RevocationState_transition RSRequested ns = Inr RSRevoked"
  shows "remdups_adj (RSRequested # ns) =
    [RSRequested, RSApplicationTrustRemovalPending, RSCredentialRevocationPending,
     RSKeryxBindingDisablePending, RSProviderCleanupPending, RSRevoked]"
  using revocation_run_rest [OF assms] by simp

theorem revocation_stages_in_order_witness:
  "remdups_adj (RSRequested #
     [RSApplicationTrustRemovalPending, RSApplicationTrustRemovalPending,
      RSCredentialRevocationPending, RSKeryxBindingDisablePending, RSProviderCleanupPending,
      RSRevoked]) =
    [RSRequested, RSApplicationTrustRemovalPending, RSCredentialRevocationPending,
     RSKeryxBindingDisablePending, RSProviderCleanupPending, RSRevoked]"
  by (rule revocation_stages_in_order) (simp add: lifecycle_transitions)

text \<open>Revocation is final. In any accepted history, once a membership is revoking or
  revoked it never becomes pending, joining, active or suspended again; once device trust is
  revoked it stays revoked; once a network is revoking or revoked it never becomes active
  again; once a provider binding is being cleaned up it is never active again.\<close>
theorem revoked_subjects_stay_revoked:
  shows "run_transitions MembershipState_transition sM (xsM @ cM # ysM) = Inr mM \<Longrightarrow>
      cM \<in> {MSRevoking, MSRevoked} \<Longrightarrow>
      run_transitions DeviceTrustState_transition sT (xsT @ DTRevoked # ysT) = Inr mT \<Longrightarrow>
      run_transitions NetworkState_transition sN (xsN @ cN # ysN) = Inr mN \<Longrightarrow>
      cN \<in> {NSRevoking, NSRevoked} \<Longrightarrow>
      run_transitions ProviderBindingState_transition sP (xsP @ cP # ysP) = Inr mP \<Longrightarrow>
      cP \<in> {PBCleanupPending, PBRemoved} \<Longrightarrow>
      set ysM \<subseteq> {MSRevoking, MSRevoked} \<and> set ysT \<subseteq> {DTRevoked} \<and>
      set ysN \<subseteq> {NSRevoking, NSRevoked} \<and> set ysP \<subseteq> {PBCleanupPending, PBRemoved}"
  using membership_lc.closed_never_left [of sM xsM cM ysM mM]
    trust_lc.closed_never_left [of sT xsT DTRevoked ysT mT]
    network_lc.closed_never_left [of sN xsN cN ysN mN]
    provider_binding_lc.closed_never_left [of sP xsP cP ysP mP]
  unfolding membership_closed_def trust_closed_def network_closed_def provider_binding_closed_def
    list_all_iff by blast

theorem revoked_subjects_stay_revoked_witness:
  "set [MSRevoked] \<subseteq> {MSRevoking, MSRevoked} \<and> set [DTRevoked] \<subseteq> {DTRevoked} \<and>
   set [NSRevoked] \<subseteq> {NSRevoking, NSRevoked} \<and> set [PBRemoved] \<subseteq> {PBCleanupPending, PBRemoved}"
  by (rule revoked_subjects_stay_revoked
        [where sM = MSPending and xsM = "[MSJoining, MSActive]" and cM = MSRevoking and mM = MSRevoked
           and sT = DTUntrusted and xsT = "[DTTrusted]" and mT = DTRevoked
           and sN = NSCreating and xsN = "[NSActive, NSSuspended]" and cN = NSRevoking and mN = NSRevoked
           and sP = PBActive and xsP = "[PBStale]" and cP = PBCleanupPending and mP = PBRemoved])
    (simp_all add: lifecycle_transitions)

text \<open>Every step of the Keryx machine goes up in this order.\<close>

fun keryx_rank :: "KeryxBindingState \<Rightarrow> nat" where
  "keryx_rank KBPending = 0"
| "keryx_rank KBActive = 1"
| "keryx_rank KBStale = 2"
| "keryx_rank KBRotated = 3"
| "keryx_rank KBRevoked = 3"

lemma keryx_step_rank: "KeryxBindingState_transition s n = Inr m \<Longrightarrow> m = n \<and> keryx_rank s < keryx_rank n"
  by (cases s) (auto simp: KeryxBindingState_transition_def split: if_splits)

lemma keryx_run_sorted:
  "run_transitions KeryxBindingState_transition s ns = Inr m \<Longrightarrow>
   sorted_wrt (\<lambda>a b. keryx_rank a < keryx_rank b) (s # ns)"
proof (induction ns arbitrary: s)
  case Nil
  then show ?case by simp
next
  case (Cons n ns)
  from Cons.prems have "keryx_rank s < keryx_rank n"
    and IH: "sorted_wrt (\<lambda>a b. keryx_rank a < keryx_rank b) (n # ns)"
    using Cons.IH keryx_step_rank by (auto simp: guard_simps)
  then show ?case by (auto intro: less_trans)
qed

lemma keryx_rank_le: "keryx_rank s \<le> 3"
  by (cases s) auto

lemma strictly_sorted_length:
  "sorted_wrt (\<lambda>a b. f a < f b) (x # xs) \<Longrightarrow> \<forall>y \<in> set (x # xs). f y \<le> (k :: nat) \<Longrightarrow>
   f x + length xs \<le> k"
proof (induction xs arbitrary: x)
  case Nil
  then show ?case by simp
next
  case (Cons y ys)
  have "f y + length ys \<le> k" using Cons.IH [of y] Cons.prems by simp
  moreover have "f x < f y" using Cons.prems(1) by simp
  ultimately show ?case by simp
qed

lemma strictly_sorted_distinct:
  "sorted_wrt (\<lambda>a b. (f a :: nat) < f b) xs \<Longrightarrow> distinct xs"
  by (induction xs) auto

text \<open>A Keryx binding's history never repeats a state and takes at most three steps: a
  binding that left the active state (rotated, stale or revoked) is never active again, and
  there is no reflexive step that a replayed request could use.\<close>
theorem keryx_history_strict:
  assumes "run_transitions KeryxBindingState_transition s ns = Inr m"
  shows "distinct (s # ns) \<and> keryx_rank s + length ns \<le> 3 \<and> m = last (s # ns)"
proof -
  have sorted: "sorted_wrt (\<lambda>a b. keryx_rank a < keryx_rank b) (s # ns)"
    by (rule keryx_run_sorted [OF assms])
  then have "distinct (s # ns)" by (rule strictly_sorted_distinct)
  moreover have "keryx_rank s + length ns \<le> 3"
    by (rule strictly_sorted_length [OF sorted]) (simp add: keryx_rank_le)
  ultimately show ?thesis using keryx_lc.run_end [OF assms] by simp
qed

theorem keryx_history_strict_witness:
  "distinct (KBPending # [KBActive, KBStale, KBRotated]) \<and>
   keryx_rank KBPending + length [KBActive, KBStale, KBRotated] \<le> 3 \<and>
   KBRotated = last (KBPending # [KBActive, KBStale, KBRotated])"
  by (rule keryx_history_strict) (simp add: KeryxBindingState_transition_def)

lemma consumed_only_from_redeeming:
  "InvitationState_transition s ISConsumed = Inr m \<Longrightarrow> s = ISConsumed \<or> s = ISRedeeming"
  by (cases s) (auto simp: lifecycle_transitions split: if_splits)

lemma invitation_run_last:
  "run_transitions InvitationState_transition s xs = Inr u \<Longrightarrow> u = last (s # xs)"
  by (rule invitation_lc.run_end)

text \<open>An invitation is used at most once. In any accepted history the consumed state is
  entered only from the redeeming state, and after it the invitation is never issued,
  redeeming or redeemed again, so it cannot be consumed a second time.\<close>
theorem invitation_consumed_once:
  assumes "run_transitions InvitationState_transition s (xs @ ISConsumed # ys) = Inr m"
  shows "last (s # xs) \<in> {ISRedeeming, ISConsumed} \<and>
    ISIssued \<notin> set ys \<and> ISRedeeming \<notin> set ys \<and> ISRedeemed \<notin> set ys"
proof -
  from assms obtain u where u: "run_transitions InvitationState_transition s xs = Inr u"
    and step: "run_transitions InvitationState_transition u (ISConsumed # ys) = Inr m"
    by (auto simp: invitation_lc.run_append guard_simps)
  from u have "u = last (s # xs)" by (rule invitation_run_last)
  moreover from step have "u = ISConsumed \<or> u = ISRedeeming"
    by (auto simp: guard_simps dest: consumed_only_from_redeeming)
  moreover have "list_all invitation_spent ys"
    using invitation_lc.closed_never_left [OF assms] by (simp add: invitation_spent_def)
  ultimately show ?thesis by (auto simp: list_all_iff invitation_spent_def)
qed

theorem invitation_consumed_once_witness:
  "last (ISIssued # [ISRedeeming]) \<in> {ISRedeeming, ISConsumed} \<and>
    ISIssued \<notin> set [ISExpiring, ISExpired] \<and> ISRedeeming \<notin> set [ISExpiring, ISExpired] \<and>
    ISRedeemed \<notin> set [ISExpiring, ISExpired]"
  by (rule invitation_consumed_once [where m = ISExpired]) (simp add: lifecycle_transitions)

end
