(* ===== verification/Reference_Codecs.thy ===== *)
theory Reference_Codecs
  imports Domain_Core
begin

text \<open>
  Concrete functions for the external crates, used only to show that the hypotheses about
  them can be met: a UUID text form of 32 lowercase hexadecimal digits, and the unpadded
  URL-safe base64 alphabet of RFC 4648 over groups of three bytes. No property of the
  program depends on these choices; its theorems take any functions that meet the laws.
\<close>

section \<open>UUID text\<close>

definition hex_digit :: "char \<Rightarrow> nat option" where
  "hex_digit c =
     (let n = byte_val c in
      if 48 \<le> n \<and> n \<le> 57 then Some (n - 48)
      else if 97 \<le> n \<and> n \<le> 102 then Some (n - 87)
      else None)"

lemma hex_digit_hex_char: "d < 16 \<Longrightarrow> hex_digit (hex_char d) = Some d"
  by (auto simp: hex_digit_def hex_char_def byte_val_char_of Let_def)

definition all_digits :: "string \<Rightarrow> nat list option" where
  "all_digits s = (if list_all (\<lambda>c. hex_digit c \<noteq> None) s
     then Some (map (\<lambda>c. the (hex_digit c)) s) else None)"

definition hex_uuid_ops :: uuid_ops where
  "hex_uuid_ops =
     \<lparr>uuid_parse_str = (\<lambda>s. if length s = 32
          then map_option (\<lambda>ds. word_of_nat (be_value 16 ds)) (all_digits s) else None),
      uuid_display = (\<lambda>u. map hex_char (be_digits 16 32 (unat u)))\<rparr>"

lemma all_digits_hex: "list_all (\<lambda>d. d < 16) ds \<Longrightarrow> all_digits (map hex_char ds) = Some ds"
  by (induction ds) (auto simp: all_digits_def hex_digit_hex_char split: if_splits)

lemma hex_uuid_laws: "uuid_laws hex_uuid_ops"
proof -
  have "uuid_parse_str hex_uuid_ops (uuid_display hex_uuid_ops u) = Some u" for u :: uuid
  proof -
    have "unat u < 16 ^ 32" using unsigned_less [of u] by simp
    then have v: "be_value 16 (be_digits 16 32 (unat u)) = unat u"
      by (intro be_value_be_digits) simp_all
    have "list_all (\<lambda>d. d < 16) (be_digits 16 32 (unat u))"
      unfolding list_all_iff by (auto intro: be_digits_less)
    then show ?thesis by (simp add: hex_uuid_ops_def all_digits_hex v)
  qed
  then show ?thesis by (simp add: uuid_laws_def)
qed

lemma uuid_display_length: "length (uuid_display hex_uuid_ops u) = 32"
  by (simp add: hex_uuid_ops_def)

section \<open>Base64\<close>

text \<open>A crate's base64 engine: encode bytes to text, decode text to bytes.\<close>

record base64_ops =
  b64_encode :: "u8 list \<Rightarrow> string"
  b64_decode :: "string \<Rightarrow> u8 list option"

definition base64_laws :: "base64_ops \<Rightarrow> bool" where
  "base64_laws B \<longleftrightarrow>
     (\<forall>bs. b64_decode B (b64_encode B bs) = Some bs) \<and>
     (\<forall>bs. length (b64_encode B bs) = (4 * length bs + 2) div 3)"

definition url_alphabet :: string where
  "url_alphabet =
     ''ABCDEFGHIJKLMNOPQRSTUVWXYZabcdefghijklmnopqrstuvwxyz0123456789-_''"

definition std_alphabet :: string where
  "std_alphabet =
     ''ABCDEFGHIJKLMNOPQRSTUVWXYZabcdefghijklmnopqrstuvwxyz0123456789+/''"

fun index_of :: "'a \<Rightarrow> 'a list \<Rightarrow> nat option" where
  "index_of x [] = None"
| "index_of x (y # ys) = (if x = y then Some 0 else map_option Suc (index_of x ys))"

lemma index_of_nth: "distinct xs \<Longrightarrow> n < length xs \<Longrightarrow> index_of (xs ! n) xs = Some n"
proof (induction xs arbitrary: n)
  case Nil
  then show ?case by simp
next
  case (Cons x xs)
  then show ?case by (cases n) auto
qed

lemma url_alphabet_facts: "length url_alphabet = 64" "distinct url_alphabet"
  by (simp_all add: url_alphabet_def)

lemma std_alphabet_facts: "length std_alphabet = 64" "distinct std_alphabet"
  by (simp_all add: std_alphabet_def)

fun sextets :: "nat list \<Rightarrow> nat list" where
  "sextets (a # b # c # bs) =
     [a div 4, (a mod 4) * 16 + b div 16, (b mod 16) * 4 + c div 64, c mod 64] @ sextets bs"
| "sextets [a, b] = [a div 4, (a mod 4) * 16 + b div 16, (b mod 16) * 4]"
| "sextets [a] = [a div 4, (a mod 4) * 16]"
| "sextets [] = []"

fun octets :: "nat list \<Rightarrow> nat list option" where
  "octets (p # q # r # s # ss) =
     map_option (\<lambda>bs. [p * 4 + q div 16, (q mod 16) * 16 + r div 4, (r mod 4) * 64 + s] @ bs)
       (octets ss)"
| "octets [p, q, r] =
     (if r mod 4 = 0 then Some [p * 4 + q div 16, (q mod 16) * 16 + r div 4] else None)"
| "octets [p, q] = (if q mod 16 = 0 then Some [p * 4 + q div 16] else None)"
| "octets [p] = None"
| "octets [] = Some []"

lemma octets_sextets: "list_all (\<lambda>b. b < 256) bs \<Longrightarrow> octets (sextets bs) = Some bs"
  by (induction bs rule: sextets.induct) auto

lemma sextets_less: "list_all (\<lambda>b. b < 256) bs \<Longrightarrow> list_all (\<lambda>s. s < 64) (sextets bs)"
proof (induction bs rule: sextets.induct)
  case (1 a b c bs)
  then have "a div 4 < 64" "(a mod 4) * 16 + b div 16 < 64" "(b mod 16) * 4 + c div 64 < 64"
    "c mod 64 < 64"
    by auto
  with 1 show ?case by simp
next
  case (2 a b)
  then have "a div 4 < 64" "(a mod 4) * 16 + b div 16 < 64" "(b mod 16) * 4 < 64" by auto
  then show ?case by simp
next
  case (3 a)
  then have "a div 4 < 64" "(a mod 4) * 16 < 64" by auto
  then show ?case by simp
next
  case 4
  then show ?case by simp
qed

lemma length_sextets: "length (sextets bs) = (4 * length bs + 2) div 3"
  by (induction bs rule: sextets.induct) auto

definition base64_of :: "string \<Rightarrow> base64_ops" where
  "base64_of alphabet =
     \<lparr>b64_encode = (\<lambda>bs. map (\<lambda>n. alphabet ! n) (sextets (map unat bs))),
      b64_decode = (\<lambda>s. if list_all (\<lambda>c. index_of c alphabet \<noteq> None) s
         then map_option (map word_of_nat) (octets (map (\<lambda>c. the (index_of c alphabet)) s))
         else None)\<rparr>"

definition url_safe_no_pad :: base64_ops where
  "url_safe_no_pad = base64_of url_alphabet"

definition standard_no_pad :: base64_ops where
  "standard_no_pad = base64_of std_alphabet"

lemma map_index_of_nth:
  assumes "distinct alphabet" "length alphabet = 64"
  shows "list_all (\<lambda>n. n < 64) ns \<Longrightarrow>
   list_all (\<lambda>c. index_of c alphabet \<noteq> None) (map (\<lambda>n. alphabet ! n) ns) \<and>
   map (\<lambda>c. the (index_of c alphabet)) (map (\<lambda>n. alphabet ! n) ns) = ns"
  using assms by (induction ns) (auto simp: index_of_nth)

lemma base64_of_laws:
  assumes "distinct alphabet" "length alphabet = 64"
  shows "base64_laws (base64_of alphabet)"
proof -
  have "b64_decode (base64_of alphabet) (b64_encode (base64_of alphabet) bs) = Some bs" for bs
  proof -
    have small: "list_all (\<lambda>b. b < 256) (map unat bs)"
      by (simp add: list_all_iff unat_u8_less)
    let ?text = "map (\<lambda>n. alphabet ! n) (sextets (map unat bs))"
    have chars: "list_all (\<lambda>c. index_of c alphabet \<noteq> None) ?text"
      and decoded: "map (\<lambda>c. the (index_of c alphabet)) ?text = sextets (map unat bs)"
      using map_index_of_nth [OF assms sextets_less [OF small]] by blast+
    have "map word_of_nat (map unat bs) = bs" by (simp add: comp_def)
    then show ?thesis
      using chars
      by (simp add: base64_of_def decoded octets_sextets [OF small] del: map_map)
  qed
  moreover have "length (b64_encode (base64_of alphabet) bs) = (4 * length bs + 2) div 3" for bs
    by (simp add: base64_of_def length_sextets)
  ultimately show ?thesis by (simp add: base64_laws_def)
qed

lemma url_safe_no_pad_laws: "base64_laws url_safe_no_pad"
  by (simp add: url_safe_no_pad_def base64_of_laws url_alphabet_facts)

lemma standard_no_pad_laws: "base64_laws standard_no_pad"
  by (simp add: standard_no_pad_def base64_of_laws std_alphabet_facts)

lemma base64_of_chars:
  assumes "length alphabet = 64"
  shows "set (b64_encode (base64_of alphabet) bs) \<subseteq> set alphabet"
proof -
  have "list_all (\<lambda>b. b < 256) (map unat bs)" by (simp add: list_all_iff unat_u8_less)
  then have "list_all (\<lambda>s. s < 64) (sextets (map unat bs))" by (rule sextets_less)
  with assms show ?thesis by (auto simp: base64_of_def list_all_iff)
qed

lemma hex_char_not_underscore:
  assumes "d < 16"
  shows "hex_char d \<noteq> CHR ''_''"
proof -
  have "byte_val (hex_char d) \<noteq> 95" using assms by (auto simp: hex_char_def byte_val_char_of)
  moreover have "byte_val CHR ''_'' = 95" by (simp add: byte_val_def)
  ultimately show ?thesis by metis
qed

lemma hex_display_no_underscore: "CHR ''_'' \<notin> set (uuid_display hex_uuid_ops u)"
proof
  assume "CHR ''_'' \<in> set (uuid_display hex_uuid_ops u)"
  then obtain d where d: "d \<in> set (be_digits 16 32 (unat u))" "CHR ''_'' = hex_char d"
    by (auto simp: hex_uuid_ops_def)
  then have "d < 16" by (auto intro: be_digits_less)
  with hex_char_not_underscore d(2) show False by fastforce
qed

end
