(* ===== verification/Keryx_Identity.thy ===== *)
theory Keryx_Identity
  imports Lifecycle Reference_Codecs
begin

text \<open>
  Provider identities, agent versions, the persisted Keryx binding identity with its
  validation, the three device generations, and the network and device records
  (\<^verbatim>\<open>crates/nodescale-domain/src/lib.rs\<close>, lines 601 to 1165 and 3216 to 3226).

  A \<^verbatim>\<open>DateTime<Utc>\<close> is an integer count of nanoseconds, compared as the code compares it.
  The one \<^verbatim>\<open>expect\<close> in the validation is a panic in the source: \<open>None\<close> is that outcome, and
  the theory proves that it is never taken.
\<close>

type_synonym DateTime = int

section \<open>Provider identity and agent version\<close>

datatype ProviderKind = PKFake | PKHeadscale | PKTailscale

record ProviderIdentity =
  pi_provider_instance_id :: ProviderInstanceId
  pi_node_id :: ProviderNodeId
  pi_stable_key_fingerprint :: string

definition ProviderIdentity_new ::
    "ProviderInstanceId \<Rightarrow> ProviderNodeId \<Rightarrow> string \<Rightarrow> ProviderIdentity domain_result" where
  "ProviderIdentity_new provider_instance_id node_id fingerprint =
     (if fingerprint = [] \<or> length fingerprint > 512
      then Inl (InvalidValue ''provider fingerprint'' ''must be bounded and non-empty'')
      else Inr \<lparr>pi_provider_instance_id = provider_instance_id, pi_node_id = node_id,
                pi_stable_key_fingerprint = fingerprint\<rparr>)"

datatype AgentVersion = AgentVersion (agent_version_str: string)

definition parse_AgentVersion :: "string \<Rightarrow> AgentVersion domain_result" where
  "parse_AgentVersion value =
     (if \<not> (1 \<le> length value \<and> length value \<le> 128) \<or> \<not> list_all safe_id_byte value
      then Inl (InvalidValue ''agent version'' ''must be 1..=128 ASCII [A-Za-z0-9_.:-] characters'')
      else Inr (AgentVersion value))"

interpretation agent_version: validated_text parse_AgentVersion agent_version_str "bounded_safe 128"
  by unfold_locales
    (auto simp: parse_AgentVersion_def bounded_safe_def AgentVersion.expand Suc_le_eq)

section \<open>The Keryx binding identity\<close>

record KeryxBindingIdentityRecord =
  kb_binding_id :: KeryxBindingId
  kb_network_id :: NetworkId
  kb_device_id :: DeviceId
  kb_provider_binding_id :: ProviderBindingId
  kb_verified_peer_id :: "KeryxPeerId option"
  kb_generation :: Generation
  kb_revision :: u64
  kb_state :: KeryxBindingState
  kb_created_at :: DateTime
  kb_confirmed_at :: "DateTime option"
  kb_rotated_at :: "DateTime option"
  kb_revoked_at :: "DateTime option"
  kb_stale_at :: "DateTime option"
  kb_last_verified_at :: "DateTime option"
  kb_rotated_from :: "KeryxBindingId option"
  kb_agent_version :: AgentVersion

definition some_and :: "('a \<Rightarrow> bool) \<Rightarrow> 'a option \<Rightarrow> bool" where
  "some_and P opt = (case opt of None \<Rightarrow> False | Some x \<Rightarrow> P x)"

definition is_some :: "'a option \<Rightarrow> bool" where
  "is_some opt = (case opt of None \<Rightarrow> False | Some _ \<Rightarrow> True)"

lemma some_and_simps [simp]: "\<not> some_and P None" "some_and P (Some x) = P x"
  by (simp_all add: some_and_def)

lemma is_some_simps [simp]: "\<not> is_some None" "is_some (Some x)"
  by (simp_all add: is_some_def)

definition validate_keryx_binding_identity_authority_values ::
    "uuid_ops \<Rightarrow> KeryxBindingIdentityRecord \<Rightarrow> unit domain_result" where
  "validate_keryx_binding_identity_authority_values U r =
     and_then (parse_KeryxBindingId U (id_display U (kb_binding_id r))) (\<lambda>_.
     and_then (parse_NetworkId U (id_display U (kb_network_id r))) (\<lambda>_.
     and_then (parse_DeviceId U (id_display U (kb_device_id r))) (\<lambda>_.
     and_then (parse_ProviderBindingId U (id_display U (kb_provider_binding_id r))) (\<lambda>_.
     and_then (case kb_rotated_from r of
                 None \<Rightarrow> Inr ()
               | Some i \<Rightarrow> and_then (parse_KeryxBindingId U (id_display U i)) (\<lambda>_. Inr ())) (\<lambda>_.
     and_then (case kb_verified_peer_id r of
                 None \<Rightarrow> Inr ()
               | Some p \<Rightarrow> and_then (parse_KeryxPeerId (peer_id_str p)) (\<lambda>_. Inr ())) (\<lambda>_.
     ensure (gen_get (kb_generation r) \<noteq> 0) (InvalidValue ''generation'' ''must be positive'')))))))"

definition validate_keryx_binding_rotation_lineage ::
    "KeryxBindingIdentityRecord \<Rightarrow> unit domain_result" where
  "validate_keryx_binding_rotation_lineage r =
     (if gen_get (kb_generation r) = 1 then
        (if kb_rotated_from r = None then Inr ()
         else Inl (InvalidValue ''Keryx binding rotation'' ''generation one cannot have a predecessor''))
      else
        (case kb_rotated_from r of
           Some predecessor \<Rightarrow>
             if predecessor \<noteq> kb_binding_id r then Inr ()
             else Inl (InvalidValue ''Keryx binding rotation'' ''cannot rotate from itself'')
         | None \<Rightarrow>
             Inl (InvalidValue ''Keryx binding rotation''
                    ''successor generations require a predecessor'')))"

definition keryx_created_first :: "KeryxBindingIdentityRecord \<Rightarrow> unit domain_result" where
  "keryx_created_first r =
     ensure (list_all (\<lambda>timestamp. \<not> some_and (\<lambda>t. t < kb_created_at r) timestamp)
        [kb_confirmed_at r, kb_rotated_at r, kb_revoked_at r, kb_stale_at r, kb_last_verified_at r])
      (InvalidValue ''Keryx binding timestamp'' ''cannot precede creation'')"

definition keryx_state_evidence :: "KeryxBindingIdentityRecord \<Rightarrow> bool" where
  "keryx_state_evidence r =
     (let peer_and_confirmation = is_some (kb_verified_peer_id r) \<and> is_some (kb_confirmed_at r);
          no_peer_evidence = kb_verified_peer_id r = None \<and> kb_confirmed_at r = None in
      case kb_state r of
        KBPending \<Rightarrow>
          no_peer_evidence \<and> kb_rotated_at r = None \<and> kb_revoked_at r = None
          \<and> kb_stale_at r = None \<and> kb_last_verified_at r = None
      | KBActive \<Rightarrow>
          peer_and_confirmation \<and> kb_rotated_at r = None \<and> kb_revoked_at r = None
          \<and> kb_stale_at r = None \<and> is_some (kb_last_verified_at r)
      | KBStale \<Rightarrow>
          peer_and_confirmation \<and> is_some (kb_stale_at r) \<and> kb_rotated_at r = None
          \<and> kb_revoked_at r = None \<and> is_some (kb_last_verified_at r)
      | KBRotated \<Rightarrow>
          peer_and_confirmation \<and> is_some (kb_rotated_at r) \<and> kb_revoked_at r = None
          \<and> is_some (kb_last_verified_at r)
      | KBRevoked \<Rightarrow>
          is_some (kb_revoked_at r) \<and> kb_rotated_at r = None
          \<and> ((no_peer_evidence \<and> kb_stale_at r = None \<and> kb_last_verified_at r = None)
             \<or> (peer_and_confirmation \<and> is_some (kb_last_verified_at r))))"

definition keryx_confirmed_before :: "KeryxBindingIdentityRecord \<Rightarrow> unit domain_result" where
  "keryx_confirmed_before r =
     (case kb_confirmed_at r of
        None \<Rightarrow> Inr ()
      | Some confirmed_at \<Rightarrow>
          ensure (list_all (\<lambda>timestamp. \<not> some_and (\<lambda>t. t < confirmed_at) timestamp)
             [kb_last_verified_at r, kb_stale_at r, kb_rotated_at r, kb_revoked_at r])
           (InvalidValue ''Keryx binding timestamp'' ''cannot precede confirmation''))"

definition option_or :: "'a option \<Rightarrow> 'a option \<Rightarrow> 'a option" where
  "option_or a b = (case a of None \<Rightarrow> b | Some x \<Rightarrow> Some x)"

definition last_verification_upper_bound :: "KeryxBindingIdentityRecord \<Rightarrow> DateTime option" where
  "last_verification_upper_bound r =
     (case kb_state r of
        KBStale \<Rightarrow> kb_stale_at r
      | KBRotated \<Rightarrow> option_or (kb_stale_at r) (kb_rotated_at r)
      | KBRevoked \<Rightarrow> option_or (kb_stale_at r) (kb_revoked_at r)
      | _ \<Rightarrow> None)"

definition keryx_verified_before_transition :: "KeryxBindingIdentityRecord \<Rightarrow> unit domain_result" where
  "keryx_verified_before_transition r =
     (case (kb_last_verified_at r, last_verification_upper_bound r) of
        (Some last_verified_at, Some transition_at) \<Rightarrow>
          ensure (\<not> last_verified_at > transition_at)
           (InvalidValue ''Keryx binding last verification''
              ''cannot follow an irreversible lifecycle transition'')
      | _ \<Rightarrow> Inr ())"

definition ordered_pair :: "DateTime option \<Rightarrow> DateTime option \<Rightarrow> string \<Rightarrow> unit domain_result" where
  "ordered_pair earlier later reason =
     (case (earlier, later) of
        (Some e, Some l) \<Rightarrow> ensure (\<not> e > l) (InvalidValue ''Keryx binding timestamp'' reason)
      | _ \<Rightarrow> Inr ())"

definition keryx_stale_before_end :: "KeryxBindingIdentityRecord \<Rightarrow> unit domain_result" where
  "keryx_stale_before_end r =
     and_then (ordered_pair (kb_stale_at r) (kb_rotated_at r) ''stale evidence cannot follow rotation'')
       (\<lambda>_. ordered_pair (kb_stale_at r) (kb_revoked_at r) ''stale evidence cannot follow revocation'')"

definition validate_keryx_before_expect ::
    "uuid_ops \<Rightarrow> KeryxBindingIdentityRecord \<Rightarrow> unit domain_result" where
  "validate_keryx_before_expect U r =
     and_then (validate_keryx_binding_identity_authority_values U r) (\<lambda>_.
     and_then (ensure (kb_revision r \<noteq> 0)
        (InvalidValue ''Keryx binding revision'' ''must be positive'')) (\<lambda>_.
     and_then (keryx_created_first r) (\<lambda>_.
     and_then (validate_keryx_binding_rotation_lineage r) (\<lambda>_.
     and_then (ensure (keryx_state_evidence r)
        (InvalidValue ''Keryx binding identity''
           ''state evidence and lifecycle timestamps are inconsistent'')) (\<lambda>_.
     and_then (ensure (\<not> (is_some (kb_last_verified_at r) \<and> kb_verified_peer_id r = None))
        (InvalidValue ''Keryx binding last verification'' ''requires verified peer evidence'')) (\<lambda>_.
     and_then (keryx_confirmed_before r) (\<lambda>_.
     and_then (keryx_verified_before_transition r) (\<lambda>_.
     keryx_stale_before_end r))))))))"

definition keryx_expect_confirmed :: "KeryxBindingIdentityRecord \<Rightarrow> unit domain_result option" where
  "keryx_expect_confirmed r =
     (case kb_last_verified_at r of
        None \<Rightarrow> Some (Inr ())
      | Some timestamp \<Rightarrow>
          (case kb_confirmed_at r of
             None \<Rightarrow> None
           | Some confirmed_at \<Rightarrow>
               Some (ensure (\<not> timestamp < confirmed_at)
                 (InvalidValue ''Keryx binding last verification'' ''cannot precede confirmation''))))"

definition validate_keryx_binding_identity ::
    "uuid_ops \<Rightarrow> KeryxBindingIdentityRecord \<Rightarrow> unit domain_result option" where
  "validate_keryx_binding_identity U r =
     (case validate_keryx_before_expect U r of
        Inl e \<Rightarrow> Some (Inl e)
      | Inr _ \<Rightarrow> keryx_expect_confirmed r)"

datatype KeryxBindingIdentity = KeryxBindingIdentity (kb_record: KeryxBindingIdentityRecord)

definition from_persisted ::
    "uuid_ops \<Rightarrow> KeryxBindingIdentityRecord \<Rightarrow> KeryxBindingIdentity domain_result option" where
  "from_persisted U r =
     map_option (\<lambda>v. and_then v (\<lambda>_. Inr (KeryxBindingIdentity r))) (validate_keryx_binding_identity U r)"

definition pending ::
    "uuid_ops \<Rightarrow> KeryxBindingId \<Rightarrow> NetworkId \<Rightarrow> DeviceId \<Rightarrow> ProviderBindingId \<Rightarrow> Generation \<Rightarrow> u64 \<Rightarrow>
     DateTime \<Rightarrow> AgentVersion \<Rightarrow> KeryxBindingIdentity domain_result option" where
  "pending U binding_id network_id device_id provider_binding_id generation revision created_at
     agent_version =
   from_persisted U
     \<lparr>kb_binding_id = binding_id, kb_network_id = network_id, kb_device_id = device_id,
      kb_provider_binding_id = provider_binding_id, kb_verified_peer_id = None,
      kb_generation = generation, kb_revision = revision, kb_state = KBPending,
      kb_created_at = created_at, kb_confirmed_at = None, kb_rotated_at = None,
      kb_revoked_at = None, kb_stale_at = None, kb_last_verified_at = None,
      kb_rotated_from = None, kb_agent_version = agent_version\<rparr>"

definition pending_rotation ::
    "uuid_ops \<Rightarrow> KeryxBindingId \<Rightarrow> NetworkId \<Rightarrow> DeviceId \<Rightarrow> ProviderBindingId \<Rightarrow> Generation \<Rightarrow> u64 \<Rightarrow>
     DateTime \<Rightarrow> AgentVersion \<Rightarrow> KeryxBindingId \<Rightarrow> KeryxBindingIdentity domain_result option" where
  "pending_rotation U binding_id network_id device_id provider_binding_id generation revision
     created_at agent_version rotated_from =
   from_persisted U
     \<lparr>kb_binding_id = binding_id, kb_network_id = network_id, kb_device_id = device_id,
      kb_provider_binding_id = provider_binding_id, kb_verified_peer_id = None,
      kb_generation = generation, kb_revision = revision, kb_state = KBPending,
      kb_created_at = created_at, kb_confirmed_at = None, kb_rotated_at = None,
      kb_revoked_at = None, kb_stale_at = None, kb_last_verified_at = None,
      kb_rotated_from = Some rotated_from, kb_agent_version = agent_version\<rparr>"

section \<open>What an accepted identity is\<close>

text \<open>
  The specification: non-nil identifiers, a well-formed peer, positive counters, a lineage
  that matches the generation, the evidence its state calls for, and lifecycle timestamps
  in chronological order from creation to the end of the binding's life.
\<close>

definition keryx_ids_ok :: "KeryxBindingIdentityRecord \<Rightarrow> bool" where
  "keryx_ids_ok r \<longleftrightarrow>
     id_uuid (kb_binding_id r) \<noteq> 0 \<and> id_uuid (kb_network_id r) \<noteq> 0 \<and>
     id_uuid (kb_device_id r) \<noteq> 0 \<and> id_uuid (kb_provider_binding_id r) \<noteq> 0 \<and>
     (\<forall>i. kb_rotated_from r = Some i \<longrightarrow> id_uuid i \<noteq> 0) \<and>
     (\<forall>p. kb_verified_peer_id r = Some p \<longrightarrow> bounded_safe 255 (peer_id_str p)) \<and>
     gen_get (kb_generation r) \<noteq> 0 \<and> kb_revision r \<noteq> 0"

definition keryx_lineage_ok :: "KeryxBindingIdentityRecord \<Rightarrow> bool" where
  "keryx_lineage_ok r \<longleftrightarrow>
     (gen_get (kb_generation r) = 1 \<longleftrightarrow> kb_rotated_from r = None) \<and>
     kb_rotated_from r \<noteq> Some (kb_binding_id r)"

definition keryx_timeline :: "KeryxBindingIdentityRecord \<Rightarrow> DateTime list" where
  "keryx_timeline r =
     kb_created_at r # List.map_filter id
       [kb_confirmed_at r, kb_last_verified_at r, kb_stale_at r, kb_rotated_at r, kb_revoked_at r]"

definition keryx_well_formed :: "KeryxBindingIdentityRecord \<Rightarrow> bool" where
  "keryx_well_formed r \<longleftrightarrow>
     keryx_ids_ok r \<and> keryx_lineage_ok r \<and> keryx_state_evidence r \<and> sorted (keryx_timeline r)"

lemma option_or_simps [simp]: "option_or None b = b" "option_or (Some x) b = Some x"
  by (simp_all add: option_or_def)

lemma keryx_authority_values_ok:
  assumes "uuid_laws U"
  shows "validate_keryx_binding_identity_authority_values U r = Inr () \<and> kb_revision r \<noteq> 0
    \<longleftrightarrow> keryx_ids_ok r"
  unfolding validate_keryx_binding_identity_authority_values_def keryx_ids_ok_def uuid_id_parsers
  using assms
  by (cases "kb_rotated_from r"; cases "kb_verified_peer_id r")
    (auto simp: guard_simps peer_id.parse_Inr_iff)

lemma keryx_lineage_iff:
  "gen_get (kb_generation r) \<noteq> 0 \<Longrightarrow>
   validate_keryx_binding_rotation_lineage r = Inr () \<longleftrightarrow> keryx_lineage_ok r"
  by (cases "kb_rotated_from r")
    (auto simp: validate_keryx_binding_rotation_lineage_def keryx_lineage_ok_def)

lemmas keryx_time_checks =
  keryx_created_first_def keryx_confirmed_before_def keryx_verified_before_transition_def
  last_verification_upper_bound_def keryx_stale_before_end_def ordered_pair_def guard_simps

definition keryx_time_checks_ok :: "KeryxBindingIdentityRecord \<Rightarrow> bool" where
  "keryx_time_checks_ok r \<longleftrightarrow>
     keryx_created_first r = Inr () \<and> keryx_confirmed_before r = Inr () \<and>
     keryx_verified_before_transition r = Inr () \<and> keryx_stale_before_end r = Inr () \<and>
     \<not> (is_some (kb_last_verified_at r) \<and> kb_verified_peer_id r = None)"

text \<open>In each state the pairwise checks of the code amount to one chronological order.\<close>

lemma keryx_timeline_iff:
  "keryx_state_evidence r \<Longrightarrow> keryx_time_checks_ok r \<longleftrightarrow> sorted (keryx_timeline r)"
  unfolding keryx_time_checks_ok_def keryx_time_checks keryx_state_evidence_def keryx_timeline_def
  by (cases "kb_state r"; cases "kb_confirmed_at r"; cases "kb_last_verified_at r";
      cases "kb_stale_at r"; cases "kb_rotated_at r"; cases "kb_revoked_at r";
      cases "kb_verified_peer_id r")
    (auto simp: List.map_filter_def guard_simps)

lemma validate_before_expect_iff:
  assumes "uuid_laws U"
  shows "validate_keryx_before_expect U r = Inr () \<longleftrightarrow> keryx_well_formed r"
proof -
  have "validate_keryx_before_expect U r = Inr () \<longleftrightarrow>
      (validate_keryx_binding_identity_authority_values U r = Inr () \<and> kb_revision r \<noteq> 0) \<and>
      validate_keryx_binding_rotation_lineage r = Inr () \<and> keryx_state_evidence r \<and>
      keryx_time_checks_ok r"
    by (auto simp: validate_keryx_before_expect_def keryx_time_checks_ok_def guard_simps)
  also have "\<dots> \<longleftrightarrow> keryx_well_formed r"
    using keryx_authority_values_ok [OF assms] keryx_lineage_iff keryx_timeline_iff
    by (auto simp: keryx_well_formed_def keryx_ids_ok_def)
  finally show ?thesis .
qed

lemma evidence_verified_confirmed:
  "keryx_state_evidence r \<Longrightarrow> kb_last_verified_at r = Some t \<Longrightarrow> \<exists>c. kb_confirmed_at r = Some c"
  by (cases "kb_state r"; cases "kb_confirmed_at r") (auto simp: keryx_state_evidence_def)

lemma expect_reached_ok:
  assumes "uuid_laws U" "validate_keryx_before_expect U r = Inr ()"
  shows "keryx_expect_confirmed r = Some (Inr ())"
proof -
  from assms have wf: "keryx_well_formed r" by (simp add: validate_before_expect_iff)
  then have ev: "keryx_state_evidence r" and srt: "sorted (keryx_timeline r)"
    by (simp_all add: keryx_well_formed_def)
  show ?thesis
  proof (cases "kb_last_verified_at r")
    case None
    then show ?thesis by (simp add: keryx_expect_confirmed_def)
  next
    case (Some t)
    with ev obtain c where c: "kb_confirmed_at r = Some c"
      using evidence_verified_confirmed by blast
    with Some srt have "c \<le> t" by (simp add: keryx_timeline_def List.map_filter_def)
    with Some c show ?thesis by (simp add: keryx_expect_confirmed_def)
  qed
qed

lemma validate_total:
  assumes "uuid_laws U"
  shows "validate_keryx_binding_identity U r = Some (validate_keryx_before_expect U r)"
  using expect_reached_ok [OF assms, of r]
  by (cases "validate_keryx_before_expect U r") (auto simp: validate_keryx_binding_identity_def)

text \<open>Validation of a persisted Keryx binding identity never panics (its \<^verbatim>\<open>expect\<close> is never
  reached without a confirmation), and it accepts exactly the well-formed records: non-nil
  identifiers, positive generation and revision, a predecessor exactly from generation two
  on and never itself, the evidence of the record's state, and timestamps in one
  chronological order: creation, confirmation, last verification, staleness, end.\<close>
theorem keryx_identity_accepts_well_formed:
  assumes "uuid_laws U"
  shows "validate_keryx_binding_identity U r \<noteq> None \<and>
    (validate_keryx_binding_identity U r = Some (Inr ()) \<longleftrightarrow> keryx_well_formed r)"
  by (simp add: validate_total [OF assms] validate_before_expect_iff [OF assms])

definition sample_active_record :: KeryxBindingIdentityRecord where
  "sample_active_record =
     \<lparr>kb_binding_id = TypedId 1, kb_network_id = TypedId 2, kb_device_id = TypedId 3,
      kb_provider_binding_id = TypedId 4, kb_verified_peer_id = Some (KeryxPeerId ''peer-7''),
      kb_generation = Generation 1, kb_revision = 2, kb_state = KBActive,
      kb_created_at = 10, kb_confirmed_at = Some 20, kb_rotated_at = None,
      kb_revoked_at = None, kb_stale_at = None, kb_last_verified_at = Some 25,
      kb_rotated_from = None, kb_agent_version = AgentVersion ''agent:1''\<rparr>"

lemma sample_active_well_formed: "keryx_well_formed sample_active_record"
  by (simp add: keryx_well_formed_def keryx_ids_ok_def keryx_lineage_ok_def keryx_state_evidence_def
      keryx_timeline_def sample_active_record_def bounded_safe_def safe_id_byte_def
      is_ascii_alphanumeric_def is_ascii_digit_def byte_val_def List.map_filter_def)

theorem keryx_identity_accepts_well_formed_witness:
  "validate_keryx_binding_identity hex_uuid_ops sample_active_record = Some (Inr ())"
  using keryx_identity_accepts_well_formed [OF hex_uuid_laws, of sample_active_record]
    sample_active_well_formed by blast

lemma from_persisted_eq:
  assumes "uuid_laws U"
  shows "from_persisted U r = Some (Inr i) \<longleftrightarrow> keryx_well_formed r \<and> i = KeryxBindingIdentity r"
  using validate_before_expect_iff [OF assms, of r]
  by (auto simp: from_persisted_def validate_total [OF assms] guard_simps)

lemma pending_Inr:
  assumes "uuid_laws U"
    and "id_uuid b \<noteq> 0" "id_uuid n \<noteq> 0" "id_uuid d \<noteq> 0" "id_uuid pb \<noteq> 0"
    and "revision \<noteq> 0" "gen_get g \<noteq> 0"
  shows "pending U b n d pb g revision now v = Some (Inr i) \<longleftrightarrow>
    gen_get g = 1 \<and> i = KeryxBindingIdentity
     \<lparr>kb_binding_id = b, kb_network_id = n, kb_device_id = d, kb_provider_binding_id = pb,
      kb_verified_peer_id = None, kb_generation = g, kb_revision = revision,
      kb_state = KBPending, kb_created_at = now, kb_confirmed_at = None, kb_rotated_at = None,
      kb_revoked_at = None, kb_stale_at = None, kb_last_verified_at = None,
      kb_rotated_from = None, kb_agent_version = v\<rparr>"
  using assms(2-)
  by (simp add: pending_def from_persisted_eq [OF assms(1)] keryx_well_formed_def keryx_ids_ok_def
      keryx_lineage_ok_def keryx_state_evidence_def keryx_timeline_def List.map_filter_def)

lemma pending_rotation_Inr:
  assumes "uuid_laws U"
    and "id_uuid b \<noteq> 0" "id_uuid n \<noteq> 0" "id_uuid d \<noteq> 0" "id_uuid pb \<noteq> 0"
    and "revision \<noteq> 0" "gen_get g \<noteq> 0"
  shows "pending_rotation U b n d pb g revision now v p = Some (Inr i) \<longleftrightarrow>
    (gen_get g \<noteq> 1 \<and> id_uuid p \<noteq> 0 \<and> p \<noteq> b) \<and> i = KeryxBindingIdentity
     \<lparr>kb_binding_id = b, kb_network_id = n, kb_device_id = d, kb_provider_binding_id = pb,
      kb_verified_peer_id = None, kb_generation = g, kb_revision = revision,
      kb_state = KBPending, kb_created_at = now, kb_confirmed_at = None, kb_rotated_at = None,
      kb_revoked_at = None, kb_stale_at = None, kb_last_verified_at = None,
      kb_rotated_from = Some p, kb_agent_version = v\<rparr>"
  using assms(2-)
  by (simp add: pending_rotation_def from_persisted_eq [OF assms(1)] keryx_well_formed_def
      keryx_ids_ok_def keryx_lineage_ok_def keryx_state_evidence_def keryx_timeline_def
      List.map_filter_def) blast

definition carries_no_evidence :: "KeryxBindingIdentity \<Rightarrow> bool" where
  "carries_no_evidence i \<longleftrightarrow>
     kb_state (kb_record i) = KBPending \<and> kb_verified_peer_id (kb_record i) = None \<and>
     kb_confirmed_at (kb_record i) = None \<and> kb_last_verified_at (kb_record i) = None"

text \<open>A pending binding can be built exactly for generation one, a pending rotation exactly
  for a later generation with a non-nil predecessor other than itself. Both carry no peer and
  no confirmation, so neither constructor can make a binding that counts as verified.\<close>
theorem pending_bindings_carry_no_evidence:
  assumes "uuid_laws U"
    and "id_uuid b \<noteq> 0" "id_uuid n \<noteq> 0" "id_uuid d \<noteq> 0" "id_uuid pb \<noteq> 0"
    and "revision \<noteq> 0" "gen_get g \<noteq> 0"
  shows "((\<exists>i. pending U b n d pb g revision now v = Some (Inr i)) \<longleftrightarrow> gen_get g = 1) \<and>
    ((\<exists>i. pending_rotation U b n d pb g revision now v p = Some (Inr i)) \<longleftrightarrow>
       gen_get g \<noteq> 1 \<and> id_uuid p \<noteq> 0 \<and> p \<noteq> b) \<and>
    (\<forall>i. pending U b n d pb g revision now v = Some (Inr i) \<longrightarrow> carries_no_evidence i) \<and>
    (\<forall>i. pending_rotation U b n d pb g revision now v p = Some (Inr i) \<longrightarrow> carries_no_evidence i)"
  unfolding pending_Inr [OF assms] pending_rotation_Inr [OF assms]
  by (intro conjI) (simp_all add: carries_no_evidence_def)

theorem pending_bindings_carry_no_evidence_witness:
  "(\<exists>i. pending hex_uuid_ops (TypedId 1) (TypedId 2) (TypedId 3) (TypedId 4) (Generation 1) 1 0
        (AgentVersion ''a'') = Some (Inr i)) \<and>
   (\<exists>i. pending_rotation hex_uuid_ops (TypedId 1) (TypedId 2) (TypedId 3) (TypedId 4) (Generation 2)
        1 0 (AgentVersion ''a'') (TypedId 9) = Some (Inr i))"
proof -
  have nz: "id_uuid (TypedId 1 :: KeryxBindingId) \<noteq> 0" "id_uuid (TypedId 2 :: NetworkId) \<noteq> 0"
    "id_uuid (TypedId 3 :: DeviceId) \<noteq> 0" "id_uuid (TypedId 4 :: ProviderBindingId) \<noteq> 0"
    "(1 :: u64) \<noteq> 0" "gen_get (Generation 1) \<noteq> 0" "gen_get (Generation 2) \<noteq> 0"
    "gen_get (Generation 2) \<noteq> 1" "gen_get (Generation 1) = 1"
    "id_uuid (TypedId 9 :: KeryxBindingId) \<noteq> 0" "(TypedId 9 :: KeryxBindingId) \<noteq> TypedId 1"
    by simp_all
  note first = pending_bindings_carry_no_evidence [OF hex_uuid_laws nz(1-5) nz(6),
      THEN conjunct1, THEN iffD2, OF nz(9)]
  note later = pending_bindings_carry_no_evidence [OF hex_uuid_laws nz(1-5) nz(7),
      THEN conjunct2, THEN conjunct1, THEN iffD2, OF conjI [OF nz(8) conjI [OF nz(10-11)]]]
  show ?thesis by (intro conjI) (rule first, rule later)
qed

section \<open>Device generations\<close>

record DeviceGenerations =
  dg_credential :: Generation
  dg_keryx_binding :: Generation
  dg_fleet_projection :: Generation

definition DeviceGenerations_initial :: DeviceGenerations where
  "DeviceGenerations_initial =
     \<lparr>dg_credential = Generation_initial, dg_keryx_binding = Generation_initial,
      dg_fleet_projection = Generation_initial\<rparr>"

definition advance_credential ::
    "DeviceGenerations \<Rightarrow> Generation \<Rightarrow> Generation \<Rightarrow> DeviceGenerations domain_result" where
  "advance_credential g expected nxt =
     and_then (validate_advance (dg_credential g) expected nxt) (\<lambda>_. Inr (g\<lparr>dg_credential := nxt\<rparr>))"

definition advance_keryx_binding ::
    "DeviceGenerations \<Rightarrow> Generation \<Rightarrow> Generation \<Rightarrow> DeviceGenerations domain_result" where
  "advance_keryx_binding g expected nxt =
     and_then (validate_advance (dg_keryx_binding g) expected nxt)
       (\<lambda>_. Inr (g\<lparr>dg_keryx_binding := nxt\<rparr>))"

definition advance_fleet_projection ::
    "DeviceGenerations \<Rightarrow> Generation \<Rightarrow> Generation \<Rightarrow> DeviceGenerations domain_result" where
  "advance_fleet_projection g expected nxt =
     and_then (validate_advance (dg_fleet_projection g) expected nxt)
       (\<lambda>_. Inr (g\<lparr>dg_fleet_projection := nxt\<rparr>))"

text \<open>A history of advances, each naming its counter, the expected value and the next one.\<close>

datatype generation_request =
  AdvanceCredential Generation Generation
  | AdvanceKeryx Generation Generation
  | AdvanceFleet Generation Generation

fun advance_one :: "DeviceGenerations \<Rightarrow> generation_request \<Rightarrow> DeviceGenerations domain_result" where
  "advance_one g (AdvanceCredential e n) = advance_credential g e n"
| "advance_one g (AdvanceKeryx e n) = advance_keryx_binding g e n"
| "advance_one g (AdvanceFleet e n) = advance_fleet_projection g e n"

text \<open>A failed request leaves the counters as they are and the history goes on.\<close>

fun advance_all :: "DeviceGenerations \<Rightarrow> generation_request list \<Rightarrow> DeviceGenerations" where
  "advance_all g [] = g"
| "advance_all g (q # qs) =
     advance_all (case advance_one g q of Inl _ \<Rightarrow> g | Inr g' \<Rightarrow> g') qs"

fun fleet_requests :: "generation_request list \<Rightarrow> generation_request list" where
  "fleet_requests [] = []"
| "fleet_requests (AdvanceFleet e n # qs) = AdvanceFleet e n # fleet_requests qs"
| "fleet_requests (AdvanceCredential e n # qs) = fleet_requests qs"
| "fleet_requests (AdvanceKeryx e n # qs) = fleet_requests qs"

lemmas advance_defs = advance_credential_def advance_keryx_binding_def advance_fleet_projection_def

definition generations_le :: "DeviceGenerations \<Rightarrow> DeviceGenerations \<Rightarrow> bool" where
  "generations_le g h \<longleftrightarrow>
     dg_credential g \<le> dg_credential h \<and> dg_keryx_binding g \<le> dg_keryx_binding h \<and>
     dg_fleet_projection g \<le> dg_fleet_projection h"

lemma advance_one_le: "advance_one g q = Inr h \<Longrightarrow> generations_le g h"
  by (cases q) (auto simp: advance_defs guard_simps generations_le_def)

lemma generations_le_trans: "generations_le a b \<Longrightarrow> generations_le b c \<Longrightarrow> generations_le a c"
  by (auto simp: generations_le_def)

lemma advance_all_le: "generations_le g (advance_all g qs)"
proof (induction qs arbitrary: g)
  case Nil
  then show ?case by (simp add: generations_le_def)
next
  case (Cons q qs)
  show ?case
  proof (cases "advance_one g q")
    case (Inl e)
    with Cons show ?thesis by simp
  next
    case (Inr h)
    with Cons advance_one_le generations_le_trans show ?thesis by fastforce
  qed
qed

lemma advance_all_fleet_frame:
  "dg_fleet_projection g = dg_fleet_projection h \<Longrightarrow>
   dg_fleet_projection (advance_all g qs) = dg_fleet_projection (advance_all h (fleet_requests qs))"
proof (induction qs arbitrary: g h rule: fleet_requests.induct)
  case 1
  then show ?case by simp
next
  case (2 e n qs)
  then show ?case
    by (cases "validate_advance (dg_fleet_projection h) e n") (simp_all add: advance_defs)
next
  case (3 e n qs)
  have "dg_fleet_projection (case advance_credential g e n of Inl _ \<Rightarrow> g | Inr g' \<Rightarrow> g') =
      dg_fleet_projection h"
    using 3(2)
    by (cases "validate_advance (dg_credential g) e n") (simp_all add: advance_defs)
  with 3(1) show ?case by simp
next
  case (4 e n qs)
  have "dg_fleet_projection (case advance_keryx_binding g e n of Inl _ \<Rightarrow> g | Inr g' \<Rightarrow> g') =
      dg_fleet_projection h"
    using 4(2)
    by (cases "validate_advance (dg_keryx_binding g) e n") (simp_all add: advance_defs)
  with 4(1) show ?case by simp
qed

text \<open>Over any history of advance requests, accepted or refused, none of the three device
  generations ever decreases, and the fleet projection generation depends on the fleet
  requests alone: credential and Keryx rotations never move it.\<close>
theorem device_generations_monotone_independent:
  shows "dg_credential g \<le> dg_credential (advance_all g qs) \<and>
    dg_keryx_binding g \<le> dg_keryx_binding (advance_all g qs) \<and>
    dg_fleet_projection g \<le> dg_fleet_projection (advance_all g qs) \<and>
    dg_fleet_projection (advance_all g qs) = dg_fleet_projection (advance_all g (fleet_requests qs))"
  using advance_all_le [of g qs] advance_all_fleet_frame [of g g qs]
  by (simp add: generations_le_def)

section \<open>Networks and devices\<close>

definition validate_name :: "string \<Rightarrow> string \<Rightarrow> string domain_result" where
  "validate_name value kind =
     (if trims_to_empty value \<or> length value > 128 \<or> has_control_char value
      then Inl (InvalidValue kind ''must be 1..=128 printable characters'')
      else Inr value)"

record Network =
  nw_network_id :: NetworkId
  nw_name :: string
  nw_state :: NetworkState
  nw_provider_kind :: ProviderKind
  nw_provider_instance_id :: ProviderInstanceId
  nw_membership_generation :: Generation
  nw_policy_generation :: Generation
  nw_default_roles :: Roles
  nw_baseline_operations :: "Operation list"
  nw_created_at :: DateTime
  nw_updated_at :: DateTime

definition Network_new ::
    "NetworkId \<Rightarrow> string \<Rightarrow> ProviderKind \<Rightarrow> ProviderInstanceId \<Rightarrow> DateTime \<Rightarrow> Network domain_result" where
  "Network_new network_id name provider_kind provider_instance_id now =
     and_then (validate_name name ''network name'') (\<lambda>name.
     and_then (Roles_new [Node]) (\<lambda>roles.
     Inr \<lparr>nw_network_id = network_id, nw_name = name, nw_state = NSCreating,
          nw_provider_kind = provider_kind, nw_provider_instance_id = provider_instance_id,
          nw_membership_generation = Generation_initial, nw_policy_generation = Generation_initial,
          nw_default_roles = roles,
          nw_baseline_operations = btree_of [FleetHealth, FleetInventory, FleetMessage],
          nw_created_at = now, nw_updated_at = now\<rparr>))"

record Device =
  dv_device_id :: DeviceId
  dv_network_id :: NetworkId
  dv_display_name :: string
  dv_membership_state :: MembershipState
  dv_roles :: Roles
  dv_provider_identity :: "ProviderIdentity option"
  dv_generations :: DeviceGenerations
  dv_keryx_binding :: "KeryxBindingIdentity option"
  dv_fleet_projection_status :: ProjectionStatus
  dv_created_at :: DateTime
  dv_updated_at :: DateTime
  dv_revoked_at :: "DateTime option"
  dv_revocation_reason :: "string option"

definition Device_new :: "DeviceId \<Rightarrow> NetworkId \<Rightarrow> string \<Rightarrow> DateTime \<Rightarrow> Device domain_result" where
  "Device_new device_id network_id display_name now =
     and_then (validate_name display_name ''display name'') (\<lambda>display_name.
     and_then (Roles_new [Node]) (\<lambda>roles.
     Inr \<lparr>dv_device_id = device_id, dv_network_id = network_id, dv_display_name = display_name,
          dv_membership_state = MSPending, dv_roles = roles, dv_provider_identity = None,
          dv_generations = DeviceGenerations_initial, dv_keryx_binding = None,
          dv_fleet_projection_status = PSNotRequested, dv_created_at = now, dv_updated_at = now,
          dv_revoked_at = None, dv_revocation_reason = None\<rparr>))"

lemma Roles_new_single: "Roles_new [r] = Inr (Roles [r])"
  by (simp add: Roles_new_def btree_of_def Let_def)

text \<open>A new device is only a pending member: it has no provider identity, no Keryx binding,
  no requested projection and just the node role, whatever its name; a new network grants the
  three baseline operations and never execution.\<close>
theorem new_subjects_have_no_authority:
  shows "Device_new di ni nm t = Inr d \<Longrightarrow> Network_new ni nn pk pi u = Inr w \<Longrightarrow>
    dv_membership_state d = MSPending \<and> dv_provider_identity d = None \<and>
    dv_keryx_binding d = None \<and> dv_fleet_projection_status d = PSNotRequested \<and>
    role_list (dv_roles d) = [Node] \<and> \<not> Roles_contains (dv_roles d) Admin \<and>
    nw_state w = NSCreating \<and> FleetHermesRun \<notin> set (nw_baseline_operations w) \<and>
    set (nw_baseline_operations w) = {FleetHealth, FleetInventory, FleetMessage}"
  by (auto simp: Device_new_def Network_new_def guard_simps Roles_new_single Roles_contains_def)

lemma sample_name_ok:
  "validate_name ''node-7'' kind = Inr ''node-7''"
  by (simp add: validate_name_def trims_to_empty_def has_control_char_def str_chars_def byte_val_def
      cp_is_whitespace_def cp_is_control_def)

lemma sample_device_new: "\<exists>d. Device_new (TypedId 3) (TypedId 2) ''node-7'' 5 = Inr d"
  by (simp add: Device_new_def sample_name_ok Roles_new_single)

lemma sample_network_new:
  "\<exists>w. Network_new (TypedId 2) ''node-7'' PKHeadscale (TypedId 8) 5 = Inr w"
  by (simp add: Network_new_def sample_name_ok Roles_new_single)

theorem new_subjects_have_no_authority_witness:
  "\<exists>d w. Device_new (TypedId 3) (TypedId 2) ''node-7'' 5 = Inr d \<and>
     Network_new (TypedId 2) ''node-7'' PKHeadscale (TypedId 8) 5 = Inr w \<and>
     dv_membership_state d = MSPending \<and> FleetHermesRun \<notin> set (nw_baseline_operations w)"
  using sample_device_new sample_network_new new_subjects_have_no_authority by blast

end
