(* ===== verification/Tokens.thy ===== *)
theory Tokens
  imports Keryx_Identity Reference_Codecs
begin

text \<open>
  The bearer secrets of \<^verbatim>\<open>crates/nodescale-domain/src/lib.rs\<close> (lines 1178 to 2000 and
  2695 to 2705): invitation, owner trust-root and adoption tokens, binding nonces, and the
  verifiers that are stored in their place, then the bounded names of operations and reasons.

  The \<^verbatim>\<open>base64\<close>, \<^verbatim>\<open>argon2\<close> and \<^verbatim>\<open>password-hash\<close> crates are parameters. Random bytes
  (\<^verbatim>\<open>OsRng\<close>) and salts are arguments of the operations that draw them. A Rust array of
  32 bytes is a byte list of length 32; \<open>has_secret\<close> and friends say so. Zeroizing a buffer
  after its last use changes no value that is read again and is left out.
\<close>

section \<open>UUID bytes\<close>

definition uuid_as_bytes :: "uuid \<Rightarrow> u8 list" where
  "uuid_as_bytes u = map word_of_nat (be_digits 256 16 (unat u))"

definition uuid_from_bytes :: "u8 list \<Rightarrow> uuid" where
  "uuid_from_bytes bs = word_of_nat (be_value 256 (map unat bs))"

lemma length_uuid_as_bytes [simp]: "length (uuid_as_bytes u) = 16"
  by (simp add: uuid_as_bytes_def)

lemma map_unat_of_nat_u8:
  "list_all (\<lambda>d. d < 256) ds \<Longrightarrow> map unat (map word_of_nat ds :: u8 list) = ds"
  by (induction ds) (auto simp: unat_of_nat)

lemma uuid_from_as_bytes [simp]: "uuid_from_bytes (uuid_as_bytes u) = u"
proof -
  have lt: "unat u < 256 ^ 16" using unsigned_less [of u] by simp
  have "list_all (\<lambda>d. d < 256) (be_digits 256 16 (unat u))"
    unfolding list_all_iff by (auto intro: be_digits_less)
  then have "map unat (uuid_as_bytes u) = be_digits 256 16 (unat u)"
    unfolding uuid_as_bytes_def by (rule map_unat_of_nat_u8)
  with lt show ?thesis by (simp add: uuid_from_bytes_def be_value_be_digits)
qed

lemma uuid_as_from_bytes:
  assumes "length bs = 16"
  shows "uuid_as_bytes (uuid_from_bytes bs) = bs"
proof -
  let ?ds = "map unat bs"
  have small: "list_all (\<lambda>d. d < 256) ?ds" by (simp add: list_all_iff unat_u8_less)
  then have "be_value 256 ?ds < 256 ^ length ?ds" by (rule be_value_less)
  with assms have "be_value 256 ?ds < 2 ^ 128" by simp
  then have "unat (uuid_from_bytes bs) = be_value 256 ?ds"
    by (simp add: uuid_from_bytes_def unat_of_nat)
  moreover have "be_digits 256 16 (be_value 256 ?ds) = ?ds"
    using be_digits_be_value [OF small] assms by simp
  ultimately show ?thesis by (simp add: uuid_as_bytes_def comp_def)
qed

section \<open>Canonical decoding into a fixed buffer\<close>

text \<open>
  \<^verbatim>\<open>decode_slice\<close> writes the decoded bytes to the start of a zeroed buffer and returns their
  number; it fails when the text is not base64url or does not fit. \<open>decode_canonical\<close> is the
  check that the three token parsers share: as many bytes as the buffer holds, and the buffer
  encodes back to the text.
\<close>

definition decode_slice :: "base64_ops \<Rightarrow> nat \<Rightarrow> string \<Rightarrow> (nat \<times> u8 list) option" where
  "decode_slice B n encoded =
     (case b64_decode B encoded of
        None \<Rightarrow> None
      | Some ds \<Rightarrow>
          if length ds > n then None else Some (length ds, ds @ replicate (n - length ds) 0))"

definition decode_canonical ::
    "base64_ops \<Rightarrow> string \<Rightarrow> nat \<Rightarrow> string \<Rightarrow> u8 list domain_result" where
  "decode_canonical B kind n encoded =
     and_then (ok_or (decode_slice B n encoded)
        (InvalidValue kind ''must be canonical base64url without padding'')) (\<lambda>(decoded, bytes).
     if decoded \<noteq> n \<or> b64_encode B bytes \<noteq> encoded
     then Inl (InvalidValue kind ''must be canonical base64url without padding'')
     else Inr bytes)"

lemma decode_canonical_Inr:
  assumes "base64_laws B"
  shows "decode_canonical B kind n encoded = Inr bytes \<longleftrightarrow>
    length bytes = n \<and> encoded = b64_encode B bytes"
proof
  assume "decode_canonical B kind n encoded = Inr bytes"
  then show "length bytes = n \<and> encoded = b64_encode B bytes"
    by (auto simp: decode_canonical_def decode_slice_def guard_simps
        split: if_splits option.splits)
next
  assume h: "length bytes = n \<and> encoded = b64_encode B bytes"
  then have "b64_decode B encoded = Some bytes" using assms by (simp add: base64_laws_def)
  with h show "decode_canonical B kind n encoded = Inr bytes"
    by (simp add: decode_canonical_def decode_slice_def)
qed

definition INVITATION_TOKEN_BYTES :: nat where "INVITATION_TOKEN_BYTES = 48"
definition INVITATION_TOKEN_ENCODED_LEN :: nat where "INVITATION_TOKEN_ENCODED_LEN = 64"
definition N4_ARGON_OUTPUT_LEN :: nat where "N4_ARGON_OUTPUT_LEN = 32"
definition BINDING_NONCE_BYTES :: nat where "BINDING_NONCE_BYTES = 32"
definition BINDING_NONCE_ENCODED_LEN :: nat where "BINDING_NONCE_ENCODED_LEN = 43"

lemmas token_sizes =
  INVITATION_TOKEN_BYTES_def INVITATION_TOKEN_ENCODED_LEN_def N4_ARGON_OUTPUT_LEN_def
  BINDING_NONCE_BYTES_def BINDING_NONCE_ENCODED_LEN_def

section \<open>The contract of a delivery token\<close>

text \<open>
  What every one-time secret promises: its parser accepts precisely the texts that delivery
  writes, one text per token.
\<close>

locale delivery_token =
  fixes expose :: "'t \<Rightarrow> string"
    and from_str :: "string \<Rightarrow> DomainError + 't"
    and valid :: "'t \<Rightarrow> bool"
  assumes from_str_iff: "from_str s = Inr t \<longleftrightarrow> valid t \<and> s = expose t"
begin

lemma round_trip: "valid t \<Longrightarrow> from_str (expose t) = Inr t"
  by (simp add: from_str_iff)

lemma canonical: "from_str s = Inr t \<Longrightarrow> expose t = s"
  by (simp add: from_str_iff)

lemma one_text: "from_str s = Inr t \<Longrightarrow> from_str s' = Inr t \<Longrightarrow> s' = s"
  by (simp add: from_str_iff)

lemma expose_inj: "valid t \<Longrightarrow> valid u \<Longrightarrow> expose t = expose u \<Longrightarrow> t = u"
  using from_str_iff [of "expose t" t] from_str_iff [of "expose t" u] by simp

end

section \<open>Invitation and trust-root tokens\<close>

text \<open>
  \<^verbatim>\<open>InvitationToken\<close> and \<^verbatim>\<open>OwnerTrustRootToken\<close> repeat the same parser and the same
  delivery text over 48 bytes, a UUID and a secret; the prefix, the kind in the errors and
  the identifier's parser differ.
\<close>

definition bearer_text :: "base64_ops \<Rightarrow> string \<Rightarrow> 'k typed_id \<Rightarrow> u8 list \<Rightarrow> string" where
  "bearer_text B prefix i secret = prefix @ b64_encode B (uuid_as_bytes (id_uuid i) @ secret)"

definition bearer_from_str ::
    "uuid_ops \<Rightarrow> base64_ops \<Rightarrow> string \<Rightarrow> string \<Rightarrow> string \<Rightarrow> (string \<Rightarrow> 'k typed_id domain_result) \<Rightarrow>
     string \<Rightarrow> ('k typed_id \<times> u8 list) domain_result" where
  "bearer_from_str U B prefix kind prefix_error parse_id value =
     and_then (ok_or (strip_prefix prefix value) (InvalidValue kind prefix_error)) (\<lambda>encoded.
     and_then (ensure (\<not> (length encoded \<noteq> INVITATION_TOKEN_ENCODED_LEN \<or>
           length value \<noteq> length prefix + INVITATION_TOKEN_ENCODED_LEN))
        (InvalidValue kind ''must be an exact 48-byte base64url token without padding'')) (\<lambda>_.
     and_then (decode_canonical B kind INVITATION_TOKEN_BYTES encoded) (\<lambda>bytes.
     and_then (parse_id (uuid_display U (uuid_from_bytes (take 16 bytes))))
       (\<lambda>i. Inr (i, drop 16 bytes)))))"

definition bearer_valid :: "'k typed_id \<Rightarrow> u8 list \<Rightarrow> bool" where
  "bearer_valid i secret \<longleftrightarrow> id_uuid i \<noteq> 0 \<and> length secret = N4_ARGON_OUTPUT_LEN"

text \<open>A UUID read from the first sixteen bytes and parsed again is the embedded identifier.\<close>

lemma reparse_from_bytes:
  assumes "uuid_laws U"
  shows "uuid_id_parse U kind (uuid_display U u) = Inr i \<longleftrightarrow> id_uuid i = u \<and> u \<noteq> 0"
  using uuid_id_reparse_Inr [OF assms, of kind "TypedId u" i] by (cases i) (auto simp: id_display_def)

lemma bearer_from_str_iff:
  assumes "uuid_laws U" "base64_laws B"
  shows "bearer_from_str U B prefix kind perr (uuid_id_parse U idk) s = Inr (i, secret) \<longleftrightarrow>
    bearer_valid i secret \<and> s = bearer_text B prefix i secret"
proof
  assume "bearer_from_str U B prefix kind perr (uuid_id_parse U idk) s = Inr (i, secret)"
  then obtain encoded bytes where s: "s = prefix @ encoded"
    and d: "decode_canonical B kind 48 encoded = Inr bytes"
    and i: "uuid_id_parse U idk (uuid_display U (uuid_from_bytes (take 16 bytes))) = Inr i"
    and t: "secret = drop 16 bytes"
    by (auto simp: bearer_from_str_def guard_simps strip_prefix_Some_iff token_sizes)
  from d have enc: "length bytes = 48" "encoded = b64_encode B bytes"
    by (simp_all add: decode_canonical_Inr [OF assms(2)])
  from i have "id_uuid i = uuid_from_bytes (take 16 bytes)" "id_uuid i \<noteq> 0"
    by (simp_all add: reparse_from_bytes [OF assms(1)])
  moreover have "uuid_as_bytes (uuid_from_bytes (take 16 bytes)) = take 16 bytes"
    using enc by (simp add: uuid_as_from_bytes)
  ultimately show "bearer_valid i secret \<and> s = bearer_text B prefix i secret"
    using s t enc by (simp add: bearer_valid_def bearer_text_def token_sizes)
next
  assume h: "bearer_valid i secret \<and> s = bearer_text B prefix i secret"
  let ?bytes = "uuid_as_bytes (id_uuid i) @ secret"
  from h have len: "length ?bytes = 48" by (simp add: bearer_valid_def token_sizes)
  then have d: "decode_canonical B kind 48 (b64_encode B ?bytes) = Inr ?bytes"
    by (simp add: decode_canonical_Inr [OF assms(2)])
  have elen: "length (b64_encode B ?bytes) = 64"
    using assms(2) len by (simp add: base64_laws_def del: length_append)
  have i: "uuid_id_parse U idk (uuid_display U (id_uuid i)) = Inr i"
    using h by (simp add: bearer_valid_def reparse_from_bytes [OF assms(1)])
  from h have "s = prefix @ b64_encode B ?bytes" by (simp add: bearer_text_def)
  then show "bearer_from_str U B prefix kind perr (uuid_id_parse U idk) s = Inr (i, secret)"
    using d elen i by (simp add: bearer_from_str_def token_sizes)
qed

datatype InvitationToken =
  InvitationToken (it_invitation_id: InvitationId) (it_secret: "u8 list")

definition InvitationToken_generate :: "u8 list \<Rightarrow> InvitationId \<Rightarrow> InvitationToken" where
  "InvitationToken_generate random_bytes invitation_id = InvitationToken invitation_id random_bytes"

definition InvitationToken_expose :: "base64_ops \<Rightarrow> InvitationToken \<Rightarrow> string" where
  "InvitationToken_expose B t = bearer_text B ''nsjoin_'' (it_invitation_id t) (it_secret t)"

definition InvitationToken_from_str ::
    "uuid_ops \<Rightarrow> base64_ops \<Rightarrow> string \<Rightarrow> InvitationToken domain_result" where
  "InvitationToken_from_str U B value =
     and_then (bearer_from_str U B ''nsjoin_'' ''invitation token''
        ''must use the exact nsjoin_ prefix'' (parse_InvitationId U) value)
       (\<lambda>(invitation_id, secret). Inr (InvitationToken invitation_id secret))"

datatype OwnerTrustRootToken =
  OwnerTrustRootToken (ot_trust_root_id: TrustRootId) (ot_secret: "u8 list")

definition OwnerTrustRootToken_generate :: "u8 list \<Rightarrow> TrustRootId \<Rightarrow> OwnerTrustRootToken" where
  "OwnerTrustRootToken_generate random_bytes trust_root_id =
     OwnerTrustRootToken trust_root_id random_bytes"

definition OwnerTrustRootToken_expose :: "base64_ops \<Rightarrow> OwnerTrustRootToken \<Rightarrow> string" where
  "OwnerTrustRootToken_expose B t = bearer_text B ''nstrust_'' (ot_trust_root_id t) (ot_secret t)"

definition OwnerTrustRootToken_from_str ::
    "uuid_ops \<Rightarrow> base64_ops \<Rightarrow> string \<Rightarrow> OwnerTrustRootToken domain_result" where
  "OwnerTrustRootToken_from_str U B value =
     and_then (bearer_from_str U B ''nstrust_'' ''owner trust root token''
        ''must use the exact nstrust_ prefix'' (parse_TrustRootId U) value)
       (\<lambda>(trust_root_id, secret). Inr (OwnerTrustRootToken trust_root_id secret))"

definition valid_invitation_token :: "InvitationToken \<Rightarrow> bool" where
  "valid_invitation_token t \<longleftrightarrow> bearer_valid (it_invitation_id t) (it_secret t)"

definition valid_trust_root_token :: "OwnerTrustRootToken \<Rightarrow> bool" where
  "valid_trust_root_token t \<longleftrightarrow> bearer_valid (ot_trust_root_id t) (ot_secret t)"

lemma invitation_token_iff:
  assumes "uuid_laws U" "base64_laws B"
  shows "InvitationToken_from_str U B s = Inr t \<longleftrightarrow>
    valid_invitation_token t \<and> s = InvitationToken_expose B t"
  by (cases t) (auto simp: InvitationToken_from_str_def guard_simps parse_InvitationId_def
      bearer_from_str_iff [OF assms] valid_invitation_token_def InvitationToken_expose_def)

lemma trust_root_token_iff:
  assumes "uuid_laws U" "base64_laws B"
  shows "OwnerTrustRootToken_from_str U B s = Inr t \<longleftrightarrow>
    valid_trust_root_token t \<and> s = OwnerTrustRootToken_expose B t"
  by (cases t) (auto simp: OwnerTrustRootToken_from_str_def guard_simps parse_TrustRootId_def
      bearer_from_str_iff [OF assms] valid_trust_root_token_def OwnerTrustRootToken_expose_def)

section \<open>Binding nonces\<close>

datatype BindingNonce = BindingNonce (nonce_bytes: "u8 list")

definition BindingNonce_generate :: "u8 list \<Rightarrow> BindingNonce" where
  "BindingNonce_generate random_bytes = BindingNonce random_bytes"

definition BindingNonce_with_encoded :: "base64_ops \<Rightarrow> BindingNonce \<Rightarrow> string" where
  "BindingNonce_with_encoded B n = ''nsbind_'' @ b64_encode B (nonce_bytes n)"

definition BindingNonce_from_str :: "base64_ops \<Rightarrow> string \<Rightarrow> BindingNonce domain_result" where
  "BindingNonce_from_str B value =
     and_then (ok_or (strip_prefix ''nsbind_'' value)
        (InvalidValue ''binding nonce'' ''must use the exact nsbind_ prefix'')) (\<lambda>encoded.
     and_then (ensure (\<not> (length encoded \<noteq> BINDING_NONCE_ENCODED_LEN \<or>
           length value \<noteq> length ''nsbind_'' + BINDING_NONCE_ENCODED_LEN))
        (InvalidValue ''binding nonce''
           ''must be an exact 32-byte base64url nonce without padding'')) (\<lambda>_.
     and_then (decode_canonical B ''binding nonce'' BINDING_NONCE_BYTES encoded)
       (\<lambda>bytes. Inr (BindingNonce bytes))))"

definition valid_nonce :: "BindingNonce \<Rightarrow> bool" where
  "valid_nonce n \<longleftrightarrow> length (nonce_bytes n) = BINDING_NONCE_BYTES"

lemma binding_nonce_iff:
  assumes "base64_laws B"
  shows "BindingNonce_from_str B s = Inr n \<longleftrightarrow> valid_nonce n \<and> s = BindingNonce_with_encoded B n"
  using assms
  by (cases n) (auto simp: BindingNonce_from_str_def guard_simps strip_prefix_Some_iff token_sizes
      decode_canonical_Inr [OF assms] valid_nonce_def BindingNonce_with_encoded_def base64_laws_def)

text \<open>With lawful crates the three secrets are delivery tokens.\<close>

locale codec_crates =
  fixes U :: uuid_ops and B :: base64_ops
  assumes uuid_ok: "uuid_laws U"
    and base64_ok: "base64_laws B"

sublocale codec_crates \<subseteq> invitation:
  delivery_token "InvitationToken_expose B" "InvitationToken_from_str U B" valid_invitation_token
  by unfold_locales (rule invitation_token_iff [OF uuid_ok base64_ok])

sublocale codec_crates \<subseteq> trust_root:
  delivery_token "OwnerTrustRootToken_expose B" "OwnerTrustRootToken_from_str U B"
    valid_trust_root_token
  by unfold_locales (rule trust_root_token_iff [OF uuid_ok base64_ok])

sublocale codec_crates \<subseteq> nonce:
  delivery_token "BindingNonce_with_encoded B" "BindingNonce_from_str B" valid_nonce
  by unfold_locales (rule binding_nonce_iff [OF base64_ok])

context codec_crates
begin

lemma secrets_iff:
  "InvitationToken_from_str U B s = Inr t \<longleftrightarrow>
     valid_invitation_token t \<and> s = InvitationToken_expose B t"
  "OwnerTrustRootToken_from_str U B s = Inr r \<longleftrightarrow>
     valid_trust_root_token r \<and> s = OwnerTrustRootToken_expose B r"
  "BindingNonce_from_str B s = Inr n \<longleftrightarrow> valid_nonce n \<and> s = BindingNonce_with_encoded B n"
  by (rule invitation.from_str_iff trust_root.from_str_iff nonce.from_str_iff)+

lemma distinct_secrets_distinct_texts:
  "valid_invitation_token t \<Longrightarrow> valid_invitation_token t' \<Longrightarrow>
     InvitationToken_expose B t = InvitationToken_expose B t' \<Longrightarrow> t = t'"
  "valid_nonce n \<Longrightarrow> valid_nonce n' \<Longrightarrow>
     BindingNonce_with_encoded B n = BindingNonce_with_encoded B n' \<Longrightarrow> n = n'"
  by (rule invitation.expose_inj nonce.expose_inj; assumption)+

end

interpretation reference_crates: codec_crates hex_uuid_ops url_safe_no_pad
  by unfold_locales (rule hex_uuid_laws, rule url_safe_no_pad_laws)

text \<open>C39: Invitation tokens, owner trust-root tokens and binding nonces are parsed from exactly
  the text that delivery writes: what is accepted is a token with a non-nil identifier and a
  32-byte secret whose delivery text is the input, and every such token's text parses back to
  it. No second spelling of a secret is ever accepted.\<close>
theorem delivered_secrets_round_trip:
  assumes "uuid_laws U" "base64_laws B"
  shows "(InvitationToken_from_str U B s = Inr t \<longleftrightarrow>
      bearer_valid (it_invitation_id t) (it_secret t) \<and> s = InvitationToken_expose B t) \<and>
    (OwnerTrustRootToken_from_str U B s = Inr r \<longleftrightarrow>
      bearer_valid (ot_trust_root_id r) (ot_secret r) \<and> s = OwnerTrustRootToken_expose B r) \<and>
    (BindingNonce_from_str B s = Inr n \<longleftrightarrow>
      length (nonce_bytes n) = 32 \<and> s = BindingNonce_with_encoded B n)"
  unfolding codec_crates.secrets_iff [OF codec_crates.intro [OF assms]]
  by (simp add: valid_invitation_token_def valid_trust_root_token_def valid_nonce_def token_sizes)

definition sample_invitation_token :: InvitationToken where
  "sample_invitation_token = InvitationToken (TypedId 7) (replicate 32 9)"

theorem delivered_secrets_round_trip_witness:
  "InvitationToken_from_str hex_uuid_ops url_safe_no_pad
      (InvitationToken_expose url_safe_no_pad sample_invitation_token) = Inr sample_invitation_token \<and>
   BindingNonce_from_str url_safe_no_pad
      (BindingNonce_with_encoded url_safe_no_pad (BindingNonce (replicate 32 3)))
    = Inr (BindingNonce (replicate 32 3))"
proof -
  have v: "bearer_valid (it_invitation_id sample_invitation_token) (it_secret sample_invitation_token)"
    by (simp add: sample_invitation_token_def bearer_valid_def token_sizes)
  show ?thesis
    using v delivered_secrets_round_trip [OF hex_uuid_laws url_safe_no_pad_laws,
        of "InvitationToken_expose url_safe_no_pad sample_invitation_token" sample_invitation_token]
      delivered_secrets_round_trip [OF hex_uuid_laws url_safe_no_pad_laws,
        of "BindingNonce_with_encoded url_safe_no_pad (BindingNonce (replicate 32 3))" _ _
           "BindingNonce (replicate 32 3)"]
    by simp
qed

section \<open>Adoption challenges\<close>

text \<open>
  An adoption challenge carries its UUID as text between two underscores; the parser splits
  at the first underscore after the prefix, so it relies on UUID text having none. Unlike the
  other tokens it accepts a nil identifier and any spelling of a UUID that the crate reads.
\<close>

datatype AdoptionChallengeToken =
  AdoptionChallengeToken (ac_challenge_id: uuid) (ac_secret: "u8 list")

definition AdoptionChallengeToken_generate :: "u8 list \<Rightarrow> uuid \<Rightarrow> AdoptionChallengeToken" where
  "AdoptionChallengeToken_generate random_bytes fresh_uuid =
     AdoptionChallengeToken fresh_uuid random_bytes"

definition AdoptionChallengeToken_with_encoded ::
    "uuid_ops \<Rightarrow> base64_ops \<Rightarrow> AdoptionChallengeToken \<Rightarrow> string" where
  "AdoptionChallengeToken_with_encoded U B t =
     ''nsadopt1_'' @ uuid_display U (ac_challenge_id t) @ ''_'' @ b64_encode B (ac_secret t)"

definition adoption_invalid :: DomainError where
  "adoption_invalid = InvalidValue ''adoption challenge'' ''malformed encoded secret''"

definition AdoptionChallengeToken_from_str ::
    "uuid_ops \<Rightarrow> base64_ops \<Rightarrow> string \<Rightarrow> AdoptionChallengeToken domain_result" where
  "AdoptionChallengeToken_from_str U B value =
     and_then (ok_or (strip_prefix ''nsadopt1_'' value) adoption_invalid) (\<lambda>rest.
     and_then (ok_or (split_once CHR ''_'' rest) adoption_invalid) (\<lambda>(challenge_id, encoded).
     and_then (ok_or (uuid_parse_str U challenge_id) adoption_invalid) (\<lambda>challenge_id.
     and_then (ok_or (b64_decode B encoded) adoption_invalid) (\<lambda>decoded.
     and_then (ensure (length decoded = N4_ARGON_OUTPUT_LEN) adoption_invalid) (\<lambda>_.
     Inr (AdoptionChallengeToken challenge_id decoded))))))"

definition uuid_text_laws :: "uuid_ops \<Rightarrow> bool" where
  "uuid_text_laws U \<longleftrightarrow> uuid_laws U \<and> (\<forall>u. CHR ''_'' \<notin> set (uuid_display U u))"

lemma hex_uuid_text_laws: "uuid_text_laws hex_uuid_ops"
  by (simp add: uuid_text_laws_def hex_uuid_laws hex_display_no_underscore)

lemma adoption_round_trip:
  assumes "uuid_text_laws U" "base64_laws B" "length (ac_secret t) = 32"
  shows "AdoptionChallengeToken_from_str U B (AdoptionChallengeToken_with_encoded U B t) = Inr t"
proof -
  have "split_once CHR ''_'' (uuid_display U (ac_challenge_id t) @ CHR ''_'' # b64_encode B (ac_secret t))
      = Some (uuid_display U (ac_challenge_id t), b64_encode B (ac_secret t))"
    using assms(1) by (intro split_once_append) (simp add: uuid_text_laws_def)
  with assms show ?thesis
    by (simp add: AdoptionChallengeToken_from_str_def AdoptionChallengeToken_with_encoded_def
        uuid_text_laws_def uuid_laws_def base64_laws_def token_sizes)
qed

section \<open>Secret verifiers\<close>

text \<open>
  A parsed password hash (PHC string) and the operations of the \<^verbatim>\<open>argon2\<close> and
  \<^verbatim>\<open>password-hash\<close> crates: \<open>params_new\<close> is \<^verbatim>\<open>Params::new\<close> succeeding, \<open>argon_hash\<close>
  hashes a secret with a salt and prints the PHC string, \<open>phc_new\<close> is
  \<^verbatim>\<open>PasswordHash::new\<close>, \<open>argon_verify\<close> is \<^verbatim>\<open>verify_password(..).is_ok()\<close>.
\<close>

record argon_params =
  ap_memory :: u32
  ap_time :: u32
  ap_parallelism :: u32
  ap_output_len :: nat

record phc =
  phc_algorithm :: string
  phc_version :: "u32 option"
  phc_decimal :: "string \<Rightarrow> u32 option"
  phc_hash :: "u8 list option"

record argon_ops =
  params_new :: "argon_params \<Rightarrow> bool"
  argon_hash :: "argon_params \<Rightarrow> u8 list \<Rightarrow> u8 list \<Rightarrow> string option"
  phc_new :: "string \<Rightarrow> phc option"
  argon_verify :: "u8 list \<Rightarrow> phc \<Rightarrow> bool"

definition N4_ARGON_MEMORY_KIB :: u32 where "N4_ARGON_MEMORY_KIB = 19456"
definition N4_ARGON_TIME_COST :: u32 where "N4_ARGON_TIME_COST = 2"
definition N4_ARGON_PARALLELISM :: u32 where "N4_ARGON_PARALLELISM = 1"
definition LEGACY_INVITATION_ARGON_TIME_COST :: u32 where "LEGACY_INVITATION_ARGON_TIME_COST = 3"

lemmas argon_costs =
  N4_ARGON_MEMORY_KIB_def N4_ARGON_TIME_COST_def N4_ARGON_PARALLELISM_def
  LEGACY_INVITATION_ARGON_TIME_COST_def N4_ARGON_OUTPUT_LEN_def

definition invalid_verifier :: DomainError where
  "invalid_verifier =
     InvalidValue ''secret verifier'' ''must be the fixed Argon2id PHC N4 profile''"

definition argon_params_for :: "argon_ops \<Rightarrow> u32 \<Rightarrow> argon_params domain_result" where
  "argon_params_for A time_cost =
     (let params = \<lparr>ap_memory = N4_ARGON_MEMORY_KIB, ap_time = time_cost,
         ap_parallelism = N4_ARGON_PARALLELISM, ap_output_len = N4_ARGON_OUTPUT_LEN\<rparr>
      in if params_new A params then Inr params else Inl invalid_verifier)"

text \<open>The condition \<^verbatim>\<open>correct_profile\<close>, with the time cost that the two validators differ in.\<close>

definition correct_profile :: "u32 \<Rightarrow> phc \<Rightarrow> bool" where
  "correct_profile time_cost parsed \<longleftrightarrow>
     phc_algorithm parsed = ''argon2id'' \<and> phc_version parsed = Some 19 \<and>
     phc_decimal parsed ''m'' = Some N4_ARGON_MEMORY_KIB \<and>
     phc_decimal parsed ''t'' = Some time_cost \<and>
     phc_decimal parsed ''p'' = Some N4_ARGON_PARALLELISM \<and>
     (case phc_hash parsed of None \<Rightarrow> False | Some h \<Rightarrow> length h = N4_ARGON_OUTPUT_LEN)"

definition validate_legacy_invitation_verifier :: "argon_ops \<Rightarrow> string \<Rightarrow> phc domain_result" where
  "validate_legacy_invitation_verifier A value =
     and_then (ok_or (phc_new A value) invalid_verifier) (\<lambda>parsed.
     if correct_profile LEGACY_INVITATION_ARGON_TIME_COST parsed then Inr parsed
     else Inl invalid_verifier)"

definition validate_n4_verifier :: "argon_ops \<Rightarrow> string \<Rightarrow> phc domain_result" where
  "validate_n4_verifier A value =
     and_then (ok_or (phc_new A value) invalid_verifier) (\<lambda>parsed.
     if correct_profile N4_ARGON_TIME_COST parsed then Inr parsed else Inl invalid_verifier)"

definition is_legacy_sha256_verifier :: "string \<Rightarrow> bool" where
  "is_legacy_sha256_verifier value \<longleftrightarrow>
     length value = 64 \<and>
     list_all (\<lambda>b. is_ascii_digit b \<or> (97 \<le> byte_val b \<and> byte_val b \<le> 102)) value"

datatype SecretVerifier = SecretVerifier (verifier_str: string)

definition SecretVerifier_parse :: "argon_ops \<Rightarrow> string \<Rightarrow> SecretVerifier domain_result" where
  "SecretVerifier_parse A value =
     and_then (validate_n4_verifier A value) (\<lambda>_. Inr (SecretVerifier value))"

text \<open>Deserialization also admits the two legacy forms; \<open>None\<close> is its error.\<close>

definition SecretVerifier_deserialize :: "argon_ops \<Rightarrow> string \<Rightarrow> SecretVerifier option" where
  "SecretVerifier_deserialize A value =
     (if is_ok (validate_n4_verifier A value) \<or>
         is_ok (validate_legacy_invitation_verifier A value) \<or> is_legacy_sha256_verifier value
      then Some (SecretVerifier value) else None)"

definition from_secret_with_time_cost ::
    "argon_ops \<Rightarrow> u8 list \<Rightarrow> u8 list \<Rightarrow> u32 \<Rightarrow> SecretVerifier domain_result" where
  "from_secret_with_time_cost A salt secret time_cost =
     and_then (argon_params_for A time_cost) (\<lambda>params.
     and_then (ok_or (argon_hash A params secret salt) invalid_verifier) (\<lambda>phc.
     if time_cost = N4_ARGON_TIME_COST then SecretVerifier_parse A phc
     else and_then (validate_legacy_invitation_verifier A phc) (\<lambda>_. Inr (SecretVerifier phc))))"

definition from_secret :: "argon_ops \<Rightarrow> u8 list \<Rightarrow> u8 list \<Rightarrow> SecretVerifier domain_result" where
  "from_secret A salt secret = from_secret_with_time_cost A salt secret N4_ARGON_TIME_COST"

definition from_token :: "argon_ops \<Rightarrow> u8 list \<Rightarrow> InvitationToken \<Rightarrow> SecretVerifier domain_result" where
  "from_token A salt token = from_secret A salt (it_secret token)"

definition from_trust_root_token ::
    "argon_ops \<Rightarrow> u8 list \<Rightarrow> OwnerTrustRootToken \<Rightarrow> SecretVerifier domain_result" where
  "from_trust_root_token A salt token = from_secret A salt (ot_secret token)"

definition from_adoption_challenge ::
    "argon_ops \<Rightarrow> u8 list \<Rightarrow> AdoptionChallengeToken \<Rightarrow> SecretVerifier domain_result" where
  "from_adoption_challenge A salt token = from_secret A salt (ac_secret token)"

definition verify_secret :: "argon_ops \<Rightarrow> SecretVerifier \<Rightarrow> u8 list \<Rightarrow> bool domain_result" where
  "verify_secret A v secret =
     and_then (validate_n4_verifier A (verifier_str v)) (\<lambda>parsed. Inr (argon_verify A secret parsed))"

definition verify_token :: "argon_ops \<Rightarrow> SecretVerifier \<Rightarrow> InvitationToken \<Rightarrow> bool domain_result" where
  "verify_token A v token = verify_secret A v (it_secret token)"

definition verify_trust_root ::
    "argon_ops \<Rightarrow> SecretVerifier \<Rightarrow> OwnerTrustRootToken \<Rightarrow> bool domain_result" where
  "verify_trust_root A v token = verify_secret A v (ot_secret token)"

definition verify_adoption_challenge ::
    "argon_ops \<Rightarrow> SecretVerifier \<Rightarrow> AdoptionChallengeToken \<Rightarrow> bool domain_result" where
  "verify_adoption_challenge A v token = verify_secret A v (ac_secret token)"

definition is_n4 :: "argon_ops \<Rightarrow> SecretVerifier \<Rightarrow> bool" where
  "is_n4 A v \<longleftrightarrow> is_ok (validate_n4_verifier A (verifier_str v))"

datatype InvitationSecret = InvitationSecret (invitation_secret_str: string)

definition InvitationSecret_new :: "string \<Rightarrow> InvitationSecret domain_result" where
  "InvitationSecret_new value =
     (if length value < 16
      then Inl (InvalidValue ''invitation secret'' ''must have at least 16 characters'')
      else Inr (InvitationSecret value))"

text \<open>\<^verbatim>\<open>verifier()\<close> expects success: \<open>None\<close> is its panic.\<close>

definition InvitationSecret_verifier ::
    "argon_ops \<Rightarrow> u8 list \<Rightarrow> InvitationSecret \<Rightarrow> SecretVerifier option" where
  "InvitationSecret_verifier A salt s =
     (case from_secret_with_time_cost A salt
         (map (\<lambda>c. word_of_nat (byte_val c)) (invitation_secret_str s))
         LEGACY_INVITATION_ARGON_TIME_COST of
        Inl _ \<Rightarrow> None | Inr v \<Rightarrow> Some v)"

datatype SecretText = SecretText (secret_text_str: string)

definition SecretText_new :: "string \<Rightarrow> string \<Rightarrow> SecretText domain_result" where
  "SecretText_new value kind =
     (if value = [] then Inl (InvalidValue kind ''must be non-empty'') else Inr (SecretText value))"

section \<open>Nonce verifiers\<close>

definition N6_PHC_PREFIX :: string where
  "N6_PHC_PREFIX = ''$argon2id$v=19$m=19456,t=2,p=1$''"

definition invalid_n6_verifier :: DomainError where
  "invalid_n6_verifier =
     InvalidValue ''binding nonce verifier''
       ''must be fixed Argon2id v=19 m=19456,t=2,p=1 with a 32-byte output''"

definition n6_argon_params :: "argon_ops \<Rightarrow> argon_params domain_result" where
  "n6_argon_params A =
     (let params = \<lparr>ap_memory = 19456, ap_time = 2, ap_parallelism = 1,
         ap_output_len = BINDING_NONCE_BYTES\<rparr>
      in if params_new A params then Inr params else Inl invalid_n6_verifier)"

definition phc_alphabet_byte :: "char \<Rightarrow> bool" where
  "phc_alphabet_byte b \<longleftrightarrow> is_ascii_alphanumeric b \<or> b = CHR ''+'' \<or> b = CHR ''/''"

definition decoded_to :: "base64_ops \<Rightarrow> nat \<Rightarrow> string \<Rightarrow> bool" where
  "decoded_to S n text \<longleftrightarrow>
     (case b64_decode S text of
        None \<Rightarrow> False
      | Some bytes \<Rightarrow> length bytes = n \<and> b64_encode S bytes = text)"

definition n6_profile :: "phc \<Rightarrow> bool" where
  "n6_profile parsed \<longleftrightarrow>
     phc_algorithm parsed = ''argon2id'' \<and> phc_version parsed = Some 19 \<and>
     phc_decimal parsed ''m'' = Some 19456 \<and> phc_decimal parsed ''t'' = Some 2 \<and>
     phc_decimal parsed ''p'' = Some 1 \<and>
     (case phc_hash parsed of None \<Rightarrow> False | Some h \<Rightarrow> length h = BINDING_NONCE_BYTES)"

text \<open>\<open>S\<close> is the engine \<^verbatim>\<open>STANDARD_NO_PAD\<close>. All failures give the same error.\<close>

definition validate_n6_verifier :: "argon_ops \<Rightarrow> base64_ops \<Rightarrow> string \<Rightarrow> phc domain_result" where
  "validate_n6_verifier A S value =
     and_then (ensure (\<not> length value \<noteq> length N6_PHC_PREFIX + 22 + 1 + 43) invalid_n6_verifier) (\<lambda>_.
     and_then (ok_or (strip_prefix N6_PHC_PREFIX value) invalid_n6_verifier) (\<lambda>remainder.
     and_then (ok_or (split_once CHR ''$'' remainder) invalid_n6_verifier) (\<lambda>(salt, hash).
     and_then (ensure (\<not> (CHR ''$'' \<in> set hash \<or> length salt \<noteq> 22 \<or> length hash \<noteq> 43 \<or>
         \<not> list_all phc_alphabet_byte (salt @ hash))) invalid_n6_verifier) (\<lambda>_.
     and_then (ensure (decoded_to S 16 salt \<and> decoded_to S BINDING_NONCE_BYTES hash)
         invalid_n6_verifier) (\<lambda>_.
     and_then (ok_or (phc_new A value) invalid_n6_verifier) (\<lambda>parsed.
     if n6_profile parsed then Inr parsed else Inl invalid_n6_verifier))))))"

datatype BindingNonceVerifier = BindingNonceVerifier (nonce_verifier_str: string)

definition BindingNonceVerifier_parse ::
    "argon_ops \<Rightarrow> base64_ops \<Rightarrow> string \<Rightarrow> BindingNonceVerifier domain_result" where
  "BindingNonceVerifier_parse A S value =
     and_then (validate_n6_verifier A S value) (\<lambda>_. Inr (BindingNonceVerifier value))"

definition from_nonce ::
    "argon_ops \<Rightarrow> base64_ops \<Rightarrow> u8 list \<Rightarrow> BindingNonce \<Rightarrow> BindingNonceVerifier domain_result" where
  "from_nonce A S salt nonce =
     and_then (n6_argon_params A) (\<lambda>params.
     and_then (ok_or (argon_hash A params (nonce_bytes nonce) salt) invalid_n6_verifier) (\<lambda>phc.
     BindingNonceVerifier_parse A S phc))"

definition verify_nonce ::
    "argon_ops \<Rightarrow> base64_ops \<Rightarrow> BindingNonceVerifier \<Rightarrow> BindingNonce \<Rightarrow> bool domain_result" where
  "verify_nonce A S v nonce =
     and_then (validate_n6_verifier A S (nonce_verifier_str v))
       (\<lambda>parsed. Inr (argon_verify A (nonce_bytes nonce) parsed))"

section \<open>What the hashing crates are relied on for\<close>

text \<open>
  Hashing at the fixed costs prints \<^verbatim>\<open>$argon2id$v=19$m=19456,t=T,p=1$SALT$HASH\<close> over the
  standard alphabet without padding; that text parses again, shows the same costs, and
  verifies the hashed secret.
\<close>

definition phc_text :: "base64_ops \<Rightarrow> string \<Rightarrow> u8 list \<Rightarrow> u8 list \<Rightarrow> string" where
  "phc_text S prefix salt hash = prefix @ b64_encode S salt @ ''$'' @ b64_encode S hash"

definition costs_prefix :: "u32 \<Rightarrow> string" where
  "costs_prefix t =
     (if t = 2 then ''$argon2id$v=19$m=19456,t=2,p=1$'' else ''$argon2id$v=19$m=19456,t=3,p=1$'')"

definition std_base64_laws :: "base64_ops \<Rightarrow> bool" where
  "std_base64_laws S \<longleftrightarrow>
     base64_laws S \<and> (\<forall>bs. list_all phc_alphabet_byte (b64_encode S bs))"

definition argon_laws :: "argon_ops \<Rightarrow> base64_ops \<Rightarrow> bool" where
  "argon_laws A S \<longleftrightarrow>
     (\<forall>t secret salt. (t = 2 \<or> t = 3) \<and> length salt = 16 \<longrightarrow>
        params_new A \<lparr>ap_memory = 19456, ap_time = t, ap_parallelism = 1, ap_output_len = 32\<rparr> \<and>
        (\<exists>hash parsed.
           argon_hash A \<lparr>ap_memory = 19456, ap_time = t, ap_parallelism = 1, ap_output_len = 32\<rparr>
             secret salt = Some (phc_text S (costs_prefix t) salt hash) \<and>
           length hash = 32 \<and>
           phc_new A (phc_text S (costs_prefix t) salt hash) = Some parsed \<and>
           correct_profile t parsed \<and> argon_verify A secret parsed))"

lemma argon_lawsE:
  assumes "argon_laws A S" "t = 2 \<or> t = 3" "length salt = 16"
  obtains hash parsed where
    "params_new A \<lparr>ap_memory = 19456, ap_time = t, ap_parallelism = 1, ap_output_len = 32\<rparr>"
    "argon_hash A \<lparr>ap_memory = 19456, ap_time = t, ap_parallelism = 1, ap_output_len = 32\<rparr>
       secret salt = Some (phc_text S (costs_prefix t) salt hash)"
    "length hash = 32" "phc_new A (phc_text S (costs_prefix t) salt hash) = Some parsed"
    "correct_profile t parsed" "argon_verify A secret parsed"
  using assms unfolding argon_laws_def by blast

lemma from_secret_ok:
  assumes "argon_laws A S" "length salt = 16"
  shows "\<exists>v. from_secret A salt secret = Inr v \<and> is_n4 A v \<and> verify_secret A v secret = Inr True \<and>
    SecretVerifier_deserialize A (verifier_str v) = Some v"
proof -
  have t: "(2 :: u32) = 2 \<or> (2 :: u32) = 3" by simp
  obtain hash parsed where
    p: "params_new A \<lparr>ap_memory = 19456, ap_time = 2, ap_parallelism = 1, ap_output_len = 32\<rparr>" and
    h: "argon_hash A \<lparr>ap_memory = 19456, ap_time = 2, ap_parallelism = 1, ap_output_len = 32\<rparr>
       secret salt = Some (phc_text S (costs_prefix 2) salt hash)" and
    len: "length hash = 32" and
    n: "phc_new A (phc_text S (costs_prefix 2) salt hash) = Some parsed" and
    c: "correct_profile 2 parsed" and v: "argon_verify A secret parsed"
    by (rule argon_lawsE [OF assms(1) t assms(2)])
  have val: "validate_n4_verifier A (phc_text S (costs_prefix 2) salt hash) = Inr parsed"
    by (simp add: validate_n4_verifier_def n c argon_costs)
  have "from_secret A salt secret = Inr (SecretVerifier (phc_text S (costs_prefix 2) salt hash))"
    by (simp add: from_secret_def from_secret_with_time_cost_def argon_params_for_def argon_costs
        p h val SecretVerifier_parse_def Let_def)
  with val v show ?thesis
    by (simp add: is_n4_def verify_secret_def SecretVerifier_deserialize_def)
qed

lemma legacy_profile_is_not_n4: "correct_profile 3 parsed \<Longrightarrow> \<not> correct_profile 2 parsed"
  by (simp add: correct_profile_def)

lemma legacy_verifier_ok:
  assumes "argon_laws A S" "length salt = 16"
  shows "\<exists>v. InvitationSecret_verifier A salt s = Some v \<and> \<not> is_n4 A v \<and>
    (\<forall>b. verify_secret A v b = Inl invalid_verifier) \<and>
    SecretVerifier_deserialize A (verifier_str v) = Some v"
proof -
  let ?secret = "map (\<lambda>c. word_of_nat (byte_val c)) (invitation_secret_str s) :: u8 list"
  have t: "(3 :: u32) = 2 \<or> (3 :: u32) = 3" by simp
  obtain hash parsed where
    p: "params_new A \<lparr>ap_memory = 19456, ap_time = 3, ap_parallelism = 1, ap_output_len = 32\<rparr>" and
    h: "argon_hash A \<lparr>ap_memory = 19456, ap_time = 3, ap_parallelism = 1, ap_output_len = 32\<rparr>
       ?secret salt = Some (phc_text S (costs_prefix 3) salt hash)" and
    len: "length hash = 32" and
    n: "phc_new A (phc_text S (costs_prefix 3) salt hash) = Some parsed" and
    c: "correct_profile 3 parsed" and v: "argon_verify A ?secret parsed"
    by (rule argon_lawsE [OF assms(1) t assms(2)])
  note no = legacy_profile_is_not_n4 [OF c]
  have leg: "validate_legacy_invitation_verifier A (phc_text S (costs_prefix 3) salt hash) = Inr parsed"
    by (simp add: validate_legacy_invitation_verifier_def n c argon_costs)
  have n4: "validate_n4_verifier A (phc_text S (costs_prefix 3) salt hash) = Inl invalid_verifier"
    using no by (simp add: validate_n4_verifier_def n argon_costs)
  have "InvitationSecret_verifier A salt s =
      Some (SecretVerifier (phc_text S (costs_prefix 3) salt hash))"
    using p h leg
    by (simp add: InvitationSecret_verifier_def from_secret_with_time_cost_def
        argon_params_for_def argon_costs Let_def)
  with leg n4 show ?thesis
    by (simp add: is_n4_def verify_secret_def SecretVerifier_deserialize_def)
qed

text \<open>The verifier made from an invitation token, a trust-root token or an adoption
  challenge is the fixed N4 profile and verifies its own secret; the verifier of a legacy
  invitation secret is always made (its \<^verbatim>\<open>expect\<close> never panics) but is never an N4 verifier
  and refuses every secret with an error. Both are accepted back from storage.\<close>
theorem secret_verifiers_sound:
  assumes "argon_laws A S" "length salt = 16"
  shows "(\<exists>v. from_token A salt t = Inr v \<and> is_n4 A v \<and> verify_token A v t = Inr True \<and>
      SecretVerifier_deserialize A (verifier_str v) = Some v) \<and>
    (\<exists>v. from_trust_root_token A salt r = Inr v \<and> is_n4 A v \<and> verify_trust_root A v r = Inr True) \<and>
    (\<exists>v. from_adoption_challenge A salt c = Inr v \<and> is_n4 A v \<and>
      verify_adoption_challenge A v c = Inr True) \<and>
    (\<exists>v. InvitationSecret_verifier A salt s = Some v \<and> \<not> is_n4 A v \<and>
      (\<forall>t. verify_token A v t = Inl invalid_verifier) \<and>
      SecretVerifier_deserialize A (verifier_str v) = Some v)"
  using from_secret_ok [OF assms, of "it_secret t"] from_secret_ok [OF assms, of "ot_secret r"]
    from_secret_ok [OF assms, of "ac_secret c"] legacy_verifier_ok [OF assms, of s]
  by (auto simp: from_token_def from_trust_root_token_def from_adoption_challenge_def
      verify_token_def verify_trust_root_def verify_adoption_challenge_def)

lemma no_dollar: "list_all phc_alphabet_byte s \<Longrightarrow> CHR ''$'' \<notin> set s"
  by (auto simp: list_all_iff phc_alphabet_byte_def is_ascii_alphanumeric_def is_ascii_digit_def
      byte_val_def)

lemma decoded_to_iff:
  assumes "base64_laws S"
  shows "decoded_to S n text \<longleftrightarrow> (\<exists>bytes. length bytes = n \<and> text = b64_encode S bytes)"
  using assms by (auto simp: decoded_to_def base64_laws_def split: option.splits)

text \<open>
  The strict validator accepts one spelling only: the fixed prefix, a 16-byte salt and a
  32-byte hash, each in canonical base64, with the crate agreeing on the costs.
\<close>

lemma validate_n6_verifier_Inr:
  assumes "std_base64_laws S"
  shows "validate_n6_verifier A S value = Inr parsed \<longleftrightarrow>
    (\<exists>salt hash. length salt = 16 \<and> length hash = 32 \<and> value = phc_text S N6_PHC_PREFIX salt hash) \<and>
    phc_new A value = Some parsed \<and> n6_profile parsed"
proof
  assume "validate_n6_verifier A S value = Inr parsed"
  then show "(\<exists>salt hash. length salt = 16 \<and> length hash = 32 \<and>
      value = phc_text S N6_PHC_PREFIX salt hash) \<and> phc_new A value = Some parsed \<and> n6_profile parsed"
    using assms
    by (auto simp: validate_n6_verifier_def guard_simps strip_prefix_Some_iff std_base64_laws_def
        decoded_to_iff token_sizes phc_text_def split: if_splits dest!: split_once_Some)
next
  assume h: "(\<exists>salt hash. length salt = 16 \<and> length hash = 32 \<and>
      value = phc_text S N6_PHC_PREFIX salt hash) \<and> phc_new A value = Some parsed \<and> n6_profile parsed"
  then obtain salt hash where sh: "length salt = 16" "length hash = 32"
    and v: "value = phc_text S N6_PHC_PREFIX salt hash" by blast
  let ?s = "b64_encode S salt" and ?h = "b64_encode S hash"
  have laws: "base64_laws S" and alpha: "list_all phc_alphabet_byte ?s" "list_all phc_alphabet_byte ?h"
    using assms by (simp_all add: std_base64_laws_def)
  have lens: "length ?s = 22" "length ?h = 43" using laws sh by (simp_all add: base64_laws_def)
  have dec: "decoded_to S 16 ?s" "decoded_to S BINDING_NONCE_BYTES ?h"
    using sh by (auto simp: decoded_to_iff [OF laws] token_sizes)
  have split: "split_once CHR ''$'' (?s @ CHR ''$'' # ?h) = Some (?s, ?h)"
    by (rule split_once_append) (rule no_dollar [OF alpha(1)])
  have sp: "strip_prefix N6_PHC_PREFIX value = Some (?s @ CHR ''$'' # ?h)"
    unfolding v phc_text_def by (simp add: strip_prefix_Some_iff)
  have len: "length value = length N6_PHC_PREFIX + 22 + 1 + 43"
    using lens by (simp add: v phc_text_def)
  show "validate_n6_verifier A S value = Inr parsed"
    using h lens dec alpha no_dollar [OF alpha(2)] len
    by (simp add: validate_n6_verifier_def sp split)
qed

text \<open>A nonce verifier is accepted only in one canonical spelling: the fixed Argon2id
  prefix, a 16-byte salt and a 32-byte hash in canonical base64, and the crate's reading of the
  costs. The verifier made from a nonce is accepted and verifies that nonce.\<close>
theorem nonce_verifier_canonical:
  assumes "std_base64_laws S" "argon_laws A S" "length salt = 16"
  shows "(BindingNonceVerifier_parse A S value = Inr v \<longrightarrow>
      (\<exists>st hs. length st = 16 \<and> length hs = 32 \<and>
         nonce_verifier_str v = N6_PHC_PREFIX @ b64_encode S st @ ''$'' @ b64_encode S hs)) \<and>
    (\<exists>w. from_nonce A S salt n = Inr w \<and> verify_nonce A S w n = Inr True \<and>
       BindingNonceVerifier_parse A S (nonce_verifier_str w) = Inr w)"
proof (intro conjI impI)
  assume accepted: "BindingNonceVerifier_parse A S value = Inr v"
  show "\<exists>st hs. length st = 16 \<and> length hs = 32 \<and>
      nonce_verifier_str v = N6_PHC_PREFIX @ b64_encode S st @ ''$'' @ b64_encode S hs"
  proof -
    obtain parsed where p: "validate_n6_verifier A S value = Inr parsed"
      and v: "v = BindingNonceVerifier value"
      using accepted by (auto simp: BindingNonceVerifier_parse_def guard_simps)
    then obtain st hs where "length st = 16" "length hs = 32" "value = phc_text S N6_PHC_PREFIX st hs"
      unfolding validate_n6_verifier_Inr [OF assms(1)] by blast
    with v show ?thesis
      by (intro exI [of _ st] exI [of _ hs]) (simp add: phc_text_def)
  qed
next
  have t: "(2 :: u32) = 2 \<or> (2 :: u32) = 3" by simp
  obtain hash parsed where
    p: "params_new A \<lparr>ap_memory = 19456, ap_time = 2, ap_parallelism = 1, ap_output_len = 32\<rparr>" and
    h: "argon_hash A \<lparr>ap_memory = 19456, ap_time = 2, ap_parallelism = 1, ap_output_len = 32\<rparr>
       (nonce_bytes n) salt = Some (phc_text S (costs_prefix 2) salt hash)" and
    len: "length hash = 32" and
    pn: "phc_new A (phc_text S (costs_prefix 2) salt hash) = Some parsed" and
    c: "correct_profile 2 parsed" and ver: "argon_verify A (nonce_bytes n) parsed"
    by (rule argon_lawsE [OF assms(2) t assms(3)])
  have pre: "costs_prefix 2 = N6_PHC_PREFIX" by (simp add: costs_prefix_def N6_PHC_PREFIX_def)
  have "n6_profile parsed"
    using c by (simp add: correct_profile_def n6_profile_def argon_costs token_sizes
        split: option.splits)
  then have val: "validate_n6_verifier A S (phc_text S N6_PHC_PREFIX salt hash) = Inr parsed"
    using assms(3) len pn pre by (auto simp: validate_n6_verifier_Inr [OF assms(1)])
  show "\<exists>w. from_nonce A S salt n = Inr w \<and> verify_nonce A S w n = Inr True \<and>
      BindingNonceVerifier_parse A S (nonce_verifier_str w) = Inr w"
    using p h ver val pre
    by (simp add: from_nonce_def n6_argon_params_def token_sizes verify_nonce_def
        BindingNonceVerifier_parse_def)
qed

section \<open>An instance of the hashing crates\<close>

text \<open>A stand-in hash, the secret cut or padded to 32 bytes, that meets the laws.\<close>

definition pad32 :: "u8 list \<Rightarrow> u8 list" where
  "pad32 s = take 32 (s @ replicate 32 0)"

definition reference_argon :: argon_ops where
  "reference_argon =
     \<lparr>params_new = (\<lambda>_. True),
      argon_hash = (\<lambda>p secret salt.
        Some (phc_text standard_no_pad (costs_prefix (ap_time p)) salt (pad32 secret))),
      phc_new = (\<lambda>text.
        map_option (\<lambda>h. \<lparr>phc_algorithm = ''argon2id'', phc_version = Some 19,
            phc_decimal = (\<lambda>k. if k = ''m'' then Some 19456
              else if k = ''t'' then Some (if take 31 text = costs_prefix 2 then 2 else 3)
              else Some 1),
            phc_hash = Some h\<rparr>)
          (b64_decode standard_no_pad (drop (length text - 43) text))),
      argon_verify = (\<lambda>secret p. phc_hash p = Some (pad32 secret))\<rparr>"

lemma length_pad32: "length (pad32 s) = 32"
  by (simp add: pad32_def)

lemma std_alphabet_phc: "list_all phc_alphabet_byte std_alphabet"
  by (simp add: std_alphabet_def phc_alphabet_byte_def is_ascii_alphanumeric_def is_ascii_digit_def
      byte_val_def)

lemma standard_std_laws: "std_base64_laws standard_no_pad"
  using base64_of_chars [OF std_alphabet_facts(1)] std_alphabet_phc standard_no_pad_laws
  by (auto simp: std_base64_laws_def list_all_iff standard_no_pad_def)

lemma phc_text_tail:
  assumes "length hash = 32"
  shows "drop (length (phc_text standard_no_pad pre salt hash) - 43)
    (phc_text standard_no_pad pre salt hash) = b64_encode standard_no_pad hash"
proof -
  have "length (b64_encode standard_no_pad hash) = 43"
    using assms standard_no_pad_laws by (simp add: base64_laws_def)
  then show ?thesis by (simp add: phc_text_def)
qed

lemma costs_prefix_facts:
  "length (costs_prefix t) = 31" "costs_prefix 2 \<noteq> costs_prefix 3"
  by (simp_all add: costs_prefix_def)

lemma reference_argon_laws: "argon_laws reference_argon standard_no_pad"
  unfolding argon_laws_def
proof (intro allI impI conjI)
  fix t :: u32 and secret salt :: "u8 list"
  assume h: "(t = 2 \<or> t = 3) \<and> length salt = 16"
  let ?P = "\<lparr>ap_memory = 19456, ap_time = t, ap_parallelism = 1, ap_output_len = 32\<rparr>"
  let ?text = "phc_text standard_no_pad (costs_prefix t) salt (pad32 secret)"
  show "params_new reference_argon ?P" by (simp add: reference_argon_def)
  have pre: "take 31 ?text = costs_prefix t"
    by (simp add: phc_text_def costs_prefix_facts(1))
  have dec: "b64_decode standard_no_pad (b64_encode standard_no_pad (pad32 secret)) = Some (pad32 secret)"
    using standard_no_pad_laws by (simp add: base64_laws_def)
  obtain parsed where parsed: "phc_new reference_argon ?text = Some parsed"
    "correct_profile t parsed" "argon_verify reference_argon secret parsed"
    using h pre costs_prefix_facts(2)
    by (auto simp: reference_argon_def phc_text_tail [OF length_pad32] dec correct_profile_def
        argon_costs length_pad32)
  have "argon_hash reference_argon ?P secret salt = Some ?text" by (simp add: reference_argon_def)
  then show "\<exists>hash parsed.
      argon_hash reference_argon ?P secret salt =
        Some (phc_text standard_no_pad (costs_prefix t) salt hash) \<and>
      length hash = 32 \<and>
      phc_new reference_argon (phc_text standard_no_pad (costs_prefix t) salt hash) = Some parsed \<and>
      correct_profile t parsed \<and> argon_verify reference_argon secret parsed"
    using parsed length_pad32 by blast
qed

theorem secret_verifiers_sound_witness:
  "\<exists>v. from_token reference_argon (replicate 16 5) sample_invitation_token = Inr v \<and>
     verify_token reference_argon v sample_invitation_token = Inr True"
  using secret_verifiers_sound [OF reference_argon_laws, of "replicate 16 5"
      sample_invitation_token undefined undefined undefined]
  by simp blast

theorem nonce_verifier_canonical_witness:
  "\<exists>w. from_nonce reference_argon standard_no_pad (replicate 16 5) (BindingNonce (replicate 32 3)) = Inr w \<and>
     verify_nonce reference_argon standard_no_pad w (BindingNonce (replicate 32 3)) = Inr True"
  using nonce_verifier_canonical [OF standard_std_laws reference_argon_laws, of "replicate 16 5"
      "[]" undefined "BindingNonce (replicate 32 3)"]
  by simp blast

end
