(* ===== verification/N6_Commands.thy ===== *)
theory N6_Commands
  imports Tokens
begin

text \<open>
  The N6 binding commands of \<^verbatim>\<open>crates/nodescale-domain/src/lib.rs\<close> (lines 1957 to 2678):
  bounded operation names and reason codes, challenge requests and deliveries, authenticated
  bind requests, authorizations, rotation and revocation intents, each with its constructor
  and, where the code has one, the revalidation at the moment of use.

  The locale \<open>timed_authority\<close> is the contract of every value that is checked again before it
  is used: it is valid exactly while it is well formed and not expired.
\<close>

section \<open>Operation names and reason codes\<close>

definition validate_safe_identifier :: "string \<Rightarrow> string \<Rightarrow> nat \<Rightarrow> unit domain_result" where
  "validate_safe_identifier value kind maximum =
     ensure (bounded_safe maximum value)
       (InvalidValue kind ''must use bounded safe identifier characters'')"

datatype OperationId = OperationId (operation_id_str: string)
datatype ReasonCode = ReasonCode (reason_code_str: string)

definition parse_OperationId :: "string \<Rightarrow> OperationId domain_result" where
  "parse_OperationId value =
     and_then (validate_safe_identifier value ''operation ID'' 128) (\<lambda>_. Inr (OperationId value))"

definition parse_ReasonCode :: "string \<Rightarrow> ReasonCode domain_result" where
  "parse_ReasonCode value =
     and_then (validate_safe_identifier value ''reason code'' 64) (\<lambda>_. Inr (ReasonCode value))"

interpretation operation_id: validated_text parse_OperationId operation_id_str "bounded_safe 128"
  by unfold_locales
    (auto simp: parse_OperationId_def validate_safe_identifier_def guard_simps OperationId.expand
      intro: sum.exhaust)

interpretation reason_code: validated_text parse_ReasonCode reason_code_str "bounded_safe 64"
  by unfold_locales
    (auto simp: parse_ReasonCode_def validate_safe_identifier_def guard_simps ReasonCode.expand
      intro: sum.exhaust)

section \<open>Revalidation helpers\<close>

definition revalidate_n6_uuid_id ::
    "uuid_ops \<Rightarrow> (string \<Rightarrow> 'k typed_id domain_result) \<Rightarrow> 'k typed_id \<Rightarrow> unit domain_result" where
  "revalidate_n6_uuid_id U parse i = and_then (parse (id_display U i)) (\<lambda>_. Inr ())"

definition revalidate_n6_generation :: "Generation \<Rightarrow> unit domain_result" where
  "revalidate_n6_generation g =
     (if gen_get g > 0 then Inr () else Inl (InvalidValue ''generation'' ''must be positive''))"

definition revalidate_n6_peer_id :: "KeryxPeerId \<Rightarrow> unit domain_result" where
  "revalidate_n6_peer_id p = and_then (parse_KeryxPeerId (peer_id_str p)) (\<lambda>_. Inr ())"

definition revalidate_n6_agent_version :: "AgentVersion \<Rightarrow> unit domain_result" where
  "revalidate_n6_agent_version v = and_then (parse_AgentVersion (agent_version_str v)) (\<lambda>_. Inr ())"

definition revalidate_n6_operation_id :: "OperationId \<Rightarrow> unit domain_result" where
  "revalidate_n6_operation_id i = and_then (parse_OperationId (operation_id_str i)) (\<lambda>_. Inr ())"

definition revalidate_n6_reason_code :: "ReasonCode \<Rightarrow> unit domain_result" where
  "revalidate_n6_reason_code c = and_then (parse_ReasonCode (reason_code_str c)) (\<lambda>_. Inr ())"

definition validate_expiry :: "DateTime \<Rightarrow> DateTime \<Rightarrow> string \<Rightarrow> unit domain_result" where
  "validate_expiry expires_at now kind =
     (if expires_at \<le> now then Inl (InvalidValue kind ''must be in the future'') else Inr ())"

definition validate_exact_rotation_generation :: "Generation \<Rightarrow> Generation \<Rightarrow> unit domain_result" where
  "validate_exact_rotation_generation predecessor expected_next =
     and_then (next_exact predecessor) (\<lambda>n.
     if expected_next = n then Inr () else Inl NonMonotonicGeneration)"

lemma revalidate_generation_Inr [guard_simps]:
  "revalidate_n6_generation g = Inr u \<longleftrightarrow> gen_get g \<noteq> 0"
  by (simp add: revalidate_n6_generation_def word_neq_0_conv)

lemma revalidate_text_Inr [guard_simps]:
  "revalidate_n6_peer_id p = Inr u \<longleftrightarrow> bounded_safe 255 (peer_id_str p)"
  "revalidate_n6_agent_version v = Inr u \<longleftrightarrow> bounded_safe 128 (agent_version_str v)"
  "revalidate_n6_operation_id i = Inr u \<longleftrightarrow> bounded_safe 128 (operation_id_str i)"
  "revalidate_n6_reason_code c = Inr u \<longleftrightarrow> bounded_safe 64 (reason_code_str c)"
  using peer_id.revalidate_iff [of p] agent_version.revalidate_iff [of v]
    operation_id.revalidate_iff [of i] reason_code.revalidate_iff [of c]
  by (auto simp: revalidate_n6_peer_id_def revalidate_n6_agent_version_def
      revalidate_n6_operation_id_def revalidate_n6_reason_code_def guard_simps)

lemma validate_expiry_Inr [guard_simps]: "validate_expiry e now kind = Inr u \<longleftrightarrow> now < e"
  by (auto simp: validate_expiry_def)

lemma exact_rotation_Inr [guard_simps]:
  "validate_exact_rotation_generation p n = Inr u \<longleftrightarrow> unat (gen_get n) = unat (gen_get p) + 1"
  by (auto simp: validate_exact_rotation_generation_def guard_simps next_exact_Inr split: if_splits)

lemma revalidate_uuid_Inr:
  assumes "uuid_laws U"
  shows "revalidate_n6_uuid_id U (uuid_id_parse U kind) i = Inr u \<longleftrightarrow> id_uuid i \<noteq> 0"
  by (simp add: revalidate_n6_uuid_id_def guard_simps uuid_id_reparse_Inr [OF assms])

section \<open>The contract of a revalidated value\<close>

locale timed_authority =
  fixes validate_at :: "'a \<Rightarrow> DateTime \<Rightarrow> DomainError + unit"
    and well_formed :: "'a \<Rightarrow> bool"
    and expiry :: "'a \<Rightarrow> DateTime"
  assumes validate_iff: "validate_at x now = Inr u \<longleftrightarrow> well_formed x \<and> now < expiry x"
begin

lemma valid_window: "validate_at x now = Inr u \<Longrightarrow> validate_at x t = Inr w \<longleftrightarrow> t < expiry x"
  by (simp add: validate_iff)

lemma valid_earlier: "validate_at x now = Inr u \<Longrightarrow> t \<le> now \<Longrightarrow> validate_at x t = Inr w"
  by (simp add: validate_iff)

lemma expired_for_good: "expiry x \<le> now \<Longrightarrow> now \<le> t \<Longrightarrow> validate_at x t \<noteq> Inr u"
  by (simp add: validate_iff)

end

section \<open>Challenge requests\<close>

record N6BindingChallengeRequest =
  cr_network_id :: NetworkId
  cr_device_id :: DeviceId
  cr_provider_binding_id :: ProviderBindingId
  cr_expected_authenticated_peer_id :: KeryxPeerId
  cr_generation :: Generation
  cr_expires_at :: DateTime
  cr_agent_version :: AgentVersion

definition N6BindingChallengeRequest_new ::
    "uuid_ops \<Rightarrow> NetworkId \<Rightarrow> DeviceId \<Rightarrow> ProviderBindingId \<Rightarrow> KeryxPeerId \<Rightarrow> Generation \<Rightarrow> DateTime \<Rightarrow>
     DateTime \<Rightarrow> AgentVersion \<Rightarrow> N6BindingChallengeRequest domain_result" where
  "N6BindingChallengeRequest_new U network_id device_id provider_binding_id
      expected_authenticated_peer_id generation expires_at now agent_version =
     and_then (revalidate_n6_uuid_id U (parse_NetworkId U) network_id) (\<lambda>_.
     and_then (revalidate_n6_uuid_id U (parse_DeviceId U) device_id) (\<lambda>_.
     and_then (revalidate_n6_uuid_id U (parse_ProviderBindingId U) provider_binding_id) (\<lambda>_.
     and_then (revalidate_n6_peer_id expected_authenticated_peer_id) (\<lambda>_.
     and_then (revalidate_n6_generation generation) (\<lambda>_.
     and_then (revalidate_n6_agent_version agent_version) (\<lambda>_.
     and_then (validate_expiry expires_at now ''binding challenge expiry'') (\<lambda>_.
     Inr \<lparr>cr_network_id = network_id, cr_device_id = device_id,
          cr_provider_binding_id = provider_binding_id,
          cr_expected_authenticated_peer_id = expected_authenticated_peer_id,
          cr_generation = generation, cr_expires_at = expires_at,
          cr_agent_version = agent_version\<rparr>)))))))"

definition N6BindingChallengeRequest_validate_at ::
    "uuid_ops \<Rightarrow> N6BindingChallengeRequest \<Rightarrow> DateTime \<Rightarrow> unit domain_result" where
  "N6BindingChallengeRequest_validate_at U r now =
     and_then (revalidate_n6_uuid_id U (parse_NetworkId U) (cr_network_id r)) (\<lambda>_.
     and_then (revalidate_n6_uuid_id U (parse_DeviceId U) (cr_device_id r)) (\<lambda>_.
     and_then (revalidate_n6_uuid_id U (parse_ProviderBindingId U) (cr_provider_binding_id r)) (\<lambda>_.
     and_then (revalidate_n6_peer_id (cr_expected_authenticated_peer_id r)) (\<lambda>_.
     and_then (revalidate_n6_generation (cr_generation r)) (\<lambda>_.
     and_then (revalidate_n6_agent_version (cr_agent_version r)) (\<lambda>_.
     validate_expiry (cr_expires_at r) now ''binding challenge expiry''))))))"

definition challenge_request_wf :: "N6BindingChallengeRequest \<Rightarrow> bool" where
  "challenge_request_wf r \<longleftrightarrow>
     id_uuid (cr_network_id r) \<noteq> 0 \<and> id_uuid (cr_device_id r) \<noteq> 0 \<and>
     id_uuid (cr_provider_binding_id r) \<noteq> 0 \<and>
     bounded_safe 255 (peer_id_str (cr_expected_authenticated_peer_id r)) \<and>
     gen_get (cr_generation r) \<noteq> 0 \<and> bounded_safe 128 (agent_version_str (cr_agent_version r))"

section \<open>Challenge deliveries\<close>

record N6BindingChallengeDelivery =
  cd_challenge_id :: KeryxBindingChallengeId
  cd_binding_id :: KeryxBindingId
  cd_generation :: Generation
  cd_nonce :: BindingNonce
  cd_expires_at :: DateTime

definition N6BindingChallengeDelivery_new ::
    "uuid_ops \<Rightarrow> KeryxBindingChallengeId \<Rightarrow> KeryxBindingId \<Rightarrow> Generation \<Rightarrow> BindingNonce \<Rightarrow> DateTime \<Rightarrow>
     DateTime \<Rightarrow> N6BindingChallengeDelivery domain_result" where
  "N6BindingChallengeDelivery_new U challenge_id binding_id generation nonce expires_at now =
     and_then (revalidate_n6_uuid_id U (parse_KeryxBindingChallengeId U) challenge_id) (\<lambda>_.
     and_then (revalidate_n6_uuid_id U (parse_KeryxBindingId U) binding_id) (\<lambda>_.
     and_then (revalidate_n6_generation generation) (\<lambda>_.
     and_then (validate_expiry expires_at now ''binding challenge delivery expiry'') (\<lambda>_.
     Inr \<lparr>cd_challenge_id = challenge_id, cd_binding_id = binding_id,
          cd_generation = generation, cd_nonce = nonce, cd_expires_at = expires_at\<rparr>))))"

definition N6BindingChallengeDelivery_validate_at ::
    "uuid_ops \<Rightarrow> N6BindingChallengeDelivery \<Rightarrow> DateTime \<Rightarrow> unit domain_result" where
  "N6BindingChallengeDelivery_validate_at U d now =
     and_then (revalidate_n6_uuid_id U (parse_KeryxBindingChallengeId U) (cd_challenge_id d)) (\<lambda>_.
     and_then (revalidate_n6_uuid_id U (parse_KeryxBindingId U) (cd_binding_id d)) (\<lambda>_.
     and_then (revalidate_n6_generation (cd_generation d)) (\<lambda>_.
     validate_expiry (cd_expires_at d) now ''binding challenge delivery expiry'')))"

definition challenge_delivery_wf :: "N6BindingChallengeDelivery \<Rightarrow> bool" where
  "challenge_delivery_wf d \<longleftrightarrow>
     id_uuid (cd_challenge_id d) \<noteq> 0 \<and> id_uuid (cd_binding_id d) \<noteq> 0 \<and>
     gen_get (cd_generation d) \<noteq> 0"

section \<open>Authenticated bind requests\<close>

record N6AuthenticatedBindRequest =
  br_operation_id :: OperationId
  br_network_id :: NetworkId
  br_device_id :: DeviceId
  br_provider_binding_id :: ProviderBindingId
  br_binding_nonce :: BindingNonce
  br_generation :: Generation
  br_agent_version :: AgentVersion

definition N6AuthenticatedBindRequest_new ::
    "uuid_ops \<Rightarrow> OperationId \<Rightarrow> NetworkId \<Rightarrow> DeviceId \<Rightarrow> ProviderBindingId \<Rightarrow> BindingNonce \<Rightarrow>
     Generation \<Rightarrow> AgentVersion \<Rightarrow> N6AuthenticatedBindRequest domain_result" where
  "N6AuthenticatedBindRequest_new U operation_id network_id device_id provider_binding_id
      binding_nonce generation agent_version =
     and_then (revalidate_n6_operation_id operation_id) (\<lambda>_.
     and_then (revalidate_n6_uuid_id U (parse_NetworkId U) network_id) (\<lambda>_.
     and_then (revalidate_n6_uuid_id U (parse_DeviceId U) device_id) (\<lambda>_.
     and_then (revalidate_n6_uuid_id U (parse_ProviderBindingId U) provider_binding_id) (\<lambda>_.
     and_then (revalidate_n6_generation generation) (\<lambda>_.
     and_then (revalidate_n6_agent_version agent_version) (\<lambda>_.
     Inr \<lparr>br_operation_id = operation_id, br_network_id = network_id, br_device_id = device_id,
          br_provider_binding_id = provider_binding_id, br_binding_nonce = binding_nonce,
          br_generation = generation, br_agent_version = agent_version\<rparr>))))))"

section \<open>Audit actors and authorizations\<close>

record AuditActor =
  au_source :: string
  au_actor_id :: "string option"

definition AuditActor_system :: AuditActor where
  "AuditActor_system = \<lparr>au_source = ''nodescale'', au_actor_id = None\<rparr>"

definition validate_n6_audit_actor_component :: "string \<Rightarrow> string \<Rightarrow> nat \<Rightarrow> unit domain_result" where
  "validate_n6_audit_actor_component value kind maximum =
     ensure (bounded_safe maximum value)
       (InvalidValue kind ''must be a bounded safe audit actor identifier'')"

definition validate_n6_audit_actor :: "AuditActor \<Rightarrow> unit domain_result" where
  "validate_n6_audit_actor actor =
     and_then (validate_n6_audit_actor_component (au_source actor)
        ''binding authorization actor source'' 64) (\<lambda>_.
     case au_actor_id actor of
       Some actor_id \<Rightarrow>
         validate_n6_audit_actor_component actor_id ''binding authorization actor ID'' 255
     | None \<Rightarrow>
         if au_source actor = ''nodescale'' then Inr ()
         else Inl (InvalidValue ''binding authorization actor ID''
                    ''is required unless the source is nodescale''))"

datatype KeryxBindingAuthorizationCapability = KCRotate | KCRevoke

record KeryxBindingAuthorization =
  ka_authorization_id :: KeryxBindingAuthorizationId
  ka_authority_id :: TrustAuthorityId
  ka_actor :: AuditActor
  ka_capability :: KeryxBindingAuthorizationCapability
  ka_binding_id :: KeryxBindingId
  ka_generation :: Generation
  ka_revision :: u64
  ka_expires_at :: DateTime

definition KeryxBindingAuthorization_new ::
    "uuid_ops \<Rightarrow> KeryxBindingAuthorizationId \<Rightarrow> TrustAuthorityId \<Rightarrow> AuditActor \<Rightarrow>
     KeryxBindingAuthorizationCapability \<Rightarrow> KeryxBindingId \<Rightarrow> Generation \<Rightarrow> u64 \<Rightarrow> DateTime \<Rightarrow> DateTime \<Rightarrow>
     KeryxBindingAuthorization domain_result" where
  "KeryxBindingAuthorization_new U authorization_id authority_id actor capability binding_id
      generation revision expires_at now =
     and_then (revalidate_n6_uuid_id U (parse_KeryxBindingAuthorizationId U) authorization_id) (\<lambda>_.
     and_then (revalidate_n6_uuid_id U (parse_TrustAuthorityId U) authority_id) (\<lambda>_.
     and_then (revalidate_n6_uuid_id U (parse_KeryxBindingId U) binding_id) (\<lambda>_.
     and_then (revalidate_n6_generation generation) (\<lambda>_.
     and_then (validate_n6_audit_actor actor) (\<lambda>_.
     and_then (ensure (\<not> revision = 0)
        (InvalidValue ''binding authorization revision'' ''must be positive'')) (\<lambda>_.
     and_then (validate_expiry expires_at now ''binding authorization expiry'') (\<lambda>_.
     Inr \<lparr>ka_authorization_id = authorization_id, ka_authority_id = authority_id,
          ka_actor = actor, ka_capability = capability, ka_binding_id = binding_id,
          ka_generation = generation, ka_revision = revision, ka_expires_at = expires_at\<rparr>)))))))"

definition KeryxBindingAuthorization_validate_at ::
    "uuid_ops \<Rightarrow> KeryxBindingAuthorization \<Rightarrow> DateTime \<Rightarrow> unit domain_result" where
  "KeryxBindingAuthorization_validate_at U a now =
     and_then (revalidate_n6_uuid_id U (parse_KeryxBindingAuthorizationId U) (ka_authorization_id a)) (\<lambda>_.
     and_then (revalidate_n6_uuid_id U (parse_TrustAuthorityId U) (ka_authority_id a)) (\<lambda>_.
     and_then (revalidate_n6_uuid_id U (parse_KeryxBindingId U) (ka_binding_id a)) (\<lambda>_.
     and_then (revalidate_n6_generation (ka_generation a)) (\<lambda>_.
     and_then (validate_n6_audit_actor (ka_actor a)) (\<lambda>_.
     and_then (ensure (\<not> ka_revision a = 0)
        (InvalidValue ''binding authorization revision'' ''must be positive'')) (\<lambda>_.
     validate_expiry (ka_expires_at a) now ''binding authorization expiry''))))))"

definition validate_authorization ::
    "uuid_ops \<Rightarrow> KeryxBindingAuthorization \<Rightarrow> KeryxBindingAuthorizationCapability \<Rightarrow> KeryxBindingId \<Rightarrow>
     Generation \<Rightarrow> u64 \<Rightarrow> DateTime \<Rightarrow> DateTime \<Rightarrow> unit domain_result" where
  "validate_authorization U a capability binding_id generation revision expires_at now =
     and_then (KeryxBindingAuthorization_validate_at U a now) (\<lambda>_.
     and_then (validate_expiry expires_at now ''binding intent expiry'') (\<lambda>_.
     if ka_capability a \<noteq> capability \<or> ka_binding_id a \<noteq> binding_id \<or>
        ka_generation a \<noteq> generation \<or> ka_revision a \<noteq> revision \<or>
        expires_at > ka_expires_at a
     then Inl (InvalidValue ''binding authorization'' ''does not fence this intent'')
     else Inr ()))"

definition actor_ok :: "AuditActor \<Rightarrow> bool" where
  "actor_ok actor \<longleftrightarrow>
     bounded_safe 64 (au_source actor) \<and>
     (case au_actor_id actor of None \<Rightarrow> au_source actor = ''nodescale''
      | Some i \<Rightarrow> bounded_safe 255 i)"

definition authorization_wf :: "KeryxBindingAuthorization \<Rightarrow> bool" where
  "authorization_wf a \<longleftrightarrow>
     id_uuid (ka_authorization_id a) \<noteq> 0 \<and> id_uuid (ka_authority_id a) \<noteq> 0 \<and>
     id_uuid (ka_binding_id a) \<noteq> 0 \<and> gen_get (ka_generation a) \<noteq> 0 \<and>
     actor_ok (ka_actor a) \<and> ka_revision a \<noteq> 0"

text \<open>The fence: the authority names this capability, binding, generation and revision, and
  outlives the intent.\<close>

definition fences ::
    "KeryxBindingAuthorization \<Rightarrow> KeryxBindingAuthorizationCapability \<Rightarrow> KeryxBindingId \<Rightarrow> Generation \<Rightarrow>
     u64 \<Rightarrow> DateTime \<Rightarrow> bool" where
  "fences a capability binding_id generation revision expires_at \<longleftrightarrow>
     ka_capability a = capability \<and> ka_binding_id a = binding_id \<and>
     ka_generation a = generation \<and> ka_revision a = revision \<and> expires_at \<le> ka_expires_at a"

lemma validate_actor_Inr [guard_simps]: "validate_n6_audit_actor actor = Inr u \<longleftrightarrow> actor_ok actor"
  by (auto simp: validate_n6_audit_actor_def actor_ok_def validate_n6_audit_actor_component_def
      guard_simps split: option.splits if_splits)

section \<open>Rotation and revocation intents\<close>

record N6BindingRotationIntent =
  ri_decision_id :: KeryxBindingDecisionId
  ri_authorization :: KeryxBindingAuthorization
  ri_predecessor_binding_id :: KeryxBindingId
  ri_predecessor_generation :: Generation
  ri_predecessor_revision :: u64
  ri_expected_next_generation :: Generation
  ri_expires_at :: DateTime
  ri_reason_code :: ReasonCode

definition N6BindingRotationIntent_new ::
    "uuid_ops \<Rightarrow> KeryxBindingDecisionId \<Rightarrow> KeryxBindingAuthorization \<Rightarrow> KeryxBindingId \<Rightarrow> Generation \<Rightarrow>
     u64 \<Rightarrow> Generation \<Rightarrow> DateTime \<Rightarrow> DateTime \<Rightarrow> ReasonCode \<Rightarrow> N6BindingRotationIntent domain_result" where
  "N6BindingRotationIntent_new U decision_id authorization predecessor_binding_id
      predecessor_generation predecessor_revision expected_next_generation expires_at now
      reason_code =
     and_then (revalidate_n6_uuid_id U (parse_KeryxBindingDecisionId U) decision_id) (\<lambda>_.
     and_then (revalidate_n6_uuid_id U (parse_KeryxBindingId U) predecessor_binding_id) (\<lambda>_.
     and_then (revalidate_n6_generation predecessor_generation) (\<lambda>_.
     and_then (revalidate_n6_generation expected_next_generation) (\<lambda>_.
     and_then (revalidate_n6_reason_code reason_code) (\<lambda>_.
     and_then (validate_authorization U authorization KCRotate predecessor_binding_id
        predecessor_generation predecessor_revision expires_at now) (\<lambda>_.
     and_then (validate_exact_rotation_generation predecessor_generation expected_next_generation) (\<lambda>_.
     Inr \<lparr>ri_decision_id = decision_id, ri_authorization = authorization,
          ri_predecessor_binding_id = predecessor_binding_id,
          ri_predecessor_generation = predecessor_generation,
          ri_predecessor_revision = predecessor_revision,
          ri_expected_next_generation = expected_next_generation,
          ri_expires_at = expires_at, ri_reason_code = reason_code\<rparr>)))))))"

definition N6BindingRotationIntent_validate_at ::
    "uuid_ops \<Rightarrow> N6BindingRotationIntent \<Rightarrow> DateTime \<Rightarrow> unit domain_result" where
  "N6BindingRotationIntent_validate_at U i now =
     and_then (revalidate_n6_uuid_id U (parse_KeryxBindingDecisionId U) (ri_decision_id i)) (\<lambda>_.
     and_then (revalidate_n6_uuid_id U (parse_KeryxBindingId U) (ri_predecessor_binding_id i)) (\<lambda>_.
     and_then (revalidate_n6_generation (ri_predecessor_generation i)) (\<lambda>_.
     and_then (revalidate_n6_generation (ri_expected_next_generation i)) (\<lambda>_.
     and_then (revalidate_n6_reason_code (ri_reason_code i)) (\<lambda>_.
     and_then (validate_authorization U (ri_authorization i) KCRotate
        (ri_predecessor_binding_id i) (ri_predecessor_generation i) (ri_predecessor_revision i)
        (ri_expires_at i) now) (\<lambda>_.
     validate_exact_rotation_generation (ri_predecessor_generation i)
       (ri_expected_next_generation i)))))))"

record N6BindingRevocationIntent =
  vi_decision_id :: KeryxBindingDecisionId
  vi_authorization :: KeryxBindingAuthorization
  vi_binding_id :: KeryxBindingId
  vi_generation :: Generation
  vi_revision :: u64
  vi_expires_at :: DateTime
  vi_reason_code :: ReasonCode

definition N6BindingRevocationIntent_new ::
    "uuid_ops \<Rightarrow> KeryxBindingDecisionId \<Rightarrow> KeryxBindingAuthorization \<Rightarrow> KeryxBindingId \<Rightarrow> Generation \<Rightarrow>
     u64 \<Rightarrow> DateTime \<Rightarrow> DateTime \<Rightarrow> ReasonCode \<Rightarrow> N6BindingRevocationIntent domain_result" where
  "N6BindingRevocationIntent_new U decision_id authorization binding_id generation revision
      expires_at now reason_code =
     and_then (revalidate_n6_uuid_id U (parse_KeryxBindingDecisionId U) decision_id) (\<lambda>_.
     and_then (revalidate_n6_uuid_id U (parse_KeryxBindingId U) binding_id) (\<lambda>_.
     and_then (revalidate_n6_generation generation) (\<lambda>_.
     and_then (revalidate_n6_reason_code reason_code) (\<lambda>_.
     and_then (validate_authorization U authorization KCRevoke binding_id generation revision
        expires_at now) (\<lambda>_.
     Inr \<lparr>vi_decision_id = decision_id, vi_authorization = authorization,
          vi_binding_id = binding_id, vi_generation = generation, vi_revision = revision,
          vi_expires_at = expires_at, vi_reason_code = reason_code\<rparr>)))))"

definition N6BindingRevocationIntent_validate_at ::
    "uuid_ops \<Rightarrow> N6BindingRevocationIntent \<Rightarrow> DateTime \<Rightarrow> unit domain_result" where
  "N6BindingRevocationIntent_validate_at U i now =
     and_then (revalidate_n6_uuid_id U (parse_KeryxBindingDecisionId U) (vi_decision_id i)) (\<lambda>_.
     and_then (revalidate_n6_uuid_id U (parse_KeryxBindingId U) (vi_binding_id i)) (\<lambda>_.
     and_then (revalidate_n6_generation (vi_generation i)) (\<lambda>_.
     and_then (revalidate_n6_reason_code (vi_reason_code i)) (\<lambda>_.
     validate_authorization U (vi_authorization i) KCRevoke (vi_binding_id i) (vi_generation i)
       (vi_revision i) (vi_expires_at i) now))))"

definition rotation_intent_wf :: "N6BindingRotationIntent \<Rightarrow> bool" where
  "rotation_intent_wf i \<longleftrightarrow>
     id_uuid (ri_decision_id i) \<noteq> 0 \<and> bounded_safe 64 (reason_code_str (ri_reason_code i)) \<and>
     authorization_wf (ri_authorization i) \<and>
     fences (ri_authorization i) KCRotate (ri_predecessor_binding_id i)
       (ri_predecessor_generation i) (ri_predecessor_revision i) (ri_expires_at i) \<and>
     unat (gen_get (ri_expected_next_generation i)) =
       unat (gen_get (ri_predecessor_generation i)) + 1"

definition revocation_intent_wf :: "N6BindingRevocationIntent \<Rightarrow> bool" where
  "revocation_intent_wf i \<longleftrightarrow>
     id_uuid (vi_decision_id i) \<noteq> 0 \<and> bounded_safe 64 (reason_code_str (vi_reason_code i)) \<and>
     authorization_wf (vi_authorization i) \<and>
     fences (vi_authorization i) KCRevoke (vi_binding_id i) (vi_generation i) (vi_revision i)
       (vi_expires_at i)"

section \<open>Validity is well-formedness before expiry\<close>

lemma request_validate_iff:
  assumes "uuid_laws U"
  shows "N6BindingChallengeRequest_validate_at U r now = Inr u \<longleftrightarrow>
    challenge_request_wf r \<and> now < cr_expires_at r"
  by (auto simp: N6BindingChallengeRequest_validate_at_def challenge_request_wf_def guard_simps
      uuid_id_parsers revalidate_uuid_Inr [OF assms])

lemma delivery_validate_iff:
  assumes "uuid_laws U"
  shows "N6BindingChallengeDelivery_validate_at U d now = Inr u \<longleftrightarrow>
    challenge_delivery_wf d \<and> now < cd_expires_at d"
  by (auto simp: N6BindingChallengeDelivery_validate_at_def challenge_delivery_wf_def guard_simps
      uuid_id_parsers revalidate_uuid_Inr [OF assms])

lemma authorization_validate_iff:
  assumes "uuid_laws U"
  shows "KeryxBindingAuthorization_validate_at U a now = Inr u \<longleftrightarrow>
    authorization_wf a \<and> now < ka_expires_at a"
  by (auto simp: KeryxBindingAuthorization_validate_at_def authorization_wf_def guard_simps
      uuid_id_parsers revalidate_uuid_Inr [OF assms])

lemma validate_authorization_Inr:
  assumes "uuid_laws U"
  shows "validate_authorization U a c b g r e now = Inr u \<longleftrightarrow>
    authorization_wf a \<and> fences a c b g r e \<and> now < e"
  by (auto simp: validate_authorization_def fences_def guard_simps
      authorization_validate_iff [OF assms] split: if_splits)

lemma fenced_ids:
  "authorization_wf a \<Longrightarrow> fences a c b g r e \<Longrightarrow> id_uuid b \<noteq> 0 \<and> gen_get g \<noteq> 0"
  by (auto simp: authorization_wf_def fences_def)

lemma successor_positive: "unat (gen_get n) = unat (gen_get p) + 1 \<Longrightarrow> gen_get n \<noteq> 0"
  by (metis add_is_0 unat_0 zero_neq_one)

lemma rotation_validate_iff:
  assumes "uuid_laws U"
  shows "N6BindingRotationIntent_validate_at U i now = Inr u \<longleftrightarrow>
    rotation_intent_wf i \<and> now < ri_expires_at i"
  unfolding N6BindingRotationIntent_validate_at_def rotation_intent_wf_def
  using fenced_ids successor_positive
  by (auto simp: guard_simps uuid_id_parsers revalidate_uuid_Inr [OF assms]
      validate_authorization_Inr [OF assms])

lemma revocation_validate_iff:
  assumes "uuid_laws U"
  shows "N6BindingRevocationIntent_validate_at U i now = Inr u \<longleftrightarrow>
    revocation_intent_wf i \<and> now < vi_expires_at i"
  unfolding N6BindingRevocationIntent_validate_at_def revocation_intent_wf_def
  using fenced_ids
  by (auto simp: guard_simps uuid_id_parsers revalidate_uuid_Inr [OF assms]
      validate_authorization_Inr [OF assms])

text \<open>With a lawful UUID crate every such value is a timed authority.\<close>

locale uuid_crate =
  fixes U :: uuid_ops
  assumes uuid_ok: "uuid_laws U"

sublocale uuid_crate \<subseteq> request:
  timed_authority "N6BindingChallengeRequest_validate_at U" challenge_request_wf cr_expires_at
  by unfold_locales (rule request_validate_iff [OF uuid_ok])

sublocale uuid_crate \<subseteq> delivery:
  timed_authority "N6BindingChallengeDelivery_validate_at U" challenge_delivery_wf cd_expires_at
  by unfold_locales (rule delivery_validate_iff [OF uuid_ok])

sublocale uuid_crate \<subseteq> authorization:
  timed_authority "KeryxBindingAuthorization_validate_at U" authorization_wf ka_expires_at
  by unfold_locales (rule authorization_validate_iff [OF uuid_ok])

sublocale uuid_crate \<subseteq> rotation:
  timed_authority "N6BindingRotationIntent_validate_at U" rotation_intent_wf ri_expires_at
  by unfold_locales (rule rotation_validate_iff [OF uuid_ok])

sublocale uuid_crate \<subseteq> revocation:
  timed_authority "N6BindingRevocationIntent_validate_at U" revocation_intent_wf vi_expires_at
  by unfold_locales (rule revocation_validate_iff [OF uuid_ok])

context uuid_crate
begin

lemma new_request_valid:
  "N6BindingChallengeRequest_new U n d p k g e now v = Inr r \<Longrightarrow>
   cr_expires_at r = e \<and> N6BindingChallengeRequest_validate_at U r now = Inr ()"
  by (auto simp: N6BindingChallengeRequest_new_def N6BindingChallengeRequest_validate_at_def
      guard_simps)

lemma new_delivery_valid:
  "N6BindingChallengeDelivery_new U ch b g nonce e now = Inr d \<Longrightarrow>
   cd_expires_at d = e \<and> N6BindingChallengeDelivery_validate_at U d now = Inr ()"
  by (auto simp: N6BindingChallengeDelivery_new_def N6BindingChallengeDelivery_validate_at_def
      guard_simps)

lemma new_authorization_valid:
  "KeryxBindingAuthorization_new U i au ac c b g r e now = Inr a \<Longrightarrow>
   ka_expires_at a = e \<and> KeryxBindingAuthorization_validate_at U a now = Inr ()"
  by (auto simp: KeryxBindingAuthorization_new_def KeryxBindingAuthorization_validate_at_def
      guard_simps)

lemma new_rotation_valid:
  "N6BindingRotationIntent_new U d a b g r n e now c = Inr i \<Longrightarrow>
   ri_authorization i = a \<and> ri_expires_at i = e \<and> ri_predecessor_binding_id i = b \<and>
   ri_predecessor_generation i = g \<and> ri_predecessor_revision i = r \<and>
   ri_expected_next_generation i = n \<and> N6BindingRotationIntent_validate_at U i now = Inr ()"
  by (auto simp: N6BindingRotationIntent_new_def N6BindingRotationIntent_validate_at_def guard_simps)

lemma new_revocation_valid:
  "N6BindingRevocationIntent_new U d a b g r e now c = Inr i \<Longrightarrow>
   vi_authorization i = a \<and> vi_expires_at i = e \<and> vi_binding_id i = b \<and>
   vi_generation i = g \<and> vi_revision i = r \<and> N6BindingRevocationIntent_validate_at U i now = Inr ()"
  by (auto simp: N6BindingRevocationIntent_new_def N6BindingRevocationIntent_validate_at_def
      guard_simps)

lemma issued_values_window:
  "N6BindingChallengeRequest_new U n d p k g e now v = Inr rq \<Longrightarrow>
     N6BindingChallengeRequest_validate_at U rq t = Inr () \<longleftrightarrow> t < e"
  "N6BindingChallengeDelivery_new U ch b g nonce e now = Inr dl \<Longrightarrow>
     N6BindingChallengeDelivery_validate_at U dl t = Inr () \<longleftrightarrow> t < e"
  "KeryxBindingAuthorization_new U i au ac c b g r e now = Inr a \<Longrightarrow>
     KeryxBindingAuthorization_validate_at U a t = Inr () \<longleftrightarrow> t < e"
  using new_request_valid request.valid_window new_delivery_valid delivery.valid_window
    new_authorization_valid authorization.valid_window by metis+

lemma rotation_fenced:
  assumes "N6BindingRotationIntent_new U d a b g r n e now c = Inr i"
  shows "fences a KCRotate b g r e \<and> unat (gen_get n) = unat (gen_get g) + 1 \<and>
    (N6BindingRotationIntent_validate_at U i t = Inr () \<longleftrightarrow> t < e)"
  using new_rotation_valid [OF assms] rotation.valid_window [of i now "()" t "()"]
    rotation.validate_iff [of i now "()"]
  by (auto simp: rotation_intent_wf_def)

lemma revocation_fenced:
  assumes "N6BindingRevocationIntent_new U d a b g r e now c = Inr i"
  shows "fences a KCRevoke b g r e \<and>
    (N6BindingRevocationIntent_validate_at U i t = Inr () \<longleftrightarrow> t < e)"
  using new_revocation_valid [OF assms] revocation.valid_window [of i now "()" t "()"]
    revocation.validate_iff [of i now "()"]
  by (auto simp: revocation_intent_wf_def)

end

interpretation reference_uuid: uuid_crate hex_uuid_ops
  by unfold_locales (rule hex_uuid_laws)

text \<open>A rotation intent is only built under a rotate authorization for exactly that
  binding, generation and revision which lives at least as long, and only for the exact next
  generation; a revocation intent likewise under a revoke authorization. From then on
  revalidation succeeds exactly before the intent's expiry, and no authorization ever backs
  both a rotation and a revocation.\<close>
theorem binding_intents_fenced:
  assumes "uuid_laws U"
    and "N6BindingRotationIntent_new U d a b g r n e now c = Inr i"
  shows "ka_capability a = KCRotate \<and> ka_binding_id a = b \<and> ka_generation a = g \<and>
    ka_revision a = r \<and> e \<le> ka_expires_at a \<and>
    unat (gen_get n) = unat (gen_get g) + 1 \<and>
    (\<forall>t. N6BindingRotationIntent_validate_at U i t = Inr () \<longleftrightarrow> t < e) \<and>
    (\<nexists>d' b' g' r' e' now' c' j.
       N6BindingRevocationIntent_new U d' a b' g' r' e' now' c' = Inr j)"
proof -
  have u: "uuid_crate U" by (rule uuid_crate.intro [OF assms(1)])
  note rot = uuid_crate.rotation_fenced [OF u assms(2)]
  have "\<not> fences a KCRevoke b' g' r' e'" for b' g' r' e'
    using rot by (auto simp: fences_def)
  then have "N6BindingRevocationIntent_new U d' a b' g' r' e' now' c' \<noteq> Inr j"
    for d' b' g' r' e' now' c' j
    using uuid_crate.revocation_fenced [OF u] by blast
  with rot show ?thesis by (auto simp: fences_def)
qed

definition sample_authorization :: KeryxBindingAuthorization where
  "sample_authorization =
     \<lparr>ka_authorization_id = TypedId 5, ka_authority_id = TypedId 6, ka_actor = AuditActor_system,
      ka_capability = KCRotate, ka_binding_id = TypedId 1, ka_generation = Generation 3,
      ka_revision = 4, ka_expires_at = 100\<rparr>"

lemma sample_authorization_wf: "authorization_wf sample_authorization"
  by (simp add: authorization_wf_def sample_authorization_def actor_ok_def AuditActor_system_def
      bounded_safe_def safe_id_byte_def is_ascii_alphanumeric_def is_ascii_digit_def byte_val_def)

definition sample_rotation :: "N6BindingRotationIntent domain_result" where
  "sample_rotation =
     N6BindingRotationIntent_new hex_uuid_ops (TypedId 9) sample_authorization (TypedId 1)
       (Generation 3) 4 (Generation 4) 90 10 (ReasonCode ''rotate'')"

lemma sample_rotation_ok: "\<exists>i. sample_rotation = Inr i"
proof -
  have a: "validate_authorization hex_uuid_ops sample_authorization KCRotate (TypedId 1)
      (Generation 3) 4 90 10 = Inr ()"
    unfolding validate_authorization_Inr [OF hex_uuid_laws]
    using sample_authorization_wf by (simp add: fences_def sample_authorization_def)
  have ids: "revalidate_n6_uuid_id hex_uuid_ops (parse_KeryxBindingDecisionId hex_uuid_ops)
      (TypedId 9) = Inr ()"
    "revalidate_n6_uuid_id hex_uuid_ops (parse_KeryxBindingId hex_uuid_ops) (TypedId 1) = Inr ()"
    by (simp_all add: uuid_id_parsers revalidate_uuid_Inr [OF hex_uuid_laws])
  have gens: "revalidate_n6_generation (Generation 3) = Inr ()"
    "revalidate_n6_generation (Generation 4) = Inr ()"
    "revalidate_n6_reason_code (ReasonCode ''rotate'') = Inr ()"
    "validate_exact_rotation_generation (Generation 3) (Generation 4) = Inr ()"
    by (simp_all add: guard_simps bounded_safe_def safe_id_byte_def is_ascii_alphanumeric_def
        is_ascii_digit_def byte_val_def)
  show ?thesis
    by (simp add: sample_rotation_def N6BindingRotationIntent_new_def a ids gens)
qed

theorem binding_intents_fenced_witness:
  "\<exists>i. sample_rotation = Inr i \<and> N6BindingRotationIntent_validate_at hex_uuid_ops i 89 = Inr () \<and>
     N6BindingRotationIntent_validate_at hex_uuid_ops i 90 \<noteq> Inr ()"
proof -
  obtain i where i: "sample_rotation = Inr i" using sample_rotation_ok by blast
  note w = binding_intents_fenced [OF hex_uuid_laws i [unfolded sample_rotation_def],
      THEN conjunct2, THEN conjunct2, THEN conjunct2, THEN conjunct2, THEN conjunct2,
      THEN conjunct2, THEN conjunct1, rule_format]
  have "N6BindingRotationIntent_validate_at hex_uuid_ops i 89 = Inr ()" unfolding w by simp
  moreover have "N6BindingRotationIntent_validate_at hex_uuid_ops i 90 \<noteq> Inr ()" unfolding w by simp
  ultimately show ?thesis using i by blast
qed

text \<open>A challenge request, a challenge delivery and a binding authorization that were
  accepted at one instant are accepted at exactly the instants before their expiry: use at or
  after it always fails, and nothing else in them can go stale.\<close>
theorem issued_values_expire_exactly:
  assumes "uuid_laws U"
    and "N6BindingChallengeRequest_new U n d p k g e now v = Inr rq"
    and "N6BindingChallengeDelivery_new U ch b g' nonce e' now' = Inr dl"
    and "KeryxBindingAuthorization_new U ai au ac c b' h r e'' now'' = Inr a"
  shows "(N6BindingChallengeRequest_validate_at U rq t = Inr () \<longleftrightarrow> t < e) \<and>
    (N6BindingChallengeDelivery_validate_at U dl t = Inr () \<longleftrightarrow> t < e') \<and>
    (KeryxBindingAuthorization_validate_at U a t = Inr () \<longleftrightarrow> t < e'')"
proof -
  have u: "uuid_crate U" by (rule uuid_crate.intro [OF assms(1)])
  show ?thesis
    using uuid_crate.issued_values_window [OF u] assms(2-4) by (intro conjI) blast+
qed

lemma sample_values_ok:
  "\<exists>rq. N6BindingChallengeRequest_new hex_uuid_ops (TypedId 1) (TypedId 2) (TypedId 3)
     (KeryxPeerId ''p'') (Generation 1) 50 10 (AgentVersion ''a'') = Inr rq"
  "\<exists>dl. N6BindingChallengeDelivery_new hex_uuid_ops (TypedId 1) (TypedId 2) (Generation 1)
     (BindingNonce []) 50 10 = Inr dl"
  "\<exists>a. KeryxBindingAuthorization_new hex_uuid_ops (TypedId 1) (TypedId 2) AuditActor_system KCRevoke
     (TypedId 3) (Generation 1) 1 50 10 = Inr a"
proof -
  have id: "revalidate_n6_uuid_id hex_uuid_ops (uuid_id_parse hex_uuid_ops kind) i = Inr ()"
    if "id_uuid i \<noteq> 0" for kind and i :: "'k typed_id"
    using that by (simp add: revalidate_uuid_Inr [OF hex_uuid_laws])
  have texts: "revalidate_n6_peer_id (KeryxPeerId ''p'') = Inr ()"
    "revalidate_n6_agent_version (AgentVersion ''a'') = Inr ()"
    "revalidate_n6_generation (Generation 1) = Inr ()"
    "validate_n6_audit_actor AuditActor_system = Inr ()"
    "validate_expiry 50 10 kind = Inr ()" for kind
    using sample_authorization_wf
    by (simp_all add: guard_simps bounded_safe_def safe_id_byte_def is_ascii_alphanumeric_def
        is_ascii_digit_def byte_val_def authorization_wf_def sample_authorization_def)
  show "\<exists>rq. N6BindingChallengeRequest_new hex_uuid_ops (TypedId 1) (TypedId 2) (TypedId 3)
     (KeryxPeerId ''p'') (Generation 1) 50 10 (AgentVersion ''a'') = Inr rq"
    by (simp add: N6BindingChallengeRequest_new_def uuid_id_parsers id texts)
  show "\<exists>dl. N6BindingChallengeDelivery_new hex_uuid_ops (TypedId 1) (TypedId 2) (Generation 1)
     (BindingNonce []) 50 10 = Inr dl"
    by (simp add: N6BindingChallengeDelivery_new_def uuid_id_parsers id texts)
  show "\<exists>a. KeryxBindingAuthorization_new hex_uuid_ops (TypedId 1) (TypedId 2) AuditActor_system
     KCRevoke (TypedId 3) (Generation 1) 1 50 10 = Inr a"
    by (simp add: KeryxBindingAuthorization_new_def uuid_id_parsers id texts)
qed

theorem issued_values_expire_exactly_witness:
  "\<exists>rq dl a.
     N6BindingChallengeRequest_validate_at hex_uuid_ops rq 49 = Inr () \<and>
     N6BindingChallengeDelivery_validate_at hex_uuid_ops dl 49 = Inr () \<and>
     KeryxBindingAuthorization_validate_at hex_uuid_ops a 49 = Inr ()"
proof -
  obtain rq dl a where v: "N6BindingChallengeRequest_new hex_uuid_ops (TypedId 1) (TypedId 2)
      (TypedId 3) (KeryxPeerId ''p'') (Generation 1) 50 10 (AgentVersion ''a'') = Inr rq"
    "N6BindingChallengeDelivery_new hex_uuid_ops (TypedId 1) (TypedId 2) (Generation 1)
      (BindingNonce []) 50 10 = Inr dl"
    "KeryxBindingAuthorization_new hex_uuid_ops (TypedId 1) (TypedId 2) AuditActor_system KCRevoke
      (TypedId 3) (Generation 1) 1 50 10 = Inr a"
    using sample_values_ok by blast
  show ?thesis
    using issued_values_expire_exactly [OF hex_uuid_laws v, of 49]
    by (intro exI [of _ rq] exI [of _ dl] exI [of _ a]) simp
qed

end
