(* ===== verification/Invitations.thy ===== *)
theory Invitations
  imports N6_Commands
begin

text \<open>
  Invitations, join sessions and revocations of \<^verbatim>\<open>crates/nodescale-domain/src/lib.rs\<close>
  (lines 2680 to 3201): provider credential references, matching hints, the legacy and the N4
  invitation constructors, the N4 issuance check, and the join-session state machine with its
  N4 restrictions. The state-machine tables are those of \<open>Lifecycle\<close>.
\<close>

section \<open>Provider credential references\<close>

datatype ProviderCredentialReference =
  ProviderCredentialReference (credential_reference_str: string)

definition ProviderCredentialReference_new ::
    "string \<Rightarrow> ProviderCredentialReference domain_result" where
  "ProviderCredentialReference_new value =
     (if \<not> bounded_safe 255 value
      then Inl (InvalidValue ''provider credential reference''
             ''must be 1..=255 safe identifier characters'')
      else Inr (ProviderCredentialReference value))"

interpretation credential_reference:
  validated_text ProviderCredentialReference_new credential_reference_str "bounded_safe 255"
  by unfold_locales
    (auto simp: ProviderCredentialReference_new_def ProviderCredentialReference.expand)

section \<open>Join constraints\<close>

record JoinConstraints =
  jc_expected_platform :: "string option"
  jc_expected_hostname_hint :: "string option"

definition JoinConstraints_default :: JoinConstraints where
  "JoinConstraints_default = \<lparr>jc_expected_platform = None, jc_expected_hostname_hint = None\<rparr>"

definition bad_join_hint :: "nat \<Rightarrow> string \<Rightarrow> bool" where
  "bad_join_hint max_len hint \<longleftrightarrow>
     hint = [] \<or> length hint > max_len \<or> has_control_char hint \<or> trim_changes hint"

definition validate_join_hint :: "string option \<Rightarrow> string \<Rightarrow> nat \<Rightarrow> unit domain_result" where
  "validate_join_hint value kind max_len =
     (if some_and (bad_join_hint max_len) value
      then Inl (InvalidValue kind ''must be a bounded printable hint, not an identity'')
      else Inr ())"

definition JoinConstraints_new ::
    "string option \<Rightarrow> string option \<Rightarrow> JoinConstraints domain_result" where
  "JoinConstraints_new expected_platform expected_hostname_hint =
     and_then (validate_join_hint expected_platform ''expected platform'' 64) (\<lambda>_.
     and_then (validate_join_hint expected_hostname_hint ''expected hostname hint'' 128) (\<lambda>_.
     Inr \<lparr>jc_expected_platform = expected_platform,
          jc_expected_hostname_hint = expected_hostname_hint\<rparr>))"

text \<open>The two wire forms of persisted constraints: the N4 fields, or a legacy set of strings.\<close>

datatype join_constraints_wire =
  WireN4 "string option" "string option"
  | WireLegacy "string set"

fun JoinConstraints_deserialize :: "join_constraints_wire \<Rightarrow> JoinConstraints domain_result" where
  "JoinConstraints_deserialize (WireN4 platform hostname) = JoinConstraints_new platform hostname"
| "JoinConstraints_deserialize (WireLegacy legacy) = Inr JoinConstraints_default"

section \<open>Invitations\<close>

text \<open>\<^verbatim>\<open>InvitationAdminIntent\<close> has one value, so its option is a flag that is either given or not.\<close>

datatype InvitationAdminIntent = InvitationAdminIntent
datatype InvitationWorkflow = IWLegacy | IWN4a

record Invitation =
  in_invitation_id :: InvitationId
  in_network_id :: NetworkId
  in_state :: InvitationState
  in_roles :: Roles
  in_created_at :: DateTime
  in_expires_at :: DateTime
  in_max_uses :: u32
  in_used_count :: u32
  in_secret_verifier :: SecretVerifier
  in_provider_credential_reference :: "ProviderCredentialId option"
  in_join_constraints :: JoinConstraints
  in_workflow :: InvitationWorkflow
  in_elevated_admin_intent :: bool

definition validate_invitation_issuance ::
    "Roles \<Rightarrow> InvitationAdminIntent option \<Rightarrow> bool \<Rightarrow> unit domain_result" where
  "validate_invitation_issuance roles admin_intent n4 =
     (case (Roles_contains roles Admin, is_some admin_intent, n4) of
        (True, True, True) \<Rightarrow> Inr ()
      | (False, False, _) \<Rightarrow> Inr ()
      | (True, False, _) \<Rightarrow> Inl (InvalidValue ''invitation admin intent''
            ''Role::Admin requires explicit elevated intent'')
      | (False, True, _) \<Rightarrow> Inl (InvalidValue ''invitation admin intent''
            ''cannot be present without Role::Admin'')
      | (True, True, False) \<Rightarrow> Inl (InvalidValue ''invitation admin intent''
            ''Role::Admin requires the N4 invitation constructor''))"

definition Invitation_build ::
    "InvitationId \<Rightarrow> NetworkId \<Rightarrow> Roles \<Rightarrow> SecretVerifier \<Rightarrow> JoinConstraints \<Rightarrow> DateTime \<Rightarrow> DateTime \<Rightarrow>
     u32 \<Rightarrow> InvitationWorkflow \<Rightarrow> bool \<Rightarrow> Invitation domain_result" where
  "Invitation_build invitation_id network_id roles secret_verifier join_constraints created_at
      expires_at max_uses workflow elevated_admin_intent =
     (if expires_at \<le> created_at
      then Inl (InvalidValue ''invitation expiry'' ''must follow creation'')
      else if max_uses = 0 then Inl (InvalidValue ''invitation max uses'' ''must be positive'')
      else Inr
        \<lparr>in_invitation_id = invitation_id, in_network_id = network_id, in_state = ISIssued,
         in_roles = roles, in_created_at = created_at, in_expires_at = expires_at,
         in_max_uses = max_uses, in_used_count = 0, in_secret_verifier = secret_verifier,
         in_provider_credential_reference = None, in_join_constraints = join_constraints,
         in_workflow = workflow, in_elevated_admin_intent = elevated_admin_intent\<rparr>)"

definition Invitation_new ::
    "InvitationId \<Rightarrow> NetworkId \<Rightarrow> Roles \<Rightarrow> SecretVerifier \<Rightarrow> DateTime \<Rightarrow> DateTime \<Rightarrow> u32 \<Rightarrow>
     Invitation domain_result" where
  "Invitation_new invitation_id network_id roles secret_verifier created_at expires_at max_uses =
     and_then (validate_invitation_issuance roles None False) (\<lambda>_.
     Invitation_build invitation_id network_id roles secret_verifier JoinConstraints_default
       created_at expires_at max_uses IWLegacy False)"

definition Invitation_new_n4 ::
    "argon_ops \<Rightarrow> InvitationId \<Rightarrow> NetworkId \<Rightarrow> Roles \<Rightarrow> InvitationAdminIntent option \<Rightarrow> SecretVerifier \<Rightarrow>
     JoinConstraints \<Rightarrow> DateTime \<Rightarrow> DateTime \<Rightarrow> u32 \<Rightarrow> Invitation domain_result" where
  "Invitation_new_n4 A invitation_id network_id roles admin_intent secret_verifier
      join_constraints created_at expires_at max_uses =
     and_then (validate_invitation_issuance roles admin_intent True) (\<lambda>_.
     and_then (ensure (is_n4 A secret_verifier)
        (InvalidValue ''N4 invitation verifier'' ''must be generated from an InvitationToken'')) (\<lambda>_.
     and_then (ensure (\<not> max_uses \<noteq> 1)
        (InvalidValue ''N4 invitation max uses'' ''N4 invitations are exactly single-use'')) (\<lambda>_.
     Invitation_build invitation_id network_id roles secret_verifier join_constraints created_at
       expires_at max_uses IWN4a (is_some admin_intent))))"

definition Invitation_is_n4 :: "Invitation \<Rightarrow> bool" where
  "Invitation_is_n4 i \<longleftrightarrow> in_workflow i = IWN4a"

definition validate_n4_issuance :: "argon_ops \<Rightarrow> Invitation \<Rightarrow> unit domain_result" where
  "validate_n4_issuance A i =
     (if \<not> Invitation_is_n4 i \<or> in_state i \<noteq> ISIssued \<or> \<not> is_n4 A (in_secret_verifier i) \<or>
         in_max_uses i \<noteq> 1 \<or> in_used_count i \<noteq> 0 \<or>
         is_some (in_provider_credential_reference i) \<or>
         Roles_contains (in_roles i) Admin \<noteq> in_elevated_admin_intent i
      then Inl (InvalidValue ''N4 invitation''
             ''record does not satisfy N4 issuance invariants'')
      else Inr ())"

lemma issuance_Inr [guard_simps]:
  "validate_invitation_issuance roles intent n4 = Inr u \<longleftrightarrow>
    Roles_contains roles Admin = is_some intent \<and> (is_some intent \<longrightarrow> n4)"
  by (cases "Roles_contains roles Admin"; cases "is_some intent"; cases n4)
    (simp_all add: validate_invitation_issuance_def)

lemma build_Inr [guard_simps]:
  "Invitation_build ii ni ro sv jc ca ea mu wk el = Inr i \<longleftrightarrow>
    ca < ea \<and> mu \<noteq> 0 \<and> i =
      \<lparr>in_invitation_id = ii, in_network_id = ni, in_state = ISIssued, in_roles = ro,
       in_created_at = ca, in_expires_at = ea, in_max_uses = mu, in_used_count = 0,
       in_secret_verifier = sv, in_provider_credential_reference = None,
       in_join_constraints = jc, in_workflow = wk, in_elevated_admin_intent = el\<rparr>"
  by (auto simp: Invitation_build_def)

text \<open>The N4 constructor succeeds exactly for an N4 verifier, one use, an expiry after
  creation and an administrator role just when elevated intent is given; what it builds always
  passes the N4 issuance check. The legacy constructor never grants the administrator role and
  its invitations never pass that check.\<close>
theorem invitation_issuance:
  shows "((\<exists>i. Invitation_new_n4 A ii ni ro intent sv jc ca ea mu = Inr i) \<longleftrightarrow>
      is_n4 A sv \<and> mu = 1 \<and> ca < ea \<and> Roles_contains ro Admin = is_some intent) \<and>
    (Invitation_new_n4 A ii ni ro intent sv jc ca ea mu = Inr i \<longrightarrow>
      validate_n4_issuance A i = Inr () \<and> in_state i = ISIssued \<and> in_used_count i = 0 \<and>
      (Roles_contains (in_roles i) Admin \<longleftrightarrow> is_some intent)) \<and>
    (Invitation_new ii ni ro sv ca ea mu = Inr j \<longrightarrow>
      \<not> Roles_contains (in_roles j) Admin \<and> validate_n4_issuance A j \<noteq> Inr ())"
  by (auto simp: Invitation_new_n4_def Invitation_new_def guard_simps validate_n4_issuance_def
      Invitation_is_n4_def is_some_def)

definition sample_salt :: "u8 list" where "sample_salt = replicate 16 5"
definition sample_hash :: "u8 list" where "sample_hash = replicate 32 9"

definition sample_verifier :: SecretVerifier where
  "sample_verifier = SecretVerifier (phc_text standard_no_pad (costs_prefix 2) sample_salt sample_hash)"

lemma sample_verifier_n4: "is_n4 reference_argon sample_verifier"
proof -
  have dec: "b64_decode standard_no_pad (b64_encode standard_no_pad sample_hash) = Some sample_hash"
    using standard_no_pad_laws unfolding base64_laws_def by blast
  have len: "length sample_hash = 32" by (simp add: sample_hash_def)
  have pre: "take 31 (phc_text standard_no_pad (costs_prefix 2) sample_salt sample_hash)
      = costs_prefix 2"
    by (simp add: phc_text_def costs_prefix_facts(1))
  show ?thesis
    unfolding is_n4_def sample_verifier_def validate_n4_verifier_def
    by (simp add: reference_argon_def phc_text_tail [OF len] dec pre correct_profile_def
        argon_costs len)
qed

theorem invitation_issuance_witness:
  "\<exists>i. Invitation_new_n4 reference_argon (TypedId 1) (TypedId 2) (Roles [Node]) None sample_verifier
      JoinConstraints_default 10 20 1 = Inr i \<and> validate_n4_issuance reference_argon i = Inr ()"
proof -
  have "\<not> Roles_contains (Roles [Node]) Admin" by (simp add: Roles_contains_def)
  then have c: "is_n4 reference_argon sample_verifier \<and> (1 :: u32) = 1 \<and> (10 :: int) < 20 \<and>
      Roles_contains (Roles [Node]) Admin = is_some (None :: InvitationAdminIntent option)"
    using sample_verifier_n4 by (simp add: is_some_def)
  obtain i where i: "Invitation_new_n4 reference_argon (TypedId 1) (TypedId 2) (Roles [Node]) None
      sample_verifier JoinConstraints_default 10 20 1 = Inr i"
    using invitation_issuance [THEN conjunct1, THEN iffD2, OF c] by blast
  show ?thesis
    using i invitation_issuance [THEN conjunct2, THEN conjunct1, rule_format, OF i] by blast
qed

section \<open>Join sessions\<close>

datatype JoinWorkflow = JWLegacy | JWN4a

record JoinSession =
  js_join_session_id :: JoinSessionId
  js_invitation_id :: InvitationId
  js_network_id :: NetworkId
  js_device_id :: "DeviceId option"
  js_state :: JoinSessionState
  js_created_at :: DateTime
  js_expires_at :: DateTime
  js_updated_at :: DateTime
  js_failure_reason :: "string option"
  js_workflow :: JoinWorkflow

definition JoinSession_build ::
    "JoinSessionId \<Rightarrow> InvitationId \<Rightarrow> NetworkId \<Rightarrow> DateTime \<Rightarrow> DateTime \<Rightarrow> JoinWorkflow \<Rightarrow>
     JoinSession domain_result" where
  "JoinSession_build join_session_id invitation_id network_id created_at expires_at workflow =
     (if expires_at \<le> created_at
      then Inl (InvalidValue ''join session expiry'' ''must follow creation'')
      else Inr
        \<lparr>js_join_session_id = join_session_id, js_invitation_id = invitation_id,
         js_network_id = network_id, js_device_id = None, js_state = JSCreated,
         js_created_at = created_at, js_expires_at = expires_at, js_updated_at = created_at,
         js_failure_reason = None, js_workflow = workflow\<rparr>)"

definition JoinSession_new ::
    "JoinSessionId \<Rightarrow> InvitationId \<Rightarrow> NetworkId \<Rightarrow> DateTime \<Rightarrow> DateTime \<Rightarrow> JoinSession domain_result" where
  "JoinSession_new i v n c e = JoinSession_build i v n c e JWLegacy"

definition JoinSession_new_n4 ::
    "JoinSessionId \<Rightarrow> InvitationId \<Rightarrow> NetworkId \<Rightarrow> DateTime \<Rightarrow> DateTime \<Rightarrow> JoinSession domain_result" where
  "JoinSession_new_n4 i v n c e = JoinSession_build i v n c e JWN4a"

definition JoinSession_is_n4 :: "JoinSession \<Rightarrow> bool" where
  "JoinSession_is_n4 s \<longleftrightarrow> js_workflow s = JWN4a"

definition future_state :: "JoinSessionState \<Rightarrow> bool" where
  "future_state nxt \<longleftrightarrow>
     nxt \<in> {JSMeshJoinObserved, JSAgentRegistered, JSKeryxBindingPending, JSKeryxBindingVerified,
            JSFleetProjectionPending, JSActive}"

definition JoinSession_transition ::
    "JoinSession \<Rightarrow> JoinSessionState \<Rightarrow> DateTime \<Rightarrow> JoinSession domain_result" where
  "JoinSession_transition s nxt now =
     (let skips_credential_cleanup =
            js_state s = JSProviderCredentialIssued \<and> nxt \<noteq> JSProviderCredentialRevocationPending
      in if JoinSession_is_n4 s \<and> (future_state nxt \<or> skips_credential_cleanup)
         then Inl (InvalidTransition (JoinSessionState_str (js_state s)) (JoinSessionState_str nxt))
         else and_then (JoinSessionState_transition (js_state s) nxt)
           (\<lambda>st. Inr (s\<lparr>js_state := st, js_updated_at := now\<rparr>)))"

definition n4_state :: "JoinSessionState \<Rightarrow> bool" where
  "n4_state st \<longleftrightarrow>
     st \<in> {JSCreated, JSInvitationValidated, JSProviderCredentialIssuing, JSProviderCredentialIssued,
           JSProviderCredentialAmbiguous, JSProviderCredentialRevocationPending}"

definition n4_next :: "JoinSessionState \<Rightarrow> bool" where
  "n4_next st \<longleftrightarrow>
     st \<in> {JSInvitationValidated, JSProviderCredentialIssuing, JSProviderCredentialIssued,
           JSProviderCredentialAmbiguous, JSProviderCredentialRevocationPending, JSExpired,
           JSFailed, JSRevoked}"

definition advance_n4 ::
    "JoinSession \<Rightarrow> JoinSessionState \<Rightarrow> DateTime \<Rightarrow> JoinSession domain_result" where
  "advance_n4 s nxt now =
     (if \<not> JoinSession_is_n4 s
      then Inl (InvalidTransition (JoinSessionState_str (js_state s)) (JoinSessionState_str nxt))
      else if \<not> n4_state (js_state s) \<or> \<not> n4_next nxt
      then Inl (InvalidTransition (JoinSessionState_str (js_state s)) (JoinSessionState_str nxt))
      else JoinSession_transition s nxt now)"

text \<open>
  The life of a session: accepted calls of either operation, in any order. A refused call
  leaves the session as it was and is no step.
\<close>

inductive session_step :: "JoinSession \<Rightarrow> JoinSession \<Rightarrow> bool" where
  step_transition: "JoinSession_transition s nxt now = Inr s' \<Longrightarrow> session_step s s'"
| step_advance: "advance_n4 s nxt now = Inr s' \<Longrightarrow> session_step s s'"

inductive_simps session_step_simps: "session_step s s'"

inductive session_history :: "JoinSession \<Rightarrow> JoinSession list \<Rightarrow> bool" where
  history_start: "session_history s [s]"
| history_step: "session_step s s' \<Longrightarrow> session_history s' ss \<Longrightarrow> session_history s (s # ss)"

inductive_cases session_history_ConsE: "session_history s (t # ss)"

text \<open>What an N4 step can do: the state moves along the generic table and never to a later stage.\<close>

lemma transition_step:
  "JoinSession_transition s nxt now = Inr s' \<Longrightarrow>
   js_workflow s' = js_workflow s \<and> js_state s' = nxt \<and>
   js_invitation_id s' = js_invitation_id s \<and> js_network_id s' = js_network_id s \<and>
   JoinSessionState_transition (js_state s) nxt = Inr nxt \<and>
   (JoinSession_is_n4 s \<longrightarrow> \<not> future_state nxt \<and>
     (js_state s = JSProviderCredentialIssued \<longrightarrow> nxt = JSProviderCredentialRevocationPending))"
  using join_session_lc.result
  by (fastforce simp: JoinSession_transition_def Let_def guard_simps split: if_splits)

lemma session_step_n4:
  assumes "session_step s s'" "JoinSession_is_n4 s"
  shows "JoinSession_is_n4 s' \<and> \<not> future_state (js_state s') \<and>
    js_invitation_id s' = js_invitation_id s \<and> js_network_id s' = js_network_id s \<and>
    JoinSessionState_transition (js_state s) (js_state s') = Inr (js_state s') \<and>
    (js_state s = JSProviderCredentialIssued \<longrightarrow> js_state s' = JSProviderCredentialRevocationPending)"
proof -
  from assms(1) obtain nxt now where t: "JoinSession_transition s nxt now = Inr s'"
    by (auto simp: session_step_simps advance_n4_def split: if_splits)
  show ?thesis using transition_step [OF t] assms(2) by (auto simp: JoinSession_is_n4_def)
qed

lemma history_n4:
  "session_history s ss \<Longrightarrow> JoinSession_is_n4 s \<Longrightarrow> \<not> future_state (js_state s) \<Longrightarrow>
   (\<forall>t\<in>set ss. JoinSession_is_n4 t \<and> \<not> future_state (js_state t) \<and>
      js_invitation_id t = js_invitation_id s \<and> js_network_id t = js_network_id s)"
proof (induction rule: session_history.induct)
  case (history_start s)
  then show ?case by simp
next
  case (history_step s s' ss)
  with session_step_n4 [OF history_step.hyps(1)] show ?case by simp
qed

lemma history_head: "session_history s ss \<Longrightarrow> ss \<noteq> [] \<and> hd ss = s"
  by (induction rule: session_history.induct) auto

lemma history_adjacent:
  "session_history s (xs @ a # b # ys) \<Longrightarrow> session_step a b"
proof (induction xs arbitrary: s)
  case Nil
  then show ?case by (auto elim!: session_history_ConsE dest: history_head)
next
  case (Cons x xs)
  then show ?case by (auto elim!: session_history_ConsE)
qed

text \<open>However its operations are called, an N4 join session never reaches the mesh, agent,
  binding, projection or active stages, and never changes its invitation or network. A session
  with an issued provider credential only ever moves on to the pending revocation of that
  credential: no history skips the cleanup.\<close>
theorem n4_session_confined:
  assumes "JoinSession_new_n4 i v n c e = Inr s" "session_history s (xs @ a # ys)"
  shows "\<not> future_state (js_state a) \<and> js_invitation_id a = v \<and> js_network_id a = n \<and>
    (js_state a = JSProviderCredentialIssued \<longrightarrow> ys \<noteq> [] \<longrightarrow>
       js_state (hd ys) = JSProviderCredentialRevocationPending)"
proof -
  have s: "JoinSession_is_n4 s" "\<not> future_state (js_state s)" "js_invitation_id s = v"
      "js_network_id s = n"
    using assms(1) by (auto simp: JoinSession_new_n4_def JoinSession_build_def JoinSession_is_n4_def
        future_state_def split: if_splits)
  have all: "JoinSession_is_n4 a" "\<not> future_state (js_state a)" "js_invitation_id a = v"
      "js_network_id a = n"
    using history_n4 [OF assms(2) s(1,2)] s(3,4) by simp_all
  have "js_state b = JSProviderCredentialRevocationPending"
    if "ys = b # zs" "js_state a = JSProviderCredentialIssued" for b zs
    using session_step_n4 [OF history_adjacent, of s xs a b zs] assms(2) that all(1) by simp
  with all show ?thesis by (cases ys) auto
qed

definition sample_session :: "JoinSessionState \<Rightarrow> DateTime \<Rightarrow> JoinSession" where
  "sample_session st now =
     \<lparr>js_join_session_id = TypedId 1, js_invitation_id = TypedId 2, js_network_id = TypedId 3,
      js_device_id = None, js_state = st, js_created_at = 10, js_expires_at = 50,
      js_updated_at = now, js_failure_reason = None, js_workflow = JWN4a\<rparr>"

lemma sample_session_new:
  "JoinSession_new_n4 (TypedId 1) (TypedId 2) (TypedId 3) 10 50 = Inr (sample_session JSCreated 10)"
  by (simp add: JoinSession_new_n4_def JoinSession_build_def sample_session_def)

lemma sample_session_steps:
  "JoinSession_transition (sample_session JSCreated 10) JSInvitationValidated 11 =
     Inr (sample_session JSInvitationValidated 11)"
  "advance_n4 (sample_session JSInvitationValidated 11) JSProviderCredentialIssuing 12 =
     Inr (sample_session JSProviderCredentialIssuing 12)"
  "advance_n4 (sample_session JSProviderCredentialIssuing 12) JSProviderCredentialIssued 13 =
     Inr (sample_session JSProviderCredentialIssued 13)"
  "advance_n4 (sample_session JSProviderCredentialIssued 13) JSProviderCredentialRevocationPending 14 =
     Inr (sample_session JSProviderCredentialRevocationPending 14)"
  by (simp_all add: advance_n4_def JoinSession_transition_def sample_session_def future_state_def
      n4_state_def n4_next_def JoinSession_is_n4_def JoinSessionState_transition_def
      enum_transition_def JoinSessionState_allowed_def)

lemma sample_history:
  "session_history (sample_session JSCreated 10)
     ([sample_session JSCreated 10, sample_session JSInvitationValidated 11,
       sample_session JSProviderCredentialIssuing 12] @ sample_session JSProviderCredentialIssued 13 #
      [sample_session JSProviderCredentialRevocationPending 14])"
  using sample_session_steps
  by (auto intro!: session_history.intros intro: session_step.intros)

theorem n4_session_confined_witness:
  "js_state (sample_session JSProviderCredentialIssued 13) = JSProviderCredentialIssued \<and>
   js_state (hd [sample_session JSProviderCredentialRevocationPending 14]) =
     JSProviderCredentialRevocationPending"
  using n4_session_confined [OF sample_session_new sample_history]
  by (simp add: sample_session_def)

section \<open>Revocations\<close>

record Revocation =
  rv_revocation_id :: RevocationId
  rv_network_id :: NetworkId
  rv_device_id :: DeviceId
  rv_state :: RevocationState
  rv_requested_at :: DateTime
  rv_updated_at :: DateTime
  rv_application_trust_removed_at :: "DateTime option"
  rv_provider_cleanup_completed_at :: "DateTime option"

definition Revocation_requested ::
    "RevocationId \<Rightarrow> NetworkId \<Rightarrow> DeviceId \<Rightarrow> DateTime \<Rightarrow> Revocation" where
  "Revocation_requested revocation_id network_id device_id now =
     \<lparr>rv_revocation_id = revocation_id, rv_network_id = network_id, rv_device_id = device_id,
      rv_state = RSRequested, rv_requested_at = now, rv_updated_at = now,
      rv_application_trust_removed_at = None, rv_provider_cleanup_completed_at = None\<rparr>"

end
