(* ===== verification/Fleet_Projection.thy ===== *)
theory Fleet_Projection
  imports Invitations
begin

text \<open>
  The desired Fleet projection of \<^verbatim>\<open>crates/nodescale-domain/src/n7.rs\<close>: the active-binding
  provenance, the generated grants, the desired projection with its constructors, transitions
  and validation, and the content digest.

  SHA-256 is the parameter \<open>sha\<close>, a function from bytes to bytes; nothing is assumed of it.
  Digest statements say what equal digests mean up to an explicit collision.
\<close>

section \<open>Enumerations\<close>

datatype FleetProjectionSource = SourceNodescale

fun FleetProjectionSource_str :: "FleetProjectionSource \<Rightarrow> string" where
  "FleetProjectionSource_str SourceNodescale = ''nodescale''"

datatype FleetEnrollmentState = FEPending | FEDisabled | FERemoved

fun FleetEnrollmentState_str :: "FleetEnrollmentState \<Rightarrow> string" where
  "FleetEnrollmentState_str FEPending = ''pending''"
| "FleetEnrollmentState_str FEDisabled = ''disabled''"
| "FleetEnrollmentState_str FERemoved = ''removed''"

datatype FleetProjectionOperation = FOUpsert | FODisable | FORemove

fun FleetProjectionOperation_str :: "FleetProjectionOperation \<Rightarrow> string" where
  "FleetProjectionOperation_str FOUpsert = ''upsert''"
| "FleetProjectionOperation_str FODisable = ''disable''"
| "FleetProjectionOperation_str FORemove = ''remove''"

fun managed_membership_state_name :: "MembershipState \<Rightarrow> string" where
  "managed_membership_state_name MSPending = ''pending''"
| "managed_membership_state_name MSJoining = ''joining''"
| "managed_membership_state_name MSActive = ''active''"
| "managed_membership_state_name MSSuspended = ''suspended''"
| "managed_membership_state_name MSRevoking = ''revoking''"
| "managed_membership_state_name MSRevoked = ''revoked''"

fun role_name :: "Role \<Rightarrow> string" where
  "role_name Node = ''node''"
| "role_name Worker = ''worker''"
| "role_name Controller = ''controller''"
| "role_name ProfileHost = ''profile_host''"
| "role_name Observer = ''observer''"
| "role_name Admin = ''admin''"

lemma FleetEnrollmentState_str_inj: "FleetEnrollmentState_str a = FleetEnrollmentState_str b \<Longrightarrow> a = b"
  by (cases a; cases b) auto

lemma membership_name_inj: "managed_membership_state_name a = managed_membership_state_name b \<Longrightarrow> a = b"
  by (cases a; cases b) auto

lemma role_name_inj: "role_name a = role_name b \<Longrightarrow> a = b"
  by (cases a; cases b) auto

lemma source_unique: "(s :: FleetProjectionSource) = SourceNodescale"
  by (cases s)

section \<open>Active-binding provenance\<close>

definition positive_generation :: "Generation \<Rightarrow> unit domain_result" where
  "positive_generation g = and_then (Generation_new (gen_get g)) (\<lambda>_. Inr ())"

record N6ActiveBindingProvenance =
  pv_network_id :: NetworkId
  pv_device_id :: DeviceId
  pv_binding_id :: KeryxBindingId
  pv_authenticated_peer_id :: KeryxPeerId
  pv_binding_generation :: Generation

definition provenance_validate :: "uuid_ops \<Rightarrow> N6ActiveBindingProvenance \<Rightarrow> unit domain_result" where
  "provenance_validate U v =
     and_then (parse_NetworkId U (id_display U (pv_network_id v))) (\<lambda>_.
     and_then (parse_DeviceId U (id_display U (pv_device_id v))) (\<lambda>_.
     and_then (parse_KeryxBindingId U (id_display U (pv_binding_id v))) (\<lambda>_.
     and_then (parse_KeryxPeerId (peer_id_str (pv_authenticated_peer_id v))) (\<lambda>_.
     positive_generation (pv_binding_generation v)))))"

definition provenance_new ::
    "uuid_ops \<Rightarrow> NetworkId \<Rightarrow> DeviceId \<Rightarrow> KeryxBindingId \<Rightarrow> KeryxPeerId \<Rightarrow> Generation \<Rightarrow>
     N6ActiveBindingProvenance domain_result" where
  "provenance_new U network_id device_id binding_id authenticated_peer_id binding_generation =
     (let v = \<lparr>pv_network_id = network_id, pv_device_id = device_id, pv_binding_id = binding_id,
         pv_authenticated_peer_id = authenticated_peer_id,
         pv_binding_generation = binding_generation\<rparr>
      in and_then (provenance_validate U v) (\<lambda>_. Inr v))"

definition from_verified_active_runtime_row ::
    "uuid_ops \<Rightarrow> NetworkId \<Rightarrow> DeviceId \<Rightarrow> KeryxBindingId \<Rightarrow> KeryxPeerId \<Rightarrow> Generation \<Rightarrow>
     N6ActiveBindingProvenance domain_result" where
  "from_verified_active_runtime_row U network_id device_id binding_id authenticated_peer_id
      binding_generation =
     provenance_new U network_id device_id binding_id authenticated_peer_id binding_generation"

definition from_active_binding ::
    "uuid_ops \<Rightarrow> KeryxBindingIdentity \<Rightarrow> N6ActiveBindingProvenance domain_result" where
  "from_active_binding U binding =
     (let b = kb_record binding in
      if kb_state b \<noteq> KBActive
      then Inl (InvalidValue ''N6 binding provenance'' ''must reference an active N6 binding'')
      else and_then (ok_or (kb_verified_peer_id b)
          (InvalidValue ''N6 binding provenance''
             ''active N6 binding must have an authenticated peer'')) (\<lambda>authenticated_peer_id.
        provenance_new U (kb_network_id b) (kb_device_id b) (kb_binding_id b)
          authenticated_peer_id (kb_generation b)))"

definition provenance_ok :: "N6ActiveBindingProvenance \<Rightarrow> bool" where
  "provenance_ok v \<longleftrightarrow>
     id_uuid (pv_network_id v) \<noteq> 0 \<and> id_uuid (pv_device_id v) \<noteq> 0 \<and>
     id_uuid (pv_binding_id v) \<noteq> 0 \<and>
     bounded_safe 255 (peer_id_str (pv_authenticated_peer_id v)) \<and>
     gen_get (pv_binding_generation v) \<noteq> 0"

lemma positive_generation_Inr [guard_simps]: "positive_generation g = Inr u \<longleftrightarrow> gen_get g \<noteq> 0"
  by (auto simp: positive_generation_def Generation_new_def)

lemma provenance_validate_Inr:
  assumes "uuid_laws U"
  shows "provenance_validate U v = Inr u \<longleftrightarrow> provenance_ok v"
  by (auto simp: provenance_validate_def provenance_ok_def guard_simps uuid_id_parsers
      uuid_id_reparse_Inr [OF assms] peer_id.parse_Inr_iff)

section \<open>Generated grants\<close>

datatype FleetGeneratedGrants = FleetGeneratedGrants (grant_list: "Operation list")

definition grants_validate :: "FleetGeneratedGrants \<Rightarrow> unit domain_result" where
  "grants_validate g =
     (if list_all (\<lambda>operation. operation \<in> {FleetHealth, FleetInventory, FleetMessage}) (grant_list g)
      then Inr ()
      else Inl (InvalidValue ''generated Fleet grant''
             ''must be fleet.health, fleet.inventory, or fleet.message''))"

definition grants_new :: "Operation list \<Rightarrow> FleetGeneratedGrants domain_result" where
  "grants_new texts =
     (let grants = FleetGeneratedGrants (btree_of texts) in
      and_then (grants_validate grants) (\<lambda>_. Inr grants))"

definition grants_none :: FleetGeneratedGrants where
  "grants_none = FleetGeneratedGrants []"

definition grants_is_empty :: "FleetGeneratedGrants \<Rightarrow> bool" where
  "grants_is_empty g \<longleftrightarrow> grant_list g = []"

definition grants_contains :: "FleetGeneratedGrants \<Rightarrow> Operation \<Rightarrow> bool" where
  "grants_contains g operation \<longleftrightarrow> operation \<in> set (grant_list g)"

definition grants_serialize :: "FleetGeneratedGrants \<Rightarrow> string list" where
  "grants_serialize g = map operation_str (grant_list g)"

text \<open>Deserialization reports a domain error through serde, or its own for a repeated grant.\<close>

datatype grants_error = GrantInvalid DomainError | GrantDuplicate

fun grants_collect :: "Operation list \<Rightarrow> string list \<Rightarrow> grants_error + Operation list" where
  "grants_collect grants [] = Inr grants"
| "grants_collect grants (value # texts) =
     and_then (map_err GrantInvalid (operation_from_str value)) (\<lambda>operation.
     if operation \<in> set grants then Inl GrantDuplicate
     else grants_collect (btree_of (operation # grants)) texts)"

definition grants_deserialize :: "string list \<Rightarrow> grants_error + FleetGeneratedGrants" where
  "grants_deserialize texts =
     and_then (grants_collect [] texts) (\<lambda>grants. map_err GrantInvalid (grants_new grants))"

definition generated_operation :: "Operation \<Rightarrow> bool" where
  "generated_operation operation \<longleftrightarrow> operation \<noteq> FleetHermesRun"

definition grants_ok :: "FleetGeneratedGrants \<Rightarrow> bool" where
  "grants_ok g \<longleftrightarrow> is_btree (grant_list g) \<and> list_all generated_operation (grant_list g)"

lemma generated_operation_iff:
  "operation \<in> {FleetHealth, FleetInventory, FleetMessage} \<longleftrightarrow> generated_operation operation"
  by (cases operation) (simp_all add: generated_operation_def)

lemma grants_validate_Inr [guard_simps]:
  "grants_validate g = Inr u \<longleftrightarrow> list_all generated_operation (grant_list g)"
  by (simp add: grants_validate_def generated_operation_iff del: insert_iff)

lemma grants_new_Inr:
  "grants_new texts = Inr g \<longleftrightarrow>
    list_all generated_operation texts \<and> g = FleetGeneratedGrants (btree_of texts)"
  by (auto simp: grants_new_def Let_def guard_simps list_all_iff)

lemma btree_insert_set: "is_btree xs \<Longrightarrow> set (btree_of (x # xs)) = insert x (set xs)"
  by simp

lemma grants_collect_Inr:
  "is_btree acc \<Longrightarrow> grants_collect acc texts = Inr grants \<longleftrightarrow>
    (\<exists>ops. texts = map operation_str ops \<and> distinct ops \<and> set ops \<inter> set acc = {} \<and>
       grants = btree_of (ops @ acc))"
proof (induction texts arbitrary: acc)
  case Nil
  then show ?case by (auto simp: btree_of_is_btree)
next
  case (Cons v vs)
  have step: "grants_collect acc (v # vs) = Inr grants \<longleftrightarrow>
      (\<exists>x. v = operation_str x \<and> x \<notin> set acc \<and>
         grants_collect (btree_of (x # acc)) vs = Inr grants)"
    by (auto simp: guard_simps operation_from_str_Inr split: if_splits)
  have tree: "btree_of (ops @ btree_of (x # acc)) = btree_of ((x # ops) @ acc)" for x ops
    by (intro is_btree_eqI) auto
  have "grants_collect acc (v # vs) = Inr grants \<longleftrightarrow>
      (\<exists>x ops. v = operation_str x \<and> x \<notin> set acc \<and> vs = map operation_str ops \<and>
         distinct ops \<and> set ops \<inter> insert x (set acc) = {} \<and> grants = btree_of ((x # ops) @ acc))"
    unfolding step Cons.IH [OF is_btree_btree_of] by (simp add: tree)
  also have "\<dots> \<longleftrightarrow> (\<exists>ops. v # vs = map operation_str ops \<and> distinct ops \<and>
      set ops \<inter> set acc = {} \<and> grants = btree_of (ops @ acc))"
    (is "?L \<longleftrightarrow> ?R")
  proof
    assume ?L
    then obtain x ops where o: "v = operation_str x" "x \<notin> set acc" "vs = map operation_str ops"
      "distinct ops" "set ops \<inter> insert x (set acc) = {}" "grants = btree_of ((x # ops) @ acc)"
      by blast
    have "v # vs = map operation_str (x # ops)" using o(1,3) by simp
    moreover have "distinct (x # ops)" "set (x # ops) \<inter> set acc = {}" using o(2,4,5) by auto
    ultimately show ?R using o(6) by (intro exI [of _ "x # ops"] conjI)
  next
    assume ?R
    then obtain ops where o: "v # vs = map operation_str ops" "distinct ops"
      "set ops \<inter> set acc = {}" "grants = btree_of (ops @ acc)" by (elim exE conjE)
    from o(1) obtain x ops' where split: "ops = x # ops'" by (cases ops) simp_all
    have "v = operation_str x" "vs = map operation_str ops'" using o(1) by (simp_all add: split)
    moreover have "x \<notin> set acc" "distinct ops'" "set ops' \<inter> insert x (set acc) = {}"
      using o(2,3) by (auto simp: split)
    moreover have "grants = btree_of ((x # ops') @ acc)" using o(4) by (simp only: split)
    ultimately show ?L by (intro exI [of _ x] exI [of _ ops'] conjI)
  qed
  finally show ?case .
qed

lemma grants_deserialize_Inr:
  "grants_deserialize texts = Inr g \<longleftrightarrow>
    (\<exists>ops. texts = map operation_str ops \<and> distinct ops \<and> list_all generated_operation ops \<and>
       g = FleetGeneratedGrants (btree_of ops))"
proof -
  have nil: "is_btree ([] :: Operation list)" by (simp add: is_btree_def)
  have idem: "btree_of (btree_of ops) = btree_of ops" for ops :: "Operation list"
    by (simp add: btree_of_is_btree)
  show ?thesis
    by (auto simp: grants_deserialize_def guard_simps grants_collect_Inr [OF nil] grants_new_Inr
        list_all_iff idem)
qed

text \<open>The stored form of generated grants is read back exactly: what is accepted is a list
  of distinct health, inventory and message operations in any order, never the execution
  operation, read as their set; and every valid value written out is read back unchanged.\<close>
theorem grants_wire_round_trip:
  shows "((\<exists>g. grants_deserialize texts = Inr g) \<longleftrightarrow>
      (\<exists>ops. texts = map operation_str ops \<and> distinct ops \<and> FleetHermesRun \<notin> set ops)) \<and>
    (grants_deserialize texts = Inr g \<longrightarrow>
      grants_ok g \<and> set (grants_serialize g) = set texts) \<and>
    (grants_ok h \<longrightarrow> grants_deserialize (grants_serialize h) = Inr h)"
proof (intro conjI impI)
  show "(\<exists>g. grants_deserialize texts = Inr g) \<longleftrightarrow>
      (\<exists>ops. texts = map operation_str ops \<and> distinct ops \<and> FleetHermesRun \<notin> set ops)"
    unfolding grants_deserialize_Inr by (auto simp: list_all_iff generated_operation_def)
next
  assume "grants_deserialize texts = Inr g"
  then show "grants_ok g" "set (grants_serialize g) = set texts"
    unfolding grants_deserialize_Inr by (auto simp: grants_ok_def grants_serialize_def list_all_iff)
next
  assume "grants_ok h"
  then show "grants_deserialize (grants_serialize h) = Inr h"
    unfolding grants_deserialize_Inr grants_serialize_def
    by (intro exI [of _ "grant_list h"])
      (cases h, simp add: grants_ok_def is_btree_def btree_of_is_btree)
qed

theorem grants_wire_round_trip_witness:
  "grants_deserialize (grants_serialize (FleetGeneratedGrants [FleetHealth, FleetMessage])) =
     Inr (FleetGeneratedGrants [FleetHealth, FleetMessage])"
proof -
  have "grants_ok (FleetGeneratedGrants [FleetHealth, FleetMessage])"
    by (simp add: grants_ok_def is_btree_def generated_operation_def less_eq_Operation_def)
  then show ?thesis using grants_wire_round_trip by blast
qed

section \<open>Digests and observed approval\<close>

datatype FleetProjectionContentDigest = FleetProjectionContentDigest (digest_str: string)

definition digest_deserialize :: "string \<Rightarrow> FleetProjectionContentDigest option" where
  "digest_deserialize value =
     (if length value = 64 \<and>
         list_all (\<lambda>b. is_ascii_digit b \<or> (97 \<le> byte_val b \<and> byte_val b \<le> 102)) value
      then Some (FleetProjectionContentDigest value) else None)"

datatype FleetObservedApprovalState = OAPending | OAApproved | OADenied

record FleetObservedApproval =
  oa_network_id :: NetworkId
  oa_device_id :: DeviceId
  oa_projection_generation :: Generation
  oa_content_digest :: FleetProjectionContentDigest
  oa_state :: FleetObservedApprovalState

definition from_authoritative_inspection ::
    "uuid_ops \<Rightarrow> NetworkId \<Rightarrow> DeviceId \<Rightarrow> Generation \<Rightarrow> FleetProjectionContentDigest \<Rightarrow>
     FleetObservedApprovalState \<Rightarrow> FleetObservedApproval domain_result" where
  "from_authoritative_inspection U network_id device_id projection_generation content_digest state =
     and_then (parse_NetworkId U (id_display U network_id)) (\<lambda>_.
     and_then (parse_DeviceId U (id_display U device_id)) (\<lambda>_.
     and_then (positive_generation projection_generation) (\<lambda>_.
     Inr \<lparr>oa_network_id = network_id, oa_device_id = device_id,
          oa_projection_generation = projection_generation, oa_content_digest = content_digest,
          oa_state = state\<rparr>)))"

section \<open>The desired projection\<close>

record N7FleetDesiredProjection =
  fp_source :: FleetProjectionSource
  fp_network_id :: NetworkId
  fp_device_id :: DeviceId
  fp_display_name :: string
  fp_managed_membership_state :: MembershipState
  fp_membership_generation :: Generation
  fp_projection_generation :: Generation
  fp_binding_provenance :: N6ActiveBindingProvenance
  fp_roles :: Roles
  fp_enrollment_state :: FleetEnrollmentState
  fp_generated_grants :: FleetGeneratedGrants
  fp_content_digest :: FleetProjectionContentDigest

definition validate_display_name :: "string \<Rightarrow> unit domain_result" where
  "validate_display_name value =
     (if trims_to_empty value \<or> length value > 128 \<or> has_control_char value
      then Inl (InvalidValue ''Fleet projection display name'' ''must be 1..=128 printable characters'')
      else Inr ())"

definition validate_without_digest ::
    "uuid_ops \<Rightarrow> N7FleetDesiredProjection \<Rightarrow> unit domain_result" where
  "validate_without_digest U p =
     and_then (parse_NetworkId U (id_display U (fp_network_id p))) (\<lambda>_.
     and_then (parse_DeviceId U (id_display U (fp_device_id p))) (\<lambda>_.
     and_then (validate_display_name (fp_display_name p)) (\<lambda>_.
     and_then (positive_generation (fp_membership_generation p)) (\<lambda>_.
     and_then (positive_generation (fp_projection_generation p)) (\<lambda>_.
     and_then (provenance_validate U (fp_binding_provenance p)) (\<lambda>_.
     and_then (ensure (\<not> (pv_network_id (fp_binding_provenance p) \<noteq> fp_network_id p \<or>
           pv_device_id (fp_binding_provenance p) \<noteq> fp_device_id p))
        (InvalidValue ''N6 binding provenance'' ''must match projection network and device'')) (\<lambda>_.
     and_then (Roles_new (role_list (fp_roles p))) (\<lambda>canonical_roles.
     and_then (ensure (\<not> canonical_roles \<noteq> fp_roles p)
        (InvalidValue ''Fleet projection roles'' ''must be canonical and non-empty'')) (\<lambda>_.
     and_then (grants_validate (fp_generated_grants p)) (\<lambda>_.
     if fp_enrollment_state p \<in> {FEDisabled, FERemoved} \<and>
        \<not> grants_is_empty (fp_generated_grants p)
     then Inl (InvalidValue ''Fleet projection grants''
            ''disabled and removed enrollment must have no generated grants'')
     else Inr ()))))))))))"

text \<open>The strings that are fed to the hash, in order, each after its length.\<close>

definition projection_parts :: "uuid_ops \<Rightarrow> N7FleetDesiredProjection \<Rightarrow> string list" where
  "projection_parts U p =
     [''nodescale.n7.fleet-projection.v1'',
      FleetProjectionSource_str (fp_source p),
      FleetEnrollmentState_str (fp_enrollment_state p),
      id_display U (fp_network_id p),
      id_display U (fp_device_id p),
      fp_display_name p,
      managed_membership_state_name (fp_managed_membership_state p),
      decimal (unat (gen_get (fp_membership_generation p))),
      decimal (unat (gen_get (fp_projection_generation p))),
      id_display U (pv_binding_id (fp_binding_provenance p)),
      peer_id_str (pv_authenticated_peer_id (fp_binding_provenance p)),
      decimal (unat (gen_get (pv_binding_generation (fp_binding_provenance p))))] @
     map role_name (role_list (fp_roles p)) @ [''roles-end''] @
     map operation_str (grant_list (fp_generated_grants p)) @ [''grants-end'']"

definition content_preimage :: "uuid_ops \<Rightarrow> N7FleetDesiredProjection \<Rightarrow> u8 list" where
  "content_preimage U p = concat (map length_prefixed (projection_parts U p))"

definition compute_content_digest ::
    "uuid_ops \<Rightarrow> (u8 list \<Rightarrow> u8 list) \<Rightarrow> N7FleetDesiredProjection \<Rightarrow> FleetProjectionContentDigest" where
  "compute_content_digest U sha p =
     FleetProjectionContentDigest (hex_text (sha (content_preimage U p)))"

definition projection_validate ::
    "uuid_ops \<Rightarrow> (u8 list \<Rightarrow> u8 list) \<Rightarrow> N7FleetDesiredProjection \<Rightarrow> unit domain_result" where
  "projection_validate U sha p =
     and_then (validate_without_digest U p) (\<lambda>_.
     if fp_content_digest p = compute_content_digest U sha p then Inr ()
     else Inl (InvalidValue ''Fleet projection content digest''
            ''does not match canonical projection content''))"

definition from_parts ::
    "uuid_ops \<Rightarrow> (u8 list \<Rightarrow> u8 list) \<Rightarrow> NetworkId \<Rightarrow> DeviceId \<Rightarrow> string \<Rightarrow> MembershipState \<Rightarrow>
     Generation \<Rightarrow> Generation \<Rightarrow> N6ActiveBindingProvenance \<Rightarrow> Roles \<Rightarrow> FleetEnrollmentState \<Rightarrow>
     FleetGeneratedGrants \<Rightarrow> N7FleetDesiredProjection domain_result" where
  "from_parts U sha network_id device_id display_name managed_membership_state
      membership_generation projection_generation binding_provenance roles enrollment_state
      generated_grants =
     (let v = \<lparr>fp_source = SourceNodescale, fp_network_id = network_id,
         fp_device_id = device_id, fp_display_name = display_name,
         fp_managed_membership_state = managed_membership_state,
         fp_membership_generation = membership_generation,
         fp_projection_generation = projection_generation,
         fp_binding_provenance = binding_provenance, fp_roles = roles,
         fp_enrollment_state = enrollment_state, fp_generated_grants = generated_grants,
         fp_content_digest = FleetProjectionContentDigest []\<rparr>
      in and_then (validate_without_digest U v) (\<lambda>_.
         Inr (v\<lparr>fp_content_digest := compute_content_digest U sha v\<rparr>)))"

definition projection_upsert ::
    "uuid_ops \<Rightarrow> (u8 list \<Rightarrow> u8 list) \<Rightarrow> NetworkId \<Rightarrow> DeviceId \<Rightarrow> string \<Rightarrow> MembershipState \<Rightarrow>
     Generation \<Rightarrow> Generation \<Rightarrow> KeryxBindingIdentity \<Rightarrow> Roles \<Rightarrow> FleetGeneratedGrants \<Rightarrow>
     N7FleetDesiredProjection domain_result" where
  "projection_upsert U sha network_id device_id display_name managed_membership_state
      membership_generation projection_generation active_binding roles generated_grants =
     and_then (from_active_binding U active_binding) (\<lambda>provenance.
     from_parts U sha network_id device_id display_name managed_membership_state
       membership_generation projection_generation provenance roles FEPending generated_grants)"

definition upsert_from_active_n6_provenance ::
    "uuid_ops \<Rightarrow> (u8 list \<Rightarrow> u8 list) \<Rightarrow> NetworkId \<Rightarrow> DeviceId \<Rightarrow> string \<Rightarrow> MembershipState \<Rightarrow>
     Generation \<Rightarrow> Generation \<Rightarrow> N6ActiveBindingProvenance \<Rightarrow> Roles \<Rightarrow> FleetGeneratedGrants \<Rightarrow>
     N7FleetDesiredProjection domain_result" where
  "upsert_from_active_n6_provenance U sha network_id device_id display_name
      managed_membership_state membership_generation projection_generation
      active_binding_provenance roles generated_grants =
     from_parts U sha network_id device_id display_name managed_membership_state
       membership_generation projection_generation active_binding_provenance roles FEPending
       generated_grants"

definition projection_transition ::
    "uuid_ops \<Rightarrow> (u8 list \<Rightarrow> u8 list) \<Rightarrow> N7FleetDesiredProjection \<Rightarrow> FleetEnrollmentState \<Rightarrow>
     Generation \<Rightarrow> N7FleetDesiredProjection domain_result" where
  "projection_transition U sha p next_state next_projection_generation =
     and_then (projection_validate U sha p) (\<lambda>_.
     and_then (ensure (\<not> fp_enrollment_state p = FERemoved)
        (InvalidTransition (FleetEnrollmentState_str (fp_enrollment_state p))
           (FleetEnrollmentState_str next_state))) (\<lambda>_.
     and_then (validate_advance (fp_projection_generation p) (fp_projection_generation p)
        next_projection_generation) (\<lambda>_.
     from_parts U sha (fp_network_id p) (fp_device_id p) (fp_display_name p)
       (fp_managed_membership_state p) (fp_membership_generation p) next_projection_generation
       (fp_binding_provenance p) (fp_roles p) next_state grants_none)))"

definition projection_disable ::
    "uuid_ops \<Rightarrow> (u8 list \<Rightarrow> u8 list) \<Rightarrow> N7FleetDesiredProjection \<Rightarrow> Generation \<Rightarrow>
     N7FleetDesiredProjection domain_result" where
  "projection_disable U sha p g = projection_transition U sha p FEDisabled g"

definition projection_remove ::
    "uuid_ops \<Rightarrow> (u8 list \<Rightarrow> u8 list) \<Rightarrow> N7FleetDesiredProjection \<Rightarrow> Generation \<Rightarrow>
     N7FleetDesiredProjection domain_result" where
  "projection_remove U sha p g = projection_transition U sha p FERemoved g"

fun state_operation :: "FleetEnrollmentState \<Rightarrow> FleetProjectionOperation" where
  "state_operation FEPending = FOUpsert"
| "state_operation FEDisabled = FODisable"
| "state_operation FERemoved = FORemove"

definition projection_operation :: "N7FleetDesiredProjection \<Rightarrow> FleetProjectionOperation" where
  "projection_operation p = state_operation (fp_enrollment_state p)"

section \<open>What a valid projection is\<close>

definition projection_ok :: "N7FleetDesiredProjection \<Rightarrow> bool" where
  "projection_ok p \<longleftrightarrow>
     id_uuid (fp_network_id p) \<noteq> 0 \<and> id_uuid (fp_device_id p) \<noteq> 0 \<and>
     validate_display_name (fp_display_name p) = Inr () \<and>
     gen_get (fp_membership_generation p) \<noteq> 0 \<and> gen_get (fp_projection_generation p) \<noteq> 0 \<and>
     provenance_ok (fp_binding_provenance p) \<and>
     pv_network_id (fp_binding_provenance p) = fp_network_id p \<and>
     pv_device_id (fp_binding_provenance p) = fp_device_id p \<and>
     role_list (fp_roles p) \<noteq> [] \<and> is_btree (role_list (fp_roles p)) \<and>
     list_all generated_operation (grant_list (fp_generated_grants p)) \<and>
     (fp_enrollment_state p \<noteq> FEPending \<longrightarrow> grant_list (fp_generated_grants p) = [])"

lemma Roles_canonical:
  "Roles_new (role_list r) = Inr r \<longleftrightarrow> role_list r \<noteq> [] \<and> is_btree (role_list r)"
proof
  assume h: "Roles_new (role_list r) = Inr r"
  then have "role_list r \<noteq> []" "r = Roles (btree_of (role_list r))"
    by (auto simp: Roles_new_def Let_def split: if_splits)
  then show "role_list r \<noteq> [] \<and> is_btree (role_list r)"
    by (metis Roles.sel is_btree_btree_of)
next
  assume "role_list r \<noteq> [] \<and> is_btree (role_list r)"
  then show "Roles_new (role_list r) = Inr r"
    by (simp add: Roles_new_def Let_def btree_of_is_btree)
qed

lemma validate_without_digest_Inr:
  assumes "uuid_laws U"
  shows "validate_without_digest U p = Inr u \<longleftrightarrow> projection_ok p"
proof -
  have pend: "fp_enrollment_state p \<noteq> FEPending \<longleftrightarrow> fp_enrollment_state p \<in> {FEDisabled, FERemoved}"
    by (cases "fp_enrollment_state p") auto
  show ?thesis
    unfolding validate_without_digest_def projection_ok_def pend
    by (auto simp: guard_simps Roles_canonical uuid_id_parsers uuid_id_reparse_Inr [OF assms]
        provenance_validate_Inr [OF assms] grants_is_empty_def split: if_splits)
qed

lemma projection_validate_Inr:
  assumes "uuid_laws U"
  shows "projection_validate U sha p = Inr u \<longleftrightarrow>
    projection_ok p \<and> fp_content_digest p = compute_content_digest U sha p"
  by (auto simp: projection_validate_def guard_simps validate_without_digest_Inr [OF assms]
      split: if_splits)

lemma preimage_ignores_digest:
  "content_preimage U (p\<lparr>fp_content_digest := d\<rparr>) = content_preimage U p"
  by (simp add: content_preimage_def projection_parts_def)

lemma projection_ok_ignores_digest [simp]:
  "projection_ok (p\<lparr>fp_content_digest := d\<rparr>) \<longleftrightarrow> projection_ok p"
  by (simp add: projection_ok_def)

text \<open>Everything a successful construction decides.\<close>

lemma from_parts_Inr:
  assumes "uuid_laws U" "from_parts U sha n d nm ms mg pg pv ro es gg = Inr p"
  shows "projection_ok p \<and> fp_content_digest p = compute_content_digest U sha p \<and>
    fp_source p = SourceNodescale \<and> fp_network_id p = n \<and> fp_device_id p = d \<and>
    fp_display_name p = nm \<and> fp_managed_membership_state p = ms \<and>
    fp_membership_generation p = mg \<and> fp_projection_generation p = pg \<and>
    fp_binding_provenance p = pv \<and> fp_roles p = ro \<and> fp_enrollment_state p = es \<and>
    fp_generated_grants p = gg"
proof -
  from assms(2) obtain v where v: "validate_without_digest U v = Inr ()"
    "p = v\<lparr>fp_content_digest := compute_content_digest U sha v\<rparr>"
    "fp_source v = SourceNodescale" "fp_network_id v = n" "fp_device_id v = d"
    "fp_display_name v = nm" "fp_managed_membership_state v = ms"
    "fp_membership_generation v = mg" "fp_projection_generation v = pg"
    "fp_binding_provenance v = pv" "fp_roles v = ro" "fp_enrollment_state v = es"
    "fp_generated_grants v = gg"
    by (force simp: from_parts_def Let_def guard_simps)
  from v(1) have "projection_ok v" by (simp add: validate_without_digest_Inr [OF assms(1)])
  with v(2-) show ?thesis
    by (simp add: compute_content_digest_def preimage_ignores_digest)
qed

lemma from_parts_succeeds:
  assumes "uuid_laws U"
    and "\<And>v. fp_network_id v = n \<Longrightarrow> fp_device_id v = d \<Longrightarrow> fp_display_name v = nm \<Longrightarrow>
      fp_membership_generation v = mg \<Longrightarrow> fp_projection_generation v = pg \<Longrightarrow>
      fp_binding_provenance v = pv \<Longrightarrow> fp_roles v = ro \<Longrightarrow> fp_enrollment_state v = es \<Longrightarrow>
      fp_generated_grants v = gg \<Longrightarrow> projection_ok v"
  shows "\<exists>p. from_parts U sha n d nm ms mg pg pv ro es gg = Inr p"
proof -
  let ?v = "\<lparr>fp_source = SourceNodescale, fp_network_id = n, fp_device_id = d,
    fp_display_name = nm, fp_managed_membership_state = ms, fp_membership_generation = mg,
    fp_projection_generation = pg, fp_binding_provenance = pv, fp_roles = ro,
    fp_enrollment_state = es, fp_generated_grants = gg,
    fp_content_digest = FleetProjectionContentDigest []\<rparr>"
  have "projection_ok ?v" by (rule assms(2)) simp_all
  then have "validate_without_digest U ?v = Inr ()"
    by (simp only: validate_without_digest_Inr [OF assms(1)])
  then show ?thesis by (simp add: from_parts_def Let_def)
qed

lemma projection_transition_succeeds:
  assumes "uuid_laws U"
  shows "(\<exists>q. projection_transition U sha p st g = Inr q) \<longleftrightarrow>
    projection_validate U sha p = Inr () \<and> fp_enrollment_state p \<noteq> FERemoved \<and>
    fp_projection_generation p < g"
proof
  assume "\<exists>q. projection_transition U sha p st g = Inr q"
  then show "projection_validate U sha p = Inr () \<and> fp_enrollment_state p \<noteq> FERemoved \<and>
      fp_projection_generation p < g"
    by (auto simp: projection_transition_def guard_simps)
next
  assume h: "projection_validate U sha p = Inr () \<and> fp_enrollment_state p \<noteq> FERemoved \<and>
      fp_projection_generation p < g"
  then have ok: "projection_ok p" by (simp add: projection_validate_Inr [OF assms])
  have g: "gen_get g \<noteq> 0" using h by (auto simp: less_Generation_def)
  have "\<exists>q. from_parts U sha (fp_network_id p) (fp_device_id p) (fp_display_name p)
      (fp_managed_membership_state p) (fp_membership_generation p) g (fp_binding_provenance p)
      (fp_roles p) st grants_none = Inr q"
    by (rule from_parts_succeeds [OF assms])
      (use ok g in \<open>simp add: projection_ok_def grants_none_def\<close>)
  then show "\<exists>q. projection_transition U sha p st g = Inr q"
    using h by (auto simp: projection_transition_def guard_simps)
qed

lemma projection_transition_Inr:
  assumes "uuid_laws U" "projection_transition U sha p st g = Inr q"
  shows "projection_validate U sha q = Inr () \<and> fp_enrollment_state p \<noteq> FERemoved \<and>
    fp_projection_generation p < fp_projection_generation q \<and> fp_projection_generation q = g \<and>
    fp_enrollment_state q = st \<and> grant_list (fp_generated_grants q) = [] \<and>
    fp_source q = SourceNodescale \<and> fp_network_id q = fp_network_id p \<and>
    fp_device_id q = fp_device_id p \<and> fp_binding_provenance q = fp_binding_provenance p \<and>
    fp_roles q = fp_roles p"
proof -
  from assms(2) have parts: "from_parts U sha (fp_network_id p) (fp_device_id p)
      (fp_display_name p) (fp_managed_membership_state p) (fp_membership_generation p) g
      (fp_binding_provenance p) (fp_roles p) st grants_none = Inr q"
    and "fp_enrollment_state p \<noteq> FERemoved" "fp_projection_generation p < g"
    by (auto simp: projection_transition_def guard_simps)
  with from_parts_Inr [OF assms(1) parts] show ?thesis
    by (simp add: projection_validate_Inr [OF assms(1)] grants_none_def)
qed

section \<open>Projections the program can build\<close>

inductive projected :: "uuid_ops \<Rightarrow> (u8 list \<Rightarrow> u8 list) \<Rightarrow> N7FleetDesiredProjection \<Rightarrow> bool"
  for U sha where
  projected_upsert:
    "projection_upsert U sha n d nm ms mg pg b ro gg = Inr p \<Longrightarrow> projected U sha p"
| projected_provenance:
    "upsert_from_active_n6_provenance U sha n d nm ms mg pg pv ro gg = Inr p \<Longrightarrow> projected U sha p"
| projected_disable:
    "projected U sha p \<Longrightarrow> projection_disable U sha p g = Inr q \<Longrightarrow> projected U sha q"
| projected_remove:
    "projected U sha p \<Longrightarrow> projection_remove U sha p g = Inr q \<Longrightarrow> projected U sha q"

inductive projection_step ::
    "uuid_ops \<Rightarrow> (u8 list \<Rightarrow> u8 list) \<Rightarrow> N7FleetDesiredProjection \<Rightarrow> N7FleetDesiredProjection \<Rightarrow> bool"
  for U sha where
  step_disable: "projection_disable U sha p g = Inr q \<Longrightarrow> projection_step U sha p q"
| step_remove: "projection_remove U sha p g = Inr q \<Longrightarrow> projection_step U sha p q"

inductive_simps projection_step_simps: "projection_step U sha p q"

lemma projected_valid:
  assumes "uuid_laws U" "projected U sha p"
  shows "projection_validate U sha p = Inr () \<and> fp_source p = SourceNodescale"
  using assms(2)
proof (induction rule: projected.induct)
  case (projected_upsert n d nm ms mg pg b ro gg p)
  then show ?case
    using from_parts_Inr [OF assms(1)]
    by (fastforce simp: projection_upsert_def guard_simps projection_validate_Inr [OF assms(1)])
next
  case (projected_provenance n d nm ms mg pg pv ro gg p)
  then show ?case
    using from_parts_Inr [OF assms(1)]
    by (fastforce simp: upsert_from_active_n6_provenance_def projection_validate_Inr [OF assms(1)])
next
  case (projected_disable p g q)
  then show ?case
    using projection_transition_Inr [OF assms(1)] unfolding projection_disable_def by blast
next
  case (projected_remove p g q)
  then show ?case
    using projection_transition_Inr [OF assms(1)] unfolding projection_remove_def by blast
qed

text \<open>C33: Every desired projection the program can build, however it was derived, passes its own
  validation including the content digest, is sourced by Nodescale, is bound to an N6 binding of
  the same network and device, grants at most health, inventory and message, and grants nothing
  once disabled or removed.\<close>
theorem projections_never_grant_execution:
  assumes "uuid_laws U" "projected U sha p"
  shows "projection_validate U sha p = Inr () \<and> fp_source p = SourceNodescale \<and>
    pv_network_id (fp_binding_provenance p) = fp_network_id p \<and>
    pv_device_id (fp_binding_provenance p) = fp_device_id p \<and>
    \<not> grants_contains (fp_generated_grants p) FleetHermesRun \<and>
    (fp_enrollment_state p \<noteq> FEPending \<longrightarrow> grants_is_empty (fp_generated_grants p))"
  using projected_valid [OF assms]
  by (auto simp: projection_validate_Inr [OF assms(1)] projection_ok_def grants_contains_def
      grants_is_empty_def list_all_iff generated_operation_def)

definition sample_provenance :: N6ActiveBindingProvenance where
  "sample_provenance =
     \<lparr>pv_network_id = TypedId 2, pv_device_id = TypedId 3, pv_binding_id = TypedId 1,
      pv_authenticated_peer_id = KeryxPeerId ''peer'', pv_binding_generation = Generation 1\<rparr>"

definition sample_sha :: "u8 list \<Rightarrow> u8 list" where
  "sample_sha bytes = take 32 (bytes @ replicate 32 0)"

lemma sample_upsert:
  "\<exists>p. upsert_from_active_n6_provenance hex_uuid_ops sample_sha (TypedId 2) (TypedId 3) ''node-7''
     MSActive (Generation 1) (Generation 1) sample_provenance (Roles [Node])
     (FleetGeneratedGrants [FleetHealth]) = Inr p"
  unfolding upsert_from_active_n6_provenance_def
proof (rule from_parts_succeeds [OF hex_uuid_laws])
  fix v :: N7FleetDesiredProjection
  assume "fp_network_id v = TypedId 2" "fp_device_id v = TypedId 3" "fp_display_name v = ''node-7''"
    "fp_membership_generation v = Generation 1" "fp_projection_generation v = Generation 1"
    "fp_binding_provenance v = sample_provenance" "fp_roles v = Roles [Node]"
    "fp_enrollment_state v = FEPending" "fp_generated_grants v = FleetGeneratedGrants [FleetHealth]"
  then show "projection_ok v"
    by (simp add: projection_ok_def sample_provenance_def provenance_ok_def validate_display_name_def
        trims_to_empty_def has_control_char_def str_chars_def byte_val_def cp_is_whitespace_def
        cp_is_control_def bounded_safe_def safe_id_byte_def is_ascii_alphanumeric_def
        is_ascii_digit_def is_btree_def generated_operation_def)
qed

theorem projections_never_grant_execution_witness:
  "\<exists>p. projected hex_uuid_ops sample_sha p \<and> fp_source p = SourceNodescale \<and>
     \<not> grants_contains (fp_generated_grants p) FleetHermesRun"
proof -
  obtain p where p: "upsert_from_active_n6_provenance hex_uuid_ops sample_sha (TypedId 2) (TypedId 3)
      ''node-7'' MSActive (Generation 1) (Generation 1) sample_provenance (Roles [Node])
      (FleetGeneratedGrants [FleetHealth]) = Inr p"
    using sample_upsert by blast
  then have "projected hex_uuid_ops sample_sha p" by (rule projected_provenance)
  with projections_never_grant_execution [OF hex_uuid_laws this] show ?thesis by blast
qed

lemma projection_step_facts:
  assumes "uuid_laws U" "projection_step U sha p q"
  shows "fp_enrollment_state p \<noteq> FERemoved \<and> fp_enrollment_state q \<noteq> FEPending \<and>
    fp_projection_generation p < fp_projection_generation q \<and>
    grant_list (fp_generated_grants q) = [] \<and> fp_network_id q = fp_network_id p \<and>
    fp_device_id q = fp_device_id p \<and> fp_binding_provenance q = fp_binding_provenance p"
  using assms(2) projection_transition_Inr [OF assms(1)]
  by (fastforce simp: projection_step_simps projection_disable_def projection_remove_def)

lemma projection_steps_facts:
  assumes "uuid_laws U" "(projection_step U sha)\<^sup>+\<^sup>+ p q"
  shows "fp_enrollment_state p \<noteq> FERemoved \<and> fp_enrollment_state q \<noteq> FEPending \<and>
    fp_projection_generation p < fp_projection_generation q \<and>
    grant_list (fp_generated_grants q) = [] \<and> fp_network_id q = fp_network_id p \<and>
    fp_device_id q = fp_device_id p \<and> fp_binding_provenance q = fp_binding_provenance p"
  using assms(2)
proof (induction rule: tranclp_induct)
  case (base q)
  then show ?case by (rule projection_step_facts [OF assms(1)])
next
  case (step q r)
  with projection_step_facts [OF assms(1) step.hyps(2)] show ?case by (auto intro: less_trans)
qed

text \<open>Disabling or removing a projection the program built succeeds exactly when it is not
  removed yet and the given generation is larger. Over any sequence of such steps the projection
  generation strictly grows, the grants stay empty, the enrollment never returns to pending, the
  network, device and binding stay the same, and nothing ever follows a removal.\<close>
theorem projection_lifecycle:
  assumes "uuid_laws U" "projected U sha p"
  shows "((\<exists>q. projection_disable U sha p g = Inr q) \<longleftrightarrow>
      fp_enrollment_state p \<noteq> FERemoved \<and> fp_projection_generation p < g) \<and>
    ((\<exists>q. projection_remove U sha p g = Inr q) \<longleftrightarrow>
      fp_enrollment_state p \<noteq> FERemoved \<and> fp_projection_generation p < g) \<and>
    ((projection_step U sha)\<^sup>+\<^sup>+ p q \<longrightarrow>
      fp_enrollment_state p \<noteq> FERemoved \<and> fp_enrollment_state q \<noteq> FEPending \<and>
      fp_projection_generation p < fp_projection_generation q \<and>
      grants_is_empty (fp_generated_grants q) \<and> fp_network_id q = fp_network_id p \<and>
      fp_device_id q = fp_device_id p \<and> fp_binding_provenance q = fp_binding_provenance p)"
  using projection_transition_succeeds [OF assms(1)] projected_valid [OF assms]
    projection_steps_facts [OF assms(1)]
  by (simp add: projection_disable_def projection_remove_def grants_is_empty_def)

theorem projection_lifecycle_witness:
  "\<exists>p q. projected hex_uuid_ops sample_sha p \<and>
     projection_remove hex_uuid_ops sample_sha p (Generation 2) = Inr q"
proof -
  obtain p where p: "upsert_from_active_n6_provenance hex_uuid_ops sample_sha (TypedId 2) (TypedId 3)
      ''node-7'' MSActive (Generation 1) (Generation 1) sample_provenance (Roles [Node])
      (FleetGeneratedGrants [FleetHealth]) = Inr p"
    using sample_upsert by blast
  then have pr: "projected hex_uuid_ops sample_sha p" by (rule projected_provenance)
  have "fp_enrollment_state p \<noteq> FERemoved \<and> fp_projection_generation p < Generation 2"
    using from_parts_Inr [OF hex_uuid_laws p [unfolded upsert_from_active_n6_provenance_def]]
    by (simp add: less_Generation_def)
  then have "\<exists>q. projection_remove hex_uuid_ops sample_sha p (Generation 2) = Inr q"
    using projection_lifecycle [OF hex_uuid_laws pr, THEN conjunct2, THEN conjunct1] by blast
  with pr show ?thesis by blast
qed

text \<open>A projection can only be opened from a binding identity in the active state; it then
  carries that binding's own identifier, generation and verified peer, and only for the network
  and device the binding belongs to. Pending, stale, rotated and revoked bindings are refused.\<close>
theorem upsert_needs_active_binding:
  assumes "uuid_laws U" "projection_upsert U sha n d nm ms mg pg b ro gg = Inr p"
  shows "kb_state (kb_record b) = KBActive \<and>
    kb_verified_peer_id (kb_record b) = Some (pv_authenticated_peer_id (fp_binding_provenance p)) \<and>
    pv_binding_id (fp_binding_provenance p) = kb_binding_id (kb_record b) \<and>
    pv_binding_generation (fp_binding_provenance p) = kb_generation (kb_record b) \<and>
    kb_network_id (kb_record b) = n \<and> kb_device_id (kb_record b) = d \<and>
    fp_enrollment_state p = FEPending"
proof -
  from assms(2) obtain v where v: "from_active_binding U b = Inr v"
    and p: "from_parts U sha n d nm ms mg pg v ro FEPending gg = Inr p"
    by (auto simp: projection_upsert_def guard_simps)
  note parts = from_parts_Inr [OF assms(1) p]
  from v have b: "kb_state (kb_record b) = KBActive"
    "kb_verified_peer_id (kb_record b) = Some (pv_authenticated_peer_id v)"
    "pv_binding_id v = kb_binding_id (kb_record b)"
    "pv_binding_generation v = kb_generation (kb_record b)"
    "pv_network_id v = kb_network_id (kb_record b)" "pv_device_id v = kb_device_id (kb_record b)"
    by (auto simp: from_active_binding_def provenance_new_def Let_def guard_simps split: if_splits)
  from parts have "fp_binding_provenance p = v" "fp_enrollment_state p = FEPending"
    "pv_network_id v = n" "pv_device_id v = d"
    by (auto simp: projection_ok_def)
  with b show ?thesis by simp
qed

lemma sample_active_upsert:
  "\<exists>p. projection_upsert hex_uuid_ops sample_sha (TypedId 2) (TypedId 3) ''node-7'' MSActive
     (Generation 1) (Generation 1) (KeryxBindingIdentity sample_active_record) (Roles [Node])
     grants_none = Inr p"
proof -
  have ok: "provenance_ok \<lparr>pv_network_id = TypedId 2, pv_device_id = TypedId 3,
      pv_binding_id = TypedId 1, pv_authenticated_peer_id = KeryxPeerId ''peer-7'',
      pv_binding_generation = Generation 1\<rparr>"
    by (simp add: provenance_ok_def bounded_safe_def safe_id_byte_def is_ascii_alphanumeric_def
        is_ascii_digit_def byte_val_def)
  have "provenance_validate hex_uuid_ops \<lparr>pv_network_id = TypedId 2, pv_device_id = TypedId 3,
      pv_binding_id = TypedId 1, pv_authenticated_peer_id = KeryxPeerId ''peer-7'',
      pv_binding_generation = Generation 1\<rparr> = Inr ()"
    unfolding provenance_validate_Inr [OF hex_uuid_laws] by (rule ok)
  then have v: "from_active_binding hex_uuid_ops (KeryxBindingIdentity sample_active_record) =
      Inr \<lparr>pv_network_id = TypedId 2, pv_device_id = TypedId 3,
      pv_binding_id = TypedId 1, pv_authenticated_peer_id = KeryxPeerId ''peer-7'',
      pv_binding_generation = Generation 1\<rparr>"
    by (simp add: from_active_binding_def sample_active_record_def provenance_new_def)
  show ?thesis
    unfolding projection_upsert_def v and_then_Inr
  proof (rule from_parts_succeeds [OF hex_uuid_laws])
    fix v :: N7FleetDesiredProjection
    assume "fp_network_id v = TypedId 2" "fp_device_id v = TypedId 3" "fp_display_name v = ''node-7''"
      "fp_membership_generation v = Generation 1" "fp_projection_generation v = Generation 1"
      "fp_binding_provenance v = \<lparr>pv_network_id = TypedId 2, pv_device_id = TypedId 3,
        pv_binding_id = TypedId 1, pv_authenticated_peer_id = KeryxPeerId ''peer-7'',
        pv_binding_generation = Generation 1\<rparr>"
      "fp_roles v = Roles [Node]" "fp_enrollment_state v = FEPending"
      "fp_generated_grants v = grants_none"
    then show "projection_ok v"
      using ok by (simp add: projection_ok_def validate_display_name_def trims_to_empty_def
          has_control_char_def str_chars_def byte_val_def cp_is_whitespace_def cp_is_control_def
          is_btree_def grants_none_def)
  qed
qed

theorem upsert_needs_active_binding_witness:
  "kb_state (kb_record (KeryxBindingIdentity sample_active_record)) = KBActive"
proof -
  obtain p where "projection_upsert hex_uuid_ops sample_sha (TypedId 2) (TypedId 3) ''node-7''
      MSActive (Generation 1) (Generation 1) (KeryxBindingIdentity sample_active_record)
      (Roles [Node]) grants_none = Inr p"
    using sample_active_upsert by blast
  from upsert_needs_active_binding [OF hex_uuid_laws this] show ?thesis by blast
qed

section \<open>The content digest\<close>

text \<open>UUID text is short; every other hashed string is bounded by the validation.\<close>

definition uuid_sized_laws :: "uuid_ops \<Rightarrow> bool" where
  "uuid_sized_laws U \<longleftrightarrow> uuid_laws U \<and> (\<forall>u. length (uuid_display U u) \<le> 64)"

lemma hex_uuid_sized: "uuid_sized_laws hex_uuid_ops"
  by (simp add: uuid_sized_laws_def hex_uuid_laws uuid_display_length)

lemma id_display_inj:
  assumes "uuid_laws U" "id_display U i = id_display U j"
  shows "i = j"
  using assms by (metis id_display_def option.inject typed_id.expand uuid_laws_def)

lemma decimal_u64_inj: "decimal (unat (gen_get g)) = decimal (unat (gen_get h)) \<Longrightarrow> g = h"
  using decimal_inj by (metis Generation.expand word_unat_eq_iff)

lemma length_decimal_u64: "length (decimal (unat (gen_get g))) \<le> 20"
proof -
  have "unat (gen_get g) < 10 ^ 20" using unat_u64_less [of "gen_get g"] by simp
  then show ?thesis by (intro length_decimal) simp_all
qed

lemma short_names:
  shows role_name_short: "length (role_name r) \<le> 255"
    and operation_str_short: "length (operation_str x) \<le> 255"
    and enrollment_str_short: "length (FleetEnrollmentState_str es) \<le> 255"
    and membership_name_short: "length (managed_membership_state_name ms) \<le> 255"
    and source_str_short: "length (FleetProjectionSource_str src) \<le> 255"
proof -
  show "length (role_name r) \<le> 255" by (cases r) simp_all
  show "length (operation_str x) \<le> 255" by (cases x) simp_all
  show "length (FleetEnrollmentState_str es) \<le> 255" by (cases es) simp_all
  show "length (managed_membership_state_name ms) \<le> 255" by (cases ms) simp_all
  show "length (FleetProjectionSource_str src) \<le> 255" by (cases src) simp_all
qed

lemma projection_parts_bounded:
  assumes "uuid_sized_laws U" "projection_ok p"
  shows "list_all (\<lambda>s. length s \<le> 255) (projection_parts U p)"
proof -
  have ids: "length (id_display U i) \<le> 255" for i :: "'k typed_id"
    using assms(1) by (auto simp: uuid_sized_laws_def id_display_def intro: order_trans)
  have nums: "length (decimal (unat (gen_get g))) \<le> 255" for g
    using length_decimal_u64 [of g] by simp
  have "length (fp_display_name p) \<le> 255"
    using assms(2) by (auto simp: projection_ok_def validate_display_name_def split: if_splits)
  moreover have "length (peer_id_str (pv_authenticated_peer_id (fp_binding_provenance p))) \<le> 255"
    using assms(2) by (simp add: projection_ok_def provenance_ok_def bounded_safe_def)
  ultimately show ?thesis
    unfolding projection_parts_def by (auto simp add: ids nums short_names list_all_iff)
qed

lemma names_end:
  "''roles-end'' \<notin> set (map role_name rs)" "''grants-end'' \<notin> set (map operation_str ops)"
proof -
  have "''roles-end'' \<noteq> role_name r" for r by (cases r) simp_all
  then show "''roles-end'' \<notin> set (map role_name rs)" by auto
  have "''grants-end'' \<noteq> operation_str x" for x by (cases x) simp_all
  then show "''grants-end'' \<notin> set (map operation_str ops)" by auto
qed

text \<open>The hashed parts determine every field but the digest itself.\<close>

lemma projection_parts_inj:
  assumes "uuid_laws U" "projection_ok p" "projection_ok q"
    "projection_parts U p = projection_parts U q" "fp_content_digest p = fp_content_digest q"
  shows "p = q"
proof -
  have tails: "map role_name (role_list (fp_roles p)) @ ''roles-end'' #
        map operation_str (grant_list (fp_generated_grants p)) @ [''grants-end''] =
      map role_name (role_list (fp_roles q)) @ ''roles-end'' #
        map operation_str (grant_list (fp_generated_grants q)) @ [''grants-end'']"
    using assms(4) by (simp add: projection_parts_def)
  then have "map role_name (role_list (fp_roles p)) = map role_name (role_list (fp_roles q)) \<and>
      map operation_str (grant_list (fp_generated_grants p)) @ [''grants-end''] =
      map operation_str (grant_list (fp_generated_grants q)) @ [''grants-end'']"
    by (simp only: sentinel_split [OF names_end(1) names_end(1)])
  then have "role_list (fp_roles p) = role_list (fp_roles q)"
    "grant_list (fp_generated_grants p) = grant_list (fp_generated_grants q)"
    by (auto intro: map_injective injI role_name_inj operation_str_inj)
  then have lists: "fp_roles p = fp_roles q" "fp_generated_grants p = fp_generated_grants q"
    by (simp_all add: Roles.expand FleetGeneratedGrants.expand)
  have heads: "FleetEnrollmentState_str (fp_enrollment_state p) = FleetEnrollmentState_str (fp_enrollment_state q)"
    "id_display U (fp_network_id p) = id_display U (fp_network_id q)"
    "id_display U (fp_device_id p) = id_display U (fp_device_id q)"
    "fp_display_name p = fp_display_name q"
    "managed_membership_state_name (fp_managed_membership_state p) =
       managed_membership_state_name (fp_managed_membership_state q)"
    "decimal (unat (gen_get (fp_membership_generation p))) =
       decimal (unat (gen_get (fp_membership_generation q)))"
    "decimal (unat (gen_get (fp_projection_generation p))) =
       decimal (unat (gen_get (fp_projection_generation q)))"
    "id_display U (pv_binding_id (fp_binding_provenance p)) =
       id_display U (pv_binding_id (fp_binding_provenance q))"
    "peer_id_str (pv_authenticated_peer_id (fp_binding_provenance p)) =
       peer_id_str (pv_authenticated_peer_id (fp_binding_provenance q))"
    "decimal (unat (gen_get (pv_binding_generation (fp_binding_provenance p)))) =
       decimal (unat (gen_get (pv_binding_generation (fp_binding_provenance q))))"
    using assms(4) by (simp_all add: projection_parts_def)
  note ids = heads(2,3,8) [THEN id_display_inj [OF assms(1)]]
  note gens = heads(6,7,10) [THEN decimal_u64_inj]
  have prov: "fp_binding_provenance p = fp_binding_provenance q"
    using assms(2,3) ids gens heads(9)
    by (intro N6ActiveBindingProvenance.equality)
      (simp_all add: projection_ok_def KeryxPeerId.expand)
  show ?thesis
    using ids gens prov lists heads(4) assms(5) FleetEnrollmentState_str_inj [OF heads(1)]
      membership_name_inj [OF heads(5)] source_unique [of "fp_source p"] source_unique [of "fp_source q"]
    by (intro N7FleetDesiredProjection.equality) simp_all
qed

text \<open>The content digest identifies a projection: two projections that pass validation and
  carry the same digest are equal in every field, or they exhibit two different byte strings
  with the same SHA-256 value.\<close>
theorem content_digest_identifies_projection:
  assumes "uuid_sized_laws U"
    and "projection_validate U sha p = Inr ()" "projection_validate U sha q = Inr ()"
    and "fp_content_digest p = fp_content_digest q"
  shows "p = q \<or> (content_preimage U p \<noteq> content_preimage U q \<and>
    sha (content_preimage U p) = sha (content_preimage U q))"
proof -
  have laws: "uuid_laws U" using assms(1) by (simp add: uuid_sized_laws_def)
  have p: "projection_ok p" "fp_content_digest p = compute_content_digest U sha p"
    using assms(2) by (simp_all only: projection_validate_Inr [OF laws])
  have q: "projection_ok q" "fp_content_digest q = compute_content_digest U sha q"
    using assms(3) by (simp_all only: projection_validate_Inr [OF laws])
  have "sha (content_preimage U p) = sha (content_preimage U q)"
    using p(2) q(2) assms(4) by (intro hex_text_inj) (simp add: compute_content_digest_def)
  moreover have "p = q" if pre: "content_preimage U p = content_preimage U q"
  proof (rule projection_parts_inj [OF laws p(1) q(1) _ assms(4)])
    have short: "list_all (\<lambda>s. length s < 2 ^ 64) (projection_parts U r)" if "projection_ok r" for r
      using projection_parts_bounded [OF assms(1) that] by (auto simp: list_all_iff)
    show "projection_parts U p = projection_parts U q"
      using concat_length_prefixed_inj [OF short [OF p(1)] short [OF q(1)]] pre
      by (simp add: content_preimage_def)
  qed
  ultimately show ?thesis by blast
qed

theorem content_digest_identifies_projection_witness:
  "\<exists>p. projection_validate hex_uuid_ops sample_sha p = Inr () \<and>
     (p = p \<or> content_preimage hex_uuid_ops p \<noteq> content_preimage hex_uuid_ops p)"
proof -
  obtain p where p: "upsert_from_active_n6_provenance hex_uuid_ops sample_sha (TypedId 2) (TypedId 3)
      ''node-7'' MSActive (Generation 1) (Generation 1) sample_provenance (Roles [Node])
      (FleetGeneratedGrants [FleetHealth]) = Inr p"
    using sample_upsert by blast
  then have v: "projection_validate hex_uuid_ops sample_sha p = Inr ()"
    using projected_valid [OF hex_uuid_laws projected_provenance] by blast
  with content_digest_identifies_projection [OF hex_uuid_sized v v refl] show ?thesis by blast
qed

end

