(* ===== verification/Fleet_Client.thy ===== *)
theory Fleet_Client
  imports Fleet_Projection "HOL-Library.List_Lexorder"
begin

text \<open>
  The Fleet client of \<^verbatim>\<open>crates/nodescale-fleet-client/src/lib.rs\<close>: the closed projection
  document and its canonical content hash, the response envelope, and the classification of
  one request on the local socket.

  SHA-256 and the \<^verbatim>\<open>serde_json\<close> reader and writer are parameters. One request is a
  function of what each awaited socket operation answers; the model keeps the trace of what
  was written, so that statements about retry safety speak of bytes that may have left.
\<close>

section \<open>JSON values\<close>

text \<open>
  A \<^verbatim>\<open>serde_json::Value\<close>. A string is the list of its code points (what \<^verbatim>\<open>chars\<close> yields);
  a number is kept as the text that \<^verbatim>\<open>to_string\<close> prints. The byte order of UTF-8 keys, by
  which the writer sorts an object, is the lexicographic order of their code points.
\<close>

datatype json =
    JNull
  | JBool bool
  | JNumber string
  | JString "nat list"
  | JArray "json list"
  | JObject "(nat list \<times> json) list"

definition valid_scalar :: "nat \<Rightarrow> bool" where
  "valid_scalar c \<longleftrightarrow> c < 55296 \<or> (57344 \<le> c \<and> c < 1114112)"

definition encode_utf16 :: "nat \<Rightarrow> nat list" where
  "encode_utf16 c =
     (if c < 65536 then [c]
      else [55296 + (c - 65536) div 1024, 56320 + (c - 65536) mod 1024])"

text \<open>The format \<^verbatim>\<open>{:04x}\<close> of a 16-bit code unit.\<close>

definition hex4 :: "nat \<Rightarrow> string" where
  "hex4 n = map hex_char (be_digits 16 4 n)"

definition escape_char :: "nat \<Rightarrow> string" where
  "escape_char c =
     (if c = 34 then [CHR 92, CHR 34]
      else if c = 92 then [CHR 92, CHR 92]
      else if c = 8 then [CHR 92, CHR ''b'']
      else if c = 12 then [CHR 92, CHR ''f'']
      else if c = 10 then [CHR 92, CHR ''n'']
      else if c = 13 then [CHR 92, CHR ''r'']
      else if c = 9 then [CHR 92, CHR ''t'']
      else if 32 \<le> c \<and> c \<le> 126 then [char_of c]
      else concat (map (\<lambda>unit. [CHR 92, CHR ''u''] @ hex4 unit) (encode_utf16 c)))"

definition write_ascii_json_string :: "nat list \<Rightarrow> string" where
  "write_ascii_json_string cs = [CHR 34] @ concat (map escape_char cs) @ [CHR 34]"

text \<open>Elements separated by commas.\<close>

definition comma_separated :: "string list \<Rightarrow> string" where
  "comma_separated items =
     (case items of [] \<Rightarrow> [] | x # xs \<Rightarrow> x @ concat (map (\<lambda>y. CHR '','' # y) xs))"

lemma json_entry_size: "(k, v) \<in> set entries \<Longrightarrow> size v < size (JObject entries)"
  by (induction entries) auto

function write_canonical_json :: "json \<Rightarrow> string" where
  "write_canonical_json JNull = ''null''"
| "write_canonical_json (JBool b) = (if b then ''true'' else ''false'')"
| "write_canonical_json (JNumber text) = text"
| "write_canonical_json (JString s) = write_ascii_json_string s"
| "write_canonical_json (JArray xs) =
     [CHR ''[''] @ comma_separated (map write_canonical_json xs) @ [CHR '']'']"
| "write_canonical_json (JObject entries) =
     [CHR ''{''] @ comma_separated
        (map (\<lambda>(key, v). write_ascii_json_string key @ [CHR '':''] @ write_canonical_json v)
           (sort_key fst entries)) @ [CHR ''}'']"
  by pat_completeness auto

termination
  by (relation "measure size") (auto intro: json_entry_size simp: less_Suc_eq_le size_list_estimation')

section \<open>Reading one character back\<close>

text \<open>
  A reader for one escaped character, used to show that the writer loses nothing: what it
  read and what is left of the text.
\<close>

definition read_hex4 :: "string \<Rightarrow> nat" where
  "read_hex4 s = be_value 16 (map (\<lambda>c. the (hex_digit c)) (take 4 s))"

definition read_char :: "string \<Rightarrow> nat \<times> string" where
  "read_char s =
     (case s of
        [] \<Rightarrow> (0, [])
      | c # r \<Rightarrow>
          if c \<noteq> CHR 92 then (byte_val c, r)
          else (case r of
              [] \<Rightarrow> (0, [])
            | e # r' \<Rightarrow>
                if e = CHR ''b'' then (8, r') else if e = CHR ''f'' then (12, r')
                else if e = CHR ''n'' then (10, r') else if e = CHR ''r'' then (13, r')
                else if e = CHR ''t'' then (9, r')
                else if e \<noteq> CHR ''u'' then (byte_val e, r')
                else (let u = read_hex4 r' in
                  if 55296 \<le> u \<and> u < 56320
                  then (65536 + (u - 55296) * 1024 + (read_hex4 (drop 6 r') - 56320), drop 10 r')
                  else (u, drop 4 r'))))"

lemma read_hex4_hex4: "n < 65536 \<Longrightarrow> read_hex4 (hex4 n @ s) = n"
proof -
  assume n: "n < 65536"
  have "map (\<lambda>c. the (hex_digit c)) (map hex_char (be_digits 16 4 n)) = be_digits 16 4 n"
  proof -
    have "\<forall>d\<in>set (be_digits 16 4 n). the (hex_digit (hex_char d)) = d"
      using be_digits_less [of 16] by (auto simp: hex_digit_hex_char)
    then show ?thesis by (simp add: map_idI)
  qed
  moreover have "be_value 16 (be_digits 16 4 n) = n" using n by (intro be_value_be_digits) simp_all
  ultimately show ?thesis by (simp add: read_hex4_def hex4_def)
qed

lemma length_hex4 [simp]: "length (hex4 n) = 4"
  by (simp add: hex4_def)

lemma read_escaped:
  assumes "valid_scalar c"
  shows "read_char (escape_char c @ s) = (c, s)"
proof -
  consider (short) "c \<in> {34, 92, 8, 12, 10, 13, 9}"
    | (plain) "c \<notin> {34, 92, 8, 12, 10, 13, 9}" "32 \<le> c" "c \<le> 126"
    | (bmp) "c \<notin> {34, 92, 8, 12, 10, 13, 9}" "\<not> (32 \<le> c \<and> c \<le> 126)" "c < 65536"
    | (high) "c \<notin> {34, 92, 8, 12, 10, 13, 9}" "\<not> (32 \<le> c \<and> c \<le> 126)" "65536 \<le> c"
    by linarith
  then show ?thesis
  proof cases
    case short
    then show ?thesis by (auto simp: escape_char_def read_char_def byte_val_def)
  next
    case plain
    have "char_of c \<noteq> CHR 92"
    proof
      assume "char_of c = CHR 92"
      then have "byte_val (char_of c) = byte_val CHR 92" by simp
      with plain show False by (simp add: byte_val_char_of) (simp add: byte_val_def)
    qed
    with plain show ?thesis by (simp add: escape_char_def read_char_def byte_val_char_of)
  next
    case bmp
    then have "\<not> (55296 \<le> c \<and> c < 56320)" using assms by (auto simp: valid_scalar_def)
    moreover have "escape_char c = [CHR 92, CHR ''u''] @ hex4 c"
      using bmp by (auto simp: escape_char_def encode_utf16_def)
    ultimately show ?thesis using bmp(3) by (simp add: read_char_def read_hex4_hex4 Let_def)
  next
    case high
    let ?h = "55296 + (c - 65536) div 1024" and ?l = "56320 + (c - 65536) mod 1024"
    have c: "c < 1114112" using assms high by (simp add: valid_scalar_def)
    then have h: "?h < 56320" "?h < 65536" by (simp_all add: less_mult_imp_div_less)
    have l: "?l < 65536" using pos_mod_bound [of 1024] by (simp add: less_trans [OF mod_less_divisor])
    have "65536 + (c - 65536) div 1024 * 1024 + (c - 65536) mod 1024 = c" using high by simp
    with high h l show ?thesis
      by (simp add: escape_char_def encode_utf16_def read_char_def read_hex4_hex4 Let_def)
  qed
qed

lemma escape_char_head: "escape_char c \<noteq> [] \<and> hd (escape_char c) \<noteq> CHR 34"
proof (cases "32 \<le> c \<and> c \<le> 126 \<and> c \<notin> {34, 92}")
  case True
  then have e: "escape_char c = [char_of c]" by (auto simp: escape_char_def)
  have "byte_val (char_of c) \<noteq> 34" using True by (simp add: byte_val_char_of)
  moreover have "byte_val CHR 34 = 34" by (simp add: byte_val_def)
  ultimately show ?thesis using e by auto
next
  case False
  then show ?thesis by (auto simp: escape_char_def encode_utf16_def)
qed

lemma ascii_byte: "(c :: nat) < 128 \<Longrightarrow> byte_val (char_of c) < 128"
  by (simp add: byte_val_char_of)

lemma hex_char_ascii: "d < 16 \<Longrightarrow> byte_val (hex_char d) < 128"
  by (auto simp: hex_char_def byte_val_char_of)

lemma escape_char_ascii: "list_all (\<lambda>b. byte_val b < 128) (escape_char c)"
proof -
  have hex: "\<forall>b\<in>set (hex4 n). byte_val b < 128" for n
    using be_digits_less [of 16] by (auto simp: hex4_def intro: hex_char_ascii)
  have units: "list_all (\<lambda>b. byte_val b < 128)
      (concat (map (\<lambda>unit. [CHR 92, CHR ''u''] @ hex4 unit) us))" for us
    using hex by (induction us) (auto simp: list_all_iff byte_val_def [of "CHR 92"]
        byte_val_def [of "CHR ''u''"])
  show ?thesis
    unfolding escape_char_def using units ascii_byte
    by (auto simp: byte_val_def simp del: map_append)
qed

section \<open>The writer loses nothing\<close>

text \<open>
  An object's keys are distinct and, as the map behind \<^verbatim>\<open>Value::Object\<close> keeps them, in
  ascending order; the documents of this client contain no numbers.
\<close>

fun json_closed :: "json \<Rightarrow> bool" where
  "json_closed JNull \<longleftrightarrow> True"
| "json_closed (JBool b) \<longleftrightarrow> True"
| "json_closed (JNumber text) \<longleftrightarrow> False"
| "json_closed (JString s) \<longleftrightarrow> list_all valid_scalar s"
| "json_closed (JArray xs) \<longleftrightarrow> (\<forall>x\<in>set xs. json_closed x)"
| "json_closed (JObject entries) \<longleftrightarrow>
     sorted (map fst entries) \<and> distinct (map fst entries) \<and>
     (\<forall>e\<in>set entries. list_all valid_scalar (fst e) \<and> json_closed (snd e))"

text \<open>A writer is prefix-free on a set of values: its texts can be told apart inside a longer text.\<close>

definition prefix_free_at :: "('a \<Rightarrow> string) \<Rightarrow> ('a \<Rightarrow> bool) \<Rightarrow> 'a \<Rightarrow> bool" where
  "prefix_free_at f ok x \<longleftrightarrow>
     (\<forall>y xs ys. ok y \<longrightarrow> f x @ xs = f y @ ys \<longrightarrow> x = y \<and> xs = ys)"

lemma prefix_freeD:
  "prefix_free_at f ok x \<Longrightarrow> ok y \<Longrightarrow> f x @ xs = f y @ ys \<Longrightarrow> x = y \<and> xs = ys"
  unfolding prefix_free_at_def by blast

lemma string_body_prefix_free:
  "list_all valid_scalar cs \<Longrightarrow> list_all valid_scalar ds \<Longrightarrow>
   concat (map escape_char cs) @ CHR 34 # xs = concat (map escape_char ds) @ CHR 34 # ys \<Longrightarrow>
   cs = ds \<and> xs = ys"
proof (induction cs arbitrary: ds)
  case Nil
  show ?case
  proof (cases ds)
    case Nil
    with Nil.prems(3) show ?thesis by simp
  next
    case (Cons d ds')
    then show ?thesis using Nil.prems(3) escape_char_head [of d] by (cases "escape_char d") auto
  qed
next
  case (Cons c cs)
  show ?case
  proof (cases ds)
    case Nil
    then show ?thesis using Cons.prems(3) escape_char_head [of c] by (cases "escape_char c") auto
  next
    case ds: (Cons d ds')
    from Cons.prems(1,2) ds have valid: "valid_scalar c" "valid_scalar d"
      "list_all valid_scalar cs" "list_all valid_scalar ds'" by simp_all
    let ?xs = "concat (map escape_char cs) @ CHR 34 # xs"
    let ?ys = "concat (map escape_char ds') @ CHR 34 # ys"
    have "escape_char c @ ?xs = escape_char d @ ?ys" using Cons.prems(3) ds by simp
    then have "read_char (escape_char c @ ?xs) = read_char (escape_char d @ ?ys)"
      by (rule arg_cong)
    then have "c = d" "?xs = ?ys" by (simp_all add: read_escaped valid)
    with Cons.IH [OF valid(3,4)] ds show ?thesis by simp
  qed
qed

lemma string_prefix_free:
  "list_all valid_scalar s \<Longrightarrow> prefix_free_at write_ascii_json_string (list_all valid_scalar) s"
  unfolding prefix_free_at_def
proof (intro allI impI)
  fix t xs ys
  assume s: "list_all valid_scalar s" and t: "list_all valid_scalar t"
    and "write_ascii_json_string s @ xs = write_ascii_json_string t @ ys"
  then have "concat (map escape_char s) @ CHR 34 # xs = concat (map escape_char t) @ CHR 34 # ys"
    by (simp add: write_ascii_json_string_def)
  from string_body_prefix_free [OF s t this] show "s = t \<and> xs = ys" .
qed

lemma comma_rest_prefix_free:
  assumes "c \<noteq> CHR '',''"
  shows "\<forall>x\<in>set us. prefix_free_at f ok x \<Longrightarrow> \<forall>y\<in>set vs. ok y \<Longrightarrow>
    concat (map (\<lambda>y. CHR '','' # f y) us) @ c # xs = concat (map (\<lambda>y. CHR '','' # f y) vs) @ c # ys \<Longrightarrow>
    us = vs \<and> xs = ys"
proof (induction us arbitrary: vs)
  case Nil
  then show ?case using assms by (cases vs) auto
next
  case (Cons u us)
  show ?case
  proof (cases vs)
    case Nil
    with Cons.prems(3) assms show ?thesis by simp
  next
    case vs: (Cons v vs')
    from Cons.prems(3) vs have
      "f u @ (concat (map (\<lambda>y. CHR '','' # f y) us) @ c # xs) =
       f v @ (concat (map (\<lambda>y. CHR '','' # f y) vs') @ c # ys)" by simp
    with Cons.prems(1,2) vs have "u = v \<and>
        concat (map (\<lambda>y. CHR '','' # f y) us) @ c # xs = concat (map (\<lambda>y. CHR '','' # f y) vs') @ c # ys"
      by (intro prefix_freeD [of f ok]) simp_all
    with Cons.IH [of vs'] Cons.prems(1,2) vs show ?thesis by simp
  qed
qed

lemma comma_separated_prefix_free:
  assumes "c \<noteq> CHR '',''"
    and "\<forall>x\<in>set us. prefix_free_at f ok x" "\<forall>y\<in>set vs. ok y"
    and "\<forall>x\<in>set us \<union> set vs. f x \<noteq> [] \<and> hd (f x) \<noteq> c"
    and "comma_separated (map f us) @ c # xs = comma_separated (map f vs) @ c # ys"
  shows "us = vs \<and> xs = ys"
proof (cases us)
  case Nil
  show ?thesis
  proof (cases vs)
    case Nil
    with assms(5) \<open>us = []\<close> show ?thesis by (simp add: comma_separated_def)
  next
    case (Cons v vs')
    then have "f v \<noteq> [] \<and> hd (f v) \<noteq> c" using assms(4) by simp
    with assms(5) \<open>us = []\<close> Cons show ?thesis by (cases "f v") (auto simp: comma_separated_def)
  qed
next
  case us: (Cons u us')
  then have u: "f u \<noteq> [] \<and> hd (f u) \<noteq> c" using assms(4) by simp
  show ?thesis
  proof (cases vs)
    case Nil
    with assms(5) us u show ?thesis by (cases "f u") (auto simp: comma_separated_def)
  next
    case vs: (Cons v vs')
    from assms(5) have "f u @ (concat (map (\<lambda>y. CHR '','' # f y) us') @ c # xs) =
        f v @ (concat (map (\<lambda>y. CHR '','' # f y) vs') @ c # ys)"
      by (simp add: us vs comma_separated_def comp_def)
    then have step: "u = v \<and> concat (map (\<lambda>y. CHR '','' # f y) us') @ c # xs =
        concat (map (\<lambda>y. CHR '','' # f y) vs') @ c # ys"
      using assms(2,3) us vs by (intro prefix_freeD [of f ok]) simp_all
    with comma_rest_prefix_free [OF assms(1), of us' f ok vs' xs ys] assms(2,3) us vs
    show ?thesis by simp
  qed
qed

definition write_entry :: "nat list \<times> json \<Rightarrow> string" where
  "write_entry e = write_ascii_json_string (fst e) @ CHR '':'' # write_canonical_json (snd e)"

lemma write_object:
  assumes "sorted (map fst entries)"
  shows "write_canonical_json (JObject entries) =
    CHR ''{'' # comma_separated (map write_entry entries) @ [CHR ''}'']"
proof -
  have "sort_key fst entries = entries" using assms by (rule sort_key_id_if_sorted)
  moreover have "(\<lambda>(key, v). write_ascii_json_string key @ [CHR '':''] @ write_canonical_json v) =
      write_entry"
    by (auto simp: write_entry_def)
  ultimately show ?thesis by simp
qed

definition first_char :: "json \<Rightarrow> char" where
  "first_char v = (case v of JNull \<Rightarrow> CHR ''n'' | JBool b \<Rightarrow> (if b then CHR ''t'' else CHR ''f'')
     | JNumber text \<Rightarrow> CHR ''0'' | JString s \<Rightarrow> CHR 34 | JArray xs \<Rightarrow> CHR ''[''
     | JObject es \<Rightarrow> CHR ''{'')"

lemma write_first_char:
  "json_closed v \<Longrightarrow> write_canonical_json v \<noteq> [] \<and> hd (write_canonical_json v) = first_char v"
  by (cases v) (auto simp: first_char_def write_ascii_json_string_def)

lemma write_eq_first_char:
  assumes "json_closed v" "json_closed w"
    "write_canonical_json v @ xs = write_canonical_json w @ ys"
  shows "first_char v = first_char w"
proof -
  have "hd (write_canonical_json v @ xs) = first_char v" "hd (write_canonical_json w @ ys) = first_char w"
    using write_first_char [OF assms(1)] write_first_char [OF assms(2)] by simp_all
  with assms(3) show ?thesis by metis
qed

lemma entry_prefix_free:
  assumes "list_all valid_scalar k" "prefix_free_at write_canonical_json json_closed v"
  shows "prefix_free_at write_entry (\<lambda>e. list_all valid_scalar (fst e) \<and> json_closed (snd e)) (k, v)"
  unfolding prefix_free_at_def
proof (intro allI impI)
  fix e xs ys
  assume ok: "list_all valid_scalar (fst e) \<and> json_closed (snd e)"
    and eq: "write_entry (k, v) @ xs = write_entry e @ ys"
  from eq have "write_ascii_json_string k @ (CHR '':'' # write_canonical_json v @ xs) =
      write_ascii_json_string (fst e) @ (CHR '':'' # write_canonical_json (snd e) @ ys)"
    by (simp add: write_entry_def)
  from prefix_freeD [OF string_prefix_free [OF assms(1)] _ this] ok
  have k: "k = fst e" and v: "write_canonical_json v @ xs = write_canonical_json (snd e) @ ys"
    by auto
  from prefix_freeD [OF assms(2) _ v] ok k show "(k, v) = e \<and> xs = ys" by (cases e) auto
qed

lemma entries_prefix_free:
  assumes "\<And>e. e \<in> set es \<Longrightarrow> list_all valid_scalar (fst e)"
    and "\<And>e. e \<in> set es \<Longrightarrow> prefix_free_at write_canonical_json json_closed (snd e)"
    and "\<forall>e\<in>set fs. list_all valid_scalar (fst e) \<and> json_closed (snd e)"
    and "comma_separated (map write_entry es) @ CHR ''}'' # xs =
      comma_separated (map write_entry fs) @ CHR ''}'' # ys"
  shows "es = fs \<and> xs = ys"
proof (rule comma_separated_prefix_free [OF _ _ assms(3) _ assms(4)])
  show "CHR ''}'' \<noteq> CHR '',''" by simp
  show "\<forall>e\<in>set es. prefix_free_at write_entry
      (\<lambda>e. list_all valid_scalar (fst e) \<and> json_closed (snd e)) e"
    using entry_prefix_free assms(1,2) by (metis prod.collapse)
  show "\<forall>e\<in>set es \<union> set fs. write_entry e \<noteq> [] \<and> hd (write_entry e) \<noteq> CHR ''}''"
    by (simp add: write_entry_def write_ascii_json_string_def)
qed

lemma first_char_cases:
  "first_char v = first_char w \<Longrightarrow> json_closed v \<Longrightarrow> json_closed w \<Longrightarrow>
   v = w \<or> (\<exists>s t. v = JString s \<and> w = JString t) \<or> (\<exists>us vs. v = JArray us \<and> w = JArray vs) \<or>
   (\<exists>es fs. v = JObject es \<and> w = JObject fs)"
  by (cases v; cases w) (auto simp: first_char_def split: if_splits)

lemma canonical_json_prefix_free:
  "json_closed v \<Longrightarrow> prefix_free_at write_canonical_json json_closed v"
proof (induction v rule: measure_induct_rule [where f = size])
  case (less v)
  show ?case
    unfolding prefix_free_at_def
  proof (intro allI impI)
    fix w xs ys
    assume w: "json_closed w" and eq: "write_canonical_json v @ xs = write_canonical_json w @ ys"
    from first_char_cases [OF write_eq_first_char [OF less.prems w eq] less.prems w]
    consider "v = w" | s t where "v = JString s" "w = JString t"
      | us vs where "v = JArray us" "w = JArray vs" | es fs where "v = JObject es" "w = JObject fs"
      by blast
    then show "v = w \<and> xs = ys"
    proof cases
      case 1
      with eq show ?thesis by simp
    next
      case (2 s t)
      then have "write_ascii_json_string s @ xs = write_ascii_json_string t @ ys" using eq by simp
      from prefix_freeD [OF string_prefix_free _ this] 2 less.prems w show ?thesis by simp
    next
      case (3 us vs)
      then have rest: "comma_separated (map write_canonical_json us) @ CHR '']'' # xs =
          comma_separated (map write_canonical_json vs) @ CHR '']'' # ys" using eq by simp
      have ok: "\<forall>x\<in>set us \<union> set vs. json_closed x" using 3 less.prems w by auto
      have "\<forall>x\<in>set us. prefix_free_at write_canonical_json json_closed x"
      proof
        fix x assume x: "x \<in> set us"
        then have "size x < size v" using 3 by (simp add: less_Suc_eq_le size_list_estimation')
        with less.IH ok x show "prefix_free_at write_canonical_json json_closed x" by blast
      qed
      moreover have "\<forall>x\<in>set us \<union> set vs. write_canonical_json x \<noteq> [] \<and>
          hd (write_canonical_json x) \<noteq> CHR '']''"
      proof
        fix x assume "x \<in> set us \<union> set vs"
        then have c: "json_closed x" using ok by blast
        have "first_char x \<noteq> CHR '']''" by (cases x) (simp_all add: first_char_def)
        with write_first_char [OF c] show "write_canonical_json x \<noteq> [] \<and>
          hd (write_canonical_json x) \<noteq> CHR '']''" by simp
      qed
      ultimately have "us = vs \<and> xs = ys"
        using ok rest by (intro comma_separated_prefix_free [of "CHR '']''"]) auto
      with 3 show ?thesis by simp
    next
      case (4 es fs)
      have sorted: "sorted (map fst es)" "sorted (map fst fs)" using 4 less.prems w by simp_all
      have rest: "comma_separated (map write_entry es) @ CHR ''}'' # xs =
          comma_separated (map write_entry fs) @ CHR ''}'' # ys"
        using eq unfolding 4 write_object [OF sorted(1)] write_object [OF sorted(2)] by simp
      have es: "list_all valid_scalar (fst e)" "json_closed (snd e)" if "e \<in> set es" for e
        using that 4 less.prems by auto
      have pf: "prefix_free_at write_canonical_json json_closed (snd e)" if "e \<in> set es" for e
      proof -
        have "size (snd e) < size v" using that 4 json_entry_size [of "fst e" "snd e" es] by simp
        with less.IH es(2) that show ?thesis by blast
      qed
      have "es = fs \<and> xs = ys"
        by (rule entries_prefix_free [OF es(1) pf _ rest]) (use 4 w in auto)
      with 4 show ?thesis by simp
    qed
  qed
qed

lemma write_canonical_json_inj:
  assumes "json_closed v" "json_closed w" "write_canonical_json v = write_canonical_json w"
  shows "v = w"
  using prefix_freeD [OF canonical_json_prefix_free [OF assms(1)] assms(2), of "[]" "[]"] assms(3)
  by simp

lemma write_canonical_json_ascii:
  "json_closed v \<Longrightarrow> list_all (\<lambda>b. byte_val b < 128) (write_canonical_json v)"
proof (induction v rule: measure_induct_rule [where f = size])
  case (less v)
  have str: "list_all (\<lambda>b. byte_val b < 128) (write_ascii_json_string s)" for s
    using escape_char_ascii
    by (auto simp: write_ascii_json_string_def list_all_iff byte_val_def [of "CHR 34"])
  have sep: "list_all (\<lambda>b. byte_val b < 128) (comma_separated items)"
    if "\<forall>i\<in>set items. list_all (\<lambda>b. byte_val b < 128) i" for items
    using that by (auto simp: comma_separated_def list_all_iff byte_val_def [of "CHR '',''"]
        split: list.splits)
  show ?case
  proof (cases v)
    case (JArray us)
    have "list_all (\<lambda>b. byte_val b < 128) (write_canonical_json x)" if "x \<in> set us" for x
      using that less JArray by (auto simp: less_Suc_eq_le size_list_estimation')
    then have "list_all (\<lambda>b. byte_val b < 128) (comma_separated (map write_canonical_json us))"
      by (intro sep) auto
    with JArray show ?thesis by (simp add: byte_val_def)
  next
    case (JObject es)
    have sorted: "sorted (map fst es)" using JObject less.prems by simp
    have "list_all (\<lambda>b. byte_val b < 128) (write_entry e)" if "e \<in> set es" for e
    proof -
      have "size (snd e) < size v" using that JObject json_entry_size [of "fst e" "snd e" es] by simp
      then have "list_all (\<lambda>b. byte_val b < 128) (write_canonical_json (snd e))"
        using less that JObject by auto
      with str show ?thesis by (simp add: write_entry_def byte_val_def [of "CHR '':''"])
    qed
    then have "list_all (\<lambda>b. byte_val b < 128) (comma_separated (map write_entry es))"
      by (intro sep) auto
    then show ?thesis unfolding JObject write_object [OF sorted] by (simp add: byte_val_def)
  qed (use str less.prems in \<open>auto simp: byte_val_def\<close>)
qed

section \<open>Protocol types\<close>

datatype RequestKind = RKCapabilities | RKApply | RKInspect

fun RequestKind_wire :: "RequestKind \<Rightarrow> string" where
  "RequestKind_wire RKCapabilities = ''capabilities''"
| "RequestKind_wire RKApply = ''apply''"
| "RequestKind_wire RKInspect = ''inspect''"

datatype ProjectionSource = PSourceNodescale

fun ProjectionSource_wire :: "ProjectionSource \<Rightarrow> string" where
  "ProjectionSource_wire PSourceNodescale = ''nodescale''"

datatype GeneratedOperation = GOHealth | GOInventory | GOMessage

fun GeneratedOperation_wire :: "GeneratedOperation \<Rightarrow> string" where
  "GeneratedOperation_wire GOHealth = ''fleet.health''"
| "GeneratedOperation_wire GOInventory = ''fleet.inventory''"
| "GeneratedOperation_wire GOMessage = ''fleet.message''"

text \<open>The operations in the order of their wire names, by which the client sorts.\<close>

fun wire_rank :: "GeneratedOperation \<Rightarrow> nat" where
  "wire_rank GOHealth = 0"
| "wire_rank GOInventory = 1"
| "wire_rank GOMessage = 2"

lemma wire_rank_inj: "wire_rank a = wire_rank b \<Longrightarrow> a = b"
  by (cases a; cases b) auto

lemma GeneratedOperation_wire_inj: "GeneratedOperation_wire a = GeneratedOperation_wire b \<Longrightarrow> a = b"
  by (cases a; cases b) auto

instantiation GeneratedOperation :: linorder
begin

definition less_eq_GeneratedOperation :: "GeneratedOperation \<Rightarrow> GeneratedOperation \<Rightarrow> bool" where
  "less_eq_GeneratedOperation a b \<longleftrightarrow> wire_rank a \<le> wire_rank b"

definition less_GeneratedOperation :: "GeneratedOperation \<Rightarrow> GeneratedOperation \<Rightarrow> bool" where
  "less_GeneratedOperation a b \<longleftrightarrow> wire_rank a < wire_rank b"

instance
  by standard (auto simp: less_eq_GeneratedOperation_def less_GeneratedOperation_def
      intro: wire_rank_inj)

end

datatype ApplyOperation = AOUpsert | AODisable | AORemove

fun ApplyOperation_wire :: "ApplyOperation \<Rightarrow> string" where
  "ApplyOperation_wire AOUpsert = ''upsert''"
| "ApplyOperation_wire AODisable = ''disable''"
| "ApplyOperation_wire AORemove = ''remove''"

lemma ApplyOperation_wire_inj: "ApplyOperation_wire a = ApplyOperation_wire b \<Longrightarrow> a = b"
  by (cases a; cases b) auto

record Provenance =
  pr_source :: ProjectionSource
  pr_network_id :: string
  pr_device_id :: string
  pr_snapshot :: string
  pr_binding_id :: "string option"
  pr_authenticated_peer_id :: "string option"

text \<open>
  \<^verbatim>\<open>WireProvenance\<close> has the same fields; deserialization refuses a binding without its
  authenticated peer and the other way round. \<open>None\<close> is the serde error.
\<close>

definition Provenance_deserialize :: "Provenance \<Rightarrow> Provenance option" where
  "Provenance_deserialize wire =
     (if is_some (pr_binding_id wire) \<noteq> is_some (pr_authenticated_peer_id wire) then None
      else Some \<lparr>pr_source = pr_source wire, pr_network_id = pr_network_id wire,
        pr_device_id = pr_device_id wire, pr_snapshot = pr_snapshot wire,
        pr_binding_id = pr_binding_id wire,
        pr_authenticated_peer_id = pr_authenticated_peer_id wire\<rparr>)"

definition Provenance_new :: "string \<Rightarrow> string \<Rightarrow> string \<Rightarrow> Provenance" where
  "Provenance_new network_id device_id snapshot =
     \<lparr>pr_source = PSourceNodescale, pr_network_id = network_id, pr_device_id = device_id,
      pr_snapshot = snapshot, pr_binding_id = None, pr_authenticated_peer_id = None\<rparr>"

definition Provenance_authenticated ::
    "string \<Rightarrow> string \<Rightarrow> string \<Rightarrow> string \<Rightarrow> string \<Rightarrow> Provenance" where
  "Provenance_authenticated network_id device_id snapshot binding_id authenticated_peer_id =
     \<lparr>pr_source = PSourceNodescale, pr_network_id = network_id, pr_device_id = device_id,
      pr_snapshot = snapshot, pr_binding_id = Some binding_id,
      pr_authenticated_peer_id = Some authenticated_peer_id\<rparr>"

record ProjectionDocument =
  pd_source :: ProjectionSource
  pd_network_id :: string
  pd_device_id :: string
  pd_projection_generation :: string
  pd_membership_generation :: string
  pd_binding_generation :: string
  pd_content_hash :: string
  pd_operation :: ApplyOperation
  pd_generated_operations :: "GeneratedOperation list"
  pd_provenance :: Provenance

record ProjectionGenerations =
  pg_projection :: string
  pg_membership :: string
  pg_binding :: string

section \<open>The canonical content hash\<close>

definition json_key :: "string \<Rightarrow> nat list" where
  "json_key s = map byte_val s"

definition json_str :: "string \<Rightarrow> json" where
  "json_str s = JString (str_chars s)"

text \<open>\<^verbatim>\<open>to_value\<close> of a struct builds a map, which keeps its entries in key order.\<close>

definition json_struct :: "(nat list \<times> json) list \<Rightarrow> json" where
  "json_struct entries = JObject (sort_key fst entries)"

definition optional_entry :: "string \<Rightarrow> string option \<Rightarrow> (nat list \<times> json) list" where
  "optional_entry key value = (case value of None \<Rightarrow> [] | Some s \<Rightarrow> [(json_key key, json_str s)])"

definition provenance_value :: "Provenance \<Rightarrow> json" where
  "provenance_value p = json_struct
     ([(json_key ''source'', json_str (ProjectionSource_wire (pr_source p))),
       (json_key ''network_id'', json_str (pr_network_id p)),
       (json_key ''device_id'', json_str (pr_device_id p)),
       (json_key ''snapshot'', json_str (pr_snapshot p))] @
      optional_entry ''binding_id'' (pr_binding_id p) @
      optional_entry ''authenticated_peer_id'' (pr_authenticated_peer_id p))"

definition material_entries :: "ProjectionDocument \<Rightarrow> (nat list \<times> json) list" where
  "material_entries d =
     [(json_key ''source'', json_str (ProjectionSource_wire (pd_source d))),
      (json_key ''network_id'', json_str (pd_network_id d)),
      (json_key ''device_id'', json_str (pd_device_id d)),
      (json_key ''projection_generation'', json_str (pd_projection_generation d)),
      (json_key ''membership_generation'', json_str (pd_membership_generation d)),
      (json_key ''binding_generation'', json_str (pd_binding_generation d)),
      (json_key ''operation'', json_str (ApplyOperation_wire (pd_operation d))),
      (json_key ''generated_operations'',
         JArray (map (\<lambda>x. json_str (GeneratedOperation_wire x)) (sort (pd_generated_operations d)))),
      (json_key ''provenance'', provenance_value (pd_provenance d))]"

definition canonical_text :: "ProjectionDocument \<Rightarrow> string" where
  "canonical_text d = write_canonical_json (json_struct (material_entries d))"

definition canonical_content_hash :: "(u8 list \<Rightarrow> u8 list) \<Rightarrow> ProjectionDocument \<Rightarrow> string" where
  "canonical_content_hash sha d = hex_text (sha (str_bytes (canonical_text d)))"

definition ProjectionDocument_new ::
    "(u8 list \<Rightarrow> u8 list) \<Rightarrow> string \<Rightarrow> string \<Rightarrow> ProjectionGenerations \<Rightarrow> ApplyOperation \<Rightarrow>
     GeneratedOperation list \<Rightarrow> Provenance \<Rightarrow> ProjectionDocument" where
  "ProjectionDocument_new sha network_id device_id generations operation generated_operations
      provenance =
     (let document = \<lparr>pd_source = PSourceNodescale, pd_network_id = network_id,
         pd_device_id = device_id, pd_projection_generation = pg_projection generations,
         pd_membership_generation = pg_membership generations,
         pd_binding_generation = pg_binding generations, pd_content_hash = [],
         pd_operation = operation,
         pd_generated_operations = remdups_adj (sort generated_operations),
         pd_provenance = provenance\<rparr>
      in document\<lparr>pd_content_hash := canonical_content_hash sha document\<rparr>)"

section \<open>The hash covers every field\<close>

text \<open>A Rust string: its code points are Unicode scalar values.\<close>

definition rust_str :: "string \<Rightarrow> bool" where
  "rust_str s \<longleftrightarrow> list_all valid_scalar (str_chars s)"

definition same_text :: "string \<Rightarrow> string \<Rightarrow> bool" where
  "same_text s t \<longleftrightarrow> str_chars s = str_chars t"

definition rust_provenance :: "Provenance \<Rightarrow> bool" where
  "rust_provenance p \<longleftrightarrow>
     rust_str (pr_network_id p) \<and> rust_str (pr_device_id p) \<and> rust_str (pr_snapshot p) \<and>
     pred_option rust_str (pr_binding_id p) \<and> pred_option rust_str (pr_authenticated_peer_id p)"

definition rust_document :: "ProjectionDocument \<Rightarrow> bool" where
  "rust_document d \<longleftrightarrow>
     rust_str (pd_network_id d) \<and> rust_str (pd_device_id d) \<and>
     rust_str (pd_projection_generation d) \<and> rust_str (pd_membership_generation d) \<and>
     rust_str (pd_binding_generation d) \<and> rust_provenance (pd_provenance d)"

definition same_provenance :: "Provenance \<Rightarrow> Provenance \<Rightarrow> bool" where
  "same_provenance p q \<longleftrightarrow>
     same_text (pr_network_id p) (pr_network_id q) \<and> same_text (pr_device_id p) (pr_device_id q) \<and>
     same_text (pr_snapshot p) (pr_snapshot q) \<and>
     rel_option same_text (pr_binding_id p) (pr_binding_id q) \<and>
     rel_option same_text (pr_authenticated_peer_id p) (pr_authenticated_peer_id q)"

definition same_document :: "ProjectionDocument \<Rightarrow> ProjectionDocument \<Rightarrow> bool" where
  "same_document d e \<longleftrightarrow>
     same_text (pd_network_id d) (pd_network_id e) \<and> same_text (pd_device_id d) (pd_device_id e) \<and>
     same_text (pd_projection_generation d) (pd_projection_generation e) \<and>
     same_text (pd_membership_generation d) (pd_membership_generation e) \<and>
     same_text (pd_binding_generation d) (pd_binding_generation e) \<and>
     pd_operation d = pd_operation e \<and>
     sort (pd_generated_operations d) = sort (pd_generated_operations e) \<and>
     same_provenance (pd_provenance d) (pd_provenance e)"

lemma json_key_eq [simp]: "json_key s = json_key t \<longleftrightarrow> s = t"
proof -
  have "inj byte_val" by (intro injI byte_val_inj)
  then show ?thesis by (simp add: json_key_def inj_map_eq_map)
qed

lemma json_key_scalar: "list_all valid_scalar (json_key s)"
proof -
  have "byte_val c < 55296" for c using byte_val_less [of c] by simp
  then show ?thesis by (simp add: json_key_def list_all_iff valid_scalar_def)
qed

lemma json_str_eq: "json_str s = json_str t \<longleftrightarrow> same_text s t"
  by (simp add: json_str_def same_text_def)

lemma json_struct_closed:
  assumes "distinct (map fst es)" "\<forall>e\<in>set es. list_all valid_scalar (fst e) \<and> json_closed (snd e)"
  shows "json_closed (json_struct es)"
proof -
  have "distinct (map fst (sort_key fst es))" using assms(1) by (simp add: distinct_map)
  with assms(2) show ?thesis by (simp add: json_struct_def)
qed

lemma json_struct_lookup:
  assumes "distinct (map fst es)" "distinct (map fst fs)" "json_struct es = json_struct fs"
  shows "map_of es = map_of fs"
proof -
  have "set (sort_key fst es) = set (sort_key fst fs)" using assms(3) by (simp add: json_struct_def)
  then have "set es = set fs" by simp
  with assms(1,2) show ?thesis by (simp add: map_of_inject_set)
qed

lemma rust_wire_names:
  "rust_str (ProjectionSource_wire src)" "rust_str (ApplyOperation_wire x)"
  "rust_str (GeneratedOperation_wire y)"
proof -
  show "rust_str (ProjectionSource_wire src)"
    by (cases src) (simp add: rust_str_def str_chars_def byte_val_def valid_scalar_def)
  show "rust_str (ApplyOperation_wire x)"
    by (cases x) (simp_all add: rust_str_def str_chars_def byte_val_def valid_scalar_def)
  show "rust_str (GeneratedOperation_wire y)"
    by (cases y) (simp_all add: rust_str_def str_chars_def byte_val_def valid_scalar_def)
qed

lemma wire_names_text:
  "same_text (ApplyOperation_wire x) (ApplyOperation_wire x') \<longleftrightarrow> x = x'"
  "same_text (GeneratedOperation_wire y) (GeneratedOperation_wire y') \<longleftrightarrow> y = y'"
  by (cases x; cases x'; simp add: same_text_def str_chars_def byte_val_def)
    (cases y; cases y'; simp add: same_text_def str_chars_def byte_val_def)

definition provenance_entries :: "Provenance \<Rightarrow> (nat list \<times> json) list" where
  "provenance_entries p =
     [(json_key ''source'', json_str (ProjectionSource_wire (pr_source p))),
       (json_key ''network_id'', json_str (pr_network_id p)),
       (json_key ''device_id'', json_str (pr_device_id p)),
       (json_key ''snapshot'', json_str (pr_snapshot p))] @
      optional_entry ''binding_id'' (pr_binding_id p) @
      optional_entry ''authenticated_peer_id'' (pr_authenticated_peer_id p)"

lemma provenance_value_struct: "provenance_value p = json_struct (provenance_entries p)"
  by (simp add: provenance_value_def provenance_entries_def)

lemma provenance_entries_distinct: "distinct (map fst (provenance_entries p))"
  by (auto simp: provenance_entries_def optional_entry_def split: option.splits)

lemma material_entries_distinct: "distinct (map fst (material_entries d))"
  by (simp add: material_entries_def)

lemma json_str_closed: "json_closed (json_str s) \<longleftrightarrow> rust_str s"
  by (simp add: json_str_def rust_str_def)

lemma provenance_closed: "rust_provenance p \<Longrightarrow> json_closed (provenance_value p)"
  unfolding provenance_value_struct
  by (intro json_struct_closed provenance_entries_distinct)
    (cases "pr_binding_id p"; cases "pr_authenticated_peer_id p";
      auto simp: provenance_entries_def optional_entry_def json_str_closed json_key_scalar
        rust_wire_names rust_provenance_def)

lemma material_closed: "rust_document d \<Longrightarrow> json_closed (json_struct (material_entries d))"
  by (intro json_struct_closed material_entries_distinct)
    (auto simp: material_entries_def json_str_closed json_key_scalar rust_wire_names
      rust_document_def provenance_closed)

lemma provenance_lookup:
  "map_of (provenance_entries p) (json_key ''network_id'') = Some (json_str (pr_network_id p))"
  "map_of (provenance_entries p) (json_key ''device_id'') = Some (json_str (pr_device_id p))"
  "map_of (provenance_entries p) (json_key ''snapshot'') = Some (json_str (pr_snapshot p))"
  "map_of (provenance_entries p) (json_key ''binding_id'') = map_option json_str (pr_binding_id p)"
  "map_of (provenance_entries p) (json_key ''authenticated_peer_id'') =
     map_option json_str (pr_authenticated_peer_id p)"
  by (simp_all add: provenance_entries_def optional_entry_def split: option.splits)

lemma material_lookup:
  "map_of (material_entries d) (json_key ''network_id'') = Some (json_str (pd_network_id d))"
  "map_of (material_entries d) (json_key ''device_id'') = Some (json_str (pd_device_id d))"
  "map_of (material_entries d) (json_key ''projection_generation'') =
     Some (json_str (pd_projection_generation d))"
  "map_of (material_entries d) (json_key ''membership_generation'') =
     Some (json_str (pd_membership_generation d))"
  "map_of (material_entries d) (json_key ''binding_generation'') =
     Some (json_str (pd_binding_generation d))"
  "map_of (material_entries d) (json_key ''operation'') =
     Some (json_str (ApplyOperation_wire (pd_operation d)))"
  "map_of (material_entries d) (json_key ''generated_operations'') =
     Some (JArray (map (\<lambda>x. json_str (GeneratedOperation_wire x)) (sort (pd_generated_operations d))))"
  "map_of (material_entries d) (json_key ''provenance'') = Some (provenance_value (pd_provenance d))"
  by (simp_all add: material_entries_def)

lemma map_option_json_str:
  "map_option json_str a = map_option json_str b \<longleftrightarrow> rel_option same_text a b"
  by (cases a; cases b) (simp_all add: json_str_eq)

lemma provenance_value_inj:
  assumes "provenance_value p = provenance_value q"
  shows "same_provenance p q"
proof -
  have m: "map_of (provenance_entries p) = map_of (provenance_entries q)"
    using assms unfolding provenance_value_struct
    by (intro json_struct_lookup provenance_entries_distinct)
  have f: "map_of (provenance_entries p) k = map_of (provenance_entries q) k" for k
    using m by simp
  show ?thesis
    using f [of "json_key ''network_id''"] f [of "json_key ''device_id''"]
      f [of "json_key ''snapshot''"] f [of "json_key ''binding_id''"]
      f [of "json_key ''authenticated_peer_id''"]
    unfolding provenance_lookup same_provenance_def
    by (simp add: json_str_eq map_option_json_str)
qed

lemma operations_inj:
  "map (\<lambda>x. json_str (GeneratedOperation_wire x)) xs = map (\<lambda>x. json_str (GeneratedOperation_wire x)) ys \<Longrightarrow>
   xs = ys"
  by (rule map_injective) (auto intro!: injI simp: json_str_eq wire_names_text)

lemma material_inj:
  assumes "json_struct (material_entries d) = json_struct (material_entries e)"
  shows "same_document d e"
proof -
  have m: "map_of (material_entries d) = map_of (material_entries e)"
    using assms by (intro json_struct_lookup material_entries_distinct)
  have f: "map_of (material_entries d) k = map_of (material_entries e) k" for k
    using m by simp
  have texts: "same_text (pd_network_id d) (pd_network_id e)"
    "same_text (pd_device_id d) (pd_device_id e)"
    "same_text (pd_projection_generation d) (pd_projection_generation e)"
    "same_text (pd_membership_generation d) (pd_membership_generation e)"
    "same_text (pd_binding_generation d) (pd_binding_generation e)"
    "pd_operation d = pd_operation e"
    using f [of "json_key ''network_id''"] f [of "json_key ''device_id''"]
      f [of "json_key ''projection_generation''"] f [of "json_key ''membership_generation''"]
      f [of "json_key ''binding_generation''"] f [of "json_key ''operation''"]
    unfolding material_lookup by (simp_all add: json_str_eq wire_names_text)
  have "sort (pd_generated_operations d) = sort (pd_generated_operations e)"
    using f [of "json_key ''generated_operations''"]
    unfolding material_lookup by (intro operations_inj) simp
  moreover have "same_provenance (pd_provenance d) (pd_provenance e)"
    using f [of "json_key ''provenance''"]
    unfolding material_lookup by (intro provenance_value_inj) simp
  ultimately show ?thesis using texts by (simp add: same_document_def)
qed

text \<open>The content hash Fleet checks covers the whole document: the canonical text is plain
  ASCII, and if two documents have the same hash then they agree in every field but the hash
  (identities, the three generations, operation, operations up to order, and provenance down to
  the presence of the optional binding and peer), or their canonical texts are a SHA-256
  collision.\<close>
theorem content_hash_covers_document:
  assumes "rust_document d" "rust_document e"
    and "canonical_content_hash sha d = canonical_content_hash sha e"
  shows "list_all (\<lambda>b. byte_val b < 128) (canonical_text d) \<and>
    (same_document d e \<or>
      str_bytes (canonical_text d) \<noteq> str_bytes (canonical_text e) \<and>
      sha (str_bytes (canonical_text d)) = sha (str_bytes (canonical_text e)))"
proof -
  note cd = material_closed [OF assms(1)] and ce = material_closed [OF assms(2)]
  have "list_all (\<lambda>b. byte_val b < 128) (canonical_text d)"
    unfolding canonical_text_def by (rule write_canonical_json_ascii [OF cd])
  moreover have "sha (str_bytes (canonical_text d)) = sha (str_bytes (canonical_text e))"
    using assms(3) by (intro hex_text_inj) (simp add: canonical_content_hash_def)
  moreover have "same_document d e"
    if "str_bytes (canonical_text d) = str_bytes (canonical_text e)"
  proof -
    have "canonical_text d = canonical_text e" using that by (rule str_bytes_inj)
    then have "json_struct (material_entries d) = json_struct (material_entries e)"
      unfolding canonical_text_def by (rule write_canonical_json_inj [OF cd ce])
    then show ?thesis by (rule material_inj)
  qed
  ultimately show ?thesis by blast
qed

definition sample_provenance_wire :: Provenance where
  "sample_provenance_wire = Provenance_authenticated ''n'' ''d'' ''s'' ''b'' ''p''"

definition sample_document :: ProjectionDocument where
  "sample_document = ProjectionDocument_new sample_sha ''n'' ''d''
     \<lparr>pg_projection = ''1'', pg_membership = ''1'', pg_binding = ''1''\<rparr> AOUpsert
     [GOMessage, GOHealth, GOMessage] sample_provenance_wire"

lemma sample_document_rust: "rust_document sample_document"
  by (simp add: rust_document_def sample_document_def ProjectionDocument_new_def Let_def
      rust_provenance_def sample_provenance_wire_def Provenance_authenticated_def rust_str_def
      str_chars_def byte_val_def valid_scalar_def)

theorem content_hash_covers_document_witness:
  "list_all (\<lambda>b. byte_val b < 128) (canonical_text sample_document)"
  using content_hash_covers_document [OF sample_document_rust sample_document_rust refl] by blast

lemma new_document_fields:
  "pd_generated_operations (ProjectionDocument_new sha n d g oper gops p) = remdups_adj (sort gops)"
  "pd_content_hash (ProjectionDocument_new sha n d g oper gops p) =
     canonical_content_hash sha (ProjectionDocument_new sha n d g oper gops p)"
  by (simp_all add: ProjectionDocument_new_def Let_def canonical_content_hash_def canonical_text_def
      material_entries_def)

lemma sorted_distinct_dedup:
  "sorted xs \<Longrightarrow> sorted (remdups_adj xs) \<and> distinct (remdups_adj xs)" for xs :: "'a :: linorder list"
  by (induction xs rule: remdups_adj.induct) (auto simp: le_less)

lemma same_operations_same_list:
  fixes xs ys :: "'a :: linorder list"
  assumes "set xs = set ys"
  shows "remdups_adj (sort xs) = remdups_adj (sort ys)"
  using sorted_distinct_dedup [of "sort xs"] sorted_distinct_dedup [of "sort ys"] assms
  by (intro sorted_distinct_set_unique) auto

text \<open>A document built by the client carries its own canonical hash and lists each granted
  operation once, in wire order; asking for the same set of operations in any order and with
  repetitions builds the very same document.\<close>
theorem built_documents_canonical:
  assumes "set gops = set gops'"
  shows "pd_content_hash (ProjectionDocument_new sha n d g oper gops p) =
      canonical_content_hash sha (ProjectionDocument_new sha n d g oper gops p) \<and>
    is_btree (pd_generated_operations (ProjectionDocument_new sha n d g oper gops p)) \<and>
    set (pd_generated_operations (ProjectionDocument_new sha n d g oper gops p)) = set gops \<and>
    ProjectionDocument_new sha n d g oper gops' p = ProjectionDocument_new sha n d g oper gops p"
proof -
  have "ProjectionDocument_new sha n d g oper gops' p = ProjectionDocument_new sha n d g oper gops p"
    using same_operations_same_list [OF assms] by (simp add: ProjectionDocument_new_def)
  moreover have "is_btree (remdups_adj (sort gops))"
    using sorted_distinct_dedup [of "sort gops"] by (simp add: is_btree_def)
  ultimately show ?thesis by (simp add: new_document_fields)
qed

theorem built_documents_canonical_witness:
  "is_btree (pd_generated_operations sample_document) \<and>
   ProjectionDocument_new sample_sha ''n'' ''d''
     \<lparr>pg_projection = ''1'', pg_membership = ''1'', pg_binding = ''1''\<rparr> AOUpsert
     [GOHealth, GOMessage] sample_provenance_wire = sample_document"
  using built_documents_canonical [of "[GOMessage, GOHealth, GOMessage]" "[GOHealth, GOMessage]"
      sample_sha "''n''" "''d''" "\<lparr>pg_projection = ''1'', pg_membership = ''1'', pg_binding = ''1''\<rparr>"
      AOUpsert sample_provenance_wire]
  by (auto simp: sample_document_def)

section \<open>Answers and errors\<close>

record Capabilities =
  cap_kinds :: "RequestKind list"

datatype ApplyOutcome = OCApplied | OCAlreadyApplied | OCStale | OCGap | OCConflict | OCRegression

record ApplyResult =
  ar_outcome :: ApplyOutcome

record InspectSelector =
  sel_source :: ProjectionSource
  sel_network_id :: string
  sel_device_id :: string

definition InspectSelector_new :: "string \<Rightarrow> string \<Rightarrow> InspectSelector" where
  "InspectSelector_new network_id device_id =
     \<lparr>sel_source = PSourceNodescale, sel_network_id = network_id, sel_device_id = device_id\<rparr>"

datatype GeneratedStateKind = GSActive | GSDisabled | GSRemoved

record GeneratedState =
  gs_state :: GeneratedStateKind
  gs_projection_generation :: string
  gs_membership_generation :: string
  gs_binding_generation :: string
  gs_content_hash :: string
  gs_allowed_operations :: "GeneratedOperation list"
  gs_provenance :: Provenance

record EffectiveState =
  es_state :: GeneratedStateKind
  es_allowed_operations :: "GeneratedOperation list"
  es_operator_denied_operations :: "GeneratedOperation list"

record InspectResult =
  ir_generated :: "GeneratedState option"
  ir_effective :: "EffectiveState option"

datatype ApplyError = AEUnavailable | AERejectedBeforeSend | AEProtocolRejected | AEAmbiguous

datatype FleetClientError =
  FCUnavailable | FCResponseLost | FCProtocolRejected | FCProtocol | FCFrameTooLarge

fun map_apply_error :: "FleetClientError \<Rightarrow> ApplyError" where
  "map_apply_error FCUnavailable = AEUnavailable"
| "map_apply_error FCFrameTooLarge = AERejectedBeforeSend"
| "map_apply_error FCProtocolRejected = AEProtocolRejected"
| "map_apply_error FCResponseLost = AEAmbiguous"
| "map_apply_error FCProtocol = AEAmbiguous"

definition SCHEMA :: string where
  "SCHEMA = ''fleet.managed-projection.v1''"

record ResponseEnvelope =
  re_schema :: string
  re_kind :: string
  re_ok :: bool
  re_result :: "json option"
  re_error :: "string option"

definition result_for :: "ResponseEnvelope \<Rightarrow> RequestKind \<Rightarrow> FleetClientError + json" where
  "result_for r expected_kind =
     (if re_schema r \<noteq> SCHEMA then Inl FCProtocol
      else if \<not> re_ok r \<and> re_kind r = ''error'' \<and> re_error r = Some ''invalid_request'' \<and>
         re_result r = None then Inl FCProtocolRejected
      else if re_ok r \<and> re_kind r = RequestKind_wire expected_kind \<and> re_error r = None
         then ok_or (re_result r) FCProtocol
      else Inl FCProtocol)"

section \<open>One request on the socket\<close>

text \<open>
  What each awaited operation answers: it succeeds, fails, or the deadline that wraps the
  whole exchange passes while it is pending. The trace records each operation as it starts.
\<close>

datatype io = IoOk | IoFailed | IoTimedOut
datatype read_io = ReadOk "u8 list" | ReadFailed | ReadTimedOut

record fleet_socket =
  so_connect :: io
  so_write_header :: io
  so_write_payload :: io
  so_shutdown :: io
  so_read_header :: read_io
  so_read_document :: "nat \<Rightarrow> read_io"

datatype wire_event =
  Connecting | WritingHeader "u8 list" | WritingPayload "u8 list" | ClosingWrite
  | ReadingHeader | ReadingDocument nat

definition MAX_FRAME_BYTES :: nat where
  "MAX_FRAME_BYTES = 32768"

definition frame_header :: "u8 list \<Rightarrow> u8 list" where
  "frame_header payload = map word_of_nat (be_digits 256 4 (length payload))"

definition frame_length :: "u8 list \<Rightarrow> nat" where
  "frame_length header = be_value 256 (map unat header)"

text \<open>An awaited operation: note that it starts, and go on only when it succeeds.\<close>

definition await :: "wire_event \<Rightarrow> io \<Rightarrow> FleetClientError \<Rightarrow>
    wire_event list \<times> (FleetClientError + 'a) \<Rightarrow> wire_event list \<times> (FleetClientError + 'a)" where
  "await event outcome failure rest =
     (case outcome of
        IoOk \<Rightarrow> (event # fst rest, snd rest)
      | IoFailed \<Rightarrow> ([event], Inl failure)
      | IoTimedOut \<Rightarrow> ([event], Inl FCResponseLost))"

definition await_read :: "wire_event \<Rightarrow> read_io \<Rightarrow>
    (u8 list \<Rightarrow> wire_event list \<times> (FleetClientError + 'a)) \<Rightarrow>
    wire_event list \<times> (FleetClientError + 'a)" where
  "await_read event outcome rest =
     (case outcome of
        ReadOk bytes \<Rightarrow> (event # fst (rest bytes), snd (rest bytes))
      | _ \<Rightarrow> ([event], Inl FCResponseLost))"

definition exchange :: "fleet_socket \<Rightarrow> u8 list \<Rightarrow> wire_event list \<times> (FleetClientError + u8 list)" where
  "exchange so payload =
     await Connecting (so_connect so) FCUnavailable (
     await (WritingHeader (frame_header payload)) (so_write_header so) FCResponseLost (
     await (WritingPayload payload) (so_write_payload so) FCResponseLost (
     await ClosingWrite (so_shutdown so) FCResponseLost (
     await_read ReadingHeader (so_read_header so) (\<lambda>header.
       if frame_length header = 0 \<or> frame_length header > MAX_FRAME_BYTES then ([], Inl FCProtocol)
       else await_read (ReadingDocument (frame_length header))
         (so_read_document so (frame_length header)) (\<lambda>document. ([], Inr document)))))))"

definition round_trip ::
    "(u8 list \<Rightarrow> ResponseEnvelope option) \<Rightarrow> fleet_socket \<Rightarrow> u8 list option \<Rightarrow> RequestKind \<Rightarrow>
     wire_event list \<times> (FleetClientError + json)" where
  "round_trip from_slice so request expected_kind =
     (case request of
        None \<Rightarrow> ([], Inl FCProtocol)
      | Some payload \<Rightarrow>
          if length payload > MAX_FRAME_BYTES then ([], Inl FCFrameTooLarge)
          else (let (events, response) = exchange so payload in
            (events, and_then response (\<lambda>bytes.
               and_then (ok_or (from_slice bytes) FCProtocol) (\<lambda>envelope.
               result_for envelope expected_kind)))))"

text \<open>
  The three operations. \<open>to_vec\<close> and \<open>from_value\<close> are the \<^verbatim>\<open>serde_json\<close> writer of the
  request and reader of the typed result.
\<close>

definition fleet_capabilities ::
    "u8 list option \<Rightarrow> (u8 list \<Rightarrow> ResponseEnvelope option) \<Rightarrow> (json \<Rightarrow> Capabilities option) \<Rightarrow>
     fleet_socket \<Rightarrow> wire_event list \<times> (FleetClientError + Capabilities)" where
  "fleet_capabilities request from_slice from_value so =
     (let (events, result) = round_trip from_slice so request RKCapabilities in
      (events, and_then result (\<lambda>v. ok_or (from_value v) FCProtocol)))"

definition fleet_apply ::
    "(ProjectionDocument \<Rightarrow> u8 list option) \<Rightarrow> (u8 list \<Rightarrow> ResponseEnvelope option) \<Rightarrow>
     (json \<Rightarrow> ApplyResult option) \<Rightarrow> fleet_socket \<Rightarrow> ProjectionDocument \<Rightarrow>
     wire_event list \<times> (ApplyError + ApplyResult)" where
  "fleet_apply to_vec from_slice from_value so document =
     (let (events, result) = round_trip from_slice so (to_vec document) RKApply in
      (events, and_then (map_err map_apply_error result) (\<lambda>v. ok_or (from_value v) AEAmbiguous)))"

definition fleet_inspect ::
    "(InspectSelector \<Rightarrow> u8 list option) \<Rightarrow> (u8 list \<Rightarrow> ResponseEnvelope option) \<Rightarrow>
     (json \<Rightarrow> InspectResult option) \<Rightarrow> fleet_socket \<Rightarrow> InspectSelector \<Rightarrow>
     wire_event list \<times> (FleetClientError + InspectResult)" where
  "fleet_inspect to_vec from_slice from_value so selector =
     (let (events, result) = round_trip from_slice so (to_vec selector) RKInspect in
      (events, and_then result (\<lambda>v. ok_or (from_value v) FCProtocol)))"

section \<open>Retry safety of apply\<close>

fun writes :: "wire_event \<Rightarrow> bool" where
  "writes (WritingHeader bytes) = True"
| "writes (WritingPayload bytes) = True"
| "writes _ = False"

text \<open>The Fleet server received the whole request and answered with a well-formed envelope.\<close>

definition answered :: "(u8 list \<Rightarrow> ResponseEnvelope option) \<Rightarrow> fleet_socket \<Rightarrow> ResponseEnvelope \<Rightarrow> bool" where
  "answered from_slice so envelope \<longleftrightarrow>
     so_connect so = IoOk \<and> so_write_header so = IoOk \<and> so_write_payload so = IoOk \<and>
     so_shutdown so = IoOk \<and>
     (\<exists>header document. so_read_header so = ReadOk header \<and>
        so_read_document so (frame_length header) = ReadOk document \<and>
        from_slice document = Some envelope) \<and> re_schema envelope = SCHEMA"

lemma exchange_result:
  assumes "exchange so payload = (events, r)"
  shows "(r = Inl FCUnavailable \<longleftrightarrow> so_connect so = IoFailed) \<and>
    (so_connect so = IoFailed \<longrightarrow> events = [Connecting]) \<and>
    r \<noteq> Inl FCFrameTooLarge \<and> r \<noteq> Inl FCProtocolRejected \<and>
    (\<forall>document. r = Inr document \<longrightarrow> so_connect so = IoOk \<and> so_write_header so = IoOk \<and>
       so_write_payload so = IoOk \<and> so_shutdown so = IoOk \<and>
       (\<exists>header. so_read_header so = ReadOk header \<and>
          so_read_document so (frame_length header) = ReadOk document))"
  using assms
  by (auto simp: exchange_def await_def await_read_def split: io.splits read_io.splits if_splits)

lemma exchange_frames:
  assumes "exchange so payload = (events, r)"
  shows "set events \<subseteq> {Connecting, WritingHeader (frame_header payload), WritingPayload payload,
      ClosingWrite, ReadingHeader} \<union> ReadingDocument ` {1..MAX_FRAME_BYTES}"
  using assms
  by (auto simp: exchange_def await_def await_read_def split: io.splits read_io.splits if_splits)

lemma frame_header_length:
  assumes "length payload \<le> MAX_FRAME_BYTES"
  shows "length (frame_header payload) = 4 \<and> frame_length (frame_header payload) = length payload"
proof -
  have "list_all (\<lambda>d. d < 256) (be_digits 256 4 (length payload))"
    unfolding list_all_iff by (auto intro: be_digits_less)
  then have "map unat (frame_header payload) = be_digits 256 4 (length payload)"
    unfolding frame_header_def by (rule map_unat_of_nat_u8)
  moreover have "length payload < 256 ^ 4" using assms by (simp add: MAX_FRAME_BYTES_def)
  ultimately show ?thesis
    by (simp add: frame_length_def be_value_be_digits frame_header_def)
qed

lemma result_for_cases:
  "result_for envelope kind = Inr v \<Longrightarrow>
     re_schema envelope = SCHEMA \<and> re_ok envelope \<and> re_kind envelope = RequestKind_wire kind \<and>
     re_error envelope = None \<and> re_result envelope = Some v"
  "result_for envelope kind = Inl FCProtocolRejected \<Longrightarrow>
     re_schema envelope = SCHEMA \<and> \<not> re_ok envelope \<and> re_error envelope = Some ''invalid_request''"
  "result_for envelope kind = Inl e \<Longrightarrow> e = FCProtocol \<or> e = FCProtocolRejected"
  by (auto simp: result_for_def guard_simps split: if_splits)

lemma round_trip_result:
  assumes "round_trip from_slice so request kind = (events, r)"
  shows "(r = Inl FCUnavailable \<or> r = Inl FCFrameTooLarge \<longrightarrow> list_all (\<lambda>e. \<not> writes e) events) \<and>
    (\<forall>v. r = Inr v \<longrightarrow> (\<exists>envelope. answered from_slice so envelope \<and> re_ok envelope \<and>
       re_kind envelope = RequestKind_wire kind \<and> re_result envelope = Some v)) \<and>
    (r = Inl FCProtocolRejected \<longrightarrow> (\<exists>envelope. answered from_slice so envelope \<and>
       \<not> re_ok envelope \<and> re_error envelope = Some ''invalid_request''))"
proof (cases "request = None \<or> length (the request) > MAX_FRAME_BYTES")
  case True
  then show ?thesis using assms by (auto simp: round_trip_def split: option.splits if_splits)
next
  case False
  then obtain payload where req: "request = Some payload" "\<not> length payload > MAX_FRAME_BYTES"
    by auto
  obtain ev resp where ex: "exchange so payload = (ev, resp)" by (cases "exchange so payload")
  with req assms have ev: "events = ev" and r: "r = and_then resp (\<lambda>bytes.
      and_then (ok_or (from_slice bytes) FCProtocol) (\<lambda>envelope. result_for envelope kind))"
    by (simp_all add: round_trip_def)
  note facts = exchange_result [OF ex]
  have quiet: "list_all (\<lambda>e. \<not> writes e) events" if "r = Inl FCUnavailable \<or> r = Inl FCFrameTooLarge"
  proof -
    from that r facts have "resp = Inl FCUnavailable"
      by (auto simp: guard_simps dest: result_for_cases(3))
    with facts ev show ?thesis by simp
  qed
  have got: "\<exists>envelope. answered from_slice so envelope \<and> result_for envelope kind = r"
    if "(\<exists>v. r = Inr v) \<or> r = Inl FCProtocolRejected"
  proof -
    from that r facts obtain document envelope where d: "resp = Inr document"
      "from_slice document = Some envelope" "result_for envelope kind = r"
      by (auto simp: guard_simps)
    then have "re_schema envelope = SCHEMA" using that result_for_cases by metis
    with d facts have "answered from_slice so envelope" by (auto simp: answered_def)
    with d(3) show ?thesis by blast
  qed
  show ?thesis using quiet got result_for_cases by metis
qed

text \<open>C36: Applying a projection is safe to classify: the answers that permit a blind retry,
  unavailable and rejected-before-send, are only given when not one byte of the request was
  written; success and protocol rejection are only given when Fleet received the whole frame and
  answered with an envelope of this schema, of the apply kind, or an explicit invalid-request
  error. Every other course of events is reported as ambiguous.\<close>
theorem apply_classification_safe:
  assumes "fleet_apply to_vec from_slice from_value so document = (events, r)"
  shows "(r = Inl AEUnavailable \<or> r = Inl AERejectedBeforeSend \<longrightarrow>
      list_all (\<lambda>e. \<not> writes e) events) \<and>
    (\<forall>result. r = Inr result \<longrightarrow> (\<exists>envelope v. answered from_slice so envelope \<and> re_ok envelope \<and>
       re_kind envelope = ''apply'' \<and> re_result envelope = Some v \<and> from_value v = Some result)) \<and>
    (r = Inl AEProtocolRejected \<longrightarrow> (\<exists>envelope. answered from_slice so envelope \<and>
       \<not> re_ok envelope \<and> re_error envelope = Some ''invalid_request'')) \<and>
    (list_ex writes events \<and> \<not> (\<exists>envelope. answered from_slice so envelope) \<longrightarrow> r = Inl AEAmbiguous)"
proof -
  obtain q where rt: "round_trip from_slice so (to_vec document) RKApply = (events, q)"
    and r: "r = and_then (map_err map_apply_error q) (\<lambda>v. ok_or (from_value v) AEAmbiguous)"
    using assms by (auto simp: fleet_apply_def split: prod.splits)
  note facts = round_trip_result [OF rt]
  have quiet: "list_all (\<lambda>e. \<not> writes e) events" if "r = Inl AEUnavailable \<or> r = Inl AERejectedBeforeSend"
  proof -
    have "e = FCUnavailable" if "map_apply_error e = AEUnavailable" for e using that by (cases e) auto
    moreover have "e = FCFrameTooLarge" if "map_apply_error e = AERejectedBeforeSend" for e
      using that by (cases e) auto
    ultimately have "q = Inl FCUnavailable \<or> q = Inl FCFrameTooLarge"
      using that r by (auto simp: guard_simps)
    with facts show ?thesis by blast
  qed
  moreover have ok: "\<exists>envelope v. answered from_slice so envelope \<and> re_ok envelope \<and>
      re_kind envelope = ''apply'' \<and> re_result envelope = Some v \<and> from_value v = Some result"
    if "r = Inr result" for result
  proof -
    from that r obtain v where v: "q = Inr v" "from_value v = Some result"
      by (auto simp: guard_simps)
    with facts obtain envelope where "answered from_slice so envelope" "re_ok envelope"
      "re_kind envelope = RequestKind_wire RKApply" "re_result envelope = Some v" by blast
    with v(2) show ?thesis by (intro exI [of _ envelope] exI [of _ v]) simp
  qed
  moreover have rejected: "\<exists>envelope. answered from_slice so envelope \<and> \<not> re_ok envelope \<and>
      re_error envelope = Some ''invalid_request''" if "r = Inl AEProtocolRejected"
  proof -
    have "e = FCProtocolRejected" if "map_apply_error e = AEProtocolRejected" for e
      using that by (cases e) auto
    then have "q = Inl FCProtocolRejected" using that r by (auto simp: guard_simps)
    with facts show ?thesis by blast
  qed
  moreover have "r = Inl AEAmbiguous"
    if w: "list_ex writes events" and n: "\<not> (\<exists>envelope. answered from_slice so envelope)"
  proof (cases r)
    case (Inr result)
    with ok n show ?thesis by blast
  next
    case (Inl e)
    have "\<not> list_all (\<lambda>e. \<not> writes e) events" using w by (simp add: list_all_iff list_ex_iff)
    with Inl quiet rejected n show ?thesis by (cases e) auto
  qed
  ultimately show ?thesis by blast
qed

definition sample_socket :: fleet_socket where
  "sample_socket =
     \<lparr>so_connect = IoOk, so_write_header = IoOk, so_write_payload = IoFailed, so_shutdown = IoOk,
      so_read_header = ReadFailed, so_read_document = (\<lambda>_. ReadFailed)\<rparr>"

lemma sample_apply:
  "fleet_apply (\<lambda>_. Some [1, 2]) (\<lambda>_. None) (\<lambda>_. None) sample_socket sample_document =
     ([Connecting, WritingHeader (frame_header [1, 2]), WritingPayload [1, 2]], Inl AEAmbiguous)"
  by (simp add: fleet_apply_def round_trip_def exchange_def await_def sample_socket_def
      MAX_FRAME_BYTES_def)

theorem apply_classification_safe_witness:
  "\<exists>events r. fleet_apply (\<lambda>_. Some [1, 2]) (\<lambda>_. None) (\<lambda>_. None) sample_socket sample_document = (events, r) \<and>
     list_ex writes events \<and> r = Inl AEAmbiguous"
  using apply_classification_safe [OF sample_apply] sample_apply
  by (auto simp: answered_def)

text \<open>Every frame is bounded in both directions: a request is written only if it has at most
  32768 bytes, after a four-byte header that gives exactly its length, and a response body is
  read only for an announced length between one and 32768.\<close>
theorem frames_bounded:
  assumes "round_trip from_slice so (Some payload) kind = (events, r)" "event \<in> set events"
  shows "length payload \<le> 32768 \<and>
    (\<forall>bytes. event = WritingPayload bytes \<longrightarrow> bytes = payload) \<and>
    (\<forall>header. event = WritingHeader header \<longrightarrow>
       length header = 4 \<and> frame_length header = length payload) \<and>
    (\<forall>n. event = ReadingDocument n \<longrightarrow> 1 \<le> n \<and> n \<le> 32768)"
proof -
  have len: "\<not> length payload > MAX_FRAME_BYTES"
    using assms by (auto simp: round_trip_def split: if_splits)
  obtain ev resp where ex: "exchange so payload = (ev, resp)" by (cases "exchange so payload")
  with assms len have "event \<in> set ev" by (simp add: round_trip_def)
  with exchange_frames [OF ex] len frame_header_length [of payload] show ?thesis
    by (auto simp: MAX_FRAME_BYTES_def)
qed

lemma sample_round_trip:
  "round_trip (\<lambda>_. None) sample_socket (Some [1, 2]) RKApply =
     ([Connecting, WritingHeader (frame_header [1, 2]), WritingPayload [1, 2]], Inl FCResponseLost)"
  by (simp add: round_trip_def exchange_def await_def sample_socket_def MAX_FRAME_BYTES_def)

theorem frames_bounded_witness:
  "frame_length (frame_header [1, 2]) = 2"
  using frames_bounded [OF sample_round_trip, of "WritingHeader (frame_header [1, 2])"] by simp

end
