(* ===== verification/Fleet_Tables.thy ===== *)
theory Fleet_Tables
  imports Fleet_Client "HOL-Library.Sublist"
begin

text \<open>
  The tables behind the Fleet projection store: the schema, the constraints and the triggers of
  \<^verbatim>\<open>crates/nodescale-state/migrations/0007_fleet_projection.sql\<close>, with the columns of the
  device, binding and audit tables that \<^verbatim>\<open>crates/nodescale-state/src/n7.rs\<close> reads or writes.

  A table is the list of its rows in rowid order, a row a record. An insert or an update is a
  function of the database that fails, as SQLite aborts the statement, when a trigger or a
  constraint refuses it. The text columns of generated identifiers carry their shape checks;
  foreign keys that a trigger already implies are not repeated.
\<close>

section \<open>Errors and column types\<close>

datatype StateError =
    StSqlite string
  | StSerialization
  | StConflict string
  | StStaleGeneration u64 u64
  | StUnsupportedSchema u32 u32
  | StUnsafeAuditMetadata string
  | StInjectedFailure
  | StActivationGated
  | StNotFound string
  | StMutationAuthorizationDenied string

type_synonym 'a state_result = "StateError + 'a"

text \<open>The \<^verbatim>\<open>Display\<close> of a domain error, which \<^verbatim>\<open>map_err\<close> wraps into a conflict.\<close>

fun DomainError_display :: "DomainError \<Rightarrow> string" where
  "DomainError_display (InvalidValue kind reason) = ''invalid '' @ kind @ '': '' @ reason"
| "DomainError_display (InvalidTransition a b) = ''invalid transition from '' @ a @ '' to '' @ b"
| "DomainError_display (StaleGeneration expected actual) =
     ''stale generation: expected '' @ decimal (unat expected) @ '', actual '' @ decimal (unat actual)"
| "DomainError_display NonMonotonicGeneration = ''generation must advance monotonically''"

definition domain_conflict :: "'a domain_result \<Rightarrow> 'a state_result" where
  "domain_conflict r = map_err (\<lambda>e. StConflict (DomainError_display e)) r"

lemma domain_conflict_Inr [guard_simps]: "domain_conflict r = Inr x \<longleftrightarrow> r = Inr x"
  by (simp add: domain_conflict_def guard_simps)

text \<open>
  An SQLite integer has 64 signed bits: binding a larger \<^verbatim>\<open>u64\<close> fails in the driver, and so
  does reading a negative one.
\<close>

definition bind_u64 :: "u64 \<Rightarrow> int state_result" where
  "bind_u64 w = (if uint w < 2 ^ 63 then Inr (uint w) else Inl (StSqlite ''ToSqlConversionFailure''))"

definition column_u64 :: "int \<Rightarrow> u64 state_result" where
  "column_u64 n = (if 0 \<le> n then Inr (word_of_int n) else Inl (StSqlite ''IntegralValueOutOfRange''))"

lemma bind_u64_Inr [guard_simps]: "bind_u64 w = Inr n \<longleftrightarrow> uint w < 2 ^ 63 \<and> n = uint w"
  by (auto simp: bind_u64_def)

lemma column_u64_Inr [guard_simps]: "column_u64 n = Inr w \<longleftrightarrow> 0 \<le> n \<and> w = word_of_int n"
  by (auto simp: column_u64_def)

definition timestamp_millis :: "DateTime \<Rightarrow> int" where
  "timestamp_millis t = t div 1000000"

definition lower_hex_char :: "char \<Rightarrow> bool" where
  "lower_hex_char c \<longleftrightarrow> is_ascii_digit c \<or> (97 \<le> byte_val c \<and> byte_val c \<le> 102)"

definition uuid_column :: "string \<Rightarrow> bool" where
  "uuid_column s \<longleftrightarrow> length s = 36 \<and> s ! 8 = CHR ''-'' \<and> s ! 13 = CHR ''-'' \<and> s ! 18 = CHR ''-'' \<and>
     s ! 23 = CHR ''-'' \<and> list_all (\<lambda>c. c = CHR ''-'' \<or> lower_hex_char c) s"

definition hash_column :: "string \<Rightarrow> bool" where
  "hash_column s \<longleftrightarrow> length s = 71 \<and> take 7 s = ''sha256:'' \<and> list_all lower_hex_char (drop 7 s)"

section \<open>Rows\<close>

record device_row =
  dr_device_id :: string
  dr_network_id :: string
  dr_fleet_projection_generation :: int
  dr_fleet_projection_status :: string
  dr_record_json :: string
  dr_updated_at :: string

record generation_row =
  gr_device_id :: string
  gr_fleet_projection_generation :: int
  gr_updated_at :: string

record binding_row =
  nb_binding_id :: string
  nb_network_id :: string
  nb_device_id :: string
  nb_verified_peer_id :: "string option"
  nb_generation :: int
  nb_binding_state :: string

record projection_row =
  fr_projection_id :: string
  fr_network_id :: string
  fr_device_id :: string
  fr_generation :: int
  fr_desired_body :: "u8 list"
  fr_desired_hash :: string
  fr_binding_id :: string
  fr_authenticated_peer_id :: string
  fr_binding_generation :: int
  fr_projection_state :: string
  fr_revision :: int
  fr_current_attempt_id :: "string option"
  fr_persisted_at_ms :: int
  fr_attempted_at_ms :: "int option"
  fr_applied_at_ms :: "int option"
  fr_conflict_at_ms :: "int option"

record operation_row =
  fo_operation_id :: string
  fo_projection_id :: string
  fo_network_id :: string
  fo_device_id :: string
  fo_generation :: int
  fo_desired_body :: "u8 list"
  fo_desired_hash :: string
  fo_binding_id :: string
  fo_authenticated_peer_id :: string
  fo_binding_generation :: int
  fo_recorded_at_ms :: int

record attempt_row =
  fa_attempt_id :: string
  fa_projection_id :: string
  fa_operation_id :: string
  fa_attempt_number :: int
  fa_expected_revision :: int
  fa_attempted_at_ms :: int

record inspection_row =
  fi_inspection_id :: string
  fi_projection_id :: string
  fi_operation_id :: string
  fi_attempt_id :: string
  fi_expected_revision :: int
  fi_inspection_kind :: string
  fi_observed_body :: "u8 list option"
  fi_observed_hash :: "string option"
  fi_inspected_at_ms :: int

record projection_audit_row =
  fu_audit_id :: string
  fu_audit_event_id :: string
  fu_projection_id :: string
  fu_operation_id :: string
  fu_event_kind :: string
  fu_generation :: int
  fu_revision :: int
  fu_recorded_at_ms :: int

record audit_event_row =
  ae_event_id :: string
  ae_timestamp :: string
  ae_network_id :: string
  ae_device_id :: string
  ae_actor_source :: string
  ae_actor_id :: "string option"
  ae_event_kind :: string
  ae_outcome :: string
  ae_generation :: int
  ae_metadata_json :: string

record fleet_db =
  db_devices :: "device_row list"
  db_generations :: "generation_row list"
  db_bindings :: "binding_row list"
  db_events :: "audit_event_row list"
  db_projections :: "projection_row list"
  db_operations :: "operation_row list"
  db_attempts :: "attempt_row list"
  db_inspections :: "inspection_row list"
  db_audit :: "projection_audit_row list"

section \<open>Constraints and triggers of the projection records\<close>

text \<open>A nullable timestamp that must not precede the persistence of the record.\<close>

definition null_or_since :: "int \<Rightarrow> int option \<Rightarrow> bool" where
  "null_or_since t v \<longleftrightarrow> (case v of None \<Rightarrow> True | Some x \<Rightarrow> t \<le> x)"

definition state_check :: "projection_row \<Rightarrow> bool" where
  "state_check r \<longleftrightarrow>
     (fr_projection_state r = ''desired'' \<and> fr_revision r = 1 \<and> fr_current_attempt_id r = None \<and>
      fr_attempted_at_ms r = None \<and> fr_applied_at_ms r = None \<and> fr_conflict_at_ms r = None) \<or>
     (fr_projection_state r = ''attempted'' \<and> fr_revision r = 2 \<and> fr_current_attempt_id r \<noteq> None \<and>
      fr_attempted_at_ms r \<noteq> None \<and> fr_applied_at_ms r = None \<and> fr_conflict_at_ms r = None) \<or>
     (fr_projection_state r = ''applied'' \<and> fr_revision r = 3 \<and> fr_current_attempt_id r \<noteq> None \<and>
      fr_attempted_at_ms r \<noteq> None \<and> fr_applied_at_ms r \<noteq> None \<and> fr_conflict_at_ms r = None) \<or>
     (fr_projection_state r = ''conflict'' \<and> fr_revision r = 3 \<and> fr_current_attempt_id r \<noteq> None \<and>
      fr_attempted_at_ms r \<noteq> None \<and> fr_applied_at_ms r = None \<and> fr_conflict_at_ms r \<noteq> None)"

definition projection_check :: "projection_row \<Rightarrow> bool" where
  "projection_check r \<longleftrightarrow>
     uuid_column (fr_projection_id r) \<and> 1 \<le> fr_generation r \<and> 1 < length (fr_desired_body r) \<and>
     hash_column (fr_desired_hash r) \<and> bounded_safe 64 (fr_binding_id r) \<and>
     bounded_safe 255 (fr_authenticated_peer_id r) \<and> 1 \<le> fr_binding_generation r \<and>
     0 \<le> fr_persisted_at_ms r \<and> null_or_since (fr_persisted_at_ms r) (fr_attempted_at_ms r) \<and>
     null_or_since (fr_persisted_at_ms r) (fr_applied_at_ms r) \<and>
     null_or_since (fr_persisted_at_ms r) (fr_conflict_at_ms r) \<and> state_check r"

definition active_binding ::
    "fleet_db \<Rightarrow> string \<Rightarrow> string \<Rightarrow> string \<Rightarrow> string \<Rightarrow> int \<Rightarrow> bool" where
  "active_binding db binding_id network_id device_id peer generation \<longleftrightarrow>
     list_ex (\<lambda>b. nb_binding_id b = binding_id \<and> nb_network_id b = network_id \<and>
       nb_device_id b = device_id \<and> nb_verified_peer_id b = Some peer \<and>
       nb_generation b = generation \<and> nb_binding_state b = ''active'') (db_bindings db)"

definition row_binding_active :: "fleet_db \<Rightarrow> projection_row \<Rightarrow> bool" where
  "row_binding_active db r = active_binding db (fr_binding_id r) (fr_network_id r) (fr_device_id r)
     (fr_authenticated_peer_id r) (fr_binding_generation r)"

definition insert_projection :: "projection_row \<Rightarrow> fleet_db \<Rightarrow> fleet_db state_result" where
  "insert_projection r db =
     and_then (ensure (row_binding_active db r)
       (StSqlite ''N7 desired projection requires exact active N6 provenance'')) (\<lambda>_.
     and_then (ensure (projection_check r \<and>
         list_all (\<lambda>q. fr_projection_id q \<noteq> fr_projection_id r \<and>
           (fr_device_id q, fr_generation q) \<noteq> (fr_device_id r, fr_generation r)) (db_projections db))
       (StSqlite ''constraint failed'')) (\<lambda>_.
     Inr (db\<lparr>db_projections := db_projections db @ [r]\<rparr>)))"

definition highest_attempt :: "fleet_db \<Rightarrow> string \<Rightarrow> int" where
  "highest_attempt db projection_id =
     foldr max (map fa_attempt_number
       (filter (\<lambda>a. fa_projection_id a = projection_id) (db_attempts db))) 0"

text \<open>The transition trigger: what an update of a projection record must look like.\<close>

definition same_subject :: "projection_row \<Rightarrow> projection_row \<Rightarrow> bool" where
  "same_subject old new \<longleftrightarrow>
     fr_network_id new = fr_network_id old \<and> fr_device_id new = fr_device_id old \<and>
     fr_generation new = fr_generation old \<and> fr_desired_body new = fr_desired_body old \<and>
     fr_desired_hash new = fr_desired_hash old \<and> fr_binding_id new = fr_binding_id old \<and>
     fr_authenticated_peer_id new = fr_authenticated_peer_id old \<and>
     fr_binding_generation new = fr_binding_generation old"

definition first_attempt_update :: "fleet_db \<Rightarrow> projection_row \<Rightarrow> projection_row \<Rightarrow> bool" where
  "first_attempt_update db old new \<longleftrightarrow>
     fr_projection_state old = ''desired'' \<and> fr_revision old = 1 \<and>
     fr_projection_state new = ''attempted'' \<and> fr_revision new = 2 \<and> row_binding_active db new \<and>
     list_ex (\<lambda>a. fr_current_attempt_id new = Some (fa_attempt_id a) \<and>
       fa_projection_id a = fr_projection_id new \<and>
       list_ex (\<lambda>x. fo_projection_id x = fr_projection_id new \<and>
         fo_operation_id x = fa_operation_id a) (db_operations db)) (db_attempts db)"

definition next_attempt_update :: "fleet_db \<Rightarrow> projection_row \<Rightarrow> projection_row \<Rightarrow> bool" where
  "next_attempt_update db old new \<longleftrightarrow>
     fr_projection_state old = ''attempted'' \<and> fr_revision old = 2 \<and>
     fr_projection_state new = ''attempted'' \<and> fr_revision new = 2 \<and>
     fr_current_attempt_id new \<noteq> fr_current_attempt_id old \<and> row_binding_active db new \<and>
     list_ex (\<lambda>a. fr_current_attempt_id new = Some (fa_attempt_id a) \<and>
       fa_projection_id a = fr_projection_id new \<and>
       fa_attempt_number a = highest_attempt db (fr_projection_id new)) (db_attempts db)"

definition inspection_supports :: "fleet_db \<Rightarrow> projection_row \<Rightarrow> string \<Rightarrow> inspection_row \<Rightarrow> bool" where
  "inspection_supports db r state i \<longleftrightarrow>
     fi_projection_id i = fr_projection_id r \<and> fr_current_attempt_id r = Some (fi_attempt_id i) \<and>
     list_ex (\<lambda>a. fa_attempt_id a = fi_attempt_id i \<and> fa_operation_id a = fi_operation_id i)
       (db_attempts db) \<and>
     fi_expected_revision i = 2 \<and> fi_inspection_kind i = ''observed'' \<and>
     (if state = ''applied''
      then fi_observed_body i = Some (fr_desired_body r) \<and> fi_observed_hash i = Some (fr_desired_hash r)
      else (fi_observed_body i \<noteq> None \<and> fi_observed_body i \<noteq> Some (fr_desired_body r)) \<or>
           (fi_observed_hash i \<noteq> None \<and> fi_observed_hash i \<noteq> Some (fr_desired_hash r)))"

definition settling_update :: "fleet_db \<Rightarrow> projection_row \<Rightarrow> projection_row \<Rightarrow> bool" where
  "settling_update db old new \<longleftrightarrow>
     fr_projection_state old = ''attempted'' \<and> fr_revision old = 2 \<and>
     (fr_projection_state new = ''applied'' \<or> fr_projection_state new = ''conflict'') \<and>
     fr_revision new = 3 \<and> fr_current_attempt_id new = fr_current_attempt_id old \<and>
     list_ex (inspection_supports db new (fr_projection_state new)) (db_inspections db)"

definition projection_update_guard :: "fleet_db \<Rightarrow> projection_row \<Rightarrow> projection_row \<Rightarrow> bool" where
  "projection_update_guard db old new \<longleftrightarrow>
     (first_attempt_update db old new \<or> next_attempt_update db old new \<or> settling_update db old new) \<and>
     same_subject old new"

text \<open>An \<^verbatim>\<open>UPDATE ... WHERE\<close> with the number of changed rows, as \<^verbatim>\<open>execute\<close> returns it.\<close>

definition update_projections ::
    "(projection_row \<Rightarrow> bool) \<Rightarrow> (projection_row \<Rightarrow> projection_row) \<Rightarrow> fleet_db \<Rightarrow>
     (nat \<times> fleet_db) state_result" where
  "update_projections selected change db =
     (let touched = filter selected (db_projections db) in
      and_then (ensure (list_all (\<lambda>r. projection_update_guard db r (change r)) touched)
        (StSqlite ''N7 projection transition requires exact durable identity, body, N6 provenance, and revision fence'')) (\<lambda>_.
      and_then (ensure (list_all (\<lambda>r. projection_check (change r)) touched)
        (StSqlite ''constraint failed'')) (\<lambda>_.
      Inr (length touched,
        db\<lparr>db_projections := map (\<lambda>r. if selected r then change r else r) (db_projections db)\<rparr>))))"

section \<open>Constraints and triggers of the append-only tables\<close>

definition operation_check :: "operation_row \<Rightarrow> bool" where
  "operation_check x \<longleftrightarrow>
     bounded_safe 128 (fo_operation_id x) \<and> 1 \<le> fo_generation x \<and> 1 < length (fo_desired_body x) \<and>
     hash_column (fo_desired_hash x) \<and> bounded_safe 255 (fo_authenticated_peer_id x) \<and>
     1 \<le> fo_binding_generation x \<and> 0 \<le> fo_recorded_at_ms x"

definition operation_of :: "operation_row \<Rightarrow> projection_row \<Rightarrow> bool" where
  "operation_of x p \<longleftrightarrow>
     fr_projection_id p = fo_projection_id x \<and> fr_network_id p = fo_network_id x \<and>
     fr_device_id p = fo_device_id x \<and> fr_generation p = fo_generation x \<and>
     fr_desired_body p = fo_desired_body x \<and> fr_desired_hash p = fo_desired_hash x \<and>
     fr_binding_id p = fo_binding_id x \<and> fr_authenticated_peer_id p = fo_authenticated_peer_id x \<and>
     fr_binding_generation p = fo_binding_generation x"

definition insert_operation :: "operation_row \<Rightarrow> fleet_db \<Rightarrow> fleet_db state_result" where
  "insert_operation x db =
     and_then (ensure (list_ex (operation_of x) (db_projections db))
       (StSqlite ''N7 operation must bind the exact durable identity, body, hash, and N6 provenance'')) (\<lambda>_.
     and_then (ensure (operation_check x \<and>
         list_all (\<lambda>y. fo_operation_id y \<noteq> fo_operation_id x) (db_operations db))
       (StSqlite ''constraint failed'')) (\<lambda>_.
     Inr (db\<lparr>db_operations := db_operations db @ [x]\<rparr>)))"

definition attempt_check :: "attempt_row \<Rightarrow> bool" where
  "attempt_check a \<longleftrightarrow>
     uuid_column (fa_attempt_id a) \<and> 1 \<le> fa_attempt_number a \<and>
     (fa_expected_revision a = 1 \<or> fa_expected_revision a = 2) \<and> 0 \<le> fa_attempted_at_ms a"

definition attempt_subject :: "fleet_db \<Rightarrow> attempt_row \<Rightarrow> projection_row \<Rightarrow> bool" where
  "attempt_subject db a p \<longleftrightarrow>
     fr_projection_id p = fa_projection_id a \<and>
     list_ex (\<lambda>x. fo_operation_id x = fa_operation_id a \<and> fo_projection_id x = fr_projection_id p)
       (db_operations db) \<and>
     ((fr_projection_state p = ''desired'' \<and> fr_revision p = 1 \<and> fa_attempt_number a = 1 \<and>
       fa_expected_revision a = 1) \<or>
      (fr_projection_state p = ''attempted'' \<and> fr_revision p = 2 \<and>
       fa_attempt_number a = highest_attempt db (fr_projection_id p) + 1 \<and>
       fa_expected_revision a = fr_revision p))"

definition insert_attempt :: "attempt_row \<Rightarrow> fleet_db \<Rightarrow> fleet_db state_result" where
  "insert_attempt a db =
     and_then (ensure (list_ex (attempt_subject db a) (db_projections db))
       (StSqlite ''N7 attempt requires the exact durable operation and current revision'')) (\<lambda>_.
     and_then (ensure (attempt_check a \<and>
         list_all (\<lambda>b. fa_attempt_id b \<noteq> fa_attempt_id a \<and>
           (fa_projection_id b, fa_attempt_number b) \<noteq> (fa_projection_id a, fa_attempt_number a))
           (db_attempts db))
       (StSqlite ''constraint failed'')) (\<lambda>_.
     Inr (db\<lparr>db_attempts := db_attempts db @ [a]\<rparr>)))"

definition inspection_check :: "inspection_row \<Rightarrow> bool" where
  "inspection_check i \<longleftrightarrow>
     uuid_column (fi_inspection_id i) \<and> fi_expected_revision i = 2 \<and> 0 \<le> fi_inspected_at_ms i \<and>
     (case fi_observed_body i of None \<Rightarrow> True | Some b \<Rightarrow> 1 < length b) \<and>
     (case fi_observed_hash i of None \<Rightarrow> True | Some h \<Rightarrow> hash_column h) \<and>
     ((fi_inspection_kind i = ''observed'' \<and> fi_observed_body i \<noteq> None \<and> fi_observed_hash i \<noteq> None) \<or>
      ((fi_inspection_kind i = ''missing'' \<or> fi_inspection_kind i = ''unavailable'') \<and>
       fi_observed_body i = None \<and> fi_observed_hash i = None))"

definition inspection_subject :: "fleet_db \<Rightarrow> inspection_row \<Rightarrow> projection_row \<Rightarrow> bool" where
  "inspection_subject db i p \<longleftrightarrow>
     fr_projection_id p = fi_projection_id i \<and>
     list_ex (\<lambda>x. fo_operation_id x = fi_operation_id i \<and> fo_projection_id x = fr_projection_id p)
       (db_operations db) \<and>
     list_ex (\<lambda>a. fa_attempt_id a = fi_attempt_id i \<and> fa_projection_id a = fr_projection_id p \<and>
       fa_operation_id a = fi_operation_id i) (db_attempts db) \<and>
     fr_projection_state p = ''attempted'' \<and> fr_revision p = fi_expected_revision i \<and>
     fr_current_attempt_id p = Some (fi_attempt_id i)"

definition insert_inspection :: "inspection_row \<Rightarrow> fleet_db \<Rightarrow> fleet_db state_result" where
  "insert_inspection i db =
     and_then (ensure (list_ex (inspection_subject db i) (db_projections db))
       (StSqlite ''N7 inspection requires the exact attempted operation and revision'')) (\<lambda>_.
     and_then (ensure (inspection_check i \<and>
         list_all (\<lambda>j. fi_inspection_id j \<noteq> fi_inspection_id i) (db_inspections db))
       (StSqlite ''constraint failed'')) (\<lambda>_.
     Inr (db\<lparr>db_inspections := db_inspections db @ [i]\<rparr>)))"

text \<open>
  Audit events of other components share the table; the secrecy trigger compares the metadata
  of these events, which is always the empty object, and never fires here.
\<close>

definition insert_event :: "audit_event_row \<Rightarrow> fleet_db \<Rightarrow> fleet_db state_result" where
  "insert_event e db =
     and_then (ensure (list_all (\<lambda>f. ae_event_id f \<noteq> ae_event_id e) (db_events db))
       (StSqlite ''constraint failed'')) (\<lambda>_.
     Inr (db\<lparr>db_events := db_events db @ [e]\<rparr>))"

definition audit_stage :: "string \<Rightarrow> (string \<times> int) option" where
  "audit_stage kind =
     (if kind = ''projection_desired'' then Some (''desired'', 1)
      else if kind = ''projection_attempted'' then Some (''attempted'', 2)
      else if kind = ''projection_applied'' then Some (''applied'', 3)
      else if kind = ''projection_conflict'' then Some (''conflict'', 3)
      else None)"

definition audit_subject :: "fleet_db \<Rightarrow> projection_audit_row \<Rightarrow> projection_row \<Rightarrow> bool" where
  "audit_subject db u p \<longleftrightarrow>
     fr_projection_id p = fu_projection_id u \<and> fr_generation p = fu_generation u \<and>
     list_ex (\<lambda>x. fo_operation_id x = fu_operation_id u \<and> fo_projection_id x = fr_projection_id p)
       (db_operations db) \<and>
     list_ex (\<lambda>e. ae_event_id e = fu_audit_event_id u \<and> ae_network_id e = fr_network_id p \<and>
       ae_device_id e = fr_device_id p \<and> ae_generation e = fu_generation u \<and>
       ae_actor_source e = ''nodescale'' \<and> ae_actor_id e = None \<and>
       ae_event_kind e = ''fleet_'' @ fu_event_kind u \<and> ae_outcome e = ''success'' \<and>
       ae_metadata_json e = ''{}'') (db_events db) \<and>
     audit_stage (fu_event_kind u) = Some (fr_projection_state p, fr_revision p) \<and>
     fu_revision u = fr_revision p"

definition insert_audit :: "projection_audit_row \<Rightarrow> fleet_db \<Rightarrow> fleet_db state_result" where
  "insert_audit u db =
     and_then (ensure (list_ex (audit_subject db u) (db_projections db))
       (StSqlite ''N7 audit requires exact safe projection provenance'')) (\<lambda>_.
     and_then (ensure (uuid_column (fu_audit_id u) \<and> 1 \<le> fu_generation u \<and> 1 \<le> fu_revision u \<and>
         0 \<le> fu_recorded_at_ms u \<and>
         list_all (\<lambda>v. fu_audit_id v \<noteq> fu_audit_id u \<and> fu_audit_event_id v \<noteq> fu_audit_event_id u)
           (db_audit db))
       (StSqlite ''constraint failed'')) (\<lambda>_.
     Inr (db\<lparr>db_audit := db_audit db @ [u]\<rparr>)))"

section \<open>What every accepted statement keeps\<close>

text \<open>
  One accepted statement on the tables; records are inserted as desired. The last rule is everything other components write:
  they may change devices, generations, bindings and audit events at will, and never touch the
  projection tables.
\<close>

inductive fleet_write :: "fleet_db \<Rightarrow> fleet_db \<Rightarrow> bool" where
  write_projection: "fr_projection_state r = ''desired'' \<Longrightarrow>
    insert_projection r db = Inr db' \<Longrightarrow> fleet_write db db'"
| write_update: "(\<And>r. fr_projection_id (change r) = fr_projection_id r) \<Longrightarrow>
    update_projections selected change db = Inr (n, db') \<Longrightarrow> fleet_write db db'"
| write_operation: "insert_operation x db = Inr db' \<Longrightarrow> fleet_write db db'"
| write_attempt: "insert_attempt a db = Inr db' \<Longrightarrow> fleet_write db db'"
| write_inspection: "insert_inspection i db = Inr db' \<Longrightarrow> fleet_write db db'"
| write_audit: "insert_audit u db = Inr db' \<Longrightarrow> fleet_write db db'"
| write_elsewhere: "fleet_write db (db\<lparr>db_devices := ds, db_generations := gs, db_bindings := bs,
    db_events := es\<rparr>)"

definition evidence :: "fleet_db \<Rightarrow> projection_row \<Rightarrow> bool" where
  "evidence db r \<longleftrightarrow>
     (fr_projection_state r = ''desired'' \<or>
      list_ex (\<lambda>a. fr_current_attempt_id r = Some (fa_attempt_id a) \<and>
        fa_projection_id a = fr_projection_id r) (db_attempts db)) \<and>
     (fr_revision r = 3 \<longrightarrow>
      list_ex (inspection_supports db r (fr_projection_state r)) (db_inspections db))"

definition attempt_numbers :: "fleet_db \<Rightarrow> string \<Rightarrow> int list" where
  "attempt_numbers db projection_id =
     map fa_attempt_number (filter (\<lambda>a. fa_projection_id a = projection_id) (db_attempts db))"

definition empty_fleet :: "fleet_db \<Rightarrow> bool" where
  "empty_fleet db \<longleftrightarrow> db_projections db = [] \<and> db_operations db = [] \<and> db_attempts db = [] \<and>
     db_inspections db = [] \<and> db_audit db = []"

text \<open>How a record may change: its subject is fixed, and a settled record never changes.\<close>

definition row_evolves :: "projection_row \<Rightarrow> projection_row \<Rightarrow> bool" where
  "row_evolves old new \<longleftrightarrow>
     fr_projection_id new = fr_projection_id old \<and> same_subject old new \<and>
     fr_revision old \<le> fr_revision new \<and> (fr_revision old = 3 \<longrightarrow> new = old)"

definition fleet_extends :: "fleet_db \<Rightarrow> fleet_db \<Rightarrow> bool" where
  "fleet_extends db db' \<longleftrightarrow>
     (\<exists>more. list_all2 row_evolves (db_projections db) more \<and> prefix more (db_projections db')) \<and>
     prefix (db_operations db) (db_operations db') \<and> prefix (db_attempts db) (db_attempts db') \<and>
     prefix (db_inspections db) (db_inspections db') \<and> prefix (db_audit db) (db_audit db')"

lemma row_evolves_refl [intro, simp]: "row_evolves r r"
  by (simp add: row_evolves_def same_subject_def)

lemma row_evolves_trans:
  assumes "row_evolves a b" "row_evolves b c"
  shows "row_evolves a c"
  using assms by (auto simp: row_evolves_def same_subject_def)

lemma projection_state_revision:
  assumes "projection_check r"
  shows "(fr_projection_state r = ''desired'' \<longleftrightarrow> fr_revision r = 1) \<and>
    (fr_projection_state r = ''attempted'' \<longleftrightarrow> fr_revision r = 2) \<and>
    (fr_projection_state r = ''applied'' \<or> fr_projection_state r = ''conflict'' \<longleftrightarrow> fr_revision r = 3)"
  using assms by (auto simp: projection_check_def state_check_def)

lemma update_guard_evolves:
  assumes "projection_update_guard db old new" "fr_projection_id new = fr_projection_id old"
  shows "row_evolves old new"
  using assms by (auto simp: projection_update_guard_def row_evolves_def first_attempt_update_def
      next_attempt_update_def settling_update_def)

lemma rows_extend_append [simp]:
  "\<exists>more. list_all2 row_evolves rows more \<and> prefix more (rows @ new)"
  by (intro exI [of _ rows]) (simp add: list_all2_refl)

lemma rows_extend_refl [simp]: "\<exists>more. list_all2 row_evolves rows more \<and> prefix more rows"
  by (intro exI [of _ rows]) (simp add: list_all2_refl)

lemma fleet_extends_refl: "fleet_extends db db"
  by (simp add: fleet_extends_def)

lemma fleet_extends_trans:
  assumes "fleet_extends a b" "fleet_extends b c"
  shows "fleet_extends a c"
proof -
  obtain xs where xs: "list_all2 row_evolves (db_projections a) xs" "prefix xs (db_projections b)"
    using assms(1) by (auto simp: fleet_extends_def)
  obtain ys where ys: "list_all2 row_evolves (db_projections b) ys" "prefix ys (db_projections c)"
    using assms(2) by (auto simp: fleet_extends_def)
  from xs(2) obtain zs where zs: "db_projections b = xs @ zs" by (auto simp: prefix_def)
  with ys(1) obtain us vs where uv: "ys = us @ vs" "list_all2 row_evolves xs us"
    by (auto simp: list_all2_append1)
  have "list_all2 row_evolves (db_projections a) us"
    using row_evolves_trans xs(1) uv(2) by (rule list_all2_trans)
  moreover have "prefix us (db_projections c)" using ys(2) uv(1) by (auto simp: prefix_def)
  ultimately show ?thesis using assms by (auto simp: fleet_extends_def intro: prefix_order.trans)
qed

lemma list_all2_map_if:
  "(\<And>r. r \<in> set rows \<Longrightarrow> selected r \<Longrightarrow> P r (change r)) \<Longrightarrow> (\<And>r. P r r) \<Longrightarrow>
   list_all2 P rows (map (\<lambda>r. if selected r then change r else r) rows)"
  by (simp add: list_all2_map2 list_all2_same)

lemma fleet_write_extends: "fleet_write db db' \<Longrightarrow> fleet_extends db db'"
proof (induction rule: fleet_write.induct)
  case (write_update change selected db n db')
  then have guards: "list_all (\<lambda>r. projection_update_guard db r (change r))
      (filter selected (db_projections db))"
    and db': "db' = db\<lparr>db_projections :=
      map (\<lambda>r. if selected r then change r else r) (db_projections db)\<rparr>"
    by (auto simp: update_projections_def Let_def guard_simps)
  have "list_all2 row_evolves (db_projections db)
      (map (\<lambda>r. if selected r then change r else r) (db_projections db))"
  proof (rule list_all2_map_if)
    fix r assume "r \<in> set (db_projections db)" "selected r"
    then have "projection_update_guard db r (change r)" using guards by (simp add: list_all_iff)
    then show "row_evolves r (change r)" using write_update(1) by (rule update_guard_evolves)
  qed simp
  then show ?case by (auto simp: fleet_extends_def db')
next
  case (write_elsewhere db ds gs bs es)
  then show ?case by (simp add: fleet_extends_def)
qed (auto simp: insert_projection_def insert_operation_def insert_attempt_def insert_inspection_def
    insert_audit_def guard_simps fleet_extends_def simp del: prefix_snoc)

lemma fleet_writes_extend: "fleet_write\<^sup>*\<^sup>* db db' \<Longrightarrow> fleet_extends db db'"
  by (induction rule: rtranclp_induct)
    (auto intro: fleet_extends_refl fleet_extends_trans fleet_write_extends)

section \<open>The invariant of the projection tables\<close>

lemma evidence_tables:
  assumes "db_attempts db' = db_attempts db" "db_inspections db' = db_inspections db"
  shows "evidence db' = evidence db"
  using assms by (intro ext) (simp add: evidence_def inspection_supports_def [abs_def])

lemma evidence_mono:
  assumes "evidence db r" "prefix (db_attempts db) (db_attempts db')"
    "prefix (db_inspections db) (db_inspections db')"
  shows "evidence db' r"
proof -
  have "set (db_attempts db) \<subseteq> set (db_attempts db')"
    and "set (db_inspections db) \<subseteq> set (db_inspections db')"
    using assms(2,3) by (auto simp: prefix_def)
  moreover from this have "inspection_supports db r st i \<Longrightarrow> inspection_supports db' r st i" for st i
    unfolding inspection_supports_def list_ex_iff by blast
  ultimately show ?thesis using assms(1) unfolding evidence_def list_ex_iff by blast
qed

lemma extends_row:
  assumes "fleet_extends db db'" "p \<in> set (db_projections db)"
  shows "\<exists>q \<in> set (db_projections db'). row_evolves p q"
proof -
  obtain more where m: "list_all2 row_evolves (db_projections db) more" "prefix more (db_projections db')"
    using assms(1) by (auto simp: fleet_extends_def)
  from m(1) assms(2) obtain q where "q \<in> set more" "row_evolves p q"
    by (metis in_set_conv_nth list_all2_conv_all_nth)
  then show ?thesis using m(2) by (auto simp: prefix_def)
qed

lemma operation_of_evolves: "operation_of x p \<Longrightarrow> row_evolves p q \<Longrightarrow> operation_of x q"
  by (simp add: operation_of_def row_evolves_def same_subject_def)

definition links_ok :: "fleet_db \<Rightarrow> bool" where
  "links_ok db \<longleftrightarrow>
     list_all (\<lambda>x. list_ex (operation_of x) (db_projections db)) (db_operations db) \<and>
     list_all (\<lambda>a. list_ex (\<lambda>p. fr_projection_id p = fa_projection_id a) (db_projections db) \<and>
        list_ex (\<lambda>x. fo_operation_id x = fa_operation_id a \<and>
          fo_projection_id x = fa_projection_id a) (db_operations db)) (db_attempts db)"

text \<open>Links stay valid when the tables grow, for the rows that were there.\<close>

lemma old_links:
  assumes "links_ok db" "fleet_extends db db'"
  shows "x \<in> set (db_operations db) \<Longrightarrow> list_ex (operation_of x) (db_projections db')"
    and "a \<in> set (db_attempts db) \<Longrightarrow> list_ex (\<lambda>p. fr_projection_id p = fa_projection_id a) (db_projections db') \<and>
        list_ex (\<lambda>x. fo_operation_id x = fa_operation_id a \<and>
          fo_projection_id x = fa_projection_id a) (db_operations db')"
proof -
  assume "x \<in> set (db_operations db)"
  then obtain p where "p \<in> set (db_projections db)" "operation_of x p"
    using assms(1) by (auto simp: links_ok_def list_all_iff list_ex_iff)
  with extends_row [OF assms(2)] operation_of_evolves
  show "list_ex (operation_of x) (db_projections db')" unfolding list_ex_iff by blast
next
  assume "a \<in> set (db_attempts db)"
  then obtain p x where "p \<in> set (db_projections db)" "fr_projection_id p = fa_projection_id a"
    "x \<in> set (db_operations db)" "fo_operation_id x = fa_operation_id a" "fo_projection_id x = fa_projection_id a"
    using assms(1) by (auto simp: links_ok_def list_all_iff list_ex_iff)
  moreover have "set (db_operations db) \<subseteq> set (db_operations db')"
    using assms(2) by (auto simp: fleet_extends_def prefix_def)
  moreover obtain q where "q \<in> set (db_projections db')" "fr_projection_id q = fr_projection_id p"
    using extends_row [OF assms(2) \<open>p \<in> set (db_projections db)\<close>] by (auto simp: row_evolves_def)
  ultimately show "list_ex (\<lambda>p. fr_projection_id p = fa_projection_id a) (db_projections db') \<and>
      list_ex (\<lambda>x. fo_operation_id x = fa_operation_id a \<and> fo_projection_id x = fa_projection_id a)
        (db_operations db')"
    unfolding list_ex_iff by (intro conjI bexI [of _ q] bexI [of _ x]) auto
qed

lemma fleet_write_links:
  assumes "fleet_write db db'" "links_ok db"
  shows "links_ok db'"
proof -
  have new_op: "list_ex (operation_of x) (db_projections db)"
    if "insert_operation x db = Inr db'" for x
    using that by (simp add: insert_operation_def guard_simps)
  have new_at: "list_ex (\<lambda>p. fr_projection_id p = fa_projection_id a) (db_projections db) \<and>
      list_ex (\<lambda>x. fo_operation_id x = fa_operation_id a \<and> fo_projection_id x = fa_projection_id a)
        (db_operations db)" if "insert_attempt a db = Inr db'" for a
    using that unfolding insert_attempt_def attempt_subject_def guard_simps list_ex_iff by auto
  note ext = fleet_write_extends [OF assms(1)]
  have ops: "x \<in> set (db_operations db) \<or> insert_operation x db = Inr db'"
    if "x \<in> set (db_operations db')" for x
    using assms(1) that by cases (auto simp: insert_projection_def update_projections_def Let_def
        insert_operation_def insert_attempt_def insert_inspection_def insert_audit_def guard_simps)
  have ats: "a \<in> set (db_attempts db) \<or> insert_attempt a db = Inr db'"
    if "a \<in> set (db_attempts db')" for a
    using assms(1) that by cases (auto simp: insert_projection_def update_projections_def Let_def
        insert_operation_def insert_attempt_def insert_inspection_def insert_audit_def guard_simps)
  have same: "db_projections db' = db_projections db" if "insert_operation x db = Inr db'" for x
    using that by (auto simp: insert_operation_def guard_simps)
  have same2: "db_projections db' = db_projections db \<and> db_operations db' = db_operations db"
    if "insert_attempt a db = Inr db'" for a
    using that by (auto simp: insert_attempt_def guard_simps)
  have "list_ex (operation_of x) (db_projections db')" if "x \<in> set (db_operations db')" for x
    using ops [OF that] old_links(1) [OF assms(2) ext] new_op same by auto
  moreover have "list_ex (\<lambda>p. fr_projection_id p = fa_projection_id a) (db_projections db') \<and>
      list_ex (\<lambda>x. fo_operation_id x = fa_operation_id a \<and> fo_projection_id x = fa_projection_id a)
        (db_operations db')" if "a \<in> set (db_attempts db')" for a
    using ats [OF that]
  proof (elim disjE)
    assume "insert_attempt a db = Inr db'"
    from new_at [OF this] same2 [OF this] show ?thesis by simp
  qed (rule old_links(2) [OF assms(2) ext])
  ultimately show ?thesis unfolding links_ok_def list_all_iff by blast
qed

definition rows_ok :: "fleet_db \<Rightarrow> bool" where
  "rows_ok db \<longleftrightarrow>
     distinct (map fr_projection_id (db_projections db)) \<and>
     distinct (map (\<lambda>r. (fr_device_id r, fr_generation r)) (db_projections db)) \<and>
     list_all projection_check (db_projections db) \<and> list_all (evidence db) (db_projections db)"


lemma projection_update_rows:
  assumes "\<And>r. fr_projection_id (change r) = fr_projection_id r"
    and "update_projections selected change db = Inr (n, db')" and "rows_ok db"
  shows "rows_ok db'"
proof -
  let ?rows = "map (\<lambda>r. if selected r then change r else r) (db_projections db)"
  have db': "db' = db\<lparr>db_projections := ?rows\<rparr>"
    and guard: "r \<in> set (db_projections db) \<Longrightarrow> selected r \<Longrightarrow>
      projection_update_guard db r (change r) \<and> projection_check (change r)" for r
    using assms(2) by (auto simp: update_projections_def Let_def guard_simps list_all_iff)
  have new: "evidence db (change r)" if r: "r \<in> set (db_projections db)" "selected r" for r
  proof -
    have "evidence db r" using r assms(3) by (simp add: rows_ok_def list_all_iff)
    with guard [OF r] assms(1) [of r] show ?thesis
      unfolding projection_update_guard_def first_attempt_update_def next_attempt_update_def
        settling_update_def evidence_def list_ex_iff by auto
  qed
  have kept: "evidence db' = evidence db" by (rule evidence_tables) (simp_all add: db')
  have keys: "map fr_projection_id ?rows = map fr_projection_id (db_projections db)"
    "map (\<lambda>r. (fr_device_id r, fr_generation r)) ?rows =
     map (\<lambda>r. (fr_device_id r, fr_generation r)) (db_projections db)"
    using guard assms(1) by (auto simp: projection_update_guard_def same_subject_def)
  have "list_all projection_check ?rows \<and> list_all (evidence db) ?rows"
    using guard new assms(3) by (auto simp: rows_ok_def list_all_iff)
  moreover have "distinct (map fr_projection_id ?rows)"
    "distinct (map (\<lambda>r. (fr_device_id r, fr_generation r)) ?rows)"
    unfolding keys using assms(3) by (simp_all add: rows_ok_def)
  moreover have "db_projections db' = ?rows" by (simp add: db')
  ultimately show ?thesis unfolding rows_ok_def kept by simp
qed

lemma fleet_write_rows:
  assumes "fleet_write db db'" "rows_ok db"
  shows "rows_ok db'"
  using assms
proof cases
  case (write_projection r)
  then have check: "projection_check r" and db': "db' = db\<lparr>db_projections := db_projections db @ [r]\<rparr>"
    and fresh: "list_all (\<lambda>q. fr_projection_id q \<noteq> fr_projection_id r \<and>
           (fr_device_id q, fr_generation q) \<noteq> (fr_device_id r, fr_generation r)) (db_projections db)"
    by (auto simp: insert_projection_def guard_simps)
  have "evidence db r" using check write_projection(1)
    by (simp add: evidence_def projection_check_def state_check_def)
  moreover have "evidence db' = evidence db" by (rule evidence_tables) (simp_all add: db')
  ultimately show ?thesis using check fresh assms(2) by (auto simp: rows_ok_def db' list_all_iff)
next
  case (write_update change selected n)
  then show ?thesis using projection_update_rows assms(2) by blast
next
  case (write_operation x)
  then have db': "db' = db\<lparr>db_operations := db_operations db @ [x]\<rparr>"
    by (auto simp: insert_operation_def guard_simps)
  have "evidence db' = evidence db" by (rule evidence_tables) (simp_all add: db')
  then show ?thesis using assms(2) by (simp add: rows_ok_def db')
next
  case (write_attempt a)
  then have db': "db' = db\<lparr>db_attempts := db_attempts db @ [a]\<rparr>"
    by (auto simp: insert_attempt_def guard_simps)
  have "evidence db r \<Longrightarrow> evidence db' r" for r
    by (erule evidence_mono) (simp_all add: db' del: prefix_snoc)
  then show ?thesis using assms(2) by (auto simp: rows_ok_def db' list_all_iff)
next
  case (write_inspection i)
  then have db': "db' = db\<lparr>db_inspections := db_inspections db @ [i]\<rparr>"
    by (auto simp: insert_inspection_def guard_simps)
  have "evidence db r \<Longrightarrow> evidence db' r" for r
    by (erule evidence_mono) (simp_all add: db' del: prefix_snoc)
  then show ?thesis using assms(2) by (auto simp: rows_ok_def db' list_all_iff)
next
  case (write_audit u)
  then have db': "db' = db\<lparr>db_audit := db_audit db @ [u]\<rparr>"
    by (auto simp: insert_audit_def guard_simps)
  have "evidence db' = evidence db" by (rule evidence_tables) (simp_all add: db')
  then show ?thesis using assms(2) by (simp add: rows_ok_def db')
next
  case (write_elsewhere ds gs bs es)
  have "evidence db' = evidence db" by (rule evidence_tables) (simp_all add: write_elsewhere)
  then show ?thesis using assms(2) by (simp add: rows_ok_def write_elsewhere)
qed

section \<open>Attempt numbers\<close>

definition attempts_ok :: "fleet_db \<Rightarrow> bool" where
  "attempts_ok db \<longleftrightarrow> distinct (map fa_attempt_id (db_attempts db)) \<and>
     (\<forall>pid. attempt_numbers db pid = [1..int (length (attempt_numbers db pid))])"

lemma foldr_max_upto: "foldr max [1..int n] 0 = int n"
proof (induction n)
  case (Suc n)
  have "foldr max xs (int (Suc n)) = max (foldr max xs 0) (int (Suc n))" for xs :: "int list"
    by (induction xs) (simp_all add: max.assoc max.commute max.left_commute)
  moreover have "[1..int (Suc n)] = [1..int n] @ [int (Suc n)]"
    by (subst upto_rec2) (simp_all)
  ultimately show ?case using Suc.IH by simp
qed simp

lemma highest_attempt_numbers:
  assumes "attempts_ok db"
  shows "highest_attempt db pid = int (length (attempt_numbers db pid))"
proof -
  have "highest_attempt db pid = foldr max (attempt_numbers db pid) 0"
    by (simp add: highest_attempt_def attempt_numbers_def)
  also have "\<dots> = foldr max [1..int (length (attempt_numbers db pid))] 0"
    using assms by (simp add: attempts_ok_def)
  finally show ?thesis by (simp only: foldr_max_upto)
qed

lemma upto_snoc: "xs = [1..int (length xs)] \<Longrightarrow> n = int (length xs) + 1 \<Longrightarrow>
    xs @ [n] = [1..int (length (xs @ [n]))]"
  by (subst upto_rec2) simp_all

lemma insert_attempt_numbers:
  assumes "insert_attempt a db = Inr db'" "attempts_ok db"
  shows "attempts_ok db' \<and> fa_attempt_number a = highest_attempt db (fa_projection_id a) + 1"
proof -
  let ?pid = "fa_projection_id a" and ?ns = "attempt_numbers db (fa_projection_id a)"
  obtain p where p: "attempt_subject db a p" "db' = db\<lparr>db_attempts := db_attempts db @ [a]\<rparr>"
    and fresh: "list_all (\<lambda>b. fa_attempt_id b \<noteq> fa_attempt_id a \<and>
           (fa_projection_id b, fa_attempt_number b) \<noteq> (?pid, fa_attempt_number a)) (db_attempts db)"
    using assms(1) by (auto simp: insert_attempt_def guard_simps list_ex_iff)
  have ns: "?ns = [1..int (length ?ns)]" using assms(2) by (simp add: attempts_ok_def)
  have "fa_attempt_number a \<notin> set ?ns" using fresh by (auto simp: attempt_numbers_def list_all_iff)
  then have first: "fa_attempt_number a = 1 \<Longrightarrow> ?ns = []"
    using ns by (metis atLeastAtMost_iff length_0_conv linorder_not_less nat_int of_nat_0_less_iff
        length_greater_0_conv set_upto int_one_le_iff_zero_less order_refl)
  then have n: "fa_attempt_number a = int (length ?ns) + 1"
    using p(1) highest_attempt_numbers [OF assms(2)] by (auto simp: attempt_subject_def)
  have "attempt_numbers db' pid = [1..int (length (attempt_numbers db' pid))]" for pid
  proof (cases "pid = ?pid")
    case True
    then have "attempt_numbers db' pid = ?ns @ [fa_attempt_number a]"
      by (simp add: p(2) attempt_numbers_def)
    then show ?thesis using upto_snoc [OF ns n] by (simp only:)
  next
    case False
    then have "attempt_numbers db' pid = attempt_numbers db pid"
      by (simp add: p(2) attempt_numbers_def)
    then show ?thesis using assms(2) by (simp add: attempts_ok_def)
  qed
  moreover have "distinct (map fa_attempt_id (db_attempts db'))"
    using assms(2) fresh by (auto simp: p(2) attempts_ok_def list_all_iff)
  ultimately show ?thesis using n highest_attempt_numbers [OF assms(2)] by (simp add: attempts_ok_def)
qed

lemma attempts_ok_same: "db_attempts db' = db_attempts db \<Longrightarrow> attempts_ok db' = attempts_ok db"
  by (simp add: attempts_ok_def attempt_numbers_def)

lemma fleet_write_attempts:
  assumes "fleet_write db db'" "attempts_ok db"
  shows "attempts_ok db'"
proof -
  have "db_attempts db' = db_attempts db \<or> (\<exists>a. insert_attempt a db = Inr db')"
    using assms(1) by cases (auto simp: insert_projection_def update_projections_def Let_def
        insert_operation_def insert_inspection_def insert_audit_def guard_simps)
  then show ?thesis using assms(2) insert_attempt_numbers attempts_ok_same by blast
qed

definition operations_ok :: "fleet_db \<Rightarrow> bool" where
  "operations_ok db \<longleftrightarrow> distinct (map fo_operation_id (db_operations db))"

lemma fleet_write_operations:
  assumes "fleet_write db db'" "operations_ok db"
  shows "operations_ok db'"
proof -
  have "db_operations db' = db_operations db \<or> (\<exists>x. db_operations db' = db_operations db @ [x] \<and>
      (\<forall>y\<in>set (db_operations db). fo_operation_id y \<noteq> fo_operation_id x))"
    using assms(1)
  proof cases
    case (write_operation x)
    then show ?thesis
      by (intro disjI2 exI [of _ x]) (auto simp: insert_operation_def guard_simps list_all_iff)
  qed (auto simp: insert_projection_def update_projections_def Let_def insert_attempt_def
      insert_inspection_def insert_audit_def guard_simps)
  then show ?thesis
  proof (elim disjE exE conjE)
    fix x assume new: "db_operations db' = db_operations db @ [x]"
      "\<forall>y\<in>set (db_operations db). fo_operation_id y \<noteq> fo_operation_id x"
    from new(2) have "fo_operation_id x \<notin> fo_operation_id ` set (db_operations db)" by (metis imageE)
    with new(1) assms(2) show ?thesis by (simp add: operations_ok_def)
  qed (use assms(2) in \<open>simp add: operations_ok_def\<close>)
qed

definition inspections_ok :: "fleet_db \<Rightarrow> bool" where
  "inspections_ok db \<longleftrightarrow> (\<forall>i \<in> set (db_inspections db). inspection_check i \<and>
     (\<exists>p \<in> set (db_projections db). fr_projection_id p = fi_projection_id i))"

lemma fleet_write_inspections:
  assumes "fleet_write db db'" "inspections_ok db"
  shows "inspections_ok db'"
proof -
  have "i \<in> set (db_inspections db) \<or> inspection_check i \<and>
      (\<exists>p \<in> set (db_projections db). fr_projection_id p = fi_projection_id i)"
    if "i \<in> set (db_inspections db')" for i
    using assms(1) that by cases (auto simp: insert_projection_def update_projections_def Let_def
        insert_operation_def insert_attempt_def insert_inspection_def insert_audit_def guard_simps
        inspection_subject_def list_ex_iff)
  with assms(2) have "inspection_check i \<and> (\<exists>p \<in> set (db_projections db). fr_projection_id p = fi_projection_id i)"
    if "i \<in> set (db_inspections db')" for i using that by (auto simp: inspections_ok_def)
  then show ?thesis using extends_row [OF fleet_write_extends [OF assms(1)]]
    unfolding inspections_ok_def row_evolves_def by metis
qed

definition fleet_inv :: "fleet_db \<Rightarrow> bool" where
  "fleet_inv db \<longleftrightarrow> rows_ok db \<and> links_ok db \<and> attempts_ok db \<and> operations_ok db \<and> inspections_ok db"

lemma fleet_write_inv: "fleet_write db db' \<Longrightarrow> fleet_inv db \<Longrightarrow> fleet_inv db'"
  using fleet_write_rows fleet_write_links fleet_write_attempts fleet_write_operations
    fleet_write_inspections
  unfolding fleet_inv_def by blast

lemma fleet_writes_inv: "fleet_write\<^sup>*\<^sup>* db db' \<Longrightarrow> fleet_inv db \<Longrightarrow> fleet_inv db'"
  by (induction rule: rtranclp_induct) (auto intro: fleet_write_inv)

text \<open>A lower-case digest fits its column.\<close>

lemma hex_char_lower: "d < 16 \<Longrightarrow> lower_hex_char (hex_char d)"
  by (auto simp: hex_char_def lower_hex_char_def is_ascii_digit_def byte_val_char_of)

lemma hex_text_lower: "list_all lower_hex_char (hex_text bs) \<and> length (hex_text bs) = 2 * length bs"
proof (induction bs)
  case (Cons b bs)
  have "unat b div 16 < 16" using unat_u8_less [of b] by (simp add: less_mult_imp_div_less)
  with Cons show ?case by (simp add: hex_text_def hex_byte_def hex_char_lower)
qed (simp add: hex_text_def)

lemma empty_fleet_inv: "empty_fleet db \<Longrightarrow> fleet_inv db"
  by (simp add: empty_fleet_def fleet_inv_def rows_ok_def links_ok_def attempts_ok_def
      operations_ok_def attempt_numbers_def inspections_ok_def)

end
