(* ===== verification/Projection_Store.thy ===== *)
theory Projection_Store
  imports Fleet_Tables Reference_Codecs
begin

text \<open>
  The durable Fleet projection store of \<^verbatim>\<open>crates/nodescale-state/src/n7.rs\<close>: reserving a desired
  projection, recording a dispatch attempt, and recovering from an authoritative inspection.

  A transaction is a function of the database that returns an error or the answer with the
  new database; \<open>transactional\<close> keeps the old database on an error. UUIDs that the code draws
  are arguments; SHA-256, \<^verbatim>\<open>serde_json\<close>, the UUID text form and RFC 3339 text are parameters.
\<close>

section \<open>Submissions, inspections and views\<close>

record store_env =
  se_uuid :: uuid_ops
  se_sha256 :: "u8 list \<Rightarrow> u8 list"
  se_from_slice :: "u8 list \<Rightarrow> json option"
  se_to_vec :: "json \<Rightarrow> u8 list option"
  se_read_device :: "string \<Rightarrow> Device option"
  se_write_device :: "Device \<Rightarrow> string option"
  se_rfc :: "DateTime \<Rightarrow> string"

record fresh_ids =
  fresh_projection :: string
  fresh_attempt :: string
  fresh_inspection :: string
  fresh_event :: string
  fresh_audit :: string

definition is_object :: "json \<Rightarrow> bool" where
  "is_object v = (case v of JObject _ \<Rightarrow> True | _ \<Rightarrow> False)"

definition canonical_json_bytes :: "store_env \<Rightarrow> u8 list \<Rightarrow> u8 list state_result" where
  "canonical_json_bytes E bytes =
     and_then (ok_or (se_from_slice E bytes) StSerialization) (\<lambda>v.
     and_then (ensure (is_object v) (StConflict ''N7 desired projection body must be a JSON object''))
       (\<lambda>_. ok_or (se_to_vec E v) StSerialization))"

definition sha256_fingerprint :: "store_env \<Rightarrow> u8 list \<Rightarrow> string" where
  "sha256_fingerprint E bytes = ''sha256:'' @ hex_text (se_sha256 E bytes)"

definition stale_revision :: "u64 \<Rightarrow> u64 \<Rightarrow> StateError" where
  "stale_revision expected actual = StStaleGeneration expected actual"

definition safe_identifier :: "string \<Rightarrow> bool" where
  "safe_identifier value \<longleftrightarrow> bounded_safe 255 value"

definition state_generation :: "u64 \<Rightarrow> Generation state_result" where
  "state_generation value = domain_conflict (Generation_new value)"

record N7BindingProvenance =
  np_binding_id :: string
  np_authenticated_peer_id :: string
  np_binding_generation :: Generation

definition N7BindingProvenance_new ::
    "string \<Rightarrow> string \<Rightarrow> Generation \<Rightarrow> N7BindingProvenance state_result" where
  "N7BindingProvenance_new binding_id authenticated_peer_id binding_generation =
     (if \<not> safe_identifier binding_id \<or> \<not> safe_identifier authenticated_peer_id
      then Inl (StConflict ''N7 binding provenance identifiers are invalid'')
      else Inr \<lparr>np_binding_id = binding_id, np_authenticated_peer_id = authenticated_peer_id,
                np_binding_generation = binding_generation\<rparr>)"

record N7ProjectionSubmission =
  ns_operation_id :: OperationId
  ns_network_id :: NetworkId
  ns_device_id :: DeviceId
  ns_generation :: Generation
  ns_desired_body :: "u8 list"
  ns_desired_hash :: string
  ns_binding :: N7BindingProvenance

definition from_canonical ::
    "store_env \<Rightarrow> OperationId \<Rightarrow> NetworkId \<Rightarrow> DeviceId \<Rightarrow> Generation \<Rightarrow> u8 list \<Rightarrow> string \<Rightarrow>
     string \<Rightarrow> Generation \<Rightarrow> N7ProjectionSubmission state_result" where
  "from_canonical E operation_id network_id device_id generation desired_body binding_id
     authenticated_peer_id binding_generation =
     and_then (canonical_json_bytes E desired_body) (\<lambda>canonical.
     and_then (ensure (canonical = desired_body)
       (StConflict ''N7 desired projection body must be canonical JSON bytes'')) (\<lambda>_.
     and_then (N7BindingProvenance_new binding_id authenticated_peer_id binding_generation) (\<lambda>binding.
     Inr \<lparr>ns_operation_id = operation_id, ns_network_id = network_id, ns_device_id = device_id,
          ns_generation = generation, ns_desired_body = desired_body,
          ns_desired_hash = sha256_fingerprint E desired_body, ns_binding = binding\<rparr>)))"

datatype N7AuthoritativeInspection =
    Observed (observed_body: "u8 list") (observed_hash: string)
  | Missing
  | Unavailable

definition observed :: "store_env \<Rightarrow> u8 list \<Rightarrow> N7AuthoritativeInspection state_result" where
  "observed E body =
     and_then (canonical_json_bytes E body) (\<lambda>canonical.
     and_then (ensure (canonical = body)
       (StConflict ''N7 authoritative inspection body must be canonical JSON bytes''))
       (\<lambda>_. Inr (Observed body (sha256_fingerprint E body))))"

datatype N7ProjectionState = N7Desired | N7Attempted | N7Applied | N7Conflict

definition N7ProjectionState_parse :: "string \<Rightarrow> N7ProjectionState state_result" where
  "N7ProjectionState_parse value =
     (if value = ''desired'' then Inr N7Desired
      else if value = ''attempted'' then Inr N7Attempted
      else if value = ''applied'' then Inr N7Applied
      else if value = ''conflict'' then Inr N7Conflict
      else Inl (StConflict ''unknown N7 projection state''))"

record N7ProjectionView =
  nv_projection_id :: string
  nv_network_id :: NetworkId
  nv_device_id :: DeviceId
  nv_generation :: Generation
  nv_desired_body :: "u8 list"
  nv_desired_hash :: string
  nv_binding :: N7BindingProvenance
  nv_revision :: u64
  nv_state :: N7ProjectionState

datatype N7ProjectionReservationOutcome =
  Reserved N7ProjectionView | Replayed N7ProjectionView | ReservationConflict

datatype N7ProjectionAttemptOutcome =
  AttemptRecorded N7ProjectionView | AttemptReplayed N7ProjectionView

section \<open>Queries\<close>

lemma find_Some_mem: "find P xs = Some x \<Longrightarrow> x \<in> set xs \<and> P x"
  by (auto simp: find_Some_iff)

text \<open>A query for one row, with and without \<^verbatim>\<open>optional\<close>.\<close>

definition query_row :: "('r \<Rightarrow> bool) \<Rightarrow> 'r list \<Rightarrow> 'r state_result" where
  "query_row P rows = ok_or (find P rows) (StSqlite ''QueryReturnedNoRows'')"

definition n7_matching_operation_tx ::
    "store_env \<Rightarrow> N7ProjectionSubmission \<Rightarrow> fleet_db \<Rightarrow> string option state_result" where
  "n7_matching_operation_tx E s db =
     and_then (bind_u64 (gen_get (ns_generation s))) (\<lambda>generation.
     and_then (bind_u64 (gen_get (np_binding_generation (ns_binding s)))) (\<lambda>binding_generation.
     Inr (map_option fo_projection_id (find (\<lambda>x.
       fo_operation_id x = operation_id_str (ns_operation_id s) \<and>
       fo_network_id x = id_display (se_uuid E) (ns_network_id s) \<and>
       fo_device_id x = id_display (se_uuid E) (ns_device_id s) \<and>
       fo_generation x = generation \<and> fo_desired_body x = ns_desired_body s \<and>
       fo_desired_hash x = ns_desired_hash s \<and> fo_binding_id x = np_binding_id (ns_binding s) \<and>
       fo_authenticated_peer_id x = np_authenticated_peer_id (ns_binding s) \<and>
       fo_binding_generation x = binding_generation) (db_operations db)))))"

definition n7_operation_exists_tx :: "OperationId \<Rightarrow> fleet_db \<Rightarrow> bool" where
  "n7_operation_exists_tx operation_id db =
     list_ex (\<lambda>x. fo_operation_id x = operation_id_str operation_id) (db_operations db)"

definition n7_insert_operation_tx ::
    "store_env \<Rightarrow> string \<Rightarrow> N7ProjectionSubmission \<Rightarrow> DateTime \<Rightarrow> fleet_db \<Rightarrow> fleet_db state_result" where
  "n7_insert_operation_tx E projection_id s now db =
     and_then (bind_u64 (gen_get (ns_generation s))) (\<lambda>generation.
     and_then (bind_u64 (gen_get (np_binding_generation (ns_binding s)))) (\<lambda>binding_generation.
     insert_operation
       \<lparr>fo_operation_id = operation_id_str (ns_operation_id s), fo_projection_id = projection_id,
        fo_network_id = id_display (se_uuid E) (ns_network_id s),
        fo_device_id = id_display (se_uuid E) (ns_device_id s), fo_generation = generation,
        fo_desired_body = ns_desired_body s, fo_desired_hash = ns_desired_hash s,
        fo_binding_id = np_binding_id (ns_binding s),
        fo_authenticated_peer_id = np_authenticated_peer_id (ns_binding s),
        fo_binding_generation = binding_generation, fo_recorded_at_ms = timestamp_millis now\<rparr> db))"

definition n7_binding_is_active_tx ::
    "store_env \<Rightarrow> NetworkId \<Rightarrow> DeviceId \<Rightarrow> N7BindingProvenance \<Rightarrow> fleet_db \<Rightarrow> bool state_result" where
  "n7_binding_is_active_tx E network_id device_id binding db =
     and_then (bind_u64 (gen_get (np_binding_generation binding))) (\<lambda>generation.
     Inr (active_binding db (np_binding_id binding) (id_display (se_uuid E) network_id)
       (id_display (se_uuid E) device_id) (np_authenticated_peer_id binding) generation))"

definition n7_operation_projection_tx ::
    "store_env \<Rightarrow> OperationId \<Rightarrow> DeviceId \<Rightarrow> Generation \<Rightarrow> fleet_db \<Rightarrow> string state_result" where
  "n7_operation_projection_tx E operation_id device_id generation db =
     and_then (ok_or (find (\<lambda>x. fo_operation_id x = operation_id_str operation_id) (db_operations db))
       (StNotFound (''N7 operation '' @ operation_id_str operation_id))) (\<lambda>x.
     and_then (column_u64 (fo_generation x)) (\<lambda>stored_generation.
     if fo_device_id x \<noteq> id_display (se_uuid E) device_id \<or> stored_generation \<noteq> gen_get generation
     then Inl (StConflict ''N7 operation provenance does not match projection'')
     else Inr (fo_projection_id x)))"

definition n7_current_attempt_id_tx :: "string \<Rightarrow> fleet_db \<Rightarrow> string state_result" where
  "n7_current_attempt_id_tx projection_id db =
     and_then (ok_or (find (\<lambda>r. fr_projection_id r = projection_id \<and> fr_current_attempt_id r \<noteq> None)
         (db_projections db))
       (StConflict ''N7 attempted projection has no current durable attempt''))
       (\<lambda>r. ok_or (fr_current_attempt_id r) (StSqlite ''InvalidColumnType''))"

definition n7_next_attempt_number_tx :: "string \<Rightarrow> fleet_db \<Rightarrow> u64 state_result" where
  "n7_next_attempt_number_tx projection_id db = column_u64 (highest_attempt db projection_id + 1)"

definition n7_projection_view_tx ::
    "store_env \<Rightarrow> string \<Rightarrow> fleet_db \<Rightarrow> N7ProjectionView state_result" where
  "n7_projection_view_tx E projection_id db =
     and_then (ok_or (find (\<lambda>r. fr_projection_id r = projection_id) (db_projections db))
       (StNotFound (''N7 projection '' @ projection_id))) (\<lambda>r.
     and_then (column_u64 (fr_generation r)) (\<lambda>stored_generation.
     and_then (column_u64 (fr_binding_generation r)) (\<lambda>stored_binding_generation.
     and_then (column_u64 (fr_revision r)) (\<lambda>revision.
     and_then (domain_conflict (parse_NetworkId (se_uuid E) (fr_network_id r))) (\<lambda>network_id.
     and_then (domain_conflict (parse_DeviceId (se_uuid E) (fr_device_id r))) (\<lambda>device_id.
     and_then (state_generation stored_generation) (\<lambda>generation.
     and_then (state_generation stored_binding_generation) (\<lambda>binding_generation.
     and_then (N7BindingProvenance_new (fr_binding_id r) (fr_authenticated_peer_id r)
         binding_generation) (\<lambda>binding.
     and_then (N7ProjectionState_parse (fr_projection_state r)) (\<lambda>state.
     Inr \<lparr>nv_projection_id = projection_id, nv_network_id = network_id, nv_device_id = device_id,
          nv_generation = generation, nv_desired_body = fr_desired_body r,
          nv_desired_hash = fr_desired_hash r, nv_binding = binding, nv_revision = revision,
          nv_state = state\<rparr>))))))))))"

section \<open>Changes of the device row and the audit chain\<close>

text \<open>The stale-generation error after an update that changed no row.\<close>

definition stale_column :: "string \<Rightarrow> u64 \<Rightarrow> int option \<Rightarrow> 'a state_result" where
  "stale_column device_text expected column =
     and_then (ok_or column (StNotFound device_text)) (\<lambda>n.
     and_then (column_u64 n) (\<lambda>actual. Inl (StStaleGeneration expected actual)))"

definition advance_generation_row ::
    "store_env \<Rightarrow> string \<Rightarrow> Generation \<Rightarrow> Generation \<Rightarrow> DateTime \<Rightarrow> fleet_db \<Rightarrow> fleet_db state_result" where
  "advance_generation_row E device_text expected nxt now db =
     and_then (bind_u64 (gen_get expected)) (\<lambda>old_column.
     and_then (bind_u64 (gen_get nxt)) (\<lambda>new_column.
     let selected = (\<lambda>g. gr_device_id g = device_text \<and> gr_fleet_projection_generation g = old_column)
     in if \<not> list_ex selected (db_generations db)
        then stale_column device_text (gen_get expected) (map_option gr_fleet_projection_generation
          (find (\<lambda>g. gr_device_id g = device_text) (db_generations db)))
        else Inr (db\<lparr>db_generations := map (\<lambda>g. if selected g
          then g\<lparr>gr_fleet_projection_generation := new_column, gr_updated_at := se_rfc E now\<rparr>
          else g) (db_generations db)\<rparr>)))"

definition advance_device_row ::
    "store_env \<Rightarrow> string \<Rightarrow> Generation \<Rightarrow> Generation \<Rightarrow> Device \<Rightarrow> DateTime \<Rightarrow> fleet_db \<Rightarrow>
     fleet_db state_result" where
  "advance_device_row E device_text expected nxt device now db =
     and_then (bind_u64 (gen_get nxt)) (\<lambda>new_column.
     and_then (ok_or (se_write_device E device) StSerialization) (\<lambda>record_json.
     and_then (bind_u64 (gen_get expected)) (\<lambda>old_column.
     let selected = (\<lambda>d. dr_device_id d = device_text \<and> dr_fleet_projection_generation d = old_column)
     in if \<not> list_ex selected (db_devices db)
        then stale_column device_text (gen_get expected) (map_option dr_fleet_projection_generation
          (find (\<lambda>d. dr_device_id d = device_text) (db_devices db)))
        else Inr (db\<lparr>db_devices := map (\<lambda>d. if selected d
          then d\<lparr>dr_fleet_projection_generation := new_column, dr_record_json := record_json,
            dr_updated_at := se_rfc E now\<rparr>
          else d) (db_devices db)\<rparr>))))"

definition n7_advance_fleet_projection_generation_tx ::
    "store_env \<Rightarrow> DeviceId \<Rightarrow> Generation \<Rightarrow> DateTime \<Rightarrow> fleet_db \<Rightarrow> fleet_db state_result" where
  "n7_advance_fleet_projection_generation_tx E device_id expected now db =
     (let device_text = id_display (se_uuid E) device_id in
      and_then (domain_conflict (next_exact expected)) (\<lambda>nxt.
      and_then (ok_or (find (\<lambda>d. dr_device_id d = device_text) (db_devices db))
        (StNotFound device_text)) (\<lambda>stored.
      and_then (ok_or (se_read_device E (dr_record_json stored)) StSerialization) (\<lambda>device.
      and_then (domain_conflict (advance_fleet_projection (dv_generations device) expected nxt)) (\<lambda>gens.
      and_then (advance_generation_row E device_text expected nxt now db) (\<lambda>db.
      advance_device_row E device_text expected nxt
        (device\<lparr>dv_generations := gens, dv_updated_at := now\<rparr>) now db))))))"

definition n7_set_device_status ::
    "store_env \<Rightarrow> DeviceId \<Rightarrow> ProjectionStatus \<Rightarrow> DateTime \<Rightarrow> fleet_db \<Rightarrow> fleet_db state_result" where
  "n7_set_device_status E device_id nxt now db =
     (let device_text = id_display (se_uuid E) device_id in
      and_then (query_row (\<lambda>d. dr_device_id d = device_text) (db_devices db)) (\<lambda>stored.
      and_then (ok_or (se_read_device E (dr_record_json stored)) StSerialization) (\<lambda>device.
      and_then (if dv_fleet_projection_status device \<noteq> nxt
        then and_then (domain_conflict (ProjectionStatus_transition
                (dv_fleet_projection_status device) nxt))
              (\<lambda>_. Inr (device\<lparr>dv_fleet_projection_status := nxt\<rparr>))
        else Inr device) (\<lambda>device.
      and_then (ok_or (se_write_device E (device\<lparr>dv_updated_at := now\<rparr>)) StSerialization) (\<lambda>record_json.
      Inr (db\<lparr>db_devices := map (\<lambda>d. if dr_device_id d = device_text
        then d\<lparr>dr_fleet_projection_status := ascii_lower (ProjectionStatus_str nxt),
          dr_record_json := record_json, dr_updated_at := se_rfc E now\<rparr>
        else d) (db_devices db)\<rparr>))))))"

definition append_n7_projection_audit ::
    "store_env \<Rightarrow> fresh_ids \<Rightarrow> string \<Rightarrow> string \<Rightarrow> NetworkId \<Rightarrow> DeviceId \<Rightarrow> Generation \<Rightarrow> u64 \<Rightarrow> string \<Rightarrow>
     DateTime \<Rightarrow> fleet_db \<Rightarrow> fleet_db state_result" where
  "append_n7_projection_audit E F projection_id operation_id network_id device_id generation revision
     event_kind now db =
     and_then (bind_u64 (gen_get generation)) (\<lambda>generation_column.
     and_then (insert_event
       \<lparr>ae_event_id = fresh_event F, ae_timestamp = se_rfc E now,
        ae_network_id = id_display (se_uuid E) network_id,
        ae_device_id = id_display (se_uuid E) device_id, ae_actor_source = ''nodescale'',
        ae_actor_id = None, ae_event_kind = ''fleet_'' @ event_kind, ae_outcome = ''success'',
        ae_generation = generation_column, ae_metadata_json = ''{}''\<rparr> db) (\<lambda>db.
     and_then (bind_u64 revision) (\<lambda>revision_column.
     insert_audit
       \<lparr>fu_audit_id = fresh_audit F, fu_audit_event_id = fresh_event F,
        fu_projection_id = projection_id, fu_operation_id = operation_id,
        fu_event_kind = event_kind, fu_generation = generation_column,
        fu_revision = revision_column, fu_recorded_at_ms = timestamp_millis now\<rparr> db)))"

section \<open>Transactions\<close>

text \<open>A failing closure drops the transaction, which rolls back.\<close>

definition transactional :: "('db \<Rightarrow> ('a \<times> 'db) state_result) \<Rightarrow> 'db \<Rightarrow>
    'a state_result \<times> 'db" where
  "transactional operation db =
     (case operation db of Inl e \<Rightarrow> (Inl e, db) | Inr (x, db') \<Rightarrow> (Inr x, db'))"

definition reserve_new_tx ::
    "store_env \<Rightarrow> fresh_ids \<Rightarrow> N7ProjectionSubmission \<Rightarrow> DateTime \<Rightarrow> fleet_db \<Rightarrow>
     (N7ProjectionReservationOutcome \<times> fleet_db) state_result" where
  "reserve_new_tx E F s now db =
     (let device_text = id_display (se_uuid E) (ns_device_id s);
          network_text = id_display (se_uuid E) (ns_network_id s) in
      and_then (ok_or (find (\<lambda>g. gr_device_id g = device_text) (db_generations db))
        (StNotFound device_text)) (\<lambda>g.
      and_then (column_u64 (gr_fleet_projection_generation g)) (\<lambda>actual_generation.
      and_then (ensure (actual_generation = gen_get (ns_generation s))
        (StStaleGeneration (gen_get (ns_generation s)) actual_generation)) (\<lambda>_.
      and_then (query_row (\<lambda>d. dr_device_id d = device_text) (db_devices db)) (\<lambda>d.
      and_then (if dr_network_id d \<noteq> network_text then Inr False
        else n7_binding_is_active_tx E (ns_network_id s) (ns_device_id s) (ns_binding s) db) (\<lambda>active.
      if \<not> active then Inr (ReservationConflict, db)
      else
        and_then (bind_u64 (gen_get (ns_generation s))) (\<lambda>generation.
        and_then (bind_u64 (gen_get (np_binding_generation (ns_binding s)))) (\<lambda>binding_generation.
        and_then (insert_projection
          \<lparr>fr_projection_id = fresh_projection F, fr_network_id = network_text,
           fr_device_id = device_text, fr_generation = generation,
           fr_desired_body = ns_desired_body s, fr_desired_hash = ns_desired_hash s,
           fr_binding_id = np_binding_id (ns_binding s),
           fr_authenticated_peer_id = np_authenticated_peer_id (ns_binding s),
           fr_binding_generation = binding_generation, fr_projection_state = ''desired'',
           fr_revision = 1, fr_current_attempt_id = None,
           fr_persisted_at_ms = timestamp_millis now, fr_attempted_at_ms = None,
           fr_applied_at_ms = None, fr_conflict_at_ms = None\<rparr> db) (\<lambda>db.
        and_then (n7_insert_operation_tx E (fresh_projection F) s now db) (\<lambda>db.
        and_then (n7_set_device_status E (ns_device_id s) PSPending now db) (\<lambda>db.
        and_then (append_n7_projection_audit E F (fresh_projection F)
          (operation_id_str (ns_operation_id s)) (ns_network_id s) (ns_device_id s)
          (ns_generation s) 1 ''projection_desired'' now db) (\<lambda>db.
        and_then (n7_advance_fleet_projection_generation_tx E (ns_device_id s) (ns_generation s) now db) (\<lambda>db.
        and_then (n7_projection_view_tx E (fresh_projection F) db) (\<lambda>view.
        Inr (Reserved view, db)))))))))))))))"

definition reserve_tx ::
    "store_env \<Rightarrow> fresh_ids \<Rightarrow> N7ProjectionSubmission \<Rightarrow> DateTime \<Rightarrow> fleet_db \<Rightarrow>
     (N7ProjectionReservationOutcome \<times> fleet_db) state_result" where
  "reserve_tx E F s now db =
     and_then (n7_matching_operation_tx E s db) (\<lambda>matching.
     case matching of
       Some projection_id \<Rightarrow>
         and_then (n7_projection_view_tx E projection_id db) (\<lambda>view. Inr (Replayed view, db))
     | None \<Rightarrow>
         if n7_operation_exists_tx (ns_operation_id s) db then Inr (ReservationConflict, db)
         else and_then (bind_u64 (gen_get (ns_generation s))) (\<lambda>generation.
           case find (\<lambda>r. fr_device_id r = id_display (se_uuid E) (ns_device_id s) \<and>
               fr_generation r = generation) (db_projections db) of
             Some r \<Rightarrow>
               and_then (n7_projection_view_tx E (fr_projection_id r) db) (\<lambda>view.
               if nv_network_id view \<noteq> ns_network_id s \<or> nv_desired_hash view \<noteq> ns_desired_hash s \<or>
                  nv_desired_body view \<noteq> ns_desired_body s \<or> nv_binding view \<noteq> ns_binding s
               then Inr (ReservationConflict, db)
               else and_then (n7_insert_operation_tx E (fr_projection_id r) s now db)
                      (\<lambda>db. Inr (Replayed view, db)))
           | None \<Rightarrow> reserve_new_tx E F s now db))"

definition reserve_n7_projection ::
    "store_env \<Rightarrow> fresh_ids \<Rightarrow> N7ProjectionSubmission \<Rightarrow> DateTime \<Rightarrow> fleet_db \<Rightarrow>
     N7ProjectionReservationOutcome state_result \<times> fleet_db" where
  "reserve_n7_projection E F s now = transactional (reserve_tx E F s now)"

text \<open>The row of a new attempt, for both branches of the code that append one.\<close>

definition new_attempt :: "fresh_ids \<Rightarrow> string \<Rightarrow> OperationId \<Rightarrow> int \<Rightarrow> int \<Rightarrow> DateTime \<Rightarrow> attempt_row" where
  "new_attempt F projection_id operation_id number expected now =
     \<lparr>fa_attempt_id = fresh_attempt F, fa_projection_id = projection_id,
      fa_operation_id = operation_id_str operation_id, fa_attempt_number = number,
      fa_expected_revision = expected, fa_attempted_at_ms = timestamp_millis now\<rparr>"

definition first_attempt_tx ::
    "store_env \<Rightarrow> fresh_ids \<Rightarrow> OperationId \<Rightarrow> DeviceId \<Rightarrow> Generation \<Rightarrow> u64 \<Rightarrow> DateTime \<Rightarrow>
     N7ProjectionView \<Rightarrow> fleet_db \<Rightarrow> (N7ProjectionAttemptOutcome \<times> fleet_db) state_result" where
  "first_attempt_tx E F operation_id device_id generation expected_revision now view db =
     (let projection_id = nv_projection_id view in
      and_then (n7_binding_is_active_tx E (nv_network_id view) device_id (nv_binding view) db) (\<lambda>active.
      and_then (ensure active (StConflict ''N7 binding provenance is no longer active'')) (\<lambda>_.
      and_then (bind_u64 expected_revision) (\<lambda>expected.
      and_then (insert_attempt (new_attempt F projection_id operation_id 1 expected now) db) (\<lambda>db.
      and_then (update_projections
        (\<lambda>r. fr_projection_id r = projection_id \<and> fr_projection_state r = ''desired'' \<and> fr_revision r = expected)
        (\<lambda>r. r\<lparr>fr_projection_state := ''attempted'', fr_revision := 2,
           fr_current_attempt_id := Some (fresh_attempt F),
           fr_attempted_at_ms := Some (timestamp_millis now)\<rparr>) db) (\<lambda>(_, db).
      and_then (append_n7_projection_audit E F projection_id (operation_id_str operation_id)
        (nv_network_id view) device_id generation 2 ''projection_attempted'' now db) (\<lambda>db.
      and_then (n7_projection_view_tx E projection_id db) (\<lambda>view. Inr (AttemptRecorded view, db)))))))))"

definition retry_attempt_tx ::
    "store_env \<Rightarrow> fresh_ids \<Rightarrow> OperationId \<Rightarrow> DeviceId \<Rightarrow> Generation \<Rightarrow> u64 \<Rightarrow> DateTime \<Rightarrow>
     N7ProjectionView \<Rightarrow> fleet_db \<Rightarrow> (N7ProjectionAttemptOutcome \<times> fleet_db) state_result" where
  "retry_attempt_tx E F operation_id device_id generation expected_revision now view db =
     (let projection_id = nv_projection_id view in
      and_then (n7_binding_is_active_tx E (nv_network_id view) device_id (nv_binding view) db) (\<lambda>active.
      and_then (ensure active (StConflict ''N7 binding provenance is no longer active'')) (\<lambda>_.
      and_then (n7_next_attempt_number_tx projection_id db) (\<lambda>next_attempt.
      and_then (bind_u64 next_attempt) (\<lambda>number.
      and_then (bind_u64 expected_revision) (\<lambda>expected.
      and_then (insert_attempt (new_attempt F projection_id operation_id number expected now) db) (\<lambda>db.
      and_then (update_projections
        (\<lambda>r. fr_projection_id r = projection_id \<and> fr_projection_state r = ''attempted'' \<and> fr_revision r = expected)
        (\<lambda>r. r\<lparr>fr_current_attempt_id := Some (fresh_attempt F)\<rparr>) db) (\<lambda>(changed, db).
      if changed \<noteq> 1
      then and_then (n7_projection_view_tx E projection_id db)
             (\<lambda>current. Inl (stale_revision expected_revision (nv_revision current)))
      else
      and_then (append_n7_projection_audit E F projection_id (operation_id_str operation_id)
        (nv_network_id view) device_id generation 2 ''projection_attempted'' now db) (\<lambda>db.
      and_then (n7_projection_view_tx E projection_id db) (\<lambda>view. Inr (AttemptRecorded view, db)))))))))))"

definition attempt_tx ::
    "store_env \<Rightarrow> fresh_ids \<Rightarrow> OperationId \<Rightarrow> DeviceId \<Rightarrow> Generation \<Rightarrow> u64 \<Rightarrow> DateTime \<Rightarrow> fleet_db \<Rightarrow>
     (N7ProjectionAttemptOutcome \<times> fleet_db) state_result" where
  "attempt_tx E F operation_id device_id generation expected_revision now db =
     and_then (n7_operation_projection_tx E operation_id device_id generation db) (\<lambda>projection_id.
     and_then (n7_projection_view_tx E projection_id db) (\<lambda>view.
     and_then (ensure (nv_revision view = expected_revision)
       (stale_revision expected_revision (nv_revision view))) (\<lambda>_.
     case nv_state view of
       N7Desired \<Rightarrow> first_attempt_tx E F operation_id device_id generation expected_revision now view db
     | N7Attempted \<Rightarrow> retry_attempt_tx E F operation_id device_id generation expected_revision now view db
     | _ \<Rightarrow> Inr (AttemptReplayed view, db))))"

definition record_n7_projection_dispatch_attempt ::
    "store_env \<Rightarrow> fresh_ids \<Rightarrow> OperationId \<Rightarrow> DeviceId \<Rightarrow> Generation \<Rightarrow> u64 \<Rightarrow> DateTime \<Rightarrow> fleet_db \<Rightarrow>
     N7ProjectionAttemptOutcome state_result \<times> fleet_db" where
  "record_n7_projection_dispatch_attempt E F operation_id device_id generation expected_revision now =
     transactional (attempt_tx E F operation_id device_id generation expected_revision now)"

text \<open>
  The newest inspection of an attempt: the largest timestamp, and among equal ones the last row.
\<close>

definition latest_inspection :: "inspection_row list \<Rightarrow> inspection_row option" where
  "latest_inspection rows = foldl (\<lambda>acc i.
     (case acc of None \<Rightarrow> Some i
      | Some j \<Rightarrow> if fi_inspected_at_ms j \<le> fi_inspected_at_ms i then Some i else Some j)) None rows"

definition settled_row :: "bool \<Rightarrow> DateTime \<Rightarrow> projection_row \<Rightarrow> projection_row" where
  "settled_row applied now r =
     (if applied
      then r\<lparr>fr_projection_state := ''applied'', fr_revision := 3,
          fr_applied_at_ms := Some (timestamp_millis now)\<rparr>
      else r\<lparr>fr_projection_state := ''conflict'', fr_revision := 3,
          fr_conflict_at_ms := Some (timestamp_millis now)\<rparr>)"

definition settle_tx ::
    "store_env \<Rightarrow> fresh_ids \<Rightarrow> OperationId \<Rightarrow> DeviceId \<Rightarrow> Generation \<Rightarrow> u64 \<Rightarrow> DateTime \<Rightarrow>
     N7ProjectionView \<Rightarrow> string \<Rightarrow> fleet_db \<Rightarrow> (N7ProjectionView \<times> fleet_db) state_result" where
  "settle_tx E F operation_id device_id generation expected_revision now view attempt_id db =
     (let projection_id = nv_projection_id view in
      and_then (ok_or (latest_inspection (filter (\<lambda>i. fi_projection_id i = projection_id \<and>
          fi_attempt_id i = attempt_id) (db_inspections db))) (StSqlite ''QueryReturnedNoRows'')) (\<lambda>i.
      and_then (ok_or (fi_observed_body i) (StSqlite ''InvalidColumnType'')) (\<lambda>body.
      let applied = (sha256_fingerprint E body = nv_desired_hash view \<and> body = nv_desired_body view);
          next_state = (if applied then ''applied'' else ''conflict'') in
      and_then (bind_u64 expected_revision) (\<lambda>expected.
      and_then (update_projections
        (\<lambda>r. fr_projection_id r = projection_id \<and> fr_projection_state r = ''attempted'' \<and> fr_revision r = expected)
        (settled_row applied now) db)
        (\<lambda>(changed, db).
      if changed \<noteq> 1
      then and_then (n7_projection_view_tx E projection_id db)
             (\<lambda>current. Inl (stale_revision expected_revision (nv_revision current)))
      else
      and_then (n7_set_device_status E device_id (if applied then PSApplied else PSConflict) now db) (\<lambda>db.
      and_then (append_n7_projection_audit E F projection_id (operation_id_str operation_id)
        (nv_network_id view) device_id generation 3 (''projection_'' @ next_state) now db) (\<lambda>db.
      and_then (n7_projection_view_tx E projection_id db) (\<lambda>view. Inr (view, db)))))))))"

definition inspection_kind :: "N7AuthoritativeInspection \<Rightarrow> string" where
  "inspection_kind i = (case i of Unavailable \<Rightarrow> ''unavailable'' | Missing \<Rightarrow> ''missing''
     | Observed _ _ \<Rightarrow> ''observed'')"

definition new_inspection ::
    "fresh_ids \<Rightarrow> string \<Rightarrow> OperationId \<Rightarrow> string \<Rightarrow> int \<Rightarrow> N7AuthoritativeInspection \<Rightarrow> DateTime \<Rightarrow>
     inspection_row" where
  "new_inspection F pid x attempt_id expected inspection now =
       \<lparr>fi_inspection_id = fresh_inspection F, fi_projection_id = pid,
        fi_operation_id = operation_id_str x, fi_attempt_id = attempt_id,
        fi_expected_revision = expected, fi_inspection_kind = inspection_kind inspection,
        fi_observed_body = (case inspection of Observed body _ \<Rightarrow> Some body | _ \<Rightarrow> None),
        fi_observed_hash = (case inspection of Observed _ hash \<Rightarrow> Some hash | _ \<Rightarrow> None),
        fi_inspected_at_ms = timestamp_millis now\<rparr>"

definition recover_tx ::
    "store_env \<Rightarrow> fresh_ids \<Rightarrow> OperationId \<Rightarrow> DeviceId \<Rightarrow> Generation \<Rightarrow> u64 \<Rightarrow>
     N7AuthoritativeInspection \<Rightarrow> DateTime \<Rightarrow> fleet_db \<Rightarrow> (N7ProjectionView \<times> fleet_db) state_result" where
  "recover_tx E F operation_id device_id generation expected_revision inspection now db =
     and_then (n7_operation_projection_tx E operation_id device_id generation db) (\<lambda>projection_id.
     and_then (n7_projection_view_tx E projection_id db) (\<lambda>view.
     and_then (ensure (nv_revision view = expected_revision)
       (stale_revision expected_revision (nv_revision view))) (\<lambda>_.
     if nv_state view = N7Applied \<or> nv_state view = N7Conflict then Inr (view, db)
     else
     and_then (ensure (nv_state view = N7Attempted)
       (StConflict ''N7 inspection recovery requires a persisted dispatch attempt'')) (\<lambda>_.
     and_then (n7_current_attempt_id_tx projection_id db) (\<lambda>attempt_id.
     and_then (bind_u64 expected_revision) (\<lambda>expected.
     and_then (insert_inspection (new_inspection F projection_id operation_id attempt_id expected
       inspection now) db) (\<lambda>db.
     if inspection_kind inspection \<noteq> ''observed'' then Inr (view, db)
     else settle_tx E F operation_id device_id generation expected_revision now view attempt_id db)))))))"

definition recover_n7_projection_from_inspection ::
    "store_env \<Rightarrow> fresh_ids \<Rightarrow> OperationId \<Rightarrow> DeviceId \<Rightarrow> Generation \<Rightarrow> u64 \<Rightarrow>
     N7AuthoritativeInspection \<Rightarrow> DateTime \<Rightarrow> fleet_db \<Rightarrow> N7ProjectionView state_result \<times> fleet_db" where
  "recover_n7_projection_from_inspection E F operation_id device_id generation expected_revision
     inspection now =
     transactional (recover_tx E F operation_id device_id generation expected_revision inspection now)"

section \<open>Every transaction is a sequence of accepted statements\<close>

lemma write_others:
  assumes "db_projections db' = db_projections db" "db_operations db' = db_operations db"
    "db_attempts db' = db_attempts db" "db_inspections db' = db_inspections db"
    "db_audit db' = db_audit db"
  shows "fleet_write db db'"
proof -
  have "db' = db\<lparr>db_devices := db_devices db', db_generations := db_generations db',
      db_bindings := db_bindings db', db_events := db_events db'\<rparr>"
    using assms by (cases db, cases db') simp
  then show ?thesis by (metis fleet_write.write_elsewhere)
qed

text \<open>The tables that status, generation and event changes leave alone.\<close>

definition same_projection_tables :: "fleet_db \<Rightarrow> fleet_db \<Rightarrow> bool" where
  "same_projection_tables db db' \<longleftrightarrow>
     db_projections db' = db_projections db \<and> db_operations db' = db_operations db \<and>
     db_attempts db' = db_attempts db \<and> db_inspections db' = db_inspections db \<and>
     db_audit db' = db_audit db \<and> db_bindings db' = db_bindings db"

lemma same_tables_write: "same_projection_tables db db' \<Longrightarrow> fleet_write db db'"
  by (rule write_others) (simp_all add: same_projection_tables_def)

lemma set_status_tables:
  "n7_set_device_status E d st now db = Inr db' \<Longrightarrow>
   same_projection_tables db db' \<and> db_generations db' = db_generations db"
  by (auto simp: n7_set_device_status_def Let_def guard_simps same_projection_tables_def)

lemma stale_column_not_Inr [simp]: "stale_column t e c \<noteq> Inr x"
  by (auto simp: stale_column_def guard_simps)

lemma advance_device_row_tables:
  "advance_device_row E t e n dv now db = Inr db' \<Longrightarrow>
   same_projection_tables db db' \<and> db_generations db' = db_generations db"
  by (auto simp: advance_device_row_def Let_def guard_simps same_projection_tables_def
      split: if_splits)

lemma advance_generation_row_tables:
  "advance_generation_row E t e n now db = Inr db' \<Longrightarrow> same_projection_tables db db'"
  by (auto simp: advance_generation_row_def Let_def guard_simps same_projection_tables_def
      split: if_splits)

lemma same_tables_trans:
  "same_projection_tables a b \<Longrightarrow> same_projection_tables b c \<Longrightarrow> same_projection_tables a c"
  by (simp add: same_projection_tables_def)

lemma advance_tables:
  assumes "n7_advance_fleet_projection_generation_tx E d e now db = Inr db'"
  shows "same_projection_tables db db'"
  using assms unfolding n7_advance_fleet_projection_generation_tx_def Let_def
  by (auto simp: guard_simps dest!: advance_generation_row_tables advance_device_row_tables
      intro: same_tables_trans)

lemma insert_event_tables:
  "insert_event e db = Inr db' \<Longrightarrow> same_projection_tables db db'"
  by (auto simp: insert_event_def guard_simps same_projection_tables_def)

text \<open>The audit of a step appends to the audit tables only, and finds the row at its stage.\<close>

definition same_record_tables :: "fleet_db \<Rightarrow> fleet_db \<Rightarrow> bool" where
  "same_record_tables db db' \<longleftrightarrow>
     db_projections db' = db_projections db \<and> db_operations db' = db_operations db \<and>
     db_attempts db' = db_attempts db \<and> db_inspections db' = db_inspections db \<and>
     db_bindings db' = db_bindings db \<and> db_generations db' = db_generations db \<and>
     db_devices db' = db_devices db"

lemma append_audit_effect:
  assumes "append_n7_projection_audit E F pid x n d g rv kind now db = Inr db'"
  shows "fleet_write\<^sup>*\<^sup>* db db'" and "same_record_tables db db'"
proof -
  obtain e db1 u where e: "insert_event e db = Inr db1" and u: "insert_audit u db1 = Inr db'"
    using assms by (auto simp: append_n7_projection_audit_def guard_simps)
  have "fleet_write db db1" using insert_event_tables [OF e] by (rule same_tables_write)
  moreover have "fleet_write db1 db'" using u by (rule fleet_write.write_audit)
  ultimately show "fleet_write\<^sup>*\<^sup>* db db'" by (meson converse_rtranclp_into_rtranclp r_into_rtranclp)
  show "same_record_tables db db'"
    using e u by (auto simp: insert_event_def insert_audit_def guard_simps same_record_tables_def)
qed

lemma fleet_write_chain:
  "fleet_write db db1 \<Longrightarrow> fleet_write\<^sup>*\<^sup>* db1 db2 \<Longrightarrow> fleet_write\<^sup>*\<^sup>* db db2"
  by (rule converse_rtranclp_into_rtranclp)

lemma insert_operation_tx_effect:
  assumes "n7_insert_operation_tx E pid s now db = Inr db'"
  shows "fleet_write db db'"
    and "\<exists>x. insert_operation x db = Inr db' \<and> fo_projection_id x = pid \<and>
      fo_operation_id x = operation_id_str (ns_operation_id s) \<and>
      fo_network_id x = id_display (se_uuid E) (ns_network_id s) \<and>
      fo_device_id x = id_display (se_uuid E) (ns_device_id s) \<and>
      fo_generation x = uint (gen_get (ns_generation s)) \<and> fo_desired_body x = ns_desired_body s \<and>
      fo_desired_hash x = ns_desired_hash s \<and> fo_binding_id x = np_binding_id (ns_binding s) \<and>
      fo_authenticated_peer_id x = np_authenticated_peer_id (ns_binding s) \<and>
      fo_binding_generation x = uint (gen_get (np_binding_generation (ns_binding s)))"
  using assms by (auto simp: n7_insert_operation_tx_def guard_simps intro: fleet_write.write_operation)

text \<open>The record a reservation creates.\<close>

definition desired_row :: "store_env \<Rightarrow> fresh_ids \<Rightarrow> N7ProjectionSubmission \<Rightarrow> DateTime \<Rightarrow> projection_row" where
  "desired_row E F s now =
     \<lparr>fr_projection_id = fresh_projection F, fr_network_id = id_display (se_uuid E) (ns_network_id s),
      fr_device_id = id_display (se_uuid E) (ns_device_id s),
      fr_generation = uint (gen_get (ns_generation s)), fr_desired_body = ns_desired_body s,
      fr_desired_hash = ns_desired_hash s, fr_binding_id = np_binding_id (ns_binding s),
      fr_authenticated_peer_id = np_authenticated_peer_id (ns_binding s),
      fr_binding_generation = uint (gen_get (np_binding_generation (ns_binding s))),
      fr_projection_state = ''desired'', fr_revision = 1, fr_current_attempt_id = None,
      fr_persisted_at_ms = timestamp_millis now, fr_attempted_at_ms = None,
      fr_applied_at_ms = None, fr_conflict_at_ms = None\<rparr>"

lemma reserve_new_effect:
  assumes "reserve_new_tx E F s now db = Inr (out, db')"
  obtains (conflict) "out = ReservationConflict" "db' = db"
  | (reserved) v a b c d g where "out = Reserved v"
      "insert_projection (desired_row E F s now) db = Inr a"
      "n7_insert_operation_tx E (fresh_projection F) s now a = Inr b"
      "n7_set_device_status E (ns_device_id s) PSPending now b = Inr c"
      "append_n7_projection_audit E F (fresh_projection F) (operation_id_str (ns_operation_id s))
         (ns_network_id s) (ns_device_id s) (ns_generation s) 1 ''projection_desired'' now c = Inr d"
      "n7_advance_fleet_projection_generation_tx E (ns_device_id s) (ns_generation s) now d = Inr db'"
      "n7_projection_view_tx E (fresh_projection F) db' = Inr v"
      "find (\<lambda>g. gr_device_id g = id_display (se_uuid E) (ns_device_id s)) (db_generations db) = Some g"
      "column_u64 (gr_fleet_projection_generation g) = Inr (gen_get (ns_generation s))"
proof -
  obtain g dv active where g: "find (\<lambda>g. gr_device_id g = id_display (se_uuid E) (ns_device_id s))
        (db_generations db) = Some g"
    and col: "column_u64 (gr_fleet_projection_generation g) = Inr (gen_get (ns_generation s))"
    and rest: "(if \<not> active then Inr (ReservationConflict, db)
      else
        and_then (bind_u64 (gen_get (ns_generation s))) (\<lambda>generation.
        and_then (bind_u64 (gen_get (np_binding_generation (ns_binding s)))) (\<lambda>binding_generation.
        and_then (insert_projection (desired_row E F s now
           \<lparr>fr_generation := generation, fr_binding_generation := binding_generation\<rparr>) db) (\<lambda>db.
        and_then (n7_insert_operation_tx E (fresh_projection F) s now db) (\<lambda>db.
        and_then (n7_set_device_status E (ns_device_id s) PSPending now db) (\<lambda>db.
        and_then (append_n7_projection_audit E F (fresh_projection F)
          (operation_id_str (ns_operation_id s)) (ns_network_id s) (ns_device_id s)
          (ns_generation s) 1 ''projection_desired'' now db) (\<lambda>db.
        and_then (n7_advance_fleet_projection_generation_tx E (ns_device_id s) (ns_generation s) now db) (\<lambda>db.
        and_then (n7_projection_view_tx E (fresh_projection F) db) (\<lambda>view.
        Inr (Reserved view, db)))))))))) = Inr (out, db')"
    using assms unfolding reserve_new_tx_def Let_def desired_row_def
    by (simp only: projection_row.simps) (auto simp only: and_then_eq_Inr ok_or_eq_Inr ensure_eq_Inr)
  show thesis
  proof (cases active)
    case False
    with rest show thesis by (intro conflict) auto
  next
    case True
    with rest show thesis
      by (auto simp: guard_simps desired_row_def intro!: reserved [OF _ _ _ _ _ _ _ g col])
  qed
qed

lemma reserve_new_writes:
  assumes "reserve_new_tx E F s now db = Inr (out, db')"
  shows "fleet_write\<^sup>*\<^sup>* db db'"
  using assms
proof (cases rule: reserve_new_effect)
  case (reserved v a b c d g)
  have "fr_projection_state (desired_row E F s now) = ''desired''" by (simp add: desired_row_def)
  then have "fleet_write db a" using reserved(2) by (rule fleet_write.write_projection)
  moreover have "fleet_write a b" using reserved(3) by (rule insert_operation_tx_effect)
  moreover have "fleet_write b c" using set_status_tables [OF reserved(4)] same_tables_write by blast
  moreover have "fleet_write\<^sup>*\<^sup>* c d" using reserved(5) by (rule append_audit_effect)
  moreover have "fleet_write d db'" using advance_tables [OF reserved(6)] by (rule same_tables_write)
  ultimately show ?thesis 
    by (meson rtranclp.rtrancl_into_rtrancl rtranclp_trans r_into_rtranclp)
qed simp

lemma reserve_effect:
  assumes "reserve_tx E F s now db = Inr (out, db')"
  obtains (conflict) "out = ReservationConflict" "db' = db"
  | (replayed) v pid where "out = Replayed v" "db' = db" "n7_matching_operation_tx E s db = Inr (Some pid)"
      "n7_projection_view_tx E pid db = Inr v"
  | (joined) v and r :: projection_row where "out = Replayed v" "n7_matching_operation_tx E s db = Inr None"
      "\<not> n7_operation_exists_tx (ns_operation_id s) db"
      "n7_projection_view_tx E (fr_projection_id r) db = Inr v"
      "n7_insert_operation_tx E (fr_projection_id r) s now db = Inr db'"
  | (fresh) "n7_matching_operation_tx E s db = Inr None"
      "\<not> n7_operation_exists_tx (ns_operation_id s) db"
      "find (\<lambda>r. fr_device_id r = id_display (se_uuid E) (ns_device_id s) \<and>
               fr_generation r = uint (gen_get (ns_generation s))) (db_projections db) = None"
      "reserve_new_tx E F s now db = Inr (out, db')"
proof -
  obtain m where m: "n7_matching_operation_tx E s db = Inr m"
    using assms by (auto simp: reserve_tx_def guard_simps)
  show thesis
  proof (cases m)
    case (Some pid)
    with m assms show thesis by (auto simp: reserve_tx_def guard_simps intro: replayed)
  next
    case None
    show thesis
    proof (cases "n7_operation_exists_tx (ns_operation_id s) db")
      case True
      with None m assms show thesis by (auto simp: reserve_tx_def intro: conflict)
    next
      case False
      obtain q where q: "find (\<lambda>r. fr_device_id r = id_display (se_uuid E) (ns_device_id s) \<and>
               fr_generation r = uint (gen_get (ns_generation s))) (db_projections db) = q" by blast
      show thesis
      proof (cases q)
        case Found: (Some r)
        with q False None m assms obtain v where v: "n7_projection_view_tx E (fr_projection_id r) db = Inr v"
          and rest: "(if nv_network_id v \<noteq> ns_network_id s \<or> nv_desired_hash v \<noteq> ns_desired_hash s \<or>
                  nv_desired_body v \<noteq> ns_desired_body s \<or> nv_binding v \<noteq> ns_binding s
               then Inr (ReservationConflict, db)
               else and_then (n7_insert_operation_tx E (fr_projection_id r) s now db)
                      (\<lambda>db. Inr (Replayed v, db))) = Inr (out, db')"
          by (auto simp: reserve_tx_def guard_simps)
        from rest show thesis
          by (auto simp: guard_simps split: if_splits
              intro: conflict joined [OF _ m [unfolded None] False v])
      next
        case None': None
        with q False None m assms show thesis
          by (intro fresh) (auto simp: reserve_tx_def guard_simps)
      qed
    qed
  qed
qed

lemma reserve_writes:
  assumes "reserve_tx E F s now db = Inr (out, db')"
  shows "fleet_write\<^sup>*\<^sup>* db db'"
  using assms
proof (cases rule: reserve_effect)
  case (joined v r)
  from joined(5) have "fleet_write db db'" by (rule insert_operation_tx_effect)
  then show ?thesis by (rule r_into_rtranclp)
qed (auto intro: reserve_new_writes)

lemma view_row:
  assumes "n7_projection_view_tx E pid db = Inr v"
  obtains r where "find (\<lambda>r. fr_projection_id r = pid) (db_projections db) = Some r"
    "nv_projection_id v = pid" "nv_desired_body v = fr_desired_body r"
    "nv_desired_hash v = fr_desired_hash r" "0 \<le> fr_revision r" "nv_revision v = word_of_int (fr_revision r)"
    "N7ProjectionState_parse (fr_projection_state r) = Inr (nv_state v)"
    "parse_NetworkId (se_uuid E) (fr_network_id r) = Inr (nv_network_id v)"
    "parse_DeviceId (se_uuid E) (fr_device_id r) = Inr (nv_device_id v)"
    "0 \<le> fr_generation r" "gen_get (nv_generation v) = word_of_int (fr_generation r)"
    "np_binding_id (nv_binding v) = fr_binding_id r"
    "np_authenticated_peer_id (nv_binding v) = fr_authenticated_peer_id r"
    "0 \<le> fr_binding_generation r"
    "gen_get (np_binding_generation (nv_binding v)) = word_of_int (fr_binding_generation r)"
  using assms
  by (auto simp: n7_projection_view_tx_def guard_simps state_generation_def Generation_new_def
      N7BindingProvenance_new_def split: if_splits)

definition attempt_opens ::
    "store_env \<Rightarrow> OperationId \<Rightarrow> DeviceId \<Rightarrow> Generation \<Rightarrow> u64 \<Rightarrow> fleet_db \<Rightarrow> string \<Rightarrow> N7ProjectionView \<Rightarrow> bool"
where
  "attempt_opens E operation_id device_id generation expected_revision db pid v \<longleftrightarrow>
     n7_operation_projection_tx E operation_id device_id generation db = Inr pid \<and>
     n7_projection_view_tx E pid db = Inr v \<and> nv_revision v = expected_revision \<and>
     nv_projection_id v = pid"

lemma attempt_effect:
  assumes "attempt_tx E F x d g expected_revision now db = Inr (out, db')"
  obtains (replayed) v pid where "attempt_opens E x d g expected_revision db pid v"
      "out = AttemptReplayed v" "db' = db" "nv_state v = N7Applied \<or> nv_state v = N7Conflict"
  | (first) v pid a b n w where "attempt_opens E x d g expected_revision db pid v"
      "nv_state v = N7Desired" "out = AttemptRecorded w"
      "n7_binding_is_active_tx E (nv_network_id v) d (nv_binding v) db = Inr True"
      "insert_attempt (new_attempt F pid x 1 (uint expected_revision) now) db = Inr a"
      "update_projections
        (\<lambda>r. fr_projection_id r = pid \<and> fr_projection_state r = ''desired'' \<and>
           fr_revision r = uint expected_revision)
        (\<lambda>r. r\<lparr>fr_projection_state := ''attempted'', fr_revision := 2,
           fr_current_attempt_id := Some (fresh_attempt F),
           fr_attempted_at_ms := Some (timestamp_millis now)\<rparr>) a = Inr (n, b)"
      "append_n7_projection_audit E F pid (operation_id_str x) (nv_network_id v) d g 2
        ''projection_attempted'' now b = Inr db'"
      "n7_projection_view_tx E pid db' = Inr w"
  | (retry) v pid number a b w where "attempt_opens E x d g expected_revision db pid v"
      "nv_state v = N7Attempted" "out = AttemptRecorded w"
      "n7_binding_is_active_tx E (nv_network_id v) d (nv_binding v) db = Inr True"
      "insert_attempt (new_attempt F pid x number (uint expected_revision) now) db = Inr a"
      "update_projections
        (\<lambda>r. fr_projection_id r = pid \<and> fr_projection_state r = ''attempted'' \<and>
           fr_revision r = uint expected_revision)
        (\<lambda>r. r\<lparr>fr_current_attempt_id := Some (fresh_attempt F)\<rparr>) a = Inr (1, b)"
      "append_n7_projection_audit E F pid (operation_id_str x) (nv_network_id v) d g 2
        ''projection_attempted'' now b = Inr db'"
      "n7_projection_view_tx E pid db' = Inr w"
proof -
  obtain pid v where op: "n7_operation_projection_tx E x d g db = Inr pid"
    and v: "n7_projection_view_tx E pid db = Inr v" and rev: "nv_revision v = expected_revision"
    and rest: "(case nv_state v of
       N7Desired \<Rightarrow> first_attempt_tx E F x d g expected_revision now v db
     | N7Attempted \<Rightarrow> retry_attempt_tx E F x d g expected_revision now v db
     | _ \<Rightarrow> Inr (AttemptReplayed v, db)) = Inr (out, db')"
    using assms by (auto simp: attempt_tx_def guard_simps)
  have pid: "nv_projection_id v = pid" using v by (rule view_row)
  have opens: "attempt_opens E x d g expected_revision db pid v"
    using op v rev pid by (simp add: attempt_opens_def)
  show thesis
  proof (cases "nv_state v")
    case N7Desired
    with rest have "first_attempt_tx E F x d g expected_revision now v db = Inr (out, db')" by simp
    then show thesis
      by (auto simp: first_attempt_tx_def Let_def guard_simps pid intro!: first [OF opens N7Desired])
  next
    case N7Attempted
    with rest have "retry_attempt_tx E F x d g expected_revision now v db = Inr (out, db')" by simp
    then show thesis
      by (auto simp: retry_attempt_tx_def Let_def guard_simps pid split: if_splits
          intro!: retry [OF opens N7Attempted])
  qed (use rest in \<open>auto intro: replayed [OF opens]\<close>)
qed

lemma attempt_writes:
  assumes "attempt_tx E F x d g expected_revision now db = Inr (out, db')"
  shows "fleet_write\<^sup>*\<^sup>* db db'"
  using assms
proof (cases rule: attempt_effect)
  case (first v pid a b n w)
  have "fleet_write db a" using first(5) by (rule fleet_write.write_attempt)
  moreover have "fleet_write a b" by (rule fleet_write.write_update [OF _ first(6)]) simp
  moreover have "fleet_write\<^sup>*\<^sup>* b db'" using first(7) by (rule append_audit_effect)
  ultimately show ?thesis by (meson fleet_write_chain)
next
  case (retry v pid number a b w)
  have "fleet_write db a" using retry(5) by (rule fleet_write.write_attempt)
  moreover have "fleet_write a b" by (rule fleet_write.write_update [OF _ retry(6)]) simp
  moreover have "fleet_write\<^sup>*\<^sup>* b db'" using retry(7) by (rule append_audit_effect)
  ultimately show ?thesis by (meson fleet_write_chain)
qed simp

lemma recover_effect:
  assumes "recover_tx E F x d g expected_revision inspection now db = Inr (w, db')"
  obtains (replayed) v pid where "attempt_opens E x d g expected_revision db pid v"
      "w = v" "db' = db" "nv_state v = N7Applied \<or> nv_state v = N7Conflict"
  | (noted) v pid attempt_id where "attempt_opens E x d g expected_revision db pid v"
      "nv_state v = N7Attempted" "n7_current_attempt_id_tx pid db = Inr attempt_id"
      "insert_inspection (new_inspection F pid x attempt_id (uint expected_revision) inspection now) db
        = Inr db'"
      "inspection = Missing \<or> inspection = Unavailable" "w = v"
  | (settled) v pid attempt_id a b c i body applied where
      "attempt_opens E x d g expected_revision db pid v"
      "nv_state v = N7Attempted" "n7_current_attempt_id_tx pid db = Inr attempt_id"
      "insert_inspection (new_inspection F pid x attempt_id (uint expected_revision) inspection now) db
        = Inr a"
      "inspection_kind inspection = ''observed''"
      "latest_inspection (filter (\<lambda>i. fi_projection_id i = pid \<and> fi_attempt_id i = attempt_id)
        (db_inspections a)) = Some i"
      "fi_observed_body i = Some body"
      "applied \<longleftrightarrow> sha256_fingerprint E body = nv_desired_hash v \<and> body = nv_desired_body v"
      "update_projections (\<lambda>r. fr_projection_id r = pid \<and> fr_projection_state r = ''attempted'' \<and>
           fr_revision r = uint expected_revision) (settled_row applied now) a = Inr (1, b)"
      "n7_set_device_status E d (if applied then PSApplied else PSConflict) now b = Inr c"
      "append_n7_projection_audit E F pid (operation_id_str x) (nv_network_id v) d g 3
        (''projection_'' @ (if applied then ''applied'' else ''conflict'')) now c = Inr db'"
      "n7_projection_view_tx E pid db' = Inr w"
proof -
  obtain pid v where op: "n7_operation_projection_tx E x d g db = Inr pid"
    and v: "n7_projection_view_tx E pid db = Inr v" and rev: "nv_revision v = expected_revision"
    using assms unfolding recover_tx_def and_then_eq_Inr ensure_eq_Inr by blast
  have rest: "(if nv_state v = N7Applied \<or> nv_state v = N7Conflict then Inr (v, db)
     else
     and_then (ensure (nv_state v = N7Attempted)
       (StConflict ''N7 inspection recovery requires a persisted dispatch attempt'')) (\<lambda>_.
     and_then (n7_current_attempt_id_tx pid db) (\<lambda>attempt_id.
     and_then (bind_u64 expected_revision) (\<lambda>expected.
     and_then (insert_inspection (new_inspection F pid x attempt_id expected inspection now) db) (\<lambda>db.
     if inspection_kind inspection \<noteq> ''observed'' then Inr (v, db)
     else settle_tx E F x d g expected_revision now v attempt_id db))))) = Inr (w, db')"
    using assms op v rev by (simp add: recover_tx_def)
  have pid: "nv_projection_id v = pid" using v by (rule view_row)
  have opens: "attempt_opens E x d g expected_revision db pid v"
    using op v rev pid by (simp add: attempt_opens_def)
  show thesis
  proof (cases "nv_state v = N7Applied \<or> nv_state v = N7Conflict")
    case True
    with rest show thesis by (intro replayed [OF opens]) auto
  next
    case False
    with rest have att: "nv_state v = N7Attempted" by (auto simp: guard_simps)
    with rest False have rest: "and_then (n7_current_attempt_id_tx pid db) (\<lambda>attempt_id.
     and_then (bind_u64 expected_revision) (\<lambda>expected.
     and_then (insert_inspection (new_inspection F pid x attempt_id expected inspection now) db) (\<lambda>db.
     if inspection_kind inspection \<noteq> ''observed'' then Inr (v, db)
     else settle_tx E F x d g expected_revision now v attempt_id db))) = Inr (w, db')" by simp
    then obtain attempt_id a where a: "n7_current_attempt_id_tx pid db = Inr attempt_id"
      "insert_inspection (new_inspection F pid x attempt_id (uint expected_revision) inspection now) db = Inr a"
      and last: "(if inspection_kind inspection \<noteq> ''observed'' then Inr (v, a)
        else settle_tx E F x d g expected_revision now v attempt_id a) = Inr (w, db')"
      unfolding and_then_eq_Inr bind_u64_Inr by blast
    show thesis
    proof (cases "inspection_kind inspection = ''observed''")
      case False
      then have "inspection = Missing \<or> inspection = Unavailable"
        by (cases inspection) (simp_all add: inspection_kind_def)
      with last False a show thesis by (intro noted [OF opens att a(1)]) auto
    next
      case True
      with last have "settle_tx E F x d g expected_revision now v attempt_id a = Inr (w, db')" by simp
      then obtain i body b c where s: "latest_inspection (filter (\<lambda>i. fi_projection_id i = pid \<and>
            fi_attempt_id i = attempt_id) (db_inspections a)) = Some i" "fi_observed_body i = Some body"
        and u: "update_projections (\<lambda>r. fr_projection_id r = pid \<and> fr_projection_state r = ''attempted'' \<and>
           fr_revision r = uint expected_revision)
           (settled_row (sha256_fingerprint E body = nv_desired_hash v \<and> body = nv_desired_body v) now) a
           = Inr (1, b)"
        and c: "n7_set_device_status E d (if sha256_fingerprint E body = nv_desired_hash v \<and>
           body = nv_desired_body v then PSApplied else PSConflict) now b = Inr c"
        and e: "append_n7_projection_audit E F pid (operation_id_str x) (nv_network_id v) d g 3
          (''projection_'' @ (if sha256_fingerprint E body = nv_desired_hash v \<and>
           body = nv_desired_body v then ''applied'' else ''conflict'')) now c = Inr db'"
        and w: "n7_projection_view_tx E pid db' = Inr w"
        unfolding settle_tx_def Let_def pid by (auto simp: guard_simps split: if_splits)
      show thesis by (rule settled [OF opens att a True s refl u c e w])
    qed
  qed
qed

lemma recover_writes:
  assumes "recover_tx E F x d g expected_revision inspection now db = Inr (w, db')"
  shows "fleet_write\<^sup>*\<^sup>* db db'"
  using assms
proof (cases rule: recover_effect)
  case (noted v pid attempt_id)
  from noted(4) show ?thesis by (intro r_into_rtranclp fleet_write.write_inspection)
next
  case (settled v pid attempt_id a b c i body applied)
  have "fleet_write db a" using settled(4) by (rule fleet_write.write_inspection)
  moreover have "fleet_write a b"
    by (rule fleet_write.write_update [OF _ settled(9)]) (simp add: settled_row_def)
  moreover have "fleet_write b c" using set_status_tables [OF settled(10)] same_tables_write by blast
  moreover have "fleet_write\<^sup>*\<^sup>* c db'" using settled(11) by (rule append_audit_effect)
  ultimately show ?thesis by (meson fleet_write_chain)
qed simp

section \<open>Runs of the store\<close>

text \<open>
  Calls in any order and with any arguments, interleaved with whatever the other components
  write to devices, generations, bindings and audit events.
\<close>

datatype store_call =
    CallReserve fresh_ids N7ProjectionSubmission DateTime
  | CallAttempt fresh_ids OperationId DeviceId Generation u64 DateTime
  | CallRecover fresh_ids OperationId DeviceId Generation u64 N7AuthoritativeInspection DateTime
  | CallElsewhere "device_row list" "generation_row list" "binding_row list" "audit_event_row list"

fun call_store :: "store_env \<Rightarrow> store_call \<Rightarrow> fleet_db \<Rightarrow> fleet_db" where
  "call_store E (CallReserve F s now) db = snd (reserve_n7_projection E F s now db)"
| "call_store E (CallAttempt F x d g rv now) db =
     snd (record_n7_projection_dispatch_attempt E F x d g rv now db)"
| "call_store E (CallRecover F x d g rv inspection now) db =
     snd (recover_n7_projection_from_inspection E F x d g rv inspection now db)"
| "call_store E (CallElsewhere ds gs bs es) db =
     db\<lparr>db_devices := ds, db_generations := gs, db_bindings := bs, db_events := es\<rparr>"

definition run_store :: "store_env \<Rightarrow> store_call list \<Rightarrow> fleet_db \<Rightarrow> fleet_db" where
  "run_store E calls db = foldl (\<lambda>db c. call_store E c db) db calls"

text \<open>What holds of the old database and of every successful outcome holds after a transaction.\<close>

lemma transactional_snd:
  assumes "P db" "\<And>x db'. operation db = Inr (x, db') \<Longrightarrow> P db'"
  shows "P (snd (transactional operation db))"
  using assms by (auto simp: transactional_def split: sum.splits)

lemma transactional_writes:
  assumes "\<And>x db'. operation db = Inr (x, db') \<Longrightarrow> fleet_write\<^sup>*\<^sup>* db db'"
  shows "fleet_write\<^sup>*\<^sup>* db (snd (transactional operation db))"
  by (rule transactional_snd [where P = "\<lambda>t. fleet_write\<^sup>*\<^sup>* db t"]) (simp_all add: assms)

lemma call_store_writes: "fleet_write\<^sup>*\<^sup>* db (call_store E c db)"
proof (cases c)
  case (CallReserve F s now)
  show ?thesis unfolding CallReserve call_store.simps reserve_n7_projection_def
    by (rule transactional_writes) (rule reserve_writes)
next
  case (CallAttempt F x d g rv now)
  show ?thesis unfolding CallAttempt call_store.simps record_n7_projection_dispatch_attempt_def
    by (rule transactional_writes) (rule attempt_writes)
next
  case (CallRecover F x d g rv inspection now)
  show ?thesis unfolding CallRecover call_store.simps recover_n7_projection_from_inspection_def
    by (rule transactional_writes) (rule recover_writes)
next
  case (CallElsewhere ds gs bs es)
  show ?thesis unfolding CallElsewhere call_store.simps
    by (rule r_into_rtranclp) (rule fleet_write.write_elsewhere)
qed

lemma run_store_writes: "fleet_write\<^sup>*\<^sup>* db (run_store E calls db)"
proof (induction calls arbitrary: db)
  case (Cons c calls)
  have "run_store E (c # calls) db = run_store E calls (call_store E c db)" by (simp add: run_store_def)
  then show ?case using Cons.IH [of "call_store E c db"] call_store_writes [of db E c]
    by (simp add: rtranclp_trans)
qed (simp add: run_store_def)

lemma run_store_append: "run_store E (cs @ ds) db = run_store E ds (run_store E cs db)"
  by (simp add: run_store_def)

section \<open>Progress: the current attempt is the last one, and only settled records were observed\<close>

definition attempts_of :: "fleet_db \<Rightarrow> string \<Rightarrow> attempt_row list" where
  "attempts_of db pid = filter (\<lambda>a. fa_projection_id a = pid) (db_attempts db)"

definition was_observed :: "fleet_db \<Rightarrow> string \<Rightarrow> bool" where
  "was_observed db pid \<longleftrightarrow>
     list_ex (\<lambda>i. fi_projection_id i = pid \<and> fi_inspection_kind i = ''observed'') (db_inspections db)"

definition progress_ok :: "fleet_db \<Rightarrow> projection_row \<Rightarrow> bool" where
  "progress_ok db r \<longleftrightarrow>
     (if fr_projection_state r = ''desired'' then attempts_of db (fr_projection_id r) = []
      else attempts_of db (fr_projection_id r) \<noteq> [] \<and>
        fr_current_attempt_id r = Some (fa_attempt_id (last (attempts_of db (fr_projection_id r))))) \<and>
     (fr_revision r < 3 \<longrightarrow> \<not> was_observed db (fr_projection_id r))"

definition store_inv :: "fleet_db \<Rightarrow> bool" where
  "store_inv db \<longleftrightarrow> fleet_inv db \<and> list_all (progress_ok db) (db_projections db)"

lemma progress_tables:
  "db_attempts db' = db_attempts db \<Longrightarrow> db_inspections db' = db_inspections db \<Longrightarrow>
   progress_ok db' = progress_ok db"
  by (intro ext) (simp add: progress_ok_def attempts_of_def was_observed_def)

lemma update_one:
  assumes "update_projections (\<lambda>r. fr_projection_id r = pid \<and> P r) change db = Inr (n, db')"
    and "distinct (map fr_projection_id (db_projections db))"
    and "find (\<lambda>r. fr_projection_id r = pid) (db_projections db) = Some r"
  shows "db' = db\<lparr>db_projections := map (\<lambda>q. if fr_projection_id q = pid
      then (if P r then change r else r) else q) (db_projections db)\<rparr>"
proof -
  have r: "r \<in> set (db_projections db)" "fr_projection_id r = pid"
    using assms(3) by (auto simp: find_Some_iff)
  have same: "q = r" if "q \<in> set (db_projections db)" "fr_projection_id q = pid" for q
    using assms(2) r that by (metis distinct_map inj_on_def)
  have "db' = db\<lparr>db_projections := map (\<lambda>q. if fr_projection_id q = pid \<and> P q then change q else q)
      (db_projections db)\<rparr>"
    using assms(1) by (auto simp: update_projections_def Let_def guard_simps)
  also have "map (\<lambda>q. if fr_projection_id q = pid \<and> P q then change q else q) (db_projections db) =
      map (\<lambda>q. if fr_projection_id q = pid then (if P r then change r else r) else q) (db_projections db)"
    using same by (intro map_cong) auto
  finally show ?thesis .
qed

lemma reserve_progress:
  assumes "reserve_tx E F s now db = Inr (out, db')" "store_inv db"
  shows "list_all (progress_ok db') (db_projections db')"
  using assms(1)
proof (cases rule: reserve_effect)
  case (joined v r)
  from insert_operation_tx_effect(2) [OF joined(5)] obtain x where "insert_operation x db = Inr db'" by blast
  then have "db' = db\<lparr>db_operations := db_operations db @ [x]\<rparr>"
    by (auto simp: insert_operation_def guard_simps)
  then show ?thesis using assms(2) progress_tables [of db' db] by (simp add: store_inv_def)
next
  case fresh
  from fresh(4) show ?thesis
  proof (cases rule: reserve_new_effect)
    case (reserved v a b c d g)
    let ?row = "desired_row E F s now"
    obtain x where x: "insert_operation x a = Inr b"
      using insert_operation_tx_effect(2) [OF reserved(3)] by blast
    have tabs: "db_projections db' = db_projections db @ [?row]" "db_attempts db' = db_attempts db"
      "db_inspections db' = db_inspections db"
      and new: "list_all (\<lambda>q. fr_projection_id q \<noteq> fr_projection_id ?row) (db_projections db)"
      using reserved(2) x set_status_tables [OF reserved(4)] append_audit_effect(2) [OF reserved(5)]
        advance_tables [OF reserved(6)]
      by (auto simp: insert_projection_def insert_operation_def guard_simps same_projection_tables_def
          same_record_tables_def list_all_iff)
    have "attempts_of db (fr_projection_id ?row) = []"
      using new assms(2)
      by (fastforce simp: store_inv_def fleet_inv_def links_ok_def list_all_iff list_ex_iff
          attempts_of_def filter_empty_conv)
    moreover have "\<not> was_observed db (fr_projection_id ?row)"
      using new assms(2)
      by (fastforce simp: store_inv_def fleet_inv_def inspections_ok_def list_all_iff list_ex_iff
          was_observed_def)
    moreover have "fr_projection_state ?row = ''desired''" by (simp add: desired_row_def)
    ultimately have "progress_ok db ?row" by (simp add: progress_ok_def)
    with tabs assms(2) progress_tables [of db' db] show ?thesis by (simp add: store_inv_def)
  qed (use assms(2) in \<open>simp add: store_inv_def\<close>)
qed (use assms(2) in \<open>simp_all add: store_inv_def\<close>)

text \<open>The row behind a view: its revision and state agree, and it is the only one of its id.\<close>

lemma parsed_state:
  "N7ProjectionState_parse t = Inr N7Desired \<longleftrightarrow> t = ''desired''"
  "N7ProjectionState_parse t = Inr N7Attempted \<longleftrightarrow> t = ''attempted''"
  "N7ProjectionState_parse t = Inr N7Applied \<longleftrightarrow> t = ''applied''"
  "N7ProjectionState_parse t = Inr N7Conflict \<longleftrightarrow> t = ''conflict''"
  by (auto simp: N7ProjectionState_parse_def split: if_splits)

lemma opened_row:
  assumes "attempt_opens E x d g rv db pid v" "fleet_inv db"
  obtains r where "find (\<lambda>r. fr_projection_id r = pid) (db_projections db) = Some r"
    "r \<in> set (db_projections db)" "fr_projection_id r = pid" "uint rv = fr_revision r"
    "N7ProjectionState_parse (fr_projection_state r) = Inr (nv_state v)" "projection_check r"
    "nv_desired_body v = fr_desired_body r" "nv_desired_hash v = fr_desired_hash r"
proof -
  obtain r where r: "find (\<lambda>r. fr_projection_id r = pid) (db_projections db) = Some r"
    "nv_revision v = word_of_int (fr_revision r)" "0 \<le> fr_revision r"
    "N7ProjectionState_parse (fr_projection_state r) = Inr (nv_state v)"
    "nv_desired_body v = fr_desired_body r" "nv_desired_hash v = fr_desired_hash r"
    using assms(1) unfolding attempt_opens_def by (auto elim: view_row)
  then have mem: "r \<in> set (db_projections db)" "fr_projection_id r = pid" by (auto simp: find_Some_iff)
  then have check: "projection_check r" using assms(2) by (simp add: fleet_inv_def rows_ok_def list_all_iff)
  then have "fr_revision r = 1 \<or> fr_revision r = 2 \<or> fr_revision r = 3"
    by (auto simp: projection_check_def state_check_def)
  then have "uint (word_of_int (fr_revision r) :: u64) = fr_revision r" by auto
  then have "uint rv = fr_revision r" using assms(1) r(2) by (simp add: attempt_opens_def)
  then show thesis using that r mem check by blast
qed

text \<open>
  The common end of both attempt branches: one attempt row is appended for the record, and the
  record points to it.
\<close>

lemma progress_after_attempt:
  assumes inv: "store_inv db" and r: "r \<in> set (db_projections db)" "fr_projection_id r = pid"
    and unsettled: "fr_revision r < 3"
    and rows: "db_projections db' = map (\<lambda>q. if fr_projection_id q = pid then r' else q) (db_projections db)"
    and atts: "db_attempts db' = db_attempts db @ [a]" "fa_projection_id a = pid"
    and insp: "db_inspections db' = db_inspections db"
    and r': "fr_projection_id r' = pid" "fr_projection_state r' \<noteq> ''desired''"
      "fr_current_attempt_id r' = Some (fa_attempt_id a)"
  shows "list_all (progress_ok db') (db_projections db')"
proof -
  have seen: "was_observed db' = was_observed db" by (intro ext) (simp add: was_observed_def insp)
  have quiet: "\<not> was_observed db pid"
    using inv r unsettled by (auto simp: store_inv_def list_all_iff progress_ok_def)
  have "progress_ok db' r'" using r' quiet atts by (simp add: progress_ok_def attempts_of_def seen)
  moreover have "progress_ok db' q" if "q \<in> set (db_projections db)" "fr_projection_id q \<noteq> pid" for q
  proof -
    have "progress_ok db q" using that(1) inv by (simp add: store_inv_def list_all_iff)
    moreover have "attempts_of db' (fr_projection_id q) = attempts_of db (fr_projection_id q)"
      using that(2) atts by (simp add: attempts_of_def)
    ultimately show ?thesis by (simp add: progress_ok_def seen)
  qed
  ultimately show ?thesis by (auto simp: rows list_all_iff)
qed

text \<open>An update of the one record with a given identifier, and what its trigger checked.\<close>

lemma update_touches:
  assumes "update_projections (\<lambda>r. fr_projection_id r = pid \<and> P r) change db = Inr (n, db')"
    and "r \<in> set (db_projections db)" "fr_projection_id r = pid" "P r"
  shows "projection_update_guard db r (change r)"
  using assms by (auto simp: update_projections_def Let_def guard_simps list_all_iff)

definition recorded_attempt ::
    "store_env \<Rightarrow> fresh_ids \<Rightarrow> OperationId \<Rightarrow> DateTime \<Rightarrow> fleet_db \<Rightarrow> fleet_db \<Rightarrow> u64 \<Rightarrow> N7ProjectionView \<Rightarrow>
     projection_row \<Rightarrow> projection_row \<Rightarrow> int \<Rightarrow> bool" where
  "recorded_attempt E F x now db db' rv w r r' number \<longleftrightarrow>
     fr_revision r = uint rv \<and> fr_revision r < 3 \<and> row_binding_active db r \<and>
     fr_projection_id r' = fr_projection_id r \<and> fr_projection_state r' = ''attempted'' \<and>
     fr_revision r' = 2 \<and> fr_current_attempt_id r' = Some (fresh_attempt F) \<and>
     number = highest_attempt db (fr_projection_id r) + 1 \<and>
     db_projections db' = map (\<lambda>q. if fr_projection_id q = fr_projection_id r then r' else q)
       (db_projections db) \<and>
     db_attempts db' = db_attempts db @ [new_attempt F (fr_projection_id r) x number (uint rv) now] \<and>
     db_inspections db' = db_inspections db \<and> n7_projection_view_tx E (fr_projection_id r) db' = Inr w"

text \<open>The end of both branches: update the row, append the audit, view the record.\<close>

lemma attempt_branch:
  assumes inv: "fleet_inv db" and ins: "insert_attempt (new_attempt F pid x number (uint rv) now) db = Inr a"
    and upd: "update_projections (\<lambda>r. fr_projection_id r = pid \<and> P r) change a = Inr (n, b)"
    and aud: "append_n7_projection_audit E F pid y nw d g 2 kind now b = Inr db'"
    and view: "n7_projection_view_tx E pid db' = Inr w"
    and r: "find (\<lambda>r. fr_projection_id r = pid) (db_projections db) = Some r" "P r"
      "fr_revision r = uint rv" "fr_revision r < 3"
    and r': "fr_projection_id (change r) = pid" "fr_projection_state (change r) = ''attempted''"
      "fr_revision (change r) = 2" "fr_current_attempt_id (change r) = Some (fresh_attempt F)"
  shows "recorded_attempt E F x now db db' rv w r (change r) number"
proof -
  have mem: "r \<in> set (db_projections db)" "fr_projection_id r = pid" using find_Some_mem [OF r(1)] by simp_all
  have a: "a = db\<lparr>db_attempts := db_attempts db @ [new_attempt F pid x number (uint rv) now]\<rparr>"
    using ins by (auto simp: insert_attempt_def guard_simps)
  have dis: "distinct (map fr_projection_id (db_projections a))"
    "find (\<lambda>r. fr_projection_id r = pid) (db_projections a) = Some r"
    using inv r(1) by (simp_all add: a fleet_inv_def rows_ok_def)
  have b: "b = a\<lparr>db_projections := map (\<lambda>q. if fr_projection_id q = pid then change r else q)
      (db_projections a)\<rparr>"
    using update_one [OF upd dis] r(2) by simp
  have "projection_update_guard a r (change r)" using update_touches [OF upd] mem r(2) a by simp
  then have "row_binding_active a (change r)" "same_subject r (change r)"
    using r'(2,3) by (auto simp: projection_update_guard_def first_attempt_update_def
        next_attempt_update_def settling_update_def)
  then have act: "row_binding_active db r"
    by (simp add: row_binding_active_def active_binding_def same_subject_def a)
  have num: "number = highest_attempt db pid + 1"
    using insert_attempt_numbers [OF ins] inv by (simp add: fleet_inv_def new_attempt_def)
  show ?thesis using append_audit_effect(2) [OF aud] act num mem r r' view b a
    by (simp add: recorded_attempt_def same_record_tables_def)
qed

lemma recorded_effect:
  assumes "attempt_tx E F x d g rv now db = Inr (AttemptRecorded w, db')" "fleet_inv db"
  shows "\<exists>r \<in> set (db_projections db). \<exists>r' number. recorded_attempt E F x now db db' rv w r r' number \<and>
    n7_operation_projection_tx E x d g db = Inr (fr_projection_id r)"
  using assms(1)
proof (cases rule: attempt_effect)
  case (first v pid a b n w')
  from first(1) assms(2) obtain r where r: "find (\<lambda>r. fr_projection_id r = pid) (db_projections db) = Some r"
    "r \<in> set (db_projections db)" "fr_projection_id r = pid" "uint rv = fr_revision r"
    "N7ProjectionState_parse (fr_projection_state r) = Inr (nv_state v)" "projection_check r"
    by (rule opened_row)
  from r(5) first(2) have st: "fr_projection_state r = ''desired''" by (simp add: parsed_state)
  then have rev: "fr_revision r < 3" using r(6) projection_state_revision [of r] by simp
  have P: "fr_projection_state r = ''desired'' \<and> fr_revision r = uint rv" using st r(4) by simp
  from attempt_branch [OF assms(2) first(5,6,7,8) r(1) P r(4) [symmetric] rev] r(3) first(1,3) r(2)
  show ?thesis by (auto simp: attempt_opens_def intro!: bexI [of _ r])
next
  case (retry v pid number a b w')
  from retry(1) assms(2) obtain r where r: "find (\<lambda>r. fr_projection_id r = pid) (db_projections db) = Some r"
    "r \<in> set (db_projections db)" "fr_projection_id r = pid" "uint rv = fr_revision r"
    "N7ProjectionState_parse (fr_projection_state r) = Inr (nv_state v)" "projection_check r"
    by (rule opened_row)
  from r(5) retry(2) have st: "fr_projection_state r = ''attempted''" by (simp add: parsed_state)
  then have rev: "fr_revision r = 2" using r(6) projection_state_revision [of r] by simp
  have P: "fr_projection_state r = ''attempted'' \<and> fr_revision r = uint rv" using st r(4) by simp
  from attempt_branch [OF assms(2) retry(5,6,7,8) r(1) P r(4) [symmetric]] rev st r(3) retry(1,3) r(2)
  show ?thesis by (auto simp: attempt_opens_def intro!: bexI [of _ r])
qed simp

lemma attempt_progress:
  assumes "attempt_tx E F x d g rv now db = Inr (out, db')" "store_inv db"
  shows "list_all (progress_ok db') (db_projections db')"
proof (cases out)
  case (AttemptRecorded w)
  have inv: "fleet_inv db" using assms(2) by (simp add: store_inv_def)
  from recorded_effect [OF assms(1) [unfolded AttemptRecorded] inv] obtain r r' number where
    r: "r \<in> set (db_projections db)" "recorded_attempt E F x now db db' rv w r r' number" by blast
  show ?thesis
    by (rule progress_after_attempt [OF assms(2) r(1) refl, where r' = r'
          and a = "new_attempt F (fr_projection_id r) x number (uint rv) now"])
      (use r(2) in \<open>simp_all add: recorded_attempt_def new_attempt_def\<close>)
next
  case (AttemptReplayed w)
  with assms(1) have "db' = db" by (cases rule: attempt_effect) auto
  with assms(2) show ?thesis by (simp add: store_inv_def)
qed

text \<open>What a settling recovery did, in one equation per table.\<close>

lemma settled_tables:
  assumes "insert_inspection i db = Inr a"
    and "update_projections (\<lambda>r. fr_projection_id r = pid \<and> fr_projection_state r = ''attempted'' \<and>
           fr_revision r = expected) (settled_row applied now) a = Inr (n, b)"
    and "n7_set_device_status E d st now b = Inr c"
    and "append_n7_projection_audit E F pid x nw d g rv kind now c = Inr db'"
    and "fleet_inv db" "find (\<lambda>r. fr_projection_id r = pid) (db_projections db) = Some r"
    and "fr_projection_state r = ''attempted''" "fr_revision r = expected"
  shows "db_projections db' = map (\<lambda>q. if fr_projection_id q = pid then settled_row applied now r else q)
      (db_projections db) \<and> db_attempts db' = db_attempts db \<and>
    db_inspections db' = db_inspections db @ [i] \<and> db_operations db' = db_operations db"
proof -
  have a: "a = db\<lparr>db_inspections := db_inspections db @ [i]\<rparr>"
    using assms(1) by (auto simp: insert_inspection_def guard_simps)
  have d: "distinct (map fr_projection_id (db_projections a))"
    "find (\<lambda>r. fr_projection_id r = pid) (db_projections a) = Some r"
    using assms(5,6) by (simp_all add: a fleet_inv_def rows_ok_def)
  have "b = a\<lparr>db_projections := map (\<lambda>q. if fr_projection_id q = pid then settled_row applied now r else q)
      (db_projections a)\<rparr>"
    using update_one [OF assms(2) d] assms(7,8) by simp
  then show ?thesis using set_status_tables [OF assms(3)] append_audit_effect(2) [OF assms(4)]
    by (simp add: a same_record_tables_def same_projection_tables_def)
qed

lemma recover_progress:
  assumes "recover_tx E F x d g rv inspection now db = Inr (w, db')" "store_inv db"
  shows "list_all (progress_ok db') (db_projections db')"
  using assms(1)
proof (cases rule: recover_effect)
  case (replayed v pid)
  then show ?thesis using assms(2) by (simp add: store_inv_def)
next
  case (noted v pid attempt_id)
  then have "db' = db\<lparr>db_inspections := db_inspections db @
      [new_inspection F pid x attempt_id (uint rv) inspection now]\<rparr>"
    by (auto simp: insert_inspection_def guard_simps)
  moreover have "fi_inspection_kind (new_inspection F pid x attempt_id (uint rv) inspection now) \<noteq> ''observed''"
    using noted(5) by (auto simp: new_inspection_def inspection_kind_def)
  ultimately have "progress_ok db' = progress_ok db" "db_projections db' = db_projections db"
    by (auto simp: progress_ok_def [abs_def] attempts_of_def was_observed_def)
  then show ?thesis using assms(2) by (simp add: store_inv_def)
next
  case (settled v pid attempt_id a b c i body applied)
  let ?i = "new_inspection F pid x attempt_id (uint rv) inspection now"
  have inv: "fleet_inv db" using assms(2) by (simp add: store_inv_def)
  from settled(1) inv obtain r where r: "find (\<lambda>r. fr_projection_id r = pid) (db_projections db) = Some r"
    "r \<in> set (db_projections db)" "fr_projection_id r = pid" "uint rv = fr_revision r"
    "N7ProjectionState_parse (fr_projection_state r) = Inr (nv_state v)" "projection_check r"
    by (rule opened_row)
  from r(5) settled(2) have st: "fr_projection_state r = ''attempted''" by (simp add: parsed_state)
  note tabs = settled_tables [OF settled(4) settled(9-11) inv r(1) st r(4) [symmetric]]
  have atts: "attempts_of db' = attempts_of db" using tabs by (intro ext) (simp add: attempts_of_def)
  have "progress_ok db r" using r(2) assms(2) by (simp add: store_inv_def list_all_iff)
  then have "progress_ok db' (settled_row applied now r)"
    using st by (simp add: progress_ok_def atts settled_row_def)
  moreover have "progress_ok db' q" if "q \<in> set (db_projections db)" "fr_projection_id q \<noteq> pid" for q
  proof -
    have "was_observed db' (fr_projection_id q) = was_observed db (fr_projection_id q)"
      using that(2) tabs by (simp add: was_observed_def new_inspection_def)
    moreover have "progress_ok db q" using that(1) assms(2) by (simp add: store_inv_def list_all_iff)
    ultimately show ?thesis by (simp add: progress_ok_def atts)
  qed
  ultimately show ?thesis using tabs by (auto simp: list_all_iff)
qed

lemma call_store_inv:
  assumes "store_inv db"
  shows "store_inv (call_store E c db)"
proof -
  have fleet: "fleet_inv (call_store E c db)"
    using fleet_writes_inv [OF call_store_writes] assms by (simp add: store_inv_def)
  have now: "list_all (progress_ok db) (db_projections db)" using assms by (simp add: store_inv_def)
  have "(\<lambda>t. list_all (progress_ok t) (db_projections t)) (call_store E c db)"
  proof (cases c)
    case (CallReserve F s now)
    show ?thesis unfolding CallReserve call_store.simps reserve_n7_projection_def
      by (rule transactional_snd) (rule now, erule reserve_progress [OF _ assms])
  next
    case (CallAttempt F x d g rv now')
    show ?thesis unfolding CallAttempt call_store.simps record_n7_projection_dispatch_attempt_def
      by (rule transactional_snd) (rule now, erule attempt_progress [OF _ assms])
  next
    case (CallRecover F x d g rv inspection now')
    show ?thesis unfolding CallRecover call_store.simps recover_n7_projection_from_inspection_def
      by (rule transactional_snd) (rule now, erule recover_progress [OF _ assms])
  next
    case (CallElsewhere ds gs bs es)
    show ?thesis using now progress_tables [of "call_store E c db" db] by (simp add: CallElsewhere)
  qed
  with fleet show ?thesis by (simp add: store_inv_def)
qed

lemma run_store_inv: "store_inv db \<Longrightarrow> store_inv (run_store E calls db)"
  by (induction calls arbitrary: db) (simp_all add: run_store_def call_store_inv)

lemma empty_store_inv: "empty_fleet db \<Longrightarrow> store_inv db"
  using empty_fleet_inv by (simp add: store_inv_def empty_fleet_def)

section \<open>A sample run, for the witnesses\<close>

definition sample_device :: "ProjectionStatus \<Rightarrow> Device" where
  "sample_device st = \<lparr>dv_device_id = TypedId 3, dv_network_id = TypedId 2, dv_display_name = ''node-7'',
     dv_membership_state = MSActive, dv_roles = Roles [Node], dv_provider_identity = None,
     dv_generations = DeviceGenerations_initial, dv_keryx_binding = None,
     dv_fleet_projection_status = st, dv_created_at = 0, dv_updated_at = 0, dv_revoked_at = None,
     dv_revocation_reason = None\<rparr>"

definition sample_store_env :: store_env where
  "sample_store_env = \<lparr>se_uuid = hex_uuid_ops, se_sha256 = (\<lambda>_. replicate 32 0),
     se_from_slice = (\<lambda>b. if b = [123, 125] then Some (JObject []) else None),
     se_to_vec = (\<lambda>v. if v = JObject [] then Some [123, 125] else None),
     se_read_device = (\<lambda>s. if s = ''Pending'' then Some (sample_device PSPending)
       else Some (sample_device PSNotRequested)),
     se_write_device = (\<lambda>d. Some (ProjectionStatus_str (dv_fleet_projection_status d))),
     se_rfc = (\<lambda>_. ''1970-01-01T00:00:00+00:00'')\<rparr>"

definition sample_uuid :: "char \<Rightarrow> string" where
  "sample_uuid c = replicate 8 c @ ''-'' @ replicate 4 c @ ''-'' @ replicate 4 c @ ''-'' @
     replicate 4 c @ ''-'' @ replicate 12 c"

definition sample_fresh :: "char \<Rightarrow> fresh_ids" where
  "sample_fresh c = \<lparr>fresh_projection = sample_uuid c, fresh_attempt = sample_uuid c,
     fresh_inspection = sample_uuid c, fresh_event = sample_uuid c, fresh_audit = sample_uuid c\<rparr>"

definition sample_submission :: N7ProjectionSubmission where
  "sample_submission = \<lparr>ns_operation_id = OperationId ''op-1'', ns_network_id = TypedId 2,
     ns_device_id = TypedId 3, ns_generation = Generation 1, ns_desired_body = [123, 125],
     ns_desired_hash = sha256_fingerprint sample_store_env [123, 125],
     ns_binding = \<lparr>np_binding_id = ''b-1'', np_authenticated_peer_id = ''peer-1'',
       np_binding_generation = Generation 1\<rparr>\<rparr>"

definition sample_db :: fleet_db where
  "sample_db = \<lparr>
     db_devices = [\<lparr>dr_device_id = id_display hex_uuid_ops (TypedId 3 :: DeviceId),
       dr_network_id = id_display hex_uuid_ops (TypedId 2 :: NetworkId),
       dr_fleet_projection_generation = 1, dr_fleet_projection_status = ''notrequested'',
       dr_record_json = ''NotRequested'', dr_updated_at = []\<rparr>],
     db_generations = [\<lparr>gr_device_id = id_display hex_uuid_ops (TypedId 3 :: DeviceId),
       gr_fleet_projection_generation = 1, gr_updated_at = []\<rparr>],
     db_bindings = [\<lparr>nb_binding_id = ''b-1'',
       nb_network_id = id_display hex_uuid_ops (TypedId 2 :: NetworkId),
       nb_device_id = id_display hex_uuid_ops (TypedId 3 :: DeviceId),
       nb_verified_peer_id = Some ''peer-1'', nb_generation = 1, nb_binding_state = ''active''\<rparr>],
     db_events = [], db_projections = [], db_operations = [], db_attempts = [],
     db_inspections = [], db_audit = []\<rparr>"

definition sample_reserve :: store_call where
  "sample_reserve = CallReserve (sample_fresh (CHR ''a'')) sample_submission 1000000"

definition sample_attempt :: store_call where
  "sample_attempt = CallAttempt (sample_fresh (CHR ''b'')) (OperationId ''op-1'') (TypedId 3)
     (Generation 1) 1 2000000"

definition sample_recover :: store_call where
  "sample_recover = CallRecover (sample_fresh (CHR ''c'')) (OperationId ''op-1'') (TypedId 3)
     (Generation 1) 2 (Observed [123, 125] (sha256_fingerprint sample_store_env [123, 125])) 3000000"

lemma fingerprint_column: "length (se_sha256 E b) = 32 \<Longrightarrow> hash_column (sha256_fingerprint E b)"
  using hex_text_lower [of "se_sha256 E b"] by (simp add: hash_column_def sha256_fingerprint_def)

lemma sample_env_simps [simp]:
  "se_uuid sample_store_env = hex_uuid_ops"
  "se_rfc sample_store_env t = ''1970-01-01T00:00:00+00:00''"
  "se_write_device sample_store_env d = Some (ProjectionStatus_str (dv_fleet_projection_status d))"
  "se_read_device sample_store_env s = (if s = ''Pending'' then Some (sample_device PSPending)
       else Some (sample_device PSNotRequested))"
  by (simp_all add: sample_store_env_def)

lemma sample_hash_column [simp]: "hash_column (sha256_fingerprint sample_store_env b)"
  by (rule fingerprint_column) (simp add: sample_store_env_def)

lemma sample_parses [simp]:
  "parse_NetworkId hex_uuid_ops (id_display hex_uuid_ops (TypedId 2 :: NetworkId)) = Inr (TypedId 2)"
  "parse_DeviceId hex_uuid_ops (id_display hex_uuid_ops (TypedId 3 :: DeviceId)) = Inr (TypedId 3)"
  by (simp_all add: uuid_id_parsers uuid_id_reparse [OF hex_uuid_laws])

lemma sample_uuid_column [simp]: "lower_hex_char c \<Longrightarrow> uuid_column (sample_uuid c)"
  by (simp add: uuid_column_def sample_uuid_def numeral_eq_Suc)

lemma sample_uuid_inj [simp]: "sample_uuid c = sample_uuid d \<longleftrightarrow> c = d"
  by (auto simp: sample_uuid_def numeral_eq_Suc)

lemma sample_safe [simp]:
  "bounded_safe 64 ''b-1''" "bounded_safe 255 ''b-1''" "bounded_safe 255 ''peer-1''" "bounded_safe 128 ''op-1''" "bounded_safe 128 ''op-2''"
  by (simp_all add: bounded_safe_def safe_id_byte_def is_ascii_alphanumeric_def is_ascii_digit_def
      byte_val_def)

lemma sample_hex [simp]: "lower_hex_char (CHR ''a'')" "lower_hex_char (CHR ''b'')" "lower_hex_char (CHR ''c'')"
  by (simp_all add: lower_hex_char_def byte_val_def is_ascii_digit_def)

lemma sample_next [simp]: "next_exact (Generation 1) = Inr (Generation 2)"
  by (simp add: next_exact_Inr)

definition sample_view :: "u64 \<Rightarrow> N7ProjectionState \<Rightarrow> N7ProjectionView" where
  "sample_view rv st = \<lparr>nv_projection_id = sample_uuid (CHR ''a''), nv_network_id = TypedId 2,
     nv_device_id = TypedId 3, nv_generation = Generation 1, nv_desired_body = [123, 125],
     nv_desired_hash = sha256_fingerprint sample_store_env [123, 125],
     nv_binding = ns_binding sample_submission, nv_revision = rv, nv_state = st\<rparr>"

lemma one_less_two_u64 [simp]: "\<not> (2 :: u64) \<le> 1"
  by (simp add: word_le_nat_alt)

lemmas store_eval =
  reserve_n7_projection_def record_n7_projection_dispatch_attempt_def
  recover_n7_projection_from_inspection_def transactional_def reserve_tx_def reserve_new_tx_def
  Let_def n7_matching_operation_tx_def bind_u64_def n7_operation_exists_tx_def
  sample_submission_def sample_db_def sample_fresh_def column_u64_def query_row_def
  n7_binding_is_active_tx_def active_binding_def insert_projection_def row_binding_active_def
  projection_check_def null_or_since_def state_check_def timestamp_millis_def
  n7_insert_operation_tx_def insert_operation_def operation_of_def operation_check_def
  n7_set_device_status_def ProjectionStatus_transition_def enum_transition_def
  domain_conflict_def sample_device_def sample_view_def desired_row_def
  append_n7_projection_audit_def insert_event_def insert_audit_def audit_subject_def
  audit_stage_def n7_advance_fleet_projection_generation_tx_def DeviceGenerations_initial_def
  Generation_initial_def advance_fleet_projection_def validate_advance_def
  advance_generation_row_def advance_device_row_def n7_projection_view_tx_def
  state_generation_def Generation_new_def N7BindingProvenance_new_def safe_identifier_def
  N7ProjectionState_parse_def call_store.simps n7_operation_projection_tx_def
  n7_current_attempt_id_tx_def n7_next_attempt_number_tx_def highest_attempt_def attempt_tx_def
  first_attempt_tx_def retry_attempt_tx_def new_attempt_def insert_attempt_def
  attempt_subject_def attempt_check_def update_projections_def projection_update_guard_def
  first_attempt_update_def next_attempt_update_def settling_update_def same_subject_def
  recover_tx_def new_inspection_def inspection_kind_def insert_inspection_def
  inspection_subject_def inspection_check_def settle_tx_def latest_inspection_def
  settled_row_def inspection_supports_def

lemma sample_db_empty: "empty_fleet sample_db"
  by (simp add: empty_fleet_def sample_db_def)

abbreviation sample_run :: "store_call list \<Rightarrow> fleet_db" where
  "sample_run calls \<equiv> run_store sample_store_env calls sample_db"

lemmas sample_calls = run_store_def sample_reserve_def sample_attempt_def sample_recover_def

section \<open>Properties of the store\<close>

text \<open>C5: Whatever calls reach the store, in whatever order and with whatever arguments, and
  whatever the other components write in between: every projection record is in the state its
  revision says; its attempts are numbered from one without gaps and its current attempt is the
  last of them; it is applied only when an authoritative observation made under its current
  attempt returned exactly the desired body and hash, and in conflict only when one returned
  something else; and no device has two records of one generation.\<close>
theorem projection_records_backed_by_evidence:
  assumes "empty_fleet start" "db = run_store E calls start" "r \<in> set (db_projections db)"
  shows "((fr_projection_state r, fr_revision r) \<in>
        {(''desired'', 1), (''attempted'', 2), (''applied'', 3), (''conflict'', 3)}) \<and>
    map fa_attempt_number (attempts_of db (fr_projection_id r)) =
      [1..int (length (attempts_of db (fr_projection_id r)))] \<and>
    (if fr_projection_state r = ''desired'' then attempts_of db (fr_projection_id r) = []
     else fr_current_attempt_id r = Some (fa_attempt_id (last (attempts_of db (fr_projection_id r))))) \<and>
    (fr_projection_state r = ''applied'' \<longrightarrow> (\<exists>i \<in> set (db_inspections db).
       fi_inspection_kind i = ''observed'' \<and> fr_current_attempt_id r = Some (fi_attempt_id i) \<and>
       fi_observed_body i = Some (fr_desired_body r) \<and> fi_observed_hash i = Some (fr_desired_hash r))) \<and>
    (fr_projection_state r = ''conflict'' \<longrightarrow> (\<exists>i \<in> set (db_inspections db).
       fi_inspection_kind i = ''observed'' \<and> fr_current_attempt_id r = Some (fi_attempt_id i) \<and>
       (fi_observed_body i \<noteq> Some (fr_desired_body r) \<or> fi_observed_hash i \<noteq> Some (fr_desired_hash r)))) \<and>
    (\<forall>q \<in> set (db_projections db). fr_device_id q = fr_device_id r \<and> fr_generation q = fr_generation r \<longrightarrow>
       q = r)"
proof -
  have inv: "store_inv db" unfolding assms(2) by (intro run_store_inv empty_store_inv assms(1))
  then have rows: "rows_ok db" and atts: "attempts_ok db"
    by (simp_all add: store_inv_def fleet_inv_def)
  have check: "projection_check r" and ev: "evidence db r" and prog: "progress_ok db r"
    using inv assms(3) by (simp_all add: store_inv_def fleet_inv_def rows_ok_def list_all_iff)
  have "(fr_projection_state r, fr_revision r) \<in>
      {(''desired'', 1), (''attempted'', 2), (''applied'', 3), (''conflict'', 3)}"
    using check by (auto simp: projection_check_def state_check_def)
  moreover have "map fa_attempt_number (attempts_of db (fr_projection_id r)) =
      [1..int (length (attempts_of db (fr_projection_id r)))]"
    using atts unfolding attempts_ok_def attempt_numbers_def attempts_of_def length_map by blast
  moreover have "if fr_projection_state r = ''desired'' then attempts_of db (fr_projection_id r) = []
     else fr_current_attempt_id r = Some (fa_attempt_id (last (attempts_of db (fr_projection_id r))))"
    using prog by (auto simp: progress_ok_def split: if_splits)
  moreover have "fr_projection_state r = ''applied'' \<or> fr_projection_state r = ''conflict'' \<longrightarrow>
      list_ex (inspection_supports db r (fr_projection_state r)) (db_inspections db)"
    using ev projection_state_revision [OF check] by (simp add: evidence_def)
  moreover have "q = r" if "q \<in> set (db_projections db)" "fr_device_id q = fr_device_id r"
    "fr_generation q = fr_generation r" for q
    using rows that assms(3) by (auto simp: rows_ok_def distinct_map inj_on_def)
  ultimately show ?thesis
    by (auto simp: list_ex_iff inspection_supports_def)
qed

theorem projection_records_backed_by_evidence_witness:
  "\<exists>r \<in> set (db_projections (sample_run [sample_reserve, sample_attempt, sample_recover])).
     fr_projection_state r = ''applied'' \<and> fr_revision r = 3 \<and>
     (\<exists>i \<in> set (db_inspections (sample_run [sample_reserve, sample_attempt, sample_recover])).
        fi_observed_body i = Some (fr_desired_body r))"
proof -
  let ?db = "sample_run [sample_reserve, sample_attempt, sample_recover]"
  have "map fr_projection_state (db_projections ?db) = [''applied'']"
    by (simp add: store_eval sample_calls)
  then obtain r where r: "r \<in> set (db_projections ?db)" "fr_projection_state r = ''applied''" by auto
  from projection_records_backed_by_evidence [OF sample_db_empty refl r(1)] r(2)
  have "fr_revision r = 3 \<and> (\<exists>i \<in> set (db_inspections ?db). fi_observed_body i = Some (fr_desired_body r))"
    by auto
  with r show ?thesis by blast
qed

text \<open>The store's history only grows: continuing any run keeps every projection record with
  its network, device, generation, body, hash and binding, never lowers its revision and never
  changes a settled record, and extends the operations, attempts, inspections and audit links
  by appending to them.\<close>
theorem projection_history_append_only:
  "fleet_extends (run_store E calls start) (run_store E (calls @ later) start)"
  unfolding run_store_append by (rule fleet_writes_extend) (rule run_store_writes)

lemma transactional_Inr:
  "transactional operation db = (Inr x, db') \<longleftrightarrow> operation db = Inr (x, db')"
  by (auto simp: transactional_def split: sum.splits)

lemma advance_effect:
  assumes "n7_advance_fleet_projection_generation_tx E d e now db = Inr db'"
  shows "uint (gen_get e) + 1 < 2 ^ 63 \<and>
    list_ex (\<lambda>g. gr_device_id g = id_display (se_uuid E) d \<and>
      gr_fleet_projection_generation g = uint (gen_get e)) (db_generations db) \<and>
    db_generations db' = map (\<lambda>g. if gr_device_id g = id_display (se_uuid E) d \<and>
        gr_fleet_projection_generation g = uint (gen_get e)
      then g\<lparr>gr_fleet_projection_generation := uint (gen_get e) + 1, gr_updated_at := se_rfc E now\<rparr>
      else g) (db_generations db)"
proof -
  obtain nxt dv mid where nxt: "next_exact e = Inr nxt"
    and row: "advance_generation_row E (id_display (se_uuid E) d) e nxt now db = Inr mid"
    and last: "advance_device_row E (id_display (se_uuid E) d) e nxt dv now mid = Inr db'"
    using assms by (auto simp: n7_advance_fleet_projection_generation_tx_def Let_def guard_simps)
  from nxt have "unat (gen_get nxt) = unat (gen_get e) + 1" by (simp add: next_exact_Inr)
  then have "int (unat (gen_get nxt)) = int (unat (gen_get e) + 1)" by (rule arg_cong)
  then have n: "uint (gen_get nxt) = uint (gen_get e) + 1" by simp
  let ?P = "\<lambda>g. gr_device_id g = id_display (se_uuid E) d \<and>
      gr_fleet_projection_generation g = uint (gen_get e)"
  have "uint (gen_get nxt) < 2 ^ 63 \<and> list_ex ?P (db_generations db) \<and>
      db_generations mid = map (\<lambda>g. if ?P g then g\<lparr>gr_fleet_projection_generation := uint (gen_get nxt),
        gr_updated_at := se_rfc E now\<rparr> else g) (db_generations db)"
    using row unfolding advance_generation_row_def Let_def and_then_eq_Inr bind_u64_Inr
    by (cases "list_ex ?P (db_generations db)") auto
  then show ?thesis unfolding advance_device_row_tables [OF last, THEN conjunct2] n .
qed

lemma list_ex_map_update:
  assumes "list_ex P xs" "ys = map (\<lambda>x. if P x then f x else x) xs" "\<And>x. P x \<Longrightarrow> Q (f x)"
  shows "list_ex Q ys"
  using assms by (induction xs arbitrary: ys) auto

text \<open>A reservation is fenced to the moment it was prepared for: a new record is written only
  while the submission's exact binding is active for that network, device and peer, only when
  the device's fleet generation is the submitted one, and only as the first record of that
  generation; it is written as desired with exactly the submitted body, hash and binding, its
  operation is recorded with it, and the device's fleet generation has then advanced by one.\<close>
theorem new_reservations_fenced:
  assumes "reserve_n7_projection E F s now db = (Inr (Reserved v), db')"
  shows "row_binding_active db (desired_row E F s now) \<and>
    list_ex (\<lambda>g. gr_device_id g = id_display (se_uuid E) (ns_device_id s) \<and>
      gr_fleet_projection_generation g = uint (gen_get (ns_generation s))) (db_generations db) \<and>
    list_all (\<lambda>q. (fr_device_id q, fr_generation q) \<noteq>
      (id_display (se_uuid E) (ns_device_id s), uint (gen_get (ns_generation s)))) (db_projections db) \<and>
    db_projections db' = db_projections db @ [desired_row E F s now] \<and>
    (\<exists>x. db_operations db' = db_operations db @ [x] \<and> operation_of x (desired_row E F s now) \<and>
      fo_operation_id x = operation_id_str (ns_operation_id s)) \<and>
    nv_state v = N7Desired \<and> nv_revision v = 1 \<and>
    list_ex (\<lambda>g. gr_device_id g = id_display (se_uuid E) (ns_device_id s) \<and>
      gr_fleet_projection_generation g = uint (gen_get (ns_generation s)) + 1) (db_generations db')"
proof -
  have "reserve_tx E F s now db = Inr (Reserved v, db')"
    using assms by (simp add: reserve_n7_projection_def transactional_Inr)
  then have "reserve_new_tx E F s now db = Inr (Reserved v, db')" by (cases rule: reserve_effect) auto
  then show ?thesis
  proof (cases rule: reserve_new_effect)
    case (reserved v' a b c d g)
    let ?row = "desired_row E F s now"
    obtain x where x: "insert_operation x a = Inr b" "operation_of x ?row"
      "fo_operation_id x = operation_id_str (ns_operation_id s)"
      using insert_operation_tx_effect(2) [OF reserved(3)] by (auto simp: operation_of_def desired_row_def)
    note st = set_status_tables [OF reserved(4)] and au = append_audit_effect(2) [OF reserved(5)]
      and adv = advance_tables [OF reserved(6)] and gen = advance_effect [OF reserved(6)]
    have gens: "db_generations d = db_generations db"
      using reserved(2) x(1) st au
      by (auto simp: insert_projection_def insert_operation_def guard_simps same_record_tables_def)
    have rows: "db_projections db' = db_projections db @ [?row]" "db_operations db' = db_operations db @ [x]"
      using reserved(2) x(1) st au adv
      by (auto simp: insert_projection_def insert_operation_def guard_simps same_projection_tables_def
          same_record_tables_def)
    have start: "row_binding_active db ?row" "list_all (\<lambda>q. fr_projection_id q \<noteq> fresh_projection F \<and>
        (fr_device_id q, fr_generation q) \<noteq>
        (id_display (se_uuid E) (ns_device_id s), uint (gen_get (ns_generation s)))) (db_projections db)"
      using reserved(2) by (auto simp: insert_projection_def guard_simps desired_row_def)
    from start(2) have none: "find (\<lambda>q. fr_projection_id q = fresh_projection F) (db_projections db) = None"
      by (auto simp: find_None_iff list_all_iff)
    from reserved(7) obtain r where
      r: "find (\<lambda>r. fr_projection_id r = fresh_projection F) (db_projections db') = Some r"
      "nv_revision v' = word_of_int (fr_revision r)"
      "N7ProjectionState_parse (fr_projection_state r) = Inr (nv_state v')"
      by (rule view_row)
    have "r = ?row" using r(1) none unfolding rows(1)
      by (auto simp: find_Some_iff find_None_iff nth_append desired_row_def split: if_splits)
    then have "nv_state v = N7Desired" "nv_revision v = 1" using r(2,3) reserved(1)
      by (auto simp: desired_row_def N7ProjectionState_parse_def)
    moreover have "list_ex (\<lambda>g. gr_device_id g = id_display (se_uuid E) (ns_device_id s) \<and>
      gr_fleet_projection_generation g = uint (gen_get (ns_generation s)) + 1) (db_generations db')"
      by (rule list_ex_map_update [OF gen [THEN conjunct2, THEN conjunct1]
            gen [THEN conjunct2, THEN conjunct2]]) simp
    moreover have "list_all (\<lambda>q. (fr_device_id q, fr_generation q) \<noteq>
      (id_display (se_uuid E) (ns_device_id s), uint (gen_get (ns_generation s)))) (db_projections db)"
      using start(2) by (auto simp: list_all_iff)
    ultimately show ?thesis using start(1) rows x gen unfolding gens by blast
  qed simp
qed

theorem new_reservations_fenced_witness:
  "\<exists>v db'. reserve_n7_projection sample_store_env (sample_fresh (CHR ''a'')) sample_submission 1000000
     sample_db = (Inr (Reserved v), db') \<and> nv_state v = N7Desired \<and>
     list_ex (\<lambda>g. gr_fleet_projection_generation g = 2) (db_generations db')"
proof -
  obtain o' db' where c: "reserve_n7_projection sample_store_env (sample_fresh (CHR ''a''))
      sample_submission 1000000 sample_db = (o', db')" by fastforce
  moreover have "fst (reserve_n7_projection sample_store_env (sample_fresh (CHR ''a''))
      sample_submission 1000000 sample_db) = Inr (Reserved (sample_view 1 N7Desired))"
    by (simp add: store_eval)
  ultimately have c: "reserve_n7_projection sample_store_env (sample_fresh (CHR ''a''))
      sample_submission 1000000 sample_db = (Inr (Reserved (sample_view 1 N7Desired)), db')" by simp
  from new_reservations_fenced [OF c] have "list_ex (\<lambda>g. gr_device_id g =
      id_display hex_uuid_ops (TypedId 3 :: DeviceId) \<and>
      gr_fleet_projection_generation g = 2) (db_generations db')" "nv_state (sample_view 1 N7Desired) = N7Desired"
    by (simp_all add: sample_submission_def)
  with c show ?thesis by (intro exI [of _ "sample_view 1 N7Desired"] exI [of _ db']) (auto simp: list_ex_iff)
qed

text \<open>The view of a record depends on the projection table only.\<close>

lemma view_cong:
  "db_projections db' = db_projections db \<Longrightarrow>
   n7_projection_view_tx E pid db' = n7_projection_view_tx E pid db"
  by (simp add: n7_projection_view_tx_def)

definition same_operation_text :: "store_env \<Rightarrow> N7ProjectionSubmission \<Rightarrow> operation_row \<Rightarrow> bool" where
  "same_operation_text E s x \<longleftrightarrow>
     fo_operation_id x = operation_id_str (ns_operation_id s) \<and>
     fo_network_id x = id_display (se_uuid E) (ns_network_id s) \<and>
     fo_device_id x = id_display (se_uuid E) (ns_device_id s) \<and>
     fo_generation x = uint (gen_get (ns_generation s)) \<and> fo_desired_body x = ns_desired_body s \<and>
     fo_desired_hash x = ns_desired_hash s \<and> fo_binding_id x = np_binding_id (ns_binding s) \<and>
     fo_authenticated_peer_id x = np_authenticated_peer_id (ns_binding s) \<and>
     fo_binding_generation x = uint (gen_get (np_binding_generation (ns_binding s)))"

lemma matching_operation:
  "n7_matching_operation_tx E s db =
     and_then (bind_u64 (gen_get (ns_generation s))) (\<lambda>_.
     and_then (bind_u64 (gen_get (np_binding_generation (ns_binding s)))) (\<lambda>_.
     Inr (map_option fo_projection_id (find (same_operation_text E s) (db_operations db)))))"
  by (auto simp: n7_matching_operation_tx_def bind_u64_def same_operation_text_def [abs_def])

lemma find_appended:
  "(\<And>y. y \<in> set xs \<Longrightarrow> \<not> P y) \<Longrightarrow> P x \<Longrightarrow> find P (xs @ [x]) = Some x"
  by (induction xs) auto

text \<open>After an accepted reservation the submission matches its own operation row.\<close>

lemma accepted_matches:
  assumes "reserve_tx E F s now db = Inr (out, db')" "out = Reserved v \<or> out = Replayed v"
  shows "\<exists>pid. n7_matching_operation_tx E s db' = Inr (Some pid) \<and>
    n7_projection_view_tx E pid db' = Inr v"
  using assms(1)
proof (cases rule: reserve_effect)
  case conflict
  then show ?thesis using assms(2) by simp
next
  case (replayed v' pid)
  then show ?thesis using assms(2) by auto
next
  case (joined v' r)
  obtain x where x: "insert_operation x db = Inr db'" "same_operation_text E s x"
    "fo_projection_id x = fr_projection_id r"
    using insert_operation_tx_effect(2) [OF joined(5)] by (auto simp: same_operation_text_def)
  have new: "\<not> same_operation_text E s y" if "y \<in> set (db_operations db)" for y
    using joined(3) that by (auto simp: n7_operation_exists_tx_def list_ex_iff same_operation_text_def)
  have "n7_matching_operation_tx E s db' = Inr (Some (fr_projection_id r))"
    using joined(2) x find_appended [where P = "same_operation_text E s", OF new x(2)]
    by (auto simp: matching_operation guard_simps insert_operation_def bind_u64_def split: if_splits)
  moreover have "n7_projection_view_tx E (fr_projection_id r) db' = Inr v'"
    using joined(4) x(1) by (auto simp: insert_operation_def guard_simps intro: trans [OF view_cong])
  ultimately show ?thesis using joined(1) assms(2) by auto
next
  case fresh
  from fresh(4) show ?thesis
  proof (cases rule: reserve_new_effect)
    case conflict
    then show ?thesis using assms(2) by simp
  next
    case (reserved v' a b c d g)
    obtain x where x: "insert_operation x a = Inr b" "same_operation_text E s x"
      "fo_projection_id x = fresh_projection F"
      using insert_operation_tx_effect(2) [OF reserved(3)] by (auto simp: same_operation_text_def)
    have ops: "db_operations db' = db_operations db @ [x]"
      using reserved(2) x(1) set_status_tables [OF reserved(4)] append_audit_effect(2) [OF reserved(5)]
        advance_tables [OF reserved(6)]
      by (auto simp: insert_projection_def insert_operation_def guard_simps same_projection_tables_def
          same_record_tables_def)
    have new: "\<not> same_operation_text E s y" if "y \<in> set (db_operations db)" for y
      using fresh(2) that by (auto simp: n7_operation_exists_tx_def list_ex_iff same_operation_text_def)
    have "n7_matching_operation_tx E s db' = Inr (Some (fresh_projection F))"
      using fresh(1) x(3) find_appended [where P = "same_operation_text E s", OF new x(2)]
      by (auto simp: matching_operation guard_simps ops bind_u64_def split: if_splits)
    then show ?thesis using reserved(1,7) assms(2) by auto
  qed
qed

text \<open>Reserving is idempotent and an operation identifier is spent on one submission: after a
  reservation was accepted, submitting it again answers the same record and changes nothing,
  at any time and with any fresh identifiers, and any other submission under the same
  operation identifier is refused as a conflict and changes nothing.\<close>
theorem reservations_idempotent:
  assumes "uuid_laws (se_uuid E)" "fleet_inv db"
    and "reserve_n7_projection E F s now db = (Inr out, db')" "out = Reserved v \<or> out = Replayed v"
    and "uint (gen_get (ns_generation t)) < 2 ^ 63"
    and "uint (gen_get (np_binding_generation (ns_binding t))) < 2 ^ 63"
    and "ns_operation_id t = ns_operation_id s"
  shows "reserve_n7_projection E F' t now' db' =
    (if t = s then (Inr (Replayed v), db') else (Inr ReservationConflict, db'))"
proof -
  have tx: "reserve_tx E F s now db = Inr (out, db')"
    using assms(3) by (simp add: reserve_n7_projection_def transactional_Inr)
  from accepted_matches [OF tx assms(4)] obtain pid where
    m: "n7_matching_operation_tx E s db' = Inr (Some pid)" "n7_projection_view_tx E pid db' = Inr v" by blast
  then obtain x where x: "x \<in> set (db_operations db')" "same_operation_text E s x"
    by (auto simp: matching_operation guard_simps dest!: find_Some_mem)
  have only: "y = x" if "y \<in> set (db_operations db')" "fo_operation_id y = fo_operation_id x" for y
  proof -
    have "operations_ok db'"
      using fleet_writes_inv [OF reserve_writes [OF tx] assms(2)] by (simp add: fleet_inv_def)
    then show ?thesis using that x(1) by (auto simp: operations_ok_def distinct_map inj_on_def)
  qed
  show ?thesis
  proof (cases "t = s")
    case True
    then show ?thesis
      using m by (simp add: reserve_n7_projection_def transactional_def reserve_tx_def)
  next
    case False
    have "same_operation_text E t x \<Longrightarrow> t = s"
    proof -
      assume tt: "same_operation_text E t x"
      have "id_uuid a = id_uuid b \<Longrightarrow> a = b" for a b :: "'k typed_id" by (cases a, cases b) simp
      then have inj: "id_display (se_uuid E) a = id_display (se_uuid E) b \<Longrightarrow> a = b" for a b :: "'k typed_id"
        using assms(1) unfolding uuid_laws_def id_display_def by (metis option.inject)
      show "t = s" using tt x(2) assms(7)
        by (auto simp: same_operation_text_def intro!: N7ProjectionSubmission.equality
            N7BindingProvenance.equality Generation.expand word_uint_eq_iff [THEN iffD2] dest: inj)
    qed
    then have "find (same_operation_text E t) (db_operations db') = None"
      using only x assms(7) False by (auto simp: find_None_iff same_operation_text_def)
    then have "n7_matching_operation_tx E t db' = Inr None"
      using assms(5,6) by (simp add: matching_operation bind_u64_def)
    moreover have "n7_operation_exists_tx (ns_operation_id t) db'"
      using x assms(7) by (auto simp: n7_operation_exists_tx_def list_ex_iff same_operation_text_def)
    ultimately show ?thesis using False
      by (simp add: reserve_n7_projection_def transactional_def reserve_tx_def)
  qed
qed

lemma sample_reserve_call:
  "\<exists>db'. reserve_n7_projection sample_store_env (sample_fresh (CHR ''a'')) sample_submission 1000000
     sample_db = (Inr (Reserved (sample_view 1 N7Desired)), db')"
proof -
  have "fst (reserve_n7_projection sample_store_env (sample_fresh (CHR ''a'')) sample_submission 1000000
     sample_db) = Inr (Reserved (sample_view 1 N7Desired))" by (simp add: store_eval)
  then show ?thesis by (metis prod.collapse)
qed

theorem reservations_idempotent_witness:
  "\<exists>db'. reserve_n7_projection sample_store_env (sample_fresh (CHR ''b'')) sample_submission 2000000 db'
      = (Inr (Replayed (sample_view 1 N7Desired)), db') \<and>
    reserve_n7_projection sample_store_env (sample_fresh (CHR ''b''))
      (sample_submission\<lparr>ns_desired_hash := ''x''\<rparr>) 2000000 db' = (Inr ReservationConflict, db')"
proof -
  from sample_reserve_call obtain db' where
    c: "reserve_n7_projection sample_store_env (sample_fresh (CHR ''a'')) sample_submission 1000000
     sample_db = (Inr (Reserved (sample_view 1 N7Desired)), db')" by blast
  have laws: "uuid_laws (se_uuid sample_store_env)" by (simp add: hex_uuid_laws)
  have small: "uint (gen_get (ns_generation sample_submission)) < 2 ^ 63"
    "uint (gen_get (np_binding_generation (ns_binding sample_submission))) < 2 ^ 63"
    by (simp_all add: sample_submission_def)
  have d: "sample_submission\<lparr>ns_desired_hash := ''x''\<rparr> \<noteq> sample_submission"
    by (simp add: sample_submission_def sha256_fingerprint_def)
  note idem = reservations_idempotent [OF laws empty_fleet_inv [OF sample_db_empty] c disjI1 [OF refl]]
  from idem [OF small refl, of "sample_fresh (CHR ''b'')" 2000000]
    idem [of "sample_submission\<lparr>ns_desired_hash := ''x''\<rparr>" "sample_fresh (CHR ''b'')" 2000000] small d
  show ?thesis by (intro exI [of _ db']) simp
qed

section \<open>Attempts and recoveries\<close>

lemma latest_inspection_mem: "latest_inspection rows = Some i \<Longrightarrow> i \<in> set rows"
proof (induction rows arbitrary: i rule: rev_induct)
  case (snoc x xs)
  then show ?case by (auto simp: latest_inspection_def split: option.splits if_splits)
qed (simp add: latest_inspection_def)

lemma opened_view_state:
  assumes "attempt_opens E x d g rv db pid v" "fleet_inv db"
    and "n7_operation_projection_tx E x d g db = Inr (fr_projection_id r)" "r \<in> set (db_projections db)"
  shows "pid = fr_projection_id r \<and> find (\<lambda>q. fr_projection_id q = pid) (db_projections db) = Some r \<and>
    N7ProjectionState_parse (fr_projection_state r) = Inr (nv_state v) \<and> uint rv = fr_revision r \<and>
    nv_desired_body v = fr_desired_body r \<and> nv_desired_hash v = fr_desired_hash r"
proof -
  from assms(1,2) obtain q where q: "find (\<lambda>r. fr_projection_id r = pid) (db_projections db) = Some q"
    "q \<in> set (db_projections db)" "fr_projection_id q = pid" "uint rv = fr_revision q"
    "N7ProjectionState_parse (fr_projection_state q) = Inr (nv_state v)"
    "nv_desired_body v = fr_desired_body q" "nv_desired_hash v = fr_desired_hash q"
    by (rule opened_row)
  have "pid = fr_projection_id r" using assms(1,3) by (simp add: attempt_opens_def)
  moreover from this have "q = r"
    using assms(2,4) q(2,3) by (auto simp: fleet_inv_def rows_ok_def distinct_map inj_on_def)
  ultimately show ?thesis using q by simp
qed

lemma recovery_effect:
  assumes "store_inv db" "r \<in> set (db_projections db)" "fr_projection_state r = ''attempted''"
    and "n7_operation_projection_tx E x d g db = Inr (fr_projection_id r)"
    and "inspection = Missing \<or> inspection = Unavailable \<or> observed E body = Inr inspection"
    and "recover_n7_projection_from_inspection E F x d g rv inspection now db = (Inr w, db')"
  shows "db_projections db' = (if inspection = Missing \<or> inspection = Unavailable then db_projections db
      else map (\<lambda>q. if fr_projection_id q = fr_projection_id r then settled_row
        (body = fr_desired_body r \<and> sha256_fingerprint E body = fr_desired_hash r) now r else q)
        (db_projections db)) \<and>
    nv_state w = (if inspection = Missing \<or> inspection = Unavailable then N7Attempted
      else if body = fr_desired_body r \<and> sha256_fingerprint E body = fr_desired_hash r then N7Applied
      else N7Conflict)"
proof -
  have inv: "fleet_inv db" using assms(1) by (simp add: store_inv_def)
  have tx: "recover_tx E F x d g rv inspection now db = Inr (w, db')"
    using assms(6) by (simp add: recover_n7_projection_from_inspection_def transactional_Inr)
  note row = opened_view_state [OF _ inv assms(4,2)]
  from tx show ?thesis
  proof (cases rule: recover_effect)
    case (replayed v pid)
    with row [OF replayed(1)] assms(3) show ?thesis by (auto simp: N7ProjectionState_parse_def)
  next
    case (noted v pid attempt_id)
    then have "db_projections db' = db_projections db" by (auto simp: insert_inspection_def guard_simps)
    with noted show ?thesis by auto
  next
    case (settled v pid attempt_id a b c i seen applied)
    let ?i = "new_inspection F pid x attempt_id (uint rv) inspection now"
    note rr = row [OF settled(1)]
    have obs: "inspection = Observed body (sha256_fingerprint E body)"
      using assms(5) settled(5) by (auto simp: observed_def guard_simps inspection_kind_def)
    from rr have found: "find (\<lambda>q. fr_projection_id q = pid) (db_projections db) = Some r"
      "fr_revision r = uint rv" by (blast, simp)
    note tabs = settled_tables [OF settled(4) settled(9-11) inv found(1) assms(3) found(2)]
    have a: "db_inspections a = db_inspections db @ [?i]"
      using settled(4) by (auto simp: insert_inspection_def guard_simps)
    have "i \<in> set (db_inspections db) \<or> i = ?i" "fi_projection_id i = pid"
      using latest_inspection_mem [OF settled(6)] unfolding set_filter a by auto
    moreover have "i \<notin> set (db_inspections db)"
    proof
      assume old: "i \<in> set (db_inspections db)"
      then have "inspection_check i" using inv by (simp add: fleet_inv_def inspections_ok_def)
      then have "fi_inspection_kind i = ''observed''" using settled(7) by (auto simp: inspection_check_def)
      then have "was_observed db pid" using old \<open>fi_projection_id i = pid\<close>
        by (auto simp: was_observed_def list_ex_iff)
      moreover have "progress_ok db r" using assms(1,2) by (simp add: store_inv_def list_all_iff)
      moreover have "fr_revision r = 2"
        using inv assms(2,3) projection_state_revision [of r] by (simp add: fleet_inv_def rows_ok_def list_all_iff)
      ultimately show False using rr by (simp add: progress_ok_def)
    qed
    ultimately have "seen = body" using settled(7) obs by (simp add: new_inspection_def)
    then have ap: "applied \<longleftrightarrow> body = fr_desired_body r \<and> sha256_fingerprint E body = fr_desired_hash r"
      using settled(8) rr by auto
    from settled(12) obtain q where q: "find (\<lambda>r. fr_projection_id r = pid) (db_projections db') = Some q"
      "N7ProjectionState_parse (fr_projection_state q) = Inr (nv_state w)" by (rule view_row)
    have "fr_projection_id (settled_row applied now r) = pid" using rr by (simp add: settled_row_def)
    then have "q = settled_row applied now r"
      using find_Some_mem [OF q(1)] tabs by auto
    then have "nv_state w = (if applied then N7Applied else N7Conflict)"
      using q(2) by (auto simp: settled_row_def N7ProjectionState_parse_def split: if_splits)
    then show ?thesis using tabs rr obs ap by simp
  qed
qed

text \<open>A recovery settles a projection by the authority's word alone: with an observation of a
  canonical body, an attempted record becomes applied exactly when the observed body is the
  desired one and its fingerprint the desired hash, and conflict otherwise; a missing record or
  an unavailable authority leaves every projection record as it was; and the other records
  never change.\<close>
theorem recovery_settles_by_observation:
  assumes "store_inv db" "r \<in> set (db_projections db)" "fr_projection_state r = ''attempted''"
    and "n7_operation_projection_tx E x d g db = Inr (fr_projection_id r)"
    and "inspection = Missing \<or> inspection = Unavailable \<or> observed E body = Inr inspection"
    and "recover_n7_projection_from_inspection E F x d g rv inspection now db = (Inr w, db')"
  shows "db_projections db' = (if inspection = Missing \<or> inspection = Unavailable then db_projections db
      else map (\<lambda>q. if fr_projection_id q = fr_projection_id r then settled_row
        (body = fr_desired_body r \<and> sha256_fingerprint E body = fr_desired_hash r) now r else q)
        (db_projections db)) \<and>
    nv_state w = (if inspection = Missing \<or> inspection = Unavailable then N7Attempted
      else if body = fr_desired_body r \<and> sha256_fingerprint E body = fr_desired_hash r then N7Applied
      else N7Conflict)"
  by (rule recovery_effect [OF assms])

text \<open>The sample store after its reservation and its attempt.\<close>

definition sample_attempted_db :: fleet_db where
  "sample_attempted_db = sample_run [sample_reserve, sample_attempt]"

lemma sample_attempted:
  "\<exists>r. db_projections sample_attempted_db = [r] \<and> fr_projection_state r = ''attempted'' \<and>
     fr_desired_body r = [123, 125] \<and> fr_desired_hash r = sha256_fingerprint sample_store_env [123, 125] \<and>
     n7_operation_projection_tx sample_store_env (OperationId ''op-1'') (TypedId 3) (Generation 1)
       sample_attempted_db = Inr (fr_projection_id r)"
  by (simp add: sample_attempted_db_def store_eval sample_calls)

lemma sample_attempted_inv: "store_inv sample_attempted_db"
  unfolding sample_attempted_db_def by (intro run_store_inv empty_store_inv sample_db_empty)

lemma sample_observed:
  "observed sample_store_env [123, 125] = Inr (Observed [123, 125] (sha256_fingerprint sample_store_env [123, 125]))"
  by (simp add: observed_def canonical_json_bytes_def sample_store_env_def is_object_def)

theorem recovery_settles_by_observation_witness:
  "\<exists>w db'. recover_n7_projection_from_inspection sample_store_env (sample_fresh (CHR ''c''))
      (OperationId ''op-1'') (TypedId 3) (Generation 1) 2
      (Observed [123, 125] (sha256_fingerprint sample_store_env [123, 125])) 3000000
      sample_attempted_db = (Inr w, db') \<and> nv_state w = N7Applied"
proof -
  let ?call = "recover_n7_projection_from_inspection sample_store_env (sample_fresh (CHR ''c''))
      (OperationId ''op-1'') (TypedId 3) (Generation 1) 2
      (Observed [123, 125] (sha256_fingerprint sample_store_env [123, 125])) 3000000 sample_attempted_db"
  obtain r where r: "db_projections sample_attempted_db = [r]" "fr_projection_state r = ''attempted''"
     "fr_desired_body r = [123, 125]" "fr_desired_hash r = sha256_fingerprint sample_store_env [123, 125]"
     "n7_operation_projection_tx sample_store_env (OperationId ''op-1'') (TypedId 3) (Generation 1)
       sample_attempted_db = Inr (fr_projection_id r)" using sample_attempted by blast
  have "is_ok (fst ?call)" by (simp add: sample_attempted_db_def store_eval sample_calls)
  then obtain w db' where c: "?call = (Inr w, db')" by (cases ?call) (auto simp: is_ok_iff)
  have mem: "r \<in> set (db_projections sample_attempted_db)" by (simp add: r(1))
  from recovery_settles_by_observation [OF sample_attempted_inv mem r(2,5) disjI2 [OF disjI2 [OF sample_observed]] c]
  have "nv_state w = N7Applied" using r(3,4) by simp
  with c show ?thesis by blast
qed

text \<open>No dispatch without evidence: a recorded attempt means that the record's exact binding was
  active at that moment, that the record was not settled and stood at the caller's revision, and
  that one more attempt row, under the caller's operation, was appended for it; afterwards the
  record is attempted and points to that row.\<close>
theorem attempts_recorded_before_dispatch:
  assumes "store_inv db"
    and "record_n7_projection_dispatch_attempt E F x d g rv now db = (Inr (AttemptRecorded w), db')"
  shows "\<exists>r \<in> set (db_projections db). \<exists>a. row_binding_active db r \<and> fr_revision r = uint rv \<and> fr_revision r < 3 \<and>
    n7_operation_projection_tx E x d g db = Inr (fr_projection_id r) \<and>
    db_attempts db' = db_attempts db @ [a] \<and> fa_projection_id a = fr_projection_id r \<and>
    fa_operation_id a = operation_id_str x \<and>
    fa_attempt_number a = int (length (attempts_of db (fr_projection_id r))) + 1 \<and>
    nv_state w = N7Attempted \<and> nv_revision w = 2 \<and> nv_projection_id w = fr_projection_id r \<and>
    (\<exists>r' \<in> set (db_projections db'). fr_projection_id r' = fr_projection_id r \<and>
       fr_projection_state r' = ''attempted'' \<and> fr_current_attempt_id r' = Some (fa_attempt_id a))"
proof -
  have tx: "attempt_tx E F x d g rv now db = Inr (AttemptRecorded w, db')"
    using assms(2) by (simp add: record_n7_projection_dispatch_attempt_def transactional_Inr)
  have inv: "fleet_inv db" using assms(1) by (simp add: store_inv_def)
  from recorded_effect [OF tx inv] obtain r r' number where r: "r \<in> set (db_projections db)"
    "n7_operation_projection_tx E x d g db = Inr (fr_projection_id r)"
    and rec: "recorded_attempt E F x now db db' rv w r r' number" by blast
  let ?a = "new_attempt F (fr_projection_id r) x number (uint rv) now"
  from rec have mem: "r' \<in> set (db_projections db')" using r(1) by (auto simp: recorded_attempt_def)
  from rec obtain q where q: "find (\<lambda>q. fr_projection_id q = fr_projection_id r) (db_projections db') = Some q"
    "nv_projection_id w = fr_projection_id r" "nv_revision w = word_of_int (fr_revision q)"
    "N7ProjectionState_parse (fr_projection_state q) = Inr (nv_state w)"
    unfolding recorded_attempt_def by (auto elim: view_row)
  have "q = r'" using find_Some_mem [OF q(1)] rec by (auto simp: recorded_attempt_def)
  then have w: "nv_state w = N7Attempted" "nv_revision w = 2"
    using q(3,4) rec by (auto simp: recorded_attempt_def N7ProjectionState_parse_def)
  have "number = int (length (attempts_of db (fr_projection_id r))) + 1"
    using rec highest_attempt_numbers [of db] inv
    by (simp add: recorded_attempt_def fleet_inv_def attempt_numbers_def attempts_of_def)
  with r rec w q(2) mem show ?thesis
    by (intro bexI [of _ r] exI [of _ ?a] conjI bexI [of _ r'])
      (simp_all add: recorded_attempt_def new_attempt_def)
qed

theorem attempts_recorded_before_dispatch_witness:
  "\<exists>w db' r. record_n7_projection_dispatch_attempt sample_store_env (sample_fresh (CHR ''b''))
      (OperationId ''op-1'') (TypedId 3) (Generation 1) 1 2000000 (sample_run [sample_reserve])
      = (Inr (AttemptRecorded w), db') \<and> nv_state w = N7Attempted \<and>
    row_binding_active (sample_run [sample_reserve]) r"
proof -
  let ?db = "sample_run [sample_reserve]"
  let ?call = "record_n7_projection_dispatch_attempt sample_store_env (sample_fresh (CHR ''b''))
      (OperationId ''op-1'') (TypedId 3) (Generation 1) 1 2000000 ?db"
  have inv: "store_inv ?db" by (intro run_store_inv empty_store_inv sample_db_empty)
  have "\<exists>w. fst ?call = Inr (AttemptRecorded w)" by (simp add: store_eval sample_calls)
  then obtain w db' where c: "?call = (Inr (AttemptRecorded w), db')" by (cases ?call) auto
  from attempts_recorded_before_dispatch [OF inv c] c show ?thesis by blast
qed

lemma foreign_inspection_refused:
  assumes "fleet_inv db" "r \<in> set (db_projections db)" "a \<in> set (db_attempts db)"
    and "fr_current_attempt_id r = Some (fa_attempt_id a)" "fa_operation_id a \<noteq> operation_id_str x"
    and "n7_current_attempt_id_tx (fr_projection_id r) db = Inr attempt_id"
  shows "insert_inspection (new_inspection F (fr_projection_id r) x attempt_id k inspection now) db \<noteq> Inr db'"
proof
  assume ins: "insert_inspection (new_inspection F (fr_projection_id r) x attempt_id k inspection now) db = Inr db'"
  from assms(6) obtain q where q: "q \<in> set (db_projections db)" "fr_projection_id q = fr_projection_id r"
    "fr_current_attempt_id q = Some attempt_id"
    by (auto simp: n7_current_attempt_id_tx_def guard_simps dest!: find_Some_mem)
  with assms(1,2) have "q = r" by (auto simp: fleet_inv_def rows_ok_def distinct_map inj_on_def)
  with q(3) assms(4) have id: "attempt_id = fa_attempt_id a" by simp
  from ins obtain b where b: "b \<in> set (db_attempts db)" "fa_attempt_id b = attempt_id"
    "fa_operation_id b = operation_id_str x"
    by (auto simp: insert_inspection_def guard_simps inspection_subject_def new_inspection_def list_ex_iff)
  with id assms(1,3) have "b = a" by (auto simp: fleet_inv_def attempts_ok_def distinct_map inj_on_def)
  with b(3) assms(5) show False by simp
qed

text \<open>C34: An inspection belongs to the operation that made the current attempt: recovering an
  attempted record under any other operation of the same record fails with a database error,
  whatever the authority answered, and leaves the store unchanged. An operation that joined an
  attempted record can therefore not settle it before it has recorded an attempt of its own.\<close>
theorem recovery_needs_attempting_operation:
  assumes "store_inv db" "r \<in> set (db_projections db)" "fr_projection_state r = ''attempted''"
    and "n7_operation_projection_tx E x d g db = Inr (fr_projection_id r)"
    and "a \<in> set (db_attempts db)" "fr_current_attempt_id r = Some (fa_attempt_id a)"
    and "fa_operation_id a \<noteq> operation_id_str x"
  shows "snd (recover_n7_projection_from_inspection E F x d g rv inspection now db) = db \<and>
    (\<exists>e. fst (recover_n7_projection_from_inspection E F x d g rv inspection now db) = Inl e)"
proof -
  have inv: "fleet_inv db" using assms(1) by (simp add: store_inv_def)
  have no: "recover_tx E F x d g rv inspection now db \<noteq> Inr (w, db')" for w db'
  proof
    assume "recover_tx E F x d g rv inspection now db = Inr (w, db')"
    then show False
    proof (cases rule: recover_effect)
      case (replayed v pid)
      with opened_view_state [OF replayed(1) inv assms(4,2)] assms(3) show False
        by (auto simp: N7ProjectionState_parse_def)
    next
      case (noted v pid attempt_id)
      then have "pid = fr_projection_id r" using assms(4) by (simp add: attempt_opens_def)
      with noted foreign_inspection_refused [OF inv assms(2,5-7)] show False by blast
    next
      case (settled v pid attempt_id b)
      then have "pid = fr_projection_id r" using assms(4) by (simp add: attempt_opens_def)
      with settled(3,4) foreign_inspection_refused [OF inv assms(2,5-7)] show False by blast
    qed
  qed
  show ?thesis
  proof (cases "recover_tx E F x d g rv inspection now db")
    case (Inl e)
    then show ?thesis by (simp add: recover_n7_projection_from_inspection_def transactional_def)
  next
    case (Inr z)
    then show ?thesis using no by (cases z) simp
  qed
qed

definition sample_joined :: N7ProjectionSubmission where
  "sample_joined = sample_submission\<lparr>ns_operation_id := OperationId ''op-2''\<rparr>"

definition sample_joined_db :: fleet_db where
  "sample_joined_db = sample_run [sample_reserve, sample_attempt,
     CallReserve (sample_fresh (CHR ''d'')) sample_joined 2500000]"

lemma sample_hex_d [simp]: "lower_hex_char (CHR ''d'')"
  by (simp add: lower_hex_char_def byte_val_def is_ascii_digit_def)

lemma sample_joined_row:
  "\<exists>r a. db_projections sample_joined_db = [r] \<and> fr_projection_state r = ''attempted'' \<and>
     db_attempts sample_joined_db = [a] \<and> fr_current_attempt_id r = Some (fa_attempt_id a) \<and>
     fa_operation_id a = ''op-1'' \<and>
     n7_operation_projection_tx sample_store_env (OperationId ''op-2'') (TypedId 3) (Generation 1)
       sample_joined_db = Inr (fr_projection_id r)"
  by (simp add: sample_joined_db_def sample_joined_def store_eval sample_calls)

theorem recovery_needs_attempting_operation_witness:
  "\<exists>e. fst (recover_n7_projection_from_inspection sample_store_env (sample_fresh (CHR ''c''))
      (OperationId ''op-2'') (TypedId 3) (Generation 1) 2
      (Observed [123, 125] (sha256_fingerprint sample_store_env [123, 125])) 3000000 sample_joined_db) = Inl e"
proof -
  obtain r a where r: "db_projections sample_joined_db = [r]" "fr_projection_state r = ''attempted''"
    "db_attempts sample_joined_db = [a]" "fr_current_attempt_id r = Some (fa_attempt_id a)"
    "fa_operation_id a = ''op-1''"
    "n7_operation_projection_tx sample_store_env (OperationId ''op-2'') (TypedId 3) (Generation 1)
       sample_joined_db = Inr (fr_projection_id r)" using sample_joined_row by blast
  have inv: "store_inv sample_joined_db"
    unfolding sample_joined_db_def by (intro run_store_inv empty_store_inv sample_db_empty)
  have m: "r \<in> set (db_projections sample_joined_db)" "a \<in> set (db_attempts sample_joined_db)"
    "fa_operation_id a \<noteq> operation_id_str (OperationId ''op-2'')" using r by simp_all
  from recovery_needs_attempting_operation [OF inv m(1) r(2,6) m(2) r(4) m(3)] show ?thesis by blast
qed

end
