(* ===== verification/Projection_Service.thy ===== *)
theory Projection_Service
  imports Projection_Store
begin

text \<open>
  The projection service of \<^verbatim>\<open>crates/nodescale-projection/src/lib.rs\<close>: one reconciliation of a
  desired Fleet projection against the durable store and the Fleet transport.

  The store is the record \<open>store_ops\<close> of the three transactions the service calls, and the
  locale \<open>projection_records\<close> states what the service relies on; \<open>Projection_Store\<close>
  provides both. The transport is what each of its requests answers. Between two store calls
  other connections may commit anything: \<open>sv_between\<close> is that interference. The trace keeps
  each request that leaves the service, and with a dispatch the database at that moment.

  Left out: the command queue, its thread and its runtime, which only hand one command at a
  time to \<open>reconcile_one\<close>.
\<close>

section \<open>Documents and bodies\<close>

datatype N7ProjectionOutcome = OutApplied | OutAlreadyApplied | OutRetryable | OutConflict

datatype N7ProductionError = ActorUnavailable | UnsupportedFleet | ProductionState string

definition apply_operation :: "FleetProjectionOperation \<Rightarrow> ApplyOperation" where
  "apply_operation x = (case x of FOUpsert \<Rightarrow> AOUpsert | FODisable \<Rightarrow> AODisable | FORemove \<Rightarrow> AORemove)"

text \<open>\<open>None\<close> is the panic of \<^verbatim>\<open>unreachable!\<close>.\<close>

fun wire_operation :: "Operation \<Rightarrow> GeneratedOperation option" where
  "wire_operation FleetHealth = Some GOHealth"
| "wire_operation FleetInventory = Some GOInventory"
| "wire_operation FleetMessage = Some GOMessage"
| "wire_operation FleetHermesRun = None"

fun collect_operations :: "Operation list \<Rightarrow> GeneratedOperation list option" where
  "collect_operations [] = Some []"
| "collect_operations (x # xs) =
     (case wire_operation x of None \<Rightarrow> None
      | Some y \<Rightarrow> map_option ((#) y) (collect_operations xs))"

definition generation_text :: "Generation \<Rightarrow> string" where
  "generation_text g = decimal (unat (gen_get g))"

definition projection_document ::
    "uuid_ops \<Rightarrow> (u8 list \<Rightarrow> u8 list) \<Rightarrow> N7FleetDesiredProjection \<Rightarrow> ProjectionDocument option" where
  "projection_document U sha desired =
     map_option (\<lambda>operations.
       ProjectionDocument_new sha (id_display U (fp_network_id desired))
         (id_display U (fp_device_id desired))
         \<lparr>pg_projection = generation_text (fp_projection_generation desired),
          pg_membership = generation_text (fp_membership_generation desired),
          pg_binding = generation_text (pv_binding_generation (fp_binding_provenance desired))\<rparr>
         (apply_operation (projection_operation desired)) operations
         (Provenance_authenticated (id_display U (fp_network_id desired))
            (id_display U (fp_device_id desired))
            (generation_text (fp_projection_generation desired))
            (id_display U (pv_binding_id (fp_binding_provenance desired)))
            (peer_id_str (pv_authenticated_peer_id (fp_binding_provenance desired)))))
       (collect_operations (grant_list (fp_generated_grants desired)))"

fun generated_state :: "FleetEnrollmentState \<Rightarrow> GeneratedStateKind" where
  "generated_state FEPending = GSActive"
| "generated_state FEDisabled = GSDisabled"
| "generated_state FERemoved = GSRemoved"

fun generated_state_name :: "GeneratedStateKind \<Rightarrow> string" where
  "generated_state_name GSActive = ''active''"
| "generated_state_name GSDisabled = ''disabled''"
| "generated_state_name GSRemoved = ''removed''"

text \<open>
  The object that \<^verbatim>\<open>json!\<close> builds from the parts; its map keeps the keys in order. The
  serializer's own message is left out of the error.
\<close>

definition generated_body_value ::
    "GeneratedStateKind \<Rightarrow> string \<Rightarrow> string \<Rightarrow> string \<Rightarrow> string \<Rightarrow> GeneratedOperation list \<Rightarrow>
     Provenance \<Rightarrow> json" where
  "generated_body_value state projection membership binding content_hash operations provenance =
     json_struct
       [(json_key ''state'', json_str (generated_state_name state)),
        (json_key ''projection_generation'', json_str projection),
        (json_key ''membership_generation'', json_str membership),
        (json_key ''binding_generation'', json_str binding),
        (json_key ''content_hash'', json_str content_hash),
        (json_key ''allowed_operations'',
           JArray (map (\<lambda>x. json_str (GeneratedOperation_wire x)) operations)),
        (json_key ''provenance'', provenance_value provenance)]"

definition generated_body_parts ::
    "(json \<Rightarrow> u8 list option) \<Rightarrow> GeneratedStateKind \<Rightarrow> string \<Rightarrow> string \<Rightarrow> string \<Rightarrow> string \<Rightarrow>
     GeneratedOperation list \<Rightarrow> Provenance \<Rightarrow> N7ProductionError + u8 list" where
  "generated_body_parts to_vec state projection membership binding content_hash operations provenance =
     ok_or (to_vec (generated_body_value state projection membership binding content_hash operations
       provenance)) (ProductionState ''serialize Fleet read-back'')"

definition expected_generated_body ::
    "(json \<Rightarrow> u8 list option) \<Rightarrow> ProjectionDocument \<Rightarrow> FleetEnrollmentState \<Rightarrow>
     N7ProductionError + u8 list" where
  "expected_generated_body to_vec d enrollment =
     generated_body_parts to_vec (generated_state enrollment) (pd_projection_generation d)
       (pd_membership_generation d) (pd_binding_generation d) (pd_content_hash d)
       (pd_generated_operations d) (pd_provenance d)"

definition generated_body ::
    "(json \<Rightarrow> u8 list option) \<Rightarrow> GeneratedState \<Rightarrow> N7ProductionError + u8 list" where
  "generated_body to_vec g =
     generated_body_parts to_vec (gs_state g) (gs_projection_generation g)
       (gs_membership_generation g) (gs_binding_generation g) (gs_content_hash g)
       (gs_allowed_operations g) (gs_provenance g)"

section \<open>The store and the transport\<close>

record 'db store_ops =
  sto_reserve :: "fresh_ids \<Rightarrow> N7ProjectionSubmission \<Rightarrow> DateTime \<Rightarrow> 'db \<Rightarrow>
    N7ProjectionReservationOutcome state_result \<times> 'db"
  sto_attempt :: "fresh_ids \<Rightarrow> OperationId \<Rightarrow> DeviceId \<Rightarrow> Generation \<Rightarrow> u64 \<Rightarrow> DateTime \<Rightarrow> 'db \<Rightarrow>
    N7ProjectionAttemptOutcome state_result \<times> 'db"
  sto_recover :: "fresh_ids \<Rightarrow> OperationId \<Rightarrow> DeviceId \<Rightarrow> Generation \<Rightarrow> u64 \<Rightarrow>
    N7AuthoritativeInspection \<Rightarrow> DateTime \<Rightarrow> 'db \<Rightarrow> N7ProjectionView state_result \<times> 'db"

text \<open>
  One reconciliation makes at most five store calls, one dispatch and two inspections: the
  clock, the fresh identifiers and the interference are indexed by the store call, the
  inspection answers by the inspection.
\<close>

record 'db service =
  sv_store :: "'db store_ops"
  sv_env :: store_env
  sv_show_state :: "StateError \<Rightarrow> string"
  sv_show_client :: "FleetClientError \<Rightarrow> string"
  sv_fresh :: "nat \<Rightarrow> fresh_ids"
  sv_clock :: "nat \<Rightarrow> DateTime"
  sv_between :: "nat \<Rightarrow> 'db \<Rightarrow> 'db"
  sv_capabilities :: "FleetClientError + Capabilities"
  sv_apply :: "ProjectionDocument \<Rightarrow> ApplyError + ApplyResult"
  sv_inspect :: "nat \<Rightarrow> InspectSelector \<Rightarrow> FleetClientError + InspectResult"

datatype 'db service_event =
    AskedCapabilities
  | Dispatched ProjectionDocument 'db
  | Inspected InspectSelector

definition state_error :: "'db service \<Rightarrow> StateError \<Rightarrow> N7ProductionError" where
  "state_error S e = ProductionState (sv_show_state S e)"

definition ensure_capabilities :: "'db service \<Rightarrow> N7ProductionError + unit" where
  "ensure_capabilities S =
     and_then (map_err (\<lambda>e. ProductionState (''Fleet capabilities: '' @ sv_show_client S e))
       (sv_capabilities S)) (\<lambda>capabilities.
     if list_all (\<lambda>required. required \<in> set (cap_kinds capabilities))
          [RKCapabilities, RKApply, RKInspect]
     then Inr () else Inl UnsupportedFleet)"

definition inspection_from_result ::
    "'db service \<Rightarrow> InspectResult \<Rightarrow> N7ProductionError + N7AuthoritativeInspection" where
  "inspection_from_result S result =
     (case ir_generated result of None \<Rightarrow> Inr Missing
      | Some generated \<Rightarrow>
          and_then (generated_body (se_to_vec (sv_env S)) generated)
            (\<lambda>body. map_err (state_error S) (observed (sv_env S) body)))"

definition inspect_selector :: "'db service \<Rightarrow> N7FleetDesiredProjection \<Rightarrow> InspectSelector" where
  "inspect_selector S desired =
     InspectSelector_new (id_display (se_uuid (sv_env S)) (fp_network_id desired))
       (id_display (se_uuid (sv_env S)) (fp_device_id desired))"

text \<open>An inspection request that fails in any way counts as an unavailable authority.\<close>

definition read_back ::
    "'db service \<Rightarrow> nat \<Rightarrow> N7FleetDesiredProjection \<Rightarrow> N7ProductionError + N7AuthoritativeInspection" where
  "read_back S n desired =
     (case sv_inspect S n (inspect_selector S desired) of
        Inr result \<Rightarrow> inspection_from_result S result
      | Inl _ \<Rightarrow> Inr Unavailable)"

type_synonym 'db outcome =
  "(N7ProductionError + N7ProjectionOutcome) \<times> 'db service_event list \<times> 'db"

definition recover_at ::
    "'db service \<Rightarrow> nat \<Rightarrow> OperationId \<Rightarrow> N7FleetDesiredProjection \<Rightarrow> u64 \<Rightarrow>
     N7AuthoritativeInspection \<Rightarrow> 'db \<Rightarrow> N7ProjectionView state_result \<times> 'db" where
  "recover_at S n operation_id desired revision inspection db =
     sto_recover (sv_store S) (sv_fresh S n) operation_id (fp_device_id desired)
       (fp_projection_generation desired) revision inspection (sv_clock S n) (sv_between S n db)"

definition attempt_at ::
    "'db service \<Rightarrow> nat \<Rightarrow> OperationId \<Rightarrow> N7FleetDesiredProjection \<Rightarrow> u64 \<Rightarrow> 'db \<Rightarrow>
     N7ProjectionAttemptOutcome state_result \<times> 'db" where
  "attempt_at S n operation_id desired revision db =
     sto_attempt (sv_store S) (sv_fresh S n) operation_id (fp_device_id desired)
       (fp_projection_generation desired) revision (sv_clock S n) (sv_between S n db)"

fun attempt_view :: "N7ProjectionAttemptOutcome \<Rightarrow> N7ProjectionView" where
  "attempt_view (AttemptRecorded v) = v"
| "attempt_view (AttemptReplayed v) = v"

fun settled_outcome :: "N7ProjectionState \<Rightarrow> N7ProjectionOutcome" where
  "settled_outcome N7Applied = OutApplied"
| "settled_outcome N7Conflict = OutConflict"
| "settled_outcome _ = OutRetryable"

text \<open>Whether an answer to apply leaves the possibility that Fleet saw the request.\<close>

definition may_have_reached :: "ApplyError + ApplyResult \<Rightarrow> bool" where
  "may_have_reached answer =
     (case answer of Inr _ \<Rightarrow> True | Inl AEAmbiguous \<Rightarrow> True | Inl AEProtocolRejected \<Rightarrow> True
      | Inl AEUnavailable \<Rightarrow> False | Inl AERejectedBeforeSend \<Rightarrow> False)"

text \<open>The retry of an attempt the authority does not know: attempt, dispatch, read back.\<close>

definition retry_dispatch ::
    "'db service \<Rightarrow> OperationId \<Rightarrow> N7FleetDesiredProjection \<Rightarrow> ProjectionDocument \<Rightarrow>
     N7ProjectionView \<Rightarrow> 'db \<Rightarrow> 'db outcome" where
  "retry_dispatch S operation_id desired document recovered db =
     (case attempt_at S 3 operation_id desired (nv_revision recovered) db of
        (Inl e, db) \<Rightarrow> (Inl (state_error S e), [], db)
      | (Inr out, db) \<Rightarrow>
          if nv_state (attempt_view out) \<noteq> N7Attempted
          then (Inl (ProductionState ''N7 retry attempt was not durable before apply''), [], db)
          else let dispatch = Dispatched document db in
            if \<not> may_have_reached (sv_apply S document) then (Inr OutRetryable, [dispatch], db)
            else let trace = [dispatch, Inspected (inspect_selector S desired)] in
              case read_back S 1 desired of
                Inl e \<Rightarrow> (Inl e, trace, db)
              | Inr inspection \<Rightarrow>
                  (case recover_at S 4 operation_id desired (nv_revision (attempt_view out)) inspection db of
                     (Inl e, db) \<Rightarrow> (Inl (state_error S e), trace, db)
                   | (Inr post, db) \<Rightarrow> (Inr (settled_outcome (nv_state post)), trace, db)))"

definition prefix_trace :: "'db service_event list \<Rightarrow> 'db outcome \<Rightarrow> 'db outcome" where
  "prefix_trace events r = (fst r, events @ fst (snd r), snd (snd r))"

definition inspect_and_recover ::
    "'db service \<Rightarrow> OperationId \<Rightarrow> N7FleetDesiredProjection \<Rightarrow> ProjectionDocument \<Rightarrow>
     N7ProjectionView \<Rightarrow> bool \<Rightarrow> 'db \<Rightarrow> 'db outcome" where
  "inspect_and_recover S operation_id desired document view retry_dispatch_allowed db =
     prefix_trace [Inspected (inspect_selector S desired)]
      (case read_back S 0 desired of
         Inl e \<Rightarrow> (Inl e, [], db)
       | Inr inspection \<Rightarrow>
           (case recover_at S 2 operation_id desired (nv_revision view) inspection db of
              (Inl e, db) \<Rightarrow> (Inl (state_error S e), [], db)
            | (Inr recovered, db) \<Rightarrow>
                (case nv_state recovered of
                   N7Applied \<Rightarrow> (Inr OutApplied, [], db)
                 | N7Conflict \<Rightarrow> (Inr OutConflict, [], db)
                 | _ \<Rightarrow>
                     if inspection = Missing \<and> retry_dispatch_allowed
                     then retry_dispatch S operation_id desired document recovered db
                     else (Inr OutRetryable, [], db))))"

definition first_dispatch ::
    "'db service \<Rightarrow> OperationId \<Rightarrow> N7FleetDesiredProjection \<Rightarrow> ProjectionDocument \<Rightarrow>
     N7ProjectionView \<Rightarrow> 'db \<Rightarrow> 'db outcome" where
  "first_dispatch S operation_id desired document view db =
     (case attempt_at S 1 operation_id desired (nv_revision view) db of
        (Inl e, db) \<Rightarrow> (Inl (state_error S e), [], db)
      | (Inr out, db) \<Rightarrow>
          let attempted = attempt_view out in
          if nv_state attempted = N7Applied then (Inr OutAlreadyApplied, [], db)
          else if nv_state attempted = N7Conflict then (Inr OutConflict, [], db)
          else if nv_state attempted \<noteq> N7Attempted
          then (Inl (ProductionState ''N7 attempt was not durable before apply''), [], db)
          else prefix_trace [Dispatched document db]
            (if may_have_reached (sv_apply S document)
             then inspect_and_recover S operation_id desired document attempted False db
             else (Inr OutRetryable, [], db)))"

definition service_submission ::
    "'db service \<Rightarrow> OperationId \<Rightarrow> N7FleetDesiredProjection \<Rightarrow> ProjectionDocument \<Rightarrow>
     N7ProductionError + N7ProjectionSubmission" where
  "service_submission S operation_id desired document =
     and_then (expected_generated_body (se_to_vec (sv_env S)) document (fp_enrollment_state desired))
       (\<lambda>desired_body.
     map_err (state_error S) (from_canonical (sv_env S) operation_id (fp_network_id desired)
       (fp_device_id desired) (fp_projection_generation desired) desired_body
       (id_display (se_uuid (sv_env S)) (pv_binding_id (fp_binding_provenance desired)))
       (peer_id_str (pv_authenticated_peer_id (fp_binding_provenance desired)))
       (pv_binding_generation (fp_binding_provenance desired))))"

definition reconcile_reserved ::
    "'db service \<Rightarrow> OperationId \<Rightarrow> N7FleetDesiredProjection \<Rightarrow> ProjectionDocument \<Rightarrow>
     N7ProjectionView \<Rightarrow> 'db \<Rightarrow> 'db outcome" where
  "reconcile_reserved S operation_id desired document view db =
     (case nv_state view of
        N7Applied \<Rightarrow> (Inr OutAlreadyApplied, [], db)
      | N7Conflict \<Rightarrow> (Inr OutConflict, [], db)
      | _ \<Rightarrow> prefix_trace [AskedCapabilities]
          (case ensure_capabilities S of
             Inl e \<Rightarrow> (Inl e, [], db)
           | Inr _ \<Rightarrow>
               if nv_state view = N7Attempted
               then inspect_and_recover S operation_id desired document view True db
               else first_dispatch S operation_id desired document view db))"

text \<open>The whole reconciliation; \<open>None\<close> is a panic.\<close>

definition reconcile_one ::
    "'db service \<Rightarrow> OperationId \<Rightarrow> N7FleetDesiredProjection \<Rightarrow> 'db \<Rightarrow> 'db outcome option" where
  "reconcile_one S operation_id desired db =
     map_option (\<lambda>document.
       case service_submission S operation_id desired document of
         Inl e \<Rightarrow> (Inl e, [], db)
       | Inr submission \<Rightarrow>
           (case sto_reserve (sv_store S) (sv_fresh S 0) submission (sv_clock S 0) (sv_between S 0 db) of
              (Inl e, db) \<Rightarrow> (Inl (state_error S e), [], db)
            | (Inr ReservationConflict, db) \<Rightarrow> (Inr OutConflict, [], db)
            | (Inr (Reserved view), db) \<Rightarrow> reconcile_reserved S operation_id desired document view db
            | (Inr (Replayed view), db) \<Rightarrow> reconcile_reserved S operation_id desired document view db))
       (projection_document (se_uuid (sv_env S)) (se_sha256 (sv_env S)) desired)"

section \<open>What the service relies on\<close>

text \<open>
  \<open>invar\<close> is the store's invariant, \<open>holds s\<close> that the submission \<open>s\<close> has its durable operation
  row, \<open>dispatchable s\<close> that the record of \<open>s\<close> is attempted under the operation of \<open>s\<close> and
  desires exactly the body and binding of \<open>s\<close>, \<open>settled s\<close> that the record of \<open>s\<close> is applied.
\<close>

locale projection_records =
  fixes store :: "'db store_ops"
    and env :: store_env
    and invar :: "'db \<Rightarrow> bool"
    and holds :: "N7ProjectionSubmission \<Rightarrow> 'db \<Rightarrow> bool"
    and dispatchable :: "N7ProjectionSubmission \<Rightarrow> 'db \<Rightarrow> bool"
    and applied :: "N7ProjectionSubmission \<Rightarrow> 'db \<Rightarrow> bool"
  assumes reserve_keeps: "invar db \<Longrightarrow> sto_reserve store F s now db = (r, db') \<Longrightarrow> invar db'"
    and reserve_holds: "invar db \<Longrightarrow> sto_reserve store F s now db = (Inr (Reserved v), db') \<or>
      sto_reserve store F s now db = (Inr (Replayed v), db') \<Longrightarrow>
      holds s db' \<and> (nv_state v = N7Attempted \<longrightarrow> nv_revision v = 2) \<and>
      (nv_state v = N7Desired \<longrightarrow> nv_revision v = 1) \<and> (nv_state v = N7Applied \<longrightarrow> applied s db')"
    and attempt_keeps: "invar db \<Longrightarrow> holds s db \<Longrightarrow>
      sto_attempt store F (ns_operation_id s) (ns_device_id s) (ns_generation s) rv now db = (ra, db') \<Longrightarrow>
      invar db' \<and> holds s db'"
    and attempt_records: "invar db \<Longrightarrow> holds s db \<Longrightarrow> rv = 1 \<or> rv = 2 \<Longrightarrow>
      sto_attempt store F (ns_operation_id s) (ns_device_id s) (ns_generation s) rv now db =
        (Inr attempted, db') \<Longrightarrow>
      nv_state (attempt_view attempted) = N7Attempted \<and>
      nv_revision (attempt_view attempted) = 2 \<and> dispatchable s db'"
    and recover_keeps: "invar db \<Longrightarrow> holds s db \<Longrightarrow>
      sto_recover store F (ns_operation_id s) (ns_device_id s) (ns_generation s) rv inspection now db = (rr, db') \<Longrightarrow>
      invar db' \<and> holds s db'"
    and recover_settles: "invar db \<Longrightarrow> holds s db \<Longrightarrow>
      ns_desired_hash s = sha256_fingerprint env (ns_desired_body s) \<Longrightarrow>
      inspection = Missing \<or> inspection = Unavailable \<or> observed env body = Inr inspection \<Longrightarrow>
      sto_recover store F (ns_operation_id s) (ns_device_id s) (ns_generation s) 2 inspection now db =
        (Inr w, db') \<Longrightarrow>
      nv_state w = (if inspection = Missing \<or> inspection = Unavailable then N7Attempted
        else if body = ns_desired_body s then N7Applied else N7Conflict) \<and>
      nv_revision w = (if inspection = Missing \<or> inspection = Unavailable then 2 else 3) \<and>
      (nv_state w = N7Applied \<longrightarrow> applied s db')"

text \<open>How an inspection reads against the body a submission desires.\<close>

datatype reading = ReadsMatch | ReadsDiffer | ReadsMissing | ReadsUnavailable

definition reading_of :: "u8 list \<Rightarrow> N7AuthoritativeInspection \<Rightarrow> reading" where
  "reading_of body inspection =
     (case inspection of Missing \<Rightarrow> ReadsMissing | Unavailable \<Rightarrow> ReadsUnavailable
      | Observed seen _ \<Rightarrow> if seen = body then ReadsMatch else ReadsDiffer)"

definition reading_at :: "'db service \<Rightarrow> nat \<Rightarrow> N7FleetDesiredProjection \<Rightarrow> u8 list \<Rightarrow> reading option" where
  "reading_at S n desired body =
     (case read_back S n desired of Inl _ \<Rightarrow> None | Inr i \<Rightarrow> Some (reading_of body i))"

text \<open>
  The abstract policy of a reconciliation: what it answers and how often it dispatches, from
  the durable state of the record, whether the dispatch may have reached Fleet, and the
  authority's readings. It never dispatches a settled record, never more than once, and an
  attempted record only after the authority said that it does not know it.
\<close>

fun read_outcome :: "reading \<Rightarrow> N7ProjectionOutcome" where
  "read_outcome ReadsMatch = OutApplied"
| "read_outcome ReadsDiffer = OutConflict"
| "read_outcome ReadsMissing = OutRetryable"
| "read_outcome ReadsUnavailable = OutRetryable"

definition after_dispatch :: "bool \<Rightarrow> reading option \<Rightarrow> (N7ProjectionOutcome \<times> nat) option" where
  "after_dispatch sent r =
     (if sent then map_option (\<lambda>r. (read_outcome r, 1)) r else Some (OutRetryable, 1))"

fun reconcile_policy ::
    "N7ProjectionState \<Rightarrow> bool \<Rightarrow> reading option \<Rightarrow> reading option \<Rightarrow> (N7ProjectionOutcome \<times> nat) option"
where
  "reconcile_policy N7Applied sent first second = Some (OutAlreadyApplied, 0)"
| "reconcile_policy N7Conflict sent first second = Some (OutConflict, 0)"
| "reconcile_policy N7Desired sent first second = after_dispatch sent first"
| "reconcile_policy N7Attempted sent first second =
     (case first of None \<Rightarrow> None
      | Some ReadsMissing \<Rightarrow> after_dispatch sent second
      | Some r \<Rightarrow> Some (read_outcome r, 0))"

fun reservation_policy ::
    "N7ProjectionReservationOutcome state_result \<Rightarrow> bool \<Rightarrow> reading option \<Rightarrow> reading option \<Rightarrow>
     (N7ProjectionOutcome \<times> nat) option"
where
  "reservation_policy (Inl e) sent first second = None"
| "reservation_policy (Inr ReservationConflict) sent first second = Some (OutConflict, 0)"
| "reservation_policy (Inr (Reserved v)) sent first second = reconcile_policy (nv_state v) sent first second"
| "reservation_policy (Inr (Replayed v)) sent first second = reconcile_policy (nv_state v) sent first second"

fun is_dispatch :: "'db service_event \<Rightarrow> bool" where
  "is_dispatch (Dispatched d db) = True"
| "is_dispatch AskedCapabilities = False"
| "is_dispatch (Inspected sel) = False"

definition dispatches :: "'db service_event list \<Rightarrow> nat" where
  "dispatches events = length (filter is_dispatch events)"

lemma dispatches_simps [simp]:
  "dispatches [] = 0"
  "dispatches (AskedCapabilities # es) = dispatches es"
  "dispatches (Inspected sel # es) = dispatches es"
  "dispatches (Dispatched d db # es) = Suc (dispatches es)"
  by (simp_all add: dispatches_def)

definition good_dispatches :: "('db \<Rightarrow> bool) \<Rightarrow> ProjectionDocument \<Rightarrow> 'db service_event list \<Rightarrow> bool" where
  "good_dispatches ready document events \<longleftrightarrow>
     (\<forall>e \<in> set events. case e of Dispatched d db \<Rightarrow> d = document \<and> ready db | _ \<Rightarrow> True)"

lemma good_dispatches_simps [simp]:
  "good_dispatches ready document []"
  "good_dispatches ready document (AskedCapabilities # es) = good_dispatches ready document es"
  "good_dispatches ready document (Inspected sel # es) = good_dispatches ready document es"
  "good_dispatches ready document (Dispatched d db # es) \<longleftrightarrow>
     d = document \<and> ready db \<and> good_dispatches ready document es"
  by (auto simp: good_dispatches_def)

lemma prefix_trace_simps [simp]:
  "prefix_trace es (r, ts, db) = (r, es @ ts, db)"
  by (simp add: prefix_trace_def)

text \<open>Where a submission of the service comes from: it names the desired record and hashes its body.\<close>

lemma service_submission_fields:
  assumes "service_submission S x desired document = Inr s"
  shows "ns_operation_id s = x \<and> ns_device_id s = fp_device_id desired \<and>
    ns_network_id s = fp_network_id desired \<and> ns_generation s = fp_projection_generation desired \<and>
    ns_desired_hash s = sha256_fingerprint (sv_env S) (ns_desired_body s) \<and>
    expected_generated_body (se_to_vec (sv_env S)) document (fp_enrollment_state desired) =
      Inr (ns_desired_body s)"
  using assms by (auto simp: service_submission_def from_canonical_def guard_simps)

text \<open>What a read-back can be: nothing, or a canonical body with its own fingerprint.\<close>

lemma read_back_observed:
  assumes "read_back S n desired = Inr inspection"
  shows "inspection = Missing \<or> inspection = Unavailable \<or>
    (\<exists>body. observed (sv_env S) body = Inr inspection \<and>
       inspection = Observed body (sha256_fingerprint (sv_env S) body))"
  using assms
  by (auto simp: read_back_def inspection_from_result_def observed_def guard_simps
      split: sum.splits option.splits)

context projection_records
begin

text \<open>A service on this store whose interference keeps the invariant and the operation rows.\<close>

definition serves :: "'db service \<Rightarrow> N7FleetDesiredProjection \<Rightarrow> ProjectionDocument \<Rightarrow>
    OperationId \<Rightarrow> N7ProjectionSubmission \<Rightarrow> bool" where
  "serves S desired document x s \<longleftrightarrow>
     sv_store S = store \<and> sv_env S = env \<and> service_submission S x desired document = Inr s \<and>
     (\<forall>n db. invar db \<longrightarrow> invar (sv_between S n db)) \<and>
     (\<forall>n db. invar db \<and> holds s db \<longrightarrow> holds s (sv_between S n db))"

lemma attempt_at_facts:
  assumes "serves S desired document x s" "invar db" "holds s db"
    and "attempt_at S n x desired rv db = (r, db')"
  shows "invar db' \<and> holds s db' \<and> (\<forall>out. r = Inr out \<and> (rv = 1 \<or> rv = 2) \<longrightarrow>
    nv_state (attempt_view out) = N7Attempted \<and> nv_revision (attempt_view out) = 2 \<and> dispatchable s db')"
proof -
  have at: "sto_attempt store (sv_fresh S n) (ns_operation_id s) (ns_device_id s) (ns_generation s) rv
      (sv_clock S n) (sv_between S n db) = (r, db')"
    and b: "invar (sv_between S n db)" "holds s (sv_between S n db)"
    using assms service_submission_fields [of S x desired document s]
    by (auto simp: serves_def attempt_at_def)
  then show ?thesis using attempt_keeps [OF b at] attempt_records [OF b] by blast
qed

lemma recover_at_facts:
  assumes "serves S desired document x s" "invar db" "holds s db"
    and "read_back S k desired = Inr inspection" "recover_at S n x desired 2 inspection db = (r, db')"
  shows "invar db' \<and> holds s db' \<and> (\<forall>w. r = Inr w \<longrightarrow>
    settled_outcome (nv_state w) = read_outcome (reading_of (ns_desired_body s) inspection) \<and>
    (inspection = Missing \<or> inspection = Unavailable \<longrightarrow> nv_state w = N7Attempted \<and> nv_revision w = 2) \<and>
    (inspection \<noteq> Missing \<and> inspection \<noteq> Unavailable \<longrightarrow> nv_state w = N7Applied \<or> nv_state w = N7Conflict) \<and>
    (nv_state w = N7Applied \<longrightarrow> applied s db'))"
proof -
  note fields = service_submission_fields [of S x desired document s]
  have at: "sto_recover store (sv_fresh S n) (ns_operation_id s) (ns_device_id s) (ns_generation s) 2
      inspection (sv_clock S n) (sv_between S n db) = (r, db')"
    and b: "invar (sv_between S n db)" "holds s (sv_between S n db)"
    and h: "ns_desired_hash s = sha256_fingerprint env (ns_desired_body s)"
    using assms fields by (auto simp: serves_def recover_at_def)
  have kinds: "inspection = Missing \<or> inspection = Unavailable \<or>
      (\<exists>body. observed env body = Inr inspection \<and>
        inspection = Observed body (sha256_fingerprint env body))"
    using read_back_observed [OF assms(4)] assms(1) by (simp add: serves_def)
  show ?thesis
  proof (intro conjI allI impI)
    show "invar db'" "holds s db'" using recover_keeps [OF b at] by simp_all
  next
    fix w assume r: "r = Inr w"
    from kinds obtain body where k: "inspection = Missing \<or> inspection = Unavailable \<or>
        observed env body = Inr inspection"
      and o: "inspection \<noteq> Missing \<Longrightarrow> inspection \<noteq> Unavailable \<Longrightarrow>
        inspection = Observed body (sha256_fingerprint env body)" by blast
    note law = recover_settles [OF b h k at [unfolded r]]
    show "settled_outcome (nv_state w) = read_outcome (reading_of (ns_desired_body s) inspection)"
      using law o by (cases inspection) (auto simp: reading_of_def split: if_splits)
    show "nv_state w = N7Attempted" "nv_revision w = 2" if "inspection = Missing \<or> inspection = Unavailable"
      using law that by auto
    show "nv_state w = N7Applied \<or> nv_state w = N7Conflict" if "inspection \<noteq> Missing \<and> inspection \<noteq> Unavailable"
      using law that by auto
    show "applied s db'" if "nv_state w = N7Applied" using law that by simp
  qed
qed

text \<open>The statement every stage of a reconciliation satisfies.\<close>

definition follows ::
    "N7ProjectionSubmission \<Rightarrow> ProjectionDocument \<Rightarrow> (N7ProjectionOutcome \<times> nat) option \<Rightarrow> 'db outcome \<Rightarrow> bool"
where
  "follows s document policy r \<longleftrightarrow>
     (case r of (answer, events, db) \<Rightarrow>
        invar db \<and> good_dispatches (dispatchable s) document events \<and> dispatches events \<le> 1 \<and>
        (\<forall>out. answer = Inr out \<longrightarrow> policy = Some (out, dispatches events) \<and>
           (out = OutApplied \<or> out = OutAlreadyApplied \<longrightarrow> applied s db \<and> holds s db)))"

lemma retry_dispatch_follows:
  assumes "serves S desired document x s" "invar db" "holds s db" "nv_revision recovered = 2"
  shows "follows s document (after_dispatch (may_have_reached (sv_apply S document))
      (reading_at S 1 desired (ns_desired_body s)))
    (retry_dispatch S x desired document recovered db)"
proof -
  obtain a db1 where at: "attempt_at S 3 x desired 2 db = (a, db1)" by fastforce
  note facts = attempt_at_facts [OF assms(1-3) at]
  show ?thesis
  proof (cases a)
    case (Inl e)
    then show ?thesis using facts by (simp add: retry_dispatch_def assms(4) at follows_def)
  next
    case (Inr out)
    with facts have f: "invar db1" "holds s db1" "nv_state (attempt_view out) = N7Attempted"
      "nv_revision (attempt_view out) = 2" "dispatchable s db1" by auto
    show ?thesis
    proof (cases "may_have_reached (sv_apply S document)")
      case False
      then show ?thesis
        by (simp add: retry_dispatch_def assms(4) at Inr f follows_def after_dispatch_def Let_def)
    next
      case sent: True
      show ?thesis
      proof (cases "read_back S (Suc 0) desired")
        case (Inl e)
        then show ?thesis
          by (simp add: retry_dispatch_def assms(4) at Inr f follows_def Let_def sent)
      next
        case rb: (Inr inspection)
        obtain w db2 where rec: "recover_at S 4 x desired 2 inspection db1 = (w, db2)" by fastforce
        note g = recover_at_facts [OF assms(1) f(1,2) rb rec]
        show ?thesis
        proof (cases w)
          case (Inl e)
          then show ?thesis using g
            by (simp add: retry_dispatch_def assms(4) at Inr f follows_def Let_def sent rb rec)
        next
          case w: (Inr v)
          have "settled_outcome (nv_state v) = OutApplied \<Longrightarrow> nv_state v = N7Applied"
            "settled_outcome (nv_state v) \<noteq> OutAlreadyApplied"
            by (cases "nv_state v"; simp)+
          then show ?thesis using g w
            by (simp add: retry_dispatch_def assms(4) at Inr f follows_def Let_def sent rb rec
                after_dispatch_def reading_at_def)
        qed
      qed
    qed
  qed
qed

lemma inspect_and_recover_follows:
  assumes "serves S desired document x s" "invar db" "holds s db" "nv_revision view = 2"
  shows "follows s document
    (if again then reconcile_policy N7Attempted (may_have_reached (sv_apply S document))
         (reading_at S 0 desired (ns_desired_body s)) (reading_at S 1 desired (ns_desired_body s))
     else map_option (\<lambda>r. (read_outcome r, 0)) (reading_at S 0 desired (ns_desired_body s)))
    (inspect_and_recover S x desired document view again db)"
proof (cases "read_back S 0 desired")
  case (Inl e)
  then show ?thesis using assms(2) by (simp add: inspect_and_recover_def follows_def)
next
  case rb: (Inr inspection)
  obtain w db1 where rec: "recover_at S 2 x desired 2 inspection db = (w, db1)" by fastforce
  note g = recover_at_facts [OF assms(1-3) rb rec]
  have read: "reading_at S 0 desired (ns_desired_body s) = Some (reading_of (ns_desired_body s) inspection)"
    by (simp add: reading_at_def rb)
  show ?thesis
  proof (cases w)
    case (Inl e)
    then show ?thesis using g by (simp add: inspect_and_recover_def follows_def rb rec assms(4))
  next
    case w: (Inr v)
    show ?thesis
    proof (cases "inspection = Missing \<and> again")
      case True
      then have v: "nv_state v = N7Attempted" "nv_revision v = 2" "invar db1" "holds s db1"
        using g w by auto
      from True have m: "inspection = Missing" and again by simp_all
      have step: "inspect_and_recover S x desired document view True db =
          prefix_trace [Inspected (inspect_selector S desired)] (retry_dispatch S x desired document v db1)"
        by (simp add: inspect_and_recover_def rb [unfolded m] rec [unfolded m] w v assms(4))
      obtain q ts d where r: "retry_dispatch S x desired document v db1 = (q, ts, d)"
        by (cases "retry_dispatch S x desired document v db1")
      from retry_dispatch_follows [OF assms(1) v(3,4,2)] show ?thesis
        using \<open>again\<close> by (simp add: step r follows_def read m reading_of_def)
    next
      case False
      let ?r = "reading_of (ns_desired_body s) inspection"
      have out: "inspect_and_recover S x desired document view again db =
          (Inr (settled_outcome (nv_state v)), [Inspected (inspect_selector S desired)], db1)"
        using False by (cases "nv_state v") (auto simp: inspect_and_recover_def rb rec w assms(4))
      have "settled_outcome (nv_state v) = read_outcome ?r" using g w by blast
      moreover have "settled_outcome (nv_state v) = OutApplied \<Longrightarrow> applied s db1"
        using g w by (cases "nv_state v") auto
      moreover have "settled_outcome (nv_state v) \<noteq> OutAlreadyApplied" by (cases "nv_state v") simp_all
      moreover have "invar db1" "holds s db1" using g by blast+
      moreover have "again \<Longrightarrow> ?r \<noteq> ReadsMissing"
        using False by (cases inspection) (auto simp: reading_of_def)
      ultimately show ?thesis unfolding out follows_def read
        by (cases ?r) auto
    qed
  qed
qed

lemma first_dispatch_follows:
  assumes "serves S desired document x s" "invar db" "holds s db" "nv_revision view = 1"
  shows "follows s document (reconcile_policy N7Desired (may_have_reached (sv_apply S document))
      (reading_at S 0 desired (ns_desired_body s)) second)
    (first_dispatch S x desired document view db)"
proof -
  obtain a db1 where at: "attempt_at S 1 x desired 1 db = (a, db1)" by fastforce
  note facts = attempt_at_facts [OF assms(1-3) at]
  show ?thesis
  proof (cases a)
    case (Inl e)
    then show ?thesis using at facts by (simp add: first_dispatch_def assms(4) follows_def)
  next
    case (Inr out)
    with facts have f: "invar db1" "holds s db1" "nv_state (attempt_view out) = N7Attempted"
      "nv_revision (attempt_view out) = 2" "dispatchable s db1" by auto
    have step: "first_dispatch S x desired document view db = prefix_trace [Dispatched document db1]
        (if may_have_reached (sv_apply S document)
         then inspect_and_recover S x desired document (attempt_view out) False db1
         else (Inr OutRetryable, [], db1))"
      using at Inr f(3) by (simp add: first_dispatch_def assms(4) Let_def)
    have none: "dispatches (fst (snd (inspect_and_recover S x desired document (attempt_view out) False db1))) = 0"
      by (auto simp: inspect_and_recover_def prefix_trace_def split: sum.splits prod.splits N7ProjectionState.splits)
    show ?thesis
    proof (cases "may_have_reached (sv_apply S document)")
      case False
      then show ?thesis using f by (simp add: step follows_def after_dispatch_def)
    next
      case True
      obtain q ts d where r: "inspect_and_recover S x desired document (attempt_view out) False db1 = (q, ts, d)"
        by (cases "inspect_and_recover S x desired document (attempt_view out) False db1")
      from inspect_and_recover_follows [OF assms(1) f(1,2,4), of False] none True f(5) show ?thesis
        by (auto simp: step r follows_def after_dispatch_def)
    qed
  qed
qed

lemma reconcile_reserved_follows:
  assumes "serves S desired document x s" "invar db" "holds s db"
    and "nv_state view = N7Attempted \<Longrightarrow> nv_revision view = 2"
    and "nv_state view = N7Desired \<Longrightarrow> nv_revision view = 1"
    and "nv_state view = N7Applied \<Longrightarrow> applied s db"
  shows "follows s document (reconcile_policy (nv_state view) (may_have_reached (sv_apply S document))
      (reading_at S 0 desired (ns_desired_body s)) (reading_at S 1 desired (ns_desired_body s)))
    (reconcile_reserved S x desired document view db)"
proof (cases "ensure_capabilities S")
  case (Inl e)
  then show ?thesis using assms(2,3,6)
    by (cases "nv_state view") (simp_all add: reconcile_reserved_def follows_def)
next
  case caps: (Inr u)
  have asked: "follows s document policy r \<Longrightarrow> follows s document policy (prefix_trace [AskedCapabilities] r)"
    for policy r by (cases r) (simp add: follows_def)
  show ?thesis
  proof (cases "nv_state view")
    case N7Desired
    with assms(5) asked [OF first_dispatch_follows [OF assms(1-3)]] show ?thesis
      by (simp add: reconcile_reserved_def caps)
  next
    case N7Attempted
    with assms(4) asked [OF inspect_and_recover_follows [OF assms(1-3), of view True]] show ?thesis
      by (simp add: reconcile_reserved_def caps)
  qed (use assms(2,3,6) in \<open>simp_all add: reconcile_reserved_def follows_def\<close>)
qed

text \<open>A whole reconciliation, by the answer of its reservation.\<close>

lemma reconcile_one_follows:
  assumes "sv_store S = store" "sv_env S = env" "invar db"
    and "\<And>n db. invar db \<Longrightarrow> invar (sv_between S n db)"
    and "\<And>s n db. invar db \<Longrightarrow> holds s db \<Longrightarrow> holds s (sv_between S n db)"
    and "projection_document (se_uuid env) (se_sha256 env) desired = Some document"
    and "service_submission S x desired document = Inr s"
    and "sto_reserve store (sv_fresh S 0) s (sv_clock S 0) (sv_between S 0 db) = (reserved, db0)"
  shows "\<exists>r. reconcile_one S x desired db = Some r \<and> follows s document
    (reservation_policy reserved (may_have_reached (sv_apply S document))
      (reading_at S 0 desired (ns_desired_body s)) (reading_at S 1 desired (ns_desired_body s))) r"
proof -
  have S: "serves S desired document x s"
    using assms(1,2,4,5,7) by (simp add: serves_def)
  have b: "invar (sv_between S 0 db)" using assms(3,4) by simp
  have i0: "invar db0" using reserve_keeps [OF b assms(8)] .
  note one = reconcile_one_def assms(1,2,6,7,8)
  note law = reserve_holds [OF b]
  show ?thesis
  proof (cases reserved)
    case (Inl e)
    then show ?thesis using i0 by (simp add: one follows_def)
  next
    case (Inr out)
    show ?thesis
    proof (cases out)
      case (Reserved v)
      with law assms(8) Inr have l: "holds s db0 \<and> (nv_state v = N7Attempted \<longrightarrow> nv_revision v = 2) \<and>
        (nv_state v = N7Desired \<longrightarrow> nv_revision v = 1) \<and> (nv_state v = N7Applied \<longrightarrow> applied s db0)" by blast
      then show ?thesis using reconcile_reserved_follows [OF S i0, of v] by (simp add: one Inr Reserved)
    next
      case (Replayed v)
      with law assms(8) Inr have l: "holds s db0 \<and> (nv_state v = N7Attempted \<longrightarrow> nv_revision v = 2) \<and>
        (nv_state v = N7Desired \<longrightarrow> nv_revision v = 1) \<and> (nv_state v = N7Applied \<longrightarrow> applied s db0)" by blast
      then show ?thesis using reconcile_reserved_follows [OF S i0, of v] by (simp add: one Inr Replayed)
    next
      case ReservationConflict
      then show ?thesis using i0 by (simp add: one Inr follows_def)
    qed
  qed
qed

end

section \<open>The store of the model provides these laws\<close>

definition store_of :: "store_env \<Rightarrow> fleet_db store_ops" where
  "store_of E = \<lparr>sto_reserve = reserve_n7_projection E,
     sto_attempt = record_n7_projection_dispatch_attempt E,
     sto_recover = recover_n7_projection_from_inspection E\<rparr>"

lemma store_of_simps [simp]:
  "sto_reserve (store_of E) = reserve_n7_projection E"
  "sto_attempt (store_of E) = record_n7_projection_dispatch_attempt E"
  "sto_recover (store_of E) = recover_n7_projection_from_inspection E"
  by (simp_all add: store_of_def)

definition names_record :: "store_env \<Rightarrow> N7ProjectionSubmission \<Rightarrow> projection_row \<Rightarrow> bool" where
  "names_record E s r \<longleftrightarrow>
     fr_network_id r = id_display (se_uuid E) (ns_network_id s) \<and>
     fr_device_id r = id_display (se_uuid E) (ns_device_id s) \<and>
     fr_generation r = uint (gen_get (ns_generation s)) \<and> fr_desired_body r = ns_desired_body s \<and>
     fr_desired_hash r = ns_desired_hash s \<and> fr_binding_id r = np_binding_id (ns_binding s) \<and>
     fr_authenticated_peer_id r = np_authenticated_peer_id (ns_binding s) \<and>
     fr_binding_generation r = uint (gen_get (np_binding_generation (ns_binding s)))"

definition operation_held :: "store_env \<Rightarrow> N7ProjectionSubmission \<Rightarrow> fleet_db \<Rightarrow> bool" where
  "operation_held E s db \<longleftrightarrow> list_ex (same_operation_text E s) (db_operations db)"

text \<open>The record of \<open>s\<close> is attempted, and its current attempt is one of the operation of \<open>s\<close>.\<close>

definition attempt_current :: "store_env \<Rightarrow> N7ProjectionSubmission \<Rightarrow> fleet_db \<Rightarrow> bool" where
  "attempt_current E s db \<longleftrightarrow>
     list_ex (\<lambda>r. names_record E s r \<and> fr_projection_state r = ''attempted'' \<and>
       list_ex (\<lambda>a. fr_current_attempt_id r = Some (fa_attempt_id a) \<and>
         fa_projection_id a = fr_projection_id r \<and>
         fa_operation_id a = operation_id_str (ns_operation_id s)) (db_attempts db)) (db_projections db)"

text \<open>The record of \<open>s\<close> is applied, on the evidence of an inspection row.\<close>

definition record_applied :: "store_env \<Rightarrow> N7ProjectionSubmission \<Rightarrow> fleet_db \<Rightarrow> bool" where
  "record_applied E s db \<longleftrightarrow>
     list_ex (\<lambda>r. names_record E s r \<and> fr_projection_state r = ''applied'' \<and>
       list_ex (inspection_supports db r ''applied'') (db_inspections db)) (db_projections db)"

lemma find_unique: "distinct (map f xs) \<Longrightarrow> x \<in> set xs \<Longrightarrow> find (\<lambda>y. f y = f x) xs = Some x"
  by (induction xs) (auto simp: image_iff)

lemma held_record:
  assumes "store_inv db" "operation_held E s db"
  obtains r where "r \<in> set (db_projections db)" "names_record E s r"
    "n7_operation_projection_tx E (ns_operation_id s) (ns_device_id s) (ns_generation s) db =
       Inr (fr_projection_id r)"
proof -
  obtain y where y: "y \<in> set (db_operations db)" "same_operation_text E s y"
    using assms(2) by (auto simp: operation_held_def list_ex_iff)
  then obtain r where r: "r \<in> set (db_projections db)" "operation_of y r"
    using assms(1) by (auto simp: store_inv_def fleet_inv_def links_ok_def list_all_iff list_ex_iff)
  have "find (\<lambda>z. fo_operation_id z = operation_id_str (ns_operation_id s)) (db_operations db) = Some y"
    using find_unique [of fo_operation_id "db_operations db" y] y assms(1)
    by (simp add: store_inv_def fleet_inv_def operations_ok_def same_operation_text_def)
  then have "n7_operation_projection_tx E (ns_operation_id s) (ns_device_id s) (ns_generation s) db =
      Inr (fr_projection_id r)"
    using y(2) r(2) by (simp add: n7_operation_projection_tx_def same_operation_text_def
        operation_of_def column_u64_def)
  moreover have "names_record E s r"
    using y(2) r(2) by (simp add: names_record_def same_operation_text_def operation_of_def)
  ultimately show thesis using that r(1) by blast
qed

lemma viewed_row:
  assumes "store_inv db" "r \<in> set (db_projections db)"
    and "n7_projection_view_tx E (fr_projection_id r) db = Inr v"
  shows "N7ProjectionState_parse (fr_projection_state r) = Inr (nv_state v) \<and>
    (nv_state v = N7Desired \<longrightarrow> nv_revision v = 1) \<and> (nv_state v = N7Attempted \<longrightarrow> nv_revision v = 2) \<and>
    (nv_state v = N7Applied \<or> nv_state v = N7Conflict \<longrightarrow> nv_revision v = 3) \<and>
    (nv_state v = N7Applied \<longrightarrow> list_ex (inspection_supports db r ''applied'') (db_inspections db))"
proof -
  have ok: "rows_ok db" using assms(1) by (simp add: store_inv_def fleet_inv_def)
  obtain q where q: "find (\<lambda>q. fr_projection_id q = fr_projection_id r) (db_projections db) = Some q"
    "nv_revision v = word_of_int (fr_revision q)"
    "N7ProjectionState_parse (fr_projection_state q) = Inr (nv_state v)"
    using assms(3) by (rule view_row)
  have "q = r" using find_unique [of fr_projection_id "db_projections db" r] assms(2) ok q(1)
    by (simp add: rows_ok_def)
  moreover have "projection_check r" "evidence db r"
    using ok assms(2) by (simp_all add: rows_ok_def list_all_iff)
  ultimately show ?thesis using q(2,3) projection_state_revision [of r]
    by (auto simp: parsed_state evidence_def)
qed

lemma held_extends:
  "fleet_write\<^sup>*\<^sup>* db db' \<Longrightarrow> operation_held E s db \<Longrightarrow> operation_held E s db'"
  using fleet_writes_extend [of db db']
  by (auto simp: operation_held_def list_ex_iff fleet_extends_def prefix_def)

text \<open>Every store call keeps the invariant and the operation rows.\<close>

lemma call_keeps:
  assumes "store_inv db" "call_store E c db = db'"
  shows "store_inv db'" and "operation_held E s db \<Longrightarrow> operation_held E s db'"
  using call_store_inv [OF assms(1)] held_extends [OF call_store_writes] assms(2) by auto

lemma reserved_record:
  assumes inv: "store_inv db"
    and res: "reserve_n7_projection E F s now db = (Inr out, db')" "out = Reserved v \<or> out = Replayed v"
  shows "operation_held E s db' \<and> (nv_state v = N7Attempted \<longrightarrow> nv_revision v = 2) \<and>
    (nv_state v = N7Desired \<longrightarrow> nv_revision v = 1) \<and> (nv_state v = N7Applied \<longrightarrow> record_applied E s db')"
proof -
  have inv': "store_inv db'" using call_keeps(1) [OF inv, of E "CallReserve F s now" db'] res(1) by simp
  have "reserve_tx E F s now db = Inr (out, db')"
    using res(1) by (simp add: reserve_n7_projection_def transactional_Inr)
  from accepted_matches [OF this res(2)] obtain pid y where
    v: "n7_projection_view_tx E pid db' = Inr v" and y: "y \<in> set (db_operations db')"
      "same_operation_text E s y" "fo_projection_id y = pid"
    by (auto simp: matching_operation guard_simps dest!: find_Some_mem)
  then have held: "operation_held E s db'" by (auto simp: operation_held_def list_ex_iff)
  obtain r where r: "r \<in> set (db_projections db')" "operation_of y r"
    using inv' y(1) by (auto simp: store_inv_def fleet_inv_def links_ok_def list_all_iff list_ex_iff)
  then have names: "names_record E s r" "fr_projection_id r = pid"
    using y by (simp_all add: names_record_def same_operation_text_def operation_of_def)
  have v': "n7_projection_view_tx E (fr_projection_id r) db' = Inr v" using v names(2) by simp
  note view = viewed_row [OF inv' r(1) v']
  have "record_applied E s db'" if st: "nv_state v = N7Applied"
  proof -
    have "N7ProjectionState_parse (fr_projection_state r) = Inr N7Applied" using view st by simp
    then show ?thesis using view st names(1) r(1)
      by (auto simp: record_applied_def list_ex_iff parsed_state)
  qed
  with view held show ?thesis by simp
qed

lemma recorded_current:
  assumes inv: "store_inv db" and held: "operation_held E s db" and rv: "rv = 1 \<or> rv = 2"
    and att: "record_n7_projection_dispatch_attempt E F (ns_operation_id s) (ns_device_id s)
      (ns_generation s) rv now db = (Inr out, db')"
  shows "nv_state (attempt_view out) = N7Attempted \<and> nv_revision (attempt_view out) = 2 \<and>
    attempt_current E s db'"
proof -
  have tx: "attempt_tx E F (ns_operation_id s) (ns_device_id s) (ns_generation s) rv now db = Inr (out, db')"
    using att by (simp add: record_n7_projection_dispatch_attempt_def transactional_Inr)
  have fleet: "fleet_inv db" and inv': "store_inv db'"
    using inv call_keeps(1) [OF inv, of E "CallAttempt F (ns_operation_id s) (ns_device_id s) (ns_generation s) rv now"]
      att by (simp_all add: store_inv_def)
  obtain r where r: "r \<in> set (db_projections db)" "names_record E s r"
    "n7_operation_projection_tx E (ns_operation_id s) (ns_device_id s) (ns_generation s) db =
       Inr (fr_projection_id r)"
    using held_record [OF inv held] .
  show ?thesis
  proof (cases out)
    case (AttemptReplayed v)
    with tx obtain pid where v: "attempt_opens E (ns_operation_id s) (ns_device_id s) (ns_generation s) rv db pid v"
      "nv_state v = N7Applied \<or> nv_state v = N7Conflict" by (cases rule: attempt_effect) auto
    from opened_view_state [OF v(1) fleet r(3,1)] v
    have "n7_projection_view_tx E (fr_projection_id r) db = Inr v" "nv_revision v = rv"
      by (simp_all add: attempt_opens_def)
    with viewed_row [OF inv r(1)] v(2) rv show ?thesis by auto
  next
    case (AttemptRecorded w)
    from recorded_effect [OF tx [unfolded AttemptRecorded] fleet] obtain q q' number where
      q: "q \<in> set (db_projections db)" "recorded_attempt E F (ns_operation_id s) now db db' rv w q q' number"
      "fr_projection_id q = fr_projection_id r" using r(3) by auto
    have "q = r" using fleet r(1) q(1,3) by (auto simp: fleet_inv_def rows_ok_def distinct_map inj_on_def)
    note rec = q(2) [unfolded this recorded_attempt_def]
    have mem: "q' \<in> set (db_projections db')" "fr_projection_id q' = fr_projection_id r"
      using rec r(1) by auto
    obtain r' where r': "r' \<in> set (db_projections db')" "row_evolves r r'"
      using extends_row [OF fleet_writes_extend [OF attempt_writes [OF tx]] r(1)] by blast
    have "r' = q'" using inv' mem r' 
      by (auto simp: store_inv_def fleet_inv_def rows_ok_def distinct_map inj_on_def row_evolves_def)
    then have "names_record E s q'" using r(2) r'(2)
      by (simp add: names_record_def row_evolves_def same_subject_def)
    with mem rec have "attempt_current E s db'"
      by (auto simp: attempt_current_def list_ex_iff new_attempt_def)
    moreover have "nv_state w = N7Attempted \<and> nv_revision w = 2"
    proof -
      have "n7_projection_view_tx E (fr_projection_id q') db' = Inr w" using rec mem(2) by simp
      from viewed_row [OF inv' mem(1) this] rec show ?thesis by (simp add: N7ProjectionState_parse_def)
    qed
    ultimately show ?thesis by (simp add: AttemptRecorded)
  qed
qed

lemma recovered_record:
  assumes inv: "store_inv db" and held: "operation_held E s db"
    and hash: "ns_desired_hash s = sha256_fingerprint E (ns_desired_body s)"
    and insp: "inspection = Missing \<or> inspection = Unavailable \<or> observed E body = Inr inspection"
    and rec: "recover_n7_projection_from_inspection E F (ns_operation_id s) (ns_device_id s)
      (ns_generation s) 2 inspection now db = (Inr w, db')"
  shows "nv_state w = (if inspection = Missing \<or> inspection = Unavailable then N7Attempted
      else if body = ns_desired_body s then N7Applied else N7Conflict) \<and>
    nv_revision w = (if inspection = Missing \<or> inspection = Unavailable then 2 else 3) \<and>
    (nv_state w = N7Applied \<longrightarrow> record_applied E s db')"
proof -
  have tx: "recover_tx E F (ns_operation_id s) (ns_device_id s) (ns_generation s) 2 inspection now db = Inr (w, db')"
    using rec by (simp add: recover_n7_projection_from_inspection_def transactional_Inr)
  have fleet: "fleet_inv db" and inv': "store_inv db'"
    using inv call_keeps(1) [OF inv, of E "CallRecover F (ns_operation_id s) (ns_device_id s) (ns_generation s) 2 inspection now"]
      rec by (simp_all add: store_inv_def)
  obtain r where r: "r \<in> set (db_projections db)" "names_record E s r"
    "n7_operation_projection_tx E (ns_operation_id s) (ns_device_id s) (ns_generation s) db =
       Inr (fr_projection_id r)"
    using held_record [OF inv held] .
  from tx obtain pid v where v: "attempt_opens E (ns_operation_id s) (ns_device_id s) (ns_generation s) 2 db pid v"
    "n7_projection_view_tx E pid db' = Inr w"
  proof (cases rule: recover_effect)
    case (noted v pid attempt_id)
    then have "n7_projection_view_tx E pid db' = n7_projection_view_tx E pid db"
      by (intro view_cong) (auto simp: insert_inspection_def guard_simps)
    with noted that show ?thesis by (simp add: attempt_opens_def)
  qed (auto simp: attempt_opens_def intro: that)
  note row = opened_view_state [OF v(1) fleet r(3,1)]
  have st: "fr_projection_state r = ''attempted''"
  proof -
    have "projection_check r" using fleet r(1) by (simp add: fleet_inv_def rows_ok_def list_all_iff)
    then show ?thesis using row projection_state_revision [of r] by simp
  qed
  have nw: "nv_state w = (if inspection = Missing \<or> inspection = Unavailable then N7Attempted
      else if body = ns_desired_body s then N7Applied else N7Conflict)"
    using recovery_effect [OF inv r(1) st r(3) insp rec] r(2) hash by (auto simp: names_record_def)
  obtain r' where r': "r' \<in> set (db_projections db')" "row_evolves r r'"
    using extends_row [OF fleet_writes_extend [OF recover_writes [OF tx]] r(1)] by blast
  have v': "n7_projection_view_tx E (fr_projection_id r') db' = Inr w"
    using v(2) row r'(2) by (simp add: row_evolves_def)
  note view = viewed_row [OF inv' r'(1) v']
  have "record_applied E s db'" if ap: "nv_state w = N7Applied"
  proof -
    have "N7ProjectionState_parse (fr_projection_state r') = Inr N7Applied" using view ap by simp
    then show ?thesis using view ap r(2) r'
      by (auto simp: record_applied_def list_ex_iff parsed_state names_record_def row_evolves_def same_subject_def)
  qed
  with nw view show ?thesis by (auto split: if_splits)
qed

interpretation store: projection_records "store_of E" E store_inv "operation_held E"
    "attempt_current E" "record_applied E" for E
proof
  fix db db' :: fleet_db and F s now r v rv ra attempted inspection rr body w
  show "store_inv db'" if "store_inv db" "sto_reserve (store_of E) F s now db = (r, db')"
    using call_keeps(1) [OF that(1), of E "CallReserve F s now" db'] that(2) by simp
  show "operation_held E s db' \<and> (nv_state v = N7Attempted \<longrightarrow> nv_revision v = 2) \<and>
      (nv_state v = N7Desired \<longrightarrow> nv_revision v = 1) \<and> (nv_state v = N7Applied \<longrightarrow> record_applied E s db')"
    if "store_inv db" "sto_reserve (store_of E) F s now db = (Inr (Reserved v), db') \<or>
      sto_reserve (store_of E) F s now db = (Inr (Replayed v), db')"
    using that reserved_record [of db E F s now] by auto
  show "store_inv db' \<and> operation_held E s db'" if "store_inv db" "operation_held E s db"
    "sto_attempt (store_of E) F (ns_operation_id s) (ns_device_id s) (ns_generation s) rv now db = (ra, db')"
    using call_keeps [OF that(1), of E "CallAttempt F (ns_operation_id s) (ns_device_id s) (ns_generation s) rv now" db']
      that by simp
  show "nv_state (attempt_view attempted) = N7Attempted \<and> nv_revision (attempt_view attempted) = 2 \<and>
      attempt_current E s db'" if "store_inv db" "operation_held E s db" "rv = 1 \<or> rv = 2"
    "sto_attempt (store_of E) F (ns_operation_id s) (ns_device_id s) (ns_generation s) rv now db =
      (Inr attempted, db')"
    using recorded_current [OF that(1-3), of F now attempted db'] that(4) by simp
  show "store_inv db' \<and> operation_held E s db'" if "store_inv db" "operation_held E s db"
    "sto_recover (store_of E) F (ns_operation_id s) (ns_device_id s) (ns_generation s) rv inspection now db = (rr, db')"
    using call_keeps [OF that(1), of E "CallRecover F (ns_operation_id s) (ns_device_id s) (ns_generation s) rv inspection now" db']
      that by simp
  show "nv_state w = (if inspection = Missing \<or> inspection = Unavailable then N7Attempted
        else if body = ns_desired_body s then N7Applied else N7Conflict) \<and>
      nv_revision w = (if inspection = Missing \<or> inspection = Unavailable then 2 else 3) \<and>
      (nv_state w = N7Applied \<longrightarrow> record_applied E s db')" if "store_inv db" "operation_held E s db"
    "ns_desired_hash s = sha256_fingerprint E (ns_desired_body s)"
    "inspection = Missing \<or> inspection = Unavailable \<or> observed E body = Inr inspection"
    "sto_recover (store_of E) F (ns_operation_id s) (ns_device_id s) (ns_generation s) 2 inspection now db =
      (Inr w, db')"
    using recovered_record [OF that(1-4), of F now w db'] that(5) by simp
qed

section \<open>Reconciliations over the durable store\<close>

text \<open>
  A service on the durable store, while other connections may run any store calls and the other
  components may write to their own tables between any two of its calls.
\<close>

definition shared_store :: "store_env \<Rightarrow> fleet_db service \<Rightarrow> bool" where
  "shared_store E S \<longleftrightarrow> sv_store S = store_of E \<and> sv_env S = E \<and>
     (\<forall>n db. \<exists>calls. sv_between S n db = run_store E calls db)"

lemma shared_keeps:
  assumes "shared_store E S"
  shows "store_inv db \<Longrightarrow> store_inv (sv_between S n db)"
    and "operation_held E s db \<Longrightarrow> operation_held E s (sv_between S n db)"
proof -
  obtain calls where c: "sv_between S n db = run_store E calls db"
    using assms by (auto simp: shared_store_def)
  show "store_inv db \<Longrightarrow> store_inv (sv_between S n db)" by (simp add: c run_store_inv)
  show "operation_held E s db \<Longrightarrow> operation_held E s (sv_between S n db)"
    unfolding c by (rule held_extends [OF run_store_writes])
qed

lemma shared_reconciliation:
  assumes "shared_store E S" "store_inv db"
    and "projection_document (se_uuid E) (se_sha256 E) desired = Some document"
    and "service_submission S x desired document = Inr s"
    and "reserve_n7_projection E (sv_fresh S 0) s (sv_clock S 0) (sv_between S 0 db) = (reserved, db0)"
  shows "\<exists>r. reconcile_one S x desired db = Some r \<and> store.follows E s document
    (reservation_policy reserved (may_have_reached (sv_apply S document))
      (reading_at S 0 desired (ns_desired_body s)) (reading_at S 1 desired (ns_desired_body s))) r"
  by (rule store.reconcile_one_follows)
    (use assms shared_keeps [OF assms(1)] in \<open>simp_all add: shared_store_def\<close>)

text \<open>C3: A reconciliation implements its abstract policy: whenever it answers an outcome, the outcome and
  the number of dispatches are those the policy computes from the durable state of the record at
  the reservation, from whether the dispatch may have reached Fleet, and from what the
  authority's read-backs say; whatever other connections commit to the store in between.\<close>
theorem reconciliation_refines_policy:
  assumes "shared_store E S" "store_inv db"
    and "projection_document (se_uuid E) (se_sha256 E) desired = Some document"
    and "service_submission S x desired document = Inr s"
    and "reserve_n7_projection E (sv_fresh S 0) s (sv_clock S 0) (sv_between S 0 db) = (reserved, db0)"
  shows "\<exists>answer events db'. reconcile_one S x desired db = Some (answer, events, db') \<and>
    (\<forall>out. answer = Inr out \<longrightarrow>
       reservation_policy reserved (may_have_reached (sv_apply S document))
         (reading_at S 0 desired (ns_desired_body s)) (reading_at S 1 desired (ns_desired_body s))
       = Some (out, dispatches events))"
  using shared_reconciliation [OF assms] by (auto simp: store.follows_def)

text \<open>C33: Fleet is asked to apply at most once in a reconciliation, only the document of the desired
  projection, and only when the store durably holds the record attempted under this very
  operation; and \<open>Applied\<close> or \<open>AlreadyApplied\<close> is answered only when the store durably holds the
  record applied on the evidence of an inspection that observed the desired body.\<close>
theorem dispatch_needs_durable_attempt:
  assumes "shared_store E S" "store_inv db"
    and "projection_document (se_uuid E) (se_sha256 E) desired = Some document"
    and "service_submission S x desired document = Inr s"
    and "reconcile_one S x desired db = Some (answer, events, db')"
  shows "store_inv db' \<and> dispatches events \<le> 1 \<and>
    (\<forall>d snapshot. Dispatched d snapshot \<in> set events \<longrightarrow> d = document \<and> attempt_current E s snapshot) \<and>
    (answer = Inr OutApplied \<or> answer = Inr OutAlreadyApplied \<longrightarrow> record_applied E s db')"
proof -
  obtain reserved db0 where
    "reserve_n7_projection E (sv_fresh S 0) s (sv_clock S 0) (sv_between S 0 db) = (reserved, db0)"
    by fastforce
  from shared_reconciliation [OF assms(1-4) this] assms(5) show ?thesis
    by (auto simp: store.follows_def good_dispatches_def)
qed

text \<open>A projection the program can build has a document: its operation list is its grants.\<close>

lemma collected_operations:
  "list_all generated_operation xs \<Longrightarrow>
   \<exists>ys. collect_operations xs = Some ys \<and> map wire_operation xs = map Some ys"
proof (induction xs)
  case (Cons x xs)
  then obtain ys where "collect_operations xs = Some ys" "map wire_operation xs = map Some ys" by auto
  with Cons.prems show ?case by (cases x) (auto simp: generated_operation_def)
qed simp

text \<open>C34: Reconciling a projection the program can build never reaches the \<^verbatim>\<open>unreachable!\<close> of the
  wire operations: it always answers an outcome or an error, and the document it would dispatch
  lists exactly the granted operations, and none for a disabled or removed projection.\<close>
theorem projected_reconciliations_answer:
  assumes "uuid_laws (se_uuid (sv_env S))"
    and "projected (se_uuid (sv_env S)) (se_sha256 (sv_env S)) desired"
  shows "\<exists>document answer events db'.
    projection_document (se_uuid (sv_env S)) (se_sha256 (sv_env S)) desired = Some document \<and>
    reconcile_one S x desired db = Some (answer, events, db') \<and>
    Some ` set (pd_generated_operations document) =
      wire_operation ` set (grant_list (fp_generated_grants desired)) \<and>
    (pd_operation document \<noteq> AOUpsert \<longrightarrow> pd_generated_operations document = [])"
proof -
  have ok: "projection_ok desired"
    using projected_valid [OF assms] projection_validate_Inr [OF assms(1)] by blast
  then obtain ys where ys: "collect_operations (grant_list (fp_generated_grants desired)) = Some ys"
    "map wire_operation (grant_list (fp_generated_grants desired)) = map Some ys"
    using collected_operations by (auto simp: projection_ok_def)
  from ys(2) have image: "Some ` set ys = wire_operation ` set (grant_list (fp_generated_grants desired))"
    by (metis list.set_map)
  obtain document where d: "projection_document (se_uuid (sv_env S)) (se_sha256 (sv_env S)) desired = Some document"
    using ys(1) by (simp add: projection_document_def)
  then have ops: "pd_generated_operations document = remdups_adj (sort ys)"
    and op: "pd_operation document = apply_operation (projection_operation desired)"
    using ys(1) by (auto simp: projection_document_def ProjectionDocument_new_def Let_def)
  have "pd_operation document \<noteq> AOUpsert \<Longrightarrow> ys = []"
    using op ok ys(2) by (cases "fp_enrollment_state desired")
      (auto simp: projection_ok_def projection_operation_def apply_operation_def)
  moreover obtain answer events db' where "reconcile_one S x desired db = Some (answer, events, db')"
    using d by (cases "reconcile_one S x desired db") (auto simp: reconcile_one_def)
  ultimately show ?thesis using d ops image by (intro exI conjI) auto
qed

text \<open>The read-back body determines every field it was built from.\<close>

definition body_entries ::
    "GeneratedStateKind \<Rightarrow> string \<Rightarrow> string \<Rightarrow> string \<Rightarrow> string \<Rightarrow> GeneratedOperation list \<Rightarrow>
     Provenance \<Rightarrow> (nat list \<times> json) list" where
  "body_entries state projection membership binding content_hash operations provenance =
     [(json_key ''state'', json_str (generated_state_name state)),
        (json_key ''projection_generation'', json_str projection),
        (json_key ''membership_generation'', json_str membership),
        (json_key ''binding_generation'', json_str binding),
        (json_key ''content_hash'', json_str content_hash),
        (json_key ''allowed_operations'',
           JArray (map (\<lambda>x. json_str (GeneratedOperation_wire x)) operations)),
        (json_key ''provenance'', provenance_value provenance)]"

lemma body_lookup:
  "map_of (body_entries st p m b c xs pr) (json_key ''state'') = Some (json_str (generated_state_name st))"
  "map_of (body_entries st p m b c xs pr) (json_key ''projection_generation'') = Some (json_str p)"
  "map_of (body_entries st p m b c xs pr) (json_key ''membership_generation'') = Some (json_str m)"
  "map_of (body_entries st p m b c xs pr) (json_key ''binding_generation'') = Some (json_str b)"
  "map_of (body_entries st p m b c xs pr) (json_key ''content_hash'') = Some (json_str c)"
  "map_of (body_entries st p m b c xs pr) (json_key ''allowed_operations'') =
     Some (JArray (map (\<lambda>x. json_str (GeneratedOperation_wire x)) xs))"
  "map_of (body_entries st p m b c xs pr) (json_key ''provenance'') = Some (provenance_value pr)"
  by (simp_all add: body_entries_def)

lemma state_name_text:
  "same_text (generated_state_name a) (generated_state_name b) \<longleftrightarrow> a = b"
  by (cases a; cases b; simp add: same_text_def str_chars_def byte_val_def)

lemma body_value_inj:
  assumes "generated_body_value st p m b c xs pr = generated_body_value st' p' m' b' c' xs' pr'"
  shows "st = st' \<and> same_text p p' \<and> same_text m m' \<and> same_text b b' \<and> same_text c c' \<and> xs = xs' \<and>
    same_provenance pr pr'"
proof -
  have "map_of (body_entries st p m b c xs pr) = map_of (body_entries st' p' m' b' c' xs' pr')"
    using assms by (intro json_struct_lookup) (simp_all add: generated_body_value_def body_entries_def)
  then have f: "map_of (body_entries st p m b c xs pr) k = map_of (body_entries st' p' m' b' c' xs' pr') k" for k
    by simp
  have "xs = xs'" using f [of "json_key ''allowed_operations''"]
    unfolding body_lookup by (intro operations_inj) simp
  moreover have "same_provenance pr pr'" using f [of "json_key ''provenance''"]
    unfolding body_lookup by (intro provenance_value_inj) simp
  ultimately show ?thesis
    using f [of "json_key ''state''"] f [of "json_key ''projection_generation''"]
      f [of "json_key ''membership_generation''"] f [of "json_key ''binding_generation''"]
      f [of "json_key ''content_hash''"]
    unfolding body_lookup by (simp add: json_str_eq state_name_text)
qed

text \<open>A read-back counts as the desired projection only if it is the desired projection: when the
  canonical bytes of Fleet's generated state equal those expected for the dispatched document,
  they agree in state, all three generations, content hash, the list of allowed operations and
  the provenance.\<close>
theorem matching_read_back_is_exact:
  assumes "\<forall>v bytes. to_vec v = Some bytes \<longrightarrow> from_slice bytes = Some v"
    and "expected_generated_body to_vec document enrollment = Inr body"
    and "generated_body to_vec g = Inr body"
  shows "gs_state g = generated_state enrollment \<and>
    same_text (gs_projection_generation g) (pd_projection_generation document) \<and>
    same_text (gs_membership_generation g) (pd_membership_generation document) \<and>
    same_text (gs_binding_generation g) (pd_binding_generation document) \<and>
    same_text (gs_content_hash g) (pd_content_hash document) \<and>
    gs_allowed_operations g = pd_generated_operations document \<and>
    same_provenance (gs_provenance g) (pd_provenance document)"
proof -
  let ?body_of = "\<lambda>st p m b c xs pr. generated_body_value st p m b c xs pr"
  have "from_slice body = Some (?body_of (gs_state g) (gs_projection_generation g)
      (gs_membership_generation g) (gs_binding_generation g) (gs_content_hash g)
      (gs_allowed_operations g) (gs_provenance g))"
    using assms(3) by (intro assms(1) [rule_format]) (simp add: generated_body_def generated_body_parts_def guard_simps)
  moreover have "from_slice body = Some (?body_of (generated_state enrollment)
      (pd_projection_generation document) (pd_membership_generation document)
      (pd_binding_generation document) (pd_content_hash document)
      (pd_generated_operations document) (pd_provenance document))"
    using assms(2) by (intro assms(1) [rule_format])
      (simp add: expected_generated_body_def generated_body_parts_def guard_simps)
  ultimately show ?thesis by (intro body_value_inj) simp
qed

text \<open>An applied record stays, and the submission that names it finds it again.\<close>

lemma applied_stays:
  assumes inv: "store_inv db" and "fleet_write\<^sup>*\<^sup>* db db'" "record_applied E s db"
  shows "record_applied E s db'"
proof -
  obtain r where r: "r \<in> set (db_projections db)" "names_record E s r" "fr_projection_state r = ''applied''"
    using assms(3) by (auto simp: record_applied_def list_ex_iff)
  have fleet: "fleet_inv db'" using fleet_writes_inv [OF assms(2)] inv by (simp add: store_inv_def)
  have three: "fr_revision r = 3"
    using inv r(1,3) projection_state_revision [of r]
    by (simp add: store_inv_def fleet_inv_def rows_ok_def list_all_iff)
  obtain q where "q \<in> set (db_projections db')" "row_evolves r q"
    using extends_row [OF fleet_writes_extend [OF assms(2)] r(1)] by blast
  then have mem: "r \<in> set (db_projections db')" using three by (simp add: row_evolves_def)
  then have "evidence db' r" using fleet by (simp add: fleet_inv_def rows_ok_def list_all_iff)
  with mem r three show ?thesis by (auto simp: record_applied_def evidence_def list_ex_iff)
qed

lemma view_again:
  assumes "store_inv db" "r \<in> set (db_projections db)" "names_record E s r"
    and "store_inv db0" "r0 \<in> set (db_projections db0)" "names_record E s r0"
    and "n7_projection_view_tx E (fr_projection_id r0) db0 = Inr v0"
  shows "\<exists>v. n7_projection_view_tx E (fr_projection_id r) db = Inr v"
proof -
  have found: "find (\<lambda>q. fr_projection_id q = fr_projection_id p) (db_projections t) = Some p"
    if "store_inv t" "p \<in> set (db_projections t)" for t and p :: projection_row
    using find_unique [of fr_projection_id "db_projections t" p] that
    by (simp add: store_inv_def fleet_inv_def rows_ok_def)
  have "projection_check r"
    using assms(1,2) by (simp add: store_inv_def fleet_inv_def rows_ok_def list_all_iff)
  then have "0 \<le> fr_revision r" "\<exists>st. N7ProjectionState_parse (fr_projection_state r) = Inr st"
    by (auto simp: projection_check_def state_check_def N7ProjectionState_parse_def)
  then show ?thesis
    using assms(3,6,7) found [OF assms(1,2)] found [OF assms(4,5)]
    by (auto simp: n7_projection_view_tx_def names_record_def guard_simps column_u64_def)
qed

lemma reserve_applied_again:
  assumes inv: "store_inv db" and held: "operation_held E s db" and ap: "record_applied E s db"
    and small: "uint (gen_get (ns_generation s)) < 2 ^ 63"
      "uint (gen_get (np_binding_generation (ns_binding s))) < 2 ^ 63"
    and old: "store_inv db0" "r0 \<in> set (db_projections db0)" "names_record E s r0"
      "n7_projection_view_tx E (fr_projection_id r0) db0 = Inr v0"
  shows "\<exists>v. nv_state v = N7Applied \<and> reserve_n7_projection E F s now db = (Inr (Replayed v), db)"
proof -
  obtain r where r: "r \<in> set (db_projections db)" "names_record E s r" "fr_projection_state r = ''applied''"
    using ap by (auto simp: record_applied_def list_ex_iff)
  have "find (same_operation_text E s) (db_operations db) \<noteq> None"
    using held by (auto simp: operation_held_def list_ex_iff find_None_iff)
  then obtain y where y: "find (same_operation_text E s) (db_operations db) = Some y" by blast
  then have mem: "y \<in> set (db_operations db)" "same_operation_text E s y" by (auto dest: find_Some_mem)
  then obtain q where q: "q \<in> set (db_projections db)" "operation_of y q"
    using inv by (auto simp: store_inv_def fleet_inv_def links_ok_def list_all_iff list_ex_iff)
  have dist: "distinct (map (\<lambda>r. (fr_device_id r, fr_generation r)) (db_projections db))"
    using inv by (simp add: store_inv_def fleet_inv_def rows_ok_def)
  have "(fr_device_id q, fr_generation q) = (fr_device_id r, fr_generation r)"
    using q(2) mem(2) r(2) by (simp add: operation_of_def same_operation_text_def names_record_def)
  with dist q(1) r(1) have "q = r" unfolding distinct_map inj_on_def by blast
  with q(2) have pid: "fo_projection_id y = fr_projection_id r" by (simp add: operation_of_def)
  obtain v where v: "n7_projection_view_tx E (fr_projection_id r) db = Inr v"
    using view_again [OF inv r(1,2) old] by blast
  from viewed_row [OF inv r(1) v] r(3) have st: "nv_state v = N7Applied"
    by (simp add: N7ProjectionState_parse_def)
  have "n7_matching_operation_tx E s db = Inr (Some (fr_projection_id r))"
    using small y pid by (simp add: matching_operation bind_u64_def)
  with v st show ?thesis
    by (intro exI [of _ v]) (simp add: reserve_n7_projection_def transactional_def reserve_tx_def)
qed

lemma submission_env:
  "sv_env S' = sv_env S \<Longrightarrow> service_submission S x desired document = Inr s \<Longrightarrow>
   service_submission S' x desired document = Inr s"
  by (auto simp: service_submission_def guard_simps)

text \<open>C36: Applied is final: once a reconciliation answered \<open>Applied\<close> or \<open>AlreadyApplied\<close>, every later
  reconciliation of the same operation and projection, by this or another service on the store,
  after any store calls of anyone, answers \<open>AlreadyApplied\<close> and sends no request at all.\<close>
theorem applied_projections_stay_applied:
  assumes "shared_store E S" "store_inv db" "shared_store E S'"
    and "reconcile_one S x desired db = Some (Inr out, events, db')"
    and "out = OutApplied \<or> out = OutAlreadyApplied"
  shows "\<exists>db''. reconcile_one S' x desired (run_store E calls db') = Some (Inr OutAlreadyApplied, [], db'')"
proof -
  have env: "sv_env S = E" "sv_env S' = E" "sv_store S' = store_of E" "sv_store S = store_of E"
    using assms(1,3) by (simp_all add: shared_store_def)
  from assms(4) env obtain document where
    doc: "projection_document (se_uuid E) (se_sha256 E) desired = Some document"
    by (auto simp: reconcile_one_def)
  with assms(4) env obtain s where sub: "service_submission S x desired document = Inr s"
    by (cases "service_submission S x desired document") (simp_all add: reconcile_one_def)
  obtain reserved db0 where
    res: "reserve_n7_projection E (sv_fresh S 0) s (sv_clock S 0) (sv_between S 0 db) = (reserved, db0)"
    by fastforce
  from shared_reconciliation [OF assms(1,2) doc sub res] assms(4,5)
  have pol: "reservation_policy reserved (may_have_reached (sv_apply S document))
      (reading_at S 0 desired (ns_desired_body s)) (reading_at S 1 desired (ns_desired_body s)) =
      Some (out, dispatches events)" and ap: "record_applied E s db'" and held: "operation_held E s db'" and inv': "store_inv db'"
    by (auto simp: store.follows_def)
  from pol obtain got where got: "reserved = Inr got" by (cases reserved) simp_all
  from pol assms(5) obtain v where v: "got = Reserved v \<or> got = Replayed v" unfolding got
    by (cases got) auto
  have b: "store_inv (sv_between S 0 db)" using shared_keeps(1) [OF assms(1,2)] .
  have tx: "reserve_tx E (sv_fresh S 0) s (sv_clock S 0) (sv_between S 0 db) = Inr (got, db0)"
    using res got by (simp add: reserve_n7_projection_def transactional_Inr)
  have inv0: "store_inv db0"
    using call_keeps(1) [OF b, of E "CallReserve (sv_fresh S 0) s (sv_clock S 0)" db0] res by simp
  from accepted_matches [OF tx v] obtain y where y: "y \<in> set (db_operations db0)"
      "same_operation_text E s y" "n7_projection_view_tx E (fo_projection_id y) db0 = Inr v"
    and small: "uint (gen_get (ns_generation s)) < 2 ^ 63"
      "uint (gen_get (np_binding_generation (ns_binding s))) < 2 ^ 63"
    by (auto simp: matching_operation guard_simps dest!: find_Some_mem)
  then obtain r0 where r0: "r0 \<in> set (db_projections db0)" "operation_of y r0"
    using inv0 by (auto simp: store_inv_def fleet_inv_def links_ok_def list_all_iff list_ex_iff)
  have names: "names_record E s r0" "n7_projection_view_tx E (fr_projection_id r0) db0 = Inr v"
    using r0(2) y by (simp_all add: names_record_def operation_of_def same_operation_text_def)
  let ?later = "sv_between S' 0 (run_store E calls db')"
  have runs: "fleet_write\<^sup>*\<^sup>* db' ?later"
    using assms(3) rtranclp_trans [OF run_store_writes run_store_writes]
    unfolding shared_store_def by metis
  have later: "store_inv ?later" using shared_keeps(1) [OF assms(3) run_store_inv [OF inv']] .
  obtain w where "nv_state w = N7Applied"
    "reserve_n7_projection E (sv_fresh S' 0) s (sv_clock S' 0) ?later = (Inr (Replayed w), ?later)"
    using reserve_applied_again [OF later held_extends [OF runs held] applied_stays [OF inv' runs ap]
        small inv0 r0(1) names] by blast
  then show ?thesis
    using doc submission_env [of S' S, OF _ sub] by (simp add: reconcile_one_def env reconcile_reserved_def)
qed

section \<open>A sample reconciliation\<close>

definition sample_service_env :: store_env where
  "sample_service_env = sample_store_env\<lparr>se_from_slice := (\<lambda>_. Some (JObject [])),
     se_to_vec := (\<lambda>_. Some [123, 125])\<rparr>"

definition sample_desired :: N7FleetDesiredProjection where
  "sample_desired = \<lparr>fp_source = SourceNodescale, fp_network_id = TypedId 2, fp_device_id = TypedId 3,
     fp_display_name = ''node-7'', fp_managed_membership_state = MSActive,
     fp_membership_generation = Generation 1, fp_projection_generation = Generation 1,
     fp_binding_provenance = sample_provenance, fp_roles = Roles [Node],
     fp_enrollment_state = FEPending, fp_generated_grants = FleetGeneratedGrants [FleetHealth],
     fp_content_digest = FleetProjectionContentDigest []\<rparr>"

definition sample_service_db :: fleet_db where
  "sample_service_db = sample_db\<lparr>db_bindings :=
     [\<lparr>nb_binding_id = id_display hex_uuid_ops (TypedId 1 :: KeryxBindingId),
       nb_network_id = id_display hex_uuid_ops (TypedId 2 :: NetworkId),
       nb_device_id = id_display hex_uuid_ops (TypedId 3 :: DeviceId),
       nb_verified_peer_id = Some ''peer'', nb_generation = 1, nb_binding_state = ''active''\<rparr>]\<rparr>"

definition sample_state :: GeneratedState where
  "sample_state = \<lparr>gs_state = GSActive, gs_projection_generation = ''1'',
     gs_membership_generation = ''1'', gs_binding_generation = ''1'', gs_content_hash = [],
     gs_allowed_operations = [GOHealth], gs_provenance = Provenance_authenticated ''n'' ''d'' ''1'' ''b'' ''peer''\<rparr>"

definition sample_service :: "fleet_db service" where
  "sample_service = \<lparr>sv_store = store_of sample_service_env, sv_env = sample_service_env,
     sv_show_state = (\<lambda>_. ''state''), sv_show_client = (\<lambda>_. ''client''),
     sv_fresh = (\<lambda>n. sample_fresh (if n = 0 then CHR ''a'' else if n = 1 then CHR ''b'' else CHR ''c'')),
     sv_clock = (\<lambda>n. 1000000 * int n), sv_between = (\<lambda>_ db. db),
     sv_capabilities = Inr \<lparr>cap_kinds = [RKCapabilities, RKApply, RKInspect]\<rparr>,
     sv_apply = (\<lambda>_. Inr \<lparr>ar_outcome = OCApplied\<rparr>),
     sv_inspect = (\<lambda>_ _. Inr \<lparr>ir_generated = Some sample_state, ir_effective = None\<rparr>)\<rparr>"

lemma sample_service_env_simps [simp]:
  "se_uuid sample_service_env = hex_uuid_ops" "se_sha256 sample_service_env = se_sha256 sample_store_env"
  "se_from_slice sample_service_env b = Some (JObject [])"
  "se_to_vec sample_service_env = (\<lambda>_. Some [123, 125])"
  "se_read_device sample_service_env = se_read_device sample_store_env"
  "se_write_device sample_service_env = se_write_device sample_store_env"
  "se_rfc sample_service_env t = ''1970-01-01T00:00:00+00:00''"
  "sha256_fingerprint sample_service_env b = sha256_fingerprint sample_store_env b"
  by (simp_all add: sample_service_env_def sha256_fingerprint_def)

lemma sample_service_simps [simp]:
  "sv_store sample_service = store_of sample_service_env" "sv_env sample_service = sample_service_env"
  "sv_fresh sample_service 0 = sample_fresh (CHR ''a'')"
  "sv_fresh sample_service (Suc 0) = sample_fresh (CHR ''b'')"
  "sv_fresh sample_service 2 = sample_fresh (CHR ''c'')"
  "sv_clock sample_service n = 1000000 * int n" "sv_between sample_service n db = db"
  "sv_apply sample_service d = Inr \<lparr>ar_outcome = OCApplied\<rparr>"
  "sv_inspect sample_service n sel = Inr \<lparr>ir_generated = Some sample_state, ir_effective = None\<rparr>"
  "ensure_capabilities sample_service = Inr ()"
  by (simp_all add: sample_service_def ensure_capabilities_def)

lemma lower_hex_safe: "lower_hex_char c \<Longrightarrow> safe_id_byte c"
  by (auto simp: lower_hex_char_def safe_id_byte_def is_ascii_alphanumeric_def is_ascii_digit_def)

lemma sample_uuid_safe: "32 \<le> n \<Longrightarrow> bounded_safe n (id_display hex_uuid_ops i)"
proof -
  assume n: "32 \<le> n"
  have "id_display hex_uuid_ops i \<noteq> [] \<and> length (id_display hex_uuid_ops i) = 32"
    using uuid_display_length [of "id_uuid i"] by (auto simp: id_display_def)
  moreover have "list_all safe_id_byte (id_display hex_uuid_ops i)"
    by (auto simp: id_display_def hex_uuid_ops_def list_all_iff
        intro!: lower_hex_safe hex_char_lower dest: be_digits_less [rotated])
  ultimately show ?thesis using n by (simp add: bounded_safe_def)
qed

lemma sample_binding_text [simp]:
  "bounded_safe 64 (id_display hex_uuid_ops (TypedId 1 :: KeryxBindingId))"
  "bounded_safe 255 (id_display hex_uuid_ops (TypedId 1 :: KeryxBindingId))"
  by (simp_all add: sample_uuid_safe)

lemma sample_peer_safe [simp]: "bounded_safe 255 ''peer''"
  by (simp add: bounded_safe_def safe_id_byte_def is_ascii_alphanumeric_def is_ascii_digit_def byte_val_def)

lemma sample_has_document:
  "\<exists>document. projection_document hex_uuid_ops (se_sha256 sample_store_env) sample_desired = Some document"
  by (simp add: projection_document_def sample_desired_def)

definition sample_service_submission :: N7ProjectionSubmission where
  "sample_service_submission = sample_submission\<lparr>ns_binding := \<lparr>
     np_binding_id = id_display hex_uuid_ops (TypedId 1 :: KeryxBindingId),
     np_authenticated_peer_id = ''peer'', np_binding_generation = Generation 1\<rparr>\<rparr>"

lemma sample_service_submission:
  "service_submission sample_service (OperationId ''op-1'') sample_desired document =
     Inr sample_service_submission"
  by (simp add: service_submission_def expected_generated_body_def
      generated_body_parts_def from_canonical_def canonical_json_bytes_def is_object_def
      N7BindingProvenance_new_def safe_identifier_def sample_desired_def sample_provenance_def
      sample_service_submission_def sample_submission_def)

text \<open>The three store calls of the sample reconciliation.\<close>

definition sample_service_view :: "u64 \<Rightarrow> N7ProjectionState \<Rightarrow> N7ProjectionView" where
  "sample_service_view rv st = (sample_view rv st)\<lparr>nv_binding := ns_binding sample_service_submission\<rparr>"

definition sample_reserved_db :: fleet_db where
  "sample_reserved_db = snd (reserve_n7_projection sample_service_env (sample_fresh (CHR ''a''))
     sample_service_submission 0 sample_service_db)"

definition sample_attempt_db :: fleet_db where
  "sample_attempt_db = snd (record_n7_projection_dispatch_attempt sample_service_env
     (sample_fresh (CHR ''b'')) (OperationId ''op-1'') (TypedId 3) (Generation 1) 1 1000000
     sample_reserved_db)"

definition sample_applied_db :: fleet_db where
  "sample_applied_db = snd (recover_n7_projection_from_inspection sample_service_env
     (sample_fresh (CHR ''c'')) (OperationId ''op-1'') (TypedId 3) (Generation 1) 2
     (Observed [123, 125] (sha256_fingerprint sample_store_env [123, 125])) 2000000 sample_attempt_db)"

lemmas sample_service_runs = sample_reserved_db_def sample_attempt_db_def sample_applied_db_def
  sample_service_submission_def sample_service_db_def sample_service_view_def

lemma sample_reserves:
  "reserve_n7_projection sample_service_env (sample_fresh (CHR ''a'')) sample_service_submission 0
     sample_service_db = (Inr (Reserved (sample_service_view 1 N7Desired)), sample_reserved_db)"
proof -
  have "fst (reserve_n7_projection sample_service_env (sample_fresh (CHR ''a'')) sample_service_submission 0
     sample_service_db) = Inr (Reserved (sample_service_view 1 N7Desired))"
    by (simp add: store_eval sample_service_runs)
  then show ?thesis by (simp add: sample_reserved_db_def prod_eq_iff)
qed

lemma sample_attempts:
  "record_n7_projection_dispatch_attempt sample_service_env (sample_fresh (CHR ''b''))
     (OperationId ''op-1'') (TypedId 3) (Generation 1) 1 1000000 sample_reserved_db =
   (Inr (AttemptRecorded (sample_service_view 2 N7Attempted)), sample_attempt_db)"
proof -
  have "fst (record_n7_projection_dispatch_attempt sample_service_env (sample_fresh (CHR ''b''))
     (OperationId ''op-1'') (TypedId 3) (Generation 1) 1 1000000 sample_reserved_db) =
     Inr (AttemptRecorded (sample_service_view 2 N7Attempted))"
    by (simp add: store_eval sample_service_runs)
  then show ?thesis by (simp add: sample_attempt_db_def prod_eq_iff)
qed

lemma sample_recovers:
  "recover_n7_projection_from_inspection sample_service_env (sample_fresh (CHR ''c''))
     (OperationId ''op-1'') (TypedId 3) (Generation 1) 2
     (Observed [123, 125] (sha256_fingerprint sample_store_env [123, 125])) 2000000 sample_attempt_db =
   (Inr (sample_service_view 3 N7Applied), sample_applied_db)"
proof -
  have "fst (recover_n7_projection_from_inspection sample_service_env (sample_fresh (CHR ''c''))
     (OperationId ''op-1'') (TypedId 3) (Generation 1) 2
     (Observed [123, 125] (sha256_fingerprint sample_store_env [123, 125])) 2000000 sample_attempt_db) =
     Inr (sample_service_view 3 N7Applied)"
    by (simp add: store_eval sample_service_runs)
  then show ?thesis by (simp add: sample_applied_db_def prod_eq_iff)
qed

lemma sample_read_back:
  "read_back sample_service n desired =
     Inr (Observed [123, 125] (sha256_fingerprint sample_store_env [123, 125]))"
  by (simp add: read_back_def inspection_from_result_def generated_body_def generated_body_parts_def
      observed_def canonical_json_bytes_def is_object_def)

lemma sample_reconciliation:
  assumes "projection_document hex_uuid_ops (se_sha256 sample_store_env) sample_desired = Some document"
  shows "reconcile_one sample_service (OperationId ''op-1'') sample_desired sample_service_db =
     Some (Inr OutApplied, [AskedCapabilities, Dispatched document sample_attempt_db,
       Inspected (inspect_selector sample_service sample_desired)], sample_applied_db)"
  by (simp add: reconcile_one_def assms sample_service_submission sample_reserves reconcile_reserved_def
      first_dispatch_def attempt_at_def recover_at_def sample_attempts sample_recovers sample_read_back
      may_have_reached_def inspect_and_recover_def sample_service_view_def sample_view_def
      sample_desired_def [THEN arg_cong, of fp_device_id]
      sample_desired_def [THEN arg_cong, of fp_projection_generation])

lemma sample_shared: "shared_store sample_service_env sample_service"
proof -
  have "\<exists>calls. db = run_store sample_service_env calls db" for db
    by (intro exI [of _ "[]"]) (simp add: run_store_def)
  then show ?thesis by (simp add: shared_store_def)
qed

lemma sample_service_inv: "store_inv sample_service_db"
  by (intro empty_store_inv) (use sample_db_empty in \<open>simp add: sample_service_db_def empty_fleet_def\<close>)

lemma sample_document_env:
  "\<exists>document. projection_document (se_uuid sample_service_env) (se_sha256 sample_service_env) sample_desired =
     Some document \<and> projection_document hex_uuid_ops (se_sha256 sample_store_env) sample_desired = Some document"
  using sample_has_document by simp

theorem reconciliation_refines_policy_witness:
  "\<exists>events db'. reconcile_one sample_service (OperationId ''op-1'') sample_desired sample_service_db =
     Some (Inr OutApplied, events, db') \<and>
     reconcile_policy N7Desired True (reading_at sample_service 0 sample_desired [123, 125])
       (reading_at sample_service 1 sample_desired [123, 125]) = Some (OutApplied, dispatches events)"
proof -
  obtain document where d: "projection_document (se_uuid sample_service_env) (se_sha256 sample_service_env)
      sample_desired = Some document"
    "projection_document hex_uuid_ops (se_sha256 sample_store_env) sample_desired = Some document"
    using sample_document_env by blast
  have r: "reserve_n7_projection sample_service_env (sv_fresh sample_service 0) sample_service_submission
      (sv_clock sample_service 0) (sv_between sample_service 0 sample_service_db) =
      (Inr (Reserved (sample_service_view 1 N7Desired)), sample_reserved_db)" by (simp add: sample_reserves)
  from reconciliation_refines_policy [OF sample_shared sample_service_inv d(1) sample_service_submission r]
    sample_reconciliation [OF d(2)]
  show ?thesis
    by (simp add: may_have_reached_def sample_service_view_def sample_view_def
        sample_service_submission_def sample_submission_def)
qed

theorem dispatch_needs_durable_attempt_witness:
  "\<exists>document db'. attempt_current sample_service_env sample_service_submission sample_attempt_db \<and>
     reconcile_one sample_service (OperationId ''op-1'') sample_desired sample_service_db =
       Some (Inr OutApplied, [AskedCapabilities, Dispatched document sample_attempt_db,
         Inspected (inspect_selector sample_service sample_desired)], db') \<and>
     record_applied sample_service_env sample_service_submission db'"
proof -
  obtain document where d: "projection_document (se_uuid sample_service_env) (se_sha256 sample_service_env)
      sample_desired = Some document"
    "projection_document hex_uuid_ops (se_sha256 sample_store_env) sample_desired = Some document"
    using sample_document_env by blast
  from dispatch_needs_durable_attempt [OF sample_shared sample_service_inv d(1)
      sample_service_submission sample_reconciliation [OF d(2)]] sample_reconciliation [OF d(2)]
  show ?thesis by auto
qed

theorem projected_reconciliations_answer_witness:
  "\<exists>desired answer events db'. projected hex_uuid_ops sample_sha desired \<and>
     reconcile_one (sample_service\<lparr>sv_env := sample_service_env\<lparr>se_sha256 := sample_sha\<rparr>\<rparr>)
       (OperationId ''op-1'') desired sample_service_db = Some (answer, events, db')"
proof -
  obtain p where p: "projected hex_uuid_ops sample_sha p"
    using sample_upsert projected_provenance by blast
  let ?S = "sample_service\<lparr>sv_env := sample_service_env\<lparr>se_sha256 := sample_sha\<rparr>\<rparr>"
  have l: "uuid_laws (se_uuid (sv_env ?S))" by (simp add: hex_uuid_laws)
  have q: "projected (se_uuid (sv_env ?S)) (se_sha256 (sv_env ?S)) p" using p by simp
  from projected_reconciliations_answer [OF l q] p show ?thesis by blast
qed

definition sample_read_state :: GeneratedState where
  "sample_read_state = \<lparr>gs_state = GSActive,
     gs_projection_generation = pd_projection_generation sample_document,
     gs_membership_generation = pd_membership_generation sample_document,
     gs_binding_generation = pd_binding_generation sample_document,
     gs_content_hash = pd_content_hash sample_document,
     gs_allowed_operations = pd_generated_operations sample_document,
     gs_provenance = pd_provenance sample_document\<rparr>"

definition sample_body_value :: json where
  "sample_body_value = generated_body_value GSActive (pd_projection_generation sample_document)
     (pd_membership_generation sample_document) (pd_binding_generation sample_document)
     (pd_content_hash sample_document) (pd_generated_operations sample_document)
     (pd_provenance sample_document)"

theorem matching_read_back_is_exact_witness:
  "expected_generated_body (\<lambda>v. if v = sample_body_value then Some [123, 125] else None)
     sample_document FEPending = Inr [123, 125] \<and>
   gs_allowed_operations sample_read_state = pd_generated_operations sample_document"
proof -
  let ?to = "\<lambda>v. if v = sample_body_value then Some [123, 125 :: u8] else None"
  have law: "\<forall>v bytes. ?to v = Some bytes \<longrightarrow> (\<lambda>_. Some sample_body_value) bytes = Some v"
    by (simp split: if_splits)
  have e: "expected_generated_body ?to sample_document FEPending = Inr [123, 125]"
    by (simp add: expected_generated_body_def generated_body_parts_def sample_body_value_def)
  have g: "generated_body ?to sample_read_state = Inr [123, 125]"
    by (simp add: generated_body_def generated_body_parts_def sample_body_value_def sample_read_state_def)
  from matching_read_back_is_exact [where from_slice = "\<lambda>_. Some sample_body_value", OF law e g] e show ?thesis by blast
qed

theorem applied_projections_stay_applied_witness:
  "\<exists>db'. reconcile_one sample_service (OperationId ''op-1'') sample_desired sample_applied_db =
     Some (Inr OutAlreadyApplied, [], db')"
proof -
  obtain document where d:
    "projection_document hex_uuid_ops (se_sha256 sample_store_env) sample_desired = Some document"
    using sample_has_document by blast
  from applied_projections_stay_applied [OF sample_shared sample_service_inv sample_shared
      sample_reconciliation [OF d], where calls = "[]"]
  show ?thesis by (simp add: run_store_def)
qed

end
