(* ===== verification/Admission.thy ===== *)
theory Admission
  imports Nodescale_Prelude
begin

text \<open>
  The admission controller of \<^verbatim>\<open>crates/nodescale-redemption-ingress/src/lib.rs\<close>: its limits, the
  token buckets, and \<open>admit\<close>, which every redemption request passes first.

  A \<^verbatim>\<open>Duration\<close> is its count of nanoseconds, an \<^verbatim>\<open>Instant\<close> the count since some
  fixed origin. The controller's hash map is the list of its entries in the order in which its
  iterator happens to yield them; \<open>iter\<close> is that order, and every lemma holds for any order.
  \<open>None\<close> is a panic.
\<close>

section \<open>Limits\<close>

type_synonym Duration = nat
type_synonym Instant = nat

definition from_secs :: "nat \<Rightarrow> Duration" where
  "from_secs n = n * 1000000000"

definition from_millis :: "nat \<Rightarrow> Duration" where
  "from_millis n = n * 1000000"

definition as_secs :: "Duration \<Rightarrow> nat" where
  "as_secs d = d div 1000000000"

text \<open>\<^verbatim>\<open>Duration::saturating_mul\<close>: the largest duration has 2^64 - 1 seconds and a full fraction.\<close>

definition duration_max :: Duration where
  "duration_max = 2 ^ 64 * 1000000000 - 1"

definition duration_saturating_mul :: "Duration \<Rightarrow> u32 \<Rightarrow> Duration" where
  "duration_saturating_mul d k = min (d * unat k) duration_max"

text \<open>\<^verbatim>\<open>u32::saturating_add\<close>, and \<^verbatim>\<open>u32::try_from\<close> with the maximum for a value out of range.\<close>

definition u32_saturating_add :: "u32 \<Rightarrow> u32 \<Rightarrow> u32" where
  "u32_saturating_add a b = (if unat a + unat b < 2 ^ 32 then a + b else - 1)"

definition u32_or_max :: "nat \<Rightarrow> u32" where
  "u32_or_max n = (if n < 2 ^ 32 then of_nat n else - 1)"

record AdmissionLimits =
  al_request_body_bytes :: nat
  al_source_burst :: u32
  al_global_burst :: u32
  al_source_refill_interval :: Duration
  al_global_refill_interval :: Duration
  al_maximum_tracked_sources :: nat
  al_worker_queue_capacity :: nat
  al_source_initial_tokens :: u32
  al_global_initial_tokens :: u32
  al_argon_concurrency :: nat
  al_provider_create_concurrency :: nat

datatype AdmissionLimitError = OutOfRange string

definition in_range :: "nat \<Rightarrow> nat \<Rightarrow> nat \<Rightarrow> bool" where
  "in_range lo hi n \<longleftrightarrow> lo \<le> n \<and> n \<le> hi"

definition refill_allowed :: "Duration \<Rightarrow> bool" where
  "refill_allowed d = in_range (from_millis 10) (from_secs 3600) d"

definition bounded ::
    "nat \<Rightarrow> u32 \<Rightarrow> Duration \<Rightarrow> u32 \<Rightarrow> Duration \<Rightarrow> nat \<Rightarrow> nat \<Rightarrow> AdmissionLimitError + AdmissionLimits"
where
  "bounded request_body_bytes source_burst source_refill_interval global_burst
     global_refill_interval maximum_tracked_sources worker_queue_capacity =
     and_then (ensure (in_range 1 4096 request_body_bytes) (OutOfRange ''request_body_bytes'')) (\<lambda>_.
     and_then (ensure (in_range 1 64 (unat source_burst)) (OutOfRange ''source_burst'')) (\<lambda>_.
     and_then (ensure (in_range 1 1024 (unat global_burst)) (OutOfRange ''global_burst'')) (\<lambda>_.
     and_then (ensure (in_range 1 65536 maximum_tracked_sources)
       (OutOfRange ''maximum_tracked_sources'')) (\<lambda>_.
     and_then (ensure (in_range 1 64 worker_queue_capacity) (OutOfRange ''worker_queue_capacity'')) (\<lambda>_.
     and_then (ensure (refill_allowed source_refill_interval) (OutOfRange ''source_refill_interval'')) (\<lambda>_.
     and_then (ensure (refill_allowed global_refill_interval) (OutOfRange ''global_refill_interval'')) (\<lambda>_.
     Inr \<lparr>al_request_body_bytes = request_body_bytes, al_source_burst = source_burst,
          al_global_burst = global_burst, al_source_refill_interval = source_refill_interval,
          al_global_refill_interval = global_refill_interval,
          al_maximum_tracked_sources = maximum_tracked_sources,
          al_worker_queue_capacity = worker_queue_capacity, al_source_initial_tokens = 1,
          al_global_initial_tokens = 1, al_argon_concurrency = 1,
          al_provider_create_concurrency = 1\<rparr>)))))))"

text \<open>The defaults; \<open>None\<close> is the failed \<^verbatim>\<open>expect\<close>.\<close>

definition safe_defaults :: "AdmissionLimits option" where
  "safe_defaults =
     (case bounded 256 4 (from_secs 30) 16 (from_secs 1) 1024 2 of Inl _ \<Rightarrow> None | Inr l \<Rightarrow> Some l)"

definition with_initial_tokens ::
    "AdmissionLimits \<Rightarrow> u32 \<Rightarrow> u32 \<Rightarrow> AdmissionLimitError + AdmissionLimits" where
  "with_initial_tokens l source_initial_tokens global_initial_tokens =
     (if source_initial_tokens = 0 \<or> al_source_burst l < source_initial_tokens
      then Inl (OutOfRange ''source_initial_tokens'')
      else if global_initial_tokens = 0 \<or> al_global_burst l < global_initial_tokens
      then Inl (OutOfRange ''global_initial_tokens'')
      else Inr (l\<lparr>al_source_initial_tokens := source_initial_tokens,
                  al_global_initial_tokens := global_initial_tokens\<rparr>))"

text \<open>The limits a program can have.\<close>

inductive limits_built :: "AdmissionLimits \<Rightarrow> bool" where
  built_bounded: "bounded rb sb si gb gi mx wq = Inr l \<Longrightarrow> limits_built l"
| built_initial: "limits_built l \<Longrightarrow> with_initial_tokens l s g = Inr m \<Longrightarrow> limits_built m"

definition limits_ok :: "AdmissionLimits \<Rightarrow> bool" where
  "limits_ok l \<longleftrightarrow>
     in_range 1 4096 (al_request_body_bytes l) \<and> in_range 1 64 (unat (al_source_burst l)) \<and>
     in_range 1 1024 (unat (al_global_burst l)) \<and> refill_allowed (al_source_refill_interval l) \<and>
     refill_allowed (al_global_refill_interval l) \<and>
     in_range 1 65536 (al_maximum_tracked_sources l) \<and> in_range 1 64 (al_worker_queue_capacity l) \<and>
     0 < al_source_initial_tokens l \<and> al_source_initial_tokens l \<le> al_source_burst l \<and>
     0 < al_global_initial_tokens l \<and> al_global_initial_tokens l \<le> al_global_burst l \<and>
     al_argon_concurrency l = 1 \<and> al_provider_create_concurrency l = 1"

lemma u32_positive: "Suc 0 \<le> unat w \<Longrightarrow> (1 :: u32) \<le> w" for w :: u32
  by (simp add: word_le_nat_alt)

lemma limits_built_ok: "limits_built l \<Longrightarrow> limits_ok l"
proof (induction rule: limits_built.induct)
  case (built_bounded rb sb si gb gi mx wq l)
  then show ?case
    by (auto simp: bounded_def guard_simps limits_ok_def in_range_def intro: u32_positive)
next
  case (built_initial l s g m)
  then show ?case
    by (auto simp: with_initial_tokens_def limits_ok_def word_neq_0_conv split: if_splits)
qed

section \<open>Token buckets\<close>

datatype AdmissionDecision = Allowed | Limited (limited_for: Duration)

record Bucket =
  bk_tokens :: u32
  bk_burst :: u32
  bk_refill_interval :: Duration
  bk_last_refill :: Instant

definition Bucket_new :: "u32 \<Rightarrow> Duration \<Rightarrow> u32 \<Rightarrow> Instant \<Rightarrow> Bucket" where
  "Bucket_new burst refill_interval initial_tokens now =
     \<lparr>bk_tokens = initial_tokens, bk_burst = burst, bk_refill_interval = refill_interval,
      bk_last_refill = now\<rparr>"

definition refill :: "Instant \<Rightarrow> Bucket \<Rightarrow> Bucket" where
  "refill now b =
     (let elapsed = now - bk_last_refill b; interval_nanos = bk_refill_interval b
      in if interval_nanos = 0 then b
         else let intervals = elapsed div interval_nanos
           in if intervals = 0 then b
              else b\<lparr>bk_tokens := min (u32_saturating_add (bk_tokens b) (u32_or_max intervals)) (bk_burst b),
                     bk_last_refill := bk_last_refill b +
                       duration_saturating_mul (bk_refill_interval b) (u32_or_max intervals)\<rparr>)"

definition availability :: "Instant \<Rightarrow> Bucket \<Rightarrow> AdmissionDecision \<times> Bucket" where
  "availability now b =
     (let b = refill now b
      in if 0 < bk_tokens b then (Allowed, b)
         else (Limited (max (bk_refill_interval b - (now - bk_last_refill b)) (from_millis 1)), b))"

text \<open>\<open>None\<close> is the failed \<^verbatim>\<open>debug_assert\<close>.\<close>

definition debit :: "Bucket \<Rightarrow> Bucket option" where
  "debit b = (if 0 < bk_tokens b then Some (b\<lparr>bk_tokens := bk_tokens b - 1\<rparr>) else None)"

section \<open>The controller\<close>

datatype IpAddr = V4 u32 | V6 "128 word"

definition to_ipv4_mapped :: "128 word \<Rightarrow> u32 option" where
  "to_ipv4_mapped a = (if drop_bit 32 a = 65535 then Some (ucast a) else None)"

fun normalize_ip :: "IpAddr \<Rightarrow> IpAddr" where
  "normalize_ip (V6 address) = (case to_ipv4_mapped address of None \<Rightarrow> V6 address | Some a \<Rightarrow> V4 a)"
| "normalize_ip (V4 address) = V4 address"

record SourceBucket =
  sb_bucket :: Bucket
  sb_last_seen :: Instant

record admission_controller =
  ac_limits :: AdmissionLimits
  ac_initialized_at :: Instant
  ac_global :: Bucket
  ac_overflow :: Bucket
  ac_sources :: "(IpAddr \<times> SourceBucket) list"

definition controller_new :: "AdmissionLimits \<Rightarrow> Instant \<Rightarrow> admission_controller" where
  "controller_new limits now =
     \<lparr>ac_limits = limits, ac_initialized_at = now,
      ac_global = Bucket_new (al_global_burst limits) (al_global_refill_interval limits)
        (al_global_initial_tokens limits) now,
      ac_overflow = Bucket_new (al_source_burst limits) (al_source_refill_interval limits) 1 now,
      ac_sources = []\<rparr>"

definition source_update ::
    "IpAddr \<Rightarrow> SourceBucket \<Rightarrow> (IpAddr \<times> SourceBucket) list \<Rightarrow> (IpAddr \<times> SourceBucket) list" where
  "source_update source sb = map (\<lambda>(k, v). if k = source then (k, sb) else (k, v))"

text \<open>A full map gives up one source that has been silent for the time a whole burst takes.\<close>

definition evict_stale ::
    "((IpAddr \<times> SourceBucket) list \<Rightarrow> (IpAddr \<times> SourceBucket) list) \<Rightarrow> IpAddr \<Rightarrow> Instant \<Rightarrow>
     admission_controller \<Rightarrow> admission_controller" where
  "evict_stale iter source now c =
     (if map_of (ac_sources c) source = None \<and>
         al_maximum_tracked_sources (ac_limits c) \<le> length (ac_sources c)
      then let stale_after = duration_saturating_mul (al_source_refill_interval (ac_limits c))
             (al_source_burst (ac_limits c))
        in case find (\<lambda>(k, v). stale_after \<le> now - sb_last_seen v) (iter (ac_sources c)) of
             None \<Rightarrow> c
           | Some (stale, _) \<Rightarrow> c\<lparr>ac_sources := filter (\<lambda>(k, v). k \<noteq> stale) (ac_sources c)\<rparr>
      else c)"

datatype selected_bucket = Tracked SourceBucket | Overflow | New Bucket

text \<open>The bucket a request is charged to, its decision, and the controller after the refill.\<close>

definition select_bucket ::
    "IpAddr \<Rightarrow> Instant \<Rightarrow> admission_controller \<Rightarrow>
     selected_bucket \<times> AdmissionDecision \<times> admission_controller" where
  "select_bucket source now c =
     (case map_of (ac_sources c) source of
        Some sb \<Rightarrow>
          let (decision, b) = availability now (sb_bucket sb);
              sb = \<lparr>sb_bucket = b, sb_last_seen = max (sb_last_seen sb) now\<rparr>
          in (Tracked sb, decision, c\<lparr>ac_sources := source_update source sb (ac_sources c)\<rparr>)
      | None \<Rightarrow>
          if al_maximum_tracked_sources (ac_limits c) \<le> length (ac_sources c)
          then let (decision, b) = availability now (ac_overflow c)
            in (Overflow, decision, c\<lparr>ac_overflow := b\<rparr>)
          else let (decision, b) = availability now (Bucket_new (al_source_burst (ac_limits c))
                 (al_source_refill_interval (ac_limits c)) (al_source_initial_tokens (ac_limits c)) now)
            in (New b, decision, c))"

fun charge ::
    "IpAddr \<Rightarrow> Instant \<Rightarrow> selected_bucket \<Rightarrow> admission_controller \<Rightarrow> admission_controller option" where
  "charge source now (Tracked sb) c =
     map_option (\<lambda>b. c\<lparr>ac_sources := source_update source (sb\<lparr>sb_bucket := b\<rparr>) (ac_sources c)\<rparr>)
       (debit (sb_bucket sb))"
| "charge source now Overflow c = map_option (\<lambda>b. c\<lparr>ac_overflow := b\<rparr>) (debit (ac_overflow c))"
| "charge source now (New b) c =
     map_option (\<lambda>b. c\<lparr>ac_sources := ac_sources c @ [(source, \<lparr>sb_bucket = b, sb_last_seen = now\<rparr>)]\<rparr>)
       (debit b)"

definition admit ::
    "((IpAddr \<times> SourceBucket) list \<Rightarrow> (IpAddr \<times> SourceBucket) list) \<Rightarrow> IpAddr \<Rightarrow> Instant \<Rightarrow>
     admission_controller \<Rightarrow> (AdmissionDecision \<times> admission_controller) option" where
  "admit iter source now c =
     (if now < ac_initialized_at c
      then Some (Limited (al_global_refill_interval (ac_limits c)), c)
      else let source = normalize_ip source; c = evict_stale iter source now c;
               (selected, source_decision, c) = select_bucket source now c
        in case source_decision of Limited d \<Rightarrow> Some (Limited d, c)
           | Allowed \<Rightarrow>
               let (global_decision, b) = availability now (ac_global c); c = c\<lparr>ac_global := b\<rparr>
               in case global_decision of Limited d \<Rightarrow> Some (Limited d, c)
                  | Allowed \<Rightarrow>
                      Option.bind (charge source now selected c) (\<lambda>c.
                      map_option (\<lambda>b. (Allowed, c\<lparr>ac_global := b\<rparr>)) (debit (ac_global c))))"

section \<open>Runs of the controller\<close>

type_synonym admission_call =
  "((IpAddr \<times> SourceBucket) list \<Rightarrow> (IpAddr \<times> SourceBucket) list) \<times> IpAddr \<times> Instant"

text \<open>The decisions of a sequence of requests, with any instants in any order.\<close>

fun run_admissions ::
    "admission_call list \<Rightarrow> admission_controller \<Rightarrow> (AdmissionDecision list \<times> admission_controller) option"
where
  "run_admissions [] c = Some ([], c)"
| "run_admissions ((iter, source, now) # calls) c =
     Option.bind (admit iter source now c) (\<lambda>(d, c).
     map_option (\<lambda>(ds, c). (d # ds, c)) (run_admissions calls c))"

definition instants_within :: "Instant \<Rightarrow> Instant \<Rightarrow> admission_call list \<Rightarrow> bool" where
  "instants_within a b = list_all (\<lambda>(iter, source, now). a \<le> now \<and> now \<le> b)"

definition admitted :: "AdmissionDecision list \<Rightarrow> nat" where
  "admitted ds = length (filter (\<lambda>d. d = Allowed) ds)"

section \<open>What a bucket promises\<close>

text \<open>A bucket of the given burst and interval that was last refilled within the given bounds.\<close>

definition bucket_ok :: "u32 \<Rightarrow> Duration \<Rightarrow> Instant \<Rightarrow> Instant \<Rightarrow> Bucket \<Rightarrow> bool" where
  "bucket_ok burst interval lo hi b \<longleftrightarrow>
     bk_burst b = burst \<and> bk_refill_interval b = interval \<and> 0 < burst \<and> refill_allowed interval \<and>
     bk_tokens b \<le> burst \<and> lo \<le> bk_last_refill b \<and> bk_last_refill b \<le> hi"

text \<open>A bucket pays for what it spends: tokens spent and left never exceed those it had and the refills.\<close>

definition bucket_pays :: "Bucket \<Rightarrow> nat \<Rightarrow> Bucket \<Rightarrow> bool" where
  "bucket_pays b spent b' \<longleftrightarrow>
     bk_refill_interval b * (unat (bk_tokens b') + spent) + bk_last_refill b
       \<le> bk_refill_interval b * unat (bk_tokens b) + bk_last_refill b'"

lemma bucket_pays_refl [simp]: "bucket_pays b 0 b"
  by (simp add: bucket_pays_def)

lemma bucket_pays_trans:
  assumes "bucket_pays a m b" "bucket_pays b n c" "bk_refill_interval b = bk_refill_interval a"
  shows "bucket_pays a (m + n) c"
  using assms by (simp add: bucket_pays_def algebra_simps)

lemma unat_u32_less: "unat w < 2 ^ 32" for w :: u32
  using unsigned_less [of w, where 'a = nat] by simp

lemma u32_max: "unat (- 1 :: u32) = 2 ^ 32 - 1"
  by (simp add: unsigned_minus_1_eq_mask mask_eq_exp_minus_1)

lemma unat_or_max: "unat (u32_or_max n) = min n (2 ^ 32 - 1)"
  using u32_max by (auto simp: u32_or_max_def unat_of_nat)

lemma unat_saturating_add: "unat (u32_saturating_add a b) = min (unat a + unat b) (2 ^ 32 - 1)"
  using u32_max by (auto simp: u32_saturating_add_def unat_word_ariths)

lemma refill_product:
  assumes "refill_allowed d"
  shows "duration_saturating_mul d k = d * unat k"
proof -
  have "d * unat k \<le> 3600000000000 * (2 ^ 32 - 1)"
    using assms unat_u32_less [of k] by (intro mult_mono) (simp_all add: refill_allowed_def in_range_def from_secs_def)
  also have "\<dots> \<le> duration_max" by (simp add: duration_max_def)
  finally show ?thesis by (simp add: duration_saturating_mul_def)
qed

text \<open>One refill, in terms of the intervals it credits.\<close>

lemma refill_effect:
  fixes now :: Instant
  assumes "bucket_ok burst interval lo hi b"
  defines "n \<equiv> min ((now - bk_last_refill b) div interval) (2 ^ 32 - 1)"
  shows "bk_last_refill (refill now b) = bk_last_refill b + interval * n"
    and "unat (bk_tokens (refill now b)) = min (unat (bk_tokens b) + n) (unat burst)"
    and "bk_burst (refill now b) = burst" "bk_refill_interval (refill now b) = interval"
proof -
  have pos: "0 < interval" using assms(1)
    by (simp add: bucket_ok_def refill_allowed_def in_range_def from_millis_def)
  have fits: "unat burst < 2 ^ 32" "unat (bk_tokens b) \<le> unat burst"
    using assms(1) unat_u32_less [of burst] by (simp_all add: bucket_ok_def word_le_nat_alt)
  have min: "unat (min x y) = min (unat x) (unat y)" for x y :: u32
    by (simp add: min_def word_le_nat_alt)
  show "bk_last_refill (refill now b) = bk_last_refill b + interval * n"
    using assms(1) pos by (simp add: refill_def Let_def bucket_ok_def refill_product unat_or_max n_def)
  show "unat (bk_tokens (refill now b)) = min (unat (bk_tokens b) + n) (unat burst)"
    using assms(1) pos fits
    by (auto simp: refill_def Let_def bucket_ok_def min unat_saturating_add unat_or_max n_def)
  show "bk_burst (refill now b) = burst" "bk_refill_interval (refill now b) = interval"
    using assms(1) by (simp_all add: refill_def Let_def bucket_ok_def)
qed

lemma refill_keeps:
  assumes "bucket_ok burst interval lo hi b"
  shows "bucket_ok burst interval lo (max hi now) (refill now b)" "bucket_pays b 0 (refill now b)"
proof -
  let ?n = "min ((now - bk_last_refill b) div interval) (2 ^ 32 - 1)"
  note eff = refill_effect [OF assms, of now]
  have pos: "0 < interval" and int: "bk_refill_interval b = interval" using assms
    by (simp_all add: bucket_ok_def refill_allowed_def in_range_def from_millis_def)
  have "interval * ?n \<le> interval * ((now - bk_last_refill b) div interval)" by (intro mult_le_mono2) simp
  also have "\<dots> \<le> now - bk_last_refill b" by (rule times_div_less_eq_dividend)
  finally have "bk_last_refill b + interval * ?n \<le> max (bk_last_refill b) now" by simp
  also have "\<dots> \<le> max hi now" using assms by (auto simp: bucket_ok_def)
  finally show "bucket_ok burst interval lo (max hi now) (refill now b)"
    using assms eff by (simp add: bucket_ok_def word_le_nat_alt)
  have "interval * unat (bk_tokens (refill now b)) \<le> interval * (unat (bk_tokens b) + ?n)"
    unfolding eff(2) by (intro mult_le_mono2) simp
  then show "bucket_pays b 0 (refill now b)"
    using eff(1) int by (simp add: bucket_pays_def algebra_simps)
qed

text \<open>A refill that is not cut short leaves less than one interval uncredited.\<close>

lemma refill_catches_up:
  assumes "bucket_ok burst interval lo hi b" "now < bk_last_refill b + 2 ^ 32 * interval"
  shows "now < bk_last_refill (refill now b) + interval"
proof -
  have pos: "0 < interval" using assms
    by (simp add: bucket_ok_def refill_allowed_def in_range_def from_millis_def)
  have "(now - bk_last_refill b) div interval \<le> 2 ^ 32 - 1"
    using assms(2) pos by (auto simp: less_Suc_eq_le [symmetric] div_less_iff_less_mult)
  then have "bk_last_refill (refill now b) =
      bk_last_refill b + interval * ((now - bk_last_refill b) div interval)"
    using refill_effect(1) [OF assms(1)] by simp
  moreover have "now - bk_last_refill b < interval * ((now - bk_last_refill b) div interval) + interval"
    using pos by (metis add.commute div_mult_mod_eq mod_less_divisor mult.commute nat_add_left_cancel_less)
  ultimately show ?thesis by linarith
qed

lemma refill_opens:
  assumes "bucket_ok burst interval lo hi b" "hi + interval \<le> now"
  shows "0 < bk_tokens (refill now b)"
proof -
  have pos: "0 < interval" "bk_last_refill b \<le> hi" "0 < unat burst" using assms
    by (simp_all add: bucket_ok_def refill_allowed_def in_range_def from_millis_def word_less_nat_alt)
  then have "1 \<le> (now - bk_last_refill b) div interval"
    using assms(2) by (simp add: less_eq_div_iff_mult_less_eq)
  then have "0 < unat (bk_tokens (refill now b))"
    using refill_effect(2) [OF assms(1), of now] pos(3) by (simp add: min_def)
  then show ?thesis by (simp add: word_less_nat_alt)
qed

lemma availability_cases:
  assumes "availability now b = (d, b')"
  shows "b' = refill now b \<and> (d = Allowed \<longleftrightarrow> 0 < bk_tokens b')"
  using assms by (auto simp: availability_def Let_def split: if_splits)

lemma debit_keeps:
  assumes "debit b = Some b'"
  shows "bucket_ok burst interval lo hi b \<Longrightarrow> bucket_ok burst interval lo hi b'"
    and "bucket_pays b 1 b'"
proof -
  have b': "b' = b\<lparr>bk_tokens := bk_tokens b - 1\<rparr>" and pos: "0 < bk_tokens b"
    using assms by (auto simp: debit_def split: if_splits)
  then have one: "unat (bk_tokens b - 1) + 1 = unat (bk_tokens b)"
    by (simp add: unat_sub_if' word_less_nat_alt)
  then show "bucket_ok burst interval lo hi b \<Longrightarrow> bucket_ok burst interval lo hi b'"
    by (simp add: b' bucket_ok_def word_le_nat_alt)
  show "bucket_pays b 1 b'" using one by (simp add: b' bucket_pays_def)
qed

lemma debit_open: "0 < bk_tokens b \<Longrightarrow> \<exists>b'. debit b = Some b'"
  by (simp add: debit_def)

section \<open>The controller's invariant\<close>

definition source_ok :: "AdmissionLimits \<Rightarrow> Instant \<Rightarrow> Instant \<Rightarrow> IpAddr \<times> SourceBucket \<Rightarrow> bool" where
  "source_ok l t0 t entry \<longleftrightarrow>
     normalize_ip (fst entry) = fst entry \<and> sb_last_seen (snd entry) \<le> t \<and>
     bucket_ok (al_source_burst l) (al_source_refill_interval l) t0 t (sb_bucket (snd entry))"

definition admission_inv :: "AdmissionLimits \<Rightarrow> Instant \<Rightarrow> Instant \<Rightarrow> admission_controller \<Rightarrow> bool" where
  "admission_inv l t0 t c \<longleftrightarrow>
     limits_ok l \<and> ac_limits c = l \<and> ac_initialized_at c = t0 \<and>
     bucket_ok (al_global_burst l) (al_global_refill_interval l) t0 t (ac_global c) \<and>
     bucket_ok (al_source_burst l) (al_source_refill_interval l) t0 t (ac_overflow c) \<and>
     list_all (source_ok l t0 t) (ac_sources c) \<and> distinct (map fst (ac_sources c)) \<and>
     length (ac_sources c) \<le> al_maximum_tracked_sources l"

lemma bucket_ok_later: "bucket_ok burst i lo hi b \<Longrightarrow> hi \<le> t \<Longrightarrow> bucket_ok burst i lo t b"
  by (simp add: bucket_ok_def)

lemma admission_inv_later: "admission_inv l t0 t c \<Longrightarrow> t \<le> t' \<Longrightarrow> admission_inv l t0 t' c"
  by (auto simp: admission_inv_def list_all_iff source_ok_def elim: bucket_ok_later)

lemma normalize_ip_idem [simp]: "normalize_ip (normalize_ip a) = normalize_ip a"
  by (cases a) (auto split: option.splits)

lemma limits_positive:
  assumes "limits_ok l"
  shows "0 < al_source_burst l" "0 < al_global_burst l" "1 \<le> al_source_burst l"
  using assms by (auto simp: limits_ok_def in_range_def word_less_nat_alt intro: u32_positive)

lemma new_bucket_ok:
  assumes "limits_ok l" "lo \<le> now"
  shows "bucket_ok (al_source_burst l) (al_source_refill_interval l) lo now
      (Bucket_new (al_source_burst l) (al_source_refill_interval l) (al_source_initial_tokens l) now)"
  using assms limits_positive [OF assms(1)] by (simp add: bucket_ok_def Bucket_new_def limits_ok_def)

lemma controller_new_inv: "limits_ok l \<Longrightarrow> admission_inv l t0 t0 (controller_new l t0)"
  using limits_positive [of l]
  by (simp add: admission_inv_def controller_new_def bucket_ok_def Bucket_new_def limits_ok_def)

lemma evict_stale_inv: "admission_inv l t0 t c \<Longrightarrow> admission_inv l t0 t (evict_stale iter source now c)"
  by (auto simp: admission_inv_def evict_stale_def Let_def list_all_iff distinct_map_filter
      intro: order.trans [OF length_filter_le] split: option.splits)

lemma evict_stale_frame [simp]:
  "ac_limits (evict_stale iter source now c) = ac_limits c"
  "ac_initialized_at (evict_stale iter source now c) = ac_initialized_at c"
  "ac_global (evict_stale iter source now c) = ac_global c"
  by (auto simp: evict_stale_def Let_def split: option.splits)

lemma source_update_keys [simp]:
  "map fst (source_update s sb xs) = map fst xs" "length (source_update s sb xs) = length xs"
  by (induction xs) (auto simp: source_update_def)

lemma source_update_ok:
  "list_all (source_ok l t0 t) xs \<Longrightarrow> source_ok l t0 t (s, sb) \<Longrightarrow>
   list_all (source_ok l t0 t) (source_update s sb xs)"
  by (auto simp: source_update_def list_all_iff)

lemma map_of_update: "map_of xs s \<noteq> None \<Longrightarrow> map_of (source_update s sb xs) s = Some sb"
  by (induction xs) (auto simp: source_update_def split: if_splits)

text \<open>The selected bucket is one of the controller's or a fresh one, refilled now.\<close>

definition selected_ok :: "AdmissionLimits \<Rightarrow> Instant \<Rightarrow> Instant \<Rightarrow> Instant \<Rightarrow> IpAddr \<Rightarrow> admission_controller \<Rightarrow>
    selected_bucket \<Rightarrow> Bucket \<Rightarrow> bool" where
  "selected_ok l t0 t now source c selected b \<longleftrightarrow>
     bucket_ok (al_source_burst l) (al_source_refill_interval l) t0 t b \<and>
     (case selected of
        Tracked sb \<Rightarrow> sb_bucket sb = b \<and> source_ok l t0 t (source, sb)
      | Overflow \<Rightarrow> ac_overflow c = b
      | New nb \<Rightarrow> nb = b \<and> source \<notin> set (map fst (ac_sources c)) \<and>
          length (ac_sources c) < al_maximum_tracked_sources l)"

lemma select_bucket_effect:
  assumes "admission_inv l t0 t c" "t0 \<le> now" "normalize_ip source = source"
    and "select_bucket source now c = (selected, d, c')"
  obtains b where "admission_inv l t0 (max t now) c'" "ac_global c' = ac_global c"
    "selected_ok l t0 (max t now) now source c' selected b" "d = Allowed \<longleftrightarrow> 0 < bk_tokens b"
    "t + al_source_refill_interval l \<le> now \<Longrightarrow> d = Allowed"
proof -
  note inv = admission_inv_later [OF assms(1), of "max t now", simplified]
  have lim: "ac_limits c = l" "limits_ok l" using assms(1) by (simp_all add: admission_inv_def)
  show thesis
  proof (cases "map_of (ac_sources c) source")
    case (Some sb)
    obtain b where b: "availability now (sb_bucket sb) = (d, b)" and
      c': "c' = c\<lparr>ac_sources := source_update source
             \<lparr>sb_bucket = b, sb_last_seen = max (sb_last_seen sb) now\<rparr> (ac_sources c)\<rparr>"
      and sel: "selected = Tracked \<lparr>sb_bucket = b, sb_last_seen = max (sb_last_seen sb) now\<rparr>"
      using assms(4) Some by (auto simp: select_bucket_def Let_def split: prod.splits)
    note av = availability_cases [OF b]
    have old: "source_ok l t0 t (source, sb)"
      using assms(1) map_of_SomeD [OF Some] by (auto simp: admission_inv_def list_all_iff)
    then have ok: "bucket_ok (al_source_burst l) (al_source_refill_interval l) t0 (max t now) b"
      using refill_keeps(1) [of "al_source_burst l" "al_source_refill_interval l" t0 t "sb_bucket sb" now] av
      by (simp add: source_ok_def)
    then have new: "source_ok l t0 (max t now) (source, \<lparr>sb_bucket = b, sb_last_seen = max (sb_last_seen sb) now\<rparr>)"
      using old by (auto simp: source_ok_def)
    show thesis
    proof (rule that [of b])
      show "admission_inv l t0 (max t now) c'"
        using inv source_update_ok [OF _ new] by (simp add: admission_inv_def c')
      show "d = Allowed" if "t + al_source_refill_interval l \<le> now"
        using old refill_opens that av by (auto simp: source_ok_def)
    qed (use av ok new in \<open>simp_all add: c' sel selected_ok_def\<close>)
  next
    case None
    show thesis
    proof (cases "al_maximum_tracked_sources l \<le> length (ac_sources c)")
      case True
      obtain b where b: "availability now (ac_overflow c) = (d, b)" and
        c': "c' = c\<lparr>ac_overflow := b\<rparr>" and sel: "selected = Overflow"
        using assms(4) None True lim by (auto simp: select_bucket_def Let_def split: prod.splits)
      note av = availability_cases [OF b]
      have old: "bucket_ok (al_source_burst l) (al_source_refill_interval l) t0 t (ac_overflow c)"
        using assms(1) by (simp add: admission_inv_def)
      note ok = refill_keeps(1) [OF old, of now]
      show thesis
      proof (rule that [of b])
        show "admission_inv l t0 (max t now) c'" using inv ok av by (simp add: admission_inv_def c')
        show "d = Allowed" if "t + al_source_refill_interval l \<le> now"
          using old refill_opens that av by auto
      qed (use av ok in \<open>simp_all add: c' sel selected_ok_def\<close>)
    next
      case False
      let ?b = "Bucket_new (al_source_burst l) (al_source_refill_interval l) (al_source_initial_tokens l) now"
      obtain b where b: "availability now ?b = (d, b)" and c': "c' = c" and sel: "selected = New b"
        using assms(4) None False lim by (auto simp: select_bucket_def Let_def split: prod.splits)
      note av = availability_cases [OF b]
      have "bucket_ok (al_source_burst l) (al_source_refill_interval l) t0 (max t now) b"
        using refill_keeps(1) [OF new_bucket_ok [OF lim(2) assms(2)], of now] av
        by (auto elim: bucket_ok_later)
      moreover have "d = Allowed" using av lim(2)
        by (simp add: refill_def Bucket_new_def limits_ok_def Let_def)
      ultimately show thesis using av inv None False
        by (intro that [of b]) (simp_all add: c' sel selected_ok_def map_of_eq_None_iff)
    qed
  qed
qed

lemma charge_effect:
  assumes inv: "admission_inv l t0 t c" and sel: "selected_ok l t0 t now source c selected b"
    and "normalize_ip source = source" "now \<le> t" "0 < bk_tokens b"
  shows "\<exists>c'. charge source now selected c = Some c' \<and> admission_inv l t0 t c' \<and> ac_global c' = ac_global c"
proof -
  obtain b' where d: "debit b = Some b'" using debit_open [OF assms(5)] by blast
  have ok: "bucket_ok (al_source_burst l) (al_source_refill_interval l) t0 t b'"
    using debit_keeps(1) [OF d] sel by (simp add: selected_ok_def)
  show ?thesis
  proof (cases selected)
    case (Tracked sb)
    with sel ok have "source_ok l t0 t (source, sb\<lparr>sb_bucket := b'\<rparr>)"
      by (simp add: selected_ok_def source_ok_def)
    then show ?thesis using Tracked sel d inv source_update_ok [of l t0 t "ac_sources c" source]
      by (simp add: selected_ok_def admission_inv_def)
  next
    case Overflow
    then show ?thesis using sel d ok inv by (simp add: selected_ok_def admission_inv_def)
  next
    case (New nb)
    have "source_ok l t0 t (source, \<lparr>sb_bucket = b', sb_last_seen = now\<rparr>)"
      using ok assms(3,4) by (simp add: source_ok_def)
    then show ?thesis using New sel d inv by (simp add: selected_ok_def admission_inv_def)
  qed
qed

text \<open>How one request changes the global bucket.\<close>

definition global_step :: "Instant \<Rightarrow> Bucket \<Rightarrow> nat \<Rightarrow> Bucket \<Rightarrow> bool" where
  "global_step now g n g' \<longleftrightarrow> n = 0 \<and> g' = g \<or> bucket_pays (refill now g) n g'"

definition cost :: "AdmissionDecision \<Rightarrow> nat" where
  "cost d = (if d = Allowed then 1 else 0)"

lemma admit_step:
  assumes inv: "admission_inv l t0 t c"
  obtains d c' where "admit iter source now c = Some (d, c')" "admission_inv l t0 (max t now) c'"
    "global_step now (ac_global c) (cost d) (ac_global c')"
    "t + al_source_refill_interval l \<le> now \<Longrightarrow> t + al_global_refill_interval l \<le> now \<Longrightarrow>
      t0 \<le> now \<Longrightarrow> d = Allowed"
proof (cases "now < ac_initialized_at c")
  case True
  with inv have "\<not> t0 \<le> now" by (simp add: admission_inv_def)
  with True show thesis
    by (intro that [of "Limited (al_global_refill_interval (ac_limits c))" c])
      (simp_all add: admit_def global_step_def cost_def admission_inv_later [OF inv])
next
  case False
  then have t0: "t0 \<le> now" using inv by (simp add: admission_inv_def)
  let ?s = "normalize_ip source" and ?e = "evict_stale iter (normalize_ip source) now c"
  obtain selected d1 c1 where s: "select_bucket ?s now ?e = (selected, d1, c1)" by (cases "select_bucket ?s now ?e")
  from select_bucket_effect [OF evict_stale_inv [OF inv] t0 normalize_ip_idem s] obtain b where
    one: "admission_inv l t0 (max t now) c1" "ac_global c1 = ac_global c"
    "selected_ok l t0 (max t now) now ?s c1 selected b" "d1 = Allowed \<longleftrightarrow> 0 < bk_tokens b"
    "t + al_source_refill_interval l \<le> now \<Longrightarrow> d1 = Allowed" by auto
  show thesis
  proof (cases d1)
    case (Limited r)
    with False s one show thesis
      by (intro that [of "Limited r" c1]) (auto simp: admit_def Let_def global_step_def cost_def)
  next
    case Allowed
    obtain d2 g where g: "availability now (ac_global c1) = (d2, g)" by fastforce
    note av = availability_cases [OF g]
    have ok: "bucket_ok (al_global_burst l) (al_global_refill_interval l) t0 t (ac_global c)"
      using inv by (simp add: admission_inv_def)
    note gok = refill_keeps(1) [OF ok, of now]
    let ?c2 = "c1\<lparr>ac_global := g\<rparr>"
    have inv2: "admission_inv l t0 (max t now) ?c2"
      using one(1,2) gok av by (simp add: admission_inv_def)
    have opens: "t + al_global_refill_interval l \<le> now \<Longrightarrow> d2 = Allowed"
      using refill_opens [OF ok] av one(2) by simp
    show thesis
    proof (cases d2)
      case (Limited r)
      with False s Allowed g inv2 av one(2) opens show thesis
        by (intro that [of "Limited r" ?c2])
          (auto simp: admit_def Let_def global_step_def cost_def)
    next
      case allowed2: Allowed
      have "selected_ok l t0 (max t now) now ?s ?c2 selected b" using one(3)
        by (simp add: selected_ok_def split: selected_bucket.splits)
      from charge_effect [OF inv2 this normalize_ip_idem] Allowed one(4) obtain c3 where
        c3: "charge ?s now selected ?c2 = Some c3" "admission_inv l t0 (max t now) c3" "ac_global c3 = g"
        by auto
      obtain g' where g': "debit g = Some g'" using debit_open av allowed2 by blast
      have inv4: "admission_inv l t0 (max t now) (c3\<lparr>ac_global := g'\<rparr>)"
        using c3 debit_keeps(1) [OF g'] by (simp add: admission_inv_def)
      show thesis
        by (rule that [of Allowed "c3\<lparr>ac_global := g'\<rparr>"])
          (use False s Allowed allowed2 g c3 g' inv4 debit_keeps(2) [OF g'] av [THEN conjunct1] one(2) in
            \<open>simp_all add: admit_def Let_def global_step_def cost_def\<close>)
    qed
  qed
qed

text \<open>Whole runs: they never panic, keep the invariant, and the global bucket pays for them.\<close>

lemma run_admissions_inv:
  assumes "admission_inv l t0 t c" "list_all (\<lambda>(iter, source, now). now \<le> b) calls" "t \<le> b"
  obtains ds c' where "run_admissions calls c = Some (ds, c')" "admission_inv l t0 b c'"
    "bucket_pays (ac_global c) (admitted ds) (ac_global c')" "length ds = length calls"
proof -
  have "\<exists>ds c'. run_admissions calls c = Some (ds, c') \<and> admission_inv l t0 b c' \<and>
      bucket_pays (ac_global c) (admitted ds) (ac_global c') \<and> length ds = length calls"
    using assms
  proof (induction calls arbitrary: c t)
    case Nil
    then show ?case by (auto simp: admitted_def intro: admission_inv_later)
  next
    case (Cons call calls)
    obtain iter source now where call: "call = (iter, source, now)" by (cases call)
    from Cons.prems(1) obtain d c1 where step: "admit iter source now c = Some (d, c1)"
      "admission_inv l t0 (max t now) c1" "global_step now (ac_global c) (cost d) (ac_global c1)"
      by (rule admit_step)
    have ok: "bucket_ok (al_global_burst l) (al_global_refill_interval l) t0 t (ac_global c)"
      using Cons.prems(1) by (simp add: admission_inv_def)
    have pays: "bucket_pays (ac_global c) (cost d) (ac_global c1)"
      using step(3) bucket_pays_trans [OF refill_keeps(2) [OF ok, of now]]
        refill_effect(4) [OF ok, of now] ok
      by (auto simp: global_step_def bucket_ok_def)
    have "max t now \<le> b" using Cons.prems(2,3) by (simp add: call)
    with Cons.IH [OF step(2)] Cons.prems(2) obtain ds c' where rest: "run_admissions calls c1 = Some (ds, c')"
      "admission_inv l t0 b c'" "bucket_pays (ac_global c1) (admitted ds) (ac_global c')"
      "length ds = length calls"
      by (auto simp: call)
    have "bk_refill_interval (ac_global c1) = bk_refill_interval (ac_global c)"
      using step(2) ok by (simp add: admission_inv_def bucket_ok_def)
    with bucket_pays_trans [OF pays rest(3)]
    have "bucket_pays (ac_global c) (admitted (d # ds)) (ac_global c')"
      by (auto simp: admitted_def cost_def)
    with step rest show ?case by (simp add: call)
  qed
  with that show thesis by blast
qed

lemma run_from_start:
  assumes "limits_built l" "instants_within 0 a calls" "t0 \<le> a"
    and "run_admissions calls (controller_new l t0) = Some (ds, c)"
  shows "admission_inv l t0 a c"
proof -
  have "list_all (\<lambda>(iter, source, now). now \<le> a) calls"
    using assms(2) by (auto simp: instants_within_def list_all_iff)
  from run_admissions_inv [OF controller_new_inv [OF limits_built_ok [OF assms(1)]] this assms(3)] assms(4)
  show ?thesis by auto
qed

text \<open>A source is known by its normalized address alone, and every reached controller answers.\<close>

lemma admit_normalized: "admit iter (normalize_ip source) now c = admit iter source now c"
  by (simp only: admit_def normalize_ip_idem)

lemma reached_admit:
  assumes "limits_built l" "run_admissions calls (controller_new l t0) = Some (ds, c)"
  shows "\<exists>d c'. admit iter source now c = Some (d, c')"
proof -
  let ?b = "Max (insert t0 (set (map (\<lambda>(iter, source, now). now) calls)))"
  have "instants_within 0 ?b calls" "t0 \<le> ?b"
    by (force simp: instants_within_def list_all_iff intro!: Max_ge)+
  from run_from_start [OF assms(1) this assms(2)] show ?thesis by (rule admit_step) blast
qed

text \<open>Admission is total and bounded: whatever the requests, their instants (in any order) and the
  iteration order of the map, the controller never panics, tracks at most the configured number
  of sources, each once and under its normalized address, and no bucket ever holds more than
  its burst.\<close>
theorem admission_state_bounded:
  assumes "limits_built l"
  shows "\<exists>ds c. run_admissions calls (controller_new l t0) = Some (ds, c) \<and> length ds = length calls \<and>
    length (ac_sources c) \<le> al_maximum_tracked_sources l \<and> distinct (map fst (ac_sources c)) \<and>
    (\<forall>(source, sb) \<in> set (ac_sources c). normalize_ip source = source \<and>
       bk_tokens (sb_bucket sb) \<le> al_source_burst l) \<and>
    bk_tokens (ac_overflow c) \<le> al_source_burst l \<and> bk_tokens (ac_global c) \<le> al_global_burst l"
proof -
  let ?b = "Max (insert t0 (set (map (\<lambda>(iter, source, now). now) calls)))"
  have "list_all (\<lambda>(iter, source, now). now \<le> ?b) calls" "t0 \<le> ?b"
    by (force simp: list_all_iff intro!: Max_ge)+
  from run_admissions_inv [OF controller_new_inv [OF limits_built_ok [OF assms]] this] obtain ds c where
    "run_admissions calls (controller_new l t0) = Some (ds, c)" "admission_inv l t0 ?b c"
    "length ds = length calls" by blast
  then show ?thesis
    by (intro exI [of _ ds] exI [of _ c])
      (auto simp: admission_inv_def bucket_ok_def source_ok_def list_all_iff)
qed

definition sample_limits :: AdmissionLimits where
  "sample_limits = \<lparr>al_request_body_bytes = 256, al_source_burst = 4, al_global_burst = 16,
     al_source_refill_interval = from_secs 30, al_global_refill_interval = from_secs 1,
     al_maximum_tracked_sources = 1024, al_worker_queue_capacity = 2, al_source_initial_tokens = 1,
     al_global_initial_tokens = 1, al_argon_concurrency = 1, al_provider_create_concurrency = 1\<rparr>"

lemma sample_limits_built: "limits_built sample_limits" "safe_defaults = Some sample_limits"
proof -
  have b: "bounded 256 4 (from_secs 30) 16 (from_secs 1) 1024 2 = Inr sample_limits"
    by (simp add: bounded_def in_range_def refill_allowed_def from_secs_def from_millis_def sample_limits_def)
  then show "limits_built sample_limits" by (rule built_bounded)
  show "safe_defaults = Some sample_limits" using b by (simp add: safe_defaults_def)
qed

definition sample_calls :: "admission_call list" where
  "sample_calls = [(id, V4 1, 5), (id, V6 281470681743361, 7)]"

lemmas admission_eval = admit_def Let_def evict_stale_def select_bucket_def availability_def
  refill_def controller_new_def Bucket_new_def debit_def sample_limits_def from_secs_def
  from_millis_def source_update_def to_ipv4_mapped_def

lemma sample_mapped: "normalize_ip (V6 281470681743361) = V4 1"
  by (simp add: to_ipv4_mapped_def)

lemma sample_admissions:
  "\<exists>c. run_admissions sample_calls (controller_new sample_limits 0) =
     Some ([Allowed, Limited 29999999998], c)"
  by (simp add: sample_calls_def sample_mapped admission_eval del: normalize_ip.simps(1))

theorem admission_state_bounded_witness:
  "\<exists>ds c. run_admissions sample_calls (controller_new sample_limits 0) = Some (ds, c) \<and> length ds = 2 \<and>
     length (ac_sources c) \<le> 1024"
  using admission_state_bounded [OF sample_limits_built(1), of sample_calls 0]
  by (auto simp: sample_calls_def sample_limits_def)

text \<open>A window of requests spends at most a burst, what the window refills, and one more token.\<close>

lemma window_bounded:
  assumes "admission_inv l t0 t c" "instants_within a b calls" "t \<le> b" "a \<le> b"
    and "b < t0 + 2 ^ 32 * al_global_refill_interval l"
    and "run_admissions calls c = Some (ds, c')"
  shows "al_global_refill_interval l * admitted ds <
    al_global_refill_interval l * (unat (al_global_burst l) + 1) + (b - a)"
  using assms
proof (induction calls arbitrary: c ds t)
  case Nil
  then have "0 < al_global_refill_interval l"
    by (simp add: admission_inv_def limits_ok_def refill_allowed_def in_range_def from_millis_def)
  with Nil show ?case by (simp add: admitted_def)
next
  case (Cons call calls)
  let ?I = "al_global_refill_interval l"
  obtain iter source now where call: "call = (iter, source, now)" by (cases call)
  from Cons.prems(1) obtain d c1 where step: "admit iter source now c = Some (d, c1)"
    "admission_inv l t0 (max t now) c1" "global_step now (ac_global c) (cost d) (ac_global c1)"
    by (rule admit_step)
  have now: "a \<le> now" "now \<le> b" "instants_within a b calls"
    using Cons.prems(2) by (simp_all add: call instants_within_def)
  then have upto: "max t now \<le> b" "list_all (\<lambda>(iter, source, now). now \<le> b) calls"
    using Cons.prems(3) by (auto simp: instants_within_def list_all_iff)
  from Cons.prems(6) step(1) obtain es where es: "run_admissions calls c1 = Some (es, c')" "ds = d # es"
    by (auto simp: call split: bind_splits)
  have ads: "admitted ds = cost d + admitted es" by (simp add: es(2) admitted_def cost_def)
  from step(3) show ?case unfolding global_step_def
  proof
    assume "cost d = 0 \<and> ac_global c1 = ac_global c"
    with Cons.IH [OF step(2) now(3) upto(1) Cons.prems(4,5) es(1)] show ?thesis by (simp add: ads)
  next
    let ?r = "refill now (ac_global c)"
    assume "bucket_pays ?r (cost d) (ac_global c1)"
    moreover from run_admissions_inv [OF step(2) upto(2,1)] es(1)
    have fin: "admission_inv l t0 b c'" "bucket_pays (ac_global c1) (admitted es) (ac_global c')" by auto
    moreover have ok: "bucket_ok (al_global_burst l) ?I t0 t (ac_global c)"
      "bucket_ok (al_global_burst l) ?I t0 (max t now) (ac_global c1)"
      "bucket_ok (al_global_burst l) ?I t0 b (ac_global c')"
      using Cons.prems(1) step(2) fin(1) by (simp_all add: admission_inv_def)
    ultimately have "bucket_pays ?r (admitted ds) (ac_global c')"
      using bucket_pays_trans [of ?r "cost d" "ac_global c1"] refill_effect(4) [OF ok(1), of now]
      by (simp add: ads bucket_ok_def)
    then have "?I * admitted ds + bk_last_refill ?r \<le> ?I * unat (bk_tokens ?r) + bk_last_refill (ac_global c')"
      using refill_effect(4) [OF ok(1), of now] by (simp add: bucket_pays_def algebra_simps)
    moreover have "?I * unat (bk_tokens ?r) \<le> ?I * unat (al_global_burst l)"
      using refill_effect(2) [OF ok(1), of now] by (intro mult_le_mono2) simp
    moreover have "now < bk_last_refill ?r + ?I"
      using refill_catches_up [OF ok(1), of now] Cons.prems(5) now(2) ok(1)
      by (simp add: bucket_ok_def)
    moreover have "bk_last_refill (ac_global c') \<le> b" using ok(3) by (simp add: bucket_ok_def)
    moreover obtain k where "b = a + k" using Cons.prems(4) le_Suc_ex by blast
    moreover have "?I * (unat (al_global_burst l) + 1) = ?I * unat (al_global_burst l) + ?I" by simp
    ultimately show ?thesis using now(1) by linarith
  qed
qed

text \<open>C30: The service never lets in more than its rate: in any window of time, after any history, the number
  of admitted requests is at most the global burst plus the refill intervals in the window plus
  one, however many sources ask, in whatever order and at whatever instants of the window. The
  controller's uptime is taken below 2^32 refill intervals, which is 497 days at the shortest
  interval the limits allow.\<close>
theorem admission_rate_bounded:
  assumes "limits_built l" "t0 \<le> a" "a \<le> b" "b < t0 + 2 ^ 32 * al_global_refill_interval l"
    and "instants_within 0 a before" "run_admissions before (controller_new l t0) = Some (es, c)"
    and "instants_within a b window" "run_admissions window c = Some (ds, c')"
  shows "admitted ds \<le> unat (al_global_burst l) + (b - a) div al_global_refill_interval l + 1"
proof -
  let ?I = "al_global_refill_interval l" and ?q = "(b - a) div al_global_refill_interval l"
  note inv = run_from_start [OF assms(1,5,2,6)]
  have "?I * admitted ds < ?I * (unat (al_global_burst l) + 1) + (b - a)"
    by (rule window_bounded [OF inv assms(7,3,3,4,8)])
  moreover have pos: "0 < ?I" using limits_built_ok [OF assms(1)]
    by (simp add: limits_ok_def refill_allowed_def in_range_def from_millis_def)
  then have "b - a < ?I * (?q + 1)"
    by (metis Suc_eq_plus1 dividend_less_times_div mult.commute mult_Suc add.commute)
  ultimately have "?I * admitted ds < ?I * (unat (al_global_burst l) + ?q + 2)"
    by (simp add: algebra_simps)
  then have "admitted ds < unat (al_global_burst l) + ?q + 2" unfolding mult_less_cancel1 by blast
  then show ?thesis by simp
qed

theorem admission_rate_bounded_witness:
  "\<exists>ds c'. run_admissions sample_calls (controller_new sample_limits 0) = Some (ds, c') \<and>
     admitted ds = 1 \<and> admitted ds \<le> 17"
proof -
  obtain c' where c: "run_admissions sample_calls (controller_new sample_limits 0) =
     Some ([Allowed, Limited 29999999998], c')" using sample_admissions by blast
  have w: "instants_within 0 10 sample_calls" "instants_within 0 0 []"
    by (simp_all add: instants_within_def sample_calls_def)
  have up: "10 < (0 :: nat) + 2 ^ 32 * al_global_refill_interval sample_limits"
    by (simp add: sample_limits_def from_secs_def)
  from admission_rate_bounded [OF sample_limits_built(1) order.refl _ up w(2) _ w(1) c] c
  show ?thesis by (simp add: sample_limits_def from_secs_def admitted_def)
qed

text \<open>C38: No source is locked out: after any history, if the service then stays quiet for the longer of the
  two refill intervals, the next request is admitted, whatever its source, however many sources
  were seen before and even when the map of sources is full.\<close>
theorem quiet_period_admits:
  assumes "limits_built l" "t0 \<le> a" "instants_within 0 a before"
    and "run_admissions before (controller_new l t0) = Some (es, c)"
    and "a + max (al_source_refill_interval l) (al_global_refill_interval l) \<le> now"
  shows "\<exists>c'. admit iter source now c = Some (Allowed, c')"
proof -
  show ?thesis
  proof (rule admit_step [OF run_from_start [OF assms(1,3,2,4)], of iter source now])
    fix d c' assume "admit iter source now c = Some (d, c')"
      and "a + al_source_refill_interval l \<le> now \<Longrightarrow> a + al_global_refill_interval l \<le> now \<Longrightarrow>
        t0 \<le> now \<Longrightarrow> d = Allowed"
    with assms(2,5) show ?thesis by auto
  qed
qed

theorem quiet_period_admits_witness:
  "\<exists>ds c c'. run_admissions sample_calls (controller_new sample_limits 0) = Some (ds, c) \<and>
     admit id (V4 7) 31000000000 c = Some (Allowed, c')"
proof -
  obtain c where c: "run_admissions sample_calls (controller_new sample_limits 0) =
     Some ([Allowed, Limited 29999999998], c)" using sample_admissions by blast
  have w: "instants_within 0 10 sample_calls" by (simp add: instants_within_def sample_calls_def)
  have q: "10 + max (al_source_refill_interval sample_limits) (al_global_refill_interval sample_limits)
      \<le> 31000000000" by (simp add: sample_limits_def from_secs_def)
  from quiet_period_admits [OF sample_limits_built(1) _ w c q, of id "V4 7"] c show ?thesis by blast
qed

end
