(* ===== verification/Redemption_Ingress.thy ===== *)
theory Redemption_Ingress
  imports Admission Tokens "HOL-Library.Sublist" "HOL-Library.Multiset"
begin

text \<open>
  The redemption endpoint of \<^verbatim>\<open>crates/nodescale-redemption-ingress/src/lib.rs\<close>: the HTTP handler
  behind the admission controller, the worker that redeems one command at a time, and the
  configuration of both.

  The worker runs over the invitation service, which is the record \<open>invitation_ops\<close> over the
  state \<open>'st\<close> of store and provider. A delivery is handed from the worker to the handler and
  acknowledged back; what the client and the handler's task do in between is the command's
  \<open>handoff_fate\<close>. Left out: sockets, TLS, threads, zeroizing, a poisoned lock, which only a panic
  in \<open>admit\<close> could cause, and the URL parser, of which the parsed parts are the argument.
\<close>

section \<open>Configuration\<close>

record parsed_url =
  pu_scheme :: string
  pu_host :: "string option"
  pu_username :: string
  pu_password :: "string option"
  pu_query :: "string option"
  pu_fragment :: "string option"
  pu_path :: string
  pu_text :: string

record JoinBootstrapConfig =
  jb_login_server :: string
  jb_root_ca_pem :: "string option"

datatype IngressConfigurationError = InvalidLoginServer | InvalidRootCa

definition MAX_ROOT_CA_PEM_BYTES :: nat where
  "MAX_ROOT_CA_PEM_BYTES = 64 * 1024"

definition contains_text :: "string \<Rightarrow> string \<Rightarrow> bool" where
  "contains_text s t \<longleftrightarrow> sublist t s"

definition bad_root_ca :: "string \<Rightarrow> bool" where
  "bad_root_ca pem \<longleftrightarrow>
     pem = [] \<or> MAX_ROOT_CA_PEM_BYTES < length pem \<or>
     \<not> contains_text pem ''-----BEGIN CERTIFICATE-----'' \<or>
     \<not> contains_text pem ''-----END CERTIFICATE-----''"

definition JoinBootstrapConfig_new ::
    "(string \<Rightarrow> parsed_url option) \<Rightarrow> string \<Rightarrow> string option \<Rightarrow>
     IngressConfigurationError + JoinBootstrapConfig" where
  "JoinBootstrapConfig_new parse_url login_server root_ca_pem =
     and_then (ok_or (parse_url login_server) InvalidLoginServer) (\<lambda>parsed.
     if pu_scheme parsed \<noteq> ''https'' \<or> pu_host parsed = None \<or> pu_username parsed \<noteq> [] \<or>
        pu_password parsed \<noteq> None \<or> pu_query parsed \<noteq> None \<or> pu_fragment parsed \<noteq> None \<or>
        pu_path parsed \<noteq> ''/''
     then Inl InvalidLoginServer
     else if pred_option bad_root_ca root_ca_pem \<and> root_ca_pem \<noteq> None then Inl InvalidRootCa
     else Inr \<lparr>jb_login_server = pu_text parsed, jb_root_ca_pem = root_ca_pem\<rparr>)"

text \<open>Binding the listener: only loopback and private addresses without an explicit opt-in.\<close>

datatype TlsServeConfigError = PublicBindRequiresExplicitOptIn | EmptyCredentialPath

record TlsServeConfig =
  tc_bind :: "IpAddr \<times> nat"
  tc_certificate_chain_path :: string
  tc_private_key_path :: string

definition is_private_bind :: "IpAddr \<Rightarrow> bool" where
  "is_private_bind a = (case a of
      V4 w \<Rightarrow> drop_bit 24 w = 127 \<or> drop_bit 24 w = 10 \<or> drop_bit 20 w = 2753 \<or> drop_bit 16 w = 49320
    | V6 w \<Rightarrow> w = 1 \<or> drop_bit 121 w = 126)"

definition TlsServeConfig_build ::
    "IpAddr \<times> nat \<Rightarrow> string \<Rightarrow> string \<Rightarrow> TlsServeConfigError + TlsServeConfig" where
  "TlsServeConfig_build addr certificate_chain_path private_key_path =
     (if certificate_chain_path = [] \<or> private_key_path = [] then Inl EmptyCredentialPath
      else Inr \<lparr>tc_bind = addr, tc_certificate_chain_path = certificate_chain_path,
                tc_private_key_path = private_key_path\<rparr>)"

definition private_bind ::
    "IpAddr \<times> nat \<Rightarrow> string \<Rightarrow> string \<Rightarrow> TlsServeConfigError + TlsServeConfig" where
  "private_bind addr certificate_chain_path private_key_path =
     (if \<not> is_private_bind (fst addr) then Inl PublicBindRequiresExplicitOptIn
      else TlsServeConfig_build addr certificate_chain_path private_key_path)"

section \<open>Responses\<close>

datatype RedemptionFailure = NotRedeemable | RedemptionUnavailable

record http_response =
  rs_status :: nat
  rs_body :: "u8 list"
  rs_headers :: "(string \<times> string) list"

definition fixed_response :: "nat \<Rightarrow> u8 list \<Rightarrow> Duration option \<Rightarrow> http_response" where
  "fixed_response status body retry_after =
     \<lparr>rs_status = status, rs_body = body,
      rs_headers =
        [(''content-type'', ''application/json''), (''cache-control'', ''no-store''),
         (''pragma'', ''no-cache''), (''x-content-type-options'', ''nosniff''),
         (''connection'', ''close'')] @
        (case retry_after of None \<Rightarrow> []
         | Some d \<Rightarrow> [(''retry-after'', decimal (max (as_secs d) 1))])\<rparr>"

definition invalid_request_response :: http_response where
  "invalid_request_response =
     fixed_response 400 (str_bytes ''{\"error\":\"invalid_request\"}'') None"

definition not_redeemable_response :: http_response where
  "not_redeemable_response =
     fixed_response 409 (str_bytes ''{\"error\":\"not_redeemable\"}'') None"

definition unavailable_response :: "Duration option \<Rightarrow> http_response" where
  "unavailable_response retry_after =
     fixed_response (if retry_after \<noteq> None then 429 else 503)
       (str_bytes ''{\"error\":\"temporarily_unavailable\"}'') retry_after"

text \<open>
  \<^verbatim>\<open>split(';').next()\<close> and \<^verbatim>\<open>trim\<close>, on a header value, which is visible ASCII with spaces
  and tabs.
\<close>

definition header_trim :: "string \<Rightarrow> string" where
  "header_trim s =
     (let white = (\<lambda>c. c = CHR '' '' \<or> byte_val c = 9)
      in rev (dropWhile white (rev (dropWhile white s))))"

definition is_json_content_type :: "string option \<Rightarrow> bool" where
  "is_json_content_type header =
     (case header of None \<Rightarrow> False
      | Some value \<Rightarrow>
          eq_ignore_ascii_case (header_trim (takeWhile (\<lambda>c. c \<noteq> CHR '';'') value)) ''application/json'')"

section \<open>The worker\<close>

datatype InvitationServiceError =
  InvalidRequest | NotFound | ServiceConflict | ServiceUnavailable | ProviderRejected |
  ProviderUnavailable | AuthenticationFailed | CompatibilityBlocked | AmbiguousOutcome

record delivery =
  dl_invitation_id :: InvitationId
  dl_secret :: string

record 'st invitation_ops =
  io_redeem :: "InvitationToken \<Rightarrow> IpAddr \<Rightarrow> int \<Rightarrow> 'st \<Rightarrow> (InvitationServiceError + delivery) \<times> 'st"
  io_revoke :: "InvitationId \<Rightarrow> int \<Rightarrow> 'st \<Rightarrow> (InvitationServiceError + unit) \<times> 'st"
  io_metadata_ok :: "IpAddr \<Rightarrow> bool"
  io_dummy_verify :: "InvitationToken \<Rightarrow> bool"

text \<open>
  What becomes of a delivery: the handler is gone before the reply, it drops the delivery, it
  fails to serialize it, or it serializes it and acknowledges.
\<close>

datatype handoff_fate = ReplyLost | HandoffDropped | SerializeFailed | HandedOver

record worker_command =
  wc_source :: IpAddr
  wc_token :: InvitationToken
  wc_timing_token :: InvitationToken
  wc_waited :: Duration
  wc_now :: int
  wc_revoke_now :: int
  wc_fate :: handoff_fate

text \<open>
  \<open>Issued\<close> marks the moment the service has created a credential for the command, \<open>RevokeAsked\<close> the
  call of \<^verbatim>\<open>service.revoke\<close> with its result, which the worker discards (\<^verbatim>\<open>let _ =\<close>).
\<close>

datatype worker_event =
    Issued delivery
  | Replied "RedemptionFailure + delivery"
  | Accepted delivery
  | RevokeAsked InvitationId "InvitationServiceError + unit"
  | TimingVerified InvitationToken
  | PendingHandoffs nat

definition send_delivery ::
    "'st invitation_ops \<Rightarrow> worker_command \<Rightarrow> delivery \<Rightarrow> nat \<Rightarrow> 'st \<Rightarrow> worker_event list \<times> nat \<times> 'st" where
  "send_delivery S c d handoffs st =
     (let waiting = handoffs + 1;
          i = dl_invitation_id d;
          (answer, revoked) = io_revoke S i (wc_revoke_now c) st
      in case wc_fate c of
           ReplyLost \<Rightarrow>
             ([Issued d, PendingHandoffs waiting, PendingHandoffs (waiting - 1), RevokeAsked i answer],
              waiting - 1, revoked)
         | HandedOver \<Rightarrow>
             ([Issued d, PendingHandoffs waiting, Replied (Inr d), Accepted d, PendingHandoffs (waiting - 1)],
              waiting - 1, st)
         | _ \<Rightarrow>
             ([Issued d, PendingHandoffs waiting, Replied (Inr d), PendingHandoffs (waiting - 1),
               RevokeAsked i answer], waiting - 1, revoked))"

definition worker_step ::
    "'st invitation_ops \<Rightarrow> worker_command \<Rightarrow> nat \<Rightarrow> 'st \<Rightarrow> worker_event list \<times> nat \<times> 'st" where
  "worker_step S c handoffs st =
     (if from_secs 5 < wc_waited c then ([Replied (Inl RedemptionUnavailable)], handoffs, st)
      else if \<not> io_metadata_ok S (wc_source c) then ([Replied (Inl RedemptionUnavailable)], handoffs, st)
      else case io_redeem S (wc_token c) (wc_source c) (wc_now c) st of
          (Inr d, st) \<Rightarrow> send_delivery S c d handoffs st
        | (Inl NotFound, st) \<Rightarrow>
            ([TimingVerified (wc_timing_token c), Replied (Inl NotRedeemable)], handoffs, st)
        | (Inl ServiceUnavailable, st) \<Rightarrow> ([Replied (Inl RedemptionUnavailable)], handoffs, st)
        | (Inl _, st) \<Rightarrow> ([Replied (Inl NotRedeemable)], handoffs, st))"

text \<open>The loop: commands until a shutdown, which is checked first, or until the channel closes.\<close>

datatype worker_input = Shutdown | Command worker_command

fun worker_loop ::
    "'st invitation_ops \<Rightarrow> worker_input list \<Rightarrow> nat \<Rightarrow> 'st \<Rightarrow> worker_event list \<times> nat \<times> 'st" where
  "worker_loop S [] handoffs st = ([], handoffs, st)"
| "worker_loop S (Shutdown # inputs) handoffs st = ([], handoffs, st)"
| "worker_loop S (Command c # inputs) handoffs st =
     (let (es, handoffs, st) = worker_step S c handoffs st;
          (rest, handoffs, st) = worker_loop S inputs handoffs st
      in (es @ rest, handoffs, st))"

section \<open>The handler\<close>

record http_request =
  rq_peer :: IpAddr
  rq_content_type :: "string option"
  rq_body :: "u8 list option"

record ingress =
  in_uuid :: uuid_ops
  in_base64 :: base64_ops
  in_wire :: "u8 list \<Rightarrow> string option"
  in_success :: "JoinBootstrapConfig \<Rightarrow> string \<Rightarrow> u8 list option"
  in_limits :: AdmissionLimits
  in_bootstrap :: JoinBootstrapConfig

text \<open>What the backend answers; for a delivery, whether its acknowledgement still reaches the worker.\<close>

datatype backend_answer = Delivered delivery bool | Failed RedemptionFailure

definition success_response :: "ingress \<Rightarrow> delivery \<Rightarrow> bool \<Rightarrow> http_response" where
  "success_response I d acknowledged =
     (case in_success I (in_bootstrap I) (dl_secret d) of
        None \<Rightarrow> unavailable_response None
      | Some body \<Rightarrow> if acknowledged then fixed_response 200 body None else unavailable_response None)"

fun backend_response :: "ingress \<Rightarrow> backend_answer \<Rightarrow> http_response" where
  "backend_response I (Delivered d acknowledged) = success_response I d acknowledged"
| "backend_response I (Failed NotRedeemable) = not_redeemable_response"
| "backend_response I (Failed RedemptionUnavailable) = unavailable_response None"

text \<open>The request after admission: a refusal, or the two copies of the token for the backend.\<close>

definition parse_request :: "ingress \<Rightarrow> http_request \<Rightarrow> (InvitationToken \<times> InvitationToken) option" where
  "parse_request I r =
     (if \<not> is_json_content_type (rq_content_type r) then None
      else Option.bind (rq_body r) (\<lambda>body.
        if al_request_body_bytes (in_limits I) < length body then None
        else Option.bind (in_wire I body) (\<lambda>text.
          (case InvitationToken_from_str (in_uuid I) (in_base64 I) text of Inl _ \<Rightarrow> None
           | Inr token \<Rightarrow>
               (case InvitationToken_from_str (in_uuid I) (in_base64 I) text of Inl _ \<Rightarrow> None
                | Inr timing_token \<Rightarrow> Some (token, timing_token))))))"

text \<open>
  The whole handler. \<open>backend\<close> is the worker's answer to the attempt; the second component of
  the result is the attempt, if one was made. \<open>None\<close> is a panic.
\<close>

definition redeem_http ::
    "ingress \<Rightarrow> ((IpAddr \<times> SourceBucket) list \<Rightarrow> (IpAddr \<times> SourceBucket) list) \<Rightarrow>
     (IpAddr \<times> InvitationToken \<times> InvitationToken \<Rightarrow> backend_answer) \<Rightarrow> http_request \<Rightarrow> Instant \<Rightarrow>
     admission_controller \<Rightarrow>
     (http_response \<times> (IpAddr \<times> InvitationToken \<times> InvitationToken) option \<times> admission_controller) option"
where
  "redeem_http I iter backend r now c =
     (let source = normalize_ip (rq_peer r)
      in map_option (\<lambda>(decision, c).
           case decision of
             Limited d \<Rightarrow> (unavailable_response (Some d), None, c)
           | Allowed \<Rightarrow>
               (case parse_request I r of
                  None \<Rightarrow> (invalid_request_response, None, c)
                | Some (token, timing_token) \<Rightarrow>
                    (backend_response I (backend (source, token, timing_token)),
                     Some (source, token, timing_token), c)))
         (admit iter source now c))"

section \<open>What becomes of every issued credential\<close>

fun issued_of :: "worker_event \<Rightarrow> InvitationId list" where
  "issued_of (Issued d) = [dl_invitation_id d]"
| "issued_of _ = []"

text \<open>The worker is done with a credential when its handler accepts it or its revocation has answered.\<close>

fun settled_of :: "worker_event \<Rightarrow> InvitationId list" where
  "settled_of (Accepted d) = [dl_invitation_id d]"
| "settled_of (RevokeAsked i r) = [i]"
| "settled_of _ = []"

fun accepted_of :: "worker_event \<Rightarrow> InvitationId list" where
  "accepted_of (Accepted d) = [dl_invitation_id d]"
| "accepted_of _ = []"

fun revoked_of :: "worker_event \<Rightarrow> InvitationId list" where
  "revoked_of (RevokeAsked i (Inr _)) = [i]"
| "revoked_of _ = []"

fun unrevoked_of :: "worker_event \<Rightarrow> InvitationId list" where
  "unrevoked_of (RevokeAsked i (Inl _)) = [i]"
| "unrevoked_of _ = []"

fun sent_of :: "worker_event \<Rightarrow> delivery list" where
  "sent_of (Replied (Inr d)) = [d]"
| "sent_of _ = []"

text \<open>What holds of the trace of any part of a worker's run that starts with no handoff pending.\<close>

definition accounted :: "worker_event list \<Rightarrow> bool" where
  "accounted es \<longleftrightarrow>
     concat (map issued_of es) = concat (map settled_of es) \<and>
     mset (concat (map settled_of es)) = mset (concat (map accepted_of es)) +
       mset (concat (map revoked_of es)) + mset (concat (map unrevoked_of es)) \<and>
     subseq (concat (map accepted_of es)) (map dl_invitation_id (concat (map sent_of es))) \<and>
     subseq (map dl_invitation_id (concat (map sent_of es))) (concat (map issued_of es)) \<and>
     (\<forall>n. PendingHandoffs n \<in> set es \<longrightarrow> n \<le> 1)"

lemma accounted_simps [simp]: "accounted []"
  by (simp add: accounted_def)

lemma revocation_answered [simp]:
  "mset (revoked_of (RevokeAsked i r)) + mset (unrevoked_of (RevokeAsked i r)) = {#i#}"
  by (cases r) simp_all

lemma accounted_append: "accounted es \<Longrightarrow> accounted fs \<Longrightarrow> accounted (es @ fs)"
  by (auto simp: accounted_def intro: list_emb_append_mono)

lemma worker_step_accounted:
  "worker_step S c 0 st = (es, handoffs, st') \<Longrightarrow> accounted es \<and> handoffs = 0"
  by (auto simp: worker_step_def send_delivery_def Let_def accounted_def
      split: if_splits prod.splits sum.splits InvitationServiceError.splits handoff_fate.splits)

text \<open>C29: No credential is forgotten: over any run of the worker, whatever the service answers, however the
  handlers and clients behave and whenever a shutdown comes, each credential the service issued
  has exactly one of three ends before the next command is taken, in the order of issue: its
  handler accepted it, the service was asked once to revoke its invitation and did, or it was
  asked once and answered an error, which the worker discards and never retries. Only sent
  credentials are accepted, only issued ones sent, each at most once; and at most one handoff is
  pending at any moment, none at the end.\<close>
theorem issued_credentials_accounted:
  assumes "worker_loop S inputs 0 st = (es, handoffs, st')"
  shows "concat (map issued_of es) = concat (map settled_of es) \<and>
    mset (concat (map settled_of es)) = mset (concat (map accepted_of es)) +
      mset (concat (map revoked_of es)) + mset (concat (map unrevoked_of es)) \<and>
    subseq (concat (map accepted_of es)) (map dl_invitation_id (concat (map sent_of es))) \<and>
    subseq (map dl_invitation_id (concat (map sent_of es))) (concat (map issued_of es)) \<and>
    (\<forall>n. PendingHandoffs n \<in> set es \<longrightarrow> n \<le> 1) \<and> handoffs = 0"
proof -
  have "accounted es \<and> handoffs = 0"
    using assms
  proof (induction S inputs "0 :: nat" st arbitrary: es handoffs st' rule: worker_loop.induct)
    case (3 S c inputs st)
    obtain fs p t where step: "worker_step S c 0 st = (fs, p, t)" by (cases "worker_step S c 0 st")
    note first = worker_step_accounted [OF step]
    obtain gs q u where rest: "worker_loop S inputs 0 t = (gs, q, u)" by (cases "worker_loop S inputs 0 t")
    from 3(1) [OF step [symmetric] refl _ rest] first have "accounted gs \<and> q = 0" by simp
    with 3(2) step first rest show ?case by (auto intro: accounted_append)
  qed simp_all
  then show ?thesis unfolding accounted_def by blast
qed

text \<open>A service whose revocations fail at instant 2.\<close>

definition sample_ops :: "InvitationId list invitation_ops" where
  "sample_ops = \<lparr>io_redeem = (\<lambda>t _ _ st. (Inr \<lparr>dl_invitation_id = it_invitation_id t, dl_secret = ''key''\<rparr>, st)),
     io_revoke = (\<lambda>i at st. if at = 2 then (Inl ServiceUnavailable, st) else (Inr (), i # st)),
     io_metadata_ok = (\<lambda>_. True), io_dummy_verify = (\<lambda>_. False)\<rparr>"

definition sample_command :: "uuid \<Rightarrow> handoff_fate \<Rightarrow> int \<Rightarrow> worker_command" where
  "sample_command k fate at = \<lparr>wc_source = V4 1, wc_token = InvitationToken (TypedId k) [],
     wc_timing_token = InvitationToken (TypedId k) [], wc_waited = 0, wc_now = 0, wc_revoke_now = at,
     wc_fate = fate\<rparr>"

definition sample_inputs :: "worker_input list" where
  "sample_inputs = [Command (sample_command 4 HandedOver 1), Command (sample_command 5 ReplyLost 1),
     Command (sample_command 6 HandoffDropped 2)]"

theorem issued_credentials_accounted_witness:
  "\<exists>es. worker_loop sample_ops sample_inputs 0 [] = (es, 0, [TypedId 5]) \<and>
     concat (map settled_of es) = [TypedId 4, TypedId 5, TypedId 6] \<and>
     concat (map unrevoked_of es) = [TypedId 6]"
proof -
  have r: "\<exists>es. worker_loop sample_ops sample_inputs 0 [] = (es, 0, [TypedId 5]) \<and>
      concat (map issued_of es) = [TypedId 4, TypedId 5, TypedId 6] \<and> concat (map unrevoked_of es) = [TypedId 6]"
    by (simp add: sample_inputs_def worker_step_def send_delivery_def sample_ops_def sample_command_def from_secs_def Let_def)
  then obtain es where es: "worker_loop sample_ops sample_inputs 0 [] = (es, 0, [TypedId 5])"
      "concat (map issued_of es) = [TypedId 4, TypedId 5, TypedId 6]" "concat (map unrevoked_of es) = [TypedId 6]"
    by blast
  from issued_credentials_accounted [OF es(1)] es show ?thesis by auto
qed

section \<open>What the handler lets through\<close>

lemma fixed_headers:
  "{(''cache-control'', ''no-store''), (''x-content-type-options'', ''nosniff'')}
     \<subseteq> set (rs_headers (fixed_response status body d))"
  by (simp add: fixed_response_def)

lemma responses_fixed:
  "\<exists>status body d. success_response I dl ack = fixed_response status body d"
  "\<exists>status body d. backend_response I answer = fixed_response status body d"
proof -
  show one: "\<exists>status body d. success_response I dl ack = fixed_response status body d" for dl ack
    by (auto simp: success_response_def unavailable_response_def split: option.splits)
  show "\<exists>status body d. backend_response I answer = fixed_response status body d"
    using one by (cases "(I, answer)" rule: backend_response.cases)
      (auto simp: not_redeemable_response_def unavailable_response_def)
qed

lemma success_status:
  "rs_status (backend_response I answer) = 200 \<Longrightarrow>
   \<exists>d body. answer = Delivered d True \<and> in_success I (in_bootstrap I) (dl_secret d) = Some body \<and>
     rs_body (backend_response I answer) = body"
  by (cases "(I, answer)" rule: backend_response.cases)
    (auto simp: success_response_def not_redeemable_response_def unavailable_response_def
      fixed_response_def split: option.splits if_splits)

lemma parsed_request:
  "parse_request I r = Some (t, u) \<Longrightarrow> u = t \<and> is_json_content_type (rq_content_type r) \<and>
   (\<exists>body text. rq_body r = Some body \<and> length body \<le> al_request_body_bytes (in_limits I) \<and>
      in_wire I body = Some text \<and> InvitationToken_from_str (in_uuid I) (in_base64 I) text = Inr t)"
  by (auto simp: parse_request_def split: if_splits bind_splits sum.splits)

text \<open>C37: The handler guards the redeeming backend: after any history it answers every request without a
  panic and forbids caching of the answer; an attempt reaches the backend only if the admission
  controller admitted the source, the request is JSON within the body limit and carries a
  token in its one canonical spelling; and a success is answered only for a credential that was
  delivered, serialized and acknowledged.\<close>
theorem handler_guards_redemption:
  assumes "limits_built l" "run_admissions before (controller_new l t0) = Some (ds, c)"
  shows "\<exists>response attempt c'. redeem_http I iter backend r now c = Some (response, attempt, c') \<and>
    {(''cache-control'', ''no-store''), (''x-content-type-options'', ''nosniff'')} \<subseteq> set (rs_headers response) \<and>
    (\<forall>source token timing_token. attempt = Some (source, token, timing_token) \<longrightarrow>
       admit iter (rq_peer r) now c = Some (Allowed, c') \<and> source = normalize_ip (rq_peer r) \<and>
       timing_token = token \<and> is_json_content_type (rq_content_type r) \<and>
       (\<exists>body text. rq_body r = Some body \<and> length body \<le> al_request_body_bytes (in_limits I) \<and>
          in_wire I body = Some text \<and> InvitationToken_from_str (in_uuid I) (in_base64 I) text = Inr token)) \<and>
    (rs_status response = 200 \<longrightarrow> (\<exists>a d. attempt = Some a \<and> backend a = Delivered d True \<and>
       in_success I (in_bootstrap I) (dl_secret d) = Some (rs_body response)))"
proof -
  obtain d c' where a: "admit iter (normalize_ip (rq_peer r)) now c = Some (d, c')"
    using reached_admit [OF assms] by blast
  then have a': "admit iter (rq_peer r) now c = Some (d, c')" by (simp only: admit_normalized)
  show ?thesis
  proof (cases d)
    case (Limited w)
    then show ?thesis using a
      by (simp add: redeem_http_def Let_def unavailable_response_def fixed_response_def)
  next
    case Allowed
    show ?thesis
    proof (cases "parse_request I r")
      case None
      then show ?thesis using a Allowed
        by (simp add: redeem_http_def Let_def invalid_request_response_def fixed_response_def)
    next
      case (Some p)
      obtain t u where p: "p = (t, u)" by (cases p)
      let ?attempt = "(normalize_ip (rq_peer r), t, u)"
      have run: "redeem_http I iter backend r now c =
          Some (backend_response I (backend ?attempt), Some ?attempt, c')"
        using a Allowed Some p by (simp add: redeem_http_def Let_def)
      have "{(''cache-control'', ''no-store''), (''x-content-type-options'', ''nosniff'')} \<subseteq>
          set (rs_headers (backend_response I (backend ?attempt)))"
        using responses_fixed(2) fixed_headers by metis
      with run parsed_request [OF Some [unfolded p]] a' Allowed success_status [of I "backend ?attempt"]
      show ?thesis by auto
    qed
  qed
qed

definition sample_ingress :: ingress where
  "sample_ingress = \<lparr>in_uuid = hex_uuid_ops, in_base64 = url_safe_no_pad,
     in_wire = (\<lambda>_. Some (InvitationToken_expose url_safe_no_pad sample_invitation_token)),
     in_success = (\<lambda>_ _. Some [123, 125]), in_limits = sample_limits,
     in_bootstrap = \<lparr>jb_login_server = ''https://login/'', jb_root_ca_pem = None\<rparr>\<rparr>"

definition sample_request :: http_request where
  "sample_request = \<lparr>rq_peer = V4 1, rq_content_type = Some ''application/json ; charset=utf-8'',
     rq_body = Some [123, 125]\<rparr>"

lemma sample_parse:
  "parse_request sample_ingress sample_request = Some (sample_invitation_token, sample_invitation_token)"
proof -
  have t: "InvitationToken_from_str hex_uuid_ops url_safe_no_pad
      (InvitationToken_expose url_safe_no_pad sample_invitation_token) = Inr sample_invitation_token"
    using invitation_token_iff [OF hex_uuid_laws url_safe_no_pad_laws]
    by (simp add: valid_invitation_token_def sample_invitation_token_def bearer_valid_def token_sizes)
  have "is_json_content_type (rq_content_type sample_request)"
    by (simp add: is_json_content_type_def sample_request_def header_trim_def Let_def
        eq_ignore_ascii_case_def ascii_lower_def byte_val_def)
  with t show ?thesis
    by (simp add: parse_request_def sample_ingress_def sample_request_def sample_limits_def)
qed

theorem handler_guards_redemption_witness:
  "\<exists>response c'. redeem_http sample_ingress id (\<lambda>_. Delivered \<lparr>dl_invitation_id = TypedId 7, dl_secret = ''k''\<rparr> True)
     sample_request 5 (controller_new sample_limits 0) =
     Some (response, Some (V4 1, sample_invitation_token, sample_invitation_token), c') \<and>
     rs_status response = 200 \<and> rs_body response = [123, 125]"
proof -
  let ?backend = "\<lambda>_. Delivered \<lparr>dl_invitation_id = TypedId 7, dl_secret = ''k''\<rparr> True"
  obtain c' where "admit id (V4 1) 5 (controller_new sample_limits 0) = Some (Allowed, c')"
    by (simp add: admission_eval)
  then have "redeem_http sample_ingress id ?backend sample_request 5 (controller_new sample_limits 0) =
     Some (backend_response sample_ingress (?backend (V4 1, sample_invitation_token, sample_invitation_token)),
       Some (V4 1, sample_invitation_token, sample_invitation_token), c')"
    using sample_parse by (simp add: redeem_http_def Let_def sample_request_def)
  with handler_guards_redemption [OF sample_limits_built(1), where before = "[]" and I = sample_ingress
      and iter = id and backend = ?backend and r = sample_request and now = 5]
  show ?thesis by (force simp: success_response_def sample_ingress_def fixed_response_def)
qed

text \<open>
  The Retry-After header rounds down: a client that waits exactly the advertised seconds asks
  too early whenever the wait is not a whole number of seconds, and is refused again.
\<close>

lemma advertised_wait_too_short:
  assumes "availability now b = (Limited d, b')"
    and "from_secs 1 < d" "d mod 1000000000 \<noteq> 0"
  shows "\<exists>w. fst (availability (now + from_secs (max (as_secs d) 1)) b') = Limited w"
proof -
  let ?I = "bk_refill_interval b'" and ?w = "from_secs (as_secs d)"
  have b': "b' = refill now b" "\<not> 0 < bk_tokens b'"
    and d: "d = max (?I - (now - bk_last_refill b')) (from_millis 1)"
    using assms(1) by (auto simp: availability_def Let_def split: if_splits)
  have lt: "?w < d" using assms(3) mod_less_eq_dividend [of d 1000000000]
    by (simp add: from_secs_def as_secs_def minus_mod_eq_div_mult [symmetric])
  have big: "from_millis 1 < d" using assms(2) by (simp add: from_secs_def from_millis_def)
  then have eq: "d = ?I - (now - bk_last_refill b')" using d by simp
  have "now + ?w - bk_last_refill b' \<le> (now - bk_last_refill b') + ?w" by simp
  also have "\<dots> < ?I" using lt eq big by linarith
  finally have "refill (now + ?w) b' = b'" by (simp add: refill_def Let_def)
  moreover have "max (as_secs d) 1 = as_secs d"
    using assms(2) by (simp add: as_secs_def from_secs_def less_eq_div_iff_mult_less_eq)
  ultimately show ?thesis using b'(2) by (simp add: availability_def Let_def)
qed

end
