(* ===== verification/Mutation_Authority.thy ===== *)
theory Mutation_Authority
  imports Projection_Store
begin

text \<open>
  Provider mutation authority of \<^verbatim>\<open>crates/nodescale-state/src/lib.rs\<close>: the configuration an
  owner writes per network, its replacement by compare-and-swap on two generations, the
  authorizations minted from the current configuration, and their validation by the adapter.

  The tables are those of \<^verbatim>\<open>migrations/0003_mutation_authorization.sql\<close>, with the columns of the
  imports and the audit events that these operations touch. Identifiers are typed and a
  capability or a policy mode is the value its column text names; the two fail points of the
  store are fields of the database record.
\<close>

section \<open>Capabilities and configurations\<close>

datatype ProviderMutationCapability =
  EnsureNetworkPrincipal | CreateJoinCredential | InvalidateJoinCredential | ReplaceNodeTags |
  ExpireNode | DeleteNode | ManagePolicy

datatype MutationPolicyMode = PolicyDatabase | PolicyFile | PolicyUnknown

text \<open>A \<^verbatim>\<open>BTreeSet\<close> of capabilities holds each once, in the order of the declaration.\<close>

definition capability_set :: "ProviderMutationCapability list \<Rightarrow> ProviderMutationCapability list" where
  "capability_set cs =
     filter (\<lambda>c. c \<in> set cs)
       [EnsureNetworkPrincipal, CreateJoinCredential, InvalidateJoinCredential, ReplaceNodeTags,
        ExpireNode, DeleteNode, ManagePolicy]"

lemma capability_set_facts: "set (capability_set cs) = set cs" "distinct (capability_set cs)"
proof -
  show "set (capability_set cs) = set cs"
  proof (rule set_eqI)
    fix c show "c \<in> set (capability_set cs) \<longleftrightarrow> c \<in> set cs"
      unfolding capability_set_def set_filter by (cases c) simp_all
  qed
  show "distinct (capability_set cs)" unfolding capability_set_def by (rule distinct_filter) simp
qed

record ProviderMutationConfiguration =
  pm_provider_instance_id :: ProviderInstanceId
  pm_authorization_generation :: Generation
  pm_configuration_generation :: Generation
  pm_configuration_fingerprint :: string
  pm_adapter :: string
  pm_expected_version :: string
  pm_enabled :: bool
  pm_revoked :: bool
  pm_not_before :: DateTime
  pm_expires_at :: DateTime
  pm_policy_mode :: MutationPolicyMode
  pm_capabilities :: "ProviderMutationCapability list"

definition valid_sha256_fingerprint :: "string \<Rightarrow> bool" where
  "valid_sha256_fingerprint s \<longleftrightarrow> hash_column s"

definition ProviderMutationConfiguration_new ::
    "ProviderInstanceId \<Rightarrow> Generation \<Rightarrow> Generation \<Rightarrow> string \<Rightarrow> string \<Rightarrow> string \<Rightarrow> bool \<Rightarrow> bool \<Rightarrow>
     DateTime \<Rightarrow> DateTime \<Rightarrow> MutationPolicyMode \<Rightarrow> ProviderMutationCapability list \<Rightarrow>
     ProviderMutationConfiguration state_result" where
  "ProviderMutationConfiguration_new instance_id authorization_generation configuration_generation
      fingerprint adapter expected_version enabled revoked not_before expires_at policy_mode caps =
     (if \<not> valid_sha256_fingerprint fingerprint \<or> adapter \<noteq> ''headscale'' \<or>
         expected_version \<noteq> ''v0.29.3'' \<or> expires_at \<le> not_before \<or>
         timestamp_millis not_before < 0 \<or> timestamp_millis expires_at < 0 \<or> caps = [] \<or>
         (ManagePolicy \<in> set caps \<and> policy_mode \<noteq> PolicyDatabase)
      then Inl (StConflict ''invalid provider mutation configuration'')
      else Inr
        \<lparr>pm_provider_instance_id = instance_id,
         pm_authorization_generation = authorization_generation,
         pm_configuration_generation = configuration_generation,
         pm_configuration_fingerprint = fingerprint, pm_adapter = adapter,
         pm_expected_version = expected_version, pm_enabled = enabled, pm_revoked = revoked,
         pm_not_before = not_before, pm_expires_at = expires_at, pm_policy_mode = policy_mode,
         pm_capabilities = capability_set caps\<rparr>)"

section \<open>Tables\<close>

record import_row =
  im_network_id :: NetworkId
  im_provider_instance_id :: ProviderInstanceId
  im_read_only :: int
  im_mutation_allowed :: int

record mutation_row =
  mr_network_id :: NetworkId
  mr_provider_instance_id :: ProviderInstanceId
  mr_authorization_generation :: int
  mr_configuration_generation :: int
  mr_configuration_fingerprint :: string
  mr_adapter :: string
  mr_expected_version :: string
  mr_enabled :: int
  mr_revoked :: int
  mr_not_before_ms :: int
  mr_expires_at_ms :: int
  mr_policy_mode :: MutationPolicyMode

record capability_row =
  mp_network_id :: NetworkId
  mp_provider_instance_id :: ProviderInstanceId
  mp_capability :: ProviderMutationCapability

record event_audit_row =
  ea_network_id :: "NetworkId option"
  ea_actor :: AuditActor
  ea_event_kind :: string
  ea_outcome :: string
  ea_generation :: "int option"

record authority_db =
  ad_imports :: "import_row list"
  ad_configurations :: "mutation_row list"
  ad_capabilities :: "capability_row list"
  ad_events :: "event_audit_row list"
  ad_fail_before_audit :: bool
  ad_fail_before_n4_confirmation_audit :: bool

definition mutation_check :: "mutation_row \<Rightarrow> bool" where
  "mutation_check r \<longleftrightarrow>
     0 < mr_authorization_generation r \<and> mr_authorization_generation r < 2 ^ 63 \<and>
     0 < mr_configuration_generation r \<and> mr_configuration_generation r < 2 ^ 63 \<and>
     hash_column (mr_configuration_fingerprint r) \<and> mr_adapter r = ''headscale'' \<and>
     mr_expected_version r = ''v0.29.3'' \<and> mr_enabled r \<in> {0, 1} \<and> mr_revoked r \<in> {0, 1} \<and>
     0 \<le> mr_not_before_ms r \<and> 0 \<le> mr_expires_at_ms r \<and> mr_not_before_ms r < mr_expires_at_ms r"

definition read_only_import :: "NetworkId \<Rightarrow> ProviderInstanceId \<Rightarrow> 'a authority_db_scheme \<Rightarrow> bool" where
  "read_only_import n p db \<longleftrightarrow>
     list_ex (\<lambda>i. im_network_id i = n \<and> im_provider_instance_id i = p \<and> im_read_only i = 1 \<and>
       im_mutation_allowed i = 0) (ad_imports db)"

definition has_capability ::
    "NetworkId \<Rightarrow> ProviderInstanceId \<Rightarrow> ProviderMutationCapability \<Rightarrow> 'a authority_db_scheme \<Rightarrow> bool" where
  "has_capability n p c db \<longleftrightarrow>
     list_ex (\<lambda>r. mp_network_id r = n \<and> mp_provider_instance_id r = p \<and> mp_capability r = c)
       (ad_capabilities db)"

text \<open>The insert and the update of a configuration, with the constraints and triggers they meet.\<close>

definition insert_configuration ::
    "mutation_row \<Rightarrow> 'a authority_db_scheme \<Rightarrow> 'a authority_db_scheme state_result" where
  "insert_configuration r db =
     and_then (ensure (read_only_import (mr_network_id r) (mr_provider_instance_id r) db)
       (StSqlite ''mutation configuration requires exact read-only import'')) (\<lambda>_.
     and_then (ensure (mutation_check r) (StSqlite ''CHECK'')) (\<lambda>_.
     and_then (ensure (list_all (\<lambda>q. mr_network_id q \<noteq> mr_network_id r \<and>
         mr_provider_instance_id q \<noteq> mr_provider_instance_id r) (ad_configurations db))
       (StSqlite ''UNIQUE'')) (\<lambda>_.
     Inr (db\<lparr>ad_configurations := ad_configurations db @ [r]\<rparr>))))"

definition update_configuration ::
    "mutation_row \<Rightarrow> mutation_row \<Rightarrow> 'a authority_db_scheme \<Rightarrow> 'a authority_db_scheme state_result" where
  "update_configuration old new db =
     and_then (ensure (read_only_import (mr_network_id new) (mr_provider_instance_id new) db)
       (StSqlite ''mutation configuration requires exact read-only import'')) (\<lambda>_.
     and_then (ensure (\<not> (mr_policy_mode new \<noteq> PolicyDatabase \<and>
         has_capability (mr_network_id new) (mr_provider_instance_id new) ManagePolicy db))
       (StSqlite ''manage_policy requires database policy mode'')) (\<lambda>_.
     and_then (ensure (mr_authorization_generation old < mr_authorization_generation new)
       (StSqlite ''authorization generation must advance'')) (\<lambda>_.
     and_then (ensure (mr_configuration_generation old < mr_configuration_generation new)
       (StSqlite ''configuration generation must advance'')) (\<lambda>_.
     and_then (ensure (mutation_check new) (StSqlite ''CHECK'')) (\<lambda>_.
     and_then (ensure (list_all (\<lambda>q. mr_network_id q = mr_network_id new \<or>
         mr_provider_instance_id q \<noteq> mr_provider_instance_id new) (ad_configurations db))
       (StSqlite ''UNIQUE'')) (\<lambda>_.
     Inr (db\<lparr>ad_configurations :=
       map (\<lambda>q. if mr_network_id q = mr_network_id new then new else q) (ad_configurations db)\<rparr>)))))))"

definition capability_values ::
    "NetworkId \<Rightarrow> ProviderInstanceId \<Rightarrow> ProviderMutationCapability \<Rightarrow> capability_row" where
  "capability_values n p c = \<lparr>mp_network_id = n, mp_provider_instance_id = p, mp_capability = c\<rparr>"

lemma capability_values_sel [simp]:
  "mp_network_id (capability_values n p c) = n"
  "mp_provider_instance_id (capability_values n p c) = p"
  "mp_capability (capability_values n p c) = c"
  by (simp_all add: capability_values_def)

definition insert_capability ::
    "NetworkId \<Rightarrow> ProviderInstanceId \<Rightarrow> ProviderMutationCapability \<Rightarrow> 'a authority_db_scheme \<Rightarrow>
     'a authority_db_scheme state_result" where
  "insert_capability n p c db =
     and_then (ensure (\<not> (c = ManagePolicy \<and> \<not> list_ex (\<lambda>r. mr_network_id r = n \<and>
         mr_policy_mode r = PolicyDatabase) (ad_configurations db)))
       (StSqlite ''manage_policy requires database policy mode'')) (\<lambda>_.
     and_then (ensure (\<not> has_capability n p c db) (StSqlite ''UNIQUE'')) (\<lambda>_.
     and_then (ensure (list_ex (\<lambda>r. mr_network_id r = n \<and> mr_provider_instance_id r = p)
       (ad_configurations db)) (StSqlite ''FOREIGN KEY'')) (\<lambda>_.
     Inr (db\<lparr>ad_capabilities := ad_capabilities db @
       [capability_values n p c]\<rparr>))))"

fun insert_capabilities ::
    "NetworkId \<Rightarrow> ProviderInstanceId \<Rightarrow> ProviderMutationCapability list \<Rightarrow> 'a authority_db_scheme \<Rightarrow>
     'a authority_db_scheme state_result" where
  "insert_capabilities n p [] db = Inr db"
| "insert_capabilities n p (c # cs) db = and_then (insert_capability n p c db) (insert_capabilities n p cs)"

text \<open>Generations enter the database through the crate's own conversion.\<close>

definition to_i64 :: "Generation \<Rightarrow> int state_result" where
  "to_i64 g = (if uint (gen_get g) < 2 ^ 63 then Inr (uint (gen_get g))
               else Inl (StConflict ''generation exceeds SQLite integer range''))"

definition append_audit ::
    "NetworkId option \<Rightarrow> AuditActor \<Rightarrow> string \<Rightarrow> string \<Rightarrow> Generation option \<Rightarrow> 'a authority_db_scheme \<Rightarrow>
     'a authority_db_scheme state_result" where
  "append_audit n actor kind outcome generation db =
     and_then (ensure (\<not> ad_fail_before_audit db) StInjectedFailure) (\<lambda>_.
     and_then (case generation of None \<Rightarrow> Inr None | Some g \<Rightarrow> and_then (to_i64 g) (\<lambda>i. Inr (Some i)))
       (\<lambda>g. Inr (db\<lparr>ad_events := ad_events db @
         [\<lparr>ea_network_id = n, ea_actor = actor, ea_event_kind = kind, ea_outcome = outcome,
           ea_generation = g\<rparr>]\<rparr>)))"

section \<open>Replacing a configuration\<close>

definition check_current ::
    "mutation_row option \<Rightarrow> Generation option \<Rightarrow> Generation option \<Rightarrow> ProviderMutationConfiguration \<Rightarrow>
     unit state_result" where
  "check_current current expected_authorization expected_configuration replacement =
     (case current of
        None \<Rightarrow>
          (case (expected_authorization, expected_configuration) of
             (None, None) \<Rightarrow> Inr ()
           | (Some g, _) \<Rightarrow> Inl (StStaleGeneration (gen_get g) 0)
           | (None, Some g) \<Rightarrow> Inl (StStaleGeneration (gen_get g) 0))
      | Some row \<Rightarrow>
          and_then (column_u64 (mr_authorization_generation row)) (\<lambda>actual_authorization.
          and_then (column_u64 (mr_configuration_generation row)) (\<lambda>actual_configuration.
          if mr_provider_instance_id row \<noteq> pm_provider_instance_id replacement
          then Inl (StConflict ''mutation provider identity cannot be replaced'')
          else if map_option gen_get expected_authorization \<noteq> Some actual_authorization
          then Inl (StStaleGeneration
            (case expected_authorization of None \<Rightarrow> 0 | Some g \<Rightarrow> gen_get g) actual_authorization)
          else if map_option gen_get expected_configuration \<noteq> Some actual_configuration
          then Inl (StStaleGeneration
            (case expected_configuration of None \<Rightarrow> 0 | Some g \<Rightarrow> gen_get g) actual_configuration)
          else if gen_get (pm_authorization_generation replacement) \<le> actual_authorization \<or>
                  gen_get (pm_configuration_generation replacement) \<le> actual_configuration
          then Inl (StConflict ''replacement mutation generations must advance'')
          else Inr ())))"

definition mutation_values ::
    "NetworkId \<Rightarrow> int \<Rightarrow> int \<Rightarrow> ProviderMutationConfiguration \<Rightarrow> mutation_row" where
  "mutation_values n authorization configuration r =
     \<lparr>mr_network_id = n, mr_provider_instance_id = pm_provider_instance_id r,
      mr_authorization_generation = authorization, mr_configuration_generation = configuration,
      mr_configuration_fingerprint = pm_configuration_fingerprint r, mr_adapter = pm_adapter r,
      mr_expected_version = pm_expected_version r, mr_enabled = of_bool (pm_enabled r),
      mr_revoked = of_bool (pm_revoked r), mr_not_before_ms = timestamp_millis (pm_not_before r),
      mr_expires_at_ms = timestamp_millis (pm_expires_at r), mr_policy_mode = pm_policy_mode r\<rparr>"

definition current_configuration :: "NetworkId \<Rightarrow> 'a authority_db_scheme \<Rightarrow> mutation_row option" where
  "current_configuration n db = find (\<lambda>r. mr_network_id r = n) (ad_configurations db)"

definition replace_configuration_tx ::
    "NetworkId \<Rightarrow> Generation option \<Rightarrow> Generation option \<Rightarrow> ProviderMutationConfiguration \<Rightarrow>
     AuditActor \<Rightarrow> 'a authority_db_scheme \<Rightarrow> (unit \<times> 'a authority_db_scheme) state_result" where
  "replace_configuration_tx n expected_authorization expected_configuration replacement actor db =
     (let current = current_configuration n db in
      and_then (check_current current expected_authorization expected_configuration replacement) (\<lambda>_.
      and_then (ensure (read_only_import n (pm_provider_instance_id replacement) db)
        (StMutationAuthorizationDenied ''exact read-only import is required'')) (\<lambda>_.
      and_then (to_i64 (pm_authorization_generation replacement)) (\<lambda>a.
      and_then (to_i64 (pm_configuration_generation replacement)) (\<lambda>c.
      and_then
        (case current of
           Some old \<Rightarrow> update_configuration old (mutation_values n a c replacement)
             (db\<lparr>ad_capabilities := filter (\<lambda>r. mp_network_id r \<noteq> n) (ad_capabilities db)\<rparr>)
         | None \<Rightarrow> insert_configuration (mutation_values n a c replacement) db) (\<lambda>db.
      and_then (insert_capabilities n (pm_provider_instance_id replacement)
        (pm_capabilities replacement) db) (\<lambda>db.
      and_then (append_audit (Some n) actor ''provider_mutation_configured'' ''success''
        (Some (pm_authorization_generation replacement)) db) (\<lambda>db. Inr ((), db)))))))))"

definition replace_provider_mutation_configuration ::
    "NetworkId \<Rightarrow> Generation option \<Rightarrow> Generation option \<Rightarrow> ProviderMutationConfiguration \<Rightarrow>
     AuditActor \<Rightarrow> 'a authority_db_scheme \<Rightarrow> unit state_result \<times> 'a authority_db_scheme" where
  "replace_provider_mutation_configuration n ea ec replacement actor =
     transactional (replace_configuration_tx n ea ec replacement actor)"

section \<open>Minting and validating authorizations\<close>

record MutationAuthorization =
  ma_network_id :: NetworkId
  ma_provider_instance_id :: ProviderInstanceId
  ma_authorization_generation :: Generation
  ma_configuration_generation :: Generation
  ma_configuration_fingerprint :: string
  ma_adapter :: string
  ma_expected_version :: string
  ma_not_before :: DateTime
  ma_expires_at :: DateTime
  ma_capability :: ProviderMutationCapability
  ma_policy_mode :: MutationPolicyMode

text \<open>
  \<^verbatim>\<open>DateTime::from_timestamp_millis\<close>: no value beyond the range of the calendar type, whose
  last moment is in the year 262142.
\<close>

definition max_timestamp_millis :: int where
  "max_timestamp_millis = 8210266876799999"

definition min_timestamp_millis :: int where
  "min_timestamp_millis = - 8334601228800000"

definition from_timestamp_millis :: "int \<Rightarrow> DateTime option" where
  "from_timestamp_millis ms =
     (if min_timestamp_millis \<le> ms \<and> ms \<le> max_timestamp_millis then Some (ms * 1000000) else None)"

definition authority_row ::
    "NetworkId \<Rightarrow> ProviderInstanceId \<Rightarrow> ProviderMutationCapability \<Rightarrow> 'a authority_db_scheme \<Rightarrow>
     mutation_row option" where
  "authority_row n p c db =
     (if read_only_import n p db \<and> has_capability n p c db
      then find (\<lambda>r. mr_network_id r = n \<and> mr_provider_instance_id r = p) (ad_configurations db)
      else None)"

definition issue_mutation_authorization ::
    "NetworkId \<Rightarrow> ProviderInstanceId \<Rightarrow> ProviderMutationCapability \<Rightarrow> DateTime \<Rightarrow>
     'a authority_db_scheme \<Rightarrow> MutationAuthorization state_result" where
  "issue_mutation_authorization n p c now db =
     and_then (ok_or (authority_row n p c db)
       (StMutationAuthorizationDenied ''no current configured capability'')) (\<lambda>row.
     and_then (column_u64 (mr_authorization_generation row)) (\<lambda>authorization.
     and_then (column_u64 (mr_configuration_generation row)) (\<lambda>configuration.
     and_then (ok_or (from_timestamp_millis (mr_not_before_ms row))
       (StMutationAuthorizationDenied ''invalid persisted not-before'')) (\<lambda>not_before.
     and_then (ok_or (from_timestamp_millis (mr_expires_at_ms row))
       (StMutationAuthorizationDenied ''invalid persisted expiry'')) (\<lambda>expires_at.
     if mr_enabled row \<noteq> 1 \<or> mr_revoked row \<noteq> 0 \<or> now < not_before \<or> expires_at \<le> now \<or>
        \<not> valid_sha256_fingerprint (mr_configuration_fingerprint row) \<or>
        mr_adapter row \<noteq> ''headscale'' \<or> mr_expected_version row \<noteq> ''v0.29.3'' \<or>
        (c = ManagePolicy \<and> mr_policy_mode row \<noteq> PolicyDatabase)
     then Inl (StMutationAuthorizationDenied ''configuration is not currently issuable'')
     else
       and_then (state_generation authorization) (\<lambda>ag.
       and_then (state_generation configuration) (\<lambda>cg.
       Inr \<lparr>ma_network_id = n, ma_provider_instance_id = p, ma_authorization_generation = ag,
            ma_configuration_generation = cg,
            ma_configuration_fingerprint = mr_configuration_fingerprint row,
            ma_adapter = mr_adapter row, ma_expected_version = mr_expected_version row,
            ma_not_before = not_before, ma_expires_at = expires_at, ma_capability = c,
            ma_policy_mode = mr_policy_mode row\<rparr>)))))))"

record MutationAuthorizationContext =
  mx_network_id :: NetworkId
  mx_provider_instance_id :: ProviderInstanceId
  mx_authorization_generation :: Generation
  mx_configuration_generation :: Generation
  mx_configuration_fingerprint :: string
  mx_adapter :: string
  mx_version :: string
  mx_dirty :: bool
  mx_capability :: ProviderMutationCapability
  mx_policy_mode :: MutationPolicyMode
  mx_now :: DateTime

definition MutationAuthorization_validate ::
    "MutationAuthorization \<Rightarrow> MutationAuthorizationContext \<Rightarrow> unit state_result" where
  "MutationAuthorization_validate a x =
     (if ma_network_id a \<noteq> mx_network_id x \<or> ma_provider_instance_id a \<noteq> mx_provider_instance_id x \<or>
         ma_authorization_generation a \<noteq> mx_authorization_generation x \<or>
         ma_configuration_generation a \<noteq> mx_configuration_generation x \<or>
         ma_configuration_fingerprint a \<noteq> mx_configuration_fingerprint x \<or>
         ma_adapter a \<noteq> mx_adapter x \<or> ma_expected_version a \<noteq> mx_version x \<or> mx_dirty x \<or>
         ma_capability a \<noteq> mx_capability x \<or>
         (ma_capability a = ManagePolicy \<and>
           (ma_policy_mode a \<noteq> PolicyDatabase \<or> mx_policy_mode x \<noteq> PolicyDatabase)) \<or>
         mx_now x < ma_not_before a \<or> ma_expires_at a \<le> mx_now x
      then Inl (StMutationAuthorizationDenied ''authorization facts do not match'')
      else Inr ())"

section \<open>What a replacement does\<close>

text \<open>
  The well-formed authority tables: one configuration per network, each passing its checks, and
  no capability without the configuration it refers to.
\<close>

definition capabilities_held :: "'a authority_db_scheme \<Rightarrow> bool" where
  "capabilities_held db \<longleftrightarrow>
     list_all (\<lambda>r. list_ex (\<lambda>q. mr_network_id q = mp_network_id r \<and>
       mr_provider_instance_id q = mp_provider_instance_id r) (ad_configurations db)) (ad_capabilities db)"

definition authority_inv :: "'a authority_db_scheme \<Rightarrow> bool" where
  "authority_inv db \<longleftrightarrow>
     distinct (map mr_network_id (ad_configurations db)) \<and>
     list_all mutation_check (ad_configurations db) \<and> capabilities_held db"

lemma current_none_no_capability:
  assumes "authority_inv db" "current_configuration n db = None"
  shows "\<not> has_capability n p k db"
proof
  assume "has_capability n p k db"
  then obtain r where r: "r \<in> set (ad_capabilities db)" "mp_network_id r = n"
    by (auto simp: has_capability_def list_ex_iff)
  then obtain q where "q \<in> set (ad_configurations db)" "mr_network_id q = n"
    using assms(1) by (auto simp: authority_inv_def capabilities_held_def list_all_iff list_ex_iff)
  with assms(2) show False by (auto simp: current_configuration_def find_None_iff)
qed

lemma insert_capabilities_frame:
  "insert_capabilities n p cs db = Inr db' \<Longrightarrow>
   ad_configurations db' = ad_configurations db \<and> ad_imports db' = ad_imports db \<and>
   ad_capabilities db' = ad_capabilities db @
     map (capability_values n p) cs"
proof (induction cs arbitrary: db)
  case Nil
  then show ?case by simp
next
  case (Cons c cs)
  from Cons.prems obtain d where d: "insert_capability n p c db = Inr d"
    "insert_capabilities n p cs d = Inr db'" by (auto simp: guard_simps)
  from d(1) have "ad_configurations d = ad_configurations db" "ad_imports d = ad_imports db"
    "ad_capabilities d = ad_capabilities db @
       [capability_values n p c]"
    by (auto simp: insert_capability_def guard_simps)
  with Cons.IH [OF d(2)] show ?case by simp
qed

lemma append_audit_frame:
  "append_audit n actor kind outcome g db = Inr db' \<Longrightarrow>
   ad_configurations db' = ad_configurations db \<and> ad_imports db' = ad_imports db \<and>
   ad_capabilities db' = ad_capabilities db"
  by (auto simp: append_audit_def guard_simps)

lemma insert_configuration_Inr [guard_simps]:
  "insert_configuration r db = Inr db' \<longleftrightarrow>
     read_only_import (mr_network_id r) (mr_provider_instance_id r) db \<and> mutation_check r \<and>
     (\<forall>q\<in>set (ad_configurations db). mr_network_id q \<noteq> mr_network_id r \<and>
       mr_provider_instance_id q \<noteq> mr_provider_instance_id r) \<and>
     db' = db\<lparr>ad_configurations := ad_configurations db @ [r]\<rparr>"
  by (auto simp: insert_configuration_def guard_simps list_all_iff)

lemma update_configuration_Inr [guard_simps]:
  "update_configuration old new db = Inr db' \<longleftrightarrow>
     read_only_import (mr_network_id new) (mr_provider_instance_id new) db \<and>
     (mr_policy_mode new = PolicyDatabase \<or>
       \<not> has_capability (mr_network_id new) (mr_provider_instance_id new) ManagePolicy db) \<and>
     mr_authorization_generation old < mr_authorization_generation new \<and>
     mr_configuration_generation old < mr_configuration_generation new \<and> mutation_check new \<and>
     (\<forall>q\<in>set (ad_configurations db). mr_network_id q = mr_network_id new \<or>
       mr_provider_instance_id q \<noteq> mr_provider_instance_id new) \<and>
     db' = db\<lparr>ad_configurations :=
       map (\<lambda>q. if mr_network_id q = mr_network_id new then new else q) (ad_configurations db)\<rparr>"
  unfolding update_configuration_def by (simp add: guard_simps list_all_iff) blast

lemma find_key_map:
  "find (\<lambda>r. k r = n) (map (\<lambda>q. if k q = n then new else q) rs) =
   (if k new = n then map_option (\<lambda>_. new) (find (\<lambda>r. k r = n) rs) else None)"
  by (induction rs) auto

lemma find_other_map:
  "m \<noteq> n \<Longrightarrow> k new = n \<Longrightarrow>
   find (\<lambda>r. k r = m) (map (\<lambda>q. if k q = n then new else q) rs) = find (\<lambda>r. k r = m) rs"
  by (induction rs) auto

lemma find_append_single:
  "find P (rs @ [r]) = (case find P rs of Some x \<Rightarrow> Some x | None \<Rightarrow> if P r then Some r else None)"
  by (induction rs) auto

lemma find_none_iff_all: "find P rs = None \<longleftrightarrow> (\<forall>x\<in>set rs. \<not> P x)"
  by (auto simp: find_None_iff)

lemma map_key_map:
  "k new = n \<Longrightarrow> map k (map (\<lambda>q. if k q = n then new else q) rs) = map k rs"
  by (induction rs) simp_all

lemma replace_tx_Inr:
  assumes "replace_configuration_tx n ea ec replacement actor db = Inr (u, db')"
  shows "\<exists>a c. to_i64 (pm_authorization_generation replacement) = Inr a \<and>
      to_i64 (pm_configuration_generation replacement) = Inr c \<and>
      check_current (current_configuration n db) ea ec replacement = Inr () \<and>
      mutation_check (mutation_values n a c replacement) \<and>
      read_only_import n (pm_provider_instance_id replacement) db \<and>
      ad_imports db' = ad_imports db \<and>
      ad_configurations db' = (case current_configuration n db of
          None \<Rightarrow> ad_configurations db @ [mutation_values n a c replacement]
        | Some old \<Rightarrow> map (\<lambda>q. if mr_network_id q = n then mutation_values n a c replacement else q)
            (ad_configurations db)) \<and>
      ad_capabilities db' = (case current_configuration n db of None \<Rightarrow> ad_capabilities db
        | Some old \<Rightarrow> filter (\<lambda>r. mp_network_id r \<noteq> n) (ad_capabilities db)) @
        map (capability_values n (pm_provider_instance_id replacement)) (pm_capabilities replacement)"
proof -
  obtain a c d e where ac: "to_i64 (pm_authorization_generation replacement) = Inr a"
      "to_i64 (pm_configuration_generation replacement) = Inr c"
    and ck: "check_current (current_configuration n db) ea ec replacement = Inr ()"
    and imp: "read_only_import n (pm_provider_instance_id replacement) db"
    and d: "(case current_configuration n db of
           Some old \<Rightarrow> update_configuration old (mutation_values n a c replacement)
             (db\<lparr>ad_capabilities := filter (\<lambda>r. mp_network_id r \<noteq> n) (ad_capabilities db)\<rparr>)
         | None \<Rightarrow> insert_configuration (mutation_values n a c replacement) db) = Inr d"
    and e: "insert_capabilities n (pm_provider_instance_id replacement) (pm_capabilities replacement) d
        = Inr e"
    and f: "append_audit (Some n) actor ''provider_mutation_configured'' ''success''
        (Some (pm_authorization_generation replacement)) e = Inr db'"
    using assms by (auto simp: replace_configuration_tx_def Let_def guard_simps)
  have keys: "mr_network_id (mutation_values n a c replacement) = n" by (simp add: mutation_values_def)
  show ?thesis
    using ac ck imp d keys insert_capabilities_frame [OF e] append_audit_frame [OF f]
    by (intro exI [of _ a] exI [of _ c]) (auto simp: guard_simps split: option.splits)
qed

lemma replace_capabilities:
  assumes r: "replace_configuration_tx n ea ec replacement actor db = Inr (u, db')"
    and inv: "authority_inv db"
  shows "has_capability n p k db' \<longleftrightarrow>
      p = pm_provider_instance_id replacement \<and> k \<in> set (pm_capabilities replacement)"
proof -
  define old where "old = (case current_configuration n db of None \<Rightarrow> ad_capabilities db
        | Some old \<Rightarrow> filter (\<lambda>r. mp_network_id r \<noteq> n) (ad_capabilities db))"
  have caps: "ad_capabilities db' = old @
        map (capability_values n (pm_provider_instance_id replacement)) (pm_capabilities replacement)"
    using replace_tx_Inr [OF r] unfolding old_def by blast
  have none: "\<not> list_ex (\<lambda>r. mp_network_id r = n \<and> mp_provider_instance_id r = p \<and> mp_capability r = k) old"
    using current_none_no_capability [OF inv, of n p k]
    by (auto simp: old_def has_capability_def list_ex_iff split: option.splits)
  have "has_capability n p k db' \<longleftrightarrow>
      (\<exists>c\<in>set (pm_capabilities replacement). pm_provider_instance_id replacement = p \<and> c = k)"
    unfolding has_capability_def caps list_ex_append using none by (auto simp: list_ex_iff)
  then show ?thesis by auto
qed

lemma replace_keeps_inv:
  assumes "authority_inv db"
    and r: "replace_configuration_tx n ea ec replacement actor db = Inr (u, db')"
  shows "authority_inv db'"
proof -
  obtain a c where m: "mutation_check (mutation_values n a c replacement)"
    and cs: "ad_configurations db' = (case current_configuration n db of
          None \<Rightarrow> ad_configurations db @ [mutation_values n a c replacement]
        | Some old \<Rightarrow> map (\<lambda>q. if mr_network_id q = n then mutation_values n a c replacement else q)
            (ad_configurations db))"
    and caps: "ad_capabilities db' = (case current_configuration n db of None \<Rightarrow> ad_capabilities db
        | Some old \<Rightarrow> filter (\<lambda>r. mp_network_id r \<noteq> n) (ad_capabilities db)) @
        map (capability_values n (pm_provider_instance_id replacement)) (pm_capabilities replacement)"
    using replace_tx_Inr [OF r] by blast
  have key: "mr_network_id (mutation_values n a c replacement) = n"
    "mr_provider_instance_id (mutation_values n a c replacement) = pm_provider_instance_id replacement"
    by (simp_all add: mutation_values_def)
  show ?thesis
  proof (cases "current_configuration n db")
    case None
    then have "n \<notin> mr_network_id ` set (ad_configurations db)"
      by (auto simp: current_configuration_def find_none_iff_all)
    with None assms(1) m cs key caps show ?thesis
      by (auto simp: authority_inv_def capabilities_held_def list_all_iff list_ex_iff)
  next
    case (Some old)
    have new: "mutation_values n a c replacement \<in> set (ad_configurations db')"
    proof -
      have "old \<in> set (ad_configurations db)" "mr_network_id old = n"
        using Some by (auto simp: current_configuration_def dest: find_Some_mem)
      then show ?thesis unfolding cs Some by force
    qed
    have "distinct (map mr_network_id (ad_configurations db'))"
      using assms(1) unfolding cs Some option.case map_key_map [of mr_network_id, OF key(1)]
      by (simp add: authority_inv_def)
    moreover have "list_all mutation_check (ad_configurations db')"
      using assms(1) cs Some m by (auto simp: authority_inv_def list_all_iff)
    moreover have "\<exists>q\<in>set (ad_configurations db'). mr_network_id q = mp_network_id r \<and>
        mr_provider_instance_id q = mp_provider_instance_id r" if "r \<in> set (ad_capabilities db')" for r
    proof (cases "mp_network_id r = n")
      case True
      from that have "r \<in> set (filter (\<lambda>r. mp_network_id r \<noteq> n) (ad_capabilities db)) \<or>
          r \<in> capability_values n (pm_provider_instance_id replacement) ` set (pm_capabilities replacement)"
        unfolding caps Some by simp
      then have "mp_provider_instance_id r = pm_provider_instance_id replacement"
        using True by (elim disjE imageE) simp_all
      with True new key show ?thesis by auto
    next
      case False
      with that have "r \<in> set (ad_capabilities db)" using caps Some by auto
      then obtain q where q: "q \<in> set (ad_configurations db)" "mr_network_id q = mp_network_id r"
          "mr_provider_instance_id q = mp_provider_instance_id r"
        using assms(1) by (auto simp: authority_inv_def capabilities_held_def list_all_iff list_ex_iff)
      with False have "q \<in> set (ad_configurations db')" unfolding cs Some by force
      with q show ?thesis by blast
    qed
    ultimately show ?thesis by (simp add: authority_inv_def capabilities_held_def list_all_iff list_ex_iff)
  qed
qed

lemma replace_current:
  assumes r: "replace_configuration_tx n ea ec replacement actor db = Inr (u, db')"
  shows "\<exists>a c. to_i64 (pm_authorization_generation replacement) = Inr a \<and>
      to_i64 (pm_configuration_generation replacement) = Inr c \<and>
      current_configuration n db' = Some (mutation_values n a c replacement) \<and>
      (\<forall>m. m \<noteq> n \<longrightarrow> current_configuration m db' = current_configuration m db)"
proof -
  obtain a c where ac: "to_i64 (pm_authorization_generation replacement) = Inr a"
      "to_i64 (pm_configuration_generation replacement) = Inr c"
    and cs: "ad_configurations db' = (case current_configuration n db of
          None \<Rightarrow> ad_configurations db @ [mutation_values n a c replacement]
        | Some old \<Rightarrow> map (\<lambda>q. if mr_network_id q = n then mutation_values n a c replacement else q)
            (ad_configurations db))"
    using replace_tx_Inr [OF r] by blast
  have key: "mr_network_id (mutation_values n a c replacement) = n" by (simp add: mutation_values_def)
  have "current_configuration n db' = Some (mutation_values n a c replacement) \<and>
      (\<forall>m. m \<noteq> n \<longrightarrow> current_configuration m db' = current_configuration m db)"
  proof (cases "current_configuration n db")
    case None
    then show ?thesis using cs key
      by (simp add: current_configuration_def find_append_single split: option.splits)
  next
    case (Some old)
    then show ?thesis using cs key
      by (simp add: current_configuration_def find_key_map find_other_map)
  qed
  with ac show ?thesis by blast
qed

lemma to_i64_Inr [guard_simps]:
  "to_i64 g = Inr i \<longleftrightarrow> uint (gen_get g) < 2 ^ 63 \<and> i = uint (gen_get g)"
  by (auto simp: to_i64_def)

lemma check_current_Inr:
  assumes "check_current current ea ec replacement = Inr ()"
  shows "(current = None \<longleftrightarrow> ea = None) \<and> (current = None \<longleftrightarrow> ec = None) \<and>
    (\<forall>row. current = Some row \<longrightarrow>
      mr_provider_instance_id row = pm_provider_instance_id replacement \<and>
      (\<exists>g h. ea = Some g \<and> ec = Some h \<and>
        gen_get g = word_of_int (mr_authorization_generation row) \<and>
        gen_get h = word_of_int (mr_configuration_generation row) \<and>
        gen_get g < gen_get (pm_authorization_generation replacement) \<and>
        gen_get h < gen_get (pm_configuration_generation replacement)))"
  using assms
  by (auto simp: check_current_def guard_simps not_le split: option.splits if_splits)

text \<open>Owners change mutation authority by compare-and-swap only. A replacement that succeeds
  named both generations of the current configuration exactly (or none where there was none),
  kept the provider, advanced both generations strictly, and installed precisely its own
  values and capabilities for its network while other networks keep theirs. A refused one
  leaves the database as it was.\<close>
theorem authority_replacement_fenced:
  assumes "authority_inv db"
    and "replace_provider_mutation_configuration n ea ec replacement actor db = (result, db')"
  shows "case result of
      Inl e \<Rightarrow> db' = db
    | Inr u \<Rightarrow>
        (\<exists>a c. current_configuration n db' = Some (mutation_values n a c replacement) \<and>
          a = uint (gen_get (pm_authorization_generation replacement)) \<and>
          c = uint (gen_get (pm_configuration_generation replacement))) \<and>
        (\<forall>p k. has_capability n p k db' \<longleftrightarrow>
          p = pm_provider_instance_id replacement \<and> k \<in> set (pm_capabilities replacement)) \<and>
        (\<forall>m. m \<noteq> n \<longrightarrow> current_configuration m db' = current_configuration m db) \<and>
        (case current_configuration n db of None \<Rightarrow> ea = None \<and> ec = None
         | Some row \<Rightarrow> mr_provider_instance_id row = pm_provider_instance_id replacement \<and>
            (\<exists>g h. ea = Some g \<and> ec = Some h \<and>
              gen_get g = word_of_int (mr_authorization_generation row) \<and>
              gen_get h = word_of_int (mr_configuration_generation row) \<and>
              gen_get g < gen_get (pm_authorization_generation replacement) \<and>
              gen_get h < gen_get (pm_configuration_generation replacement)))"
proof (cases result)
  case (Inl e)
  then show ?thesis using assms
    by (auto simp: replace_provider_mutation_configuration_def transactional_def split: sum.splits)
next
  case (Inr u)
  then have r: "replace_configuration_tx n ea ec replacement actor db = Inr (u, db')"
    using assms
    by (auto simp: replace_provider_mutation_configuration_def transactional_def split: sum.splits)
  have cur: "\<exists>a c. current_configuration n db' = Some (mutation_values n a c replacement) \<and>
      a = uint (gen_get (pm_authorization_generation replacement)) \<and>
      c = uint (gen_get (pm_configuration_generation replacement))"
    and others: "\<forall>m. m \<noteq> n \<longrightarrow> current_configuration m db' = current_configuration m db"
    using replace_current [OF r] by (auto simp: guard_simps)
  from replace_tx_Inr [OF r]
  have ck: "check_current (current_configuration n db) ea ec replacement = Inr ()" by blast
  with Inr cur others check_current_Inr [OF ck] replace_capabilities [OF r assms(1)] show ?thesis
    by (auto split: option.splits)
qed

section \<open>Superseded authority\<close>

text \<open>A history of replacement requests; a refused one leaves the database as it is.\<close>

type_synonym replacement_request =
  "NetworkId \<times> Generation option \<times> Generation option \<times> ProviderMutationConfiguration \<times> AuditActor"

fun run_replacements ::
    "replacement_request list \<Rightarrow> 'a authority_db_scheme \<Rightarrow> unit state_result list \<times> 'a authority_db_scheme" where
  "run_replacements [] db = ([], db)"
| "run_replacements ((n, ea, ec, r, actor) # rs) db =
     (let (res, db) = replace_provider_mutation_configuration n ea ec r actor db;
          (more_results, db) = run_replacements rs db
      in (res # more_results, db))"

definition replaced :: "NetworkId \<Rightarrow> replacement_request list \<Rightarrow> unit state_result list \<Rightarrow> bool" where
  "replaced n rs results \<longleftrightarrow> list_ex (\<lambda>(r, res). fst r = n \<and> is_ok res) (zip rs results)"

lemma replace_cases:
  assumes "replace_provider_mutation_configuration n ea ec r actor db = (res, db')"
  obtains (refused) "\<not> is_ok res" "db' = db"
  | (stored) u where "res = Inr u" "replace_configuration_tx n ea ec r actor db = Inr (u, db')"
  using assms
  by (auto simp: replace_provider_mutation_configuration_def transactional_def split: sum.splits)

lemma replace_advances:
  assumes inv: "authority_inv db"
    and r: "replace_configuration_tx n ea ec replacement actor db = Inr (u, db')"
    and cur: "current_configuration n db = Some row"
  shows "\<exists>row'. current_configuration n db' = Some row' \<and>
    mr_authorization_generation row < mr_authorization_generation row'"
proof -
  obtain g where g: "gen_get g = word_of_int (mr_authorization_generation row)"
      "gen_get g < gen_get (pm_authorization_generation replacement)"
    using replace_tx_Inr [OF r] check_current_Inr [of "Some row" ea ec replacement] cur by auto
  have "row \<in> set (ad_configurations db)"
    using cur by (auto simp: current_configuration_def dest: find_Some_mem)
  then have "0 < mr_authorization_generation row" "mr_authorization_generation row < 2 ^ 63"
    using inv by (auto simp: authority_inv_def list_all_iff mutation_check_def)
  then have "uint (gen_get g) = mr_authorization_generation row"
    unfolding g(1) by (simp add: uint_word_of_int)
  moreover have "uint (gen_get g) < uint (gen_get (pm_authorization_generation replacement))"
    using g(2) by (simp add: word_less_def)
  moreover obtain a c where "to_i64 (pm_authorization_generation replacement) = Inr a"
      "current_configuration n db' = Some (mutation_values n a c replacement)"
    using replace_current [OF r] by blast
  ultimately show ?thesis by (auto simp: guard_simps mutation_values_def)
qed

lemma run_replacements_advance:
  "authority_inv db \<Longrightarrow> current_configuration n db = Some row \<Longrightarrow>
   run_replacements rs db = (results, db') \<Longrightarrow>
   authority_inv db' \<and> (\<exists>row'. current_configuration n db' = Some row' \<and>
     mr_authorization_generation row \<le> mr_authorization_generation row' \<and>
     (replaced n rs results \<longrightarrow> mr_authorization_generation row < mr_authorization_generation row') \<and>
     (\<not> replaced n rs results \<longrightarrow> row' = row))"
proof (induction rs arbitrary: db row results)
  case Nil
  then show ?case by (auto simp: replaced_def)
next
  case (Cons q rs)
  obtain m ea ec r actor where q: "q = (m, ea, ec, r, actor)" by (cases q) auto
  obtain res d where s: "replace_provider_mutation_configuration m ea ec r actor db = (res, d)"
    by fastforce
  obtain res' where t: "run_replacements rs d = (res', db')" "results = res # res'"
    using Cons.prems(3) s q by (auto simp: Let_def split: prod.splits)
  have rep: "replaced n (q # rs) results \<longleftrightarrow> (m = n \<and> is_ok res) \<or> replaced n rs res'"
    using q t(2) by (simp add: replaced_def)
  from s show ?case
  proof (cases rule: replace_cases)
    case refused
    then show ?thesis using Cons.IH [OF Cons.prems(1,2), of res'] t(1) rep by auto
  next
    case (stored u)
    have inv: "authority_inv d" by (rule replace_keeps_inv [OF Cons.prems(1) stored(2)])
    show ?thesis
    proof (cases "m = n")
      case True
      then obtain row1 where "current_configuration n d = Some row1"
          "mr_authorization_generation row < mr_authorization_generation row1"
        using replace_advances [OF Cons.prems(1)] stored(2) Cons.prems(2) by blast
      then show ?thesis using Cons.IH [OF inv _ t(1)] rep True stored(1) by fastforce
    next
      case False
      then have "current_configuration n d = Some row"
        using replace_current [OF stored(2)] Cons.prems(2) by auto
      then show ?thesis using Cons.IH [OF inv _ t(1)] rep False by auto
    qed
  qed
qed

lemma find_key_conj:
  "distinct (map k rs) \<Longrightarrow> find (\<lambda>r. k r = n \<and> Q r) rs = Some r \<Longrightarrow> find (\<lambda>r. k r = n) rs = Some r"
  by (induction rs) (auto split: if_splits dest!: find_Some_mem)

lemma issue_Inr:
  assumes "issue_mutation_authorization n p c now db = Inr a" "authority_inv db"
  shows "\<exists>row. current_configuration n db = Some row \<and> mr_provider_instance_id row = p \<and>
    mr_enabled row = 1 \<and> mr_revoked row = 0 \<and>
    mr_authorization_generation row = uint (gen_get (ma_authorization_generation a)) \<and>
    ma_not_before a \<le> now \<and> now < ma_expires_at a \<and> has_capability n p c db \<and>
    ma_network_id a = n \<and> ma_provider_instance_id a = p \<and> ma_capability a = c"
proof -
  obtain row w v nb ex ag cg where h: "authority_row n p c db = Some row"
      "mr_authorization_generation row \<ge> 0" "w = word_of_int (mr_authorization_generation row)"
      "state_generation w = Inr ag" "mr_enabled row = 1" "mr_revoked row = 0" "nb \<le> now" "now < ex"
      "ma_authorization_generation a = ag" "ma_not_before a = nb" "ma_expires_at a = ex"
      "ma_network_id a = n \<and> ma_provider_instance_id a = p \<and> ma_capability a = c"
    using assms(1)
    by (auto simp: issue_mutation_authorization_def guard_simps not_less not_le split: if_splits)
  from h(1) have f: "find (\<lambda>r. mr_network_id r = n \<and> mr_provider_instance_id r = p)
      (ad_configurations db) = Some row" "has_capability n p c db"
    by (auto simp: authority_row_def split: if_splits)
  have cur: "current_configuration n db = Some row"
    using find_key_conj [OF _ f(1)] assms(2) by (simp add: current_configuration_def authority_inv_def)
  have "row \<in> set (ad_configurations db)" "mr_provider_instance_id row = p"
    using find_Some_mem [OF f(1)] by simp_all
  moreover from this have "mr_authorization_generation row < 2 ^ 63"
    using assms(2) by (auto simp: authority_inv_def list_all_iff mutation_check_def)
  moreover have "gen_get ag = w"
    using h(4) by (auto simp: state_generation_def Generation_new_def guard_simps split: if_splits)
  ultimately show ?thesis using h f(2) cur by (simp add: uint_word_of_int)
qed

text \<open>C20: Superseded authority dies. Whatever replacements an owner requests, in whatever order,
  once one of them succeeds for a network no authorization minted before it passes the
  validation that accepts one minted afterwards, for any capability, provider and time; and its
  generation is older. An authorization is only ever minted inside its window, for a configured
  capability, from an enabled configuration that is not revoked.\<close>
theorem superseded_authority_refused:
  assumes "authority_inv db" "issue_mutation_authorization n p c now db = Inr a"
    and "run_replacements rs db = (results, db')" "replaced n rs results"
    and "issue_mutation_authorization n p' c' now' db' = Inr b" "MutationAuthorization_validate b x = Inr ()"
  shows "MutationAuthorization_validate a x \<noteq> Inr () \<and>
    gen_get (ma_authorization_generation a) < gen_get (ma_authorization_generation b) \<and>
    ma_not_before a \<le> now \<and> now < ma_expires_at a \<and> has_capability n p c db"
proof -
  obtain row where row: "current_configuration n db = Some row"
      "mr_authorization_generation row = uint (gen_get (ma_authorization_generation a))"
      "ma_not_before a \<le> now" "now < ma_expires_at a" "has_capability n p c db"
    using issue_Inr [OF assms(2,1)] by blast
  obtain row' where row': "authority_inv db'" "current_configuration n db' = Some row'"
      "mr_authorization_generation row < mr_authorization_generation row'"
    using run_replacements_advance [OF assms(1) row(1) assms(3)] assms(4) by auto
  have "mr_authorization_generation row' = uint (gen_get (ma_authorization_generation b))"
    using issue_Inr [OF assms(5) row'(1)] row'(2) by auto
  with row row' have lt: "gen_get (ma_authorization_generation a) < gen_get (ma_authorization_generation b)"
    by (simp add: word_less_def)
  moreover have "ma_authorization_generation b = mx_authorization_generation x"
    using assms(6) by (auto simp: MutationAuthorization_validate_def split: if_splits)
  ultimately have "MutationAuthorization_validate a x \<noteq> Inr ()"
    by (auto simp: MutationAuthorization_validate_def split: if_splits)
  with lt row show ?thesis by blast
qed

section \<open>Samples\<close>

definition sample_fingerprint :: string where
  "sample_fingerprint = ''sha256:'' @ replicate 64 (CHR ''0'')"

definition sample_mutation :: "u64 \<Rightarrow> ProviderMutationConfiguration" where
  "sample_mutation g =
     \<lparr>pm_provider_instance_id = TypedId 2, pm_authorization_generation = Generation g,
      pm_configuration_generation = Generation g, pm_configuration_fingerprint = sample_fingerprint,
      pm_adapter = ''headscale'', pm_expected_version = ''v0.29.3'', pm_enabled = True,
      pm_revoked = False, pm_not_before = 0, pm_expires_at = 1000000000000,
      pm_policy_mode = PolicyUnknown, pm_capabilities = [CreateJoinCredential, InvalidateJoinCredential]\<rparr>"

definition sample_authority :: "mutation_row list \<Rightarrow> capability_row list \<Rightarrow> event_audit_row list \<Rightarrow> authority_db" where
  "sample_authority configurations capabilities events =
     \<lparr>ad_imports = [\<lparr>im_network_id = TypedId 1, im_provider_instance_id = TypedId 2, im_read_only = 1,
        im_mutation_allowed = 0\<rparr>],
      ad_configurations = configurations, ad_capabilities = capabilities, ad_events = events,
      ad_fail_before_audit = False, ad_fail_before_n4_confirmation_audit = False\<rparr>"

definition sample_authority_at :: "int \<Rightarrow> event_audit_row list \<Rightarrow> authority_db" where
  "sample_authority_at g events =
     sample_authority [mutation_values (TypedId 1) g g (sample_mutation (word_of_int g))]
       (map (capability_values (TypedId 1) (TypedId 2)) [CreateJoinCredential, InvalidateJoinCredential])
       events"

definition sample_event :: "int \<Rightarrow> event_audit_row" where
  "sample_event g = \<lparr>ea_network_id = Some (TypedId 1), ea_actor = AuditActor_system,
     ea_event_kind = ''provider_mutation_configured'', ea_outcome = ''success'', ea_generation = Some g\<rparr>"

lemma sample_fingerprint_ok: "hash_column sample_fingerprint"
  unfolding hash_column_def sample_fingerprint_def
  by (simp add: lower_hex_char_def is_ascii_digit_def byte_val_def list_all_iff)

lemmas authority_eval =
  sample_authority_at_def sample_authority_def sample_mutation_def sample_fingerprint_ok
  sample_event_def replace_provider_mutation_configuration_def replace_configuration_tx_def
  transactional_def current_configuration_def check_current_def read_only_import_def to_i64_def
  mutation_values_def update_configuration_def insert_configuration_def mutation_check_def
  insert_capability_def has_capability_def append_audit_def column_u64_def timestamp_millis_def
  capability_values_def Let_def

lemma sample_replacement:
  "replace_provider_mutation_configuration (TypedId 1) (Some (Generation 1)) (Some (Generation 1))
     (sample_mutation 2) AuditActor_system (sample_authority_at 1 []) =
   (Inr (), sample_authority_at 2 [sample_event 2])"
  by (simp add: authority_eval)

lemma sample_authority_inv: "authority_inv (sample_authority_at 1 [])"
  by (simp add: authority_inv_def capabilities_held_def authority_eval)

theorem authority_replacement_fenced_witness:
  "current_configuration (TypedId 1) (sample_authority_at 2 [sample_event 2]) =
     Some (mutation_values (TypedId 1) 2 2 (sample_mutation 2)) \<and>
   \<not> has_capability (TypedId 1) (TypedId 2) ManagePolicy (sample_authority_at 2 [sample_event 2])"
  using authority_replacement_fenced [OF sample_authority_inv sample_replacement]
  by (simp add: sample_mutation_def)

definition sample_authorization :: "u64 \<Rightarrow> MutationAuthorization" where
  "sample_authorization g =
     \<lparr>ma_network_id = TypedId 1, ma_provider_instance_id = TypedId 2,
      ma_authorization_generation = Generation g, ma_configuration_generation = Generation g,
      ma_configuration_fingerprint = sample_fingerprint, ma_adapter = ''headscale'',
      ma_expected_version = ''v0.29.3'', ma_not_before = 0, ma_expires_at = 1000000000000,
      ma_capability = CreateJoinCredential, ma_policy_mode = PolicyUnknown\<rparr>"

definition sample_context :: "u64 \<Rightarrow> MutationAuthorizationContext" where
  "sample_context g =
     \<lparr>mx_network_id = TypedId 1, mx_provider_instance_id = TypedId 2,
      mx_authorization_generation = Generation g, mx_configuration_generation = Generation g,
      mx_configuration_fingerprint = sample_fingerprint, mx_adapter = ''headscale'',
      mx_version = ''v0.29.3'', mx_dirty = False, mx_capability = CreateJoinCredential,
      mx_policy_mode = PolicyUnknown, mx_now = 50\<rparr>"

lemma sample_issues:
  "issue_mutation_authorization (TypedId 1) (TypedId 2) CreateJoinCredential 10 (sample_authority_at 1 []) =
     Inr (sample_authorization 1)"
  "issue_mutation_authorization (TypedId 1) (TypedId 2) CreateJoinCredential 40
     (sample_authority_at 2 [sample_event 2]) = Inr (sample_authorization 2)"
  by (simp_all add: issue_mutation_authorization_def authority_row_def authority_eval
      from_timestamp_millis_def min_timestamp_millis_def max_timestamp_millis_def
      valid_sha256_fingerprint_def state_generation_def domain_conflict_def Generation_new_def
      sample_authorization_def)

theorem superseded_authority_refused_witness:
  "MutationAuthorization_validate (sample_authorization 2) (sample_context 2) = Inr () \<and>
   MutationAuthorization_validate (sample_authorization 1) (sample_context 2) \<noteq> Inr ()"
proof -
  let ?rs = "[(TypedId 1, Some (Generation 1), Some (Generation 1), sample_mutation 2, AuditActor_system)]"
  have r: "run_replacements ?rs (sample_authority_at 1 []) = ([Inr ()], sample_authority_at 2 [sample_event 2])"
    by (simp add: sample_replacement)
  have d: "replaced (TypedId 1) ?rs [Inr ()]" by (simp add: replaced_def)
  have v: "MutationAuthorization_validate (sample_authorization 2) (sample_context 2) = Inr ()"
    by (simp add: MutationAuthorization_validate_def sample_authorization_def sample_context_def)
  show ?thesis
    using superseded_authority_refused [OF sample_authority_inv sample_issues(1) r d sample_issues(2) v] v
    by blast
qed

end
