(* ===== verification/N4_Store.thy ===== *)
theory N4_Store
  imports Mutation_Authority Invitations
begin

text \<open>
  The N4 invitation store of \<^verbatim>\<open>crates/nodescale-state/src/lib.rs\<close> over the tables of
  \<^verbatim>\<open>migrations/0001_initial.sql\<close>, \<^verbatim>\<open>0003_mutation_authorization.sql\<close> and
  \<^verbatim>\<open>0004_invitation_lifecycle.sql\<close>: issuing an invitation, reserving its one redemption, the
  dispatch fence around the provider call, confirming or failing it, and the cleanup that
  revokes or expires an invitation with the credential it led to.

  Identifiers, instants and states are typed. A \<^verbatim>\<open>record_json\<close> column holds the record that
  \<^verbatim>\<open>serde_json\<close> reads back from it, and a state column the state whose lower-case name it is.
  A transaction answers an error or a value with the new database; every update of a row runs
  the triggers and the checks of its table.
\<close>

section \<open>Contexts, targets and outcomes\<close>

record N4InvitationContext =
  nx_provider_instance_id :: ProviderInstanceId
  nx_provider_principal_id :: string

definition N4InvitationContext_new ::
    "ProviderInstanceId \<Rightarrow> string \<Rightarrow> N4InvitationContext state_result" where
  "N4InvitationContext_new provider_instance_id provider_principal_id =
     (if \<not> safe_identifier provider_principal_id
      then Inl (StConflict ''invalid N4 provider principal'')
      else Inr \<lparr>nx_provider_instance_id = provider_instance_id,
                nx_provider_principal_id = provider_principal_id\<rparr>)"

record N4InvitationCandidate =
  nc_invitation_id :: InvitationId
  nc_network_id :: NetworkId
  nc_revision :: u64
  nc_state :: InvitationState
  nc_expires_at :: DateTime
  nc_context :: N4InvitationContext
  nc_verifier :: SecretVerifier

definition verify_candidate ::
    "argon_ops \<Rightarrow> N4InvitationCandidate \<Rightarrow> InvitationToken \<Rightarrow> bool state_result" where
  "verify_candidate A c token =
     (if it_invitation_id token \<noteq> nc_invitation_id c then Inr False
      else map_err (\<lambda>_. StConflict ''N4 invitation verifier could not be evaluated'')
        (verify_token A (nc_verifier c) token))"

datatype N4CleanupState =
  CleanupActive | CleanupPending | CleanupConfirmed | CleanupRetryable | CleanupAmbiguous |
  CleanupBlocked | CleanupNone

datatype N4DispatchFailure = PreDispatch | DefiniteNoApply | AmbiguousDispatch

datatype N4InvalidationOutcome =
  InvalidationConfirmed | InvalidationSatisfied | InvalidationRetryable | InvalidationAmbiguous |
  InvalidationUnauthenticated | InvalidationIncompatible | InvalidationBlocked

datatype N4CleanupIntent = IntentRevoked | IntentExpired

type_synonym SanitizedMetadata = json

definition n4_digest_json :: "store_env \<Rightarrow> SanitizedMetadata \<Rightarrow> string state_result" where
  "n4_digest_json E v =
     (if v = JObject [] then Inr ''{}''
      else and_then (ok_or (se_to_vec E v) StSerialization) (\<lambda>canonical.
        Inr (''{\"sha256\":\"'' @ hex_text (se_sha256 E canonical) @ ''\"}'')))"

record N4PresentedMetadata =
  px_platform :: "string option"
  px_hostname_hint :: "string option"
  px_correlation :: SanitizedMetadata

record N4RedemptionReservation =
  re_join_session_id :: JoinSessionId
  re_invitation_id :: InvitationId
  re_network_id :: NetworkId
  re_expires_at :: DateTime
  re_context :: N4InvitationContext

record N4CredentialDispatch =
  cd_join_session_id :: JoinSessionId
  cd_invitation_id :: InvitationId
  cd_network_id :: NetworkId
  cd_context :: N4InvitationContext
  cd_authorization_generation :: Generation
  cd_configuration_generation :: Generation
  cd_configuration_fingerprint :: string

record N4CredentialConfirmation =
  co_credential_id :: ProviderCredentialId
  co_provider_reference :: ProviderCredentialReference
  co_provider_principal_id :: string
  co_ephemeral :: bool
  co_approved_tags :: "string list"
  co_expires_at :: DateTime
  co_confirmed_at :: DateTime
  co_safe_correlation :: SanitizedMetadata

record N4CleanupTarget =
  ct_invitation_id :: InvitationId
  ct_join_session_id :: "JoinSessionId option"
  ct_credential_id :: "ProviderCredentialId option"
  ct_provider_reference :: "ProviderCredentialReference option"
  ct_network_id :: NetworkId
  ct_provider_instance_id :: ProviderInstanceId
  ct_intent :: N4CleanupIntent
  ct_cleanup_uncertain :: bool

section \<open>Tables\<close>

record invitation_row =
  iv_invitation_id :: InvitationId
  iv_network_id :: NetworkId
  iv_state :: InvitationState
  iv_secret_verifier :: SecretVerifier
  iv_credential :: "ProviderCredentialId option"
  iv_max_uses :: int
  iv_used_count :: int
  iv_record :: Invitation
  iv_created_at :: DateTime
  iv_expires_at :: DateTime

record detail_row =
  de_invitation_id :: InvitationId
  de_network_id :: NetworkId
  de_provider_instance_id :: ProviderInstanceId
  de_principal :: string
  de_roles :: Roles
  de_constraints :: JoinConstraints
  de_created_by :: AuditActor
  de_revision :: int
  de_consumed_at_ms :: "int option"
  de_revoked_at_ms :: "int option"
  de_expired_at_ms :: "int option"
  de_last_redemption_at_ms :: "int option"
  de_last_redemption_metadata :: string

record session_row =
  sr_join_session_id :: JoinSessionId
  sr_invitation_id :: InvitationId
  sr_network_id :: NetworkId
  sr_state :: JoinSessionState
  sr_record :: JoinSession
  sr_created_at :: DateTime
  sr_expires_at :: DateTime
  sr_updated_at :: DateTime

datatype dispatch_state =
  DispatchReserved | DispatchStarted | DispatchConfirmed | DispatchAmbiguous | FailedPreDispatch |
  FailedNoApply | RevocationPending | DispatchRevoked | DispatchExpired

record dispatch_row =
  dp_join_session_id :: JoinSessionId
  dp_invitation_id :: InvitationId
  dp_network_id :: NetworkId
  dp_provider_instance_id :: ProviderInstanceId
  dp_principal :: string
  dp_create_request_id :: string
  dp_state :: dispatch_state
  dp_authorization_generation :: "int option"
  dp_configuration_generation :: "int option"
  dp_configuration_fingerprint :: "string option"
  dp_dispatched_at_ms :: "int option"
  dp_resolved_at_ms :: "int option"
  dp_credential_id :: "ProviderCredentialId option"

record reference_row =
  cr_credential_id :: ProviderCredentialId
  cr_network_id :: NetworkId
  cr_provider_instance_id :: ProviderInstanceId
  cr_provider_reference :: ProviderCredentialReference
  cr_authorization_generation :: int
  cr_configuration_generation :: int
  cr_configuration_fingerprint :: string
  cr_confirmed_at_ms :: int
  cr_expires_at_ms :: int
  cr_max_uses :: int

datatype invalidation_state =
  InvActive | InvPending | InvConfirmed | InvRetryable | InvAmbiguous | InvBlocked

record metadata_row =
  cm_credential_id :: ProviderCredentialId
  cm_join_session_id :: JoinSessionId
  cm_network_id :: NetworkId
  cm_provider_instance_id :: ProviderInstanceId
  cm_principal :: string
  cm_single_use :: int
  cm_reusable :: int
  cm_ephemeral :: int
  cm_approved_tags :: "string list"
  cm_expires_at_ms :: int
  cm_confirmed_at_ms :: int
  cm_invalidation_state :: invalidation_state
  cm_invalidated_at_ms :: "int option"
  cm_safe_correlation :: string

text \<open>The action identifiers of the audit correlations, one constructor per format string.\<close>

datatype n4_action =
    InvitationCreated InvitationId
  | InvitationClosed InvitationId N4CleanupIntent
  | RedemptionOf JoinSessionId
  | CredentialConfirm JoinSessionId
  | CredentialFailure JoinSessionId
  | CredentialInvalidation ProviderCredentialId N4CleanupIntent

record correlation_row =
  nr_invitation_id :: InvitationId
  nr_join_session_id :: "JoinSessionId option"
  nr_action :: n4_action
  nr_event_kind :: string

record n4_db = authority_db +
  nd_networks :: "(NetworkId \<times> Network) list"
  nd_invitations :: "invitation_row list"
  nd_details :: "detail_row list"
  nd_sessions :: "session_row list"
  nd_dispatches :: "dispatch_row list"
  nd_references :: "reference_row list"
  nd_metadata :: "metadata_row list"
  nd_correlations :: "correlation_row list"

section \<open>Triggers and checks\<close>

definition non_negative :: "int option \<Rightarrow> bool" where
  "non_negative m \<longleftrightarrow> (case m of None \<Rightarrow> True | Some n \<Rightarrow> 0 \<le> n)"

text \<open>SQLite's \<^verbatim>\<open>length\<close> of a text counts the characters before its first NUL.\<close>

definition sqlite_length :: "string \<Rightarrow> nat" where
  "sqlite_length s = length (str_chars (takeWhile (\<lambda>c. byte_val c \<noteq> 0) s))"

definition detail_check :: "detail_row \<Rightarrow> bool" where
  "detail_check r \<longleftrightarrow>
     1 \<le> sqlite_length (de_principal r) \<and> sqlite_length (de_principal r) \<le> 255 \<and>
     1 \<le> sqlite_length (au_source (de_created_by r)) \<and> sqlite_length (au_source (de_created_by r)) \<le> 255 \<and>
     1 \<le> de_revision r \<and> de_revision r < 2 ^ 63 \<and> non_negative (de_consumed_at_ms r) \<and>
     non_negative (de_revoked_at_ms r) \<and> non_negative (de_expired_at_ms r) \<and>
     non_negative (de_last_redemption_at_ms r)"

definition create_request_column :: "string \<Rightarrow> bool" where
  "create_request_column s \<longleftrightarrow>
     length s = 36 \<and> s ! 8 = CHR ''-'' \<and> s ! 13 = CHR ''-'' \<and> s ! 18 = CHR ''-'' \<and> s ! 23 = CHR ''-''"

definition undispatched :: "dispatch_state \<Rightarrow> bool" where
  "undispatched s \<longleftrightarrow> s = DispatchReserved \<or> s = FailedPreDispatch"

definition dispatch_check :: "dispatch_row \<Rightarrow> bool" where
  "dispatch_check r \<longleftrightarrow>
     1 \<le> sqlite_length (dp_principal r) \<and> sqlite_length (dp_principal r) \<le> 255 \<and>
     create_request_column (dp_create_request_id r) \<and>
     (case dp_authorization_generation r of None \<Rightarrow> True | Some g \<Rightarrow> 0 < g) \<and>
     (case dp_configuration_generation r of None \<Rightarrow> True | Some g \<Rightarrow> 0 < g) \<and>
     (case dp_configuration_fingerprint r of None \<Rightarrow> True | Some h \<Rightarrow> hash_column h) \<and>
     non_negative (dp_dispatched_at_ms r) \<and> non_negative (dp_resolved_at_ms r) \<and>
     (if undispatched (dp_state r)
      then dp_authorization_generation r = None \<and> dp_configuration_generation r = None \<and>
        dp_configuration_fingerprint r = None \<and> dp_dispatched_at_ms r = None
      else dp_authorization_generation r \<noteq> None \<and> dp_configuration_generation r \<noteq> None \<and>
        dp_configuration_fingerprint r \<noteq> None \<and> dp_dispatched_at_ms r \<noteq> None) \<and>
     (dp_state r = DispatchConfirmed \<longrightarrow> dp_credential_id r \<noteq> None)"

fun dispatch_transition :: "dispatch_state \<Rightarrow> dispatch_state \<Rightarrow> bool" where
  "dispatch_transition DispatchReserved n =
     (n \<in> {DispatchStarted, FailedPreDispatch, DispatchRevoked, DispatchExpired} \<or> n = DispatchReserved)"
| "dispatch_transition DispatchStarted n =
     (n \<in> {DispatchConfirmed, DispatchAmbiguous, FailedNoApply, RevocationPending} \<or> n = DispatchStarted)"
| "dispatch_transition DispatchConfirmed n =
     (n \<in> {RevocationPending, DispatchRevoked, DispatchExpired} \<or> n = DispatchConfirmed)"
| "dispatch_transition DispatchAmbiguous n =
     (n \<in> {RevocationPending, DispatchRevoked, DispatchExpired} \<or> n = DispatchAmbiguous)"
| "dispatch_transition RevocationPending n =
     (n \<in> {DispatchRevoked, DispatchExpired} \<or> n = RevocationPending)"
| "dispatch_transition s n = (n = s)"

definition coalesce :: "'a option \<Rightarrow> 'a \<Rightarrow> 'a" where
  "coalesce x d = (case x of None \<Rightarrow> d | Some y \<Rightarrow> y)"

text \<open>\<^verbatim>\<open>n4_dispatch_linkage_immutable\<close>: links never change, nor provenance once dispatched.\<close>

definition dispatch_linkage :: "dispatch_row \<Rightarrow> dispatch_row \<Rightarrow> bool" where
  "dispatch_linkage old new \<longleftrightarrow>
     dp_join_session_id new = dp_join_session_id old \<and> dp_invitation_id new = dp_invitation_id old \<and>
     dp_network_id new = dp_network_id old \<and>
     dp_provider_instance_id new = dp_provider_instance_id old \<and>
     dp_principal new = dp_principal old \<and> dp_create_request_id new = dp_create_request_id old \<and>
     (dp_credential_id old \<noteq> None \<longrightarrow> dp_credential_id new = dp_credential_id old) \<and>
     (dp_state old \<noteq> DispatchReserved \<longrightarrow>
        coalesce (dp_authorization_generation new) 0 = coalesce (dp_authorization_generation old) 0 \<and>
        coalesce (dp_configuration_generation new) 0 = coalesce (dp_configuration_generation old) 0 \<and>
        coalesce (dp_configuration_fingerprint new) [] = coalesce (dp_configuration_fingerprint old) [] \<and>
        coalesce (dp_dispatched_at_ms new) 0 = coalesce (dp_dispatched_at_ms old) 0) \<and>
     (dp_resolved_at_ms old \<noteq> None \<longrightarrow> dp_resolved_at_ms new = dp_resolved_at_ms old)"

definition dispatch_update_ok :: "dispatch_row \<Rightarrow> dispatch_row \<Rightarrow> bool" where
  "dispatch_update_ok old new \<longleftrightarrow>
     dispatch_transition (dp_state old) (dp_state new) \<and> dispatch_linkage old new \<and> dispatch_check new"

fun invalidation_transition :: "invalidation_state \<Rightarrow> invalidation_state \<Rightarrow> bool" where
  "invalidation_transition InvActive n = (n = InvPending)"
| "invalidation_transition InvPending n =
     (n \<in> {InvPending, InvConfirmed, InvRetryable, InvAmbiguous, InvBlocked})"
| "invalidation_transition InvConfirmed n = (n = InvConfirmed)"
| "invalidation_transition s n = (n \<in> {InvRetryable, InvAmbiguous, InvBlocked, InvConfirmed})"

definition metadata_check :: "metadata_row \<Rightarrow> bool" where
  "metadata_check r \<longleftrightarrow>
     1 \<le> sqlite_length (cm_principal r) \<and> sqlite_length (cm_principal r) \<le> 255 \<and> cm_single_use r = 1 \<and>
     cm_reusable r = 0 \<and> cm_ephemeral r \<in> {0, 1} \<and> 0 \<le> cm_expires_at_ms r \<and>
     0 \<le> cm_confirmed_at_ms r \<and> cm_confirmed_at_ms r < cm_expires_at_ms r \<and>
     non_negative (cm_invalidated_at_ms r) \<and>
     (cm_invalidation_state r = InvConfirmed \<longleftrightarrow> cm_invalidated_at_ms r \<noteq> None)"

definition metadata_update_ok :: "metadata_row \<Rightarrow> metadata_row \<Rightarrow> bool" where
  "metadata_update_ok old new \<longleftrightarrow>
     invalidation_transition (cm_invalidation_state old) (cm_invalidation_state new) \<and>
     (cm_invalidated_at_ms old \<noteq> None \<longrightarrow> cm_invalidated_at_ms new = cm_invalidated_at_ms old) \<and>
     metadata_check new"

text \<open>
  An \<^verbatim>\<open>UPDATE\<close> changes the rows that match; a refused row aborts the statement. The number of
  rows it changed is the number that match.
\<close>

definition update_where ::
    "('r \<Rightarrow> bool) \<Rightarrow> ('r \<Rightarrow> 'r) \<Rightarrow> ('r \<Rightarrow> 'r \<Rightarrow> bool) \<Rightarrow> 'r list \<Rightarrow> 'r list state_result" where
  "update_where P f ok rows =
     (if list_all (\<lambda>r. P r \<longrightarrow> ok r (f r)) rows
      then Inr (map (\<lambda>r. if P r then f r else r) rows)
      else Inl (StSqlite ''constraint''))"

lemma update_where_Inr [guard_simps]:
  "update_where P f ok rows = Inr rows' \<longleftrightarrow>
     (\<forall>r\<in>set rows. P r \<longrightarrow> ok r (f r)) \<and> rows' = map (\<lambda>r. if P r then f r else r) rows"
  by (auto simp: update_where_def list_all_iff)

definition update_dispatches ::
    "(dispatch_row \<Rightarrow> bool) \<Rightarrow> (dispatch_row \<Rightarrow> dispatch_row) \<Rightarrow> n4_db \<Rightarrow> n4_db state_result" where
  "update_dispatches P f db =
     and_then (update_where P f dispatch_update_ok (nd_dispatches db))
       (\<lambda>rs. Inr (db\<lparr>nd_dispatches := rs\<rparr>))"

text \<open>The dispatch and the confirmed reference that a metadata row must match, \<^verbatim>\<open>n4_credential_links_match_*\<close>.\<close>

definition metadata_linked :: "n4_db \<Rightarrow> metadata_row \<Rightarrow> bool" where
  "metadata_linked db m \<longleftrightarrow>
     list_ex (\<lambda>d. dp_join_session_id d = cm_join_session_id m \<and>
       dp_credential_id d = Some (cm_credential_id m) \<and> dp_network_id d = cm_network_id m \<and>
       dp_provider_instance_id d = cm_provider_instance_id m \<and> dp_principal d = cm_principal m)
       (nd_dispatches db) \<and>
     list_ex (\<lambda>r. cr_credential_id r = cm_credential_id m \<and> cr_network_id r = cm_network_id m \<and>
       cr_provider_instance_id r = cm_provider_instance_id m) (nd_references db)"

definition update_metadata ::
    "(metadata_row \<Rightarrow> bool) \<Rightarrow> (metadata_row \<Rightarrow> metadata_row) \<Rightarrow> n4_db \<Rightarrow> n4_db state_result" where
  "update_metadata P f db =
     and_then (update_where P f (\<lambda>old new. metadata_linked db new \<and> metadata_update_ok old new) (nd_metadata db))
       (\<lambda>rs. Inr (db\<lparr>nd_metadata := rs\<rparr>))"

definition update_details ::
    "(detail_row \<Rightarrow> bool) \<Rightarrow> (detail_row \<Rightarrow> detail_row) \<Rightarrow> n4_db \<Rightarrow> n4_db state_result" where
  "update_details P f db =
     and_then (update_where P f (\<lambda>_. detail_check) (nd_details db))
       (\<lambda>rs. Inr (db\<lparr>nd_details := rs\<rparr>))"

definition set_invitation ::
    "InvitationId \<Rightarrow> (invitation_row \<Rightarrow> invitation_row) \<Rightarrow> n4_db \<Rightarrow> n4_db" where
  "set_invitation i f db =
     db\<lparr>nd_invitations := map (\<lambda>r. if iv_invitation_id r = i then f r else r) (nd_invitations db)\<rparr>"

definition set_session :: "JoinSession \<Rightarrow> DateTime \<Rightarrow> n4_db \<Rightarrow> n4_db" where
  "set_session s now db =
     db\<lparr>nd_sessions := map (\<lambda>r. if sr_join_session_id r = js_join_session_id s
        then r\<lparr>sr_state := js_state s, sr_record := s, sr_updated_at := now\<rparr> else r) (nd_sessions db)\<rparr>"

section \<open>Queries\<close>

definition invitation_named :: "InvitationId \<Rightarrow> n4_db \<Rightarrow> invitation_row option" where
  "invitation_named i db = find (\<lambda>r. iv_invitation_id r = i) (nd_invitations db)"

definition details_of :: "InvitationId \<Rightarrow> n4_db \<Rightarrow> detail_row option" where
  "details_of i db = find (\<lambda>r. de_invitation_id r = i) (nd_details db)"

definition session_named :: "JoinSessionId \<Rightarrow> n4_db \<Rightarrow> session_row option" where
  "session_named s db = find (\<lambda>r. sr_join_session_id r = s) (nd_sessions db)"

definition dispatch_named :: "JoinSessionId \<Rightarrow> n4_db \<Rightarrow> dispatch_row option" where
  "dispatch_named s db = find (\<lambda>r. dp_join_session_id r = s) (nd_dispatches db)"

definition dispatch_for :: "InvitationId \<Rightarrow> n4_db \<Rightarrow> dispatch_row option" where
  "dispatch_for i db = find (\<lambda>r. dp_invitation_id r = i) (nd_dispatches db)"

definition reference_of :: "ProviderCredentialId \<Rightarrow> n4_db \<Rightarrow> reference_row option" where
  "reference_of c db = find (\<lambda>r. cr_credential_id r = c) (nd_references db)"

text \<open>The inner join of an invitation with its N4 details: legacy invitations have none.\<close>

definition n4_invitation :: "InvitationId \<Rightarrow> n4_db \<Rightarrow> (invitation_row \<times> detail_row) option" where
  "n4_invitation i db =
     (case (invitation_named i db, details_of i db) of
        (Some r, Some d) \<Rightarrow> Some (r, d) | _ \<Rightarrow> None)"

definition n4_dispatch :: "JoinSessionId \<Rightarrow> n4_db \<Rightarrow> (session_row \<times> dispatch_row) option" where
  "n4_dispatch s db =
     (case (session_named s db, dispatch_named s db) of
        (Some r, Some d) \<Rightarrow> Some (r, d) | _ \<Rightarrow> None)"

definition session_record :: "JoinSessionId \<Rightarrow> n4_db \<Rightarrow> JoinSession state_result" where
  "session_record s db =
     and_then (ok_or (session_named s db) (StSqlite ''QueryReturnedNoRows'')) (\<lambda>r. Inr (sr_record r))"

definition network_record :: "store_env \<Rightarrow> NetworkId \<Rightarrow> n4_db \<Rightarrow> Network state_result" where
  "network_record E n db =
     ok_or (map_of (nd_networks db) n) (StNotFound (id_display (se_uuid E) n))"

definition configuration_open :: "NetworkId \<Rightarrow> ProviderInstanceId \<Rightarrow> DateTime \<Rightarrow> n4_db \<Rightarrow> bool" where
  "configuration_open n p now db \<longleftrightarrow>
     list_ex (\<lambda>c. mr_network_id c = n \<and> mr_provider_instance_id c = p \<and> mr_enabled c = 1 \<and>
       mr_revoked c = 0 \<and> mr_not_before_ms c \<le> timestamp_millis now \<and>
       timestamp_millis now < mr_expires_at_ms c) (ad_configurations db)"

definition imported :: "NetworkId \<Rightarrow> ProviderInstanceId \<Rightarrow> n4_db \<Rightarrow> bool" where
  "imported n p db \<longleftrightarrow>
     list_ex (\<lambda>i. im_network_id i = n \<and> im_provider_instance_id i = p) (ad_imports db)"

definition join_capabilities :: "NetworkId \<Rightarrow> ProviderInstanceId \<Rightarrow> n4_db \<Rightarrow> bool" where
  "join_capabilities n p db \<longleftrightarrow>
     has_capability n p CreateJoinCredential db \<and> has_capability n p InvalidateJoinCredential db"

definition advance_session ::
    "JoinSession \<Rightarrow> JoinSessionState \<Rightarrow> DateTime \<Rightarrow> JoinSession state_result" where
  "advance_session s nxt now = domain_conflict (advance_n4 s nxt now)"

definition move_invitation :: "Invitation \<Rightarrow> InvitationState \<Rightarrow> Invitation state_result" where
  "move_invitation i nxt =
     and_then (domain_conflict (InvitationState_transition (in_state i) nxt))
       (\<lambda>st. Inr (i\<lparr>in_state := st\<rparr>))"

definition store_invitation :: "Invitation \<Rightarrow> InvitationId \<Rightarrow> n4_db \<Rightarrow> n4_db" where
  "store_invitation invitation i =
     set_invitation i (\<lambda>r. r\<lparr>iv_state := in_state invitation, iv_record := invitation\<rparr>)"

section \<open>The audit trail\<close>

definition append_n4_audit ::
    "InvitationId \<Rightarrow> JoinSessionId option \<Rightarrow> n4_action \<Rightarrow> AuditActor \<Rightarrow> string \<Rightarrow> string \<Rightarrow> n4_db \<Rightarrow>
     n4_db state_result" where
  "append_n4_audit i s action actor kind outcome db =
     and_then (ensure (\<not> (ad_fail_before_audit db \<or>
         (ad_fail_before_n4_confirmation_audit db \<and> kind = ''invitation_redeemed''))) StInjectedFailure) (\<lambda>_.
     if list_ex (\<lambda>r. nr_action r = action \<and> nr_event_kind r = kind) (nd_correlations db) then Inr db
     else
       and_then (ok_or (details_of i db) (StSqlite ''QueryReturnedNoRows'')) (\<lambda>d.
       Inr (db\<lparr>ad_events := ad_events db @
                [\<lparr>ea_network_id = Some (de_network_id d), ea_actor = actor, ea_event_kind = kind,
                  ea_outcome = outcome, ea_generation = None\<rparr>],
              nd_correlations := nd_correlations db @
                [\<lparr>nr_invitation_id = i, nr_join_session_id = s, nr_action = action,
                  nr_event_kind = kind\<rparr>]\<rparr>)))"

section \<open>Issuing and reading\<close>

definition insert_invitation :: "invitation_row \<Rightarrow> n4_db \<Rightarrow> n4_db state_result" where
  "insert_invitation r db =
     (if list_ex (\<lambda>q. iv_invitation_id q = iv_invitation_id r \<or>
          iv_secret_verifier q = iv_secret_verifier r) (nd_invitations db)
      then Inl (StConflict ''UNIQUE'')
      else if map_of (nd_networks db) (iv_network_id r) = None then Inl (StConflict ''FOREIGN KEY'')
      else Inr (db\<lparr>nd_invitations := nd_invitations db @ [r]\<rparr>))"

definition insert_details :: "detail_row \<Rightarrow> n4_db \<Rightarrow> n4_db state_result" where
  "insert_details d db =
     and_then (ensure (list_ex (\<lambda>r. iv_invitation_id r = de_invitation_id d \<and>
         iv_network_id r = de_network_id d \<and> iv_max_uses r = 1) (nd_invitations db))
       (StSqlite ''N4 invitation requires matching single-use base invitation'')) (\<lambda>_.
     and_then (ensure (detail_check d) (StSqlite ''CHECK'')) (\<lambda>_.
     and_then (ensure (details_of (de_invitation_id d) db = None) (StSqlite ''UNIQUE'')) (\<lambda>_.
     and_then (ensure (list_ex (\<lambda>c. mr_network_id c = de_network_id d \<and>
         mr_provider_instance_id c = de_provider_instance_id d) (ad_configurations db))
       (StSqlite ''FOREIGN KEY'')) (\<lambda>_.
     Inr (db\<lparr>nd_details := nd_details db @ [d]\<rparr>)))))"

definition issue_n4_tx ::
    "Invitation \<Rightarrow> N4InvitationContext \<Rightarrow> DateTime \<Rightarrow> AuditActor \<Rightarrow> n4_db \<Rightarrow> (unit \<times> n4_db) state_result" where
  "issue_n4_tx invitation context now actor db =
     and_then (ensure (configuration_open (in_network_id invitation) (nx_provider_instance_id context) now db \<and>
         imported (in_network_id invitation) (nx_provider_instance_id context) db \<and>
         join_capabilities (in_network_id invitation) (nx_provider_instance_id context) db)
       (StMutationAuthorizationDenied ''N4 requires exact enabled create/invalidate configuration'')) (\<lambda>_.
     and_then (insert_invitation
       \<lparr>iv_invitation_id = in_invitation_id invitation, iv_network_id = in_network_id invitation,
        iv_state = in_state invitation, iv_secret_verifier = in_secret_verifier invitation, iv_credential = None,
        iv_max_uses = 1, iv_used_count = 0, iv_record = invitation, iv_created_at = in_created_at invitation,
        iv_expires_at = in_expires_at invitation\<rparr> db) (\<lambda>db.
     and_then (insert_details
       \<lparr>de_invitation_id = in_invitation_id invitation, de_network_id = in_network_id invitation,
        de_provider_instance_id = nx_provider_instance_id context,
        de_principal = nx_provider_principal_id context, de_roles = in_roles invitation,
        de_constraints = in_join_constraints invitation, de_created_by = actor, de_revision = 1,
        de_consumed_at_ms = None, de_revoked_at_ms = None, de_expired_at_ms = None,
        de_last_redemption_at_ms = None, de_last_redemption_metadata = ''{}''\<rparr> db) (\<lambda>db.
     and_then (append_n4_audit (in_invitation_id invitation) None (InvitationCreated (in_invitation_id invitation))
       actor ''invitation_created'' ''success'' db) (\<lambda>db. Inr ((), db)))))"

definition issue_n4_invitation ::
    "argon_ops \<Rightarrow> store_env \<Rightarrow> Invitation \<Rightarrow> N4InvitationContext \<Rightarrow> DateTime \<Rightarrow> AuditActor \<Rightarrow> n4_db \<Rightarrow>
     unit state_result \<times> n4_db" where
  "issue_n4_invitation A E invitation context now actor db =
     (if \<not> is_ok (validate_n4_issuance A invitation)
      then (Inl (StConflict ''invalid N4 invitation input''), db)
      else case network_record E (in_network_id invitation) db of
          Inl e \<Rightarrow> (Inl e, db)
        | Inr network \<Rightarrow>
            if in_network_id invitation \<noteq> nw_network_id network \<or> now < in_created_at invitation \<or>
               in_expires_at invitation \<le> now
            then (Inl (StConflict ''invalid N4 invitation input''), db)
            else transactional (issue_n4_tx invitation context now actor) db)"

definition n4_invitation_candidate ::
    "store_env \<Rightarrow> InvitationId \<Rightarrow> n4_db \<Rightarrow> N4InvitationCandidate state_result" where
  "n4_invitation_candidate E i db =
     and_then (ok_or (n4_invitation i db) (StNotFound (id_display (se_uuid E) i))) (\<lambda>(r, d).
     and_then (column_u64 (de_revision d)) (\<lambda>revision.
     and_then (N4InvitationContext_new (de_provider_instance_id d) (de_principal d)) (\<lambda>context.
     Inr \<lparr>nc_invitation_id = i, nc_network_id = in_network_id (iv_record r), nc_revision = revision,
          nc_state = in_state (iv_record r), nc_expires_at = in_expires_at (iv_record r),
          nc_context = context, nc_verifier = in_secret_verifier (iv_record r)\<rparr>)))"

text \<open>The safe view of an invitation: neither its verifier nor the provider's reference.\<close>

record N4InvitationView =
  vi_invitation_id :: InvitationId
  vi_network_id :: NetworkId
  vi_state :: InvitationState
  vi_revision :: u64
  vi_roles :: Roles
  vi_join_constraints :: JoinConstraints
  vi_created_at :: DateTime
  vi_expires_at :: DateTime
  vi_max_uses :: u32
  vi_used_count :: u32
  vi_consumed_at :: "DateTime option"
  vi_revoked_at :: "DateTime option"
  vi_expired_at :: "DateTime option"
  vi_cleanup_state :: N4CleanupState
  vi_context :: N4InvitationContext

fun cleanup_state :: "invalidation_state \<Rightarrow> N4CleanupState" where
  "cleanup_state InvActive = CleanupActive"
| "cleanup_state InvPending = CleanupPending"
| "cleanup_state InvConfirmed = CleanupConfirmed"
| "cleanup_state InvRetryable = CleanupRetryable"
| "cleanup_state InvAmbiguous = CleanupAmbiguous"
| "cleanup_state InvBlocked = CleanupBlocked"

definition cleanup_of :: "InvitationId \<Rightarrow> n4_db \<Rightarrow> N4CleanupState" where
  "cleanup_of i db =
     (case dispatch_for i db of
        None \<Rightarrow> CleanupNone
      | Some x \<Rightarrow>
          (case find (\<lambda>m. cm_join_session_id m = dp_join_session_id x) (nd_metadata db) of
             None \<Rightarrow> CleanupNone
           | Some m \<Rightarrow> cleanup_state (cm_invalidation_state m)))"

definition parse_time :: "int option \<Rightarrow> DateTime option state_result" where
  "parse_time m =
     (case m of None \<Rightarrow> Inr None
      | Some ms \<Rightarrow> and_then (ok_or (from_timestamp_millis ms)
          (StConflict ''invalid persisted N4 timestamp'')) (\<lambda>t. Inr (Some t)))"

definition column_u32 :: "int \<Rightarrow> u32 state_result" where
  "column_u32 n = (if 0 \<le> n \<and> n < 2 ^ 32 then Inr (word_of_int n)
                   else Inl (StSqlite ''IntegralValueOutOfRange''))"

definition n4_view_row :: "store_env \<Rightarrow> n4_db \<Rightarrow> InvitationId \<Rightarrow> N4InvitationView state_result" where
  "n4_view_row E db i =
     and_then (ok_or (n4_invitation i db) (StNotFound (id_display (se_uuid E) i))) (\<lambda>(r, d).
     and_then (column_u32 (iv_used_count r)) (\<lambda>used_count.
     and_then (column_u64 (de_revision d)) (\<lambda>revision.
     let invitation = iv_record r in
     and_then (parse_time (de_consumed_at_ms d)) (\<lambda>consumed_at.
     and_then (parse_time (de_revoked_at_ms d)) (\<lambda>revoked_at.
     and_then (parse_time (de_expired_at_ms d)) (\<lambda>expired_at.
     and_then (N4InvitationContext_new (de_provider_instance_id d) (de_principal d)) (\<lambda>context.
     Inr \<lparr>vi_invitation_id = i, vi_network_id = in_network_id invitation,
          vi_state = in_state invitation, vi_revision = revision, vi_roles = in_roles invitation,
          vi_join_constraints = in_join_constraints invitation,
          vi_created_at = in_created_at invitation, vi_expires_at = in_expires_at invitation,
          vi_max_uses = in_max_uses invitation, vi_used_count = used_count,
          vi_consumed_at = consumed_at, vi_revoked_at = revoked_at, vi_expired_at = expired_at,
          vi_cleanup_state = cleanup_of i db, vi_context = context\<rparr>)))))))"

definition n4_invitation_view :: "store_env \<Rightarrow> InvitationId \<Rightarrow> n4_db \<Rightarrow> N4InvitationView state_result" where
  "n4_invitation_view E i db = n4_view_row E db i"

fun collect_results :: "('e + 'a) list \<Rightarrow> 'e + 'a list" where
  "collect_results [] = Inr []"
| "collect_results (r # rs) = and_then r (\<lambda>x. and_then (collect_results rs) (\<lambda>xs. Inr (x # xs)))"

text \<open>The text of an identifier orders as its 128 bits do.\<close>

definition list_n4_invitations ::
    "store_env \<Rightarrow> NetworkId \<Rightarrow> n4_db \<Rightarrow> N4InvitationView list state_result" where
  "list_n4_invitations E n db =
     (let joined = concat (map (\<lambda>d. if de_network_id d = n
            then case invitation_named (de_invitation_id d) db of
                None \<Rightarrow> [] | Some r \<Rightarrow> [(iv_created_at r, de_invitation_id d)]
            else []) (nd_details db));
          ids = map snd (sort_key fst (sort_key (\<lambda>x. uint (id_uuid (snd x))) joined))
      in collect_results (map (n4_view_row E db) ids))"

text \<open>
  The query compares RFC 3339 texts in UTC, which order as their instants do in the years of four
  digits: a shorter fraction ends in a plus sign, which sorts before a point and the digits.
\<close>

definition expired_n4_invitation_ids :: "DateTime \<Rightarrow> n4_db \<Rightarrow> InvitationId list" where
  "expired_n4_invitation_ids now db =
     sort_key (\<lambda>i. uint (id_uuid i))
       (map iv_invitation_id (filter (\<lambda>r. details_of (iv_invitation_id r) db \<noteq> None \<and>
          iv_expires_at r \<le> now \<and> iv_state r \<notin> {ISExpired, ISRevoked}) (nd_invitations db)))"

section \<open>Reserving the redemption\<close>

definition hint_refused :: "string option \<Rightarrow> string option \<Rightarrow> bool" where
  "hint_refused expected presented \<longleftrightarrow> expected \<noteq> None \<and> presented \<noteq> expected"

definition insert_session :: "session_row \<Rightarrow> n4_db \<Rightarrow> n4_db state_result" where
  "insert_session r db =
     (if list_ex (\<lambda>q. sr_join_session_id q = sr_join_session_id r) (nd_sessions db)
      then Inl (StSqlite ''UNIQUE'')
      else Inr (db\<lparr>nd_sessions := nd_sessions db @ [r]\<rparr>))"

definition insert_dispatch :: "dispatch_row \<Rightarrow> n4_db \<Rightarrow> n4_db state_result" where
  "insert_dispatch r db =
     and_then (ensure (list_ex (\<lambda>s. sr_join_session_id s = dp_join_session_id r \<and>
         sr_invitation_id s = dp_invitation_id r \<and> sr_network_id s = dp_network_id r) (nd_sessions db) \<and>
         list_ex (\<lambda>d. de_invitation_id d = dp_invitation_id r \<and> de_network_id d = dp_network_id r \<and>
           de_provider_instance_id d = dp_provider_instance_id r \<and> de_principal d = dp_principal r)
           (nd_details db))
       (StSqlite ''N4 dispatch must match session, invitation, network, and provider'')) (\<lambda>_.
     and_then (ensure (dispatch_check r) (StSqlite ''CHECK'')) (\<lambda>_.
     and_then (ensure (list_all (\<lambda>q. dp_join_session_id q \<noteq> dp_join_session_id r \<and>
         dp_invitation_id q \<noteq> dp_invitation_id r \<and>
         dp_create_request_id q \<noteq> dp_create_request_id r) (nd_dispatches db)) (StSqlite ''UNIQUE'')) (\<lambda>_.
     Inr (db\<lparr>nd_dispatches := nd_dispatches db @ [r]\<rparr>))))"

definition reserve_n4_tx ::
    "store_env \<Rightarrow> string \<Rightarrow> InvitationId \<Rightarrow> u64 \<Rightarrow> JoinSessionId \<Rightarrow> DateTime \<Rightarrow> N4PresentedMetadata \<Rightarrow>
     AuditActor \<Rightarrow> n4_db \<Rightarrow> (N4RedemptionReservation \<times> n4_db) state_result" where
  "reserve_n4_tx E create_request_id i expected_revision s now presented actor db =
     and_then (ok_or (n4_invitation i db) (StNotFound (id_display (se_uuid E) i))) (\<lambda>(r, d).
     and_then (column_u64 (de_revision d)) (\<lambda>revision.
     let invitation = iv_record r in
     and_then (N4InvitationContext_new (de_provider_instance_id d) (de_principal d)) (\<lambda>context.
     and_then (ensure (\<not> (revision \<noteq> expected_revision \<or> in_state invitation \<noteq> ISIssued \<or>
         in_used_count invitation \<noteq> 0 \<or> in_max_uses invitation \<noteq> 1 \<or> in_expires_at invitation \<le> now \<or>
         hint_refused (jc_expected_platform (in_join_constraints invitation)) (px_platform presented) \<or>
         hint_refused (jc_expected_hostname_hint (in_join_constraints invitation))
           (px_hostname_hint presented)))
       (StConflict ''N4 invitation is not reservable'')) (\<lambda>_.
     and_then (ensure (configuration_open (in_network_id invitation) (de_provider_instance_id d) now db \<and>
         join_capabilities (in_network_id invitation) (de_provider_instance_id d) db)
       (StMutationAuthorizationDenied ''N4 provider configuration unavailable'')) (\<lambda>_.
     let invitation = invitation\<lparr>in_state := ISRedeeming, in_used_count := 1\<rparr> in
     and_then (ensure (iv_state r = ISIssued \<and> iv_used_count r = 0)
       (StConflict ''N4 reservation lost'')) (\<lambda>_.
     let db = set_invitation i (\<lambda>q. q\<lparr>iv_state := ISRedeeming, iv_used_count := 1,
       iv_record := invitation\<rparr>) db in
     and_then (domain_conflict (JoinSession_new_n4 s i (in_network_id invitation) now
       (in_expires_at invitation))) (\<lambda>session.
     and_then (advance_session session JSInvitationValidated now) (\<lambda>session.
     and_then (insert_session
       \<lparr>sr_join_session_id = s, sr_invitation_id = i, sr_network_id = in_network_id invitation,
        sr_state = js_state session, sr_record = session, sr_created_at = now,
        sr_expires_at = in_expires_at invitation, sr_updated_at = now\<rparr> db) (\<lambda>db.
     and_then (insert_dispatch
       \<lparr>dp_join_session_id = s, dp_invitation_id = i, dp_network_id = in_network_id invitation,
        dp_provider_instance_id = nx_provider_instance_id context,
        dp_principal = nx_provider_principal_id context, dp_create_request_id = create_request_id,
        dp_state = DispatchReserved, dp_authorization_generation = None,
        dp_configuration_generation = None, dp_configuration_fingerprint = None,
        dp_dispatched_at_ms = None, dp_resolved_at_ms = None, dp_credential_id = None\<rparr> db) (\<lambda>db.
     and_then (n4_digest_json E (px_correlation presented)) (\<lambda>digest.
     and_then (if uint expected_revision < 2 ^ 63 then Inr (uint expected_revision)
       else Inl (StConflict ''revision overflow'')) (\<lambda>expected.
     and_then (update_details (\<lambda>q. de_invitation_id q = i \<and> de_revision q = expected)
       (\<lambda>q. q\<lparr>de_revision := de_revision q + 1, de_last_redemption_at_ms := Some (timestamp_millis now),
         de_last_redemption_metadata := digest\<rparr>) db) (\<lambda>db.
     and_then (append_n4_audit i (Some s) (RedemptionOf s) actor ''invitation_redemption_started''
       ''success'' db) (\<lambda>db.
     and_then (append_n4_audit i (Some s) (RedemptionOf s) actor ''join_session_created''
       ''success'' db) (\<lambda>db.
     Inr (\<lparr>re_join_session_id = s, re_invitation_id = i, re_network_id = in_network_id invitation,
           re_expires_at = in_expires_at invitation, re_context = context\<rparr>, db))))))))))))))))"

definition reserve_n4_redemption ::
    "store_env \<Rightarrow> string \<Rightarrow> InvitationId \<Rightarrow> u64 \<Rightarrow> JoinSessionId \<Rightarrow> DateTime \<Rightarrow> N4PresentedMetadata \<Rightarrow>
     AuditActor \<Rightarrow> n4_db \<Rightarrow> N4RedemptionReservation state_result \<times> n4_db" where
  "reserve_n4_redemption E create_request_id i expected_revision s now presented actor =
     transactional (reserve_n4_tx E create_request_id i expected_revision s now presented actor)"

section \<open>The dispatch fence\<close>

definition bind_generation :: "u64 \<Rightarrow> int state_result" where
  "bind_generation g = (if uint g < 2 ^ 63 then Inr (uint g) else Inl (StConflict ''generation overflow''))"

text \<open>What both entries do once they hold the current generations and fingerprint.\<close>

definition start_dispatch ::
    "JoinSessionId \<Rightarrow> JoinSession \<Rightarrow> u64 \<Rightarrow> u64 \<Rightarrow> string \<Rightarrow> DateTime \<Rightarrow> n4_db \<Rightarrow> n4_db state_result" where
  "start_dispatch s session authorization configuration fingerprint now db =
     and_then (ensure (JoinSession_is_n4 session \<and> js_state session = JSInvitationValidated \<and>
         now < js_expires_at session) (StConflict ''N4 session not dispatchable'')) (\<lambda>_.
     and_then (advance_session session JSProviderCredentialIssuing now) (\<lambda>session.
     let db = set_session session now db in
     and_then (bind_generation authorization) (\<lambda>a.
     and_then (bind_generation configuration) (\<lambda>c.
     update_dispatches (\<lambda>r. dp_join_session_id r = s \<and> dp_state r = DispatchReserved)
       (\<lambda>r. r\<lparr>dp_state := DispatchStarted, dp_authorization_generation := Some a,
         dp_configuration_generation := Some c, dp_configuration_fingerprint := Some fingerprint,
         dp_dispatched_at_ms := Some (timestamp_millis now)\<rparr>) db))))"

definition dispatch_answer ::
    "JoinSessionId \<Rightarrow> dispatch_row \<Rightarrow> u64 \<Rightarrow> u64 \<Rightarrow> string \<Rightarrow> N4CredentialDispatch state_result" where
  "dispatch_answer s d authorization configuration fingerprint =
     and_then (N4InvitationContext_new (dp_provider_instance_id d) (dp_principal d)) (\<lambda>context.
     and_then (state_generation authorization) (\<lambda>a.
     and_then (state_generation configuration) (\<lambda>c.
     Inr \<lparr>cd_join_session_id = s, cd_invitation_id = dp_invitation_id d,
          cd_network_id = dp_network_id d, cd_context = context, cd_authorization_generation = a,
          cd_configuration_generation = c, cd_configuration_fingerprint = fingerprint\<rparr>)))"

definition begin_n4_tx ::
    "store_env \<Rightarrow> JoinSessionId \<Rightarrow> DateTime \<Rightarrow> n4_db \<Rightarrow> (N4CredentialDispatch \<times> n4_db) state_result" where
  "begin_n4_tx E s now db =
     and_then (ok_or (n4_dispatch s db) (StNotFound (id_display (se_uuid E) s))) (\<lambda>(r, d).
     and_then (ensure (dp_state d = DispatchReserved) (StConflict ''N4 dispatch already fenced'')) (\<lambda>_.
     and_then (ok_or (find (\<lambda>c. mr_network_id c = dp_network_id d \<and>
         mr_provider_instance_id c = dp_provider_instance_id d \<and> mr_enabled c = 1 \<and> mr_revoked c = 0 \<and>
         mr_not_before_ms c \<le> timestamp_millis now \<and> timestamp_millis now < mr_expires_at_ms c \<and>
         has_capability (dp_network_id d) (dp_provider_instance_id d) CreateJoinCredential db)
         (ad_configurations db))
       (StMutationAuthorizationDenied ''N4 create authority unavailable'')) (\<lambda>row.
     and_then (column_u64 (mr_authorization_generation row)) (\<lambda>authorization.
     and_then (column_u64 (mr_configuration_generation row)) (\<lambda>configuration.
     and_then (start_dispatch s (sr_record r) authorization configuration
       (mr_configuration_fingerprint row) now db) (\<lambda>db.
     and_then (dispatch_answer s d authorization configuration (mr_configuration_fingerprint row))
       (\<lambda>dispatch. Inr (dispatch, db))))))))"

definition begin_n4_credential_dispatch ::
    "store_env \<Rightarrow> JoinSessionId \<Rightarrow> DateTime \<Rightarrow> n4_db \<Rightarrow> N4CredentialDispatch state_result \<times> n4_db" where
  "begin_n4_credential_dispatch E s now = transactional (begin_n4_tx E s now)"

definition begin_authorized_tx ::
    "store_env \<Rightarrow> JoinSessionId \<Rightarrow> DateTime \<Rightarrow> n4_db \<Rightarrow>
     ((N4CredentialDispatch \<times> MutationAuthorization) \<times> n4_db) state_result" where
  "begin_authorized_tx E s now db =
     and_then (ok_or (n4_dispatch s db) (StNotFound (id_display (se_uuid E) s))) (\<lambda>(r, d).
     and_then (ensure (dp_state d = DispatchReserved) (StConflict ''N4 dispatch already fenced'')) (\<lambda>_.
     and_then (ok_or (authority_row (dp_network_id d) (dp_provider_instance_id d) CreateJoinCredential db)
       (StMutationAuthorizationDenied ''N4 create authority unavailable'')) (\<lambda>row.
     and_then (column_u64 (mr_authorization_generation row)) (\<lambda>authorization.
     and_then (column_u64 (mr_configuration_generation row)) (\<lambda>configuration.
     and_then (ok_or (from_timestamp_millis (mr_not_before_ms row))
       (StMutationAuthorizationDenied ''invalid persisted not-before'')) (\<lambda>not_before.
     and_then (ok_or (from_timestamp_millis (mr_expires_at_ms row))
       (StMutationAuthorizationDenied ''invalid persisted expiry'')) (\<lambda>authority_expires_at.
     and_then (ensure (\<not> (mr_enabled row \<noteq> 1 \<or> mr_revoked row \<noteq> 0 \<or> now < not_before \<or>
         authority_expires_at \<le> now \<or> \<not> valid_sha256_fingerprint (mr_configuration_fingerprint row) \<or>
         mr_adapter row \<noteq> ''headscale'' \<or> mr_expected_version row \<noteq> ''v0.29.3''))
       (StMutationAuthorizationDenied ''N4 create authority unavailable'')) (\<lambda>_.
     and_then (start_dispatch s (sr_record r) authorization configuration
       (mr_configuration_fingerprint row) now db) (\<lambda>db.
     and_then (state_generation authorization) (\<lambda>ag.
     and_then (state_generation configuration) (\<lambda>cg.
     and_then (dispatch_answer s d authorization configuration (mr_configuration_fingerprint row))
       (\<lambda>dispatch. Inr ((dispatch,
          \<lparr>ma_network_id = dp_network_id d, ma_provider_instance_id = dp_provider_instance_id d,
           ma_authorization_generation = ag, ma_configuration_generation = cg,
           ma_configuration_fingerprint = mr_configuration_fingerprint row,
           ma_adapter = mr_adapter row, ma_expected_version = mr_expected_version row,
           ma_not_before = not_before, ma_expires_at = authority_expires_at,
           ma_capability = CreateJoinCredential, ma_policy_mode = mr_policy_mode row\<rparr>), db)))))))))))))"

definition begin_n4_credential_dispatch_with_authorization ::
    "store_env \<Rightarrow> JoinSessionId \<Rightarrow> DateTime \<Rightarrow> n4_db \<Rightarrow>
     (N4CredentialDispatch \<times> MutationAuthorization) state_result \<times> n4_db" where
  "begin_n4_credential_dispatch_with_authorization E s now = transactional (begin_authorized_tx E s now)"

section \<open>Confirming and failing a dispatch\<close>

definition n4_approved_tag :: "string \<Rightarrow> bool" where
  "n4_approved_tag t \<longleftrightarrow>
     t \<in> {''tag:nodescale-node'', ''tag:nodescale-worker'', ''tag:nodescale-controller'',
          ''tag:nodescale-profile-host'', ''tag:nodescale-observer'', ''tag:nodescale-admin''}"

definition insert_reference :: "reference_row \<Rightarrow> n4_db \<Rightarrow> n4_db state_result" where
  "insert_reference r db =
     (if \<not> (length (credential_reference_str (cr_provider_reference r)) \<in> {1..255} \<and>
          0 < cr_authorization_generation r \<and> 0 < cr_configuration_generation r \<and>
          hash_column (cr_configuration_fingerprint r) \<and> 0 \<le> cr_confirmed_at_ms r \<and>
          cr_confirmed_at_ms r < cr_expires_at_ms r \<and> cr_max_uses r = 1)
      then Inl (StConflict ''CHECK'')
      else if list_ex (\<lambda>q. cr_credential_id q = cr_credential_id r \<or>
          (cr_network_id q = cr_network_id r \<and>
           cr_provider_instance_id q = cr_provider_instance_id r \<and>
           cr_provider_reference q = cr_provider_reference r)) (nd_references db)
      then Inl (StConflict ''UNIQUE'')
      else if \<not> list_ex (\<lambda>c. mr_network_id c = cr_network_id r \<and>
          mr_provider_instance_id c = cr_provider_instance_id r) (ad_configurations db)
      then Inl (StConflict ''FOREIGN KEY'')
      else Inr (db\<lparr>nd_references := nd_references db @ [r]\<rparr>))"

definition insert_metadata :: "metadata_row \<Rightarrow> n4_db \<Rightarrow> n4_db state_result" where
  "insert_metadata m db =
     and_then (ensure (metadata_linked db m)
       (StSqlite ''N4 credential metadata must match confirmed dispatch provenance'')) (\<lambda>_.
     and_then (ensure (metadata_check m) (StSqlite ''CHECK'')) (\<lambda>_.
     and_then (ensure (list_all (\<lambda>q. cm_credential_id q \<noteq> cm_credential_id m \<and>
         cm_join_session_id q \<noteq> cm_join_session_id m) (nd_metadata db)) (StSqlite ''UNIQUE'')) (\<lambda>_.
     Inr (db\<lparr>nd_metadata := nd_metadata db @ [m]\<rparr>))))"

text \<open>
  The \<^verbatim>\<open>u64\<close> and text columns of the fence are read without an \<^verbatim>\<open>Option\<close>, so a \<^verbatim>\<open>NULL\<close> is a
  conversion error.
\<close>

definition not_null :: "'a option \<Rightarrow> 'a state_result" where
  "not_null x = ok_or x (StSqlite ''InvalidColumnType'')"

definition confirm_n4_tx ::
    "store_env \<Rightarrow> JoinSessionId \<Rightarrow> N4CredentialConfirmation \<Rightarrow> AuditActor \<Rightarrow> n4_db \<Rightarrow>
     (unit \<times> n4_db) state_result" where
  "confirm_n4_tx E s confirmation actor db =
     and_then (ok_or (case n4_dispatch s db of None \<Rightarrow> None
         | Some (r, d) \<Rightarrow> (case invitation_named (dp_invitation_id d) db of None \<Rightarrow> None
             | Some v \<Rightarrow> Some (r, d, v))) (StNotFound (id_display (se_uuid E) s))) (\<lambda>(r, d, v).
     and_then (and_then (not_null (dp_authorization_generation d)) column_u64) (\<lambda>auth.
     and_then (and_then (not_null (dp_configuration_generation d)) column_u64) (\<lambda>config.
     and_then (not_null (dp_configuration_fingerprint d)) (\<lambda>fingerprint.
     let invitation = iv_record v in
     and_then (ensure (\<not> (dp_state d \<noteq> DispatchStarted \<or>
         dp_principal d \<noteq> co_provider_principal_id confirmation \<or>
         in_state invitation \<noteq> ISRedeeming \<or> in_used_count invitation \<noteq> 1 \<or>
         in_max_uses invitation \<noteq> 1 \<or> in_expires_at invitation \<le> co_confirmed_at confirmation \<or>
         in_expires_at invitation < co_expires_at confirmation \<or>
         co_expires_at confirmation \<le> co_confirmed_at confirmation))
       (StConflict ''N4 confirmation is not valid for the durable fence'')) (\<lambda>_.
     and_then (bind_generation auth) (\<lambda>auth.
     and_then (bind_generation config) (\<lambda>config.
     and_then (insert_reference
       \<lparr>cr_credential_id = co_credential_id confirmation, cr_network_id = dp_network_id d,
        cr_provider_instance_id = dp_provider_instance_id d,
        cr_provider_reference = co_provider_reference confirmation,
        cr_authorization_generation = auth, cr_configuration_generation = config,
        cr_configuration_fingerprint = fingerprint,
        cr_confirmed_at_ms = timestamp_millis (co_confirmed_at confirmation),
        cr_expires_at_ms = timestamp_millis (co_expires_at confirmation), cr_max_uses = 1\<rparr> db) (\<lambda>db.
     and_then (update_dispatches (\<lambda>q. dp_join_session_id q = s \<and> dp_state q = DispatchStarted)
       (\<lambda>q. q\<lparr>dp_state := DispatchConfirmed, dp_credential_id := Some (co_credential_id confirmation),
         dp_resolved_at_ms := Some (timestamp_millis (co_confirmed_at confirmation))\<rparr>) db) (\<lambda>db.
     and_then (n4_digest_json E (co_safe_correlation confirmation)) (\<lambda>digest.
     and_then (insert_metadata
       \<lparr>cm_credential_id = co_credential_id confirmation, cm_join_session_id = s,
        cm_network_id = dp_network_id d, cm_provider_instance_id = dp_provider_instance_id d,
        cm_principal = co_provider_principal_id confirmation, cm_single_use = 1, cm_reusable = 0,
        cm_ephemeral = of_bool (co_ephemeral confirmation),
        cm_approved_tags = co_approved_tags confirmation,
        cm_expires_at_ms = timestamp_millis (co_expires_at confirmation),
        cm_confirmed_at_ms = timestamp_millis (co_confirmed_at confirmation),
        cm_invalidation_state = InvActive, cm_invalidated_at_ms = None,
        cm_safe_correlation = digest\<rparr> db) (\<lambda>db.
     let invitation = invitation\<lparr>in_state := ISConsumed,
           in_provider_credential_reference := Some (co_credential_id confirmation)\<rparr>;
         db = set_invitation (dp_invitation_id d) (\<lambda>q. q\<lparr>iv_state := ISConsumed,
           iv_credential := Some (co_credential_id confirmation), iv_record := invitation\<rparr>) db in
     and_then (update_details (\<lambda>q. de_invitation_id q = dp_invitation_id d)
       (\<lambda>q. q\<lparr>de_consumed_at_ms := Some (timestamp_millis (co_confirmed_at confirmation)),
         de_revision := de_revision q + 1\<rparr>) db) (\<lambda>db.
     and_then (advance_session (sr_record r) JSProviderCredentialIssued (co_confirmed_at confirmation))
       (\<lambda>session.
     let db = set_session session (co_confirmed_at confirmation) db in
     and_then (append_n4_audit (dp_invitation_id d) (Some s) (CredentialConfirm s) actor
       ''invitation_redeemed'' ''success'' db) (\<lambda>db.
     and_then (append_n4_audit (dp_invitation_id d) (Some s) (CredentialConfirm s) actor
       ''provider_join_credential_issued'' ''success'' db) (\<lambda>db. Inr ((), db))))))))))))))))"

definition confirm_n4_credential ::
    "store_env \<Rightarrow> JoinSessionId \<Rightarrow> N4CredentialConfirmation \<Rightarrow> AuditActor \<Rightarrow> n4_db \<Rightarrow>
     unit state_result \<times> n4_db" where
  "confirm_n4_credential E s confirmation actor db =
     (if \<not> safe_identifier (co_provider_principal_id confirmation) \<or> co_ephemeral confirmation \<or>
         co_approved_tags confirmation = [] \<or> 4 < length (co_approved_tags confirmation) \<or>
         list_ex (\<lambda>t. \<not> n4_approved_tag t) (co_approved_tags confirmation)
      then (Inl (StConflict ''invalid N4 credential metadata''), db)
      else transactional (confirm_n4_tx E s confirmation actor) db)"

fun failure_expects :: "N4DispatchFailure \<Rightarrow> dispatch_state" where
  "failure_expects PreDispatch = DispatchReserved"
| "failure_expects _ = DispatchStarted"

fun failure_session :: "N4DispatchFailure \<Rightarrow> JoinSessionState" where
  "failure_session AmbiguousDispatch = JSProviderCredentialAmbiguous"
| "failure_session _ = JSFailed"

fun failure_dispatch :: "N4DispatchFailure \<Rightarrow> dispatch_state" where
  "failure_dispatch PreDispatch = FailedPreDispatch"
| "failure_dispatch DefiniteNoApply = FailedNoApply"
| "failure_dispatch AmbiguousDispatch = DispatchAmbiguous"

definition fail_n4_tx ::
    "store_env \<Rightarrow> JoinSessionId \<Rightarrow> N4DispatchFailure \<Rightarrow> DateTime \<Rightarrow> AuditActor \<Rightarrow> n4_db \<Rightarrow>
     (unit \<times> n4_db) state_result" where
  "fail_n4_tx E s failure now actor db =
     and_then (ok_or (case n4_dispatch s db of None \<Rightarrow> None
         | Some (r, d) \<Rightarrow> (case invitation_named (dp_invitation_id d) db of None \<Rightarrow> None
             | Some v \<Rightarrow> Some (r, d, v))) (StNotFound (id_display (se_uuid E) s))) (\<lambda>(r, d, v).
     and_then (ensure (dp_state d = failure_expects failure)
       (StConflict ''N4 failure conflicts with dispatch fence'')) (\<lambda>_.
     and_then (advance_session (sr_record r) (failure_session failure) now) (\<lambda>session.
     let db = store_invitation ((iv_record v)\<lparr>in_state := ISFailed\<rparr>) (dp_invitation_id d) db;
         db = set_session session now db in
     and_then (update_dispatches (\<lambda>q. dp_join_session_id q = s)
       (\<lambda>q. q\<lparr>dp_state := failure_dispatch failure,
         dp_resolved_at_ms := Some (timestamp_millis now)\<rparr>) db) (\<lambda>db.
     and_then (append_n4_audit (dp_invitation_id d) (Some s) (CredentialFailure s) actor
       ''invitation_redemption_failed'' ''failed'' db) (\<lambda>db. Inr ((), db))))))"

definition fail_n4_credential_dispatch ::
    "store_env \<Rightarrow> JoinSessionId \<Rightarrow> N4DispatchFailure \<Rightarrow> DateTime \<Rightarrow> AuditActor \<Rightarrow> n4_db \<Rightarrow>
     unit state_result \<times> n4_db" where
  "fail_n4_credential_dispatch E s failure now actor = transactional (fail_n4_tx E s failure now actor)"

section \<open>Cleanup\<close>

fun pending_state :: "N4CleanupIntent \<Rightarrow> InvitationState" where
  "pending_state IntentRevoked = ISRevoking"
| "pending_state IntentExpired = ISExpiring"

fun terminal_state :: "N4CleanupIntent \<Rightarrow> InvitationState" where
  "terminal_state IntentRevoked = ISRevoked"
| "terminal_state IntentExpired = ISExpired"

fun terminal_session :: "N4CleanupIntent \<Rightarrow> JoinSessionState" where
  "terminal_session IntentRevoked = JSRevoked"
| "terminal_session IntentExpired = JSExpired"

fun terminal_dispatch :: "N4CleanupIntent \<Rightarrow> dispatch_state" where
  "terminal_dispatch IntentRevoked = DispatchRevoked"
| "terminal_dispatch IntentExpired = DispatchExpired"

fun closed_event :: "N4CleanupIntent \<Rightarrow> string" where
  "closed_event IntentRevoked = ''invitation_revoked''"
| "closed_event IntentExpired = ''invitation_expired''"

definition close_details ::
    "N4CleanupIntent \<Rightarrow> InvitationId \<Rightarrow> DateTime \<Rightarrow> n4_db \<Rightarrow> n4_db state_result" where
  "close_details intent i now db =
     update_details (\<lambda>q. de_invitation_id q = i)
       (\<lambda>q. case intent of
          IntentRevoked \<Rightarrow> q\<lparr>de_revoked_at_ms := Some (timestamp_millis now), de_revision := de_revision q + 1\<rparr>
        | IntentExpired \<Rightarrow> q\<lparr>de_expired_at_ms := Some (timestamp_millis now), de_revision := de_revision q + 1\<rparr>) db"

text \<open>Advance the stored session of a dispatch.\<close>

definition advance_stored ::
    "JoinSessionId \<Rightarrow> JoinSessionState \<Rightarrow> DateTime \<Rightarrow> n4_db \<Rightarrow> n4_db state_result" where
  "advance_stored s nxt now db =
     and_then (session_record s db) (\<lambda>session.
     and_then (advance_session session nxt now) (\<lambda>session. Inr (set_session session now db)))"

definition cleanup_target ::
    "InvitationId \<Rightarrow> N4CleanupIntent \<Rightarrow> invitation_row \<Rightarrow> detail_row \<Rightarrow> dispatch_row option \<Rightarrow> n4_db \<Rightarrow>
     N4CleanupTarget" where
  "cleanup_target i intent r d x db =
     (let credential = Option.bind x dp_credential_id;
          reference = map_option cr_provider_reference (Option.bind credential (\<lambda>c. reference_of c db))
      in \<lparr>ct_invitation_id = i, ct_join_session_id = map_option dp_join_session_id x,
          ct_credential_id = credential, ct_provider_reference = reference,
          ct_network_id = in_network_id (iv_record r),
          ct_provider_instance_id = de_provider_instance_id d, ct_intent = intent,
          ct_cleanup_uncertain = (reference = None \<and> x \<noteq> None)\<rparr>)"

text \<open>The local settlement: nothing is left for the provider to undo.\<close>

definition settle_locally ::
    "N4CleanupIntent \<Rightarrow> InvitationId \<Rightarrow> Invitation \<Rightarrow> dispatch_row option \<Rightarrow> DateTime \<Rightarrow> AuditActor \<Rightarrow> n4_db \<Rightarrow>
     n4_db state_result" where
  "settle_locally intent i invitation x now actor db =
     and_then
       (if intent = IntentExpired \<and> in_state invitation = ISRevoking
        then Inr (invitation\<lparr>in_state := ISExpired\<rparr>)
        else
          and_then (if in_state invitation \<noteq> pending_state intent
            then move_invitation invitation (pending_state intent) else Inr invitation)
          (\<lambda>invitation. move_invitation invitation (terminal_state intent))) (\<lambda>invitation.
     let db = store_invitation invitation i db in
     and_then
       (case x of None \<Rightarrow> Inr db
        | Some d \<Rightarrow>
            and_then (session_record (dp_join_session_id d) db) (\<lambda>session.
            if js_state session \<noteq> terminal_session intent \<and> js_state session \<noteq> JSFailed
            then and_then (advance_session session (terminal_session intent) now)
              (\<lambda>session. Inr (set_session session now db))
            else Inr db)) (\<lambda>db.
     and_then
       (case x of None \<Rightarrow> Inr db
        | Some _ \<Rightarrow>
            update_dispatches (\<lambda>q. dp_invitation_id q = i \<and>
                dp_state q \<in> {DispatchReserved, FailedPreDispatch, FailedNoApply, RevocationPending})
              (\<lambda>q. q\<lparr>dp_state := terminal_dispatch intent,
                dp_resolved_at_ms := Some (coalesce (dp_resolved_at_ms q) (timestamp_millis now))\<rparr>) db)
       (\<lambda>db.
     and_then (close_details intent i now db) (\<lambda>db.
     append_n4_audit i None (InvitationClosed i intent) actor (closed_event intent) ''success'' db))))"

definition prepare_cleanup_tx ::
    "store_env \<Rightarrow> InvitationId \<Rightarrow> DateTime \<Rightarrow> AuditActor \<Rightarrow> N4CleanupIntent \<Rightarrow> n4_db \<Rightarrow>
     (N4CleanupTarget \<times> n4_db) state_result" where
  "prepare_cleanup_tx E i now actor intent db =
     and_then (ok_or (n4_invitation i db) (StNotFound (id_display (se_uuid E) i))) (\<lambda>(r, d).
     let x = dispatch_for i db; invitation = iv_record r;
         due = in_expires_at invitation \<le> now;
         target = cleanup_target i intent r d x db;
         dispatch = map_option dp_state x in
     if intent = IntentExpired \<and> \<not> due
     then Inl (StConflict ''N4 invitation has not reached its expiry deadline'')
     else if in_state invitation \<in> {ISRevoked, ISExpired} \<or>
       (dispatch = Some RevocationPending \<and>
         \<not> (intent = IntentExpired \<and> ct_provider_reference target = None \<and> due))
     then Inr (target, db)
     else if ct_provider_reference target = None \<and>
       (dispatch = Some DispatchStarted \<or> dispatch = Some DispatchAmbiguous) \<and>
       \<not> (intent = IntentExpired \<and> due)
     then
       and_then (move_invitation invitation (pending_state intent)) (\<lambda>invitation.
       and_then (update_dispatches (\<lambda>q. dp_invitation_id q = i \<and>
           dp_state q \<in> {DispatchStarted, DispatchAmbiguous}) (\<lambda>q. q\<lparr>dp_state := RevocationPending\<rparr>)
         (store_invitation invitation i db)) (\<lambda>db.
       and_then (advance_stored (dp_join_session_id (the x)) JSProviderCredentialRevocationPending now db)
         (\<lambda>db. Inr (target, db))))
     else if ct_provider_reference target \<noteq> None \<and> dispatch = Some DispatchConfirmed
     then
       and_then (move_invitation invitation (pending_state intent)) (\<lambda>invitation.
       and_then (update_dispatches (\<lambda>q. dp_invitation_id q = i \<and> dp_state q = DispatchConfirmed)
           (\<lambda>q. q\<lparr>dp_state := RevocationPending\<rparr>) (store_invitation invitation i db)) (\<lambda>db.
       and_then (update_metadata (\<lambda>m. Some (cm_credential_id m) = ct_credential_id target)
           (\<lambda>m. m\<lparr>cm_invalidation_state := InvPending\<rparr>) db) (\<lambda>db.
       and_then (advance_stored (dp_join_session_id (the x)) JSProviderCredentialRevocationPending now db)
         (\<lambda>db. Inr (target, db)))))
     else
       and_then (settle_locally intent i invitation x now actor db) (\<lambda>db. Inr (target, db)))"

definition prepare_n4_revocation ::
    "store_env \<Rightarrow> InvitationId \<Rightarrow> DateTime \<Rightarrow> AuditActor \<Rightarrow> n4_db \<Rightarrow> N4CleanupTarget state_result \<times> n4_db" where
  "prepare_n4_revocation E i now actor = transactional (prepare_cleanup_tx E i now actor IntentRevoked)"

definition prepare_n4_expiry ::
    "store_env \<Rightarrow> InvitationId \<Rightarrow> DateTime \<Rightarrow> AuditActor \<Rightarrow> n4_db \<Rightarrow> N4CleanupTarget state_result \<times> n4_db" where
  "prepare_n4_expiry E i now actor = transactional (prepare_cleanup_tx E i now actor IntentExpired)"

section \<open>Settling the invalidation of a credential\<close>

definition settle_confirmed_tx ::
    "N4CleanupTarget \<Rightarrow> dispatch_row \<Rightarrow> ProviderCredentialId \<Rightarrow> Invitation \<Rightarrow> DateTime \<Rightarrow> AuditActor \<Rightarrow>
     n4_db \<Rightarrow> (unit \<times> n4_db) state_result" where
  "settle_confirmed_tx target x credential invitation now actor db =
     (let i = ct_invitation_id target; intent = ct_intent target;
          action = CredentialInvalidation credential intent;
          settling = (\<lambda>m. cm_credential_id m = credential \<and>
            cm_invalidation_state m \<in> {InvPending, InvRetryable, InvAmbiguous, InvBlocked}) in
      if dp_state x = DispatchRevoked \<or> dp_state x = DispatchExpired
      then if dp_state x = terminal_dispatch intent then Inr ((), db)
        else Inl (StConflict ''N4 terminal invalidation intent conflicts with durable dispatch'')
      else if dp_state x \<noteq> RevocationPending then Inl (StConflict ''N4 invalidation is not pending'')
      else
        and_then (update_metadata settling (\<lambda>m. m\<lparr>cm_invalidation_state := InvConfirmed,
          cm_invalidated_at_ms := Some (timestamp_millis now)\<rparr>) db) (\<lambda>db'.
        and_then (ensure (length (filter settling (nd_metadata db)) = 1)
          (StConflict ''N4 invalidation metadata did not settle exactly once'')) (\<lambda>_.
        let db = db' in
        and_then (update_dispatches (\<lambda>q. dp_invitation_id q = i \<and> dp_state q = RevocationPending)
          (\<lambda>q. q\<lparr>dp_state := terminal_dispatch intent,
            dp_resolved_at_ms := Some (coalesce (dp_resolved_at_ms q) (timestamp_millis now))\<rparr>) db) (\<lambda>db.
        and_then (move_invitation invitation (terminal_state intent)) (\<lambda>invitation.
        let db = store_invitation invitation i db in
        and_then (close_details intent i now db) (\<lambda>db.
        and_then (advance_stored (dp_join_session_id x) (terminal_session intent) now db) (\<lambda>db.
        and_then (append_n4_audit i (ct_join_session_id target) action actor
          ''provider_join_credential_invalidated'' ''success'' db) (\<lambda>db.
        and_then (append_n4_audit i (ct_join_session_id target) action actor
          (closed_event intent) ''success'' db) (\<lambda>db. Inr ((), db))))))))))"

fun unsettled_state :: "N4InvalidationOutcome \<Rightarrow> invalidation_state" where
  "unsettled_state InvalidationRetryable = InvRetryable"
| "unsettled_state InvalidationAmbiguous = InvAmbiguous"
| "unsettled_state _ = InvBlocked"

definition settle_invalidation_tx ::
    "N4CleanupTarget \<Rightarrow> N4InvalidationOutcome \<Rightarrow> DateTime \<Rightarrow> AuditActor \<Rightarrow> n4_db \<Rightarrow>
     (unit \<times> n4_db) state_result" where
  "settle_invalidation_tx target outcome now actor db =
     and_then (ok_or
       (Option.bind (dispatch_for (ct_invitation_id target) db) (\<lambda>x.
        Option.bind (dp_credential_id x) (\<lambda>c.
        Option.bind (reference_of c db) (\<lambda>r.
        map_option (\<lambda>v. (x, c, r, v)) (invitation_named (ct_invitation_id target) db)))))
       (StConflict ''N4 invalidation target has no exact durable credential'')) (\<lambda>(x, c, r, v).
     if ct_join_session_id target \<noteq> Some (dp_join_session_id x) \<or> ct_credential_id target \<noteq> Some c \<or>
        ct_provider_reference target \<noteq> Some (cr_provider_reference r) \<or>
        ct_network_id target \<noteq> dp_network_id x \<or>
        ct_provider_instance_id target \<noteq> dp_provider_instance_id x
     then Inl (StConflict ''N4 invalidation target does not exactly match durable provenance'')
     else if outcome = InvalidationConfirmed \<or> outcome = InvalidationSatisfied
     then settle_confirmed_tx target x c (iv_record v) now actor db
     else
       and_then (update_metadata (\<lambda>m. cm_credential_id m = c \<and>
           cm_invalidation_state m \<in> {InvPending, InvRetryable, InvAmbiguous, InvBlocked})
         (\<lambda>m. m\<lparr>cm_invalidation_state := unsettled_state outcome\<rparr>) db) (\<lambda>db. Inr ((), db)))"

definition settle_n4_credential_invalidation ::
    "N4CleanupTarget \<Rightarrow> N4InvalidationOutcome \<Rightarrow> DateTime \<Rightarrow> AuditActor \<Rightarrow> n4_db \<Rightarrow>
     unit state_result \<times> n4_db" where
  "settle_n4_credential_invalidation target outcome now actor =
     transactional (settle_invalidation_tx target outcome now actor)"

end
