(* ===== verification/N4_Lifecycle.thy ===== *)
theory N4_Lifecycle
  imports N4_Store
begin

text \<open>
  What the N4 invitation store guarantees over any sequence of calls: an invitation is reserved
  once, its provider call is started once, the evidence it leaves is append-only, and which
  invitations a cleanup can close.

  The locale \<open>n4_preorder\<close> is the contract of a relation between databases that every
  primitive write respects; inside it every transaction respects the relation too. The
  relations interpreted below are the growth of the dispatch table and of the evidence.
\<close>

section \<open>Relations that every write respects\<close>

text \<open>Replacing the mutation configuration touches configurations, capabilities and events only.\<close>

lemma insert_capabilities_only:
  "insert_capabilities n p cs db = Inr db' \<Longrightarrow> \<exists>caps. db' = db\<lparr>ad_capabilities := caps\<rparr>"
proof (induction cs arbitrary: db)
  case Nil
  then have "db' = db\<lparr>ad_capabilities := ad_capabilities db\<rparr>" by simp
  then show ?case by blast
next
  case (Cons c cs)
  from Cons.prems obtain d where "insert_capability n p c db = Inr d" "insert_capabilities n p cs d = Inr db'"
    by (auto simp: guard_simps)
  moreover from this(1) obtain caps where "d = db\<lparr>ad_capabilities := caps\<rparr>"
    by (auto simp: insert_capability_def guard_simps)
  ultimately show ?case using Cons.IH [of d] by auto
qed

lemma replace_configuration_only:
  assumes "replace_configuration_tx n ea ec r actor db = Inr (u, db')"
  shows "\<exists>cfgs caps es. db' = db\<lparr>ad_configurations := cfgs, ad_capabilities := caps,
    ad_events := ad_events db @ es\<rparr>"
proof -
  obtain a c d e where d: "(case current_configuration n db of
           Some old \<Rightarrow> update_configuration old (mutation_values n a c r)
             (db\<lparr>ad_capabilities := filter (\<lambda>r. mp_network_id r \<noteq> n) (ad_capabilities db)\<rparr>)
         | None \<Rightarrow> insert_configuration (mutation_values n a c r) db) = Inr d"
      and e: "insert_capabilities n (pm_provider_instance_id r) (pm_capabilities r) d = Inr e"
      and f: "append_audit (Some n) actor ''provider_mutation_configured'' ''success''
        (Some (pm_authorization_generation r)) e = Inr db'"
    using assms unfolding replace_configuration_tx_def Let_def by (simp add: guard_simps) blast
  obtain es where es: "db' = e\<lparr>ad_events := ad_events e @ es\<rparr>"
    using f by (auto simp: append_audit_def guard_simps)
  obtain caps where caps: "e = d\<lparr>ad_capabilities := caps\<rparr>" using insert_capabilities_only [OF e] by blast
  show ?thesis
  proof (cases "current_configuration n db")
    case None
    with d obtain cfgs where "d = db\<lparr>ad_configurations := cfgs\<rparr>" by (auto simp: guard_simps)
    with es caps show ?thesis by auto
  next
    case (Some old)
    with d obtain cfgs cs where "d = db\<lparr>ad_capabilities := cs, ad_configurations := cfgs\<rparr>"
      by (auto simp: guard_simps)
    with es caps show ?thesis by auto
  qed
qed

definition details_advance :: "(detail_row \<Rightarrow> detail_row) \<Rightarrow> bool" where
  "details_advance f \<longleftrightarrow> (\<forall>q. de_invitation_id (f q) = de_invitation_id q \<and>
     de_network_id (f q) = de_network_id q \<and> de_revision q < de_revision (f q))"

locale n4_preorder =
  fixes le :: "n4_db \<Rightarrow> n4_db \<Rightarrow> bool"
  assumes le_refl: "le db db"
    and le_trans: "le a b \<Longrightarrow> le b c \<Longrightarrow> le a c"
    and le_audit: "append_n4_audit i s action actor kind outcome db = Inr db' \<Longrightarrow> le db db'"
    and le_set_invitation: "le db (set_invitation i f db)"
    and le_set_session: "le db (set_session session now db)"
    and le_update_dispatches: "update_dispatches P g db = Inr db' \<Longrightarrow> le db db'"
    and le_update_metadata: "update_metadata R h db = Inr db' \<Longrightarrow> le db db'"
    and le_update_details: "details_advance k \<Longrightarrow> update_details Q k db = Inr db' \<Longrightarrow> le db db'"
    and le_insert_invitation: "insert_invitation r db = Inr db' \<Longrightarrow> le db db'"
    and le_insert_details: "insert_details d db = Inr db' \<Longrightarrow> le db db'"
    and le_insert_session: "insert_session t db = Inr db' \<Longrightarrow> le db db'"
    and le_insert_dispatch: "insert_dispatch x db = Inr db' \<Longrightarrow> le db db'"
    and le_insert_reference: "insert_reference cr db = Inr db' \<Longrightarrow> le db db'"
    and le_insert_metadata: "insert_metadata m db = Inr db' \<Longrightarrow> le db db'"
    and le_configure: "le db (db\<lparr>ad_configurations := cfgs, ad_capabilities := caps,
      ad_events := ad_events db @ es\<rparr>)"
begin

text \<open>Where a computation from a database above \<open>db0\<close> ends, the relation still holds.\<close>

definition ends :: "n4_db \<Rightarrow> n4_db state_result \<Rightarrow> bool" where
  "ends db0 r \<longleftrightarrow> (\<forall>db. r = Inr db \<longrightarrow> le db0 db)"

definition answers :: "n4_db \<Rightarrow> ('a \<times> n4_db) state_result \<Rightarrow> bool" where
  "answers db0 r \<longleftrightarrow> (\<forall>x db. r = Inr (x, db) \<longrightarrow> le db0 db)"

lemma ends_bind: "ends db0 r \<Longrightarrow> (\<And>db. le db0 db \<Longrightarrow> ends db0 (f db)) \<Longrightarrow> ends db0 (and_then r f)"
  by (auto simp: ends_def guard_simps)

lemma ends_pure: "(\<And>x. r = Inr x \<Longrightarrow> ends db0 (f x)) \<Longrightarrow> ends db0 (and_then r f)"
  by (auto simp: ends_def guard_simps)

lemma answers_bind: "ends db0 r \<Longrightarrow> (\<And>db. le db0 db \<Longrightarrow> answers db0 (f db)) \<Longrightarrow> answers db0 (and_then r f)"
  by (auto simp: answers_def ends_def guard_simps)

lemma answers_pure: "(\<And>x. r = Inr x \<Longrightarrow> answers db0 (f x)) \<Longrightarrow> answers db0 (and_then r f)"
  by (auto simp: answers_def guard_simps)

lemma ends_Inr: "le db0 db \<Longrightarrow> ends db0 (Inr db)" by (simp add: ends_def)
lemma ends_Inl: "ends db0 (Inl e)" by (simp add: ends_def)
lemma answers_Inr: "le db0 db \<Longrightarrow> answers db0 (Inr (x, db))" by (simp add: answers_def)
lemma answers_Inl: "answers db0 (Inl e)" by (simp add: answers_def)

lemma ends_if: "(c \<Longrightarrow> ends db0 r) \<Longrightarrow> (\<not> c \<Longrightarrow> ends db0 q) \<Longrightarrow> ends db0 (if c then r else q)" by simp
lemma answers_if: "(c \<Longrightarrow> answers db0 r) \<Longrightarrow> (\<not> c \<Longrightarrow> answers db0 q) \<Longrightarrow> answers db0 (if c then r else q)"
  by simp
lemma ends_case: "ends db0 r \<Longrightarrow> (\<And>x. ends db0 (f x)) \<Longrightarrow> ends db0 (case opt of None \<Rightarrow> r | Some x \<Rightarrow> f x)"
  by (cases opt) auto
lemma answers_prod: "(\<And>a b. x = (a, b) \<Longrightarrow> answers db0 (f a b)) \<Longrightarrow> answers db0 (case x of (a, b) \<Rightarrow> f a b)"
  by (cases x) auto

lemma le_writes:
  "le db0 db \<Longrightarrow> ends db0 (append_n4_audit i s action actor kind outcome db)"
  "le db0 db \<Longrightarrow> ends db0 (update_dispatches P g db)"
  "le db0 db \<Longrightarrow> ends db0 (update_metadata R h db)"
  "le db0 db \<Longrightarrow> details_advance k \<Longrightarrow> ends db0 (update_details Q k db)"
  "le db0 db \<Longrightarrow> ends db0 (insert_invitation r db)"
  "le db0 db \<Longrightarrow> ends db0 (insert_details d db)"
  "le db0 db \<Longrightarrow> ends db0 (insert_session t db)"
  "le db0 db \<Longrightarrow> ends db0 (insert_dispatch x db)"
  "le db0 db \<Longrightarrow> ends db0 (insert_reference c db)"
  "le db0 db \<Longrightarrow> ends db0 (insert_metadata m db)"
  unfolding ends_def
  by (blast intro: le_trans le_audit le_update_dispatches le_update_metadata le_update_details
      le_insert_invitation le_insert_details le_insert_session le_insert_dispatch
      le_insert_reference le_insert_metadata)+

lemma le_sets:
  "le db0 db \<Longrightarrow> le db0 (set_invitation i f db)"
  "le db0 db \<Longrightarrow> le db0 (set_session session now db)"
  "le db0 db \<Longrightarrow> le db0 (store_invitation invitation i db)"
  unfolding store_invitation_def
  by (blast intro: le_trans le_set_invitation le_set_session)+

lemmas le_rules =
  answers_prod answers_if answers_Inr answers_Inl answers_bind answers_pure
  ends_if ends_case ends_Inr ends_Inl le_writes le_sets ends_bind ends_pure

lemma advance_stored_le: "le db0 db \<Longrightarrow> ends db0 (advance_stored s nxt now db)"
  unfolding advance_stored_def by (intro le_rules)

lemma close_details_le: "le db0 db \<Longrightarrow> ends db0 (close_details intent i now db)"
  unfolding close_details_def
  by (intro le_rules) (auto simp: details_advance_def split: N4CleanupIntent.splits)

lemma start_dispatch_le: "le db0 db \<Longrightarrow> ends db0 (start_dispatch s session a c h now db)"
  unfolding start_dispatch_def Let_def by (intro le_rules)

lemma settle_locally_le: "le db0 db \<Longrightarrow> ends db0 (settle_locally intent i invitation x now actor db)"
  unfolding settle_locally_def Let_def by (intro le_rules close_details_le)

lemma issue_le: "answers db (issue_n4_tx invitation context now actor db)"
  unfolding issue_n4_tx_def by (intro le_rules le_refl)

lemma reserve_le: "answers db (reserve_n4_tx E q i rv s now presented actor db)"
  unfolding reserve_n4_tx_def Let_def
  by (intro le_rules le_refl) (auto simp: details_advance_def)

lemma begin_le: "answers db (begin_n4_tx E s now db)"
  unfolding begin_n4_tx_def by (intro le_rules le_refl start_dispatch_le)

lemma begin_authorized_le: "answers db (begin_authorized_tx E s now db)"
  unfolding begin_authorized_tx_def by (intro le_rules le_refl start_dispatch_le)

lemma confirm_le: "answers db (confirm_n4_tx E s confirmation actor db)"
  unfolding confirm_n4_tx_def Let_def
  by (intro le_rules le_refl) (auto simp: details_advance_def)

lemma fail_le: "answers db (fail_n4_tx E s failure now actor db)"
  unfolding fail_n4_tx_def Let_def by (intro le_rules le_refl)

lemma prepare_le: "answers db (prepare_cleanup_tx E i now actor intent db)"
  unfolding prepare_cleanup_tx_def Let_def
  by (intro le_rules le_refl advance_stored_le settle_locally_le)

lemma settle_confirmed_le: "answers db (settle_confirmed_tx target x c invitation now actor db)"
  unfolding settle_confirmed_tx_def Let_def
  by (intro le_rules le_refl advance_stored_le close_details_le)

lemma settle_le: "answers db (settle_invalidation_tx target outcome now actor db)"
  unfolding settle_invalidation_tx_def by (intro le_rules le_refl settle_confirmed_le)

lemma transactional_le: "answers db (t db) \<Longrightarrow> le db (snd (transactional t db))"
  by (auto simp: transactional_def answers_def le_refl split: sum.splits prod.splits)

end

section \<open>The dispatch table only grows\<close>

fun dispatch_rank :: "dispatch_state \<Rightarrow> nat" where
  "dispatch_rank DispatchReserved = 0"
| "dispatch_rank DispatchStarted = 1"
| "dispatch_rank DispatchConfirmed = 2"
| "dispatch_rank DispatchAmbiguous = 2"
| "dispatch_rank RevocationPending = 3"
| "dispatch_rank _ = 4"

definition dispatch_le :: "dispatch_row \<Rightarrow> dispatch_row \<Rightarrow> bool" where
  "dispatch_le old new \<longleftrightarrow>
     dp_join_session_id new = dp_join_session_id old \<and> dp_invitation_id new = dp_invitation_id old \<and>
     dispatch_rank (dp_state old) \<le> dispatch_rank (dp_state new)"

definition dispatches_grow :: "n4_db \<Rightarrow> n4_db \<Rightarrow> bool" where
  "dispatches_grow a b \<longleftrightarrow>
     (\<exists>olds news. nd_dispatches b = olds @ news \<and> list_all2 dispatch_le (nd_dispatches a) olds)"

lemma transition_rank: "dispatch_transition a b \<Longrightarrow> dispatch_rank a \<le> dispatch_rank b"
  by (cases a) auto

lemma same_dispatches_grow: "nd_dispatches b = nd_dispatches a \<Longrightarrow> dispatches_grow a b"
  unfolding dispatches_grow_def
  by (intro exI [of _ "nd_dispatches a"] exI [of _ "[]"]) (simp add: list.rel_refl dispatch_le_def)

lemma dispatches_grow_trans:
  assumes "dispatches_grow a b" "dispatches_grow b c"
  shows "dispatches_grow a c"
proof -
  obtain os ns where b: "nd_dispatches b = os @ ns" "list_all2 dispatch_le (nd_dispatches a) os"
    using assms(1) by (auto simp: dispatches_grow_def)
  obtain os' ns' where c: "nd_dispatches c = os' @ ns'" "list_all2 dispatch_le (os @ ns) os'"
    using assms(2) b(1) by (auto simp: dispatches_grow_def)
  then obtain us vs where uv: "os' = us @ vs" "list_all2 dispatch_le os us"
    by (auto simp: list_all2_append1)
  have "list_all2 dispatch_le (nd_dispatches a) us"
    by (rule list_all2_trans [OF _ b(2) uv(2)]) (auto simp: dispatch_le_def)
  with c(1) uv(1) show ?thesis
    unfolding dispatches_grow_def by (intro exI [of _ us] exI [of _ "vs @ ns'"]) simp
qed

lemma update_dispatches_grow:
  assumes "update_dispatches P g a = Inr b"
  shows "dispatches_grow a b"
proof -
  have rows: "\<forall>r\<in>set (nd_dispatches a). P r \<longrightarrow> dispatch_update_ok r (g r)"
    "nd_dispatches b = map (\<lambda>r. if P r then g r else r) (nd_dispatches a)"
    using assms by (auto simp: update_dispatches_def guard_simps)
  have "dispatch_le r (if P r then g r else r)" if "r \<in> set (nd_dispatches a)" for r
    using rows(1) that transition_rank [of "dp_state r" "dp_state (g r)"]
    by (auto simp: dispatch_update_ok_def dispatch_linkage_def dispatch_le_def)
  then have "list_all2 dispatch_le (nd_dispatches a) (nd_dispatches b)"
    unfolding rows(2) by (simp add: list.rel_map list.rel_refl_strong)
  then show ?thesis unfolding dispatches_grow_def by (intro exI [of _ "nd_dispatches b"] exI [of _ "[]"]) simp
qed

lemma append_n4_audit_cases:
  assumes "append_n4_audit i s action actor kind outcome db = Inr db'"
  shows "db' = db \<or> (\<exists>e r. db' = db\<lparr>ad_events := ad_events db @ [e],
    nd_correlations := nd_correlations db @ [r]\<rparr>)"
  using assms by (auto simp: append_n4_audit_def guard_simps split: if_splits)

lemmas n4_write_defs =
  set_invitation_def set_session_def update_metadata_def update_details_def insert_invitation_def
  insert_details_def insert_session_def insert_dispatch_def insert_reference_def
  insert_metadata_def

interpretation dispatch_growth: n4_preorder dispatches_grow
proof (unfold_locales, goal_cases)
  case (2 a b c) then show ?case by (rule dispatches_grow_trans)
next
  case (3 i s action actor kind outcome db db')
  then show ?case by (auto dest!: append_n4_audit_cases intro: same_dispatches_grow)
next
  case (6 P g db db') then show ?case by (rule update_dispatches_grow)
next
  case (12 x db db')
  then have "nd_dispatches db' = nd_dispatches db @ [x]" by (auto simp: insert_dispatch_def guard_simps)
  then show ?case unfolding dispatches_grow_def
    by (intro exI [of _ "nd_dispatches db"] exI [of _ "[x]"]) (simp add: list.rel_refl dispatch_le_def)
qed (auto intro!: same_dispatches_grow simp: n4_write_defs guard_simps split: if_splits)

section \<open>The evidence is append-only\<close>

definition detail_le :: "detail_row \<Rightarrow> detail_row \<Rightarrow> bool" where
  "detail_le old new \<longleftrightarrow> de_invitation_id new = de_invitation_id old \<and> de_revision old \<le> de_revision new"

definition details_grow :: "detail_row list \<Rightarrow> detail_row list \<Rightarrow> bool" where
  "details_grow a b \<longleftrightarrow> (\<exists>olds news. b = olds @ news \<and> list_all2 detail_le a olds)"

definition evidence_grows :: "n4_db \<Rightarrow> n4_db \<Rightarrow> bool" where
  "evidence_grows a b \<longleftrightarrow>
     prefix (ad_events a) (ad_events b) \<and> prefix (nd_correlations a) (nd_correlations b) \<and>
     prefix (nd_references a) (nd_references b) \<and> details_grow (nd_details a) (nd_details b)"

lemma details_grow_append [simp]: "details_grow rs (rs @ ns)"
  unfolding details_grow_def
  by (intro exI [of _ rs] exI [of _ ns]) (simp add: list.rel_refl detail_le_def)

lemma details_grow_refl [simp]: "details_grow rs rs"
  using details_grow_append [of rs "[]"] by simp

lemma details_grow_trans:
  assumes "details_grow a b" "details_grow b c"
  shows "details_grow a c"
proof -
  obtain os ns os' ns' where os: "b = os @ ns" "list_all2 detail_le a os" "c = os' @ ns'"
      "list_all2 detail_le b os'"
    using assms by (auto simp: details_grow_def)
  then obtain us vs where uv: "os' = us @ vs" "list_all2 detail_le os us"
    by (auto simp: list_all2_append1)
  have "list_all2 detail_le a us"
    by (rule list_all2_trans [OF _ os(2) uv(2)]) (auto simp: detail_le_def)
  with os(3) uv(1) show ?thesis
    unfolding details_grow_def by (intro exI [of _ us] exI [of _ "vs @ ns'"]) simp
qed

lemma details_update_grow:
  assumes "details_advance k"
  shows "details_grow rs (map (\<lambda>r. if Q r then k r else r) rs)"
  unfolding details_grow_def using assms
  by (intro exI [of _ "map (\<lambda>r. if Q r then k r else r) rs"] exI [of _ "[]"])
    (auto simp: list.rel_map intro!: list.rel_refl_strong simp: detail_le_def details_advance_def
      order.strict_implies_order)

lemma same_evidence:
  "ad_events b = ad_events a \<Longrightarrow> nd_correlations b = nd_correlations a \<Longrightarrow>
   nd_references b = nd_references a \<Longrightarrow> nd_details b = nd_details a \<Longrightarrow> evidence_grows a b"
  by (simp add: evidence_grows_def)

interpretation evidence_growth: n4_preorder evidence_grows
proof (unfold_locales, goal_cases)
  case (2 a b c)
  then show ?case by (meson evidence_grows_def prefix_order.trans details_grow_trans)
next
  case (3 i s action actor kind outcome db db')
  then show ?case by (auto dest!: append_n4_audit_cases simp: evidence_grows_def)
next
  case (8 k Q db db')
  then show ?case using details_update_grow [OF 8(1)]
    by (auto simp: update_details_def guard_simps evidence_grows_def)
next
  case (10 d db db')
  then show ?case by (auto simp: insert_details_def guard_simps evidence_grows_def)
next
  case (13 cr db db')
  then show ?case by (auto simp: insert_reference_def guard_simps evidence_grows_def split: if_splits)
next
  case (15 db cfgs caps es)
  then show ?case by (simp add: evidence_grows_def)
qed (auto intro!: same_evidence simp: n4_write_defs update_dispatches_def guard_simps split: if_splits)

section \<open>Runs of the store\<close>

datatype n4_call =
    CallIssue Invitation N4InvitationContext DateTime AuditActor
  | CallReserve string InvitationId u64 JoinSessionId DateTime N4PresentedMetadata AuditActor
  | CallBegin JoinSessionId DateTime
  | CallBeginAuthorized JoinSessionId DateTime
  | CallConfirm JoinSessionId N4CredentialConfirmation AuditActor
  | CallFail JoinSessionId N4DispatchFailure DateTime AuditActor
  | CallRevoke InvitationId DateTime AuditActor
  | CallExpire InvitationId DateTime AuditActor
  | CallSettle N4CleanupTarget N4InvalidationOutcome DateTime AuditActor
  | CallConfigure NetworkId "Generation option" "Generation option" ProviderMutationConfiguration AuditActor

text \<open>Whether a call was accepted, and the database after it.\<close>

definition accepted :: "'a state_result \<times> n4_db \<Rightarrow> bool \<times> n4_db" where
  "accepted r = (is_ok (fst r), snd r)"

fun n4_step :: "argon_ops \<Rightarrow> store_env \<Rightarrow> n4_call \<Rightarrow> n4_db \<Rightarrow> bool \<times> n4_db" where
  "n4_step A E (CallIssue v c now actor) db = accepted (issue_n4_invitation A E v c now actor db)"
| "n4_step A E (CallReserve q i rv s now p actor) db =
     accepted (reserve_n4_redemption E q i rv s now p actor db)"
| "n4_step A E (CallBegin s now) db = accepted (begin_n4_credential_dispatch E s now db)"
| "n4_step A E (CallBeginAuthorized s now) db =
     accepted (begin_n4_credential_dispatch_with_authorization E s now db)"
| "n4_step A E (CallConfirm s c actor) db = accepted (confirm_n4_credential E s c actor db)"
| "n4_step A E (CallFail s f now actor) db = accepted (fail_n4_credential_dispatch E s f now actor db)"
| "n4_step A E (CallRevoke i now actor) db = accepted (prepare_n4_revocation E i now actor db)"
| "n4_step A E (CallExpire i now actor) db = accepted (prepare_n4_expiry E i now actor db)"
| "n4_step A E (CallSettle t u now actor) db =
     accepted (settle_n4_credential_invalidation t u now actor db)"
| "n4_step A E (CallConfigure n ea ec r actor) db =
     accepted (replace_provider_mutation_configuration n ea ec r actor db)"

fun n4_run :: "argon_ops \<Rightarrow> store_env \<Rightarrow> n4_call list \<Rightarrow> n4_db \<Rightarrow> (n4_call \<times> bool) list \<times> n4_db" where
  "n4_run A E [] db = ([], db)"
| "n4_run A E (c # cs) db =
     (let (ok, db) = n4_step A E c db; (log, db) = n4_run A E cs db in ((c, ok) # log, db))"

context n4_preorder
begin

lemma configure_le: "le db (snd (replace_provider_mutation_configuration n ea ec r actor db))"
proof -
  obtain res db' where s: "replace_provider_mutation_configuration n ea ec r actor db = (res, db')"
    by fastforce
  then show ?thesis
    by (cases rule: replace_cases) (auto simp: s le_refl dest!: replace_configuration_only intro: le_configure)
qed

lemma step_le: "le db (snd (n4_step A E c db))"
  by (cases c)
    (simp_all add: accepted_def issue_n4_invitation_def reserve_n4_redemption_def
      begin_n4_credential_dispatch_def begin_n4_credential_dispatch_with_authorization_def
      confirm_n4_credential_def fail_n4_credential_dispatch_def prepare_n4_revocation_def
      prepare_n4_expiry_def settle_n4_credential_invalidation_def configure_le le_refl
      transactional_le issue_le reserve_le begin_le begin_authorized_le confirm_le fail_le
      prepare_le settle_le split: sum.splits)

lemma run_le: "n4_run A E cs db = (log, db') \<Longrightarrow> le db db'"
proof (induction cs arbitrary: db log)
  case Nil
  then show ?case by (simp add: le_refl)
next
  case (Cons c cs)
  obtain ok d where d: "n4_step A E c db = (ok, d)" by fastforce
  with Cons.prems obtain log' where "n4_run A E cs d = (log', db')" by (auto simp: Let_def split: prod.splits)
  then have "le d db'" by (rule Cons.IH)
  moreover have "le db d" using step_le [of db A E c] d by simp
  ultimately show ?case using le_trans by blast
qed

end

section \<open>Each step at most once\<close>

fun reserves :: "InvitationId \<Rightarrow> n4_call \<times> bool \<Rightarrow> bool" where
  "reserves i (CallReserve _ j _ _ _ _ _, ok) = (ok \<and> j = i)"
| "reserves i _ = False"

fun begins :: "JoinSessionId \<Rightarrow> n4_call \<times> bool \<Rightarrow> bool" where
  "begins s (CallBegin t _, ok) = (ok \<and> t = s)"
| "begins s (CallBeginAuthorized t _, ok) = (ok \<and> t = s)"
| "begins s _ = False"

fun resolves :: "JoinSessionId \<Rightarrow> n4_call \<times> bool \<Rightarrow> bool" where
  "resolves s (CallConfirm t _ _, ok) = (ok \<and> t = s)"
| "resolves s (CallFail t _ _ _, ok) = (ok \<and> t = s)"
| "resolves s _ = False"

lemma at_most_once:
  assumes once: "\<And>c ok a b. n4_step A E c a = (ok, b) \<Longrightarrow> ev (c, ok) \<Longrightarrow> \<not> Q a \<and> Q b"
    and kept: "\<And>c a. Q a \<Longrightarrow> Q (snd (n4_step A E c a))"
  shows "n4_run A E cs db = (log, db') \<Longrightarrow> length (filter ev log) \<le> (if Q db then 0 else 1)"
proof (induction cs arbitrary: db log)
  case Nil
  then show ?case by simp
next
  case (Cons c cs)
  obtain ok d where d: "n4_step A E c db = (ok, d)" by fastforce
  with Cons.prems obtain log' where log: "n4_run A E cs d = (log', db')" "log = (c, ok) # log'"
    by (auto simp: Let_def split: prod.splits)
  have "length (filter ev log') \<le> (if Q d then 0 else 1)" by (rule Cons.IH [OF log(1)])
  then show ?case using once [OF d] kept [of db c] d log(2) by (cases "Q db"; cases "Q d") auto
qed

lemma find_grow:
  assumes "list_all2 dispatch_le xs ys" "find (\<lambda>r. k r = a) xs = Some x"
    and "\<And>x y. dispatch_le x y \<Longrightarrow> k y = k x"
  shows "\<exists>y. find (\<lambda>r. k r = a) (ys @ zs) = Some y \<and> dispatch_le x y"
  using assms(1,2)
proof (induction xs ys rule: list_all2_induct)
  case Nil
  then show ?case by simp
next
  case (Cons x' xs y' ys)
  then show ?case using assms(3) [OF Cons.hyps(1)] by (auto split: if_splits)
qed

definition ranked :: "nat \<Rightarrow> JoinSessionId \<Rightarrow> n4_db \<Rightarrow> bool" where
  "ranked n s db \<longleftrightarrow> (\<exists>d. dispatch_named s db = Some d \<and> n \<le> dispatch_rank (dp_state d))"

lemma ranked_grow: "dispatches_grow a b \<Longrightarrow> ranked n s a \<Longrightarrow> ranked n s b"
  unfolding ranked_def dispatches_grow_def dispatch_named_def
  by (clarsimp, drule (1) find_grow) (auto simp: dispatch_le_def intro: le_trans)

lemma dispatched_grow: "dispatches_grow a b \<Longrightarrow> dispatch_for i a \<noteq> None \<Longrightarrow> dispatch_for i b \<noteq> None"
  unfolding dispatches_grow_def dispatch_for_def
  by (clarsimp, drule (1) find_grow) (auto simp: dispatch_le_def)

lemma find_map_key:
  "(\<And>r. r \<in> set rs \<Longrightarrow> k (f r) = k r) \<Longrightarrow>
   find (\<lambda>r. k r = a) (map f rs) = map_option f (find (\<lambda>r. k r = a) rs)"
  by (induction rs) auto

text \<open>The dispatch named by a session, after an update of the rows of that session.\<close>

lemma update_named:
  assumes "update_dispatches P g a = Inr b" "dispatch_named s a = Some d" "P d"
  shows "dispatch_named s b = Some (g d)"
proof -
  have rows: "\<forall>r\<in>set (nd_dispatches a). P r \<longrightarrow> dispatch_update_ok r (g r)"
    "nd_dispatches b = map (\<lambda>r. if P r then g r else r) (nd_dispatches a)"
    using assms(1) by (auto simp: update_dispatches_def guard_simps)
  have "dp_join_session_id (if P r then g r else r) = dp_join_session_id r"
    if "r \<in> set (nd_dispatches a)" for r
    using rows(1) that by (auto simp: dispatch_update_ok_def dispatch_linkage_def)
  then show ?thesis using assms(2,3) unfolding dispatch_named_def rows(2)
    by (subst find_map_key) auto
qed

lemma named_key: "dispatch_named s db = Some d \<Longrightarrow> dp_join_session_id d = s"
  by (auto simp: dispatch_named_def dest: find_Some_mem)

lemma set_dispatches [simp]:
  "nd_dispatches (set_invitation i f db) = nd_dispatches db"
  "nd_dispatches (set_session session now db) = nd_dispatches db"
  "dispatch_named s (set_invitation i f db) = dispatch_named s db"
  "dispatch_named s (set_session session now db) = dispatch_named s db"
  "dispatch_named s (store_invitation v i db) = dispatch_named s db"
  by (simp_all add: set_invitation_def set_session_def dispatch_named_def store_invitation_def)

lemma start_dispatch_named:
  assumes "start_dispatch s session au cg h now a = Inr b" "dispatch_named s a = Some d"
    "dp_state d = DispatchReserved"
  shows "\<exists>d'. dispatch_named s b = Some d' \<and> dp_state d' = DispatchStarted"
proof -
  obtain g t where u: "update_dispatches (\<lambda>r. dp_join_session_id r = s \<and> dp_state r = DispatchReserved)
      g (set_session t now a) = Inr b" "dp_state (g d) = DispatchStarted"
    using assms(1) by (auto simp: start_dispatch_def Let_def guard_simps)
  from update_named [OF u(1)] assms(2,3) named_key [OF assms(2)] u(2) show ?thesis by auto
qed

lemma begin_once:
  assumes "n4_step A E c a = (ok, b)" "begins s (c, ok)"
  shows "\<not> ranked 1 s a \<and> ranked 1 s b"
proof -
  obtain r d session au cg h now b' where n: "n4_dispatch s a = Some (r, d)"
      "dp_state d = DispatchReserved" and st: "start_dispatch s session au cg h now a = Inr b"
    using assms
    by (cases c)
      (auto simp: accepted_def begin_n4_credential_dispatch_def begin_n4_tx_def guard_simps is_ok_iff
        begin_n4_credential_dispatch_with_authorization_def begin_authorized_tx_def transactional_def
        split: sum.splits prod.splits)
  have d: "dispatch_named s a = Some d"
    using n(1) by (auto simp: n4_dispatch_def split: option.splits)
  with start_dispatch_named [OF st d n(2)] n(2) show ?thesis by (auto simp: ranked_def)
qed

lemma keeps_dispatches:
  "append_n4_audit i t action actor kind outcome db = Inr db' \<Longrightarrow> nd_dispatches db' = nd_dispatches db"
  "update_details Q k db = Inr db' \<Longrightarrow> nd_dispatches db' = nd_dispatches db"
  "insert_metadata m db = Inr db' \<Longrightarrow> nd_dispatches db' = nd_dispatches db"
  "insert_reference c db = Inr db' \<Longrightarrow> nd_dispatches db' = nd_dispatches db"
  "insert_session u db = Inr db' \<Longrightarrow> nd_dispatches db' = nd_dispatches db"
  by (auto simp: n4_write_defs guard_simps split: if_splits dest!: append_n4_audit_cases)

lemma reserve_once:
  assumes "n4_step A E c a = (ok, b)" "reserves i (c, ok)"
  shows "\<not> dispatch_for i a \<noteq> None \<and> dispatch_for i b \<noteq> None"
proof -
  obtain q rv s now p actor out where "reserve_n4_tx E q i rv s now p actor a = Inr (out, b)"
    using assms
    by (cases c) (auto simp: accepted_def reserve_n4_redemption_def transactional_def is_ok_iff
        split: sum.splits prod.splits)
  then obtain x v t db1 db2 db3 db4 db5 k where
    steps: "insert_session t (set_invitation i v a) = Inr db1" "insert_dispatch x db1 = Inr db2"
      "update_details (\<lambda>q. de_invitation_id q = i \<and> de_revision q = uint rv) k db2 = Inr db3"
      "append_n4_audit i (Some s) (RedemptionOf s) actor ''invitation_redemption_started'' ''success'' db3
        = Inr db4"
      "append_n4_audit i (Some s) (RedemptionOf s) actor ''join_session_created'' ''success'' db4 = Inr db5"
      "b = db5" and x: "dp_invitation_id x = i"
    unfolding reserve_n4_tx_def Let_def
    by (auto simp: guard_simps split: prod.splits if_splits)
  have "nd_dispatches db1 = nd_dispatches a" using keeps_dispatches(5) [OF steps(1)] by simp
  moreover have "nd_dispatches b = nd_dispatches db2"
    using keeps_dispatches(2) [OF steps(3)] keeps_dispatches(1) [OF steps(4)]
      keeps_dispatches(1) [OF steps(5)] steps(6) by simp
  moreover have "\<forall>q\<in>set (nd_dispatches db1). dp_invitation_id q \<noteq> i"
    "nd_dispatches db2 = nd_dispatches db1 @ [x]"
    using steps(2) x by (auto simp: insert_dispatch_def guard_simps list_all_iff)
  ultimately show ?thesis using x by (auto simp: dispatch_for_def find_None_iff)
qed

lemma confirm_named:
  assumes "confirm_n4_tx E s confirmation actor a = Inr (u, b)"
  shows "\<exists>d d'. dispatch_named s a = Some d \<and> dp_state d = DispatchStarted \<and>
    dispatch_named s b = Some d' \<and> dp_state d' = DispatchConfirmed"
proof -
  obtain r d cr db1 db2 m db3 i v k db4 t n db5 db6 where n: "n4_dispatch s a = Some (r, d)"
      "dp_state d = DispatchStarted"
    and steps: "insert_reference cr a = Inr db1"
      "update_dispatches (\<lambda>q. dp_join_session_id q = s \<and> dp_state q = DispatchStarted)
        (\<lambda>q. q\<lparr>dp_state := DispatchConfirmed, dp_credential_id := Some (co_credential_id confirmation),
          dp_resolved_at_ms := Some (timestamp_millis (co_confirmed_at confirmation))\<rparr>) db1 = Inr db2"
      "insert_metadata m db2 = Inr db3"
      "update_details (\<lambda>q. de_invitation_id q = dp_invitation_id d) k (set_invitation i v db3) = Inr db4"
      "append_n4_audit (dp_invitation_id d) (Some s) (CredentialConfirm s) actor ''invitation_redeemed''
        ''success'' (set_session t n db4) = Inr db5"
      "append_n4_audit (dp_invitation_id d) (Some s) (CredentialConfirm s) actor
        ''provider_join_credential_issued'' ''success'' db5 = Inr db6" "b = db6"
    using assms unfolding confirm_n4_tx_def Let_def
    by (auto simp: guard_simps split: prod.splits option.splits)
  have d: "dispatch_named s a = Some d" using n(1) by (auto simp: n4_dispatch_def split: option.splits)
  then have "dispatch_named s db1 = Some d"
    using keeps_dispatches(4) [OF steps(1)] by (simp add: dispatch_named_def)
  with update_named [OF steps(2)] n(2) named_key [OF d]
  obtain d' where "dispatch_named s db2 = Some d'" "dp_state d' = DispatchConfirmed" by auto
  moreover have "nd_dispatches b = nd_dispatches db2"
    using keeps_dispatches(3) [OF steps(3)] keeps_dispatches(2) [OF steps(4)]
      keeps_dispatches(1) [OF steps(5)] keeps_dispatches(1) [OF steps(6)] steps(7) by simp
  ultimately show ?thesis using d n(2) by (auto simp: dispatch_named_def)
qed

lemma fail_named:
  assumes "fail_n4_tx E s failure now actor a = Inr (u, b)"
  shows "\<exists>d d'. dispatch_named s a = Some d \<and> dp_state d = failure_expects failure \<and>
    dispatch_named s b = Some d' \<and> dp_state d' = failure_dispatch failure"
proof -
  obtain r d v i t db1 db2 k where n: "n4_dispatch s a = Some (r, d)" "dp_state d = failure_expects failure"
    and steps: "update_dispatches (\<lambda>q. dp_join_session_id q = s)
        (\<lambda>q. q\<lparr>dp_state := failure_dispatch failure, dp_resolved_at_ms := Some (timestamp_millis now)\<rparr>)
        (set_session t now (store_invitation v i a)) = Inr db1"
      "append_n4_audit i (Some s) (CredentialFailure s) actor k ''failed'' db1 = Inr db2" "b = db2"
    using assms unfolding fail_n4_tx_def Let_def
    by (auto simp: guard_simps split: prod.splits option.splits)
  have d: "dispatch_named s a = Some d" using n(1) by (auto simp: n4_dispatch_def split: option.splits)
  with update_named [OF steps(1), of s d] named_key [OF d]
  obtain d' where "dispatch_named s db1 = Some d'" "dp_state d' = failure_dispatch failure" by auto
  with keeps_dispatches(1) [OF steps(2)] steps(3) d n(2) show ?thesis by (auto simp: dispatch_named_def)
qed

lemma resolve_once:
  assumes "n4_step A E c a = (ok, b)" "resolves s (c, ok)"
  shows "\<not> ranked 2 s a \<and> ranked 2 s b"
proof -
  have "(\<exists>confirmation actor u. confirm_n4_tx E s confirmation actor a = Inr (u, b)) \<or>
      (\<exists>failure now actor u. fail_n4_tx E s failure now actor a = Inr (u, b))"
    using assms
    by (cases c)
      (auto simp: accepted_def confirm_n4_credential_def fail_n4_credential_dispatch_def
        transactional_def is_ok_iff split: sum.splits prod.splits if_splits)
  then show ?thesis
  proof (elim disjE exE)
    fix confirmation actor u assume "confirm_n4_tx E s confirmation actor a = Inr (u, b)"
    from confirm_named [OF this] show ?thesis by (auto simp: ranked_def)
  next
    fix failure now actor u assume "fail_n4_tx E s failure now actor a = Inr (u, b)"
    from fail_named [OF this] show ?thesis by (cases failure) (auto simp: ranked_def)
  qed
qed

lemma ranked_step: "ranked n s a \<Longrightarrow> ranked n s (snd (n4_step A E c a))"
  using ranked_grow [OF dispatch_growth.step_le] .

lemma dispatched_step: "dispatch_for i a \<noteq> None \<Longrightarrow> dispatch_for i (snd (n4_step A E c a)) \<noteq> None"
  using dispatched_grow [OF dispatch_growth.step_le] .

text \<open>C28: An invitation works once. Over any sequence of store calls, from any database, at most
  one redemption of an invitation is ever reserved, and none once it has a dispatch; the
  provider call of a join session is started at most once, by either entry; and at most one
  outcome of it is recorded, be it a confirmation or a failure. All the while the audit events,
  the audit correlations and the confirmed credential references only grow.\<close>
theorem invitation_used_at_most_once:
  assumes "n4_run A E calls db = (log, db')"
  shows "length (filter (reserves i) log) \<le> (if dispatch_for i db \<noteq> None then 0 else 1) \<and>
    length (filter (begins s) log) \<le> 1 \<and> length (filter (resolves s) log) \<le> 1 \<and>
    prefix (ad_events db) (ad_events db') \<and> prefix (nd_correlations db) (nd_correlations db') \<and>
    prefix (nd_references db) (nd_references db')"
proof (intro conjI)
  show "length (filter (reserves i) log) \<le> (if dispatch_for i db \<noteq> None then 0 else 1)"
    by (rule at_most_once [where ev = "reserves i" and Q = "\<lambda>db. dispatch_for i db \<noteq> None", OF _ _ assms])
      (use reserve_once dispatched_step in blast)+
  have "length (filter (begins s) log) \<le> (if ranked 1 s db then 0 else 1)"
    by (rule at_most_once [where ev = "begins s" and Q = "ranked 1 s", OF _ _ assms])
      (use begin_once ranked_step in blast)+
  then show "length (filter (begins s) log) \<le> 1" by (simp split: if_splits)
  have "length (filter (resolves s) log) \<le> (if ranked 2 s db then 0 else 1)"
    by (rule at_most_once [where ev = "resolves s" and Q = "ranked 2 s", OF _ _ assms])
      (use resolve_once ranked_step in blast)+
  then show "length (filter (resolves s) log) \<le> 1" by (simp split: if_splits)
qed (use evidence_growth.run_le [OF assms] in \<open>simp_all add: evidence_grows_def\<close>)

section \<open>Invitations that no cleanup can close\<close>

text \<open>
  The dispatch table refuses to close a dispatch that was never started, whose provenance is
  null, and a failed one, which has no transition.
\<close>

lemma unclosable_dispatch:
  assumes "dp_state x \<in> {DispatchReserved, FailedPreDispatch, FailedNoApply}" "dispatch_check x"
    and "dp_state y = terminal_dispatch intent"
    and "dp_authorization_generation y = dp_authorization_generation x"
  shows "\<not> dispatch_update_ok x y"
  using assms
  by (cases intent; cases "dp_state x")
    (auto simp: dispatch_update_ok_def dispatch_check_def undispatched_def)

lemma settle_locally_refused:
  assumes "dispatch_for i db = Some x"
    and "dp_state x \<in> {DispatchReserved, FailedPreDispatch, FailedNoApply}" "dispatch_check x"
  shows "settle_locally intent i v (Some x) now actor db \<noteq> Inr db'"
proof
  assume "settle_locally intent i v (Some x) now actor db = Inr db'"
  then obtain db1 db2 where u: "update_dispatches (\<lambda>q. dp_invitation_id q = i \<and>
        dp_state q \<in> {DispatchReserved, FailedPreDispatch, FailedNoApply, RevocationPending})
      (\<lambda>q. q\<lparr>dp_state := terminal_dispatch intent,
        dp_resolved_at_ms := Some (coalesce (dp_resolved_at_ms q) (timestamp_millis now))\<rparr>) db1 = Inr db2"
    and same: "nd_dispatches db1 = nd_dispatches db"
    unfolding settle_locally_def Let_def
    by (auto simp: guard_simps store_invitation_def split: if_splits)
  have x: "x \<in> set (nd_dispatches db)" "dp_invitation_id x = i"
    using assms(1) by (auto simp: dispatch_for_def dest: find_Some_mem)
  then have "dispatch_update_ok x (x\<lparr>dp_state := terminal_dispatch intent,
      dp_resolved_at_ms := Some (coalesce (dp_resolved_at_ms x) (timestamp_millis now))\<rparr>)"
    using u same assms(2) by (auto simp: update_dispatches_def guard_simps)
  with unclosable_dispatch [OF assms(2,3), of _ intent] show False by simp
qed

lemma unclosable_invitation:
  assumes "n4_invitation i db = Some (r, d)" "in_state (iv_record r) \<notin> {ISRevoked, ISExpired}"
    and "dispatch_for i db = Some x" "dispatch_check x"
    and "dp_state x \<in> {DispatchReserved, FailedPreDispatch, FailedNoApply}"
  shows "(\<exists>e. prepare_n4_revocation E i now actor db = (Inl e, db)) \<and>
    (\<exists>e. prepare_n4_expiry E i now actor db = (Inl e, db)) \<and>
    (iv_state r = in_state (iv_record r) \<longrightarrow> iv_expires_at r \<le> now \<longrightarrow>
      i \<in> set (expired_n4_invitation_ids now db))"
proof -
  have tx: "\<exists>e. prepare_cleanup_tx E i now actor intent db = Inl e" for intent
  proof (cases "prepare_cleanup_tx E i now actor intent db")
    case (Inr y)
    then obtain db' where "settle_locally intent i (iv_record r) (Some x) now actor db = Inr db'"
      using assms(1,2,3,5) unfolding prepare_cleanup_tx_def Let_def
      by (auto simp: guard_simps split: if_splits)
    with settle_locally_refused [OF assms(3,5,4)] show ?thesis by blast
  qed blast
  have "r \<in> set (nd_invitations db)" "iv_invitation_id r = i" "details_of i db \<noteq> None"
    using assms(1) by (auto simp: n4_invitation_def invitation_named_def dest: find_Some_mem split: option.splits)
  then have "i \<in> set (expired_n4_invitation_ids now db)"
    if "iv_state r = in_state (iv_record r)" "iv_expires_at r \<le> now"
    using that assms(2) unfolding expired_n4_invitation_ids_def by force
  with tx [of IntentRevoked] tx [of IntentExpired] show ?thesis
    by (auto simp: prepare_n4_revocation_def prepare_n4_expiry_def transactional_def)
qed

text \<open>A redemption that failed before or without effect at the provider, or that was reserved
  and never dispatched, leaves an invitation that can be neither revoked nor expired: whenever,
  by whomever and however often, preparing either cleanup is an error that changes nothing,
  because the dispatch table refuses the update it makes. Such an invitation keeps its place in
  the list of expired invitations that are due.\<close>
theorem failed_redemptions_never_close:
  assumes "n4_invitation i db = Some (r, d)" "in_state (iv_record r) \<notin> {ISRevoked, ISExpired}"
    and "dispatch_for i db = Some x" "dispatch_check x"
    and "dp_state x \<in> {DispatchReserved, FailedPreDispatch, FailedNoApply}"
  shows "(\<exists>e. prepare_n4_revocation E i now actor db = (Inl e, db)) \<and>
    (\<exists>e. prepare_n4_expiry E i now actor db = (Inl e, db)) \<and>
    (iv_state r = in_state (iv_record r) \<longrightarrow> iv_expires_at r \<le> now \<longrightarrow>
      i \<in> set (expired_n4_invitation_ids now db))"
  by (rule unclosable_invitation [OF assms])

lemma revoking_not_expired:
  "in_state v = ISRevoking \<Longrightarrow> \<exists>e. move_invitation v ISExpired = Inl e"
  by (simp add: move_invitation_def InvitationState_transition_def enum_transition_def
      domain_conflict_def)

lemma crossed_settlement_fails:
  assumes "in_state v = ISRevoking" "ct_intent target = IntentExpired" "dp_state x = RevocationPending"
  shows "settle_confirmed_tx target x c v now actor db \<noteq> Inr y"
  using revoking_not_expired [OF assms(1)] assms(2,3)
  by (auto simp: settle_confirmed_tx_def Let_def guard_simps)

text \<open>C32: Expiry cannot finish a revocation. Once an invitation with a confirmed credential is being
  revoked, a due expiry answers a cleanup target and changes nothing, and settling that target
  as invalidated fails and changes nothing, although the provider has already been told to
  invalidate the credential: the domain allows no step from revoking to expired.\<close>
theorem crossed_expiry_never_settles:
  assumes "n4_invitation i db = Some (r, d)" "in_state (iv_record r) = ISRevoking"
    and "dispatch_for i db = Some x" "dp_state x = RevocationPending"
    and "dp_credential_id x = Some c" "reference_of c db = Some ref"
    and "in_expires_at (iv_record r) \<le> now"
  shows "\<exists>target. prepare_n4_expiry E i now actor db = (Inr target, db) \<and>
    ct_provider_reference target = Some (cr_provider_reference ref) \<and>
    (\<forall>t a. \<exists>e f. settle_n4_credential_invalidation target InvalidationConfirmed t a db = (Inl e, db) \<and>
      settle_n4_credential_invalidation target InvalidationSatisfied t a db = (Inl f, db))"
proof -
  let ?target = "cleanup_target i IntentExpired r d (Some x) db"
  have p: "prepare_n4_expiry E i now actor db = (Inr ?target, db)"
    and ref: "ct_provider_reference ?target = Some (cr_provider_reference ref)"
    using assms by (simp_all add: prepare_n4_expiry_def transactional_def prepare_cleanup_tx_def
        cleanup_target_def Let_def)
  have never: "settle_invalidation_tx ?target outcome t a db \<noteq> Inr y"
    if "outcome = InvalidationConfirmed \<or> outcome = InvalidationSatisfied" for outcome t a y
  proof -
    have "ct_intent ?target = IntentExpired" "ct_invitation_id ?target = i"
      by (simp_all add: cleanup_target_def Let_def)
    moreover have "invitation_named i db = Some r"
      using assms(1) by (auto simp: n4_invitation_def split: option.splits)
    moreover note crossed_settlement_fails [OF assms(2) calculation(1) assms(4)]
    ultimately show ?thesis
      using that assms(3,5,6) by (auto simp: settle_invalidation_tx_def simp del: not_None_eq)
  qed
  have settled: "\<exists>e. settle_n4_credential_invalidation ?target outcome t a db = (Inl e, db)"
    if o: "outcome = InvalidationConfirmed \<or> outcome = InvalidationSatisfied" for outcome t a
  proof (cases "settle_invalidation_tx ?target outcome t a db")
    case (Inl e)
    then show ?thesis by (simp add: settle_n4_credential_invalidation_def transactional_def)
  next
    case (Inr y)
    with never [OF o] show ?thesis by blast
  qed
  show ?thesis
    by (intro exI [of _ ?target] conjI allI p ref)
      (simp add: settled [of InvalidationConfirmed] settled [of InvalidationSatisfied])
qed

section \<open>Samples\<close>

definition sample_invitation :: "InvitationState \<Rightarrow> u32 \<Rightarrow> Invitation" where
  "sample_invitation st used =
     \<lparr>in_invitation_id = TypedId 5, in_network_id = TypedId 1, in_state = st, in_roles = Roles [Node],
      in_created_at = 0, in_expires_at = 900000000000, in_max_uses = 1, in_used_count = used,
      in_secret_verifier = SecretVerifier ''verifier'', in_provider_credential_reference = None,
      in_join_constraints = JoinConstraints_default, in_workflow = IWN4a,
      in_elevated_admin_intent = False\<rparr>"

definition sample_invitation_row :: "InvitationState \<Rightarrow> u32 \<Rightarrow> invitation_row" where
  "sample_invitation_row st used =
     \<lparr>iv_invitation_id = TypedId 5, iv_network_id = TypedId 1, iv_state = st,
      iv_secret_verifier = SecretVerifier ''verifier'', iv_credential = None, iv_max_uses = 1,
      iv_used_count = uint used, iv_record = sample_invitation st used, iv_created_at = 0,
      iv_expires_at = 900000000000\<rparr>"

definition sample_detail_row :: "int \<Rightarrow> int option \<Rightarrow> detail_row" where
  "sample_detail_row revision redeemed =
     \<lparr>de_invitation_id = TypedId 5, de_network_id = TypedId 1, de_provider_instance_id = TypedId 2,
      de_principal = ''principal'', de_roles = Roles [Node], de_constraints = JoinConstraints_default,
      de_created_by = AuditActor_system, de_revision = revision, de_consumed_at_ms = None,
      de_revoked_at_ms = None, de_expired_at_ms = None, de_last_redemption_at_ms = redeemed,
      de_last_redemption_metadata = ''{}''\<rparr>"

definition sample_request_id :: string where
  "sample_request_id = ''00000000-0000-4000-8000-000000000000''"

definition sample_dispatch_row :: "dispatch_state \<Rightarrow> dispatch_row" where
  "sample_dispatch_row st =
     \<lparr>dp_join_session_id = TypedId 7, dp_invitation_id = TypedId 5, dp_network_id = TypedId 1,
      dp_provider_instance_id = TypedId 2, dp_principal = ''principal'',
      dp_create_request_id = sample_request_id, dp_state = st, dp_authorization_generation = None,
      dp_configuration_generation = None, dp_configuration_fingerprint = None,
      dp_dispatched_at_ms = None, dp_resolved_at_ms = None, dp_credential_id = None\<rparr>"

definition sample_n4 ::
    "invitation_row \<Rightarrow> detail_row \<Rightarrow> session_row list \<Rightarrow> dispatch_row list \<Rightarrow> n4_db" where
  "sample_n4 v d sessions dispatches =
     \<lparr>ad_imports = [\<lparr>im_network_id = TypedId 1, im_provider_instance_id = TypedId 2, im_read_only = 1,
        im_mutation_allowed = 0\<rparr>],
      ad_configurations = [mutation_values (TypedId 1) 1 1 (sample_mutation 1)],
      ad_capabilities = map (capability_values (TypedId 1) (TypedId 2))
        [CreateJoinCredential, InvalidateJoinCredential],
      ad_events = [], ad_fail_before_audit = False, ad_fail_before_n4_confirmation_audit = False,
      nd_networks = [], nd_invitations = [v], nd_details = [d], nd_sessions = sessions,
      nd_dispatches = dispatches, nd_references = [], nd_metadata = [], nd_correlations = []\<rparr>"

definition sample_reference :: reference_row where
  "sample_reference =
     \<lparr>cr_credential_id = TypedId 9, cr_network_id = TypedId 1, cr_provider_instance_id = TypedId 2,
      cr_provider_reference = ProviderCredentialReference ''17'', cr_authorization_generation = 1,
      cr_configuration_generation = 1, cr_configuration_fingerprint = sample_fingerprint,
      cr_confirmed_at_ms = 20, cr_expires_at_ms = 900000, cr_max_uses = 1\<rparr>"

definition sample_pending_dispatch :: dispatch_row where
  "sample_pending_dispatch =
     (sample_dispatch_row RevocationPending)\<lparr>dp_authorization_generation := Some 1,
       dp_configuration_generation := Some 1, dp_configuration_fingerprint := Some sample_fingerprint,
       dp_dispatched_at_ms := Some 20, dp_resolved_at_ms := Some 20, dp_credential_id := Some (TypedId 9)\<rparr>"

definition sample_revoking :: n4_db where
  "sample_revoking =
     (sample_n4 (sample_invitation_row ISRevoking 1) (sample_detail_row 3 (Some 20)) []
       [sample_pending_dispatch])\<lparr>nd_references := [sample_reference]\<rparr>"

definition sample_reserve :: n4_call where
  "sample_reserve = CallReserve sample_request_id (TypedId 5) 1 (TypedId 7) 20000000
     \<lparr>px_platform = None, px_hostname_hint = None, px_correlation = JObject []\<rparr> AuditActor_system"

lemmas n4_eval =
  sample_n4_def sample_detail_row_def sample_invitation_row_def sample_invitation_def
  sample_dispatch_row_def n4_invitation_def invitation_named_def details_of_def dispatch_for_def
  dispatch_named_def session_named_def n4_dispatch_def column_u64_def N4InvitationContext_new_def
  safe_identifier_def bounded_safe_def safe_id_byte_def hint_refused_def JoinConstraints_default_def
  configuration_open_def join_capabilities_def has_capability_def capability_values_def
  mutation_values_def sample_mutation_def timestamp_millis_def set_invitation_def Let_def
  domain_conflict_def advance_session_def insert_session_def insert_dispatch_def dispatch_check_def
  create_request_column_def undispatched_def non_negative_def n4_digest_json_def update_details_def
  update_where_def detail_check_def sqlite_length_def str_chars_def append_n4_audit_def is_ascii_alphanumeric_def
  is_ascii_digit_def byte_val_def

lemma sample_run:
  "\<exists>db'. n4_run reference_argon sample_store_env [sample_reserve, sample_reserve]
     (sample_n4 (sample_invitation_row ISIssued 0) (sample_detail_row 1 None) [] []) =
   ([(sample_reserve, True), (sample_reserve, False)], db')"
  by (simp add: sample_reserve_def accepted_def reserve_n4_redemption_def transactional_def
      reserve_n4_tx_def n4_eval JoinSession_new_n4_def JoinSession_build_def advance_n4_def
      JoinSession_is_n4_def n4_state_def n4_next_def JoinSession_transition_def future_state_def
      JoinSessionState_transition_def enum_transition_def JoinSessionState_allowed_def
      sample_request_id_def AuditActor_system_def)

theorem invitation_used_at_most_once_witness:
  "\<exists>log db'. n4_run reference_argon sample_store_env [sample_reserve, sample_reserve]
     (sample_n4 (sample_invitation_row ISIssued 0) (sample_detail_row 1 None) [] []) = (log, db') \<and>
   length (filter (reserves (TypedId 5)) log) = 1"
proof -
  obtain db' where r: "n4_run reference_argon sample_store_env [sample_reserve, sample_reserve]
     (sample_n4 (sample_invitation_row ISIssued 0) (sample_detail_row 1 None) [] []) =
   ([(sample_reserve, True), (sample_reserve, False)], db')" using sample_run by blast
  have "length (filter (reserves (TypedId 5)) [(sample_reserve, True), (sample_reserve, False)]) \<le> 1"
    by (rule order_trans [OF invitation_used_at_most_once [OF r, THEN conjunct1]]) simp
  then have "length (filter (reserves (TypedId 5)) [(sample_reserve, True), (sample_reserve, False)]) = 1"
    by (simp add: sample_reserve_def)
  with r show ?thesis by blast
qed

theorem failed_redemptions_never_close_witness:
  "\<exists>e. prepare_n4_expiry sample_store_env (TypedId 5) 900000000000 AuditActor_system
     (sample_n4 (sample_invitation_row ISFailed 1) (sample_detail_row 2 (Some 20)) []
       [sample_dispatch_row FailedPreDispatch]) = (Inl e, sample_n4 (sample_invitation_row ISFailed 1)
       (sample_detail_row 2 (Some 20)) [] [sample_dispatch_row FailedPreDispatch])"
proof -
  have "n4_invitation (TypedId 5) (sample_n4 (sample_invitation_row ISFailed 1)
      (sample_detail_row 2 (Some 20)) [] [sample_dispatch_row FailedPreDispatch]) =
      Some (sample_invitation_row ISFailed 1, sample_detail_row 2 (Some 20))"
    and "in_state (iv_record (sample_invitation_row ISFailed 1)) \<notin> {ISRevoked, ISExpired}"
    and "dispatch_for (TypedId 5) (sample_n4 (sample_invitation_row ISFailed 1)
      (sample_detail_row 2 (Some 20)) [] [sample_dispatch_row FailedPreDispatch]) =
      Some (sample_dispatch_row FailedPreDispatch)"
    and "dispatch_check (sample_dispatch_row FailedPreDispatch)"
    and "dp_state (sample_dispatch_row FailedPreDispatch) \<in> {DispatchReserved, FailedPreDispatch, FailedNoApply}"
    by (simp_all add: n4_eval sample_request_id_def)
  from failed_redemptions_never_close [OF this] show ?thesis by blast
qed

theorem crossed_expiry_never_settles_witness:
  "\<exists>target e. prepare_n4_expiry sample_store_env (TypedId 5) 900000000000 AuditActor_system sample_revoking =
     (Inr target, sample_revoking) \<and>
   settle_n4_credential_invalidation target InvalidationConfirmed 900000000000 AuditActor_system
     sample_revoking = (Inl e, sample_revoking)"
proof -
  have "n4_invitation (TypedId 5) sample_revoking =
      Some (sample_invitation_row ISRevoking 1, sample_detail_row 3 (Some 20))"
    and "in_state (iv_record (sample_invitation_row ISRevoking 1)) = ISRevoking"
    and "dispatch_for (TypedId 5) sample_revoking = Some (sample_pending_dispatch)"
    and "dp_state sample_pending_dispatch = RevocationPending"
    and "dp_credential_id sample_pending_dispatch = Some (TypedId 9)"
    and "reference_of (TypedId 9) sample_revoking = Some sample_reference"
    and "in_expires_at (iv_record (sample_invitation_row ISRevoking 1)) \<le> 900000000000"
    by (simp_all add: n4_eval sample_revoking_def sample_pending_dispatch_def sample_reference_def
        reference_of_def)
  from crossed_expiry_never_settles [OF this] show ?thesis by blast
qed

end
