(* ===== verification/N4_Service.thy ===== *)
theory N4_Service
  imports N4_Lifecycle Redemption_Ingress
begin

text \<open>
  The invitation service of \<^verbatim>\<open>crates/nodescale-invitation/src/lib.rs\<close> over the N4 store and a
  mutation provider: creating an invitation, redeeming it for a provider credential, revoking
  and expiring it, and the reconciliation of all that are due.

  The provider is a parameter: a function of its own state that answers a mutation with an
  outcome. The authorization issuer is the store's, as in production. The world of the service
  is the database, the provider's state and the list of mutations sent so far; identifiers and
  random bytes that the code draws are arguments.
\<close>

section \<open>Mutations and outcomes\<close>

record JoinCredentialRequest =
  jr_principal :: string
  jr_reusable :: bool
  jr_max_uses :: u32
  jr_expires_at :: "DateTime option"
  jr_tags :: "string list"

datatype ProviderMutation =
    MutateEnsurePrincipal string
  | MutateCreateCredential JoinCredentialRequest
  | MutateRevokeCredential ProviderCredentialReference
  | MutateReplaceTags ProviderIdentity "string list"
  | MutateExpireNode ProviderIdentity
  | MutateDeleteNode ProviderIdentity
  | MutateApplyPolicy string string

fun mutation_capability :: "ProviderMutation \<Rightarrow> ProviderMutationCapability" where
  "mutation_capability (MutateEnsurePrincipal _) = EnsureNetworkPrincipal"
| "mutation_capability (MutateCreateCredential _) = CreateJoinCredential"
| "mutation_capability (MutateRevokeCredential _) = InvalidateJoinCredential"
| "mutation_capability (MutateReplaceTags _ _) = ReplaceNodeTags"
| "mutation_capability (MutateExpireNode _) = ExpireNode"
| "mutation_capability (MutateDeleteNode _) = DeleteNode"
| "mutation_capability (MutateApplyPolicy _ _) = ManagePolicy"

record IssuedJoinCredential =
  ij_provider_reference :: ProviderCredentialReference
  ij_secret :: string
  ij_expires_at :: DateTime
  ij_max_uses :: u32

datatype 'n MutationEvidence =
    PrincipalPresent string string
  | JoinCredentialIssued IssuedJoinCredential
  | CredentialRevoked ProviderCredentialReference
  | NodeMatches 'n
  | NodeAbsent ProviderIdentity
  | PolicyMatches string

text \<open>The reason of an ambiguous outcome is not looked at here.\<close>

datatype 'n MutationOutcome =
    OutConfirmed "'n MutationEvidence"
  | OutSatisfied "'n MutationEvidence"
  | OutRejected
  | OutFailed bool
  | OutUnsupported
  | OutUnauthenticated
  | OutUnavailable
  | OutIncompatible
  | OutConflict
  | OutAmbiguous

section \<open>The service and its world\<close>

record ('p, 'n) invitation_service =
  is_argon :: argon_ops
  is_env :: store_env
  is_instance_id :: ProviderInstanceId
  is_execute :: "MutationAuthorization \<Rightarrow> ProviderMutation \<Rightarrow> 'p \<Rightarrow> 'n MutationOutcome \<times> 'p"

record 'p world =
  wo_db :: n4_db
  wo_provider :: 'p
  wo_sent :: "ProviderMutation list"

type_synonym 'a service_result = "InvitationServiceError + 'a"

definition execute_mutation ::
    "('p, 'n) invitation_service \<Rightarrow> MutationAuthorization \<Rightarrow> ProviderMutation \<Rightarrow> 'p world \<Rightarrow>
     'n MutationOutcome \<times> 'p world" where
  "execute_mutation S authorization mutation w =
     (let (out, p) = is_execute S authorization mutation (wo_provider w)
      in (out, w\<lparr>wo_provider := p, wo_sent := wo_sent w @ [mutation]\<rparr>))"

definition on_db :: "(n4_db \<Rightarrow> 'a \<times> n4_db) \<Rightarrow> 'p world \<Rightarrow> 'a \<times> 'p world" where
  "on_db f w = (let (r, db) = f (wo_db w) in (r, w\<lparr>wo_db := db\<rparr>))"

fun map_state :: "StateError \<Rightarrow> InvitationServiceError" where
  "map_state (StNotFound _) = NotFound"
| "map_state (StConflict _) = ServiceConflict"
| "map_state (StStaleGeneration _ _) = ServiceConflict"
| "map_state (StMutationAuthorizationDenied _) = ServiceConflict"
| "map_state _ = ServiceUnavailable"

definition MAX_N4_ROLES :: nat where "MAX_N4_ROLES = 4"

definition INVITATION_LIFETIME :: int where "INVITATION_LIFETIME = 15 * 60 * 1000000000"

fun role_tag :: "Role \<Rightarrow> string" where
  "role_tag Node = ''tag:nodescale-node''"
| "role_tag Worker = ''tag:nodescale-worker''"
| "role_tag Controller = ''tag:nodescale-controller''"
| "role_tag ProfileHost = ''tag:nodescale-profile-host''"
| "role_tag Observer = ''tag:nodescale-observer''"
| "role_tag Admin = ''tag:nodescale-admin''"

text \<open>A \<^verbatim>\<open>BTreeSet\<close> of tags, in the order of their text.\<close>

definition closed_tags :: "Roles \<Rightarrow> string list service_result" where
  "closed_tags roles =
     (let tags = map role_tag (filter (\<lambda>r. r \<in> set (role_list roles))
            [Admin, Controller, Node, Observer, ProfileHost, Worker])
      in if MAX_N4_ROLES < length tags then Inl InvalidRequest else Inr tags)"

section \<open>Creating an invitation\<close>

record CreateInvitationRequest =
  rc_network_id :: NetworkId
  rc_provider_instance_id :: ProviderInstanceId
  rc_provider_principal_id :: string
  rc_roles :: Roles
  rc_admin_intent :: "InvitationAdminIntent option"
  rc_join_constraints :: JoinConstraints
  rc_actor :: AuditActor

definition prepare_invitation ::
    "('p, 'n) invitation_service \<Rightarrow> CreateInvitationRequest \<Rightarrow> InvitationId \<Rightarrow> u8 list \<Rightarrow> u8 list \<Rightarrow>
     DateTime \<Rightarrow> n4_db \<Rightarrow> (InvitationToken \<times> Invitation \<times> N4InvitationContext) service_result" where
  "prepare_invitation S rq i secret salt now db =
     and_then (ensure (\<not> MAX_N4_ROLES < length (role_list (rc_roles rq))) InvalidRequest) (\<lambda>_.
     and_then (closed_tags (rc_roles rq)) (\<lambda>_.
     and_then (map_err map_state (network_record (is_env S) (rc_network_id rq) db)) (\<lambda>network.
     and_then (ensure (\<not> (nw_provider_instance_id network \<noteq> rc_provider_instance_id rq \<or>
         is_instance_id S \<noteq> rc_provider_instance_id rq)) InvalidRequest) (\<lambda>_.
     let token = InvitationToken_generate secret i in
     and_then (map_err (\<lambda>_. ServiceUnavailable) (from_token (is_argon S) salt token)) (\<lambda>verifier.
     and_then (map_err (\<lambda>_. InvalidRequest) (Invitation_new_n4 (is_argon S) i (rc_network_id rq)
       (rc_roles rq) (rc_admin_intent rq) verifier (rc_join_constraints rq) now
       (now + INVITATION_LIFETIME) 1)) (\<lambda>invitation.
     and_then (map_err (\<lambda>_. InvalidRequest)
       (N4InvitationContext_new (rc_provider_instance_id rq) (rc_provider_principal_id rq))) (\<lambda>context.
     Inr (token, invitation, context))))))))"

definition service_create ::
    "('p, 'n) invitation_service \<Rightarrow> CreateInvitationRequest \<Rightarrow> InvitationId \<Rightarrow> u8 list \<Rightarrow> u8 list \<Rightarrow>
     DateTime \<Rightarrow> 'p world \<Rightarrow> (N4InvitationView \<times> InvitationToken) service_result \<times> 'p world" where
  "service_create S rq i secret salt now w =
     (case prepare_invitation S rq i secret salt now (wo_db w) of
        Inl e \<Rightarrow> (Inl e, w)
      | Inr (token, invitation, context) \<Rightarrow>
          (case on_db (issue_n4_invitation (is_argon S) (is_env S) invitation context now (rc_actor rq)) w of
             (Inl e, w) \<Rightarrow> (Inl (map_state e), w)
           | (Inr _, w) \<Rightarrow>
               (and_then (map_err map_state (n4_invitation_view (is_env S) i (wo_db w)))
                  (\<lambda>view. Inr (view, token)), w)))"

definition service_list ::
    "('p, 'n) invitation_service \<Rightarrow> NetworkId \<Rightarrow> 'p world \<Rightarrow> N4InvitationView list service_result" where
  "service_list S n w = map_err map_state (list_n4_invitations (is_env S) n (wo_db w))"

definition service_show ::
    "('p, 'n) invitation_service \<Rightarrow> InvitationId \<Rightarrow> 'p world \<Rightarrow> N4InvitationView service_result" where
  "service_show S i w = map_err map_state (n4_invitation_view (is_env S) i (wo_db w))"

section \<open>Redeeming\<close>

record RedemptionReceipt =
  rr_invitation_id :: InvitationId
  rr_join_session_id :: JoinSessionId
  rr_credential_id :: ProviderCredentialId
  rr_expires_at :: DateTime
  rr_max_uses :: u32

record ProviderCredentialDelivery =
  pd_receipt :: RedemptionReceipt
  pd_secret :: string

definition issue_invalidation ::
    "N4CleanupTarget \<Rightarrow> DateTime \<Rightarrow> 'p world \<Rightarrow> MutationAuthorization state_result" where
  "issue_invalidation target now w =
     issue_mutation_authorization (ct_network_id target) (ct_provider_instance_id target)
       InvalidateJoinCredential now (wo_db w)"

definition record_dispatch_failure ::
    "('p, 'n) invitation_service \<Rightarrow> JoinSessionId \<Rightarrow> N4DispatchFailure \<Rightarrow> DateTime \<Rightarrow> AuditActor \<Rightarrow>
     'p world \<Rightarrow> unit service_result \<times> 'p world" where
  "record_dispatch_failure S s failure now actor w =
     (let (r, w) = on_db (fail_n4_credential_dispatch (is_env S) s failure now actor) w
      in (map_err map_state r, w))"

text \<open>Record a failure and answer an error: the recording's own if it fails.\<close>

definition give_up ::
    "('p, 'n) invitation_service \<Rightarrow> JoinSessionId \<Rightarrow> N4DispatchFailure \<Rightarrow> InvitationServiceError \<Rightarrow>
     DateTime \<Rightarrow> AuditActor \<Rightarrow> 'p world \<Rightarrow> 'a service_result \<times> 'p world" where
  "give_up S s failure error now actor w =
     (let (r, w) = record_dispatch_failure S s failure now actor w
      in (and_then r (\<lambda>_. Inl error), w))"

definition reject_request ::
    "('p, 'n) invitation_service \<Rightarrow> InvitationToken \<Rightarrow> 'p world \<Rightarrow>
     (N4InvitationCandidate \<times> string list) service_result" where
  "reject_request S token w =
     and_then (map_err map_state (n4_invitation_candidate (is_env S) (it_invitation_id token) (wo_db w)))
       (\<lambda>candidate.
     and_then (map_err map_state (verify_candidate (is_argon S) candidate token)) (\<lambda>verified.
     and_then (ensure verified ServiceConflict) (\<lambda>_.
     and_then (service_show S (it_invitation_id token) w) (\<lambda>view.
     and_then (closed_tags (vi_roles view)) (\<lambda>tags. Inr (candidate, tags))))))"

text \<open>What follows a create call that the provider confirmed with an acceptable credential.\<close>

definition confirm_issued ::
    "('p, 'n) invitation_service \<Rightarrow> InvitationId \<Rightarrow> N4RedemptionReservation \<Rightarrow> IssuedJoinCredential \<Rightarrow>
     ProviderCredentialId \<Rightarrow> string list \<Rightarrow> AuditActor \<Rightarrow> DateTime \<Rightarrow> 'p world \<Rightarrow>
     ProviderCredentialDelivery service_result \<times> 'p world" where
  "confirm_issued S i reservation issued credential_id tags actor now w =
     (let s = re_join_session_id reservation;
          confirmation = \<lparr>co_credential_id = credential_id,
            co_provider_reference = ij_provider_reference issued,
            co_provider_principal_id = nx_provider_principal_id (re_context reservation),
            co_ephemeral = False, co_approved_tags = tags, co_expires_at = ij_expires_at issued,
            co_confirmed_at = now, co_safe_correlation = JObject []\<rparr>
      in case on_db (confirm_n4_credential (is_env S) s confirmation actor) w of
           (Inr _, w) \<Rightarrow>
             (Inr \<lparr>pd_receipt = \<lparr>rr_invitation_id = i, rr_join_session_id = s,
                     rr_credential_id = credential_id, rr_expires_at = ij_expires_at issued,
                     rr_max_uses = ij_max_uses issued\<rparr>,
                   pd_secret = ij_secret issued\<rparr>, w)
         | (Inl _, w) \<Rightarrow>
             (let target = \<lparr>ct_invitation_id = i, ct_join_session_id = Some s,
                    ct_credential_id = Some credential_id,
                    ct_provider_reference = Some (ij_provider_reference issued),
                    ct_network_id = re_network_id reservation,
                    ct_provider_instance_id = nx_provider_instance_id (re_context reservation),
                    ct_intent = IntentRevoked, ct_cleanup_uncertain = True\<rparr>;
                  w = (case issue_invalidation target now w of
                         Inl _ \<Rightarrow> w
                       | Inr authorization \<Rightarrow> snd (execute_mutation S authorization
                           (MutateRevokeCredential (ij_provider_reference issued)) w));
                  w = snd (record_dispatch_failure S s AmbiguousDispatch now actor w)
              in (Inl AmbiguousOutcome, w)))"

definition redeem_outcome ::
    "('p, 'n) invitation_service \<Rightarrow> InvitationId \<Rightarrow> N4RedemptionReservation \<Rightarrow> ProviderCredentialId \<Rightarrow>
     string list \<Rightarrow> AuditActor \<Rightarrow> DateTime \<Rightarrow> 'n MutationOutcome \<Rightarrow> 'p world \<Rightarrow>
     ProviderCredentialDelivery service_result \<times> 'p world" where
  "redeem_outcome S i reservation credential_id tags actor now outcome w =
     (let s = re_join_session_id reservation in
      case outcome of
        OutConfirmed (JoinCredentialIssued issued) \<Rightarrow>
          if ij_max_uses issued = 1 \<and> now < ij_expires_at issued \<and>
             ij_expires_at issued \<le> re_expires_at reservation
          then confirm_issued S i reservation issued credential_id tags actor now w
          else give_up S s AmbiguousDispatch AmbiguousOutcome now actor w
      | OutUnavailable \<Rightarrow> give_up S s DefiniteNoApply ProviderUnavailable now actor w
      | OutRejected \<Rightarrow> give_up S s DefiniteNoApply ProviderRejected now actor w
      | OutConflict \<Rightarrow> give_up S s DefiniteNoApply ProviderRejected now actor w
      | OutUnsupported \<Rightarrow> give_up S s DefiniteNoApply ProviderRejected now actor w
      | OutUnauthenticated \<Rightarrow> give_up S s DefiniteNoApply AuthenticationFailed now actor w
      | OutIncompatible \<Rightarrow> give_up S s DefiniteNoApply CompatibilityBlocked now actor w
      | _ \<Rightarrow> give_up S s AmbiguousDispatch AmbiguousOutcome now actor w)"

definition redeem_dispatched ::
    "('p, 'n) invitation_service \<Rightarrow> InvitationId \<Rightarrow> N4RedemptionReservation \<Rightarrow> N4CredentialDispatch \<Rightarrow>
     MutationAuthorization \<Rightarrow> ProviderCredentialId \<Rightarrow> string list \<Rightarrow> AuditActor \<Rightarrow> DateTime \<Rightarrow> 'p world \<Rightarrow>
     ProviderCredentialDelivery service_result \<times> 'p world" where
  "redeem_dispatched S i reservation dispatch authorization credential_id tags actor now w =
     (if cd_invitation_id dispatch \<noteq> re_invitation_id reservation \<or>
         cd_network_id dispatch \<noteq> re_network_id reservation \<or>
         cd_context dispatch \<noteq> re_context reservation
      then give_up S (re_join_session_id reservation) AmbiguousDispatch AmbiguousOutcome now actor w
      else
        (let request = \<lparr>jr_principal = nx_provider_principal_id (re_context reservation),
               jr_reusable = False, jr_max_uses = 1,
               jr_expires_at = Some (re_expires_at reservation), jr_tags = tags\<rparr>;
             (outcome, w) = execute_mutation S authorization (MutateCreateCredential request) w
         in redeem_outcome S i reservation credential_id tags actor now outcome w))"

record redeem_request =
  rq_token :: InvitationToken
  rq_presented :: N4PresentedMetadata
  rq_actor :: AuditActor

text \<open>The identifiers drawn for one redemption: session, provider request and credential.\<close>

record redeem_ids =
  ri_join_session_id :: JoinSessionId
  ri_create_request_id :: string
  ri_credential_id :: ProviderCredentialId

definition service_redeem ::
    "('p, 'n) invitation_service \<Rightarrow> redeem_request \<Rightarrow> redeem_ids \<Rightarrow> DateTime \<Rightarrow> 'p world \<Rightarrow>
     ProviderCredentialDelivery service_result \<times> 'p world" where
  "service_redeem S rq ids now w =
     (let i = it_invitation_id (rq_token rq); s = ri_join_session_id ids in
      case reject_request S (rq_token rq) w of
        Inl e \<Rightarrow> (Inl e, w)
      | Inr (candidate, tags) \<Rightarrow>
          (case on_db (reserve_n4_redemption (is_env S) (ri_create_request_id ids) i
                  (nc_revision candidate) s now (rq_presented rq) (rq_actor rq)) w of
             (Inl e, w) \<Rightarrow> (Inl (map_state e), w)
           | (Inr reservation, w) \<Rightarrow>
               (case on_db (begin_n4_credential_dispatch_with_authorization (is_env S) s now) w of
                  (Inl e, w) \<Rightarrow> (Inl (map_state e), w)
                | (Inr (dispatch, authorization), w) \<Rightarrow>
                    redeem_dispatched S i reservation dispatch authorization (ri_credential_id ids)
                      tags (rq_actor rq) now w)))"

section \<open>Cleanup\<close>

definition settlement ::
    "ProviderCredentialReference \<Rightarrow> 'n MutationOutcome \<Rightarrow> N4InvalidationOutcome \<times> InvitationServiceError option" where
  "settlement reference outcome =
     (case outcome of
        OutConfirmed (CredentialRevoked c) \<Rightarrow>
          if c = reference then (InvalidationConfirmed, None)
          else (InvalidationBlocked, Some ProviderRejected)
      | OutSatisfied (CredentialRevoked c) \<Rightarrow>
          if c = reference then (InvalidationSatisfied, None)
          else (InvalidationBlocked, Some ProviderRejected)
      | OutUnavailable \<Rightarrow> (InvalidationRetryable, Some ProviderUnavailable)
      | OutFailed retryable \<Rightarrow>
          if retryable then (InvalidationRetryable, Some ProviderUnavailable)
          else (InvalidationBlocked, Some ProviderRejected)
      | OutAmbiguous \<Rightarrow> (InvalidationAmbiguous, Some AmbiguousOutcome)
      | OutUnauthenticated \<Rightarrow> (InvalidationUnauthenticated, Some AuthenticationFailed)
      | OutIncompatible \<Rightarrow> (InvalidationIncompatible, Some CompatibilityBlocked)
      | _ \<Rightarrow> (InvalidationBlocked, Some ProviderRejected))"

definition complete_cleanup ::
    "('p, 'n) invitation_service \<Rightarrow> N4CleanupTarget \<Rightarrow> DateTime \<Rightarrow> AuditActor \<Rightarrow> 'p world \<Rightarrow>
     N4InvitationView service_result \<times> 'p world" where
  "complete_cleanup S target now actor w =
     (case ct_provider_reference target of
        None \<Rightarrow>
          (if ct_cleanup_uncertain target then (Inl AmbiguousOutcome, w)
           else (service_show S (ct_invitation_id target) w, w))
      | Some reference \<Rightarrow>
          (case issue_invalidation target now w of
             Inl error \<Rightarrow>
               (let (r, w) = on_db (settle_n4_credential_invalidation target InvalidationBlocked now actor) w
                in (and_then (map_err map_state r) (\<lambda>_. Inl (map_state error)), w))
           | Inr authorization \<Rightarrow>
               (let (outcome, w) = execute_mutation S authorization (MutateRevokeCredential reference) w;
                    (settled, service_error) = settlement reference outcome;
                    (r, w) = on_db (settle_n4_credential_invalidation target settled now actor) w
                in (and_then (map_err map_state r) (\<lambda>_.
                     case service_error of Some e \<Rightarrow> Inl e
                     | None \<Rightarrow> service_show S (ct_invitation_id target) w), w))))"

definition service_revoke ::
    "('p, 'n) invitation_service \<Rightarrow> InvitationId \<Rightarrow> DateTime \<Rightarrow> AuditActor \<Rightarrow> 'p world \<Rightarrow>
     N4InvitationView service_result \<times> 'p world" where
  "service_revoke S i now actor w =
     (case on_db (prepare_n4_revocation (is_env S) i now actor) w of
        (Inl e, w) \<Rightarrow> (Inl (map_state e), w)
      | (Inr target, w) \<Rightarrow> complete_cleanup S target now actor w)"

definition service_expire ::
    "('p, 'n) invitation_service \<Rightarrow> InvitationId \<Rightarrow> DateTime \<Rightarrow> AuditActor \<Rightarrow> 'p world \<Rightarrow>
     N4InvitationView service_result \<times> 'p world" where
  "service_expire S i now actor w =
     (case service_show S i w of
        Inl e \<Rightarrow> (Inl e, w)
      | Inr current \<Rightarrow>
          if now < vi_expires_at current then (Inl ServiceConflict, w)
          else (case on_db (prepare_n4_expiry (is_env S) i now actor) w of
             (Inl e, w) \<Rightarrow> (Inl (map_state e), w)
           | (Inr target, w) \<Rightarrow> complete_cleanup S target now actor w))"

record ExpiryReconciliationReport =
  er_settled :: "N4InvitationView list"
  er_pending :: "(InvitationId \<times> InvitationServiceError) list"

fun expire_each ::
    "('p, 'n) invitation_service \<Rightarrow> InvitationId list \<Rightarrow> DateTime \<Rightarrow> AuditActor \<Rightarrow>
     ExpiryReconciliationReport \<Rightarrow> 'p world \<Rightarrow> ExpiryReconciliationReport \<times> 'p world" where
  "expire_each S [] now actor report w = (report, w)"
| "expire_each S (i # rest) now actor report w =
     (case service_expire S i now actor w of
        (Inr view, w) \<Rightarrow>
          expire_each S rest now actor (report\<lparr>er_settled := er_settled report @ [view]\<rparr>) w
      | (Inl error, w) \<Rightarrow>
          expire_each S rest now actor (report\<lparr>er_pending := er_pending report @ [(i, error)]\<rparr>) w)"

definition service_expire_due ::
    "('p, 'n) invitation_service \<Rightarrow> DateTime \<Rightarrow> AuditActor \<Rightarrow> 'p world \<Rightarrow>
     ExpiryReconciliationReport service_result \<times> 'p world" where
  "service_expire_due S now actor w =
     (let (report, w) = expire_each S (expired_n4_invitation_ids now (wo_db w)) now actor
            \<lparr>er_settled = [], er_pending = []\<rparr> w
      in (Inr report, w))"

section \<open>The service respects every relation the writes respect\<close>

context n4_preorder
begin

lemma store_le:
  "le db (snd (issue_n4_invitation A E v c now actor db))"
  "le db (snd (reserve_n4_redemption E q i rv s now p actor db))"
  "le db (snd (begin_n4_credential_dispatch_with_authorization E s now db))"
  "le db (snd (confirm_n4_credential E s confirmation actor db))"
  "le db (snd (fail_n4_credential_dispatch E s failure now actor db))"
  "le db (snd (prepare_n4_revocation E i now actor db))"
  "le db (snd (prepare_n4_expiry E i now actor db))"
  "le db (snd (settle_n4_credential_invalidation target outcome now actor db))"
  using step_le [of db A E "CallIssue v c now actor"] step_le [of db A E "CallReserve q i rv s now p actor"]
    step_le [of db A E "CallBeginAuthorized s now"] step_le [of db A E "CallConfirm s confirmation actor"]
    step_le [of db A E "CallFail s failure now actor"] step_le [of db A E "CallRevoke i now actor"]
    step_le [of db A E "CallExpire i now actor"] step_le [of db A E "CallSettle target outcome now actor"]
  by (simp_all add: accepted_def)

definition follows :: "'p world \<Rightarrow> 'p world \<Rightarrow> bool" where
  "follows w w' \<longleftrightarrow> le (wo_db w) (wo_db w')"

lemma follows_refl: "follows w w" by (simp add: follows_def le_refl)

lemma follows_on_db: "follows w0 w \<Longrightarrow> (\<And>db. le db (snd (f db))) \<Longrightarrow> follows w0 (snd (on_db f w))"
  unfolding follows_def on_db_def by (simp split: prod.splits) (metis snd_conv le_trans)

lemma follows_execute: "follows w0 w \<Longrightarrow> follows w0 (snd (execute_mutation S authorization m w))"
  by (simp add: follows_def execute_mutation_def split: prod.splits)

lemma follows_result:
  "follows w0 (snd r) \<Longrightarrow> (\<And>e w. follows w0 w \<Longrightarrow> follows w0 (snd (f e w))) \<Longrightarrow>
   (\<And>x w. follows w0 w \<Longrightarrow> follows w0 (snd (g x w))) \<Longrightarrow>
   follows w0 (snd (case r of (a, w) \<Rightarrow> (case a of Inl e \<Rightarrow> f e w | Inr x \<Rightarrow> g x w)))"
  by (auto split: prod.splits sum.splits)

lemma follows_prod:
  "follows w0 (snd r) \<Longrightarrow> (\<And>x w. follows w0 w \<Longrightarrow> follows w0 (snd (h x w))) \<Longrightarrow>
   follows w0 (snd (case r of (x, w) \<Rightarrow> h x w))"
  by (cases r) auto

lemma follows_pair: "follows w0 w \<Longrightarrow> follows w0 (snd (x, w))" by simp

lemma follows_sum:
  "(\<And>e. follows w0 (snd (f e))) \<Longrightarrow> (\<And>x. follows w0 (snd (g x))) \<Longrightarrow>
   follows w0 (snd (case r of Inl e \<Rightarrow> f e | Inr x \<Rightarrow> g x))"
  by (cases r) auto

lemma follows_option:
  "follows w0 (snd f) \<Longrightarrow> (\<And>x. follows w0 (snd (g x))) \<Longrightarrow>
   follows w0 (snd (case r of None \<Rightarrow> f | Some x \<Rightarrow> g x))"
  by (cases r) auto

lemma follows_if: "follows w0 (snd f) \<Longrightarrow> follows w0 (snd g) \<Longrightarrow> follows w0 (snd (if c then f else g))"
  by simp

lemma follows_pure_pair:
  "(\<And>a b. follows w0 (snd (f a b))) \<Longrightarrow> follows w0 (snd (case p of (a, b) \<Rightarrow> f a b))"
  by (cases p) auto

lemmas follows_rules =
  follows_result follows_prod follows_pure_pair follows_pair follows_sum follows_option follows_if
  follows_on_db follows_execute store_le

lemma follows_failure:
  "follows w0 w \<Longrightarrow> follows w0 (snd (record_dispatch_failure S s failure now actor w))"
  unfolding record_dispatch_failure_def Let_def by (intro follows_rules)

lemma follows_give_up: "follows w0 w \<Longrightarrow> follows w0 (snd (give_up S s failure e now actor w))"
  unfolding give_up_def Let_def by (intro follows_rules follows_failure)

lemma follows_confirm:
  "follows w0 w \<Longrightarrow> follows w0 (snd (confirm_issued S i reservation issued c tags actor now w))"
  unfolding confirm_issued_def Let_def
  by (rule follows_result, intro follows_on_db store_le)
    (auto intro!: follows_pair follows_failure follows_execute split: sum.splits)

lemma follows_redeem_outcome:
  "follows w0 w \<Longrightarrow> follows w0 (snd (redeem_outcome S i reservation c tags actor now out w))"
  unfolding redeem_outcome_def Let_def
  by (cases out rule: MutationOutcome.exhaust)
    (auto intro!: follows_give_up follows_confirm split: MutationEvidence.splits)

lemma follows_redeem_dispatched:
  "follows w0 w \<Longrightarrow> follows w0 (snd (redeem_dispatched S i reservation d a c tags actor now w))"
  unfolding redeem_dispatched_def Let_def
  by (intro follows_rules follows_give_up follows_redeem_outcome)

lemma follows_redeem: "follows w0 w \<Longrightarrow> follows w0 (snd (service_redeem S rq ids now w))"
  unfolding service_redeem_def Let_def by (intro follows_rules follows_redeem_dispatched)

lemma follows_create: "follows w0 w \<Longrightarrow> follows w0 (snd (service_create S rq i secret salt now w))"
  unfolding service_create_def by (intro follows_rules)

lemma follows_cleanup: "follows w0 w \<Longrightarrow> follows w0 (snd (complete_cleanup S target now actor w))"
  unfolding complete_cleanup_def Let_def by (intro follows_rules)

lemma follows_revoke: "follows w0 w \<Longrightarrow> follows w0 (snd (service_revoke S i now actor w))"
  unfolding service_revoke_def by (intro follows_rules follows_cleanup)

lemma follows_expire: "follows w0 w \<Longrightarrow> follows w0 (snd (service_expire S i now actor w))"
  unfolding service_expire_def by (intro follows_rules follows_cleanup)

lemma follows_expire_each: "follows w0 w \<Longrightarrow> follows w0 (snd (expire_each S is now actor report w))"
proof (induction "is" arbitrary: report w)
  case (Cons i rest)
  then show ?case by (simp only: expire_each.simps) (intro follows_result follows_expire; simp)
qed simp

lemma follows_expire_due: "follows w0 w \<Longrightarrow> follows w0 (snd (service_expire_due S now actor w))"
  unfolding service_expire_due_def Let_def by (intro follows_prod follows_pair follows_expire_each)

end

section \<open>The provider calls of a redemption\<close>

fun creates_credential :: "ProviderMutation \<Rightarrow> bool" where
  "creates_credential (MutateCreateCredential _) = True"
| "creates_credential _ = False"

definition creates :: "'p world \<Rightarrow> nat" where
  "creates w = length (filter creates_credential (wo_sent w))"

lemma on_db_world [simp]:
  "wo_sent (snd (on_db f w)) = wo_sent w" "wo_provider (snd (on_db f w)) = wo_provider w"
  "fst (on_db f w) = fst (f (wo_db w))" "wo_db (snd (on_db f w)) = snd (f (wo_db w))"
  by (simp_all add: on_db_def split: prod.splits)

lemma creates_on_db [simp]: "creates (snd (on_db f w)) = creates w"
  by (simp add: creates_def)

lemma creates_execute [simp]:
  "creates (snd (execute_mutation S a m w)) = creates w + (if creates_credential m then 1 else 0)"
  by (simp add: creates_def execute_mutation_def split: prod.splits)

lemma execute_db [simp]: "wo_db (snd (execute_mutation S a m w)) = wo_db w"
  by (simp add: execute_mutation_def split: prod.splits)

lemma creates_give_up [simp]: "creates (snd (give_up S s failure e now actor w)) = creates w"
  by (simp add: give_up_def record_dispatch_failure_def case_prod_beta Let_def)

lemma creates_confirm [simp]:
  "creates (snd (confirm_issued S i reservation issued c tags actor now w)) = creates w"
  unfolding confirm_issued_def Let_def
  by (simp add: record_dispatch_failure_def case_prod_beta Let_def split: sum.splits)

lemma creates_redeem_outcome [simp]:
  "creates (snd (redeem_outcome S i reservation c tags actor now out w)) = creates w"
  unfolding redeem_outcome_def Let_def by (simp split: MutationOutcome.splits MutationEvidence.splits)

lemma creates_redeem_dispatched:
  "creates (snd (redeem_dispatched S i reservation d a c tags actor now w)) \<le> creates w + 1"
  unfolding redeem_dispatched_def Let_def by (simp add: case_prod_beta)

lemma creates_cleanup [simp]: "creates (snd (complete_cleanup S target now actor w)) = creates w"
  unfolding complete_cleanup_def Let_def by (simp add: case_prod_beta split: option.splits sum.splits)

lemma creates_revoke [simp]: "creates (snd (service_revoke S i now actor w)) = creates w"
  unfolding service_revoke_def by (simp add: case_prod_beta split: sum.splits)

lemma creates_expire [simp]: "creates (snd (service_expire S i now actor w)) = creates w"
  unfolding service_expire_def by (simp add: case_prod_beta split: sum.splits)

lemma creates_expire_each [simp]: "creates (snd (expire_each S is now actor report w)) = creates w"
proof (induction "is" arbitrary: report w)
  case (Cons i rest)
  have "creates (snd (service_expire S i now actor w)) = creates w" by simp
  then show ?case using Cons.IH
    by (cases "service_expire S i now actor w"; cases "fst (service_expire S i now actor w)") simp_all
qed simp

lemma creates_expire_due [simp]: "creates (snd (service_expire_due S now actor w)) = creates w"
  by (simp add: service_expire_due_def case_prod_beta Let_def)

lemma creates_create [simp]: "creates (snd (service_create S rq i secret salt now w)) = creates w"
  unfolding service_create_def by (simp add: case_prod_beta split: sum.splits prod.splits)

section \<open>Runs of the service\<close>

datatype service_call =
    SvcCreate CreateInvitationRequest InvitationId "u8 list" "u8 list" DateTime
  | SvcRedeem redeem_request redeem_ids DateTime
  | SvcRevoke InvitationId DateTime AuditActor
  | SvcExpire InvitationId DateTime AuditActor
  | SvcExpireDue DateTime AuditActor

fun service_step :: "('p, 'n) invitation_service \<Rightarrow> service_call \<Rightarrow> 'p world \<Rightarrow> bool \<times> 'p world" where
  "service_step S (SvcCreate rq i secret salt now) w =
     (let (r, w) = service_create S rq i secret salt now w in (is_ok r, w))"
| "service_step S (SvcRedeem rq ids now) w =
     (let (r, w) = service_redeem S rq ids now w in (is_ok r, w))"
| "service_step S (SvcRevoke i now actor) w =
     (let (r, w) = service_revoke S i now actor w in (is_ok r, w))"
| "service_step S (SvcExpire i now actor) w =
     (let (r, w) = service_expire S i now actor w in (is_ok r, w))"
| "service_step S (SvcExpireDue now actor) w =
     (let (r, w) = service_expire_due S now actor w in (is_ok r, w))"

text \<open>Each call with whether it succeeded and how many create calls it sent to the provider.\<close>

fun service_run ::
    "('p, 'n) invitation_service \<Rightarrow> service_call list \<Rightarrow> 'p world \<Rightarrow>
     (service_call \<times> bool \<times> nat) list \<times> 'p world" where
  "service_run S [] w = ([], w)"
| "service_run S (c # cs) w =
     (let (ok, w') = service_step S c w; (log, w'') = service_run S cs w'
      in ((c, ok, creates w' - creates w) # log, w''))"

fun redeems :: "InvitationId \<Rightarrow> service_call \<Rightarrow> bool" where
  "redeems i (SvcRedeem rq _ _) = (it_invitation_id (rq_token rq) = i)"
| "redeems i _ = False"

definition spent :: "InvitationId \<Rightarrow> 'p world \<Rightarrow> bool" where
  "spent i w \<longleftrightarrow> dispatch_for i (wo_db w) \<noteq> None"

lemma spent_step: "spent i w \<Longrightarrow> spent i (snd (service_step S c w))"
proof -
  have "dispatch_growth.follows w (snd (service_step S c w))"
    by (cases c) (simp_all add: case_prod_beta Let_def dispatch_growth.follows_create
        dispatch_growth.follows_redeem dispatch_growth.follows_revoke dispatch_growth.follows_expire
        dispatch_growth.follows_expire_due dispatch_growth.follows_refl)
  then show "spent i w \<Longrightarrow> spent i (snd (service_step S c w))"
    unfolding spent_def dispatch_growth.follows_def using dispatched_grow by blast
qed

lemma reserve_spends:
  assumes "reserve_n4_redemption E q i rv s now p actor db = (Inr out, db')"
  shows "dispatch_for i db = None \<and> dispatch_for i db' \<noteq> None"
  using reserve_once [of undefined E "CallReserve q i rv s now p actor" db True db' i] assms
  by (simp add: accepted_def)

lemma redeem_spends:
  assumes "service_redeem S rq ids now w = (r, w')" and i: "it_invitation_id (rq_token rq) = i"
  shows "(\<not> is_ok r \<and> creates w' = creates w) \<or>
    (\<not> spent i w \<and> spent i w' \<and> creates w' \<le> creates w + 1)"
proof (cases "reject_request S (rq_token rq) w")
  case (Inl e)
  with assms show ?thesis by (auto simp: service_redeem_def)
next
  case (Inr ct)
  then obtain candidate tags where ct: "ct = (candidate, tags)" by (cases ct)
  let ?op = "reserve_n4_redemption (is_env S) (ri_create_request_id ids) i (nc_revision candidate)
    (ri_join_session_id ids) now (rq_presented rq) (rq_actor rq)"
  obtain res w1 where res: "on_db ?op w = (res, w1)" by fastforce
  have w1: "wo_db w1 = snd (?op (wo_db w))" "res = fst (?op (wo_db w))" "creates w1 = creates w"
    using on_db_world [of ?op w] creates_on_db [of ?op w] res by auto
  show ?thesis
  proof (cases res)
    case (Inl e)
    then show ?thesis using assms Inr ct res w1(3) by (auto simp: service_redeem_def)
  next
    case (Inr reservation)
    then have unspent: "\<not> spent i w" "spent i w1"
      using reserve_spends [of "is_env S" "ri_create_request_id ids" i "nc_revision candidate"
          "ri_join_session_id ids" now "rq_presented rq" "rq_actor rq" "wo_db w" reservation "wo_db w1"] w1
      by (auto simp: spent_def prod_eq_iff)
    let ?fence = "begin_n4_credential_dispatch_with_authorization (is_env S) (ri_join_session_id ids) now"
    let ?rest = "case on_db ?fence w1 of
        (Inl e, w) \<Rightarrow> (Inl (map_state e), w)
      | (Inr (dispatch, authorization), w) \<Rightarrow>
          redeem_dispatched S i reservation dispatch authorization (ri_credential_id ids)
            tags (rq_actor rq) now w"
    have rest: "?rest = (r, w')"
      using assms \<open>reject_request S (rq_token rq) w = Inr ct\<close> ct res Inr by (simp add: service_redeem_def)
    have grown: "dispatch_growth.follows w1 (snd ?rest)"
      by (intro dispatch_growth.follows_rules dispatch_growth.follows_redeem_dispatched
          dispatch_growth.follows_refl)
    have "creates (snd ?rest) \<le> creates w1 + 1"
    proof (cases "on_db ?fence w1")
      case (Pair b w2)
      then have "creates w2 = creates w1" using creates_on_db [of ?fence w1] by simp
      with Pair creates_redeem_dispatched show ?thesis
        by (cases b) (auto split: prod.splits simp: le_Suc_eq simp del: One_nat_def
            intro: order_trans [OF creates_redeem_dispatched])
    qed
    moreover have "spent i w'"
      using grown rest unspent(2) unfolding spent_def dispatch_growth.follows_def
      by (metis dispatched_grow snd_conv)
    ultimately show ?thesis using rest unspent(1) w1(3) by simp
  qed
qed

definition create_weight :: "InvitationId \<Rightarrow> service_call \<times> bool \<times> nat \<Rightarrow> nat" where
  "create_weight i e = (case e of (c, ok, n) \<Rightarrow> if redeems i c then n else 0)"

definition delivery_weight :: "InvitationId \<Rightarrow> service_call \<times> bool \<times> nat \<Rightarrow> nat" where
  "delivery_weight i e = (case e of (c, ok, n) \<Rightarrow> if redeems i c \<and> ok then 1 else 0)"

lemma step_weights:
  assumes "service_step S c w = (ok, w')" "f = create_weight i \<or> f = delivery_weight i"
  shows "f (c, ok, creates w' - creates w) = 0 \<or>
    (\<not> spent i w \<and> spent i w' \<and> f (c, ok, creates w' - creates w) \<le> 1)"
proof (cases "redeems i c")
  case True
  then obtain rq ids now r where "service_redeem S rq ids now w = (r, w')"
      "it_invitation_id (rq_token rq) = i" "ok = is_ok r"
    using assms(1) by (cases c) (auto simp: Let_def split: prod.splits)
  from redeem_spends [OF this(1,2)] this(3) assms(2) show ?thesis
    by (auto simp: create_weight_def delivery_weight_def)
qed (use assms(2) in \<open>auto simp: create_weight_def delivery_weight_def\<close>)

lemma run_weights:
  assumes "f = create_weight i \<or> f = delivery_weight i"
  shows "service_run S calls w = (log, w') \<Longrightarrow> sum_list (map f log) \<le> (if spent i w then 0 else 1)"
proof (induction calls arbitrary: w log)
  case Nil
  then show ?case by simp
next
  case (Cons c cs)
  obtain ok w1 where s: "service_step S c w = (ok, w1)" by fastforce
  with Cons.prems obtain log' where log: "service_run S cs w1 = (log', w')"
      "log = (c, ok, creates w1 - creates w) # log'"
    by (auto simp: Let_def split: prod.splits)
  define m where "m = sum_list (map f log')"
  have "m \<le> (if spent i w1 then 0 else 1)" unfolding m_def by (rule Cons.IH [OF log(1)])
  moreover have "spent i w \<Longrightarrow> spent i w1" using spent_step [of i w S c] s by simp
  moreover have "sum_list (map f log) = f (c, ok, creates w1 - creates w) + m" by (simp add: log(2) m_def)
  ultimately show ?case
    using step_weights [OF s assms] by (cases "spent i w"; cases "spent i w1") auto
qed

lemma other_calls_send_none:
  "service_run S calls w = (log, w') \<Longrightarrow> (c, ok, n) \<in> set log \<Longrightarrow> \<forall>i. \<not> redeems i c \<Longrightarrow> n = 0"
proof (induction calls arbitrary: w log)
  case Nil
  then show ?case by simp
next
  case (Cons d cs)
  obtain ok1 w1 where s: "service_step S d w = (ok1, w1)" by fastforce
  with Cons.prems(1) obtain log' where log: "service_run S cs w1 = (log', w')"
      "log = (d, ok1, creates w1 - creates w) # log'"
    by (auto simp: Let_def split: prod.splits)
  have "creates w1 = creates w" if "\<forall>i. \<not> redeems i d"
  proof -
    have "creates (snd (service_step S d w)) = creates w"
      using that by (cases d) (simp_all add: case_prod_beta Let_def)
    with s show ?thesis by simp
  qed
  with Cons.IH [OF log(1)] Cons.prems(2,3) log(2) show ?case by auto
qed

text \<open>C1: One invitation, one credential. Over any sequence of calls to the invitation service,
  whatever the provider answers, the redemptions of an invitation together send the provider at
  most one request to create a credential and deliver at most one credential, and none once the
  invitation has a dispatch. No other call of the service ever sends such a request.\<close>
theorem one_credential_per_invitation:
  assumes "service_run S calls w = (log, w')"
  shows "sum_list (map (create_weight i) log) \<le> (if dispatch_for i (wo_db w) \<noteq> None then 0 else 1) \<and>
    sum_list (map (delivery_weight i) log) \<le> (if dispatch_for i (wo_db w) \<noteq> None then 0 else 1) \<and>
    (\<forall>(c, ok, n) \<in> set log. (\<forall>j. \<not> redeems j c) \<longrightarrow> n = 0)"
  using run_weights [OF _ assms, of "create_weight i" i] run_weights [OF _ assms, of "delivery_weight i" i]
    other_calls_send_none [OF assms]
  by (auto simp: spent_def split: if_splits)

section \<open>What each store call establishes\<close>

lemma update_for:
  assumes "update_dispatches P g a = Inr b" "dispatch_for i a = Some d"
  shows "dispatch_for i b = Some (if P d then g d else d)"
proof -
  have rows: "\<forall>r\<in>set (nd_dispatches a). P r \<longrightarrow> dispatch_update_ok r (g r)"
    "nd_dispatches b = map (\<lambda>r. if P r then g r else r) (nd_dispatches a)"
    using assms(1) by (auto simp: update_dispatches_def guard_simps)
  have "dp_invitation_id (if P r then g r else r) = dp_invitation_id r"
    if "r \<in> set (nd_dispatches a)" for r
    using rows(1) that by (auto simp: dispatch_update_ok_def dispatch_linkage_def)
  then show ?thesis using assms(2) unfolding dispatch_for_def rows(2)
    by (subst find_map_key) auto
qed

lemma update_keeps_check:
  assumes "update_dispatches P g a = Inr b" "d \<in> set (nd_dispatches a)" "P d"
  shows "dispatch_check (g d)"
  using assms by (auto simp: update_dispatches_def guard_simps dispatch_update_ok_def)

definition reserved_for :: "InvitationId \<Rightarrow> JoinSessionId \<Rightarrow> dispatch_row \<Rightarrow> n4_db \<Rightarrow> bool" where
  "reserved_for i s x db \<longleftrightarrow>
     dispatch_for i db = Some x \<and> dispatch_named s db = Some x \<and> dispatch_check x"

lemma reserve_establishes:
  assumes "reserve_n4_tx E q i rv s now p actor a = Inr (out, b)"
  shows "\<exists>r d x. n4_invitation i a = Some (r, d) \<and> in_state (iv_record r) = ISIssued \<and>
    now < in_expires_at (iv_record r) \<and> rv = word_of_int (de_revision d) \<and>
    reserved_for i s x b \<and> dp_state x = DispatchReserved \<and>
    re_join_session_id out = s \<and> re_invitation_id out = i \<and>
    re_network_id out = in_network_id (iv_record r) \<and> re_expires_at out = in_expires_at (iv_record r) \<and>
    nx_provider_principal_id (re_context out) = de_principal d \<and>
    nx_provider_instance_id (re_context out) = de_provider_instance_id d"
proof -
  have r: "\<exists>r d. n4_invitation i a = Some (r, d) \<and> in_state (iv_record r) = ISIssued \<and>
      now < in_expires_at (iv_record r) \<and> rv = word_of_int (de_revision d) \<and>
      re_join_session_id out = s \<and> re_invitation_id out = i \<and>
      re_network_id out = in_network_id (iv_record r) \<and> re_expires_at out = in_expires_at (iv_record r) \<and>
      nx_provider_principal_id (re_context out) = de_principal d \<and>
      nx_provider_instance_id (re_context out) = de_provider_instance_id d"
    using assms unfolding reserve_n4_tx_def Let_def
    by (clarsimp simp: guard_simps N4InvitationContext_new_def split: prod.splits if_splits)
  obtain x v t db1 db2 db3 db4 db5 k where
    steps: "insert_session t (set_invitation i v a) = Inr db1" "insert_dispatch x db1 = Inr db2"
      "update_details (\<lambda>q. de_invitation_id q = i \<and> de_revision q = uint rv) k db2 = Inr db3"
      "append_n4_audit i (Some s) (RedemptionOf s) actor ''invitation_redemption_started'' ''success'' db3
        = Inr db4"
      "append_n4_audit i (Some s) (RedemptionOf s) actor ''join_session_created'' ''success'' db4 = Inr db5"
      "b = db5"
    and x: "dp_invitation_id x = i" "dp_join_session_id x = s" "dp_state x = DispatchReserved"
    using assms unfolding reserve_n4_tx_def Let_def
    by (auto simp: guard_simps split: prod.splits if_splits)
  have b: "nd_dispatches b = nd_dispatches db2"
    using keeps_dispatches(2) [OF steps(3)] keeps_dispatches(1) [OF steps(4)]
      keeps_dispatches(1) [OF steps(5)] steps(6) by simp
  have "\<forall>q\<in>set (nd_dispatches db1). dp_invitation_id q \<noteq> i \<and> dp_join_session_id q \<noteq> s"
    "nd_dispatches db2 = nd_dispatches db1 @ [x]" "dispatch_check x"
    using steps(2) x by (auto simp: insert_dispatch_def guard_simps list_all_iff)
  moreover from this(1) have "find (\<lambda>q. dp_invitation_id q = i) (nd_dispatches db1) = None"
    "find (\<lambda>q. dp_join_session_id q = s) (nd_dispatches db1) = None"
    by (auto simp: find_None_iff)
  ultimately have "reserved_for i s x b"
    using x by (simp add: reserved_for_def dispatch_for_def dispatch_named_def b find_append_single)
  with r x(3) show ?thesis by fast
qed

lemma start_establishes:
  assumes "start_dispatch s session au cg h now a = Inr b" "reserved_for i s x a"
    "dp_state x = DispatchReserved"
  shows "\<exists>y. reserved_for i s y b \<and> dp_state y = DispatchStarted"
proof -
  obtain g t where u: "update_dispatches (\<lambda>r. dp_join_session_id r = s \<and> dp_state r = DispatchReserved)
      g (set_session t now a) = Inr b" "dp_state (g x) = DispatchStarted"
    using assms(1) by (auto simp: start_dispatch_def Let_def guard_simps)
  have x: "dispatch_named s a = Some x" "dispatch_for i a = Some x" "dp_join_session_id x = s"
      "x \<in> set (nd_dispatches a)"
    using assms(2) by (auto simp: reserved_for_def dispatch_named_def dest: find_Some_mem)
  have "dispatch_named s b = Some (g x)" using update_named [OF u(1)] x assms(3) by simp
  moreover have "dispatch_for i (set_session t now a) = Some x" using x by (simp add: dispatch_for_def)
  then have "dispatch_for i b = Some (g x)" using update_for [OF u(1)] x assms(3) by simp
  moreover have "dispatch_check (g x)" using update_keeps_check [OF u(1), of x] x assms(3) by simp
  ultimately show ?thesis using u(2) by (auto simp: reserved_for_def)
qed

lemma begin_establishes:
  assumes "begin_authorized_tx E s now a = Inr (da, b)" "reserved_for i s x a"
  shows "\<exists>y. reserved_for i s y b \<and> dp_state y = DispatchStarted"
proof -
  obtain r d session au cg h where n: "n4_dispatch s a = Some (r, d)" "dp_state d = DispatchReserved"
    and st: "start_dispatch s session au cg h now a = Inr b"
    using assms(1) by (auto simp: begin_authorized_tx_def guard_simps split: prod.splits)
  have "d = x" using n(1) assms(2) by (auto simp: n4_dispatch_def reserved_for_def split: option.splits)
  with start_establishes [OF st assms(2)] n(2) show ?thesis by simp
qed

lemma fail_establishes:
  assumes "fail_n4_tx E s failure now actor a = Inr (u, b)" "reserved_for i s x a"
  shows "\<exists>y. reserved_for i s y b \<and> dp_state y = failure_dispatch failure"
proof -
  obtain v k t db1 db2 m where
    steps: "update_dispatches (\<lambda>q. dp_join_session_id q = s)
        (\<lambda>q. q\<lparr>dp_state := failure_dispatch failure, dp_resolved_at_ms := Some (timestamp_millis now)\<rparr>)
        (set_session t now (store_invitation v k a)) = Inr db1"
      "append_n4_audit k (Some s) (CredentialFailure s) actor m ''failed'' db1 = Inr db2" "b = db2"
    using assms(1) unfolding fail_n4_tx_def Let_def
    by (auto simp: guard_simps split: prod.splits option.splits)
  let ?g = "\<lambda>q. q\<lparr>dp_state := failure_dispatch failure, dp_resolved_at_ms := Some (timestamp_millis now)\<rparr>"
  let ?a = "set_session t now (store_invitation v k a)"
  have same: "nd_dispatches ?a = nd_dispatches a" by (simp add: store_invitation_def)
  have x: "dispatch_named s a = Some x" "dispatch_for i a = Some x" "dp_join_session_id x = s"
      "x \<in> set (nd_dispatches a)"
    using assms(2) by (auto simp: reserved_for_def dispatch_named_def dest: find_Some_mem)
  have "dispatch_named s ?a = Some x" "dispatch_for i ?a = Some x"
    using x same by (simp_all add: dispatch_named_def dispatch_for_def)
  then have "dispatch_named s db1 = Some (?g x)" "dispatch_for i db1 = Some (?g x)"
    using update_named [OF steps(1)] update_for [OF steps(1)] x by simp_all
  moreover have "dispatch_check (?g x)" using update_keeps_check [OF steps(1), of x] x same by simp
  ultimately have "reserved_for i s (?g x) b"
    using keeps_dispatches(1) [OF steps(2)] steps(3)
    by (simp add: reserved_for_def dispatch_named_def dispatch_for_def)
  then show ?thesis by (intro exI [of _ "?g x"]) simp
qed

lemma details_kept:
  assumes "evidence_grows a b" "details_of i a \<noteq> None"
  shows "details_of i b \<noteq> None"
proof -
  obtain os ns where "nd_details b = os @ ns" "list_all2 detail_le (nd_details a) os"
    using assms(1) by (auto simp: evidence_grows_def details_grow_def)
  moreover have "list_all2 detail_le xs ys \<Longrightarrow> find (\<lambda>r. de_invitation_id r = i) xs \<noteq> None \<Longrightarrow>
      find (\<lambda>r. de_invitation_id r = i) (ys @ zs) \<noteq> None" for xs ys zs
    by (induction xs ys rule: list_all2_induct) (auto simp: detail_le_def split: if_splits)
  ultimately show ?thesis using assms(2) by (simp add: details_of_def)
qed

lemma fail_closes_invitation:
  assumes "fail_n4_tx E s failure now actor a = Inr (u, b)" "reserved_for i s x a" "details_of i a \<noteq> None"
  shows "\<exists>r d. n4_invitation i b = Some (r, d) \<and> in_state (iv_record r) = ISFailed \<and>
    iv_state r = ISFailed"
proof -
  obtain d v t db1 db2 m where d: "dispatch_named s a = Some d"
      "invitation_named (dp_invitation_id d) a = Some v" and
    steps: "update_dispatches (\<lambda>q. dp_join_session_id q = s)
        (\<lambda>q. q\<lparr>dp_state := failure_dispatch failure, dp_resolved_at_ms := Some (timestamp_millis now)\<rparr>)
        (set_session t now (store_invitation ((iv_record v)\<lparr>in_state := ISFailed\<rparr>) (dp_invitation_id d) a))
          = Inr db1"
      "append_n4_audit (dp_invitation_id d) (Some s) (CredentialFailure s) actor m ''failed'' db1 = Inr db2"
      "b = db2"
    using assms(1) unfolding fail_n4_tx_def Let_def
    by (auto simp: guard_simps n4_dispatch_def split: prod.splits option.splits)
  have i: "dp_invitation_id d = i"
    using d(1) assms(2) by (auto simp: reserved_for_def dispatch_for_def dest: find_Some_mem)
  have inv: "nd_invitations b = map (\<lambda>r. if iv_invitation_id r = i
      then r\<lparr>iv_state := ISFailed, iv_record := (iv_record v)\<lparr>in_state := ISFailed\<rparr>\<rparr> else r) (nd_invitations a)"
    and det: "nd_details b = nd_details a"
    using steps append_n4_audit_cases [OF steps(2)] i
    by (auto simp: update_dispatches_def guard_simps set_session_def store_invitation_def set_invitation_def)
  have "invitation_named i b = Some (v\<lparr>iv_state := ISFailed, iv_record := (iv_record v)\<lparr>in_state := ISFailed\<rparr>\<rparr>)"
    using d(2) find_Some_mem [OF d(2) [unfolded invitation_named_def]] unfolding i invitation_named_def inv
    by (subst find_map_key) auto
  moreover obtain e where "details_of i b = Some e" using assms(3) det by (auto simp: details_of_def)
  ultimately show ?thesis by (auto simp: n4_invitation_def)
qed

lemma map_state_range: "map_state e \<in> {NotFound, ServiceConflict, ServiceUnavailable}"
  by (cases e) simp_all

definition provider_error :: "InvitationServiceError \<Rightarrow> bool" where
  "provider_error e \<longleftrightarrow>
     e \<in> {ProviderUnavailable, ProviderRejected, AuthenticationFailed, CompatibilityBlocked}"

lemma provider_error_not_state: "\<not> provider_error (map_state e)" "\<not> provider_error AmbiguousOutcome"
  using map_state_range [of e] by (auto simp: provider_error_def)

lemma give_up_recorded:
  assumes "give_up S s failure e now actor w = (Inl e', w')" "provider_error e'"
  shows "\<exists>u. fail_n4_tx (is_env S) s failure now actor (wo_db w) = Inr (u, wo_db w')"
  using assms provider_error_not_state
  by (auto simp: give_up_def record_dispatch_failure_def on_db_def fail_n4_credential_dispatch_def
      transactional_def Let_def guard_simps split: prod.splits sum.splits)

lemma outcome_gives_up:
  assumes "redeem_outcome S i reservation c tags actor now out w = (Inl e, w')" "provider_error e"
  shows "\<exists>e'. give_up S (re_join_session_id reservation) DefiniteNoApply e' now actor w =
    ((Inl e, w') :: ProviderCredentialDelivery service_result \<times> 'p world)"
proof -
  have amb: False if "give_up S s AmbiguousDispatch AmbiguousOutcome now actor w = (Inl e, w')" for s
    using that assms(2)
    by (auto simp: give_up_def record_dispatch_failure_def Let_def guard_simps provider_error_not_state
        split: prod.splits)
  have conf: False if "confirm_issued S i reservation issued c tags actor now w = (Inl e, w')" for issued
    using that assms(2)
    by (auto simp: confirm_issued_def Let_def provider_error_not_state split: prod.splits sum.splits)
  show ?thesis
    using assms(1) amb conf unfolding redeem_outcome_def Let_def
    by (auto split: MutationOutcome.splits MutationEvidence.splits if_splits)
qed

definition calm :: "'a service_result \<Rightarrow> bool" where
  "calm r \<longleftrightarrow> (\<forall>e. r = Inl e \<longrightarrow> \<not> provider_error e)"

lemma calm_rules:
  "calm (Inr x)"
  "calm (map_err map_state q)"
  "calm (ensure c ServiceConflict)"
  "calm (ensure c InvalidRequest)"
  "calm (closed_tags roles)"
proof -
  have "\<not> provider_error ServiceConflict" "\<not> provider_error InvalidRequest"
    by (simp_all add: provider_error_def)
  then show "calm (Inr x)" "calm (map_err map_state q)" "calm (ensure c ServiceConflict)"
    "calm (ensure c InvalidRequest)" "calm (closed_tags roles)"
    by (auto simp: calm_def guard_simps provider_error_not_state closed_tags_def Let_def)
qed

lemma calm_bind: "calm r \<Longrightarrow> (\<And>x. calm (f x)) \<Longrightarrow> calm (and_then r f)"
  by (auto simp: calm_def guard_simps)

lemma reject_calm: "calm (reject_request S token w)"
  unfolding reject_request_def service_show_def by (intro calm_bind calm_rules)

text \<open>A redemption that got past the store's reservation and fence, in the steps it took.\<close>

definition dispatched_world ::
    "('p, 'n) invitation_service \<Rightarrow> redeem_request \<Rightarrow> redeem_ids \<Rightarrow> DateTime \<Rightarrow> 'p world \<Rightarrow>
     N4InvitationCandidate \<Rightarrow> N4RedemptionReservation \<Rightarrow> N4CredentialDispatch \<Rightarrow> MutationAuthorization \<Rightarrow>
     'p world \<Rightarrow> bool" where
  "dispatched_world S rq ids now w candidate reservation dispatch authorization w2 \<longleftrightarrow>
     (\<exists>db1. reserve_n4_tx (is_env S) (ri_create_request_id ids) (it_invitation_id (rq_token rq))
        (nc_revision candidate) (ri_join_session_id ids) now (rq_presented rq) (rq_actor rq) (wo_db w) =
          Inr (reservation, db1) \<and>
        begin_authorized_tx (is_env S) (ri_join_session_id ids) now db1 =
          Inr ((dispatch, authorization), wo_db w2)) \<and>
     wo_provider w2 = wo_provider w \<and> wo_sent w2 = wo_sent w"

lemma redeem_steps:
  assumes "service_redeem S rq ids now w = (res, w')"
  obtains (early) e where "res = Inl e" "\<not> provider_error e"
  | (late) candidate tags reservation dispatch authorization w2 where
      "reject_request S (rq_token rq) w = Inr (candidate, tags)"
      "dispatched_world S rq ids now w candidate reservation dispatch authorization w2"
      "redeem_dispatched S (it_invitation_id (rq_token rq)) reservation dispatch authorization
        (ri_credential_id ids) tags (rq_actor rq) now w2 = (res, w')"
proof (cases "reject_request S (rq_token rq) w")
  case (Inl e)
  then have "\<not> provider_error e" using reject_calm [of S "rq_token rq" w] by (simp add: calm_def)
  with Inl assms early show ?thesis by (auto simp: service_redeem_def)
next
  case (Inr ct)
  then obtain candidate tags where ct: "reject_request S (rq_token rq) w = Inr (candidate, tags)"
    by (cases ct) auto
  let ?tx = "reserve_n4_tx (is_env S) (ri_create_request_id ids) (it_invitation_id (rq_token rq))
    (nc_revision candidate) (ri_join_session_id ids) now (rq_presented rq) (rq_actor rq) (wo_db w)"
  show ?thesis
  proof (cases ?tx)
    case (Inl e)
    then show ?thesis using assms ct early [of "map_state e"]
      by (simp add: service_redeem_def on_db_def reserve_n4_redemption_def transactional_def
          provider_error_not_state)
  next
    case (Inr r1)
    then obtain reservation db1 where r1: "?tx = Inr (reservation, db1)" by (cases r1) auto
    let ?bx = "begin_authorized_tx (is_env S) (ri_join_session_id ids) now db1"
    show ?thesis
    proof (cases ?bx)
      case (Inl e)
      then show ?thesis using assms ct r1 early [of "map_state e"]
        by (simp add: service_redeem_def on_db_def reserve_n4_redemption_def transactional_def
            begin_n4_credential_dispatch_with_authorization_def provider_error_not_state)
    next
      case (Inr r2)
      then obtain dispatch authorization db2 where r2: "?bx = Inr ((dispatch, authorization), db2)"
        by (cases r2) auto
      have "dispatched_world S rq ids now w candidate reservation dispatch authorization (w\<lparr>wo_db := db2\<rparr>)"
        using r1 r2 by (simp add: dispatched_world_def)
      moreover have "redeem_dispatched S (it_invitation_id (rq_token rq)) reservation dispatch authorization
          (ri_credential_id ids) tags (rq_actor rq) now (w\<lparr>wo_db := db2\<rparr>) = (res, w')"
        using assms ct r1 r2
        by (simp add: service_redeem_def on_db_def reserve_n4_redemption_def transactional_def
            begin_n4_credential_dispatch_with_authorization_def)
      ultimately show ?thesis using late [OF ct] by blast
    qed
  qed
qed

lemma dispatched_establishes:
  assumes "dispatched_world S rq ids now w candidate reservation dispatch authorization w2"
  shows "\<exists>r d y. n4_invitation (it_invitation_id (rq_token rq)) (wo_db w) = Some (r, d) \<and>
    in_state (iv_record r) = ISIssued \<and> now < in_expires_at (iv_record r) \<and>
    reserved_for (it_invitation_id (rq_token rq)) (ri_join_session_id ids) y (wo_db w2) \<and>
    dp_state y = DispatchStarted \<and> re_join_session_id reservation = ri_join_session_id ids \<and>
    re_expires_at reservation = in_expires_at (iv_record r) \<and>
    nx_provider_principal_id (re_context reservation) = de_principal d \<and>
    details_of (it_invitation_id (rq_token rq)) (wo_db w2) \<noteq> None"
proof -
  obtain db1 where r: "reserve_n4_tx (is_env S) (ri_create_request_id ids) (it_invitation_id (rq_token rq))
        (nc_revision candidate) (ri_join_session_id ids) now (rq_presented rq) (rq_actor rq) (wo_db w) =
          Inr (reservation, db1)"
    and b: "begin_authorized_tx (is_env S) (ri_join_session_id ids) now db1 =
          Inr ((dispatch, authorization), wo_db w2)"
    using assms by (auto simp: dispatched_world_def)
  from reserve_establishes [OF r] obtain r' d x where
    f: "n4_invitation (it_invitation_id (rq_token rq)) (wo_db w) = Some (r', d)"
      "in_state (iv_record r') = ISIssued" "now < in_expires_at (iv_record r')"
      "reserved_for (it_invitation_id (rq_token rq)) (ri_join_session_id ids) x db1"
      "re_join_session_id reservation = ri_join_session_id ids"
      "re_expires_at reservation = in_expires_at (iv_record r')"
      "nx_provider_principal_id (re_context reservation) = de_principal d" by blast
  have "details_of (it_invitation_id (rq_token rq)) (wo_db w) \<noteq> None"
    using f(1) by (auto simp: n4_invitation_def split: option.splits)
  moreover have "evidence_grows (wo_db w) db1"
    using evidence_growth.reserve_le r unfolding evidence_growth.answers_def by blast
  moreover have "evidence_grows db1 (wo_db w2)"
    using evidence_growth.begin_authorized_le b unfolding evidence_growth.answers_def by blast
  ultimately have "details_of (it_invitation_id (rq_token rq)) (wo_db w2) \<noteq> None"
    using details_kept by blast
  with begin_establishes [OF b f(4)] f show ?thesis by blast
qed

text \<open>
  The cleanups of an invitation that \<open>failed_redemptions_never_close\<close> covers, through the
  service: both fail without touching the world.
\<close>

lemma service_cleanup_stuck:
  assumes "\<And>t. \<exists>e. prepare_n4_revocation (is_env S) i t actor (wo_db w) = (Inl e, wo_db w)"
    and "\<And>t. \<exists>e. prepare_n4_expiry (is_env S) i t actor (wo_db w) = (Inl e, wo_db w)"
  shows "(\<exists>e. service_revoke S i t actor w = (Inl e, w)) \<and> (\<exists>e. service_expire S i t actor w = (Inl e, w))"
proof -
  obtain e f where "prepare_n4_revocation (is_env S) i t actor (wo_db w) = (Inl e, wo_db w)"
      "prepare_n4_expiry (is_env S) i t actor (wo_db w) = (Inl f, wo_db w)"
    using assms [of t] by blast
  then show ?thesis
    by (cases "service_show S i w") (simp_all add: service_revoke_def service_expire_def on_db_def)
qed

text \<open>C31: When a redemption ends in a refusal of the provider - unavailable, rejected, not
  authenticated or incompatible - its invitation can never be settled again: at any later time
  every revocation and every expiry of it fails and changes nothing, because the failed dispatch
  it left has no transition to a closed one.\<close>
theorem refused_redemptions_never_settle:
  assumes "service_redeem S rq ids now w = (Inl e, w')" "provider_error e"
  shows "(\<exists>f. service_revoke S (it_invitation_id (rq_token rq)) t actor w' = (Inl f, w')) \<and>
    (\<exists>f. service_expire S (it_invitation_id (rq_token rq)) t actor w' = (Inl f, w'))"
proof -
  let ?i = "it_invitation_id (rq_token rq)" and ?s = "ri_join_session_id ids"
  from assms(1) obtain candidate tags reservation dispatch authorization w2 where
    d: "dispatched_world S rq ids now w candidate reservation dispatch authorization w2"
    and r: "redeem_dispatched S ?i reservation dispatch authorization (ri_credential_id ids) tags
      (rq_actor rq) now w2 = (Inl e, w')"
    using assms(2) by (cases rule: redeem_steps) auto
  from dispatched_establishes [OF d] obtain y where y: "reserved_for ?i ?s y (wo_db w2)"
      "re_join_session_id reservation = ?s" "details_of ?i (wo_db w2) \<noteq> None" by blast
  obtain out w3 where o: "redeem_outcome S ?i reservation (ri_credential_id ids) tags (rq_actor rq) now out w3
      = (Inl e, w')" and w3: "wo_db w3 = wo_db w2"
  proof (cases "cd_invitation_id dispatch \<noteq> re_invitation_id reservation \<or>
      cd_network_id dispatch \<noteq> re_network_id reservation \<or> cd_context dispatch \<noteq> re_context reservation")
    case True
    then have "redeem_outcome S ?i reservation (ri_credential_id ids) tags (rq_actor rq) now OutAmbiguous w2
        = (Inl e, w')"
      using r by (simp add: redeem_dispatched_def redeem_outcome_def)
    then show ?thesis using that by blast
  next
    case False
    then show ?thesis using r that execute_db
      by (simp add: redeem_dispatched_def Let_def case_prod_beta)
  qed
  obtain e' where "give_up S ?s DefiniteNoApply e' (now :: int) (rq_actor rq) w3 =
      (Inl e :: ProviderCredentialDelivery service_result, w')"
    using outcome_gives_up [OF o assms(2)] y(2) by auto
  then obtain u where f: "fail_n4_tx (is_env S) ?s DefiniteNoApply now (rq_actor rq) (wo_db w2) = Inr (u, wo_db w')"
    using give_up_recorded assms(2) w3 by fastforce
  from fail_establishes [OF f y(1)] obtain x where x: "reserved_for ?i ?s x (wo_db w')"
      "dp_state x = FailedNoApply" by auto
  from fail_closes_invitation [OF f y(1,3)] obtain v d where v: "n4_invitation ?i (wo_db w') = Some (v, d)"
      "in_state (iv_record v) = ISFailed" by blast
  have "(\<exists>e. prepare_n4_revocation (is_env S) ?i t actor (wo_db w') = (Inl e, wo_db w')) \<and>
      (\<exists>e. prepare_n4_expiry (is_env S) ?i t actor (wo_db w') = (Inl e, wo_db w'))" for t
    using unclosable_invitation [OF v(1), of x "is_env S" t actor] v(2) x by (simp add: reserved_for_def)
  then show ?thesis by (intro service_cleanup_stuck) blast+
qed

section \<open>Deliveries\<close>

lemma keeps_references:
  "append_n4_audit i t action actor kind outcome db = Inr db' \<Longrightarrow> nd_references db' = nd_references db"
  "update_details Q k db = Inr db' \<Longrightarrow> nd_references db' = nd_references db"
  "insert_metadata m db = Inr db' \<Longrightarrow> nd_references db' = nd_references db"
  "update_dispatches P g db = Inr db' \<Longrightarrow> nd_references db' = nd_references db"
  "nd_references (set_invitation i f db) = nd_references db"
  "nd_references (set_session session now db) = nd_references db"
  by (auto simp: n4_write_defs update_dispatches_def guard_simps split: if_splits dest!: append_n4_audit_cases)

lemma confirm_establishes:
  assumes "confirm_n4_tx E s confirmation actor a = Inr (u, b)" "reserved_for i s x a"
  shows "\<exists>y ref. reserved_for i s y b \<and> dp_state y = DispatchConfirmed \<and>
    dp_credential_id y = Some (co_credential_id confirmation) \<and>
    reference_of (co_credential_id confirmation) b = Some ref \<and>
    cr_provider_reference ref = co_provider_reference confirmation \<and> cr_max_uses ref = 1 \<and>
    cr_expires_at_ms ref = timestamp_millis (co_expires_at confirmation)"
proof -
  let ?g = "\<lambda>q. q\<lparr>dp_state := DispatchConfirmed, dp_credential_id := Some (co_credential_id confirmation),
    dp_resolved_at_ms := Some (timestamp_millis (co_confirmed_at confirmation))\<rparr>"
  obtain r d cr db1 db2 m db3 j v k db4 t n db5 db6 where n: "n4_dispatch s a = Some (r, d)"
      "dp_state d = DispatchStarted"
    and steps: "insert_reference cr a = Inr db1"
      "update_dispatches (\<lambda>q. dp_join_session_id q = s \<and> dp_state q = DispatchStarted) ?g db1 = Inr db2"
      "insert_metadata m db2 = Inr db3"
      "update_details (\<lambda>q. de_invitation_id q = dp_invitation_id d) k (set_invitation j v db3) = Inr db4"
      "append_n4_audit (dp_invitation_id d) (Some s) (CredentialConfirm s) actor ''invitation_redeemed''
        ''success'' (set_session t n db4) = Inr db5"
      "append_n4_audit (dp_invitation_id d) (Some s) (CredentialConfirm s) actor
        ''provider_join_credential_issued'' ''success'' db5 = Inr db6" "b = db6"
    and cr: "cr_credential_id cr = co_credential_id confirmation"
      "cr_provider_reference cr = co_provider_reference confirmation" "cr_max_uses cr = 1"
      "cr_expires_at_ms cr = timestamp_millis (co_expires_at confirmation)"
    using assms(1) unfolding confirm_n4_tx_def Let_def
    by (auto simp: guard_simps split: prod.splits option.splits)
  have x: "dispatch_named s a = Some x" "dispatch_for i a = Some x" "dp_join_session_id x = s"
      "x \<in> set (nd_dispatches a)" "d = x"
    using assms(2) n(1)
    by (auto simp: reserved_for_def dispatch_named_def n4_dispatch_def dest: find_Some_mem split: option.splits)
  have same: "nd_dispatches db1 = nd_dispatches a" by (rule keeps_dispatches(4) [OF steps(1)])
  then have "dispatch_named s db1 = Some x" "dispatch_for i db1 = Some x"
    using x by (simp_all add: dispatch_named_def dispatch_for_def)
  then have "dispatch_named s db2 = Some (?g x)" "dispatch_for i db2 = Some (?g x)"
    using update_named [OF steps(2)] update_for [OF steps(2)] x n(2) by simp_all
  moreover have "dispatch_check (?g x)" using update_keeps_check [OF steps(2), of x] x n(2) same by simp
  moreover have "nd_dispatches b = nd_dispatches db2"
    using keeps_dispatches(3) [OF steps(3)] keeps_dispatches(2) [OF steps(4)]
      keeps_dispatches(1) [OF steps(5)] keeps_dispatches(1) [OF steps(6)] steps(7) by simp
  ultimately have y: "reserved_for i s (?g x) b"
    by (simp add: reserved_for_def dispatch_named_def dispatch_for_def)
  have "nd_references b = nd_references db1"
    using keeps_references(3) [OF steps(3)] keeps_references(2) [OF steps(4)]
      keeps_references(1) [OF steps(5)] keeps_references(1) [OF steps(6)]
      keeps_references(4) [OF steps(2)] steps(7) by (simp add: keeps_references(5,6))
  moreover have "nd_references db1 = nd_references a @ [cr]"
    "find (\<lambda>q. cr_credential_id q = cr_credential_id cr) (nd_references a) = None"
    using steps(1) by (auto simp: insert_reference_def find_None_iff list_ex_iff split: if_splits)
  ultimately have "reference_of (co_credential_id confirmation) b = Some cr"
    using cr(1) by (simp add: reference_of_def find_append_single)
  with y cr show ?thesis by (intro exI [of _ "?g x"] exI [of _ cr]) simp
qed

lemma confirmed_delivery:
  assumes "redeem_outcome S i reservation c tags actor now out w = (Inr delivery, w')"
  shows "\<exists>issued confirmation u. out = OutConfirmed (JoinCredentialIssued issued) \<and>
    ij_max_uses issued = 1 \<and> now < ij_expires_at issued \<and>
    ij_expires_at issued \<le> re_expires_at reservation \<and>
    confirm_n4_tx (is_env S) (re_join_session_id reservation) confirmation actor (wo_db w) = Inr (u, wo_db w') \<and>
    co_credential_id confirmation = c \<and> co_provider_reference confirmation = ij_provider_reference issued \<and>
    co_expires_at confirmation = ij_expires_at issued \<and>
    wo_sent w' = wo_sent w \<and> wo_provider w' = wo_provider w \<and>
    delivery = \<lparr>pd_receipt = \<lparr>rr_invitation_id = i, rr_join_session_id = re_join_session_id reservation,
        rr_credential_id = c, rr_expires_at = ij_expires_at issued, rr_max_uses = ij_max_uses issued\<rparr>,
      pd_secret = ij_secret issued\<rparr>"
proof -
  have none: "give_up S s failure e now actor w \<noteq> (Inr delivery, w')" for s failure e
    by (auto simp: give_up_def guard_simps Let_def split: prod.splits)
  obtain issued where o: "out = OutConfirmed (JoinCredentialIssued issued)"
      "ij_max_uses issued = 1" "now < ij_expires_at issued" "ij_expires_at issued \<le> re_expires_at reservation"
    and c: "confirm_issued S i reservation issued c tags actor now w = (Inr delivery, w')"
    using assms none unfolding redeem_outcome_def Let_def
    by (auto split: MutationOutcome.splits MutationEvidence.splits if_splits)
  from c o show ?thesis
    by (auto simp: confirm_issued_def on_db_def confirm_n4_credential_def transactional_def Let_def
        split: prod.splits sum.splits if_splits)
qed

lemma candidate_row:
  assumes "n4_invitation_candidate E i db = Inr candidate"
  shows "\<exists>r d. n4_invitation i db = Some (r, d) \<and> nc_verifier candidate = in_secret_verifier (iv_record r) \<and>
    nc_invitation_id candidate = i"
  using assms by (auto simp: n4_invitation_candidate_def guard_simps split: prod.splits)

lemma rejected_not:
  assumes "reject_request S token w = Inr (candidate, tags)"
  shows "\<exists>r d. n4_invitation (it_invitation_id token) (wo_db w) = Some (r, d) \<and>
    verify_token (is_argon S) (in_secret_verifier (iv_record r)) token = Inr True \<and>
    closed_tags (in_roles (iv_record r)) = Inr tags"
proof -
  from assms obtain view where c: "n4_invitation_candidate (is_env S) (it_invitation_id token) (wo_db w) = Inr candidate"
    and ver: "verify_candidate (is_argon S) candidate token = Inr True"
    and view: "n4_view_row (is_env S) (wo_db w) (it_invitation_id token) = Inr view"
      "closed_tags (vi_roles view) = Inr tags"
    by (auto simp: reject_request_def service_show_def n4_invitation_view_def guard_simps)
  from candidate_row [OF c] obtain r d where r: "n4_invitation (it_invitation_id token) (wo_db w) = Some (r, d)"
      "nc_verifier candidate = in_secret_verifier (iv_record r)" by blast
  have "verify_token (is_argon S) (in_secret_verifier (iv_record r)) token = Inr True"
    using ver r(2) by (auto simp: verify_candidate_def guard_simps split: if_splits)
  moreover have "vi_roles view = in_roles (iv_record r)"
    using view(1) r(1) by (auto simp: n4_view_row_def Let_def guard_simps)
  ultimately show ?thesis using r view(2) by auto
qed

text \<open>C4: A credential is delivered only when it is durable. Every successful redemption presented a
  token that the stored verifier of an issued, unexpired N4 invitation accepts; sent the
  provider exactly one request, for a single-use credential of the invitation's principal that
  expires with the invitation and carries just the tags of its roles; and hands over the secret
  the provider issued, for one use and until no later than the invitation expires, with the
  provider's reference to it already recorded as the confirmed credential of its session.\<close>
theorem delivered_credentials_durable:
  assumes "service_redeem S rq ids now w = (Inr delivery, w')"
  shows "\<exists>r d tags authorization request issued y ref.
    n4_invitation (it_invitation_id (rq_token rq)) (wo_db w) = Some (r, d) \<and>
    verify_token (is_argon S) (in_secret_verifier (iv_record r)) (rq_token rq) = Inr True \<and>
    in_state (iv_record r) = ISIssued \<and> closed_tags (in_roles (iv_record r)) = Inr tags \<and>
    request = \<lparr>jr_principal = de_principal d, jr_reusable = False, jr_max_uses = 1,
      jr_expires_at = Some (in_expires_at (iv_record r)), jr_tags = tags\<rparr> \<and>
    wo_sent w' = wo_sent w @ [MutateCreateCredential request] \<and>
    is_execute S authorization (MutateCreateCredential request) (wo_provider w) =
      (OutConfirmed (JoinCredentialIssued issued), wo_provider w') \<and>
    pd_secret delivery = ij_secret issued \<and> rr_max_uses (pd_receipt delivery) = 1 \<and>
    now < rr_expires_at (pd_receipt delivery) \<and>
    rr_expires_at (pd_receipt delivery) \<le> in_expires_at (iv_record r) \<and>
    dispatch_named (rr_join_session_id (pd_receipt delivery)) (wo_db w') = Some y \<and>
    dp_invitation_id y = it_invitation_id (rq_token rq) \<and> dp_state y = DispatchConfirmed \<and>
    dp_credential_id y = Some (rr_credential_id (pd_receipt delivery)) \<and>
    reference_of (rr_credential_id (pd_receipt delivery)) (wo_db w') = Some ref \<and>
    cr_provider_reference ref = ij_provider_reference issued \<and> cr_max_uses ref = 1"
proof -
  let ?i = "it_invitation_id (rq_token rq)" and ?s = "ri_join_session_id ids"
  from assms obtain candidate tags reservation dispatch authorization w2 where
    rej: "reject_request S (rq_token rq) w = Inr (candidate, tags)"
    and d: "dispatched_world S rq ids now w candidate reservation dispatch authorization w2"
    and r: "redeem_dispatched S ?i reservation dispatch authorization (ri_credential_id ids) tags
      (rq_actor rq) now w2 = (Inr delivery, w')"
    by (cases rule: redeem_steps) auto
  from rejected_not [OF rej] obtain v dd where v: "n4_invitation ?i (wo_db w) = Some (v, dd)"
      "verify_token (is_argon S) (in_secret_verifier (iv_record v)) (rq_token rq) = Inr True"
      "closed_tags (in_roles (iv_record v)) = Inr tags" by blast
  from dispatched_establishes [OF d] v(1) obtain x where x: "in_state (iv_record v) = ISIssued"
      "reserved_for ?i ?s x (wo_db w2)" "re_join_session_id reservation = ?s"
      "re_expires_at reservation = in_expires_at (iv_record v)"
      "nx_provider_principal_id (re_context reservation) = de_principal dd" by auto
  let ?request = "\<lparr>jr_principal = de_principal dd, jr_reusable = False, jr_max_uses = 1,
      jr_expires_at = Some (in_expires_at (iv_record v)), jr_tags = tags\<rparr>"
  have none: "give_up S s failure e now actor w \<noteq> (Inr delivery, w')" for s failure e actor w
    by (auto simp: give_up_def guard_simps Let_def split: prod.splits)
  obtain out w3 where e: "execute_mutation S authorization (MutateCreateCredential ?request) w2 = (out, w3)"
    by fastforce
  with r none x have o: "redeem_outcome S ?i reservation (ri_credential_id ids) tags (rq_actor rq) now out w3
      = (Inr delivery, w')"
    by (simp add: redeem_dispatched_def split: if_splits)
  from e have w3: "wo_db w3 = wo_db w2" "wo_sent w3 = wo_sent w2 @ [MutateCreateCredential ?request]"
      "is_execute S authorization (MutateCreateCredential ?request) (wo_provider w2) = (out, wo_provider w3)"
    by (auto simp: execute_mutation_def split: prod.splits)
  have w2: "wo_sent w2 = wo_sent w" "wo_provider w2 = wo_provider w"
    using d by (simp_all add: dispatched_world_def)
  from confirmed_delivery [OF o] obtain issued confirmation u where
    c: "out = OutConfirmed (JoinCredentialIssued issued)" "ij_max_uses issued = 1"
      "now < ij_expires_at issued" "ij_expires_at issued \<le> re_expires_at reservation"
      "confirm_n4_tx (is_env S) ?s confirmation (rq_actor rq) (wo_db w2) = Inr (u, wo_db w')"
      "co_credential_id confirmation = ri_credential_id ids"
      "co_provider_reference confirmation = ij_provider_reference issued"
      "wo_sent w' = wo_sent w3" "wo_provider w' = wo_provider w3"
      "delivery = \<lparr>pd_receipt = \<lparr>rr_invitation_id = ?i, rr_join_session_id = ?s,
        rr_credential_id = ri_credential_id ids, rr_expires_at = ij_expires_at issued,
        rr_max_uses = ij_max_uses issued\<rparr>, pd_secret = ij_secret issued\<rparr>"
    unfolding x(3) w3(1) by blast
  from confirm_establishes [OF c(5) x(2)] c(6,7) obtain y ref where y: "reserved_for ?i ?s y (wo_db w')"
      "dp_state y = DispatchConfirmed" "dp_credential_id y = Some (ri_credential_id ids)"
      "reference_of (ri_credential_id ids) (wo_db w') = Some ref"
      "cr_provider_reference ref = ij_provider_reference issued" "cr_max_uses ref = 1" by auto
  have "dispatch_named ?s (wo_db w') = Some y" "dp_invitation_id y = ?i"
    using y(1) by (auto simp: reserved_for_def dispatch_for_def dest: find_Some_mem)
  with v x y c w2 w3 show ?thesis
    by (intro exI [of _ v] exI [of _ dd] exI [of _ tags] exI [of _ authorization] exI [of _ ?request]
        exI [of _ issued] exI [of _ y] exI [of _ ref]) simp
qed

section \<open>Samples\<close>

definition verified_n4 :: "SecretVerifier \<Rightarrow> n4_db" where
  "verified_n4 v =
     sample_n4 ((sample_invitation_row ISIssued 0)\<lparr>iv_secret_verifier := v,
         iv_record := (sample_invitation ISIssued 0)\<lparr>in_secret_verifier := v\<rparr>\<rparr>)
       (sample_detail_row 1 None) [] []"

definition sample_world :: "SecretVerifier \<Rightarrow> unit world" where
  "sample_world v = \<lparr>wo_db = verified_n4 v, wo_provider = (), wo_sent = []\<rparr>"

definition sample_service :: "unit MutationOutcome \<Rightarrow> (unit, unit) invitation_service" where
  "sample_service out =
     \<lparr>is_argon = reference_argon, is_env = sample_store_env, is_instance_id = TypedId 2,
      is_execute = (\<lambda>_ _ p. (out, p))\<rparr>"

definition sample_issued :: IssuedJoinCredential where
  "sample_issued =
     \<lparr>ij_provider_reference = ProviderCredentialReference ''17'', ij_secret = ''key'',
      ij_expires_at = 900000000000, ij_max_uses = 1\<rparr>"

definition sample_redeem_token :: InvitationToken where
  "sample_redeem_token = InvitationToken (TypedId 5) (replicate 32 9)"

definition sample_redeem :: redeem_request where
  "sample_redeem = \<lparr>rq_token = sample_redeem_token, rq_presented =
     \<lparr>px_platform = None, px_hostname_hint = None, px_correlation = JObject []\<rparr>,
     rq_actor = AuditActor_system\<rparr>"

definition sample_ids :: redeem_ids where
  "sample_ids = \<lparr>ri_join_session_id = TypedId 7, ri_create_request_id = sample_request_id,
     ri_credential_id = TypedId 9\<rparr>"

lemma sample_verifier:
  "\<exists>v. verify_token reference_argon v sample_redeem_token = Inr True"
  using from_secret_ok [OF reference_argon_laws, of "replicate 16 5" "it_secret sample_redeem_token"]
  by (auto simp: verify_token_def)

lemmas service_eval =
  sample_world_def verified_n4_def sample_service_def sample_redeem_def sample_ids_def
  sample_redeem_token_def sample_request_id_def

lemma sample_candidate:
  assumes "verify_token reference_argon v sample_redeem_token = Inr True"
  shows "reject_request (sample_service out) sample_redeem_token (sample_world v) =
    Inr (\<lparr>nc_invitation_id = TypedId 5, nc_network_id = TypedId 1, nc_revision = 1, nc_state = ISIssued,
        nc_expires_at = 900000000000, nc_context = \<lparr>nx_provider_instance_id = TypedId 2,
          nx_provider_principal_id = ''principal''\<rparr>, nc_verifier = v\<rparr>, [''tag:nodescale-node''])"
  using assms
  by (simp add: reject_request_def service_show_def n4_invitation_view_def n4_view_row_def
      n4_invitation_candidate_def verify_candidate_def service_eval n4_eval parse_time_def
      column_u32_def closed_tags_def MAX_N4_ROLES_def)

lemmas redeem_eval =
  service_eval n4_eval on_db_def transactional_def reserve_n4_redemption_def reserve_n4_tx_def
  JoinSession_new_n4_def JoinSession_build_def advance_n4_def JoinSession_is_n4_def n4_state_def
  n4_next_def JoinSession_transition_def future_state_def JoinSessionState_transition_def
  enum_transition_def JoinSessionState_allowed_def AuditActor_system_def
  begin_n4_credential_dispatch_with_authorization_def begin_authorized_tx_def start_dispatch_def
  dispatch_answer_def bind_generation_def authority_row_def read_only_import_def
  from_timestamp_millis_def min_timestamp_millis_def max_timestamp_millis_def sample_fingerprint_ok
  valid_sha256_fingerprint_def state_generation_def Generation_new_def set_session_def
  update_dispatches_def dispatch_update_ok_def dispatch_linkage_def coalesce_def
  redeem_dispatched_def execute_mutation_def redeem_outcome_def give_up_def
  record_dispatch_failure_def fail_n4_credential_dispatch_def fail_n4_tx_def store_invitation_def

lemma sample_refused:
  assumes "verify_token reference_argon v sample_redeem_token = Inr True"
  shows "\<exists>w. service_redeem (sample_service OutUnavailable) sample_redeem sample_ids 20000000
    (sample_world v) = (Inl ProviderUnavailable, w)"
  using sample_candidate [OF assms, of OutUnavailable]
  by (simp add: service_redeem_def redeem_eval)

lemma sample_delivered:
  assumes "verify_token reference_argon v sample_redeem_token = Inr True"
  shows "\<exists>d w. service_redeem (sample_service (OutConfirmed (JoinCredentialIssued sample_issued)))
    sample_redeem sample_ids 20000000 (sample_world v) = (Inr d, w) \<and> pd_secret d = ''key''"
  using sample_candidate [OF assms, of "OutConfirmed (JoinCredentialIssued sample_issued)"]
  by (simp add: service_redeem_def redeem_eval confirm_issued_def confirm_n4_credential_def
      confirm_n4_tx_def not_null_def sample_issued_def insert_reference_def insert_metadata_def metadata_linked_def
      metadata_check_def n4_approved_tag_def sample_store_env_def)

theorem refused_redemptions_never_settle_witness:
  "\<exists>v w. service_redeem (sample_service OutUnavailable) sample_redeem sample_ids 20000000
     (sample_world v) = (Inl ProviderUnavailable, w) \<and>
   (\<exists>f. service_expire (sample_service OutUnavailable) (TypedId 5) 900000000000 AuditActor_system w = (Inl f, w))"
proof -
  obtain v where v: "verify_token reference_argon v sample_redeem_token = Inr True"
    using sample_verifier by blast
  from sample_refused [OF v] obtain w where r: "service_redeem (sample_service OutUnavailable)
      sample_redeem sample_ids 20000000 (sample_world v) = (Inl ProviderUnavailable, w)" by blast
  have "\<exists>f. service_expire (sample_service OutUnavailable) (it_invitation_id (rq_token sample_redeem))
      900000000000 AuditActor_system w = (Inl f, w)"
    by (rule refused_redemptions_never_settle [OF r, THEN conjunct2]) (simp add: provider_error_def)
  then show ?thesis using r by (auto simp: sample_redeem_def sample_redeem_token_def)
qed

theorem delivered_credentials_durable_witness:
  "\<exists>v w d authorization request. service_redeem (sample_service (OutConfirmed (JoinCredentialIssued sample_issued)))
     sample_redeem sample_ids 20000000 (sample_world v) = (Inr d, w) \<and> pd_secret d = ''key'' \<and>
   wo_sent w = [MutateCreateCredential request] \<and> jr_max_uses request = 1"
proof -
  obtain v where v: "verify_token reference_argon v sample_redeem_token = Inr True"
    using sample_verifier by blast
  from sample_delivered [OF v] obtain d w where
    r: "service_redeem (sample_service (OutConfirmed (JoinCredentialIssued sample_issued)))
      sample_redeem sample_ids 20000000 (sample_world v) = (Inr d, w)" "pd_secret d = ''key''" by blast
  from delivered_credentials_durable [OF r(1)] obtain request where
    "wo_sent w = wo_sent (sample_world v) @ [MutateCreateCredential request]" "jr_max_uses request = 1"
    by auto
  then show ?thesis using r by (auto simp: sample_world_def)
qed

theorem one_credential_per_invitation_witness:
  "\<exists>v log w. service_run (sample_service (OutConfirmed (JoinCredentialIssued sample_issued)))
     [SvcRedeem sample_redeem sample_ids 20000000, SvcRedeem sample_redeem sample_ids 20000000]
     (sample_world v) = (log, w) \<and> sum_list (map (delivery_weight (TypedId 5)) log) = 1"
proof -
  let ?c = "SvcRedeem sample_redeem sample_ids 20000000"
  let ?S = "sample_service (OutConfirmed (JoinCredentialIssued sample_issued))"
  obtain v where v: "verify_token reference_argon v sample_redeem_token = Inr True"
    using sample_verifier by blast
  obtain log w where run: "service_run ?S [?c, ?c] (sample_world v) = (log, w)" by fastforce
  have "sum_list (map (delivery_weight (TypedId 5)) log) \<le> 1"
    by (rule order_trans [OF one_credential_per_invitation [OF run, THEN conjunct2, THEN conjunct1]]) simp
  moreover from sample_delivered [OF v] obtain d w1 where
    r: "service_redeem ?S sample_redeem sample_ids 20000000 (sample_world v) = (Inr d, w1)" by blast
  have "1 \<le> sum_list (map (delivery_weight (TypedId 5)) log)"
    using run r by (auto simp: delivery_weight_def sample_redeem_def sample_redeem_token_def
        split: prod.splits)
  ultimately have "sum_list (map (delivery_weight (TypedId 5)) log) = 1" by simp
  with run show ?thesis by blast
qed

end
