(* ===== verification/Provider_Contract.thy ===== *)
theory Provider_Contract
  imports Mutation_Authority "HOL-Library.List_Lexorder" "HOL-Library.Char_ord"
begin

text \<open>
  The read-only provider contract of \<^verbatim>\<open>crates/nodescale-provider/src/lib.rs\<close>: inspections and
  their compatibility, identity evidence, observed nodes, errors, and the answers of a provider.
  A \<^verbatim>\<open>BTreeSet\<close> is the list of its elements in order. A provider is the record of the answers
  its methods give when they are called.
\<close>

section \<open>Inspection and compatibility\<close>

datatype CompatibilityStatus =
  CSCompatible | CSCompatibleWithConstraints | CSReadOnlyDegraded | CSUnsupported | CSUnreachable |
  CSAuthenticationFailed

fun allows_mutation :: "CompatibilityStatus \<Rightarrow> bool" where
  "allows_mutation CSCompatible = True"
| "allows_mutation CSCompatibleWithConstraints = True"
| "allows_mutation _ = False"

datatype ProviderCapability =
  PCInspectServer | PCEnsureNetworkPrincipal | PCCreateJoinCredential | PCRevokeJoinCredential |
  PCListNodes | PCGetNode | PCSetNodeTags | PCExpireNode | PCDeleteNode | PCGetPolicy |
  PCApplyPolicy | PCHealth

record ServerInspection =
  sp_provider_name :: string
  sp_provider_version :: string
  sp_instance_id :: ProviderInstanceId
  sp_compatibility :: CompatibilityStatus
  sp_capabilities :: "ProviderCapability list"
  sp_constraints :: "string list"
  sp_mutation_allowed :: bool

record CompatibilityReport =
  cr_status :: CompatibilityStatus
  cr_reason :: string
  cr_mutation_allowed :: bool

fun join_text :: "string \<Rightarrow> string list \<Rightarrow> string" where
  "join_text separator [] = []"
| "join_text separator [s] = s"
| "join_text separator (s # rest) = s @ separator @ join_text separator rest"

definition CompatibilityReport_from_inspection :: "ServerInspection \<Rightarrow> CompatibilityReport" where
  "CompatibilityReport_from_inspection inspection =
     \<lparr>cr_status = sp_compatibility inspection,
      cr_reason = join_text ''; '' (sp_constraints inspection),
      cr_mutation_allowed = (allows_mutation (sp_compatibility inspection) \<and>
        sp_mutation_allowed inspection)\<rparr>"

section \<open>Errors\<close>

datatype ProviderError =
    PEUnsupported string
  | PEUnreachable string
  | PETimeout
  | PETlsFailure
  | PEMalformedResponse string
  | PEAuthenticationFailed
  | PEAmbiguousMutation string
  | PEConflict string
  | PERejected string

type_synonym 'a provider_result = "ProviderError + 'a"

section \<open>Identity evidence\<close>

datatype IdentityEvidenceClass =
  StrongImmutable | StableConditional | MutableEvidence | DisplayOnly | UnsafeForIdentity

definition identity_evidence_new :: "(string \<Rightarrow> 'e) \<Rightarrow> string \<Rightarrow> string \<Rightarrow> 'e provider_result" where
  "identity_evidence_new wrap kind text =
     (if text = [] \<or> length text > 512
      then Inl (PEMalformedResponse (kind @ '' must be bounded and non-empty''))
      else Inr (wrap text))"

datatype ConditionalIdentityEvidence = ConditionalIdentityEvidence (conditional_str: string)
datatype MutableIdentityEvidence = MutableIdentityEvidence (mutable_str: string)
datatype StrongIdentityEvidence = StrongIdentityEvidence (strong_str: string)

definition ConditionalIdentityEvidence_new :: "string \<Rightarrow> ConditionalIdentityEvidence provider_result" where
  "ConditionalIdentityEvidence_new =
     identity_evidence_new ConditionalIdentityEvidence ''conditional identity evidence''"

definition MutableIdentityEvidence_new :: "string \<Rightarrow> MutableIdentityEvidence provider_result" where
  "MutableIdentityEvidence_new =
     identity_evidence_new MutableIdentityEvidence ''mutable identity observation''"

definition StrongIdentityEvidence_new :: "string \<Rightarrow> StrongIdentityEvidence provider_result" where
  "StrongIdentityEvidence_new =
     identity_evidence_new StrongIdentityEvidence ''strong identity evidence''"

record ProviderIdentityEvidence =
  ie_machine_key :: "ConditionalIdentityEvidence option"
  ie_node_key :: "MutableIdentityEvidence option"
  ie_disco_key :: "MutableIdentityEvidence option"

section \<open>Observed nodes\<close>

record ProviderUserObservation =
  us_id :: string
  us_name :: string
  us_display_name :: string

datatype PreAuthAssociationStrength = AssociationPartial | ProviderAuthenticatedRegistration

record PreAuthCorrelationObservation =
  pa_credential_id :: string
  pa_association :: PreAuthAssociationStrength

record ProviderNode =
  pn_identity :: ProviderIdentity
  pn_identity_evidence :: ProviderIdentityEvidence
  pn_hostname :: string
  pn_given_name :: string
  pn_addresses :: "string list"
  pn_user :: "ProviderUserObservation option"
  pn_pre_auth :: "PreAuthCorrelationObservation option"
  pn_tags :: "string list"
  pn_registered_at :: "DateTime option"
  pn_last_seen :: "DateTime option"
  pn_expires_at :: "DateTime option"
  pn_observed_at :: DateTime
  pn_online :: "bool option"
  pn_expired :: bool

text \<open>The canonical identifier of a node, as text.\<close>

definition node_key :: "ProviderNode \<Rightarrow> string" where
  "node_key node = node_id_str (pi_node_id (pn_identity node))"

section \<open>The read-only provider\<close>

record ReadOnlyProvider =
  ro_instance_id :: ProviderInstanceId
  ro_inspect_server :: "ServerInspection provider_result"
  ro_list_nodes :: "ProviderNode list provider_result"

definition verify_compatibility :: "ReadOnlyProvider \<Rightarrow> CompatibilityReport provider_result" where
  "verify_compatibility provider =
     and_then (ro_inspect_server provider) (\<lambda>inspection.
     Inr (CompatibilityReport_from_inspection inspection))"

end
