(* ===== verification/Discovery_Store.thy ===== *)
theory Discovery_Store
  imports Provider_Contract
begin

text \<open>
  Import of a provider network and read-only reconciliation of its nodes, in
  \<^verbatim>\<open>crates/nodescale-state/src/lib.rs\<close>, over the tables of
  \<^verbatim>\<open>migrations/0002_discovery_reconciliation.sql\<close> and the adoption tables of
  \<^verbatim>\<open>migrations/0008_existing_device_adoption_state.sql\<close> with the triggers of
  \<^verbatim>\<open>migrations/0010_existing_provider_adoption_activation.sql\<close>.

  A classification, an adoption state, a provider kind and a compatibility are stored as the text
  the code writes and parsed as the code parses it; identifiers, times and the node a row holds as
  JSON are typed. The bytes \<^verbatim>\<open>serde_json\<close> writes for a node and SHA-256 are parameters. The audit
  row a decision refers to is the one inserted just before it, with the values the trigger asks for.
\<close>

section \<open>Import configurations\<close>

definition has_whitespace :: "string \<Rightarrow> bool" where
  "has_whitespace s \<longleftrightarrow> list_ex cp_is_whitespace (str_chars s)"

definition secret_reference :: "string \<Rightarrow> bool" where
  "secret_reference s \<longleftrightarrow>
     strip_prefix ''secret://'' s \<noteq> None \<and> length s \<le> 255 \<and> \<not> has_whitespace s"

definition clean_https_origin :: "string \<Rightarrow> bool" where
  "clean_https_origin url \<longleftrightarrow>
     (case strip_prefix ''https://'' url of None \<Rightarrow> False
      | Some host \<Rightarrow> host \<noteq> [] \<and> \<not> list_ex (\<lambda>c. c \<in> set ''/@?#'') host \<and> \<not> has_whitespace url)"

record HeadscaleImportConfig =
  hc_server_url :: string
  hc_provider_instance_id :: ProviderInstanceId
  hc_opaque_secret_reference :: string
  hc_compatibility_pin :: string
  hc_custom_root_ca_sha256 :: "string option"
  hc_read_only :: bool
  hc_mutation_allowed :: bool

definition HeadscaleImportConfig_new ::
    "string \<Rightarrow> ProviderInstanceId \<Rightarrow> string \<Rightarrow> string \<Rightarrow> HeadscaleImportConfig state_result" where
  "HeadscaleImportConfig_new server_url instance_id secret pin =
     (if \<not> clean_https_origin server_url
      then Inl (StConflict ''Headscale server URL must be a clean HTTPS origin'')
      else if \<not> secret_reference secret
      then Inl (StConflict ''credential must be an opaque secret:// reference, not plaintext'')
      else if pin = [] \<or> length pin > 64 \<or> has_whitespace pin
      then Inl (StConflict ''Headscale compatibility pin is invalid'')
      else Inr
        \<lparr>hc_server_url = server_url, hc_provider_instance_id = instance_id,
         hc_opaque_secret_reference = secret, hc_compatibility_pin = pin,
         hc_custom_root_ca_sha256 = None, hc_read_only = True, hc_mutation_allowed = False\<rparr>)"

definition with_custom_root_ca_sha256 ::
    "HeadscaleImportConfig \<Rightarrow> string \<Rightarrow> HeadscaleImportConfig state_result" where
  "with_custom_root_ca_sha256 c fingerprint =
     (if \<not> hash_column fingerprint
      then Inl (StConflict ''custom root CA fingerprint must be canonical sha256'')
      else Inr (c\<lparr>hc_custom_root_ca_sha256 := Some fingerprint\<rparr>))"

definition validate_for_persistence :: "HeadscaleImportConfig \<Rightarrow> unit state_result" where
  "validate_for_persistence c =
     and_then (HeadscaleImportConfig_new (hc_server_url c) (hc_provider_instance_id c)
       (hc_opaque_secret_reference c) (hc_compatibility_pin c)) (\<lambda>_. Inr ())"

record TailscaleImportConfig =
  tc_tailnet :: string
  tc_provider_instance_id :: ProviderInstanceId
  tc_opaque_secret_reference :: string
  tc_compatibility_pin :: string
  tc_read_only :: bool
  tc_mutation_allowed :: bool

definition TailscaleImportConfig_new ::
    "string \<Rightarrow> ProviderInstanceId \<Rightarrow> string \<Rightarrow> TailscaleImportConfig state_result" where
  "TailscaleImportConfig_new tailnet instance_id secret =
     (if tailnet = [] \<or> length tailnet > 256 \<or> trim_changes tailnet \<or>
         \<not> list_all (\<lambda>c. is_ascii_alphanumeric c \<or> c \<in> set ''.-_@'') tailnet
      then Inl (StConflict ''Tailscale tailnet is invalid'')
      else if \<not> secret_reference secret
      then Inl (StConflict ''credential must be an opaque secret:// reference, not plaintext'')
      else Inr
        \<lparr>tc_tailnet = tailnet, tc_provider_instance_id = instance_id,
         tc_opaque_secret_reference = secret, tc_compatibility_pin = ''api-v2'',
         tc_read_only = True, tc_mutation_allowed = False\<rparr>)"

definition scoped_api_url :: "TailscaleImportConfig \<Rightarrow> string" where
  "scoped_api_url c = ''https://api.tailscale.com/api/v2/tailnet/'' @ tc_tailnet c"

record ReconciliationImportConfig =
  rc_provider_instance_id :: ProviderInstanceId
  rc_provider_name :: string
  rc_compatibility_pin :: string

section \<open>Observations and their texts\<close>

datatype ObservationClassification =
  OCExpectedJoining | OCDiscoveredUnmanaged | OCActive | OCProviderMissing | OCProviderExpired |
  OCProviderRemoved | OCIdentityConflict | OCQuarantined | OCRevoked

fun classification_name :: "ObservationClassification \<Rightarrow> string" where
  "classification_name OCExpectedJoining = ''expected_joining''"
| "classification_name OCDiscoveredUnmanaged = ''discovered_unmanaged''"
| "classification_name OCActive = ''active''"
| "classification_name OCProviderMissing = ''provider_missing''"
| "classification_name OCProviderExpired = ''provider_expired''"
| "classification_name OCProviderRemoved = ''provider_removed''"
| "classification_name OCIdentityConflict = ''identity_conflict''"
| "classification_name OCQuarantined = ''quarantined''"
| "classification_name OCRevoked = ''revoked''"

definition parse_classification :: "string \<Rightarrow> ObservationClassification state_result" where
  "parse_classification s =
     (if s = ''expected_joining'' then Inr OCExpectedJoining
      else if s = ''discovered_unmanaged'' then Inr OCDiscoveredUnmanaged
      else if s = ''active'' then Inr OCActive
      else if s = ''provider_missing'' then Inr OCProviderMissing
      else if s = ''provider_expired'' then Inr OCProviderExpired
      else if s = ''provider_removed'' then Inr OCProviderRemoved
      else if s = ''identity_conflict'' then Inr OCIdentityConflict
      else if s = ''quarantined'' then Inr OCQuarantined
      else if s = ''revoked'' then Inr OCRevoked
      else Inl (StConflict ''unknown provider observation classification''))"

datatype AdoptionState = ASUnmanaged | ASPendingDeviceCredentialProof | ASAdopted

definition parse_adoption_state :: "string \<Rightarrow> AdoptionState state_result" where
  "parse_adoption_state s =
     (if s = ''unmanaged'' then Inr ASUnmanaged
      else if s = ''pending_device_credential_proof'' then Inr ASPendingDeviceCredentialProof
      else if s = ''adopted'' then Inr ASAdopted
      else Inl (StConflict ''unknown provider observation adoption state''))"

fun compatibility_name :: "CompatibilityStatus \<Rightarrow> string" where
  "compatibility_name CSCompatible = ''compatible''"
| "compatibility_name CSCompatibleWithConstraints = ''compatible_with_constraints''"
| "compatibility_name CSReadOnlyDegraded = ''read_only_degraded''"
| "compatibility_name CSUnsupported = ''unsupported''"
| "compatibility_name CSUnreachable = ''unreachable''"
| "compatibility_name CSAuthenticationFailed = ''authentication_failed''"

definition parse_compatibility :: "string \<Rightarrow> CompatibilityStatus state_result" where
  "parse_compatibility s =
     (if s = ''compatible'' then Inr CSCompatible
      else if s = ''compatible_with_constraints'' then Inr CSCompatibleWithConstraints
      else if s = ''read_only_degraded'' then Inr CSReadOnlyDegraded
      else if s = ''unsupported'' then Inr CSUnsupported
      else if s = ''unreachable'' then Inr CSUnreachable
      else if s = ''authentication_failed'' then Inr CSAuthenticationFailed
      else Inl (StConflict ''unknown persisted provider compatibility''))"

text \<open>Each text is read back as the value it was written for, and only those texts are read.\<close>

lemma parse_classification_Inr [guard_simps]:
  "parse_classification s = Inr c \<longleftrightarrow> s = classification_name c"
  by (cases c) (simp_all add: parse_classification_def)

lemma classification_name_inject [simp]: "classification_name c = classification_name d \<longleftrightarrow> c = d"
  by (metis parse_classification_Inr sum.inject(2))

lemma parse_compatibility_Inr [guard_simps]:
  "parse_compatibility s = Inr c \<longleftrightarrow> s = compatibility_name c"
  by (cases c) (simp_all add: parse_compatibility_def)


section \<open>Tables\<close>

record discovery_network_row =
  dn_network_id :: NetworkId
  dn_name :: string
  dn_provider_kind :: string
  dn_provider_instance_id :: ProviderInstanceId
  dn_membership_generation :: int
  dn_policy_generation :: int
  dn_record :: Network

record provider_import_row =
  ip_network_id :: NetworkId
  ip_provider_instance_id :: ProviderInstanceId
  ip_server_url :: string
  ip_opaque_secret_reference :: string
  ip_compatibility_pin :: string
  ip_custom_root_ca_sha256 :: "string option"
  ip_read_only :: int
  ip_mutation_allowed :: int
  ip_compatibility :: string
  ip_provider_version :: string
  ip_last_success_at :: "DateTime option"
  ip_last_attempt_at :: "DateTime option"
  ip_last_failure_kind :: "string option"
  ip_last_failure_detail :: "string option"

record observation_row =
  ob_observation_id :: string
  ob_network_id :: NetworkId
  ob_device_id :: "DeviceId option"
  ob_provider_instance_id :: ProviderInstanceId
  ob_provider_node_id :: string
  ob_stable_key_fingerprint :: string
  ob_classification :: string
  ob_adoption_state :: string
  ob_semantic_fingerprint :: string
  ob_semantic_generation :: int
  ob_normalized_node :: ProviderNode
  ob_first_observed_at :: DateTime
  ob_last_observed_at :: DateTime
  ob_snapshot_at :: DateTime

record adoption_action_row =
  aa_action_id :: string
  aa_authority_id :: string
  aa_authority_generation :: int
  aa_network_id :: NetworkId
  aa_observation_id :: string
  aa_provider_instance_id :: ProviderInstanceId
  aa_provider_node_id :: string
  aa_expected_observation_generation :: int
  aa_proof_generation :: int
  aa_issued_at_ms :: int
  aa_action_state :: string
  aa_terminal_decision_id :: "string option"
  aa_terminal_at_ms :: "int option"
  aa_terminal_reason :: "string option"

record adoption_proof_row =
  ap_action_id :: string
  ap_operation_id :: string
  ap_operation_state :: string
  ap_outcome :: "string option"
  ap_receipt_id :: "string option"
  ap_created_at_ms :: int
  ap_settled_at_ms :: "int option"

record adoption_decision_row =
  ac_decision_id :: string
  ac_action_id :: string
  ac_decision_kind :: string
  ac_new_action_state :: string
  ac_authority_id :: string
  ac_authority_generation :: int
  ac_network_id :: NetworkId
  ac_provider_instance_id :: ProviderInstanceId
  ac_provider_node_id :: string
  ac_observation_generation :: int
  ac_proof_generation :: int
  ac_safe_correlation_digest :: string
  ac_reason_code :: string
  ac_decided_at_ms :: int

record discovery_db =
  dc_networks :: "discovery_network_row list"
  dc_memberships :: "(NetworkId \<times> int) list"
  dc_imports :: "provider_import_row list"
  dc_observations :: "observation_row list"
  dc_actions :: "adoption_action_row list"
  dc_proofs :: "adoption_proof_row list"
  dc_decisions :: "adoption_decision_row list"
  dc_events :: "event_audit_row list"
  dc_fail_before_audit :: bool

text \<open>
  The environment of a call: the store's codecs, the bytes of a node, and the identifiers the
  code draws for the observation and the decision of each step of a reconciliation.
\<close>

record discovery_env =
  dx_store :: store_env
  dx_node_vec :: "ProviderNode \<Rightarrow> u8 list option"
  dx_observation_id :: "nat \<Rightarrow> string"
  dx_decision_id :: "nat \<Rightarrow> string"

definition observation_at :: "ProviderInstanceId \<Rightarrow> string \<Rightarrow> observation_row \<Rightarrow> bool" where
  "observation_at p k r \<longleftrightarrow> ob_provider_instance_id r = p \<and> ob_provider_node_id r = k"

definition pending_text :: string where
  "pending_text = ''pending_device_credential_proof''"

section \<open>The audit trail\<close>

definition event_generation :: "Generation option \<Rightarrow> int option state_result" where
  "event_generation generation =
     (case generation of None \<Rightarrow> Inr None | Some g \<Rightarrow> and_then (to_i64 g) (\<lambda>i. Inr (Some i)))"

definition discovery_audit ::
    "NetworkId \<Rightarrow> AuditActor \<Rightarrow> string \<Rightarrow> string \<Rightarrow> Generation option \<Rightarrow> discovery_db \<Rightarrow>
     discovery_db state_result" where
  "discovery_audit n actor kind outcome generation db =
     and_then (ensure (\<not> dc_fail_before_audit db) StInjectedFailure) (\<lambda>_.
     and_then (event_generation generation) (\<lambda>g.
     Inr (db\<lparr>dc_events := dc_events db @
       [\<lparr>ea_network_id = Some n, ea_actor = actor, ea_event_kind = kind, ea_outcome = outcome,
         ea_generation = g\<rparr>]\<rparr>)))"

text \<open>Several events of one network in order.\<close>

fun discovery_audits ::
    "NetworkId \<Rightarrow> AuditActor \<Rightarrow> string list \<Rightarrow> discovery_db \<Rightarrow> discovery_db state_result" where
  "discovery_audits n actor [] db = Inr db"
| "discovery_audits n actor (kind # kinds) db =
     and_then (discovery_audit n actor kind ''success'' None db) (discovery_audits n actor kinds)"

section \<open>Fingerprints and classification of nodes\<close>

text \<open>The content of a node: everything but the instant it was observed at.\<close>

definition stable_node :: "ProviderNode \<Rightarrow> ProviderNode" where
  "stable_node node = node\<lparr>pn_observed_at := 0\<rparr>"

definition semantic_fingerprint :: "discovery_env \<Rightarrow> ProviderNode \<Rightarrow> string state_result" where
  "semantic_fingerprint E node =
     and_then (ok_or (dx_node_vec E (stable_node node)) StSerialization) (\<lambda>bytes.
     Inr (sha256_fingerprint (dx_store E) bytes))"

definition next_classification ::
    "ObservationClassification \<Rightarrow> ProviderNode \<Rightarrow> ObservationClassification" where
  "next_classification previous node =
     (if pn_expired node then OCProviderExpired
      else if previous \<in> {OCActive, OCExpectedJoining, OCQuarantined, OCRevoked} then previous
      else OCDiscoveredUnmanaged)"

definition first_classification :: "ProviderNode \<Rightarrow> ObservationClassification" where
  "first_classification node = (if pn_expired node then OCProviderExpired else OCDiscoveredUnmanaged)"

section \<open>Reading observations\<close>

record ProviderObservation =
  po_network_id :: NetworkId
  po_device_id :: "DeviceId option"
  po_provider_instance_id :: ProviderInstanceId
  po_canonical_provider_node_id :: string
  po_stable_machine_key_fingerprint :: string
  po_node :: ProviderNode
  po_classification :: ObservationClassification
  po_adoption_state :: AdoptionState
  po_semantic_fingerprint :: string
  po_semantic_generation :: u64
  po_first_observed_at :: DateTime
  po_last_observed_at :: DateTime
  po_snapshot_at :: DateTime

definition decode_observation :: "observation_row \<Rightarrow> ProviderObservation state_result" where
  "decode_observation r =
     and_then (column_u64 (ob_semantic_generation r)) (\<lambda>generation.
     and_then (parse_classification (ob_classification r)) (\<lambda>classification.
     and_then (parse_adoption_state (ob_adoption_state r)) (\<lambda>adoption_state. Inr
       \<lparr>po_network_id = ob_network_id r, po_device_id = ob_device_id r,
        po_provider_instance_id = ob_provider_instance_id r,
        po_canonical_provider_node_id = ob_provider_node_id r,
        po_stable_machine_key_fingerprint = ob_stable_key_fingerprint r,
        po_node = ob_normalized_node r, po_classification = classification,
        po_adoption_state = adoption_state, po_semantic_fingerprint = ob_semantic_fingerprint r,
        po_semantic_generation = generation, po_first_observed_at = ob_first_observed_at r,
        po_last_observed_at = ob_last_observed_at r, po_snapshot_at = ob_snapshot_at r\<rparr>)))"

fun decode_each :: "observation_row list \<Rightarrow> ProviderObservation list state_result" where
  "decode_each [] = Inr []"
| "decode_each (r # rs) =
     and_then (decode_observation r) (\<lambda>x. and_then (decode_each rs) (\<lambda>xs. Inr (x # xs)))"

text \<open>A \<^verbatim>\<open>BTreeMap\<close> from strings is the list of its entries in the order of their keys.\<close>

fun btree_insert :: "string \<Rightarrow> 'v \<Rightarrow> (string \<times> 'v) list \<Rightarrow> (string \<times> 'v) list" where
  "btree_insert k v [] = [(k, v)]"
| "btree_insert k v ((k', v') # m) =
     (if k < k' then (k, v) # (k', v') # m
      else if k = k' then (k, v) # m
      else (k', v') # btree_insert k v m)"

definition network_rows :: "NetworkId \<Rightarrow> discovery_db \<Rightarrow> observation_row list" where
  "network_rows n db =
     sort_key ob_provider_node_id (filter (\<lambda>r. ob_network_id r = n) (dc_observations db))"

definition load_observations ::
    "NetworkId \<Rightarrow> discovery_db \<Rightarrow> (string \<times> ProviderObservation) list state_result" where
  "load_observations n db =
     and_then (decode_each (network_rows n db)) (\<lambda>rows.
     Inr (fold (\<lambda>x. btree_insert (po_canonical_provider_node_id x) x) rows []))"

definition provider_observations :: "NetworkId \<Rightarrow> discovery_db \<Rightarrow> ProviderObservation list state_result" where
  "provider_observations n db = and_then (load_observations n db) (\<lambda>entries. Inr (map snd entries))"


section \<open>Statements on observations\<close>

definition insert_observation :: "observation_row \<Rightarrow> discovery_db \<Rightarrow> discovery_db state_result" where
  "insert_observation r db =
     and_then (ensure (list_all (\<lambda>q. ob_observation_id q \<noteq> ob_observation_id r \<and>
         \<not> observation_at (ob_provider_instance_id r) (ob_provider_node_id r) q) (dc_observations db))
       (StSqlite ''UNIQUE'')) (\<lambda>_.
     and_then (ensure (list_ex (\<lambda>w. dn_network_id w = ob_network_id r) (dc_networks db))
       (StSqlite ''FOREIGN KEY'')) (\<lambda>_.
     Inr (db\<lparr>dc_observations := dc_observations db @ [r]\<rparr>)))"

definition observation_values ::
    "discovery_env \<Rightarrow> nat \<Rightarrow> NetworkId \<Rightarrow> DeviceId option \<Rightarrow> ProviderInstanceId \<Rightarrow> string \<Rightarrow> string \<Rightarrow>
     ObservationClassification \<Rightarrow> string \<Rightarrow> ProviderNode \<Rightarrow> DateTime \<Rightarrow> DateTime \<Rightarrow> observation_row" where
  "observation_values E i n device p key key_fingerprint classification fingerprint node first now =
     \<lparr>ob_observation_id = dx_observation_id E i, ob_network_id = n, ob_device_id = device,
      ob_provider_instance_id = p, ob_provider_node_id = key, ob_stable_key_fingerprint = key_fingerprint,
      ob_classification = classification_name classification, ob_adoption_state = ''unmanaged'',
      ob_semantic_fingerprint = fingerprint, ob_semantic_generation = 1, ob_normalized_node = node,
      ob_first_observed_at = first, ob_last_observed_at = now, ob_snapshot_at = now\<rparr>"

text \<open>
  \<^verbatim>\<open>ON CONFLICT (provider_instance_id, provider_node_id) DO UPDATE\<close>: the columns it sets, with
  the generation advanced exactly when the classification or the fingerprint changes.
\<close>

definition excluded_update :: "observation_row \<Rightarrow> observation_row \<Rightarrow> observation_row" where
  "excluded_update new old = old
     \<lparr>ob_device_id := ob_device_id new, ob_classification := ob_classification new,
      ob_semantic_fingerprint := ob_semantic_fingerprint new,
      ob_semantic_generation :=
        (if ob_classification old \<noteq> ob_classification new \<or>
            ob_semantic_fingerprint old \<noteq> ob_semantic_fingerprint new
         then ob_semantic_generation old + 1 else ob_semantic_generation old),
      ob_normalized_node := ob_normalized_node new,
      ob_last_observed_at := ob_last_observed_at new, ob_snapshot_at := ob_snapshot_at new\<rparr>"

definition generation_check :: "observation_row \<Rightarrow> bool" where
  "generation_check r \<longleftrightarrow> 1 \<le> ob_semantic_generation r \<and> ob_semantic_generation r < 2 ^ 63"

text \<open>An update of the rows that a condition selects, under the CHECK of the table.\<close>

definition update_observations ::
    "(observation_row \<Rightarrow> bool) \<Rightarrow> (observation_row \<Rightarrow> observation_row) \<Rightarrow> discovery_db \<Rightarrow>
     discovery_db state_result" where
  "update_observations P f db =
     and_then (ensure (list_all (\<lambda>r. P r \<longrightarrow> generation_check (f r)) (dc_observations db))
       (StSqlite ''CHECK'')) (\<lambda>_.
     Inr (db\<lparr>dc_observations := map (\<lambda>r. if P r then f r else r) (dc_observations db)\<rparr>))"

definition upsert_observation :: "observation_row \<Rightarrow> discovery_db \<Rightarrow> discovery_db state_result" where
  "upsert_observation r db =
     (if list_ex (observation_at (ob_provider_instance_id r) (ob_provider_node_id r)) (dc_observations db)
      then update_observations
        (observation_at (ob_provider_instance_id r) (ob_provider_node_id r)) (excluded_update r) db
      else insert_observation r db)"

section \<open>Ending a pending adoption\<close>

definition action_of_decision :: "adoption_decision_row \<Rightarrow> adoption_action_row \<Rightarrow> bool" where
  "action_of_decision d a \<longleftrightarrow>
     aa_action_id a = ac_action_id d \<and> aa_action_state a = ''proof_pending'' \<and>
     aa_authority_id a = ac_authority_id d \<and>
     aa_authority_generation a = ac_authority_generation d \<and> aa_network_id a = ac_network_id d \<and>
     aa_provider_instance_id a = ac_provider_instance_id d \<and>
     aa_provider_node_id a = ac_provider_node_id d \<and>
     aa_proof_generation a = ac_proof_generation d"

definition observation_of_decision ::
    "adoption_decision_row \<Rightarrow> adoption_action_row \<Rightarrow> observation_row \<Rightarrow> bool" where
  "observation_of_decision d a r \<longleftrightarrow>
     ob_observation_id r = aa_observation_id a \<and> ob_network_id r = ac_network_id d \<and>
     ob_provider_instance_id r = ac_provider_instance_id d \<and>
     ob_provider_node_id r = ac_provider_node_id d \<and>
     ob_semantic_generation r = ac_observation_generation d \<and> ob_adoption_state r = pending_text"

text \<open>The guard of the insert trigger, for the decision of a conflict.\<close>

definition conflict_reason :: "string \<Rightarrow> observation_row \<Rightarrow> bool" where
  "conflict_reason reason r \<longleftrightarrow>
     reason = ''observation_changed'' \<or>
     (reason \<in> {''provider_missing'', ''provider_expired'', ''identity_conflict''} \<and>
      ob_classification r = reason)"

definition decision_guard :: "adoption_decision_row \<Rightarrow> discovery_db \<Rightarrow> bool" where
  "decision_guard d db \<longleftrightarrow>
     ac_decision_kind d = ''conflict'' \<and> ac_new_action_state d = ''conflicted'' \<and>
     list_ex (\<lambda>a. action_of_decision d a \<and>
       aa_expected_observation_generation a < ac_observation_generation d \<and>
       list_ex (\<lambda>r. observation_of_decision d a r \<and> conflict_reason (ac_reason_code d) r)
         (dc_observations db)) (dc_actions db)"

definition decision_check :: "adoption_decision_row \<Rightarrow> bool" where
  "decision_check d \<longleftrightarrow>
     1 \<le> ac_authority_generation d \<and> 1 \<le> ac_observation_generation d \<and>
     1 \<le> ac_proof_generation d \<and> hash_column (ac_safe_correlation_digest d) \<and>
     0 \<le> ac_decided_at_ms d"

text \<open>The trigger after the insert settles the pending proof operation and ends the action.\<close>

definition settle_proof :: "adoption_decision_row \<Rightarrow> adoption_proof_row \<Rightarrow> adoption_proof_row" where
  "settle_proof d q =
     (if ap_action_id q = ac_action_id d \<and> ap_operation_state q = ''pending''
      then q\<lparr>ap_operation_state := ''settled'', ap_outcome := Some ''conflicted'',
             ap_receipt_id := Some (ac_decision_id d @ '':'' @ ap_operation_id q),
             ap_settled_at_ms := Some (ac_decided_at_ms d)\<rparr>
      else q)"

definition open_action :: "string \<Rightarrow> adoption_action_row \<Rightarrow> bool" where
  "open_action action_id a \<longleftrightarrow> aa_action_id a = action_id \<and> aa_action_state a = ''proof_pending''"

definition end_action :: "adoption_decision_row \<Rightarrow> adoption_action_row \<Rightarrow> adoption_action_row" where
  "end_action d a =
     (if open_action (ac_action_id d) a
      then a\<lparr>aa_action_state := ac_new_action_state d,
             aa_terminal_decision_id := Some (ac_decision_id d),
             aa_terminal_at_ms := Some (ac_decided_at_ms d),
             aa_terminal_reason := Some (ac_reason_code d)\<rparr>
      else a)"

definition terminalize_graph :: "adoption_decision_row \<Rightarrow> discovery_db \<Rightarrow> discovery_db state_result" where
  "terminalize_graph d db =
     and_then (ensure (list_all (\<lambda>q. ap_action_id q = ac_action_id d \<and>
         ap_operation_state q = ''pending'' \<longrightarrow> ap_created_at_ms q \<le> ac_decided_at_ms d) (dc_proofs db))
       (StSqlite ''CHECK'')) (\<lambda>_.
     and_then (ensure (list_all (\<lambda>a. open_action (ac_action_id d) a \<longrightarrow>
         aa_issued_at_ms a \<le> ac_decided_at_ms d) (dc_actions db)) (StSqlite ''CHECK'')) (\<lambda>_.
     and_then (ensure (length (List.filter (open_action (ac_action_id d)) (dc_actions db)) = 1)
       (StSqlite ''N5 adoption decision did not terminalize exactly one action'')) (\<lambda>_.
     Inr (db\<lparr>dc_proofs := map (settle_proof d) (dc_proofs db),
             dc_actions := map (end_action d) (dc_actions db)\<rparr>))))"

definition insert_decision :: "adoption_decision_row \<Rightarrow> discovery_db \<Rightarrow> discovery_db state_result" where
  "insert_decision d db =
     and_then (ensure (decision_guard d db)
       (StSqlite ''N5 adoption decision is not exactly correlated'')) (\<lambda>_.
     and_then (ensure (decision_check d) (StSqlite ''CHECK'')) (\<lambda>_.
     and_then (ensure (list_all (\<lambda>q. ac_decision_id q \<noteq> ac_decision_id d \<and>
         ac_action_id q \<noteq> ac_action_id d) (dc_decisions db)) (StSqlite ''UNIQUE'')) (\<lambda>_.
     terminalize_graph d (db\<lparr>dc_decisions := dc_decisions db @ [d]\<rparr>))))"

text \<open>
  \<^verbatim>\<open>terminalize_pending_adoption_for_observation\<close>: the audit row is inserted directly, past the
  fail point, then the decision, and the observation is unmanaged again.
\<close>

definition pending_action :: "NetworkId \<Rightarrow> string \<Rightarrow> discovery_db \<Rightarrow> adoption_action_row option" where
  "pending_action n key db =
     find (\<lambda>a. aa_network_id a = n \<and> aa_provider_node_id a = key \<and>
       aa_action_state a = ''proof_pending'') (dc_actions db)"

definition conflict_decision ::
    "discovery_env \<Rightarrow> nat \<Rightarrow> NetworkId \<Rightarrow> adoption_action_row \<Rightarrow> u64 \<Rightarrow> string \<Rightarrow> DateTime \<Rightarrow>
     adoption_decision_row" where
  "conflict_decision E i n a generation reason now =
     \<lparr>ac_decision_id = dx_decision_id E i, ac_action_id = aa_action_id a,
      ac_decision_kind = ''conflict'', ac_new_action_state = ''conflicted'',
      ac_authority_id = aa_authority_id a, ac_authority_generation = aa_authority_generation a,
      ac_network_id = n, ac_provider_instance_id = aa_provider_instance_id a,
      ac_provider_node_id = aa_provider_node_id a, ac_observation_generation = uint generation,
      ac_proof_generation = aa_proof_generation a,
      ac_safe_correlation_digest = sha256_fingerprint (dx_store E) (str_bytes (aa_action_id a)),
      ac_reason_code = reason, ac_decided_at_ms = timestamp_millis now\<rparr>"

definition conflict_event :: "NetworkId \<Rightarrow> AuditActor \<Rightarrow> u64 \<Rightarrow> event_audit_row" where
  "conflict_event n actor generation =
     \<lparr>ea_network_id = Some n, ea_actor = actor, ea_event_kind = ''device.adoption_action_conflicted'',
      ea_outcome = ''success'', ea_generation = Some (uint generation)\<rparr>"

definition terminalize_pending_adoption ::
    "discovery_env \<Rightarrow> nat \<Rightarrow> NetworkId \<Rightarrow> string \<Rightarrow> u64 \<Rightarrow> string \<Rightarrow> DateTime \<Rightarrow> AuditActor \<Rightarrow>
     discovery_db \<Rightarrow> discovery_db state_result" where
  "terminalize_pending_adoption E i n key generation reason now actor db =
     (case pending_action n key db of
        None \<Rightarrow> Inr db
      | Some a \<Rightarrow>
          and_then (column_u64 (aa_authority_generation a)) (\<lambda>_.
          and_then (column_u64 (aa_proof_generation a)) (\<lambda>_.
          and_then (ensure (uint generation < 2 ^ 63)
            (StConflict ''observation generation exceeds SQLite integer range'')) (\<lambda>_.
          and_then (insert_decision (conflict_decision E i n a generation reason now)
            (db\<lparr>dc_events := dc_events db @ [conflict_event n actor generation]\<rparr>)) (\<lambda>db.
          update_observations (\<lambda>r. ob_network_id r = n \<and> ob_provider_node_id r = key \<and>
              ob_adoption_state r = pending_text) (\<lambda>r. r\<lparr>ob_adoption_state := ''unmanaged''\<rparr>) db)))))"


section \<open>Validation and failures\<close>

datatype ReconciliationFailure =
  RFUnreachable | RFAuthenticationFailed | RFIncompatible | RFMalformed | RFIdentityConflict |
  RFState StateError

type_synonym 'a reconciled = "ReconciliationFailure + 'a"

fun map_provider_failure :: "ProviderError \<Rightarrow> ReconciliationFailure" where
  "map_provider_failure PEAuthenticationFailed = RFAuthenticationFailed"
| "map_provider_failure (PEMalformedResponse _) = RFMalformed"
| "map_provider_failure (PEConflict _) = RFIdentityConflict"
| "map_provider_failure (PEUnsupported _) = RFIncompatible"
| "map_provider_failure (PERejected _) = RFIncompatible"
| "map_provider_failure (PEUnreachable _) = RFUnreachable"
| "map_provider_failure PETimeout = RFUnreachable"
| "map_provider_failure PETlsFailure = RFUnreachable"
| "map_provider_failure (PEAmbiguousMutation _) = RFUnreachable"

text \<open>\<^verbatim>\<open>trim_start_matches('v')\<close>.\<close>

definition trim_start_v :: "string \<Rightarrow> string" where
  "trim_start_v s = dropWhile (\<lambda>c. c = CHR ''v'') s"

definition validate_read_only_inspection ::
    "ServerInspection \<Rightarrow> ProviderInstanceId \<Rightarrow> string \<Rightarrow> string \<Rightarrow> unit reconciled" where
  "validate_read_only_inspection inspection p provider_name pin =
     (if sp_provider_name inspection \<noteq> provider_name \<or> sp_instance_id inspection \<noteq> p \<or>
         sp_mutation_allowed inspection \<or>
         sp_compatibility inspection \<notin> {CSCompatible, CSCompatibleWithConstraints} \<or>
         trim_start_v (sp_provider_version inspection) \<noteq> trim_start_v pin
      then Inl RFIncompatible else Inr ())"

definition validate_inspection :: "ServerInspection \<Rightarrow> HeadscaleImportConfig \<Rightarrow> unit reconciled" where
  "validate_inspection inspection c =
     validate_read_only_inspection inspection (hc_provider_instance_id c) ''headscale''
       (hc_compatibility_pin c)"

definition sort_nodes :: "ProviderNode list \<Rightarrow> ProviderNode list" where
  "sort_nodes nodes = sort_key node_key nodes"

definition validate_snapshot ::
    "ProviderNode list \<Rightarrow> ProviderInstanceId \<Rightarrow> ProviderNode list reconciled" where
  "validate_snapshot nodes p =
     (if list_all (\<lambda>node. pi_provider_instance_id (pn_identity node) = p) nodes \<and>
         distinct (map node_key nodes)
      then Inr (sort_nodes nodes) else Inl RFIdentityConflict)"

text \<open>A provider answer as the reconciler reads it.\<close>

definition provider_answer :: "'a provider_result \<Rightarrow> 'a reconciled" where
  "provider_answer r = map_err map_provider_failure r"

definition state_step :: "'a state_result \<Rightarrow> 'a reconciled" where
  "state_step r = map_err RFState r"

section \<open>Recording a failure\<close>

definition import_of :: "NetworkId \<Rightarrow> discovery_db \<Rightarrow> provider_import_row option" where
  "import_of n db = find (\<lambda>i. ip_network_id i = n) (dc_imports db)"

definition update_import ::
    "NetworkId \<Rightarrow> (provider_import_row \<Rightarrow> provider_import_row) \<Rightarrow> discovery_db \<Rightarrow> discovery_db" where
  "update_import n f db =
     db\<lparr>dc_imports := map (\<lambda>i. if ip_network_id i = n then f i else i) (dc_imports db)\<rparr>"

definition not_found :: "discovery_env \<Rightarrow> NetworkId \<Rightarrow> StateError" where
  "not_found E n = StNotFound (id_display (se_uuid (dx_store E)) n)"

definition failure_values :: "DateTime \<Rightarrow> string \<Rightarrow> string \<Rightarrow> provider_import_row \<Rightarrow> provider_import_row" where
  "failure_values at kind detail i = i
     \<lparr>ip_last_attempt_at := Some at, ip_last_failure_kind := Some kind,
      ip_last_failure_detail := Some detail\<rparr>"

definition record_failure_tx ::
    "discovery_env \<Rightarrow> NetworkId \<Rightarrow> DateTime \<Rightarrow> string \<Rightarrow> string \<Rightarrow> AuditActor \<Rightarrow> discovery_db \<Rightarrow>
     (unit \<times> discovery_db) state_result" where
  "record_failure_tx E n at kind detail actor db =
     and_then (ok_or (import_of n db) (not_found E n)) (\<lambda>previous.
     and_then
       (if ip_last_failure_kind previous \<noteq> Some kind
        then discovery_audit n actor ''provider_reconciliation_failed'' kind None
          (update_import n (failure_values at kind detail) db)
        else Inr (update_import n (failure_values at kind detail) db))
       (\<lambda>db. Inr ((), db)))"

definition record_provider_failure ::
    "discovery_env \<Rightarrow> NetworkId \<Rightarrow> DateTime \<Rightarrow> string \<Rightarrow> string \<Rightarrow> AuditActor \<Rightarrow> discovery_db \<Rightarrow>
     unit state_result \<times> discovery_db" where
  "record_provider_failure E n at kind detail actor =
     transactional (record_failure_tx E n at kind detail actor)"

fun failure_texts :: "ReconciliationFailure \<Rightarrow> string \<times> string" where
  "failure_texts RFUnreachable = (''unreachable'', ''provider unreachable'')"
| "failure_texts RFAuthenticationFailed = (''authentication'', ''provider authentication failed'')"
| "failure_texts RFIncompatible = (''incompatible'', ''provider compatibility rejected'')"
| "failure_texts RFMalformed = (''malformed'', ''provider response malformed'')"
| "failure_texts RFIdentityConflict = (''identity_conflict'', ''provider identity conflict'')"
| "failure_texts (RFState _) = (''state'', ''local state failure'')"

definition record_failure_for ::
    "discovery_env \<Rightarrow> NetworkId \<Rightarrow> DateTime \<Rightarrow> ReconciliationFailure \<Rightarrow> AuditActor \<Rightarrow> discovery_db \<Rightarrow>
     unit state_result \<times> discovery_db" where
  "record_failure_for E n at failure actor =
     (case failure_texts failure of (kind, detail) \<Rightarrow> record_provider_failure E n at kind detail actor)"

text \<open>\<^verbatim>\<open>self.record_failure_for(...)?; return Err(failure)\<close>.\<close>

definition fail_reconciliation ::
    "discovery_env \<Rightarrow> NetworkId \<Rightarrow> DateTime \<Rightarrow> ReconciliationFailure \<Rightarrow> AuditActor \<Rightarrow> discovery_db \<Rightarrow>
     'a reconciled \<times> discovery_db" where
  "fail_reconciliation E n at failure actor db =
     (case record_failure_for E n at failure actor db of
        (Inl e, db) \<Rightarrow> (Inl (RFState e), db)
      | (Inr _, db) \<Rightarrow> (Inl failure, db))"

section \<open>Applying a snapshot\<close>

text \<open>What a node of the snapshot does to its observation: the values of the source's match.\<close>

record node_outcome =
  no_node :: ProviderNode
  no_classification :: ObservationClassification
  no_fingerprint :: string
  no_changed :: bool
  no_event_kind :: string

definition strong_identity_differs :: "ProviderObservation \<Rightarrow> ProviderNode \<Rightarrow> bool" where
  "strong_identity_differs old node \<longleftrightarrow>
     po_stable_machine_key_fingerprint old \<noteq> pi_stable_key_fingerprint (pn_identity node) \<or>
     ie_machine_key (pn_identity_evidence (po_node old)) \<noteq>
       ie_machine_key (pn_identity_evidence node)"

definition node_effect ::
    "discovery_env \<Rightarrow> ProviderObservation option \<Rightarrow> ProviderNode \<Rightarrow> node_outcome state_result" where
  "node_effect E previous node =
     (case previous of
        None \<Rightarrow>
          and_then (semantic_fingerprint E node) (\<lambda>fingerprint. Inr
            \<lparr>no_node = node, no_classification = first_classification node,
             no_fingerprint = fingerprint, no_changed = True,
             no_event_kind = ''provider_node_discovered''\<rparr>)
      | Some old \<Rightarrow>
          if strong_identity_differs old node then Inr
            \<lparr>no_node = po_node old, no_classification = OCIdentityConflict,
             no_fingerprint = po_semantic_fingerprint old,
             no_changed = (po_classification old \<noteq> OCIdentityConflict),
             no_event_kind = ''provider_identity_conflict''\<rparr>
          else
            (let classification = next_classification (po_classification old) node
             in and_then (semantic_fingerprint E node) (\<lambda>fingerprint. Inr
                  \<lparr>no_node = node, no_classification = classification,
                   no_fingerprint = fingerprint,
                   no_changed = (po_semantic_fingerprint old \<noteq> fingerprint \<or>
                     po_classification old \<noteq> classification),
                   no_event_kind = (if classification = OCProviderExpired
                     then ''provider_node_expired'' else ''provider_node_changed'')\<rparr>)))"

definition conflict_reason_of :: "ObservationClassification \<Rightarrow> string" where
  "conflict_reason_of classification =
     (if classification = OCProviderExpired then ''provider_expired''
      else if classification = OCIdentityConflict then ''identity_conflict''
      else ''observation_changed'')"

definition pending_adoption :: "ProviderObservation \<Rightarrow> bool" where
  "pending_adoption old \<longleftrightarrow> po_adoption_state old = ASPendingDeviceCredentialProof"

definition node_row ::
    "discovery_env \<Rightarrow> nat \<Rightarrow> NetworkId \<Rightarrow> ProviderInstanceId \<Rightarrow> ProviderObservation option \<Rightarrow> ProviderNode \<Rightarrow>
     node_outcome \<Rightarrow> DateTime \<Rightarrow> observation_row" where
  "node_row E i n p previous node x now =
     observation_values E i n (case previous of None \<Rightarrow> None | Some old \<Rightarrow> po_device_id old) p
       (node_key node)
       (case previous of None \<Rightarrow> pi_stable_key_fingerprint (pn_identity node)
        | Some old \<Rightarrow> po_stable_machine_key_fingerprint old)
       (no_classification x) (no_fingerprint x) (no_node x)
       (case previous of None \<Rightarrow> now | Some old \<Rightarrow> po_first_observed_at old) now"

type_synonym reconciling = "string list \<times> discovery_db"

definition reconcile_node ::
    "discovery_env \<Rightarrow> nat \<Rightarrow> NetworkId \<Rightarrow> ProviderInstanceId \<Rightarrow> DateTime \<Rightarrow> AuditActor \<Rightarrow>
     (string \<times> ProviderObservation) list \<Rightarrow> ProviderNode \<Rightarrow> reconciling \<Rightarrow> reconciling state_result" where
  "reconcile_node E i n p now actor existing node = (\<lambda>(changes, db).
     let previous = map_of existing (node_key node)
     in and_then (node_effect E previous node) (\<lambda>x.
        and_then (ok_or (dx_node_vec E (no_node x)) StSerialization) (\<lambda>_.
        and_then (upsert_observation (node_row E i n p previous node x now) db) (\<lambda>db.
        and_then
          (case previous of
             None \<Rightarrow> Inr db
           | Some old \<Rightarrow>
               if no_changed x \<and> pending_adoption old
               then terminalize_pending_adoption E i n (po_canonical_provider_node_id old)
                 (po_semantic_generation old + 1) (conflict_reason_of (no_classification x)) now actor db
               else Inr db)
          (\<lambda>db. Inr (if no_changed x then changes @ [no_event_kind x] else changes, db))))))"

fun reconcile_nodes ::
    "discovery_env \<Rightarrow> nat \<Rightarrow> NetworkId \<Rightarrow> ProviderInstanceId \<Rightarrow> DateTime \<Rightarrow> AuditActor \<Rightarrow>
     (string \<times> ProviderObservation) list \<Rightarrow> ProviderNode list \<Rightarrow> reconciling \<Rightarrow> reconciling state_result" where
  "reconcile_nodes E i n p now actor existing [] st = Inr st"
| "reconcile_nodes E i n p now actor existing (node # nodes) st =
     and_then (reconcile_node E i n p now actor existing node st)
       (reconcile_nodes E (Suc i) n p now actor existing nodes)"

definition missing_update :: "DateTime \<Rightarrow> observation_row \<Rightarrow> observation_row" where
  "missing_update now r = r
     \<lparr>ob_classification := ''provider_missing'',
      ob_semantic_generation := ob_semantic_generation r + 1, ob_snapshot_at := now\<rparr>"

definition mark_missing ::
    "discovery_env \<Rightarrow> nat \<Rightarrow> NetworkId \<Rightarrow> ProviderInstanceId \<Rightarrow> DateTime \<Rightarrow> AuditActor \<Rightarrow> string list \<Rightarrow>
     string \<Rightarrow> ProviderObservation \<Rightarrow> reconciling \<Rightarrow> reconciling state_result" where
  "mark_missing E i n p now actor incoming key old = (\<lambda>(changes, db).
     if key \<notin> set incoming \<and> po_classification old \<noteq> OCProviderMissing
     then
       and_then (update_observations (observation_at p key) (missing_update now) db) (\<lambda>db.
       and_then
         (if pending_adoption old
          then terminalize_pending_adoption E i n key (po_semantic_generation old + 1)
            ''provider_missing'' now actor db
          else Inr db)
         (\<lambda>db. Inr (changes @ [''provider_node_missing''], db)))
     else Inr (changes, db))"

fun mark_all_missing ::
    "discovery_env \<Rightarrow> nat \<Rightarrow> NetworkId \<Rightarrow> ProviderInstanceId \<Rightarrow> DateTime \<Rightarrow> AuditActor \<Rightarrow> string list \<Rightarrow>
     (string \<times> ProviderObservation) list \<Rightarrow> reconciling \<Rightarrow> reconciling state_result" where
  "mark_all_missing E i n p now actor incoming [] st = Inr st"
| "mark_all_missing E i n p now actor incoming ((key, old) # rest) st =
     and_then (mark_missing E i n p now actor incoming key old st)
       (mark_all_missing E (Suc i) n p now actor incoming rest)"

definition success_values ::
    "ServerInspection \<Rightarrow> DateTime \<Rightarrow> provider_import_row \<Rightarrow> provider_import_row" where
  "success_values inspection now i = i
     \<lparr>ip_compatibility := compatibility_name (sp_compatibility inspection),
      ip_provider_version := sp_provider_version inspection, ip_last_success_at := Some now,
      ip_last_attempt_at := Some now, ip_last_failure_kind := None,
      ip_last_failure_detail := None\<rparr>"

definition change_audits :: "NetworkId \<Rightarrow> AuditActor \<Rightarrow> string list \<Rightarrow> discovery_db \<Rightarrow> discovery_db state_result" where
  "change_audits n actor changes db =
     (if changes = [] then Inr db
      else discovery_audits n actor
        (''provider_reconciliation_started'' # changes @ [''provider_reconciliation_completed'']) db)"

definition apply_snapshot_tx ::
    "discovery_env \<Rightarrow> NetworkId \<Rightarrow> ProviderInstanceId \<Rightarrow> ServerInspection \<Rightarrow> ProviderNode list \<Rightarrow>
     DateTime \<Rightarrow> AuditActor \<Rightarrow> discovery_db \<Rightarrow> (unit \<times> discovery_db) state_result" where
  "apply_snapshot_tx E n p inspection nodes now actor db =
     and_then (load_observations n db) (\<lambda>existing.
     and_then (reconcile_nodes E 0 n p now actor existing nodes ([], db)) (\<lambda>st.
     and_then (mark_all_missing E (length nodes) n p now actor (map node_key nodes) existing st)
       (\<lambda>(changes, db).
     and_then (change_audits n actor changes db) (\<lambda>db.
     Inr ((), update_import n (success_values inspection now) db)))))"


section \<open>Reconciliation\<close>

definition network_row_of :: "NetworkId \<Rightarrow> discovery_db \<Rightarrow> discovery_network_row option" where
  "network_row_of n db = find (\<lambda>w. dn_network_id w = n) (dc_networks db)"

definition reconciliation_import_config ::
    "discovery_env \<Rightarrow> NetworkId \<Rightarrow> discovery_db \<Rightarrow> ReconciliationImportConfig state_result" where
  "reconciliation_import_config E n db =
     and_then (ok_or (import_of n db) (not_found E n)) (\<lambda>i.
     and_then (ok_or (network_row_of n db) (not_found E n)) (\<lambda>w.
     and_then (ensure (ip_read_only i \<noteq> 0 \<and> ip_mutation_allowed i = 0)
       (StConflict ''persisted provider import is not read-only'')) (\<lambda>_.
     and_then (ensure (dn_provider_kind w \<in> {''headscale'', ''tailscale''})
       (StConflict ''unsupported persisted provider kind'')) (\<lambda>_.
     Inr \<lparr>rc_provider_instance_id = ip_provider_instance_id i,
          rc_provider_name = dn_provider_kind w, rc_compatibility_pin = ip_compatibility_pin i\<rparr>))))"

definition import_config ::
    "discovery_env \<Rightarrow> NetworkId \<Rightarrow> discovery_db \<Rightarrow>
     (ProviderInstanceId \<times> HeadscaleImportConfig) state_result" where
  "import_config E n db =
     and_then (ok_or (import_of n db) (not_found E n)) (\<lambda>i.
     and_then (HeadscaleImportConfig_new (ip_server_url i) (ip_provider_instance_id i)
       (ip_opaque_secret_reference i) (ip_compatibility_pin i)) (\<lambda>c.
     and_then (case ip_custom_root_ca_sha256 i of None \<Rightarrow> Inr c
       | Some fingerprint \<Rightarrow> with_custom_root_ca_sha256 c fingerprint) (\<lambda>c.
     Inr (ip_provider_instance_id i, c))))"

text \<open>The answers of the provider, validated in the order the code asks for them.\<close>

definition provider_snapshot ::
    "ReconciliationImportConfig \<Rightarrow> ReadOnlyProvider \<Rightarrow> (ServerInspection \<times> ProviderNode list) reconciled" where
  "provider_snapshot c provider =
     and_then (provider_answer (ro_inspect_server provider)) (\<lambda>inspection.
     and_then (validate_read_only_inspection inspection (rc_provider_instance_id c)
       (rc_provider_name c) (rc_compatibility_pin c)) (\<lambda>_.
     and_then (provider_answer (ro_list_nodes provider)) (\<lambda>nodes.
     and_then (validate_snapshot nodes (rc_provider_instance_id c)) (\<lambda>nodes.
     Inr (inspection, nodes)))))"

datatype ProviderReconciliationState =
  PRNeverReconciled | PRHealthy | PRUnreachable | PRAuthenticationFailed | PRIncompatible |
  PRMalformed | PRIdentityConflict | PRStateFailure

definition provider_state_of :: "provider_import_row \<Rightarrow> ProviderReconciliationState" where
  "provider_state_of i =
     (case ip_last_failure_kind i of
        None \<Rightarrow> if ip_last_success_at i \<noteq> None then PRHealthy else PRNeverReconciled
      | Some kind \<Rightarrow>
          if kind = ''unreachable'' then PRUnreachable
          else if kind = ''authentication'' then PRAuthenticationFailed
          else if kind = ''incompatible'' then PRIncompatible
          else if kind = ''malformed'' then PRMalformed
          else if kind = ''identity_conflict'' then PRIdentityConflict
          else PRStateFailure)"

record ReconciliationReport =
  rr_network_id :: NetworkId
  rr_provider_state :: ProviderReconciliationState
  rr_provider_compatibility :: CompatibilityStatus
  rr_provider_version :: string
  rr_last_attempted :: "DateTime option"
  rr_last_successful :: "DateTime option"
  rr_observed_count :: nat
  rr_discovered_unmanaged_count :: nat
  rr_provider_missing_count :: nat
  rr_provider_expired_count :: nat
  rr_identity_conflict_count :: nat
  rr_quarantined_count :: nat
  rr_active_trusted_count :: nat
  rr_warnings :: "string list"
  rr_provider_mutation_enabled :: bool

text \<open>\<^verbatim>\<open>SELECT classification, COUNT(*) ... GROUP BY classification\<close>, one entry per text.\<close>

definition classification_counts :: "NetworkId \<Rightarrow> discovery_db \<Rightarrow> (string \<times> nat) list" where
  "classification_counts n db =
     (let texts = map ob_classification (network_rows n db)
      in map (\<lambda>s. (s, count_list texts s)) (remdups texts))"

definition counted :: "string \<Rightarrow> (string \<times> nat) list \<Rightarrow> nat" where
  "counted s counts = (case map_of counts s of None \<Rightarrow> 0 | Some k \<Rightarrow> k)"

definition reconciliation_report ::
    "discovery_env \<Rightarrow> NetworkId \<Rightarrow> discovery_db \<Rightarrow> ReconciliationReport state_result" where
  "reconciliation_report E n db =
     (let counts = classification_counts n db
      in and_then (ok_or (import_of n db) (not_found E n)) (\<lambda>i.
         and_then (parse_compatibility (ip_compatibility i)) (\<lambda>compatibility. Inr
           \<lparr>rr_network_id = n, rr_provider_state = provider_state_of i,
            rr_provider_compatibility = compatibility, rr_provider_version = ip_provider_version i,
            rr_last_attempted = ip_last_attempt_at i, rr_last_successful = ip_last_success_at i,
            rr_observed_count = sum_list (map snd counts),
            rr_discovered_unmanaged_count = counted ''discovered_unmanaged'' counts,
            rr_provider_missing_count = counted ''provider_missing'' counts,
            rr_provider_expired_count = counted ''provider_expired'' counts,
            rr_identity_conflict_count = counted ''identity_conflict'' counts,
            rr_quarantined_count = counted ''quarantined'' counts,
            rr_active_trusted_count = counted ''active'' counts,
            rr_warnings = (case ip_last_failure_detail i of None \<Rightarrow> [] | Some d \<Rightarrow> [d]),
            rr_provider_mutation_enabled = False\<rparr>)))"

text \<open>
  The part after the configuration is read. Other store calls may commit while the provider
  answers; \<open>meanwhile\<close> is what they do.
\<close>

definition reconcile_configured ::
    "discovery_env \<Rightarrow> NetworkId \<Rightarrow> ReconciliationImportConfig \<Rightarrow> ReadOnlyProvider \<Rightarrow> DateTime \<Rightarrow>
     AuditActor \<Rightarrow> discovery_db \<Rightarrow> ReconciliationReport reconciled \<times> discovery_db" where
  "reconcile_configured E n c provider now actor db =
     (if ro_instance_id provider \<noteq> rc_provider_instance_id c
      then
        (case record_provider_failure E n now ''identity_conflict'' ''provider instance mismatch'' actor db of
           (Inl e, db) \<Rightarrow> (Inl (RFState e), db)
         | (Inr _, db) \<Rightarrow> (Inl RFIdentityConflict, db))
      else
        (case provider_snapshot c provider of
           Inl failure \<Rightarrow> fail_reconciliation E n now failure actor db
         | Inr (inspection, nodes) \<Rightarrow>
             (case transactional (apply_snapshot_tx E n (rc_provider_instance_id c) inspection nodes
                now actor) db of
                (Inl e, db) \<Rightarrow> (Inl (RFState e), db)
              | (Inr _, db) \<Rightarrow> (state_step (reconciliation_report E n db), db))))"

definition reconcile_read_only ::
    "discovery_env \<Rightarrow> NetworkId \<Rightarrow> ReadOnlyProvider \<Rightarrow> DateTime \<Rightarrow> AuditActor \<Rightarrow>
     (discovery_db \<Rightarrow> discovery_db) \<Rightarrow> discovery_db \<Rightarrow> ReconciliationReport reconciled \<times> discovery_db" where
  "reconcile_read_only E n provider now actor meanwhile db =
     (case reconciliation_import_config E n db of
        Inl e \<Rightarrow> (Inl (RFState e), db)
      | Inr c \<Rightarrow> reconcile_configured E n c provider now actor (meanwhile db))"

section \<open>Importing a network\<close>

definition network_values :: "Network \<Rightarrow> string \<Rightarrow> int \<Rightarrow> int \<Rightarrow> discovery_network_row" where
  "network_values network kind membership policy =
     \<lparr>dn_network_id = nw_network_id network, dn_name = nw_name network, dn_provider_kind = kind,
      dn_provider_instance_id = nw_provider_instance_id network,
      dn_membership_generation = membership, dn_policy_generation = policy, dn_record = network\<rparr>"

definition insert_network :: "discovery_network_row \<Rightarrow> discovery_db \<Rightarrow> discovery_db state_result" where
  "insert_network w db =
     and_then (ensure (0 < dn_membership_generation w \<and> 0 < dn_policy_generation w)
       (StConflict ''CHECK'')) (\<lambda>_.
     and_then (ensure (list_all (\<lambda>q. dn_network_id q \<noteq> dn_network_id w \<and> dn_name q \<noteq> dn_name w \<and>
         dn_provider_instance_id q \<noteq> dn_provider_instance_id w) (dc_networks db))
       (StConflict ''UNIQUE'')) (\<lambda>_.
     Inr (db\<lparr>dc_networks := dc_networks db @ [w]\<rparr>)))"

definition insert_membership :: "NetworkId \<Rightarrow> int \<Rightarrow> discovery_db \<Rightarrow> discovery_db state_result" where
  "insert_membership n generation db =
     and_then (ensure (map_of (dc_memberships db) n = None) (StConflict ''UNIQUE'')) (\<lambda>_.
     Inr (db\<lparr>dc_memberships := dc_memberships db @ [(n, generation)]\<rparr>))"

definition insert_import :: "provider_import_row \<Rightarrow> discovery_db \<Rightarrow> discovery_db state_result" where
  "insert_import i db =
     and_then (ensure (list_all (\<lambda>q. ip_network_id q \<noteq> ip_network_id i \<and>
         ip_provider_instance_id q \<noteq> ip_provider_instance_id i) (dc_imports db))
       (StConflict ''UNIQUE'')) (\<lambda>_.
     and_then (ensure (case ip_custom_root_ca_sha256 i of None \<Rightarrow> True | Some f \<Rightarrow> hash_column f)
       (StConflict ''CHECK'')) (\<lambda>_.
     Inr (db\<lparr>dc_imports := dc_imports db @ [i]\<rparr>)))"

definition import_values ::
    "Network \<Rightarrow> string \<Rightarrow> string \<Rightarrow> string \<Rightarrow> string option \<Rightarrow> ServerInspection \<Rightarrow> DateTime \<Rightarrow>
     provider_import_row" where
  "import_values network url secret pin root inspection now =
     \<lparr>ip_network_id = nw_network_id network,
      ip_provider_instance_id = nw_provider_instance_id network, ip_server_url = url,
      ip_opaque_secret_reference = secret, ip_compatibility_pin = pin,
      ip_custom_root_ca_sha256 = root, ip_read_only = 1, ip_mutation_allowed = 0,
      ip_compatibility = compatibility_name (sp_compatibility inspection),
      ip_provider_version = sp_provider_version inspection, ip_last_success_at = Some now,
      ip_last_attempt_at = Some now, ip_last_failure_kind = None, ip_last_failure_detail = None\<rparr>"

definition insert_new_observation ::
    "discovery_env \<Rightarrow> nat \<Rightarrow> NetworkId \<Rightarrow> ProviderInstanceId \<Rightarrow> ProviderNode \<Rightarrow>
     ObservationClassification \<Rightarrow> DateTime \<Rightarrow> discovery_db \<Rightarrow> discovery_db state_result" where
  "insert_new_observation E i n p node classification now db =
     and_then (semantic_fingerprint E node) (\<lambda>fingerprint.
     and_then (ok_or (dx_node_vec E node) StSerialization) (\<lambda>_.
     insert_observation (observation_values E i n None p (node_key node)
       (pi_stable_key_fingerprint (pn_identity node)) classification fingerprint node now now) db))"

fun import_nodes ::
    "discovery_env \<Rightarrow> nat \<Rightarrow> NetworkId \<Rightarrow> ProviderInstanceId \<Rightarrow> DateTime \<Rightarrow> AuditActor \<Rightarrow>
     ProviderNode list \<Rightarrow> discovery_db \<Rightarrow> discovery_db state_result" where
  "import_nodes E i n p now actor [] db = Inr db"
| "import_nodes E i n p now actor (node # nodes) db =
     and_then (insert_new_observation E i n p node (first_classification node) now db) (\<lambda>db.
     and_then (discovery_audit n actor
       (if pn_expired node then ''provider_node_expired'' else ''provider_node_discovered'')
       ''success'' None db) (\<lambda>db.
     import_nodes E (Suc i) n p now actor nodes db))"

definition import_tx ::
    "discovery_env \<Rightarrow> Network \<Rightarrow> string \<Rightarrow> provider_import_row \<Rightarrow> ProviderNode list \<Rightarrow> DateTime \<Rightarrow>
     AuditActor \<Rightarrow> discovery_db \<Rightarrow> (unit \<times> discovery_db) state_result" where
  "import_tx E network kind row nodes now actor db =
     (let n = nw_network_id network
      in and_then (to_i64 (nw_membership_generation network)) (\<lambda>membership.
         and_then (to_i64 (nw_policy_generation network)) (\<lambda>policy.
         and_then (insert_network (network_values network kind membership policy) db) (\<lambda>db.
         and_then (insert_membership n membership db) (\<lambda>db.
         and_then (insert_import row db) (\<lambda>db.
         and_then (discovery_audit n actor ''network_imported'' ''success''
           (Some (nw_membership_generation network)) db) (\<lambda>db.
         and_then (discovery_audit n actor ''provider_reconciliation_started'' ''success'' None db) (\<lambda>db.
         and_then (import_nodes E 0 n (ip_provider_instance_id row) now actor nodes db) (\<lambda>db.
         and_then (discovery_audit n actor ''provider_reconciliation_completed'' ''success'' None db) (\<lambda>db.
         Inr ((), db)))))))))))"

text \<open>The provider's answers and the transaction, common to both imports.\<close>

definition import_answered ::
    "discovery_env \<Rightarrow> Network \<Rightarrow> ReconciliationImportConfig \<Rightarrow> (ServerInspection \<Rightarrow> provider_import_row) \<Rightarrow>
     ReadOnlyProvider \<Rightarrow> DateTime \<Rightarrow> AuditActor \<Rightarrow> discovery_db \<Rightarrow> unit reconciled \<times> discovery_db" where
  "import_answered E network c row provider now actor db =
     (case provider_snapshot c provider of
        Inl failure \<Rightarrow> (Inl failure, db)
      | Inr (inspection, nodes) \<Rightarrow>
          (case transactional (import_tx E network (rc_provider_name c) (row inspection) nodes now actor) db of
             (r, db) \<Rightarrow> (state_step r, db)))"

definition import_headscale_network ::
    "discovery_env \<Rightarrow> Network \<Rightarrow> HeadscaleImportConfig \<Rightarrow> ReadOnlyProvider \<Rightarrow> DateTime \<Rightarrow> AuditActor \<Rightarrow>
     discovery_db \<Rightarrow> unit reconciled \<times> discovery_db" where
  "import_headscale_network E network c provider now actor db =
     (case validate_for_persistence c of
        Inl e \<Rightarrow> (Inl (RFState e), db)
      | Inr _ \<Rightarrow>
          if nw_provider_kind network \<noteq> PKHeadscale \<or>
             nw_provider_instance_id network \<noteq> hc_provider_instance_id c \<or>
             ro_instance_id provider \<noteq> hc_provider_instance_id c \<or> \<not> hc_read_only c \<or>
             hc_mutation_allowed c
          then (Inl RFIncompatible, db)
          else import_answered E network
            \<lparr>rc_provider_instance_id = hc_provider_instance_id c, rc_provider_name = ''headscale'',
             rc_compatibility_pin = hc_compatibility_pin c\<rparr>
            (\<lambda>inspection. import_values network (hc_server_url c) (hc_opaque_secret_reference c)
              (hc_compatibility_pin c) (hc_custom_root_ca_sha256 c) inspection now)
            provider now actor db)"

definition import_tailscale_network ::
    "discovery_env \<Rightarrow> Network \<Rightarrow> TailscaleImportConfig \<Rightarrow> ReadOnlyProvider \<Rightarrow> DateTime \<Rightarrow> AuditActor \<Rightarrow>
     discovery_db \<Rightarrow> unit reconciled \<times> discovery_db" where
  "import_tailscale_network E network c provider now actor db =
     (if nw_provider_kind network \<noteq> PKTailscale \<or>
         nw_provider_instance_id network \<noteq> tc_provider_instance_id c \<or>
         ro_instance_id provider \<noteq> tc_provider_instance_id c \<or> \<not> tc_read_only c \<or>
         tc_mutation_allowed c
      then (Inl RFIncompatible, db)
      else import_answered E network
        \<lparr>rc_provider_instance_id = tc_provider_instance_id c, rc_provider_name = ''tailscale'',
         rc_compatibility_pin = tc_compatibility_pin c\<rparr>
        (\<lambda>inspection. import_values network (scoped_api_url c) (tc_opaque_secret_reference c)
          (tc_compatibility_pin c) None inspection now)
        provider now actor db)"

section \<open>Pages of observations\<close>

definition PROVIDER_OBSERVATION_PAGE_MAX :: nat where
  "PROVIDER_OBSERVATION_PAGE_MAX = 100"

definition load_observation_page ::
    "NetworkId \<Rightarrow> string option \<Rightarrow> nat \<Rightarrow> discovery_db \<Rightarrow> ProviderObservation list state_result" where
  "load_observation_page n after limit db =
     decode_each (take limit (filter
       (\<lambda>r. case after of None \<Rightarrow> True | Some k \<Rightarrow> k < ob_provider_node_id r) (network_rows n db)))"

definition consistent_observation :: "discovery_env \<Rightarrow> Network \<Rightarrow> ProviderObservation \<Rightarrow> bool state_result" where
  "consistent_observation E network x =
     (if po_provider_instance_id x \<noteq> nw_provider_instance_id network \<or>
         pi_provider_instance_id (pn_identity (po_node x)) \<noteq> po_provider_instance_id x \<or>
         node_key (po_node x) \<noteq> po_canonical_provider_node_id x \<or>
         \<not> valid_sha256_fingerprint (po_stable_machine_key_fingerprint x) \<or>
         pi_stable_key_fingerprint (pn_identity (po_node x)) \<noteq> po_stable_machine_key_fingerprint x
      then Inr False
      else and_then (semantic_fingerprint E (po_node x)) (\<lambda>fingerprint.
        Inr (fingerprint = po_semantic_fingerprint x)))"

fun check_page ::
    "discovery_env \<Rightarrow> Network \<Rightarrow> ProviderObservation list \<Rightarrow> ProviderObservation list state_result" where
  "check_page E network [] = Inr []"
| "check_page E network (x # xs) =
     and_then (consistent_observation E network x) (\<lambda>consistent.
     and_then (ensure consistent (StConflict ''provider observation identity is inconsistent'')) (\<lambda>_.
     and_then (check_page E network xs) (\<lambda>ys. Inr (x # ys))))"

definition provider_observation_page ::
    "discovery_env \<Rightarrow> NetworkId \<Rightarrow> string option \<Rightarrow> nat \<Rightarrow> discovery_db \<Rightarrow>
     ProviderObservation list state_result" where
  "provider_observation_page E n after limit db =
     (let limit = min limit PROVIDER_OBSERVATION_PAGE_MAX
      in if limit = 0 then Inr []
      else
        and_then (ok_or (network_row_of n db) (not_found E n)) (\<lambda>w.
        and_then (load_observation_page n after limit db) (\<lambda>observations.
        check_page E (dn_record w) observations)))"

end
