(* ===== verification/Discovery.thy ===== *)
theory Discovery
  imports Discovery_Store
begin

text \<open>
  What import and reconciliation guarantee. \<open>row_at\<close> reads the table as a map from a provider
  instance and a node identifier to a row; \<open>discovery_inv\<close> is the invariant of the tables, and
  every iteration of a reconciliation keeps it and changes one row. \<open>discovery_step\<close> interleaves
  imports, reconciliations and failures of any networks with writes of the adoption code, and
  \<open>observations_evolve\<close> is the preorder all of them respect.
\<close>

section \<open>Loaded observations\<close>

lemma map_of_btree_insert [simp]: "map_of (btree_insert k v m) = (map_of m)(k \<mapsto> v)"
  by (induction k v m rule: btree_insert.induct) (auto simp: fun_eq_iff)

lemma keys_btree_insert [simp]: "fst ` set (btree_insert k v m) = insert k (fst ` set m)"
  by (induction k v m rule: btree_insert.induct) auto

lemma sorted_btree_insert:
  "sorted_wrt (<) (map fst m) \<Longrightarrow> sorted_wrt (<) (map fst (btree_insert k v m))"
proof (induction k v m rule: btree_insert.induct)
  case (2 k v k' v' m)
  have "\<forall>x \<in> fst ` set (btree_insert k v m). k' < x" if "k' < k" using that 2(2) by auto
  with 2 show ?case by auto
qed simp

lemma sorted_btree_fold:
  "sorted_wrt (<) (map fst m) \<Longrightarrow> sorted_wrt (<) (map fst (fold (\<lambda>x. btree_insert (f x) x) xs m))"
  by (induction xs arbitrary: m) (auto intro: sorted_btree_insert)

lemma keys_btree_fold: "fst ` set (fold (\<lambda>x. btree_insert (f x) x) xs m) = fst ` set m \<union> f ` set xs"
  by (induction xs arbitrary: m) auto

lemma map_of_btree_fold:
  assumes "distinct (map f xs)"
  shows "map_of (fold (\<lambda>x. btree_insert (f x) x) xs m) k =
    (case find (\<lambda>x. f x = k) xs of None \<Rightarrow> map_of m k | Some x \<Rightarrow> Some x)"
  using assms
proof (induction xs arbitrary: m)
  case Nil
  then show ?case by simp
next
  case (Cons x xs)
  have later: "find (\<lambda>y. f y = f x) xs = None" using Cons.prems by (auto simp: find_None_iff) (metis imageI)
  show ?case
  proof (cases "f x = k")
    case True
    then show ?thesis using Cons later by auto
  next
    case False
    then show ?thesis using Cons by (auto split: option.splits)
  qed
qed

lemma decode_each_Inr:
  "decode_each rs = Inr xs \<longleftrightarrow> list_all2 (\<lambda>r x. decode_observation r = Inr x) rs xs"
  by (induction rs arbitrary: xs) (auto simp: guard_simps list_all2_Cons1)

lemma decoded_members:
  "list_all2 (\<lambda>r x. f r = Inr x) rs xs \<Longrightarrow> x \<in> set xs \<longleftrightarrow> (\<exists>r \<in> set rs. f r = Inr x)"
  by (induction rule: list_all2_induct) auto

lemma decoded_each: "list_all2 (\<lambda>r x. f r = Inr x) rs xs \<Longrightarrow> r \<in> set rs \<Longrightarrow> \<exists>x. f r = Inr x"
  by (induction rule: list_all2_induct) auto

definition row_at :: "ProviderInstanceId \<Rightarrow> string \<Rightarrow> discovery_db \<Rightarrow> observation_row option" where
  "row_at p k db = find (observation_at p k) (dc_observations db)"

text \<open>Each pair of an instance and a node names one row, and a network has one instance.\<close>

definition rows_unique :: "discovery_db \<Rightarrow> bool" where
  "rows_unique db \<longleftrightarrow>
     distinct (map (\<lambda>r. (ob_provider_instance_id r, ob_provider_node_id r)) (dc_observations db))"

definition single_instance :: "NetworkId \<Rightarrow> ProviderInstanceId \<Rightarrow> discovery_db \<Rightarrow> bool" where
  "single_instance n p db \<longleftrightarrow>
     list_all (\<lambda>r. ob_network_id r = n \<longleftrightarrow> ob_provider_instance_id r = p) (dc_observations db)"

lemma row_at_Some:
  assumes "rows_unique db"
  shows "row_at p k db = Some r \<longleftrightarrow> r \<in> set (dc_observations db) \<and> observation_at p k r"
proof
  assume "row_at p k db = Some r"
  then show "r \<in> set (dc_observations db) \<and> observation_at p k r"
    by (auto simp: row_at_def find_Some_iff)
next
  assume r: "r \<in> set (dc_observations db) \<and> observation_at p k r"
  then obtain q where q: "row_at p k db = Some q"
    by (cases "row_at p k db") (auto simp: row_at_def find_None_iff)
  then have "q \<in> set (dc_observations db)" "observation_at p k q"
    by (auto simp: row_at_def find_Some_iff)
  then have "q = r" using assms r unfolding rows_unique_def distinct_map
    by (auto simp: observation_at_def dest: inj_onD)
  with q show "row_at p k db = Some r" by simp
qed

lemma decode_key: "decode_observation r = Inr x \<Longrightarrow> po_canonical_provider_node_id x = ob_provider_node_id r"
  by (auto simp: decode_observation_def guard_simps)

lemma network_rows_facts:
  "set (network_rows n db) = {r \<in> set (dc_observations db). ob_network_id r = n}"
  "sorted (map ob_provider_node_id (network_rows n db))"
  by (simp_all add: network_rows_def)

lemma network_rows_distinct:
  assumes "rows_unique db" "single_instance n p db"
  shows "distinct (map ob_provider_node_id (network_rows n db))"
proof -
  have all: "distinct (dc_observations db)"
    "inj_on (\<lambda>r. (ob_provider_instance_id r, ob_provider_node_id r)) (set (dc_observations db))"
    using assms(1) by (simp_all add: rows_unique_def distinct_map)
  have "inj_on ob_provider_node_id (set (network_rows n db))"
  proof (rule inj_onI)
    fix r q assume rq: "r \<in> set (network_rows n db)" "q \<in> set (network_rows n db)"
      "ob_provider_node_id r = ob_provider_node_id q"
    then have "ob_provider_instance_id r = p" "ob_provider_instance_id q = p"
      using assms(2) by (auto simp: network_rows_facts single_instance_def list_all_iff)
    then show "r = q" using rq inj_onD [OF all(2), of r q] by (simp add: network_rows_facts)
  qed
  then show ?thesis using all(1) by (simp add: distinct_map network_rows_def)
qed

text \<open>The loaded map reads every row of the network under its key.\<close>

lemma load_observations_lookup:
  assumes load: "load_observations n db = Inr existing"
    and inv: "rows_unique db" "single_instance n p db"
  shows "sorted_wrt (<) (map fst existing)"
    and "map_of existing k = None \<longleftrightarrow> row_at p k db = None"
    and "map_of existing k = Some x \<longleftrightarrow> (\<exists>r. row_at p k db = Some r \<and> decode_observation r = Inr x)"
proof -
  obtain rows where rows: "list_all2 (\<lambda>r x. decode_observation r = Inr x) (network_rows n db) rows"
    and ex: "existing = fold (\<lambda>x. btree_insert (po_canonical_provider_node_id x) x) rows []"
    using load by (auto simp: load_observations_def guard_simps decode_each_Inr)
  show "sorted_wrt (<) (map fst existing)" unfolding ex by (rule sorted_btree_fold) simp
  have keys: "map po_canonical_provider_node_id rows = map ob_provider_node_id (network_rows n db)"
    using rows by (induction rule: list_all2_induct) (auto dest: decode_key)
  then have dist: "distinct (map po_canonical_provider_node_id rows)"
    using network_rows_distinct [OF inv] by simp
  have look: "map_of existing k = find (\<lambda>x. po_canonical_provider_node_id x = k) rows"
    unfolding ex map_of_btree_fold [OF dist] by (cases "find (\<lambda>x. po_canonical_provider_node_id x = k) rows") auto
  have find2: "find (\<lambda>x. po_canonical_provider_node_id x = k) rows = Some x \<longleftrightarrow>
      (\<exists>r \<in> set (network_rows n db). ob_provider_node_id r = k \<and> decode_observation r = Inr x)" for x
  proof -
    have "find (\<lambda>x. po_canonical_provider_node_id x = k) rows = Some x \<longleftrightarrow>
        x \<in> set rows \<and> po_canonical_provider_node_id x = k"
    proof
      assume h: "x \<in> set rows \<and> po_canonical_provider_node_id x = k"
      then obtain y where y: "find (\<lambda>x. po_canonical_provider_node_id x = k) rows = Some y"
        by (cases "find (\<lambda>x. po_canonical_provider_node_id x = k) rows") (auto simp: find_None_iff)
      then have "y \<in> set rows" "po_canonical_provider_node_id y = k" by (auto simp: find_Some_iff)
      with h dist have "y = x" by (auto simp: distinct_map dest: inj_onD)
      with y show "find (\<lambda>x. po_canonical_provider_node_id x = k) rows = Some x" by simp
    qed (auto simp: find_Some_iff)
    also have "\<dots> \<longleftrightarrow> (\<exists>r \<in> set (network_rows n db). ob_provider_node_id r = k \<and> decode_observation r = Inr x)"
      unfolding decoded_members [OF rows] by (metis decode_key)
    finally show ?thesis .
  qed
  have at: "(\<exists>r. row_at p k db = Some r \<and> P r) \<longleftrightarrow>
      (\<exists>r \<in> set (network_rows n db). ob_provider_node_id r = k \<and> P r)" for P
    using inv(2) unfolding row_at_Some [OF inv(1)] network_rows_facts observation_at_def
      single_instance_def list_all_iff by auto
  show some: "map_of existing k = Some x \<longleftrightarrow> (\<exists>r. row_at p k db = Some r \<and> decode_observation r = Inr x)" for x
    unfolding look find2 at ..
  show "map_of existing k = None \<longleftrightarrow> row_at p k db = None"
  proof
    assume none: "map_of existing k = None"
    show "row_at p k db = None"
    proof (rule ccontr)
      assume "row_at p k db \<noteq> None"
      then obtain r where r: "r \<in> set (network_rows n db)" "ob_provider_node_id r = k" using at [of "\<lambda>_. True"] by auto
      with decoded_each [OF rows] obtain x where "decode_observation r = Inr x" by blast
      then show False using r none some at [of "\<lambda>r. decode_observation r = Inr x"] by auto
    qed
  next
    assume "row_at p k db = None"
    then show "map_of existing k = None" using some by (cases "map_of existing k") auto
  qed
qed


section \<open>The invariant of the tables\<close>

definition import_pair :: "NetworkId \<Rightarrow> ProviderInstanceId \<Rightarrow> discovery_db \<Rightarrow> bool" where
  "import_pair n p db \<longleftrightarrow>
     list_ex (\<lambda>i. ip_network_id i = n \<and> ip_provider_instance_id i = p) (dc_imports db)"

definition imports_keyed :: "discovery_db \<Rightarrow> bool" where
  "imports_keyed db \<longleftrightarrow>
     distinct (map ip_network_id (dc_imports db)) \<and>
     distinct (map ip_provider_instance_id (dc_imports db)) \<and>
     distinct (map dn_network_id (dc_networks db)) \<and>
     list_all (\<lambda>i. list_ex (\<lambda>w. dn_network_id w = ip_network_id i \<and>
       nw_provider_instance_id (dn_record w) = ip_provider_instance_id i) (dc_networks db)) (dc_imports db)"

text \<open>A row agrees with the node it holds, and reads back.\<close>

definition row_ok :: "discovery_env \<Rightarrow> observation_row \<Rightarrow> bool" where
  "row_ok E r \<longleftrightarrow>
     node_key (ob_normalized_node r) = ob_provider_node_id r \<and>
     pi_provider_instance_id (pn_identity (ob_normalized_node r)) = ob_provider_instance_id r \<and>
     pi_stable_key_fingerprint (pn_identity (ob_normalized_node r)) = ob_stable_key_fingerprint r \<and>
     hash_column (ob_stable_key_fingerprint r) \<and>
     semantic_fingerprint E (ob_normalized_node r) = Inr (ob_semantic_fingerprint r) \<and>
     generation_check r \<and> is_ok (decode_observation r)"

definition rows_imported :: "discovery_db \<Rightarrow> bool" where
  "rows_imported db \<longleftrightarrow>
     list_all (\<lambda>r. import_pair (ob_network_id r) (ob_provider_instance_id r) db) (dc_observations db)"

text \<open>
  Adoption: an open action refers to a pending row and pins its current generation, a pending row
  has an open action, and a node has at most one.
\<close>

definition is_open :: "adoption_action_row \<Rightarrow> bool" where
  "is_open a \<longleftrightarrow> aa_action_state a = ''proof_pending''"

definition action_backed :: "discovery_db \<Rightarrow> adoption_action_row \<Rightarrow> bool" where
  "action_backed db a \<longleftrightarrow>
     (case row_at (aa_provider_instance_id a) (aa_provider_node_id a) db of None \<Rightarrow> False
      | Some r \<Rightarrow> ob_observation_id r = aa_observation_id a \<and> ob_network_id r = aa_network_id a \<and>
          ob_adoption_state r = pending_text \<and>
          ob_semantic_generation r = aa_expected_observation_generation a)"

definition pending_backed :: "discovery_db \<Rightarrow> observation_row \<Rightarrow> bool" where
  "pending_backed db r \<longleftrightarrow>
     list_ex (\<lambda>a. is_open a \<and> aa_network_id a = ob_network_id r \<and>
       aa_provider_instance_id a = ob_provider_instance_id r \<and>
       aa_provider_node_id a = ob_provider_node_id r) (dc_actions db)"

definition adoption_inv :: "discovery_db \<Rightarrow> bool" where
  "adoption_inv db \<longleftrightarrow>
     distinct (map aa_action_id (dc_actions db)) \<and>
     distinct (map (\<lambda>a. (aa_provider_instance_id a, aa_provider_node_id a))
       (filter is_open (dc_actions db))) \<and>
     list_all (\<lambda>a. is_open a \<longrightarrow> action_backed db a) (dc_actions db) \<and>
     list_all (\<lambda>r. ob_adoption_state r = pending_text \<longrightarrow> pending_backed db r) (dc_observations db)"

definition discovery_inv :: "discovery_env \<Rightarrow> discovery_db \<Rightarrow> bool" where
  "discovery_inv E db \<longleftrightarrow>
     imports_keyed db \<and> rows_unique db \<and> rows_imported db \<and>
     list_all (row_ok E) (dc_observations db) \<and> adoption_inv db"

lemma imports_single_instance:
  assumes "discovery_inv E db" "import_pair n p db"
  shows "single_instance n p db"
proof -
  have keyed: "inj_on ip_network_id (set (dc_imports db))" "inj_on ip_provider_instance_id (set (dc_imports db))"
    using assms(1) by (simp_all add: discovery_inv_def imports_keyed_def distinct_map)
  obtain i where i: "i \<in> set (dc_imports db)" "ip_network_id i = n" "ip_provider_instance_id i = p"
    using assms(2) by (auto simp: import_pair_def list_ex_iff)
  have "ob_network_id r = n \<longleftrightarrow> ob_provider_instance_id r = p" if r: "r \<in> set (dc_observations db)" for r
  proof -
    obtain j where j: "j \<in> set (dc_imports db)" "ip_network_id j = ob_network_id r"
      "ip_provider_instance_id j = ob_provider_instance_id r"
      using r assms(1) by (auto simp: discovery_inv_def rows_imported_def import_pair_def list_all_iff list_ex_iff)
    show ?thesis using inj_onD [OF keyed(1) _ i(1) j(1)] inj_onD [OF keyed(2) _ i(1) j(1)] i j by auto
  qed
  then show ?thesis by (simp add: single_instance_def list_all_iff)
qed

section \<open>How an observation may evolve\<close>

text \<open>
  Everything that identifies a row stays; its generation never falls, and while it stays the
  classification and the content fingerprint stay.
\<close>

definition observation_evolves :: "observation_row \<Rightarrow> observation_row \<Rightarrow> bool" where
  "observation_evolves r r' \<longleftrightarrow>
     ob_observation_id r' = ob_observation_id r \<and> ob_network_id r' = ob_network_id r \<and>
     ob_provider_instance_id r' = ob_provider_instance_id r \<and>
     ob_provider_node_id r' = ob_provider_node_id r \<and>
     ob_stable_key_fingerprint r' = ob_stable_key_fingerprint r \<and>
     ob_first_observed_at r' = ob_first_observed_at r \<and>
     ie_machine_key (pn_identity_evidence (ob_normalized_node r')) =
       ie_machine_key (pn_identity_evidence (ob_normalized_node r)) \<and>
     ob_semantic_generation r \<le> ob_semantic_generation r' \<and>
     (ob_semantic_generation r' = ob_semantic_generation r \<longrightarrow>
        ob_classification r' = ob_classification r \<and>
        ob_semantic_fingerprint r' = ob_semantic_fingerprint r)"

definition observations_evolve :: "discovery_db \<Rightarrow> discovery_db \<Rightarrow> bool" where
  "observations_evolve db db' \<longleftrightarrow>
     (\<exists>kept new. dc_observations db' = kept @ new \<and> list_all2 observation_evolves (dc_observations db) kept)"

lemma observation_evolves_refl [simp]: "observation_evolves r r"
  by (simp add: observation_evolves_def)

lemma observation_evolves_trans:
  assumes "observation_evolves a b" "observation_evolves b c"
  shows "observation_evolves a c"
  using assms unfolding observation_evolves_def by auto

lemma observations_evolve_refl [simp]: "observations_evolve db db"
  unfolding observations_evolve_def by (intro exI [of _ "dc_observations db"] exI [of _ "[]"]) (simp add: list_all2_refl)

lemma observations_evolve_same: "dc_observations db' = dc_observations db \<Longrightarrow> observations_evolve db db'"
  unfolding observations_evolve_def by (intro exI [of _ "dc_observations db"] exI [of _ "[]"]) (simp add: list_all2_refl)

lemma observations_evolve_trans:
  assumes "observations_evolve a b" "observations_evolve b c"
  shows "observations_evolve a c"
proof -
  obtain k1 n1 where 1: "dc_observations b = k1 @ n1" "list_all2 observation_evolves (dc_observations a) k1"
    using assms(1) by (auto simp: observations_evolve_def)
  obtain k2 n2 where 2: "dc_observations c = k2 @ n2" "list_all2 observation_evolves (k1 @ n1) k2"
    using assms(2) 1 by (auto simp: observations_evolve_def)
  obtain u v where uv: "k2 = u @ v" "list_all2 observation_evolves k1 u" using 2(2) by (auto simp: list_all2_append1)
  have "list_all2 observation_evolves (dc_observations a) u"
    using list_all2_trans [OF observation_evolves_trans 1(2) uv(2)] .
  then show ?thesis using 2(1) uv(1) unfolding observations_evolve_def by auto
qed

lemma observations_evolve_map:
  assumes "\<And>r. r \<in> set (dc_observations db) \<Longrightarrow> observation_evolves r (g r)" "dc_observations db' = map g (dc_observations db) @ new"
  shows "observations_evolve db db'"
  unfolding observations_evolve_def
  using assms by (intro exI [of _ "map g (dc_observations db)"] exI [of _ new])
    (simp add: list_all2_map2 list.rel_refl_strong)

text \<open>Statements that leave the keys of rows alone act on \<open>row_at\<close> pointwise.\<close>

definition keeps_keys :: "(observation_row \<Rightarrow> observation_row) \<Rightarrow> bool" where
  "keeps_keys g \<longleftrightarrow> (\<forall>r. ob_provider_instance_id (g r) = ob_provider_instance_id r \<and>
     ob_provider_node_id (g r) = ob_provider_node_id r)"

lemma find_map_keys:
  assumes "keeps_keys g"
  shows "find (observation_at p k) (map g rs) = map_option g (find (observation_at p k) rs)"
  using assms by (induction rs) (auto simp: keeps_keys_def observation_at_def)

lemma unique_map_keys:
  "keeps_keys g \<Longrightarrow> map (\<lambda>r. (ob_provider_instance_id r, ob_provider_node_id r)) (map g rs) =
     map (\<lambda>r. (ob_provider_instance_id r, ob_provider_node_id r)) rs"
  by (simp add: keeps_keys_def)


section \<open>One change of a row\<close>

text \<open>The tables an import writes, which a reconciliation reads only.\<close>

definition same_imports :: "discovery_db \<Rightarrow> discovery_db \<Rightarrow> bool" where
  "same_imports db db' \<longleftrightarrow>
     dc_networks db' = dc_networks db \<and> dc_memberships db' = dc_memberships db \<and>
     dc_imports db' = dc_imports db \<and> dc_fail_before_audit db' = dc_fail_before_audit db"

lemma same_imports_refl [simp]: "same_imports db db"
  by (simp add: same_imports_def)

lemma same_imports_trans: "same_imports a b \<Longrightarrow> same_imports b c \<Longrightarrow> same_imports a c"
  by (simp add: same_imports_def)

lemma update_observations_Inr:
  "update_observations P f db = Inr db' \<longleftrightarrow>
     list_all (\<lambda>r. P r \<longrightarrow> generation_check (f r)) (dc_observations db) \<and>
     db' = db\<lparr>dc_observations := map (\<lambda>r. if P r then f r else r) (dc_observations db)\<rparr>"
  by (auto simp: update_observations_def guard_simps)

text \<open>Ending the adoption of a node.\<close>

definition unpend :: "NetworkId \<Rightarrow> string \<Rightarrow> observation_row \<Rightarrow> observation_row" where
  "unpend n k r =
     (if ob_network_id r = n \<and> ob_provider_node_id r = k \<and> ob_adoption_state r = pending_text
      then r\<lparr>ob_adoption_state := ''unmanaged''\<rparr> else r)"

lemma terminalize_effect:
  assumes "terminalize_pending_adoption E i n k g reason now actor db = Inr db'"
    and "pending_action n k db = Some a"
  obtains d where "d = conflict_decision E i n a g reason now"
    "dc_actions db' = map (end_action d) (dc_actions db)"
    "dc_proofs db' = map (settle_proof d) (dc_proofs db)"
    "dc_decisions db' = dc_decisions db @ [d]"
    "dc_observations db' = map (unpend n k) (dc_observations db)"
    "dc_events db' = dc_events db @ [conflict_event n actor g]" "same_imports db db'"
proof -
  define d where "d = conflict_decision E i n a g reason now"
  have "dc_actions db' = map (end_action d) (dc_actions db) \<and>
      dc_proofs db' = map (settle_proof d) (dc_proofs db) \<and>
      dc_decisions db' = dc_decisions db @ [d] \<and>
      dc_observations db' = map (unpend n k) (dc_observations db) \<and>
      dc_events db' = dc_events db @ [conflict_event n actor g] \<and> same_imports db db'"
    using assms unfolding d_def
    by (auto simp: terminalize_pending_adoption_def guard_simps insert_decision_def terminalize_graph_def
        update_observations_Inr same_imports_def unpend_def)
  with d_def that show thesis by blast
qed

lemma conflict_decision_sel [simp]:
  "ac_action_id (conflict_decision E i n a g reason now) = aa_action_id a"
  "ac_new_action_state (conflict_decision E i n a g reason now) = ''conflicted''"
  by (simp_all add: conflict_decision_def)

lemma end_action_id [simp]: "aa_action_id (end_action d a) = aa_action_id a"
  by (simp add: end_action_def)

lemma open_after_end:
  assumes "ac_new_action_state d = ''conflicted''"
  shows "filter is_open (map (end_action d) acts) =
    filter (\<lambda>a. aa_action_id a \<noteq> ac_action_id d) (filter is_open acts)"
  using assms by (induction acts) (auto simp: end_action_def open_action_def is_open_def)

lemma pending_action_exists:
  assumes "discovery_inv E db" "single_instance n p db" "row_at p k db = Some r"
    "ob_adoption_state r = pending_text"
  obtains a where "pending_action n k db = Some a" "a \<in> set (dc_actions db)" "is_open a"
    "aa_network_id a = n" "aa_provider_instance_id a = p" "aa_provider_node_id a = k"
    "action_backed db a"
proof -
  have u: "rows_unique db" and ad: "adoption_inv db" using assms(1) by (simp_all add: discovery_inv_def)
  have r: "r \<in> set (dc_observations db)" "ob_provider_instance_id r = p" "ob_provider_node_id r = k"
    using assms(3) by (auto simp: row_at_Some [OF u] observation_at_def)
  then have nr: "ob_network_id r = n" using assms(2) by (simp add: single_instance_def list_all_iff)
  have "pending_backed db r" using r(1) ad assms(4) by (simp add: adoption_inv_def list_all_iff)
  then have "pending_action n k db \<noteq> None"
    using r nr by (auto simp: pending_backed_def list_ex_iff pending_action_def is_open_def find_None_iff)
  then obtain a where a: "pending_action n k db = Some a" by auto
  then have mem: "a \<in> set (dc_actions db)" "aa_network_id a = n" "aa_provider_node_id a = k" "is_open a"
    by (auto simp: pending_action_def find_Some_iff is_open_def)
  then have backed: "action_backed db a" using ad by (simp add: adoption_inv_def list_all_iff)
  then obtain q where q: "row_at (aa_provider_instance_id a) k db = Some q" "ob_network_id q = n"
    using mem backed by (auto simp: action_backed_def split: option.splits)
  then have "q \<in> set (dc_observations db)" "ob_provider_instance_id q = aa_provider_instance_id a"
    by (auto simp: row_at_Some [OF u] observation_at_def)
  then have "aa_provider_instance_id a = p"
    using q(2) assms(2) by (auto simp: single_instance_def list_all_iff)
  with a mem backed that show thesis by blast
qed

text \<open>The change of one row, with the end of its adoption when its generation moves.\<close>

definition touched :: "(observation_row \<Rightarrow> observation_row) \<Rightarrow> bool \<Rightarrow> observation_row \<Rightarrow> observation_row" where
  "touched f ended r = (if ended then (f r)\<lparr>ob_adoption_state := ''unmanaged''\<rparr> else f r)"

definition calm_update :: "(observation_row \<Rightarrow> observation_row) \<Rightarrow> bool" where
  "calm_update f \<longleftrightarrow> keeps_keys f \<and> (\<forall>q. ob_network_id (f q) = ob_network_id q \<and>
     ob_adoption_state (f q) = ob_adoption_state q \<and> ob_observation_id (f q) = ob_observation_id q)"

lemma touched_at:
  assumes "keeps_keys f"
  shows "keeps_keys (\<lambda>q. if observation_at p k q then touched f ended q else q)"
  using assms by (auto simp: keeps_keys_def touched_def)

lemma row_ok_unmanaged: "row_ok E r \<Longrightarrow> row_ok E (r\<lparr>ob_adoption_state := ''unmanaged''\<rparr>)"
  by (auto simp: row_ok_def generation_check_def decode_observation_def is_ok_iff guard_simps
      parse_adoption_state_def)

lemma pending_not_unmanaged [simp]: "pending_text \<noteq> ''unmanaged''" "''unmanaged'' \<noteq> pending_text"
  by (simp_all add: pending_text_def)

lemma touch_observations:
  assumes inv: "discovery_inv E db" and single: "single_instance n p db"
    and r: "row_at p k db = Some r" and f: "calm_update f"
    and upd: "update_observations (observation_at p k) f db = Inr db1"
    and pend: "ob_adoption_state r = pending_text"
    and ending: "dc_observations db' = map (unpend n k) (dc_observations db1)"
  shows "dc_observations db' =
    map (\<lambda>q. if observation_at p k q then touched f True q else q) (dc_observations db)"
proof -
  have u: "rows_unique db" using inv by (simp add: discovery_inv_def)
  have "unpend n k (if observation_at p k q then f q else q) =
      (if observation_at p k q then touched f True q else q)" if q: "q \<in> set (dc_observations db)" for q
  proof (cases "observation_at p k q")
    case True
    then have "q = r" using q r row_at_Some [OF u, of p k q] by simp
    moreover have "ob_network_id q = n" "ob_provider_node_id q = k"
      using True q single by (auto simp: observation_at_def single_instance_def list_all_iff)
    ultimately show ?thesis using True f pend
      by (auto simp: unpend_def touched_def calm_update_def keeps_keys_def)
  next
    case False
    then have "\<not> (ob_network_id q = n \<and> ob_provider_node_id q = k)"
      using q single by (auto simp: observation_at_def single_instance_def list_all_iff)
    with False show ?thesis by (auto simp: unpend_def)
  qed
  then show ?thesis using upd ending by (auto simp: update_observations_Inr)
qed


text \<open>The parts of the invariant that one changed row leaves alone.\<close>

definition retouched :: "ProviderInstanceId \<Rightarrow> string \<Rightarrow> (observation_row \<Rightarrow> observation_row) \<Rightarrow> discovery_db \<Rightarrow>
    discovery_db \<Rightarrow> bool" where
  "retouched p k g db db' \<longleftrightarrow>
     dc_observations db' = map (\<lambda>q. if observation_at p k q then g q else q) (dc_observations db) \<and>
     same_imports db db'"

lemma retouched_row_at:
  assumes "retouched p k g db db'" "keeps_keys g"
  shows "row_at p' k' db' = (if p' = p \<and> k' = k then map_option g (row_at p k db) else row_at p' k' db)"
proof -
  let ?h = "\<lambda>q. if observation_at p k q then g q else q"
  have "keeps_keys ?h" using assms(2) by (auto simp: keeps_keys_def)
  then have look: "row_at p' k' db' = map_option ?h (row_at p' k' db)"
    using assms(1) by (simp add: row_at_def retouched_def find_map_keys)
  show ?thesis
  proof (cases "row_at p' k' db")
    case None
    with look show ?thesis by auto
  next
    case (Some q)
    then have "observation_at p' k' q" by (auto simp: row_at_def find_Some_iff)
    with Some look show ?thesis by (auto simp: observation_at_def)
  qed
qed

lemma retouched_frame:
  assumes inv: "discovery_inv E db" and r: "row_at p k db = Some r"
    and re: "retouched p k g db db'" and keys: "keeps_keys g"
    and ok: "row_ok E (g r)" "ob_network_id (g r) = ob_network_id r" "observation_evolves r (g r)"
  shows "imports_keyed db'" "rows_unique db'" "rows_imported db'"
    "list_all (row_ok E) (dc_observations db')" "observations_evolve db db'"
proof -
  let ?h = "\<lambda>q. if observation_at p k q then g q else q"
  have u: "rows_unique db" and sub: "imports_keyed db" "rows_imported db" "list_all (row_ok E) (dc_observations db)"
    using inv by (simp_all add: discovery_inv_def)
  have obs: "dc_observations db' = map ?h (dc_observations db)" and imp: "same_imports db db'"
    using re by (simp_all add: retouched_def)
  have one: "observation_at p k q \<longleftrightarrow> q = r" if "q \<in> set (dc_observations db)" for q
    using that r row_at_Some [OF u, of p k r] row_at_Some [OF u, of p k q] by auto
  show "imports_keyed db'" using sub(1) imp by (simp add: imports_keyed_def same_imports_def)
  have keys': "keeps_keys ?h" using keys by (auto simp: keeps_keys_def)
  then show "rows_unique db'" using u unfolding rows_unique_def obs by (simp only: unique_map_keys)
  have pair: "import_pair n p db' = import_pair n p db" for n p
    using imp by (simp add: import_pair_def same_imports_def)
  have net: "ob_network_id (?h q) = ob_network_id q" if "q \<in> set (dc_observations db)" for q
    using one [OF that] ok(2) by auto
  have "import_pair (ob_network_id (?h q)) (ob_provider_instance_id (?h q)) db" if q: "q \<in> set (dc_observations db)" for q
  proof -
    have "ob_provider_instance_id (?h q) = ob_provider_instance_id q" using keys' unfolding keeps_keys_def by blast
    with net [OF q] sub(2) q show ?thesis by (simp add: rows_imported_def list_all_iff)
  qed
  then show "rows_imported db'" unfolding rows_imported_def pair obs list.pred_map
    by (simp only: list_all_iff o_def) blast
  show "list_all (row_ok E) (dc_observations db')"
    using sub(3) one ok(1) unfolding obs by (auto simp: list_all_iff)
  show "observations_evolve db db'"
    using one ok(3) obs by (intro observations_evolve_map [of db ?h _ "[]"]) simp_all
qed

text \<open>An update that does not end an adoption keeps the generation of a pending row.\<close>

lemma adoption_kept:
  assumes inv: "discovery_inv E db" and r: "row_at p k db = Some r"
    and re: "retouched p k f db db'" and f: "calm_update f" and acts: "dc_actions db' = dc_actions db"
    and calm: "ob_adoption_state r = pending_text \<Longrightarrow> ob_semantic_generation (f r) = ob_semantic_generation r"
  shows "adoption_inv db'"
proof -
  have keys: "keeps_keys f" using f by (simp add: calm_update_def)
  note at = retouched_row_at [OF re keys]
  have ad: "adoption_inv db" using inv by (simp add: discovery_inv_def)
  have "action_backed db' a" if a: "a \<in> set (dc_actions db)" "is_open a" for a
  proof -
    have "action_backed db a" using a ad by (simp add: adoption_inv_def list_all_iff)
    then show ?thesis using r calm f
      by (auto simp: action_backed_def at calm_update_def split: option.splits)
  qed
  moreover have "pending_backed db' r'" if r': "r' \<in> set (dc_observations db')" "ob_adoption_state r' = pending_text" for r'
  proof -
    obtain q where q: "q \<in> set (dc_observations db)" "r' = (if observation_at p k q then f q else q)"
      using r'(1) re by (auto simp: retouched_def)
    then have same: "ob_adoption_state q = pending_text" "ob_network_id r' = ob_network_id q"
      "ob_provider_instance_id r' = ob_provider_instance_id q" "ob_provider_node_id r' = ob_provider_node_id q"
      using r'(2) f by (auto simp: calm_update_def keeps_keys_def split: if_splits)
    then have "pending_backed db q" using q(1) ad by (simp add: adoption_inv_def list_all_iff)
    with same acts show ?thesis by (simp add: pending_backed_def)
  qed
  ultimately show ?thesis using ad acts by (simp add: adoption_inv_def list_all_iff)
qed

lemma adoption_ended:
  assumes inv: "discovery_inv E db" and single: "single_instance n p db" and r: "row_at p k db = Some r"
    and re: "retouched p k g db db'" and keys: "keeps_keys g"
    and a: "a \<in> set (dc_actions db)" "is_open a" "aa_network_id a = n" "aa_provider_instance_id a = p"
      "aa_provider_node_id a = k"
    and d: "ac_action_id d = aa_action_id a" "ac_new_action_state d = ''conflicted''"
    and acts: "dc_actions db' = map (end_action d) (dc_actions db)"
    and unp: "ob_adoption_state (g r) \<noteq> pending_text"
  shows "adoption_inv db'"
proof -
  note at = retouched_row_at [OF re keys]
  have u: "rows_unique db" and ad: "adoption_inv db" using inv by (simp_all add: discovery_inv_def)
  have ids: "inj_on aa_action_id (set (dc_actions db))" "distinct (map aa_action_id (dc_actions db))"
    and pairs: "distinct (map (\<lambda>a. (aa_provider_instance_id a, aa_provider_node_id a)) (filter is_open (dc_actions db)))"
    and behind: "\<And>b. b \<in> set (dc_actions db) \<Longrightarrow> is_open b \<Longrightarrow> action_backed db b"
    and front: "\<And>q. q \<in> set (dc_observations db) \<Longrightarrow> ob_adoption_state q = pending_text \<Longrightarrow> pending_backed db q"
    using ad by (simp_all add: adoption_inv_def list_all_iff distinct_map)
  have opens: "filter is_open (dc_actions db') =
      filter (\<lambda>b. aa_action_id b \<noteq> aa_action_id a) (filter is_open (dc_actions db))"
    unfolding acts using open_after_end [OF d(2)] d(1) by simp
  have other: "(aa_provider_instance_id b, aa_provider_node_id b) \<noteq> (p, k)"
    if b: "b \<in> set (dc_actions db)" "is_open b" "aa_action_id b \<noteq> aa_action_id a" for b
  proof
    assume "(aa_provider_instance_id b, aa_provider_node_id b) = (p, k)"
    then have "b = a" using pairs a b unfolding distinct_map inj_on_def by auto
    with b(3) show False by simp
  qed
  have "action_backed db' b" if b: "b \<in> set (dc_actions db')" "is_open b" for b
  proof -
    have b': "b \<in> set (dc_actions db)" "aa_action_id b \<noteq> aa_action_id a"
      using b arg_cong [OF opens, of set] by auto
    with other [OF b'(1) b(2) b'(2)] behind [OF b'(1) b(2)] show ?thesis
      by (auto simp: action_backed_def at)
  qed
  moreover have "pending_backed db' r'" if r': "r' \<in> set (dc_observations db')" "ob_adoption_state r' = pending_text" for r'
  proof -
    obtain q where q: "q \<in> set (dc_observations db)" "r' = (if observation_at p k q then g q else q)"
      using r'(1) re by (auto simp: retouched_def)
    have not: "\<not> observation_at p k q"
    proof
      assume "observation_at p k q"
      then have "row_at p k db = Some q" using q(1) row_at_Some [OF u, of p k q] by blast
      then have "q = r" using r by simp
      then show False using \<open>observation_at p k q\<close> q(2) r'(2) unp by simp
    qed
    then have "pending_backed db q" using q r'(2) front by simp
    then obtain b where b: "b \<in> set (dc_actions db)" "is_open b" "aa_network_id b = ob_network_id q"
        "aa_provider_instance_id b = ob_provider_instance_id q" "aa_provider_node_id b = ob_provider_node_id q"
      by (auto simp: pending_backed_def list_ex_iff)
    then have "aa_action_id b \<noteq> aa_action_id a"
      using not a inj_onD [OF ids(1), of b a] by (auto simp: observation_at_def)
    then have "b \<in> set (dc_actions db')" using b(1,2) arg_cong [OF opens, of set] by auto
    with b not q(2) show ?thesis by (auto simp: pending_backed_def list_ex_iff)
  qed
  moreover have "distinct (map aa_action_id (dc_actions db'))" unfolding acts using ids(2) by (simp add: comp_def)
  moreover have "distinct (map (\<lambda>a. (aa_provider_instance_id a, aa_provider_node_id a)) (filter is_open (dc_actions db')))"
    unfolding opens using pairs by (rule distinct_map_filter)
  ultimately show ?thesis by (simp add: adoption_inv_def list_all_iff)
qed


text \<open>
  One update of a row that ends the adoption of the row exactly when it was pending and its
  generation moves.
\<close>

definition ending_step ::
    "discovery_env \<Rightarrow> nat \<Rightarrow> NetworkId \<Rightarrow> string \<Rightarrow> u64 \<Rightarrow> string \<Rightarrow> DateTime \<Rightarrow> AuditActor \<Rightarrow> bool \<Rightarrow>
     discovery_db \<Rightarrow> discovery_db state_result" where
  "ending_step E i n k g reason now actor ended db =
     (if ended then terminalize_pending_adoption E i n k g reason now actor db else Inr db)"

lemma touch_step:
  assumes inv: "discovery_inv E db" and single: "single_instance n p db"
    and r: "row_at p k db = Some r" and f: "calm_update f"
    and upd: "update_observations (observation_at p k) f db = Inr db1"
    and ok: "row_ok E (f r)" and ev: "observation_evolves r (f r)"
    and ending: "ending_step E i n k g reason now actor ended db1 = Inr db'"
    and flag: "ended \<longleftrightarrow> ob_adoption_state r = pending_text \<and>
      ob_semantic_generation (f r) \<noteq> ob_semantic_generation r"
  shows "discovery_inv E db'" "observations_evolve db db'" "retouched p k (touched f ended) db db'"
proof -
  have keys: "keeps_keys f" using f by (simp add: calm_update_def)
  have db1: "dc_observations db1 = map (\<lambda>q. if observation_at p k q then f q else q) (dc_observations db)"
    "dc_actions db1 = dc_actions db" "same_imports db db1"
    using upd by (auto simp: update_observations_Inr same_imports_def)
  have "retouched p k (touched f ended) db db' \<and> adoption_inv db'"
  proof (cases ended)
    case False
    then have "db' = db1" using ending by (simp add: ending_step_def)
    then have re: "retouched p k f db db'" using db1 by (simp add: retouched_def)
    have "adoption_inv db'"
      using adoption_kept [OF inv r re f] db1(2) \<open>db' = db1\<close> flag False by simp
    moreover have "touched f False = f" by (simp add: touched_def fun_eq_iff)
    ultimately show ?thesis using re False by simp
  next
    case True
    then have pend: "ob_adoption_state r = pending_text" using flag by simp
    obtain a where a: "pending_action n k db = Some a" "a \<in> set (dc_actions db)" "is_open a"
      "aa_network_id a = n" "aa_provider_instance_id a = p" "aa_provider_node_id a = k"
      by (rule pending_action_exists [OF inv single r pend])
    have pa: "pending_action n k db1 = Some a" using a(1) db1(2) by (simp add: pending_action_def)
    have te: "terminalize_pending_adoption E i n k g reason now actor db1 = Inr db'"
      using ending True by (simp add: ending_step_def)
    obtain d where d: "d = conflict_decision E i n a g reason now"
      "dc_actions db' = map (end_action d) (dc_actions db1)"
      "dc_observations db' = map (unpend n k) (dc_observations db1)" "same_imports db1 db'"
      by (rule terminalize_effect [OF te pa]) blast
    have re: "retouched p k (touched f True) db db'"
      using touch_observations [OF inv single r f upd pend d(3)] same_imports_trans [OF db1(3) d(4)]
      by (simp add: retouched_def)
    have "keeps_keys (touched f True)" using keys by (auto simp: keeps_keys_def touched_def)
    then have "adoption_inv db'"
      by (rule adoption_ended [OF inv single r re _ a(2-6), of d]) (simp_all add: d(1,2) db1(2) touched_def)
    with re True show ?thesis by simp
  qed
  then have re: "retouched p k (touched f ended) db db'" and ad: "adoption_inv db'" by simp_all
  show "retouched p k (touched f ended) db db'" by (rule re)
  have keys': "keeps_keys (touched f ended)" using keys by (auto simp: keeps_keys_def touched_def)
  have ok': "row_ok E (touched f ended r)" using ok row_ok_unmanaged by (simp add: touched_def)
  have net: "ob_network_id (touched f ended r) = ob_network_id r" using f by (auto simp: touched_def calm_update_def)
  have ev': "observation_evolves r (touched f ended r)" using ev by (auto simp: touched_def observation_evolves_def)
  note frame = retouched_frame [OF inv r re keys' ok' net ev']
  show "observations_evolve db db'" by (rule frame(5))
  show "discovery_inv E db'" using frame(1-4) ad by (simp add: discovery_inv_def)
qed


section \<open>One node of a snapshot\<close>

lemma decode_fields:
  assumes "decode_observation r = Inr x"
  shows "po_device_id x = ob_device_id r" "po_stable_machine_key_fingerprint x = ob_stable_key_fingerprint r"
    "po_node x = ob_normalized_node r" "ob_classification r = classification_name (po_classification x)"
    "po_semantic_fingerprint x = ob_semantic_fingerprint r" "po_first_observed_at x = ob_first_observed_at r"
    "pending_adoption x \<longleftrightarrow> ob_adoption_state r = pending_text"
    "po_provider_instance_id x = ob_provider_instance_id r"
  using assms
  by (auto simp: decode_observation_def guard_simps pending_adoption_def parse_adoption_state_def
      pending_text_def split: if_splits)

definition row_identity_differs :: "observation_row \<Rightarrow> ProviderNode \<Rightarrow> bool" where
  "row_identity_differs r node \<longleftrightarrow>
     ob_stable_key_fingerprint r \<noteq> pi_stable_key_fingerprint (pn_identity node) \<or>
     ie_machine_key (pn_identity_evidence (ob_normalized_node r)) \<noteq>
       ie_machine_key (pn_identity_evidence node)"

lemma decoded_identity_differs:
  "decode_observation r = Inr x \<Longrightarrow> strong_identity_differs x node \<longleftrightarrow> row_identity_differs r node"
  by (simp add: strong_identity_differs_def row_identity_differs_def decode_fields)

definition changes_row :: "node_outcome \<Rightarrow> observation_row \<Rightarrow> bool" where
  "changes_row x r \<longleftrightarrow> ob_classification r \<noteq> classification_name (no_classification x) \<or>
     ob_semantic_fingerprint r \<noteq> no_fingerprint x"

text \<open>The flag the code computes is the condition under which SQLite advances the generation.\<close>

lemma node_effect_seen:
  assumes dec: "decode_observation r = Inr old" and ok: "row_ok E r"
    and x: "node_effect E (Some old) node = Inr x"
    and node: "node_key node = ob_provider_node_id r"
      "pi_provider_instance_id (pn_identity node) = ob_provider_instance_id r"
  shows "no_changed x \<longleftrightarrow> changes_row x r"
    "no_node x = (if row_identity_differs r node then ob_normalized_node r else node)"
    "no_classification x = (if row_identity_differs r node then OCIdentityConflict
       else next_classification (po_classification old) node)"
    "semantic_fingerprint E (no_node x) = Inr (no_fingerprint x)"
    "node_key (no_node x) = ob_provider_node_id r"
    "pi_provider_instance_id (pn_identity (no_node x)) = ob_provider_instance_id r"
    "pi_stable_key_fingerprint (pn_identity (no_node x)) = ob_stable_key_fingerprint r"
    "ie_machine_key (pn_identity_evidence (no_node x)) =
       ie_machine_key (pn_identity_evidence (ob_normalized_node r))"
proof -
  note fields = decode_fields(3,4,5) [OF dec]
  have okr: "node_key (ob_normalized_node r) = ob_provider_node_id r"
    "pi_provider_instance_id (pn_identity (ob_normalized_node r)) = ob_provider_instance_id r"
    "pi_stable_key_fingerprint (pn_identity (ob_normalized_node r)) = ob_stable_key_fingerprint r"
    "semantic_fingerprint E (ob_normalized_node r) = Inr (ob_semantic_fingerprint r)"
    using ok by (simp_all add: row_ok_def)
  have "(no_changed x \<longleftrightarrow> changes_row x r) \<and>
      no_node x = (if row_identity_differs r node then ob_normalized_node r else node) \<and>
      no_classification x = (if row_identity_differs r node then OCIdentityConflict
        else next_classification (po_classification old) node) \<and>
      semantic_fingerprint E (no_node x) = Inr (no_fingerprint x)"
  proof (cases "row_identity_differs r node")
    case True
    then show ?thesis using x okr(4) fields
      by (auto simp: node_effect_def decoded_identity_differs [OF dec] changes_row_def)
  next
    case False
    then show ?thesis using x fields
      by (auto simp: node_effect_def decoded_identity_differs [OF dec] changes_row_def Let_def guard_simps)
  qed
  note all = this
  then show "no_changed x \<longleftrightarrow> changes_row x r"
    "no_node x = (if row_identity_differs r node then ob_normalized_node r else node)"
    "no_classification x = (if row_identity_differs r node then OCIdentityConflict
       else next_classification (po_classification old) node)"
    "semantic_fingerprint E (no_node x) = Inr (no_fingerprint x)" by blast+
  show "node_key (no_node x) = ob_provider_node_id r"
    "pi_provider_instance_id (pn_identity (no_node x)) = ob_provider_instance_id r"
    "pi_stable_key_fingerprint (pn_identity (no_node x)) = ob_stable_key_fingerprint r"
    "ie_machine_key (pn_identity_evidence (no_node x)) =
       ie_machine_key (pn_identity_evidence (ob_normalized_node r))"
    using all okr node by (auto simp: row_identity_differs_def)
qed

lemma excluded_update_calm: "calm_update (excluded_update q)"
  by (simp add: calm_update_def keeps_keys_def excluded_update_def)

lemma node_row_fields [simp]:
  "ob_provider_instance_id (node_row E i n p previous node x now) = p"
  "ob_provider_node_id (node_row E i n p previous node x now) = node_key node"
  "ob_network_id (node_row E i n p previous node x now) = n"
  "ob_classification (node_row E i n p previous node x now) = classification_name (no_classification x)"
  "ob_semantic_fingerprint (node_row E i n p previous node x now) = no_fingerprint x"
  "ob_normalized_node (node_row E i n p previous node x now) = no_node x"
  "ob_last_observed_at (node_row E i n p previous node x now) = now"
  "ob_snapshot_at (node_row E i n p previous node x now) = now"
  "ob_adoption_state (node_row E i n p previous node x now) = ''unmanaged''"
  "ob_semantic_generation (node_row E i n p previous node x now) = 1"
  by (simp_all add: node_row_def observation_values_def)

lemma excluded_generation:
  "ob_semantic_generation (excluded_update (node_row E i n p previous node x now) r) \<noteq> ob_semantic_generation r
     \<longleftrightarrow> changes_row x r"
  by (simp add: excluded_update_def changes_row_def)

text \<open>What a node of the snapshot leaves at its key, from what was there.\<close>

definition node_applied ::
    "DateTime \<Rightarrow> ProviderNode \<Rightarrow> observation_row option \<Rightarrow> observation_row \<Rightarrow> bool" where
  "node_applied now node before r' \<longleftrightarrow>
     ob_last_observed_at r' = now \<and> ob_snapshot_at r' = now \<and>
     (case before of
        None \<Rightarrow> ob_normalized_node r' = node \<and> ob_semantic_generation r' = 1 \<and>
          ob_device_id r' = None \<and> ob_adoption_state r' = ''unmanaged'' \<and>
          ob_first_observed_at r' = now \<and>
          ob_classification r' = classification_name (first_classification node)
      | Some r \<Rightarrow> ob_device_id r' = ob_device_id r \<and>
          ob_normalized_node r' = (if row_identity_differs r node then ob_normalized_node r else node) \<and>
          (\<exists>c. ob_classification r = classification_name c \<and>
             ob_classification r' = classification_name
               (if row_identity_differs r node then OCIdentityConflict else next_classification c node)) \<and>
          ob_semantic_generation r' = ob_semantic_generation r +
            (if ob_classification r' \<noteq> ob_classification r \<or>
                ob_semantic_fingerprint r' \<noteq> ob_semantic_fingerprint r then 1 else 0) \<and>
          ob_adoption_state r' =
            (if ob_adoption_state r = pending_text \<and> ob_semantic_generation r' \<noteq> ob_semantic_generation r
             then ''unmanaged'' else ob_adoption_state r))"

definition other_rows_kept :: "ProviderInstanceId \<Rightarrow> string \<Rightarrow> discovery_db \<Rightarrow> discovery_db \<Rightarrow> bool" where
  "other_rows_kept p k db db' \<longleftrightarrow>
     (\<forall>p' k'. (p', k') \<noteq> (p, k) \<longrightarrow> row_at p' k' db' = row_at p' k' db)"

lemma seen_node_step:
  assumes inv: "discovery_inv E db" and single: "single_instance n p db"
    and r: "row_at p (node_key node) db = Some r" and dec: "decode_observation r = Inr old"
    and inst: "pi_provider_instance_id (pn_identity node) = p"
    and look: "map_of existing (node_key node) = Some old"
    and step: "reconcile_node E i n p now actor existing node (changes, db) = Inr (changes', db')"
  obtains r' where "discovery_inv E db'" "observations_evolve db db'" "same_imports db db'"
    "other_rows_kept p (node_key node) db db'" "row_at p (node_key node) db' = Some r'"
    "node_applied now node (Some r) r'"
    "length changes' = length changes + (if ob_semantic_generation r' \<noteq> ob_semantic_generation r then 1 else 0)"
proof -
  have u: "rows_unique db" using inv by (simp add: discovery_inv_def)
  have rm: "r \<in> set (dc_observations db)" "ob_provider_instance_id r = p" "ob_provider_node_id r = node_key node"
    using r by (auto simp: row_at_Some [OF u] observation_at_def)
  have ok: "row_ok E r" using inv rm(1) by (simp add: discovery_inv_def list_all_iff)
  have cand: "po_canonical_provider_node_id old = node_key node" using decode_key [OF dec] rm(3) by simp
  obtain x db1 where x: "node_effect E (Some old) node = Inr x"
    and ups: "upsert_observation (node_row E i n p (Some old) node x now) db = Inr db1"
    and ending: "ending_step E i n (po_canonical_provider_node_id old) (po_semantic_generation old + 1)
      (conflict_reason_of (no_classification x)) now actor (no_changed x \<and> pending_adoption old) db1 = Inr db'"
    and ch: "changes' = (if no_changed x then changes @ [no_event_kind x] else changes)"
    using step look by (auto simp: reconcile_node_def Let_def guard_simps ending_step_def)
  define f where "f = excluded_update (node_row E i n p (Some old) node x now)"
  note eff = node_effect_seen [OF dec ok x rm(3) [symmetric] inst [folded rm(2)]]
  have upd: "update_observations (observation_at p (node_key node)) f db = Inr db1"
    using ups rm by (auto simp: upsert_observation_def f_def observation_at_def list_ex_iff split: if_splits)
  have calm: "calm_update f" unfolding f_def by (rule excluded_update_calm)
  have check: "generation_check (f r)" using upd rm by (auto simp: update_observations_Inr list_all_iff observation_at_def)
  have decoded: "is_ok (decode_observation (f r))"
    using dec check by (auto simp: decode_observation_def f_def excluded_update_def is_ok_iff guard_simps generation_check_def)
  have ok': "row_ok E (f r)"
    using check decoded eff ok rm by (simp add: row_ok_def f_def excluded_update_def)
  have ev: "observation_evolves r (f r)"
    using eff(8) by (auto simp: observation_evolves_def f_def excluded_update_def)
  have flag: "no_changed x \<and> pending_adoption old \<longleftrightarrow> ob_adoption_state r = pending_text \<and>
      ob_semantic_generation (f r) \<noteq> ob_semantic_generation r"
    unfolding f_def excluded_generation eff(1) decode_fields(7) [OF dec] by blast
  note touch = touch_step [OF inv single r calm upd ok' ev ending [unfolded cand] flag]
  let ?g = "touched f (no_changed x \<and> pending_adoption old)"
  have keys: "keeps_keys ?g" using calm by (auto simp: keeps_keys_def touched_def calm_update_def)
  note at = retouched_row_at [OF touch(3) keys]
  have gen: "ob_semantic_generation (?g r) = ob_semantic_generation (f r)" by (simp add: touched_def)
  have app: "node_applied now node (Some r) (?g r)"
  proof -
    have "ob_classification (?g r) = classification_name (no_classification x)"
      "ob_semantic_fingerprint (?g r) = no_fingerprint x" "ob_normalized_node (?g r) = no_node x"
      "ob_device_id (?g r) = ob_device_id r" "ob_last_observed_at (?g r) = now" "ob_snapshot_at (?g r) = now"
      by (simp_all add: touched_def f_def excluded_update_def node_row_def observation_values_def decode_fields [OF dec])
    moreover have "ob_semantic_generation (f r) = ob_semantic_generation r + (if changes_row x r then 1 else 0)"
      by (auto simp: f_def excluded_update_def changes_row_def)
    moreover have "ob_adoption_state (?g r) = (if ob_adoption_state r = pending_text \<and>
        ob_semantic_generation (f r) \<noteq> ob_semantic_generation r then ''unmanaged'' else ob_adoption_state r)"
      using flag calm by (auto simp: touched_def calm_update_def)
    ultimately show ?thesis unfolding node_applied_def gen using eff(2,3) decode_fields(4) [OF dec]
      by (auto simp: changes_row_def)
  qed
  have len: "length changes' = length changes + (if ob_semantic_generation (?g r) \<noteq> ob_semantic_generation r then 1 else 0)"
    using ch unfolding gen unfolding f_def excluded_generation eff(1) by simp
  have same: "same_imports db db'" using touch(3) by (simp add: retouched_def)
  have kept: "other_rows_kept p (node_key node) db db'" using at by (simp add: other_rows_kept_def)
  have now_at: "row_at p (node_key node) db' = Some (?g r)" using at r by simp
  show thesis using that [OF touch(1,2) same kept now_at app len] .
qed


text \<open>A row that is appended, unmanaged and agreeing with its node, keeps the invariant.\<close>

lemma row_at_append:
  assumes "dc_observations db' = dc_observations db @ [q]" "row_at (ob_provider_instance_id q) (ob_provider_node_id q) db = None"
  shows "row_at p k db' = (if observation_at p k q then Some q else row_at p k db)"
proof (cases "observation_at p k q")
  case True
  then have "find (observation_at p k) (dc_observations db) = None"
    using assms(2) by (simp add: row_at_def observation_at_def)
  with True assms(1) show ?thesis by (simp add: row_at_def find_append_single)
next
  case False
  with assms(1) show ?thesis by (simp add: row_at_def find_append_single split: option.splits)
qed

lemma appended_row:
  assumes inv: "discovery_inv E db" and imp: "same_imports db db'"
    and obs: "dc_observations db' = dc_observations db @ [q]" and acts: "dc_actions db' = dc_actions db"
    and none: "row_at (ob_provider_instance_id q) (ob_provider_node_id q) db = None"
    and q: "row_ok E q" "ob_adoption_state q = ''unmanaged''"
      "import_pair (ob_network_id q) (ob_provider_instance_id q) db"
  shows "discovery_inv E db'" "observations_evolve db db'"
proof -
  note at = row_at_append [OF obs none]
  have parts: "imports_keyed db" "rows_unique db" "rows_imported db" "list_all (row_ok E) (dc_observations db)"
    "adoption_inv db" using inv by (simp_all add: discovery_inv_def)
  have pair: "import_pair n p db' = import_pair n p db" for n p
    using imp by (simp add: import_pair_def same_imports_def)
  have "imports_keyed db'" using parts(1) imp by (simp add: imports_keyed_def same_imports_def)
  moreover have "rows_unique db'"
    using parts(2) none unfolding rows_unique_def obs
    by (auto simp: row_at_def find_None_iff observation_at_def image_iff)
  moreover have "rows_imported db'" using parts(3) q(3) unfolding rows_imported_def obs pair by simp
  moreover have "list_all (row_ok E) (dc_observations db')" using parts(4) q(1) obs by simp
  moreover have "adoption_inv db'"
  proof -
    have "action_backed db' a" if "action_backed db a" for a
      using that none by (auto simp: action_backed_def at observation_at_def split: option.splits)
    moreover have "pending_backed db' r = pending_backed db r" for r using acts by (simp add: pending_backed_def)
    ultimately show ?thesis using parts(5) q(2) acts obs by (auto simp: adoption_inv_def list_all_iff)
  qed
  ultimately show "discovery_inv E db'" by (simp add: discovery_inv_def)
  show "observations_evolve db db'"
    unfolding observations_evolve_def
    by (intro exI [of _ "dc_observations db"] exI [of _ "[q]"]) (simp add: obs list_all2_refl)
qed

lemma new_values_ok:
  assumes "semantic_fingerprint E node = Inr fingerprint"
    "pi_provider_instance_id (pn_identity node) = p" "hash_column (pi_stable_key_fingerprint (pn_identity node))"
  shows "row_ok E (observation_values E i n device p (node_key node) (pi_stable_key_fingerprint (pn_identity node))
    classification fingerprint node first now)"
  using assms by (auto simp: row_ok_def observation_values_def generation_check_def decode_observation_def
      is_ok_iff guard_simps parse_adoption_state_def)

lemma insert_observation_Inr:
  "insert_observation q db = Inr db' \<longleftrightarrow>
     list_all (\<lambda>r. ob_observation_id r \<noteq> ob_observation_id q \<and>
       \<not> observation_at (ob_provider_instance_id q) (ob_provider_node_id q) r) (dc_observations db) \<and>
     list_ex (\<lambda>w. dn_network_id w = ob_network_id q) (dc_networks db) \<and>
     db' = db\<lparr>dc_observations := dc_observations db @ [q]\<rparr>"
  by (auto simp: insert_observation_def guard_simps)

lemma new_node_step:
  assumes inv: "discovery_inv E db" and imp: "import_pair n p db"
    and none: "row_at p (node_key node) db = None"
    and inst: "pi_provider_instance_id (pn_identity node) = p"
    and hash: "hash_column (pi_stable_key_fingerprint (pn_identity node))"
    and look: "map_of existing (node_key node) = None"
    and step: "reconcile_node E i n p now actor existing node (changes, db) = Inr (changes', db')"
  obtains r' where "discovery_inv E db'" "observations_evolve db db'" "same_imports db db'"
    "other_rows_kept p (node_key node) db db'" "row_at p (node_key node) db' = Some r'"
    "node_applied now node None r'" "length changes' = Suc (length changes)"
proof -
  obtain x where x: "node_effect E None node = Inr x"
    and ups: "upsert_observation (node_row E i n p None node x now) db = Inr db'"
    and ch: "changes' = (if no_changed x then changes @ [no_event_kind x] else changes)"
    using step look by (auto simp: reconcile_node_def Let_def guard_simps)
  define q where "q = node_row E i n p None node x now"
  have eff: "no_changed x" "no_node x = node" "no_classification x = first_classification node"
    "semantic_fingerprint E node = Inr (no_fingerprint x)"
    using x by (auto simp: node_effect_def guard_simps)
  have qk: "ob_provider_instance_id q = p" "ob_provider_node_id q = node_key node" "ob_network_id q = n"
    "ob_adoption_state q = ''unmanaged''" by (simp_all add: q_def)
  have ins: "db' = db\<lparr>dc_observations := dc_observations db @ [q]\<rparr>"
    using ups none by (auto simp: upsert_observation_def q_def insert_observation_Inr row_at_def find_None_iff list_ex_iff)
  have same: "same_imports db db'" "dc_observations db' = dc_observations db @ [q]" "dc_actions db' = dc_actions db"
    using ins by (simp_all add: same_imports_def)
  have nq: "row_at (ob_provider_instance_id q) (ob_provider_node_id q) db = None" using none qk by simp
  have ok: "row_ok E q"
    using new_values_ok [OF eff(4) inst hash] by (simp add: q_def node_row_def eff)
  note app = appended_row [OF inv same nq ok qk(4)] imp
  note at = row_at_append [OF same(2) nq]
  have pairq: "import_pair (ob_network_id q) (ob_provider_instance_id q) db" using imp qk by simp
  have kept: "other_rows_kept p (node_key node) db db'"
    using qk by (auto simp: other_rows_kept_def at observation_at_def)
  have now_at: "row_at p (node_key node) db' = Some q" using qk by (simp add: at observation_at_def)
  have applied: "node_applied now node None q"
    by (simp add: node_applied_def q_def node_row_def observation_values_def eff)
  have len: "length changes' = Suc (length changes)" using ch eff(1) by simp
  show thesis using that [OF app(1) [OF pairq] app(2) [OF pairq] same(1) kept now_at applied len] .
qed


section \<open>The loops of a reconciliation\<close>

text \<open>The map loaded at the start still reads the row at a key.\<close>

definition reads_row ::
    "(string \<times> ProviderObservation) list \<Rightarrow> ProviderInstanceId \<Rightarrow> string \<Rightarrow> discovery_db \<Rightarrow> bool" where
  "reads_row existing p k db \<longleftrightarrow>
     (case map_of existing k of None \<Rightarrow> row_at p k db = None
      | Some x \<Rightarrow> (\<exists>r. row_at p k db = Some r \<and> decode_observation r = Inr x))"

definition row_moved :: "observation_row option \<Rightarrow> observation_row option \<Rightarrow> bool" where
  "row_moved before after \<longleftrightarrow>
     map_option ob_semantic_generation before \<noteq> map_option ob_semantic_generation after"

definition listed_node :: "ProviderInstanceId \<Rightarrow> ProviderNode \<Rightarrow> bool" where
  "listed_node p node \<longleftrightarrow> pi_provider_instance_id (pn_identity node) = p \<and>
     hash_column (pi_stable_key_fingerprint (pn_identity node))"

lemma node_step:
  assumes inv: "discovery_inv E db" and imp: "import_pair n p db"
    and node: "listed_node p node" and reads: "reads_row existing p (node_key node) db"
    and step: "reconcile_node E i n p now actor existing node (changes, db) = Inr (changes', db')"
  obtains r' where "discovery_inv E db'" "observations_evolve db db'" "same_imports db db'"
    "other_rows_kept p (node_key node) db db'" "row_at p (node_key node) db' = Some r'"
    "node_applied now node (row_at p (node_key node) db) r'"
    "length changes' = length changes + (if row_moved (row_at p (node_key node) db) (Some r') then 1 else 0)"
proof (cases "map_of existing (node_key node)")
  case None
  then have none: "row_at p (node_key node) db = None" using reads by (simp add: reads_row_def)
  have inst: "pi_provider_instance_id (pn_identity node) = p"
    and hash: "hash_column (pi_stable_key_fingerprint (pn_identity node))"
    using node by (simp_all add: listed_node_def)
  obtain r' where r': "discovery_inv E db'" "observations_evolve db db'" "same_imports db db'"
    "other_rows_kept p (node_key node) db db'" "row_at p (node_key node) db' = Some r'"
    "node_applied now node None r'" "length changes' = Suc (length changes)"
    by (rule new_node_step [OF inv imp none inst hash None step])
  have len: "length changes' = length changes + (if row_moved (row_at p (node_key node) db) (Some r') then 1 else 0)"
    using r'(7) none by (simp add: row_moved_def)
  show thesis using that [OF r'(1-5) _ len] r'(6) none by simp
next
  case (Some old)
  then obtain r where r: "row_at p (node_key node) db = Some r" "decode_observation r = Inr old"
    using reads by (auto simp: reads_row_def)
  have inst: "pi_provider_instance_id (pn_identity node) = p" using node by (simp add: listed_node_def)
  note single = imports_single_instance [OF inv imp]
  obtain r' where r': "discovery_inv E db'" "observations_evolve db db'" "same_imports db db'"
    "other_rows_kept p (node_key node) db db'" "row_at p (node_key node) db' = Some r'"
    "node_applied now node (Some r) r'"
    "length changes' = length changes + (if ob_semantic_generation r' \<noteq> ob_semantic_generation r then 1 else 0)"
    by (rule seen_node_step [OF inv single r inst Some step])
  have len: "length changes' = length changes + (if row_moved (row_at p (node_key node) db) (Some r') then 1 else 0)"
    using r'(7) r(1) by (auto simp: row_moved_def)
  show thesis using that [OF r'(1-5) _ len] r'(6) r(1) by simp
qed

lemma import_pair_same: "same_imports db db' \<Longrightarrow> import_pair n p db' = import_pair n p db"
  by (simp add: import_pair_def same_imports_def)

lemma nodes_loop:
  assumes "discovery_inv E db" "import_pair n p db" "distinct (map node_key nodes)"
    "\<forall>node \<in> set nodes. listed_node p node \<and> reads_row existing p (node_key node) db"
    "reconcile_nodes E i n p now actor existing nodes (changes, db) = Inr (changes', db')"
  shows "discovery_inv E db' \<and> observations_evolve db db' \<and> same_imports db db' \<and>
    (\<forall>p' k'. p' \<noteq> p \<or> k' \<notin> set (map node_key nodes) \<longrightarrow> row_at p' k' db' = row_at p' k' db) \<and>
    (\<forall>node \<in> set nodes. \<exists>r'. row_at p (node_key node) db' = Some r' \<and>
       node_applied now node (row_at p (node_key node) db) r') \<and>
    length changes' = length changes +
      length (filter (\<lambda>k. row_moved (row_at p k db) (row_at p k db')) (map node_key nodes))"
  using assms
proof (induction nodes arbitrary: i changes db)
  case Nil
  then show ?case by simp
next
  case (Cons node nodes)
  let ?k = "node_key node"
  obtain changes1 db1 where
    step: "reconcile_node E i n p now actor existing node (changes, db) = Inr (changes1, db1)"
    and rest: "reconcile_nodes E (Suc i) n p now actor existing nodes (changes1, db1) = Inr (changes', db')"
    using Cons.prems(5) by (auto simp: guard_simps)
  have node: "listed_node p node" "reads_row existing p ?k db" using Cons.prems(4) by simp_all
  obtain r' where r': "discovery_inv E db1" "observations_evolve db db1" "same_imports db db1"
    "other_rows_kept p ?k db db1" "row_at p ?k db1 = Some r'" "node_applied now node (row_at p ?k db) r'"
    "length changes1 = length changes + (if row_moved (row_at p ?k db) (Some r') then 1 else 0)"
    by (rule node_step [OF Cons.prems(1,2) node step])
  have kept: "row_at p' k' db1 = row_at p' k' db" if "p' \<noteq> p \<or> k' \<noteq> ?k" for p' k'
    using r'(4) that by (auto simp: other_rows_kept_def)
  have later: "?k \<notin> set (map node_key nodes)" "distinct (map node_key nodes)" using Cons.prems(3) by simp_all
  have ne: "node_key m \<noteq> ?k" if "m \<in> set nodes" for m using that later(1) by (metis image_eqI set_map)
  have "reads_row existing p (node_key m) db1 = reads_row existing p (node_key m) db" if "m \<in> set nodes" for m
    using kept [of p "node_key m"] ne [OF that] by (simp add: reads_row_def split: option.splits)
  then have "\<forall>m \<in> set nodes. listed_node p m \<and> reads_row existing p (node_key m) db1"
    using Cons.prems(4) by simp
  note IH = Cons.IH [OF r'(1) _ later(2) this rest]
  have "import_pair n p db1" using Cons.prems(2) import_pair_same [OF r'(3)] by simp
  note IH = IH [OF this]
  have at: "row_at p ?k db' = Some r'" using IH later(1) r'(5) by simp
  have "filter (\<lambda>k. row_moved (row_at p k db1) (row_at p k db')) (map node_key nodes) =
      filter (\<lambda>k. row_moved (row_at p k db) (row_at p k db')) (map node_key nodes)"
  proof (rule filter_cong [OF refl])
    fix k assume "k \<in> set (map node_key nodes)"
    then have "k \<noteq> ?k" using later(1) by blast
    then show "row_moved (row_at p k db1) (row_at p k db') = row_moved (row_at p k db) (row_at p k db')"
      using kept by simp
  qed
  then have len: "length changes' = length changes +
      length (filter (\<lambda>k. row_moved (row_at p k db) (row_at p k db')) (map node_key (node # nodes)))"
    using IH r'(7) at by simp
  have frame: "row_at p' k' db' = row_at p' k' db" if "p' \<noteq> p \<or> k' \<notin> set (map node_key (node # nodes))" for p' k'
  proof -
    have "row_at p' k' db' = row_at p' k' db1" using IH that by auto
    then show ?thesis using kept [of p' k'] that by auto
  qed
  have "\<exists>r'. row_at p (node_key m) db' = Some r' \<and> node_applied now m (row_at p (node_key m) db) r'"
    if "m \<in> set nodes" for m
    using IH that kept [of p "node_key m"] ne [OF that] by auto
  then have all: "\<forall>m \<in> set (node # nodes). \<exists>r'. row_at p (node_key m) db' = Some r' \<and>
      node_applied now m (row_at p (node_key m) db) r'"
    using at r'(6) by simp
  have "observations_evolve db db'" "same_imports db db'" "discovery_inv E db'"
    using IH observations_evolve_trans [OF r'(2)] same_imports_trans [OF r'(3)] by blast+
  with frame all len show ?case by blast
qed


text \<open>A node the snapshot no longer lists.\<close>

definition missing_applied :: "DateTime \<Rightarrow> observation_row \<Rightarrow> observation_row \<Rightarrow> bool" where
  "missing_applied now r r' \<longleftrightarrow>
     (if ob_classification r = ''provider_missing'' then r' = r
      else r' = (missing_update now r)\<lparr>ob_adoption_state :=
        if ob_adoption_state r = pending_text then ''unmanaged'' else ob_adoption_state r\<rparr>)"

lemma missing_calm: "calm_update (missing_update now)"
  by (simp add: calm_update_def keeps_keys_def missing_update_def)

lemma classification_missing: "classification_name c = ''provider_missing'' \<longleftrightarrow> c = OCProviderMissing"
  using classification_name_inject [of c OCProviderMissing] by (simp del: classification_name_inject)

lemma missing_step:
  assumes inv: "discovery_inv E db" and imp: "import_pair n p db"
    and r: "row_at p k db = Some r" "decode_observation r = Inr old" and absent: "k \<notin> set incoming"
    and step: "mark_missing E i n p now actor incoming k old (changes, db) = Inr (changes', db')"
  obtains r' where "discovery_inv E db'" "observations_evolve db db'" "same_imports db db'"
    "other_rows_kept p k db db'" "row_at p k db' = Some r'" "missing_applied now r r'"
    "length changes' = length changes + (if row_moved (Some r) (Some r') then 1 else 0)"
proof (cases "po_classification old = OCProviderMissing")
  case True
  then have "db' = db" "changes' = changes" using step by (simp_all add: mark_missing_def)
  moreover have "ob_classification r = ''provider_missing''" using decode_fields(4) [OF r(2)] True by simp
  ultimately show thesis using inv r(1)
    by (intro that [of r]) (simp_all add: other_rows_kept_def missing_applied_def row_moved_def)
next
  case False
  then have cls: "ob_classification r \<noteq> ''provider_missing''"
    using decode_fields(4) [OF r(2)] classification_missing by metis
  obtain db1 where upd: "update_observations (observation_at p k) (missing_update now) db = Inr db1"
    and ending: "ending_step E i n k (po_semantic_generation old + 1) ''provider_missing'' now actor
      (pending_adoption old) db1 = Inr db'"
    and ch: "changes' = changes @ [''provider_node_missing'']"
    using step absent False by (auto simp: mark_missing_def guard_simps ending_step_def)
  have u: "rows_unique db" using inv by (simp add: discovery_inv_def)
  have rm: "r \<in> set (dc_observations db)" "observation_at p k r" using r(1) by (auto simp: row_at_Some [OF u])
  have ok: "row_ok E r" using inv rm(1) by (simp add: discovery_inv_def list_all_iff)
  have check: "generation_check (missing_update now r)" using upd rm by (auto simp: update_observations_Inr list_all_iff)
  have "\<exists>c. ''provider_missing'' = classification_name c" by (intro exI [of _ OCProviderMissing]) simp
  then have "is_ok (decode_observation (missing_update now r))"
    using r(2) check by (auto simp: decode_observation_def missing_update_def is_ok_iff guard_simps generation_check_def)
  then have ok': "row_ok E (missing_update now r)" using ok check by (simp add: row_ok_def missing_update_def)
  have ev: "observation_evolves r (missing_update now r)" by (simp add: observation_evolves_def missing_update_def)
  have gen: "ob_semantic_generation (missing_update now r) = ob_semantic_generation r + 1" by (simp add: missing_update_def)
  have flag: "pending_adoption old \<longleftrightarrow> ob_adoption_state r = pending_text \<and>
      ob_semantic_generation (missing_update now r) \<noteq> ob_semantic_generation r"
    using gen decode_fields(7) [OF r(2)] by simp
  note touch = touch_step [OF inv imports_single_instance [OF inv imp] r(1) missing_calm upd ok' ev ending flag]
  let ?g = "touched (missing_update now) (pending_adoption old)"
  have keys: "keeps_keys ?g" using missing_calm by (auto simp: keeps_keys_def touched_def calm_update_def)
  note at = retouched_row_at [OF touch(3) keys]
  have app: "missing_applied now r (?g r)"
    using cls decode_fields(7) [OF r(2)] by (auto simp: missing_applied_def touched_def missing_update_def)
  have len: "length changes' = length changes + (if row_moved (Some r) (Some (?g r)) then 1 else 0)"
    using ch gen by (simp add: row_moved_def touched_def)
  have same: "same_imports db db'" using touch(3) by (simp add: retouched_def)
  have kept: "other_rows_kept p k db db'" using at by (simp add: other_rows_kept_def)
  have now_at: "row_at p k db' = Some (?g r)" using at r by simp
  show thesis using that [OF touch(1,2) same kept now_at app len] .
qed

lemma missing_loop:
  assumes "discovery_inv E db" "import_pair n p db" "distinct (map fst entries)"
    "\<forall>(k, x) \<in> set entries. k \<notin> set incoming \<longrightarrow> (\<exists>r. row_at p k db = Some r \<and> decode_observation r = Inr x)"
    "mark_all_missing E i n p now actor incoming entries (changes, db) = Inr (changes', db')"
  shows "discovery_inv E db' \<and> observations_evolve db db' \<and> same_imports db db' \<and>
    (\<forall>p' k'. p' \<noteq> p \<or> k' \<in> set incoming \<or> k' \<notin> set (map fst entries) \<longrightarrow> row_at p' k' db' = row_at p' k' db) \<and>
    (\<forall>k \<in> set (map fst entries) - set incoming. \<exists>r r'. row_at p k db = Some r \<and> row_at p k db' = Some r' \<and>
       missing_applied now r r') \<and>
    length changes' = length changes +
      length (filter (\<lambda>k. row_moved (row_at p k db) (row_at p k db')) (map fst entries))"
  using assms
proof (induction entries arbitrary: i changes db)
  case Nil
  then show ?case by simp
next
  case (Cons entry entries)
  obtain k x where entry: "entry = (k, x)" by (cases entry)
  obtain changes1 db1 where
    step: "mark_missing E i n p now actor incoming k x (changes, db) = Inr (changes1, db1)"
    and rest: "mark_all_missing E (Suc i) n p now actor incoming entries (changes1, db1) = Inr (changes', db')"
    using Cons.prems(5) entry by (auto simp: guard_simps)
  have later: "k \<notin> set (map fst entries)" "distinct (map fst entries)" using Cons.prems(3) entry by simp_all
  have one: "discovery_inv E db1 \<and> observations_evolve db db1 \<and> same_imports db db1 \<and> other_rows_kept p k db db1 \<and>
      (if k \<in> set incoming then row_at p k db1 = row_at p k db
       else \<exists>r r'. row_at p k db = Some r \<and> row_at p k db1 = Some r' \<and> missing_applied now r r') \<and>
      length changes1 = length changes + (if row_moved (row_at p k db) (row_at p k db1) then 1 else 0)"
  proof (cases "k \<in> set incoming")
    case True
    then have "db1 = db" "changes1 = changes" using step by (simp_all add: mark_missing_def)
    with True Cons.prems(1) show ?thesis by (simp add: other_rows_kept_def row_moved_def)
  next
    case False
    obtain r where r: "row_at p k db = Some r" "decode_observation r = Inr x"
      using Cons.prems(4) False entry by auto
    obtain r' where r': "discovery_inv E db1" "observations_evolve db db1" "same_imports db db1"
      "other_rows_kept p k db db1" "row_at p k db1 = Some r'" "missing_applied now r r'"
      "length changes1 = length changes + (if row_moved (Some r) (Some r') then 1 else 0)"
      by (rule missing_step [OF Cons.prems(1,2) r False step])
    with r(1) False show ?thesis by simp
  qed
  have kept: "row_at p' k' db1 = row_at p' k' db" if "p' \<noteq> p \<or> k' \<noteq> k" for p' k'
    using one that by (auto simp: other_rows_kept_def)
  have ne: "k' \<noteq> k" if "k' \<in> set (map fst entries)" for k' using that later(1) by blast
  have reads: "\<forall>(k', x') \<in> set entries. k' \<notin> set incoming \<longrightarrow>
      (\<exists>r. row_at p k' db1 = Some r \<and> decode_observation r = Inr x')"
  proof clarify
    fix k' x' assume m: "(k', x') \<in> set entries" "k' \<notin> set incoming"
    then have "k' \<noteq> k" using ne [of k'] by force
    with m Cons.prems(4) kept [of p k'] show "\<exists>r. row_at p k' db1 = Some r \<and> decode_observation r = Inr x'" by auto
  qed
  have "import_pair n p db1" using Cons.prems(2) import_pair_same one by blast
  note IH = Cons.IH [OF conjunct1 [OF one] this later(2) reads rest]
  have at: "row_at p k db' = row_at p k db1" using IH later(1) by blast
  have "filter (\<lambda>k. row_moved (row_at p k db1) (row_at p k db')) (map fst entries) =
      filter (\<lambda>k. row_moved (row_at p k db) (row_at p k db')) (map fst entries)"
    by (rule filter_cong [OF refl]) (use ne kept in auto)
  then have len: "length changes' = length changes +
      length (filter (\<lambda>k. row_moved (row_at p k db) (row_at p k db')) (map fst (entry # entries)))"
    using IH one at entry by simp
  have frame: "row_at p' k' db' = row_at p' k' db"
    if h: "p' \<noteq> p \<or> k' \<in> set incoming \<or> k' \<notin> set (map fst (entry # entries))" for p' k'
  proof -
    have "row_at p' k' db' = row_at p' k' db1" using IH h by auto
    also have "\<dots> = row_at p' k' db"
      using kept [of p' k'] one h entry by (cases "p' = p \<and> k' = k") auto
    finally show ?thesis .
  qed
  have all: "\<exists>r r'. row_at p k' db = Some r \<and> row_at p k' db' = Some r' \<and> missing_applied now r r'"
    if h: "k' \<in> set (map fst (entry # entries)) - set incoming" for k'
  proof (cases "k' = k")
    case True
    then show ?thesis using one h at by auto
  next
    case False
    then have "k' \<in> set (map fst entries) - set incoming" using h entry by auto
    then obtain r r' where "row_at p k' db1 = Some r" "row_at p k' db' = Some r'" "missing_applied now r r'"
      using IH by blast
    moreover from this(1) have "row_at p k' db = Some r" using kept [of p k'] False by simp
    ultimately show ?thesis by blast
  qed
  have "observations_evolve db db'" "same_imports db db'" "discovery_inv E db'"
    using IH one observations_evolve_trans same_imports_trans by blast+
  with frame all len show ?case by blast
qed


section \<open>The transaction\<close>

lemma discovery_audit_Inr:
  "discovery_audit n actor kind outcome g db = Inr db' \<Longrightarrow>
     \<exists>e. db' = db\<lparr>dc_events := dc_events db @ [e]\<rparr> \<and> ea_network_id e = Some n \<and> ea_event_kind e = kind"
  by (auto simp: discovery_audit_def guard_simps)

lemma discovery_audits_Inr:
  "discovery_audits n actor kinds db = Inr db' \<Longrightarrow>
     \<exists>es. db' = db\<lparr>dc_events := dc_events db @ es\<rparr> \<and> map ea_event_kind es = kinds"
proof (induction kinds arbitrary: db)
  case Nil
  then show ?case by (intro exI [of _ "[]"]) simp
next
  case (Cons kind kinds)
  then obtain db1 where 1: "discovery_audit n actor kind ''success'' None db = Inr db1"
    and 2: "discovery_audits n actor kinds db1 = Inr db'" by (auto simp: guard_simps)
  obtain e where e: "db1 = db\<lparr>dc_events := dc_events db @ [e]\<rparr>" "ea_event_kind e = kind"
    using discovery_audit_Inr [OF 1] by blast
  obtain es where "db' = db1\<lparr>dc_events := dc_events db1 @ es\<rparr>" "map ea_event_kind es = kinds"
    using Cons.IH [OF 2] by blast
  with e show ?case by (intro exI [of _ "e # es"]) simp
qed

text \<open>The invariant speaks of the tables a change of events or of freshness columns leaves alone.\<close>

definition same_inventory :: "discovery_db \<Rightarrow> discovery_db \<Rightarrow> bool" where
  "same_inventory db db' \<longleftrightarrow>
     dc_networks db' = dc_networks db \<and> dc_observations db' = dc_observations db \<and>
     dc_actions db' = dc_actions db \<and>
     map (\<lambda>i. (ip_network_id i, ip_provider_instance_id i)) (dc_imports db') =
       map (\<lambda>i. (ip_network_id i, ip_provider_instance_id i)) (dc_imports db)"

lemma same_inventory_import_pair:
  assumes "same_inventory db db'"
  shows "import_pair n p db' = import_pair n p db"
proof -
  have "import_pair n p db = ((n, p) \<in> set (map (\<lambda>i. (ip_network_id i, ip_provider_instance_id i)) (dc_imports db)))"
    for db by (auto simp: import_pair_def list_ex_iff)
  then show ?thesis using assms by (simp only: same_inventory_def)
qed

lemma same_inventory_inv:
  assumes same: "same_inventory db db'" and inv: "discovery_inv E db"
  shows "discovery_inv E db'" "observations_evolve db db'" "row_at p k db' = row_at p k db"
proof -
  have obs: "dc_observations db' = dc_observations db" "dc_actions db' = dc_actions db" "dc_networks db' = dc_networks db"
    using same by (simp_all add: same_inventory_def)
  show at: "row_at p k db' = row_at p k db" for p k by (simp add: row_at_def obs)
  let ?pairs = "\<lambda>db. map (\<lambda>i. (ip_network_id i, ip_provider_instance_id i)) (dc_imports db)"
  have keyed: "imports_keyed db \<longleftrightarrow> distinct (map fst (?pairs db)) \<and> distinct (map snd (?pairs db)) \<and>
      distinct (map dn_network_id (dc_networks db)) \<and>
      list_all (\<lambda>(n, p). list_ex (\<lambda>w. dn_network_id w = n \<and> nw_provider_instance_id (dn_record w) = p)
        (dc_networks db)) (?pairs db)" for db
    by (simp add: imports_keyed_def comp_def list.pred_map)
  have pairs: "?pairs db' = ?pairs db" using same by (simp add: same_inventory_def)
  have "imports_keyed db'" using inv unfolding discovery_inv_def keyed pairs obs by blast
  moreover have "rows_imported db'" using inv unfolding discovery_inv_def rows_imported_def obs
      same_inventory_import_pair [OF same] by blast
  moreover have "adoption_inv db' = adoption_inv db"
    by (simp add: adoption_inv_def action_backed_def pending_backed_def at obs)
  ultimately show "discovery_inv E db'" using inv by (simp add: discovery_inv_def rows_unique_def obs)
  show "observations_evolve db db'" by (rule observations_evolve_same) (rule obs(1))
qed

lemma same_inventory_trans: "same_inventory a b \<Longrightarrow> same_inventory b c \<Longrightarrow> same_inventory a c"
  by (simp add: same_inventory_def)

lemma same_inventory_refl [simp]: "same_inventory db db" by (simp add: same_inventory_def)

lemma update_import_inventory:
  assumes "\<And>i. ip_network_id (f i) = ip_network_id i \<and> ip_provider_instance_id (f i) = ip_provider_instance_id i"
  shows "same_inventory db (update_import n f db)"
  using assms by (simp add: same_inventory_def update_import_def comp_def)

lemma event_inventory: "same_inventory db (db\<lparr>dc_events := es\<rparr>)"
  by (simp add: same_inventory_def)

text \<open>
  What a successful snapshot does, key by key: a listed node is applied to what was at its key, a
  row of the network that is not listed goes missing, and every other row stays.
\<close>

definition snapshot_applied ::
    "NetworkId \<Rightarrow> ProviderInstanceId \<Rightarrow> ProviderNode list \<Rightarrow> DateTime \<Rightarrow> discovery_db \<Rightarrow> discovery_db \<Rightarrow> bool" where
  "snapshot_applied n p nodes now db db' \<longleftrightarrow>
     (\<forall>node \<in> set nodes. \<exists>r'. row_at p (node_key node) db' = Some r' \<and>
        node_applied now node (row_at p (node_key node) db) r') \<and>
     (\<forall>k r. k \<notin> set (map node_key nodes) \<and> row_at p k db = Some r \<longrightarrow>
        (\<exists>r'. row_at p k db' = Some r' \<and> missing_applied now r r')) \<and>
     (\<forall>k. k \<notin> set (map node_key nodes) \<and> row_at p k db = None \<longrightarrow> row_at p k db' = None) \<and>
     (\<forall>p' k. p' \<noteq> p \<longrightarrow> row_at p' k db' = row_at p' k db)"

text \<open>The keys of an instance whose generation a transaction moved, new rows included.\<close>

definition moved_keys :: "ProviderInstanceId \<Rightarrow> discovery_db \<Rightarrow> discovery_db \<Rightarrow> string set" where
  "moved_keys p db db' = {k. row_moved (row_at p k db) (row_at p k db')}"

lemma validate_snapshot_Inr:
  "validate_snapshot nodes p = Inr nodes' \<longleftrightarrow>
     list_all (\<lambda>node. pi_provider_instance_id (pn_identity node) = p) nodes \<and>
     distinct (map node_key nodes) \<and> nodes' = sort_nodes nodes"
  by (auto simp: validate_snapshot_def)


text \<open>Within the loops only the ends of adoptions are audited.\<close>

definition conflicts_only :: "discovery_db \<Rightarrow> discovery_db \<Rightarrow> bool" where
  "conflicts_only db db' \<longleftrightarrow> (\<exists>es. dc_events db' = dc_events db @ es \<and>
     list_all (\<lambda>e. ea_event_kind e = ''device.adoption_action_conflicted'') es)"

lemma conflicts_only_same: "dc_events db' = dc_events db \<Longrightarrow> conflicts_only db db'"
  by (simp add: conflicts_only_def)

lemma conflicts_only_trans: "conflicts_only a b \<Longrightarrow> conflicts_only b c \<Longrightarrow> conflicts_only a c"
  by (fastforce simp: conflicts_only_def)

lemma terminalize_conflicts:
  assumes "terminalize_pending_adoption E i n k g reason now actor db = Inr db'"
  shows "conflicts_only db db'"
proof (cases "pending_action n k db")
  case None
  with assms have "db' = db" by (simp add: terminalize_pending_adoption_def)
  then show ?thesis by (simp add: conflicts_only_same)
next
  case (Some a)
  have "dc_events db' = dc_events db @ [conflict_event n actor g]"
    by (rule terminalize_effect [OF assms Some])
  then show ?thesis by (auto simp: conflicts_only_def conflict_event_def)
qed

lemma upsert_events: "upsert_observation q db = Inr db' \<Longrightarrow> dc_events db' = dc_events db"
  by (auto simp: upsert_observation_def update_observations_Inr insert_observation_Inr split: if_splits)

lemma reconcile_node_conflicts:
  assumes "reconcile_node E i n p now actor existing node (changes, db) = Inr (changes', db')"
  shows "conflicts_only db db'"
proof -
  define old where "old = map_of existing (node_key node)"
  obtain x db1 where ups: "upsert_observation (node_row E i n p old node x now) db = Inr db1"
    and rest: "(case old of None \<Rightarrow> Inr db1 | Some o' \<Rightarrow>
        if no_changed x \<and> pending_adoption o'
        then terminalize_pending_adoption E i n (po_canonical_provider_node_id o')
          (po_semantic_generation o' + 1) (conflict_reason_of (no_classification x)) now actor db1
        else Inr db1) = Inr db'"
    using assms unfolding old_def by (auto simp: reconcile_node_def Let_def guard_simps)
  have rest: "db' = db1 \<or> (\<exists>k g reason. terminalize_pending_adoption E i n k g reason now actor db1 = Inr db')"
    using rest by (auto split: option.splits if_splits)
  have "conflicts_only db db1" using ups upsert_events conflicts_only_same by blast
  then show ?thesis using rest terminalize_conflicts conflicts_only_trans by blast
qed

lemma nodes_conflicts:
  "reconcile_nodes E i n p now actor existing nodes (changes, db) = Inr (changes', db') \<Longrightarrow> conflicts_only db db'"
proof (induction nodes arbitrary: i changes db)
  case Nil
  then show ?case by (simp add: conflicts_only_same)
next
  case (Cons node nodes)
  then obtain c1 db1 where "reconcile_node E i n p now actor existing node (changes, db) = Inr (c1, db1)"
    "reconcile_nodes E (Suc i) n p now actor existing nodes (c1, db1) = Inr (changes', db')"
    by (auto simp: guard_simps)
  with Cons.IH reconcile_node_conflicts conflicts_only_trans show ?case by blast
qed

lemma missing_conflicts:
  "mark_all_missing E i n p now actor incoming entries (changes, db) = Inr (changes', db') \<Longrightarrow> conflicts_only db db'"
proof (induction entries arbitrary: i changes db)
  case Nil
  then show ?case by (simp add: conflicts_only_same)
next
  case (Cons entry entries)
  obtain k x where entry: "entry = (k, x)" by (cases entry)
  with Cons.prems obtain c1 db1 where step: "mark_missing E i n p now actor incoming k x (changes, db) = Inr (c1, db1)"
    and rest: "mark_all_missing E (Suc i) n p now actor incoming entries (c1, db1) = Inr (changes', db')"
    by (auto simp: guard_simps)
  have "conflicts_only db db1"
  proof (cases "k \<notin> set incoming \<and> po_classification x \<noteq> OCProviderMissing")
    case True
    then obtain db2 where "update_observations (observation_at p k) (missing_update now) db = Inr db2"
      and ending: "(if pending_adoption x then terminalize_pending_adoption E i n k (po_semantic_generation x + 1)
        ''provider_missing'' now actor db2 else Inr db2) = Inr db1"
      using step by (auto simp: mark_missing_def guard_simps)
    then have "conflicts_only db db2" by (auto simp: update_observations_Inr conflicts_only_same)
    moreover have "conflicts_only db2 db1"
      using ending terminalize_conflicts by (auto simp: conflicts_only_same split: if_splits)
    ultimately show ?thesis by (rule conflicts_only_trans)
  next
    case False
    then have "db1 = db" using step by (auto simp: mark_missing_def split: if_splits)
    then show ?thesis by (simp add: conflicts_only_same)
  qed
  then show ?case using Cons.IH [OF rest] by (rule conflicts_only_trans)
qed

text \<open>The events of a reconciliation itself, without the ends of adoptions.\<close>

definition reconciliation_events :: "discovery_db \<Rightarrow> string list" where
  "reconciliation_events db =
     filter (\<lambda>k. k \<noteq> ''device.adoption_action_conflicted'') (map ea_event_kind (dc_events db))"

lemma conflicts_only_events: "conflicts_only db db' \<Longrightarrow> reconciliation_events db' = reconciliation_events db"
  by (auto simp: conflicts_only_def reconciliation_events_def list_all_iff filter_empty_conv)


lemma change_audits_effect:
  assumes "change_audits n actor changes db = Inr db'" "''device.adoption_action_conflicted'' \<notin> set changes"
  shows "same_inventory db db'" "dc_imports db' = dc_imports db"
    "reconciliation_events db' = reconciliation_events db @ (if changes = [] then []
       else ''provider_reconciliation_started'' # changes @ [''provider_reconciliation_completed''])"
proof -
  have "\<exists>es. db' = db\<lparr>dc_events := dc_events db @ es\<rparr> \<and> map ea_event_kind es = (if changes = [] then []
       else ''provider_reconciliation_started'' # changes @ [''provider_reconciliation_completed''])"
  proof (cases "changes = []")
    case True
    then show ?thesis using assms(1) by (intro exI [of _ "[]"]) (simp add: change_audits_def)
  next
    case False
    then show ?thesis using assms(1) discovery_audits_Inr unfolding change_audits_def by fastforce
  qed
  then obtain es where es: "db' = db\<lparr>dc_events := dc_events db @ es\<rparr>" "map ea_event_kind es = (if changes = [] then []
       else ''provider_reconciliation_started'' # changes @ [''provider_reconciliation_completed''])" by blast
  then show "same_inventory db db'" "dc_imports db' = dc_imports db" by (simp_all add: event_inventory)
  have "filter (\<lambda>k. k \<noteq> ''device.adoption_action_conflicted'') changes = changes"
    using assms(2) by (auto simp: filter_id_conv)
  then show "reconciliation_events db' = reconciliation_events db @ (if changes = [] then []
       else ''provider_reconciliation_started'' # changes @ [''provider_reconciliation_completed''])"
    using es by (simp add: reconciliation_events_def)
qed

text \<open>A step that collects no change writes nothing but the observation.\<close>

definition same_records :: "discovery_db \<Rightarrow> discovery_db \<Rightarrow> bool" where
  "same_records db db' \<longleftrightarrow>
     dc_memberships db' = dc_memberships db \<and> dc_actions db' = dc_actions db \<and> dc_proofs db' = dc_proofs db \<and>
     dc_decisions db' = dc_decisions db \<and> dc_events db' = dc_events db"

definition quiet_step :: "reconciling \<Rightarrow> reconciling \<Rightarrow> bool" where
  "quiet_step st st' \<longleftrightarrow> (\<exists>ks. fst st' = fst st @ ks \<and> (ks = [] \<longrightarrow> same_records (snd st) (snd st')))"

lemma quiet_refl [simp]: "quiet_step st st"
  by (simp add: quiet_step_def same_records_def)

lemma quiet_trans: "quiet_step a b \<Longrightarrow> quiet_step b c \<Longrightarrow> quiet_step a c"
  by (auto simp: quiet_step_def same_records_def)

lemma update_records: "update_observations P f db = Inr db' \<Longrightarrow> same_records db db'"
  by (auto simp: update_observations_Inr same_records_def)

lemma upsert_records: "upsert_observation q db = Inr db' \<Longrightarrow> same_records db db'"
  by (auto simp: upsert_observation_def update_observations_Inr insert_observation_Inr same_records_def split: if_splits)

lemma nodes_quiet: "reconcile_nodes E i n p now actor existing nodes st = Inr st' \<Longrightarrow> quiet_step st st'"
proof (induction nodes arbitrary: i st)
  case (Cons node nodes)
  then obtain st1 where step: "reconcile_node E i n p now actor existing node st = Inr st1"
    and rest: "reconcile_nodes E (Suc i) n p now actor existing nodes st1 = Inr st'"
    by (auto simp: guard_simps)
  have "quiet_step st st1"
    using step by (cases st) (auto simp: reconcile_node_def Let_def guard_simps quiet_step_def upsert_records
        split: option.splits if_splits)
  from quiet_trans [OF this Cons.IH [OF rest]] show ?case .
qed simp

lemma missing_quiet:
  "mark_all_missing E i n p now actor incoming entries st = Inr st' \<Longrightarrow> quiet_step st st'"
proof (induction entries arbitrary: i st)
  case (Cons entry entries)
  obtain k x where "entry = (k, x)" by (cases entry)
  with Cons.prems obtain st1 where step: "mark_missing E i n p now actor incoming k x st = Inr st1"
    and rest: "mark_all_missing E (Suc i) n p now actor incoming entries st1 = Inr st'"
    by (auto simp: guard_simps)
  have "quiet_step st st1"
    using step by (cases st) (auto simp: mark_missing_def guard_simps quiet_step_def same_records_def split: if_splits)
  from quiet_trans [OF this Cons.IH [OF rest]] show ?case .
qed simp

lemma quiet_snapshot:
  assumes "reconcile_nodes E i n p now actor existing nodes ([], db) = Inr (changes1, db1)"
    and "mark_all_missing E j n p now actor incoming entries (changes1, db1) = Inr ([], db2)"
    and "change_audits n actor [] db2 = Inr db3"
  shows "same_records db (update_import n f db3)"
  using quiet_trans [OF nodes_quiet [OF assms(1)] missing_quiet [OF assms(2)]] assms(3)
  by (simp add: quiet_step_def change_audits_def same_records_def update_import_def)

text \<open>The kinds the loops collect.\<close>

definition change_kinds :: "string list" where
  "change_kinds = [''provider_node_discovered'', ''provider_node_changed'', ''provider_node_expired'',
     ''provider_identity_conflict'', ''provider_node_missing'']"

lemma node_effect_kind: "node_effect E previous node = Inr x \<Longrightarrow> no_event_kind x \<in> set change_kinds"
  by (auto simp: node_effect_def guard_simps change_kinds_def Let_def split: option.splits if_splits)

lemma nodes_kinds:
  "reconcile_nodes E i n p now actor existing nodes (changes, db) = Inr (changes', db') \<Longrightarrow>
     set changes' \<subseteq> set changes \<union> set change_kinds"
proof (induction nodes arbitrary: i changes db)
  case Nil
  then show ?case by simp
next
  case (Cons node nodes)
  then obtain c1 db1 where step: "reconcile_node E i n p now actor existing node (changes, db) = Inr (c1, db1)"
    and rest: "reconcile_nodes E (Suc i) n p now actor existing nodes (c1, db1) = Inr (changes', db')"
    by (auto simp: guard_simps)
  obtain x where "node_effect E (map_of existing (node_key node)) node = Inr x"
    "c1 = (if no_changed x then changes @ [no_event_kind x] else changes)"
    using step by (auto simp: reconcile_node_def Let_def guard_simps)
  then have "set c1 \<subseteq> set changes \<union> set change_kinds" using node_effect_kind by auto
  with Cons.IH [OF rest] show ?case by blast
qed

lemma missing_kinds:
  "mark_all_missing E i n p now actor incoming entries (changes, db) = Inr (changes', db') \<Longrightarrow>
     set changes' \<subseteq> set changes \<union> set change_kinds"
proof (induction entries arbitrary: i changes db)
  case Nil
  then show ?case by simp
next
  case (Cons entry entries)
  obtain k x where "entry = (k, x)" by (cases entry)
  with Cons.prems obtain c1 db1 where "mark_missing E i n p now actor incoming k x (changes, db) = Inr (c1, db1)"
    and rest: "mark_all_missing E (Suc i) n p now actor incoming entries (c1, db1) = Inr (changes', db')"
    by (auto simp: guard_simps)
  then have "set c1 \<subseteq> set changes \<union> set change_kinds"
    by (auto simp: mark_missing_def guard_simps change_kinds_def split: if_splits)
  with Cons.IH [OF rest] show ?case by blast
qed

definition audited_changes :: "ProviderInstanceId \<Rightarrow> discovery_db \<Rightarrow> discovery_db \<Rightarrow> bool" where
  "audited_changes p db db' \<longleftrightarrow>
     finite (moved_keys p db db') \<and>
     (\<exists>kinds. length kinds = card (moved_keys p db db') \<and> set kinds \<subseteq> set change_kinds \<and>
        reconciliation_events db' = reconciliation_events db @ (if kinds = [] then []
          else ''provider_reconciliation_started'' # kinds @ [''provider_reconciliation_completed'']))"

lemma row_moved_same [simp]: "\<not> row_moved r r"
  by (simp add: row_moved_def)

lemma snapshot_effect:
  assumes inv: "discovery_inv E db" and imp: "import_pair n p db"
    and nodes: "distinct (map node_key nodes)" "\<forall>node \<in> set nodes. listed_node p node"
    and tx: "apply_snapshot_tx E n p inspection nodes now actor db = Inr (u, db')"
  shows "discovery_inv E db'" "observations_evolve db db'" "snapshot_applied n p nodes now db db'"
    "audited_changes p db db'" "dc_networks db' = dc_networks db"
    "dc_imports db' = map (\<lambda>i. if ip_network_id i = n then success_values inspection now i else i) (dc_imports db)"
    "moved_keys p db db' = {} \<Longrightarrow> same_records db db'"
proof -
  obtain existing changes1 db1 changes db2 db3 where
    load: "load_observations n db = Inr existing"
    and l1: "reconcile_nodes E 0 n p now actor existing nodes ([], db) = Inr (changes1, db1)"
    and l2: "mark_all_missing E (length nodes) n p now actor (map node_key nodes) existing (changes1, db1) = Inr (changes, db2)"
    and aud: "change_audits n actor changes db2 = Inr db3"
    and upd: "db' = update_import n (success_values inspection now) db3"
    using tx by (auto simp: apply_snapshot_tx_def guard_simps)
  have u: "rows_unique db" using inv by (simp add: discovery_inv_def)
  note single = imports_single_instance [OF inv imp]
  note look = load_observations_lookup [OF load u single]
  have dist: "distinct (map fst existing)" using look(1) by (simp add: strict_sorted_iff)
  have reads: "\<forall>node \<in> set nodes. listed_node p node \<and> reads_row existing p (node_key node) db"
    using nodes(2) look(2,3) by (auto simp: reads_row_def split: option.splits)
  note L1 = nodes_loop [OF inv imp nodes(1) reads l1]
  have imp1: "import_pair n p db1" using imp L1 import_pair_same by blast
  have reads2: "\<forall>(k, x) \<in> set existing. k \<notin> set (map node_key nodes) \<longrightarrow>
      (\<exists>r. row_at p k db1 = Some r \<and> decode_observation r = Inr x)"
  proof clarify
    fix k x assume m: "(k, x) \<in> set existing" "k \<notin> set (map node_key nodes)"
    then have "map_of existing k = Some x" using dist by simp
    then show "\<exists>r. row_at p k db1 = Some r \<and> decode_observation r = Inr x"
      using look(3) L1 m(2) by simp
  qed
  note L2 = missing_loop [OF conjunct1 [OF L1] imp1 dist reads2 l2]
  have keys: "k \<in> set (map fst existing) \<longleftrightarrow> row_at p k db \<noteq> None" for k
    using look(2) [of k] by (auto simp: map_of_eq_None_iff)
  have kinds: "set changes \<subseteq> set change_kinds" using missing_kinds [OF l2] nodes_kinds [OF l1] by auto
  then have nc: "''device.adoption_action_conflicted'' \<notin> set changes" by (auto simp: change_kinds_def)
  note A = change_audits_effect [OF aud nc]
  have inv23: "same_inventory db2 db'"
    unfolding upd by (rule same_inventory_trans [OF A(1) update_import_inventory]) (simp add: success_values_def)
  note S = same_inventory_inv [OF inv23]
  have inv2: "discovery_inv E db2" using L2 by blast
  show "discovery_inv E db'" by (rule S(1) [OF inv2])
  show "observations_evolve db db'"
    using L1 L2 S(2) [OF inv2] observations_evolve_trans by blast
  have at: "row_at p' k db' = row_at p' k db2" for p' k by (rule S(3) [OF inv2])
  have listed: "row_at p k db2 = row_at p k db1" if "k \<in> set (map node_key nodes)" for k using L2 that by blast
  have unlisted: "row_at p k db1 = row_at p k db" if "k \<notin> set (map node_key nodes)" for k using L1 that by blast
  have foreign: "row_at p' k db2 = row_at p' k db" if "p' \<noteq> p" for p' k using L1 L2 that by simp
  have none: "row_at p k db2 = None" if "k \<notin> set (map node_key nodes)" "row_at p k db = None" for k
    using L2 keys [of k] unlisted that by simp
  have gone: "\<exists>r'. row_at p k db2 = Some r' \<and> missing_applied now r r'"
    if h: "k \<notin> set (map node_key nodes)" "row_at p k db = Some r" for k r
  proof -
    have "k \<in> set (map fst existing) - set (map node_key nodes)" using keys [of k] h by simp
    then obtain q r' where "row_at p k db1 = Some q" "row_at p k db2 = Some r'" "missing_applied now q r'" using L2 by blast
    with unlisted [OF h(1)] h(2) show ?thesis by simp
  qed
  have seen: "\<exists>r'. row_at p (node_key m) db2 = Some r' \<and> node_applied now m (row_at p (node_key m) db) r'"
    if "m \<in> set nodes" for m
    using L1 listed [of "node_key m"] that by simp
  show "snapshot_applied n p nodes now db db'"
    unfolding snapshot_applied_def at using seen gone none foreign by blast
  have m1: "row_moved (row_at p k db1) (row_at p k db2) \<longleftrightarrow>
      k \<notin> set (map node_key nodes) \<and> row_moved (row_at p k db) (row_at p k db2)" for k
    using listed unlisted by (cases "k \<in> set (map node_key nodes)") simp_all
  define A1 where "A1 = filter (\<lambda>k. row_moved (row_at p k db) (row_at p k db1)) (map node_key nodes)"
  define A2 where "A2 = filter (\<lambda>k. row_moved (row_at p k db1) (row_at p k db2)) (map fst existing)"
  have "k \<in> moved_keys p db db' \<longleftrightarrow> k \<in> set A1 \<union> set A2" for k
    using listed [of k] none [of k] keys [of k] m1 [of k]
    unfolding moved_keys_def at A1_def A2_def set_filter mem_Collect_eq Un_iff
    by (cases "k \<in> set (map node_key nodes)") auto
  then have moved: "moved_keys p db db' = set A1 \<union> set A2" by blast
  have "set A1 \<inter> set A2 = {}" unfolding A1_def A2_def set_filter using m1 by blast
  moreover have "distinct A1" "distinct A2" unfolding A1_def A2_def using nodes(1) dist by (simp_all only: distinct_filter)
  moreover have "length changes1 = length ([] :: string list) + length A1" "length changes = length changes1 + length A2"
    unfolding A1_def A2_def using L1 L2 by blast+
  ultimately have card: "finite (moved_keys p db db')" "card (moved_keys p db db') = length changes"
    unfolding moved by (simp_all add: card_Un_disjoint distinct_card)
  show "same_records db db'" if "moved_keys p db db' = {}"
    using card that l1 l2 aud quiet_snapshot unfolding upd by simp
  have "reconciliation_events db' = reconciliation_events db3" unfolding upd by (simp add: reconciliation_events_def update_import_def)
  moreover have "reconciliation_events db2 = reconciliation_events db"
    using nodes_conflicts [OF l1] missing_conflicts [OF l2] conflicts_only_events by metis
  ultimately have "reconciliation_events db' = reconciliation_events db @ (if changes = [] then []
       else ''provider_reconciliation_started'' # changes @ [''provider_reconciliation_completed''])"
    using A(3) by simp
  then show "audited_changes p db db'" using card kinds unfolding audited_changes_def by auto
  have "dc_imports db2 = dc_imports db" "dc_networks db2 = dc_networks db"
    using L1 L2 by (simp_all add: same_imports_def)
  then show "dc_networks db' = dc_networks db"
    "dc_imports db' = map (\<lambda>i. if ip_network_id i = n then success_values inspection now i else i) (dc_imports db)"
    using A(1,2) inv23 unfolding upd by (simp_all add: update_import_def same_inventory_def)
qed

end
