(* ===== verification/Discovery_Runs.thy ===== *)
theory Discovery_Runs
  imports Discovery
begin

text \<open>
  Runs of imports and reconciliations. A reconciliation reads its configuration, waits for the
  provider, and then commits one transaction; \<open>discovery_step\<close> makes the two a start and a finish
  with any other step in between, imports and the writes of the adoption code among them.
\<close>

section \<open>Imports\<close>

definition hashed_provider :: "ReadOnlyProvider \<Rightarrow> bool" where
  "hashed_provider provider \<longleftrightarrow>
     (case ro_list_nodes provider of Inl _ \<Rightarrow> True
      | Inr nodes \<Rightarrow> list_all (\<lambda>node. hash_column (pi_stable_key_fingerprint (pn_identity node))) nodes)"

lemma provider_snapshot_Inr:
  assumes "provider_snapshot c provider = Inr (inspection, nodes)" "hashed_provider provider"
  shows "distinct (map node_key nodes)" "\<forall>node \<in> set nodes. listed_node (rc_provider_instance_id c) node"
    "\<exists>listed. ro_list_nodes provider = Inr listed \<and> nodes = sort_nodes listed"
  using assms
  by (auto simp: provider_snapshot_def guard_simps validate_snapshot_Inr sort_nodes_def distinct_map
      listed_node_def hashed_provider_def provider_answer_def list_all_iff)

lemma import_node_step:
  assumes inv: "discovery_inv E db" and imp: "import_pair n p db" and node: "listed_node p node"
    and ins: "insert_new_observation E i n p node (first_classification node) now db = Inr db'"
  shows "discovery_inv E db'" "observations_evolve db db'" "same_imports db db'"
proof -
  obtain fingerprint where fp: "semantic_fingerprint E node = Inr fingerprint"
    and obs: "insert_observation (observation_values E i n None p (node_key node)
      (pi_stable_key_fingerprint (pn_identity node)) (first_classification node) fingerprint node now now) db = Inr db'"
    using ins by (auto simp: insert_new_observation_def guard_simps)
  define q where "q = observation_values E i n None p (node_key node)
      (pi_stable_key_fingerprint (pn_identity node)) (first_classification node) fingerprint node now now"
  have qk: "ob_provider_instance_id q = p" "ob_provider_node_id q = node_key node" "ob_network_id q = n"
    "ob_adoption_state q = ''unmanaged''" by (simp_all add: q_def observation_values_def)
  have new: "db' = db\<lparr>dc_observations := dc_observations db @ [q]\<rparr>"
    and none: "row_at (ob_provider_instance_id q) (ob_provider_node_id q) db = None"
    using obs [folded q_def] by (auto simp: insert_observation_Inr row_at_def find_None_iff list_all_iff)
  have same: "same_imports db db'" "dc_observations db' = dc_observations db @ [q]" "dc_actions db' = dc_actions db"
    using new by (simp_all add: same_imports_def)
  have ok: "row_ok E q" using new_values_ok [OF fp] node by (simp add: q_def listed_node_def)
  have pair: "import_pair (ob_network_id q) (ob_provider_instance_id q) db" using imp qk by simp
  show "discovery_inv E db'" "observations_evolve db db'"
    using appended_row [OF inv same none ok qk(4) pair] by blast+
  show "same_imports db db'" by (rule same(1))
qed

lemma audit_inventory:
  assumes "discovery_audit n actor kind outcome g db = Inr db'"
  shows "same_inventory db db'" "same_imports db db'"
  using discovery_audit_Inr [OF assms] by (auto simp: same_inventory_def same_imports_def)

lemma import_loop:
  assumes "discovery_inv E db" "import_pair n p db" "\<forall>node \<in> set nodes. listed_node p node"
    "import_nodes E i n p now actor nodes db = Inr db'"
  shows "discovery_inv E db' \<and> observations_evolve db db' \<and> same_imports db db'"
  using assms
proof (induction nodes arbitrary: i db)
  case Nil
  then show ?case by simp
next
  case (Cons node nodes)
  obtain db1 db2 where
    ins: "insert_new_observation E i n p node (first_classification node) now db = Inr db1"
    and aud: "discovery_audit n actor (if pn_expired node then ''provider_node_expired''
      else ''provider_node_discovered'') ''success'' None db1 = Inr db2"
    and rest: "import_nodes E (Suc i) n p now actor nodes db2 = Inr db'"
    using Cons.prems(4) by (auto simp: guard_simps)
  have node: "listed_node p node" using Cons.prems(3) by simp
  note one = import_node_step [OF Cons.prems(1,2) node ins]
  note two = audit_inventory [OF aud]
  note inv2 = same_inventory_inv [OF two(1) one(1)]
  have same: "same_imports db db2" using same_imports_trans [OF one(3) two(2)] .
  have imp: "import_pair n p db2" using Cons.prems(2) import_pair_same [OF same] by simp
  have tl: "\<forall>node \<in> set nodes. listed_node p node" using Cons.prems(3) by simp
  note IH = Cons.IH [OF inv2(1) imp tl rest]
  have "observations_evolve db db'"
    using IH observations_evolve_trans [OF one(2) observations_evolve_trans [OF inv2(2)]] by blast
  with IH same same_imports_trans [OF same] show ?case by blast
qed

text \<open>Pairs of a network and an instance stay.\<close>

definition pairs_grow :: "discovery_db \<Rightarrow> discovery_db \<Rightarrow> bool" where
  "pairs_grow db db' \<longleftrightarrow> (\<forall>n p. import_pair n p db \<longrightarrow> import_pair n p db')"

lemma insert_import_inv:
  assumes inv: "discovery_inv E db"
    and net: "insert_network w db = Inr db1" and mem: "insert_membership n g db1 = Inr db2"
    and imp: "insert_import i db2 = Inr db3"
    and match: "dn_network_id w = ip_network_id i" "nw_provider_instance_id (dn_record w) = ip_provider_instance_id i"
  shows "discovery_inv E db3" "observations_evolve db db3"
    "import_pair (ip_network_id i) (ip_provider_instance_id i) db3" "pairs_grow db db3"
proof -
  have db3: "dc_networks db3 = dc_networks db @ [w]" "dc_imports db3 = dc_imports db @ [i]"
    "dc_observations db3 = dc_observations db" "dc_actions db3 = dc_actions db"
    and new: "list_all (\<lambda>q. dn_network_id q \<noteq> dn_network_id w) (dc_networks db)"
      "list_all (\<lambda>q. ip_network_id q \<noteq> ip_network_id i \<and> ip_provider_instance_id q \<noteq> ip_provider_instance_id i)
        (dc_imports db)"
    using net mem imp
    by (auto simp: insert_network_def insert_membership_def insert_import_def guard_simps list_all_iff)
  have at: "row_at p k db3 = row_at p k db" for p k by (simp add: row_at_def db3)
  show pair: "import_pair (ip_network_id i) (ip_provider_instance_id i) db3"
    by (simp add: import_pair_def list_ex_iff db3)
  show grow: "pairs_grow db db3" by (auto simp: pairs_grow_def import_pair_def list_ex_iff db3)
  have "imports_keyed db3"
    using inv new match by (auto simp: discovery_inv_def imports_keyed_def db3 list_all_iff list_ex_iff)
  moreover have "rows_imported db3"
    using inv grow by (auto simp: discovery_inv_def rows_imported_def pairs_grow_def list_all_iff db3)
  moreover have "adoption_inv db3 = adoption_inv db"
    by (simp add: adoption_inv_def action_backed_def pending_backed_def at db3)
  ultimately show "discovery_inv E db3" using inv by (simp add: discovery_inv_def rows_unique_def db3)
  show "observations_evolve db db3" by (rule observations_evolve_same) (rule db3(3))
qed

lemma import_tx_inv:
  assumes inv: "discovery_inv E db" and nodes: "\<forall>node \<in> set nodes. listed_node (ip_provider_instance_id row) node"
    and match: "ip_network_id row = nw_network_id network"
      "ip_provider_instance_id row = nw_provider_instance_id network"
    and tx: "import_tx E network kind row nodes now actor db = Inr (u, db')"
  shows "discovery_inv E db'" "observations_evolve db db'" "pairs_grow db db'"
proof -
  let ?n = "nw_network_id network" and ?p = "ip_provider_instance_id row"
  obtain m g db1 db2 db3 db4 db5 db6 where
    net: "insert_network (network_values network kind m g) db = Inr db1"
    and mem: "insert_membership ?n m db1 = Inr db2" and imp: "insert_import row db2 = Inr db3"
    and a4: "discovery_audit ?n actor ''network_imported'' ''success''
      (Some (nw_membership_generation network)) db3 = Inr db4"
    and a5: "discovery_audit ?n actor ''provider_reconciliation_started'' ''success'' None db4 = Inr db5"
    and loop: "import_nodes E 0 ?n ?p now actor nodes db5 = Inr db6"
    and a7: "discovery_audit ?n actor ''provider_reconciliation_completed'' ''success'' None db6 = Inr db'"
    using tx by (auto simp: import_tx_def Let_def guard_simps)
  have v: "dn_network_id (network_values network kind m g) = ip_network_id row"
    "nw_provider_instance_id (dn_record (network_values network kind m g)) = ip_provider_instance_id row"
    using match by (simp_all add: network_values_def)
  note I = insert_import_inv [OF inv net mem imp v]
  note s4 = audit_inventory [OF a4] and s5 = audit_inventory [OF a5] and s7 = audit_inventory [OF a7]
  note i4 = same_inventory_inv [OF s4(1) I(1)]
  note i5 = same_inventory_inv [OF s5(1) i4(1)]
  have p5: "import_pair n p db5 = import_pair n p db3" for n p
    using import_pair_same [OF s4(2)] import_pair_same [OF s5(2)] by simp
  have pair: "import_pair ?n ?p db5" using I(3) p5 match by simp
  note L = import_loop [OF i5(1) pair nodes loop]
  note i7 = same_inventory_inv [OF s7(1) conjunct1 [OF L]]
  show "discovery_inv E db'" by (rule i7(1))
  show "observations_evolve db db'"
    using I(2) i4(2) i5(2) L i7(2) observations_evolve_trans by blast
  have "import_pair n p db' = import_pair n p db3" for n p
    using p5 import_pair_same [of db5 db6] import_pair_same [OF s7(2)] L by simp
  then show "pairs_grow db db'" using I(4) by (simp add: pairs_grow_def)
qed

text \<open>Every import keeps the invariant, whatever it answers.\<close>

definition safe_step :: "discovery_env \<Rightarrow> discovery_db \<Rightarrow> discovery_db \<Rightarrow> bool" where
  "safe_step E db db' \<longleftrightarrow> discovery_inv E db' \<and> observations_evolve db db' \<and> pairs_grow db db'"

lemma safe_step_refl: "discovery_inv E db \<Longrightarrow> safe_step E db db"
  by (simp add: safe_step_def pairs_grow_def)

lemma import_answered_inv:
  assumes inv: "discovery_inv E db" and hashed: "hashed_provider provider"
    and match: "\<And>inspection. ip_network_id (row inspection) = nw_network_id network"
      "\<And>inspection. ip_provider_instance_id (row inspection) = nw_provider_instance_id network"
      "rc_provider_instance_id c = nw_provider_instance_id network"
  shows "safe_step E db (snd (import_answered E network c row provider now actor db))"
proof (cases "provider_snapshot c provider")
  case (Inl failure)
  then show ?thesis using safe_step_refl [OF inv] by (simp add: import_answered_def)
next
  case (Inr answer)
  obtain inspection nodes where a: "answer = (inspection, nodes)" by (cases answer)
  show ?thesis
  proof (cases "import_tx E network (rc_provider_name c) (row inspection) nodes now actor db")
    case (Inl e)
    then show ?thesis using safe_step_refl [OF inv] Inr a by (simp add: import_answered_def transactional_def)
  next
    case tx: (Inr done')
    obtain u db' where r: "done' = (u, db')" by (cases done')
    have snap: "provider_snapshot c provider = Inr (inspection, nodes)" using Inr a by simp
    have "\<forall>node \<in> set nodes. listed_node (ip_provider_instance_id (row inspection)) node"
      using provider_snapshot_Inr(2) [OF snap hashed] match(2,3) by simp
    from import_tx_inv [OF inv this match(1,2) tx [unfolded r]]
    show ?thesis using Inr a tx r by (simp add: import_answered_def transactional_def safe_step_def)
  qed
qed

lemma imports_safe:
  assumes "discovery_inv E db" "hashed_provider provider"
  shows "safe_step E db (snd (import_headscale_network E network hc provider now actor db))"
    "safe_step E db (snd (import_tailscale_network E network tc provider now actor db))"
proof -
  show "safe_step E db (snd (import_headscale_network E network hc provider now actor db))"
    unfolding import_headscale_network_def
    by (auto intro!: import_answered_inv assms safe_step_refl simp: import_values_def split: sum.split)
  show "safe_step E db (snd (import_tailscale_network E network tc provider now actor db))"
    unfolding import_tailscale_network_def
    by (auto intro!: import_answered_inv assms safe_step_refl simp: import_values_def)
qed


section \<open>Failures and reconciliations\<close>

lemma update_import_of:
  assumes "\<And>i. ip_network_id (f i) = ip_network_id i"
  shows "import_of n (update_import n f db) = map_option f (import_of n db)"
proof -
  have "find (\<lambda>i. ip_network_id i = n) (map (\<lambda>i. if ip_network_id i = n then f i else i) is) =
      map_option f (find (\<lambda>i. ip_network_id i = n) is)" for "is"
    using assms by (induction "is") auto
  then show ?thesis by (simp add: import_of_def update_import_def)
qed

text \<open>
  A recorded failure changes the last attempt and the failure in the import row of its network, and
  writes one event exactly when the kind of failure is a new one. Nothing else changes in the database.
\<close>

definition failed_import :: "DateTime \<Rightarrow> string \<Rightarrow> string \<Rightarrow> provider_import_row \<Rightarrow> provider_import_row" where
  "failed_import at kind detail i =
     i\<lparr>ip_last_attempt_at := Some at, ip_last_failure_kind := Some kind, ip_last_failure_detail := Some detail\<rparr>"

definition failure_recorded ::
    "NetworkId \<Rightarrow> DateTime \<Rightarrow> string \<Rightarrow> AuditActor \<Rightarrow> discovery_db \<Rightarrow> discovery_db \<Rightarrow> bool" where
  "failure_recorded n at kind actor db db' \<longleftrightarrow>
     (\<exists>i detail. import_of n db = Some i \<and> db' = db
        \<lparr>dc_imports := map (\<lambda>j. if ip_network_id j = n then failed_import at kind detail j else j) (dc_imports db),
         dc_events := dc_events db @ (if ip_last_failure_kind i = Some kind then []
           else [\<lparr>ea_network_id = Some n, ea_actor = actor, ea_event_kind = ''provider_reconciliation_failed'',
             ea_outcome = kind, ea_generation = None\<rparr>])\<rparr>)"

lemma failure_inventory: "failure_recorded n at kind actor db db' \<Longrightarrow> same_inventory db db'"
  by (auto simp: failure_recorded_def failed_import_def same_inventory_def)

lemma record_failure_effect:
  assumes "record_provider_failure E n at kind detail actor db = (r, db')"
  shows "r = Inr () \<Longrightarrow> failure_recorded n at kind actor db db'" "r \<noteq> Inr () \<Longrightarrow> db' = db"
proof -
  show "r \<noteq> Inr () \<Longrightarrow> db' = db"
    using assms by (auto simp: record_provider_failure_def transactional_def split: sum.splits)
  assume "r = Inr ()"
  with assms have tx: "record_failure_tx E n at kind detail actor db = Inr ((), db')"
    by (auto simp: record_provider_failure_def transactional_def split: sum.splits)
  then obtain i where i: "import_of n db = Some i" by (auto simp: record_failure_tx_def guard_simps)
  have f: "failure_values at kind detail = failed_import at kind detail"
    by (rule ext) (simp add: failure_values_def failed_import_def)
  let ?is = "map (\<lambda>j. if ip_network_id j = n then failed_import at kind detail j else j) (dc_imports db)"
  show "failure_recorded n at kind actor db db'"
  proof (cases "ip_last_failure_kind i = Some kind")
    case True
    then have "db' = db\<lparr>dc_imports := ?is\<rparr>" using tx i by (simp add: record_failure_tx_def f update_import_def)
    then show ?thesis using i True unfolding failure_recorded_def by (intro exI [of _ i] exI [of _ detail]) simp
  next
    case False
    then have "db' = db\<lparr>dc_imports := ?is, dc_events := dc_events db @
        [\<lparr>ea_network_id = Some n, ea_actor = actor, ea_event_kind = ''provider_reconciliation_failed'',
          ea_outcome = kind, ea_generation = None\<rparr>]\<rparr>"
      using tx i by (simp add: record_failure_tx_def f update_import_def discovery_audit_def event_generation_def guard_simps)
    then show ?thesis using i False unfolding failure_recorded_def by (intro exI [of _ i] exI [of _ detail]) simp
  qed
qed

lemma fail_reconciliation_cases:
  assumes "fail_reconciliation E n at failure actor db = (r, db')"
  shows "(r = Inl failure \<and> failure_recorded n at (fst (failure_texts failure)) actor db db') \<or>
     (\<exists>e. r = Inl (RFState e) \<and> db' = db)"
proof -
  obtain kind detail where t: "failure_texts failure = (kind, detail)" by (cases "failure_texts failure")
  obtain q db1 where q: "record_provider_failure E n at kind detail actor db = (q, db1)" by (cases "record_provider_failure E n at kind detail actor db")
  then have "db' = db1" and r: "r = (case q of Inl e \<Rightarrow> Inl (RFState e) | Inr _ \<Rightarrow> Inl failure)"
    using assms t by (auto simp: fail_reconciliation_def record_failure_for_def split: sum.splits)
  with record_failure_effect [OF q] t
  show "(r = Inl failure \<and> failure_recorded n at (fst (failure_texts failure)) actor db db') \<or>
     (\<exists>e. r = Inl (RFState e) \<and> db' = db)"
    by (cases q) auto
qed

text \<open>What a configured reconciliation answers, by the provider's answers.\<close>

lemma reconcile_cases:
  assumes "reconcile_configured E n c provider now actor db = (r, db')"
  obtains (failed) failure where "r = Inl failure"
      "failure_recorded n now (fst (failure_texts failure)) actor db db'"
  | (unchanged) e where "r = Inl (RFState e)" "db' = db"
  | (applied) inspection nodes u where
      "ro_instance_id provider = rc_provider_instance_id c"
      "provider_snapshot c provider = Inr (inspection, nodes)"
      "apply_snapshot_tx E n (rc_provider_instance_id c) inspection nodes now actor db = Inr (u, db')"
      "r = state_step (reconciliation_report E n db')"
proof (cases "ro_instance_id provider = rc_provider_instance_id c")
  case False
  obtain q db1 where q: "record_provider_failure E n now ''identity_conflict'' ''provider instance mismatch'' actor db = (q, db1)"
    by (cases "record_provider_failure E n now ''identity_conflict'' ''provider instance mismatch'' actor db")
  have r: "db' = db1" "r = (case q of Inl e \<Rightarrow> Inl (RFState e) | Inr _ \<Rightarrow> Inl RFIdentityConflict)"
    using assms False q by (auto simp: reconcile_configured_def split: sum.splits)
  show thesis
  proof (cases q)
    case (Inl e)
    then show thesis using unchanged record_failure_effect(2) [OF q] r by simp
  next
    case (Inr u)
    then show thesis using failed [of RFIdentityConflict] record_failure_effect(1) [OF q] r by simp
  qed
next
  case same: True
  show thesis
  proof (cases "provider_snapshot c provider")
    case (Inl failure)
    then have "fail_reconciliation E n now failure actor db = (r, db')" using assms same by (simp add: reconcile_configured_def)
    from fail_reconciliation_cases [OF this] show thesis using failed unchanged by blast
  next
    case (Inr answer)
    obtain inspection nodes where a: "answer = (inspection, nodes)" by (cases answer)
    show thesis
    proof (cases "apply_snapshot_tx E n (rc_provider_instance_id c) inspection nodes now actor db")
      case (Inl e)
      then have "r = Inl (RFState e)" "db' = db"
        using assms same Inr a by (simp_all add: reconcile_configured_def transactional_def)
      then show thesis by (rule unchanged)
    next
      case tx: (Inr res)
      obtain u db1 where "res = (u, db1)" by (cases res)
      then show thesis using applied assms same Inr a tx
        by (auto simp: reconcile_configured_def transactional_def)
    qed
  qed
qed

lemma update_import_pairs:
  assumes "map (\<lambda>i. (ip_network_id i, ip_provider_instance_id i)) (dc_imports db') =
    map (\<lambda>i. (ip_network_id i, ip_provider_instance_id i)) (dc_imports db)"
  shows "pairs_grow db db'"
proof -
  have "import_pair n p db = ((n, p) \<in> set (map (\<lambda>i. (ip_network_id i, ip_provider_instance_id i)) (dc_imports db)))"
    for n p db by (auto simp: import_pair_def list_ex_iff)
  then show ?thesis unfolding pairs_grow_def using assms by metis
qed

lemma reconcile_safe:
  assumes inv: "discovery_inv E db" and imp: "import_pair n (rc_provider_instance_id c) db"
    and hashed: "hashed_provider provider"
  shows "safe_step E db (snd (reconcile_configured E n c provider now actor db))"
proof -
  obtain r db' where r: "reconcile_configured E n c provider now actor db = (r, db')"
    by (cases "reconcile_configured E n c provider now actor db")
  from r show ?thesis
  proof (cases rule: reconcile_cases)
    case (failed failure)
    note same = failure_inventory [OF failed(2)]
    then show ?thesis using r same_inventory_inv [OF same inv] same_inventory_import_pair [OF same]
      by (simp add: safe_step_def pairs_grow_def)
  next
    case (unchanged e)
    then show ?thesis using r safe_step_refl [OF inv] by simp
  next
    case (applied inspection nodes u)
    note S = snapshot_effect [OF inv imp provider_snapshot_Inr(1,2) [OF applied(2) hashed] applied(3)]
    have "pairs_grow db db'" by (rule update_import_pairs) (simp add: S(6) success_values_def comp_def if_distrib cong: if_cong)
    with S(1,2) r show ?thesis by (simp add: safe_step_def)
  qed
qed


section \<open>Runs\<close>

text \<open>
  What other connections write meanwhile: the adoption code sets the device and the adoption state
  of rows, keeping actions and pending rows in step; networks may be created and updated; events
  are appended.
\<close>

definition foreign_row :: "observation_row \<Rightarrow> observation_row \<Rightarrow> bool" where
  "foreign_row r r' \<longleftrightarrow>
     is_ok (parse_adoption_state (ob_adoption_state r')) \<and>
     r' = r\<lparr>ob_device_id := ob_device_id r', ob_adoption_state := ob_adoption_state r'\<rparr>"

definition network_key :: "discovery_network_row \<Rightarrow> NetworkId \<times> ProviderInstanceId" where
  "network_key w = (dn_network_id w, nw_provider_instance_id (dn_record w))"

definition foreign_write :: "discovery_db \<Rightarrow> discovery_db \<Rightarrow> bool" where
  "foreign_write db db' \<longleftrightarrow>
     dc_imports db' = dc_imports db \<and> distinct (map dn_network_id (dc_networks db')) \<and>
     (\<exists>new. map network_key (dc_networks db') = map network_key (dc_networks db) @ new) \<and>
     list_all2 foreign_row (dc_observations db) (dc_observations db') \<and> adoption_inv db'"

text \<open>The identifiers a call draws are its own; the codecs are those of the program.\<close>

definition drawing :: "discovery_env \<Rightarrow> (nat \<Rightarrow> string) \<times> (nat \<Rightarrow> string) \<Rightarrow> discovery_env" where
  "drawing E ids = E\<lparr>dx_observation_id := fst ids, dx_decision_id := snd ids\<rparr>"

type_synonym discovery_state = "discovery_db \<times> (NetworkId \<times> ReconciliationImportConfig) list"

inductive discovery_step :: "discovery_env \<Rightarrow> discovery_state \<Rightarrow> discovery_state \<Rightarrow> bool" for E where
  started: "reconciliation_import_config E n db = Inr c \<Longrightarrow>
     discovery_step E (db, waiting) (db, (n, c) # waiting)"
| finished: "(n, c) \<in> set waiting \<Longrightarrow> hashed_provider provider \<Longrightarrow>
     db' = snd (reconcile_configured (drawing E ids) n c provider now actor db) \<Longrightarrow>
     discovery_step E (db, waiting) (db', remove1 (n, c) waiting)"
| imported_headscale: "hashed_provider provider \<Longrightarrow>
     db' = snd (import_headscale_network (drawing E ids) network hc provider now actor db) \<Longrightarrow>
     discovery_step E (db, waiting) (db', waiting)"
| imported_tailscale: "hashed_provider provider \<Longrightarrow>
     db' = snd (import_tailscale_network (drawing E ids) network tc provider now actor db) \<Longrightarrow>
     discovery_step E (db, waiting) (db', waiting)"
| elsewhere: "foreign_write db db' \<Longrightarrow> discovery_step E (db, waiting) (db', waiting)"

definition empty_discovery_db :: discovery_db where
  "empty_discovery_db = \<lparr>dc_networks = [], dc_memberships = [], dc_imports = [], dc_observations = [],
     dc_actions = [], dc_proofs = [], dc_decisions = [], dc_events = [], dc_fail_before_audit = False\<rparr>"

definition discovery_run :: "discovery_env \<Rightarrow> discovery_state \<Rightarrow> bool" where
  "discovery_run E s \<longleftrightarrow> (discovery_step E)\<^sup>*\<^sup>* (empty_discovery_db, []) s"

lemma drawing_inv: "discovery_inv (drawing E ids) db = discovery_inv E db"
proof -
  have "semantic_fingerprint (drawing E ids) node = semantic_fingerprint E node" for node
    by (simp add: semantic_fingerprint_def drawing_def)
  then have "row_ok (drawing E ids) = row_ok E" by (simp add: row_ok_def fun_eq_iff)
  then show ?thesis by (simp add: discovery_inv_def)
qed

definition run_inv :: "discovery_env \<Rightarrow> discovery_state \<Rightarrow> bool" where
  "run_inv E s \<longleftrightarrow> discovery_inv E (fst s) \<and>
     (\<forall>(n, c) \<in> set (snd s). import_pair n (rc_provider_instance_id c) (fst s))"

lemma foreign_row_facts:
  assumes "foreign_row r r'"
  shows "observation_evolves r r'" "row_ok E r \<Longrightarrow> row_ok E r'"
    "(ob_provider_instance_id r', ob_provider_node_id r', ob_network_id r') =
     (ob_provider_instance_id r, ob_provider_node_id r, ob_network_id r)"
proof -
  obtain d a where r': "r' = r\<lparr>ob_device_id := d, ob_adoption_state := a\<rparr>" "is_ok (parse_adoption_state a)"
    using assms unfolding foreign_row_def by metis
  show "observation_evolves r r'"
    "(ob_provider_instance_id r', ob_provider_node_id r', ob_network_id r') =
     (ob_provider_instance_id r, ob_provider_node_id r, ob_network_id r)"
    by (simp_all add: r'(1) observation_evolves_def)
  show "row_ok E r \<Longrightarrow> row_ok E r'"
    using r'(2) by (auto simp: r'(1) row_ok_def generation_check_def decode_observation_def is_ok_iff guard_simps)
qed

lemma foreign_map:
  assumes "list_all2 foreign_row rs rs'" "\<And>r r'. foreign_row r r' \<Longrightarrow> f r' = f r"
  shows "map f rs' = map f rs"
  using assms(1) by (induction rule: list_all2_induct) (simp_all add: assms(2))

lemma foreign_all:
  assumes "list_all2 foreign_row rs rs'" "list_all P rs" "\<And>r r'. foreign_row r r' \<Longrightarrow> P r \<Longrightarrow> P r'"
  shows "list_all P rs'"
  using assms(1,2) by (induction rule: list_all2_induct) (simp_all add: assms(3))

lemma foreign_safe:
  assumes inv: "discovery_inv E db" and w: "foreign_write db db'"
  shows "safe_step E db db'"
proof -
  have imps: "dc_imports db' = dc_imports db" and rows: "list_all2 foreign_row (dc_observations db) (dc_observations db')"
    and ad: "adoption_inv db'" and dist: "distinct (map dn_network_id (dc_networks db'))"
    using w by (simp_all add: foreign_write_def)
  obtain new where keys: "map network_key (dc_networks db') = map network_key (dc_networks db) @ new"
    using w by (auto simp: foreign_write_def)
  have pair: "import_pair n p db' = import_pair n p db" for n p by (simp add: import_pair_def imps)
  have named: "list_ex (\<lambda>w. dn_network_id w = n \<and> nw_provider_instance_id (dn_record w) = p) (dc_networks db)
      \<longleftrightarrow> (n, p) \<in> set (map network_key (dc_networks db))" for n p db
    by (auto simp: list_ex_iff network_key_def)
  have "imports_keyed db'"
    using inv dist unfolding discovery_inv_def imports_keyed_def imps named keys set_append by (auto simp: list_all_iff)
  moreover have "rows_unique db'"
    using inv foreign_map [OF rows, of "\<lambda>r. (ob_provider_instance_id r, ob_provider_node_id r)"] foreign_row_facts(3)
    by (simp add: discovery_inv_def rows_unique_def)
  moreover have "rows_imported db'"
    unfolding rows_imported_def pair
    by (rule foreign_all [OF rows]) (use inv in \<open>auto simp: discovery_inv_def rows_imported_def dest: foreign_row_facts(3)\<close>)
  moreover have "list_all (row_ok E) (dc_observations db')"
    by (rule foreign_all [OF rows _ foreign_row_facts(2)]) (use inv in \<open>simp_all add: discovery_inv_def\<close>)
  moreover have "observations_evolve db db'"
    unfolding observations_evolve_def
    by (intro exI [of _ "dc_observations db'"] exI [of _ "[]"])
      (use list_all2_mono [OF rows foreign_row_facts(1)] in simp)
  ultimately show ?thesis using ad pair by (simp add: safe_step_def discovery_inv_def pairs_grow_def)
qed

lemma import_config_pair:
  assumes "reconciliation_import_config E n db = Inr c"
  shows "import_pair n (rc_provider_instance_id c) db"
proof -
  obtain i where "import_of n db = Some i" "rc_provider_instance_id c = ip_provider_instance_id i"
    using assms by (auto simp: reconciliation_import_config_def guard_simps)
  then show ?thesis by (auto simp: import_of_def find_Some_iff import_pair_def list_ex_iff)
qed

lemma discovery_step_safe:
  assumes "discovery_step E s s'" "run_inv E s"
  shows "run_inv E s' \<and> observations_evolve (fst s) (fst s') \<and> pairs_grow (fst s) (fst s')"
proof -
  have keep: "run_inv E (db', w')" if "run_inv E (db, w)" "safe_step E db db'" "set w' \<subseteq> set w" for db db' w w'
    using that by (force simp: run_inv_def safe_step_def pairs_grow_def)
  have draw: "safe_step (drawing E ids) db db' = safe_step E db db'" for ids db db'
    by (simp add: safe_step_def drawing_inv)
  from assms show ?thesis
  proof (cases rule: discovery_step.cases)
    case (started n db c waiting)
    then show ?thesis using assms(2) import_config_pair [OF started(3)]
      by (auto simp: run_inv_def pairs_grow_def)
  next
    case (finished n c waiting provider db' ids now actor db)
    have "discovery_inv (drawing E ids) db" "import_pair n (rc_provider_instance_id c) db"
      using assms(2) finished by (auto simp: run_inv_def drawing_inv)
    from reconcile_safe [OF this finished(4)] have "safe_step E db db'" using finished(5) draw by simp
    then show ?thesis using keep [of db waiting db' "remove1 (n, c) waiting"] assms(2) finished
      by (simp add: safe_step_def set_remove1_subset)
  next
    case (imported_headscale provider db' ids network hc now actor db waiting)
    have "discovery_inv (drawing E ids) db" using assms(2) imported_headscale by (simp add: run_inv_def drawing_inv)
    from imports_safe(1) [OF this imported_headscale(3)] have "safe_step E db db'" using imported_headscale(4) draw by simp
    then show ?thesis using keep [of db waiting db' waiting] assms(2) imported_headscale by (simp add: safe_step_def)
  next
    case (imported_tailscale provider db' ids network tc now actor db waiting)
    have "discovery_inv (drawing E ids) db" using assms(2) imported_tailscale by (simp add: run_inv_def drawing_inv)
    from imports_safe(2) [OF this imported_tailscale(3)] have "safe_step E db db'" using imported_tailscale(4) draw by simp
    then show ?thesis using keep [of db waiting db' waiting] assms(2) imported_tailscale by (simp add: safe_step_def)
  next
    case (elsewhere db db' waiting)
    then have "safe_step E db db'" using foreign_safe assms(2) by (simp add: run_inv_def)
    then show ?thesis using keep [of db waiting db' waiting] assms(2) elsewhere by (simp add: safe_step_def)
  qed
qed

lemma discovery_steps_safe:
  assumes "(discovery_step E)\<^sup>*\<^sup>* s s'" "run_inv E s"
  shows "run_inv E s' \<and> observations_evolve (fst s) (fst s') \<and> pairs_grow (fst s) (fst s')"
  using assms
proof (induction rule: rtranclp_induct)
  case base
  then show ?case by (simp add: pairs_grow_def)
next
  case (step y z)
  then have y: "run_inv E y \<and> observations_evolve (fst s) (fst y) \<and> pairs_grow (fst s) (fst y)" by blast
  from discovery_step_safe [OF step(2)] y show ?case
    using observations_evolve_trans by (auto simp: pairs_grow_def)
qed

lemma empty_run_inv: "run_inv E (empty_discovery_db, [])"
  by (simp add: run_inv_def discovery_inv_def imports_keyed_def rows_unique_def rows_imported_def
      adoption_inv_def empty_discovery_db_def)

lemma discovery_run_inv: "discovery_run E s \<Longrightarrow> run_inv E s"
  unfolding discovery_run_def using discovery_steps_safe empty_run_inv by blast


section \<open>Adoptions that a reconciliation ends\<close>

definition action_ended :: "adoption_action_row \<Rightarrow> adoption_action_row \<Rightarrow> bool" where
  "action_ended a a' \<longleftrightarrow> a' = a \<or>
     (is_open a \<and> \<not> is_open a' \<and> aa_action_id a' = aa_action_id a)"

definition actions_end :: "discovery_db \<Rightarrow> discovery_db \<Rightarrow> bool" where
  "actions_end db db' \<longleftrightarrow> list_all2 action_ended (dc_actions db) (dc_actions db')"

lemma actions_end_same: "dc_actions db' = dc_actions db \<Longrightarrow> actions_end db db'"
  by (simp add: actions_end_def action_ended_def list_all2_refl)

lemma action_ended_trans: "action_ended x y \<Longrightarrow> action_ended y z \<Longrightarrow> action_ended x z"
  by (auto simp: action_ended_def)

lemma actions_end_trans: "actions_end a b \<Longrightarrow> actions_end b c \<Longrightarrow> actions_end a c"
  unfolding actions_end_def by (rule list_all2_trans [OF action_ended_trans])

lemma terminalize_actions:
  assumes "terminalize_pending_adoption E i n k g reason now actor db = Inr db'"
  shows "actions_end db db'"
proof (cases "pending_action n k db")
  case None
  with assms have "db' = db" by (simp add: terminalize_pending_adoption_def)
  then show ?thesis by (simp add: actions_end_same)
next
  case (Some a)
  obtain d where "d = conflict_decision E i n a g reason now" "dc_actions db' = map (end_action d) (dc_actions db)"
    by (rule terminalize_effect [OF assms Some])
  then have "action_ended b (end_action d b)" for b
    by (auto simp: action_ended_def end_action_def open_action_def is_open_def)
  with \<open>dc_actions db' = map (end_action d) (dc_actions db)\<close> show ?thesis
    by (simp add: actions_end_def list_all2_map2 list.rel_refl_strong)
qed

lemma upsert_actions: "upsert_observation q db = Inr db' \<Longrightarrow> dc_actions db' = dc_actions db"
  by (auto simp: upsert_observation_def update_observations_Inr insert_observation_Inr split: if_splits)

text \<open>Any step relation that statements on observations and ends of adoptions respect.\<close>

lemma reconcile_node_actions:
  assumes "reconcile_node E i n p now actor existing node (changes, db) = Inr (changes', db')"
  shows "actions_end db db'"
proof -
  define old where "old = map_of existing (node_key node)"
  obtain x db1 where ups: "upsert_observation (node_row E i n p old node x now) db = Inr db1"
    and rest: "(case old of None \<Rightarrow> Inr db1 | Some o' \<Rightarrow>
        if no_changed x \<and> pending_adoption o'
        then terminalize_pending_adoption E i n (po_canonical_provider_node_id o')
          (po_semantic_generation o' + 1) (conflict_reason_of (no_classification x)) now actor db1
        else Inr db1) = Inr db'"
    using assms unfolding old_def by (auto simp: reconcile_node_def Let_def guard_simps)
  have "actions_end db db1" using upsert_actions [OF ups] by (rule actions_end_same)
  moreover have "actions_end db1 db'"
    using rest terminalize_actions by (auto simp: actions_end_same split: option.splits if_splits)
  ultimately show ?thesis by (rule actions_end_trans)
qed

lemma nodes_actions:
  "reconcile_nodes E i n p now actor existing nodes (changes, db) = Inr (changes', db') \<Longrightarrow> actions_end db db'"
proof (induction nodes arbitrary: i changes db)
  case Nil
  then show ?case by (simp add: actions_end_same)
next
  case (Cons node nodes)
  then obtain c1 db1 where "reconcile_node E i n p now actor existing node (changes, db) = Inr (c1, db1)"
    "reconcile_nodes E (Suc i) n p now actor existing nodes (c1, db1) = Inr (changes', db')"
    by (auto simp: guard_simps)
  with Cons.IH reconcile_node_actions actions_end_trans show ?case by blast
qed

lemma missing_actions:
  "mark_all_missing E i n p now actor incoming entries (changes, db) = Inr (changes', db') \<Longrightarrow> actions_end db db'"
proof (induction entries arbitrary: i changes db)
  case Nil
  then show ?case by (simp add: actions_end_same)
next
  case (Cons entry entries)
  obtain k x where entry: "entry = (k, x)" by (cases entry)
  with Cons.prems obtain c1 db1 where step: "mark_missing E i n p now actor incoming k x (changes, db) = Inr (c1, db1)"
    and rest: "mark_all_missing E (Suc i) n p now actor incoming entries (c1, db1) = Inr (changes', db')"
    by (auto simp: guard_simps)
  have "actions_end db db1"
  proof (cases "k \<notin> set incoming \<and> po_classification x \<noteq> OCProviderMissing")
    case True
    then obtain db2 where "update_observations (observation_at p k) (missing_update now) db = Inr db2"
      and ending: "(if pending_adoption x then terminalize_pending_adoption E i n k (po_semantic_generation x + 1)
        ''provider_missing'' now actor db2 else Inr db2) = Inr db1"
      using step by (auto simp: mark_missing_def guard_simps)
    then have "actions_end db db2" by (auto simp: update_observations_Inr actions_end_same)
    moreover have "actions_end db2 db1"
      using ending terminalize_actions by (auto simp: actions_end_same split: if_splits)
    ultimately show ?thesis by (rule actions_end_trans)
  next
    case False
    then have "db1 = db" using step by (auto simp: mark_missing_def split: if_splits)
    then show ?thesis by (simp add: actions_end_same)
  qed
  then show ?case using Cons.IH [OF rest] by (rule actions_end_trans)
qed

lemma snapshot_actions:
  assumes "apply_snapshot_tx E n p inspection nodes now actor db = Inr (u, db')"
  shows "actions_end db db'"
proof -
  obtain existing changes1 db1 changes db2 db3 where
    l1: "reconcile_nodes E 0 n p now actor existing nodes ([], db) = Inr (changes1, db1)"
    and l2: "mark_all_missing E (length nodes) n p now actor (map node_key nodes) existing (changes1, db1) = Inr (changes, db2)"
    and aud: "change_audits n actor changes db2 = Inr db3"
    and upd: "db' = update_import n (success_values inspection now) db3"
    using assms by (auto simp: apply_snapshot_tx_def guard_simps)
  have "dc_actions db' = dc_actions db2"
    using aud discovery_audits_Inr [of n actor _ db2 db3] unfolding upd change_audits_def
    by (force simp: update_import_def split: if_splits)
  then show ?thesis
    using nodes_actions [OF l1] missing_actions [OF l2] actions_end_same actions_end_trans by blast
qed

lemma snapshot_row:
  assumes "snapshot_applied n p nodes now db db'" "row_at p k db = Some r"
  obtains r' where "row_at p k db' = Some r'"
    "ob_semantic_generation r' \<noteq> ob_semantic_generation r \<longleftrightarrow> k \<in> moved_keys p db db'"
    "ob_semantic_generation r' = ob_semantic_generation r \<Longrightarrow> ob_adoption_state r' = ob_adoption_state r"
proof (cases "k \<in> set (map node_key nodes)")
  case True
  then obtain node where "node \<in> set nodes" "k = node_key node" by auto
  then obtain r' where r': "row_at p k db' = Some r'" "node_applied now node (Some r) r'"
    using assms by (fastforce simp: snapshot_applied_def)
  show thesis by (rule that [OF r'(1)]) (use r' assms(2) in \<open>auto simp: node_applied_def moved_keys_def row_moved_def\<close>)
next
  case False
  then obtain r' where r': "row_at p k db' = Some r'" "missing_applied now r r'"
    using assms False unfolding snapshot_applied_def by blast
  show thesis
    by (rule that [OF r'(1)])
      (use r' assms(2) in \<open>auto simp: missing_applied_def missing_update_def moved_keys_def row_moved_def split: if_splits\<close>)
qed

lemma reconciliation_ends_moved:
  assumes inv: "discovery_inv E db" "discovery_inv E db'" and ends: "actions_end db db'"
    and snap: "snapshot_applied n p nodes now db db'"
    and a: "a \<in> set (dc_actions db)" "is_open a" "aa_provider_instance_id a = p"
  shows "(\<exists>a' \<in> set (dc_actions db'). aa_action_id a' = aa_action_id a \<and> is_open a') \<longleftrightarrow>
    aa_provider_node_id a \<notin> moved_keys p db db'"
proof -
  have ad: "adoption_inv db" "adoption_inv db'" using inv by (simp_all add: discovery_inv_def)
  have backed: "action_backed db a" using ad(1) a by (simp add: adoption_inv_def list_all_iff)
  then obtain r where r: "row_at p (aa_provider_node_id a) db = Some r" "ob_adoption_state r = pending_text"
    "ob_semantic_generation r = aa_expected_observation_generation a"
    using a(3) by (auto simp: action_backed_def split: option.splits)
  obtain r' where r': "row_at p (aa_provider_node_id a) db' = Some r'"
    "ob_semantic_generation r' \<noteq> ob_semantic_generation r \<longleftrightarrow> aa_provider_node_id a \<in> moved_keys p db db'"
    "ob_semantic_generation r' = ob_semantic_generation r \<Longrightarrow> ob_adoption_state r' = ob_adoption_state r"
    by (rule snapshot_row [OF snap r(1)]) blast
  have still: "b \<in> set (dc_actions db)" if h: "b \<in> set (dc_actions db')" "is_open b" for b
  proof -
    obtain j where j: "j < length (dc_actions db')" "dc_actions db' ! j = b"
      using h(1) unfolding in_set_conv_nth by blast
    from j have "action_ended (dc_actions db ! j) b" "j < length (dc_actions db)"
      using ends by (auto simp: actions_end_def list_all2_conv_all_nth)
    with h(2) show ?thesis by (auto simp: action_ended_def)
  qed
  show ?thesis
  proof
    assume "\<exists>a' \<in> set (dc_actions db'). aa_action_id a' = aa_action_id a \<and> is_open a'"
    then obtain a' where a': "a' \<in> set (dc_actions db')" "aa_action_id a' = aa_action_id a" "is_open a'" by blast
    have "a' = a" using still [OF a'(1,3)] a(1) a'(2) ad(1) by (auto simp: adoption_inv_def distinct_map dest: inj_onD)
    then have "action_backed db' a" using ad(2) a' by (simp add: adoption_inv_def list_all_iff)
    then show "aa_provider_node_id a \<notin> moved_keys p db db'"
      using r' r(3) a(3) by (simp add: action_backed_def)
  next
    assume "aa_provider_node_id a \<notin> moved_keys p db db'"
    then have pend: "ob_adoption_state r' = pending_text" using r' r(2) by simp
    have u: "rows_unique db'" using inv(2) by (simp add: discovery_inv_def)
    have rm: "r' \<in> set (dc_observations db')" "ob_provider_instance_id r' = p" "ob_provider_node_id r' = aa_provider_node_id a"
      using r'(1) by (auto simp: row_at_Some [OF u] observation_at_def)
    have "pending_backed db' r'" using ad(2) pend rm(1) by (simp add: adoption_inv_def list_all_iff)
    then obtain b where b: "b \<in> set (dc_actions db')" "is_open b" "aa_provider_instance_id b = p"
      "aa_provider_node_id b = aa_provider_node_id a"
      using rm by (auto simp: pending_backed_def list_ex_iff)
    have "distinct (map (\<lambda>a. (aa_provider_instance_id a, aa_provider_node_id a)) (filter is_open (dc_actions db)))"
      using ad(1) by (simp add: adoption_inv_def)
    then have "b = a" using still [OF b(1,2)] b a unfolding distinct_map inj_on_def by auto
    with b show "\<exists>a' \<in> set (dc_actions db'). aa_action_id a' = aa_action_id a \<and> is_open a'" by blast
  qed
qed


section \<open>Pages\<close>

lemma consistent_row:
  assumes "row_ok E r" "decode_observation r = Inr x" "ob_provider_instance_id r = nw_provider_instance_id w"
  shows "consistent_observation E w x = Inr True"
  using assms decode_fields [OF assms(2)] decode_key [OF assms(2)]
  by (simp add: consistent_observation_def row_ok_def valid_sha256_fingerprint_def)

lemma check_page_ok:
  assumes "\<forall>x \<in> set xs. consistent_observation E w x = Inr True"
  shows "check_page E w xs = Inr xs"
  using assms by (induction xs) simp_all

lemma decode_all:
  assumes "\<forall>r \<in> set rs. is_ok (decode_observation r)"
  shows "\<exists>xs. decode_each rs = Inr xs"
  using assms by (induction rs) (auto simp: is_ok_iff)

lemma network_of_import:
  assumes keyed: "imports_keyed db" and i: "import_of n db = Some i"
  obtains w where "network_row_of n db = Some w" "nw_provider_instance_id (dn_record w) = ip_provider_instance_id i"
proof -
  have im: "i \<in> set (dc_imports db)" "ip_network_id i = n" using i by (auto simp: import_of_def find_Some_iff)
  then obtain w where w: "w \<in> set (dc_networks db)" "dn_network_id w = n"
    "nw_provider_instance_id (dn_record w) = ip_provider_instance_id i"
    using keyed by (auto simp: imports_keyed_def list_all_iff list_ex_iff)
  obtain v where v: "network_row_of n db = Some v"
    using w(1,2) by (cases "network_row_of n db") (auto simp: network_row_of_def find_None_iff)
  then have vm: "v \<in> set (dc_networks db)" "dn_network_id v = n" by (auto simp: network_row_of_def find_Some_iff)
  have "inj_on dn_network_id (set (dc_networks db))" using keyed by (simp add: imports_keyed_def distinct_map)
  then have "v = w" using vm w(1,2) by (auto dest: inj_onD)
  with v w(3) that show thesis by simp
qed

definition page_keys :: "NetworkId \<Rightarrow> string option \<Rightarrow> discovery_db \<Rightarrow> string list" where
  "page_keys n after db =
     filter (\<lambda>k. case after of None \<Rightarrow> True | Some c \<Rightarrow> c < k) (map ob_provider_node_id (network_rows n db))"

lemma page_reads:
  assumes inv: "discovery_inv E db" and i: "import_of n db = Some i"
  obtains xs where "provider_observation_page E n after limit db = Inr xs"
    "map po_canonical_provider_node_id xs = take (min limit PROVIDER_OBSERVATION_PAGE_MAX) (page_keys n after db)"
    "\<forall>x \<in> set xs. \<exists>r \<in> set (dc_observations db). ob_network_id r = n \<and> decode_observation r = Inr x"
proof (cases "min limit PROVIDER_OBSERVATION_PAGE_MAX = 0")
  case True
  then show thesis by (intro that [of "[]"]) (simp_all add: provider_observation_page_def)
next
  case False
  have keyed: "imports_keyed db" using inv by (simp add: discovery_inv_def)
  obtain w where w: "network_row_of n db = Some w" "nw_provider_instance_id (dn_record w) = ip_provider_instance_id i"
    by (rule network_of_import [OF keyed i])
  have pair: "import_pair n (ip_provider_instance_id i) db"
    using i by (auto simp: import_of_def find_Some_iff import_pair_def list_ex_iff)
  note single = imports_single_instance [OF inv pair]
  define rs where "rs = take (min limit PROVIDER_OBSERVATION_PAGE_MAX) (filter
      (\<lambda>r. case after of None \<Rightarrow> True | Some k \<Rightarrow> k < ob_provider_node_id r) (network_rows n db))"
  have mem: "r \<in> set (dc_observations db) \<and> ob_network_id r = n" if "r \<in> set rs" for r
    using that set_take_subset unfolding rs_def by (fastforce simp: network_rows_facts)
  have ok: "row_ok E r" if "r \<in> set rs" for r using mem [OF that] inv by (simp add: discovery_inv_def list_all_iff)
  obtain xs where xs: "decode_each rs = Inr xs" using decode_all [of rs] ok by (auto simp: row_ok_def)
  note dec = xs [unfolded decode_each_Inr]
  have source: "\<exists>r \<in> set rs. decode_observation r = Inr x" if "x \<in> set xs" for x
    using decoded_members [OF dec] that by simp
  have "consistent_observation E (dn_record w) x = Inr True" if x: "x \<in> set xs" for x
  proof -
    obtain r where r: "r \<in> set rs" "decode_observation r = Inr x" using source [OF x] by blast
    have "ob_provider_instance_id r = nw_provider_instance_id (dn_record w)"
      using mem [OF r(1)] single w(2) by (auto simp: single_instance_def list_all_iff)
    then show ?thesis using consistent_row ok r by blast
  qed
  then have "check_page E (dn_record w) xs = Inr xs" by (intro check_page_ok) blast
  then have "provider_observation_page E n after limit db = Inr xs"
    using w(1) xs unfolding provider_observation_page_def Let_def if_not_P [OF False]
    by (simp add: load_observation_page_def rs_def)
  moreover have "map po_canonical_provider_node_id xs = map ob_provider_node_id rs"
    using dec by (induction rule: list_all2_induct) (auto dest: decode_key)
  then have "map po_canonical_provider_node_id xs = take (min limit PROVIDER_OBSERVATION_PAGE_MAX) (page_keys n after db)"
    by (simp add: rs_def page_keys_def filter_map take_map comp_def)
  moreover have "\<forall>x \<in> set xs. \<exists>r \<in> set (dc_observations db). ob_network_id r = n \<and> decode_observation r = Inr x"
    using source mem by blast
  ultimately show thesis by (rule that)
qed

lemma page_keys_sorted:
  assumes "discovery_inv E db" "import_pair n p db"
  shows "sorted_wrt (<) (page_keys n after db)"
proof -
  have "rows_unique db" using assms(1) by (simp add: discovery_inv_def)
  from network_rows_distinct [OF this imports_single_instance [OF assms]]
  have "sorted_wrt (<) (map ob_provider_node_id (network_rows n db))"
    using network_rows_facts(2) by (simp add: strict_sorted_iff)
  then show ?thesis unfolding page_keys_def by (rule sorted_wrt_filter)
qed

section \<open>Successful and repeated reconciliations\<close>

lemma report_of_success:
  assumes "import_of n db = Some i" "ip_compatibility i = compatibility_name c"
  shows "\<exists>report. reconciliation_report E n db = Inr report"
  using assms parse_compatibility_Inr [of "compatibility_name c" c]
  by (simp add: reconciliation_report_def Let_def)

lemma snapshot_import_of:
  assumes imps: "dc_imports db' = map (\<lambda>i. if ip_network_id i = n then success_values inspection now i else i) (dc_imports db)"
    and pair: "import_pair n p db"
  obtains i i' where "import_of n db = Some i" "import_of n db' = Some i'" "i' = success_values inspection now i"
proof -
  obtain i where i: "import_of n db = Some i"
    using pair by (cases "import_of n db") (auto simp: import_of_def import_pair_def list_ex_iff find_None_iff)
  have "import_of n db' = import_of n (update_import n (success_values inspection now) db)"
    by (simp add: import_of_def update_import_def imps)
  also have "\<dots> = map_option (success_values inspection now) (import_of n db)"
    by (rule update_import_of) (simp add: success_values_def)
  finally show thesis using i that by simp
qed

text \<open>A reconciliation that answers an error has committed nothing but the record of the failure.\<close>

lemma reconcile_outcome:
  assumes inv: "discovery_inv E db" and pair: "import_pair n (rc_provider_instance_id c) db"
    and hashed: "hashed_provider provider"
    and run: "reconcile_configured E n c provider now actor db = (r, db')"
  shows "(\<exists>failure. r = Inl failure \<and> ((\<exists>e. failure = RFState e \<and> db' = db) \<or>
       failure_recorded n now (fst (failure_texts failure)) actor db db')) \<or>
    (\<exists>report inspection listed u. r = Inr report \<and> ro_inspect_server provider = Inr inspection \<and>
       ro_list_nodes provider = Inr listed \<and> distinct (map node_key (sort_nodes listed)) \<and>
       (\<forall>node \<in> set (sort_nodes listed). listed_node (rc_provider_instance_id c) node) \<and>
       apply_snapshot_tx E n (rc_provider_instance_id c) inspection (sort_nodes listed) now actor db = Inr (u, db'))"
  using run
proof (cases rule: reconcile_cases)
  case (failed failure)
  then show ?thesis by blast
next
  case (unchanged e)
  then show ?thesis by blast
next
  case (applied inspection nodes u)
  note L = provider_snapshot_Inr [OF applied(2) hashed]
  obtain listed where listed: "ro_list_nodes provider = Inr listed" "nodes = sort_nodes listed" using L(3) by blast
  have ins: "ro_inspect_server provider = Inr inspection"
    using applied(2) by (auto simp: provider_snapshot_def guard_simps provider_answer_def)
  note S = snapshot_effect [OF inv pair L(1,2) applied(3)]
  obtain i i' where i: "import_of n db = Some i" "import_of n db' = Some i'" "i' = success_values inspection now i"
    by (rule snapshot_import_of [OF S(6) pair])
  then have "ip_compatibility i' = compatibility_name (sp_compatibility inspection)" by (simp add: success_values_def)
  then obtain report where "reconciliation_report E n db' = Inr report" using report_of_success [OF i(2)] by blast
  then have "r = Inr report" using applied(4) by (simp add: state_step_def)
  with ins listed L(1,2) applied(3) show ?thesis by blast
qed

lemma waiting_facts:
  assumes "discovery_run E (db, waiting)" "(n, c) \<in> set waiting"
  shows "discovery_inv (drawing E ids) db" "import_pair n (rc_provider_instance_id c) db"
  using discovery_run_inv [OF assms(1)] assms(2) by (auto simp: run_inv_def drawing_inv)

lemma stable_facts:
  assumes "stable_node m = stable_node node"
  shows "node_key m = node_key node" "pn_identity m = pn_identity node"
    "pn_identity_evidence m = pn_identity_evidence node" "pn_expired m = pn_expired node"
    "semantic_fingerprint E m = semantic_fingerprint E node"
proof -
  have "pn_identity (stable_node m) = pn_identity (stable_node node)"
    "pn_identity_evidence (stable_node m) = pn_identity_evidence (stable_node node)"
    "pn_expired (stable_node m) = pn_expired (stable_node node)" by (simp_all only: assms)
  then show "pn_identity m = pn_identity node" "pn_identity_evidence m = pn_identity_evidence node"
    "pn_expired m = pn_expired node" by (simp_all add: stable_node_def)
  then show "node_key m = node_key node" by (simp add: node_key_def)
  show "semantic_fingerprint E m = semantic_fingerprint E node" by (simp only: semantic_fingerprint_def assms)
qed

lemma next_classification_settled [simp]:
  "next_classification (next_classification c node) node = next_classification c node"
  "next_classification (first_classification node) node = first_classification node"
  by (cases c) (simp_all add: next_classification_def first_classification_def)

text \<open>The content of a row: everything a later look at the same node leaves as it is.\<close>

definition same_content :: "observation_row \<Rightarrow> observation_row \<Rightarrow> bool" where
  "same_content r r' \<longleftrightarrow>
     ob_classification r' = ob_classification r \<and> ob_semantic_fingerprint r' = ob_semantic_fingerprint r \<and>
     ob_semantic_generation r' = ob_semantic_generation r \<and>
     ob_adoption_state r' = ob_adoption_state r \<and> ob_device_id r' = ob_device_id r"

lemma repeated_node:
  assumes first: "node_applied now1 m before r1" and again: "node_applied now2 node (Some r1) r2"
    and same: "stable_node m = stable_node node" and ok: "row_ok E r1" "row_ok E r2"
    and ok0: "\<And>r. before = Some r \<Longrightarrow> row_ok E r"
  shows "same_content r1 r2"
proof -
  note st = stable_facts [OF same]
  have keys: "ob_stable_key_fingerprint q = pi_stable_key_fingerprint (pn_identity (ob_normalized_node q))"
    and fps: "semantic_fingerprint E (ob_normalized_node q) = Inr (ob_semantic_fingerprint q)" if "row_ok E q" for q
    using that by (simp_all add: row_ok_def)
  obtain c where c: "ob_classification r1 = classification_name c"
    "ob_classification r2 = classification_name (if row_identity_differs r1 node then OCIdentityConflict else next_classification c node)"
    using again by (auto simp: node_applied_def)
  have n2: "ob_normalized_node r2 = (if row_identity_differs r1 node then ob_normalized_node r1 else node)"
    using again by (simp add: node_applied_def)
  have main: "ob_classification r2 = ob_classification r1 \<and> ob_semantic_fingerprint r2 = ob_semantic_fingerprint r1"
  proof (cases "\<exists>r. before = Some r \<and> row_identity_differs r m")
    case True
    then obtain r where r: "before = Some r" "row_identity_differs r m" by blast
    then have n1: "ob_normalized_node r1 = ob_normalized_node r"
      and "classification_name c = classification_name OCIdentityConflict"
      using first c(1) by (auto simp: node_applied_def)
    then have c1: "c = OCIdentityConflict" by (simp only: classification_name_inject)
    have "row_identity_differs r1 node" using r(2) n1 st keys [OF ok(1)] keys [OF ok0 [OF r(1)]]
      by (simp add: row_identity_differs_def)
    with c c1 n2 n1 fps [OF ok(1)] fps [OF ok(2)] show ?thesis by simp
  next
    case False
    then have n1: "ob_normalized_node r1 = m" and c1: "\<exists>d. c = next_classification d m \<or> c = first_classification m"
      using first c(1) by (auto simp: node_applied_def split: option.splits)
    have same1: "\<not> row_identity_differs r1 node" using n1 st keys [OF ok(1)] by (simp add: row_identity_differs_def)
    have "next_classification c node = c"
      using c1 st(4) next_classification_settled by (auto simp: next_classification_def first_classification_def)
    moreover have "ob_semantic_fingerprint r2 = ob_semantic_fingerprint r1"
      using n2 same1 n1 fps [OF ok(1)] fps [OF ok(2)] st(5) [of E] by simp
    ultimately show ?thesis using c same1 by simp
  qed
  then show ?thesis using again by (auto simp: same_content_def node_applied_def)
qed

lemma repeated_snapshot:
  assumes inv: "discovery_inv E db" "discovery_inv E db1" "discovery_inv E db2"
    and snaps: "snapshot_applied n p nodes1 now1 db db1" "snapshot_applied n p nodes2 now2 db1 db2"
    and same: "map stable_node nodes1 = map stable_node nodes2" and r1: "row_at p k db1 = Some r1"
  shows "\<exists>r2. row_at p k db2 = Some r2 \<and> same_content r1 r2"
proof -
  have ok: "row_ok E q" if "discovery_inv E d" "row_at p' k' d = Some q" for d q p' k'
    using that row_at_Some [of d p' k' q] by (auto simp: discovery_inv_def list_all_iff)
  have len: "length nodes1 = length nodes2" using arg_cong [OF same, of length] by simp
  have nth: "stable_node (nodes1 ! j) = stable_node (nodes2 ! j)" if "j < length nodes1" for j
    using arg_cong [OF same, of "\<lambda>xs. xs ! j"] that len by simp
  have keys: "set (map node_key nodes1) = set (map node_key nodes2)"
  proof -
    have "map node_key nodes = map node_key (map stable_node nodes)" for nodes
      by (simp add: node_key_def stable_node_def)
    then show ?thesis by (metis same)
  qed
  show ?thesis
  proof (cases "k \<in> set (map node_key nodes2)")
    case True
    then obtain j where j: "j < length nodes2" "k = node_key (nodes2 ! j)" by (auto simp: in_set_conv_nth)
    have st: "stable_node (nodes1 ! j) = stable_node (nodes2 ! j)" using nth j(1) len by simp
    have k1: "k = node_key (nodes1 ! j)" using stable_facts(1) [OF st] j(2) by simp
    have f1: "node_applied now1 (nodes1 ! j) (row_at p k db) r1"
      using snaps(1) j(1) len r1 k1 unfolding snapshot_applied_def by (metis nth_mem option.inject)
    obtain r2 where r2: "row_at p k db2 = Some r2" "node_applied now2 (nodes2 ! j) (Some r1) r2"
      using snaps(2) j r1 unfolding snapshot_applied_def by (metis nth_mem)
    have "same_content r1 r2"
      by (rule repeated_node [OF f1 r2(2) st ok [OF inv(2) r1] ok [OF inv(3) r2(1)]]) (rule ok [OF inv(1)])
    with r2(1) show ?thesis by blast
  next
    case False
    then have k1: "k \<notin> set (map node_key nodes1)" using keys by simp
    obtain r where "row_at p k db = Some r" using snaps(1) k1 r1 unfolding snapshot_applied_def by (metis option.exhaust option.distinct(1))
    then have "missing_applied now1 r r1" using snaps(1) k1 r1 unfolding snapshot_applied_def by (metis option.inject)
    then have m1: "ob_classification r1 = ''provider_missing''"
      by (auto simp: missing_applied_def missing_update_def split: if_splits)
    obtain r2 where "row_at p k db2 = Some r2" "missing_applied now2 r1 r2"
      using snaps(2) False r1 unfolding snapshot_applied_def by blast
    with m1 show ?thesis by (simp add: missing_applied_def same_content_def)
  qed
qed

end
