(* ===== verification/Discovery_Properties.thy ===== *)
theory Discovery_Properties
  imports Discovery_Runs
begin

text \<open>
  The properties of import and reconciliation, and a concrete run at which they are applied: a
  network with one node is imported, an adoption of the node is opened, and the node is seen again
  unchanged, seen expired, or not seen because the provider does not answer.
\<close>

section \<open>Samples\<close>

definition sample_discovery_env :: discovery_env where
  "sample_discovery_env = \<lparr>dx_store = sample_store_env, dx_node_vec = (\<lambda>_. Some []),
     dx_observation_id = (\<lambda>_. ''o''), dx_decision_id = (\<lambda>_. ''d'')\<rparr>"

definition sample_instance :: ProviderInstanceId where "sample_instance = TypedId 7"
definition sample_discovery_network :: NetworkId where "sample_discovery_network = TypedId 2"

definition sample_node_fingerprint :: string where
  "sample_node_fingerprint = sha256_fingerprint sample_store_env []"

definition sample_seen_node :: "bool \<Rightarrow> ProviderNode" where
  "sample_seen_node expired =
     \<lparr>pn_identity = \<lparr>pi_provider_instance_id = sample_instance, pi_node_id = ProviderNodeId ''1'',
        pi_stable_key_fingerprint = sample_node_fingerprint\<rparr>,
      pn_identity_evidence = \<lparr>ie_machine_key = None, ie_node_key = None, ie_disco_key = None\<rparr>,
      pn_hostname = ''h'', pn_given_name = ''h'', pn_addresses = [], pn_user = None, pn_pre_auth = None,
      pn_tags = [], pn_registered_at = None, pn_last_seen = None, pn_expires_at = None,
      pn_observed_at = 5, pn_online = None, pn_expired = expired\<rparr>"

definition sample_reader :: "ProviderNode list \<Rightarrow> ReadOnlyProvider" where
  "sample_reader nodes =
     \<lparr>ro_instance_id = sample_instance,
      ro_inspect_server = Inr \<lparr>sp_provider_name = ''headscale'', sp_provider_version = ''v0.29.3'',
        sp_instance_id = sample_instance, sp_compatibility = CSCompatible, sp_capabilities = [],
        sp_constraints = [], sp_mutation_allowed = False\<rparr>,
      ro_list_nodes = Inr nodes\<rparr>"

definition sample_reader_network :: Network where
  "sample_reader_network =
     \<lparr>nw_network_id = sample_discovery_network, nw_name = ''home'', nw_state = NSCreating,
      nw_provider_kind = PKHeadscale, nw_provider_instance_id = sample_instance,
      nw_membership_generation = Generation 1, nw_policy_generation = Generation 1,
      nw_default_roles = Roles [], nw_baseline_operations = [], nw_created_at = 0, nw_updated_at = 0\<rparr>"

definition sample_reader_config :: HeadscaleImportConfig where
  "sample_reader_config =
     \<lparr>hc_server_url = ''https://h'', hc_provider_instance_id = sample_instance,
      hc_opaque_secret_reference = ''secret://k'', hc_compatibility_pin = ''0.29.3'',
      hc_custom_root_ca_sha256 = None, hc_read_only = True, hc_mutation_allowed = False\<rparr>"

definition sample_reader_actor :: AuditActor where
  "sample_reader_actor = \<lparr>au_source = ''nodescale'', au_actor_id = None\<rparr>"

definition sample_reader_import :: provider_import_row where
  "sample_reader_import =
     \<lparr>ip_network_id = sample_discovery_network, ip_provider_instance_id = sample_instance,
      ip_server_url = ''https://h'', ip_opaque_secret_reference = ''secret://k'',
      ip_compatibility_pin = ''0.29.3'', ip_custom_root_ca_sha256 = None, ip_read_only = 1,
      ip_mutation_allowed = 0, ip_compatibility = ''compatible'', ip_provider_version = ''v0.29.3'',
      ip_last_success_at = Some 1000, ip_last_attempt_at = Some 1000, ip_last_failure_kind = None,
      ip_last_failure_detail = None\<rparr>"

lemmas sample_reader_defs =
  sample_discovery_env_def sample_instance_def sample_discovery_network_def sample_node_fingerprint_def
  sample_seen_node_def sample_reader_def sample_reader_network_def sample_reader_config_def
  sample_reader_actor_def sample_reader_import_def empty_discovery_db_def

lemmas discovery_eval =
  import_headscale_network_def validate_for_persistence_def HeadscaleImportConfig_new_def clean_https_origin_def
  secret_reference_def has_whitespace_def str_chars_def byte_val_def cp_is_whitespace_def import_answered_def
  provider_snapshot_def provider_answer_def validate_read_only_inspection_def trim_start_v_def
  validate_snapshot_def sort_nodes_def node_key_def transactional_def import_tx_def to_i64_def
  insert_network_def network_values_def insert_membership_def insert_import_def import_values_def
  discovery_audit_def event_generation_def insert_new_observation_def semantic_fingerprint_def
  observation_values_def insert_observation_def first_classification_def state_step_def Let_def


definition sample_reader_event :: "string \<Rightarrow> int option \<Rightarrow> event_audit_row" where
  "sample_reader_event kind g = \<lparr>ea_network_id = Some sample_discovery_network, ea_actor = sample_reader_actor,
     ea_event_kind = kind, ea_outcome = ''success'', ea_generation = g\<rparr>"

definition sample_reader_row :: "string \<Rightarrow> observation_row" where
  "sample_reader_row adoption =
     \<lparr>ob_observation_id = ''o'', ob_network_id = sample_discovery_network, ob_device_id = None,
      ob_provider_instance_id = sample_instance, ob_provider_node_id = ''1'',
      ob_stable_key_fingerprint = sample_node_fingerprint, ob_classification = ''discovered_unmanaged'',
      ob_adoption_state = adoption, ob_semantic_fingerprint = sample_node_fingerprint,
      ob_semantic_generation = 1, ob_normalized_node = sample_seen_node False,
      ob_first_observed_at = 1000, ob_last_observed_at = 1000, ob_snapshot_at = 1000\<rparr>"

definition sample_open_action :: adoption_action_row where
  "sample_open_action =
     \<lparr>aa_action_id = ''a'', aa_authority_id = ''t'', aa_authority_generation = 1,
      aa_network_id = sample_discovery_network, aa_observation_id = ''o'',
      aa_provider_instance_id = sample_instance, aa_provider_node_id = ''1'',
      aa_expected_observation_generation = 1, aa_proof_generation = 1, aa_issued_at_ms = 0,
      aa_action_state = ''proof_pending'', aa_terminal_decision_id = None, aa_terminal_at_ms = None,
      aa_terminal_reason = None\<rparr>"

text \<open>The database after the import, without or with an adoption of the node under way.\<close>

definition sample_reader_db :: "string \<Rightarrow> adoption_action_row list \<Rightarrow> discovery_db" where
  "sample_reader_db adoption actions =
     \<lparr>dc_networks = [network_values sample_reader_network ''headscale'' 1 1],
      dc_memberships = [(sample_discovery_network, 1)], dc_imports = [sample_reader_import],
      dc_observations = [sample_reader_row adoption], dc_actions = actions, dc_proofs = [],
      dc_decisions = [],
      dc_events = [sample_reader_event ''network_imported'' (Some 1),
        sample_reader_event ''provider_reconciliation_started'' None,
        sample_reader_event ''provider_node_discovered'' None,
        sample_reader_event ''provider_reconciliation_completed'' None],
      dc_fail_before_audit = False\<rparr>"

definition sample_adopting_db :: discovery_db where
  "sample_adopting_db = sample_reader_db pending_text [sample_open_action]"

definition sample_waiting_config :: ReconciliationImportConfig where
  "sample_waiting_config = \<lparr>rc_provider_instance_id = sample_instance, rc_provider_name = ''headscale'',
     rc_compatibility_pin = ''0.29.3''\<rparr>"

lemmas sample_reader_tables =
  sample_reader_event_def sample_reader_row_def sample_open_action_def sample_reader_db_def
  sample_adopting_db_def sample_waiting_config_def network_values_def

lemma sample_imported:
  "import_headscale_network sample_discovery_env sample_reader_network sample_reader_config
    (sample_reader [sample_seen_node False]) 1000 sample_reader_actor empty_discovery_db =
   (Inr (), sample_reader_db ''unmanaged'' [])"
  by (simp add: sample_reader_defs sample_reader_tables discovery_eval)

lemma sample_node_hashed [simp]: "hashed_provider (sample_reader [sample_seen_node expired])"
  by (simp add: hashed_provider_def sample_reader_def sample_seen_node_def sample_node_fingerprint_def)

lemma sample_foreign: "foreign_write (sample_reader_db ''unmanaged'' []) sample_adopting_db"
  by (simp add: foreign_write_def sample_reader_tables foreign_row_def parse_adoption_state_def pending_text_def
      sample_reader_network_def adoption_inv_def is_open_def action_backed_def row_at_def observation_at_def
      pending_backed_def)

lemma sample_config_read:
  "reconciliation_import_config sample_discovery_env sample_discovery_network sample_adopting_db =
   Inr sample_waiting_config"
  by (simp add: reconciliation_import_config_def import_of_def network_row_of_def sample_reader_defs
      sample_reader_tables)

definition sample_waiting_state :: discovery_state where
  "sample_waiting_state = (sample_adopting_db, [(sample_discovery_network, sample_waiting_config)])"

lemma sample_drawing [simp]: "drawing sample_discovery_env ((\<lambda>_. ''o''), (\<lambda>_. ''d'')) = sample_discovery_env"
  by (simp add: drawing_def sample_discovery_env_def)

lemma sample_waiting_run: "discovery_run sample_discovery_env sample_waiting_state"
proof -
  let ?E = sample_discovery_env
  have s1: "discovery_step ?E (empty_discovery_db, []) (sample_reader_db ''unmanaged'' [], [])"
    by (rule discovery_step.imported_headscale [OF sample_node_hashed [of False],
        where ids = "((\<lambda>_. ''o''), (\<lambda>_. ''d''))" and network = sample_reader_network and hc = sample_reader_config
          and now = 1000 and actor = sample_reader_actor])
      (simp only: sample_drawing sample_imported snd_conv)
  have s2: "discovery_step ?E (sample_reader_db ''unmanaged'' [], []) (sample_adopting_db, [])"
    by (rule discovery_step.elsewhere [OF sample_foreign])
  have s3: "discovery_step ?E (sample_adopting_db, []) sample_waiting_state"
    unfolding sample_waiting_state_def by (rule discovery_step.started [OF sample_config_read])
  show ?thesis unfolding discovery_run_def
    by (rule converse_rtranclp_into_rtranclp [of "discovery_step ?E", OF s1
        converse_rtranclp_into_rtranclp [of "discovery_step ?E", OF s2 r_into_rtranclp [of "discovery_step ?E", OF s3]]])
qed


text \<open>Reconciling the sample network, with the node as before or expired.\<close>

definition sample_ids :: "(nat \<Rightarrow> string) \<times> (nat \<Rightarrow> string)" where
  "sample_ids = ((\<lambda>_. ''p''), (\<lambda>_. ''d''))"

definition sample_reconcile :: "bool \<Rightarrow> DateTime \<Rightarrow> discovery_db \<Rightarrow> ReconciliationReport reconciled \<times> discovery_db" where
  "sample_reconcile expired now db =
     reconcile_configured (drawing sample_discovery_env sample_ids) sample_discovery_network
       sample_waiting_config (sample_reader [sample_seen_node expired]) now sample_reader_actor db"

lemmas reconcile_eval =
  discovery_eval sample_ids_def reconcile_configured_def drawing_def apply_snapshot_tx_def
  load_observations_def network_rows_def decode_observation_def parse_classification_def
  parse_adoption_state_def pending_text_def column_u64_def reconcile_node_def node_effect_def
  strong_identity_differs_def next_classification_def stable_node_def node_row_def upsert_observation_def
  observation_at_def update_observations_def generation_check_def excluded_update_def pending_adoption_def
  terminalize_pending_adoption_def pending_action_def insert_decision_def decision_guard_def
  conflict_decision_def action_of_decision_def observation_of_decision_def conflict_reason_def
  conflict_reason_of_def decision_check_def timestamp_millis_def terminalize_graph_def open_action_def
  end_action_def mark_missing_def change_audits_def update_import_def success_values_def
  reconciliation_report_def classification_counts_def import_of_def parse_compatibility_def

lemma sample_expired_ok: "is_ok (fst (sample_reconcile True 2000 sample_adopting_db))"
  by (simp add: sample_reconcile_def sample_reader_defs sample_reader_tables reconcile_eval)

lemma sample_same_ok: "is_ok (fst (sample_reconcile False 2000 sample_adopting_db))"
  by (simp add: sample_reconcile_def sample_reader_defs sample_reader_tables reconcile_eval)

lemma sample_again_ok:
  "is_ok (fst (sample_reconcile False 3000 (snd (sample_reconcile False 2000 sample_adopting_db))))"
  by (simp add: sample_reconcile_def sample_reader_defs sample_reader_tables reconcile_eval)

lemma sample_expired_ends: "list_all (\<lambda>a. \<not> is_open a) (dc_actions (snd (sample_reconcile True 2000 sample_adopting_db)))"
  by (simp add: sample_reconcile_def sample_reader_defs sample_reader_tables reconcile_eval is_open_def)

definition sample_unreachable :: ReadOnlyProvider where
  "sample_unreachable = (sample_reader [])\<lparr>ro_inspect_server := Inl PETimeout\<rparr>"

lemma sample_unreachable_fails:
  "fst (reconcile_configured (drawing sample_discovery_env sample_ids) sample_discovery_network
     sample_waiting_config sample_unreachable 2000 sample_reader_actor sample_adopting_db) = Inl RFUnreachable"
  by (simp add: sample_unreachable_def sample_reader_defs sample_reader_tables reconcile_eval
      fail_reconciliation_def record_failure_for_def record_provider_failure_def record_failure_tx_def
      failure_values_def)

section \<open>Properties\<close>

text \<open>C21: Over any run of imports, interleaved reconciliations and writes of the adoption code, no
  observation is ever lost: its row keeps its network, instance, node, key fingerprint, first
  observation and machine key, its generation never falls, and while the generation stays so do
  the classification and the content fingerprint.\<close>

theorem observations_never_lost:
  assumes "discovery_run E s" "(discovery_step E)\<^sup>*\<^sup>* s s'" "r \<in> set (dc_observations (fst s))"
  shows "\<exists>r' \<in> set (dc_observations (fst s')). observation_evolves r r'"
proof -
  have "observations_evolve (fst s) (fst s')"
    using discovery_steps_safe [OF assms(2)] discovery_run_inv [OF assms(1)] by blast
  then obtain kept new where "dc_observations (fst s') = kept @ new"
    "list_all2 observation_evolves (dc_observations (fst s)) kept" by (auto simp: observations_evolve_def)
  moreover obtain j where "j < length (dc_observations (fst s))" "dc_observations (fst s) ! j = r"
    using assms(3) unfolding in_set_conv_nth by blast
  ultimately have "observation_evolves r (kept ! j)" "kept ! j \<in> set (dc_observations (fst s'))"
    by (auto simp: list_all2_conv_all_nth)
  then show ?thesis by blast
qed

text \<open>C27: In every reachable state a page of an imported network is read without an error: it holds
  the current rows behind the cursor in strictly increasing order of node identifiers, without a
  gap, as many as the limit and the fixed maximum allow.\<close>

theorem pages_read_without_gaps:
  assumes "discovery_run E s" "import_of n (fst s) = Some i"
  shows "\<exists>xs. provider_observation_page E n after limit (fst s) = Inr xs \<and>
    map po_canonical_provider_node_id xs = take (min limit PROVIDER_OBSERVATION_PAGE_MAX) (page_keys n after (fst s)) \<and>
    sorted_wrt (<) (page_keys n after (fst s)) \<and> length xs \<le> PROVIDER_OBSERVATION_PAGE_MAX \<and>
    (\<forall>x \<in> set xs. \<exists>r \<in> set (dc_observations (fst s)). ob_network_id r = n \<and> decode_observation r = Inr x)"
proof -
  have inv: "discovery_inv E (fst s)" using discovery_run_inv [OF assms(1)] by (simp add: run_inv_def)
  have pair: "import_pair n (ip_provider_instance_id i) (fst s)"
    using assms(2) by (auto simp: import_of_def find_Some_iff import_pair_def list_ex_iff)
  obtain xs where xs: "provider_observation_page E n after limit (fst s) = Inr xs"
    "map po_canonical_provider_node_id xs = take (min limit PROVIDER_OBSERVATION_PAGE_MAX) (page_keys n after (fst s))"
    "\<forall>x \<in> set xs. \<exists>r \<in> set (dc_observations (fst s)). ob_network_id r = n \<and> decode_observation r = Inr x"
    by (rule page_reads [OF inv assms(2)])
  have "length xs \<le> PROVIDER_OBSERVATION_PAGE_MAX" using arg_cong [OF xs(2), of length] by simp
  with xs page_keys_sorted [OF inv pair] show ?thesis by blast
qed


text \<open>C23: A reconciliation that answers a report has committed exactly the provider's snapshot: a
  listed node is taken over unless its machine key or key fingerprint differs from the recorded one,
  in which case the recorded node stays and is an identity conflict; a node no longer listed is kept
  as missing; rows of other providers stay; the import is marked successful.\<close>

theorem snapshot_reflected:
  assumes "discovery_run E (db, waiting)" "(n, c) \<in> set waiting" "hashed_provider provider"
    "reconcile_configured (drawing E ids) n c provider now actor db = (Inr report, db')"
  shows "\<exists>inspection listed i. ro_inspect_server provider = Inr inspection \<and> ro_list_nodes provider = Inr listed \<and>
    snapshot_applied n (rc_provider_instance_id c) (sort_nodes listed) now db db' \<and>
    import_of n db' = Some i \<and> ip_last_success_at i = Some now \<and> ip_last_failure_kind i = None"
proof -
  note W = waiting_facts(1) [OF assms(1,2), of ids] waiting_facts(2) [OF assms(1,2)]
  obtain inspection listed u where a: "ro_inspect_server provider = Inr inspection" "ro_list_nodes provider = Inr listed"
    "distinct (map node_key (sort_nodes listed))"
    "\<forall>node \<in> set (sort_nodes listed). listed_node (rc_provider_instance_id c) node"
    "apply_snapshot_tx (drawing E ids) n (rc_provider_instance_id c) inspection (sort_nodes listed) now actor db = Inr (u, db')"
    using reconcile_outcome [OF W assms(3,4)] by auto
  note S = snapshot_effect [OF W a(3-5)]
  obtain i i' where "import_of n db' = Some i'" "i' = success_values inspection now i"
    by (rule snapshot_import_of [OF S(6) W(2)])
  with a(1,2) S(3) show ?thesis by (simp add: success_values_def)
qed

text \<open>C24: A successful reconciliation writes one event of a change for every row whose generation the
  database moved, new rows included, framed by one event of its start and one of its end, and
  writes none at all when no generation moved: the change flag of the code and the condition of the
  SQL update agree.\<close>

theorem changes_audited_exactly:
  assumes "discovery_run E (db, waiting)" "(n, c) \<in> set waiting" "hashed_provider provider"
    "reconcile_configured (drawing E ids) n c provider now actor db = (Inr report, db')"
  shows "audited_changes (rc_provider_instance_id c) db db'"
proof -
  note W = waiting_facts(1) [OF assms(1,2), of ids] waiting_facts(2) [OF assms(1,2)]
  obtain inspection listed u where a: "distinct (map node_key (sort_nodes listed))"
    "\<forall>node \<in> set (sort_nodes listed). listed_node (rc_provider_instance_id c) node"
    "apply_snapshot_tx (drawing E ids) n (rc_provider_instance_id c) inspection (sort_nodes listed) now actor db = Inr (u, db')"
    using reconcile_outcome [OF W assms(3,4)] by auto
  show ?thesis by (rule snapshot_effect(4) [OF W a])
qed

lemma same_content_refl [simp]: "same_content r r"
  by (simp add: same_content_def)

text \<open>C26: Reconciling again against the same provider truth is silent: no row of any provider appears,
  goes away or changes its classification, fingerprint, generation, adoption or device, and nothing
  at all is written to the audit log, the adoption actions, their proofs and decisions, the
  memberships or the networks.\<close>

theorem repeated_reconciliation_silent:
  assumes "discovery_run E (db, waiting)" "(n, c) \<in> set waiting"
    "hashed_provider provider" "hashed_provider provider2"
    "reconcile_configured (drawing E ids) n c provider now actor db = (Inr report, db1)"
    "reconcile_configured (drawing E ids2) n c provider2 now2 actor2 db1 = (Inr report2, db2)"
    "ro_list_nodes provider = Inr listed" "ro_list_nodes provider2 = Inr listed2"
    "map stable_node (sort_nodes listed) = map stable_node (sort_nodes listed2)"
  shows "(\<forall>p k. rel_option same_content (row_at p k db1) (row_at p k db2)) \<and>
    dc_events db2 = dc_events db1 \<and> dc_actions db2 = dc_actions db1 \<and> dc_proofs db2 = dc_proofs db1 \<and>
    dc_decisions db2 = dc_decisions db1 \<and> dc_memberships db2 = dc_memberships db1 \<and>
    dc_networks db2 = dc_networks db1"
proof -
  let ?p = "rc_provider_instance_id c"
  note W = waiting_facts(1) [OF assms(1,2), of ids] waiting_facts(2) [OF assms(1,2)]
  have inv: "discovery_inv E db" using W(1) by (simp add: drawing_inv)
  obtain inspection u where a: "distinct (map node_key (sort_nodes listed))"
    "\<forall>node \<in> set (sort_nodes listed). listed_node ?p node"
    "apply_snapshot_tx (drawing E ids) n ?p inspection (sort_nodes listed) now actor db = Inr (u, db1)"
    using reconcile_outcome [OF W assms(3,5)] assms(7) by auto
  note S = snapshot_effect [OF W a]
  have inv1: "discovery_inv (drawing E ids2) db1" "discovery_inv E db1" using S(1) by (simp_all add: drawing_inv)
  have pair1: "import_pair n ?p db1"
    using reconcile_safe [OF W assms(3)] W(2) assms(5) by (metis safe_step_def pairs_grow_def snd_conv)
  obtain inspection2 u2 where a2: "distinct (map node_key (sort_nodes listed2))"
    "\<forall>node \<in> set (sort_nodes listed2). listed_node ?p node"
    "apply_snapshot_tx (drawing E ids2) n ?p inspection2 (sort_nodes listed2) now2 actor2 db1 = Inr (u2, db2)"
    using reconcile_outcome [OF inv1(1) pair1 assms(4,6)] assms(8) by auto
  note S2 = snapshot_effect [OF inv1(1) pair1 a2]
  have inv2: "discovery_inv E db2" using S2(1) by (simp add: drawing_inv)
  note R = repeated_snapshot [OF inv inv1(2) inv2 S(3) S2(3) assms(9)]
  have gone: "row_at ?p k db2 = None" if "row_at ?p k db1 = None" for k
  proof -
    have "map node_key (sort_nodes l) = map node_key (map stable_node (sort_nodes l))" for l
      by (simp add: node_key_def stable_node_def)
    then have keys: "map node_key (sort_nodes listed2) = map node_key (sort_nodes listed)"
      using assms(9) by metis
    have "k \<notin> set (map node_key (sort_nodes listed))"
      using S(3) that unfolding snapshot_applied_def by auto
    then show ?thesis using S2(3) that keys unfolding snapshot_applied_def by metis
  qed
  have same: "rel_option same_content (row_at p k db1) (row_at p k db2)" for p k
  proof (cases "p = ?p")
    case False
    then have "row_at p k db2 = row_at p k db1" using S2(3) unfolding snapshot_applied_def by blast
    then show ?thesis by (cases "row_at p k db1") simp_all
  next
    case True
    then show ?thesis using gone [of k] R [of k] by (cases "row_at p k db1") auto
  qed
  have "\<not> row_moved (row_at ?p k db1) (row_at ?p k db2)" for k
    using same [of ?p k] by (auto simp: row_moved_def same_content_def elim: option.rel_cases)
  then have "same_records db1 db2" by (intro S2(7)) (simp add: moved_keys_def)
  with same S2(5) show ?thesis by (simp add: same_records_def)
qed

text \<open>C25: A reconciliation that answers an error changes nothing at all, when the store itself failed, or
  exactly this: the import row of its network gets the time of the attempt and the kind and detail
  of the failure it answers, and one audit event is appended when the kind is new. So every
  observation, adoption, membership and time of a success stays.\<close>

theorem failed_reconciliation_keeps_inventory:
  assumes "discovery_run E (db, waiting)" "(n, c) \<in> set waiting" "hashed_provider provider"
    "reconcile_configured (drawing E ids) n c provider now actor db = (Inl failure, db')"
  shows "(\<exists>e. failure = RFState e \<and> db' = db) \<or>
    failure_recorded n now (fst (failure_texts failure)) actor db db'"
  using reconcile_outcome [OF waiting_facts [OF assms(1,2)] assms(3,4)] by auto

text \<open>C22: A successful reconciliation ends exactly the open adoptions of its provider whose
  observation moved to another generation, and leaves the others open.\<close>

theorem moved_adoptions_end:
  assumes "discovery_run E (db, waiting)" "(n, c) \<in> set waiting" "hashed_provider provider"
    "reconcile_configured (drawing E ids) n c provider now actor db = (Inr report, db')"
    "a \<in> set (dc_actions db)" "is_open a" "aa_provider_instance_id a = rc_provider_instance_id c"
  shows "(\<exists>a' \<in> set (dc_actions db'). aa_action_id a' = aa_action_id a \<and> is_open a') \<longleftrightarrow>
    aa_provider_node_id a \<notin> moved_keys (rc_provider_instance_id c) db db'"
proof -
  note W = waiting_facts(1) [OF assms(1,2), of ids] waiting_facts(2) [OF assms(1,2)]
  obtain inspection listed u where a: "distinct (map node_key (sort_nodes listed))"
    "\<forall>node \<in> set (sort_nodes listed). listed_node (rc_provider_instance_id c) node"
    "apply_snapshot_tx (drawing E ids) n (rc_provider_instance_id c) inspection (sort_nodes listed) now actor db = Inr (u, db')"
    using reconcile_outcome [OF W assms(3,4)] by auto
  note S = snapshot_effect [OF W a]
  show ?thesis by (rule reconciliation_ends_moved [OF W(1) S(1) snapshot_actions [OF a(3)] S(3) assms(5-7)])
qed

section \<open>The properties at the sample\<close>

lemma sample_waiting_facts:
  "discovery_run sample_discovery_env (sample_adopting_db, [(sample_discovery_network, sample_waiting_config)])"
  "(sample_discovery_network, sample_waiting_config) \<in> set [(sample_discovery_network, sample_waiting_config)]"
  using sample_waiting_run by (simp_all add: sample_waiting_state_def)

lemma sample_reconciled:
  assumes "is_ok (fst (sample_reconcile expired now db))"
  obtains report where
    "reconcile_configured (drawing sample_discovery_env sample_ids) sample_discovery_network sample_waiting_config
      (sample_reader [sample_seen_node expired]) now sample_reader_actor db =
     (Inr report, snd (sample_reconcile expired now db))"
  using assms unfolding sample_reconcile_def by (metis is_ok_iff prod.collapse)

theorem observations_never_lost_witness:
  "\<exists>r' \<in> set (dc_observations (snd (sample_reconcile True 2000 sample_adopting_db))).
     observation_evolves (sample_reader_row pending_text) r'"
proof -
  have step: "discovery_step sample_discovery_env sample_waiting_state
      (snd (sample_reconcile True 2000 sample_adopting_db), remove1 (sample_discovery_network, sample_waiting_config)
        [(sample_discovery_network, sample_waiting_config)])"
    unfolding sample_waiting_state_def
    by (rule discovery_step.finished [OF _ sample_node_hashed [of True]]) (simp, simp only: sample_reconcile_def)
  have row: "sample_reader_row pending_text \<in> set (dc_observations (fst sample_waiting_state))"
    by (simp add: sample_waiting_state_def sample_adopting_db_def sample_reader_db_def)
  show ?thesis using observations_never_lost [OF sample_waiting_run r_into_rtranclp [of "discovery_step sample_discovery_env", OF step] row] by simp
qed

theorem pages_read_without_gaps_witness:
  "\<exists>xs. provider_observation_page sample_discovery_env sample_discovery_network None 7 sample_adopting_db = Inr xs \<and>
     map po_canonical_provider_node_id xs = [''1'']"
proof -
  have i: "import_of sample_discovery_network (fst sample_waiting_state) = Some sample_reader_import"
    by (simp add: sample_waiting_state_def import_of_def sample_adopting_db_def sample_reader_db_def sample_reader_import_def)
  have keys: "page_keys sample_discovery_network None sample_adopting_db = [''1'']"
    by (simp add: page_keys_def network_rows_def sample_adopting_db_def sample_reader_db_def sample_reader_row_def)
  show ?thesis
    using pages_read_without_gaps [OF sample_waiting_run i, of None 7] keys
    by (auto simp: sample_waiting_state_def PROVIDER_OBSERVATION_PAGE_MAX_def)
qed

theorem snapshot_reflected_witness:
  "snapshot_applied sample_discovery_network sample_instance [sample_seen_node True] 2000 sample_adopting_db
     (snd (sample_reconcile True 2000 sample_adopting_db))"
proof -
  obtain report where run: "reconcile_configured (drawing sample_discovery_env sample_ids) sample_discovery_network
      sample_waiting_config (sample_reader [sample_seen_node True]) 2000 sample_reader_actor sample_adopting_db =
     (Inr report, snd (sample_reconcile True 2000 sample_adopting_db))"
    by (rule sample_reconciled [OF sample_expired_ok])
  show ?thesis
    using snapshot_reflected [OF sample_waiting_facts sample_node_hashed run]
    by (simp add: sample_reader_def sample_waiting_config_def sort_nodes_def)
qed

theorem changes_audited_exactly_witness:
  "audited_changes sample_instance sample_adopting_db (snd (sample_reconcile True 2000 sample_adopting_db))"
proof -
  obtain report where run: "reconcile_configured (drawing sample_discovery_env sample_ids) sample_discovery_network
      sample_waiting_config (sample_reader [sample_seen_node True]) 2000 sample_reader_actor sample_adopting_db =
     (Inr report, snd (sample_reconcile True 2000 sample_adopting_db))"
    by (rule sample_reconciled [OF sample_expired_ok])
  show ?thesis
    using changes_audited_exactly [OF sample_waiting_facts sample_node_hashed run]
    by (simp add: sample_waiting_config_def)
qed

theorem repeated_reconciliation_silent_witness:
  "dc_events (snd (sample_reconcile False 3000 (snd (sample_reconcile False 2000 sample_adopting_db)))) =
   dc_events (snd (sample_reconcile False 2000 sample_adopting_db))"
proof -
  obtain report where run: "reconcile_configured (drawing sample_discovery_env sample_ids) sample_discovery_network
      sample_waiting_config (sample_reader [sample_seen_node False]) 2000 sample_reader_actor sample_adopting_db =
     (Inr report, snd (sample_reconcile False 2000 sample_adopting_db))"
    by (rule sample_reconciled [OF sample_same_ok])
  obtain report2 where run2: "reconcile_configured (drawing sample_discovery_env sample_ids) sample_discovery_network
      sample_waiting_config (sample_reader [sample_seen_node False]) 3000 sample_reader_actor
      (snd (sample_reconcile False 2000 sample_adopting_db)) =
     (Inr report2, snd (sample_reconcile False 3000 (snd (sample_reconcile False 2000 sample_adopting_db))))"
    by (rule sample_reconciled [OF sample_again_ok])
  have l: "ro_list_nodes (sample_reader [sample_seen_node False]) = Inr [sample_seen_node False]"
    by (simp add: sample_reader_def)
  show ?thesis
    using repeated_reconciliation_silent [OF sample_waiting_facts sample_node_hashed sample_node_hashed run run2 l l refl]
    by blast
qed

theorem failed_reconciliation_keeps_inventory_witness:
  "\<exists>db'. reconcile_configured (drawing sample_discovery_env sample_ids) sample_discovery_network
      sample_waiting_config sample_unreachable 2000 sample_reader_actor sample_adopting_db = (Inl RFUnreachable, db') \<and>
    failure_recorded sample_discovery_network 2000 ''unreachable'' sample_reader_actor sample_adopting_db db'"
proof -
  obtain db' where run: "reconcile_configured (drawing sample_discovery_env sample_ids) sample_discovery_network
      sample_waiting_config sample_unreachable 2000 sample_reader_actor sample_adopting_db = (Inl RFUnreachable, db')"
    using sample_unreachable_fails by (metis prod.collapse)
  have "hashed_provider sample_unreachable"
    by (simp add: hashed_provider_def sample_unreachable_def sample_reader_def)
  with run failed_reconciliation_keeps_inventory [OF sample_waiting_facts _ run] show ?thesis by auto
qed

theorem moved_adoptions_end_witness:
  "''1'' \<in> moved_keys sample_instance sample_adopting_db (snd (sample_reconcile True 2000 sample_adopting_db))"
proof -
  obtain report where run: "reconcile_configured (drawing sample_discovery_env sample_ids) sample_discovery_network
      sample_waiting_config (sample_reader [sample_seen_node True]) 2000 sample_reader_actor sample_adopting_db =
     (Inr report, snd (sample_reconcile True 2000 sample_adopting_db))"
    by (rule sample_reconciled [OF sample_expired_ok])
  have a: "sample_open_action \<in> set (dc_actions sample_adopting_db)" "is_open sample_open_action"
    "aa_provider_instance_id sample_open_action = rc_provider_instance_id sample_waiting_config"
    "aa_provider_node_id sample_open_action = ''1''"
    by (simp_all add: sample_reader_tables is_open_def)
  show ?thesis
    using moved_adoptions_end [OF sample_waiting_facts sample_node_hashed run a(1-3)] sample_expired_ends a(4)
    by (auto simp: list_all_iff sample_waiting_config_def)
qed

end
