(* ===== verification/Trust_Tables.thy ===== *)
theory Trust_Tables
  imports N4_Store N6_Commands Provider_Contract
begin

text \<open>
  The tables of device trust: owner trust roots, trust authorities with their capabilities, trust
  authorizations and decisions, the trust state of a device, and its provider binding with the
  identity it came from, as \<^verbatim>\<open>crates/nodescale-state/migrations/0005_device_trust.sql\<close> makes them and
  \<^verbatim>\<open>0008\<close>, \<^verbatim>\<open>0009_typed_n5_provenance.sql\<close> and \<^verbatim>\<open>0011_exact_provider_revalidation.sql\<close> change them.

  Every statement carries the triggers, checks and unique indexes of its table. Identifiers and
  states are typed, so a check that only repeats the alphabet of a type is left out; the deferred
  foreign keys between the rows that one transaction inserts are left out too, and the rest of the
  database of invitations is embedded. A decision has the effect of its trigger: it consumes its
  authorization, moves the trust state and writes its audit event.
\<close>

section \<open>Rows\<close>

datatype N5TrustReason = OwnerApproved | OwnerRevoked | SecurityResponse | ProviderBindingStale

datatype n5_provenance_kind = ProvenanceJoin | ProvenanceAdoption

record root_row =
  tr_trust_root_id :: TrustRootId
  tr_network_id :: NetworkId
  tr_principal_source :: string
  tr_principal_id :: string
  tr_secret_verifier :: string
  tr_enabled :: bool
  tr_revoked_at_ms :: "int option"
  tr_created_at_ms :: int

record trust_authority_row =
  ta_authority_id :: TrustAuthorityId
  ta_trust_root_id :: TrustRootId
  ta_network_id :: NetworkId
  ta_principal_source :: string
  ta_principal_id :: string
  ta_generation :: int
  ta_not_before_ms :: int
  ta_expires_at_ms :: int
  ta_sealed :: bool
  ta_enabled :: bool
  ta_revoked_at_ms :: "int option"
  ta_created_at_ms :: int

record trust_state_row =
  trs_device_id :: DeviceId
  trs_network_id :: NetworkId
  trs_state :: DeviceTrustState
  trs_revision :: int
  trs_created_at_ms :: int
  trs_activated_at_ms :: "int option"
  trs_revoked_at_ms :: "int option"
  trs_last_decision :: "TrustDecisionId option"

record trust_authorization_row =
  trz_action_id :: TrustActionId
  trz_authority_id :: TrustAuthorityId
  trz_authority_generation :: int
  trz_device_id :: DeviceId
  trz_network_id :: NetworkId
  trz_expected_state :: DeviceTrustState
  trz_expected_revision :: int
  trz_capability :: DeviceTrustCapability
  trz_principal_source :: string
  trz_principal_id :: string
  trz_issued_at_ms :: int
  trz_expires_at_ms :: int
  trz_consumed_at_ms :: "int option"
  trz_decision :: "TrustDecisionId option"

record trust_decision_row =
  trd_decision_id :: TrustDecisionId
  trd_audit :: AuditEventId
  trd_action_id :: TrustActionId
  trd_device_id :: DeviceId
  trd_network_id :: NetworkId
  trd_prior_state :: DeviceTrustState
  trd_new_state :: DeviceTrustState
  trd_kind :: TrustDecisionKind
  trd_decided_at_ms :: int
  trd_authority_id :: TrustAuthorityId
  trd_authority_generation :: int
  trd_principal_source :: string
  trd_principal_id :: string
  trd_prior_revision :: int
  trd_new_revision :: int
  trd_digest :: string
  trd_reason :: N5TrustReason

record device_binding_row =
  trb_binding_id :: ProviderBindingId
  trb_device_id :: DeviceId
  trb_network_id :: NetworkId
  trb_provenance_kind :: n5_provenance_kind
  trb_provider_instance_id :: ProviderInstanceId
  trb_provider_node_id :: ProviderNodeId
  trb_machine_key :: string
  trb_state :: ProviderBindingState
  trb_revision :: int
  trb_observed_at_ms :: int
  trb_stale_at_ms :: "int option"
  trb_cleanup_at_ms :: "int option"
  trb_removed_at_ms :: "int option"
  trb_last_audit :: "AuditEventId option"
  trb_actor_source :: "string option"
  trb_actor_id :: "string option"

record join_provenance_row =
  trp_binding_id :: ProviderBindingId
  trp_device_id :: DeviceId
  trp_network_id :: NetworkId
  trp_join_session_id :: JoinSessionId
  trp_credential_id :: ProviderCredentialId
  trp_reference :: ProviderCredentialReference
  trp_provider_instance_id :: ProviderInstanceId

record adopted_provenance_row =
  tra_binding_id :: ProviderBindingId
  tra_device_id :: DeviceId
  tra_network_id :: NetworkId
  tra_provider_instance_id :: ProviderInstanceId
  tra_provider_node_id :: ProviderNodeId
  tra_machine_key :: string
  tra_node_key :: string

datatype identity_origin = OriginJoin JoinSessionId | OriginAdoption string

record device_identity_row =
  tri_device_id :: DeviceId
  tri_network_id :: NetworkId
  tri_origin :: identity_origin
  tri_confirmed_at_ms :: int
  tri_digest :: string

record join_origin_row =
  tro_join_session_id :: JoinSessionId
  tro_device_id :: DeviceId
  tro_network_id :: NetworkId

record trust_event_row =
  tre_event_id :: AuditEventId
  tre_network_id :: NetworkId
  tre_device_id :: "DeviceId option"
  tre_actor :: AuditActor
  tre_event_kind :: string
  tre_outcome :: string
  tre_generation :: "int option"

record trust_db =
  td_n4 :: n4_db
  td_devices :: "(DeviceId \<times> Device) list"
  td_roots :: "root_row list"
  td_authorities :: "trust_authority_row list"
  td_capabilities :: "(TrustAuthorityId \<times> DeviceTrustCapability) list"
  td_trust :: "trust_state_row list"
  td_authorizations :: "trust_authorization_row list"
  td_decisions :: "trust_decision_row list"
  td_bindings :: "device_binding_row list"
  td_provenance :: "join_provenance_row list"
  td_adoptions :: "adopted_provenance_row list"
  td_identities :: "device_identity_row list"
  td_origins :: "join_origin_row list"
  td_events :: "trust_event_row list"

text \<open>A violated constraint is a conflict where the code maps it.\<close>

fun map_constraint :: "'a state_result \<Rightarrow> 'a state_result" where
  "map_constraint (Inl (StSqlite s)) = Inl (StConflict s)"
| "map_constraint r = r"

lemma map_constraint_Inr [guard_simps]: "map_constraint r = Inr x \<longleftrightarrow> r = Inr x"
  by (cases r rule: map_constraint.cases) auto

text \<open>A successful call committed its transaction; a failed one left the database alone.\<close>

lemma transactional_cases:
  assumes "transactional t db = (a, db')"
  obtains (failed) e where "a = Inl e" "db' = db"
  | (committed) x where "a = Inr x" "t db = Inr (x, db')"
  using assms by (auto simp: transactional_def split: sum.splits prod.splits)

section \<open>Audit events\<close>

definition insert_trust_event :: "trust_event_row \<Rightarrow> trust_db \<Rightarrow> trust_db state_result" where
  "insert_trust_event e db =
     and_then (ensure (list_all (\<lambda>k. tre_event_id k \<noteq> tre_event_id e) (td_events db)) (StSqlite ''UNIQUE''))
       (\<lambda>_. Inr (db\<lparr>td_events := td_events db @ [e]\<rparr>))"

section \<open>Owner roots and trust authorities\<close>

definition since :: "int \<Rightarrow> int option \<Rightarrow> bool" where
  "since start at \<longleftrightarrow> (case at of None \<Rightarrow> True | Some t \<Rightarrow> start \<le> t)"

definition verifier_column :: "string \<Rightarrow> bool" where
  "verifier_column s \<longleftrightarrow>
     90 \<le> length s \<and> length s \<le> 255 \<and> strip_prefix ''$argon2id$v=19$m=19456,t=2,p=1$'' s \<noteq> None"

definition root_check :: "root_row \<Rightarrow> bool" where
  "root_check r \<longleftrightarrow>
     bounded_safe 64 (tr_principal_source r) \<and> bounded_safe 255 (tr_principal_id r) \<and>
     verifier_column (tr_secret_verifier r) \<and> 0 \<le> tr_created_at_ms r \<and>
     since (tr_created_at_ms r) (tr_revoked_at_ms r) \<and> (tr_enabled r \<longrightarrow> tr_revoked_at_ms r = None)"

definition insert_root :: "root_row \<Rightarrow> trust_db \<Rightarrow> trust_db state_result" where
  "insert_root r db =
     and_then (ensure (tr_network_id r \<in> fst ` set (nd_networks (td_n4 db))) (StSqlite ''FOREIGN KEY'')) (\<lambda>_.
     and_then (ensure (root_check r) (StSqlite ''CHECK'')) (\<lambda>_.
     and_then (ensure (list_all (\<lambda>q. tr_trust_root_id q \<noteq> tr_trust_root_id r \<and>
         tr_network_id q \<noteq> tr_network_id r) (td_roots db)) (StSqlite ''UNIQUE'')) (\<lambda>_.
     Inr (db\<lparr>td_roots := td_roots db @ [r]\<rparr>))))"

text \<open>\<^verbatim>\<open>n5_owner_trust_root_immutable\<close>\<close>

definition root_update_ok :: "root_row \<Rightarrow> root_row \<Rightarrow> bool" where
  "root_update_ok old new \<longleftrightarrow>
     tr_trust_root_id new = tr_trust_root_id old \<and> tr_network_id new = tr_network_id old \<and>
     tr_principal_source new = tr_principal_source old \<and> tr_principal_id new = tr_principal_id old \<and>
     tr_secret_verifier new = tr_secret_verifier old \<and> tr_created_at_ms new = tr_created_at_ms old \<and>
     tr_enabled old \<and>
     (tr_revoked_at_ms old \<noteq> None \<longrightarrow> tr_revoked_at_ms new = tr_revoked_at_ms old) \<and> root_check new"

definition update_roots ::
    "(root_row \<Rightarrow> bool) \<Rightarrow> (root_row \<Rightarrow> root_row) \<Rightarrow> trust_db \<Rightarrow> trust_db state_result" where
  "update_roots P f db =
     and_then (update_where P f root_update_ok (td_roots db)) (\<lambda>rs. Inr (db\<lparr>td_roots := rs\<rparr>))"

definition trust_authority_check :: "trust_authority_row \<Rightarrow> bool" where
  "trust_authority_check a \<longleftrightarrow>
     bounded_safe 64 (ta_principal_source a) \<and> bounded_safe 255 (ta_principal_id a) \<and>
     1 \<le> ta_generation a \<and> 0 \<le> ta_not_before_ms a \<and> ta_not_before_ms a < ta_expires_at_ms a \<and>
     since (ta_not_before_ms a) (ta_revoked_at_ms a) \<and> 0 \<le> ta_created_at_ms a \<and>
     (ta_sealed a \<or> \<not> ta_enabled a \<and> ta_revoked_at_ms a = None) \<and>
     (ta_enabled a \<longrightarrow> ta_revoked_at_ms a = None)"

definition active_root :: "TrustRootId \<Rightarrow> NetworkId \<Rightarrow> root_row \<Rightarrow> bool" where
  "active_root i n r \<longleftrightarrow>
     tr_trust_root_id r = i \<and> tr_network_id r = n \<and> tr_enabled r \<and> tr_revoked_at_ms r = None"

definition insert_trust_authority :: "trust_authority_row \<Rightarrow> trust_db \<Rightarrow> trust_db state_result" where
  "insert_trust_authority a db =
     and_then (ensure (list_ex (active_root (ta_trust_root_id a) (ta_network_id a)) (td_roots db))
       (StSqlite ''N5 trust authority requires exact active owner root'')) (\<lambda>_.
     and_then (ensure (trust_authority_check a) (StSqlite ''CHECK'')) (\<lambda>_.
     and_then (ensure (list_all (\<lambda>q. ta_authority_id q \<noteq> ta_authority_id a \<and>
         (ta_network_id q, ta_principal_source q, ta_principal_id q, ta_generation q) \<noteq>
         (ta_network_id a, ta_principal_source a, ta_principal_id a, ta_generation a)) (td_authorities db))
       (StSqlite ''UNIQUE'')) (\<lambda>_.
     Inr (db\<lparr>td_authorities := td_authorities db @ [a]\<rparr>))))"

text \<open>\<^verbatim>\<open>n5_authority_identity_immutable\<close>: an authority is sealed once, and revoked once.\<close>

definition trust_authority_update_ok :: "trust_authority_row \<Rightarrow> trust_authority_row \<Rightarrow> bool" where
  "trust_authority_update_ok old new \<longleftrightarrow>
     ta_authority_id new = ta_authority_id old \<and> ta_trust_root_id new = ta_trust_root_id old \<and>
     ta_network_id new = ta_network_id old \<and> ta_principal_source new = ta_principal_source old \<and>
     ta_principal_id new = ta_principal_id old \<and> ta_generation new = ta_generation old \<and>
     ta_not_before_ms new = ta_not_before_ms old \<and> ta_expires_at_ms new = ta_expires_at_ms old \<and>
     ta_created_at_ms new = ta_created_at_ms old \<and> ta_revoked_at_ms old = None \<and> ta_sealed new \<and>
     (\<not> ta_sealed old \<and> \<not> ta_enabled old \<and> ta_enabled new \<and> ta_revoked_at_ms new = None \<or>
      ta_sealed old \<and> ta_enabled old \<and> \<not> ta_enabled new \<and> ta_revoked_at_ms new \<noteq> None) \<and>
     trust_authority_check new"

definition update_trust_authorities ::
    "(trust_authority_row \<Rightarrow> bool) \<Rightarrow> (trust_authority_row \<Rightarrow> trust_authority_row) \<Rightarrow> trust_db \<Rightarrow>
     trust_db state_result" where
  "update_trust_authorities P f db =
     and_then (update_where P f trust_authority_update_ok (td_authorities db))
       (\<lambda>rs. Inr (db\<lparr>td_authorities := rs\<rparr>))"

text \<open>\<^verbatim>\<open>n5_authority_capability_insert_only_before_seal\<close>\<close>

definition insert_trust_capability ::
    "TrustAuthorityId \<Rightarrow> DeviceTrustCapability \<Rightarrow> trust_db \<Rightarrow> trust_db state_result" where
  "insert_trust_capability i c db =
     and_then (ensure (list_ex (\<lambda>a. ta_authority_id a = i \<and> \<not> ta_sealed a \<and> \<not> ta_enabled a) (td_authorities db))
       (StSqlite ''N5 capabilities must be configured before authority sealing'')) (\<lambda>_.
     and_then (ensure ((i, c) \<notin> set (td_capabilities db)) (StSqlite ''UNIQUE'')) (\<lambda>_.
     Inr (db\<lparr>td_capabilities := td_capabilities db @ [(i, c)]\<rparr>)))"

section \<open>Trust state, authorizations and decisions\<close>

definition trust_state_check :: "trust_state_row \<Rightarrow> bool" where
  "trust_state_check s \<longleftrightarrow>
     1 \<le> trs_revision s \<and> trs_revision s < 2 ^ 63 \<and> 0 \<le> trs_created_at_ms s \<and>
     since (trs_created_at_ms s) (trs_activated_at_ms s) \<and>
     since (trs_created_at_ms s) (trs_revoked_at_ms s) \<and>
     (case trs_state s of
        DTUntrusted \<Rightarrow> trs_activated_at_ms s = None \<and> trs_revoked_at_ms s = None \<and> trs_last_decision s = None
      | DTTrusted \<Rightarrow> trs_activated_at_ms s \<noteq> None \<and> trs_revoked_at_ms s = None \<and> trs_last_decision s \<noteq> None
      | DTRevoked \<Rightarrow> trs_revoked_at_ms s \<noteq> None \<and> trs_last_decision s \<noteq> None)"

definition insert_trust_state :: "trust_state_row \<Rightarrow> trust_db \<Rightarrow> trust_db state_result" where
  "insert_trust_state s db =
     and_then (ensure (trs_device_id s \<in> tri_device_id ` set (td_identities db)) (StSqlite ''FOREIGN KEY'')) (\<lambda>_.
     and_then (ensure (trust_state_check s) (StSqlite ''CHECK'')) (\<lambda>_.
     and_then (ensure (list_all (\<lambda>q. trs_device_id q \<noteq> trs_device_id s) (td_trust db)) (StSqlite ''UNIQUE'')) (\<lambda>_.
     Inr (db\<lparr>td_trust := td_trust db @ [s]\<rparr>))))"

text \<open>An authority that is in force at an instant, for the network and under an active root.\<close>

definition authority_in_force :: "NetworkId \<Rightarrow> int \<Rightarrow> trust_db \<Rightarrow> trust_authority_row \<Rightarrow> bool" where
  "authority_in_force n at db a \<longleftrightarrow>
     ta_network_id a = n \<and> ta_enabled a \<and> ta_sealed a \<and> ta_revoked_at_ms a = None \<and>
     ta_not_before_ms a \<le> at \<and> at < ta_expires_at_ms a \<and>
     list_ex (active_root (ta_trust_root_id a) n) (td_roots db)"

text \<open>\<^verbatim>\<open>n5_trust_authorization_valid\<close>\<close>

definition trust_authorization_valid :: "trust_authorization_row \<Rightarrow> trust_db \<Rightarrow> bool" where
  "trust_authorization_valid z db \<longleftrightarrow>
     list_ex (\<lambda>s. trs_device_id s = trz_device_id z \<and> trs_network_id s = trz_network_id z \<and>
       trs_state s = trz_expected_state z \<and> trs_revision s = trz_expected_revision z) (td_trust db) \<and>
     list_ex (\<lambda>a. ta_authority_id a = trz_authority_id z \<and>
       authority_in_force (trz_network_id z) (trz_issued_at_ms z) db a \<and>
       ta_generation a = trz_authority_generation z \<and> ta_principal_source a = trz_principal_source z \<and>
       ta_principal_id a = trz_principal_id z \<and> trz_expires_at_ms z \<le> ta_expires_at_ms a) (td_authorities db) \<and>
     (trz_authority_id z, trz_capability z) \<in> set (td_capabilities db)"

definition trust_authorization_check :: "trust_authorization_row \<Rightarrow> bool" where
  "trust_authorization_check z \<longleftrightarrow>
     1 \<le> trz_authority_generation z \<and> 1 \<le> trz_expected_revision z \<and>
     trz_capability z \<in> {ActivateDeviceTrust, RevokeDeviceTrust} \<and>
     0 \<le> trz_issued_at_ms z \<and> trz_issued_at_ms z < trz_expires_at_ms z \<and>
     (case trz_consumed_at_ms z of None \<Rightarrow> trz_decision z = None
      | Some at \<Rightarrow> trz_issued_at_ms z \<le> at \<and> at < trz_expires_at_ms z \<and> trz_decision z \<noteq> None)"

definition insert_trust_authorization :: "trust_authorization_row \<Rightarrow> trust_db \<Rightarrow> trust_db state_result" where
  "insert_trust_authorization z db =
     and_then (ensure (trust_authorization_valid z db)
       (StSqlite ''N5 trust authorization lacks current exact authority'')) (\<lambda>_.
     and_then (ensure (trust_authorization_check z) (StSqlite ''CHECK'')) (\<lambda>_.
     and_then (ensure (list_all (\<lambda>q. trz_action_id q \<noteq> trz_action_id z) (td_authorizations db))
       (StSqlite ''UNIQUE'')) (\<lambda>_.
     Inr (db\<lparr>td_authorizations := td_authorizations db @ [z]\<rparr>))))"

text \<open>\<^verbatim>\<open>n5_trust_decision_valid\<close>\<close>

fun decision_capability :: "TrustDecisionKind \<Rightarrow> DeviceTrustCapability" where
  "decision_capability TDActivate = ActivateDeviceTrust"
| "decision_capability TDRevoke = RevokeDeviceTrust"

definition authorizes :: "trust_decision_row \<Rightarrow> trust_authorization_row \<Rightarrow> bool" where
  "authorizes d z \<longleftrightarrow>
     trz_action_id z = trd_action_id d \<and> trz_authority_id z = trd_authority_id d \<and>
     trz_authority_generation z = trd_authority_generation d \<and> trz_device_id z = trd_device_id d \<and>
     trz_network_id z = trd_network_id d \<and> trz_expected_state z = trd_prior_state d \<and>
     trz_expected_revision z = trd_prior_revision d \<and> trz_capability z = decision_capability (trd_kind d) \<and>
     trz_principal_source z = trd_principal_source d \<and> trz_principal_id z = trd_principal_id d \<and>
     trz_consumed_at_ms z = None \<and> trz_decision z = None \<and>
     trz_issued_at_ms z \<le> trd_decided_at_ms d \<and> trd_decided_at_ms d < trz_expires_at_ms z"

definition active_device_binding :: "DeviceId \<Rightarrow> NetworkId \<Rightarrow> device_binding_row \<Rightarrow> bool" where
  "active_device_binding d n b \<longleftrightarrow>
     trb_device_id b = d \<and> trb_network_id b = n \<and> trb_state b = PBActive"

definition trust_decision_valid :: "trust_decision_row \<Rightarrow> trust_db \<Rightarrow> bool" where
  "trust_decision_valid d db \<longleftrightarrow>
     list_ex (\<lambda>s. trs_device_id s = trd_device_id d \<and> trs_network_id s = trd_network_id d \<and>
       trs_state s = trd_prior_state d \<and> trs_revision s = trd_prior_revision d) (td_trust db) \<and>
     list_ex (\<lambda>a. ta_authority_id a = trd_authority_id d \<and>
       authority_in_force (trd_network_id d) (trd_decided_at_ms d) db a \<and>
       ta_generation a = trd_authority_generation d \<and> ta_principal_source a = trd_principal_source d \<and>
       ta_principal_id a = trd_principal_id d) (td_authorities db) \<and>
     (trd_authority_id d, decision_capability (trd_kind d)) \<in> set (td_capabilities db) \<and>
     list_ex (authorizes d) (td_authorizations db) \<and>
     (trd_kind d = TDRevoke \<or>
      list_ex (active_device_binding (trd_device_id d) (trd_network_id d)) (td_bindings db))"

definition trust_decision_check :: "trust_decision_row \<Rightarrow> bool" where
  "trust_decision_check d \<longleftrightarrow>
     0 \<le> trd_decided_at_ms d \<and> 1 \<le> trd_authority_generation d \<and>
     bounded_safe 64 (trd_principal_source d) \<and> bounded_safe 255 (trd_principal_id d) \<and>
     1 \<le> trd_prior_revision d \<and> trd_new_revision d = trd_prior_revision d + 1 \<and>
     trd_new_revision d < 2 ^ 63 \<and> hash_column (trd_digest d) \<and>
     (case trd_kind d of
        TDActivate \<Rightarrow> trd_prior_state d = DTUntrusted \<and> trd_new_state d = DTTrusted
      | TDRevoke \<Rightarrow> trd_prior_state d \<in> {DTUntrusted, DTTrusted} \<and> trd_new_state d = DTRevoked)"

text \<open>\<^verbatim>\<open>n5_trust_authorization_consumption_bound\<close> and \<^verbatim>\<open>n5_trust_state_decision_bound\<close>\<close>

definition consumption_bound ::
    "trust_db \<Rightarrow> trust_authorization_row \<Rightarrow> trust_authorization_row \<Rightarrow> bool" where
  "consumption_bound db old new \<longleftrightarrow>
     new\<lparr>trz_consumed_at_ms := None, trz_decision := None\<rparr> = old \<and>
     list_ex (\<lambda>d. trz_decision new = Some (trd_decision_id d) \<and> trd_action_id d = trz_action_id old \<and>
       trz_consumed_at_ms new = Some (trd_decided_at_ms d)) (td_decisions db) \<and>
     trust_authorization_check new"

definition decision_bound :: "trust_db \<Rightarrow> trust_state_row \<Rightarrow> trust_state_row \<Rightarrow> bool" where
  "decision_bound db old new \<longleftrightarrow>
     trs_device_id new = trs_device_id old \<and> trs_network_id new = trs_network_id old \<and>
     trs_created_at_ms new = trs_created_at_ms old \<and>
     list_ex (\<lambda>d. trs_last_decision new = Some (trd_decision_id d) \<and> trd_device_id d = trs_device_id old \<and>
       trd_network_id d = trs_network_id old \<and> trd_prior_state d = trs_state old \<and>
       trd_new_state d = trs_state new \<and> trd_prior_revision d = trs_revision old \<and>
       trd_new_revision d = trs_revision new \<and>
       (case trd_kind d of
          TDActivate \<Rightarrow> trs_activated_at_ms new = Some (trd_decided_at_ms d) \<and> trs_revoked_at_ms new = None
        | TDRevoke \<Rightarrow> trs_revoked_at_ms new = Some (trd_decided_at_ms d))) (td_decisions db) \<and>
     trust_state_check new"

definition decided_state :: "trust_decision_row \<Rightarrow> trust_state_row \<Rightarrow> trust_state_row" where
  "decided_state d s =
     s\<lparr>trs_state := trd_new_state d, trs_revision := trd_new_revision d,
       trs_activated_at_ms := (if trd_kind d = TDActivate then Some (trd_decided_at_ms d) else trs_activated_at_ms s),
       trs_revoked_at_ms := (if trd_kind d = TDRevoke then Some (trd_decided_at_ms d) else trs_revoked_at_ms s),
       trs_last_decision := Some (trd_decision_id d)\<rparr>"

definition spent_authorization :: "trust_decision_row \<Rightarrow> trust_authorization_row \<Rightarrow> trust_authorization_row" where
  "spent_authorization d z =
     z\<lparr>trz_consumed_at_ms := Some (trd_decided_at_ms d), trz_decision := Some (trd_decision_id d)\<rparr>"

definition decision_event :: "trust_decision_row \<Rightarrow> trust_event_row" where
  "decision_event d =
     \<lparr>tre_event_id = trd_audit d, tre_network_id = trd_network_id d, tre_device_id = Some (trd_device_id d),
      tre_actor = \<lparr>au_source = trd_principal_source d, au_actor_id = Some (trd_principal_id d)\<rparr>,
      tre_event_kind = (if trd_kind d = TDActivate then ''device.trust_activated'' else ''device.trust_revoked''),
      tre_outcome = ''success'', tre_generation = Some (trd_new_revision d)\<rparr>"

text \<open>\<^verbatim>\<open>n5_apply_trust_decision\<close>, which runs after the insertion.\<close>

definition apply_decision_trigger :: "trust_decision_row \<Rightarrow> trust_db \<Rightarrow> trust_db state_result" where
  "apply_decision_trigger d db =
     and_then (insert_trust_event (decision_event d) db) (\<lambda>db.
     and_then (update_where (\<lambda>z. trz_action_id z = trd_action_id d \<and> trz_consumed_at_ms z = None \<and>
         trz_decision z = None) (spent_authorization d) (consumption_bound db) (td_authorizations db)) (\<lambda>zs.
     let db = db\<lparr>td_authorizations := zs\<rparr> in
     and_then (update_where (\<lambda>s. trs_device_id s = trd_device_id d \<and> trs_network_id s = trd_network_id d \<and>
         trs_state s = trd_prior_state d \<and> trs_revision s = trd_prior_revision d)
       (decided_state d) (decision_bound db) (td_trust db)) (\<lambda>ss.
     Inr (db\<lparr>td_trust := ss\<rparr>))))"

definition insert_trust_decision :: "trust_decision_row \<Rightarrow> trust_db \<Rightarrow> trust_db state_result" where
  "insert_trust_decision d db =
     and_then (ensure (trust_decision_valid d db)
       (StSqlite ''N5 trust decision lacks current exact authority or identity'')) (\<lambda>_.
     and_then (ensure (trust_decision_check d) (StSqlite ''CHECK'')) (\<lambda>_.
     and_then (ensure (list_all (\<lambda>q. trd_decision_id q \<noteq> trd_decision_id d \<and> trd_audit q \<noteq> trd_audit d \<and>
         trd_action_id q \<noteq> trd_action_id d \<and>
         (trd_device_id q, trd_new_revision q) \<noteq> (trd_device_id d, trd_new_revision d)) (td_decisions db))
       (StSqlite ''UNIQUE'')) (\<lambda>_.
     apply_decision_trigger d (db\<lparr>td_decisions := td_decisions db @ [d]\<rparr>))))"

section \<open>Identities and provider bindings\<close>

definition insert_identity :: "device_identity_row \<Rightarrow> trust_db \<Rightarrow> trust_db state_result" where
  "insert_identity i db =
     and_then (ensure (tri_device_id i \<in> fst ` set (td_devices db)) (StSqlite ''FOREIGN KEY'')) (\<lambda>_.
     and_then (ensure (0 \<le> tri_confirmed_at_ms i \<and> hash_column (tri_digest i)) (StSqlite ''CHECK'')) (\<lambda>_.
     and_then (ensure (list_all (\<lambda>q. tri_device_id q \<noteq> tri_device_id i \<and> tri_origin q \<noteq> tri_origin i)
         (td_identities db)) (StSqlite ''UNIQUE'')) (\<lambda>_.
     Inr (db\<lparr>td_identities := td_identities db @ [i]\<rparr>))))"

definition insert_join_origin :: "join_origin_row \<Rightarrow> trust_db \<Rightarrow> trust_db state_result" where
  "insert_join_origin o1 db =
     and_then (ensure (list_ex (\<lambda>s. sr_join_session_id s = tro_join_session_id o1 \<and>
         js_device_id (sr_record s) = Some (tro_device_id o1) \<and> sr_network_id s = tro_network_id o1)
         (nd_sessions (td_n4 db)) \<and>
       list_ex (\<lambda>d. dp_join_session_id d = tro_join_session_id o1 \<and> dp_network_id d = tro_network_id o1)
         (nd_dispatches (td_n4 db))) (StSqlite ''FOREIGN KEY'')) (\<lambda>_.
     and_then (ensure (list_all (\<lambda>q. tro_join_session_id q \<noteq> tro_join_session_id o1) (td_origins db))
       (StSqlite ''UNIQUE'')) (\<lambda>_.
     Inr (db\<lparr>td_origins := td_origins db @ [o1]\<rparr>)))"

definition device_binding_check :: "device_binding_row \<Rightarrow> bool" where
  "device_binding_check b \<longleftrightarrow>
     1 \<le> length (node_id_str (trb_provider_node_id b)) \<and> length (node_id_str (trb_provider_node_id b)) \<le> 255 \<and>
     hash_column (trb_machine_key b) \<and> 1 \<le> trb_revision b \<and> trb_revision b < 2 ^ 63 \<and>
     0 \<le> trb_observed_at_ms b \<and>
     since (trb_observed_at_ms b) (trb_stale_at_ms b) \<and> since (trb_observed_at_ms b) (trb_cleanup_at_ms b) \<and>
     since (trb_observed_at_ms b) (trb_removed_at_ms b) \<and>
     (case trb_state b of
        PBActive \<Rightarrow> trb_stale_at_ms b = None \<and> trb_cleanup_at_ms b = None \<and> trb_removed_at_ms b = None
      | PBStale \<Rightarrow> trb_stale_at_ms b \<noteq> None \<and> trb_cleanup_at_ms b = None \<and> trb_removed_at_ms b = None
      | PBCleanupPending \<Rightarrow> trb_cleanup_at_ms b \<noteq> None \<and> trb_removed_at_ms b = None
      | PBRemoved \<Rightarrow> trb_removed_at_ms b \<noteq> None) \<and>
     (if trb_revision b = 1
      then trb_last_audit b = None \<and> trb_actor_source b = None \<and> trb_actor_id b = None
      else trb_last_audit b \<noteq> None \<and>
        (case trb_actor_source b of None \<Rightarrow> False
         | Some s \<Rightarrow> bounded_safe 64 s \<and> (s = ''nodescale'') = (trb_actor_id b = None) \<and>
             (case trb_actor_id b of None \<Rightarrow> True | Some i \<Rightarrow> bounded_safe 255 i)))"

definition active_bindings :: "device_binding_row list \<Rightarrow> device_binding_row list" where
  "active_bindings rows = filter (\<lambda>b. trb_state b = PBActive) rows"

definition device_binding_indexes :: "device_binding_row list \<Rightarrow> bool" where
  "device_binding_indexes rows \<longleftrightarrow>
     distinct (map trb_binding_id rows) \<and> distinct (map trb_device_id rows) \<and>
     distinct (map the (filter (\<lambda>a. a \<noteq> None) (map trb_last_audit rows))) \<and>
     distinct (map (\<lambda>b. (trb_provider_instance_id b, trb_provider_node_id b)) (active_bindings rows)) \<and>
     distinct (map (\<lambda>b. (trb_provider_instance_id b, trb_machine_key b)) (active_bindings rows))"

definition insert_device_binding :: "device_binding_row \<Rightarrow> trust_db \<Rightarrow> trust_db state_result" where
  "insert_device_binding b db =
     and_then (ensure (list_ex (\<lambda>i. tri_device_id i = trb_device_id b \<and> tri_network_id i = trb_network_id b)
         (td_identities db)) (StSqlite ''FOREIGN KEY'')) (\<lambda>_.
     and_then (ensure (device_binding_check b) (StSqlite ''CHECK'')) (\<lambda>_.
     and_then (ensure (device_binding_indexes (td_bindings db @ [b])) (StSqlite ''UNIQUE'')) (\<lambda>_.
     Inr (db\<lparr>td_bindings := td_bindings db @ [b]\<rparr>))))"

text \<open>\<^verbatim>\<open>n5_binding_state_transitions\<close>, as migration 11 leaves it.\<close>

fun binding_transition :: "ProviderBindingState \<Rightarrow> ProviderBindingState \<Rightarrow> bool" where
  "binding_transition PBActive n = (n = PBStale \<or> n = PBCleanupPending)"
| "binding_transition PBStale n = (n = PBActive \<or> n = PBCleanupPending \<or> n = PBRemoved)"
| "binding_transition PBCleanupPending n = (n = PBRemoved)"
| "binding_transition PBRemoved n = False"

definition device_binding_update_ok :: "device_binding_row \<Rightarrow> device_binding_row \<Rightarrow> bool" where
  "device_binding_update_ok old new \<longleftrightarrow>
     trb_revision new = trb_revision old + 1 \<and> trb_last_audit new \<noteq> trb_last_audit old \<and>
     trb_actor_source new \<noteq> None \<and> binding_transition (trb_state old) (trb_state new) \<and>
     device_binding_check new"

definition binding_event :: "device_binding_row \<Rightarrow> trust_event_row" where
  "binding_event b =
     \<lparr>tre_event_id = the (trb_last_audit b), tre_network_id = trb_network_id b,
      tre_device_id = Some (trb_device_id b),
      tre_actor = \<lparr>au_source = the (trb_actor_source b), au_actor_id = trb_actor_id b\<rparr>,
      tre_event_kind = (case trb_state b of
          PBActive \<Rightarrow> ''device.provider_binding_revalidated''
        | PBStale \<Rightarrow> ''device.provider_binding_stale''
        | PBCleanupPending \<Rightarrow> ''device.provider_binding_cleanup_pending''
        | PBRemoved \<Rightarrow> ''device.provider_binding_removed''),
      tre_outcome = ''success'', tre_generation = Some (trb_revision b)\<rparr>"

text \<open>The audit trigger runs once per changed row.\<close>

fun insert_trust_events :: "trust_event_row list \<Rightarrow> trust_db \<Rightarrow> trust_db state_result" where
  "insert_trust_events [] db = Inr db"
| "insert_trust_events (e # es) db = and_then (insert_trust_event e db) (insert_trust_events es)"

definition update_device_bindings ::
    "(device_binding_row \<Rightarrow> bool) \<Rightarrow> (device_binding_row \<Rightarrow> device_binding_row) \<Rightarrow> trust_db \<Rightarrow>
     trust_db state_result" where
  "update_device_bindings P f db =
     and_then (update_where P f device_binding_update_ok (td_bindings db)) (\<lambda>rows.
     and_then (ensure (device_binding_indexes rows) (StSqlite ''UNIQUE'')) (\<lambda>_.
     insert_trust_events (map (\<lambda>b. binding_event (f b)) (filter P (td_bindings db)))
       (db\<lparr>td_bindings := rows\<rparr>)))"

definition insert_join_provenance :: "join_provenance_row \<Rightarrow> trust_db \<Rightarrow> trust_db state_result" where
  "insert_join_provenance p db =
     and_then (ensure
       (list_ex (\<lambda>o1. tro_join_session_id o1 = trp_join_session_id p \<and> tro_device_id o1 = trp_device_id p \<and>
          tro_network_id o1 = trp_network_id p) (td_origins db) \<and>
        list_ex (\<lambda>m. cm_join_session_id m = trp_join_session_id p \<and> cm_credential_id m = trp_credential_id p \<and>
          cm_network_id m = trp_network_id p \<and> cm_provider_instance_id m = trp_provider_instance_id p)
          (nd_metadata (td_n4 db)) \<and>
        list_ex (\<lambda>r. cr_credential_id r = trp_credential_id p \<and> reference_row.cr_network_id r = trp_network_id p \<and>
          cr_provider_instance_id r = trp_provider_instance_id p \<and> cr_provider_reference r = trp_reference p)
          (nd_references (td_n4 db))) (StSqlite ''FOREIGN KEY'')) (\<lambda>_.
     and_then (ensure (list_all (\<lambda>q. trp_binding_id q \<noteq> trp_binding_id p \<and>
         trp_join_session_id q \<noteq> trp_join_session_id p) (td_provenance db)) (StSqlite ''UNIQUE'')) (\<lambda>_.
     Inr (db\<lparr>td_provenance := td_provenance db @ [p]\<rparr>)))"

section \<open>The owner root of a network\<close>

text \<open>\<^verbatim>\<open>verify_n5_owner_root\<close> over the table of roots.\<close>

definition verify_n5_owner_root ::
    "argon_ops \<Rightarrow> OwnerTrustRootToken \<Rightarrow> NetworkId \<Rightarrow> root_row list \<Rightarrow> AuditActor state_result" where
  "verify_n5_owner_root A token n roots =
     and_then (ok_or (find (active_root (ot_trust_root_id token) n) roots)
       (StMutationAuthorizationDenied ''N5 owner trust root is absent or revoked'')) (\<lambda>r.
     and_then (domain_conflict (SecretVerifier_parse A (tr_secret_verifier r))) (\<lambda>verifier.
     and_then (domain_conflict (verify_trust_root A verifier token)) (\<lambda>verified.
     and_then (ensure verified
       (StMutationAuthorizationDenied ''N5 owner trust root capability is invalid'')) (\<lambda>_.
     Inr \<lparr>au_source = tr_principal_source r, au_actor_id = Some (tr_principal_id r)\<rparr>))))"

end
