(* ===== verification/Binding_Tables.thy ===== *)
theory Binding_Tables
  imports Trust_Tables Fleet_Projection
begin

text \<open>
  The tables of the Keryx bindings: \<^verbatim>\<open>n6_binding_records\<close>, challenges, authorizations, reservations,
  operations and decisions, as \<^verbatim>\<open>crates/nodescale-state/migrations/0009_typed_n5_provenance.sql\<close>
  leaves them, the capability grants of \<^verbatim>\<open>0006_keryx_identity_binding.sql\<close>, and the columns of the
  N5 tables, the audit table and the Fleet projections that \<^verbatim>\<open>src/n6.rs\<close> reads.

  Every statement carries the triggers, checks and unique indexes of its table, as predicates over
  the database the statement sees. Identifiers, peers, operations and agent versions are typed, so
  the column checks that only repeat the alphabet of those types are left out, and so are the
  deferred foreign keys of a decision to the rows the same transaction inserts. Audit events of
  this component always carry empty metadata, which is what the decision trigger asks for. An
  instant is a count of milliseconds in the range of \<^verbatim>\<open>chrono\<close>, so reading it back never fails.
\<close>

section \<open>Rows\<close>

datatype challenge_state = ChPending | ChConsumed | ChInvalidated | ChExpired
datatype authorization_state = AzPending | AzConsumed | AzExpired | AzInvalidated
datatype reservation_state = RzReserved | RzIssued | RzAbandoned

fun challenge_state_str :: "challenge_state \<Rightarrow> string" where
  "challenge_state_str ChPending = ''pending''"
| "challenge_state_str ChConsumed = ''consumed''"
| "challenge_state_str ChInvalidated = ''invalidated''"
| "challenge_state_str ChExpired = ''expired''"

record keryx_row =
  bi_binding_id :: KeryxBindingId
  bi_network_id :: NetworkId
  bi_device_id :: DeviceId
  bi_provider_binding_id :: ProviderBindingId
  bi_verified_peer_id :: "KeryxPeerId option"
  bi_generation :: int
  bi_revision :: int
  bi_state :: KeryxBindingState
  bi_created_at_ms :: int
  bi_confirmed_at_ms :: "int option"
  bi_stale_at_ms :: "int option"
  bi_rotated_at_ms :: "int option"
  bi_revoked_at_ms :: "int option"
  bi_last_verified_at_ms :: "int option"
  bi_rotated_from :: "KeryxBindingId option"
  bi_rotation_authorization :: "KeryxBindingAuthorizationId option"
  bi_agent_version :: AgentVersion
  bi_last_decision :: KeryxBindingDecisionId
  bi_last_audit :: AuditEventId

record challenge_row =
  ch_challenge_id :: KeryxBindingChallengeId
  ch_binding_id :: KeryxBindingId
  ch_network_id :: NetworkId
  ch_device_id :: DeviceId
  ch_expected_peer :: KeryxPeerId
  ch_generation :: int
  ch_verifier :: string
  ch_state :: challenge_state
  ch_issued_at_ms :: int
  ch_expires_at_ms :: int
  ch_consumed_at_ms :: "int option"
  ch_invalidated_at_ms :: "int option"
  ch_expired_at_ms :: "int option"
  ch_consumed_operation :: "OperationId option"
  ch_consumed_peer :: "KeryxPeerId option"
  ch_agent_version :: AgentVersion
  ch_last_decision :: KeryxBindingDecisionId
  ch_last_audit :: AuditEventId

record authorization_row =
  az_authorization_id :: KeryxBindingAuthorizationId
  az_authority_id :: TrustAuthorityId
  az_binding_id :: KeryxBindingId
  az_network_id :: NetworkId
  az_device_id :: DeviceId
  az_generation :: int
  az_expected_revision :: int
  az_action :: KeryxBindingAuthorizationCapability
  az_actor :: AuditActor
  az_issued_at_ms :: int
  az_expires_at_ms :: int
  az_issued_decision :: KeryxBindingDecisionId
  az_issued_audit :: AuditEventId
  az_state :: authorization_state
  az_consumed_at_ms :: "int option"
  az_consumed_decision :: "KeryxBindingDecisionId option"
  az_consumed_audit :: "AuditEventId option"

record n6_reservation_row =
  rz_reservation_id :: string
  rz_binding_id :: KeryxBindingId
  rz_network_id :: NetworkId
  rz_device_id :: DeviceId
  rz_expected_peer :: KeryxPeerId
  rz_operation_id :: OperationId
  rz_fingerprint :: string
  rz_generation :: int
  rz_expires_at_ms :: int
  rz_agent_version :: AgentVersion
  rz_state :: reservation_state
  rz_reserved_at_ms :: int
  rz_issued_at_ms :: "int option"
  rz_abandoned_at_ms :: "int option"
  rz_challenge_id :: "KeryxBindingChallengeId option"

record control_row =
  op_peer :: KeryxPeerId
  op_operation_id :: OperationId
  op_fingerprint :: string
  op_binding_id :: KeryxBindingId
  op_challenge_id :: KeryxBindingChallengeId
  op_completed_at_ms :: int
  op_decision :: KeryxBindingDecisionId
  op_audit :: AuditEventId

record n6_decision_row =
  bd_decision_id :: KeryxBindingDecisionId
  bd_audit :: AuditEventId
  bd_subject :: string
  bd_kind :: string
  bd_binding_id :: KeryxBindingId
  bd_challenge_id :: "KeryxBindingChallengeId option"
  bd_authorization_id :: "KeryxBindingAuthorizationId option"
  bd_network_id :: NetworkId
  bd_device_id :: DeviceId
  bd_generation :: int
  bd_prior_state :: "string option"
  bd_new_state :: string
  bd_prior_revision :: "int option"
  bd_new_revision :: int
  bd_decided_at_ms :: int
  bd_actor :: AuditActor
  bd_reason :: string
  bd_peer :: "KeryxPeerId option"
  bd_operation :: "OperationId option"
  bd_agent_version :: AgentVersion

record grant_row =
  gc_grant_id :: string
  gc_authority_id :: TrustAuthorityId
  gc_capability :: KeryxBindingAuthorizationCapability
  gc_issued_by :: AuditActor
  gc_issued_at_ms :: int
  gc_audit :: AuditEventId

record provider_binding_row =
  pb_binding_id :: ProviderBindingId
  pb_device_id :: DeviceId
  pb_network_id :: NetworkId
  pb_provenance_kind :: string
  pb_n4_provenance :: "ProviderBindingId option"
  pb_adoption_provenance :: "ProviderBindingId option"

record n4_provenance_row =
  jp_binding_id :: ProviderBindingId
  jp_device_id :: DeviceId
  jp_network_id :: NetworkId
  jp_identity_origin :: string
  jp_join_session_id :: JoinSessionId

record adoption_provenance_row =
  xp_binding_id :: ProviderBindingId
  xp_device_id :: DeviceId
  xp_network_id :: NetworkId
  xp_identity_origin :: string

record identity_row =
  di_device_id :: DeviceId
  di_network_id :: NetworkId
  di_n4_origin :: "string option"
  di_adoption_origin :: "string option"

record adoption_origin_row =
  xo_origin_id :: string
  xo_device_id :: DeviceId
  xo_network_id :: NetworkId

record n6_event_row =
  na_event_id :: AuditEventId
  na_network_id :: NetworkId
  na_device_id :: "DeviceId option"
  na_actor :: AuditActor
  na_event_kind :: string
  na_outcome :: string
  na_generation :: int

record binding_db =
  bx_records :: "keryx_row list"
  bx_challenges :: "challenge_row list"
  bx_authorizations :: "authorization_row list"
  bx_reservations :: "n6_reservation_row list"
  bx_operations :: "control_row list"
  bx_decisions :: "n6_decision_row list"
  bx_grants :: "grant_row list"
  bx_events :: "n6_event_row list"
  bx_authorities :: "trust_authority_row list"
  bx_roots :: "root_row list"
  bx_provider_bindings :: "provider_binding_row list"
  bx_n4_provenance :: "n4_provenance_row list"
  bx_adoption_provenance :: "adoption_provenance_row list"
  bx_identities :: "identity_row list"
  bx_adoption_origins :: "adoption_origin_row list"
  bx_projections :: "projection_row list"

text \<open>\<^verbatim>\<open>x = y\<close> of SQL on columns that may be NULL.\<close>

definition sql_eq :: "'a option \<Rightarrow> 'a option \<Rightarrow> bool" where
  "sql_eq x y \<longleftrightarrow> x \<noteq> None \<and> x = y"

lemma sql_eq_Some [simp]: "sql_eq (Some x) y \<longleftrightarrow> y = Some x" "sql_eq y (Some x) \<longleftrightarrow> y = Some x"
  by (auto simp: sql_eq_def)

definition action_str :: "KeryxBindingAuthorizationCapability \<Rightarrow> string" where
  "action_str c = (case c of KCRotate \<Rightarrow> ''rotate'' | KCRevoke \<Rightarrow> ''revoke'')"

lemma action_str_inject [simp]: "action_str c = action_str d \<longleftrightarrow> c = d"
  by (cases c; cases d) (simp_all add: action_str_def)

lemma binding_state_str_inject [simp]: "KeryxBindingState_str s = KeryxBindingState_str t \<longleftrightarrow> s = t"
  by (cases s; cases t) simp_all

lemma challenge_state_str_inject [simp]: "challenge_state_str s = challenge_state_str t \<longleftrightarrow> s = t"
  by (cases s; cases t) simp_all

section \<open>Decisions\<close>

text \<open>The event and outcome the trigger \<^verbatim>\<open>n6_decision_exact_provenance\<close> asks for.\<close>

definition decision_events :: "((string \<times> string) \<times> (string \<times> string)) list" where
  "decision_events =
     [((''binding'', ''issue''), (''keryx_binding_pending'', ''success'')),
      ((''challenge'', ''issue''), (''keryx_binding_nonce_issued'', ''success'')),
      ((''challenge'', ''confirm''), (''keryx_binding_attempted'', ''success'')),
      ((''binding'', ''confirm''), (''keryx_binding_confirmed'', ''success'')),
      ((''binding'', ''replay''), (''keryx_binding_replay'', ''idempotent'')),
      ((''challenge'', ''replay''), (''keryx_binding_replay'', ''idempotent'')),
      ((''binding'', ''conflict''), (''keryx_binding_conflict'', ''rejected'')),
      ((''challenge'', ''conflict''), (''keryx_binding_conflict'', ''rejected'')),
      ((''binding'', ''stale''), (''keryx_binding_staled'', ''success'')),
      ((''binding'', ''rotate''), (''keryx_binding_rotated'', ''success'')),
      ((''binding'', ''revoke''), (''keryx_binding_revoked'', ''success'')),
      ((''challenge'', ''expire''), (''keryx_binding_nonce_expired'', ''success'')),
      ((''challenge'', ''invalidate''), (''keryx_binding_nonce_invalidated'', ''success'')),
      ((''authorization'', ''issue''), (''keryx_binding_authorization_issued'', ''success'')),
      ((''authorization'', ''expire''), (''keryx_binding_authorization_expired'', ''success'')),
      ((''authorization'', ''invalidate''), (''keryx_binding_authorization_invalidated'', ''success''))]"

definition decision_provenance :: "n6_decision_row \<Rightarrow> binding_db \<Rightarrow> bool" where
  "decision_provenance d db \<longleftrightarrow>
     list_ex (\<lambda>i. di_device_id i = bd_device_id d \<and> di_network_id i = bd_network_id d) (bx_identities db) \<and>
     list_ex (\<lambda>e. na_event_id e = bd_audit d \<and> na_network_id e = bd_network_id d \<and>
       na_device_id e = Some (bd_device_id d) \<and> na_actor e = bd_actor d \<and>
       na_generation e = bd_generation d \<and>
       map_of decision_events (bd_subject d, bd_kind d) = Some (na_event_kind e, na_outcome e))
       (bx_events db)"

text \<open>The CHECKs on a decision: the kinds of a subject, its references, revisions and states.\<close>

definition actor_check :: "AuditActor \<Rightarrow> bool" where
  "actor_check a \<longleftrightarrow> (au_source a = ''nodescale'') = (au_actor_id a = None)"

definition decision_references :: "n6_decision_row \<Rightarrow> bool" where
  "decision_references d \<longleftrightarrow>
     (if bd_subject d = ''binding''
      then (bd_kind d = ''confirm'') = (bd_challenge_id d \<noteq> None) \<and>
        (bd_authorization_id d = None \<or> bd_kind d \<in> {''rotate'', ''revoke''})
      else if bd_subject d = ''challenge''
      then bd_challenge_id d \<noteq> None \<and> bd_authorization_id d = None
      else bd_challenge_id d = None \<and> bd_authorization_id d \<noteq> None)"

definition decision_revisions :: "n6_decision_row \<Rightarrow> bool" where
  "decision_revisions d \<longleftrightarrow>
     (if bd_kind d = ''issue''
      then bd_prior_state d = None \<and> bd_prior_revision d = None \<and> bd_new_state d = ''pending'' \<and>
        bd_new_revision d = 1
      else if bd_kind d \<in> {''replay'', ''conflict''}
      then bd_prior_state d = Some (bd_new_state d) \<and> bd_prior_revision d = Some (bd_new_revision d)
      else bd_prior_state d \<noteq> None \<and> bd_prior_revision d = Some (bd_new_revision d - 1)) \<and>
     (case bd_prior_revision d of None \<Rightarrow> True | Some n \<Rightarrow> 1 \<le> n) \<and>
     1 \<le> bd_new_revision d \<and> bd_new_revision d < 2 ^ 63"

definition first_settlement :: "n6_decision_row \<Rightarrow> bool" where
  "first_settlement d \<longleftrightarrow>
     bd_prior_state d = Some ''pending'' \<and> bd_prior_revision d = Some 1 \<and> bd_new_revision d = 2"

definition binding_decision :: "n6_decision_row \<Rightarrow> bool" where
  "binding_decision d \<longleftrightarrow>
     (bd_kind d = ''issue'' \<and> bd_new_state d = ''pending'') \<or>
     (bd_kind d = ''confirm'' \<and> first_settlement d \<and> bd_new_state d = ''active'') \<or>
     (bd_kind d = ''stale'' \<and> bd_prior_state d = Some ''active'' \<and> bd_new_state d = ''stale'') \<or>
     (bd_kind d = ''rotate'' \<and> bd_prior_state d \<in> {Some ''active'', Some ''stale''} \<and>
        bd_new_state d = ''rotated'') \<or>
     (bd_kind d = ''revoke'' \<and> bd_prior_state d \<in> {Some ''pending'', Some ''active'', Some ''stale''} \<and>
        bd_new_state d = ''revoked'') \<or>
     (bd_kind d \<in> {''replay'', ''conflict''} \<and> bd_prior_state d \<in>
        {Some ''pending'', Some ''active'', Some ''stale'', Some ''rotated'', Some ''revoked''})"

definition challenge_decision :: "n6_decision_row \<Rightarrow> bool" where
  "challenge_decision d \<longleftrightarrow>
     (bd_kind d = ''issue'' \<and> bd_new_state d = ''pending'') \<or>
     (bd_kind d = ''confirm'' \<and> first_settlement d \<and> bd_new_state d = ''consumed'') \<or>
     (bd_kind d = ''expire'' \<and> first_settlement d \<and> bd_new_state d = ''expired'') \<or>
     (bd_kind d = ''invalidate'' \<and> first_settlement d \<and> bd_new_state d = ''invalidated'') \<or>
     (bd_kind d \<in> {''replay'', ''conflict''} \<and> bd_prior_state d \<in>
        {Some ''pending'', Some ''consumed'', Some ''invalidated'', Some ''expired''})"

definition authorization_decision :: "n6_decision_row \<Rightarrow> bool" where
  "authorization_decision d \<longleftrightarrow>
     (bd_kind d = ''issue'' \<and> bd_new_state d = ''pending'') \<or>
     (bd_kind d = ''expire'' \<and> bd_prior_state d = Some ''pending'' \<and> bd_new_state d = ''expired'') \<or>
     (bd_kind d = ''invalidate'' \<and> bd_prior_state d = Some ''pending'' \<and> bd_new_state d = ''invalidated'')"

definition n6_decision_check :: "n6_decision_row \<Rightarrow> bool" where
  "n6_decision_check d \<longleftrightarrow>
     1 \<le> bd_generation d \<and> 0 \<le> bd_decided_at_ms d \<and> actor_check (bd_actor d) \<and>
     decision_references d \<and> decision_revisions d \<and>
     ((bd_subject d = ''binding'' \<and> binding_decision d) \<or>
      (bd_subject d = ''challenge'' \<and> challenge_decision d) \<or>
      (bd_subject d = ''authorization'' \<and> authorization_decision d))"

text \<open>\<^verbatim>\<open>n6_decision_live_subject_fence\<close>: the subject is in the state the decision starts from.\<close>

definition challenge_subject :: "n6_decision_row \<Rightarrow> challenge_row \<Rightarrow> bool" where
  "challenge_subject d c \<longleftrightarrow>
     bd_challenge_id d = Some (ch_challenge_id c) \<and> ch_binding_id c = bd_binding_id d \<and>
     ch_network_id c = bd_network_id d \<and> ch_device_id c = bd_device_id d"

definition live_challenge :: "n6_decision_row \<Rightarrow> challenge_row \<Rightarrow> bool" where
  "live_challenge d c \<longleftrightarrow>
     challenge_subject d c \<and> ch_state c = ChPending \<and> bd_prior_state d = Some ''pending'' \<and>
     bd_prior_revision d = Some 1 \<and>
     ((bd_kind d = ''confirm'' \<and> ch_issued_at_ms c \<le> bd_decided_at_ms d \<and>
         bd_decided_at_ms d < ch_expires_at_ms c) \<or>
      (bd_kind d = ''expire'' \<and> ch_expires_at_ms c \<le> bd_decided_at_ms d) \<or>
      (bd_kind d = ''invalidate'' \<and> ch_issued_at_ms c \<le> bd_decided_at_ms d \<and>
         bd_actor d = AuditActor_system))"

definition conflict_challenge :: "n6_decision_row \<Rightarrow> challenge_row \<Rightarrow> bool" where
  "conflict_challenge d c \<longleftrightarrow>
     challenge_subject d c \<and> bd_prior_state d = Some (challenge_state_str (ch_state c)) \<and>
     bd_new_state d = challenge_state_str (ch_state c) \<and>
     bd_prior_revision d = Some (if ch_state c = ChPending then 1 else 2) \<and>
     bd_prior_revision d = Some (bd_new_revision d)"

definition live_authorization :: "n6_decision_row \<Rightarrow> authorization_row \<Rightarrow> bool" where
  "live_authorization d z \<longleftrightarrow>
     bd_authorization_id d = Some (az_authorization_id z) \<and> az_binding_id z = bd_binding_id d \<and>
     az_network_id z = bd_network_id d \<and> az_device_id z = bd_device_id d \<and> az_state z = AzPending \<and>
     bd_prior_state d = Some ''pending'' \<and> bd_prior_revision d = Some (az_expected_revision z) \<and>
     ((bd_kind d = ''expire'' \<and> az_expires_at_ms z \<le> bd_decided_at_ms d \<and> bd_actor d = az_actor z) \<or>
      (bd_kind d = ''invalidate'' \<and> az_issued_at_ms z \<le> bd_decided_at_ms d \<and>
         (bd_actor d = az_actor z \<or> bd_actor d = AuditActor_system)))"

definition live_binding :: "n6_decision_row \<Rightarrow> keryx_row \<Rightarrow> bool" where
  "live_binding d b \<longleftrightarrow>
     bi_binding_id b = bd_binding_id d \<and> bi_network_id b = bd_network_id d \<and>
     bi_generation b = bd_generation d \<and> bd_prior_state d = Some (KeryxBindingState_str (bi_state b)) \<and>
     bd_prior_revision d = Some (bi_revision b)"

definition live_subject :: "n6_decision_row \<Rightarrow> binding_db \<Rightarrow> bool" where
  "live_subject d db \<longleftrightarrow>
     (bd_subject d = ''challenge'' \<and> bd_kind d \<in> {''confirm'', ''expire'', ''invalidate''} \<longrightarrow>
        list_ex (live_challenge d) (bx_challenges db)) \<and>
     (bd_subject d = ''challenge'' \<and> bd_kind d = ''conflict'' \<longrightarrow>
        list_ex (conflict_challenge d) (bx_challenges db)) \<and>
     (bd_subject d = ''authorization'' \<and> bd_kind d \<in> {''expire'', ''invalidate''} \<longrightarrow>
        list_ex (live_authorization d) (bx_authorizations db)) \<and>
     (bd_subject d = ''binding'' \<and> bd_kind d \<noteq> ''issue'' \<longrightarrow>
        list_ex (live_binding d) (bx_records db))"

text \<open>A challenge consumed by the peer and operation of the decision, with its own decision.\<close>

definition consumed_by :: "n6_decision_row \<Rightarrow> binding_db \<Rightarrow> challenge_row \<Rightarrow> bool" where
  "consumed_by d db c \<longleftrightarrow>
     challenge_subject d c \<and> ch_generation c = bd_generation d \<and> ch_state c = ChConsumed \<and>
     sql_eq (ch_consumed_peer c) (bd_peer d) \<and> sql_eq (ch_consumed_operation c) (bd_operation d) \<and>
     (case ch_consumed_at_ms c of None \<Rightarrow> False | Some at \<Rightarrow> at \<le> bd_decided_at_ms d) \<and>
     list_ex (\<lambda>k. bd_decision_id k = ch_last_decision c \<and> bd_audit k = ch_last_audit c \<and>
       bd_subject k = ''challenge'' \<and> bd_kind k = ''confirm'' \<and> bd_binding_id k = ch_binding_id c \<and>
       bd_challenge_id k = Some (ch_challenge_id c) \<and> bd_network_id k = ch_network_id c \<and>
       bd_device_id k = ch_device_id c \<and> bd_generation k = ch_generation c \<and>
       first_settlement k \<and> bd_new_state k = ''consumed'' \<and>
       ch_consumed_at_ms c = Some (bd_decided_at_ms k) \<and> sql_eq (bd_peer k) (ch_consumed_peer c) \<and>
       sql_eq (bd_operation k) (ch_consumed_operation c) \<and> bd_agent_version k = ch_agent_version c)
       (bx_decisions db)"

definition confirmation_backed :: "n6_decision_row \<Rightarrow> binding_db \<Rightarrow> bool" where
  "confirmation_backed d db \<longleftrightarrow>
     list_ex (\<lambda>c. consumed_by d db c \<and>
       list_ex (\<lambda>e. na_event_id e = ch_last_audit c \<and> na_network_id e = ch_network_id c \<and>
         na_device_id e = Some (ch_device_id c) \<and> na_generation e = ch_generation c) (bx_events db))
       (bx_challenges db)"

definition replay_backed :: "n6_decision_row \<Rightarrow> binding_db \<Rightarrow> bool" where
  "replay_backed d db \<longleftrightarrow>
     list_ex (\<lambda>c. consumed_by d db c \<and> ch_agent_version c = bd_agent_version d \<and>
       bd_prior_state d = Some ''consumed'' \<and> bd_new_state d = ''consumed'' \<and>
       bd_prior_revision d = Some 2 \<and> bd_new_revision d = 2) (bx_challenges db)"

definition insert_n6_decision_row :: "n6_decision_row \<Rightarrow> binding_db \<Rightarrow> binding_db state_result" where
  "insert_n6_decision_row d db =
     and_then (ensure (decision_provenance d db)
       (StConflict ''N6 decision requires exact N5 identity, semantic audit, and public metadata'')) (\<lambda>_.
     and_then (ensure (live_subject d db)
       (StConflict ''N6 success decision requires an exact live subject state and revision'')) (\<lambda>_.
     and_then (ensure (bd_subject d = ''binding'' \<and> bd_kind d = ''confirm'' \<longrightarrow> confirmation_backed d db)
       (StConflict ''N6 binding confirmation requires one exact consumed challenge provenance'')) (\<lambda>_.
     and_then (ensure (bd_subject d = ''challenge'' \<and> bd_kind d = ''replay'' \<longrightarrow> replay_backed d db)
       (StConflict ''N6 replay decision requires one exact consumed challenge provenance'')) (\<lambda>_.
     and_then (ensure (n6_decision_check d) (StConflict ''CHECK'')) (\<lambda>_.
     and_then (ensure (list_all (\<lambda>k. bd_decision_id k \<noteq> bd_decision_id d \<and> bd_audit k \<noteq> bd_audit d)
       (bx_decisions db)) (StConflict ''UNIQUE'')) (\<lambda>_.
     Inr (db\<lparr>bx_decisions := bx_decisions db @ [d]\<rparr>)))))))"

definition insert_n6_event :: "n6_event_row \<Rightarrow> binding_db \<Rightarrow> binding_db state_result" where
  "insert_n6_event e db =
     and_then (ensure (list_all (\<lambda>k. na_event_id k \<noteq> na_event_id e) (bx_events db))
       (StSqlite ''UNIQUE'')) (\<lambda>_.
     Inr (db\<lparr>bx_events := bx_events db @ [e]\<rparr>))"

section \<open>Binding records\<close>

definition record_shape :: "keryx_row \<Rightarrow> bool" where
  "record_shape r \<longleftrightarrow>
     (case bi_state r of
        KBPending \<Rightarrow> bi_verified_peer_id r = None \<and> bi_confirmed_at_ms r = None \<and> bi_stale_at_ms r = None \<and>
          bi_rotated_at_ms r = None \<and> bi_revoked_at_ms r = None \<and> bi_last_verified_at_ms r = None
      | KBActive \<Rightarrow> bi_verified_peer_id r \<noteq> None \<and> bi_stale_at_ms r = None \<and>
          bi_rotated_at_ms r = None \<and> bi_revoked_at_ms r = None \<and>
          (case (bi_confirmed_at_ms r, bi_last_verified_at_ms r) of
             (Some c, Some v) \<Rightarrow> c \<le> v | _ \<Rightarrow> False)
      | KBStale \<Rightarrow> bi_verified_peer_id r \<noteq> None \<and> bi_rotated_at_ms r = None \<and> bi_revoked_at_ms r = None \<and>
          (case (bi_confirmed_at_ms r, bi_last_verified_at_ms r, bi_stale_at_ms r) of
             (Some c, Some v, Some s) \<Rightarrow> c \<le> v \<and> v \<le> s | _ \<Rightarrow> False)
      | KBRotated \<Rightarrow> bi_verified_peer_id r \<noteq> None \<and> bi_revoked_at_ms r = None \<and>
          (case (bi_confirmed_at_ms r, bi_last_verified_at_ms r, bi_rotated_at_ms r) of
             (Some c, Some v, Some t) \<Rightarrow> c \<le> v \<and>
               (case bi_stale_at_ms r of None \<Rightarrow> v \<le> t | Some s \<Rightarrow> v \<le> s \<and> s \<le> t)
           | _ \<Rightarrow> False)
      | KBRevoked \<Rightarrow> bi_rotated_at_ms r = None \<and>
          (case bi_revoked_at_ms r of None \<Rightarrow> False | Some t \<Rightarrow>
             (bi_verified_peer_id r = None \<and> bi_confirmed_at_ms r = None \<and>
                bi_last_verified_at_ms r = None \<and> bi_stale_at_ms r = None) \<or>
             (bi_verified_peer_id r \<noteq> None \<and>
                (case (bi_confirmed_at_ms r, bi_last_verified_at_ms r) of
                   (Some c, Some v) \<Rightarrow> c \<le> v \<and>
                     (case bi_stale_at_ms r of None \<Rightarrow> v \<le> t | Some s \<Rightarrow> v \<le> s \<and> s \<le> t)
                 | _ \<Rightarrow> False))))"

definition not_before :: "int \<Rightarrow> int option \<Rightarrow> bool" where
  "not_before start m \<longleftrightarrow> (case m of None \<Rightarrow> True | Some n \<Rightarrow> start \<le> n)"

definition record_check :: "keryx_row \<Rightarrow> bool" where
  "record_check r \<longleftrightarrow>
     1 \<le> bi_generation r \<and> bi_generation r < 2 ^ 63 \<and> 1 \<le> bi_revision r \<and> bi_revision r < 2 ^ 63 \<and>
     0 \<le> bi_created_at_ms r \<and> not_before (bi_created_at_ms r) (bi_confirmed_at_ms r) \<and>
     not_before (bi_created_at_ms r) (bi_stale_at_ms r) \<and>
     not_before (bi_created_at_ms r) (bi_rotated_at_ms r) \<and>
     not_before (bi_created_at_ms r) (bi_revoked_at_ms r) \<and>
     not_before (bi_created_at_ms r) (bi_last_verified_at_ms r) \<and>
     (bi_generation r = 1) = (bi_rotated_from r = None) \<and>
     (bi_generation r = 1) = (bi_rotation_authorization r = None) \<and> record_shape r"

text \<open>The primary key and the unique indexes.\<close>

definition is_active :: "keryx_row \<Rightarrow> bool" where
  "is_active r \<longleftrightarrow> bi_state r = KBActive"

definition record_indexes :: "keryx_row list \<Rightarrow> bool" where
  "record_indexes rows \<longleftrightarrow>
     distinct (map bi_binding_id rows) \<and> distinct (map bi_last_decision rows) \<and>
     distinct (map bi_last_audit rows) \<and>
     distinct (map (\<lambda>r. (bi_network_id r, bi_device_id r, bi_generation r)) rows) \<and>
     distinct (map bi_device_id (filter is_active rows)) \<and>
     distinct (map (\<lambda>r. (bi_network_id r, bi_verified_peer_id r)) (filter is_active rows))"

definition live_states :: "KeryxBindingAuthorizationCapability \<Rightarrow> KeryxBindingState list" where
  "live_states c = (case c of KCRotate \<Rightarrow> [KBActive, KBStale] | KCRevoke \<Rightarrow> [KBPending, KBActive, KBStale])"

definition authority_open :: "trust_authority_row \<Rightarrow> bool" where
  "authority_open a \<longleftrightarrow> ta_sealed a \<and> ta_enabled a \<and> ta_revoked_at_ms a = None"

definition issue_backed :: "keryx_row \<Rightarrow> binding_db \<Rightarrow> bool" where
  "issue_backed r db \<longleftrightarrow>
     list_ex (\<lambda>i. pb_binding_id i = bi_provider_binding_id r \<and> pb_device_id i = bi_device_id r \<and>
       pb_network_id i = bi_network_id r) (bx_provider_bindings db) \<and>
     list_ex (\<lambda>d. bd_decision_id d = bi_last_decision r \<and> bd_audit d = bi_last_audit r \<and>
       bd_subject d = ''binding'' \<and> bd_kind d = ''issue'' \<and> bd_binding_id d = bi_binding_id r \<and>
       bd_network_id d = bi_network_id r \<and> bd_device_id d = bi_device_id r \<and>
       bd_generation d = bi_generation r \<and> bd_new_state d = ''pending'' \<and>
       bd_new_revision d = bi_revision r \<and> bd_decided_at_ms d = bi_created_at_ms r \<and>
       bd_agent_version d = bi_agent_version r) (bx_decisions db)"

text \<open>The predecessor and the open authorization a successor is inserted under.\<close>

definition succeeds :: "keryx_row \<Rightarrow> binding_db \<Rightarrow> keryx_row \<Rightarrow> authorization_row \<Rightarrow> bool" where
  "succeeds r db p z \<longleftrightarrow>
     bi_rotated_from r = Some (bi_binding_id p) \<and> bi_network_id p = bi_network_id r \<and>
     bi_device_id p = bi_device_id r \<and> bi_generation p = bi_generation r - 1 \<and>
     bi_state p \<in> {KBActive, KBStale} \<and>
     bi_rotation_authorization r = Some (az_authorization_id z) \<and> az_binding_id z = bi_binding_id p \<and>
     az_network_id z = bi_network_id p \<and> az_device_id z = bi_device_id p \<and>
     az_generation z = bi_generation p \<and> az_expected_revision z = bi_revision p \<and>
     az_action z = KCRotate \<and> az_state z = AzPending \<and>
     list_ex (\<lambda>a. ta_authority_id a = az_authority_id z \<and> ta_network_id a = bi_network_id r \<and>
       authority_open a) (bx_authorities db)"

definition insert_keryx_row :: "keryx_row \<Rightarrow> binding_db \<Rightarrow> binding_db state_result" where
  "insert_keryx_row r db =
     and_then (ensure (bi_state r = KBPending \<and> bi_revision r = 1 \<and> issue_backed r db \<and>
         (1 < bi_generation r \<longrightarrow>
           list_ex (\<lambda>p. list_ex (succeeds r db p) (bx_authorizations db)) (bx_records db)))
       (StSqlite ''N6 successor binding requires one exact open rotate authorization'')) (\<lambda>_.
     and_then (ensure (record_check r) (StSqlite ''CHECK'')) (\<lambda>_.
     and_then (ensure (record_indexes (bx_records db @ [r])) (StSqlite ''UNIQUE'')) (\<lambda>_.
     Inr (db\<lparr>bx_records := bx_records db @ [r]\<rparr>))))"

text \<open>\<^verbatim>\<open>n6_binding_transition_guard\<close>.\<close>

definition keeps_column :: "'a option \<Rightarrow> 'a option \<Rightarrow> bool" where
  "keeps_column old new \<longleftrightarrow> old = None \<or> new = old"

definition record_immutable :: "keryx_row \<Rightarrow> keryx_row \<Rightarrow> bool" where
  "record_immutable old new \<longleftrightarrow>
     bi_binding_id new = bi_binding_id old \<and> bi_network_id new = bi_network_id old \<and>
     bi_device_id new = bi_device_id old \<and> bi_generation new = bi_generation old \<and>
     bi_created_at_ms new = bi_created_at_ms old \<and>
     keeps_column (bi_verified_peer_id old) (bi_verified_peer_id new) \<and>
     keeps_column (bi_confirmed_at_ms old) (bi_confirmed_at_ms new) \<and>
     keeps_column (bi_last_verified_at_ms old) (bi_last_verified_at_ms new) \<and>
     keeps_column (bi_stale_at_ms old) (bi_stale_at_ms new) \<and>
     (bi_stale_at_ms old = None \<and> bi_stale_at_ms new \<noteq> None \<longrightarrow>
        bi_state old = KBActive \<and> bi_state new = KBStale) \<and>
     keeps_column (bi_rotated_at_ms old) (bi_rotated_at_ms new) \<and>
     keeps_column (bi_revoked_at_ms old) (bi_revoked_at_ms new) \<and>
     bi_rotated_from new = bi_rotated_from old \<and>
     bi_rotation_authorization new = bi_rotation_authorization old \<and>
     bi_revision new = bi_revision old + 1 \<and> bi_last_decision new \<noteq> bi_last_decision old \<and>
     bi_last_audit new \<noteq> bi_last_audit old"

fun record_transition :: "KeryxBindingState \<Rightarrow> KeryxBindingState \<Rightarrow> bool" where
  "record_transition KBPending n = (n = KBActive \<or> n = KBRevoked)"
| "record_transition KBActive n = (n = KBStale \<or> n = KBRotated \<or> n = KBRevoked)"
| "record_transition KBStale n = (n = KBRotated \<or> n = KBRevoked)"
| "record_transition _ n = False"

text \<open>The rotation a successor came from: the predecessor is rotated by the consumed authority.\<close>

definition rotation_backed :: "keryx_row \<Rightarrow> keryx_row \<Rightarrow> binding_db \<Rightarrow> bool" where
  "rotation_backed old new db \<longleftrightarrow>
     list_ex (\<lambda>p. bi_rotated_from new = Some (bi_binding_id p) \<and> bi_state p = KBRotated \<and>
       list_ex (\<lambda>z. bi_rotation_authorization new = Some (az_authorization_id z) \<and>
         az_consumed_decision z = Some (bi_last_decision p) \<and>
         az_consumed_audit z = Some (bi_last_audit p) \<and> az_binding_id z = bi_binding_id p \<and>
         az_network_id z = bi_network_id old \<and> az_device_id z = bi_device_id old \<and>
         az_generation z = bi_generation old - 1 \<and> az_action z = KCRotate \<and>
         list_ex (\<lambda>k. az_consumed_decision z = Some (bd_decision_id k) \<and> bd_kind k = ''rotate'' \<and>
           bd_authorization_id k = Some (az_authorization_id z)) (bx_decisions db))
         (bx_authorizations db)) (bx_records db)"

definition settled_under :: "keryx_row \<Rightarrow> n6_decision_row \<Rightarrow> binding_db \<Rightarrow> bool" where
  "settled_under old d db \<longleftrightarrow>
     list_ex (\<lambda>z. bd_authorization_id d = Some (az_authorization_id z) \<and>
       az_binding_id z = bi_binding_id old \<and> az_network_id z = bi_network_id old \<and>
       az_device_id z = bi_device_id old \<and> az_generation z = bi_generation old \<and>
       az_expected_revision z = bi_revision old \<and> action_str (az_action z) = bd_kind d \<and>
       az_consumed_at_ms z = Some (bd_decided_at_ms d) \<and>
       az_consumed_decision z = Some (bd_decision_id d) \<and> az_consumed_audit z = Some (bd_audit d))
       (bx_authorizations db)"

definition transition_decision :: "keryx_row \<Rightarrow> keryx_row \<Rightarrow> binding_db \<Rightarrow> n6_decision_row \<Rightarrow> bool" where
  "transition_decision old new db d \<longleftrightarrow>
     bd_decision_id d = bi_last_decision new \<and> bd_audit d = bi_last_audit new \<and>
     bd_subject d = ''binding'' \<and> bd_binding_id d = bi_binding_id old \<and>
     bd_network_id d = bi_network_id old \<and> bd_device_id d = bi_device_id old \<and>
     bd_generation d = bi_generation old \<and>
     bd_prior_state d = Some (KeryxBindingState_str (bi_state old)) \<and>
     bd_new_state d = KeryxBindingState_str (bi_state new) \<and>
     bd_prior_revision d = Some (bi_revision old) \<and> bd_new_revision d = bi_revision new \<and>
     bd_agent_version d = bi_agent_version new \<and>
     (case bi_state new of
        KBActive \<Rightarrow> bd_kind d = ''confirm'' \<and> bd_authorization_id d = None \<and>
          bi_confirmed_at_ms new = Some (bd_decided_at_ms d) \<and>
          sql_eq (bd_peer d) (bi_verified_peer_id new) \<and>
          (bi_generation new = 1 \<or> rotation_backed old new db)
      | KBStale \<Rightarrow> bd_kind d = ''stale'' \<and> bd_authorization_id d = None \<and>
          bi_stale_at_ms new = Some (bd_decided_at_ms d)
      | KBRotated \<Rightarrow> bd_kind d = ''rotate'' \<and> bi_rotated_at_ms new = Some (bd_decided_at_ms d) \<and>
          settled_under old d db
      | KBRevoked \<Rightarrow> bd_kind d = ''revoke'' \<and> bi_revoked_at_ms new = Some (bd_decided_at_ms d) \<and>
          settled_under old d db
      | KBPending \<Rightarrow> False)"

definition record_update_ok :: "binding_db \<Rightarrow> keryx_row \<Rightarrow> keryx_row \<Rightarrow> bool" where
  "record_update_ok db old new \<longleftrightarrow>
     record_immutable old new \<and> record_transition (bi_state old) (bi_state new) \<and>
     list_ex (transition_decision old new db) (bx_decisions db) \<and> record_check new"

text \<open>An update answers the number of rows it changed with the new database.\<close>

definition update_keryx_rows ::
    "(keryx_row \<Rightarrow> bool) \<Rightarrow> (keryx_row \<Rightarrow> keryx_row) \<Rightarrow> binding_db \<Rightarrow> (nat \<times> binding_db) state_result" where
  "update_keryx_rows P f db =
     and_then (update_where P f (record_update_ok db) (bx_records db)) (\<lambda>rows.
     and_then (ensure (record_indexes rows) (StSqlite ''UNIQUE'')) (\<lambda>_.
     Inr (length (filter P (bx_records db)), db\<lparr>bx_records := rows\<rparr>)))"

section \<open>Challenges\<close>

definition challenge_check :: "challenge_row \<Rightarrow> bool" where
  "challenge_check c \<longleftrightarrow>
     1 \<le> ch_generation c \<and> 0 \<le> ch_issued_at_ms c \<and> ch_issued_at_ms c < ch_expires_at_ms c \<and>
     (case ch_consumed_at_ms c of None \<Rightarrow> True
      | Some t \<Rightarrow> ch_issued_at_ms c \<le> t \<and> t < ch_expires_at_ms c) \<and>
     not_before (ch_issued_at_ms c) (ch_invalidated_at_ms c) \<and>
     not_before (ch_expires_at_ms c) (ch_expired_at_ms c) \<and>
     (ch_state c = ChConsumed) = (ch_consumed_at_ms c \<noteq> None) \<and>
     (ch_state c = ChConsumed) = (ch_consumed_operation c \<noteq> None) \<and>
     (ch_state c = ChConsumed) = (ch_consumed_peer c \<noteq> None) \<and>
     (ch_state c = ChInvalidated) = (ch_invalidated_at_ms c \<noteq> None) \<and>
     (ch_state c = ChExpired) = (ch_expired_at_ms c \<noteq> None)"

definition is_pending_challenge :: "challenge_row \<Rightarrow> bool" where
  "is_pending_challenge c \<longleftrightarrow> ch_state c = ChPending"

definition challenge_indexes :: "challenge_row list \<Rightarrow> bool" where
  "challenge_indexes rows \<longleftrightarrow>
     distinct (map ch_challenge_id rows) \<and> distinct (map ch_last_decision rows) \<and>
     distinct (map ch_last_audit rows) \<and>
     distinct (map ch_binding_id (filter is_pending_challenge rows))"

definition challenge_backed :: "challenge_row \<Rightarrow> binding_db \<Rightarrow> bool" where
  "challenge_backed c db \<longleftrightarrow>
     list_ex (\<lambda>b. bi_binding_id b = ch_binding_id c \<and> bi_network_id b = ch_network_id c \<and>
       bi_device_id b = ch_device_id c \<and> bi_generation b = ch_generation c \<and> bi_state b = KBPending)
       (bx_records db) \<and>
     list_ex (\<lambda>d. bd_decision_id d = ch_last_decision c \<and> bd_audit d = ch_last_audit c \<and>
       bd_subject d = ''challenge'' \<and> bd_kind d = ''issue'' \<and> bd_binding_id d = ch_binding_id c \<and>
       bd_challenge_id d = Some (ch_challenge_id c) \<and> bd_network_id d = ch_network_id c \<and>
       bd_device_id d = ch_device_id c \<and> bd_generation d = ch_generation c \<and>
       bd_new_state d = ''pending'' \<and> bd_decided_at_ms d = ch_issued_at_ms c \<and>
       bd_agent_version d = ch_agent_version c) (bx_decisions db)"

definition insert_challenge :: "challenge_row \<Rightarrow> binding_db \<Rightarrow> binding_db state_result" where
  "insert_challenge c db =
     and_then (ensure (challenge_backed c db)
       (StSqlite ''N6 challenge requires matching pending binding and issue decision'')) (\<lambda>_.
     and_then (ensure (challenge_check c) (StSqlite ''CHECK'')) (\<lambda>_.
     and_then (ensure (challenge_indexes (bx_challenges db @ [c])) (StSqlite ''UNIQUE'')) (\<lambda>_.
     Inr (db\<lparr>bx_challenges := bx_challenges db @ [c]\<rparr>))))"

definition settlement_decision :: "challenge_row \<Rightarrow> challenge_row \<Rightarrow> n6_decision_row \<Rightarrow> bool" where
  "settlement_decision old new d \<longleftrightarrow>
     bd_decision_id d = ch_last_decision new \<and> bd_audit d = ch_last_audit new \<and>
     bd_subject d = ''challenge'' \<and> bd_binding_id d = ch_binding_id old \<and>
     bd_challenge_id d = Some (ch_challenge_id old) \<and> bd_network_id d = ch_network_id old \<and>
     bd_device_id d = ch_device_id old \<and> bd_generation d = ch_generation old \<and>
     bd_prior_state d = Some (challenge_state_str (ch_state old)) \<and>
     bd_new_state d = challenge_state_str (ch_state new) \<and> bd_prior_revision d = Some 1 \<and>
     bd_new_revision d = 2 \<and>
     (case ch_state new of
        ChConsumed \<Rightarrow> bd_kind d = ''confirm'' \<and> ch_consumed_at_ms new = Some (bd_decided_at_ms d) \<and>
          sql_eq (bd_operation d) (ch_consumed_operation new) \<and> sql_eq (bd_peer d) (ch_consumed_peer new)
      | ChInvalidated \<Rightarrow> bd_kind d = ''invalidate'' \<and> ch_invalidated_at_ms new = Some (bd_decided_at_ms d)
      | ChExpired \<Rightarrow> bd_kind d = ''expire'' \<and> ch_expired_at_ms new = Some (bd_decided_at_ms d)
      | ChPending \<Rightarrow> False)"

definition challenge_update_ok :: "binding_db \<Rightarrow> challenge_row \<Rightarrow> challenge_row \<Rightarrow> bool" where
  "challenge_update_ok db old new \<longleftrightarrow>
     ch_challenge_id new = ch_challenge_id old \<and> ch_binding_id new = ch_binding_id old \<and>
     ch_network_id new = ch_network_id old \<and> ch_device_id new = ch_device_id old \<and>
     ch_expected_peer new = ch_expected_peer old \<and> ch_generation new = ch_generation old \<and>
     ch_verifier new = ch_verifier old \<and> ch_issued_at_ms new = ch_issued_at_ms old \<and>
     ch_expires_at_ms new = ch_expires_at_ms old \<and> ch_agent_version new = ch_agent_version old \<and>
     ch_state old = ChPending \<and> ch_last_decision new \<noteq> ch_last_decision old \<and>
     ch_last_audit new \<noteq> ch_last_audit old \<and> ch_state new \<noteq> ChPending \<and>
     (ch_state new = ChConsumed \<longrightarrow> ch_consumed_peer new = Some (ch_expected_peer old)) \<and>
     list_ex (settlement_decision old new) (bx_decisions db) \<and> challenge_check new"

definition update_challenges ::
    "(challenge_row \<Rightarrow> bool) \<Rightarrow> (challenge_row \<Rightarrow> challenge_row) \<Rightarrow> binding_db \<Rightarrow>
     (nat \<times> binding_db) state_result" where
  "update_challenges P f db =
     and_then (update_where P f (challenge_update_ok db) (bx_challenges db)) (\<lambda>rows.
     and_then (ensure (challenge_indexes rows) (StSqlite ''UNIQUE'')) (\<lambda>_.
     Inr (length (filter P (bx_challenges db)), db\<lparr>bx_challenges := rows\<rparr>)))"

section \<open>Reservations and operations\<close>

definition reservation_check :: "n6_reservation_row \<Rightarrow> bool" where
  "reservation_check z \<longleftrightarrow>
     1 \<le> rz_generation z \<and> 0 \<le> rz_expires_at_ms z \<and> 0 \<le> rz_reserved_at_ms z \<and>
     not_before (rz_reserved_at_ms z) (rz_issued_at_ms z) \<and>
     not_before (rz_reserved_at_ms z) (rz_abandoned_at_ms z) \<and>
     (rz_state z = RzIssued) = (rz_issued_at_ms z \<noteq> None) \<and>
     (rz_state z = RzIssued) = (rz_challenge_id z \<noteq> None) \<and>
     (rz_state z = RzAbandoned) = (rz_abandoned_at_ms z \<noteq> None)"

definition is_reserved :: "n6_reservation_row \<Rightarrow> bool" where
  "is_reserved z \<longleftrightarrow> rz_state z = RzReserved"

definition issued_challenges :: "n6_reservation_row list \<Rightarrow> KeryxBindingChallengeId list" where
  "issued_challenges rows = List.map_filter rz_challenge_id rows"

definition reservation_indexes :: "n6_reservation_row list \<Rightarrow> bool" where
  "reservation_indexes rows \<longleftrightarrow>
     distinct (map rz_reservation_id rows) \<and>
     distinct (map (\<lambda>z. (rz_expected_peer z, rz_operation_id z)) rows) \<and>
     distinct (issued_challenges rows) \<and> distinct (map rz_binding_id (filter is_reserved rows))"

definition insert_reservation :: "n6_reservation_row \<Rightarrow> binding_db \<Rightarrow> binding_db state_result" where
  "insert_reservation z db =
     and_then (ensure (list_ex (\<lambda>b. bi_binding_id b = rz_binding_id z \<and> bi_network_id b = rz_network_id z \<and>
         bi_device_id b = rz_device_id z \<and> bi_generation b = rz_generation z) (bx_records db))
       (StSqlite ''FOREIGN KEY'')) (\<lambda>_.
     and_then (ensure (reservation_check z) (StSqlite ''CHECK'')) (\<lambda>_.
     and_then (ensure (reservation_indexes (bx_reservations db @ [z])) (StSqlite ''UNIQUE'')) (\<lambda>_.
     Inr (db\<lparr>bx_reservations := bx_reservations db @ [z]\<rparr>))))"

definition reservation_update_ok :: "binding_db \<Rightarrow> n6_reservation_row \<Rightarrow> n6_reservation_row \<Rightarrow> bool" where
  "reservation_update_ok db old new \<longleftrightarrow>
     rz_state old = RzReserved \<and>
     rz_reservation_id new = rz_reservation_id old \<and> rz_binding_id new = rz_binding_id old \<and>
     rz_network_id new = rz_network_id old \<and> rz_device_id new = rz_device_id old \<and>
     rz_expected_peer new = rz_expected_peer old \<and> rz_operation_id new = rz_operation_id old \<and>
     rz_fingerprint new = rz_fingerprint old \<and> rz_generation new = rz_generation old \<and>
     rz_expires_at_ms new = rz_expires_at_ms old \<and> rz_agent_version new = rz_agent_version old \<and>
     rz_reserved_at_ms new = rz_reserved_at_ms old \<and>
     (rz_state new = RzIssued \<longrightarrow>
        list_ex (\<lambda>c. rz_challenge_id new = Some (ch_challenge_id c) \<and> ch_binding_id c = rz_binding_id new \<and>
          ch_network_id c = rz_network_id new \<and> ch_device_id c = rz_device_id new \<and>
          ch_expected_peer c = rz_expected_peer new \<and> ch_generation c = rz_generation new \<and>
          ch_expires_at_ms c = rz_expires_at_ms new \<and> ch_agent_version c = rz_agent_version new \<and>
          ch_state c = ChPending) (bx_challenges db)) \<and>
     reservation_check new"

definition update_reservations ::
    "(n6_reservation_row \<Rightarrow> bool) \<Rightarrow> (n6_reservation_row \<Rightarrow> n6_reservation_row) \<Rightarrow> binding_db \<Rightarrow>
     (nat \<times> binding_db) state_result" where
  "update_reservations P f db =
     and_then (update_where P f (reservation_update_ok db) (bx_reservations db)) (\<lambda>rows.
     and_then (ensure (reservation_indexes rows) (StSqlite ''UNIQUE'')) (\<lambda>_.
     Inr (length (filter P (bx_reservations db)), db\<lparr>bx_reservations := rows\<rparr>)))"

text \<open>\<^verbatim>\<open>n6_control_operation_exact_confirmation\<close>.\<close>

definition operation_backed :: "control_row \<Rightarrow> binding_db \<Rightarrow> bool" where
  "operation_backed o' db \<longleftrightarrow>
     list_ex (\<lambda>d. bd_decision_id d = op_decision o' \<and> bd_audit d = op_audit o' \<and>
       bd_subject d = ''binding'' \<and> bd_kind d = ''confirm'' \<and> bd_binding_id d = op_binding_id o' \<and>
       bd_peer d = Some (op_peer o') \<and> bd_operation d = Some (op_operation_id o')) (bx_decisions db) \<and>
     list_ex (\<lambda>c. ch_challenge_id c = op_challenge_id o' \<and> ch_binding_id c = op_binding_id o' \<and>
       ch_state c = ChConsumed \<and> ch_consumed_peer c = Some (op_peer o') \<and>
       ch_consumed_operation c = Some (op_operation_id o')) (bx_challenges db) \<and>
     list_ex (\<lambda>b. bi_binding_id b = op_binding_id o' \<and> bi_state b = KBActive \<and>
       bi_verified_peer_id b = Some (op_peer o')) (bx_records db)"

definition insert_control_operation :: "control_row \<Rightarrow> binding_db \<Rightarrow> binding_db state_result" where
  "insert_control_operation o' db =
     and_then (ensure (operation_backed o' db)
       (StConflict ''N6 control operation lacks exact confirmation evidence'')) (\<lambda>_.
     and_then (ensure (0 \<le> op_completed_at_ms o') (StConflict ''CHECK'')) (\<lambda>_.
     and_then (ensure (list_all (\<lambda>q. (op_peer q, op_operation_id q) \<noteq> (op_peer o', op_operation_id o') \<and>
         op_decision q \<noteq> op_decision o' \<and> op_audit q \<noteq> op_audit o') (bx_operations db))
       (StConflict ''UNIQUE'')) (\<lambda>_.
     Inr (db\<lparr>bx_operations := bx_operations db @ [o']\<rparr>))))"

section \<open>Grants and authorizations\<close>

definition root_backs :: "trust_authority_row \<Rightarrow> root_row \<Rightarrow> bool" where
  "root_backs a r \<longleftrightarrow>
     tr_trust_root_id r = ta_trust_root_id a \<and> tr_network_id r = ta_network_id a \<and>
     tr_principal_source r = ta_principal_source a \<and> tr_principal_id r = ta_principal_id a \<and>
     tr_enabled r \<and> tr_revoked_at_ms r = None"

definition authority_live :: "trust_authority_row \<Rightarrow> int \<Rightarrow> binding_db \<Rightarrow> bool" where
  "authority_live a at db \<longleftrightarrow>
     authority_open a \<and> ta_not_before_ms a \<le> at \<and> at < ta_expires_at_ms a \<and>
     list_ex (root_backs a) (bx_roots db)"

definition principal_of :: "trust_authority_row \<Rightarrow> AuditActor" where
  "principal_of a = \<lparr>au_source = ta_principal_source a, au_actor_id = Some (ta_principal_id a)\<rparr>"

definition granted :: "TrustAuthorityId \<Rightarrow> KeryxBindingAuthorizationCapability \<Rightarrow> binding_db \<Rightarrow> bool" where
  "granted a c db \<longleftrightarrow> list_ex (\<lambda>g. gc_authority_id g = a \<and> gc_capability g = c) (bx_grants db)"

definition insert_grant :: "grant_row \<Rightarrow> binding_db \<Rightarrow> binding_db state_result" where
  "insert_grant g db =
     and_then (ensure (list_ex (\<lambda>a. ta_authority_id a = gc_authority_id g \<and>
         principal_of a = gc_issued_by g \<and> authority_live a (gc_issued_at_ms g) db \<and>
         list_ex (\<lambda>e. na_event_id e = gc_audit g \<and> na_network_id e = ta_network_id a \<and>
           na_actor e = gc_issued_by g \<and>
           na_event_kind e = ''keryx_binding_authority_capability_granted'' \<and>
           na_outcome e = ''success'') (bx_events db)) (bx_authorities db))
       (StSqlite ''N6 authority capability grant requires an exact live owner-root authority'')) (\<lambda>_.
     and_then (ensure (0 \<le> gc_issued_at_ms g \<and> actor_check (gc_issued_by g)) (StSqlite ''CHECK'')) (\<lambda>_.
     and_then (ensure (list_all (\<lambda>q. gc_grant_id q \<noteq> gc_grant_id g \<and> gc_audit q \<noteq> gc_audit g \<and>
         (gc_authority_id q, gc_capability q) \<noteq> (gc_authority_id g, gc_capability g)) (bx_grants db))
       (StSqlite ''UNIQUE'')) (\<lambda>_.
     Inr (db\<lparr>bx_grants := bx_grants db @ [g]\<rparr>))))"

definition authorization_check :: "authorization_row \<Rightarrow> bool" where
  "authorization_check z \<longleftrightarrow>
     1 \<le> az_generation z \<and> 1 \<le> az_expected_revision z \<and> 0 \<le> az_issued_at_ms z \<and>
     az_issued_at_ms z < az_expires_at_ms z \<and>
     (case az_consumed_at_ms z of None \<Rightarrow> True
      | Some t \<Rightarrow> az_issued_at_ms z \<le> t \<and> t < az_expires_at_ms z) \<and>
     actor_check (az_actor z) \<and>
     (az_state z = AzConsumed) = (az_consumed_at_ms z \<noteq> None) \<and>
     (az_state z = AzConsumed) = (az_consumed_decision z \<noteq> None) \<and>
     (az_state z = AzConsumed) = (az_consumed_audit z \<noteq> None)"

definition is_open_authorization :: "authorization_row \<Rightarrow> bool" where
  "is_open_authorization z \<longleftrightarrow> az_state z = AzPending"

definition authorization_indexes :: "authorization_row list \<Rightarrow> bool" where
  "authorization_indexes rows \<longleftrightarrow>
     distinct (map az_authorization_id rows) \<and> distinct (map az_issued_decision rows) \<and>
     distinct (map az_issued_audit rows) \<and> distinct (List.map_filter az_consumed_decision rows) \<and>
     distinct (List.map_filter az_consumed_audit rows) \<and>
     distinct (map (\<lambda>z. (az_binding_id z, az_action z)) (filter is_open_authorization rows))"

definition authorization_backed :: "authorization_row \<Rightarrow> binding_db \<Rightarrow> bool" where
  "authorization_backed z db \<longleftrightarrow>
     list_ex (\<lambda>b. bi_binding_id b = az_binding_id z \<and> bi_network_id b = az_network_id z \<and>
       bi_device_id b = az_device_id z \<and> bi_generation b = az_generation z \<and>
       bi_revision b = az_expected_revision z \<and> bi_state b \<in> set (live_states (az_action z)))
       (bx_records db) \<and>
     list_ex (\<lambda>a. ta_authority_id a = az_authority_id z \<and> ta_network_id a = az_network_id z \<and>
       principal_of a = az_actor z \<and> authority_live a (az_issued_at_ms z) db \<and>
       az_expires_at_ms z \<le> ta_expires_at_ms a) (bx_authorities db) \<and>
     granted (az_authority_id z) (az_action z) db \<and>
     list_ex (\<lambda>d. bd_decision_id d = az_issued_decision z \<and> bd_audit d = az_issued_audit z \<and>
       bd_subject d = ''authorization'' \<and> bd_kind d = ''issue'' \<and>
       bd_authorization_id d = Some (az_authorization_id z) \<and> bd_prior_state d = None \<and>
       bd_prior_revision d = None \<and> bd_new_state d = ''pending'' \<and> bd_new_revision d = 1 \<and>
       bd_binding_id d = az_binding_id z \<and> bd_network_id d = az_network_id z \<and>
       bd_generation d = az_generation z \<and> bd_decided_at_ms d = az_issued_at_ms z \<and>
       bd_actor d = az_actor z) (bx_decisions db) \<and>
     list_ex (\<lambda>e. na_event_id e = az_issued_audit z \<and> na_network_id e = az_network_id z \<and>
       na_device_id e = Some (az_device_id z) \<and> na_generation e = az_generation z \<and>
       na_actor e = az_actor z \<and> na_event_kind e = ''keryx_binding_authorization_issued'' \<and>
       na_outcome e = ''success'') (bx_events db)"

definition insert_authorization :: "authorization_row \<Rightarrow> binding_db \<Rightarrow> binding_db state_result" where
  "insert_authorization z db =
     and_then (ensure (az_state z = AzPending \<and> az_consumed_at_ms z = None \<and>
         az_consumed_decision z = None \<and> az_consumed_audit z = None \<and> authorization_backed z db)
       (StSqlite ''N6 authorization requires a pending exact current binding'')) (\<lambda>_.
     and_then (ensure (authorization_check z) (StSqlite ''CHECK'')) (\<lambda>_.
     and_then (ensure (authorization_indexes (bx_authorizations db @ [z])) (StSqlite ''UNIQUE'')) (\<lambda>_.
     Inr (db\<lparr>bx_authorizations := bx_authorizations db @ [z]\<rparr>))))"

text \<open>
  \<^verbatim>\<open>n6_authorization_consumption_guard\<close>, for the only settlement the code writes. The columns of
  expired and invalidated authorizations are never written and left out.
\<close>

definition consumption_decision :: "authorization_row \<Rightarrow> authorization_row \<Rightarrow> binding_db \<Rightarrow> n6_decision_row \<Rightarrow> bool" where
  "consumption_decision old new db d \<longleftrightarrow>
     az_consumed_decision new = Some (bd_decision_id d) \<and> az_consumed_audit new = Some (bd_audit d) \<and>
     bd_subject d = ''binding'' \<and> bd_kind d = action_str (az_action old) \<and>
     bd_binding_id d = az_binding_id old \<and> bd_authorization_id d = Some (az_authorization_id old) \<and>
     bd_network_id d = az_network_id old \<and> bd_device_id d = az_device_id old \<and>
     bd_generation d = az_generation old \<and>
     bd_prior_state d \<in> {Some ''pending'', Some ''active'', Some ''stale''} \<and>
     bd_prior_revision d = Some (az_expected_revision old) \<and>
     bd_new_revision d = az_expected_revision old + 1 \<and> bd_actor d = az_actor old \<and>
     az_consumed_at_ms new = Some (bd_decided_at_ms d) \<and> az_issued_at_ms old \<le> bd_decided_at_ms d \<and>
     bd_decided_at_ms d < az_expires_at_ms old \<and>
     list_ex (\<lambda>b. bi_binding_id b = az_binding_id old \<and> bi_network_id b = az_network_id old \<and>
       bi_generation b = az_generation old \<and> bi_revision b = az_expected_revision old \<and>
       bd_prior_state d = Some (KeryxBindingState_str (bi_state b)) \<and>
       bi_state b \<in> set (live_states (az_action old))) (bx_records db) \<and>
     list_ex (\<lambda>a. ta_authority_id a = az_authority_id old \<and> ta_network_id a = az_network_id old \<and>
       authority_live a (bd_decided_at_ms d) db) (bx_authorities db) \<and>
     granted (az_authority_id old) (az_action old) db"

definition authorization_update_ok :: "binding_db \<Rightarrow> authorization_row \<Rightarrow> authorization_row \<Rightarrow> bool" where
  "authorization_update_ok db old new \<longleftrightarrow>
     az_authorization_id new = az_authorization_id old \<and> az_authority_id new = az_authority_id old \<and>
     az_binding_id new = az_binding_id old \<and> az_network_id new = az_network_id old \<and>
     az_device_id new = az_device_id old \<and> az_generation new = az_generation old \<and>
     az_expected_revision new = az_expected_revision old \<and> az_action new = az_action old \<and>
     az_actor new = az_actor old \<and> az_issued_at_ms new = az_issued_at_ms old \<and>
     az_expires_at_ms new = az_expires_at_ms old \<and> az_issued_decision new = az_issued_decision old \<and>
     az_issued_audit new = az_issued_audit old \<and> az_state old = AzPending \<and>
     az_state new = AzConsumed \<and>
     list_ex (consumption_decision old new db) (bx_decisions db) \<and> authorization_check new"

definition update_authorizations ::
    "(authorization_row \<Rightarrow> bool) \<Rightarrow> (authorization_row \<Rightarrow> authorization_row) \<Rightarrow> binding_db \<Rightarrow>
     (nat \<times> binding_db) state_result" where
  "update_authorizations P f db =
     and_then (update_where P f (authorization_update_ok db) (bx_authorizations db)) (\<lambda>rows.
     and_then (ensure (authorization_indexes rows) (StSqlite ''UNIQUE'')) (\<lambda>_.
     Inr (length (filter P (bx_authorizations db)), db\<lparr>bx_authorizations := rows\<rparr>)))"

end
