(* ===== verification/Binding_Store.thy ===== *)
theory Binding_Store
  imports Binding_Tables "HOL-Library.List_Lexorder" "HOL-Library.Char_ord"
begin

text \<open>
  The binding store of \<^verbatim>\<open>crates/nodescale-state/src/n6.rs\<close>: reserving and completing a challenge,
  confirming it by an authenticated peer, granting and issuing authorizations, rotating and
  revoking a binding, and the queries on bindings. Argon2, base64, SHA-256 and the \<^verbatim>\<open>json_extract\<close>
  of SQLite are parameters, and so are the identifiers and the random bytes a call draws.
\<close>

section \<open>Views, outcomes and the environment\<close>

record N6BindingView =
  bv_binding_id :: KeryxBindingId
  bv_network_id :: NetworkId
  bv_device_id :: DeviceId
  bv_provider_binding_id :: ProviderBindingId
  bv_join_session_id :: "JoinSessionId option"
  bv_verified_peer_id :: "KeryxPeerId option"
  bv_generation :: Generation
  bv_revision :: u64
  bv_state :: KeryxBindingState
  bv_created_at :: DateTime
  bv_confirmed_at :: "DateTime option"
  bv_stale_at :: "DateTime option"
  bv_rotated_at :: "DateTime option"
  bv_revoked_at :: "DateTime option"

datatype N6AuthenticatedBindOutcome =
  BindConfirmed N6BindingView | BindReplayed N6BindingView | BindConflict

record N6ChallengeReservation =
  hr_reservation_id :: string
  hr_binding_id :: KeryxBindingId
  hr_generation :: Generation

datatype N6ChallengeReservationOutcome =
  ReservationAcquired N6ChallengeReservation | ReservationResumable N6ChallengeReservation |
  ReservationAlreadyIssued | ReservationConflict

datatype N6ChallengeCompletion =
    CompletionRecorded KeryxBindingChallengeId KeryxBindingId Generation DateTime DateTime
  | CompletionAlreadyIssued

record binding_env =
  be_store :: store_env
  be_argon :: argon_ops
  be_url_base64 :: base64_ops
  be_std_base64 :: base64_ops
  be_json_state :: "u8 list \<Rightarrow> string option"

record n6_draws =
  dw_binding_id :: KeryxBindingId
  dw_challenge_id :: KeryxBindingChallengeId
  dw_authorization_id :: KeryxBindingAuthorizationId
  dw_reservation_id :: string
  dw_grant_id :: string
  dw_audit :: "nat \<Rightarrow> AuditEventId"
  dw_decision :: "nat \<Rightarrow> KeryxBindingDecisionId"
  dw_nonce :: "u8 list"
  dw_salt :: "u8 list"

definition be_uuid :: "binding_env \<Rightarrow> uuid_ops" where
  "be_uuid E = se_uuid (be_store E)"

section \<open>Reading a binding\<close>

definition timestamp_of_millis :: "int \<Rightarrow> DateTime" where
  "timestamp_of_millis ms = ms * 1000000"

definition keryx_row_named :: "KeryxBindingId \<Rightarrow> binding_db \<Rightarrow> keryx_row option" where
  "keryx_row_named i db = find (\<lambda>r. bi_binding_id r = i) (bx_records db)"

definition joined_session :: "keryx_row \<Rightarrow> binding_db \<Rightarrow> JoinSessionId option" where
  "joined_session r db =
     map_option jp_join_session_id
       (find (\<lambda>p. jp_binding_id p = bi_provider_binding_id r) (bx_n4_provenance db))"

definition view_of :: "keryx_row \<Rightarrow> Generation \<Rightarrow> u64 \<Rightarrow> binding_db \<Rightarrow> N6BindingView" where
  "view_of r generation revision db =
     \<lparr>bv_binding_id = bi_binding_id r, bv_network_id = bi_network_id r, bv_device_id = bi_device_id r,
      bv_provider_binding_id = bi_provider_binding_id r, bv_join_session_id = joined_session r db,
      bv_verified_peer_id = bi_verified_peer_id r, bv_generation = generation, bv_revision = revision,
      bv_state = bi_state r, bv_created_at = timestamp_of_millis (bi_created_at_ms r),
      bv_confirmed_at = map_option timestamp_of_millis (bi_confirmed_at_ms r),
      bv_stale_at = map_option timestamp_of_millis (bi_stale_at_ms r),
      bv_rotated_at = map_option timestamp_of_millis (bi_rotated_at_ms r),
      bv_revoked_at = map_option timestamp_of_millis (bi_revoked_at_ms r)\<rparr>"

definition n6_binding_view_tx :: "binding_env \<Rightarrow> KeryxBindingId \<Rightarrow> binding_db \<Rightarrow> N6BindingView state_result" where
  "n6_binding_view_tx E i db =
     and_then (ok_or (keryx_row_named i db) (StNotFound (id_display (be_uuid E) i))) (\<lambda>r.
     and_then (column_u64 (bi_generation r)) (\<lambda>g.
     and_then (column_u64 (bi_revision r)) (\<lambda>revision.
     and_then (domain_conflict (Generation_new g)) (\<lambda>generation.
     Inr (view_of r generation revision db)))))"

definition n6_binding :: "binding_env \<Rightarrow> KeryxBindingId \<Rightarrow> binding_db \<Rightarrow> N6BindingView state_result" where
  "n6_binding E i db = n6_binding_view_tx E i db"

definition active_for :: "NetworkId \<Rightarrow> KeryxPeerId \<Rightarrow> keryx_row \<Rightarrow> bool" where
  "active_for n peer r \<longleftrightarrow>
     bi_network_id r = n \<and> bi_verified_peer_id r = Some peer \<and> bi_state r = KBActive"

definition n6_is_peer_active :: "NetworkId \<Rightarrow> KeryxPeerId \<Rightarrow> binding_db \<Rightarrow> bool" where
  "n6_is_peer_active n peer db \<longleftrightarrow> list_ex (active_for n peer) (bx_records db)"

definition n6_active_binding ::
    "binding_env \<Rightarrow> NetworkId \<Rightarrow> KeryxPeerId \<Rightarrow> binding_db \<Rightarrow> N6BindingView state_result" where
  "n6_active_binding E n peer db =
     and_then (ok_or (find (active_for n peer) (bx_records db)) (StNotFound ''active N6 peer binding''))
       (\<lambda>r. n6_binding_view_tx E (bi_binding_id r) db)"

text \<open>\<^verbatim>\<open>ORDER BY generation DESC, revision DESC, binding_id DESC LIMIT 1\<close>.\<close>

definition later_row :: "binding_env \<Rightarrow> keryx_row \<Rightarrow> keryx_row \<Rightarrow> bool" where
  "later_row E a b \<longleftrightarrow>
     bi_generation b < bi_generation a \<or>
     (bi_generation a = bi_generation b \<and>
        (bi_revision b < bi_revision a \<or>
         (bi_revision a = bi_revision b \<and>
            id_display (be_uuid E) (bi_binding_id b) < id_display (be_uuid E) (bi_binding_id a))))"

fun latest_row :: "binding_env \<Rightarrow> keryx_row list \<Rightarrow> keryx_row option" where
  "latest_row E [] = None"
| "latest_row E (r # rows) =
     (case latest_row E rows of None \<Rightarrow> Some r
      | Some l \<Rightarrow> if later_row E l r then Some l else Some r)"

definition latest_n6_binding ::
    "binding_env \<Rightarrow> DeviceId \<Rightarrow> binding_db \<Rightarrow> N6BindingView option state_result" where
  "latest_n6_binding E d db =
     (case latest_row E (filter (\<lambda>r. bi_device_id r = d) (bx_records db)) of
        None \<Rightarrow> Inr None
      | Some r \<Rightarrow> and_then (n6_binding_view_tx E (bi_binding_id r) db) (\<lambda>v. Inr (Some v)))"

definition n6_active_binding_provenance ::
    "binding_env \<Rightarrow> KeryxBindingId \<Rightarrow> NetworkId \<Rightarrow> DeviceId \<Rightarrow> Generation \<Rightarrow> binding_db \<Rightarrow>
     N6ActiveBindingProvenance state_result" where
  "n6_active_binding_provenance E i n d generation db =
     and_then (bind_u64 (gen_get generation)) (\<lambda>g.
     and_then (ok_or (find (\<lambda>r. bi_binding_id r = i \<and> bi_network_id r = n \<and> bi_device_id r = d \<and>
         bi_generation r = g \<and> bi_state r = KBActive \<and> bi_verified_peer_id r \<noteq> None) (bx_records db))
       (StNotFound ''exact active N6 binding provenance'')) (\<lambda>r.
     and_then (ok_or (bi_verified_peer_id r) (StSqlite ''InvalidColumnType'')) (\<lambda>peer.
     domain_conflict (from_verified_active_runtime_row (be_uuid E) n d i peer generation))))"

text \<open>\<^verbatim>\<open>n6_challenge_generation\<close>: the pending binding of the highest generation.\<close>

definition device_records :: "NetworkId \<Rightarrow> DeviceId \<Rightarrow> binding_db \<Rightarrow> keryx_row list" where
  "device_records n d db = filter (\<lambda>r. bi_network_id r = n \<and> bi_device_id r = d) (bx_records db)"

definition pending_generations :: "NetworkId \<Rightarrow> DeviceId \<Rightarrow> binding_db \<Rightarrow> int list" where
  "pending_generations n d db =
     map bi_generation (filter (\<lambda>r. bi_state r = KBPending) (device_records n d db))"

definition n6_challenge_generation :: "NetworkId \<Rightarrow> DeviceId \<Rightarrow> binding_db \<Rightarrow> Generation state_result" where
  "n6_challenge_generation n d db =
     (case pending_generations n d db of
        g # gs \<Rightarrow>
          and_then (column_u64 (fold max gs g)) (\<lambda>generation. domain_conflict (Generation_new generation))
      | [] \<Rightarrow>
          if device_records n d db \<noteq> []
          then Inl (StConflict ''N6 binding has no pending generation; rotation authorization is required'')
          else Inr Generation_initial)"

section \<open>Audit events and decisions\<close>

definition append_n6_audit ::
    "AuditEventId \<Rightarrow> NetworkId \<Rightarrow> DeviceId \<Rightarrow> AuditActor \<Rightarrow> string \<Rightarrow> string \<Rightarrow> Generation \<Rightarrow> binding_db \<Rightarrow>
     binding_db state_result" where
  "append_n6_audit event_id n d actor kind outcome generation db =
     and_then (bind_u64 (gen_get generation)) (\<lambda>g.
     insert_n6_event
       \<lparr>na_event_id = event_id, na_network_id = n, na_device_id = Some d, na_actor = actor,
        na_event_kind = kind, na_outcome = outcome, na_generation = g\<rparr> db)"

definition insert_n6_decision ::
    "KeryxBindingDecisionId \<Rightarrow> AuditEventId \<Rightarrow> string \<Rightarrow> string \<Rightarrow> KeryxBindingId \<Rightarrow>
     KeryxBindingChallengeId option \<Rightarrow> KeryxBindingAuthorizationId option \<Rightarrow> N6BindingView \<Rightarrow>
     string \<Rightarrow> string \<Rightarrow> u64 \<Rightarrow> u64 \<Rightarrow> DateTime \<Rightarrow> AuditActor \<Rightarrow> string \<Rightarrow> KeryxPeerId option \<Rightarrow>
     OperationId option \<Rightarrow> AgentVersion \<Rightarrow> binding_db \<Rightarrow> binding_db state_result" where
  "insert_n6_decision decision_id audit_id subject kind binding_id challenge_id authorization_id binding
      prior_state new_state prior_revision new_revision now actor reason peer operation_id agent_version db =
     and_then (bind_u64 (gen_get (bv_generation binding))) (\<lambda>generation.
     and_then (if kind = ''issue'' then Inr None
       else and_then (bind_u64 prior_revision) (\<lambda>p. Inr (Some p))) (\<lambda>prior.
     and_then (bind_u64 new_revision) (\<lambda>revision.
     insert_n6_decision_row
       \<lparr>bd_decision_id = decision_id, bd_audit = audit_id, bd_subject = subject, bd_kind = kind,
        bd_binding_id = binding_id, bd_challenge_id = challenge_id, bd_authorization_id = authorization_id,
        bd_network_id = bv_network_id binding, bd_device_id = bv_device_id binding,
        bd_generation = generation,
        bd_prior_state = (if kind = ''issue'' then None else Some prior_state),
        bd_new_state = new_state, bd_prior_revision = prior, bd_new_revision = revision,
        bd_decided_at_ms = timestamp_millis now, bd_actor = actor, bd_reason = reason,
        bd_peer = peer, bd_operation = operation_id, bd_agent_version = agent_version\<rparr> db)))"

text \<open>The two statements that always come together.\<close>

definition record_decision ::
    "n6_draws \<Rightarrow> nat \<Rightarrow> string \<Rightarrow> string \<Rightarrow> KeryxBindingId \<Rightarrow> KeryxBindingChallengeId option \<Rightarrow>
     KeryxBindingAuthorizationId option \<Rightarrow> N6BindingView \<Rightarrow> string \<Rightarrow> string \<Rightarrow> u64 \<Rightarrow> u64 \<Rightarrow> DateTime \<Rightarrow>
     AuditActor \<Rightarrow> string \<Rightarrow> string \<Rightarrow> KeryxPeerId option \<Rightarrow> OperationId option \<Rightarrow> AgentVersion \<Rightarrow>
     KeryxBindingDecisionId \<Rightarrow> binding_db \<Rightarrow> binding_db state_result" where
  "record_decision D i subject kind binding_id challenge_id authorization_id binding prior_state
      new_state prior_revision new_revision now actor event reason peer operation_id agent_version decision db =
     and_then (append_n6_audit (dw_audit D i) (bv_network_id binding) (bv_device_id binding) actor event
       ''success'' (bv_generation binding) db) (\<lambda>db.
     insert_n6_decision decision (dw_audit D i) subject kind binding_id challenge_id authorization_id
       binding prior_state new_state prior_revision new_revision now actor reason peer operation_id
       agent_version db)"

section \<open>Fingerprints\<close>

definition signed_decimal :: "int \<Rightarrow> string" where
  "signed_decimal i = (if i < 0 then CHR ''-'' # decimal (nat (- i)) else decimal (nat i))"

definition provenance_text :: "binding_env \<Rightarrow> JoinSessionId option \<Rightarrow> ProviderBindingId \<Rightarrow> string" where
  "provenance_text E session p =
     (case session of Some s \<Rightarrow> id_display (be_uuid E) s
      | None \<Rightarrow> ''existing_provider_adoption:'' @ id_display (be_uuid E) p)"

definition hex_digest :: "binding_env \<Rightarrow> u8 list \<Rightarrow> string" where
  "hex_digest E bytes = hex_text (se_sha256 (be_store E) bytes)"

definition n6_challenge_fingerprint ::
    "binding_env \<Rightarrow> N6BindingChallengeRequest \<Rightarrow> JoinSessionId option \<Rightarrow> string" where
  "n6_challenge_fingerprint E r session =
     hex_digest E (concat (map length_prefixed
       [peer_id_str (cr_expected_authenticated_peer_id r),
        id_display (be_uuid E) (N6BindingChallengeRequest.cr_network_id r),
        id_display (be_uuid E) (cr_device_id r),
        provenance_text E session (cr_provider_binding_id r), decimal (unat (gen_get (cr_generation r))),
        signed_decimal (timestamp_millis (cr_expires_at r)), agent_version_str (cr_agent_version r)]))"

definition n6_request_fingerprint ::
    "binding_env \<Rightarrow> KeryxPeerId \<Rightarrow> N6AuthenticatedBindRequest \<Rightarrow> JoinSessionId option \<Rightarrow> string" where
  "n6_request_fingerprint E peer r session =
     hex_digest E (concat (map length_prefixed
       [peer_id_str peer, operation_id_str (br_operation_id r), id_display (be_uuid E) (br_network_id r),
        id_display (be_uuid E) (br_device_id r), provenance_text E session (br_provider_binding_id r),
        decimal (unat (gen_get (br_generation r))), agent_version_str (br_agent_version r)]) @
       str_bytes (BindingNonce_with_encoded (be_url_base64 E) (br_binding_nonce r)))"

section \<open>Provenance of a provider binding\<close>

definition provider_binding_named ::
    "ProviderBindingId \<Rightarrow> DeviceId \<Rightarrow> NetworkId \<Rightarrow> binding_db \<Rightarrow> provider_binding_row option" where
  "provider_binding_named p d n db =
     find (\<lambda>b. pb_binding_id b = p \<and> pb_device_id b = d \<and> pb_network_id b = n) (bx_provider_bindings db)"

definition n4_provenance_of :: "provider_binding_row \<Rightarrow> n4_provenance_row \<Rightarrow> bool" where
  "n4_provenance_of b p \<longleftrightarrow>
     pb_n4_provenance b = Some (jp_binding_id p) \<and> jp_device_id p = pb_device_id b \<and>
     jp_network_id p = pb_network_id b"

text \<open>The query of a confirmation.\<close>

definition historical_session ::
    "ProviderBindingId \<Rightarrow> DeviceId \<Rightarrow> NetworkId \<Rightarrow> binding_db \<Rightarrow> JoinSessionId option" where
  "historical_session p d n db =
     (case provider_binding_named p d n db of None \<Rightarrow> None
      | Some b \<Rightarrow> map_option jp_join_session_id (find (n4_provenance_of b) (bx_n4_provenance db)))"

text \<open>The query of a reservation also asks for the identity that came from the same origin.\<close>

definition joined_origin :: "provider_binding_row \<Rightarrow> binding_db \<Rightarrow> n4_provenance_row \<Rightarrow> bool" where
  "joined_origin b db p \<longleftrightarrow>
     n4_provenance_of b p \<and>
     list_ex (\<lambda>i. di_device_id i = pb_device_id b \<and> di_network_id i = pb_network_id b \<and>
       di_n4_origin i = Some (jp_identity_origin p)) (bx_identities db)"

definition joined_device_session ::
    "ProviderBindingId \<Rightarrow> DeviceId \<Rightarrow> NetworkId \<Rightarrow> binding_db \<Rightarrow> JoinSessionId option" where
  "joined_device_session p d n db =
     (case provider_binding_named p d n db of None \<Rightarrow> None
      | Some b \<Rightarrow> map_option jp_join_session_id (find (joined_origin b db) (bx_n4_provenance db)))"

definition adopted_device :: "ProviderBindingId \<Rightarrow> DeviceId \<Rightarrow> NetworkId \<Rightarrow> binding_db \<Rightarrow> bool" where
  "adopted_device p d n db \<longleftrightarrow>
     (case provider_binding_named p d n db of None \<Rightarrow> False
      | Some b \<Rightarrow> pb_provenance_kind b = ''existing_provider_adoption'' \<and>
          list_ex (\<lambda>x. pb_adoption_provenance b = Some (xp_binding_id x) \<and>
            xp_device_id x = pb_device_id b \<and> xp_network_id x = pb_network_id b \<and>
            list_ex (\<lambda>i. di_device_id i = pb_device_id b \<and> di_network_id i = pb_network_id b \<and>
              list_ex (\<lambda>y. di_adoption_origin i = Some (xo_origin_id y) \<and>
                xo_device_id y = di_device_id i \<and> xo_network_id y = di_network_id i \<and>
                xp_identity_origin x = xo_origin_id y) (bx_adoption_origins db)) (bx_identities db))
            (bx_adoption_provenance db))"

section \<open>Invalidating the pending challenge of a binding\<close>

definition pending_challenge_of :: "KeryxBindingId \<Rightarrow> binding_db \<Rightarrow> challenge_row option" where
  "pending_challenge_of i db =
     find (\<lambda>c. ch_binding_id c = i \<and> ch_state c = ChPending) (bx_challenges db)"

definition invalidated_challenge :: "KeryxBindingDecisionId \<Rightarrow> AuditEventId \<Rightarrow> DateTime \<Rightarrow> challenge_row \<Rightarrow> challenge_row" where
  "invalidated_challenge decision audit now c =
     c\<lparr>ch_state := ChInvalidated, ch_invalidated_at_ms := Some (timestamp_millis now),
       ch_last_decision := decision, ch_last_audit := audit\<rparr>"

definition invalidate_n6_pending_challenge ::
    "binding_env \<Rightarrow> n6_draws \<Rightarrow> nat \<Rightarrow> KeryxBindingId \<Rightarrow> DateTime \<Rightarrow> binding_db \<Rightarrow> binding_db state_result" where
  "invalidate_n6_pending_challenge E D i binding_id now db =
     (case pending_challenge_of binding_id db of
        None \<Rightarrow> Inr db
      | Some c \<Rightarrow>
          and_then (column_u64 (ch_generation c)) (\<lambda>g.
          and_then (n6_binding_view_tx E binding_id db) (\<lambda>view.
          and_then (domain_conflict (Generation_new g)) (\<lambda>generation.
          and_then (append_n6_audit (dw_audit D i) (ch_network_id c) (ch_device_id c) AuditActor_system
            ''keryx_binding_nonce_invalidated'' ''success'' generation db) (\<lambda>db.
          and_then (insert_n6_decision (dw_decision D i) (dw_audit D i) ''challenge'' ''invalidate''
            binding_id (Some (ch_challenge_id c)) None view ''pending'' ''invalidated'' 1 2 now
            AuditActor_system ''challenge_replaced'' None None (ch_agent_version c) db) (\<lambda>db.
          and_then (update_challenges
            (\<lambda>q. ch_challenge_id q = ch_challenge_id c \<and> ch_state q = ChPending)
            (invalidated_challenge (dw_decision D i) (dw_audit D i) now) db) (\<lambda>(_, db).
          Inr db)))))))"

section \<open>Reserving a challenge\<close>

definition pending_view ::
    "KeryxBindingId \<Rightarrow> N6BindingChallengeRequest \<Rightarrow> JoinSessionId option \<Rightarrow> DateTime \<Rightarrow> N6BindingView" where
  "pending_view i r session now =
     \<lparr>bv_binding_id = i, bv_network_id = N6BindingChallengeRequest.cr_network_id r,
      bv_device_id = cr_device_id r, bv_provider_binding_id = cr_provider_binding_id r,
      bv_join_session_id = session, bv_verified_peer_id = None, bv_generation = cr_generation r,
      bv_revision = 1, bv_state = KBPending, bv_created_at = now, bv_confirmed_at = None,
      bv_stale_at = None, bv_rotated_at = None, bv_revoked_at = None\<rparr>"

definition pending_record ::
    "N6BindingView \<Rightarrow> KeryxBindingId option \<Rightarrow> KeryxBindingAuthorizationId option \<Rightarrow> int \<Rightarrow> DateTime \<Rightarrow>
     AgentVersion \<Rightarrow> KeryxBindingDecisionId \<Rightarrow> AuditEventId \<Rightarrow> keryx_row" where
  "pending_record v rotated_from authorization generation now agent_version decision audit =
     \<lparr>bi_binding_id = bv_binding_id v, bi_network_id = bv_network_id v, bi_device_id = bv_device_id v,
      bi_provider_binding_id = bv_provider_binding_id v, bi_verified_peer_id = None,
      bi_generation = generation, bi_revision = 1, bi_state = KBPending,
      bi_created_at_ms = timestamp_millis now, bi_confirmed_at_ms = None, bi_stale_at_ms = None,
      bi_rotated_at_ms = None, bi_revoked_at_ms = None, bi_last_verified_at_ms = None,
      bi_rotated_from = rotated_from, bi_rotation_authorization = authorization,
      bi_agent_version = agent_version, bi_last_decision = decision, bi_last_audit = audit\<rparr>"

definition issue_first_binding ::
    "n6_draws \<Rightarrow> N6BindingChallengeRequest \<Rightarrow> JoinSessionId option \<Rightarrow> DateTime \<Rightarrow> binding_db \<Rightarrow>
     binding_db state_result" where
  "issue_first_binding D r session now db =
     (let v = pending_view (dw_binding_id D) r session now
      in and_then (record_decision D 0 ''binding'' ''issue'' (dw_binding_id D) None None v [] ''pending'' 0 1
            now AuditActor_system ''keryx_binding_pending'' ''binding_issued''
            (Some (cr_expected_authenticated_peer_id r)) None (cr_agent_version r) (dw_decision D 0) db) (\<lambda>db.
         and_then (bind_u64 (gen_get (cr_generation r))) (\<lambda>g.
         insert_keryx_row (pending_record v None None g now (cr_agent_version r) (dw_decision D 0)
           (dw_audit D 0)) db)))"

text \<open>The binding a reservation is for: the pending one of the generation, or a new one.\<close>

definition challengeable_binding ::
    "n6_draws \<Rightarrow> N6BindingChallengeRequest \<Rightarrow> JoinSessionId option \<Rightarrow> DateTime \<Rightarrow> binding_db \<Rightarrow>
     (KeryxBindingId \<times> binding_db) state_result" where
  "challengeable_binding D r session now db =
     and_then (bind_u64 (gen_get (cr_generation r))) (\<lambda>g.
     case find (\<lambda>b. bi_network_id b = N6BindingChallengeRequest.cr_network_id r \<and>
         bi_device_id b = cr_device_id r \<and> bi_generation b = g) (bx_records db) of
       Some b \<Rightarrow>
         if bi_state b = KBPending \<and> bi_provider_binding_id b = cr_provider_binding_id r
         then Inr (bi_binding_id b, db)
         else Inl (StConflict ''N6 binding generation is no longer challengeable'')
     | None \<Rightarrow> and_then (issue_first_binding D r session now db) (\<lambda>db. Inr (dw_binding_id D, db)))"

definition abandoned_reservation :: "DateTime \<Rightarrow> n6_reservation_row \<Rightarrow> n6_reservation_row" where
  "abandoned_reservation now z =
     z\<lparr>rz_state := RzAbandoned, rz_abandoned_at_ms := Some (timestamp_millis now)\<rparr>"

definition reserved_row ::
    "n6_draws \<Rightarrow> KeryxBindingId \<Rightarrow> OperationId \<Rightarrow> N6BindingChallengeRequest \<Rightarrow> string \<Rightarrow> int \<Rightarrow> DateTime \<Rightarrow>
     n6_reservation_row" where
  "reserved_row D i operation_id r fingerprint generation now =
     \<lparr>rz_reservation_id = dw_reservation_id D, rz_binding_id = i,
      rz_network_id = N6BindingChallengeRequest.cr_network_id r, rz_device_id = cr_device_id r,
      rz_expected_peer = cr_expected_authenticated_peer_id r, rz_operation_id = operation_id,
      rz_fingerprint = fingerprint, rz_generation = generation,
      rz_expires_at_ms = timestamp_millis (cr_expires_at r), rz_agent_version = cr_agent_version r,
      rz_state = RzReserved, rz_reserved_at_ms = timestamp_millis now, rz_issued_at_ms = None,
      rz_abandoned_at_ms = None, rz_challenge_id = None\<rparr>"

definition reserve_new_challenge ::
    "binding_env \<Rightarrow> n6_draws \<Rightarrow> OperationId \<Rightarrow> N6BindingChallengeRequest \<Rightarrow> JoinSessionId option \<Rightarrow> string \<Rightarrow>
     DateTime \<Rightarrow> binding_db \<Rightarrow> (N6ChallengeReservationOutcome \<times> binding_db) state_result" where
  "reserve_new_challenge E D operation_id r session fingerprint now db =
     and_then (challengeable_binding D r session now db) (\<lambda>(i, db).
     and_then (invalidate_n6_pending_challenge E D 1 i now db) (\<lambda>db.
     and_then (update_reservations (\<lambda>z. rz_binding_id z = i \<and> rz_state z = RzReserved)
       (abandoned_reservation now) db) (\<lambda>(_, db).
     and_then (bind_u64 (gen_get (cr_generation r))) (\<lambda>g.
     and_then (insert_reservation (reserved_row D i operation_id r fingerprint g now) db) (\<lambda>db.
     Inr (ReservationAcquired
       \<lparr>hr_reservation_id = dw_reservation_id D, hr_binding_id = i, hr_generation = cr_generation r\<rparr>, db))))))"

definition reservation_answer ::
    "string \<Rightarrow> n6_reservation_row \<Rightarrow> N6ChallengeReservationOutcome state_result" where
  "reservation_answer fingerprint z =
     and_then (column_u64 (rz_generation z)) (\<lambda>g.
     if rz_fingerprint z \<noteq> fingerprint \<or> rz_state z = RzAbandoned then Inr ReservationConflict
     else if rz_state z = RzIssued then Inr ReservationAlreadyIssued
     else and_then (domain_conflict (Generation_new g)) (\<lambda>generation.
       Inr (ReservationResumable \<lparr>hr_reservation_id = rz_reservation_id z,
         hr_binding_id = rz_binding_id z, hr_generation = generation\<rparr>)))"

definition reserve_challenge_tx ::
    "binding_env \<Rightarrow> n6_draws \<Rightarrow> OperationId \<Rightarrow> N6BindingChallengeRequest \<Rightarrow> DateTime \<Rightarrow> binding_db \<Rightarrow>
     (N6ChallengeReservationOutcome \<times> binding_db) state_result" where
  "reserve_challenge_tx E D operation_id r now db =
     (let n = N6BindingChallengeRequest.cr_network_id r;
          session = joined_device_session (cr_provider_binding_id r) (cr_device_id r) n db;
          fingerprint = n6_challenge_fingerprint E r session
      in and_then (ensure (session \<noteq> None \<or> adopted_device (cr_provider_binding_id r) (cr_device_id r) n db)
           (StConflict ''N6 challenge requires exact confirmed N5 provider-binding provenance'')) (\<lambda>_.
         case find (\<lambda>z. rz_expected_peer z = cr_expected_authenticated_peer_id r \<and>
             rz_operation_id z = operation_id) (bx_reservations db) of
           Some z \<Rightarrow> and_then (reservation_answer fingerprint z) (\<lambda>answer. Inr (answer, db))
         | None \<Rightarrow> reserve_new_challenge E D operation_id r session fingerprint now db))"

definition reserve_n6_binding_challenge ::
    "binding_env \<Rightarrow> n6_draws \<Rightarrow> OperationId \<Rightarrow> N6BindingChallengeRequest \<Rightarrow> DateTime \<Rightarrow> binding_db \<Rightarrow>
     N6ChallengeReservationOutcome state_result \<times> binding_db" where
  "reserve_n6_binding_challenge E D operation_id r now db =
     (case domain_conflict (N6BindingChallengeRequest_validate_at (be_uuid E) r now) of
        Inl e \<Rightarrow> (Inl e, db)
      | Inr _ \<Rightarrow> transactional (reserve_challenge_tx E D operation_id r now) db)"

section \<open>Completing a challenge\<close>

definition issued_challenge ::
    "n6_draws \<Rightarrow> N6BindingView \<Rightarrow> n6_reservation_row \<Rightarrow> string \<Rightarrow> int \<Rightarrow> DateTime \<Rightarrow> challenge_row" where
  "issued_challenge D v z verifier generation now =
     \<lparr>ch_challenge_id = dw_challenge_id D, ch_binding_id = bv_binding_id v, ch_network_id = bv_network_id v,
      ch_device_id = bv_device_id v, ch_expected_peer = rz_expected_peer z, ch_generation = generation,
      ch_verifier = verifier, ch_state = ChPending, ch_issued_at_ms = timestamp_millis now,
      ch_expires_at_ms = rz_expires_at_ms z, ch_consumed_at_ms = None, ch_invalidated_at_ms = None,
      ch_expired_at_ms = None, ch_consumed_operation = None, ch_consumed_peer = None,
      ch_agent_version = rz_agent_version z, ch_last_decision = dw_decision D 0,
      ch_last_audit = dw_audit D 0\<rparr>"

definition issued_reservation :: "n6_draws \<Rightarrow> DateTime \<Rightarrow> n6_reservation_row \<Rightarrow> n6_reservation_row" where
  "issued_reservation D now z =
     z\<lparr>rz_state := RzIssued, rz_issued_at_ms := Some (timestamp_millis now),
       rz_challenge_id := Some (dw_challenge_id D)\<rparr>"

definition record_challenge ::
    "binding_env \<Rightarrow> n6_draws \<Rightarrow> N6ChallengeReservation \<Rightarrow> n6_reservation_row \<Rightarrow> BindingNonceVerifier \<Rightarrow>
     DateTime \<Rightarrow> binding_db \<Rightarrow> (N6ChallengeCompletion \<times> binding_db) state_result" where
  "record_challenge E D h z verifier now db =
     and_then (n6_binding_view_tx E (hr_binding_id h) db) (\<lambda>v.
     and_then (record_decision D 0 ''challenge'' ''issue'' (hr_binding_id h) (Some (dw_challenge_id D)) None v
       [] ''pending'' 0 1 now AuditActor_system ''keryx_binding_nonce_issued'' ''challenge_issued''
       (Some (rz_expected_peer z)) (Some (rz_operation_id z)) (rz_agent_version z) (dw_decision D 0) db) (\<lambda>db.
     and_then (bind_u64 (gen_get (bv_generation v))) (\<lambda>g.
     and_then (insert_challenge
       (issued_challenge D v z (nonce_verifier_str verifier) g now) db) (\<lambda>db.
     and_then (update_reservations
       (\<lambda>q. rz_reservation_id q = hr_reservation_id h \<and> rz_state q = RzReserved)
       (issued_reservation D now) db) (\<lambda>(changed, db).
     and_then (ensure (changed = 1) (StConflict ''N6 challenge reservation completion lost'')) (\<lambda>_.
     Inr (CompletionRecorded (dw_challenge_id D) (hr_binding_id h) (hr_generation h)
       (timestamp_of_millis (rz_expires_at_ms z)) now, db)))))))"

definition complete_challenge_tx ::
    "binding_env \<Rightarrow> n6_draws \<Rightarrow> N6ChallengeReservation \<Rightarrow> BindingNonceVerifier \<Rightarrow> DateTime \<Rightarrow> binding_db \<Rightarrow>
     (N6ChallengeCompletion \<times> binding_db) state_result" where
  "complete_challenge_tx E D h verifier now db =
     and_then (bind_u64 (gen_get (hr_generation h))) (\<lambda>g.
     and_then (ok_or (find (\<lambda>z. rz_reservation_id z = hr_reservation_id h \<and>
         rz_binding_id z = hr_binding_id h \<and> rz_generation z = g) (bx_reservations db))
       (StConflict ''N6 challenge reservation is absent'')) (\<lambda>z.
     if rz_state z = RzIssued then Inr (CompletionAlreadyIssued, db)
     else and_then (ensure (rz_state z = RzReserved)
       (StConflict ''N6 challenge reservation is no longer live'')) (\<lambda>_.
       record_challenge E D h z verifier now db)))"

definition complete_n6_binding_challenge ::
    "binding_env \<Rightarrow> n6_draws \<Rightarrow> N6ChallengeReservation \<Rightarrow> BindingNonceVerifier \<Rightarrow> DateTime \<Rightarrow> binding_db \<Rightarrow>
     N6ChallengeCompletion state_result \<times> binding_db" where
  "complete_n6_binding_challenge E D h verifier now = transactional (complete_challenge_tx E D h verifier now)"

text \<open>Two transactions with the nonce drawn between them; its two calls draw their own identifiers.\<close>

definition deliver_challenge ::
    "binding_env \<Rightarrow> BindingNonce \<Rightarrow> N6ChallengeCompletion \<Rightarrow> N6BindingChallengeDelivery state_result" where
  "deliver_challenge E nonce completion =
     (case completion of
        CompletionRecorded challenge_id binding_id generation expires_at issued_at \<Rightarrow>
          domain_conflict (N6BindingChallengeDelivery_new (be_uuid E) challenge_id binding_id generation
            nonce expires_at issued_at)
      | CompletionAlreadyIssued \<Rightarrow> Inl (StConflict ''N6 challenge operation already completed''))"

definition issue_reserved ::
    "binding_env \<Rightarrow> n6_draws \<Rightarrow> N6ChallengeReservation \<Rightarrow> DateTime \<Rightarrow> binding_db \<Rightarrow>
     N6BindingChallengeDelivery state_result \<times> binding_db" where
  "issue_reserved E D h now db =
     (let nonce = BindingNonce_generate (dw_nonce D)
      in case domain_conflict (from_nonce (be_argon E) (be_std_base64 E) (dw_salt D) nonce) of
           Inl e \<Rightarrow> (Inl e, db)
         | Inr verifier \<Rightarrow>
             (case complete_n6_binding_challenge E D h verifier now db of
                (Inl e, db) \<Rightarrow> (Inl e, db)
              | (Inr completion, db) \<Rightarrow> (deliver_challenge E nonce completion, db)))"

definition issue_n6_binding_challenge ::
    "binding_env \<Rightarrow> n6_draws \<Rightarrow> n6_draws \<Rightarrow> OperationId \<Rightarrow> N6BindingChallengeRequest \<Rightarrow> DateTime \<Rightarrow>
     binding_db \<Rightarrow> N6BindingChallengeDelivery state_result \<times> binding_db" where
  "issue_n6_binding_challenge E D D' operation_id r now db =
     (case reserve_n6_binding_challenge E D operation_id r now db of
        (Inl e, db) \<Rightarrow> (Inl e, db)
      | (Inr outcome, db) \<Rightarrow>
          (case outcome of
             ReservationAcquired h \<Rightarrow> issue_reserved E D' h now db
           | ReservationResumable h \<Rightarrow> issue_reserved E D' h now db
           | ReservationAlreadyIssued \<Rightarrow>
               (Inl (StConflict ''N6 challenge operation already issued; use a new operation ID''), db)
           | ReservationConflict \<Rightarrow>
               (Inl (StConflict ''N6 challenge operation conflicts with durable state''), db)))"

section \<open>Confirming a binding\<close>

definition consumed_challenge ::
    "KeryxPeerId \<Rightarrow> OperationId \<Rightarrow> KeryxBindingDecisionId \<Rightarrow> AuditEventId \<Rightarrow> DateTime \<Rightarrow> challenge_row \<Rightarrow>
     challenge_row" where
  "consumed_challenge peer operation decision audit now c =
     c\<lparr>ch_state := ChConsumed, ch_consumed_at_ms := Some (timestamp_millis now),
       ch_consumed_operation := Some operation, ch_consumed_peer := Some peer,
       ch_last_decision := decision, ch_last_audit := audit\<rparr>"

definition confirmed_record ::
    "KeryxPeerId \<Rightarrow> KeryxBindingDecisionId \<Rightarrow> AuditEventId \<Rightarrow> DateTime \<Rightarrow> keryx_row \<Rightarrow> keryx_row" where
  "confirmed_record peer decision audit now r =
     r\<lparr>bi_state := KBActive, bi_verified_peer_id := Some peer, bi_revision := bi_revision r + 1,
       bi_confirmed_at_ms := Some (timestamp_millis now),
       bi_last_verified_at_ms := Some (timestamp_millis now), bi_last_decision := decision,
       bi_last_audit := audit\<rparr>"

definition consume_challenge ::
    "n6_draws \<Rightarrow> KeryxPeerId \<Rightarrow> N6AuthenticatedBindRequest \<Rightarrow> challenge_row \<Rightarrow> N6BindingView \<Rightarrow> DateTime \<Rightarrow>
     binding_db \<Rightarrow> binding_db state_result" where
  "consume_challenge D peer request c v now db =
     and_then (record_decision D 0 ''challenge'' ''confirm'' (ch_binding_id c) (Some (ch_challenge_id c)) None
       v ''pending'' ''consumed'' 1 2 now AuditActor_system ''keryx_binding_attempted'' ''challenge_confirmed''
       (Some peer) (Some (br_operation_id request)) (br_agent_version request) (dw_decision D 0) db) (\<lambda>db.
     and_then (update_challenges (\<lambda>q. ch_challenge_id q = ch_challenge_id c \<and> ch_state q = ChPending)
       (consumed_challenge peer (br_operation_id request) (dw_decision D 0) (dw_audit D 0) now) db)
       (\<lambda>(changed, db).
     and_then (ensure (changed = 1) (StConflict ''N6 challenge consumption lost'')) (\<lambda>_. Inr db)))"

definition activate_binding ::
    "n6_draws \<Rightarrow> KeryxPeerId \<Rightarrow> N6AuthenticatedBindRequest \<Rightarrow> challenge_row \<Rightarrow> N6BindingView \<Rightarrow> DateTime \<Rightarrow>
     binding_db \<Rightarrow> binding_db state_result" where
  "activate_binding D peer request c v now db =
     and_then (record_decision D 1 ''binding'' ''confirm'' (ch_binding_id c) (Some (ch_challenge_id c)) None
       v ''pending'' ''active'' (bv_revision v) (bv_revision v + 1) now AuditActor_system
       ''keryx_binding_confirmed'' ''binding_confirmed'' (Some peer) (Some (br_operation_id request))
       (br_agent_version request) (dw_decision D 1) db) (\<lambda>db.
     and_then (bind_u64 (bv_revision v)) (\<lambda>revision.
     and_then (update_keryx_rows (\<lambda>r. bi_binding_id r = ch_binding_id c \<and> bi_state r = KBPending \<and>
         bi_revision r = revision)
       (confirmed_record peer (dw_decision D 1) (dw_audit D 1) now) db) (\<lambda>(changed, db).
     and_then (ensure (changed = 1) (StConflict ''N6 binding confirmation lost'')) (\<lambda>_. Inr db))))"

definition confirmed_operation ::
    "n6_draws \<Rightarrow> KeryxPeerId \<Rightarrow> N6AuthenticatedBindRequest \<Rightarrow> challenge_row \<Rightarrow> string \<Rightarrow> DateTime \<Rightarrow>
     control_row" where
  "confirmed_operation D peer request c fingerprint now =
     \<lparr>op_peer = peer, op_operation_id = br_operation_id request, op_fingerprint = fingerprint,
      op_binding_id = ch_binding_id c, op_challenge_id = ch_challenge_id c,
      op_completed_at_ms = timestamp_millis now, op_decision = dw_decision D 1, op_audit = dw_audit D 1\<rparr>"

definition confirm_writes ::
    "binding_env \<Rightarrow> n6_draws \<Rightarrow> KeryxPeerId \<Rightarrow> N6AuthenticatedBindRequest \<Rightarrow> challenge_row \<Rightarrow> N6BindingView \<Rightarrow>
     string \<Rightarrow> DateTime \<Rightarrow> binding_db \<Rightarrow> (N6AuthenticatedBindOutcome \<times> binding_db) state_result" where
  "confirm_writes E D peer request c v fingerprint now db =
     and_then (consume_challenge D peer request c v now db) (\<lambda>db.
     and_then (activate_binding D peer request c v now db) (\<lambda>db.
     and_then (insert_control_operation (confirmed_operation D peer request c fingerprint now) db) (\<lambda>db.
     and_then (n6_binding_view_tx E (ch_binding_id c) db) (\<lambda>view.
     Inr (BindConfirmed view, db)))))"

definition expected_challenge ::
    "KeryxPeerId \<Rightarrow> N6AuthenticatedBindRequest \<Rightarrow> int \<Rightarrow> challenge_row \<Rightarrow> bool" where
  "expected_challenge peer request generation c \<longleftrightarrow>
     ch_network_id c = br_network_id request \<and> ch_device_id c = br_device_id request \<and>
     ch_generation c = generation \<and> ch_expected_peer c = peer \<and> ch_state c = ChPending"

definition challenge_matches ::
    "binding_env \<Rightarrow> N6AuthenticatedBindRequest \<Rightarrow> DateTime \<Rightarrow> challenge_row \<Rightarrow> unit state_result" where
  "challenge_matches E request now c =
     and_then (ensure (\<not> (ch_expires_at_ms c \<le> timestamp_millis now \<or>
         ch_agent_version c \<noteq> br_agent_version request))
       (StConflict ''N6 challenge is expired or agent-mismatched'')) (\<lambda>_.
     and_then (domain_conflict (BindingNonceVerifier_parse (be_argon E) (be_std_base64 E) (ch_verifier c)))
       (\<lambda>verifier.
     and_then (domain_conflict (verify_nonce (be_argon E) (be_std_base64 E) verifier
       (br_binding_nonce request))) (\<lambda>verified.
     ensure verified (StConflict ''N6 nonce verification failed''))))"

definition confirm_new_tx ::
    "binding_env \<Rightarrow> n6_draws \<Rightarrow> KeryxPeerId \<Rightarrow> N6AuthenticatedBindRequest \<Rightarrow> string \<Rightarrow> DateTime \<Rightarrow>
     binding_db \<Rightarrow> (N6AuthenticatedBindOutcome \<times> binding_db) state_result" where
  "confirm_new_tx E D peer request fingerprint now db =
     and_then (bind_u64 (gen_get (br_generation request))) (\<lambda>g.
     and_then (ok_or (find (expected_challenge peer request g) (bx_challenges db))
       (StConflict ''no pending N6 challenge for authenticated peer'')) (\<lambda>c.
     and_then (challenge_matches E request now c) (\<lambda>_.
     and_then (n6_binding_view_tx E (ch_binding_id c) db) (\<lambda>v.
     and_then (ensure (\<not> (bv_network_id v \<noteq> br_network_id request \<or> bv_device_id v \<noteq> br_device_id request \<or>
         bv_provider_binding_id v \<noteq> br_provider_binding_id request \<or>
         bv_generation v \<noteq> br_generation request \<or> bv_state v \<noteq> KBPending))
       (StConflict ''N6 binding challenge provenance changed'')) (\<lambda>_.
     confirm_writes E D peer request c v fingerprint now db)))))"

definition confirm_tx ::
    "binding_env \<Rightarrow> n6_draws \<Rightarrow> KeryxPeerId \<Rightarrow> N6AuthenticatedBindRequest \<Rightarrow> DateTime \<Rightarrow> binding_db \<Rightarrow>
     (N6AuthenticatedBindOutcome \<times> binding_db) state_result" where
  "confirm_tx E D peer request now db =
     (let session = historical_session (br_provider_binding_id request) (br_device_id request)
            (br_network_id request) db;
          fingerprint = n6_request_fingerprint E peer request session
      in case find (\<lambda>q. op_peer q = peer \<and> op_operation_id q = br_operation_id request) (bx_operations db) of
           Some q \<Rightarrow>
             if op_fingerprint q \<noteq> fingerprint then Inr (BindConflict, db)
             else and_then (n6_binding_view_tx E (op_binding_id q) db) (\<lambda>v. Inr (BindReplayed v, db))
         | None \<Rightarrow> confirm_new_tx E D peer request fingerprint now db)"

definition confirm_n6_authenticated_binding ::
    "binding_env \<Rightarrow> n6_draws \<Rightarrow> KeryxPeerId \<Rightarrow> N6AuthenticatedBindRequest \<Rightarrow> DateTime \<Rightarrow> binding_db \<Rightarrow>
     N6AuthenticatedBindOutcome state_result \<times> binding_db" where
  "confirm_n6_authenticated_binding E D peer request now = transactional (confirm_tx E D peer request now)"

section \<open>Grants and authorizations\<close>

definition grant_tx ::
    "binding_env \<Rightarrow> n6_draws \<Rightarrow> OwnerTrustRootToken \<Rightarrow> TrustAuthorityId \<Rightarrow>
     KeryxBindingAuthorizationCapability \<Rightarrow> DateTime \<Rightarrow> binding_db \<Rightarrow> (unit \<times> binding_db) state_result" where
  "grant_tx E D token authority_id capability now db =
     and_then (ok_or (find (\<lambda>a. ta_authority_id a = authority_id) (bx_authorities db))
       (StSqlite ''QueryReturnedNoRows'')) (\<lambda>a.
     and_then (column_u64 (ta_generation a)) (\<lambda>generation.
     and_then (verify_n5_owner_root (be_argon E) token (ta_network_id a) (bx_roots db)) (\<lambda>actor.
     and_then (ensure (actor = principal_of a)
       (StMutationAuthorizationDenied ''N6 capability grant principal does not match authority'')) (\<lambda>_.
     and_then (bind_u64 generation) (\<lambda>g.
     and_then (insert_n6_event
       \<lparr>na_event_id = dw_audit D 0, na_network_id = ta_network_id a, na_device_id = None,
        na_actor = actor, na_event_kind = ''keryx_binding_authority_capability_granted'',
        na_outcome = ''success'', na_generation = g\<rparr> db) (\<lambda>db.
     and_then (insert_grant
       \<lparr>gc_grant_id = dw_grant_id D, gc_authority_id = authority_id, gc_capability = capability,
        gc_issued_by = actor, gc_issued_at_ms = timestamp_millis now, gc_audit = dw_audit D 0\<rparr> db) (\<lambda>db.
     Inr ((), db))))))))"

definition grant_n6_binding_capability ::
    "binding_env \<Rightarrow> n6_draws \<Rightarrow> OwnerTrustRootToken \<Rightarrow> TrustAuthorityId \<Rightarrow>
     KeryxBindingAuthorizationCapability \<Rightarrow> DateTime \<Rightarrow> binding_db \<Rightarrow> unit state_result \<times> binding_db" where
  "grant_n6_binding_capability E D token authority_id capability now =
     transactional (grant_tx E D token authority_id capability now)"

definition stored_agent_version :: "KeryxBindingId \<Rightarrow> binding_db \<Rightarrow> AgentVersion state_result" where
  "stored_agent_version i db =
     and_then (ok_or (keryx_row_named i db) (StSqlite ''QueryReturnedNoRows'')) (\<lambda>r.
     Inr (bi_agent_version r))"

definition pending_authorization ::
    "KeryxBindingAuthorization \<Rightarrow> N6BindingView \<Rightarrow> int \<Rightarrow> int \<Rightarrow> DateTime \<Rightarrow> KeryxBindingDecisionId \<Rightarrow>
     AuditEventId \<Rightarrow> authorization_row" where
  "pending_authorization a v generation revision now decision audit =
     \<lparr>az_authorization_id = ka_authorization_id a, az_authority_id = ka_authority_id a,
      az_binding_id = ka_binding_id a, az_network_id = bv_network_id v, az_device_id = bv_device_id v,
      az_generation = generation, az_expected_revision = revision, az_action = ka_capability a,
      az_actor = ka_actor a, az_issued_at_ms = timestamp_millis now,
      az_expires_at_ms = timestamp_millis (ka_expires_at a), az_issued_decision = decision,
      az_issued_audit = audit, az_state = AzPending, az_consumed_at_ms = None,
      az_consumed_decision = None, az_consumed_audit = None\<rparr>"

definition issue_authorization_tx ::
    "binding_env \<Rightarrow> n6_draws \<Rightarrow> OwnerTrustRootToken \<Rightarrow> TrustAuthorityId \<Rightarrow> KeryxBindingId \<Rightarrow>
     KeryxBindingAuthorizationCapability \<Rightarrow> DateTime \<Rightarrow> DateTime \<Rightarrow> binding_db \<Rightarrow>
     (KeryxBindingAuthorization \<times> binding_db) state_result" where
  "issue_authorization_tx E D token authority_id i capability expires_at now db =
     and_then (n6_binding_view_tx E i db) (\<lambda>v.
     and_then (verify_n5_owner_root (be_argon E) token (bv_network_id v) (bx_roots db)) (\<lambda>actor.
     and_then (domain_conflict (KeryxBindingAuthorization_new (be_uuid E) (dw_authorization_id D)
       authority_id actor capability i (bv_generation v) (bv_revision v) expires_at now)) (\<lambda>a.
     and_then (append_n6_audit (dw_audit D 0) (bv_network_id v) (bv_device_id v) actor
       ''keryx_binding_authorization_issued'' ''success'' (bv_generation v) db) (\<lambda>db.
     and_then (stored_agent_version i db) (\<lambda>agent_version.
     and_then (insert_n6_decision (dw_decision D 0) (dw_audit D 0) ''authorization'' ''issue'' i None
       (Some (dw_authorization_id D)) v [] ''pending'' 0 1 now actor ''authorization_issued'' None None
       agent_version db) (\<lambda>db.
     and_then (bind_u64 (gen_get (bv_generation v))) (\<lambda>g.
     and_then (bind_u64 (bv_revision v)) (\<lambda>revision.
     and_then (insert_authorization
       (pending_authorization a v g revision now (dw_decision D 0) (dw_audit D 0)) db) (\<lambda>db.
     Inr (a, db))))))))))"

definition issue_n6_binding_authorization ::
    "binding_env \<Rightarrow> n6_draws \<Rightarrow> OwnerTrustRootToken \<Rightarrow> TrustAuthorityId \<Rightarrow> KeryxBindingId \<Rightarrow>
     KeryxBindingAuthorizationCapability \<Rightarrow> DateTime \<Rightarrow> DateTime \<Rightarrow> binding_db \<Rightarrow>
     KeryxBindingAuthorization state_result \<times> binding_db" where
  "issue_n6_binding_authorization E D token authority_id i capability expires_at now =
     transactional (issue_authorization_tx E D token authority_id i capability expires_at now)"

section \<open>The fence of the Fleet projections\<close>

definition projects_binding :: "binding_env \<Rightarrow> N6BindingView \<Rightarrow> projection_row \<Rightarrow> bool" where
  "projects_binding E v p \<longleftrightarrow>
     fr_network_id p = id_display (be_uuid E) (bv_network_id v) \<and>
     fr_device_id p = id_display (be_uuid E) (bv_device_id v) \<and>
     fr_binding_id p = id_display (be_uuid E) (bv_binding_id v) \<and>
     fr_binding_generation p = uint (gen_get (bv_generation v))"

text \<open>
  The desired body is the canonical JSON object that the projection store wrote, so \<^verbatim>\<open>json_extract\<close>
  answers a value or \<^verbatim>\<open>NULL\<close>; the error SQLite raises on malformed text is not modelled.
\<close>

definition removes_node :: "binding_env \<Rightarrow> projection_row \<Rightarrow> bool" where
  "removes_node E p \<longleftrightarrow> be_json_state E (fr_desired_body p) = Some ''removed''"

definition supersedes :: "binding_env \<Rightarrow> projection_row \<Rightarrow> projection_row \<Rightarrow> bool" where
  "supersedes E p q \<longleftrightarrow>
     fr_network_id q = fr_network_id p \<and> fr_device_id q = fr_device_id p \<and>
     fr_generation p < fr_generation q \<and> fr_projection_state q = ''applied'' \<and>
     (fr_binding_id q \<noteq> fr_binding_id p \<or> fr_binding_generation q \<noteq> fr_binding_generation p \<or>
      removes_node E q)"

definition may_hold_node :: "binding_env \<Rightarrow> projection_row \<Rightarrow> bool" where
  "may_hold_node E p \<longleftrightarrow>
     fr_projection_state p \<in> {''attempted'', ''conflict''} \<or>
     (fr_projection_state p = ''applied'' \<and> \<not> removes_node E p)"

definition n6_fleet_authority_is_unresolved_tx ::
    "binding_env \<Rightarrow> N6BindingView \<Rightarrow> binding_db \<Rightarrow> bool state_result" where
  "n6_fleet_authority_is_unresolved_tx E v db =
     and_then (bind_u64 (gen_get (bv_generation v))) (\<lambda>_.
     Inr (list_ex (\<lambda>p. projects_binding E v p \<and> may_hold_node E p \<and>
       \<not> list_ex (supersedes E p) (bx_projections db)) (bx_projections db)))"

section \<open>Rotating and revoking\<close>

definition consumed_authorization ::
    "KeryxBindingDecisionId \<Rightarrow> AuditEventId \<Rightarrow> DateTime \<Rightarrow> authorization_row \<Rightarrow> authorization_row" where
  "consumed_authorization decision audit now z =
     z\<lparr>az_state := AzConsumed, az_consumed_at_ms := Some (timestamp_millis now),
       az_consumed_decision := Some decision, az_consumed_audit := Some audit\<rparr>"

definition consume_authorization ::
    "KeryxBindingAuthorization \<Rightarrow> KeryxBindingDecisionId \<Rightarrow> AuditEventId \<Rightarrow> DateTime \<Rightarrow> binding_db \<Rightarrow>
     binding_db state_result" where
  "consume_authorization a decision audit now db =
     and_then (update_authorizations
       (\<lambda>z. az_authorization_id z = ka_authorization_id a \<and> az_state z = AzPending)
       (consumed_authorization decision audit now) db) (\<lambda>(_, db). Inr db)"

definition rotated_record :: "KeryxBindingDecisionId \<Rightarrow> AuditEventId \<Rightarrow> DateTime \<Rightarrow> keryx_row \<Rightarrow> keryx_row" where
  "rotated_record decision audit now r =
     r\<lparr>bi_state := KBRotated, bi_revision := bi_revision r + 1,
       bi_rotated_at_ms := Some (timestamp_millis now), bi_last_decision := decision, bi_last_audit := audit\<rparr>"

definition revoked_record :: "KeryxBindingDecisionId \<Rightarrow> AuditEventId \<Rightarrow> DateTime \<Rightarrow> keryx_row \<Rightarrow> keryx_row" where
  "revoked_record decision audit now r =
     r\<lparr>bi_state := KBRevoked, bi_revision := bi_revision r + 1,
       bi_revoked_at_ms := Some (timestamp_millis now), bi_last_decision := decision, bi_last_audit := audit\<rparr>"

text \<open>The last update of both transactions: the exact revision, in a state the action may end.\<close>

definition settle_record ::
    "N6BindingView \<Rightarrow> KeryxBindingAuthorizationCapability \<Rightarrow> (keryx_row \<Rightarrow> keryx_row) \<Rightarrow> binding_db \<Rightarrow>
     binding_db state_result" where
  "settle_record v action f db =
     and_then (bind_u64 (bv_revision v)) (\<lambda>revision.
     and_then (update_keryx_rows (\<lambda>r. bi_binding_id r = bv_binding_id v \<and> bi_revision r = revision \<and>
         bi_state r \<in> set (live_states action)) f db) (\<lambda>(changed, db).
     and_then (ensure (changed = 1) (StStaleGeneration (bv_revision v) (bv_revision v + 1))) (\<lambda>_. Inr db)))"

definition successor_view :: "n6_draws \<Rightarrow> N6BindingRotationIntent \<Rightarrow> N6BindingView \<Rightarrow> DateTime \<Rightarrow> N6BindingView" where
  "successor_view D intent v now =
     \<lparr>bv_binding_id = dw_binding_id D, bv_network_id = bv_network_id v, bv_device_id = bv_device_id v,
      bv_provider_binding_id = bv_provider_binding_id v, bv_join_session_id = bv_join_session_id v,
      bv_verified_peer_id = None, bv_generation = ri_expected_next_generation intent, bv_revision = 1,
      bv_state = KBPending, bv_created_at = now, bv_confirmed_at = None, bv_stale_at = None,
      bv_rotated_at = None, bv_revoked_at = None\<rparr>"

definition insert_successor ::
    "n6_draws \<Rightarrow> N6BindingRotationIntent \<Rightarrow> N6BindingView \<Rightarrow> AgentVersion \<Rightarrow> DateTime \<Rightarrow> binding_db \<Rightarrow>
     binding_db state_result" where
  "insert_successor D intent v agent_version now db =
     (let w = successor_view D intent v now; a = ri_authorization intent
      in and_then (record_decision D 0 ''binding'' ''issue'' (dw_binding_id D) None None w [] ''pending'' 0 1 now
           (ka_actor a) ''keryx_binding_pending'' ''binding_issued'' None None agent_version
           (dw_decision D 0) db) (\<lambda>db.
         and_then (bind_u64 (gen_get (bv_generation w))) (\<lambda>g.
         insert_keryx_row (pending_record w (Some (bv_binding_id v)) (Some (ka_authorization_id a)) g now
           agent_version (dw_decision D 0) (dw_audit D 0)) db)))"

definition retire_predecessor ::
    "n6_draws \<Rightarrow> N6BindingRotationIntent \<Rightarrow> N6BindingView \<Rightarrow> AgentVersion \<Rightarrow> DateTime \<Rightarrow> binding_db \<Rightarrow>
     binding_db state_result" where
  "retire_predecessor D intent v agent_version now db =
     (let a = ri_authorization intent; decision = ri_decision_id intent
      in and_then (record_decision D 1 ''binding'' ''rotate'' (bv_binding_id v) None
           (Some (ka_authorization_id a)) v (KeryxBindingState_str (bv_state v)) ''rotated'' (bv_revision v)
           (bv_revision v + 1) now (ka_actor a) ''keryx_binding_rotated''
           (reason_code_str (ri_reason_code intent)) None None agent_version decision db) (\<lambda>db.
         and_then (consume_authorization a decision (dw_audit D 1) now db) (\<lambda>db.
         settle_record v KCRotate (rotated_record decision (dw_audit D 1) now) db)))"

definition rotate_tx ::
    "binding_env \<Rightarrow> n6_draws \<Rightarrow> N6BindingRotationIntent \<Rightarrow> DateTime \<Rightarrow> binding_db \<Rightarrow>
     (N6BindingView \<times> binding_db) state_result" where
  "rotate_tx E D intent now db =
     and_then (n6_binding_view_tx E (ri_predecessor_binding_id intent) db) (\<lambda>v.
     and_then (ensure (\<not> (bv_generation v \<noteq> ri_predecessor_generation intent \<or>
         bv_revision v \<noteq> ri_predecessor_revision intent \<or> bv_state v \<notin> {KBActive, KBStale}))
       (StStaleGeneration (ri_predecessor_revision intent) (bv_revision v))) (\<lambda>_.
     and_then (n6_fleet_authority_is_unresolved_tx E v db) (\<lambda>unresolved.
     and_then (ensure (\<not> unresolved) (StConflict ''N6 binding Fleet authority remains unresolved'')) (\<lambda>_.
     and_then (stored_agent_version (bv_binding_id v) db) (\<lambda>agent_version.
     and_then (insert_successor D intent v agent_version now db) (\<lambda>db.
     and_then (retire_predecessor D intent v agent_version now db) (\<lambda>db.
     and_then (n6_binding_view_tx E (dw_binding_id D) db) (\<lambda>w. Inr (w, db)))))))))"

definition rotate_n6_binding ::
    "binding_env \<Rightarrow> n6_draws \<Rightarrow> N6BindingRotationIntent \<Rightarrow> DateTime \<Rightarrow> binding_db \<Rightarrow>
     N6BindingView state_result \<times> binding_db" where
  "rotate_n6_binding E D intent now db =
     (case domain_conflict (N6BindingRotationIntent_validate_at (be_uuid E) intent now) of
        Inl e \<Rightarrow> (Inl e, db)
      | Inr _ \<Rightarrow> transactional (rotate_tx E D intent now) db)"

definition retire_revoked ::
    "n6_draws \<Rightarrow> N6BindingRevocationIntent \<Rightarrow> N6BindingView \<Rightarrow> AgentVersion \<Rightarrow> DateTime \<Rightarrow> binding_db \<Rightarrow>
     binding_db state_result" where
  "retire_revoked D intent v agent_version now db =
     (let a = vi_authorization intent; decision = vi_decision_id intent
      in and_then (record_decision D 1 ''binding'' ''revoke'' (bv_binding_id v) None
           (Some (ka_authorization_id a)) v (KeryxBindingState_str (bv_state v)) ''revoked'' (bv_revision v)
           (bv_revision v + 1) now (ka_actor a) ''keryx_binding_revoked''
           (reason_code_str (vi_reason_code intent)) None None agent_version decision db) (\<lambda>db.
         and_then (consume_authorization a decision (dw_audit D 1) now db) (\<lambda>db.
         settle_record v KCRevoke (revoked_record decision (dw_audit D 1) now) db)))"

definition revoke_tx ::
    "binding_env \<Rightarrow> n6_draws \<Rightarrow> N6BindingRevocationIntent \<Rightarrow> DateTime \<Rightarrow> binding_db \<Rightarrow>
     (N6BindingView \<times> binding_db) state_result" where
  "revoke_tx E D intent now db =
     and_then (n6_binding_view_tx E (vi_binding_id intent) db) (\<lambda>v.
     and_then (ensure (\<not> (bv_generation v \<noteq> vi_generation intent \<or> bv_revision v \<noteq> N6BindingRevocationIntent.vi_revision intent \<or>
         bv_state v \<notin> {KBPending, KBActive, KBStale}))
       (StStaleGeneration (N6BindingRevocationIntent.vi_revision intent) (bv_revision v))) (\<lambda>_.
     and_then (n6_fleet_authority_is_unresolved_tx E v db) (\<lambda>unresolved.
     and_then (ensure (\<not> unresolved) (StConflict ''N6 binding Fleet authority remains unresolved'')) (\<lambda>_.
     and_then (stored_agent_version (bv_binding_id v) db) (\<lambda>agent_version.
     and_then (invalidate_n6_pending_challenge E D 0 (bv_binding_id v) now db) (\<lambda>db.
     and_then (retire_revoked D intent v agent_version now db) (\<lambda>db.
     and_then (n6_binding_view_tx E (bv_binding_id v) db) (\<lambda>w. Inr (w, db)))))))))"

definition revoke_n6_binding ::
    "binding_env \<Rightarrow> n6_draws \<Rightarrow> N6BindingRevocationIntent \<Rightarrow> DateTime \<Rightarrow> binding_db \<Rightarrow>
     N6BindingView state_result \<times> binding_db" where
  "revoke_n6_binding E D intent now db =
     (case domain_conflict (N6BindingRevocationIntent_validate_at (be_uuid E) intent now) of
        Inl e \<Rightarrow> (Inl e, db)
      | Inr _ \<Rightarrow> transactional (revoke_tx E D intent now) db)"

end
