(* ===== verification/Binding_Lifecycle.thy ===== *)
theory Binding_Lifecycle
  imports Binding_Store "HOL-Library.Sublist"
begin

text \<open>
  What every statement of the binding store respects, and what each transaction of \<^verbatim>\<open>src/n6.rs\<close> does
  to the binding records. The locale \<open>binding_preorder\<close> is the contract of a relation between
  databases that every statement respects; inside it every transaction respects it too. It is
  interpreted on the growth of the history and on the preservation of the invariant of the tables.
\<close>

section \<open>Relations that every statement respects\<close>

locale binding_preorder =
  fixes le :: "binding_db \<Rightarrow> binding_db \<Rightarrow> bool"
  assumes le_refl: "le db db"
    and le_trans: "le db0 db1 \<Longrightarrow> le db1 db2 \<Longrightarrow> le db0 db2"
    and le_event: "insert_n6_event e db = Inr db' \<Longrightarrow> le db db'"
    and le_decision: "insert_n6_decision_row d db = Inr db' \<Longrightarrow> le db db'"
    and le_record: "insert_keryx_row r db = Inr db' \<Longrightarrow> le db db'"
    and le_records: "update_keryx_rows P f db = Inr (k, db') \<Longrightarrow> le db db'"
    and le_challenge: "insert_challenge c db = Inr db' \<Longrightarrow> le db db'"
    and le_challenges: "update_challenges Q g db = Inr (k, db') \<Longrightarrow> le db db'"
    and le_reservation: "insert_reservation z db = Inr db' \<Longrightarrow> le db db'"
    and le_reservations: "update_reservations R h db = Inr (k, db') \<Longrightarrow> le db db'"
    and le_operation: "insert_control_operation q db = Inr db' \<Longrightarrow> le db db'"
    and le_grant: "insert_grant gr db = Inr db' \<Longrightarrow> le db db'"
    and le_authorization: "insert_authorization a db = Inr db' \<Longrightarrow> le db db'"
    and le_authorizations: "update_authorizations S j db = Inr (k, db') \<Longrightarrow> le db db'"
begin

text \<open>Where a computation from a database above \<open>db0\<close> ends, with or without an answer.\<close>

definition ends :: "binding_db \<Rightarrow> binding_db state_result \<Rightarrow> bool" where
  "ends db0 r \<longleftrightarrow> (\<forall>db. r = Inr db \<longrightarrow> le db0 db)"

definition answers :: "binding_db \<Rightarrow> ('a \<times> binding_db) state_result \<Rightarrow> bool" where
  "answers db0 r \<longleftrightarrow> (\<forall>x db. r = Inr (x, db) \<longrightarrow> le db0 db)"

lemma ends_bind: "ends db0 r \<Longrightarrow> (\<And>db. le db0 db \<Longrightarrow> ends db0 (f db)) \<Longrightarrow> ends db0 (and_then r f)"
  by (auto simp: ends_def guard_simps)

lemma ends_bind_pair:
  "answers db0 r \<Longrightarrow> (\<And>x db. le db0 db \<Longrightarrow> ends db0 (f x db)) \<Longrightarrow> ends db0 (and_then r (case_prod f))"
  by (auto simp: ends_def answers_def guard_simps)

lemma ends_pure: "(\<And>x. ends db0 (f x)) \<Longrightarrow> ends db0 (and_then r f)"
  by (auto simp: ends_def guard_simps)

lemma answers_bind:
  "ends db0 r \<Longrightarrow> (\<And>db. le db0 db \<Longrightarrow> answers db0 (f db)) \<Longrightarrow> answers db0 (and_then r f)"
  by (auto simp: answers_def ends_def guard_simps)

lemma answers_bind_pair:
  "answers db0 r \<Longrightarrow> (\<And>x db. le db0 db \<Longrightarrow> answers db0 (f x db)) \<Longrightarrow>
   answers db0 (and_then r (case_prod f))"
  by (auto simp: answers_def guard_simps)

lemma answers_pure: "(\<And>x. answers db0 (f x)) \<Longrightarrow> answers db0 (and_then r f)"
  by (auto simp: answers_def guard_simps)

lemma ends_Inr: "le db0 db \<Longrightarrow> ends db0 (Inr db)" by (simp add: ends_def)
lemma answers_Inr: "le db0 db \<Longrightarrow> answers db0 (Inr (x, db))" by (simp add: answers_def)
lemma answers_Inl: "answers db0 (Inl e)" by (simp add: answers_def)
lemma answers_if: "answers db0 r \<Longrightarrow> answers db0 q \<Longrightarrow> answers db0 (if c then r else q)" by simp
lemma ends_case: "ends db0 r \<Longrightarrow> (\<And>x. ends db0 (f x)) \<Longrightarrow> ends db0 (case opt of None \<Rightarrow> r | Some x \<Rightarrow> f x)"
  by (cases opt) auto
lemma answers_case:
  "answers db0 r \<Longrightarrow> (\<And>x. answers db0 (f x)) \<Longrightarrow> answers db0 (case opt of None \<Rightarrow> r | Some x \<Rightarrow> f x)"
  by (cases opt) auto

lemma le_writes:
  "le db0 db \<Longrightarrow> ends db0 (insert_n6_event e db)"
  "le db0 db \<Longrightarrow> ends db0 (insert_n6_decision_row d db)"
  "le db0 db \<Longrightarrow> ends db0 (insert_keryx_row r db)"
  "le db0 db \<Longrightarrow> answers db0 (update_keryx_rows P f db)"
  "le db0 db \<Longrightarrow> ends db0 (insert_challenge c db)"
  "le db0 db \<Longrightarrow> answers db0 (update_challenges Q g db)"
  "le db0 db \<Longrightarrow> ends db0 (insert_reservation z db)"
  "le db0 db \<Longrightarrow> answers db0 (update_reservations R h db)"
  "le db0 db \<Longrightarrow> ends db0 (insert_control_operation q db)"
  "le db0 db \<Longrightarrow> ends db0 (insert_grant gr db)"
  "le db0 db \<Longrightarrow> ends db0 (insert_authorization a db)"
  "le db0 db \<Longrightarrow> answers db0 (update_authorizations S j db)"
  unfolding ends_def answers_def
  by (blast intro: le_trans le_event le_decision le_record le_records le_challenge le_challenges
      le_reservation le_reservations le_operation le_grant le_authorization le_authorizations)+

lemmas le_rules =
  answers_if answers_Inr answers_Inl answers_case answers_bind_pair answers_bind answers_pure
  ends_case ends_Inr le_writes ends_bind_pair ends_bind ends_pure

lemma append_audit_le: "le db0 db \<Longrightarrow> ends db0 (append_n6_audit i n d actor kind outcome g db)"
  unfolding append_n6_audit_def by (intro le_rules)

lemma insert_decision_le:
  "le db0 db \<Longrightarrow> ends db0 (insert_n6_decision k a s kd b c z v p n pr nr now actor reason peer q av db)"
  unfolding insert_n6_decision_def by (intro le_rules)

lemma record_decision_le:
  "le db0 db \<Longrightarrow> ends db0 (record_decision D i s kd b c z v p n pr nr now actor ev reason peer q av k db)"
  unfolding record_decision_def by (intro le_rules append_audit_le insert_decision_le)

lemma invalidate_le: "le db0 db \<Longrightarrow> ends db0 (invalidate_n6_pending_challenge E D i b now db)"
  unfolding invalidate_n6_pending_challenge_def by (intro le_rules append_audit_le insert_decision_le)

lemma issue_first_le: "le db0 db \<Longrightarrow> ends db0 (issue_first_binding D r session now db)"
  unfolding issue_first_binding_def Let_def by (intro le_rules record_decision_le)

lemma challengeable_le: "le db0 db \<Longrightarrow> answers db0 (challengeable_binding D r session now db)"
  unfolding challengeable_binding_def by (intro le_rules issue_first_le)

lemma reserve_new_le:
  "le db0 db \<Longrightarrow> answers db0 (reserve_new_challenge E D q r session fp now db)"
  unfolding reserve_new_challenge_def by (intro le_rules challengeable_le invalidate_le)

lemma reserve_le: "answers db (reserve_challenge_tx E D q r now db)"
  unfolding reserve_challenge_tx_def Let_def by (intro le_rules reserve_new_le le_refl)

lemma record_challenge_le: "le db0 db \<Longrightarrow> answers db0 (record_challenge E D h z verifier now db)"
  unfolding record_challenge_def by (intro le_rules record_decision_le)

lemma complete_le: "answers db (complete_challenge_tx E D h verifier now db)"
  unfolding complete_challenge_tx_def by (intro le_rules record_challenge_le le_refl)

lemma consume_challenge_le: "le db0 db \<Longrightarrow> ends db0 (consume_challenge D peer r c v now db)"
  unfolding consume_challenge_def by (intro le_rules record_decision_le)

lemma activate_le: "le db0 db \<Longrightarrow> ends db0 (activate_binding D peer r c v now db)"
  unfolding activate_binding_def by (intro le_rules record_decision_le)

lemma confirm_writes_le: "le db0 db \<Longrightarrow> answers db0 (confirm_writes E D peer r c v fp now db)"
  unfolding confirm_writes_def by (intro le_rules consume_challenge_le activate_le)

lemma confirm_le: "answers db (confirm_tx E D peer r now db)"
  unfolding confirm_tx_def confirm_new_tx_def Let_def by (intro le_rules confirm_writes_le le_refl)

lemma grant_le: "answers db (grant_tx E D token a c now db)"
  unfolding grant_tx_def by (intro le_rules le_refl)

lemma issue_authorization_le: "answers db (issue_authorization_tx E D token a i c ex now db)"
  unfolding issue_authorization_tx_def
  by (intro le_rules append_audit_le insert_decision_le le_refl)

lemma consume_authorization_le: "le db0 db \<Longrightarrow> ends db0 (consume_authorization a k au now db)"
  unfolding consume_authorization_def by (intro le_rules)

lemma settle_record_le: "le db0 db \<Longrightarrow> ends db0 (settle_record v action f db)"
  unfolding settle_record_def by (intro le_rules)

lemma insert_successor_le: "le db0 db \<Longrightarrow> ends db0 (insert_successor D intent v av now db)"
  unfolding insert_successor_def Let_def by (intro le_rules record_decision_le)

lemma retire_predecessor_le: "le db0 db \<Longrightarrow> ends db0 (retire_predecessor D intent v av now db)"
  unfolding retire_predecessor_def Let_def
  by (intro le_rules record_decision_le consume_authorization_le settle_record_le)

lemma retire_revoked_le: "le db0 db \<Longrightarrow> ends db0 (retire_revoked D ri v av now db)"
  unfolding retire_revoked_def Let_def
  by (intro le_rules record_decision_le consume_authorization_le settle_record_le)

lemma rotate_le: "answers db (rotate_tx E D intent now db)"
  unfolding rotate_tx_def by (intro le_rules insert_successor_le retire_predecessor_le le_refl)

lemma revoke_le: "answers db (revoke_tx E D ri now db)"
  unfolding revoke_tx_def by (intro le_rules invalidate_le retire_revoked_le le_refl)

lemma transactional_le: "answers db (t db) \<Longrightarrow> le db (snd (transactional t db))"
  by (auto simp: transactional_def answers_def le_refl split: sum.splits prod.splits)

end

section \<open>The history only grows\<close>

definition rows_grow :: "('r \<Rightarrow> 'r \<Rightarrow> bool) \<Rightarrow> 'r list \<Rightarrow> 'r list \<Rightarrow> bool" where
  "rows_grow R a b \<longleftrightarrow> (\<exists>olds news. b = olds @ news \<and> list_all2 R a olds)"

lemma rows_grow_append: "(\<And>r. R r r) \<Longrightarrow> rows_grow R a (a @ news)"
  unfolding rows_grow_def by (intro exI [of _ a] exI [of _ news]) (simp add: list.rel_refl)

lemma rows_grow_refl: "(\<And>r. R r r) \<Longrightarrow> rows_grow R a a"
  using rows_grow_append [of R a "[]"] by simp

lemma rows_grow_update:
  assumes "\<And>r. R r r" "\<And>r. r \<in> set a \<Longrightarrow> P r \<Longrightarrow> R r (f r)"
  shows "rows_grow R a (map (\<lambda>r. if P r then f r else r) a)"
  unfolding rows_grow_def
  by (intro exI [of _ "map (\<lambda>r. if P r then f r else r) a"] exI [of _ "[]"])
    (auto simp: list.rel_map assms intro!: list.rel_refl_strong)

lemma rows_grow_trans:
  assumes "\<And>x y z. R x y \<Longrightarrow> R y z \<Longrightarrow> R x z" "rows_grow R a b" "rows_grow R b c"
  shows "rows_grow R a c"
proof -
  obtain os ns os' ns' where os: "b = os @ ns" "list_all2 R a os" "c = os' @ ns'" "list_all2 R b os'"
    using assms(2,3) by (auto simp: rows_grow_def)
  then obtain us vs where uv: "os' = us @ vs" "list_all2 R os us"
    by (auto simp: list_all2_append1)
  have "list_all2 R a us" by (rule list_all2_trans [OF assms(1) os(2) uv(2)])
  with os(3) uv(1) show ?thesis
    unfolding rows_grow_def by (intro exI [of _ us] exI [of _ "vs @ ns'"]) simp
qed

lemma rows_grow_member:
  assumes "rows_grow R a b" "r \<in> set a"
  shows "\<exists>r'\<in>set b. R r r'"
proof -
  obtain os ns where os: "b = os @ ns" "list_all2 R a os" using assms(1) by (auto simp: rows_grow_def)
  obtain i where i: "i < length a" "r = a ! i" using assms(2) by (auto simp: in_set_conv_nth)
  with os(2) have "R r (os ! i)" "os ! i \<in> set os" by (auto simp: list_all2_conv_all_nth)
  with os(1) show ?thesis by auto
qed

fun binding_rank :: "KeryxBindingState \<Rightarrow> nat" where
  "binding_rank KBPending = 0"
| "binding_rank KBActive = 1"
| "binding_rank KBStale = 2"
| "binding_rank KBRotated = 3"
| "binding_rank KBRevoked = 3"

definition record_le :: "keryx_row \<Rightarrow> keryx_row \<Rightarrow> bool" where
  "record_le old new \<longleftrightarrow> new = old \<or>
     (bi_binding_id new = bi_binding_id old \<and> bi_network_id new = bi_network_id old \<and>
      bi_device_id new = bi_device_id old \<and> bi_generation new = bi_generation old \<and>
      bi_rotated_from new = bi_rotated_from old \<and>
      bi_rotation_authorization new = bi_rotation_authorization old \<and>
      keeps_column (bi_verified_peer_id old) (bi_verified_peer_id new) \<and>
      bi_revision old < bi_revision new \<and> binding_rank (bi_state old) < binding_rank (bi_state new))"

definition challenge_le :: "challenge_row \<Rightarrow> challenge_row \<Rightarrow> bool" where
  "challenge_le old new \<longleftrightarrow> new = old \<or>
     (ch_challenge_id new = ch_challenge_id old \<and> ch_binding_id new = ch_binding_id old \<and>
      ch_expected_peer new = ch_expected_peer old \<and> ch_state old = ChPending \<and> ch_state new \<noteq> ChPending)"

definition authorization_le :: "authorization_row \<Rightarrow> authorization_row \<Rightarrow> bool" where
  "authorization_le old new \<longleftrightarrow> new = old \<or>
     (az_authorization_id new = az_authorization_id old \<and> az_binding_id new = az_binding_id old \<and>
      az_action new = az_action old \<and> az_state old = AzPending \<and> az_state new = AzConsumed)"

lemma record_le_refl: "record_le r r" by (simp add: record_le_def)
lemma challenge_le_refl: "challenge_le c c" by (simp add: challenge_le_def)
lemma authorization_le_refl: "authorization_le z z" by (simp add: authorization_le_def)

lemma record_le_trans: "record_le a b \<Longrightarrow> record_le b c \<Longrightarrow> record_le a c"
  by (auto simp: record_le_def keeps_column_def)

lemma challenge_le_trans: "challenge_le a b \<Longrightarrow> challenge_le b c \<Longrightarrow> challenge_le a c"
  by (auto simp: challenge_le_def)

lemma authorization_le_trans: "authorization_le a b \<Longrightarrow> authorization_le b c \<Longrightarrow> authorization_le a c"
  by (auto simp: authorization_le_def)

lemma transition_ranks: "record_transition s t \<Longrightarrow> binding_rank s < binding_rank t"
  by (cases s) auto

lemma update_ok_le:
  "record_update_ok db r r' \<Longrightarrow> record_le r r'"
  "challenge_update_ok db c c' \<Longrightarrow> challenge_le c c'"
  "authorization_update_ok db z z' \<Longrightarrow> authorization_le z z'"
  by (auto simp: record_update_ok_def record_immutable_def record_le_def transition_ranks
      challenge_update_ok_def challenge_le_def authorization_update_ok_def authorization_le_def)

definition read_only_tables ::
    "binding_db \<Rightarrow> trust_authority_row list \<times> root_row list \<times> provider_binding_row list \<times>
     n4_provenance_row list \<times> adoption_provenance_row list \<times> identity_row list \<times>
     adoption_origin_row list \<times> projection_row list" where
  "read_only_tables db =
     (bx_authorities db, bx_roots db, bx_provider_bindings db, bx_n4_provenance db,
      bx_adoption_provenance db, bx_identities db, bx_adoption_origins db, bx_projections db)"

definition history_grows :: "binding_db \<Rightarrow> binding_db \<Rightarrow> bool" where
  "history_grows a b \<longleftrightarrow>
     rows_grow record_le (bx_records a) (bx_records b) \<and>
     rows_grow challenge_le (bx_challenges a) (bx_challenges b) \<and>
     rows_grow authorization_le (bx_authorizations a) (bx_authorizations b) \<and>
     prefix (bx_operations a) (bx_operations b) \<and> prefix (bx_decisions a) (bx_decisions b) \<and>
     prefix (bx_grants a) (bx_grants b) \<and> prefix (bx_events a) (bx_events b) \<and>
     read_only_tables b = read_only_tables a"

lemmas binding_write_defs =
  insert_n6_event_def insert_n6_decision_row_def insert_keryx_row_def update_keryx_rows_def
  insert_challenge_def update_challenges_def insert_reservation_def update_reservations_def
  insert_control_operation_def insert_grant_def insert_authorization_def update_authorizations_def

lemmas grow_rules [simp] =
  rows_grow_refl [where R = record_le, OF record_le_refl]
  rows_grow_refl [where R = challenge_le, OF challenge_le_refl]
  rows_grow_refl [where R = authorization_le, OF authorization_le_refl]
  rows_grow_append [where R = record_le, OF record_le_refl]
  rows_grow_append [where R = challenge_le, OF challenge_le_refl]
  rows_grow_append [where R = authorization_le, OF authorization_le_refl]

lemma update_ok_member:
  "\<forall>r\<in>set rs. P r \<longrightarrow> record_update_ok db r (f r) \<Longrightarrow> r \<in> set rs \<Longrightarrow> P r \<Longrightarrow> record_le r (f r)"
  "\<forall>c\<in>set cs. Q c \<longrightarrow> challenge_update_ok db c (g c) \<Longrightarrow> c \<in> set cs \<Longrightarrow> Q c \<Longrightarrow> challenge_le c (g c)"
  "\<forall>z\<in>set zs. S z \<longrightarrow> authorization_update_ok db z (j z) \<Longrightarrow> z \<in> set zs \<Longrightarrow> S z \<Longrightarrow>
   authorization_le z (j z)"
  using update_ok_le by blast+

lemma updates_grow:
  "update_keryx_rows P f db = Inr (k, db') \<Longrightarrow> rows_grow record_le (bx_records db) (bx_records db')"
  "update_challenges Q g db = Inr (k, db') \<Longrightarrow> rows_grow challenge_le (bx_challenges db) (bx_challenges db')"
  "update_authorizations S j db = Inr (k, db') \<Longrightarrow>
   rows_grow authorization_le (bx_authorizations db) (bx_authorizations db')"
  by (clarsimp simp: binding_write_defs guard_simps;
      intro rows_grow_update record_le_refl challenge_le_refl authorization_le_refl update_ok_member;
      assumption)+

lemma rows_grow_transs:
  "rows_grow record_le rs rs' \<Longrightarrow> rows_grow record_le rs' rs'' \<Longrightarrow> rows_grow record_le rs rs''"
  "rows_grow challenge_le cs cs' \<Longrightarrow> rows_grow challenge_le cs' cs'' \<Longrightarrow> rows_grow challenge_le cs cs''"
  "rows_grow authorization_le zs zs' \<Longrightarrow> rows_grow authorization_le zs' zs'' \<Longrightarrow>
   rows_grow authorization_le zs zs''"
  by (erule (1) rows_grow_trans [rotated]; erule (1) record_le_trans challenge_le_trans authorization_le_trans)+

lemma history_grows_trans: "history_grows a b \<Longrightarrow> history_grows b c \<Longrightarrow> history_grows a c"
  unfolding history_grows_def by (elim conjE, intro conjI)
    (erule (1) rows_grow_transs prefix_order.trans | simp)+

interpretation history: binding_preorder history_grows
proof (unfold_locales, goal_cases)
  case (2 a b c)
  then show ?case by (rule history_grows_trans)
next
  case (6 P f db k db')
  from updates_grow(1) [OF 6] 6 show ?case
    by (auto simp: history_grows_def read_only_tables_def update_keryx_rows_def guard_simps)
next
  case (8 Q g db k db')
  from updates_grow(2) [OF 8] 8 show ?case
    by (auto simp: history_grows_def read_only_tables_def update_challenges_def guard_simps)
next
  case (14 S j db k db')
  from updates_grow(3) [OF 14] 14 show ?case
    by (auto simp: history_grows_def read_only_tables_def update_authorizations_def guard_simps)
qed (auto simp: history_grows_def read_only_tables_def binding_write_defs guard_simps)

section \<open>The invariant of the tables\<close>

definition consumption_recorded :: "n6_decision_row list \<Rightarrow> authorization_row \<Rightarrow> bool" where
  "consumption_recorded ds z \<longleftrightarrow>
     (case az_consumed_decision z of None \<Rightarrow> True | Some k \<Rightarrow> k \<in> set (map bd_decision_id ds))"

definition tables_ok :: "binding_db \<Rightarrow> bool" where
  "tables_ok db \<longleftrightarrow>
     record_indexes (bx_records db) \<and> list_all record_check (bx_records db) \<and>
     challenge_indexes (bx_challenges db) \<and> list_all challenge_check (bx_challenges db) \<and>
     authorization_indexes (bx_authorizations db) \<and> list_all authorization_check (bx_authorizations db) \<and>
     reservation_indexes (bx_reservations db) \<and> distinct (map bd_decision_id (bx_decisions db)) \<and>
     list_all (consumption_recorded (bx_decisions db)) (bx_authorizations db)"

definition keeps_tables :: "binding_db \<Rightarrow> binding_db \<Rightarrow> bool" where
  "keeps_tables a b \<longleftrightarrow> (tables_ok a \<longrightarrow> tables_ok b)"

lemma consumption_recorded_mono:
  "consumption_recorded ds z \<Longrightarrow> consumption_recorded (ds @ ks) z"
  by (auto simp: consumption_recorded_def split: option.splits)

lemma list_all_update:
  "list_all Q rows \<Longrightarrow> (\<And>r. r \<in> set rows \<Longrightarrow> P r \<Longrightarrow> Q (f r)) \<Longrightarrow>
   list_all Q (map (\<lambda>r. if P r then f r else r) rows)"
  by (auto simp: list_all_iff)

lemma consumption_update:
  "authorization_update_ok db z z' \<Longrightarrow> consumption_recorded (bx_decisions db) z'"
  by (auto simp: authorization_update_ok_def consumption_decision_def consumption_recorded_def
      list_ex_iff split: option.splits)

lemma tables_authorizations:
  assumes "tables_ok db" "\<forall>r\<in>set (bx_authorizations db). S r \<longrightarrow> authorization_update_ok db r (j r)"
    and "authorization_indexes (map (\<lambda>r. if S r then j r else r) (bx_authorizations db))"
    and "db' = db\<lparr>bx_authorizations := map (\<lambda>r. if S r then j r else r) (bx_authorizations db)\<rparr>"
  shows "tables_ok db'"
proof -
  have "list_all authorization_check (map (\<lambda>r. if S r then j r else r) (bx_authorizations db))"
    using assms(1,2) by (intro list_all_update) (auto simp: tables_ok_def authorization_update_ok_def)
  moreover have "list_all (consumption_recorded (bx_decisions db)) (map (\<lambda>r. if S r then j r else r) (bx_authorizations db))"
    using assms(1,2) by (intro list_all_update) (auto simp: tables_ok_def intro: consumption_update)
  ultimately show ?thesis using assms(1,3) unfolding tables_ok_def by (simp add: assms(4))
qed

interpretation tables: binding_preorder keeps_tables
proof (unfold_locales, goal_cases)
  case (4 d db db')
  then have "db' = db\<lparr>bx_decisions := bx_decisions db @ [d]\<rparr>"
      "bd_decision_id d \<notin> set (map bd_decision_id (bx_decisions db))"
    by (auto simp: insert_n6_decision_row_def guard_simps list_all_iff)
  then show ?case
    by (simp add: keeps_tables_def tables_ok_def list_all_iff consumption_recorded_mono)
next
  case (6 P f db k db')
  have "list_all record_check (bx_records db')" if "list_all record_check (bx_records db)"
    using 6 that
    by (clarsimp simp: update_keryx_rows_def guard_simps) (rule list_all_update, simp_all add: record_update_ok_def)
  moreover obtain rows where "db' = db\<lparr>bx_records := rows\<rparr>" "record_indexes rows"
    using 6 by (auto simp: update_keryx_rows_def guard_simps)
  ultimately show ?case by (simp add: keeps_tables_def tables_ok_def)
next
  case (8 Q g db k db')
  have "list_all challenge_check (bx_challenges db')" if "list_all challenge_check (bx_challenges db)"
    using 8 that
    by (clarsimp simp: update_challenges_def guard_simps) (rule list_all_update, simp_all add: challenge_update_ok_def)
  moreover obtain rows where "db' = db\<lparr>bx_challenges := rows\<rparr>" "challenge_indexes rows"
    using 8 by (auto simp: update_challenges_def guard_simps)
  ultimately show ?case by (simp add: keeps_tables_def tables_ok_def)
next
  case (13 a db db')
  then show ?case
    by (auto simp: keeps_tables_def tables_ok_def insert_authorization_def guard_simps
        consumption_recorded_def)
next
  case (14 S j db k db')
  then show ?case
    unfolding keeps_tables_def
    by (clarsimp simp: update_authorizations_def guard_simps)
      (rule tables_authorizations [where S = S and j = j], assumption+, rule refl)
qed (auto simp: keeps_tables_def tables_ok_def binding_write_defs guard_simps)

end
