(* ===== verification/Binding_Runs.thy ===== *)
theory Binding_Runs
  imports Binding_Lifecycle
begin

text \<open>
  Runs of the binding store: any sequence of its calls, each over the database the earlier ones
  left, with any writes of other components to their own tables in between. The section on
  effects says what each transaction does to the binding records; the abstract lineage of a
  device, the list of the states of its bindings by generation, is then refined step by step.
\<close>

section \<open>Calls and runs\<close>

datatype n6_call =
    CallReserve n6_draws OperationId N6BindingChallengeRequest
  | CallComplete n6_draws N6ChallengeReservation BindingNonceVerifier
  | CallIssueChallenge n6_draws n6_draws OperationId N6BindingChallengeRequest
  | CallConfirm n6_draws KeryxPeerId N6AuthenticatedBindRequest
  | CallGrant n6_draws OwnerTrustRootToken TrustAuthorityId KeryxBindingAuthorizationCapability
  | CallAuthorize n6_draws OwnerTrustRootToken TrustAuthorityId KeryxBindingId
      KeryxBindingAuthorizationCapability DateTime
  | CallRotate n6_draws N6BindingRotationIntent
  | CallRevoke n6_draws N6BindingRevocationIntent

datatype n6_answer =
    ReserveAnswer "N6ChallengeReservationOutcome state_result"
  | CompleteAnswer "N6ChallengeCompletion state_result"
  | ChallengeAnswer "N6BindingChallengeDelivery state_result"
  | ConfirmAnswer "N6AuthenticatedBindOutcome state_result"
  | GrantAnswer "unit state_result"
  | AuthorizeAnswer "KeryxBindingAuthorization state_result"
  | RotateAnswer "N6BindingView state_result"
  | RevokeAnswer "N6BindingView state_result"

fun n6_perform :: "binding_env \<Rightarrow> DateTime \<Rightarrow> n6_call \<Rightarrow> binding_db \<Rightarrow> n6_answer \<times> binding_db" where
  "n6_perform E now (CallReserve D q r) db = apfst ReserveAnswer (reserve_n6_binding_challenge E D q r now db)"
| "n6_perform E now (CallComplete D h v) db = apfst CompleteAnswer (complete_n6_binding_challenge E D h v now db)"
| "n6_perform E now (CallIssueChallenge D D' q r) db =
     apfst ChallengeAnswer (issue_n6_binding_challenge E D D' q r now db)"
| "n6_perform E now (CallConfirm D peer r) db =
     apfst ConfirmAnswer (confirm_n6_authenticated_binding E D peer r now db)"
| "n6_perform E now (CallGrant D token a c) db = apfst GrantAnswer (grant_n6_binding_capability E D token a c now db)"
| "n6_perform E now (CallAuthorize D token a i c expires) db =
     apfst AuthorizeAnswer (issue_n6_binding_authorization E D token a i c expires now db)"
| "n6_perform E now (CallRotate D intent) db = apfst RotateAnswer (rotate_n6_binding E D intent now db)"
| "n6_perform E now (CallRevoke D intent) db = apfst RevokeAnswer (revoke_n6_binding E D intent now db)"

record n6_entry =
  ne_now :: DateTime
  ne_call :: n6_call
  ne_before :: binding_db
  ne_answer :: n6_answer

text \<open>Other components leave the tables of the bindings alone.\<close>

definition binding_tables ::
    "binding_db \<Rightarrow> keryx_row list \<times> challenge_row list \<times> authorization_row list \<times>
     n6_reservation_row list \<times> control_row list \<times> n6_decision_row list \<times> grant_row list" where
  "binding_tables db =
     (bx_records db, bx_challenges db, bx_authorizations db, bx_reservations db, bx_operations db,
      bx_decisions db, bx_grants db)"

type_synonym n6_state = "binding_db \<times> n6_entry list"

inductive n6_step :: "binding_env \<Rightarrow> n6_state \<Rightarrow> n6_state \<Rightarrow> bool" for E where
  called: "n6_perform E now c db = (answer, db') \<Longrightarrow>
    n6_step E (db, entries)
      (db', entries @ [\<lparr>ne_now = now, ne_call = c, ne_before = db, ne_answer = answer\<rparr>])"
| elsewhere: "binding_tables db' = binding_tables db \<Longrightarrow> n6_step E (db, entries) (db', entries)"

inductive_cases n6_stepE: "n6_step E s s'"

definition fresh_bindings :: "binding_db \<Rightarrow> bool" where
  "fresh_bindings db \<longleftrightarrow> binding_tables db = ([], [], [], [], [], [], [])"

definition n6_run :: "binding_env \<Rightarrow> n6_state \<Rightarrow> bool" where
  "n6_run E s \<longleftrightarrow> (\<exists>db0. fresh_bindings db0 \<and> (n6_step E)\<^sup>*\<^sup>* (db0, []) s)"

context binding_preorder
begin

lemma issue_reserved_le: "le db (snd (issue_reserved E D h now db))"
proof (cases "from_nonce (be_argon E) (be_std_base64 E) (dw_salt D) (BindingNonce_generate (dw_nonce D))")
  case (Inl e)
  then show ?thesis by (simp add: issue_reserved_def Let_def domain_conflict_def le_refl)
next
  case (Inr verifier)
  then show ?thesis
    using transactional_le [where t = "complete_challenge_tx E D h verifier now" and db = db, OF complete_le]
    by (auto simp: issue_reserved_def Let_def domain_conflict_def complete_n6_binding_challenge_def
        split: prod.splits sum.splits)
qed

lemma reserve_call_le: "le db (snd (reserve_n6_binding_challenge E D q r now db))"
  by (auto simp: reserve_n6_binding_challenge_def le_refl transactional_le reserve_le split: sum.splits)

lemma perform_le: "le db (snd (n6_perform E now c db))"
proof (cases c)
  case (CallIssueChallenge D D' q r)
  obtain a db1 where a: "reserve_n6_binding_challenge E D q r now db = (a, db1)" by fastforce
  with reserve_call_le [of db E D q r now] have "le db db1" by simp
  then show ?thesis using CallIssueChallenge a le_trans issue_reserved_le
    by (auto simp: issue_n6_binding_challenge_def split: sum.splits N6ChallengeReservationOutcome.splits)
qed (auto simp: reserve_call_le complete_n6_binding_challenge_def confirm_n6_authenticated_binding_def
    grant_n6_binding_capability_def issue_n6_binding_authorization_def rotate_n6_binding_def
    revoke_n6_binding_def transactional_le complete_le confirm_le grant_le issue_authorization_le
    rotate_le revoke_le le_refl split: sum.splits)

end

text \<open>The invariant of the tables holds in every run, and the history of a run only grows.\<close>

definition tables_grow :: "binding_db \<Rightarrow> binding_db \<Rightarrow> bool" where
  "tables_grow a b \<longleftrightarrow>
     rows_grow record_le (bx_records a) (bx_records b) \<and>
     rows_grow challenge_le (bx_challenges a) (bx_challenges b) \<and>
     rows_grow authorization_le (bx_authorizations a) (bx_authorizations b) \<and>
     prefix (bx_operations a) (bx_operations b) \<and> prefix (bx_decisions a) (bx_decisions b)"

lemma tables_grow_refl: "tables_grow a a" by (simp add: tables_grow_def)

lemma tables_grow_trans: "tables_grow a b \<Longrightarrow> tables_grow b c \<Longrightarrow> tables_grow a c"
  unfolding tables_grow_def by (elim conjE, intro conjI)
    (erule (1) rows_grow_transs prefix_order.trans)+

lemma history_tables: "history_grows a b \<Longrightarrow> tables_grow a b"
  by (simp add: history_grows_def tables_grow_def)

lemma binding_tables_eq:
  assumes "binding_tables b = binding_tables a"
  shows "bx_records b = bx_records a" "bx_challenges b = bx_challenges a"
    "bx_authorizations b = bx_authorizations a" "bx_operations b = bx_operations a"
    "bx_decisions b = bx_decisions a" "tables_ok b = tables_ok a" "tables_grow a b"
  using assms by (simp_all add: binding_tables_def tables_ok_def tables_grow_def)

lemma step_grows: "n6_step E s s' \<Longrightarrow> tables_grow (fst s) (fst s')"
proof (erule n6_stepE, goal_cases)
  case (1 now c db answer db' entries)
  then show ?case using history_tables [OF history.perform_le [of db E now c]] by simp
next
  case (2 db' db entries)
  then show ?case by (simp add: binding_tables_eq(7))
qed

lemma steps_grow: "(n6_step E)\<^sup>*\<^sup>* s s' \<Longrightarrow> tables_grow (fst s) (fst s')"
  by (induction rule: rtranclp_induct) (auto intro: tables_grow_refl tables_grow_trans step_grows)

lemma step_tables: "n6_step E s s' \<Longrightarrow> tables_ok (fst s) \<Longrightarrow> tables_ok (fst s')"
proof (erule n6_stepE, goal_cases)
  case (1 now c db answer db' entries)
  then show ?case using tables.perform_le [of db E now c] by (simp add: keeps_tables_def)
next
  case (2 db' db entries)
  then show ?case by (simp add: binding_tables_eq(6) [of db' db])
qed


section \<open>What a transaction does to the records\<close>

text \<open>The decision a call records, with the event it rests on.\<close>

lemma recorded_decision:
  assumes "record_decision D i subject kind b c z v ps ns pr nr now actor ev reason peer q av k db = Inr db'"
  obtains e d where
    "db' = db\<lparr>bx_events := bx_events db @ [e], bx_decisions := bx_decisions db @ [d]\<rparr>"
    "bd_decision_id d = k" "bd_audit d = dw_audit D i" "bd_subject d = subject" "bd_kind d = kind"
    "bd_binding_id d = b" "bd_challenge_id d = c" "bd_authorization_id d = z"
    "bd_network_id d = bv_network_id v" "bd_device_id d = bv_device_id v"
    "bd_decided_at_ms d = timestamp_millis now" "bd_actor d = actor" "bd_agent_version d = av"
    "bd_peer d = peer" "bd_operation d = q"
    "k \<notin> bd_decision_id ` set (bx_decisions db)"
proof -
  obtain db1 where e: "append_n6_audit (dw_audit D i) (bv_network_id v) (bv_device_id v) actor ev ''success''
        (bv_generation v) db = Inr db1"
    and k: "insert_n6_decision k (dw_audit D i) subject kind b c z v ps ns pr nr now actor reason peer q av db1 = Inr db'"
    using assms by (auto simp: record_decision_def guard_simps)
  obtain e where e: "db1 = db\<lparr>bx_events := bx_events db @ [e]\<rparr>"
    using e by (auto simp: append_n6_audit_def insert_n6_event_def guard_simps)
  obtain g p r where "insert_n6_decision_row
      \<lparr>bd_decision_id = k, bd_audit = dw_audit D i, bd_subject = subject, bd_kind = kind,
        bd_binding_id = b, bd_challenge_id = c, bd_authorization_id = z,
        bd_network_id = bv_network_id v, bd_device_id = bv_device_id v, bd_generation = g,
        bd_prior_state = (if kind = ''issue'' then None else Some ps),
        bd_new_state = ns, bd_prior_revision = p, bd_new_revision = r,
        bd_decided_at_ms = timestamp_millis now, bd_actor = actor, bd_reason = reason,
        bd_peer = peer, bd_operation = q, bd_agent_version = av\<rparr> db1 = Inr db'" (is "insert_n6_decision_row ?d _ = _")
    using k unfolding insert_n6_decision_def and_then_eq_Inr by blast
  then have "db' = db1\<lparr>bx_decisions := bx_decisions db1 @ [?d]\<rparr>"
      "bd_decision_id ?d \<notin> bd_decision_id ` set (bx_decisions db1)"
    unfolding insert_n6_decision_row_def by (simp_all only: guard_simps list_all_iff) auto
  then show ?thesis unfolding e by (intro that [where e = e and d = ?d]) simp_all
qed

lemma update_single:
  assumes "update_keryx_rows P f db = Inr (k, db')" "k = 1"
  obtains us r vs where "bx_records db = us @ r # vs" "P r" "record_update_ok db r (f r)"
    "db' = db\<lparr>bx_records := us @ f r # vs\<rparr>"
proof -
  from assms have one: "length (filter P (bx_records db)) = 1"
    and ok: "\<forall>r\<in>set (bx_records db). P r \<longrightarrow> record_update_ok db r (f r)"
    and db': "db' = db\<lparr>bx_records := map (\<lambda>r. if P r then f r else r) (bx_records db)\<rparr>"
    by (auto simp: update_keryx_rows_def guard_simps)
  from one obtain r where "filter P (bx_records db) = [r]" by (cases "filter P (bx_records db)") auto
  then obtain us vs where s: "bx_records db = us @ r # vs" "P r" "\<forall>u\<in>set us. \<not> P u" "filter P vs = []"
    by (auto simp: filter_eq_Cons_iff)
  then have "map (\<lambda>r. if P r then f r else r) us = us" "map (\<lambda>r. if P r then f r else r) vs = vs"
    by (auto simp: filter_empty_conv intro!: map_idI)
  with s db' ok show ?thesis by (intro that [of us r vs]) auto
qed

text \<open>The possible effects of a call: a first binding, a confirmation, a rotation or a revocation.\<close>

definition same_device :: "keryx_row \<Rightarrow> keryx_row \<Rightarrow> bool" where
  "same_device r s \<longleftrightarrow> bi_network_id s = bi_network_id r \<and> bi_device_id s = bi_device_id r"

inductive record_effect ::
    "(KeryxBindingId \<times> KeryxPeerId) option \<Rightarrow> keryx_row list \<Rightarrow> keryx_row list \<Rightarrow> bool" for k where
  kept: "record_effect k rs rs"
| issued: "bi_state s = KBPending \<Longrightarrow> bi_verified_peer_id s = None \<Longrightarrow> bi_generation s = 1 \<Longrightarrow>
    \<forall>r\<in>set rs. \<not> (same_device s r \<and> bi_generation r = 1) \<Longrightarrow> record_effect k rs (rs @ [s])"
| confirmed: "bi_state r = KBPending \<Longrightarrow> bi_state r' = KBActive \<Longrightarrow> same_device r r' \<Longrightarrow>
    bi_generation r' = bi_generation r \<Longrightarrow> bi_binding_id r' = bi_binding_id r \<Longrightarrow>
    bi_verified_peer_id r' = Some peer \<Longrightarrow> k = Some (bi_binding_id r, peer) \<Longrightarrow>
    record_effect k (us @ r # vs) (us @ r' # vs)"
| rotated: "bi_state r \<in> {KBActive, KBStale} \<Longrightarrow> bi_state r' = KBRotated \<Longrightarrow> same_device r r' \<Longrightarrow>
    bi_generation r' = bi_generation r \<Longrightarrow> bi_verified_peer_id r' = bi_verified_peer_id r \<Longrightarrow>
    bi_binding_id r' = bi_binding_id r \<Longrightarrow>
    bi_state s = KBPending \<Longrightarrow> bi_verified_peer_id s = None \<Longrightarrow> same_device r s \<Longrightarrow>
    bi_generation s = bi_generation r + 1 \<Longrightarrow> record_effect k (us @ r # vs) (us @ r' # vs @ [s])"
| revoked: "bi_state r \<in> {KBPending, KBActive, KBStale} \<Longrightarrow> bi_state r' = KBRevoked \<Longrightarrow> same_device r r' \<Longrightarrow>
    bi_generation r' = bi_generation r \<Longrightarrow> bi_verified_peer_id r' = bi_verified_peer_id r \<Longrightarrow>
    bi_binding_id r' = bi_binding_id r \<Longrightarrow> record_effect k (us @ r # vs) (us @ r' # vs)"

lemma view_named:
  assumes "n6_binding_view_tx E i db = Inr v"
  obtains r g where "keryx_row_named i db = Some r" "r \<in> set (bx_records db)" "bi_binding_id r = i"
    "v = view_of r g (word_of_int (bi_revision r)) db" "0 \<le> bi_revision r" "0 \<le> bi_generation r"
    "gen_get g = word_of_int (bi_generation r)"
proof -
  from assms obtain r g where r: "keryx_row_named i db = Some r" "0 \<le> bi_revision r" "0 \<le> bi_generation r"
      "Generation_new (word_of_int (bi_generation r)) = Inr g"
      "v = view_of r g (word_of_int (bi_revision r)) db"
    by (auto simp: n6_binding_view_tx_def guard_simps)
  moreover have "gen_get g = word_of_int (bi_generation r)"
    using r(4) by (auto simp: Generation_new_def guard_simps split: if_splits)
  moreover have "r \<in> set (bx_records db)" "bi_binding_id r = i"
    using r(1) by (auto simp: keryx_row_named_def find_Some_iff)
  ultimately show ?thesis using that by blast
qed


text \<open>Statements that leave the records alone.\<close>

lemma invalidate_frame:
  assumes "invalidate_n6_pending_challenge E D i b now db = Inr db'"
  shows "bx_records db' = bx_records db" "bx_authorizations db' = bx_authorizations db"
proof (atomize (full), cases "pending_challenge_of b db")
  case (Some c)
  then show "bx_records db' = bx_records db \<and> bx_authorizations db' = bx_authorizations db"
    using assms
    by (auto simp: invalidate_n6_pending_challenge_def append_n6_audit_def insert_n6_event_def
        insert_n6_decision_def insert_n6_decision_row_def update_challenges_def guard_simps)
qed (use assms in \<open>simp add: invalidate_n6_pending_challenge_def\<close>)

lemma issue_first_effect:
  assumes "issue_first_binding D q session now db = Inr db'"
    "\<forall>r\<in>set (bx_records db). \<not> (bi_network_id r = N6BindingChallengeRequest.cr_network_id q \<and>
       bi_device_id r = cr_device_id q \<and> bi_generation r = uint (gen_get (cr_generation q)))"
  shows "record_effect k (bx_records db) (bx_records db')"
proof -
  let ?v = "pending_view (dw_binding_id D) q session now"
  let ?s = "pending_record ?v None None (uint (gen_get (cr_generation q))) now (cr_agent_version q)
    (dw_decision D 0) (dw_audit D 0)"
  obtain db1 where d: "record_decision D 0 ''binding'' ''issue'' (dw_binding_id D) None None ?v [] ''pending'' 0 1
        now AuditActor_system ''keryx_binding_pending'' ''binding_issued''
        (Some (cr_expected_authenticated_peer_id q)) None (cr_agent_version q) (dw_decision D 0) db = Inr db1"
      and i: "insert_keryx_row ?s db1 = Inr db'"
    using assms(1) by (auto simp: issue_first_binding_def Let_def guard_simps)
  from i have "record_check ?s" "bx_records db' = bx_records db1 @ [?s]"
    by (auto simp: insert_keryx_row_def guard_simps)
  moreover from d have "bx_records db1 = bx_records db" by (rule recorded_decision) simp
  moreover from calculation(1) have "bi_generation ?s = 1" by (simp add: record_check_def pending_record_def)
  moreover have "\<forall>r\<in>set (bx_records db). \<not> (same_device ?s r \<and> bi_generation r = 1)"
    using assms(2) calculation(4) by (auto simp: same_device_def pending_record_def pending_view_def)
  ultimately show ?thesis
    using record_effect.issued [of ?s "bx_records db" k] by (simp add: pending_record_def)
qed

lemma challenge_reserve_effect:
  assumes "reserve_challenge_tx E D q r now db = Inr (a, db')"
  shows "record_effect k (bx_records db) (bx_records db')"
proof (cases "find (\<lambda>z. rz_expected_peer z = cr_expected_authenticated_peer_id r \<and> rz_operation_id z = q)
    (bx_reservations db)")
  case (Some z)
  with assms show ?thesis by (auto simp: reserve_challenge_tx_def Let_def guard_simps intro: record_effect.kept)
next
  case None
  let ?s = "joined_device_session (cr_provider_binding_id r) (cr_device_id r) (N6BindingChallengeRequest.cr_network_id r) db"
  obtain i db1 db2 where c: "challengeable_binding D r ?s now db = Inr (i, db1)"
    and i: "invalidate_n6_pending_challenge E D 1 i now db1 = Inr db2"
    and rest: "bx_records db' = bx_records db2"
    using assms None
    by (auto simp: reserve_challenge_tx_def reserve_new_challenge_def Let_def update_reservations_def
        insert_reservation_def guard_simps)
  let ?f = "find (\<lambda>b. bi_network_id b = N6BindingChallengeRequest.cr_network_id r \<and>
    bi_device_id b = cr_device_id r \<and> bi_generation b = uint (gen_get (cr_generation r))) (bx_records db)"
  have "record_effect k (bx_records db) (bx_records db1)"
  proof (cases ?f)
    case None
    with c have "issue_first_binding D r ?s now db = Inr db1"
      by (auto simp: challengeable_binding_def guard_simps)
    then show ?thesis by (rule issue_first_effect) (use None in \<open>auto simp: find_None_iff\<close>)
  next
    case (Some b)
    with c show ?thesis
      by (auto simp: challengeable_binding_def guard_simps intro: record_effect.kept split: if_splits)
  qed
  with invalidate_frame(1) [OF i] rest show ?thesis by simp
qed

lemma complete_frame:
  assumes "complete_challenge_tx E D h verifier now db = Inr (a, db')"
  shows "bx_records db' = bx_records db"
  using assms
  by (auto simp: complete_challenge_tx_def record_challenge_def guard_simps insert_challenge_def
      update_reservations_def split: if_splits elim!: recorded_decision)

lemma grant_frame: "grant_tx E D token a c now db = Inr (u, db') \<Longrightarrow> binding_tables db' = binding_tables (db\<lparr>bx_grants := bx_grants db'\<rparr>)"
  by (auto simp: grant_tx_def insert_n6_event_def insert_grant_def guard_simps binding_tables_def)

lemma issue_authorization_frame:
  assumes "issue_authorization_tx E D token a i c ex now db = Inr (z, db')"
  shows "bx_records db' = bx_records db"
  using assms
  by (auto simp: issue_authorization_tx_def append_n6_audit_def insert_n6_event_def insert_n6_decision_def
      insert_n6_decision_row_def insert_authorization_def guard_simps)


text \<open>A confirmation that is not a first one changes nothing.\<close>

lemma confirm_cases:
  assumes "confirm_tx E D peer request now db = Inr (a, db')"
  obtains (unchanged) "db' = db" "a = BindConflict \<or> (\<exists>w. a = BindReplayed w)"
  | (written) c v fp db1 db2 w where "a = BindConfirmed w"
      "c \<in> set (bx_challenges db)" "expected_challenge peer request (uint (gen_get (br_generation request))) c"
      "challenge_matches E request now c = Inr ()"
      "n6_binding_view_tx E (ch_binding_id c) db = Inr v" "bv_state v = KBPending"
      "bv_network_id v = br_network_id request" "bv_device_id v = br_device_id request"
      "bv_generation v = br_generation request"
      "consume_challenge D peer request c v now db = Inr db1"
      "activate_binding D peer request c v now db1 = Inr db2"
      "insert_control_operation (confirmed_operation D peer request c fp now) db2 = Inr db'"
      "n6_binding_view_tx E (ch_binding_id c) db' = Inr w"
      "fp = n6_request_fingerprint E peer request (historical_session (br_provider_binding_id request)
         (br_device_id request) (br_network_id request) db)"
proof (cases "find (\<lambda>q. op_peer q = peer \<and> op_operation_id q = br_operation_id request) (bx_operations db)")
  case (Some q)
  with assms unchanged show ?thesis by (auto simp: confirm_tx_def Let_def guard_simps split: if_splits)
next
  case None
  with assms have "confirm_new_tx E D peer request (n6_request_fingerprint E peer request
      (historical_session (br_provider_binding_id request) (br_device_id request) (br_network_id request) db))
      now db = Inr (a, db')" (is "confirm_new_tx _ _ _ _ ?fp _ _ = _")
    by (simp add: confirm_tx_def Let_def)
  then obtain c v where c: "find (expected_challenge peer request (uint (gen_get (br_generation request))))
        (bx_challenges db) = Some c"
      "challenge_matches E request now c = Inr ()" "n6_binding_view_tx E (ch_binding_id c) db = Inr v"
      "bv_state v = KBPending" "bv_network_id v = br_network_id request" "bv_device_id v = br_device_id request"
      "bv_generation v = br_generation request" "confirm_writes E D peer request c v ?fp now db = Inr (a, db')"
    by (auto simp: confirm_new_tx_def guard_simps)
  moreover from c(1) have "c \<in> set (bx_challenges db)"
      "expected_challenge peer request (uint (gen_get (br_generation request))) c"
    by (auto simp: find_Some_iff)
  ultimately show ?thesis by (auto simp: confirm_writes_def guard_simps intro: written)
qed

lemma consume_challenge_effect:
  assumes "consume_challenge D peer request c v now db = Inr db1"
  shows "bx_records db1 = bx_records db" "bx_operations db1 = bx_operations db"
    "bx_authorizations db1 = bx_authorizations db"
  using assms by (auto simp: consume_challenge_def guard_simps update_challenges_def elim!: recorded_decision)

lemma activate_effect:
  assumes "activate_binding D peer request c v now db = Inr db'"
  obtains us r vs where "bx_records db = us @ r # vs"
    "bx_records db' = us @ confirmed_record peer (dw_decision D 1) (dw_audit D 1) now r # vs"
    "bi_binding_id r = ch_binding_id c" "bi_state r = KBPending"
    "bi_agent_version r = br_agent_version request"
    "bx_challenges db' = bx_challenges db" "bx_operations db' = bx_operations db"
    "bx_authorizations db' = bx_authorizations db"
proof -
  obtain db1 k where d: "record_decision D 1 ''binding'' ''confirm'' (ch_binding_id c) (Some (ch_challenge_id c)) None
       v ''pending'' ''active'' (bv_revision v) (bv_revision v + 1) now AuditActor_system
       ''keryx_binding_confirmed'' ''binding_confirmed'' (Some peer) (Some (br_operation_id request))
       (br_agent_version request) (dw_decision D 1) db = Inr db1"
     and u: "update_keryx_rows (\<lambda>r. bi_binding_id r = ch_binding_id c \<and> bi_state r = KBPending \<and>
         bi_revision r = uint (bv_revision v))
       (confirmed_record peer (dw_decision D 1) (dw_audit D 1) now) db1 = Inr (k, db')" "k = 1"
    using assms by (auto simp: activate_binding_def guard_simps)
  from u obtain us r vs where r: "bx_records db1 = us @ r # vs" "bi_binding_id r = ch_binding_id c"
      "bi_state r = KBPending"
      "record_update_ok db1 r (confirmed_record peer (dw_decision D 1) (dw_audit D 1) now r)"
      "db' = db1\<lparr>bx_records := us @ confirmed_record peer (dw_decision D 1) (dw_audit D 1) now r # vs\<rparr>"
    by (rule update_single) blast
  from d obtain e d' where e: "db1 = db\<lparr>bx_events := bx_events db @ [e], bx_decisions := bx_decisions db @ [d']\<rparr>"
      "bd_decision_id d' = dw_decision D 1" "bd_agent_version d' = br_agent_version request"
      "dw_decision D 1 \<notin> bd_decision_id ` set (bx_decisions db)"
    by (rule recorded_decision) blast
  from r(4) obtain k where k: "k \<in> set (bx_decisions db1)" "bd_decision_id k = dw_decision D 1"
      "bd_agent_version k = bi_agent_version r"
    by (auto simp: record_update_ok_def transition_decision_def list_ex_iff confirmed_record_def)
  with e have "k = d'" by (auto simp: image_iff)
  with r e k show ?thesis by (intro that [of us r vs]) simp_all
qed

definition confirmed_binding :: "KeryxPeerId \<Rightarrow> N6AuthenticatedBindOutcome \<Rightarrow> (KeryxBindingId \<times> KeryxPeerId) option" where
  "confirmed_binding peer a = (case a of BindConfirmed w \<Rightarrow> Some (bv_binding_id w, peer) | _ \<Rightarrow> None)"

lemma confirm_effect:
  assumes "confirm_tx E D peer request now db = Inr (a, db')"
  shows "record_effect (confirmed_binding peer a) (bx_records db) (bx_records db')"
  using assms
proof (cases rule: confirm_cases)
  case unchanged
  then show ?thesis by (simp add: record_effect.kept)
next
  case (written c v fp db1 db2 w)
  from written(11) obtain us r vs where r: "bx_records db1 = us @ r # vs" "bi_state r = KBPending"
      "bi_binding_id r = ch_binding_id c"
      "bx_records db2 = us @ confirmed_record peer (dw_decision D 1) (dw_audit D 1) now r # vs"
    by (rule activate_effect) blast
  moreover from written(10) have "bx_records db1 = bx_records db" by (rule consume_challenge_effect)
  moreover from written(12) have "bx_records db' = bx_records db2"
    by (auto simp: insert_control_operation_def guard_simps)
  moreover from written(13) have "bv_binding_id w = ch_binding_id c"
    by (rule view_named) (auto simp: view_of_def)
  ultimately show ?thesis using written(1)
    by (auto simp: confirmed_record_def same_device_def confirmed_binding_def intro!: record_effect.confirmed)
qed


text \<open>The end of a binding: the authorization it consumes and the record it settles.\<close>

definition settles_under ::
    "KeryxBindingAuthorization \<Rightarrow> KeryxBindingAuthorizationCapability \<Rightarrow> DateTime \<Rightarrow> keryx_row \<Rightarrow>
     binding_db \<Rightarrow> binding_db \<Rightarrow> bool" where
  "settles_under a action now r db db' \<longleftrightarrow>
     (\<exists>z z'. z \<in> set (bx_authorizations db) \<and> z' \<in> set (bx_authorizations db') \<and>
        az_authorization_id z = ka_authorization_id a \<and> az_state z = AzPending \<and>
        az_authorization_id z' = ka_authorization_id a \<and> az_state z' = AzConsumed \<and>
        az_binding_id z = bi_binding_id r \<and> az_network_id z = bi_network_id r \<and>
        az_device_id z = bi_device_id r \<and> az_generation z = bi_generation r \<and>
        az_expected_revision z = bi_revision r \<and> az_action z = action \<and>
        az_actor z = ka_actor a \<and> az_issued_at_ms z \<le> timestamp_millis now \<and>
        timestamp_millis now < az_expires_at_ms z \<and>
        list_ex (\<lambda>y. ta_authority_id y = az_authority_id z \<and> ta_network_id y = bi_network_id r \<and>
          authority_live y (timestamp_millis now) db) (bx_authorities db) \<and>
        granted (az_authority_id z) action db \<and>
        (\<forall>q\<in>set (bx_authorizations db).
           az_authorization_id q \<noteq> ka_authorization_id a \<longrightarrow> q \<in> set (bx_authorizations db')))"

lemma settlement_effect:
  assumes rec: "record_decision D i ''binding'' (action_str action) b None (Some (ka_authorization_id a)) v ps ns pr
      nr now (ka_actor a) ev reason None None av k db = Inr db1"
    and con: "consume_authorization a k au now db1 = Inr db2"
    and set: "settle_record v action f db2 = Inr db'"
    and ok: "list_all (consumption_recorded (bx_decisions db)) (bx_authorizations db)"
    and f: "\<And>r. bi_last_decision (f r) = k" "\<And>r. bi_state (f r) = (case action of KCRotate \<Rightarrow> KBRotated | KCRevoke \<Rightarrow> KBRevoked)"
  obtains us r vs where "bx_records db = us @ r # vs" "bx_records db' = us @ f r # vs"
    "bi_binding_id r = bv_binding_id v" "bi_state r \<in> set (live_states action)"
    "settles_under a action now r db db'"
proof -
  from rec obtain e d where d: "db1 = db\<lparr>bx_events := bx_events db @ [e], bx_decisions := bx_decisions db @ [d]\<rparr>"
      "bd_decision_id d = k" "bd_authorization_id d = Some (ka_authorization_id a)"
      "bd_decided_at_ms d = timestamp_millis now" "bd_actor d = ka_actor a"
      "bd_kind d = action_str action" "k \<notin> bd_decision_id ` set (bx_decisions db)"
    by (rule recorded_decision) blast
  have is_d: "x = d" if "x \<in> set (bx_decisions db1)" "bd_decision_id x = k" for x
    using that d by (auto simp: image_iff)
  define P where "P z \<longleftrightarrow> az_authorization_id z = ka_authorization_id a \<and> az_state z = AzPending" for z :: authorization_row
  define g where "g = consumed_authorization k au now"
  have con': "db2 = db1\<lparr>bx_authorizations := map (\<lambda>z. if P z then g z else z) (bx_authorizations db1)\<rparr>"
      "\<forall>z\<in>set (bx_authorizations db1). P z \<longrightarrow> authorization_update_ok db1 z (g z)"
    using con by (auto simp: consume_authorization_def update_authorizations_def guard_simps P_def g_def)
  obtain n where "update_keryx_rows (\<lambda>r. bi_binding_id r = bv_binding_id v \<and> bi_revision r = uint (bv_revision v) \<and>
      bi_state r \<in> set (live_states action)) f db2 = Inr (n, db')" "n = 1"
    using set by (auto simp: settle_record_def guard_simps)
  then obtain us r vs where r: "bx_records db2 = us @ r # vs" "bi_binding_id r = bv_binding_id v"
      "bi_state r \<in> set (live_states action)" "record_update_ok db2 r (f r)"
      "db' = db2\<lparr>bx_records := us @ f r # vs\<rparr>"
    by (rule update_single) blast
  then obtain x where x: "x \<in> set (bx_decisions db2)" "transition_decision r (f r) db2 x"
    by (auto simp: record_update_ok_def list_ex_iff)
  then have xd: "x = d" by (intro is_d) (simp_all add: con' transition_decision_def f)
  have "settled_under r d db2"
    using x(2) unfolding xd transition_decision_def by (cases action) (simp_all add: f)
  then obtain z' where z': "z' \<in> set (bx_authorizations db2)" "az_consumed_decision z' = Some k"
      "az_authorization_id z' = ka_authorization_id a" "az_binding_id z' = bi_binding_id r"
      "az_network_id z' = bi_network_id r" "az_device_id z' = bi_device_id r"
      "az_generation z' = bi_generation r" "az_expected_revision z' = bi_revision r"
      "action_str (az_action z') = bd_kind d"
    using d by (auto simp: settled_under_def list_ex_iff)
  from z'(1) con' obtain z where z: "z \<in> set (bx_authorizations db)" "z' = (if P z then g z else z)"
    using d(1) by auto
  have "\<not> (z' = z \<and> \<not> P z)"
    using ok z(1) z'(2) d(7) by (auto simp: list_all_iff consumption_recorded_def split: option.splits)
  with z(2) have pz: "P z" "z' = g z" by (auto split: if_splits)
  then have up: "authorization_update_ok db1 z (g z)" using con'(2) z(1) d(1) by auto
  then obtain y where y: "y \<in> set (bx_decisions db1)" "consumption_decision z (g z) db1 y"
    by (auto simp: authorization_update_ok_def list_ex_iff)
  then have "y = d" by (intro is_d) (auto simp: consumption_decision_def g_def consumed_authorization_def)
  with y have "consumption_decision z (g z) db1 d" by simp
  then have "bd_kind d = action_str (az_action z)" "az_actor z = ka_actor a"
      "az_issued_at_ms z \<le> timestamp_millis now" "timestamp_millis now < az_expires_at_ms z"
      "list_ex (\<lambda>y. ta_authority_id y = az_authority_id z \<and> ta_network_id y = az_network_id z \<and>
          authority_live y (timestamp_millis now) db1) (bx_authorities db1)"
      "granted (az_authority_id z) (az_action z) db1"
    using d by (auto simp: consumption_decision_def)
  moreover have "bd_kind d = action_str action" by (rule d)
  moreover have kept: "\<forall>q\<in>set (bx_authorizations db).
      az_authorization_id q \<noteq> ka_authorization_id a \<longrightarrow> q \<in> set (bx_authorizations db2)"
  proof (intro ballI impI)
    fix q assume q: "q \<in> set (bx_authorizations db)" "az_authorization_id q \<noteq> ka_authorization_id a"
    then have "q = (if P q then g q else q)" by (simp add: P_def)
    with q(1) have "q \<in> (\<lambda>z. if P z then g z else z) ` set (bx_authorizations db)" by (rule rev_image_eqI)
    then show "q \<in> set (bx_authorizations db2)" using con'(1) d(1) by simp
  qed
  ultimately have "settles_under a action now r db db'"
    unfolding settles_under_def using z'(1,3-8) z(1) pz r(5) d(1) con'(1)
    by (intro exI [of _ z] exI [of _ "g z"])
      (simp del: Un_iff add: g_def consumed_authorization_def P_def authority_live_def granted_def)
  then show ?thesis using r d(1) con'(1) by (intro that [of us r vs]) simp_all
qed


lemma named_unique:
  assumes "tables_ok db" "r \<in> set (bx_records db)" "s \<in> set (bx_records db)" "bi_binding_id r = bi_binding_id s"
  shows "r = s"
  using assms by (auto simp: tables_ok_def record_indexes_def distinct_map dest: inj_onD)

lemma insert_successor_effect:
  assumes "insert_successor D intent v av now db = Inr db'"
  obtains s z where "bx_records db' = bx_records db @ [s]" "bi_state s = KBPending" "bi_binding_id s = dw_binding_id D"
    "bi_verified_peer_id s = None" "bi_agent_version s = av"
    "bx_authorizations db' = bx_authorizations db" "bx_authorities db' = bx_authorities db"
    "bx_roots db' = bx_roots db" "bx_grants db' = bx_grants db"
    "\<exists>p. p \<in> set (bx_records db) \<and> bi_binding_id p = bv_binding_id v \<and> same_device p s \<and>
       bi_generation s = bi_generation p + 1"
proof -
  let ?w = "successor_view D intent v now"
  let ?s = "pending_record ?w (Some (bv_binding_id v)) (Some (ka_authorization_id (ri_authorization intent)))
    (uint (gen_get (bv_generation ?w))) now av (dw_decision D 0) (dw_audit D 0)"
  obtain db1 where d: "record_decision D 0 ''binding'' ''issue'' (dw_binding_id D) None None ?w [] ''pending'' 0 1 now
        (ka_actor (ri_authorization intent)) ''keryx_binding_pending'' ''binding_issued'' None None av
        (dw_decision D 0) db = Inr db1"
      and i: "insert_keryx_row ?s db1 = Inr db'"
    using assms by (auto simp: insert_successor_def Let_def guard_simps)
  from i have "record_check ?s" and succ: "1 < bi_generation ?s \<longrightarrow>
         list_ex (\<lambda>p. list_ex (succeeds ?s db1 p) (bx_authorizations db1)) (bx_records db1)"
      and db': "db' = db1\<lparr>bx_records := bx_records db1 @ [?s]\<rparr>"
    by (auto simp: insert_keryx_row_def guard_simps)
  then have "1 < bi_generation ?s" by (auto simp: record_check_def pending_record_def)
  with succ obtain p where "p \<in> set (bx_records db1)" "bi_binding_id p = bv_binding_id v" "same_device p ?s"
      "bi_generation ?s = bi_generation p + 1"
    by (auto simp: list_ex_iff succeeds_def same_device_def pending_record_def)
  moreover from d obtain e k where "db1 = db\<lparr>bx_events := bx_events db @ [e], bx_decisions := bx_decisions db @ [k]\<rparr>"
    by (rule recorded_decision) blast
  ultimately show ?thesis
    using db' by (intro that [of ?s]) (auto simp: pending_record_def successor_view_def)
qed

definition rotation_of ::
    "n6_draws \<Rightarrow> N6BindingRotationIntent \<Rightarrow> DateTime \<Rightarrow> binding_db \<Rightarrow> binding_db \<Rightarrow> keryx_row \<Rightarrow> keryx_row \<Rightarrow> bool" where
  "rotation_of D intent now db db' r s \<longleftrightarrow>
     bi_binding_id r = ri_predecessor_binding_id intent \<and> bi_state r \<in> {KBActive, KBStale} \<and>
     bi_binding_id s = dw_binding_id D \<and> bi_state s = KBPending \<and> bi_verified_peer_id s = None \<and>
     same_device r s \<and> bi_generation s = bi_generation r + 1 \<and> bi_agent_version s = bi_agent_version r \<and>
     settles_under (ri_authorization intent) KCRotate now r db db'"

lemma rotate_effect:
  assumes "rotate_tx E D intent now db = Inr (w, db')" "tables_ok db"
  obtains us r vs s where "bx_records db = us @ r # vs"
    "bx_records db' = us @ rotated_record (ri_decision_id intent) (dw_audit D 1) now r # vs @ [s]"
    "rotation_of D intent now db db' r s"
proof -
  let ?a = "ri_authorization intent" and ?k = "ri_decision_id intent"
  obtain v av db1 db2 db3 where v: "n6_binding_view_tx E (ri_predecessor_binding_id intent) db = Inr v"
      and av: "stored_agent_version (bv_binding_id v) db = Inr av"
      and i: "insert_successor D intent v av now db = Inr db1"
      and d: "record_decision D 1 ''binding'' ''rotate'' (bv_binding_id v) None
         (Some (ka_authorization_id ?a)) v (KeryxBindingState_str (bv_state v)) ''rotated'' (bv_revision v)
         (bv_revision v + 1) now (ka_actor ?a) ''keryx_binding_rotated''
         (reason_code_str (ri_reason_code intent)) None None av ?k db1 = Inr db2"
      and c: "consume_authorization ?a ?k (dw_audit D 1) now db2 = Inr db3"
      and f: "settle_record v KCRotate (rotated_record ?k (dw_audit D 1) now) db3 = Inr db'"
    using assms(1) by (auto simp: rotate_tx_def retire_predecessor_def Let_def guard_simps)
  from v obtain r0 where r0: "keryx_row_named (ri_predecessor_binding_id intent) db = Some r0"
      "r0 \<in> set (bx_records db)" "bi_binding_id r0 = ri_predecessor_binding_id intent" "bv_binding_id v = bi_binding_id r0"
    by (rule view_named) (auto simp: view_of_def)
  from av r0 have av: "av = bi_agent_version r0" by (auto simp: stored_agent_version_def guard_simps)
  from i obtain s p where s: "bx_records db1 = bx_records db @ [s]" "bi_state s = KBPending"
      "bi_binding_id s = dw_binding_id D" "bi_verified_peer_id s = None" "bi_agent_version s = av"
      "bx_authorizations db1 = bx_authorizations db" "bx_authorities db1 = bx_authorities db"
      "bx_roots db1 = bx_roots db" "bx_grants db1 = bx_grants db"
      "p \<in> set (bx_records db)" "bi_binding_id p = bv_binding_id v" "same_device p s"
      "bi_generation s = bi_generation p + 1"
    by (rule insert_successor_effect) blast
  have "tables_ok db1"
    using tables.insert_successor_le [of db db D intent v av now] i assms(2)
    by (simp add: tables.ends_def keeps_tables_def)
  then have ok: "list_all (consumption_recorded (bx_decisions db1)) (bx_authorizations db1)"
    by (simp add: tables_ok_def)
  obtain us r vs where r: "bx_records db1 = us @ r # vs"
      "bx_records db' = us @ rotated_record ?k (dw_audit D 1) now r # vs"
      "bi_binding_id r = bv_binding_id v" "bi_state r \<in> set (live_states KCRotate)"
      "settles_under ?a KCRotate now r db1 db'"
    by (rule settlement_effect [where action = KCRotate, unfolded action_str_def, simplified, OF d c f ok])
       (simp_all add: rotated_record_def)
  have "r \<noteq> s" using r(4) s(2) by (auto simp: live_states_def)
  then obtain vs' where vs: "vs = vs' @ [s]" "bx_records db = us @ r # vs'"
    using r(1) s(1) by (cases vs rule: rev_cases) auto
  have "r = p" "r = r0" using named_unique [OF assms(2)] s(10,11) r0 r(3) vs(2) by auto
  moreover have "settles_under ?a KCRotate now r db db'"
    using r(5) s(6-9) by (simp add: settles_under_def authority_live_def granted_def)
  moreover have "bi_state r \<in> {KBActive, KBStale}" using r(4) by (simp add: live_states_def)
  ultimately have "rotation_of D intent now db db' r s"
    unfolding rotation_of_def using r0(3) s(2-5,12,13) av by simp
  then show ?thesis using r(2) vs by (intro that [of us r vs' s]) simp_all
qed

lemma revoke_effect:
  assumes "revoke_tx E D intent now db = Inr (w, db')" "tables_ok db"
  obtains us r vs where "bx_records db = us @ r # vs"
    "bx_records db' = us @ revoked_record (vi_decision_id intent) (dw_audit D 1) now r # vs"
    "bi_binding_id r = vi_binding_id intent" "bi_state r \<in> {KBPending, KBActive, KBStale}"
    "settles_under (vi_authorization intent) KCRevoke now r db db'"
proof -
  let ?a = "vi_authorization intent" and ?k = "vi_decision_id intent"
  obtain v av db1 db2 db3 where v: "n6_binding_view_tx E (vi_binding_id intent) db = Inr v"
      and i: "invalidate_n6_pending_challenge E D 0 (bv_binding_id v) now db = Inr db1"
      and d: "record_decision D 1 ''binding'' ''revoke'' (bv_binding_id v) None
         (Some (ka_authorization_id ?a)) v (KeryxBindingState_str (bv_state v)) ''revoked'' (bv_revision v)
         (bv_revision v + 1) now (ka_actor ?a) ''keryx_binding_revoked''
         (reason_code_str (vi_reason_code intent)) None None av ?k db1 = Inr db2"
      and c: "consume_authorization ?a ?k (dw_audit D 1) now db2 = Inr db3"
      and f: "settle_record v KCRevoke (revoked_record ?k (dw_audit D 1) now) db3 = Inr db'"
    using assms(1) by (auto simp: revoke_tx_def retire_revoked_def Let_def guard_simps)
  from v have v: "bv_binding_id v = vi_binding_id intent" by (rule view_named) (auto simp: view_of_def)
  have "history_grows db db1" "tables_ok db1"
    using history.invalidate_le [of db db E D 0 "bv_binding_id v" now] i assms(2)
      tables.invalidate_le [of db db E D 0 "bv_binding_id v" now]
    by (simp_all add: tables.ends_def history.ends_def keeps_tables_def history.le_refl)
  then have ok: "list_all (consumption_recorded (bx_decisions db1)) (bx_authorizations db1)"
    and fr: "bx_authorities db1 = bx_authorities db" "bx_roots db1 = bx_roots db"
    by (simp_all add: tables_ok_def history_grows_def read_only_tables_def)
  have gr: "bx_grants db1 = bx_grants db"
    using i by (auto simp: invalidate_n6_pending_challenge_def append_n6_audit_def insert_n6_event_def
        insert_n6_decision_def insert_n6_decision_row_def update_challenges_def guard_simps split: option.splits)
  obtain us r vs where r: "bx_records db1 = us @ r # vs"
      "bx_records db' = us @ revoked_record ?k (dw_audit D 1) now r # vs"
      "bi_binding_id r = bv_binding_id v" "bi_state r \<in> set (live_states KCRevoke)"
      "settles_under ?a KCRevoke now r db1 db'"
    by (rule settlement_effect [where action = KCRevoke, unfolded action_str_def, simplified, OF d c f ok])
       (simp_all add: revoked_record_def)
  moreover have "settles_under ?a KCRevoke now r db db'"
    using r(5) fr gr invalidate_frame [OF i] by (simp add: settles_under_def authority_live_def granted_def)
  moreover have "bi_state r \<in> {KBPending, KBActive, KBStale}" using r(4) by (simp add: live_states_def)
  ultimately show ?thesis using v invalidate_frame [OF i] by (intro that [of us r vs]) simp_all
qed


text \<open>Only issuing, rotating and revoking touch the authorizations.\<close>

lemma reserve_authorizations:
  assumes "reserve_n6_binding_challenge E D q r now db = (a, db')"
  shows "bx_authorizations db' = bx_authorizations db"
proof -
  have first: "bx_authorizations db' = bx_authorizations db"
    if "issue_first_binding D r session now db = Inr db'" for session db db'
    using that by (auto simp: issue_first_binding_def Let_def insert_keryx_row_def guard_simps
        elim!: recorded_decision)
  have "bx_authorizations db' = bx_authorizations db"
    if "reserve_new_challenge E D q r session fp now db = Inr (x, db')" for session fp x db'
    using that
    by (auto simp: reserve_new_challenge_def challengeable_binding_def update_reservations_def
        insert_reservation_def guard_simps invalidate_frame first split: option.splits if_splits)
  then show ?thesis
    using assms
    by (auto simp: reserve_n6_binding_challenge_def reserve_challenge_tx_def Let_def guard_simps
        elim!: transactional_cases split: sum.splits option.splits)
qed

lemma complete_authorizations:
  assumes "complete_challenge_tx E D h verifier now db = Inr (a, db')"
  shows "bx_authorizations db' = bx_authorizations db"
  using assms
  by (auto simp: complete_challenge_tx_def record_challenge_def guard_simps insert_challenge_def
      update_reservations_def split: if_splits elim!: recorded_decision)

lemma issue_reserved_authorizations:
  assumes "issue_reserved E D h now db = (a, db')"
  shows "bx_authorizations db' = bx_authorizations db"
  using assms complete_authorizations
  by (auto simp: issue_reserved_def Let_def complete_n6_binding_challenge_def elim!: transactional_cases
      split: sum.splits prod.splits)

lemma confirm_authorizations:
  assumes "confirm_tx E D peer request now db = Inr (a, db')"
  shows "bx_authorizations db' = bx_authorizations db"
  using assms
proof (cases rule: confirm_cases)
  case (written c v fp db1 db2 w)
  from written(11) have "bx_authorizations db2 = bx_authorizations db1" by (rule activate_effect)
  with written(10,12) show ?thesis
    by (auto simp: insert_control_operation_def guard_simps dest: consume_challenge_effect(3))
qed simp

lemma reserve_call_effect:
  assumes "reserve_n6_binding_challenge E D q r now db = (a, db')"
  shows "record_effect k (bx_records db) (bx_records db')"
  using assms
  by (auto simp: reserve_n6_binding_challenge_def intro: record_effect.kept challenge_reserve_effect
      elim!: transactional_cases split: sum.splits)

lemma issue_reserved_frame:
  assumes "issue_reserved E D h now db = (a, db')"
  shows "bx_records db' = bx_records db"
  using assms complete_frame
  by (auto simp: issue_reserved_def Let_def complete_n6_binding_challenge_def elim!: transactional_cases
      split: sum.splits prod.splits)

definition confirmation_of :: "n6_call \<Rightarrow> n6_answer \<Rightarrow> (KeryxBindingId \<times> KeryxPeerId) option" where
  "confirmation_of c a =
     (case (c, a) of (CallConfirm D peer request, ConfirmAnswer (Inr outcome)) \<Rightarrow> confirmed_binding peer outcome
      | _ \<Rightarrow> None)"

lemma perform_effect:
  assumes "n6_perform E now c db = (a, db')" "tables_ok db"
  shows "record_effect (confirmation_of c a) (bx_records db) (bx_records db')"
proof (cases c)
  case (CallReserve D q r)
  with assms show ?thesis by (auto simp: apfst_def map_prod_def split: prod.splits dest: reserve_call_effect)
next
  case (CallComplete D h v)
  with assms show ?thesis
    by (auto simp: apfst_def map_prod_def complete_n6_binding_challenge_def complete_frame
        intro: record_effect.kept elim!: transactional_cases split: prod.splits)
next
  case (CallIssueChallenge D D' q r)
  obtain o' db1 where r: "reserve_n6_binding_challenge E D q r now db = (o', db1)" by fastforce
  then have "record_effect (confirmation_of c a) (bx_records db) (bx_records db1)" by (rule reserve_call_effect)
  moreover have "bx_records db' = bx_records db1"
    using assms(1) CallIssueChallenge r issue_reserved_frame
    by (auto simp: apfst_def map_prod_def issue_n6_binding_challenge_def
        split: prod.splits sum.splits N6ChallengeReservationOutcome.splits)
  ultimately show ?thesis by simp
next
  case (CallConfirm D peer r)
  with assms show ?thesis
    by (auto simp: apfst_def map_prod_def confirm_n6_authenticated_binding_def confirm_effect confirmation_of_def
        intro: record_effect.kept elim!: transactional_cases split: prod.splits)
next
  case (CallGrant D token b k)
  with assms show ?thesis
    by (auto simp: apfst_def map_prod_def grant_n6_binding_capability_def binding_tables_def
        intro: record_effect.kept elim!: transactional_cases dest!: grant_frame split: prod.splits)
next
  case (CallAuthorize D token b i k ex)
  with assms show ?thesis
    by (auto simp: apfst_def map_prod_def issue_n6_binding_authorization_def issue_authorization_frame
        intro: record_effect.kept elim!: transactional_cases split: prod.splits)
next
  case (CallRotate D intent)
  then obtain r where r: "rotate_n6_binding E D intent now db = (r, db')"
    using assms(1) by (auto simp: apfst_def map_prod_def split: prod.splits)
  show ?thesis
  proof (cases r)
    case (Inl e)
    then show ?thesis using r
      by (auto simp: rotate_n6_binding_def intro: record_effect.kept elim!: transactional_cases split: sum.splits)
  next
    case (Inr w)
    then have "rotate_tx E D intent now db = Inr (w, db')"
      using r by (auto simp: rotate_n6_binding_def elim!: transactional_cases split: sum.splits)
    then obtain us q vs s where "bx_records db = us @ q # vs"
        "bx_records db' = us @ rotated_record (ri_decision_id intent) (dw_audit D 1) now q # vs @ [s]"
        "rotation_of D intent now db db' q s"
      by (rule rotate_effect [OF _ assms(2)])
    then show ?thesis
      by (auto simp: rotation_of_def same_device_def rotated_record_def intro!: record_effect.rotated)
  qed
next
  case (CallRevoke D intent)
  then obtain r where r: "revoke_n6_binding E D intent now db = (r, db')"
    using assms(1) by (auto simp: apfst_def map_prod_def split: prod.splits)
  show ?thesis
  proof (cases r)
    case (Inl e)
    then show ?thesis using r
      by (auto simp: revoke_n6_binding_def intro: record_effect.kept elim!: transactional_cases split: sum.splits)
  next
    case (Inr w)
    then have "revoke_tx E D intent now db = Inr (w, db')"
      using r by (auto simp: revoke_n6_binding_def elim!: transactional_cases split: sum.splits)
    then obtain us q vs where "bx_records db = us @ q # vs"
        "bx_records db' = us @ revoked_record (vi_decision_id intent) (dw_audit D 1) now q # vs"
        "bi_state q \<in> {KBPending, KBActive, KBStale}"
      by (rule revoke_effect [OF _ assms(2)])
    then show ?thesis by (auto simp: same_device_def revoked_record_def intro!: record_effect.revoked)
  qed
qed

section \<open>Lineages\<close>

text \<open>
  The abstract component: the states of the bindings of one device, by generation. It starts
  empty, and only the last state ever changes.
\<close>

inductive lineage_step :: "KeryxBindingState list \<Rightarrow> KeryxBindingState list \<Rightarrow> bool" where
  first: "lineage_step [] [KBPending]"
| activate: "lineage_step (ss @ [KBPending]) (ss @ [KBActive])"
| rotate: "s \<in> {KBActive, KBStale} \<Longrightarrow> lineage_step (ss @ [s]) (ss @ [KBRotated, KBPending])"
| revoke: "s \<in> {KBPending, KBActive, KBStale} \<Longrightarrow> lineage_step (ss @ [s]) (ss @ [KBRevoked])"

definition rows_of :: "NetworkId \<Rightarrow> DeviceId \<Rightarrow> keryx_row list \<Rightarrow> keryx_row list" where
  "rows_of n d rs = filter (\<lambda>r. bi_network_id r = n \<and> bi_device_id r = d) rs"

definition lineage :: "NetworkId \<Rightarrow> DeviceId \<Rightarrow> binding_db \<Rightarrow> KeryxBindingState list" where
  "lineage n d db = map bi_state (device_records n d db)"

text \<open>Consecutive generations from one, all but the last of them rotated.\<close>

definition chain :: "keryx_row list \<Rightarrow> bool" where
  "chain rs \<longleftrightarrow> map bi_generation rs = map int [1..<Suc (length rs)] \<and>
     list_all (\<lambda>r. bi_state r = KBRotated) (butlast rs)"

lemma chain_Nil [simp]: "chain []" by (simp add: chain_def)

lemma chain_first: "chain rs \<Longrightarrow> rs \<noteq> [] \<Longrightarrow> \<exists>r\<in>set rs. bi_generation r = 1"
  by (cases rs) (auto simp: chain_def upt_conv_Cons simp del: upt_Suc)

lemma chain_last:
  "chain (us @ r # vs) \<Longrightarrow> bi_state r \<noteq> KBRotated \<Longrightarrow> vs = [] \<and> bi_generation r = int (length us) + 1"
  by (cases vs rule: rev_cases) (auto simp: chain_def butlast_append)

lemma chain_replace:
  "chain (us @ [r]) \<Longrightarrow> bi_generation r' = bi_generation r \<Longrightarrow> chain (us @ [r'])"
  by (simp add: chain_def)

lemma chain_extend:
  "chain (us @ [r]) \<Longrightarrow> bi_generation r' = bi_generation r \<Longrightarrow> bi_state r' = KBRotated \<Longrightarrow>
   bi_generation s = bi_generation r + 1 \<Longrightarrow> chain (us @ [r', s])"
  by (simp add: chain_def butlast_append)

lemma rows_of_simps [simp]:
  "rows_of n d (us @ vs) = rows_of n d us @ rows_of n d vs"
  "rows_of n d (r # vs) = (if bi_network_id r = n \<and> bi_device_id r = d then r # rows_of n d vs else rows_of n d vs)"
  "rows_of n d [] = []"
  by (simp_all add: rows_of_def)

lemma effect_refines:
  assumes "record_effect k rs rs'" "chain (rows_of n d rs)"
  shows "chain (rows_of n d rs') \<and>
    (map bi_state (rows_of n d rs') = map bi_state (rows_of n d rs) \<or>
     lineage_step (map bi_state (rows_of n d rs)) (map bi_state (rows_of n d rs')))"
  using assms
proof (cases rule: record_effect.cases)
  case kept
  then show ?thesis using assms(2) by simp
next
  case (issued s)
  show ?thesis
  proof (cases "bi_network_id s = n \<and> bi_device_id s = d")
    case True
    then have "rows_of n d rs = []"
      using issued(5) chain_first [OF assms(2)] by (fastforce simp: same_device_def rows_of_def)
    with True issued show ?thesis by (simp add: chain_def lineage_step.first)
  qed (use assms issued in auto)
next
  case (confirmed r r' peer us vs)
  show ?thesis
  proof (cases "bi_network_id r = n \<and> bi_device_id r = d")
    case True
    with assms confirmed have l: "chain (rows_of n d us @ [r])" "rows_of n d vs = []"
      using chain_last [of "rows_of n d us" r "rows_of n d vs"] by auto
    with True confirmed chain_replace [OF l(1), of r'] lineage_step.activate show ?thesis
      by (simp add: same_device_def)
  qed (use assms confirmed in \<open>auto simp: same_device_def\<close>)
next
  case (rotated r r' s us vs)
  show ?thesis
  proof (cases "bi_network_id r = n \<and> bi_device_id r = d")
    case True
    with assms rotated have l: "chain (rows_of n d us @ [r])" "rows_of n d vs = []"
      using chain_last [of "rows_of n d us" r "rows_of n d vs"] by auto
    with True rotated chain_extend [OF l(1), of r' s] lineage_step.rotate show ?thesis
      by (simp add: same_device_def)
  qed (use assms rotated in \<open>auto simp: same_device_def\<close>)
next
  case (revoked r r' us vs)
  show ?thesis
  proof (cases "bi_network_id r = n \<and> bi_device_id r = d")
    case True
    with assms revoked have l: "chain (rows_of n d us @ [r])" "rows_of n d vs = []"
      using chain_last [of "rows_of n d us" r "rows_of n d vs"] by auto
    with True revoked chain_replace [OF l(1), of r'] lineage_step.revoke show ?thesis
      by (simp add: same_device_def)
  qed (use assms revoked in \<open>auto simp: same_device_def\<close>)
qed

end
