(* ===== verification/Binding_Properties.thy ===== *)
theory Binding_Properties
  imports Binding_Runs
begin

text \<open>
  What every run of the binding store guarantees: bindings of a device refine its lineage, peers
  are authenticated, authorizations are spent at most once, confirmations are idempotent, and the
  two states in which the store is stuck. A sample run serves the witnesses.
\<close>

section \<open>Invariants of runs\<close>

definition binding_inv :: "binding_db \<Rightarrow> bool" where
  "binding_inv db \<longleftrightarrow> tables_ok db \<and> (\<forall>n d. chain (device_records n d db))"

lemma device_rows: "device_records n d db = rows_of n d (bx_records db)"
  by (simp add: device_records_def rows_of_def)

lemma fresh_inv: "fresh_bindings db \<Longrightarrow> binding_inv db"
  by (simp add: fresh_bindings_def binding_tables_def binding_inv_def tables_ok_def device_rows
      record_indexes_def challenge_indexes_def authorization_indexes_def reservation_indexes_def
      issued_challenges_def List.map_filter_def)

lemma step_refines:
  assumes "n6_step E s s'" "binding_inv (fst s)"
  shows "binding_inv (fst s') \<and> (lineage n d (fst s') = lineage n d (fst s) \<or>
    lineage_step (lineage n d (fst s)) (lineage n d (fst s')))"
  using assms(1)
proof (cases rule: n6_step.cases)
  case (called now c db a db' entries)
  from assms(2) called have "tables_ok db" and ch: "\<And>n d. chain (rows_of n d (bx_records db))"
    by (simp_all add: binding_inv_def device_rows)
  with called(3) have eff: "record_effect (confirmation_of c a) (bx_records db) (bx_records db')"
    by (simp add: perform_effect)
  from step_tables [OF assms(1)] assms(2) have "tables_ok (fst s')" by (simp add: binding_inv_def)
  with effect_refines [OF eff ch] called show ?thesis
    by (simp add: binding_inv_def device_rows lineage_def)
next
  case (elsewhere db' db entries)
  then have "bx_records db' = bx_records db" "tables_ok db' = tables_ok db"
    by (simp_all add: binding_tables_eq [of db' db])
  with assms(2) elsewhere show ?thesis by (simp add: binding_inv_def lineage_def device_records_def)
qed

lemma steps_inv: "(n6_step E)\<^sup>*\<^sup>* s s' \<Longrightarrow> binding_inv (fst s) \<Longrightarrow> binding_inv (fst s')"
  by (induction rule: rtranclp_induct) (auto dest: step_refines)

lemma run_inv: "n6_run E s \<Longrightarrow> binding_inv (fst s)"
  by (auto simp: n6_run_def dest!: steps_inv intro: fresh_inv)

lemma run_step: "n6_run E s \<Longrightarrow> n6_step E s s' \<Longrightarrow> n6_run E s'"
  unfolding n6_run_def by (meson rtranclp.rtrancl_into_rtrancl)

lemma run_steps: "n6_run E s \<Longrightarrow> (n6_step E)\<^sup>*\<^sup>* s s' \<Longrightarrow> n6_run E s'"
  unfolding n6_run_def by (meson rtranclp_trans)

text \<open>Induction over the calls of a run.\<close>

lemma run_induct [consumes 1, case_names fresh called elsewhere]:
  assumes "n6_run E s"
    and "\<And>db. fresh_bindings db \<Longrightarrow> P db []"
    and "\<And>db es now c a db'. n6_run E (db, es) \<Longrightarrow> P db es \<Longrightarrow> n6_perform E now c db = (a, db') \<Longrightarrow>
      P db' (es @ [\<lparr>ne_now = now, ne_call = c, ne_before = db, ne_answer = a\<rparr>])"
    and "\<And>db es db'. P db es \<Longrightarrow> binding_tables db' = binding_tables db \<Longrightarrow> P db' es"
  shows "P (fst s) (snd s)"
proof -
  obtain db0 where d: "fresh_bindings db0" "(n6_step E)\<^sup>*\<^sup>* (db0, []) s" using assms(1) by (auto simp: n6_run_def)
  from d(2) show ?thesis
  proof (induction rule: rtranclp_induct)
    case base
    then show ?case using assms(2) [OF d(1)] by simp
  next
    case (step y z)
    have y: "n6_run E y" using d(1) step(1) by (auto simp: n6_run_def)
    from step(2) show ?case
    proof (cases rule: n6_step.cases)
      case (called now c db a db' es)
      then show ?thesis using assms(3) [of db es now c a db'] y step(3) by simp
    next
      case (elsewhere db' db es)
      then show ?thesis using assms(4) [of db es db'] step(3) by simp
    qed
  qed
qed

section \<open>Lineages\<close>

text \<open>C6: Every call of the store, in any state a run reaches, either leaves the bindings of a device
  as they are or makes one step of its abstract lineage; the rows it leaves have the consecutive
  generations from one, all but the last of them rotated, and satisfy every check and index.\<close>
theorem bindings_refine_lineages:
  assumes "n6_run E (db, entries)" "n6_step E (db, entries) (db', entries')"
  shows "(lineage n d db' = lineage n d db \<or> lineage_step (lineage n d db) (lineage n d db')) \<and>
    map bi_generation (device_records n d db') = map int [1..<Suc (length (lineage n d db'))] \<and>
    list_all (\<lambda>s. s = KBRotated) (butlast (lineage n d db')) \<and> tables_ok db'"
proof -
  have "binding_inv db" using run_inv [OF assms(1)] by simp
  with step_refines [OF assms(2), of n d]
  have r: "binding_inv db'" "lineage n d db' = lineage n d db \<or> lineage_step (lineage n d db) (lineage n d db')"
    by simp_all
  from r(1) have "chain (device_records n d db')" "tables_ok db'" by (simp_all add: binding_inv_def)
  then have "map bi_generation (device_records n d db') = map int [1..<Suc (length (lineage n d db'))]"
    "list_all (\<lambda>s. s = KBRotated) (butlast (lineage n d db'))"
    by (auto simp: chain_def lineage_def list_all_iff simp flip: map_butlast)
  with r \<open>tables_ok db'\<close> show ?thesis by blast
qed

lemma revoked_stuck: "lineage_step (ss @ [KBRevoked]) ts \<Longrightarrow> False"
  by (auto elim: lineage_step.cases)

lemma revoked_lineage_final:
  assumes "(n6_step E)\<^sup>*\<^sup>* s s'" "binding_inv (fst s)" "lineage n d (fst s) = ss @ [KBRevoked]"
  shows "lineage n d (fst s') = ss @ [KBRevoked]"
  using assms(1)
proof (induction rule: rtranclp_induct)
  case (step y z)
  have "binding_inv (fst y)" using steps_inv [OF step(1) assms(2)] .
  with step_refines [OF step(2), of n d] step(3) show ?case using revoked_stuck by metis
qed (rule assms(3))

lemma butlast_active: "\<forall>s\<in>set (butlast ss). s = KBRotated \<Longrightarrow> KBActive \<in> set ss \<Longrightarrow> last ss = KBActive"
  by (cases ss rule: rev_cases) auto

lemma active_last:
  assumes "binding_inv db" "r \<in> set (bx_records db)" "bi_state r \<noteq> KBRotated"
  shows "r = last (device_records (bi_network_id r) (bi_device_id r) db)"
proof -
  let ?rs = "device_records (bi_network_id r) (bi_device_id r) db"
  have "r \<in> set ?rs" using assms(2) by (simp add: device_records_def)
  moreover have "list_all (\<lambda>r. bi_state r = KBRotated) (butlast ?rs)"
    using assms(1) by (simp add: binding_inv_def chain_def)
  ultimately show ?thesis using assms(3) by (cases ?rs rule: rev_cases) (auto simp: list_all_iff)
qed

text \<open>C7: Once a binding of a device is revoked, no later call, in any continuation of any run, gives
  the device another binding: every binding it ever has there is rotated, or is that revoked one.\<close>
theorem revocation_is_final:
  assumes "n6_run E (db, entries)" "r \<in> set (bx_records db)" "bi_state r = KBRevoked"
    and "(n6_step E)\<^sup>*\<^sup>* (db, entries) (db', entries')"
    and "s \<in> set (bx_records db')" "bi_network_id s = bi_network_id r" "bi_device_id s = bi_device_id r"
  shows "bi_state s = KBRotated \<or> (bi_state s = KBRevoked \<and> bi_generation s = bi_generation r)"
proof -
  let ?n = "bi_network_id r" and ?d = "bi_device_id r"
  have inv: "binding_inv db" "binding_inv db'"
    using run_inv [OF assms(1)] run_inv [OF run_steps [OF assms(1,4)]] by simp_all
  have r: "r = last (device_records ?n ?d db)" by (rule active_last [OF inv(1) assms(2)]) (simp add: assms(3))
  have ne: "device_records ?n ?d db \<noteq> []" using assms(2) by (auto simp: device_records_def filter_empty_conv)
  then have "lineage ?n ?d db = butlast (lineage ?n ?d db) @ [KBRevoked]"
    using r assms(3) by (metis append_butlast_last_id last_map lineage_def map_is_Nil_conv)
  then have l: "lineage ?n ?d db' = lineage ?n ?d db"
    using revoked_lineage_final [OF assms(4)] inv(1) by (metis fst_conv)
  show ?thesis
  proof (cases "bi_state s = KBRotated")
    case False
    then have s: "s = last (device_records ?n ?d db')" using active_last [OF inv(2) assms(5)] assms(6,7) by simp
    have ne': "device_records ?n ?d db' \<noteq> []" using l ne by (auto simp: lineage_def)
    have "bi_state s = last (lineage ?n ?d db')" using s ne' by (simp add: lineage_def last_map)
    also have "\<dots> = KBRevoked" using l r ne assms(3) by (simp add: lineage_def last_map)
    finally have st: "bi_state s = KBRevoked" .
    have gen: "bi_generation (last rs) = int (length rs)" if "chain rs" "rs \<noteq> []" for rs
    proof -
      have "bi_generation (last rs) = last (map bi_generation rs)" using that(2) by (simp add: last_map)
      also have "\<dots> = int (length rs)" using that unfolding chain_def by (simp add: last_map Suc_le_eq)
      finally show ?thesis .
    qed
    have "length (device_records ?n ?d db') = length (device_records ?n ?d db)"
      using arg_cong [OF l, of length] by (simp add: lineage_def)
    then have "bi_generation s = bi_generation r"
      using gen [OF _ ne] gen [OF _ ne'] inv r s by (simp add: binding_inv_def)
    with st show ?thesis by simp
  qed simp
qed


section \<open>Authenticated peers\<close>

text \<open>
  The call that confirmed a binding: made by the authenticated peer, against a pending challenge
  for exactly that peer, in time, with a nonce the stored verifier accepts, and with the agent
  version of both the challenge and the binding.
\<close>

definition confirmation_entry :: "binding_env \<Rightarrow> KeryxBindingId \<Rightarrow> KeryxPeerId \<Rightarrow> n6_entry \<Rightarrow> bool" where
  "confirmation_entry E i peer e \<longleftrightarrow>
     (\<exists>D request w c r verifier.
        ne_call e = CallConfirm D peer request \<and> ne_answer e = ConfirmAnswer (Inr (BindConfirmed w)) \<and>
        bv_binding_id w = i \<and> c \<in> set (bx_challenges (ne_before e)) \<and> ch_binding_id c = i \<and>
        ch_state c = ChPending \<and> ch_expected_peer c = peer \<and>
        timestamp_millis (ne_now e) < ch_expires_at_ms c \<and>
        BindingNonceVerifier_parse (be_argon E) (be_std_base64 E) (ch_verifier c) = Inr verifier \<and>
        verify_nonce (be_argon E) (be_std_base64 E) verifier (br_binding_nonce request) = Inr True \<and>
        r \<in> set (bx_records (ne_before e)) \<and> bi_binding_id r = i \<and> bi_state r = KBPending \<and>
        bi_network_id r = br_network_id request \<and> bi_device_id r = br_device_id request \<and>
        ch_agent_version c = br_agent_version request \<and> bi_agent_version r = br_agent_version request)"

lemma confirmed_call:
  assumes "n6_perform E now call db = (a, db')" "confirmation_of call a = Some (i, peer)"
  obtains D request w where "call = CallConfirm D peer request" "a = ConfirmAnswer (Inr (BindConfirmed w))"
    "bv_binding_id w = i" "confirm_tx E D peer request now db = Inr (BindConfirmed w, db')"
  using assms
  by (auto simp: confirmation_of_def confirmed_binding_def apfst_def map_prod_def
      confirm_n6_authenticated_binding_def elim!: transactional_cases
      split: n6_call.splits n6_answer.splits sum.splits N6AuthenticatedBindOutcome.splits prod.splits)

lemma confirmation_evidence:
  assumes "n6_perform E now call db = (a, db')" "confirmation_of call a = Some (i, peer)" "tables_ok db"
  shows "confirmation_entry E i peer \<lparr>ne_now = now, ne_call = call, ne_before = db, ne_answer = a\<rparr>"
proof -
  from assms(1,2) obtain D request w where c: "call = CallConfirm D peer request"
      "a = ConfirmAnswer (Inr (BindConfirmed w))" "bv_binding_id w = i"
      "confirm_tx E D peer request now db = Inr (BindConfirmed w, db')"
    by (rule confirmed_call)
  from c(4) show ?thesis
  proof (cases rule: confirm_cases)
    case (written c' v fp db1 db2 w')
    from written(13) have i: "bv_binding_id w' = ch_binding_id c'" by (rule view_named) (auto simp: view_of_def)
    from written(11) obtain us r vs where r: "bx_records db1 = us @ r # vs" "bi_binding_id r = ch_binding_id c'"
        "bi_state r = KBPending" "bi_agent_version r = br_agent_version request"
      by (rule activate_effect) blast
    have rin: "r \<in> set (bx_records db)" using r(1) consume_challenge_effect(1) [OF written(10)] by simp
    from written(5) obtain r0 g k where r0: "r0 \<in> set (bx_records db)" "bi_binding_id r0 = ch_binding_id c'"
        "v = view_of r0 g k db"
      by (rule view_named) blast
    then have "r = r0" using named_unique [OF assms(3) rin] r(2) by simp
    then have net: "bi_network_id r = br_network_id request" "bi_device_id r = br_device_id request"
      using written(7,8) r0(3) by (simp_all add: view_of_def)
    from written(4) obtain verifier where
        "BindingNonceVerifier_parse (be_argon E) (be_std_base64 E) (ch_verifier c') = Inr verifier"
        "verify_nonce (be_argon E) (be_std_base64 E) verifier (br_binding_nonce request) = Inr True"
        "timestamp_millis now < ch_expires_at_ms c'" "ch_agent_version c' = br_agent_version request"
      by (auto simp: challenge_matches_def guard_simps)
    moreover have "ch_state c' = ChPending" "ch_expected_peer c' = peer"
      using written(3) by (simp_all add: expected_challenge_def)
    ultimately show ?thesis
      unfolding confirmation_entry_def using c written(1,2) i r rin net
      by (intro exI [of _ D] exI [of _ request] exI [of _ w] exI [of _ c'] exI [of _ r] exI [of _ verifier]) simp
  qed simp
qed

lemma effect_peers:
  assumes "record_effect k rs rs'" "r' \<in> set rs'" "bi_verified_peer_id r' = Some peer"
  shows "k = Some (bi_binding_id r', peer) \<or>
    (\<exists>r\<in>set rs. bi_binding_id r = bi_binding_id r' \<and> bi_verified_peer_id r = Some peer)"
  using assms by (cases rule: record_effect.cases) auto

text \<open>C8: In every run a binding carries a peer only if that authenticated peer itself confirmed it, in
  time, against a pending challenge issued for exactly that peer and with a nonce the stored
  verifier accepts.\<close>
theorem bound_peers_confirmed_themselves:
  assumes "n6_run E (db, entries)" "r \<in> set (bx_records db)" "bi_verified_peer_id r = Some peer"
  shows "\<exists>e\<in>set entries. confirmation_entry E (bi_binding_id r) peer e"
proof -
  have "\<forall>r\<in>set (bx_records (fst (db, entries))). \<forall>peer. bi_verified_peer_id r = Some peer \<longrightarrow>
      (\<exists>e\<in>set (snd (db, entries)). confirmation_entry E (bi_binding_id r) peer e)"
    using assms(1)
  proof (induction rule: run_induct)
    case (fresh db)
    then show ?case by (simp add: fresh_bindings_def binding_tables_def)
  next
    case (called db es now c a db')
    have ok: "tables_ok db" using run_inv [OF called(1)] by (simp add: binding_inv_def)
    have eff: "record_effect (confirmation_of c a) (bx_records db) (bx_records db')"
      by (rule perform_effect [OF called(2) ok])
    show ?case
    proof (intro ballI allI impI)
      fix r' peer assume r': "r' \<in> set (bx_records db')" "bi_verified_peer_id r' = Some peer"
      from effect_peers [OF eff this]
      show "\<exists>e\<in>set (es @ [\<lparr>ne_now = now, ne_call = c, ne_before = db, ne_answer = a\<rparr>]).
          confirmation_entry E (bi_binding_id r') peer e"
      proof
        assume "confirmation_of c a = Some (bi_binding_id r', peer)"
        from confirmation_evidence [OF called(2) this ok] show ?thesis by simp
      next
        assume "\<exists>r\<in>set (bx_records db). bi_binding_id r = bi_binding_id r' \<and> bi_verified_peer_id r = Some peer"
        with called(3) show ?thesis by auto
      qed
    qed
  next
    case (elsewhere db es db')
    then show ?case by (simp add: binding_tables_eq(1) [of db' db])
  qed
  with assms(2,3) show ?thesis by simp
qed

text \<open>C10: The agent version of a binding is fixed when it is first issued, and a rotation copies it: a
  peer that presents any other version is never confirmed, whatever challenge was issued to it.\<close>
theorem upgraded_agents_never_confirm:
  assumes "n6_run E (db, entries)" "r \<in> set (bx_records db)"
    and "bi_network_id r = br_network_id request" "bi_device_id r = br_device_id request"
    and "bi_generation r = uint (gen_get (br_generation request))"
    and "bi_agent_version r \<noteq> br_agent_version request"
    and "confirm_n6_authenticated_binding E D peer request now db = (a, db')"
  shows "db' = db \<and> (\<forall>w. a \<noteq> Inr (BindConfirmed w))"
  using assms(7) unfolding confirm_n6_authenticated_binding_def
proof (cases rule: transactional_cases)
  case (committed x)
  have ok: "tables_ok db" using run_inv [OF assms(1)] by (simp add: binding_inv_def)
  from committed(2) show ?thesis
  proof (cases rule: confirm_cases)
    case unchanged
    with committed(1) show ?thesis by auto
  next
    case (written c v fp db1 db2 w')
    from written(11) obtain us q vs where q: "bx_records db1 = us @ q # vs" "bi_binding_id q = ch_binding_id c"
        "bi_agent_version q = br_agent_version request"
      by (rule activate_effect) blast
    have qin: "q \<in> set (bx_records db)" using q(1) consume_challenge_effect(1) [OF written(10)] by simp
    from written(5) obtain r0 g k where r0: "r0 \<in> set (bx_records db)" "bi_binding_id r0 = ch_binding_id c"
        "v = view_of r0 g k db" "gen_get g = word_of_int (bi_generation r0)"
      by (rule view_named) blast
    then have eq: "q = r0" using named_unique [OF ok qin] q(2) by simp
    have "0 < bi_generation r0" "bi_generation r0 < 2 ^ 63"
      using ok r0(1) by (auto simp: tables_ok_def list_all_iff record_check_def)
    then have "uint (word_of_int (bi_generation r0) :: u64) = bi_generation r0"
      by (simp add: uint_word_of_int take_bit_int_eq_self)
    then have "bi_generation q = uint (gen_get (br_generation request))"
      using written(9) r0(3,4) eq by (simp add: view_of_def)
    moreover have "bi_network_id q = br_network_id request" "bi_device_id q = br_device_id request"
      using written(7,8) r0(3) eq by (simp_all add: view_of_def)
    ultimately have "(bi_network_id q, bi_device_id q, bi_generation q) = (bi_network_id r, bi_device_id r, bi_generation r)"
      using assms(3-5) by simp
    moreover have "inj_on (\<lambda>r. (bi_network_id r, bi_device_id r, bi_generation r)) (set (bx_records db))"
      using ok by (simp add: tables_ok_def record_indexes_def distinct_map)
    ultimately have "q = r" using qin assms(2) by (blast dest: inj_onD)
    with q(3) assms(6) show ?thesis by simp
  qed
qed simp


section \<open>Authorizations\<close>

text \<open>The authorization a successful rotation or revocation used, and what it rested on.\<close>

definition retirement :: "n6_entry \<Rightarrow> KeryxBindingAuthorization option" where
  "retirement e =
     (case (ne_call e, ne_answer e) of
        (CallRotate D i, RotateAnswer (Inr w)) \<Rightarrow> Some (ri_authorization i)
      | (CallRevoke D i, RevokeAnswer (Inr w)) \<Rightarrow> Some (vi_authorization i)
      | _ \<Rightarrow> None)"

definition retired_by :: "n6_call \<Rightarrow> KeryxBindingAuthorizationCapability \<Rightarrow> KeryxBindingId \<Rightarrow> bool" where
  "retired_by c action i \<longleftrightarrow>
     (case c of CallRotate D intent \<Rightarrow> action = KCRotate \<and> i = ri_predecessor_binding_id intent
      | CallRevoke D intent \<Rightarrow> action = KCRevoke \<and> i = vi_binding_id intent
      | _ \<Rightarrow> False)"

lemma retirement_settles:
  assumes "n6_perform E now c db = (a, db')" "tables_ok db"
    "retirement \<lparr>ne_now = now, ne_call = c, ne_before = db, ne_answer = a\<rparr> = Some k"
  obtains r action where "r \<in> set (bx_records db)" "settles_under k action now r db db'"
    "retired_by c action (bi_binding_id r)"
proof (cases c)
  case (CallRotate D intent)
  with assms obtain w where w: "rotate_n6_binding E D intent now db = (Inr w, db')" "k = ri_authorization intent"
    by (auto simp: retirement_def apfst_def map_prod_def split: n6_answer.splits sum.splits prod.splits)
  then have "rotate_tx E D intent now db = Inr (w, db')"
    by (auto simp: rotate_n6_binding_def elim!: transactional_cases split: sum.splits)
  then obtain us r vs s where r: "bx_records db = us @ r # vs" "rotation_of D intent now db db' r s"
    by (rule rotate_effect [OF _ assms(2)]) blast
  then show ?thesis using CallRotate w(2)
    by (intro that [of r KCRotate]) (auto simp: rotation_of_def retired_by_def)
next
  case (CallRevoke D intent)
  with assms obtain w where w: "revoke_n6_binding E D intent now db = (Inr w, db')" "k = vi_authorization intent"
    by (auto simp: retirement_def apfst_def map_prod_def split: n6_answer.splits sum.splits prod.splits)
  then have "revoke_tx E D intent now db = Inr (w, db')"
    by (auto simp: revoke_n6_binding_def elim!: transactional_cases split: sum.splits)
  then obtain us r vs where r: "bx_records db = us @ r # vs" "bi_binding_id r = vi_binding_id intent"
      "settles_under (vi_authorization intent) KCRevoke now r db db'"
    by (rule revoke_effect [OF _ assms(2)]) blast
  then show ?thesis using CallRevoke w(2) by (intro that [of r KCRevoke]) (auto simp: retired_by_def)
qed (use assms(3) in \<open>auto simp: retirement_def\<close>)

lemma authorization_unique:
  assumes "tables_ok db" "y \<in> set (bx_authorizations db)" "z \<in> set (bx_authorizations db)"
    "az_authorization_id y = az_authorization_id z"
  shows "y = z"
  using assms by (auto simp: tables_ok_def authorization_indexes_def distinct_map dest: inj_onD)

lemma open_authorization_unique:
  assumes "authorization_indexes zs" "y \<in> set zs" "z \<in> set zs" "az_state y = AzPending" "az_state z = AzPending"
    "az_binding_id y = az_binding_id z" "az_action y = az_action z"
  shows "y = z"
proof -
  have "inj_on (\<lambda>z. (az_binding_id z, az_action z)) {z \<in> set zs. is_open_authorization z}"
    using assms(1) by (simp add: authorization_indexes_def distinct_map)
  then show ?thesis by (rule inj_onD) (use assms in \<open>simp_all add: is_open_authorization_def\<close>)
qed

definition backed_retirement :: "n6_entry \<Rightarrow> KeryxBindingAuthorization \<Rightarrow> bool" where
  "backed_retirement e a \<longleftrightarrow>
     (\<exists>r\<in>set (bx_records (ne_before e)). \<exists>z\<in>set (bx_authorizations (ne_before e)).
        az_authorization_id z = ka_authorization_id a \<and> az_state z = AzPending \<and>
        az_binding_id z = bi_binding_id r \<and> az_generation z = bi_generation r \<and>
        az_expected_revision z = bi_revision r \<and> retired_by (ne_call e) (az_action z) (bi_binding_id r) \<and>
        timestamp_millis (ne_now e) < az_expires_at_ms z \<and>
        (\<exists>y\<in>set (bx_authorities (ne_before e)). ta_authority_id y = az_authority_id z \<and>
           ta_network_id y = bi_network_id r \<and> authority_live y (timestamp_millis (ne_now e)) (ne_before e)) \<and>
        granted (az_authority_id z) (az_action z) (ne_before e))"

text \<open>C9: Over any run every successful rotation or revocation used its own pending, unexpired
  authorization of that action for the exact binding, generation and revision, under an authority
  that is live and granted at that moment, and no authorization is ever used twice.\<close>
theorem authorizations_spent_once:
  assumes "n6_run E (db, entries)"
  shows "distinct (map ka_authorization_id (List.map_filter retirement entries)) \<and>
    (\<forall>e\<in>set entries. \<forall>a. retirement e = Some a \<longrightarrow> backed_retirement e a)"
proof -
  let ?used = "\<lambda>es. map ka_authorization_id (List.map_filter retirement es)"
  let ?I = "\<lambda>db es. (distinct (?used es) \<and> (\<forall>e\<in>set es. \<forall>a. retirement e = Some a \<longrightarrow> backed_retirement e a)) \<and>
    (\<forall>i\<in>set (?used es). \<exists>z\<in>set (bx_authorizations db). az_authorization_id z = i \<and> az_state z = AzConsumed)"
  have "?I (fst (db, entries)) (snd (db, entries))"
    using assms
  proof (induction rule: run_induct)
    case (fresh db)
    then show ?case by (simp add: List.map_filter_def)
  next
    case (called db es now c a db')
    let ?e = "\<lparr>ne_now = now, ne_call = c, ne_before = db, ne_answer = a\<rparr>"
    have ok: "tables_ok db" using run_inv [OF called(1)] by (simp add: binding_inv_def)
    have grow: "rows_grow authorization_le (bx_authorizations db) (bx_authorizations db')"
      using history_tables [OF history.perform_le [of db E now c]] called(2) by (simp add: tables_grow_def)
    have kept: "\<exists>z\<in>set (bx_authorizations db'). az_authorization_id z = i \<and> az_state z = AzConsumed"
      if i: "i \<in> set (?used es)" for i
    proof -
      from called(3) i obtain z where z: "z \<in> set (bx_authorizations db)" "az_authorization_id z = i" "az_state z = AzConsumed"
        by blast
      from rows_grow_member [OF grow z(1)] z show ?thesis by (auto simp: authorization_le_def)
    qed
    show ?case
    proof (cases "retirement ?e")
      case None
      then have u: "?used (es @ [?e]) = ?used es" by (simp add: List.map_filter_def)
      show ?thesis unfolding u using called(3) kept None by auto
    next
      case (Some k)
      then have u: "?used (es @ [?e]) = ?used es @ [ka_authorization_id k]" by (simp add: List.map_filter_def)
      from called(2) ok Some obtain r action where r: "r \<in> set (bx_records db)"
          "settles_under k action now r db db'" "retired_by c action (bi_binding_id r)"
        by (rule retirement_settles)
      then obtain z z' where z: "z \<in> set (bx_authorizations db)" "z' \<in> set (bx_authorizations db')"
          "az_authorization_id z = ka_authorization_id k" "az_state z = AzPending"
          "az_authorization_id z' = ka_authorization_id k" "az_state z' = AzConsumed"
          "az_binding_id z = bi_binding_id r" "az_generation z = bi_generation r"
          "az_expected_revision z = bi_revision r" "az_action z = action"
          "timestamp_millis now < az_expires_at_ms z"
          "list_ex (\<lambda>y. ta_authority_id y = az_authority_id z \<and> ta_network_id y = bi_network_id r \<and>
            authority_live y (timestamp_millis now) db) (bx_authorities db)"
          "granted (az_authority_id z) action db"
        unfolding settles_under_def by blast
      have "ka_authorization_id k \<notin> set (?used es)"
      proof
        assume "ka_authorization_id k \<in> set (?used es)"
        with called(3) obtain y where "y \<in> set (bx_authorizations db)" "az_authorization_id y = ka_authorization_id k"
            "az_state y = AzConsumed" by blast
        with authorization_unique [OF ok _ z(1)] z(3,4) show False by fastforce
      qed
      moreover have "backed_retirement ?e k"
        using r z unfolding backed_retirement_def by (auto simp: list_ex_iff intro!: bexI [of _ r] bexI [of _ z])
      ultimately show ?thesis unfolding u using called(3) kept Some z(2,5,6) by auto
    qed
  next
    case (elsewhere db es db')
    then show ?case by (simp add: binding_tables_eq(3) [of db' db])
  qed
  then show ?thesis by simp
qed

text \<open>A call that would issue the action for the binding again, or carry it out.\<close>

definition acts_on :: "authorization_row \<Rightarrow> n6_entry \<Rightarrow> bool" where
  "acts_on z e \<longleftrightarrow>
     (case (ne_call e, ne_answer e) of
        (CallAuthorize D token a i c expires, AuthorizeAnswer (Inr k)) \<Rightarrow> i = az_binding_id z \<and> c = az_action z
      | (CallRotate D i, RotateAnswer (Inr w)) \<Rightarrow> az_action z = KCRotate \<and> ri_predecessor_binding_id i = az_binding_id z
      | (CallRevoke D i, RevokeAnswer (Inr w)) \<Rightarrow> az_action z = KCRevoke \<and> vi_binding_id i = az_binding_id z
      | _ \<Rightarrow> False)"

lemma issued_authorization:
  assumes "issue_authorization_tx E D token b i c ex now db = Inr (k, db')"
  obtains q where "bx_authorizations db' = bx_authorizations db @ [q]" "authorization_indexes (bx_authorizations db @ [q])"
    "az_binding_id q = i" "az_action q = c" "az_state q = AzPending"
proof -
  from assms obtain v actor db1 db2 g revision where k: "KeryxBindingAuthorization_new (be_uuid E)
        (dw_authorization_id D) b actor c i (bv_generation v) (bv_revision v) ex now = Inr k"
      and i: "insert_authorization (pending_authorization k v g revision now (dw_decision D 0) (dw_audit D 0)) db2 = Inr db'"
      and e: "bx_authorizations db2 = bx_authorizations db"
    by (auto simp: issue_authorization_tx_def guard_simps append_n6_audit_def insert_n6_event_def
        insert_n6_decision_def insert_n6_decision_row_def)
  have "ka_binding_id k = i" "ka_capability k = c"
    using k by (auto simp: KeryxBindingAuthorization_new_def guard_simps)
  then show ?thesis using i e
    by (intro that [of "pending_authorization k v g revision now (dw_decision D 0) (dw_audit D 0)"])
      (auto simp: insert_authorization_def guard_simps pending_authorization_def)
qed

lemma lapsed_call:
  assumes "n6_perform E now c db = (a, db')" "tables_ok db" "z \<in> set (bx_authorizations db)"
    "az_state z = AzPending" "az_expires_at_ms z \<le> timestamp_millis now"
  shows "z \<in> set (bx_authorizations db') \<and>
    \<not> acts_on z \<lparr>ne_now = now, ne_call = c, ne_before = db, ne_answer = a\<rparr>"
proof (cases "retirement \<lparr>ne_now = now, ne_call = c, ne_before = db, ne_answer = a\<rparr>")
  case (Some k)
  from assms(1,2) Some obtain r action where r: "r \<in> set (bx_records db)" "settles_under k action now r db db'"
      "retired_by c action (bi_binding_id r)"
    by (rule retirement_settles)
  then obtain y where y: "y \<in> set (bx_authorizations db)" "az_authorization_id y = ka_authorization_id k"
      "az_state y = AzPending" "az_binding_id y = bi_binding_id r" "az_action y = action"
      "timestamp_millis now < az_expires_at_ms y"
      "\<forall>q\<in>set (bx_authorizations db). az_authorization_id q \<noteq> ka_authorization_id k \<longrightarrow>
         q \<in> set (bx_authorizations db')"
    unfolding settles_under_def by blast
  have "y \<noteq> z" using y(6) assms(5) by auto
  then have "az_authorization_id z \<noteq> ka_authorization_id k"
    using authorization_unique [OF assms(2) y(1) assms(3)] y(2) by auto
  moreover have "\<not> (az_binding_id z = bi_binding_id r \<and> az_action z = action)"
    using open_authorization_unique [OF _ y(1) assms(3) y(3) assms(4)] \<open>y \<noteq> z\<close> y(4,5) assms(2)
    by (auto simp: tables_ok_def)
  ultimately show ?thesis using y(7) assms(3) r(3) Some
    by (auto simp: acts_on_def retired_by_def retirement_def split: n6_call.splits n6_answer.splits sum.splits)
next
  case None
  show ?thesis
  proof (cases c)
    case (CallAuthorize D token b i k ex)
    then obtain x where x: "issue_n6_binding_authorization E D token b i k ex now db = (x, db')" "a = AuthorizeAnswer x"
      using assms(1) by (auto simp: apfst_def map_prod_def split: prod.splits)
    from x(1) show ?thesis unfolding issue_n6_binding_authorization_def
    proof (cases rule: transactional_cases)
      case (committed y)
      then obtain q where "bx_authorizations db' = bx_authorizations db @ [q]"
          "authorization_indexes (bx_authorizations db @ [q])" "az_binding_id q = i" "az_action q = k"
          "az_state q = AzPending"
        by (auto elim: issued_authorization)
      moreover have "\<not> (i = az_binding_id z \<and> k = az_action z)"
      proof
        assume e: "i = az_binding_id z \<and> k = az_action z"
        have "distinct (map (\<lambda>z. (az_binding_id z, az_action z))
            (filter is_open_authorization (bx_authorizations db @ [q])))"
          using calculation(2) by (simp add: authorization_indexes_def)
        with calculation(3-5) e assms(3,4) show False
          by (auto simp: is_open_authorization_def image_iff)
      qed
      ultimately show ?thesis using assms(3) CallAuthorize by (auto simp: acts_on_def split: n6_answer.splits sum.splits)
    next
      case (failed e)
      with assms(3) CallAuthorize x(2) show ?thesis by (simp add: acts_on_def)
    qed
  next
    case (CallRotate D intent)
    with assms None show ?thesis
      by (auto simp: retirement_def acts_on_def apfst_def map_prod_def rotate_n6_binding_def
          elim!: transactional_cases split: prod.splits sum.splits)
  next
    case (CallRevoke D intent)
    with assms None show ?thesis
      by (auto simp: retirement_def acts_on_def apfst_def map_prod_def revoke_n6_binding_def
          elim!: transactional_cases split: prod.splits sum.splits)
  next
    case (CallGrant D token b k)
    with assms show ?thesis
      by (auto simp: acts_on_def apfst_def map_prod_def grant_n6_binding_capability_def binding_tables_def
          elim!: transactional_cases dest!: grant_frame split: prod.splits)
  next
    case (CallIssueChallenge D D' q r)
    obtain x db1 where x: "reserve_n6_binding_challenge E D q r now db = (x, db1)" by fastforce
    have "bx_authorizations db' = bx_authorizations db"
      using assms(1) CallIssueChallenge x issue_reserved_authorizations reserve_authorizations [OF x]
      by (auto simp: apfst_def map_prod_def issue_n6_binding_challenge_def
          split: prod.splits sum.splits N6ChallengeReservationOutcome.splits)
    with assms(3) CallIssueChallenge show ?thesis by (simp add: acts_on_def)
  next
    case (CallReserve D q r)
    with assms show ?thesis
      by (auto simp: acts_on_def apfst_def map_prod_def dest: reserve_authorizations split: prod.splits)
  next
    case (CallComplete D h v)
    with assms show ?thesis
      by (auto simp: acts_on_def apfst_def map_prod_def complete_n6_binding_challenge_def complete_authorizations
          elim!: transactional_cases split: prod.splits)
  next
    case (CallConfirm D peer r)
    with assms show ?thesis
      by (auto simp: acts_on_def apfst_def map_prod_def confirm_n6_authenticated_binding_def confirm_authorizations
          elim!: transactional_cases split: prod.splits)
  qed
qed


text \<open>C11: An authorization that expires unused is never cleared: while the clock does not go back
  before its expiry it stays pending, its unique index refuses every other authorization of that
  action for the binding, and no call ever carries the action out.\<close>
theorem lapsed_authorization_blocks_action:
  assumes "n6_run E (db, entries)" "z \<in> set (bx_authorizations db)" "az_state z = AzPending"
    and "(n6_step E)\<^sup>*\<^sup>* (db, entries) (db', entries @ later)"
    and "\<forall>e\<in>set later. az_expires_at_ms z \<le> timestamp_millis (ne_now e)"
  shows "z \<in> set (bx_authorizations db') \<and> (\<forall>e\<in>set later. \<not> acts_on z e)"
proof -
  have "\<exists>es. snd s = entries @ es \<and> ((\<forall>e\<in>set es. az_expires_at_ms z \<le> timestamp_millis (ne_now e)) \<longrightarrow>
      z \<in> set (bx_authorizations (fst s)) \<and> (\<forall>e\<in>set es. \<not> acts_on z e))"
    if "(n6_step E)\<^sup>*\<^sup>* (db, entries) s" for s
    using that
  proof (induction rule: rtranclp_induct)
    case base
    then show ?case using assms(2) by simp
  next
    case (step y t)
    then obtain es where es: "snd y = entries @ es" "(\<forall>e\<in>set es. az_expires_at_ms z \<le> timestamp_millis (ne_now e)) \<longrightarrow>
        z \<in> set (bx_authorizations (fst y)) \<and> (\<forall>e\<in>set es. \<not> acts_on z e)"
      by blast
    have ok: "tables_ok (fst y)" using run_inv [OF run_steps [OF assms(1) step(1)]] by (simp add: binding_inv_def)
    from step(2) show ?case
    proof (cases rule: n6_step.cases)
      case (called now c db1 a db2 es1)
      then show ?thesis using es ok lapsed_call [of E now c db1 a db2 z] assms(3) by auto
    next
      case (elsewhere db2 db1 es1)
      then show ?thesis using es by (simp add: binding_tables_eq(3) [of db2 db1])
    qed
  qed
  from this [OF assms(4)] assms(5) show ?thesis by auto
qed

section \<open>Replays\<close>

lemma view_found:
  assumes "tables_ok db" "r \<in> set (bx_records db)"
  shows "\<exists>w. n6_binding_view_tx E (bi_binding_id r) db = Inr w \<and> bv_binding_id w = bi_binding_id r"
proof -
  have "keryx_row_named (bi_binding_id r) db \<noteq> None"
    using assms(2) by (auto simp: keryx_row_named_def find_None_iff)
  then obtain q where q: "keryx_row_named (bi_binding_id r) db = Some q" by blast
  then have "q \<in> set (bx_records db)" "bi_binding_id q = bi_binding_id r"
    by (auto simp: keryx_row_named_def find_Some_iff)
  then have "q = r" using named_unique [OF assms(1) _ assms(2)] by simp
  have "record_check r" using assms by (simp add: tables_ok_def list_all_iff)
  then have g: "1 \<le> bi_generation r" "bi_generation r < 2 ^ 63" "1 \<le> bi_revision r"
    by (simp_all add: record_check_def)
  then have "uint (word_of_int (bi_generation r) :: u64) = bi_generation r"
    by (simp add: uint_word_of_int take_bit_int_eq_self)
  then have "(word_of_int (bi_generation r) :: u64) \<noteq> 0" using g(1) by auto
  with g q \<open>q = r\<close> show ?thesis
    by (simp add: n6_binding_view_tx_def column_u64_def domain_conflict_def Generation_new_def view_of_def)
qed

lemma find_skip: "\<forall>x\<in>set xs. \<not> P x \<Longrightarrow> find P (xs @ ys) = find P ys"
  by (induction xs) auto

text \<open>C12: Confirming again is idempotent for ever: after a confirmation, in any later state, the same
  request of the same peer, with unchanged provenance, is answered Replayed with the same binding
  and changes nothing, and another request under that operation is a conflict.\<close>
theorem confirmations_replayed:
  assumes "n6_run E (db0, entries)"
    and "confirm_n6_authenticated_binding E D peer request now db0 = (Inr (BindConfirmed w), db1)"
    and "(n6_step E)\<^sup>*\<^sup>* (db1, entries1) (db, entries')"
    and "n6_step E (db0, entries) (db1, entries1)"
    and "br_operation_id again = br_operation_id request"
    and "fp = n6_request_fingerprint E peer request (historical_session (br_provider_binding_id request)
           (br_device_id request) (br_network_id request) db0)"
    and "fp' = n6_request_fingerprint E peer again (historical_session (br_provider_binding_id again)
           (br_device_id again) (br_network_id again) db)"
  shows "snd (confirm_n6_authenticated_binding E D' peer again now' db) = db \<and>
    (if fp' = fp then \<exists>v. fst (confirm_n6_authenticated_binding E D' peer again now' db) = Inr (BindReplayed v) \<and>
       bv_binding_id v = bv_binding_id w
     else fst (confirm_n6_authenticated_binding E D' peer again now' db) = Inr BindConflict)"
proof -
  have tx: "confirm_tx E D peer request now db0 = Inr (BindConfirmed w, db1)"
    using assms(2) by (auto simp: confirm_n6_authenticated_binding_def elim: transactional_cases)
  have ok: "tables_ok db"
    using run_inv [OF run_steps [OF run_step [OF assms(1,4)] assms(3)]] by (simp add: binding_inv_def)
  have grow: "rows_grow record_le (bx_records db1) (bx_records db)" "prefix (bx_operations db1) (bx_operations db)"
    using steps_grow [OF assms(3)] by (simp_all add: tables_grow_def)
  from tx show ?thesis
  proof (cases rule: confirm_cases)
    case (written c v fp1 db2 db3 w1)
    define q where "q = confirmed_operation D peer request c fp1 now"
    from written(13) have w: "bv_binding_id w = ch_binding_id c"
      using written(1) by (auto elim!: view_named simp: view_of_def)
    have q: "op_peer q = peer" "op_operation_id q = br_operation_id request" "op_fingerprint q = fp"
        "op_binding_id q = ch_binding_id c"
      using written(14) assms(6) by (simp_all add: q_def confirmed_operation_def)
    have ops: "bx_operations db1 = bx_operations db3 @ [q]" "bx_records db1 = bx_records db3"
        "\<forall>o'\<in>set (bx_operations db3). \<not> (op_peer o' = peer \<and> op_operation_id o' = br_operation_id request)"
      using written(12) by (auto simp: insert_control_operation_def guard_simps list_all_iff q_def confirmed_operation_def)
    from grow(2) ops(1) obtain more' where "bx_operations db = bx_operations db3 @ q # more'"
      by (auto simp: prefix_def)
    then have f: "find (\<lambda>o'. op_peer o' = peer \<and> op_operation_id o' = br_operation_id again) (bx_operations db) = Some q"
      using ops(3) q(1,2) assms(5) by (simp add: find_skip)
    from written(11) obtain us r vs where "bx_records db3 = us @ confirmed_record peer (dw_decision D 1) (dw_audit D 1) now r # vs"
        "bi_binding_id r = ch_binding_id c"
      by (rule activate_effect) blast
    then obtain r1 where r1: "r1 \<in> set (bx_records db1)" "bi_binding_id r1 = ch_binding_id c"
      using ops(2) that [of "confirmed_record peer (dw_decision D 1) (dw_audit D 1) now r"]
      by (simp add: confirmed_record_def)
    then obtain r2 where r2: "r2 \<in> set (bx_records db)" "bi_binding_id r2 = ch_binding_id c"
      using rows_grow_member [OF grow(1) r1(1)] by (auto simp: record_le_def)
    obtain v where v: "n6_binding_view_tx E (ch_binding_id c) db = Inr v" "bv_binding_id v = ch_binding_id c"
      using view_found [OF ok r2(1)] r2(2) by auto
    show ?thesis
      using f v q w assms(7)
      by (simp add: confirm_n6_authenticated_binding_def transactional_def confirm_tx_def Let_def)
  qed simp
qed


section \<open>A sample run\<close>

definition sample_binding_env :: binding_env where
  "sample_binding_env = \<lparr>be_store = sample_store_env, be_argon = reference_argon,
     be_url_base64 = url_safe_no_pad, be_std_base64 = standard_no_pad, be_json_state = (\<lambda>_. None)\<rparr>"

definition sample_draws :: "nat \<Rightarrow> n6_draws" where
  "sample_draws k = \<lparr>dw_binding_id = TypedId 20, dw_challenge_id = TypedId 21, dw_authorization_id = TypedId (word_of_nat k),
     dw_reservation_id = ''r'', dw_grant_id = ''g'', dw_audit = (\<lambda>i. TypedId (word_of_nat (k + i))),
     dw_decision = (\<lambda>i. TypedId (word_of_nat (k + i))), dw_nonce = [], dw_salt = []\<rparr>"

definition sample_owner :: AuditActor where
  "sample_owner = \<lparr>au_source = ''local'', au_actor_id = Some ''owner''\<rparr>"

text \<open>A network with one device that joined by an N4 session, and a trust root with a live authority.\<close>

definition sample_bindings :: "string \<Rightarrow> binding_db" where
  "sample_bindings rv =
     \<lparr>bx_records = [], bx_challenges = [], bx_authorizations = [], bx_reservations = [], bx_operations = [],
      bx_decisions = [], bx_grants = [], bx_events = [],
      bx_authorities = [\<lparr>ta_authority_id = TypedId 9, ta_trust_root_id = TypedId 8, ta_network_id = TypedId 1,
        ta_principal_source = ''local'', ta_principal_id = ''owner'', ta_generation = 1, ta_not_before_ms = 0,
        ta_expires_at_ms = 1000, ta_sealed = True, ta_enabled = True, ta_revoked_at_ms = None, ta_created_at_ms = 0\<rparr>],
      bx_roots = [\<lparr>tr_trust_root_id = TypedId 8, tr_network_id = TypedId 1, tr_principal_source = ''local'',
        tr_principal_id = ''owner'', tr_secret_verifier = rv, tr_enabled = True, tr_revoked_at_ms = None, tr_created_at_ms = 0\<rparr>],
      bx_provider_bindings = [\<lparr>pb_binding_id = TypedId 3, pb_device_id = TypedId 2, pb_network_id = TypedId 1,
        pb_provenance_kind = ''n4_join'', pb_n4_provenance = Some (TypedId 3), pb_adoption_provenance = None\<rparr>],
      bx_n4_provenance = [\<lparr>jp_binding_id = TypedId 3, jp_device_id = TypedId 2, jp_network_id = TypedId 1,
        jp_identity_origin = ''i'', jp_join_session_id = TypedId 4\<rparr>],
      bx_adoption_provenance = [],
      bx_identities = [\<lparr>di_device_id = TypedId 2, di_network_id = TypedId 1, di_n4_origin = Some ''i'',
        di_adoption_origin = None\<rparr>],
      bx_adoption_origins = [], bx_projections = []\<rparr>"

definition sample_challenge_request :: N6BindingChallengeRequest where
  "sample_challenge_request =
     \<lparr>N6BindingChallengeRequest.cr_network_id = TypedId 1, cr_device_id = TypedId 2, cr_provider_binding_id = TypedId 3,
      cr_expected_authenticated_peer_id = KeryxPeerId ''p'', cr_generation = Generation 1,
      cr_expires_at = 500000000, cr_agent_version = AgentVersion ''1''\<rparr>"

definition sample_handle :: N6ChallengeReservation where
  "sample_handle = \<lparr>hr_reservation_id = ''r'', hr_binding_id = TypedId 20, hr_generation = Generation 1\<rparr>"

definition sample_view :: N6BindingView where
  "sample_view = pending_view (TypedId 20) sample_challenge_request (Some (TypedId 4)) 1000000"

definition sample_issue_event :: "nat \<Rightarrow> AuditActor \<Rightarrow> string \<Rightarrow> n6_event_row" where
  "sample_issue_event k actor kind =
     \<lparr>na_event_id = TypedId (word_of_nat k), na_network_id = TypedId 1, na_device_id = Some (TypedId 2),
      na_actor = actor, na_event_kind = kind, na_outcome = ''success'', na_generation = 1\<rparr>"

definition sample_decision :: "nat \<Rightarrow> string \<Rightarrow> string \<Rightarrow> KeryxBindingChallengeId option \<Rightarrow>
    KeryxBindingAuthorizationId option \<Rightarrow> (string \<times> int) option \<Rightarrow> string \<times> int \<Rightarrow> int \<Rightarrow> AuditActor \<Rightarrow> string \<Rightarrow>
    KeryxPeerId option \<Rightarrow> OperationId option \<Rightarrow> n6_decision_row" where
  "sample_decision k subject kind c z old new at actor reason peer q =
     \<lparr>bd_decision_id = TypedId (word_of_nat k), bd_audit = TypedId (word_of_nat k), bd_subject = subject,
      bd_kind = kind, bd_binding_id = TypedId 20, bd_challenge_id = c, bd_authorization_id = z,
      bd_network_id = TypedId 1, bd_device_id = TypedId 2, bd_generation = 1,
      bd_prior_state = map_option fst old, bd_new_state = fst new, bd_prior_revision = map_option snd old,
      bd_new_revision = snd new, bd_decided_at_ms = at, bd_actor = actor, bd_reason = reason, bd_peer = peer,
      bd_operation = q, bd_agent_version = AgentVersion ''1''\<rparr>"

definition sample_record :: keryx_row where
  "sample_record = pending_record sample_view None None 1 1000000 (AgentVersion ''1'') (TypedId 10) (TypedId 10)"

definition sample_fingerprint :: string where
  "sample_fingerprint = n6_challenge_fingerprint sample_binding_env sample_challenge_request (Some (TypedId 4))"

definition sample_reserved :: "string \<Rightarrow> binding_db" where
  "sample_reserved rv = (sample_bindings rv)\<lparr>bx_records := [sample_record],
     bx_reservations := [reserved_row (sample_draws 10) (TypedId 20) (OperationId ''o1'') sample_challenge_request
       sample_fingerprint 1 1000000],
     bx_events := [sample_issue_event 10 AuditActor_system ''keryx_binding_pending''],
     bx_decisions := [sample_decision 10 ''binding'' ''issue'' None None None (''pending'', 1) 1 AuditActor_system
       ''binding_issued'' (Some (KeryxPeerId ''p'')) None]\<rparr>"

lemmas sample_requests =
  sample_challenge_request_def sample_handle_def sample_view_def sample_issue_event_def sample_decision_def
  sample_record_def pending_record_def pending_view_def sample_owner_def

lemmas n6_eval =
  transactional_def domain_conflict_def record_decision_def append_n6_audit_def insert_n6_event_def
  insert_n6_decision_def insert_n6_decision_row_def bind_u64_def column_u64_def sample_draws_def
  decision_provenance_def decision_events_def live_subject_def n6_decision_check_def actor_check_def
  decision_references_def decision_revisions_def binding_decision_def challenge_decision_def
  authorization_decision_def first_settlement_def timestamp_millis_def AuditActor_system_def

lemma sample_request_valid:
  "now < 500000000 \<Longrightarrow> N6BindingChallengeRequest_validate_at (be_uuid sample_binding_env) sample_challenge_request now = Inr ()"
  using request_validate_iff [OF hex_uuid_laws, of sample_challenge_request now "()"]
  by (simp add: be_uuid_def sample_binding_env_def sample_store_env_def challenge_request_wf_def
      sample_challenge_request_def bounded_safe_def safe_id_byte_def is_ascii_alphanumeric_def
      is_ascii_digit_def byte_val_def)

lemma sample_reserve_tx:
  "reserve_challenge_tx sample_binding_env (sample_draws 10) (OperationId ''o1'') sample_challenge_request
     1000000 (sample_bindings rv) = Inr (ReservationAcquired sample_handle, sample_reserved rv)"
  by (simp add: reserve_challenge_tx_def Let_def n6_eval
      sample_bindings_def sample_requests joined_device_session_def provider_binding_named_def joined_origin_def
      n4_provenance_of_def reserve_new_challenge_def challengeable_binding_def issue_first_binding_def
      insert_keryx_row_def issue_backed_def record_check_def record_shape_def not_before_def record_indexes_def is_active_def
      invalidate_n6_pending_challenge_def pending_challenge_of_def update_reservations_def update_where_def
      reservation_indexes_def issued_challenges_def List.map_filter_def is_reserved_def reserved_row_def
      insert_reservation_def reservation_check_def sample_reserved_def sample_fingerprint_def)

lemma sample_challenge_reserves:
  "n6_perform sample_binding_env 1000000 (CallReserve (sample_draws 10) (OperationId ''o1'') sample_challenge_request)
     (sample_bindings rv) = (ReserveAnswer (Inr (ReservationAcquired sample_handle)), sample_reserved rv)"
  by (simp add: reserve_n6_binding_challenge_def sample_request_valid domain_conflict_def transactional_def
      sample_reserve_tx)

lemma sample_nonce_verifier:
  "\<exists>v. BindingNonceVerifier_parse reference_argon standard_no_pad (nonce_verifier_str v) = Inr v \<and>
     verify_nonce reference_argon standard_no_pad v (BindingNonce (replicate 32 3)) = Inr True"
proof -
  obtain w where w: "from_nonce reference_argon standard_no_pad (replicate 16 5) (BindingNonce (replicate 32 3)) = Inr w"
      "verify_nonce reference_argon standard_no_pad w (BindingNonce (replicate 32 3)) = Inr True"
    using nonce_verifier_canonical [OF standard_std_laws reference_argon_laws, of "replicate 16 5"] by fastforce
  then have "BindingNonceVerifier_parse reference_argon standard_no_pad (nonce_verifier_str w) = Inr w"
    by (auto simp: from_nonce_def BindingNonceVerifier_parse_def guard_simps)
  with w show ?thesis by blast
qed

definition sample_challenge :: "BindingNonceVerifier \<Rightarrow> challenge_row" where
  "sample_challenge v = issued_challenge (sample_draws 20) sample_view
     (reserved_row (sample_draws 10) (TypedId 20) (OperationId ''o1'') sample_challenge_request sample_fingerprint 1 1000000)
     (nonce_verifier_str v) 1 2000000"

definition sample_issued_db :: "string \<Rightarrow> BindingNonceVerifier \<Rightarrow> binding_db" where
  "sample_issued_db rv v = (sample_reserved rv)\<lparr>bx_challenges := [sample_challenge v],
     bx_reservations := [issued_reservation (sample_draws 20) 2000000
       (reserved_row (sample_draws 10) (TypedId 20) (OperationId ''o1'') sample_challenge_request sample_fingerprint 1 1000000)],
     bx_events := [sample_issue_event 10 AuditActor_system ''keryx_binding_pending'',
       sample_issue_event 20 AuditActor_system ''keryx_binding_nonce_issued''],
     bx_decisions := [sample_decision 10 ''binding'' ''issue'' None None None (''pending'', 1) 1 AuditActor_system
         ''binding_issued'' (Some (KeryxPeerId ''p'')) None,
       sample_decision 20 ''challenge'' ''issue'' (Some (TypedId 21)) None None (''pending'', 1) 2 AuditActor_system
         ''challenge_issued'' (Some (KeryxPeerId ''p'')) (Some (OperationId ''o1''))]\<rparr>"

definition sample_bind :: N6AuthenticatedBindRequest where
  "sample_bind = \<lparr>br_operation_id = OperationId ''o2'', br_network_id = TypedId 1, br_device_id = TypedId 2,
     br_provider_binding_id = TypedId 3, br_binding_nonce = BindingNonce (replicate 32 3),
     br_generation = Generation 1, br_agent_version = AgentVersion ''1''\<rparr>"

lemmas n6_table_eval =
  n6_binding_view_tx_def keryx_row_named_def view_of_def joined_session_def Generation_new_def
  update_where_def update_reservations_def update_challenges_def update_keryx_rows_def
  insert_challenge_def challenge_backed_def challenge_check_def challenge_indexes_def is_pending_challenge_def
  reservation_indexes_def issued_challenges_def List.map_filter_def is_reserved_def reserved_row_def
  reservation_check_def not_before_def reservation_update_ok_def issued_challenge_def issued_reservation_def
  record_check_def record_shape_def record_indexes_def is_active_def

lemma sample_complete_tx:
  "complete_challenge_tx sample_binding_env (sample_draws 20) sample_handle v 2000000 (sample_reserved rv) =
   Inr (CompletionRecorded (TypedId 21) (TypedId 20) (Generation 1) 500000000 2000000, sample_issued_db rv v)"
  by (simp add: complete_challenge_tx_def record_challenge_def n6_eval n6_table_eval sample_reserved_def
      sample_bindings_def sample_requests sample_issued_db_def sample_challenge_def timestamp_of_millis_def)

lemma sample_completes:
  "n6_perform sample_binding_env 2000000 (CallComplete (sample_draws 20) sample_handle v) (sample_reserved rv) =
   (CompleteAnswer (Inr (CompletionRecorded (TypedId 21) (TypedId 20) (Generation 1) 500000000 2000000)),
    sample_issued_db rv v)"
  by (simp add: complete_n6_binding_challenge_def transactional_def sample_complete_tx)

definition sample_confirmed_db :: "string \<Rightarrow> BindingNonceVerifier \<Rightarrow> binding_db" where
  "sample_confirmed_db rv v = (sample_issued_db rv v)\<lparr>
     bx_records := [confirmed_record (KeryxPeerId ''p'') (TypedId 31) (TypedId 31) 3000000 sample_record],
     bx_challenges := [consumed_challenge (KeryxPeerId ''p'') (OperationId ''o2'') (TypedId 30) (TypedId 30) 3000000
       (sample_challenge v)],
     bx_operations := [confirmed_operation (sample_draws 30) (KeryxPeerId ''p'') sample_bind (sample_challenge v)
       (n6_request_fingerprint sample_binding_env (KeryxPeerId ''p'') sample_bind (Some (TypedId 4))) 3000000],
     bx_events := [sample_issue_event 10 AuditActor_system ''keryx_binding_pending'',
       sample_issue_event 20 AuditActor_system ''keryx_binding_nonce_issued'',
       sample_issue_event 30 AuditActor_system ''keryx_binding_attempted'',
       sample_issue_event 31 AuditActor_system ''keryx_binding_confirmed''],
     bx_decisions := [sample_decision 10 ''binding'' ''issue'' None None None (''pending'', 1) 1 AuditActor_system
         ''binding_issued'' (Some (KeryxPeerId ''p'')) None,
       sample_decision 20 ''challenge'' ''issue'' (Some (TypedId 21)) None None (''pending'', 1) 2 AuditActor_system
         ''challenge_issued'' (Some (KeryxPeerId ''p'')) (Some (OperationId ''o1'')),
       sample_decision 30 ''challenge'' ''confirm'' (Some (TypedId 21)) None (Some (''pending'', 1)) (''consumed'', 2) 3
         AuditActor_system ''challenge_confirmed'' (Some (KeryxPeerId ''p'')) (Some (OperationId ''o2'')),
       sample_decision 31 ''binding'' ''confirm'' (Some (TypedId 21)) None (Some (''pending'', 1)) (''active'', 2) 3
         AuditActor_system ''binding_confirmed'' (Some (KeryxPeerId ''p'')) (Some (OperationId ''o2''))]\<rparr>"

definition sample_active_view :: N6BindingView where
  "sample_active_view = sample_view\<lparr>bv_verified_peer_id := Some (KeryxPeerId ''p''), bv_revision := 2,
     bv_state := KBActive, bv_confirmed_at := Some 3000000\<rparr>"

lemma sample_session: "historical_session (TypedId 3) (TypedId 2) (TypedId 1) (sample_issued_db rv v) = Some (TypedId 4)"
  by (simp add: historical_session_def sample_issued_db_def sample_reserved_def sample_bindings_def
      provider_binding_named_def n4_provenance_of_def)

lemma sample_pending_view:
  "n6_binding_view_tx sample_binding_env (TypedId 20) (sample_issued_db rv v) = Inr sample_view"
  by (simp add: n6_eval n6_table_eval sample_issued_db_def sample_reserved_def sample_bindings_def sample_requests
      timestamp_of_millis_def)

lemma sample_confirm_writes:
  "confirm_writes sample_binding_env (sample_draws 30) (KeryxPeerId ''p'') sample_bind (sample_challenge v) sample_view
     (n6_request_fingerprint sample_binding_env (KeryxPeerId ''p'') sample_bind (Some (TypedId 4))) 3000000
     (sample_issued_db rv v) = Inr (BindConfirmed sample_active_view, sample_confirmed_db rv v)"
  by (simp add: confirm_writes_def consume_challenge_def activate_binding_def n6_eval n6_table_eval
      sample_issued_db_def sample_reserved_def sample_bindings_def sample_requests sample_challenge_def
      sample_confirmed_db_def sample_bind_def sample_active_view_def timestamp_of_millis_def
      consumed_challenge_def confirmed_record_def confirmed_operation_def insert_control_operation_def operation_backed_def
      live_challenge_def challenge_subject_def live_binding_def confirmation_backed_def consumed_by_def
      challenge_update_ok_def settlement_decision_def record_update_ok_def record_immutable_def keeps_column_def
      transition_decision_def)

lemma sample_confirms:
  assumes "BindingNonceVerifier_parse reference_argon standard_no_pad (nonce_verifier_str v) = Inr v"
    "verify_nonce reference_argon standard_no_pad v (BindingNonce (replicate 32 3)) = Inr True"
  shows "n6_perform sample_binding_env 3000000 (CallConfirm (sample_draws 30) (KeryxPeerId ''p'') sample_bind)
     (sample_issued_db rv v) = (ConfirmAnswer (Inr (BindConfirmed sample_active_view)), sample_confirmed_db rv v)"
proof -
  have f: "find (expected_challenge (KeryxPeerId ''p'') sample_bind 1) (bx_challenges (sample_issued_db rv v)) =
      Some (sample_challenge v)"
    by (simp add: sample_issued_db_def expected_challenge_def sample_challenge_def n6_table_eval sample_requests sample_bind_def)
  have m: "challenge_matches sample_binding_env sample_bind 3000000 (sample_challenge v) = Inr ()"
    using assms by (simp add: challenge_matches_def sample_challenge_def n6_table_eval sample_requests sample_bind_def
        sample_binding_env_def timestamp_millis_def domain_conflict_def)
  have b: "br_operation_id sample_bind = OperationId ''o2''" "br_network_id sample_bind = TypedId 1"
      "br_device_id sample_bind = TypedId 2" "br_provider_binding_id sample_bind = TypedId 3"
      "br_generation sample_bind = Generation 1" "ch_binding_id (sample_challenge v) = TypedId 20"
      "bx_operations (sample_issued_db rv v) = []" "bv_network_id sample_view = TypedId 1"
      "bv_device_id sample_view = TypedId 2" "bv_provider_binding_id sample_view = TypedId 3"
      "bv_generation sample_view = Generation 1" "bv_state sample_view = KBPending"
    by (simp_all add: sample_bind_def sample_challenge_def issued_challenge_def sample_requests
        sample_issued_db_def sample_reserved_def sample_bindings_def)
  have "confirm_tx sample_binding_env (sample_draws 30) (KeryxPeerId ''p'') sample_bind 3000000 (sample_issued_db rv v) =
      Inr (BindConfirmed sample_active_view, sample_confirmed_db rv v)"
    using sample_session [of rv v] sample_pending_view [of rv v] sample_confirm_writes [of v rv] f m
    by (simp add: confirm_tx_def confirm_new_tx_def Let_def bind_u64_def b)
  then show ?thesis by (simp add: confirm_n6_authenticated_binding_def transactional_def)
qed

definition sample_owner_token :: OwnerTrustRootToken where
  "sample_owner_token = OwnerTrustRootToken (TypedId 8) (replicate 32 9)"

lemma sample_root_verifier:
  "\<exists>v. SecretVerifier_parse reference_argon (verifier_str v) = Inr v \<and>
     verify_trust_root reference_argon v sample_owner_token = Inr True"
  using from_secret_ok [OF reference_argon_laws, of "replicate 16 5" "ot_secret sample_owner_token"]
  by (auto simp: is_n4_def verify_trust_root_def SecretVerifier_parse_def is_ok_iff guard_simps)

definition sample_granted_db :: "string \<Rightarrow> binding_db" where
  "sample_granted_db rv = (sample_reserved rv)\<lparr>
     bx_grants := [\<lparr>gc_grant_id = ''g'', gc_authority_id = TypedId 9, gc_capability = KCRevoke,
       gc_issued_by = sample_owner, gc_issued_at_ms = 4, gc_audit = TypedId 40\<rparr>],
     bx_events := [sample_issue_event 10 AuditActor_system ''keryx_binding_pending'',
       (sample_issue_event 40 sample_owner ''keryx_binding_authority_capability_granted'')\<lparr>na_device_id := None\<rparr>]\<rparr>"

definition sample_authorization :: KeryxBindingAuthorization where
  "sample_authorization = \<lparr>ka_authorization_id = TypedId 50, ka_authority_id = TypedId 9, ka_actor = sample_owner,
     ka_capability = KCRevoke, ka_binding_id = TypedId 20, ka_generation = Generation 1, ka_revision = 1,
     ka_expires_at = 100000000\<rparr>"

definition sample_open_authorization :: authorization_row where
  "sample_open_authorization =
     pending_authorization sample_authorization sample_view 1 1 5000000 (TypedId 50) (TypedId 50)"

definition sample_authorized_db :: "string \<Rightarrow> binding_db" where
  "sample_authorized_db rv = (sample_granted_db rv)\<lparr>
     bx_authorizations := [sample_open_authorization],
     bx_events := [sample_issue_event 10 AuditActor_system ''keryx_binding_pending'',
       (sample_issue_event 40 sample_owner ''keryx_binding_authority_capability_granted'')\<lparr>na_device_id := None\<rparr>,
       sample_issue_event 50 sample_owner ''keryx_binding_authorization_issued''],
     bx_decisions := [sample_decision 10 ''binding'' ''issue'' None None None (''pending'', 1) 1 AuditActor_system
         ''binding_issued'' (Some (KeryxPeerId ''p'')) None,
       sample_decision 50 ''authorization'' ''issue'' None (Some (TypedId 50)) None (''pending'', 1) 5 sample_owner
         ''authorization_issued'' None None]\<rparr>"

lemma sample_verify_root:
  assumes "SecretVerifier_parse reference_argon rv = Inr v" "verify_trust_root reference_argon v sample_owner_token = Inr True"
    and "bx_roots db = bx_roots (sample_bindings rv)"
  shows "verify_n5_owner_root (be_argon sample_binding_env) sample_owner_token (TypedId 1) (bx_roots db) = Inr sample_owner"
  using assms by (simp add: verify_n5_owner_root_def active_root_def sample_bindings_def sample_owner_token_def sample_binding_env_def
      domain_conflict_def sample_owner_def)

lemmas n6_authority_eval =
  authority_live_def authority_open_def root_backs_def principal_of_def granted_def

lemma sample_grants:
  assumes "SecretVerifier_parse reference_argon rv = Inr v" "verify_trust_root reference_argon v sample_owner_token = Inr True"
  shows "n6_perform sample_binding_env 4000000 (CallGrant (sample_draws 40) sample_owner_token (TypedId 9) KCRevoke)
     (sample_reserved rv) = (GrantAnswer (Inr ()), sample_granted_db rv)"
proof -
  have "grant_tx sample_binding_env (sample_draws 40) sample_owner_token (TypedId 9) KCRevoke 4000000 (sample_reserved rv) =
      Inr ((), sample_granted_db rv)"
    using sample_verify_root [OF assms, of "sample_reserved rv"]
    by (simp add: grant_tx_def n6_eval sample_reserved_def sample_bindings_def sample_requests insert_grant_def
        n6_authority_eval sample_granted_db_def)
  then show ?thesis by (simp add: grant_n6_binding_capability_def transactional_def)
qed

lemma sample_authorizes:
  assumes "SecretVerifier_parse reference_argon rv = Inr v" "verify_trust_root reference_argon v sample_owner_token = Inr True"
  shows "n6_perform sample_binding_env 5000000
     (CallAuthorize (sample_draws 50) sample_owner_token (TypedId 9) (TypedId 20) KCRevoke 100000000)
     (sample_granted_db rv) = (AuthorizeAnswer (Inr sample_authorization), sample_authorized_db rv)"
proof -
  have v: "n6_binding_view_tx sample_binding_env (TypedId 20) (sample_granted_db rv) = Inr sample_view"
    by (simp add: n6_eval n6_table_eval sample_granted_db_def sample_reserved_def sample_bindings_def sample_requests
        timestamp_of_millis_def)
  have n: "bv_network_id sample_view = TypedId 1" "bv_generation sample_view = Generation 1" "bv_revision sample_view = 1"
      "bv_device_id sample_view = TypedId 2"
    by (simp_all add: sample_requests)
  have r: "verify_n5_owner_root (be_argon sample_binding_env) sample_owner_token (TypedId 1) (bx_roots (sample_granted_db rv)) = Inr sample_owner"
    by (rule sample_verify_root [OF assms]) (simp add: sample_granted_db_def sample_reserved_def)
  have a: "KeryxBindingAuthorization_new (be_uuid sample_binding_env) (dw_authorization_id (sample_draws 50)) (TypedId 9)
      sample_owner KCRevoke (TypedId 20) (Generation 1) 1 100000000 5000000 = Inr sample_authorization"
    by (simp add: KeryxBindingAuthorization_new_def guard_simps uuid_id_parsers
        be_uuid_def sample_binding_env_def sample_store_env_def revalidate_uuid_Inr [OF hex_uuid_laws]
        sample_draws_def sample_authorization_def sample_owner_def revalidate_n6_generation_def
        validate_n6_audit_actor_def validate_n6_audit_actor_component_def bounded_safe_def safe_id_byte_def
        is_ascii_alphanumeric_def is_ascii_digit_def byte_val_def)
  have "issue_authorization_tx sample_binding_env (sample_draws 50) sample_owner_token (TypedId 9) (TypedId 20) KCRevoke
      100000000 5000000 (sample_granted_db rv) = Inr (sample_authorization, sample_authorized_db rv)"
    unfolding issue_authorization_tx_def v and_then_Inr n r domain_conflict_def a map_err_simps
    by (simp add: n6_eval n stored_agent_version_def keryx_row_named_def sample_granted_db_def sample_reserved_def
        sample_bindings_def sample_requests sample_authorization_def pending_authorization_def insert_authorization_def
        authorization_backed_def live_states_def n6_authority_eval authorization_check_def authorization_indexes_def
        List.map_filter_def is_open_authorization_def sample_authorized_db_def sample_open_authorization_def)
  then show ?thesis by (simp add: issue_n6_binding_authorization_def transactional_def)
qed

definition sample_revocation :: N6BindingRevocationIntent where
  "sample_revocation = \<lparr>vi_decision_id = TypedId 77, vi_authorization = sample_authorization, vi_binding_id = TypedId 20,
     vi_generation = Generation 1, vi_revision = 1, vi_expires_at = 90000000, vi_reason_code = ReasonCode ''lost''\<rparr>"

definition sample_revoked_db :: "string \<Rightarrow> binding_db" where
  "sample_revoked_db rv = (sample_authorized_db rv)\<lparr>
     bx_records := [revoked_record (TypedId 77) (TypedId 61) 6000000 sample_record],
     bx_authorizations := [consumed_authorization (TypedId 77) (TypedId 61) 6000000 sample_open_authorization],
     bx_events := bx_events (sample_authorized_db rv) @ [sample_issue_event 61 sample_owner ''keryx_binding_revoked''],
     bx_decisions := bx_decisions (sample_authorized_db rv) @
       [(sample_decision 61 ''binding'' ''revoke'' None (Some (TypedId 50)) (Some (''pending'', 1)) (''revoked'', 2) 6
         sample_owner ''lost'' None None)\<lparr>bd_decision_id := TypedId 77\<rparr>]\<rparr>"

lemma sample_revokes:
  "\<exists>w. n6_perform sample_binding_env 6000000 (CallRevoke (sample_draws 60) sample_revocation) (sample_authorized_db rv) =
     (RevokeAnswer (Inr w), sample_revoked_db rv)"
proof -
  have val: "N6BindingRevocationIntent_validate_at (be_uuid sample_binding_env) sample_revocation 6000000 = Inr ()"
    by (simp add: N6BindingRevocationIntent_validate_at_def validate_authorization_def KeryxBindingAuthorization_validate_at_def
        guard_simps uuid_id_parsers be_uuid_def sample_binding_env_def sample_store_env_def
        revalidate_uuid_Inr [OF hex_uuid_laws] sample_revocation_def sample_authorization_def sample_owner_def
        revalidate_n6_generation_def revalidate_n6_reason_code_def parse_ReasonCode_def validate_safe_identifier_def
        validate_n6_audit_actor_def validate_n6_audit_actor_component_def bounded_safe_def safe_id_byte_def
        is_ascii_alphanumeric_def is_ascii_digit_def byte_val_def validate_expiry_def)
  have v: "n6_binding_view_tx sample_binding_env (TypedId 20) (sample_authorized_db rv) = Inr sample_view"
    by (simp add: n6_eval n6_table_eval sample_authorized_db_def sample_granted_db_def sample_reserved_def sample_bindings_def
        sample_requests timestamp_of_millis_def)
  have n: "bv_network_id sample_view = TypedId 1" "bv_generation sample_view = Generation 1" "bv_revision sample_view = 1"
      "bv_device_id sample_view = TypedId 2" "bv_binding_id sample_view = TypedId 20" "bv_state sample_view = KBPending"
      "vi_binding_id sample_revocation = TypedId 20" "vi_generation sample_revocation = Generation 1"
      "N6BindingRevocationIntent.vi_revision sample_revocation = 1"
    by (simp_all add: sample_requests sample_revocation_def)
  have "\<exists>w. revoke_tx sample_binding_env (sample_draws 60) sample_revocation 6000000 (sample_authorized_db rv) =
      Inr (w, sample_revoked_db rv)"
    unfolding revoke_tx_def n v and_then_Inr
    by (simp add: n Let_def n6_eval n6_table_eval stored_agent_version_def n6_fleet_authority_is_unresolved_tx_def
        sample_authorized_db_def sample_granted_db_def sample_reserved_def sample_bindings_def sample_requests
        sample_revocation_def invalidate_n6_pending_challenge_def pending_challenge_of_def retire_revoked_def
        consume_authorization_def settle_record_def update_authorizations_def sample_open_authorization_def
        pending_authorization_def consumed_authorization_def revoked_record_def live_binding_def live_states_def
        authorization_update_ok_def consumption_decision_def authorization_check_def authorization_indexes_def
        is_open_authorization_def action_str_def n6_authority_eval record_update_ok_def record_immutable_def
        keeps_column_def transition_decision_def settled_under_def sample_authorization_def sample_revoked_db_def)
  then show ?thesis by (auto simp: revoke_n6_binding_def val domain_conflict_def transactional_def)
qed


definition sample_entry :: "DateTime \<Rightarrow> n6_call \<Rightarrow> binding_db \<Rightarrow> n6_answer \<Rightarrow> n6_entry" where
  "sample_entry now c db a = \<lparr>ne_now = now, ne_call = c, ne_before = db, ne_answer = a\<rparr>"

lemma run_called:
  assumes "n6_run E (db, es)" "n6_perform E now c db = (a, db')"
  shows "n6_step E (db, es) (db', es @ [sample_entry now c db a])" "n6_run E (db', es @ [sample_entry now c db a])"
  using run_step [OF assms(1) n6_step.called [OF assms(2)]] n6_step.called [OF assms(2)]
  by (simp_all add: sample_entry_def)

definition sample_reserved_run :: "string \<Rightarrow> n6_entry list" where
  "sample_reserved_run rv = [sample_entry 1000000
     (CallReserve (sample_draws 10) (OperationId ''o1'') sample_challenge_request) (sample_bindings rv)
     (ReserveAnswer (Inr (ReservationAcquired sample_handle)))]"

lemma sample_start: "n6_run sample_binding_env (sample_bindings rv, [])"
  unfolding n6_run_def
  by (intro exI [of _ "sample_bindings rv"]) (simp add: fresh_bindings_def binding_tables_def sample_bindings_def)

lemma sample_reserved_runs: "n6_run sample_binding_env (sample_reserved rv, sample_reserved_run rv)"
  using run_called(2) [OF sample_start sample_challenge_reserves] by (simp add: sample_reserved_run_def)

lemma sample_issued_runs:
  "\<exists>es. n6_run sample_binding_env (sample_issued_db rv v, es)"
  using run_called(2) [OF sample_reserved_runs sample_completes] by blast

lemma sample_authorized_runs:
  assumes "SecretVerifier_parse reference_argon rv = Inr v" "verify_trust_root reference_argon v sample_owner_token = Inr True"
  shows "\<exists>es. n6_run sample_binding_env (sample_authorized_db rv, es)"
  using run_called(2) [OF run_called(2) [OF sample_reserved_runs sample_grants [OF assms]] sample_authorizes [OF assms]]
  by blast

lemma sample_revoked_runs:
  assumes "SecretVerifier_parse reference_argon rv = Inr v" "verify_trust_root reference_argon v sample_owner_token = Inr True"
  shows "\<exists>es. n6_run sample_binding_env (sample_revoked_db rv, es) \<and> List.map_filter retirement es = [sample_authorization]"
proof -
  obtain w where w: "n6_perform sample_binding_env 6000000 (CallRevoke (sample_draws 60) sample_revocation)
      (sample_authorized_db rv) = (RevokeAnswer (Inr w), sample_revoked_db rv)" using sample_revokes by blast
  show ?thesis
    using run_called(2) [OF run_called(2) [OF run_called(2) [OF sample_reserved_runs sample_grants [OF assms]]
      sample_authorizes [OF assms]] w]
    by (intro exI conjI) (auto simp: sample_reserved_run_def sample_entry_def retirement_def List.map_filter_def
        sample_revocation_def)
qed

theorem bindings_refine_lineages_witness:
  "lineage (TypedId 1) (TypedId 2) (sample_bindings []) = [] \<and>
   lineage (TypedId 1) (TypedId 2) (sample_reserved []) = [KBPending] \<and>
   (lineage (TypedId 1) (TypedId 2) (sample_reserved []) = lineage (TypedId 1) (TypedId 2) (sample_bindings []) \<or>
    lineage_step (lineage (TypedId 1) (TypedId 2) (sample_bindings [])) (lineage (TypedId 1) (TypedId 2) (sample_reserved [])))"
proof -
  have "lineage (TypedId 1) (TypedId 2) (sample_bindings []) = []"
      "lineage (TypedId 1) (TypedId 2) (sample_reserved []) = [KBPending]"
    by (simp_all add: lineage_def device_records_def sample_bindings_def sample_reserved_def sample_requests)
  with bindings_refine_lineages [OF sample_start run_called(1) [OF sample_start sample_challenge_reserves]] show ?thesis by blast
qed

theorem revocation_is_final_witness:
  "\<exists>rv es r. n6_run sample_binding_env (sample_revoked_db rv, es) \<and> r \<in> set (bx_records (sample_revoked_db rv)) \<and>
     bi_state r = KBRevoked \<and> (bi_state r = KBRotated \<or> (bi_state r = KBRevoked \<and> bi_generation r = 1))"
proof -
  obtain v where v: "SecretVerifier_parse reference_argon (verifier_str v) = Inr v"
      "verify_trust_root reference_argon v sample_owner_token = Inr True" using sample_root_verifier by blast
  obtain es where es: "n6_run sample_binding_env (sample_revoked_db (verifier_str v), es)"
    using sample_revoked_runs [OF v] by blast
  let ?r = "revoked_record (TypedId 77) (TypedId 61) 6000000 sample_record"
  have r: "?r \<in> set (bx_records (sample_revoked_db (verifier_str v)))" "bi_state ?r = KBRevoked" "bi_generation ?r = 1"
    by (simp_all add: sample_revoked_db_def revoked_record_def sample_requests)
  have "bi_state ?r = KBRotated \<or> (bi_state ?r = KBRevoked \<and> bi_generation ?r = bi_generation ?r)"
    by (rule revocation_is_final [OF es r(1,2) rtranclp.rtrancl_refl r(1) refl refl])
  with es r show ?thesis by auto
qed

theorem bound_peers_confirmed_themselves_witness:
  "\<exists>v es. n6_run sample_binding_env (sample_confirmed_db [] v, es) \<and>
     (\<exists>e\<in>set es. confirmation_entry sample_binding_env (TypedId 20) (KeryxPeerId ''p'') e)"
proof -
  obtain v where v: "BindingNonceVerifier_parse reference_argon standard_no_pad (nonce_verifier_str v) = Inr v"
      "verify_nonce reference_argon standard_no_pad v (BindingNonce (replicate 32 3)) = Inr True"
    using sample_nonce_verifier by blast
  obtain es where "n6_run sample_binding_env (sample_issued_db [] v, es)" using sample_issued_runs by blast
  from run_called(2) [OF this sample_confirms [OF v]]
  obtain es' where es: "n6_run sample_binding_env (sample_confirmed_db [] v, es')" by blast
  let ?r = "confirmed_record (KeryxPeerId ''p'') (TypedId 31) (TypedId 31) 3000000 sample_record"
  have "?r \<in> set (bx_records (sample_confirmed_db [] v))" "bi_verified_peer_id ?r = Some (KeryxPeerId ''p'')"
      "bi_binding_id ?r = TypedId 20"
    by (simp_all add: sample_confirmed_db_def confirmed_record_def sample_requests)
  with bound_peers_confirmed_themselves [OF es, of ?r] es show ?thesis by auto
qed

theorem upgraded_agents_never_confirm_witness:
  "\<exists>a. confirm_n6_authenticated_binding sample_binding_env (sample_draws 30) (KeryxPeerId ''p'')
       (sample_bind\<lparr>br_agent_version := AgentVersion ''2''\<rparr>) 3000000 (sample_issued_db [] (BindingNonceVerifier [])) =
     (a, sample_issued_db [] (BindingNonceVerifier [])) \<and> a \<noteq> Inr (BindConfirmed sample_active_view)"
proof -
  let ?db = "sample_issued_db [] (BindingNonceVerifier [])" and ?q = "sample_bind\<lparr>br_agent_version := AgentVersion ''2''\<rparr>"
  obtain es where es: "n6_run sample_binding_env (?db, es)" using sample_issued_runs by blast
  obtain a db' where a: "confirm_n6_authenticated_binding sample_binding_env (sample_draws 30) (KeryxPeerId ''p'') ?q 3000000 ?db = (a, db')"
    by fastforce
  have "sample_record \<in> set (bx_records ?db)" by (simp add: sample_issued_db_def sample_reserved_def)
  with upgraded_agents_never_confirm [OF es this _ _ _ _ a] a show ?thesis
    by (simp add: sample_requests sample_bind_def)
qed

theorem authorizations_spent_once_witness:
  "\<exists>rv es. n6_run sample_binding_env (sample_revoked_db rv, es) \<and> List.map_filter retirement es = [sample_authorization] \<and>
     distinct (map ka_authorization_id (List.map_filter retirement es)) \<and>
     (\<exists>e\<in>set es. backed_retirement e sample_authorization)"
proof -
  obtain v where v: "SecretVerifier_parse reference_argon (verifier_str v) = Inr v"
      "verify_trust_root reference_argon v sample_owner_token = Inr True" using sample_root_verifier by blast
  obtain es where es: "n6_run sample_binding_env (sample_revoked_db (verifier_str v), es)"
      "List.map_filter retirement es = [sample_authorization]"
    using sample_revoked_runs [OF v] by blast
  then have "sample_authorization \<in> set (List.map_filter retirement es)" by simp
  then obtain e where "e \<in> set es" "retirement e = Some sample_authorization"
    by (auto simp: List.map_filter_def)
  with authorizations_spent_once [OF es(1)] es show ?thesis by blast
qed

theorem lapsed_authorization_blocks_action_witness:
  "\<exists>rv es a db'. n6_run sample_binding_env (sample_authorized_db rv, es) \<and>
     n6_perform sample_binding_env 200000000
       (CallAuthorize (sample_draws 60) sample_owner_token (TypedId 9) (TypedId 20) KCRevoke 900000000)
       (sample_authorized_db rv) = (a, db') \<and> sample_open_authorization \<in> set (bx_authorizations db') \<and>
     a \<noteq> AuthorizeAnswer (Inr sample_authorization)"
proof -
  obtain v where v: "SecretVerifier_parse reference_argon (verifier_str v) = Inr v"
      "verify_trust_root reference_argon v sample_owner_token = Inr True" using sample_root_verifier by blast
  let ?db = "sample_authorized_db (verifier_str v)"
  let ?c = "CallAuthorize (sample_draws 60) sample_owner_token (TypedId 9) (TypedId 20) KCRevoke 900000000"
  obtain es where es: "n6_run sample_binding_env (?db, es)" using sample_authorized_runs [OF v] by blast
  obtain a db' where a: "n6_perform sample_binding_env 200000000 ?c ?db = (a, db')" by fastforce
  have z: "sample_open_authorization \<in> set (bx_authorizations ?db)" "az_state sample_open_authorization = AzPending"
      "az_expires_at_ms sample_open_authorization = 100"
    by (simp_all add: sample_authorized_db_def sample_open_authorization_def pending_authorization_def
        sample_authorization_def timestamp_millis_def)
  have st: "(n6_step sample_binding_env)\<^sup>*\<^sup>* (?db, es) (db', es @ [sample_entry 200000000 ?c ?db a])"
    using run_called(1) [OF es a] by (rule r_into_rtranclp)
  have "sample_open_authorization \<in> set (bx_authorizations db') \<and>
      (\<forall>e\<in>set [sample_entry 200000000 ?c ?db a]. \<not> acts_on sample_open_authorization e)"
    by (rule lapsed_authorization_blocks_action [OF es z(1,2) st])
      (simp add: z(3) sample_entry_def timestamp_millis_def)
  then have "sample_open_authorization \<in> set (bx_authorizations db')" "a \<noteq> AuthorizeAnswer (Inr sample_authorization)"
    by (auto simp: acts_on_def sample_entry_def sample_open_authorization_def pending_authorization_def sample_authorization_def)
  with es a show ?thesis by blast
qed

theorem confirmations_replayed_witness:
  "\<exists>v w. confirm_n6_authenticated_binding sample_binding_env (sample_draws 90) (KeryxPeerId ''p'') sample_bind 4000000
       (sample_confirmed_db [] v) = (Inr (BindReplayed w), sample_confirmed_db [] v) \<and> bv_binding_id w = TypedId 20"
proof -
  obtain v where v: "BindingNonceVerifier_parse reference_argon standard_no_pad (nonce_verifier_str v) = Inr v"
      "verify_nonce reference_argon standard_no_pad v (BindingNonce (replicate 32 3)) = Inr True"
    using sample_nonce_verifier by blast
  obtain es where es: "n6_run sample_binding_env (sample_issued_db [] v, es)" using sample_issued_runs by blast
  have c: "confirm_n6_authenticated_binding sample_binding_env (sample_draws 30) (KeryxPeerId ''p'') sample_bind 3000000
      (sample_issued_db [] v) = (Inr (BindConfirmed sample_active_view), sample_confirmed_db [] v)"
    using sample_confirms [OF v, of "[]"] by (auto simp: apfst_def map_prod_def split: prod.splits)
  have s: "historical_session (br_provider_binding_id sample_bind) (br_device_id sample_bind) (br_network_id sample_bind)
      (sample_confirmed_db [] v) = historical_session (br_provider_binding_id sample_bind) (br_device_id sample_bind)
      (br_network_id sample_bind) (sample_issued_db [] v)"
    by (simp add: historical_session_def sample_confirmed_db_def provider_binding_named_def cong: option.case_cong)
  have "bv_binding_id sample_active_view = TypedId 20" by (simp add: sample_active_view_def sample_requests)
  with confirmations_replayed [OF es c rtranclp.rtrancl_refl run_called(1) [OF es sample_confirms [OF v]] refl refl refl,
      of "sample_draws 90" 4000000] s
  show ?thesis by (metis prod.collapse)
qed

end
