(* ===== verification/Trust_Store.thy ===== *)
theory Trust_Store
  imports Trust_Tables
begin

text \<open>
  Device trust of \<^verbatim>\<open>crates/nodescale-state/src/n5.rs\<close>: bootstrapping and revoking the owner root of a
  network, configuring and revoking trust authorities, issuing authorizations, activating and
  revoking the trust of a device, activating its membership, and the lifecycle of its provider
  binding. Argon2, SHA-256 and the identifiers and random bytes a call draws are parameters.
\<close>

section \<open>Views, authorizations and the environment\<close>

record trust_env =
  te_store :: store_env
  te_argon :: argon_ops

record n5_draws =
  nd5_device_id :: DeviceId
  nd5_binding_id :: ProviderBindingId
  nd5_root_id :: TrustRootId
  nd5_action_id :: TrustActionId
  nd5_decision_id :: TrustDecisionId
  nd5_audit :: AuditEventId
  nd5_secret :: "u8 list"
  nd5_salt :: "u8 list"

definition te_uuid :: "trust_env \<Rightarrow> uuid_ops" where
  "te_uuid E = se_uuid (te_store E)"

fun N5TrustReason_str :: "N5TrustReason \<Rightarrow> string" where
  "N5TrustReason_str OwnerApproved = ''owner_approved''"
| "N5TrustReason_str OwnerRevoked = ''owner_revoked''"
| "N5TrustReason_str SecurityResponse = ''security_response''"
| "N5TrustReason_str ProviderBindingStale = ''provider_binding_stale''"

record N5DeviceIdentity =
  n5_device_id :: DeviceId
  n5_network_id :: NetworkId
  n5_origin_join_session_id :: JoinSessionId
  n5_binding_id :: ProviderBindingId
  n5_provider_reference :: ProviderCredentialReference
  n5_provider_identity :: ProviderIdentity
  n5_binding_state :: ProviderBindingState
  n5_binding_revision :: Generation
  n5_confirmed_at :: DateTime

record N5TrustAuthorityConfiguration =
  na5_authority_id :: TrustAuthorityId
  na5_network_id :: NetworkId
  na5_principal_source :: string
  na5_principal_id :: string
  na5_generation :: Generation
  na5_not_before :: DateTime
  na5_expires_at :: DateTime
  na5_capabilities :: "DeviceTrustCapability list"
  na5_created_at :: DateTime

definition capability_order :: "DeviceTrustCapability list" where
  "capability_order = [ActivateDeviceTrust, RevokeDeviceTrust, AdoptExistingProviderDevice]"

definition N5TrustAuthorityConfiguration_new ::
    "TrustAuthorityId \<Rightarrow> NetworkId \<Rightarrow> string \<Rightarrow> string \<Rightarrow> Generation \<Rightarrow> DateTime \<Rightarrow> DateTime \<Rightarrow>
     DeviceTrustCapability list \<Rightarrow> DateTime \<Rightarrow> N5TrustAuthorityConfiguration state_result" where
  "N5TrustAuthorityConfiguration_new authority_id network_id principal_source principal_id generation
      not_before expires_at capabilities created_at =
     (let capabilities = filter (\<lambda>c. c \<in> set capabilities) capability_order
      in if \<not> bounded_safe 255 principal_source \<or> length principal_source > 64 \<or>
          \<not> bounded_safe 255 principal_id \<or> expires_at \<le> not_before \<or> created_at > expires_at \<or>
          capabilities = []
        then Inl (StConflict ''invalid N5 trust authority configuration'')
        else Inr
          \<lparr>na5_authority_id = authority_id, na5_network_id = network_id,
           na5_principal_source = principal_source, na5_principal_id = principal_id,
           na5_generation = generation, na5_not_before = not_before, na5_expires_at = expires_at,
           na5_capabilities = capabilities, na5_created_at = created_at\<rparr>)"

record DeviceTrustAuthorization =
  da_action_id :: TrustActionId
  da_authority_id :: TrustAuthorityId
  da_authority_generation :: Generation
  da_device_id :: DeviceId
  da_network_id :: NetworkId
  da_expected_state :: DeviceTrustState
  da_expected_revision :: Generation
  da_capability :: DeviceTrustCapability
  da_principal_source :: string
  da_principal_id :: string
  da_issued_at :: DateTime
  da_expires_at :: DateTime

record DeviceTrustView =
  tv_device_id :: DeviceId
  tv_network_id :: NetworkId
  tv_state :: DeviceTrustState
  tv_revision :: Generation
  tv_provider_binding :: "N5DeviceIdentity option"
  tv_currently_trusted :: bool

section \<open>Principals and audit\<close>

definition validate_n5_principal :: "string \<Rightarrow> string \<Rightarrow> unit state_result" where
  "validate_n5_principal source principal_id =
     ensure (bounded_safe 64 source \<and> bounded_safe 255 principal_id)
       (StConflict ''N5 trust principal contains unsafe metadata'')"

definition validate_n5_audit_actor :: "AuditActor \<Rightarrow> unit state_result" where
  "validate_n5_audit_actor actor =
     (case au_actor_id actor of
        Some actor_id \<Rightarrow> validate_n5_principal (au_source actor) actor_id
      | None \<Rightarrow> ensure (au_source actor = ''nodescale'')
          (StMutationAuthorizationDenied ''N5 audit actor requires bounded provenance''))"

definition injected_failure :: "trust_db \<Rightarrow> unit state_result" where
  "injected_failure db = ensure (\<not> ad_fail_before_audit (td_n4 db)) StInjectedFailure"

definition append_trust_audit ::
    "n5_draws \<Rightarrow> NetworkId \<Rightarrow> DeviceId option \<Rightarrow> AuditActor \<Rightarrow> string \<Rightarrow> Generation option \<Rightarrow> trust_db \<Rightarrow>
     trust_db state_result" where
  "append_trust_audit D n d actor kind generation db =
     and_then (injected_failure db) (\<lambda>_.
     and_then (case generation of None \<Rightarrow> Inr None | Some g \<Rightarrow> and_then (to_i64 g) (\<lambda>i. Inr (Some i)))
       (\<lambda>g. insert_trust_event
         \<lparr>tre_event_id = nd5_audit D, tre_network_id = n, tre_device_id = d, tre_actor = actor,
          tre_event_kind = kind, tre_outcome = ''success'', tre_generation = g\<rparr> db))"

section \<open>Owner roots\<close>

definition bootstrap_tx ::
    "trust_env \<Rightarrow> n5_draws \<Rightarrow> OwnerTrustRootToken \<Rightarrow> SecretVerifier \<Rightarrow> NetworkId \<Rightarrow> string \<Rightarrow> string \<Rightarrow>
     DateTime \<Rightarrow> AuditActor \<Rightarrow> trust_db \<Rightarrow> (OwnerTrustRootToken \<times> trust_db) state_result" where
  "bootstrap_tx E D token verifier n source principal_id now actor db =
     and_then (map_constraint (insert_root
       \<lparr>tr_trust_root_id = ot_trust_root_id token, tr_network_id = n, tr_principal_source = source,
        tr_principal_id = principal_id, tr_secret_verifier = verifier_str verifier, tr_enabled = True,
        tr_revoked_at_ms = None, tr_created_at_ms = timestamp_millis now\<rparr> db)) (\<lambda>db.
     and_then (append_trust_audit D n None actor ''device.owner_trust_root_bootstrapped''
       (Some Generation_initial) db) (\<lambda>db. Inr (token, db)))"

definition bootstrap_n5_owner_trust_root ::
    "trust_env \<Rightarrow> n5_draws \<Rightarrow> NetworkId \<Rightarrow> string \<Rightarrow> string \<Rightarrow> DateTime \<Rightarrow> AuditActor \<Rightarrow> trust_db \<Rightarrow>
     OwnerTrustRootToken state_result \<times> trust_db" where
  "bootstrap_n5_owner_trust_root E D n source principal_id now actor db =
     (case and_then (validate_n5_principal source principal_id) (\<lambda>_. validate_n5_audit_actor actor) of
        Inl e \<Rightarrow> (Inl e, db)
      | Inr _ \<Rightarrow>
          let token = OwnerTrustRootToken_generate (nd5_secret D) (nd5_root_id D)
          in case domain_conflict (from_trust_root_token (te_argon E) (nd5_salt D) token) of
               Inl e \<Rightarrow> (Inl e, db)
             | Inr verifier \<Rightarrow>
                 transactional (bootstrap_tx E D token verifier n source principal_id now actor) db)"

definition revoked_authority :: "DateTime \<Rightarrow> trust_authority_row \<Rightarrow> trust_authority_row" where
  "revoked_authority now a = a\<lparr>ta_enabled := False, ta_revoked_at_ms := Some (timestamp_millis now)\<rparr>"

definition revoked_root :: "DateTime \<Rightarrow> root_row \<Rightarrow> root_row" where
  "revoked_root now r = r\<lparr>tr_enabled := False, tr_revoked_at_ms := Some (timestamp_millis now)\<rparr>"

definition enabled_root :: "TrustRootId \<Rightarrow> root_row \<Rightarrow> bool" where
  "enabled_root i r \<longleftrightarrow> tr_trust_root_id r = i \<and> tr_enabled r \<and> tr_revoked_at_ms r = None"

definition revoke_root_tx ::
    "trust_env \<Rightarrow> n5_draws \<Rightarrow> OwnerTrustRootToken \<Rightarrow> DateTime \<Rightarrow> trust_db \<Rightarrow> (unit \<times> trust_db) state_result" where
  "revoke_root_tx E D token now db =
     and_then (ok_or (find (\<lambda>r. tr_trust_root_id r = ot_trust_root_id token) (td_roots db))
       (StMutationAuthorizationDenied ''N5 owner trust root was not found'')) (\<lambda>r.
     let n = tr_network_id r in
     and_then (verify_n5_owner_root (te_argon E) token n (td_roots db)) (\<lambda>root.
     and_then (update_trust_authorities (\<lambda>a. ta_trust_root_id a = ot_trust_root_id token \<and> ta_sealed a \<and>
         ta_enabled a \<and> ta_revoked_at_ms a = None) (revoked_authority now) db) (\<lambda>db.
     let changed = length (filter (enabled_root (ot_trust_root_id token)) (td_roots db)) in
     and_then (update_roots (enabled_root (ot_trust_root_id token)) (revoked_root now) db) (\<lambda>db.
     and_then (ensure (changed = 1)
       (StMutationAuthorizationDenied ''N5 owner trust root revocation was stale'')) (\<lambda>_.
     and_then (append_trust_audit D n None root ''device.owner_trust_root_revoked'' None db) (\<lambda>db.
     Inr ((), db)))))))"

definition revoke_n5_owner_trust_root ::
    "trust_env \<Rightarrow> n5_draws \<Rightarrow> OwnerTrustRootToken \<Rightarrow> DateTime \<Rightarrow> trust_db \<Rightarrow> unit state_result \<times> trust_db" where
  "revoke_n5_owner_trust_root E D token now = transactional (revoke_root_tx E D token now)"

section \<open>Trust authorities\<close>

fun insert_capabilities_of ::
    "TrustAuthorityId \<Rightarrow> DeviceTrustCapability list \<Rightarrow> trust_db \<Rightarrow> trust_db state_result" where
  "insert_capabilities_of i [] db = Inr db"
| "insert_capabilities_of i (c # cs) db =
     and_then (insert_trust_capability i c db) (insert_capabilities_of i cs)"

definition unsealed_authority ::
    "OwnerTrustRootToken \<Rightarrow> N5TrustAuthorityConfiguration \<Rightarrow> int \<Rightarrow> trust_authority_row" where
  "unsealed_authority token c generation =
     \<lparr>ta_authority_id = na5_authority_id c, ta_trust_root_id = ot_trust_root_id token,
      ta_network_id = na5_network_id c, ta_principal_source = na5_principal_source c,
      ta_principal_id = na5_principal_id c, ta_generation = generation,
      ta_not_before_ms = timestamp_millis (na5_not_before c),
      ta_expires_at_ms = timestamp_millis (na5_expires_at c), ta_sealed = False, ta_enabled = False,
      ta_revoked_at_ms = None, ta_created_at_ms = timestamp_millis (na5_created_at c)\<rparr>"

definition sealable :: "TrustAuthorityId \<Rightarrow> trust_authority_row \<Rightarrow> bool" where
  "sealable i a \<longleftrightarrow> ta_authority_id a = i \<and> \<not> ta_sealed a \<and> \<not> ta_enabled a"

definition configure_authority_tx ::
    "trust_env \<Rightarrow> n5_draws \<Rightarrow> OwnerTrustRootToken \<Rightarrow> N5TrustAuthorityConfiguration \<Rightarrow> trust_db \<Rightarrow>
     (unit \<times> trust_db) state_result" where
  "configure_authority_tx E D token c db =
     and_then (verify_n5_owner_root (te_argon E) token (na5_network_id c) (td_roots db)) (\<lambda>root.
     and_then (to_i64 (na5_generation c)) (\<lambda>generation.
     and_then (map_constraint (insert_trust_authority (unsealed_authority token c generation) db)) (\<lambda>db.
     and_then (insert_capabilities_of (na5_authority_id c) (na5_capabilities c) db) (\<lambda>db.
     let changed = length (filter (sealable (na5_authority_id c)) (td_authorities db)) in
     and_then (update_trust_authorities (sealable (na5_authority_id c))
       (\<lambda>a. a\<lparr>ta_sealed := True, ta_enabled := True\<rparr>) db) (\<lambda>db.
     and_then (ensure (changed = 1) (StConflict ''N5 trust authority sealing was lost'')) (\<lambda>_.
     and_then (append_trust_audit D (na5_network_id c) None root ''device.trust_authority_configured''
       (Some (na5_generation c)) db) (\<lambda>db.
     Inr ((), db))))))))"

definition configure_n5_trust_authority ::
    "trust_env \<Rightarrow> n5_draws \<Rightarrow> OwnerTrustRootToken \<Rightarrow> N5TrustAuthorityConfiguration \<Rightarrow> trust_db \<Rightarrow>
     unit state_result \<times> trust_db" where
  "configure_n5_trust_authority E D token c = transactional (configure_authority_tx E D token c)"

definition revocable :: "TrustAuthorityId \<Rightarrow> trust_authority_row \<Rightarrow> bool" where
  "revocable i a \<longleftrightarrow> ta_authority_id a = i \<and> ta_enabled a \<and> ta_revoked_at_ms a = None"

definition revoke_authority_tx ::
    "trust_env \<Rightarrow> n5_draws \<Rightarrow> OwnerTrustRootToken \<Rightarrow> TrustAuthorityId \<Rightarrow> DateTime \<Rightarrow> trust_db \<Rightarrow>
     (unit \<times> trust_db) state_result" where
  "revoke_authority_tx E D token i now db =
     and_then (ok_or (find (\<lambda>a. ta_authority_id a = i \<and> ta_trust_root_id a = ot_trust_root_id token)
         (td_authorities db)) (StNotFound (id_display (te_uuid E) i))) (\<lambda>a.
     and_then (verify_n5_owner_root (te_argon E) token (ta_network_id a) (td_roots db)) (\<lambda>root.
     let changed = length (filter (revocable i) (td_authorities db)) in
     and_then (update_trust_authorities (revocable i) (revoked_authority now) db) (\<lambda>db.
     and_then (if changed = 1
         then append_trust_audit D (ta_network_id a) None root ''device.trust_authority_revoked'' None db
         else Inr db) (\<lambda>db.
     Inr ((), db)))))"

definition revoke_n5_trust_authority ::
    "trust_env \<Rightarrow> n5_draws \<Rightarrow> OwnerTrustRootToken \<Rightarrow> TrustAuthorityId \<Rightarrow> DateTime \<Rightarrow> trust_db \<Rightarrow>
     unit state_result \<times> trust_db" where
  "revoke_n5_trust_authority E D token i now = transactional (revoke_authority_tx E D token i now)"

section \<open>The view of a device\<close>

definition identity_rows ::
    "JoinSessionId \<Rightarrow> trust_db \<Rightarrow> (device_identity_row \<times> join_provenance_row \<times> device_binding_row) list" where
  "identity_rows s db =
     [(i, p, b). o1 \<leftarrow> td_origins db, tro_join_session_id o1 = s,
        i \<leftarrow> td_identities db, tri_origin i = OriginJoin s, tri_device_id i = tro_device_id o1,
        tri_network_id i = tro_network_id o1,
        p \<leftarrow> td_provenance db, trp_join_session_id p = s, trp_device_id p = tri_device_id i,
        trp_network_id p = tri_network_id i,
        b \<leftarrow> td_bindings db, trb_binding_id b = trp_binding_id p, trb_device_id b = trp_device_id p,
        trb_network_id b = trp_network_id p]"

definition n5_identity ::
    "JoinSessionId \<Rightarrow> device_identity_row \<Rightarrow> join_provenance_row \<Rightarrow> device_binding_row \<Rightarrow>
     N5DeviceIdentity state_result" where
  "n5_identity s i p b =
     and_then (column_u64 (trb_revision b)) (\<lambda>revision.
     and_then (domain_conflict (ProviderIdentity_new (trb_provider_instance_id b) (trb_provider_node_id b)
       (trb_machine_key b))) (\<lambda>identity.
     and_then (domain_conflict (Generation_new revision)) (\<lambda>revision.
     Inr \<lparr>n5_device_id = tri_device_id i, n5_network_id = tri_network_id i, n5_origin_join_session_id = s,
          n5_binding_id = trb_binding_id b, n5_provider_reference = trp_reference p,
          n5_provider_identity = identity, n5_binding_state = trb_state b, n5_binding_revision = revision,
          n5_confirmed_at = tri_confirmed_at_ms i * 1000000\<rparr>)))"

definition load_n5_identity_by_session ::
    "JoinSessionId \<Rightarrow> trust_db \<Rightarrow> N5DeviceIdentity option state_result" where
  "load_n5_identity_by_session s db =
     (case identity_rows s db of [] \<Rightarrow> Inr None
      | (i, p, b) # _ \<Rightarrow> and_then (n5_identity s i p b) (\<lambda>v. Inr (Some v)))"

definition binding_joins :: "DeviceId \<Rightarrow> trust_db \<Rightarrow> JoinSessionId list" where
  "binding_joins d db =
     [trp_join_session_id p. b \<leftarrow> td_bindings db, trb_device_id b = d, trb_provenance_kind b = ProvenanceJoin,
        p \<leftarrow> td_provenance db, trp_binding_id p = trb_binding_id b, trp_device_id p = trb_device_id b,
        trp_network_id p = trb_network_id b]"

definition trust_state_of :: "DeviceId \<Rightarrow> trust_db \<Rightarrow> trust_state_row option" where
  "trust_state_of d db = find (\<lambda>s. trs_device_id s = d) (td_trust db)"

definition load_device_trust_view :: "trust_env \<Rightarrow> DeviceId \<Rightarrow> trust_db \<Rightarrow> DeviceTrustView state_result" where
  "load_device_trust_view E d db =
     and_then (ok_or (trust_state_of d db) (StNotFound (id_display (te_uuid E) d))) (\<lambda>s.
     and_then (column_u64 (trs_revision s)) (\<lambda>revision.
     and_then (case binding_joins d db of [] \<Rightarrow> Inr None
       | j # _ \<Rightarrow> and_then (load_n5_identity_by_session j db) (\<lambda>found.
           and_then (ok_or found (StConflict ''provider binding has no N5 identity'')) (\<lambda>v. Inr (Some v)))) (\<lambda>binding.
     and_then (domain_conflict (Generation_new revision)) (\<lambda>revision.
     Inr \<lparr>tv_device_id = d, tv_network_id = trs_network_id s, tv_state = trs_state s, tv_revision = revision,
          tv_provider_binding = binding, tv_currently_trusted = False\<rparr>))))"

definition durable_device_trust ::
    "trust_env \<Rightarrow> DeviceId \<Rightarrow> trust_db \<Rightarrow> DeviceTrustView option state_result" where
  "durable_device_trust E d db =
     (case load_device_trust_view E d db of
        Inr v \<Rightarrow> Inr (Some v) | Inl (StNotFound _) \<Rightarrow> Inr None | Inl e \<Rightarrow> Inl e)"

definition device_id_by_provider_registration ::
    "ProviderInstanceId \<Rightarrow> ProviderNodeId \<Rightarrow> trust_db \<Rightarrow> DeviceId option" where
  "device_id_by_provider_registration p node db =
     map_option trb_device_id (find (\<lambda>b. trb_provider_instance_id b = p \<and> trb_provider_node_id b = node \<and>
       trb_state b = PBActive) (td_bindings db))"

section \<open>Authorizations\<close>

definition issuing_rows ::
    "OwnerTrustRootToken \<Rightarrow> TrustAuthorityId \<Rightarrow> DeviceId \<Rightarrow> DeviceTrustCapability \<Rightarrow> int \<Rightarrow> trust_db \<Rightarrow>
     (trust_authority_row \<times> trust_state_row) list" where
  "issuing_rows token i d capability at db =
     [(a, s). a \<leftarrow> td_authorities db, ta_authority_id a = i, ta_trust_root_id a = ot_trust_root_id token,
        ta_sealed a, ta_enabled a, ta_revoked_at_ms a = None, ta_not_before_ms a \<le> at,
        at < ta_expires_at_ms a, (i, capability) \<in> set (td_capabilities db),
        s \<leftarrow> td_trust db, trs_network_id s = ta_network_id a, trs_device_id s = d]"

definition actionable :: "DeviceTrustCapability \<Rightarrow> DeviceTrustState \<Rightarrow> bool" where
  "actionable c s \<longleftrightarrow>
     c = ActivateDeviceTrust \<and> s = DTUntrusted \<or> c = RevokeDeviceTrust \<and> s \<in> {DTUntrusted, DTTrusted}"

text \<open>\<^verbatim>\<open>Duration::minutes(5)\<close> in nanoseconds.\<close>

definition authorization_lifetime :: int where
  "authorization_lifetime = 300000000000"

definition issued_trust_row :: "DeviceTrustAuthorization \<Rightarrow> int \<Rightarrow> int \<Rightarrow> trust_authorization_row" where
  "issued_trust_row z generation revision =
     \<lparr>trz_action_id = da_action_id z, trz_authority_id = da_authority_id z,
      trz_authority_generation = generation, trz_device_id = da_device_id z, trz_network_id = da_network_id z,
      trz_expected_state = da_expected_state z, trz_expected_revision = revision,
      trz_capability = da_capability z, trz_principal_source = da_principal_source z,
      trz_principal_id = da_principal_id z, trz_issued_at_ms = timestamp_millis (da_issued_at z),
      trz_expires_at_ms = timestamp_millis (da_expires_at z), trz_consumed_at_ms = None, trz_decision = None\<rparr>"

definition issue_trust_tx ::
    "trust_env \<Rightarrow> n5_draws \<Rightarrow> OwnerTrustRootToken \<Rightarrow> TrustAuthorityId \<Rightarrow> DeviceId \<Rightarrow> Generation \<Rightarrow>
     DeviceTrustCapability \<Rightarrow> DateTime \<Rightarrow> trust_db \<Rightarrow> (DeviceTrustAuthorization \<times> trust_db) state_result" where
  "issue_trust_tx E D token i d expected capability now db =
     and_then (case issuing_rows token i d capability (timestamp_millis now) db of
         [] \<Rightarrow> Inl (StMutationAuthorizationDenied
           ''N5 trust authority is absent, stale, or lacks the exact capability'')
       | r # _ \<Rightarrow> Inr r) (\<lambda>(a, s).
     and_then (column_u64 (ta_generation a)) (\<lambda>authority_generation.
     and_then (column_u64 (trs_revision s)) (\<lambda>revision.
     and_then (domain_conflict (Generation_new revision)) (\<lambda>actual.
     and_then (ensure (actual = expected) (StStaleGeneration (gen_get expected) (gen_get actual))) (\<lambda>_.
     and_then (ensure (actionable capability (trs_state s))
       (StMutationAuthorizationDenied ''N5 trust action is already satisfied or terminal'')) (\<lambda>_.
     and_then (domain_conflict (Generation_new authority_generation)) (\<lambda>authority_generation.
     and_then (verify_n5_owner_root (te_argon E) token (ta_network_id a) (td_roots db)) (\<lambda>root.
     let z = \<lparr>da_action_id = nd5_action_id D, da_authority_id = i,
           da_authority_generation = authority_generation, da_device_id = d,
           da_network_id = ta_network_id a, da_expected_state = trs_state s,
           da_expected_revision = expected, da_capability = capability,
           da_principal_source = ta_principal_source a, da_principal_id = ta_principal_id a,
           da_issued_at = now,
           da_expires_at = min (ta_expires_at_ms a * 1000000) (now + authorization_lifetime)\<rparr> in
     and_then (to_i64 authority_generation) (\<lambda>g.
     and_then (bind_u64 (gen_get expected)) (\<lambda>r.
     and_then (map_constraint (insert_trust_authorization (issued_trust_row z g r) db)) (\<lambda>db.
     and_then (append_trust_audit D (ta_network_id a) (Some d) root ''device.trust_authorization_issued''
       (Some expected) db) (\<lambda>db.
     Inr (z, db)))))))))))))"

definition issue_device_trust_authorization ::
    "trust_env \<Rightarrow> n5_draws \<Rightarrow> OwnerTrustRootToken \<Rightarrow> TrustAuthorityId \<Rightarrow> DeviceId \<Rightarrow> Generation \<Rightarrow>
     DeviceTrustCapability \<Rightarrow> DateTime \<Rightarrow> trust_db \<Rightarrow> DeviceTrustAuthorization state_result \<times> trust_db" where
  "issue_device_trust_authorization E D token i d expected capability now =
     transactional (issue_trust_tx E D token i d expected capability now)"

section \<open>Decisions\<close>

definition safe_n5_digest :: "trust_env \<Rightarrow> string list \<Rightarrow> string" where
  "safe_n5_digest E parts = sha256_fingerprint (te_store E) (concat (map length_prefixed parts))"

fun decision_target :: "TrustDecisionKind \<Rightarrow> DeviceTrustState" where
  "decision_target TDActivate = DTTrusted"
| "decision_target TDRevoke = DTRevoked"

definition trust_decision ::
    "trust_env \<Rightarrow> n5_draws \<Rightarrow> DeviceTrustAuthorization \<Rightarrow> DateTime \<Rightarrow> TrustDecisionKind \<Rightarrow> N5TrustReason \<Rightarrow>
     int \<Rightarrow> int \<Rightarrow> int \<Rightarrow> trust_decision_row" where
  "trust_decision E D z now kind reason generation prior nxt =
     \<lparr>trd_decision_id = nd5_decision_id D, trd_audit = nd5_audit D, trd_action_id = da_action_id z,
      trd_device_id = da_device_id z, trd_network_id = da_network_id z,
      trd_prior_state = da_expected_state z, trd_new_state = decision_target kind, trd_kind = kind,
      trd_decided_at_ms = timestamp_millis now, trd_authority_id = da_authority_id z,
      trd_authority_generation = generation, trd_principal_source = da_principal_source z,
      trd_principal_id = da_principal_id z, trd_prior_revision = prior, trd_new_revision = nxt,
      trd_digest = safe_n5_digest E [id_display (te_uuid E) (da_action_id z),
        id_display (te_uuid E) (da_device_id z), TrustDecisionKind_str kind],
      trd_reason = reason\<rparr>"

definition decide_trust_tx ::
    "trust_env \<Rightarrow> n5_draws \<Rightarrow> DeviceTrustAuthorization \<Rightarrow> DateTime \<Rightarrow> TrustDecisionKind \<Rightarrow> N5TrustReason \<Rightarrow>
     trust_db \<Rightarrow> (DeviceTrustView \<times> trust_db) state_result" where
  "decide_trust_tx E D z now kind reason db =
     and_then (ok_or (find (\<lambda>s. trs_device_id s = da_device_id z \<and> trs_network_id s = da_network_id z)
         (td_trust db)) (StNotFound (id_display (te_uuid E) (da_device_id z)))) (\<lambda>s.
     and_then (column_u64 (trs_revision s)) (\<lambda>revision.
     and_then (ensure (revision = gen_get (da_expected_revision z) \<and> trs_state s = da_expected_state z)
       (StStaleGeneration (gen_get (da_expected_revision z)) revision)) (\<lambda>_.
     and_then (domain_conflict (DeviceTrustState_transition (trs_state s) (decision_target kind))) (\<lambda>_.
     and_then (injected_failure db) (\<lambda>_.
     and_then (ok_or (checked_add_u64 revision 1) (StConflict ''trust revision overflow'')) (\<lambda>next_revision.
     and_then (to_i64 (da_authority_generation z)) (\<lambda>generation.
     and_then (bind_u64 revision) (\<lambda>prior.
     and_then (bind_u64 next_revision) (\<lambda>nxt.
     and_then (map_constraint
       (insert_trust_decision (trust_decision E D z now kind reason generation prior nxt) db)) (\<lambda>db.
     and_then (load_device_trust_view E (da_device_id z) db) (\<lambda>v.
     Inr (v, db))))))))))))"

definition apply_n5_trust_decision ::
    "trust_env \<Rightarrow> n5_draws \<Rightarrow> DeviceTrustAuthorization \<Rightarrow> DateTime \<Rightarrow> DeviceTrustCapability \<Rightarrow>
     TrustDecisionKind \<Rightarrow> N5TrustReason \<Rightarrow> trust_db \<Rightarrow> DeviceTrustView state_result \<times> trust_db" where
  "apply_n5_trust_decision E D z now required kind reason db =
     (if da_capability z \<noteq> required \<or> now < da_issued_at z \<or> da_expires_at z \<le> now
      then (Inl (StMutationAuthorizationDenied ''N5 trust authorization is wrong-purpose or expired''), db)
      else transactional (decide_trust_tx E D z now kind reason) db)"

definition activate_device_trust ::
    "trust_env \<Rightarrow> n5_draws \<Rightarrow> DeviceTrustAuthorization \<Rightarrow> DateTime \<Rightarrow> N5TrustReason \<Rightarrow> trust_db \<Rightarrow>
     DeviceTrustView state_result \<times> trust_db" where
  "activate_device_trust E D z now reason =
     apply_n5_trust_decision E D z now ActivateDeviceTrust TDActivate reason"

definition revoke_device_trust ::
    "trust_env \<Rightarrow> n5_draws \<Rightarrow> DeviceTrustAuthorization \<Rightarrow> DateTime \<Rightarrow> N5TrustReason \<Rightarrow> trust_db \<Rightarrow>
     DeviceTrustView state_result \<times> trust_db" where
  "revoke_device_trust E D z now reason =
     apply_n5_trust_decision E D z now RevokeDeviceTrust TDRevoke reason"

section \<open>Membership\<close>

definition may_activate_membership ::
    "OwnerTrustRootToken \<Rightarrow> TrustAuthorityId \<Rightarrow> NetworkId \<Rightarrow> AuditActor \<Rightarrow> int \<Rightarrow> trust_db \<Rightarrow> bool" where
  "may_activate_membership token i n root at db \<longleftrightarrow>
     list_ex (\<lambda>a. ta_authority_id a = i \<and> ta_network_id a = n \<and> ta_trust_root_id a = ot_trust_root_id token \<and>
       ta_principal_source a = au_source root \<and> au_actor_id root = Some (ta_principal_id a) \<and>
       ta_sealed a \<and> ta_enabled a \<and> ta_revoked_at_ms a = None \<and> ta_not_before_ms a \<le> at \<and>
       at < ta_expires_at_ms a) (td_authorities db) \<and>
     (i, ActivateDeviceTrust) \<in> set (td_capabilities db)"

definition activation_gate :: "DeviceId \<Rightarrow> NetworkId \<Rightarrow> trust_db \<Rightarrow> bool" where
  "activation_gate d n db \<longleftrightarrow>
     list_ex (\<lambda>s. trs_device_id s = d \<and> trs_network_id s = n \<and> trs_state s = DTTrusted) (td_trust db) \<and>
     list_ex (active_device_binding d n) (td_bindings db)"

definition set_device :: "DeviceId \<Rightarrow> Device \<Rightarrow> trust_db \<Rightarrow> trust_db" where
  "set_device d device db =
     db\<lparr>td_devices := map (\<lambda>(i, v). if i = d then (i, device) else (i, v)) (td_devices db)\<rparr>"

definition activate_membership_tx ::
    "trust_env \<Rightarrow> n5_draws \<Rightarrow> OwnerTrustRootToken \<Rightarrow> TrustAuthorityId \<Rightarrow> DeviceId \<Rightarrow> DateTime \<Rightarrow> trust_db \<Rightarrow>
     (Device \<times> trust_db) state_result" where
  "activate_membership_tx E D token i d now db =
     and_then (ok_or (map_of (td_devices db) d) (StNotFound (id_display (te_uuid E) d))) (\<lambda>device.
     let n = dv_network_id device in
     and_then (verify_n5_owner_root (te_argon E) token n (td_roots db)) (\<lambda>root.
     and_then (ok_or (au_actor_id root)
       (StMutationAuthorizationDenied ''N5 owner root principal is absent'')) (\<lambda>_.
     and_then (ensure (may_activate_membership token i n root (timestamp_millis now) db)
       (StMutationAuthorizationDenied ''owner authority cannot activate device membership'')) (\<lambda>_.
     and_then (ensure (activation_gate d n db) StActivationGated) (\<lambda>_.
     if dv_membership_state device = MSActive then Inr (device, db)
     else
     and_then (domain_conflict (and_then (MembershipState_transition (dv_membership_state device) MSJoining)
       (\<lambda>state. MembershipState_transition state MSActive))) (\<lambda>state.
     let device = device\<lparr>dv_membership_state := state, dv_updated_at := now\<rparr> in
     and_then (append_trust_audit D n (Some d) root ''device.membership_activated''
       (Some (dg_credential (dv_generations device))) (set_device d device db)) (\<lambda>db.
     Inr (device, db))))))))"

definition activate_trusted_device_membership ::
    "trust_env \<Rightarrow> n5_draws \<Rightarrow> OwnerTrustRootToken \<Rightarrow> TrustAuthorityId \<Rightarrow> DeviceId \<Rightarrow> DateTime \<Rightarrow> trust_db \<Rightarrow>
     Device state_result \<times> trust_db" where
  "activate_trusted_device_membership E D token i d now =
     transactional (activate_membership_tx E D token i d now)"

section \<open>The provider binding of a device\<close>

definition binding_revisions :: "DeviceId \<Rightarrow> trust_db \<Rightarrow> int list" where
  "binding_revisions d db = map trb_revision (filter (\<lambda>b. trb_device_id b = d) (td_bindings db))"

definition highest_revision :: "DeviceId \<Rightarrow> trust_db \<Rightarrow> u64 state_result" where
  "highest_revision d db =
     (case binding_revisions d db of [] \<Rightarrow> Inl (StSqlite ''QueryReturnedNoRows'')
      | r # rs \<Rightarrow> column_u64 (fold max rs r))"

definition expected_binding ::
    "DeviceId \<Rightarrow> ProviderBindingState list \<Rightarrow> int \<Rightarrow> device_binding_row \<Rightarrow> bool" where
  "expected_binding d states revision b \<longleftrightarrow>
     trb_device_id b = d \<and> trb_state b \<in> set states \<and> trb_revision b = revision"

definition moved_binding ::
    "n5_draws \<Rightarrow> AuditActor \<Rightarrow> (device_binding_row \<Rightarrow> device_binding_row) \<Rightarrow> device_binding_row \<Rightarrow>
     device_binding_row" where
  "moved_binding D actor f b =
     (f b)\<lparr>trb_revision := trb_revision b + 1, trb_last_audit := Some (nd5_audit D),
       trb_actor_source := Some (au_source actor), trb_actor_id := au_actor_id actor\<rparr>"

text \<open>The transaction that every transition of a binding makes.\<close>

definition move_binding_tx ::
    "trust_env \<Rightarrow> n5_draws \<Rightarrow> DeviceId \<Rightarrow> Generation \<Rightarrow> ProviderBindingState list \<Rightarrow>
     (device_binding_row \<Rightarrow> device_binding_row) \<Rightarrow> AuditActor \<Rightarrow> trust_db \<Rightarrow>
     (DeviceTrustView \<times> trust_db) state_result" where
  "move_binding_tx E D d expected states f actor db =
     and_then (injected_failure db) (\<lambda>_.
     and_then (bind_u64 (gen_get expected)) (\<lambda>revision.
     let changed = length (filter (expected_binding d states revision) (td_bindings db)) in
     and_then (update_device_bindings (expected_binding d states revision) (moved_binding D actor f) db) (\<lambda>db.
     and_then (if changed = 1 then Inr ()
       else and_then (highest_revision d db) (\<lambda>actual. Inl (StStaleGeneration (gen_get expected) actual))) (\<lambda>_.
     and_then (load_device_trust_view E d db) (\<lambda>v.
     Inr (v, db))))))"

definition move_binding ::
    "trust_env \<Rightarrow> n5_draws \<Rightarrow> DeviceId \<Rightarrow> Generation \<Rightarrow> ProviderBindingState list \<Rightarrow>
     (device_binding_row \<Rightarrow> device_binding_row) \<Rightarrow> AuditActor \<Rightarrow> trust_db \<Rightarrow>
     DeviceTrustView state_result \<times> trust_db" where
  "move_binding E D d expected states f actor db =
     (case validate_n5_audit_actor actor of Inl e \<Rightarrow> (Inl e, db)
      | Inr _ \<Rightarrow> transactional (move_binding_tx E D d expected states f actor) db)"

definition staled_binding :: "DateTime \<Rightarrow> device_binding_row \<Rightarrow> device_binding_row" where
  "staled_binding now b = b\<lparr>trb_state := PBStale, trb_stale_at_ms := Some (timestamp_millis now)\<rparr>"

definition mark_n5_provider_binding_stale ::
    "trust_env \<Rightarrow> n5_draws \<Rightarrow> DeviceId \<Rightarrow> Generation \<Rightarrow> DateTime \<Rightarrow> AuditActor \<Rightarrow> trust_db \<Rightarrow>
     DeviceTrustView state_result \<times> trust_db" where
  "mark_n5_provider_binding_stale E D d expected now =
     move_binding E D d expected [PBActive] (staled_binding now)"

definition reactivated_binding :: "DateTime \<Rightarrow> device_binding_row \<Rightarrow> device_binding_row" where
  "reactivated_binding now b =
     b\<lparr>trb_state := PBActive, trb_observed_at_ms := timestamp_millis now, trb_stale_at_ms := None\<rparr>"

definition reactivate_exact_n5_provider_binding ::
    "trust_env \<Rightarrow> n5_draws \<Rightarrow> DeviceId \<Rightarrow> Generation \<Rightarrow> DateTime \<Rightarrow> AuditActor \<Rightarrow> trust_db \<Rightarrow>
     DeviceTrustView state_result \<times> trust_db" where
  "reactivate_exact_n5_provider_binding E D d expected now =
     move_binding E D d expected [PBStale] (reactivated_binding now)"

definition cleanup_binding :: "DateTime \<Rightarrow> device_binding_row \<Rightarrow> device_binding_row" where
  "cleanup_binding now b =
     b\<lparr>trb_state := PBCleanupPending, trb_cleanup_at_ms := Some (timestamp_millis now)\<rparr>"

definition mark_n5_provider_binding_cleanup_pending ::
    "trust_env \<Rightarrow> n5_draws \<Rightarrow> DeviceId \<Rightarrow> Generation \<Rightarrow> DateTime \<Rightarrow> AuditActor \<Rightarrow> trust_db \<Rightarrow>
     DeviceTrustView state_result \<times> trust_db" where
  "mark_n5_provider_binding_cleanup_pending E D d expected now =
     move_binding E D d expected [PBActive, PBStale] (cleanup_binding now)"

definition removed_binding :: "DateTime \<Rightarrow> device_binding_row \<Rightarrow> device_binding_row" where
  "removed_binding now b = b\<lparr>trb_state := PBRemoved, trb_removed_at_ms := Some (timestamp_millis now)\<rparr>"

definition mark_n5_provider_binding_removed ::
    "trust_env \<Rightarrow> n5_draws \<Rightarrow> DeviceId \<Rightarrow> Generation \<Rightarrow> DateTime \<Rightarrow> AuditActor \<Rightarrow> trust_db \<Rightarrow>
     DeviceTrustView state_result \<times> trust_db" where
  "mark_n5_provider_binding_removed E D d expected now =
     move_binding E D d expected [PBStale, PBCleanupPending] (removed_binding now)"

end
