(* ===== verification/Trust_Reconciliation.thy ===== *)
theory Trust_Reconciliation
  imports Trust_Store Discovery_Store
begin

text \<open>
  What \<^verbatim>\<open>crates/nodescale-state/src/n5.rs\<close> concludes from a provider: confirming the identity of a
  joined device from one authenticated registration, and reconciling the provider binding of a
  device before affirming its trust; and the service of \<^verbatim>\<open>crates/nodescale-device-trust/src/lib.rs\<close>
  on top. A call reads the database before it asks the provider and writes after the answer; other
  calls may commit in between, so both databases are arguments. Adopted devices are read here, but
  the code that adopts them is not modelled.
\<close>

section \<open>Provider evidence\<close>

record NodeProvider = ReadOnlyProvider +
  ro_get_node :: "ProviderIdentity \<Rightarrow> ProviderNode option provider_result"

definition machine_fingerprint :: "trust_env \<Rightarrow> ProviderNode \<Rightarrow> string option" where
  "machine_fingerprint E node =
     map_option (\<lambda>k. sha256_fingerprint (te_store E) (str_bytes (conditional_str k)))
       (ie_machine_key (pn_identity_evidence node))"

definition node_fingerprint :: "trust_env \<Rightarrow> ProviderNode \<Rightarrow> string option" where
  "node_fingerprint E node =
     map_option (\<lambda>k. sha256_fingerprint (te_store E) (str_bytes (mutable_str k)))
       (ie_node_key (pn_identity_evidence node))"

definition authenticated_by :: "ProviderCredentialReference \<Rightarrow> ProviderNode \<Rightarrow> bool" where
  "authenticated_by reference node \<longleftrightarrow>
     (case pn_pre_auth node of None \<Rightarrow> False
      | Some a \<Rightarrow> pa_credential_id a = credential_reference_str reference \<and>
          pa_association a = ProviderAuthenticatedRegistration)"

definition unexpired :: "DateTime \<Rightarrow> ProviderNode \<Rightarrow> bool" where
  "unexpired now node \<longleftrightarrow>
     (case pn_expires_at node of None \<Rightarrow> True | Some at \<Rightarrow> now < at) \<and> \<not> pn_expired node"

section \<open>Confirming the identity of a joined device\<close>

record N5JoinCorrelationContext =
  jc_join_session_id :: JoinSessionId
  jc_network_id :: NetworkId
  jc_provider_instance_id :: ProviderInstanceId
  jc_provider_reference :: ProviderCredentialReference
  jc_confirmed_at :: DateTime
  jc_expires_at :: DateTime

text \<open>The confirmed single-use credential of a join session.\<close>

definition joined_credentials :: "JoinSessionId \<Rightarrow> n4_db \<Rightarrow> (metadata_row \<times> reference_row) list" where
  "joined_credentials s db =
     [(m, r). m \<leftarrow> nd_metadata db, cm_join_session_id m = s, cm_single_use m = 1, cm_reusable m = 0,
        d \<leftarrow> nd_dispatches db, dp_join_session_id d = s, dp_credential_id d = Some (cm_credential_id m),
        dp_state d = DispatchConfirmed,
        r \<leftarrow> nd_references db, cr_credential_id r = cm_credential_id m]"

definition n5_join_correlation_context ::
    "JoinSessionId \<Rightarrow> trust_db \<Rightarrow> N5JoinCorrelationContext state_result" where
  "n5_join_correlation_context s db =
     (case filter (\<lambda>(m, r). cm_invalidation_state m = InvActive) (joined_credentials s (td_n4 db)) of
        [] \<Rightarrow> Inl (StConflict ''N5 correlation requires one active confirmed single-use N4 credential'')
      | (m, r) # _ \<Rightarrow> Inr
          \<lparr>jc_join_session_id = s, jc_network_id = cm_network_id m,
           jc_provider_instance_id = cm_provider_instance_id m,
           jc_provider_reference = cr_provider_reference r,
           jc_confirmed_at = cm_confirmed_at_ms m * 1000000,
           jc_expires_at = cm_expires_at_ms m * 1000000\<rparr>)"

definition validate_n5_provider_registration ::
    "trust_env \<Rightarrow> N5JoinCorrelationContext \<Rightarrow> ProviderNode \<Rightarrow> DateTime \<Rightarrow> unit state_result" where
  "validate_n5_provider_registration E context node now =
     ensure (authenticated_by (jc_provider_reference context) node \<and>
         pi_provider_instance_id (pn_identity node) = jc_provider_instance_id context \<and>
         machine_fingerprint E node = Some (pi_stable_key_fingerprint (pn_identity node)) \<and>
         unexpired now node)
       (StConflict ''provider registration does not satisfy N5 identity evidence'')"

definition select_n5_provider_registration ::
    "trust_env \<Rightarrow> N5JoinCorrelationContext \<Rightarrow> ProviderNode list \<Rightarrow> DateTime \<Rightarrow> ProviderNode state_result" where
  "select_n5_provider_registration E context nodes now =
     (case filter (authenticated_by (jc_provider_reference context)) nodes of
        [] \<Rightarrow> Inl (StConflict ''no authenticated provider registration matches the N5 join'')
      | [node] \<Rightarrow> and_then (validate_n5_provider_registration E context node now) (\<lambda>_. Inr node)
      | _ \<Rightarrow> Inl (StConflict ''multiple provider registrations match one N5 join''))"

datatype N5IdentityConfirmation =
  IdentityConfirmed N5DeviceIdentity | IdentityAlreadyConfirmed N5DeviceIdentity

record N5IdentityEvidence =
  ev_join_session_id :: JoinSessionId
  ev_provider_reference :: ProviderCredentialReference
  ev_provider_identity :: ProviderIdentity
  ev_observed_at :: DateTime

definition new_join_binding ::
    "n5_draws \<Rightarrow> NetworkId \<Rightarrow> N5IdentityEvidence \<Rightarrow> device_binding_row" where
  "new_join_binding D n e =
     \<lparr>trb_binding_id = nd5_binding_id D, trb_device_id = nd5_device_id D, trb_network_id = n,
      trb_provenance_kind = ProvenanceJoin,
      trb_provider_instance_id = pi_provider_instance_id (ev_provider_identity e),
      trb_provider_node_id = pi_node_id (ev_provider_identity e),
      trb_machine_key = pi_stable_key_fingerprint (ev_provider_identity e), trb_state = PBActive,
      trb_revision = 1, trb_observed_at_ms = timestamp_millis (ev_observed_at e), trb_stale_at_ms = None,
      trb_cleanup_at_ms = None, trb_removed_at_ms = None, trb_last_audit = None, trb_actor_source = None,
      trb_actor_id = None\<rparr>"

definition untrusted_state :: "DeviceId \<Rightarrow> NetworkId \<Rightarrow> DateTime \<Rightarrow> trust_state_row" where
  "untrusted_state d n now =
     \<lparr>trs_device_id = d, trs_network_id = n, trs_state = DTUntrusted, trs_revision = 1,
      trs_created_at_ms = timestamp_millis now, trs_activated_at_ms = None, trs_revoked_at_ms = None,
      trs_last_decision = None\<rparr>"

definition join_correlation :: "trust_env \<Rightarrow> N5IdentityEvidence \<Rightarrow> string" where
  "join_correlation E e =
     safe_n5_digest E [id_display (te_uuid E) (ev_join_session_id e),
       credential_reference_str (ev_provider_reference e),
       id_display (te_uuid E) (pi_provider_instance_id (ev_provider_identity e)),
       node_id_str (pi_node_id (ev_provider_identity e)),
       pi_stable_key_fingerprint (ev_provider_identity e)]"

text \<open>The rows of a new device, in the order of the statements.\<close>

definition name_device :: "JoinSession \<Rightarrow> DeviceId \<Rightarrow> Device \<Rightarrow> DateTime \<Rightarrow> trust_db \<Rightarrow> trust_db state_result" where
  "name_device session d device now db =
     and_then (ensure (d \<notin> fst ` set (td_devices db)) (StConflict ''UNIQUE'')) (\<lambda>_.
     Inr (db\<lparr>td_devices := td_devices db @ [(d, device)],
       td_n4 := set_session (session\<lparr>js_device_id := Some d, js_updated_at := now\<rparr>) now (td_n4 db)\<rparr>))"

definition persist_device ::
    "trust_env \<Rightarrow> n5_draws \<Rightarrow> N5IdentityEvidence \<Rightarrow> NetworkId \<Rightarrow> ProviderCredentialId \<Rightarrow> Device \<Rightarrow> JoinSession \<Rightarrow>
     DateTime \<Rightarrow> trust_db \<Rightarrow> trust_db state_result" where
  "persist_device E D e n credential device session now db =
     (let d = nd5_device_id D; s = ev_join_session_id e in
      and_then (name_device session d device now db) (\<lambda>db.
      and_then (insert_identity
        \<lparr>tri_device_id = d, tri_network_id = n, tri_origin = OriginJoin s,
         tri_confirmed_at_ms = timestamp_millis now, tri_digest = join_correlation E e\<rparr> db) (\<lambda>db.
      and_then (insert_join_origin
        \<lparr>tro_join_session_id = s, tro_device_id = d, tro_network_id = n\<rparr> db) (\<lambda>db.
      and_then (insert_device_binding (new_join_binding D n e) db) (\<lambda>db.
      and_then (insert_join_provenance
        \<lparr>trp_binding_id = nd5_binding_id D, trp_device_id = d, trp_network_id = n, trp_join_session_id = s,
         trp_credential_id = credential, trp_reference = ev_provider_reference e,
         trp_provider_instance_id = pi_provider_instance_id (ev_provider_identity e)\<rparr> db) (\<lambda>db.
      insert_trust_state (untrusted_state d n now) db))))))"

definition confirm_identity_tx ::
    "trust_env \<Rightarrow> n5_draws \<Rightarrow> N5IdentityEvidence \<Rightarrow> DateTime \<Rightarrow> AuditActor \<Rightarrow> trust_db \<Rightarrow>
     (N5IdentityConfirmation \<times> trust_db) state_result" where
  "confirm_identity_tx E D e now actor db =
     and_then (load_n5_identity_by_session (ev_join_session_id e) db) (\<lambda>existing.
     case existing of
       Some v \<Rightarrow>
         if n5_provider_reference v \<noteq> ev_provider_reference e \<or>
            n5_provider_identity v \<noteq> ev_provider_identity e
         then Inl (StConflict ''join session is already bound to different device evidence'')
         else Inr (IdentityAlreadyConfirmed v, db)
     | None \<Rightarrow>
         and_then (case joined_credentials (ev_join_session_id e) (td_n4 db) of
             [] \<Rightarrow> Inl (StConflict ''N5 identity requires a confirmed N4 credential dispatch'')
           | x # _ \<Rightarrow> Inr x) (\<lambda>(m, r).
         and_then (ok_or (session_named (ev_join_session_id e) (td_n4 db))
           (StConflict ''N5 identity requires a confirmed N4 credential dispatch'')) (\<lambda>s.
         and_then (ensure (cm_provider_instance_id m = pi_provider_instance_id (ev_provider_identity e) \<and>
             cr_provider_reference r = ev_provider_reference e \<and> cm_invalidation_state m = InvActive \<and>
             timestamp_millis now < cm_expires_at_ms m)
           (StConflict ''provider evidence does not match the active N4 credential'')) (\<lambda>_.
         and_then (domain_conflict (Device_new (nd5_device_id D) (cm_network_id m)
           (id_display (te_uuid E) (nd5_device_id D)) now)) (\<lambda>device.
         and_then (ensure (js_device_id (sr_record s) = None)
           (StConflict ''join session already names a logical device'')) (\<lambda>_.
         and_then (persist_device E D e (cm_network_id m) (cm_credential_id m) device (sr_record s) now db) (\<lambda>db.
         and_then (append_trust_audit D (cm_network_id m) (Some (nd5_device_id D)) actor
           ''device.identity_confirmed'' (Some Generation_initial) db) (\<lambda>db.
         and_then (load_n5_identity_by_session (ev_join_session_id e) db) (\<lambda>found.
         and_then (ok_or found (StConflict ''N5 identity write was lost'')) (\<lambda>v.
         Inr (IdentityConfirmed v, db)))))))))))"

definition persist_verified_n5_device_identity ::
    "trust_env \<Rightarrow> n5_draws \<Rightarrow> N5IdentityEvidence \<Rightarrow> DateTime \<Rightarrow> AuditActor \<Rightarrow> trust_db \<Rightarrow>
     N5IdentityConfirmation state_result \<times> trust_db" where
  "persist_verified_n5_device_identity E D e now actor db =
     (case and_then (validate_n5_audit_actor actor) (\<lambda>_.
         ensure (valid_sha256_fingerprint (pi_stable_key_fingerprint (ev_provider_identity e)))
           (StConflict ''invalid N5 identity evidence'')) of
        Inl err \<Rightarrow> (Inl err, db)
      | Inr _ \<Rightarrow> transactional (confirm_identity_tx E D e now actor) db)"

text \<open>What the provider shows of the session, judged against the database before it is asked.\<close>

definition provider_conflict :: "string \<Rightarrow> 'a provider_result \<Rightarrow> 'a state_result" where
  "provider_conflict s r = map_err (\<lambda>_. StConflict s) r"

definition join_evidence ::
    "trust_env \<Rightarrow> 'a NodeProvider_scheme \<Rightarrow> JoinSessionId \<Rightarrow> DateTime \<Rightarrow> trust_db \<Rightarrow>
     N5IdentityEvidence state_result" where
  "join_evidence E provider s now db =
     and_then (n5_join_correlation_context s db) (\<lambda>context.
     and_then (ensure (ro_instance_id provider = jc_provider_instance_id context)
       (StConflict ''configured provider does not match N5 join provenance'')) (\<lambda>_.
     and_then (ensure (now < jc_expires_at context)
       (StConflict ''N5 join correlation credential has expired'')) (\<lambda>_.
     and_then (provider_conflict ''provider observation failed'' (ro_list_nodes provider)) (\<lambda>nodes.
     and_then (select_n5_provider_registration E context nodes now) (\<lambda>selected.
     and_then (provider_conflict ''provider re-read failed'' (ro_get_node provider (pn_identity selected))) (\<lambda>found.
     and_then (ok_or found (StConflict ''provider registration disappeared before confirmation'')) (\<lambda>again.
     and_then (validate_n5_provider_registration E context again now) (\<lambda>_.
     and_then (ensure (pn_identity again = pn_identity selected)
       (StConflict ''provider registration changed before confirmation'')) (\<lambda>_.
     Inr \<lparr>ev_join_session_id = s, ev_provider_reference = jc_provider_reference context,
          ev_provider_identity = pn_identity again, ev_observed_at = pn_observed_at again\<rparr>)))))))))"

definition confirm_n5_device_identity_from_provider ::
    "trust_env \<Rightarrow> n5_draws \<Rightarrow> 'a NodeProvider_scheme \<Rightarrow> JoinSessionId \<Rightarrow> DateTime \<Rightarrow> AuditActor \<Rightarrow> trust_db \<Rightarrow>
     trust_db \<Rightarrow> N5IdentityConfirmation state_result \<times> trust_db" where
  "confirm_n5_device_identity_from_provider E D provider s now actor before db =
     (case join_evidence E provider s now before of
        Inl err \<Rightarrow> (Inl err, db)
      | Inr e \<Rightarrow> persist_verified_n5_device_identity E D e now actor db)"

section \<open>Reconciling a provider binding\<close>

datatype reconciliation_binding =
    ReconcileJoin N5DeviceIdentity
  | ReconcileAdoption ProviderIdentity Generation ProviderBindingState string

fun rb_identity :: "reconciliation_binding \<Rightarrow> ProviderIdentity" where
  "rb_identity (ReconcileJoin b) = n5_provider_identity b"
| "rb_identity (ReconcileAdoption identity _ _ _) = identity"

fun rb_revision :: "reconciliation_binding \<Rightarrow> Generation" where
  "rb_revision (ReconcileJoin b) = n5_binding_revision b"
| "rb_revision (ReconcileAdoption _ revision _ _) = revision"

fun rb_state :: "reconciliation_binding \<Rightarrow> ProviderBindingState" where
  "rb_state (ReconcileJoin b) = n5_binding_state b"
| "rb_state (ReconcileAdoption _ _ state _) = state"

definition live_binding_state :: "ProviderBindingState \<Rightarrow> bool" where
  "live_binding_state s \<longleftrightarrow> s = PBActive \<or> s = PBStale"

definition adoption_rows :: "DeviceId \<Rightarrow> trust_db \<Rightarrow> (device_binding_row \<times> adopted_provenance_row) list" where
  "adoption_rows d db =
     [(b, p). b \<leftarrow> td_bindings db, trb_device_id b = d, trb_provenance_kind b = ProvenanceAdoption,
        live_binding_state (trb_state b),
        p \<leftarrow> td_adoptions db, tra_binding_id p = trb_binding_id b, tra_device_id p = trb_device_id b,
        tra_network_id p = trb_network_id b, tra_provider_instance_id p = trb_provider_instance_id b,
        tra_provider_node_id p = trb_provider_node_id b, tra_machine_key p = trb_machine_key b]"

definition adoption_binding ::
    "DeviceId \<Rightarrow> trust_db \<Rightarrow> reconciliation_binding option state_result" where
  "adoption_binding d db =
     (case adoption_rows d db of [] \<Rightarrow> Inr None
      | (b, p) # _ \<Rightarrow>
          and_then (column_u64 (trb_revision b)) (\<lambda>revision.
          and_then (domain_conflict (ProviderIdentity_new (trb_provider_instance_id b) (trb_provider_node_id b)
            (trb_machine_key b))) (\<lambda>identity.
          and_then (domain_conflict (Generation_new revision)) (\<lambda>revision.
          Inr (Some (ReconcileAdoption identity revision (trb_state b) (tra_node_key p)))))))"

definition binding_to_reconcile ::
    "DeviceId \<Rightarrow> DeviceTrustView \<Rightarrow> trust_db \<Rightarrow> reconciliation_binding option state_result" where
  "binding_to_reconcile d view db =
     (case find (\<lambda>b. trb_device_id b = d \<and> live_binding_state (trb_state b)) (td_bindings db) of
        None \<Rightarrow> Inr None
      | Some b \<Rightarrow>
          (case trb_provenance_kind b of
             ProvenanceJoin \<Rightarrow>
               and_then (ok_or (case tv_provider_binding view of None \<Rightarrow> None
                   | Some v \<Rightarrow> if live_binding_state (n5_binding_state v) then Some v else None)
                 (StConflict ''active N4 provider binding has no exact N4 provenance view''))
               (\<lambda>v. Inr (Some (ReconcileJoin v)))
           | ProvenanceAdoption \<Rightarrow> adoption_binding d db))"

text \<open>A joined device is re-read by its identity, an adopted one is found in the list.\<close>

definition observe_binding ::
    "'a NodeProvider_scheme \<Rightarrow> reconciliation_binding \<Rightarrow> ProviderNode option provider_result" where
  "observe_binding provider b =
     (case b of
        ReconcileJoin _ \<Rightarrow> ro_get_node provider (rb_identity b)
      | ReconcileAdoption identity _ _ _ \<Rightarrow>
          and_then (ro_list_nodes provider) (\<lambda>nodes.
          Inr (case filter (\<lambda>node.
                pi_provider_instance_id (pn_identity node) = pi_provider_instance_id identity \<and>
                pi_node_id (pn_identity node) = pi_node_id identity) nodes of
              [node] \<Rightarrow> Some node | _ \<Rightarrow> None)))"

definition provider_node_identity_remains_exact ::
    "trust_env \<Rightarrow> ProviderNode \<Rightarrow> ProviderIdentity \<Rightarrow> DateTime \<Rightarrow> bool" where
  "provider_node_identity_remains_exact E node identity now \<longleftrightarrow>
     pn_identity node = identity \<and> unexpired now node \<and>
     machine_fingerprint E node = Some (pi_stable_key_fingerprint identity)"

definition adopted_provider_node_remains_exact ::
    "trust_env \<Rightarrow> ProviderNode \<Rightarrow> ProviderIdentity \<Rightarrow> string \<Rightarrow> DateTime \<Rightarrow> bool" where
  "adopted_provider_node_remains_exact E node identity node_key_fingerprint now \<longleftrightarrow>
     pi_provider_instance_id (pn_identity node) = pi_provider_instance_id identity \<and>
     pi_node_id (pn_identity node) = pi_node_id identity \<and> unexpired now node \<and>
     machine_fingerprint E node = Some (pi_stable_key_fingerprint identity) \<and>
     node_fingerprint E node = Some node_key_fingerprint"

definition remains_exact ::
    "trust_env \<Rightarrow> reconciliation_binding \<Rightarrow> DateTime \<Rightarrow> ProviderNode \<Rightarrow> bool" where
  "remains_exact E b now node \<longleftrightarrow>
     (case b of
        ReconcileJoin v \<Rightarrow> provider_node_identity_remains_exact E node (n5_provider_identity v) now \<and>
          authenticated_by (n5_provider_reference v) node
      | ReconcileAdoption identity _ _ fingerprint \<Rightarrow>
          adopted_provider_node_remains_exact E node identity fingerprint now)"

definition affirmed :: "DeviceTrustView \<Rightarrow> DeviceTrustView" where
  "affirmed v = v\<lparr>tv_currently_trusted := (tv_state v = DTTrusted)\<rparr>"

text \<open>What a call reads before it asks the provider.\<close>

definition reconciliation_start ::
    "trust_env \<Rightarrow> 'a NodeProvider_scheme \<Rightarrow> DeviceId \<Rightarrow> AuditActor \<Rightarrow> trust_db \<Rightarrow>
     (DeviceTrustView \<times> reconciliation_binding option) state_result" where
  "reconciliation_start E provider d actor db =
     and_then (validate_n5_audit_actor actor) (\<lambda>_.
     and_then (load_device_trust_view E d db) (\<lambda>view.
     and_then (binding_to_reconcile d view db) (\<lambda>binding.
     case binding of None \<Rightarrow> Inr (view, None)
     | Some b \<Rightarrow>
         and_then (ensure (ro_instance_id provider = pi_provider_instance_id (rb_identity b))
           (StConflict ''N5 provider reconciliation used the wrong provider instance'')) (\<lambda>_.
         Inr (view, Some b)))))"

definition reconcile_answer ::
    "trust_env \<Rightarrow> n5_draws \<Rightarrow> 'a NodeProvider_scheme \<Rightarrow> DeviceId \<Rightarrow> DateTime \<Rightarrow> AuditActor \<Rightarrow> DeviceTrustView \<Rightarrow>
     reconciliation_binding \<Rightarrow> trust_db \<Rightarrow> DeviceTrustView state_result \<times> trust_db" where
  "reconcile_answer E D provider d now actor view b db =
     (case observe_binding provider b of
        Inl _ \<Rightarrow>
          if rb_state b = PBActive
          then (case mark_n5_provider_binding_stale E D d (rb_revision b) now actor db of
              (Inl e, db) \<Rightarrow> (Inl e, db)
            | (Inr _, db) \<Rightarrow>
                (Inl (StConflict ''N5 provider reconciliation failed and binding was staled''), db))
          else (Inl (StConflict ''N5 provider reconciliation failed and binding was staled''), db)
      | Inr seen \<Rightarrow>
          if (case seen of None \<Rightarrow> False | Some node \<Rightarrow> remains_exact E b now node)
          then if rb_state b = PBStale
            then (case reactivate_exact_n5_provider_binding E D d (rb_revision b) now actor db of
                (Inl e, db) \<Rightarrow> (Inl e, db) | (Inr v, db) \<Rightarrow> (Inr (affirmed v), db))
            else (Inr (affirmed view), db)
          else if rb_state b = PBStale then (Inr view, db)
          else mark_n5_provider_binding_stale E D d (rb_revision b) now actor db)"

definition reconcile_n5_provider_binding_from_provider ::
    "trust_env \<Rightarrow> n5_draws \<Rightarrow> 'a NodeProvider_scheme \<Rightarrow> DeviceId \<Rightarrow> DateTime \<Rightarrow> AuditActor \<Rightarrow> trust_db \<Rightarrow>
     trust_db \<Rightarrow> DeviceTrustView state_result \<times> trust_db" where
  "reconcile_n5_provider_binding_from_provider E D provider d now actor before db =
     (case reconciliation_start E provider d actor before of
        Inl e \<Rightarrow> (Inl e, db)
      | Inr (view, None) \<Rightarrow> (Inr view, db)
      | Inr (view, Some b) \<Rightarrow> reconcile_answer E D provider d now actor view b db)"

definition reconcile_n5_provider_binding_from_runtime ::
    "trust_env \<Rightarrow> n5_draws \<Rightarrow> NodeProvider \<Rightarrow> DeviceId \<Rightarrow> DateTime \<Rightarrow> AuditActor \<Rightarrow> trust_db \<Rightarrow>
     trust_db \<Rightarrow> DeviceTrustView state_result \<times> trust_db" where
  "reconcile_n5_provider_binding_from_runtime = reconcile_n5_provider_binding_from_provider"

section \<open>Configured providers\<close>

record N5ConfiguredHeadscaleProvider =
  hp_network_id :: NetworkId
  hp_import_config :: HeadscaleImportConfig
  hp_provider :: NodeProvider

definition validate_current ::
    "discovery_env \<Rightarrow> N5ConfiguredHeadscaleProvider \<Rightarrow> discovery_db \<Rightarrow> unit state_result" where
  "validate_current X P imports =
     and_then (import_config X (hp_network_id P) imports) (\<lambda>(_, current).
     ensure (current = hp_import_config P) (StConflict ''configured provider identity changed''))"

definition confirm_n5_device_identity ::
    "trust_env \<Rightarrow> discovery_env \<Rightarrow> n5_draws \<Rightarrow> N5ConfiguredHeadscaleProvider \<Rightarrow> JoinSessionId \<Rightarrow> DateTime \<Rightarrow>
     AuditActor \<Rightarrow> discovery_db \<Rightarrow> trust_db \<Rightarrow> trust_db \<Rightarrow> N5IdentityConfirmation state_result \<times> trust_db" where
  "confirm_n5_device_identity E X D P s now actor imports before db =
     (case and_then (validate_current X P imports) (\<lambda>_.
         and_then (n5_join_correlation_context s before) (\<lambda>context.
         ensure (jc_network_id context = hp_network_id P)
           (StConflict ''configured provider network does not match join session''))) of
        Inl e \<Rightarrow> (Inl e, db)
      | Inr _ \<Rightarrow> confirm_n5_device_identity_from_provider E D (hp_provider P) s now actor before db)"

definition reconcile_n5_provider_binding ::
    "trust_env \<Rightarrow> discovery_env \<Rightarrow> n5_draws \<Rightarrow> N5ConfiguredHeadscaleProvider \<Rightarrow> DeviceId \<Rightarrow> DateTime \<Rightarrow>
     AuditActor \<Rightarrow> discovery_db \<Rightarrow> trust_db \<Rightarrow> trust_db \<Rightarrow> DeviceTrustView state_result \<times> trust_db" where
  "reconcile_n5_provider_binding E X D P d now actor imports before db =
     (case and_then (validate_current X P imports) (\<lambda>_.
         and_then (load_device_trust_view E d before) (\<lambda>view.
         ensure (tv_network_id view = hp_network_id P)
           (StConflict ''configured provider network does not match device''))) of
        Inl e \<Rightarrow> (Inl e, db)
      | Inr _ \<Rightarrow> reconcile_n5_provider_binding_from_provider E D (hp_provider P) d now actor before db)"

record N5ConfiguredTailscaleProvider =
  lp_network_id :: NetworkId
  lp_provider_instance_id :: ProviderInstanceId
  lp_expected_server_url :: string
  lp_provider :: NodeProvider

datatype N5ConfiguredProvider =
  ConfiguredHeadscale N5ConfiguredHeadscaleProvider | ConfiguredTailscale N5ConfiguredTailscaleProvider

definition current_tailscale_import :: "N5ConfiguredTailscaleProvider \<Rightarrow> discovery_db \<Rightarrow> bool" where
  "current_tailscale_import P imports \<longleftrightarrow>
     (case find (\<lambda>i. ip_network_id i = lp_network_id P \<and>
         ip_provider_instance_id i = lp_provider_instance_id P) (dc_imports imports) of
        None \<Rightarrow> False
      | Some i \<Rightarrow> ip_server_url i = lp_expected_server_url P \<and> ip_compatibility_pin i = ''api-v2'' \<and>
          ip_read_only i \<noteq> 0 \<and> ip_mutation_allowed i = 0)"

definition reconcile_n5_configured_provider ::
    "trust_env \<Rightarrow> discovery_env \<Rightarrow> n5_draws \<Rightarrow> N5ConfiguredProvider \<Rightarrow> DeviceId \<Rightarrow> DateTime \<Rightarrow> AuditActor \<Rightarrow>
     discovery_db \<Rightarrow> trust_db \<Rightarrow> trust_db \<Rightarrow> DeviceTrustView state_result \<times> trust_db" where
  "reconcile_n5_configured_provider E X D provider d now actor imports before db =
     (case provider of
        ConfiguredHeadscale P \<Rightarrow> reconcile_n5_provider_binding E X D P d now actor imports before db
      | ConfiguredTailscale P \<Rightarrow>
          (case and_then (ensure (current_tailscale_import P imports)
                (StConflict ''configured Tailscale provider identity changed'')) (\<lambda>_.
              and_then (load_device_trust_view E d before) (\<lambda>view.
              ensure (tv_network_id view = lp_network_id P)
                (StConflict ''configured provider network does not match device''))) of
             Inl e \<Rightarrow> (Inl e, db)
           | Inr _ \<Rightarrow> reconcile_n5_provider_binding_from_provider E D (lp_provider P) d now actor before db))"

section \<open>The device identity service\<close>

text \<open>Its other methods are the calls of the store with the error wrapped.\<close>

definition trust_view_for_provider_registration ::
    "trust_env \<Rightarrow> discovery_env \<Rightarrow> n5_draws \<Rightarrow> N5ConfiguredHeadscaleProvider \<Rightarrow> ProviderNodeId \<Rightarrow> DateTime \<Rightarrow>
     AuditActor \<Rightarrow> discovery_db \<Rightarrow> trust_db \<Rightarrow> trust_db \<Rightarrow> DeviceTrustView option state_result \<times> trust_db" where
  "trust_view_for_provider_registration E X D P node now actor imports before db =
     (case device_id_by_provider_registration (hc_provider_instance_id (hp_import_config P)) node before of
        None \<Rightarrow> (Inr None, db)
      | Some d \<Rightarrow>
          (case reconcile_n5_provider_binding E X D P d now actor imports before db of
             (Inl e, db) \<Rightarrow> (Inl e, db) | (Inr v, db) \<Rightarrow> (Inr (Some v), db)))"

end
