(* ===== verification/Trust_Runs.thy ===== *)
theory Trust_Runs
  imports Trust_Reconciliation
begin

text \<open>
  Runs of the trust store: any sequence of its calls, each over the database the earlier ones left,
  with adoptions and writes of other components to their own tables in between. A call that asks
  the provider judges its answer against the database of some earlier moment of the run.
\<close>

section \<open>Calls and runs\<close>

datatype n5_call =
    CallBootstrap n5_draws NetworkId string string AuditActor
  | CallRevokeRoot n5_draws OwnerTrustRootToken
  | CallConfigure n5_draws OwnerTrustRootToken N5TrustAuthorityConfiguration
  | CallRevokeAuthority n5_draws OwnerTrustRootToken TrustAuthorityId
  | CallIssueTrust n5_draws OwnerTrustRootToken TrustAuthorityId DeviceId Generation DeviceTrustCapability
  | CallActivate n5_draws DeviceTrustAuthorization N5TrustReason
  | CallRevokeTrust n5_draws DeviceTrustAuthorization N5TrustReason
  | CallMembership n5_draws OwnerTrustRootToken TrustAuthorityId DeviceId
  | CallStale n5_draws DeviceId Generation AuditActor
  | CallCleanup n5_draws DeviceId Generation AuditActor
  | CallRemove n5_draws DeviceId Generation AuditActor
  | CallIdentify n5_draws NodeProvider JoinSessionId AuditActor trust_db
  | CallReconcile n5_draws NodeProvider DeviceId AuditActor trust_db

datatype n5_answer =
    TokenAnswer "OwnerTrustRootToken state_result"
  | DoneAnswer "unit state_result"
  | PermitAnswer "DeviceTrustAuthorization state_result"
  | ViewAnswer "DeviceTrustView state_result"
  | DeviceAnswer "Device state_result"
  | IdentityAnswer "N5IdentityConfirmation state_result"

fun n5_perform :: "trust_env \<Rightarrow> DateTime \<Rightarrow> n5_call \<Rightarrow> trust_db \<Rightarrow> n5_answer \<times> trust_db" where
  "n5_perform E now (CallBootstrap D n source i actor) db =
     apfst TokenAnswer (bootstrap_n5_owner_trust_root E D n source i now actor db)"
| "n5_perform E now (CallRevokeRoot D token) db =
     apfst DoneAnswer (revoke_n5_owner_trust_root E D token now db)"
| "n5_perform E now (CallConfigure D token c) db =
     apfst DoneAnswer (configure_n5_trust_authority E D token c db)"
| "n5_perform E now (CallRevokeAuthority D token i) db =
     apfst DoneAnswer (revoke_n5_trust_authority E D token i now db)"
| "n5_perform E now (CallIssueTrust D token i d g c) db =
     apfst PermitAnswer (issue_device_trust_authorization E D token i d g c now db)"
| "n5_perform E now (CallActivate D z reason) db = apfst ViewAnswer (activate_device_trust E D z now reason db)"
| "n5_perform E now (CallRevokeTrust D z reason) db = apfst ViewAnswer (revoke_device_trust E D z now reason db)"
| "n5_perform E now (CallMembership D token i d) db =
     apfst DeviceAnswer (activate_trusted_device_membership E D token i d now db)"
| "n5_perform E now (CallStale D d g actor) db =
     apfst ViewAnswer (mark_n5_provider_binding_stale E D d g now actor db)"
| "n5_perform E now (CallCleanup D d g actor) db =
     apfst ViewAnswer (mark_n5_provider_binding_cleanup_pending E D d g now actor db)"
| "n5_perform E now (CallRemove D d g actor) db =
     apfst ViewAnswer (mark_n5_provider_binding_removed E D d g now actor db)"
| "n5_perform E now (CallIdentify D provider s actor before) db =
     apfst IdentityAnswer (confirm_n5_device_identity_from_provider E D provider s now actor before db)"
| "n5_perform E now (CallReconcile D provider d actor before) db =
     apfst ViewAnswer (reconcile_n5_provider_binding_from_provider E D provider d now actor before db)"

fun asked_at :: "n5_call \<Rightarrow> trust_db option" where
  "asked_at (CallIdentify D provider s actor before) = Some before"
| "asked_at (CallReconcile D provider d actor before) = Some before"
| "asked_at _ = None"

record n5_entry =
  tn_now :: DateTime
  tn_call :: n5_call
  tn_db :: trust_db
  tn_answer :: n5_answer

type_synonym n5_state = "trust_db \<times> n5_entry list"

text \<open>An adoption writes the rows of an untrusted device with an active binding.\<close>

definition adopt_device ::
    "device_identity_row \<Rightarrow> device_binding_row \<Rightarrow> adopted_provenance_row \<Rightarrow> DateTime \<Rightarrow> trust_db \<Rightarrow>
     trust_db state_result" where
  "adopt_device i b p now db =
     and_then (ensure ((case tri_origin i of OriginJoin s \<Rightarrow> False | OriginAdoption s \<Rightarrow> True) \<and>
         trb_provenance_kind b = ProvenanceAdoption \<and>
         trb_state b = PBActive \<and> trb_revision b = 1 \<and> tri_device_id i = trb_device_id b)
       (StSqlite ''CHECK'')) (\<lambda>_.
     and_then (insert_identity i db) (\<lambda>db.
     and_then (insert_device_binding b db) (\<lambda>db.
     insert_trust_state (untrusted_state (trb_device_id b) (trb_network_id b) now)
       (db\<lparr>td_adoptions := td_adoptions db @ [p]\<rparr>))))"

text \<open>Other components leave the tables of device trust alone and append to the audit.\<close>

definition trust_tables where
  "trust_tables db =
     (td_roots db, td_authorities db, td_capabilities db, td_trust db, td_authorizations db, td_decisions db,
      td_bindings db, td_provenance db, td_adoptions db, td_identities db, td_origins db)"

inductive n5_step :: "trust_env \<Rightarrow> n5_state \<Rightarrow> n5_state \<Rightarrow> bool" for E where
  called: "n5_perform E now c db = (answer, db') \<Longrightarrow>
    (\<And>before. asked_at c = Some before \<Longrightarrow> before = db \<or> before \<in> tn_db ` set entries) \<Longrightarrow>
    n5_step E (db, entries)
      (db', entries @ [\<lparr>tn_now = now, tn_call = c, tn_db = db, tn_answer = answer\<rparr>])"
| adopted: "adopt_device i b p now db = Inr db' \<Longrightarrow> n5_step E (db, entries) (db', entries)"
| elsewhere: "trust_tables db' = trust_tables db \<Longrightarrow> n5_step E (db, entries) (db', entries)"

definition fresh_trust :: "trust_db \<Rightarrow> bool" where
  "fresh_trust db \<longleftrightarrow> trust_tables db = ([], [], [], [], [], [], [], [], [], [], [])"

definition n5_run :: "trust_env \<Rightarrow> n5_state \<Rightarrow> bool" where
  "n5_run E s \<longleftrightarrow> (\<exists>db0. fresh_trust db0 \<and> (n5_step E)\<^sup>*\<^sup>* (db0, []) s)"

section \<open>Effects of the transactions\<close>

named_theorems trust_effects \<open>what the statements of the trust store write\<close>

lemma insert_event_effect [trust_effects]:
  "insert_trust_event e db = Inr db' \<longleftrightarrow>
     list_all (\<lambda>k. tre_event_id k \<noteq> tre_event_id e) (td_events db) \<and>
     db' = db\<lparr>td_events := td_events db @ [e]\<rparr>"
  by (auto simp: insert_trust_event_def guard_simps)

lemma and_thenE:
  assumes "and_then r f = Inr y"
  obtains x where "r = Inr x" "f x = Inr y"
  using assms by (auto simp: guard_simps)

definition audit_row ::
    "n5_draws \<Rightarrow> NetworkId \<Rightarrow> DeviceId option \<Rightarrow> AuditActor \<Rightarrow> string \<Rightarrow> Generation option \<Rightarrow> trust_event_row" where
  "audit_row D n d actor kind g =
     \<lparr>tre_event_id = nd5_audit D, tre_network_id = n, tre_device_id = d, tre_actor = actor,
      tre_event_kind = kind, tre_outcome = ''success'', tre_generation = map_option (\<lambda>g. uint (gen_get g)) g\<rparr>"

definition audit_accepts :: "n5_draws \<Rightarrow> Generation option \<Rightarrow> trust_db \<Rightarrow> bool" where
  "audit_accepts D g db \<longleftrightarrow>
     \<not> ad_fail_before_audit (td_n4 db) \<and> (case g of None \<Rightarrow> True | Some g \<Rightarrow> uint (gen_get g) < 2 ^ 63) \<and>
     list_all (\<lambda>k. tre_event_id k \<noteq> nd5_audit D) (td_events db)"

lemma append_effect [trust_effects]:
  "append_trust_audit D n d actor kind g db = Inr db' \<longleftrightarrow>
     audit_accepts D g db \<and> db' = db\<lparr>td_events := td_events db @ [audit_row D n d actor kind g]\<rparr>"
  by (auto simp: append_trust_audit_def injected_failure_def guard_simps insert_event_effect audit_row_def
      audit_accepts_def to_i64_def split: option.splits if_splits)

lemma audit_accepts_frame [simp]:
  "audit_accepts D g (db\<lparr>td_roots := rs\<rparr>) = audit_accepts D g db"
  "audit_accepts D g (db\<lparr>td_authorities := as\<rparr>) = audit_accepts D g db"
  "audit_accepts D g (db\<lparr>td_capabilities := cs\<rparr>) = audit_accepts D g db"
  "audit_accepts D g (db\<lparr>td_authorizations := zs\<rparr>) = audit_accepts D g db"
  "audit_accepts D g (db\<lparr>td_devices := ds\<rparr>) = audit_accepts D g db"
  by (simp_all add: audit_accepts_def)

lemma update_effects [trust_effects]:
  "update_roots P f db = Inr db' \<longleftrightarrow> (\<forall>r\<in>set (td_roots db). P r \<longrightarrow> root_update_ok r (f r)) \<and>
     db' = db\<lparr>td_roots := map (\<lambda>r. if P r then f r else r) (td_roots db)\<rparr>"
  "update_trust_authorities P2 f2 db = Inr db' \<longleftrightarrow>
     (\<forall>a\<in>set (td_authorities db). P2 a \<longrightarrow> trust_authority_update_ok a (f2 a)) \<and>
     db' = db\<lparr>td_authorities := map (\<lambda>a. if P2 a then f2 a else a) (td_authorities db)\<rparr>"
  by (auto simp: update_roots_def update_trust_authorities_def guard_simps)

lemma insert_effects [trust_effects]:
  "insert_root r db = Inr db' \<longleftrightarrow>
     tr_network_id r \<in> fst ` set (nd_networks (td_n4 db)) \<and> root_check r \<and>
     list_all (\<lambda>q. tr_trust_root_id q \<noteq> tr_trust_root_id r \<and> tr_network_id q \<noteq> tr_network_id r) (td_roots db) \<and>
     db' = db\<lparr>td_roots := td_roots db @ [r]\<rparr>"
  "insert_trust_authority a db = Inr db' \<longleftrightarrow>
     list_ex (active_root (ta_trust_root_id a) (ta_network_id a)) (td_roots db) \<and> trust_authority_check a \<and>
     list_all (\<lambda>q. ta_authority_id q \<noteq> ta_authority_id a \<and>
         (ta_network_id q, ta_principal_source q, ta_principal_id q, ta_generation q) \<noteq>
         (ta_network_id a, ta_principal_source a, ta_principal_id a, ta_generation a)) (td_authorities db) \<and>
     db' = db\<lparr>td_authorities := td_authorities db @ [a]\<rparr>"
  "insert_trust_authorization z db = Inr db' \<longleftrightarrow>
     trust_authorization_valid z db \<and> trust_authorization_check z \<and>
     list_all (\<lambda>q. trz_action_id q \<noteq> trz_action_id z) (td_authorizations db) \<and>
     db' = db\<lparr>td_authorizations := td_authorizations db @ [z]\<rparr>"
  "insert_trust_state t db = Inr db' \<longleftrightarrow>
     trs_device_id t \<in> tri_device_id ` set (td_identities db) \<and> trust_state_check t \<and>
     list_all (\<lambda>q. trs_device_id q \<noteq> trs_device_id t) (td_trust db) \<and> db' = db\<lparr>td_trust := td_trust db @ [t]\<rparr>"
  "insert_identity i db = Inr db' \<longleftrightarrow>
     tri_device_id i \<in> fst ` set (td_devices db) \<and> 0 \<le> tri_confirmed_at_ms i \<and> hash_column (tri_digest i) \<and>
     list_all (\<lambda>q. tri_device_id q \<noteq> tri_device_id i \<and> tri_origin q \<noteq> tri_origin i) (td_identities db) \<and>
     db' = db\<lparr>td_identities := td_identities db @ [i]\<rparr>"
  "insert_device_binding b db = Inr db' \<longleftrightarrow>
     list_ex (\<lambda>i. tri_device_id i = trb_device_id b \<and> tri_network_id i = trb_network_id b) (td_identities db) \<and>
     device_binding_check b \<and> device_binding_indexes (td_bindings db @ [b]) \<and>
     db' = db\<lparr>td_bindings := td_bindings db @ [b]\<rparr>"
  by (auto simp: insert_root_def insert_trust_authority_def insert_trust_authorization_def insert_trust_state_def
      insert_identity_def insert_device_binding_def guard_simps)

text \<open>Only the audit table grows in the trigger of a transition.\<close>

lemma insert_events_effect:
  "insert_trust_events es db = Inr db' \<Longrightarrow> db' = db\<lparr>td_events := td_events db @ es\<rparr>"
proof (induction es arbitrary: db)
  case (Cons e es)
  from Cons.prems have "insert_trust_events es (db\<lparr>td_events := td_events db @ [e]\<rparr>) = Inr db'"
    by (simp add: guard_simps trust_effects)
  from Cons.IH [OF this] show ?case by simp
qed simp

text \<open>The three groups of tables a call may change.\<close>

definition trust_core where
  "trust_core db = (td_trust db, td_authorizations db, td_decisions db)"

definition trust_idents where
  "trust_idents db = (td_bindings db, td_provenance db, td_adoptions db, td_identities db, td_origins db)"

definition trust_powers where
  "trust_powers db = (td_roots db, td_authorities db, td_capabilities db)"

lemmas trust_groups = trust_core_def trust_idents_def trust_powers_def

lemma bootstrap_effect:
  assumes "bootstrap_tx E D token v n source i now actor db = Inr (a, db')"
  shows "trust_core db' = trust_core db" "trust_idents db' = trust_idents db"
    "td_authorities db' = td_authorities db" "td_capabilities db' = td_capabilities db"
    "\<exists>r. td_roots db' = td_roots db @ [r] \<and> root_check r \<and> tr_network_id r = n \<and>
      (\<forall>q\<in>set (td_roots db). tr_trust_root_id q \<noteq> tr_trust_root_id r \<and> tr_network_id q \<noteq> n)"
  using assms
  by (auto simp: bootstrap_tx_def guard_simps trust_effects trust_groups list_all_iff)

definition authorities_revoked :: "TrustRootId \<Rightarrow> DateTime \<Rightarrow> trust_authority_row list \<Rightarrow> trust_authority_row list" where
  "authorities_revoked i now =
     map (\<lambda>a. if ta_trust_root_id a = i \<and> ta_sealed a \<and> ta_enabled a \<and> ta_revoked_at_ms a = None
       then revoked_authority now a else a)"

definition root_revoked :: "TrustRootId \<Rightarrow> DateTime \<Rightarrow> root_row list \<Rightarrow> root_row list" where
  "root_revoked i now = map (\<lambda>r. if enabled_root i r then revoked_root now r else r)"

lemma revoke_root_effect:
  assumes "revoke_root_tx E D token now db = Inr (u, db')"
  shows "trust_core db' = trust_core db" "trust_idents db' = trust_idents db"
    "td_capabilities db' = td_capabilities db"
    "td_authorities db' = authorities_revoked (ot_trust_root_id token) now (td_authorities db)"
    "td_roots db' = root_revoked (ot_trust_root_id token) now (td_roots db)"
    "\<exists>r root. find (\<lambda>r. tr_trust_root_id r = ot_trust_root_id token) (td_roots db) = Some r \<and>
      verify_n5_owner_root (te_argon E) token (tr_network_id r) (td_roots db) = Inr root"
    "\<forall>a\<in>set (td_authorities db). ta_trust_root_id a = ot_trust_root_id token \<and> ta_sealed a \<and> ta_enabled a \<and>
       ta_revoked_at_ms a = None \<longrightarrow> trust_authority_update_ok a (revoked_authority now a)"
  using assms
  by (auto simp: revoke_root_tx_def Let_def guard_simps trust_effects authorities_revoked_def root_revoked_def
      trust_groups)

lemma capabilities_effect:
  "insert_capabilities_of i cs db = Inr db' \<Longrightarrow>
     db' = db\<lparr>td_capabilities := td_capabilities db @ map (Pair i) cs\<rparr>"
proof (induction cs arbitrary: db)
  case (Cons c cs)
  from Cons.prems have "insert_capabilities_of i cs (db\<lparr>td_capabilities := td_capabilities db @ [(i, c)]\<rparr>) = Inr db'"
    by (simp add: insert_trust_capability_def guard_simps)
  from Cons.IH [OF this] show ?case by simp
qed simp

definition sealed_authority :: "trust_authority_row \<Rightarrow> trust_authority_row" where
  "sealed_authority a = a\<lparr>ta_sealed := True, ta_enabled := True\<rparr>"

lemma configure_effect:
  assumes "configure_authority_tx E D token c db = Inr (u, db')"
  shows "trust_core db' = trust_core db" "trust_idents db' = trust_idents db" "td_roots db' = td_roots db"
    "td_capabilities db' = td_capabilities db @ map (Pair (na5_authority_id c)) (na5_capabilities c)"
    "\<exists>g. td_authorities db' = map (\<lambda>a. if sealable (na5_authority_id c) a then sealed_authority a else a)
        (td_authorities db @ [unsealed_authority token c g])"
    "list_ex (active_root (ot_trust_root_id token) (na5_network_id c)) (td_roots db)"
    "\<forall>a\<in>set (td_authorities db). ta_authority_id a \<noteq> na5_authority_id c"
proof -
  let ?g = "uint (gen_get (na5_generation c))"
  from assms obtain db2 where db2: "insert_capabilities_of (na5_authority_id c) (na5_capabilities c)
         (db\<lparr>td_authorities := td_authorities db @ [unsealed_authority token c ?g]\<rparr>) = Inr db2"
    and db': "trust_core db' = trust_core db2" "trust_idents db' = trust_idents db2" "td_roots db' = td_roots db2"
      "td_capabilities db' = td_capabilities db2"
      "td_authorities db' = map (\<lambda>a. if sealable (na5_authority_id c) a then sealed_authority a else a) (td_authorities db2)"
    by (auto simp: configure_authority_tx_def Let_def guard_simps trust_effects sealed_authority_def to_i64_def
        trust_groups split: if_splits)
  from assms have h: "list_ex (active_root (ot_trust_root_id token) (na5_network_id c)) (td_roots db)"
      "\<forall>a\<in>set (td_authorities db). ta_authority_id a \<noteq> na5_authority_id c"
    by (auto simp: configure_authority_tx_def Let_def guard_simps trust_effects list_all_iff unsealed_authority_def)
  have t: "trust_core db2 = trust_core db" "trust_idents db2 = trust_idents db" "td_roots db2 = td_roots db"
      "td_capabilities db2 = td_capabilities db @ map (Pair (na5_authority_id c)) (na5_capabilities c)"
      "td_authorities db2 = td_authorities db @ [unsealed_authority token c ?g]"
    by (simp_all add: capabilities_effect [OF db2] trust_core_def trust_idents_def)
  show "trust_core db' = trust_core db" "trust_idents db' = trust_idents db" "td_roots db' = td_roots db"
    "td_capabilities db' = td_capabilities db @ map (Pair (na5_authority_id c)) (na5_capabilities c)"
    by (simp_all only: db' t)
  show "\<exists>g. td_authorities db' = map (\<lambda>a. if sealable (na5_authority_id c) a then sealed_authority a else a)
        (td_authorities db @ [unsealed_authority token c g])"
    by (rule exI [of _ ?g]) (simp only: db' t)
  show "list_ex (active_root (ot_trust_root_id token) (na5_network_id c)) (td_roots db)"
    "\<forall>a\<in>set (td_authorities db). ta_authority_id a \<noteq> na5_authority_id c" by (rule h)+
qed

lemma revoke_authority_effect:
  assumes "revoke_authority_tx E D token i now db = Inr (u, db')"
  shows "trust_core db' = trust_core db" "trust_idents db' = trust_idents db" "td_roots db' = td_roots db"
    "td_capabilities db' = td_capabilities db"
    "td_authorities db' = map (\<lambda>a. if revocable i a then revoked_authority now a else a) (td_authorities db)"
    "\<forall>a\<in>set (td_authorities db). revocable i a \<longrightarrow> trust_authority_update_ok a (revoked_authority now a)"
proof -
  let ?as = "map (\<lambda>a. if revocable i a then revoked_authority now a else a) (td_authorities db)"
  from assms obtain db1 where up: "update_trust_authorities (revocable i) (revoked_authority now) db = Inr db1"
    and w: "db' = db1 \<or> (\<exists>n root. append_trust_audit D n None root ''device.trust_authority_revoked'' None db1 = Inr db')"
    unfolding revoke_authority_tx_def Let_def
    by (elim and_thenE) (simp split: if_splits, blast+)
  have ok: "\<forall>a\<in>set (td_authorities db). revocable i a \<longrightarrow> trust_authority_update_ok a (revoked_authority now a)"
    and db1: "db1 = db\<lparr>td_authorities := ?as\<rparr>"
    using up unfolding update_effects by blast+
  from w have "db' = db1 \<or> (\<exists>es. db' = db1\<lparr>td_events := es\<rparr>)" by (simp only: append_effect) blast
  then show "trust_core db' = trust_core db" "trust_idents db' = trust_idents db" "td_roots db' = td_roots db"
    "td_capabilities db' = td_capabilities db" "td_authorities db' = ?as"
    by (elim disjE exE; simp add: db1 trust_groups)+
  show "\<forall>a\<in>set (td_authorities db). revocable i a \<longrightarrow> trust_authority_update_ok a (revoked_authority now a)" by (rule ok)
qed

lemma issue_effect:
  assumes "issue_trust_tx E D token i d g c now db = Inr (z, db')"
  shows "trust_powers db' = trust_powers db" "trust_idents db' = trust_idents db"
    "td_trust db' = td_trust db" "td_decisions db' = td_decisions db"
    "\<exists>r. td_authorizations db' = td_authorizations db @ [r] \<and> trust_authorization_valid r db \<and>
      r = issued_trust_row z (uint (gen_get (da_authority_generation z))) (uint (gen_get g))"
    "\<forall>q\<in>set (td_authorizations db). trz_action_id q \<noteq> da_action_id z"
    "da_device_id z = d" "da_capability z = c" "da_expected_revision z = g" "da_authority_id z = i"
    "da_issued_at z = now" "\<exists>root. verify_n5_owner_root (te_argon E) token (da_network_id z) (td_roots db) = Inr root"
  using assms
  by (auto simp: issue_trust_tx_def Let_def guard_simps trust_effects to_i64_def issued_trust_row_def list_all_iff
      trust_groups split: list.splits if_splits)

text \<open>What a decision does to the authorization that it spends and the trust it decides.\<close>

definition spends :: "trust_decision_row \<Rightarrow> trust_authorization_row \<Rightarrow> bool" where
  "spends d z \<longleftrightarrow> trz_action_id z = trd_action_id d \<and> trz_consumed_at_ms z = None \<and> trz_decision z = None"

definition decides :: "trust_decision_row \<Rightarrow> trust_state_row \<Rightarrow> bool" where
  "decides d s \<longleftrightarrow> trs_device_id s = trd_device_id d \<and> trs_network_id s = trd_network_id d \<and>
     trs_state s = trd_prior_state d \<and> trs_revision s = trd_prior_revision d"

definition fresh_decision :: "trust_decision_row \<Rightarrow> trust_decision_row list \<Rightarrow> bool" where
  "fresh_decision d ds \<longleftrightarrow> (\<forall>q\<in>set ds. trd_decision_id q \<noteq> trd_decision_id d \<and> trd_audit q \<noteq> trd_audit d \<and>
     trd_action_id q \<noteq> trd_action_id d \<and>
     (trd_device_id q, trd_new_revision q) \<noteq> (trd_device_id d, trd_new_revision d))"

lemma decision_effect:
  assumes "insert_trust_decision d db = Inr db'"
  shows "trust_decision_valid d db" "trust_decision_check d" "fresh_decision d (td_decisions db)"
    "trust_powers db' = trust_powers db" "trust_idents db' = trust_idents db"
    "td_n4 db' = td_n4 db" "td_devices db' = td_devices db"
    "td_decisions db' = td_decisions db @ [d]"
    "td_authorizations db' = map (\<lambda>z. if spends d z then spent_authorization d z else z) (td_authorizations db)"
    "td_trust db' = map (\<lambda>s. if decides d s then decided_state d s else s) (td_trust db)"
    "\<forall>s\<in>set (td_trust db'). s \<notin> set (td_trust db) \<longrightarrow> trust_state_check s"
proof -
  let ?zs = "map (\<lambda>z. if spends d z then spent_authorization d z else z) (td_authorizations db)"
  let ?ss = "map (\<lambda>s. if decides d s then decided_state d s else s) (td_trust db)"
  from assms have v: "trust_decision_valid d db" "trust_decision_check d"
    and f: "fresh_decision d (td_decisions db)"
    and t: "apply_decision_trigger d (db\<lparr>td_decisions := td_decisions db @ [d]\<rparr>) = Inr db'"
    by (simp_all add: insert_trust_decision_def guard_simps fresh_decision_def list_all_iff)
  from t obtain db3 where ss: "update_where (decides d) (decided_state d) (decision_bound db3) (td_trust db3) = Inr (td_trust db')"
    and db3: "db3 = db\<lparr>td_decisions := td_decisions db @ [d], td_events := td_events db @ [decision_event d],
      td_authorizations := ?zs\<rparr>" "db' = db3\<lparr>td_trust := td_trust db'\<rparr>"
    unfolding apply_decision_trigger_def Let_def
    by (elim and_thenE) (simp add: insert_event_effect update_where_Inr spends_def [symmetric] decides_def [symmetric])
  from ss have tr: "td_trust db' = ?ss" and ok: "\<forall>s\<in>set (td_trust db3). decides d s \<longrightarrow> decision_bound db3 s (decided_state d s)"
    by (simp_all add: update_where_Inr db3(1))
  show "trust_decision_valid d db" "trust_decision_check d" "fresh_decision d (td_decisions db)" by (rule v f)+
  show "td_trust db' = ?ss" by (rule tr)
  show "\<forall>s\<in>set (td_trust db'). s \<notin> set (td_trust db) \<longrightarrow> trust_state_check s"
    using ok by (auto simp: tr db3(1) decision_bound_def)
  have "trust_powers db3 = trust_powers db" "trust_idents db3 = trust_idents db" "td_n4 db3 = td_n4 db"
    "td_devices db3 = td_devices db" "td_decisions db3 = td_decisions db @ [d]" "td_authorizations db3 = ?zs"
    by (simp_all add: db3(1) trust_powers_def trust_idents_def)
  moreover have "trust_powers db' = trust_powers db3" "trust_idents db' = trust_idents db3" "td_n4 db' = td_n4 db3"
    "td_devices db' = td_devices db3" "td_decisions db' = td_decisions db3" "td_authorizations db' = td_authorizations db3"
    by (subst db3(2), simp add: trust_powers_def trust_idents_def)+
  ultimately show "trust_powers db' = trust_powers db" "trust_idents db' = trust_idents db"
    "td_n4 db' = td_n4 db" "td_devices db' = td_devices db" "td_decisions db' = td_decisions db @ [d]"
    "td_authorizations db' = ?zs" by simp_all
qed

lemma decide_effect:
  assumes "decide_trust_tx E D z now kind reason db = Inr (v, db')"
  obtains s d where "find (\<lambda>s. trs_device_id s = da_device_id z \<and> trs_network_id s = da_network_id z) (td_trust db) = Some s"
    "trs_state s = da_expected_state z" "column_u64 (trs_revision s) = Inr (gen_get (da_expected_revision z))"
    "insert_trust_decision d db = Inr db'" "load_device_trust_view E (da_device_id z) db' = Inr v"
    "d = trust_decision E D z now kind reason (uint (gen_get (da_authority_generation z)))
       (uint (gen_get (da_expected_revision z))) (uint (gen_get (da_expected_revision z)) + 1)"
proof -
  let ?r = "gen_get (da_expected_revision z)"
  from assms obtain s g p n where s: "find (\<lambda>s. trs_device_id s = da_device_id z \<and> trs_network_id s = da_network_id z) (td_trust db) = Some s"
      "trs_state s = da_expected_state z" "column_u64 (trs_revision s) = Inr ?r"
      "insert_trust_decision (trust_decision E D z now kind reason g p n) db = Inr db'"
      "load_device_trust_view E (da_device_id z) db' = Inr v" "p = uint ?r"
      "to_i64 (da_authority_generation z) = Inr g"
    unfolding decide_trust_tx_def by (elim and_thenE) (auto simp: guard_simps)
  have g: "g = uint (gen_get (da_authority_generation z))" using s(7) by (simp add: to_i64_def split: if_splits)
  have n: "n = p + 1" using decision_effect(2) [OF s(4)] by (simp add: trust_decision_check_def trust_decision_def)
  show thesis using that [OF s(1-3) s(4,5)] by (simp add: g n s(6))
qed

lemma update_bindings_effect:
  assumes "update_device_bindings P f db = Inr db'"
  shows "\<forall>b\<in>set (td_bindings db). P b \<longrightarrow> device_binding_update_ok b (f b)"
    "device_binding_indexes (map (\<lambda>b. if P b then f b else b) (td_bindings db))"
    "db' = db\<lparr>td_bindings := map (\<lambda>b. if P b then f b else b) (td_bindings db),
      td_events := td_events db @ map (\<lambda>b. binding_event (f b)) (filter P (td_bindings db))\<rparr>"
proof -
  let ?rows = "map (\<lambda>b. if P b then f b else b) (td_bindings db)"
  have h: "\<forall>b\<in>set (td_bindings db). P b \<longrightarrow> device_binding_update_ok b (f b)" "device_binding_indexes ?rows"
      "insert_trust_events (map (\<lambda>b. binding_event (f b)) (filter P (td_bindings db)))
        (db\<lparr>td_bindings := ?rows\<rparr>) = Inr db'"
    using assms by (auto simp: update_device_bindings_def guard_simps)
  show "\<forall>b\<in>set (td_bindings db). P b \<longrightarrow> device_binding_update_ok b (f b)" "device_binding_indexes ?rows" by (rule h)+
  show "db' = db\<lparr>td_bindings := ?rows,
      td_events := td_events db @ map (\<lambda>b. binding_event (f b)) (filter P (td_bindings db))\<rparr>"
    using insert_events_effect [OF h(3)] by simp
qed

definition moved_bindings ::
    "n5_draws \<Rightarrow> DeviceId \<Rightarrow> Generation \<Rightarrow> ProviderBindingState list \<Rightarrow> (device_binding_row \<Rightarrow> device_binding_row) \<Rightarrow>
     AuditActor \<Rightarrow> device_binding_row list \<Rightarrow> device_binding_row list" where
  "moved_bindings D d g states f actor =
     map (\<lambda>b. if expected_binding d states (uint (gen_get g)) b then moved_binding D actor f b else b)"

lemma move_effect:
  assumes "move_binding_tx E D d g states f actor db = Inr (v, db')"
  shows "\<forall>b\<in>set (td_bindings db). expected_binding d states (uint (gen_get g)) b \<longrightarrow>
      device_binding_update_ok b (moved_binding D actor f b)"
    "device_binding_indexes (td_bindings db')"
    "td_bindings db' = moved_bindings D d g states f actor (td_bindings db)"
    "\<exists>b\<in>set (td_bindings db). expected_binding d states (uint (gen_get g)) b"
    "trust_powers db' = trust_powers db" "trust_core db' = trust_core db"
    "td_provenance db' = td_provenance db" "td_adoptions db' = td_adoptions db"
    "td_identities db' = td_identities db" "td_origins db' = td_origins db"
    "load_device_trust_view E d db' = Inr v"
proof -
  let ?P = "expected_binding d states (uint (gen_get g))"
  from assms have u: "update_device_bindings ?P (moved_binding D actor f) db = Inr db'"
    and n: "length (filter ?P (td_bindings db)) = 1" and v: "load_device_trust_view E d db' = Inr v"
    unfolding move_binding_tx_def Let_def by (elim and_thenE; auto simp: guard_simps split: if_splits)+
  note e = update_bindings_effect [OF u]
  show "\<forall>b\<in>set (td_bindings db). ?P b \<longrightarrow> device_binding_update_ok b (moved_binding D actor f b)" by (rule e)
  show "device_binding_indexes (td_bindings db')" using e(2) by (simp add: e(3))
  show "\<exists>b\<in>set (td_bindings db). ?P b" using n by (metis filter_False length_0_conv zero_neq_one)
  show "load_device_trust_view E d db' = Inr v" by (rule v)
  show "td_bindings db' = moved_bindings D d g states f actor (td_bindings db)"
    by (simp add: e(3) moved_bindings_def)
  show "trust_powers db' = trust_powers db" "trust_core db' = trust_core db"
    "td_provenance db' = td_provenance db" "td_adoptions db' = td_adoptions db"
    "td_identities db' = td_identities db" "td_origins db' = td_origins db"
    by (simp_all add: e(3) trust_powers_def trust_core_def)
qed

lemma membership_effect:
  assumes "activate_membership_tx E D token i d now db = Inr (device, db')"
  shows "trust_tables db' = trust_tables db" "activation_gate d (dv_network_id device) db"
proof -
  show "trust_tables db' = trust_tables db"
    using assms unfolding activate_membership_tx_def Let_def
    by (elim and_thenE; simp add: trust_tables_def append_effect guard_simps set_device_def split: if_splits)
      (elim exE conjE; hypsubst; simp)
  show "activation_gate d (dv_network_id device) db"
    using assms unfolding activate_membership_tx_def Let_def
    by (elim and_thenE; simp add: guard_simps split: if_splits) (elim exE conjE; hypsubst; simp)
qed

text \<open>The rows of a new device.\<close>

definition identity_row_of where
  "identity_row_of E D e n now =
     \<lparr>tri_device_id = nd5_device_id D, tri_network_id = n, tri_origin = OriginJoin (ev_join_session_id e),
      tri_confirmed_at_ms = timestamp_millis now, tri_digest = join_correlation E e\<rparr>"

definition provenance_row_of where
  "provenance_row_of D e n credential =
     \<lparr>trp_binding_id = nd5_binding_id D, trp_device_id = nd5_device_id D, trp_network_id = n,
      trp_join_session_id = ev_join_session_id e, trp_credential_id = credential,
      trp_reference = ev_provider_reference e,
      trp_provider_instance_id = pi_provider_instance_id (ev_provider_identity e)\<rparr>"

lemma persist_effect:
  assumes "persist_device E D e n credential device session now db = Inr db'"
  shows "trust_powers db' = trust_powers db" "td_authorizations db' = td_authorizations db"
    "td_decisions db' = td_decisions db" "td_adoptions db' = td_adoptions db"
    "td_trust db' = td_trust db @ [untrusted_state (nd5_device_id D) n now]"
    "\<forall>q\<in>set (td_trust db). trs_device_id q \<noteq> nd5_device_id D"
    "trust_state_check (untrusted_state (nd5_device_id D) n now)"
    "td_bindings db' = td_bindings db @ [new_join_binding D n e]"
    "device_binding_indexes (td_bindings db')" "device_binding_check (new_join_binding D n e)"
    "td_identities db' = td_identities db @ [identity_row_of E D e n now]"
    "\<forall>q\<in>set (td_identities db). tri_device_id q \<noteq> nd5_device_id D \<and> tri_origin q \<noteq> OriginJoin (ev_join_session_id e)"
    "td_origins db' = td_origins db @ [\<lparr>tro_join_session_id = ev_join_session_id e,
       tro_device_id = nd5_device_id D, tro_network_id = n\<rparr>]"
    "td_provenance db' = td_provenance db @ [provenance_row_of D e n credential]"
    "\<forall>q\<in>set (td_provenance db). trp_binding_id q \<noteq> nd5_binding_id D \<and> trp_join_session_id q \<noteq> ev_join_session_id e"
  using assms
  by (auto simp: persist_device_def name_device_def Let_def guard_simps insert_effects insert_join_origin_def
      insert_join_provenance_def trust_powers_def identity_row_of_def provenance_row_of_def list_all_iff
      untrusted_state_def)

lemma identify_effect:
  assumes "confirm_identity_tx E D e now actor db = Inr (a, db')"
  obtains (known) v where "a = IdentityAlreadyConfirmed v" "db' = db"
      "load_n5_identity_by_session (ev_join_session_id e) db = Inr (Some v)"
      "n5_provider_reference v = ev_provider_reference e" "n5_provider_identity v = ev_provider_identity e"
  | (written) v m r device s db1 ev where "a = IdentityConfirmed v"
      "load_n5_identity_by_session (ev_join_session_id e) db = Inr None"
      "(m, r) \<in> set (joined_credentials (ev_join_session_id e) (td_n4 db))"
      "cm_provider_instance_id m = pi_provider_instance_id (ev_provider_identity e)"
      "cr_provider_reference r = ev_provider_reference e" "cm_invalidation_state m = InvActive"
      "timestamp_millis now < cm_expires_at_ms m"
      "persist_device E D e (cm_network_id m) (cm_credential_id m) device s now db = Inr db1"
      "db' = db1\<lparr>td_events := td_events db1 @ [ev]\<rparr>"
      "load_n5_identity_by_session (ev_join_session_id e) db' = Inr (Some v)"
proof -
  from assms obtain found where f: "load_n5_identity_by_session (ev_join_session_id e) db = Inr found"
    unfolding confirm_identity_tx_def by (elim and_thenE)
  show thesis
  proof (cases found)
    case (Some v)
    with assms f show thesis
      by (auto simp: confirm_identity_tx_def split: if_splits intro: known)
  next
    case None
    from assms f None obtain x xs where "joined_credentials (ev_join_session_id e) (td_n4 db) = x # xs"
      by (auto simp: confirm_identity_tx_def guard_simps split: list.splits)
    then obtain m r where j: "joined_credentials (ev_join_session_id e) (td_n4 db) = (m, r) # xs"
      by (cases x) auto
    from assms f None obtain s device db1 db2 v where
      c: "cm_provider_instance_id m = pi_provider_instance_id (ev_provider_identity e)"
        "cr_provider_reference r = ev_provider_reference e" "cm_invalidation_state m = InvActive"
        "timestamp_millis now < cm_expires_at_ms m"
      and p: "persist_device E D e (cm_network_id m) (cm_credential_id m) device s now db = Inr db1"
      and t: "append_trust_audit D (cm_network_id m) (Some (nd5_device_id D)) actor
           ''device.identity_confirmed'' (Some Generation_initial) db1 = Inr db2"
      and v: "load_n5_identity_by_session (ev_join_session_id e) db2 = Inr (Some v)"
      and r: "a = IdentityConfirmed v" "db' = db2"
      by (auto simp: confirm_identity_tx_def guard_simps j)
    show thesis
      by (rule written [OF r(1) f [unfolded None] _ c p]) (use j t v r(2) in \<open>auto simp: append_effect\<close>)
  qed
qed

section \<open>What a call commits\<close>

definition binding_move ::
    "DateTime \<Rightarrow> ProviderBindingState list \<Rightarrow> (device_binding_row \<Rightarrow> device_binding_row) \<Rightarrow> bool" where
  "binding_move now states f \<longleftrightarrow>
     states = [PBActive] \<and> f = staled_binding now \<or> states = [PBStale] \<and> f = reactivated_binding now \<or>
     states = [PBActive, PBStale] \<and> f = cleanup_binding now \<or>
     states = [PBStale, PBCleanupPending] \<and> f = removed_binding now"

lemma move_binding_cases:
  assumes "move_binding E D d g states f actor db = (a, db')"
  obtains (failed) e where "a = Inl e" "db' = db"
  | (committed) v where "a = Inr v" "move_binding_tx E D d g states f actor db = Inr (v, db')"
  using assms by (auto simp: move_binding_def elim: transactional_cases split: sum.splits)

lemmas binding_moves = mark_n5_provider_binding_stale_def reactivate_exact_n5_provider_binding_def
  mark_n5_provider_binding_cleanup_pending_def mark_n5_provider_binding_removed_def

text \<open>A reconciliation commits at most one transition.\<close>

lemma reconcile_commits:
  assumes "reconcile_n5_provider_binding_from_provider E D provider d now actor before db = (a, db')"
  obtains "db' = db"
  | states f v g where "binding_move now states f" "move_binding_tx E D d g states f actor db = Inr (v, db')"
proof (cases "db' = db")
  case False
  with assms obtain states f a' view b where m: "move_binding E D d (rb_revision b) states f actor db = (a', db')"
      "(states, f) = ([PBActive], staled_binding now) \<or> (states, f) = ([PBStale], reactivated_binding now)"
    by (auto simp: reconcile_n5_provider_binding_from_provider_def reconcile_answer_def binding_moves
        split: sum.splits option.splits prod.splits if_splits)
  from m(1) show thesis
  proof (cases rule: move_binding_cases)
    case (committed v)
    show thesis by (rule that(2) [OF _ committed(2)]) (use m(2) in \<open>auto simp: binding_move_def\<close>)
  qed (use False in simp)
qed (rule that(1))

lemma perform_cases:
  assumes "n5_perform E now c db = (a, db')"
  obtains (kept) "trust_tables db' = trust_tables db"
  | (bootstrap) D n source i actor token v t where "c = CallBootstrap D n source i actor"
      "bootstrap_tx E D token v n source i now actor db = Inr (t, db')"
  | (root) D token u where "c = CallRevokeRoot D token" "revoke_root_tx E D token now db = Inr (u, db')"
      "a = DoneAnswer (Inr ())"
  | (configure) D token k u where "c = CallConfigure D token k" "configure_authority_tx E D token k db = Inr (u, db')"
  | (authority) D token i u where "c = CallRevokeAuthority D token i" "revoke_authority_tx E D token i now db = Inr (u, db')"
  | (issue) D token i d g k z where "c = CallIssueTrust D token i d g k" "a = PermitAnswer (Inr z)"
      "issue_trust_tx E D token i d g k now db = Inr (z, db')"
  | (decide) D z kind reason v where "c = (if kind = TDActivate then CallActivate D z reason else CallRevokeTrust D z reason)"
      "a = ViewAnswer (Inr v)" "decide_trust_tx E D z now kind reason db = Inr (v, db')"
      "da_capability z = decision_capability kind" "da_issued_at z \<le> now" "now < da_expires_at z"
  | (move) D d g states f actor v where "binding_move now states f"
      "move_binding_tx E D d g states f actor db = Inr (v, db')"
  | (identify) D provider s actor before e w where "c = CallIdentify D provider s actor before"
      "join_evidence E provider s now before = Inr e" "a = IdentityAnswer (Inr w)"
      "confirm_identity_tx E D e now actor db = Inr (w, db')"
proof -
  note kept' = kept [OF arg_cong [of db' db trust_tables]]
  show thesis
  proof (cases c)
    case (CallBootstrap D n source i actor)
    with assms show thesis
      by (auto simp: bootstrap_n5_owner_trust_root_def Let_def apfst_def map_prod_def split: prod.splits sum.splits
          elim!: transactional_cases intro: kept' bootstrap)
  next
    case (CallRevokeRoot D token)
    with assms show thesis
      by (auto simp: revoke_n5_owner_trust_root_def apfst_def map_prod_def split: prod.splits
          elim!: transactional_cases intro: kept' root)
  next
    case (CallConfigure D token k)
    with assms show thesis
      by (auto simp: configure_n5_trust_authority_def apfst_def map_prod_def split: prod.splits
          elim!: transactional_cases intro: kept' configure)
  next
    case (CallRevokeAuthority D token i)
    with assms show thesis
      by (auto simp: revoke_n5_trust_authority_def apfst_def map_prod_def split: prod.splits
          elim!: transactional_cases intro: kept' authority)
  next
    case (CallIssueTrust D token i d g k)
    with assms show thesis
      by (auto simp: issue_device_trust_authorization_def apfst_def map_prod_def split: prod.splits
          elim!: transactional_cases intro: kept' issue)
  next
    case (CallActivate D z reason)
    with assms decide [of TDActivate] show thesis
      by (auto simp: activate_device_trust_def apply_n5_trust_decision_def apfst_def map_prod_def not_le not_less
          split: prod.splits if_splits elim!: transactional_cases intro: kept')
  next
    case (CallRevokeTrust D z reason)
    with assms decide [of TDRevoke] show thesis
      by (auto simp: revoke_device_trust_def apply_n5_trust_decision_def apfst_def map_prod_def not_le not_less
          split: prod.splits if_splits elim!: transactional_cases intro: kept')
  next
    case (CallMembership D token i d)
    with assms show thesis
      by (auto simp: activate_trusted_device_membership_def apfst_def map_prod_def split: prod.splits
          elim!: transactional_cases intro: kept' kept membership_effect(1))
  next
    case (CallStale D d g actor)
    with assms show thesis
      by (auto simp: binding_moves apfst_def map_prod_def binding_move_def split: prod.splits
          elim!: move_binding_cases intro: kept' move)
  next
    case (CallCleanup D d g actor)
    with assms show thesis
      by (auto simp: binding_moves apfst_def map_prod_def binding_move_def split: prod.splits
          elim!: move_binding_cases intro: kept' move)
  next
    case (CallRemove D d g actor)
    with assms show thesis
      by (auto simp: binding_moves apfst_def map_prod_def binding_move_def split: prod.splits
          elim!: move_binding_cases intro: kept' move)
  next
    case (CallIdentify D provider s actor before)
    with assms show thesis
      by (auto simp: confirm_n5_device_identity_from_provider_def persist_verified_n5_device_identity_def
          apfst_def map_prod_def split: prod.splits sum.splits elim!: transactional_cases intro: kept' identify)
  next
    case (CallReconcile D provider d actor before)
    with assms show thesis
      by (auto simp: apfst_def map_prod_def split: prod.splits elim!: reconcile_commits intro: kept' move)
  qed
qed

end
