(* ===== verification/Trust_Invariants.thy ===== *)
theory Trust_Invariants
  imports Trust_Runs
begin

text \<open>
  What every run of the trust store keeps: the trust of a device is the outcome of its decisions,
  every decision spent its own authorization, every authorization was issued under a verified owner
  root, authorities depend on active roots, and provider bindings satisfy their checks and indexes.
\<close>

section \<open>Decisions of a device\<close>

definition decisions_of :: "DeviceId \<Rightarrow> trust_db \<Rightarrow> trust_decision_row list" where
  "decisions_of d db = filter (\<lambda>q. trd_device_id q = d) (td_decisions db)"

definition trust_row_ok :: "trust_db \<Rightarrow> trust_state_row \<Rightarrow> bool" where
  "trust_row_ok db s \<longleftrightarrow>
     trust_state_check s \<and> trs_revision s = 1 + int (length (decisions_of (trs_device_id s) db)) \<and>
     trs_state s = (if decisions_of (trs_device_id s) db = [] then DTUntrusted
       else trd_new_state (last (decisions_of (trs_device_id s) db)))"

definition history_ok :: "trust_db \<Rightarrow> bool" where
  "history_ok db \<longleftrightarrow>
     distinct (map trs_device_id (td_trust db)) \<and> (\<forall>s\<in>set (td_trust db). trust_row_ok db s) \<and>
     (\<forall>q\<in>set (td_decisions db). trd_device_id q \<in> trs_device_id ` set (td_trust db) \<and> trust_decision_check q)"

lemma same_device:
  assumes "distinct (map trs_device_id ss)" "s \<in> set ss" "t \<in> set ss" "trs_device_id s = trs_device_id t"
  shows "s = t"
  using assms by (auto simp: distinct_map inj_on_def)

lemma decided_state_fields [simp]:
  "trs_device_id (decided_state d s) = trs_device_id s" "trs_network_id (decided_state d s) = trs_network_id s"
  "trs_state (decided_state d s) = trd_new_state d" "trs_revision (decided_state d s) = trd_new_revision d"
  by (simp_all add: decided_state_def)

lemma core_history: "trust_core db' = trust_core db \<Longrightarrow> history_ok db' = history_ok db"
  by (simp add: history_ok_def trust_core_def trust_row_ok_def decisions_of_def)

lemma appended_history:
  assumes "history_ok db" "td_trust db' = td_trust db @ [untrusted_state d n now]"
    and "\<forall>q\<in>set (td_trust db). trs_device_id q \<noteq> d" "td_decisions db' = td_decisions db"
    and "trust_state_check (untrusted_state d n now)"
  shows "history_ok db'"
proof -
  have "d \<notin> trs_device_id ` set (td_trust db)" using assms(3) by blast
  then have "decisions_of d db = []"
    using assms(1) by (auto simp: history_ok_def decisions_of_def filter_empty_conv)
  moreover have "decisions_of e db' = decisions_of e db" for e using assms(4) by (simp add: decisions_of_def)
  ultimately show ?thesis
    using assms by (auto simp: history_ok_def trust_row_ok_def untrusted_state_def)
qed

lemma decided_row:
  assumes "history_ok db" "insert_trust_decision d db = Inr db'"
  obtains s where "s \<in> set (td_trust db)" "decides d s" "trust_row_ok db s" "trust_state_check (decided_state d s)"
    "\<forall>t\<in>set (td_trust db). decides d t \<longleftrightarrow> t = s" "\<forall>t\<in>set (td_trust db). trs_device_id t = trd_device_id d \<longrightarrow> t = s"
proof -
  note e = decision_effect [OF assms(2)]
  obtain s where s: "s \<in> set (td_trust db)" "decides d s"
    using e(1) by (auto simp: trust_decision_valid_def decides_def list_ex_iff)
  from assms(1) have "distinct (map trs_device_id (td_trust db))" by (simp add: history_ok_def)
  from same_device [OF this _ s(1)] s(2)
  have u: "\<forall>t\<in>set (td_trust db). trs_device_id t = trd_device_id d \<longrightarrow> t = s" by (simp add: decides_def)
  have "trs_revision (decided_state d s) \<noteq> trs_revision s"
    using e(2) s(2) by (simp add: trust_decision_check_def decides_def)
  moreover have "decided_state d s \<in> set (td_trust db')" using s by (auto simp: e(10))
  moreover have "decided_state d s \<notin> set (td_trust db)"
  proof
    assume "decided_state d s \<in> set (td_trust db)"
    moreover have "trs_device_id (decided_state d s) = trd_device_id d" using s(2) by (simp add: decides_def)
    ultimately have "decided_state d s = s" using u by blast
    with \<open>trs_revision (decided_state d s) \<noteq> trs_revision s\<close> show False by simp
  qed
  ultimately have "trust_state_check (decided_state d s)" using e(11) by blast
  moreover have "trust_row_ok db s" using assms(1) s(1) by (simp add: history_ok_def)
  moreover have "\<forall>t\<in>set (td_trust db). decides d t \<longleftrightarrow> t = s" using u s(2) by (auto simp: decides_def)
  ultimately show thesis using u s by (intro that [of s])
qed

lemma decided_history:
  assumes "history_ok db" "insert_trust_decision d db = Inr db'"
  shows "history_ok db'"
proof -
  note e = decision_effect [OF assms(2)]
  obtain s where s: "s \<in> set (td_trust db)" "decides d s" "trust_row_ok db s" "trust_state_check (decided_state d s)"
      "\<forall>t\<in>set (td_trust db). decides d t \<longleftrightarrow> t = s"
      "\<forall>t\<in>set (td_trust db). trs_device_id t = trd_device_id d \<longrightarrow> t = s"
    by (rule decided_row [OF assms])
  have ds: "decisions_of i db' = decisions_of i db @ (if trd_device_id d = i then [d] else [])" for i
    by (simp add: decisions_of_def e(8))
  have "trust_row_ok db' (decided_state d s)"
    using s(2-4) e(2) by (simp add: trust_row_ok_def ds decides_def trust_decision_check_def)
  moreover have "trust_row_ok db' t" if "t \<in> set (td_trust db)" "t \<noteq> s" for t
    using that assms(1) s(6) by (auto simp: history_ok_def trust_row_ok_def ds)
  ultimately have "\<forall>t\<in>set (td_trust db'). trust_row_ok db' t" using s(5) by (auto simp: e(10))
  moreover have m: "map trs_device_id (td_trust db') = map trs_device_id (td_trust db)" by (simp add: e(10))
  then have "trs_device_id ` set (td_trust db') = trs_device_id ` set (td_trust db)" by (metis set_map)
  moreover have "trd_device_id d \<in> trs_device_id ` set (td_trust db)"
    using s(1,2) by (metis decides_def imageI)
  ultimately show ?thesis using assms(1) e(2) by (auto simp: history_ok_def e(8) m)
qed

section \<open>Runs\<close>

lemma n5_run_induct [consumes 1, case_names fresh called adopted elsewhere]:
  assumes "n5_run E s" and "\<And>db. fresh_trust db \<Longrightarrow> P db []"
    and "\<And>db es now c a db'. n5_run E (db, es) \<Longrightarrow> P db es \<Longrightarrow> n5_perform E now c db = (a, db') \<Longrightarrow>
      (\<And>before. asked_at c = Some before \<Longrightarrow> before = db \<or> before \<in> tn_db ` set es) \<Longrightarrow>
      P db' (es @ [\<lparr>tn_now = now, tn_call = c, tn_db = db, tn_answer = a\<rparr>])"
    and "\<And>db es i b p now db'. n5_run E (db, es) \<Longrightarrow> P db es \<Longrightarrow> adopt_device i b p now db = Inr db' \<Longrightarrow> P db' es"
    and "\<And>db es db'. n5_run E (db, es) \<Longrightarrow> P db es \<Longrightarrow> trust_tables db' = trust_tables db \<Longrightarrow> P db' es"
  shows "P (fst s) (snd s)"
proof -
  from assms(1) obtain db0 where "fresh_trust db0" and s: "(n5_step E)\<^sup>*\<^sup>* (db0, []) s"
    by (auto simp: n5_run_def)
  from s show ?thesis
  proof (induction rule: rtranclp_induct)
    case base
    show ?case using assms(2) [OF \<open>fresh_trust db0\<close>] by simp
  next
    case (step y z)
    obtain db es where y: "y = (db, es)" by (cases y)
    from step(1) \<open>fresh_trust db0\<close> y have r: "n5_run E (db, es)" unfolding n5_run_def by blast
    from step(3) y have p: "P db es" by simp
    from step(2) [unfolded y] show ?case
    proof (cases rule: n5_step.cases)
      case (called now c a db')
      from assms(3) [OF r p called(2)] called(3) show ?thesis by (simp add: called(1))
    next
      case (adopted i b q now db')
      from assms(4) [OF r p adopted(2)] show ?thesis by (simp add: adopted(1))
    next
      case (elsewhere db')
      from assms(5) [OF r p elsewhere(2)] show ?thesis by (simp add: elsewhere(1))
    qed
  qed
qed

lemma tables_core: "trust_tables db' = trust_tables db \<Longrightarrow> trust_core db' = trust_core db"
  and tables_idents: "trust_tables db' = trust_tables db \<Longrightarrow> trust_idents db' = trust_idents db"
  and tables_powers: "trust_tables db' = trust_tables db \<Longrightarrow> trust_powers db' = trust_powers db"
  by (simp_all add: trust_tables_def trust_groups)

section \<open>What happens to the trust of devices\<close>

text \<open>A call leaves trust alone, issues an authorization, decides one, or adds an untrusted device.\<close>

lemma adopt_effect:
  assumes "adopt_device i b p now db = Inr db'"
  shows "trust_powers db' = trust_powers db" "td_authorizations db' = td_authorizations db"
    "td_decisions db' = td_decisions db"
    "td_trust db' = td_trust db @ [untrusted_state (trb_device_id b) (trb_network_id b) now]"
    "\<forall>q\<in>set (td_trust db). trs_device_id q \<noteq> trb_device_id b"
    "trust_state_check (untrusted_state (trb_device_id b) (trb_network_id b) now)"
    "td_bindings db' = td_bindings db @ [b]" "device_binding_check b" "device_binding_indexes (td_bindings db')"
    "trb_state b = PBActive" "trb_revision b = 1"
  using assms
  by (auto simp: adopt_device_def guard_simps insert_effects trust_powers_def list_all_iff untrusted_state_def)

lemma perform_trust:
  assumes "n5_perform E now c db = (a, db')"
  obtains (kept) "td_trust db' = td_trust db" "td_decisions db' = td_decisions db"
  | (decided) D z kind reason v d where
      "c = (if kind = TDActivate then CallActivate D z reason else CallRevokeTrust D z reason)"
      "a = ViewAnswer (Inr v)" "insert_trust_decision d db = Inr db'"
      "d = trust_decision E D z now kind reason (uint (gen_get (da_authority_generation z)))
         (uint (gen_get (da_expected_revision z))) (uint (gen_get (da_expected_revision z)) + 1)"
      "load_device_trust_view E (da_device_id z) db' = Inr v" "da_capability z = decision_capability kind"
  | (joined) d n where "td_trust db' = td_trust db @ [untrusted_state d n now]"
      "\<forall>q\<in>set (td_trust db). trs_device_id q \<noteq> d" "td_decisions db' = td_decisions db"
      "trust_state_check (untrusted_state d n now)"
  using assms
proof (cases rule: perform_cases)
  case kept
  then show thesis by (intro that(1)) (simp_all add: trust_tables_def)
next
  case (bootstrap D n source i actor token v t)
  from bootstrap_effect(1) [OF bootstrap(2)] show thesis by (intro that(1)) (simp_all add: trust_core_def)
next
  case (root D token u)
  from revoke_root_effect(1) [OF root(2)] show thesis by (intro that(1)) (simp_all add: trust_core_def)
next
  case (configure D token k u)
  from configure_effect(1) [OF configure(2)] show thesis by (intro that(1)) (simp_all add: trust_core_def)
next
  case (authority D token i u)
  from revoke_authority_effect(1) [OF authority(2)] show thesis by (intro that(1)) (simp_all add: trust_core_def)
next
  case (issue D token i d g k z)
  from issue_effect(3,4) [OF issue(3)] show thesis by (rule that(1))
next
  case (decide D z kind reason v)
  from decide(3) show thesis
  proof (rule decide_effect)
    fix s d assume d: "insert_trust_decision d db = Inr db'" "load_device_trust_view E (da_device_id z) db' = Inr v"
      "d = trust_decision E D z now kind reason (uint (gen_get (da_authority_generation z)))
         (uint (gen_get (da_expected_revision z))) (uint (gen_get (da_expected_revision z)) + 1)"
    show thesis by (rule that(2) [OF decide(1,2) d(1,3,2) decide(4)])
  qed
next
  case (move D d g states f actor v)
  from move_effect(6) [OF move(2)] show thesis by (intro that(1)) (simp_all add: trust_core_def)
next
  case (identify D provider s actor before e w)
  from identify(4) show thesis
  proof (cases rule: identify_effect)
    case (known v)
    then show thesis by (intro that(1)) simp_all
  next
    case (written v m r device s db1 ev)
    note p = persist_effect [OF written(8)]
    show thesis by (rule that(3) [of "nd5_device_id D" "cm_network_id m"]) (use p written(9) in simp_all)
  qed
qed

lemma perform_history:
  assumes "n5_perform E now c db = (a, db')" "history_ok db"
  shows "history_ok db'"
  using assms(1)
proof (cases rule: perform_trust)
  case kept
  with assms(2) show ?thesis by (simp add: history_ok_def trust_row_ok_def decisions_of_def)
next
  case (decided D z kind reason v d)
  show ?thesis by (rule decided_history [OF assms(2) decided(3)])
next
  case (joined d n)
  show ?thesis by (rule appended_history [OF assms(2) joined(1,2,3,4)])
qed

lemma run_history:
  assumes "n5_run E (db, entries)"
  shows "history_ok db"
proof -
  have "history_ok (fst (db, entries))"
    using assms
  proof (induction rule: n5_run_induct)
    case (fresh db)
    then show ?case by (simp add: fresh_trust_def trust_tables_def history_ok_def)
  next
    case (called db es now c a db')
    then show ?case by (blast intro: perform_history)
  next
    case (adopted db es i b p now db')
    note e = adopt_effect [OF adopted(2)]
    show ?case by (rule appended_history [OF adopted(3) e(4,5,3,6)])
  next
    case (elsewhere db es db')
    then show ?case using core_history [OF tables_core [OF elsewhere(2)]] by blast
  qed
  then show ?thesis by simp
qed

end
