(* ===== verification/Trust_Bindings.thy ===== *)
theory Trust_Bindings
  imports Trust_Invariants
begin

text \<open>
  How the provider binding of a device goes stale. The first part keeps, over the runs of the trust
  store, what the table checks of a binding; the second says what a staling writes, and under which
  conditions on the database the store must accept it. The properties of reconciliation rest on both.
\<close>

lemma view_untrusted: "load_device_trust_view E d db = Inr v \<Longrightarrow> \<not> tv_currently_trusted v"
  by (auto simp: load_device_trust_view_def guard_simps)

section \<open>A binding that goes stale\<close>

text \<open>The rows of the bindings satisfy the checks and the unique indexes of their table.\<close>

definition bindings_sound :: "trust_db \<Rightarrow> bool" where
  "bindings_sound db \<longleftrightarrow> device_binding_indexes (td_bindings db) \<and> list_all device_binding_check (td_bindings db)"

lemma idents_sound: "trust_idents db' = trust_idents db \<Longrightarrow> bindings_sound db \<Longrightarrow> bindings_sound db'"
  by (simp add: trust_idents_def bindings_sound_def)

lemma perform_bindings:
  assumes "n5_perform E now c db = (a, db')" "bindings_sound db"
  shows "bindings_sound db'"
  using assms(1)
proof (cases rule: perform_cases)
  case kept
  show ?thesis by (rule idents_sound [OF tables_idents [OF kept] assms(2)])
next
  case (bootstrap D n source i actor token v t)
  show ?thesis by (rule idents_sound [OF bootstrap_effect(2) [OF bootstrap(2)] assms(2)])
next
  case (root D token u)
  show ?thesis by (rule idents_sound [OF revoke_root_effect(2) [OF root(2)] assms(2)])
next
  case (configure D token k u)
  show ?thesis by (rule idents_sound [OF configure_effect(2) [OF configure(2)] assms(2)])
next
  case (authority D token i u)
  show ?thesis by (rule idents_sound [OF revoke_authority_effect(2) [OF authority(2)] assms(2)])
next
  case (issue D token i d g k z)
  show ?thesis by (rule idents_sound [OF issue_effect(2) [OF issue(3)] assms(2)])
next
  case (decide D z kind reason v)
  from decide(3) show ?thesis by (rule decide_effect) (rule idents_sound [OF decision_effect(5) assms(2)])
next
  case (move D d g states f actor v)
  note e = move_effect [OF move(2)]
  show ?thesis using e(1,2) assms(2)
    by (auto simp: bindings_sound_def e(3) moved_bindings_def list_all_iff device_binding_update_ok_def)
next
  case (identify D provider s actor before e w)
  from identify(4) show ?thesis
  proof (cases rule: identify_effect)
    case (known v)
    with assms(2) show ?thesis by simp
  next
    case (written v m r device s db1 ev)
    note p = persist_effect(8-10) [OF written(8)]
    show ?thesis using p assms(2) by (simp add: bindings_sound_def written(9))
  qed
qed

lemma run_bindings:
  assumes "n5_run E (db, entries)"
  shows "bindings_sound db"
proof -
  have "bindings_sound (fst (db, entries))"
    using assms
  proof (induction rule: n5_run_induct)
    case (fresh db)
    then show ?case
      by (simp add: fresh_trust_def trust_tables_def bindings_sound_def device_binding_indexes_def active_bindings_def)
  next
    case (called db es now c a db')
    show ?case by (rule perform_bindings [OF called(2,4)])
  next
    case (adopted db es i b p now db')
    from adopt_effect(7-9) [OF adopted(2)] adopted(3) show ?case by (simp add: bindings_sound_def)
  next
    case (elsewhere db es db')
    show ?case by (rule idents_sound [OF tables_idents [OF elsewhere(2)] elsewhere(3)])
  qed
  then show ?thesis by simp
qed

text \<open>What the store asks of a write that stales the row \<open>r\<close>: the audit identifier it drew is unused,
  the observation is not dated after the call, and the view of the device can be read.\<close>

definition staling_admitted ::
    "trust_env \<Rightarrow> n5_draws \<Rightarrow> DeviceId \<Rightarrow> DateTime \<Rightarrow> AuditActor \<Rightarrow> trust_db \<Rightarrow> device_binding_row \<Rightarrow> bool" where
  "staling_admitted E D d now actor db r \<longleftrightarrow>
     \<not> ad_fail_before_audit (td_n4 db) \<and> nd5_audit D \<notin> tre_event_id ` set (td_events db) \<and>
     Some (nd5_audit D) \<notin> trb_last_audit ` set (td_bindings db) \<and>
     trb_observed_at_ms r \<le> timestamp_millis now \<and> trb_revision r + 1 < 2 ^ 63 \<and>
     (au_source actor = ''nodescale'' \<longrightarrow> au_actor_id actor = None) \<and> is_ok (load_device_trust_view E d db)"

text \<open>The row, its audit event and nothing else; no binding of the device is left active.\<close>

definition binding_staled ::
    "n5_draws \<Rightarrow> DeviceId \<Rightarrow> Generation \<Rightarrow> DateTime \<Rightarrow> AuditActor \<Rightarrow> trust_db \<Rightarrow> trust_db \<Rightarrow> bool" where
  "binding_staled D d g now actor db db' \<longleftrightarrow>
     (\<exists>r\<in>set (td_bindings db). expected_binding d [PBActive] (uint (gen_get g)) r \<and>
        (let r' = r\<lparr>trb_state := PBStale, trb_stale_at_ms := Some (timestamp_millis now),
             trb_revision := trb_revision r + 1, trb_last_audit := Some (nd5_audit D),
             trb_actor_source := Some (au_source actor), trb_actor_id := au_actor_id actor\<rparr>
         in db' = db\<lparr>td_bindings := map (\<lambda>q. if q = r then r' else q) (td_bindings db),
              td_events := td_events db @ [binding_event r']\<rparr>)) \<and>
     (\<forall>q\<in>set (td_bindings db'). trb_device_id q = d \<longrightarrow> trb_state q = PBStale)"

lemma only_row:
  assumes "length (filter P xs) = 1"
  obtains r where "r \<in> set xs" "P r" "filter P xs = [r]" "\<And>q. q \<in> set xs \<Longrightarrow> P q \<longleftrightarrow> q = r"
proof -
  from assms obtain r where f: "filter P xs = [r]" by (auto simp: length_Suc_conv)
  then have "set (filter P xs) = {r}" by simp
  then have m: "q \<in> set xs \<and> P q \<longleftrightarrow> q = r" for q by (simp only: set_filter set_eq_iff mem_Collect_eq singleton_iff)
  show thesis by (rule that [OF _ _ f]) (use m in blast)+
qed

lemma marked_stale:
  assumes "mark_n5_provider_binding_stale E D d g now actor db = (answer, db')"
  obtains (failed) e where "answer = Inl e" "db' = db"
  | (staled) v where "answer = Inr v" "\<not> tv_currently_trusted v" "binding_staled D d g now actor db db'"
  using assms unfolding mark_n5_provider_binding_stale_def
proof (cases rule: move_binding_cases)
  case (committed v)
  let ?P = "expected_binding d [PBActive] (uint (gen_get g))" and ?f = "moved_binding D actor (staled_binding now)"
  note e = move_effect [OF committed(2)]
  from committed(2) have u: "update_device_bindings ?P ?f db = Inr db'" and n: "length (filter ?P (td_bindings db)) = 1"
    unfolding move_binding_tx_def Let_def by (elim and_thenE; auto simp: guard_simps split: if_splits)+
  from n obtain r where r: "r \<in> set (td_bindings db)" "?P r" "filter ?P (td_bindings db) = [r]"
      "\<And>q. q \<in> set (td_bindings db) \<Longrightarrow> ?P q \<longleftrightarrow> q = r" by (rule only_row) blast
  have m: "map (\<lambda>q. if ?P q then ?f q else q) (td_bindings db) = map (\<lambda>q. if q = r then ?f r else q) (td_bindings db)"
    using r(4) by simp
  have f: "?f r = r\<lparr>trb_state := PBStale, trb_stale_at_ms := Some (timestamp_millis now),
      trb_revision := trb_revision r + 1, trb_last_audit := Some (nd5_audit D),
      trb_actor_source := Some (au_source actor), trb_actor_id := au_actor_id actor\<rparr>"
    by (simp add: moved_binding_def staled_binding_def)
  have "(if ?P r then ?f r else r) \<in> set (td_bindings db')" unfolding e(3) moved_bindings_def using r(1) by simp
  then have row: "?f r \<in> set (td_bindings db')" "trb_device_id (?f r) = d" "trb_state (?f r) = PBStale"
    using r(2) by (simp_all add: f) (simp add: expected_binding_def)
  have "inj_on trb_device_id (set (td_bindings db'))"
    using e(2) by (simp add: device_binding_indexes_def distinct_map)
  with row have "\<forall>q\<in>set (td_bindings db'). trb_device_id q = d \<longrightarrow> trb_state q = PBStale" by (metis inj_onD)
  moreover have "db' = db\<lparr>td_bindings := map (\<lambda>q. if q = r then ?f r else q) (td_bindings db),
      td_events := td_events db @ [binding_event (?f r)]\<rparr>"
    using update_bindings_effect(3) [OF u] unfolding m r(3) by simp
  ultimately have "binding_staled D d g now actor db db'"
    using r(1,2) unfolding binding_staled_def Let_def f by blast
  with committed(1) view_untrusted [OF e(11)] show thesis by (intro staled)
qed (rule failed)

section \<open>When a staling is accepted\<close>

text \<open>A transition keeps what identifies a binding, so the view of its device stays readable.\<close>

definition keeps_binding :: "(device_binding_row \<Rightarrow> device_binding_row) \<Rightarrow> bool" where
  "keeps_binding f \<longleftrightarrow> (\<forall>b. trb_binding_id (f b) = trb_binding_id b \<and> trb_device_id (f b) = trb_device_id b \<and>
     trb_network_id (f b) = trb_network_id b \<and> trb_provenance_kind (f b) = trb_provenance_kind b \<and>
     trb_provider_instance_id (f b) = trb_provider_instance_id b \<and>
     trb_provider_node_id (f b) = trb_provider_node_id b \<and> trb_machine_key (f b) = trb_machine_key b)"

lemma identity_rows_moved:
  assumes "keeps_binding f"
  shows "identity_rows s (db\<lparr>td_bindings := map f (td_bindings db), td_events := es\<rparr>) =
    map (\<lambda>(i, p, b). (i, p, f b)) (identity_rows s db)"
  using assms
  by (simp add: identity_rows_def keeps_binding_def map_concat comp_def if_distrib [of "map h" for h] cong: if_cong)

lemma binding_joins_moved:
  assumes "keeps_binding f"
  shows "binding_joins d (db\<lparr>td_bindings := map f (td_bindings db), td_events := es\<rparr>) = binding_joins d db"
  using assms by (simp add: binding_joins_def keeps_binding_def comp_def cong: if_cong)

lemma identity_moved:
  assumes "keeps_binding f" "is_ok (n5_identity s i p b)" "0 < trb_revision (f b)" "trb_revision (f b) < 2 ^ 63"
  shows "is_ok (n5_identity s i p (f b))"
proof -
  have "uint (word_of_int (trb_revision (f b)) :: u64) = trb_revision (f b)"
    using assms(3,4) by (simp add: uint_word_of_int)
  then have "(word_of_int (trb_revision (f b)) :: u64) \<noteq> 0" using assms(3) by auto
  then show ?thesis using assms
    by (auto simp: n5_identity_def keeps_binding_def is_ok_def column_u64_def Generation_new_def domain_conflict_def
        and_then_def split: sum.splits if_splits)
qed

lemma view_moved:
  assumes "keeps_binding f" "is_ok (load_device_trust_view E d db)"
    and "\<And>b. b \<in> set (td_bindings db) \<Longrightarrow> 0 < trb_revision (f b) \<and> trb_revision (f b) < 2 ^ 63"
  shows "is_ok (load_device_trust_view E d (db\<lparr>td_bindings := map f (td_bindings db), td_events := es\<rparr>))"
proof -
  let ?db = "db\<lparr>td_bindings := map f (td_bindings db), td_events := es\<rparr>"
  have rows: "b \<in> set (td_bindings db)" if "(i, p, b) \<in> set (identity_rows s db)" for i p b s
    using that by (auto simp: identity_rows_def split: if_splits)
  have s: "trust_state_of d ?db = trust_state_of d db" by (simp add: trust_state_of_def)
  have ids: "\<exists>v'. load_n5_identity_by_session j ?db = Inr (Some v')"
    if "load_n5_identity_by_session j db = Inr (Some v)" for j v
  proof -
    from that obtain i p b rest where r: "identity_rows j db = (i, p, b) # rest" "n5_identity j i p b = Inr v"
      by (auto simp: load_n5_identity_by_session_def guard_simps split: list.splits prod.splits)
    then have "b \<in> set (td_bindings db)" by (intro rows [of i p b j]) simp
    from assms(3) [OF this] have "is_ok (n5_identity j i p (f b))"
      using identity_moved [OF assms(1), of j i p b] r(2) by (simp add: is_ok_def)
    then show ?thesis
      by (auto simp: load_n5_identity_by_session_def identity_rows_moved [OF assms(1)] r(1) is_ok_def guard_simps
          split: sum.splits)
  qed
  from assms(2) obtain v where "load_device_trust_view E d db = Inr v" by (auto simp: is_ok_iff)
  then have "\<exists>v'. load_device_trust_view E d ?db = Inr v'"
    using ids unfolding load_device_trust_view_def s binding_joins_moved [OF assms(1)]
    by (cases "binding_joins d db") (auto simp: guard_simps, blast)
  then show ?thesis by (simp add: is_ok_iff)
qed

lemma audited_actor:
  assumes "validate_n5_audit_actor actor = Inr u" "au_source actor = ''nodescale'' \<longrightarrow> au_actor_id actor = None"
  shows "bounded_safe 64 (au_source actor)" "(au_source actor = ''nodescale'') = (au_actor_id actor = None)"
    "case au_actor_id actor of None \<Rightarrow> True | Some i \<Rightarrow> bounded_safe 255 i"
proof -
  have "bounded_safe 64 ''nodescale''" by code_simp
  with assms show "bounded_safe 64 (au_source actor)" "(au_source actor = ''nodescale'') = (au_actor_id actor = None)"
    "case au_actor_id actor of None \<Rightarrow> True | Some i \<Rightarrow> bounded_safe 255 i"
    by (auto simp: validate_n5_audit_actor_def validate_n5_principal_def guard_simps split: option.splits)
qed

lemma indexes_staled:
  assumes "device_binding_indexes (xs @ r # ys)" "trb_state r = PBActive" "trb_state r' = PBStale"
    and "trb_binding_id r' = trb_binding_id r" "trb_device_id r' = trb_device_id r"
    and "trb_last_audit r' = Some a" "Some a \<notin> trb_last_audit ` set (xs @ r # ys)"
  shows "device_binding_indexes (xs @ r' # ys)"
proof -
  let ?audits = "\<lambda>rs. map the (filter (\<lambda>a. a \<noteq> None) (map trb_last_audit rs))"
  have fresh: "a \<notin> set (?audits rs)" if "Some a \<notin> trb_last_audit ` set rs" for rs
    using that by (force simp: image_iff)
  have "a \<notin> set (?audits xs)" "a \<notin> set (?audits ys)"
    by (rule fresh; use assms(7) in \<open>simp add: image_Un\<close>)+
  moreover have "distinct (?audits (xs @ r # ys))" using assms(1) by (simp only: device_binding_indexes_def)
  ultimately have "distinct (?audits (xs @ r' # ys))"
    by (cases "trb_last_audit r") (simp_all add: assms(6))
  moreover have "active_bindings (xs @ r' # ys) = active_bindings xs @ active_bindings ys"
    "active_bindings (xs @ r # ys) = active_bindings xs @ r # active_bindings ys"
    by (simp_all add: active_bindings_def assms(2,3))
  ultimately show ?thesis using assms(1) by (simp add: device_binding_indexes_def assms(4,5))
qed

lemma staling_succeeds:
  assumes "bindings_sound db" "validate_n5_audit_actor actor = Inr u" "r \<in> set (td_bindings db)"
    and "expected_binding d [PBActive] (uint (gen_get g)) r" "staling_admitted E D d now actor db r"
  shows "\<exists>v db'. mark_n5_provider_binding_stale E D d g now actor db = (Inr v, db')"
proof -
  let ?P = "expected_binding d [PBActive] (uint (gen_get g))" and ?f = "moved_binding D actor (staled_binding now)"
  let ?rows = "map (\<lambda>q. if ?P q then ?f q else q) (td_bindings db)"
  have ix: "device_binding_indexes (td_bindings db)" and ck: "\<And>q. q \<in> set (td_bindings db) \<Longrightarrow> device_binding_check q"
    using assms(1) by (auto simp: bindings_sound_def list_all_iff)
  have "inj_on trb_device_id (set (td_bindings db))" using ix by (simp add: device_binding_indexes_def distinct_map)
  then have P: "?P q \<longleftrightarrow> q = r" if "q \<in> set (td_bindings db)" for q
    using that assms(3,4) by (auto simp: expected_binding_def dest: inj_onD)
  obtain xs ys where split: "td_bindings db = xs @ r # ys" using assms(3) by (auto simp: in_set_conv_decomp)
  have "distinct (td_bindings db)" using ix by (auto simp: device_binding_indexes_def distinct_map)
  then have other: "\<not> ?P q" if "q \<in> set xs \<union> set ys" for q using P [of q] that by (auto simp: split)
  then have only: "filter ?P (td_bindings db) = [r]" and rows: "?rows = xs @ ?f r # ys"
    using assms(4) by (simp_all add: split filter_False map_idI)
  have st: "trb_state r = PBActive" using assms(4) by (simp add: expected_binding_def)
  note adm = assms(5) [unfolded staling_admitted_def]
  note actor = audited_actor [OF assms(2)]
  have upd: "device_binding_update_ok r (?f r)"
    using ck [OF assms(3)] st adm actor assms(3)
    by (auto simp: device_binding_update_ok_def device_binding_check_def moved_binding_def staled_binding_def since_def
        split: option.splits)
  have ix': "device_binding_indexes ?rows"
    unfolding rows by (rule indexes_staled [OF ix [unfolded split] st, of _ "nd5_audit D"])
      (use adm in \<open>auto simp: split moved_binding_def staled_binding_def\<close>)
  let ?db = "db\<lparr>td_bindings := ?rows, td_events := td_events db @ [binding_event (?f r)]\<rparr>"
  have "\<forall>e\<in>set (td_events db). tre_event_id e \<noteq> nd5_audit D" using adm by (metis imageI)
  with P upd ix' have "update_device_bindings ?P ?f db = Inr ?db"
    by (auto simp: update_device_bindings_def update_where_Inr guard_simps only insert_trust_event_def list_all_iff
        binding_event_def moved_binding_def)
  moreover have "keeps_binding (\<lambda>q. if ?P q then ?f q else q)"
    by (simp add: keeps_binding_def moved_binding_def staled_binding_def)
  then have "is_ok (load_device_trust_view E d ?db)"
  proof (rule view_moved)
    show "is_ok (load_device_trust_view E d db)" using adm by simp
    fix q assume q: "q \<in> set (td_bindings db)"
    from ck [OF q] P [OF q] adm
    show "0 < trb_revision (if ?P q then ?f q else q) \<and> trb_revision (if ?P q then ?f q else q) < 2 ^ 63"
      by (auto simp: device_binding_check_def moved_binding_def)
  qed
  then obtain v where "load_device_trust_view E d ?db = Inr v" by (auto simp: is_ok_def split: sum.splits)
  moreover have "uint (gen_get g) < 2 ^ 63"
    using ck [OF assms(3)] assms(4) by (simp add: device_binding_check_def expected_binding_def)
  ultimately have "move_binding_tx E D d g [PBActive] (staled_binding now) actor db = Inr (v, ?db)"
    using adm by (simp add: move_binding_tx_def injected_failure_def guard_simps only bind_u64_def)
  then show ?thesis
    using assms(2) by (simp add: mark_n5_provider_binding_stale_def move_binding_def transactional_def)
qed

end
