(* ===== verification/Trust_Properties.thy ===== *)
theory Trust_Properties
  imports Trust_Bindings
begin

text \<open>
  What every run of the trust store guarantees: the trust of a device follows the lifecycle of the
  domain one decision at a time, every decision spent its own authorization under authorities in
  force, a revoked root freezes its network, and an affirmation rests on a fresh observation; with a
  sample run for the witnesses.
\<close>

section \<open>Trust as a lifecycle\<close>

definition trust_abs :: "DeviceId \<Rightarrow> trust_db \<Rightarrow> (DeviceTrustState \<times> int) option" where
  "trust_abs d db = map_option (\<lambda>s. (trs_state s, trs_revision s)) (trust_state_of d db)"

inductive trust_move :: "(DeviceTrustState \<times> int) option \<Rightarrow> (DeviceTrustState \<times> int) option \<Rightarrow> bool" where
  stays: "trust_move x x"
| appears: "trust_move None (Some (DTUntrusted, 1))"
| decided: "DeviceTrustState_transition s t = Inr t \<Longrightarrow> trust_move (Some (s, r)) (Some (t, r + 1))"

definition shows_trust :: "DeviceId \<Rightarrow> trust_db \<Rightarrow> n5_answer \<Rightarrow> bool" where
  "shows_trust d db a \<longleftrightarrow>
     (\<exists>v. a = ViewAnswer (Inr v) \<and> tv_device_id v = d \<and>
       trust_abs d db = Some (tv_state v, uint (gen_get (tv_revision v))))"

lemma find_kept_device:
  assumes "\<And>s. trs_device_id (g s) = trs_device_id s"
  shows "find (\<lambda>s. trs_device_id s = d) (map g ss) = map_option g (find (\<lambda>s. trs_device_id s = d) ss)"
  by (induction ss) (simp_all add: assms)

lemma find_appended_device:
  "find (\<lambda>s. trs_device_id s = d) (ss @ [u]) =
     (case find (\<lambda>s. trs_device_id s = d) ss of Some s \<Rightarrow> Some s
      | None \<Rightarrow> if trs_device_id u = d then Some u else None)"
  by (induction ss) simp_all

lemma trust_state_of_Some: "trust_state_of d db = Some s \<Longrightarrow> s \<in> set (td_trust db) \<and> trs_device_id s = d"
  using find_Some_iff [of _ "td_trust db" s] by (auto simp: trust_state_of_def)

lemma trust_state_of_unique:
  assumes "history_ok db" "s \<in> set (td_trust db)"
  shows "trust_state_of (trs_device_id s) db = Some s"
proof (cases "trust_state_of (trs_device_id s) db")
  case None
  with assms(2) show ?thesis by (auto simp: trust_state_of_def find_None_iff)
next
  case (Some t)
  then have "t \<in> set (td_trust db)" "trs_device_id t = trs_device_id s" using trust_state_of_Some by blast+
  with assms Some show ?thesis
    using same_device [of "td_trust db" t s] by (simp add: history_ok_def)
qed

lemma untrusted_fields [simp]:
  "trs_device_id (untrusted_state d n now) = d" "trs_network_id (untrusted_state d n now) = n"
  "trs_state (untrusted_state d n now) = DTUntrusted" "trs_revision (untrusted_state d n now) = 1"
  by (simp_all add: untrusted_state_def)

lemma appended_abs:
  assumes "td_trust db' = td_trust db @ [untrusted_state d n now]" "\<forall>q\<in>set (td_trust db). trs_device_id q \<noteq> d"
  shows "trust_move (trust_abs i db) (trust_abs i db')"
    "trust_abs i db' \<noteq> trust_abs i db \<Longrightarrow> trust_abs i db = None"
proof -
  have "trust_state_of i db' = (case trust_state_of i db of Some s \<Rightarrow> Some s
      | None \<Rightarrow> if d = i then Some (untrusted_state d n now) else None)"
    by (simp add: trust_state_of_def assms(1) find_appended_device split: option.split)
  then show "trust_move (trust_abs i db) (trust_abs i db')"
    "trust_abs i db' \<noteq> trust_abs i db \<Longrightarrow> trust_abs i db = None"
    by (auto simp: trust_abs_def intro: trust_move.intros split: option.splits)
qed

lemma decided_abs:
  assumes "history_ok db" "insert_trust_decision d db = Inr db'"
  shows "trust_move (trust_abs i db) (trust_abs i db')"
    "i \<noteq> trd_device_id d \<Longrightarrow> trust_abs i db' = trust_abs i db"
proof -
  note e = decision_effect [OF assms(2)]
  obtain s where s: "s \<in> set (td_trust db)" "decides d s"
      "\<forall>t\<in>set (td_trust db). decides d t \<longleftrightarrow> t = s"
    by (rule decided_row [OF assms])
  let ?g = "\<lambda>t. if decides d t then decided_state d t else t"
  have f: "trust_state_of i db' = map_option ?g (trust_state_of i db)"
    by (simp add: trust_state_of_def e(10) find_kept_device)
  show other: "trust_abs i db' = trust_abs i db" if "i \<noteq> trd_device_id d"
  proof (cases "trust_state_of i db")
    case (Some t)
    then have "trs_device_id t = i" by (auto simp: trust_state_of_def find_Some_iff)
    then have "\<not> decides d t" using that by (simp add: decides_def)
    then show ?thesis by (simp add: trust_abs_def f Some)
  qed (simp add: trust_abs_def f)
  show "trust_move (trust_abs i db) (trust_abs i db')"
  proof (cases "i = trd_device_id d")
    case True
    then have "trust_state_of i db = Some s"
      using trust_state_of_unique [OF assms(1) s(1)] s(2) by (simp add: decides_def)
    then have "trust_abs i db = Some (trd_prior_state d, trd_prior_revision d)"
      "trust_abs i db' = Some (trd_new_state d, trd_prior_revision d + 1)"
      using s(2) e(2) by (simp_all add: trust_abs_def f decides_def trust_decision_check_def)
    moreover have "DeviceTrustState_transition (trd_prior_state d) (trd_new_state d) = Inr (trd_new_state d)"
      using e(2) by (auto simp: trust_decision_check_def DeviceTrustState_transition_def enum_transition_def
          split: TrustDecisionKind.splits)
    ultimately show ?thesis by (simp add: trust_move.decided)
  qed (simp add: other trust_move.stays)
qed

lemma view_shows_trust:
  assumes "load_device_trust_view E d db = Inr v" "history_ok db"
  shows "shows_trust d db (ViewAnswer (Inr v))"
proof -
  from assms(1) obtain s r g where s: "trust_state_of d db = Some s" "column_u64 (trs_revision s) = Inr r"
      "Generation_new r = Inr g" "tv_device_id v = d" "tv_state v = trs_state s" "tv_revision v = g"
    by (auto simp: load_device_trust_view_def guard_simps domain_conflict_def)
  with assms(2) trust_state_of_Some [OF s(1)] have "trust_row_ok db s" by (simp add: history_ok_def)
  then have "0 \<le> trs_revision s" "trs_revision s < 2 ^ 63" by (simp_all add: trust_row_ok_def trust_state_check_def)
  then have "uint (word_of_int (trs_revision s) :: u64) = trs_revision s"
    by (simp add: uint_word_of_int take_bit_int_eq_self)
  moreover have "gen_get g = word_of_int (trs_revision s)"
    using s(2,3) by (auto simp: Generation_new_def guard_simps split: if_splits)
  ultimately have "uint (gen_get g) = trs_revision s" by simp
  with s show ?thesis by (simp add: shows_trust_def trust_abs_def)
qed

lemma abs_history:
  assumes "history_ok db" "trust_abs d db = Some (s, r)"
  shows "r = 1 + int (length (decisions_of d db))"
    "s = (if decisions_of d db = [] then DTUntrusted else trd_new_state (last (decisions_of d db)))"
proof -
  from assms(2) obtain q where q: "q \<in> set (td_trust db)" "trs_device_id q = d" "trs_state q = s" "trs_revision q = r"
    using trust_state_of_Some by (auto simp: trust_abs_def)
  with assms(1) have "trust_row_ok db q" by (simp add: history_ok_def)
  with q show "r = 1 + int (length (decisions_of d db))"
    "s = (if decisions_of d db = [] then DTUntrusted else trd_new_state (last (decisions_of d db)))"
    by (simp_all add: trust_row_ok_def)
qed

lemma tables_abs: "trust_tables db' = trust_tables db \<Longrightarrow> trust_abs d db' = trust_abs d db"
  by (simp add: trust_tables_def trust_abs_def trust_state_of_def)

lemma called_abs:
  assumes "n5_perform E now c db = (a, db')" "history_ok db"
  shows "trust_move (trust_abs d db) (trust_abs d db') \<and>
    (trust_abs d db \<noteq> None \<and> trust_abs d db' \<noteq> trust_abs d db \<longrightarrow> shows_trust d db' a)"
  using assms(1)
proof (cases rule: perform_trust)
  case kept
  then show ?thesis by (simp add: trust_abs_def trust_state_of_def trust_move.stays)
next
  case (decided D z kind reason v q)
  have "trd_device_id q = da_device_id z" by (simp add: decided(4) trust_decision_def)
  then show ?thesis
    using decided_abs [OF assms(2) decided(3), of d] view_shows_trust [OF decided(5) decided_history [OF assms(2) decided(3)]] decided(2) by auto
next
  case (joined i n)
  then show ?thesis using appended_abs [OF joined(1,2), of d] by auto
qed

lemma step_history:
  assumes "n5_step E (db, entries) (db', entries')" "history_ok db"
  shows "history_ok db'"
  using assms(1)
proof (cases rule: n5_step.cases)
  case (called now c answer)
  then show ?thesis using perform_history [OF _ assms(2)] by blast
next
  case (adopted i b p now)
  note e = adopt_effect [OF adopted(2)]
  show ?thesis by (rule appended_history [OF assms(2) e(4,5,3,6)])
next
  case elsewhere
  then show ?thesis using core_history [OF tables_core] assms(2) by blast
qed

text \<open>C13: The trust of a device only appears untrusted and then takes one transition of the domain's
  lifecycle at a time; its revision counts its decisions, its state is what the last of them set,
  and no step changes the trust of an existing device unless its answer shows the new trust.\<close>
theorem trust_refines_lifecycle:
  assumes "n5_run E (db, entries)" "n5_step E (db, entries) (db', entries')"
  shows "trust_move (trust_abs d db) (trust_abs d db') \<and>
    (\<forall>s r. trust_abs d db' = Some (s, r) \<longrightarrow> r = 1 + int (length (decisions_of d db')) \<and>
      s = (if decisions_of d db' = [] then DTUntrusted else trd_new_state (last (decisions_of d db')))) \<and>
    (trust_abs d db \<noteq> None \<and> trust_abs d db' \<noteq> trust_abs d db \<longrightarrow>
      (\<exists>e. entries' = entries @ [e] \<and> shows_trust d db' (tn_answer e)))"
proof -
  have h: "history_ok db" by (rule run_history [OF assms(1)])
  have "\<forall>s r. trust_abs d db' = Some (s, r) \<longrightarrow> r = 1 + int (length (decisions_of d db')) \<and>
      s = (if decisions_of d db' = [] then DTUntrusted else trd_new_state (last (decisions_of d db')))"
    using abs_history [OF step_history [OF assms(2) h]] by blast
  moreover from assms(2) have "trust_move (trust_abs d db) (trust_abs d db') \<and>
    (trust_abs d db \<noteq> None \<and> trust_abs d db' \<noteq> trust_abs d db \<longrightarrow>
      (\<exists>e. entries' = entries @ [e] \<and> shows_trust d db' (tn_answer e)))"
  proof (cases rule: n5_step.cases)
    case (called now c answer)
    from called_abs [OF called(2) h, of d] called(1) show ?thesis by auto
  next
    case (adopted i b p now)
    note e = adopt_effect [OF adopted(2)]
    show ?thesis using appended_abs [OF e(4,5), of d] by auto
  next
    case elsewhere
    from tables_abs [OF elsewhere(2), of d] show ?thesis by (simp add: trust_move.stays)
  qed
  ultimately show ?thesis by blast
qed

section \<open>Authorizations and decisions\<close>

text \<open>The authorization a successful decision spent, and the call that issued it.\<close>

definition trust_decided :: "n5_entry \<Rightarrow> DeviceTrustAuthorization option" where
  "trust_decided e =
     (case (tn_call e, tn_answer e) of
        (CallActivate D z reason, ViewAnswer (Inr v)) \<Rightarrow> Some z
      | (CallRevokeTrust D z reason, ViewAnswer (Inr v)) \<Rightarrow> Some z
      | _ \<Rightarrow> None)"

definition permit :: "trust_env \<Rightarrow> DeviceTrustAuthorization \<Rightarrow> n5_entry \<Rightarrow> bool" where
  "permit E z i \<longleftrightarrow>
     (\<exists>D token root. tn_call i = CallIssueTrust D token (da_authority_id z) (da_device_id z)
         (da_expected_revision z) (da_capability z) \<and> tn_answer i = PermitAnswer (Inr z) \<and>
       verify_n5_owner_root (te_argon E) token (da_network_id z) (td_roots (tn_db i)) = Inr root)"

text \<open>Two authorizations that agree in all that a decision is checked against.\<close>

definition same_permit :: "DeviceTrustAuthorization \<Rightarrow> DeviceTrustAuthorization \<Rightarrow> bool" where
  "same_permit y z \<longleftrightarrow>
     da_action_id y = da_action_id z \<and> da_authority_id y = da_authority_id z \<and>
     da_device_id y = da_device_id z \<and> da_network_id y = da_network_id z \<and>
     da_expected_state y = da_expected_state z \<and> da_expected_revision y = da_expected_revision z \<and>
     da_capability y = da_capability z"

definition backed_decision :: "trust_env \<Rightarrow> n5_entry list \<Rightarrow> n5_entry \<Rightarrow> DeviceTrustAuthorization \<Rightarrow> bool" where
  "backed_decision E earlier e z \<longleftrightarrow>
     (\<exists>i\<in>set earlier. \<exists>y. permit E y i \<and> same_permit y z \<and>
        timestamp_millis (da_issued_at y) \<le> timestamp_millis (tn_now e) \<and>
        timestamp_millis (tn_now e) < timestamp_millis (da_expires_at y)) \<and>
     (\<exists>a\<in>set (td_authorities (tn_db e)). ta_authority_id a = da_authority_id z \<and>
        authority_in_force (da_network_id z) (timestamp_millis (tn_now e)) (tn_db e) a) \<and>
     (da_authority_id z, da_capability z) \<in> set (td_capabilities (tn_db e)) \<and>
     (da_capability z = ActivateDeviceTrust \<longrightarrow>
        list_ex (active_device_binding (da_device_id z) (da_network_id z)) (td_bindings (tn_db e)))"

definition open_row :: "trust_authorization_row \<Rightarrow> trust_authorization_row" where
  "open_row q = q\<lparr>trz_consumed_at_ms := None, trz_decision := None\<rparr>"

definition permits_ok :: "trust_env \<Rightarrow> trust_db \<Rightarrow> n5_entry list \<Rightarrow> bool" where
  "permits_ok E db es \<longleftrightarrow> (\<forall>q\<in>set (td_authorizations db). \<exists>i\<in>set es. \<exists>z g. permit E z i \<and>
     open_row q = issued_trust_row z g (uint (gen_get (da_expected_revision z))))"

lemma open_row_simps [simp]:
  "open_row (spent_authorization d z) = open_row z" "open_row (issued_trust_row y g r) = issued_trust_row y g r"
  "trz_action_id (open_row q) = trz_action_id q" "trz_authority_id (open_row q) = trz_authority_id q"
  "trz_device_id (open_row q) = trz_device_id q" "trz_network_id (open_row q) = trz_network_id q"
  "trz_expected_state (open_row q) = trz_expected_state q" "trz_expected_revision (open_row q) = trz_expected_revision q"
  "trz_capability (open_row q) = trz_capability q" "trz_issued_at_ms (open_row q) = trz_issued_at_ms q"
  "trz_expires_at_ms (open_row q) = trz_expires_at_ms q"
  by (simp_all add: open_row_def spent_authorization_def issued_trust_row_def)

lemma issued_row_fields [simp]:
  "trz_action_id (issued_trust_row z g r) = da_action_id z" "trz_authority_id (issued_trust_row z g r) = da_authority_id z"
  "trz_device_id (issued_trust_row z g r) = da_device_id z" "trz_network_id (issued_trust_row z g r) = da_network_id z"
  "trz_expected_state (issued_trust_row z g r) = da_expected_state z" "trz_expected_revision (issued_trust_row z g r) = r"
  "trz_capability (issued_trust_row z g r) = da_capability z"
  "trz_issued_at_ms (issued_trust_row z g r) = timestamp_millis (da_issued_at z)"
  "trz_expires_at_ms (issued_trust_row z g r) = timestamp_millis (da_expires_at z)"
  by (simp_all add: issued_trust_row_def)

lemma perform_permits:
  assumes "n5_perform E now c db = (a, db')" "permits_ok E db es"
  shows "permits_ok E db' (es @ [\<lparr>tn_now = now, tn_call = c, tn_db = db, tn_answer = a\<rparr>])"
proof -
  let ?es = "es @ [\<lparr>tn_now = now, tn_call = c, tn_db = db, tn_answer = a\<rparr>]"
  have same: "permits_ok E db' ?es" if "td_authorizations db' = td_authorizations db"
    using assms(2) that by (auto simp: permits_ok_def)
  show ?thesis
    using assms(1)
  proof (cases rule: perform_cases)
    case kept
    then show ?thesis by (intro same) (simp add: trust_tables_def)
  next
    case (bootstrap D n source i actor token v t)
    from bootstrap_effect(1) [OF bootstrap(2)] show ?thesis by (intro same) (simp add: trust_core_def)
  next
    case (root D token u)
    from revoke_root_effect(1) [OF root(2)] show ?thesis by (intro same) (simp add: trust_core_def)
  next
    case (configure D token k u)
    from configure_effect(1) [OF configure(2)] show ?thesis by (intro same) (simp add: trust_core_def)
  next
    case (authority D token i u)
    from revoke_authority_effect(1) [OF authority(2)] show ?thesis by (intro same) (simp add: trust_core_def)
  next
    case (issue D token i d g k z)
    note e = issue_effect [OF issue(3)]
    from e(5) obtain r where r: "td_authorizations db' = td_authorizations db @ [r]"
        "r = issued_trust_row z (uint (gen_get (da_authority_generation z))) (uint (gen_get g))" by blast
    have "permit E z (last ?es)" using e(7-12) issue(1,2) by (auto simp: permit_def)
    then have "\<exists>i\<in>set ?es. \<exists>z g. permit E z i \<and> open_row r = issued_trust_row z g (uint (gen_get (da_expected_revision z)))"
      using e(9) by (auto simp: r(2))
    with assms(2) show ?thesis by (auto simp: permits_ok_def r(1))
  next
    case (decide D z kind reason v)
    from decide(3) show ?thesis
    proof (rule decide_effect)
      fix s d assume "insert_trust_decision d db = Inr db'"
      note e = decision_effect(9) [OF this]
      show ?thesis
        unfolding permits_ok_def
      proof
        fix q assume "q \<in> set (td_authorizations db')"
        then obtain p where "p \<in> set (td_authorizations db)" "open_row q = open_row p" by (auto simp: e)
        with assms(2) show "\<exists>i\<in>set ?es. \<exists>z g. permit E z i \<and>
            open_row q = issued_trust_row z g (uint (gen_get (da_expected_revision z)))"
          by (auto simp: permits_ok_def)
      qed
    qed
  next
    case (move D d g states f actor v)
    from move_effect(6) [OF move(2)] show ?thesis by (intro same) (simp add: trust_core_def)
  next
    case (identify D provider s actor before e w)
    from identify(4) show ?thesis
    proof (cases rule: identify_effect)
      case (written v m r device s db1 ev)
      from persist_effect(2) [OF written(8)] written(9) show ?thesis by (intro same) simp
    next
      case (known v)
      from known(2) show ?thesis by (intro same) simp
    qed
  qed
qed

lemma decided_call:
  assumes "n5_perform E now c db = (a, db')" "trust_decided \<lparr>tn_now = now, tn_call = c, tn_db = db, tn_answer = a\<rparr> = Some z"
  obtains D kind reason d where "insert_trust_decision d db = Inr db'"
    "d = trust_decision E D z now kind reason (uint (gen_get (da_authority_generation z)))
       (uint (gen_get (da_expected_revision z))) (uint (gen_get (da_expected_revision z)) + 1)"
    "da_capability z = decision_capability kind"
proof -
  from assms have "\<exists>D reason v.
      apply_n5_trust_decision E D z now (decision_capability TDActivate) TDActivate reason db = (Inr v, db') \<or>
      apply_n5_trust_decision E D z now (decision_capability TDRevoke) TDRevoke reason db = (Inr v, db')"
    by (cases c; cases a) (auto simp: trust_decided_def apfst_def map_prod_def activate_device_trust_def
        revoke_device_trust_def split: sum.splits prod.splits)
  then obtain D reason kind v where
      k: "apply_n5_trust_decision E D z now (decision_capability kind) kind reason db = (Inr v, db')" by blast
  then have cap: "da_capability z = decision_capability kind"
    and "transactional (decide_trust_tx E D z now kind reason) db = (Inr v, db')"
    by (auto simp: apply_n5_trust_decision_def split: if_splits)
  from this(2) have "decide_trust_tx E D z now kind reason db = Inr (v, db')"
    by (auto elim!: transactional_cases)
  then show thesis by (rule decide_effect) (rule that [OF _ _ cap])
qed

lemma undecided_call:
  assumes "n5_perform E now c db = (a, db')" "trust_decided \<lparr>tn_now = now, tn_call = c, tn_db = db, tn_answer = a\<rparr> = None"
  shows "td_decisions db' = td_decisions db"
  using assms(1)
proof (cases rule: perform_trust)
  case (decided D z kind reason v q)
  with assms(2) show ?thesis by (auto simp: trust_decided_def split: if_splits)
qed simp_all

lemma decided_backed:
  assumes "n5_perform E now c db = (a, db')" "permits_ok E db es"
    and "trust_decided \<lparr>tn_now = now, tn_call = c, tn_db = db, tn_answer = a\<rparr> = Some z"
  shows "backed_decision E es \<lparr>tn_now = now, tn_call = c, tn_db = db, tn_answer = a\<rparr> z"
proof -
  from assms(1,3) obtain D kind reason d where d: "insert_trust_decision d db = Inr db'"
      "d = trust_decision E D z now kind reason (uint (gen_get (da_authority_generation z)))
         (uint (gen_get (da_expected_revision z))) (uint (gen_get (da_expected_revision z)) + 1)"
      "da_capability z = decision_capability kind"
    by (rule decided_call)
  have f: "trd_action_id d = da_action_id z" "trd_authority_id d = da_authority_id z" "trd_device_id d = da_device_id z"
      "trd_network_id d = da_network_id z" "trd_prior_state d = da_expected_state z" "trd_kind d = kind"
      "trd_prior_revision d = uint (gen_get (da_expected_revision z))" "trd_decided_at_ms d = timestamp_millis now"
    by (simp_all add: d(2) trust_decision_def)
  note v = decision_effect(1) [OF d(1), unfolded trust_decision_valid_def f]
  from v obtain q where q: "q \<in> set (td_authorizations db)" "authorizes d q" by (auto simp: list_ex_iff)
  from assms(2) q(1) obtain i y g where i: "i \<in> set es" "permit E y i"
      "open_row q = issued_trust_row y g (uint (gen_get (da_expected_revision y)))"
    by (auto simp: permits_ok_def)
  have y: "trz_action_id q = da_action_id y" "trz_authority_id q = da_authority_id y" "trz_device_id q = da_device_id y"
      "trz_network_id q = da_network_id y" "trz_expected_state q = da_expected_state y"
      "trz_expected_revision q = uint (gen_get (da_expected_revision y))" "trz_capability q = da_capability y"
      "trz_issued_at_ms q = timestamp_millis (da_issued_at y)" "trz_expires_at_ms q = timestamp_millis (da_expires_at y)"
    using arg_cong [OF i(3), of trz_action_id] arg_cong [OF i(3), of trz_authority_id]
      arg_cong [OF i(3), of trz_device_id] arg_cong [OF i(3), of trz_network_id]
      arg_cong [OF i(3), of trz_expected_state] arg_cong [OF i(3), of trz_expected_revision]
      arg_cong [OF i(3), of trz_capability] arg_cong [OF i(3), of trz_issued_at_ms]
      arg_cong [OF i(3), of trz_expires_at_ms] by simp_all
  have "da_expected_revision y = da_expected_revision z"
    using q(2) by (intro Generation.expand) (simp add: authorizes_def f y word_uint_eq_iff)
  then have "same_permit y z" "timestamp_millis (da_issued_at y) \<le> timestamp_millis now"
    "timestamp_millis now < timestamp_millis (da_expires_at y)"
    using q(2) d(3) by (auto simp: authorizes_def f y same_permit_def)
  with i have "\<exists>i\<in>set es. \<exists>y. permit E y i \<and> same_permit y z \<and>
      timestamp_millis (da_issued_at y) \<le> timestamp_millis now \<and> timestamp_millis now < timestamp_millis (da_expires_at y)"
    by blast
  moreover have "\<exists>a\<in>set (td_authorities db). ta_authority_id a = da_authority_id z \<and>
      authority_in_force (da_network_id z) (timestamp_millis now) db a"
    using v by (auto simp: list_ex_iff)
  moreover have "(da_authority_id z, da_capability z) \<in> set (td_capabilities db)" using v d(3) by simp
  moreover have "da_capability z = ActivateDeviceTrust \<longrightarrow>
      list_ex (active_device_binding (da_device_id z) (da_network_id z)) (td_bindings db)"
    using v d(3) by (cases kind) simp_all
  ultimately show ?thesis by (simp add: backed_decision_def)
qed

lemma run_permits:
  assumes "n5_run E (db, entries)"
  shows "permits_ok E db entries"
proof -
  have "permits_ok E (fst (db, entries)) (snd (db, entries))"
    using assms
  proof (induction rule: n5_run_induct)
    case (fresh db)
    then show ?case by (simp add: permits_ok_def fresh_trust_def trust_tables_def)
  next
    case (called db es now c a db')
    from perform_permits [OF called(2,4)] show ?case .
  next
    case (adopted db es i b p now db')
    from adopt_effect(2) [OF adopted(2)] adopted(3) show ?case by (simp add: permits_ok_def)
  next
    case (elsewhere db es db')
    then show ?case by (simp add: permits_ok_def trust_tables_def)
  qed
  then show ?thesis by simp
qed

lemma run_spent:
  assumes "n5_run E (db, entries)"
  shows "map trd_action_id (td_decisions db) = map da_action_id (List.map_filter trust_decided entries)"
    "distinct (map trd_action_id (td_decisions db))"
proof -
  let ?I = "\<lambda>db es. map trd_action_id (td_decisions db) = map da_action_id (List.map_filter trust_decided es) \<and>
    distinct (map trd_action_id (td_decisions db))"
  have "?I (fst (db, entries)) (snd (db, entries))"
    using assms
  proof (induction rule: n5_run_induct)
    case (fresh db)
    then show ?case by (simp add: List.map_filter_def fresh_trust_def trust_tables_def)
  next
    case (called db es now c a db')
    show ?case
    proof (cases "trust_decided \<lparr>tn_now = now, tn_call = c, tn_db = db, tn_answer = a\<rparr>")
      case None
      then have u: "List.map_filter trust_decided (es @ [\<lparr>tn_now = now, tn_call = c, tn_db = db, tn_answer = a\<rparr>]) =
          List.map_filter trust_decided es" by (simp add: List.map_filter_def)
      show ?thesis using called(4) unfolding u undecided_call [OF called(2) None] .
    next
      case (Some z)
      with called(2) obtain D kind reason d where d: "insert_trust_decision d db = Inr db'"
          "d = trust_decision E D z now kind reason (uint (gen_get (da_authority_generation z)))
             (uint (gen_get (da_expected_revision z))) (uint (gen_get (da_expected_revision z)) + 1)"
        by (rule decided_call)
      have "trd_action_id d \<notin> trd_action_id ` set (td_decisions db)"
        using decision_effect(3) [OF d(1)] by (force simp: fresh_decision_def)
      then have "distinct (map trd_action_id (td_decisions db'))"
        using called(4) [THEN conjunct2] by (simp add: decision_effect(8) [OF d(1)])
      moreover have "trd_action_id d = da_action_id z" by (simp add: d(2) trust_decision_def)
      moreover have u: "List.map_filter trust_decided (es @ [\<lparr>tn_now = now, tn_call = c, tn_db = db, tn_answer = a\<rparr>]) =
          List.map_filter trust_decided es @ [z]" using Some by (simp add: List.map_filter_def)
      ultimately show ?thesis
        using called(4) [THEN conjunct1] by (simp add: u decision_effect(8) [OF d(1)])
    qed
  next
    case (adopted db es i b p now db')
    show ?case using adopted(3) unfolding adopt_effect(3) [OF adopted(2)] .
  next
    case (elsewhere db es db')
    from elsewhere(2) have e: "td_decisions db' = td_decisions db" by (simp add: trust_tables_def)
    show ?case using elsewhere(3) unfolding e .
  qed
  then have i: "?I db entries" unfolding fst_conv snd_conv .
  show "map trd_action_id (td_decisions db) = map da_action_id (List.map_filter trust_decided entries)"
    by (rule i [THEN conjunct1])
  show "distinct (map trd_action_id (td_decisions db))" by (rule i [THEN conjunct2])
qed

text \<open>C14: Over any run no authorization is spent twice, and every successful activation or revocation of
  trust spent one that an earlier call issued, to a verified owner root, for exactly that device,
  state, revision and purpose; it was in time, under an authority in force at that moment, and an
  activation found an active provider binding.\<close>
theorem trust_decisions_authorized:
  assumes "n5_run E (db, entries)"
  shows "distinct (map da_action_id (List.map_filter trust_decided entries)) \<and>
    (\<forall>earlier e later z. entries = earlier @ e # later \<longrightarrow> trust_decided e = Some z \<longrightarrow> backed_decision E earlier e z)"
proof
  show "distinct (map da_action_id (List.map_filter trust_decided entries))"
    using run_spent [OF assms] by simp
  have "\<forall>earlier e later z. snd (db, entries) = earlier @ e # later \<longrightarrow> trust_decided e = Some z \<longrightarrow>
      backed_decision E earlier e z"
    using assms
  proof (induction rule: n5_run_induct)
    case (called db es now c a db')
    let ?e = "\<lparr>tn_now = now, tn_call = c, tn_db = db, tn_answer = a\<rparr>"
    show ?case
    proof (intro allI impI)
      fix earlier e later z assume s: "es @ [?e] = earlier @ e # later" "trust_decided e = Some z"
      show "backed_decision E earlier e z"
      proof (cases later rule: rev_cases)
        case Nil
        with s decided_backed [OF called(2) run_permits [OF called(1)]] show ?thesis by auto
      next
        case (snoc xs x)
        with s(1) have "es = earlier @ e # xs" by (metis append_Cons append_assoc butlast_snoc)
        with called(4) s(2) show ?thesis by blast
      qed
    qed
  qed simp_all
  then show "\<forall>earlier e later z. entries = earlier @ e # later \<longrightarrow> trust_decided e = Some z \<longrightarrow>
      backed_decision E earlier e z" by simp
qed

section \<open>Owner roots\<close>

definition roots_ok :: "trust_db \<Rightarrow> bool" where
  "roots_ok db \<longleftrightarrow> distinct (map tr_network_id (td_roots db))"

definition frozen :: "NetworkId \<Rightarrow> trust_db \<Rightarrow> bool" where
  "frozen n db \<longleftrightarrow> (\<exists>r\<in>set (td_roots db). tr_network_id r = n \<and> \<not> tr_enabled r)"

lemma perform_roots:
  assumes "n5_perform E now c db = (a, db')"
  obtains (kept) "td_roots db' = td_roots db"
  | (added) r where "td_roots db' = td_roots db @ [r]" "\<forall>q\<in>set (td_roots db). tr_network_id q \<noteq> tr_network_id r"
  | (revoked) i where "td_roots db' = root_revoked i now (td_roots db)"
  using assms
proof (cases rule: perform_cases)
  case (bootstrap D n source i actor token v t)
  from bootstrap_effect(5) [OF bootstrap(2)] show thesis by (auto intro: added)
next
  case (root D token u)
  from revoke_root_effect(5) [OF root(2)] show thesis by (rule revoked)
next
  case (decide D z kind reason v)
  from decide(3) show thesis
  proof (rule decide_effect)
    fix s d assume "insert_trust_decision d db = Inr db'"
    from decision_effect(4) [OF this] show thesis by (intro kept) (simp add: trust_powers_def)
  qed
next
  case (configure D token k u)
  from configure_effect(3) [OF configure(2)] show thesis by (rule kept)
next
  case (authority D token i u)
  from revoke_authority_effect(3) [OF authority(2)] show thesis by (rule kept)
next
  case (issue D token i d g k z)
  from issue_effect(1) [OF issue(3)] show thesis by (intro kept) (simp add: trust_powers_def)
next
  case (move D d g states f actor v)
  from move_effect(5) [OF move(2)] show thesis by (intro kept) (simp add: trust_powers_def)
next
  case (identify D provider s actor before e w)
  from identify(4) show thesis
  proof (cases rule: identify_effect)
    case (known v)
    then show thesis by (intro kept) simp
  next
    case (written v m r device s db1 ev)
    from persist_effect(1) [OF written(8)] written(9) show thesis by (intro kept) (simp add: trust_powers_def)
  qed
qed (auto simp: trust_tables_def intro: kept)

lemma root_revoked_map: "map tr_network_id (root_revoked i now rs) = map tr_network_id rs"
  by (induction rs) (simp_all add: root_revoked_def revoked_root_def)

lemma step_roots:
  assumes "n5_step E (db, es) (db', es')"
  shows "roots_ok db \<Longrightarrow> roots_ok db'" "frozen n db \<Longrightarrow> frozen n db'"
proof -
  have "(roots_ok db \<longrightarrow> roots_ok db') \<and> (frozen n db \<longrightarrow> frozen n db')"
    using assms
  proof (cases rule: n5_step.cases)
    case (called now c answer)
    from called(2) show ?thesis
    proof (cases rule: perform_roots)
      case (revoked i)
      have "frozen n db'" if "frozen n db"
      proof -
        from that obtain r where r: "r \<in> set (td_roots db)" "tr_network_id r = n" "\<not> tr_enabled r"
          by (auto simp: frozen_def)
        then have "r \<in> set (td_roots db')" by (force simp: revoked root_revoked_def enabled_root_def)
        with r show ?thesis by (auto simp: frozen_def)
      qed
      then show ?thesis by (simp add: roots_ok_def revoked root_revoked_map)
    qed (auto simp: roots_ok_def frozen_def)
  next
    case (adopted i b p now)
    from adopt_effect(1) [OF adopted(2)] show ?thesis by (simp add: roots_ok_def frozen_def trust_powers_def)
  next
    case elsewhere
    then show ?thesis by (simp add: roots_ok_def frozen_def trust_tables_def)
  qed
  then show "roots_ok db \<Longrightarrow> roots_ok db'" "frozen n db \<Longrightarrow> frozen n db'" by blast+
qed

lemma run_roots:
  assumes "n5_run E s"
  shows "roots_ok (fst s)"
proof -
  from assms obtain db0 where f: "fresh_trust db0" "(n5_step E)\<^sup>*\<^sup>* (db0, []) s" by (auto simp: n5_run_def)
  from f(2) show ?thesis
  proof (induction rule: rtranclp_induct)
    case base
    from f(1) show ?case by (simp add: fresh_trust_def trust_tables_def roots_ok_def)
  next
    case (step y z)
    then show ?case using step_roots(1) [of E "fst y" "snd y" "fst z" "snd z"] by simp
  qed
qed

lemma frozen_undecided:
  assumes "roots_ok db" "frozen n db" "trust_decision_valid d db"
  shows "trd_network_id d \<noteq> n"
proof
  assume n: "trd_network_id d = n"
  from assms(3) obtain r where r: "r \<in> set (td_roots db)" "tr_network_id r = n" "tr_enabled r"
    by (auto simp: trust_decision_valid_def authority_in_force_def active_root_def list_ex_iff n)
  from assms(2) obtain q where q: "q \<in> set (td_roots db)" "tr_network_id q = n" "\<not> tr_enabled q"
    by (auto simp: frozen_def)
  with r assms(1) have "q = r" by (auto simp: roots_ok_def distinct_map inj_on_def)
  with r q show False by simp
qed

definition decisions_in :: "NetworkId \<Rightarrow> trust_db \<Rightarrow> trust_decision_row list" where
  "decisions_in n db = filter (\<lambda>q. trd_network_id q = n) (td_decisions db)"

text \<open>Nothing in a network was decided: its rows are kept, and new ones are untrusted.\<close>

definition trust_kept :: "NetworkId \<Rightarrow> trust_db \<Rightarrow> trust_db \<Rightarrow> bool" where
  "trust_kept n db db' \<longleftrightarrow>
     decisions_in n db' = decisions_in n db \<and>
     (\<forall>s\<in>set (td_trust db). trs_network_id s = n \<longrightarrow> s \<in> set (td_trust db')) \<and>
     (\<forall>s\<in>set (td_trust db'). trs_network_id s = n \<longrightarrow> s \<in> set (td_trust db) \<or> trs_state s = DTUntrusted)"

lemma trust_kept_trans:
  assumes "trust_kept n a b" "trust_kept n b c"
  shows "trust_kept n a c"
  using assms unfolding trust_kept_def by (intro conjI ballI impI) (simp, blast, blast)

lemma step_frozen:
  assumes "n5_step E (db, es) (db', es')" "roots_ok db" "frozen n db"
  shows "trust_kept n db db'"
  using assms(1)
proof (cases rule: n5_step.cases)
  case (called now c answer)
  from called(2) show ?thesis
  proof (cases rule: perform_trust)
    case (decided D z kind reason v d)
    note e = decision_effect [OF decided(3)]
    have n: "trd_network_id d \<noteq> n" by (rule frozen_undecided [OF assms(2,3) e(1)])
    have k: "\<not> decides d s" if "trs_network_id s = n" for s using that n by (auto simp: decides_def)
    have "decisions_in n db' = decisions_in n db" using n by (simp add: decisions_in_def e(8))
    moreover have "s \<in> set (td_trust db')" if "s \<in> set (td_trust db)" "trs_network_id s = n" for s
      using that k [of s] by (force simp: e(10))
    moreover have "s \<in> set (td_trust db)" if "s \<in> set (td_trust db')" "trs_network_id s = n" for s
      using that k by (auto simp: e(10) split: if_splits)
    ultimately show ?thesis unfolding trust_kept_def by blast
  qed (auto simp: trust_kept_def decisions_in_def)
next
  case (adopted i b p now)
  note e = adopt_effect [OF adopted(2)]
  show ?thesis by (auto simp: trust_kept_def decisions_in_def e(3,4))
next
  case elsewhere
  then show ?thesis by (simp add: trust_kept_def decisions_in_def trust_tables_def)
qed

text \<open>C15: Once the owner root of a network is revoked its trust is frozen for good: whatever follows, no
  further decision is recorded for the network, no device of it changes its trust, and devices that
  still join or are adopted stay untrusted.\<close>
theorem revoked_root_freezes_trust:
  assumes "n5_run E (db, entries)" "r \<in> set (td_roots db)" "tr_network_id r = n" "\<not> tr_enabled r"
    and "(n5_step E)\<^sup>*\<^sup>* (db, entries) (db', entries')"
  shows "decisions_in n db' = decisions_in n db \<and>
    (\<forall>s\<in>set (td_trust db). trs_network_id s = n \<longrightarrow> s \<in> set (td_trust db')) \<and>
    (\<forall>s\<in>set (td_trust db'). trs_network_id s = n \<longrightarrow> s \<in> set (td_trust db) \<or> trs_state s = DTUntrusted)"
proof -
  from assms(5) have "trust_kept n db (fst (db', entries')) \<and> roots_ok (fst (db', entries')) \<and> frozen n (fst (db', entries'))"
  proof (induction rule: rtranclp_induct)
    case base
    from assms(2-4) run_roots [OF assms(1)] show ?case by (auto simp: trust_kept_def frozen_def)
  next
    case (step y z)
    have s: "n5_step E (fst y, snd y) (fst z, snd z)" using step(2) by simp
    from step(3) have "trust_kept n (fst y) (fst z)" by (blast intro: step_frozen [OF s])
    with step(3) step_roots [OF s] show ?case by (blast intro: trust_kept_trans)
  qed
  then show ?thesis by (simp add: trust_kept_def)
qed

definition authority_shape :: "trust_authority_row \<Rightarrow> bool" where
  "authority_shape a \<longleftrightarrow> ta_sealed a \<and> (ta_enabled a \<longrightarrow> ta_revoked_at_ms a = None)"

lemma revoked_shape [simp]: "authority_shape a \<Longrightarrow> authority_shape (revoked_authority now a)"
  by (simp add: authority_shape_def revoked_authority_def)

lemma perform_authorities:
  assumes "n5_perform E now c db = (a, db')" "\<forall>a\<in>set (td_authorities db). authority_shape a"
  shows "\<forall>a\<in>set (td_authorities db'). authority_shape a"
proof -
  have same: ?thesis if "trust_powers db' = trust_powers db" using that assms(2) by (simp add: trust_powers_def)
  show ?thesis
    using assms(1)
  proof (cases rule: perform_cases)
    case kept
    then show ?thesis by (rule same [OF tables_powers])
  next
    case (bootstrap D n source i actor token v t)
    from bootstrap_effect(3) [OF bootstrap(2)] assms(2) show ?thesis by simp
  next
    case (root D token u)
    from revoke_root_effect(4) [OF root(2)] assms(2) show ?thesis by (auto simp: authorities_revoked_def)
  next
    case (configure D token k u)
    from configure_effect(5) [OF configure(2)] obtain g where
        g: "td_authorities db' = map (\<lambda>a. if sealable (na5_authority_id k) a then sealed_authority a else a)
          (td_authorities db @ [unsealed_authority token k g])" by blast
    have "authority_shape (if sealable (na5_authority_id k) a then sealed_authority a else a)"
      if "a \<in> set (td_authorities db)" for a using that assms(2) by (auto simp: sealable_def authority_shape_def)
    moreover have "authority_shape (sealed_authority (unsealed_authority token k g))"
      "sealable (na5_authority_id k) (unsealed_authority token k g)"
      by (simp_all add: authority_shape_def sealed_authority_def unsealed_authority_def sealable_def)
    ultimately show ?thesis by (fastforce simp: g split del: if_split)
  next
    case (authority D token i u)
    from revoke_authority_effect(5) [OF authority(2)] assms(2) show ?thesis by auto
  next
    case (issue D token i d g k z)
    from issue_effect(1) [OF issue(3)] show ?thesis by (rule same)
  next
    case (decide D z kind reason v)
    from decide(3) show ?thesis by (rule decide_effect) (rule same [OF decision_effect(4)])
  next
    case (move D d g states f actor v)
    from move_effect(5) [OF move(2)] show ?thesis by (rule same)
  next
    case (identify D provider s actor before e w)
    from identify(4) show ?thesis
    proof (cases rule: identify_effect)
      case (known v)
      with assms(2) show ?thesis by simp
    next
      case (written v m r device s db1 ev)
      from persist_effect(1) [OF written(8)] written(9) show ?thesis by (intro same) (simp add: trust_powers_def)
    qed
  qed
qed

lemma run_authorities:
  assumes "n5_run E (db, entries)"
  shows "\<forall>a\<in>set (td_authorities db). authority_shape a"
proof -
  have "\<forall>a\<in>set (td_authorities (fst (db, entries))). authority_shape a"
    using assms
  proof (induction rule: n5_run_induct)
    case (fresh db)
    then show ?case by (simp add: fresh_trust_def trust_tables_def)
  next
    case (called db es now c a db')
    show ?case by (rule perform_authorities [OF called(2,4)])
  next
    case (adopted db es i b p now db')
    from adopt_effect(1) [OF adopted(2)] adopted(3) show ?case by (simp add: trust_powers_def)
  next
    case (elsewhere db es db')
    from tables_powers [OF elsewhere(2)] elsewhere(3) show ?case by (simp add: trust_powers_def)
  qed
  then show ?thesis by simp
qed

text \<open>C18: While an enabled authority of a root starts in the future, that root cannot be revoked: the
  revocation would date the authority's end before its start, so it fails and changes nothing.\<close>
theorem future_authority_blocks_root_revocation:
  assumes "n5_run E (db, entries)" "a \<in> set (td_authorities db)"
    and "ta_trust_root_id a = ot_trust_root_id token" "ta_enabled a" "timestamp_millis now < ta_not_before_ms a"
  shows "\<exists>e. revoke_n5_owner_trust_root E D token now db = (Inl e, db)"
proof -
  obtain answer db' where r: "revoke_n5_owner_trust_root E D token now db = (answer, db')" by (cases "revoke_n5_owner_trust_root E D token now db")
  then have "transactional (revoke_root_tx E D token now) db = (answer, db')" by (simp add: revoke_n5_owner_trust_root_def)
  then show ?thesis
  proof (cases rule: transactional_cases)
    case (committed x)
    obtain u where "revoke_root_tx E D token now db = Inr (u, db')" using committed(2) by (cases x) simp
    from revoke_root_effect(7) [OF this] run_authorities [OF assms(1)] assms(2-5)
    have "trust_authority_check (revoked_authority now a)"
      by (auto simp: trust_authority_update_ok_def authority_shape_def)
    with assms(5) show ?thesis by (simp add: trust_authority_check_def revoked_authority_def since_def)
  qed (use r in simp)
qed

section \<open>Reconciliation\<close>

lemma start_untrusted: "reconciliation_start E provider d actor db = Inr (view, b) \<Longrightarrow> \<not> tv_currently_trusted view"
  by (auto simp: reconciliation_start_def guard_simps split: option.splits dest: view_untrusted)

lemma adoption_live:
  assumes "adoption_binding d db = Inr (Some b)"
  shows "live_binding_state (rb_state b)"
proof -
  from assms obtain q p rest where r: "adoption_rows d db = (q, p) # rest" "rb_state b = trb_state q"
    by (auto simp: adoption_binding_def guard_simps split: list.splits)
  then have "(q, p) \<in> set (adoption_rows d db)" by simp
  then show ?thesis using r(2) by (auto simp: adoption_rows_def split: if_splits)
qed

lemma start_checked:
  assumes "reconciliation_start E provider d actor db = Inr (view, Some b)"
  shows "validate_n5_audit_actor actor = Inr ()" "rb_state b = PBActive \<or> rb_state b = PBStale"
proof -
  from assms have v: "validate_n5_audit_actor actor = Inr ()" and b: "binding_to_reconcile d view db = Inr (Some b)"
    by (auto simp: reconciliation_start_def guard_simps split: option.splits)
  show "validate_n5_audit_actor actor = Inr ()" by (rule v)
  from b have "live_binding_state (rb_state b)"
    by (auto simp: binding_to_reconcile_def guard_simps adoption_live split: option.splits n5_provenance_kind.splits
        if_splits)
  then show "rb_state b = PBActive \<or> rb_state b = PBStale" by (simp add: live_binding_state_def)
qed

text \<open>C16: A reconciliation affirms trust only on a fresh observation: the provider it asked is the one of
  the binding it read, and it shows exactly one unexpired node with the recorded machine key, still
  authenticated by the credential of the join, or, for an adopted device, with the recorded node key.\<close>
theorem affirmed_trust_is_fresh:
  assumes "reconcile_n5_provider_binding_from_provider E D provider d now actor before db = (Inr v, db')"
    and "tv_currently_trusted v"
  shows "\<exists>view b node. reconciliation_start E provider d actor before = Inr (view, Some b) \<and>
    ro_instance_id provider = pi_provider_instance_id (rb_identity b) \<and>
    observe_binding provider b = Inr (Some node) \<and> unexpired now node \<and>
    pi_provider_instance_id (pn_identity node) = pi_provider_instance_id (rb_identity b) \<and>
    pi_node_id (pn_identity node) = pi_node_id (rb_identity b) \<and>
    machine_fingerprint E node = Some (pi_stable_key_fingerprint (rb_identity b)) \<and>
    (case b of ReconcileJoin w \<Rightarrow> authenticated_by (n5_provider_reference w) node
     | ReconcileAdoption identity revision state fingerprint \<Rightarrow> node_fingerprint E node = Some fingerprint) \<and>
    tv_state v = DTTrusted"
proof -
  obtain view b where s: "reconciliation_start E provider d actor before = Inr (view, Some b)"
      and a: "reconcile_answer E D provider d now actor view b db = (Inr v, db')"
    using assms by (auto dest: start_untrusted simp: reconcile_n5_provider_binding_from_provider_def split: sum.splits option.splits prod.splits)
  have p: "ro_instance_id provider = pi_provider_instance_id (rb_identity b)" "\<not> tv_currently_trusted view"
    using s start_untrusted [OF s] by (auto simp: reconciliation_start_def guard_simps split: option.splits)
  obtain node where n: "observe_binding provider b = Inr (Some node)" "remains_exact E b now node" "tv_state v = DTTrusted"
    using a assms(2) p(2)
    by (auto simp: reconcile_answer_def affirmed_def split: sum.splits option.splits prod.splits if_splits
        elim: marked_stale)
  have "unexpired now node \<and> pi_provider_instance_id (pn_identity node) = pi_provider_instance_id (rb_identity b) \<and>
    pi_node_id (pn_identity node) = pi_node_id (rb_identity b) \<and>
    machine_fingerprint E node = Some (pi_stable_key_fingerprint (rb_identity b)) \<and>
    (case b of ReconcileJoin w \<Rightarrow> authenticated_by (n5_provider_reference w) node
     | ReconcileAdoption identity revision state fingerprint \<Rightarrow> node_fingerprint E node = Some fingerprint)"
    using n(2) by (cases b) (auto simp: remains_exact_def provider_node_identity_remains_exact_def
        adopted_provider_node_remains_exact_def)
  with s p(1) n show ?thesis by blast
qed

text \<open>C17: When the provider cannot be asked, or shows anything but the exact node, no trust is affirmed,
  and a failing provider is answered by an error. A binding that was active when it was read goes
  stale in the same call, with its audit event and nothing else, which leaves the device without an
  active binding; otherwise the call answers an error and changes nothing, and that only when the
  row has moved since it was read or the store cannot admit the write. A binding that was stale
  when it was read is left as the store has it.\<close>
theorem unconfirmed_binding_fails_closed:
  assumes "n5_run E (db, entries)" "reconciliation_start E provider d actor before = Inr (view, Some b)"
    and "\<forall>node. observe_binding provider b = Inr (Some node) \<longrightarrow> \<not> remains_exact E b now node"
    and "reconcile_n5_provider_binding_from_provider E D provider d now actor before db = (answer, db')"
  shows "(\<forall>v. answer = Inr v \<longrightarrow> \<not> tv_currently_trusted v) \<and>
    (rb_state b = PBStale \<and> db' = db \<and> is_ok answer = is_ok (observe_binding provider b) \<or>
     rb_state b = PBActive \<and> binding_staled D d (rb_revision b) now actor db db' \<and>
       (\<forall>n. \<not> list_ex (active_device_binding d n) (td_bindings db')) \<and>
       is_ok answer = is_ok (observe_binding provider b) \<or>
     rb_state b = PBActive \<and> db' = db \<and> \<not> is_ok answer \<and>
       (\<forall>r\<in>set (td_bindings db). expected_binding d [PBActive] (uint (gen_get (rb_revision b))) r \<longrightarrow>
          \<not> staling_admitted E D d now actor db r))"
proof -
  have a: "reconcile_answer E D provider d now actor view b db = (answer, db')"
    using assms(2,4) by (simp add: reconcile_n5_provider_binding_from_provider_def)
  have t: "\<not> tv_currently_trusted view" by (rule start_untrusted [OF assms(2)])
  note c = start_checked [OF assms(2)]
  have x: "\<not> (case seen of None \<Rightarrow> False | Some node \<Rightarrow> remains_exact E b now node)"
    if "observe_binding provider b = Inr seen" for seen
    using assms(3) that by (cases seen) simp_all
  show ?thesis
  proof (cases "rb_state b = PBStale")
    case True
    have "db' = db \<and> is_ok answer = is_ok (observe_binding provider b) \<and> (\<forall>v. answer = Inr v \<longrightarrow> v = view)"
    proof (cases "observe_binding provider b")
      case (Inl e)
      with a True show ?thesis by (auto simp: reconcile_answer_def is_ok_def)
    next
      case (Inr seen)
      with a True x [OF Inr] show ?thesis by (auto simp: reconcile_answer_def is_ok_def)
    qed
    with True t show ?thesis by blast
  next
    case False
    with c(2) have active: "rb_state b = PBActive" by simp
    obtain r db1 where m: "mark_n5_provider_binding_stale E D d (rb_revision b) now actor db = (r, db1)" by fastforce
    have r: "db' = db1" "is_ok answer = (is_ok r \<and> is_ok (observe_binding provider b))" "answer = Inr v \<Longrightarrow> r = Inr v" for v
    proof (atomize (full), cases "observe_binding provider b")
      case (Inl e)
      with a active m show "db' = db1 \<and> is_ok answer = (is_ok r \<and> is_ok (observe_binding provider b)) \<and>
          (answer = Inr v \<longrightarrow> r = Inr v)"
        by (cases r) (auto simp: reconcile_answer_def is_ok_def)
    next
      case (Inr seen)
      with a active m x [OF Inr] show "db' = db1 \<and> is_ok answer = (is_ok r \<and> is_ok (observe_binding provider b)) \<and>
          (answer = Inr v \<longrightarrow> r = Inr v)"
        by (auto simp: reconcile_answer_def is_ok_def)
    qed
    from m have "mark_n5_provider_binding_stale E D d (rb_revision b) now actor db = (r, db')" by (simp only: r(1))
    then show ?thesis
    proof (cases rule: marked_stale)
      case (failed e)
      then have "\<not> is_ok answer" "\<And>v. answer \<noteq> Inr v" using r(2,3) by (auto simp: is_ok_def)
      moreover have "\<not> staling_admitted E D d now actor db q"
        if "q \<in> set (td_bindings db)" "expected_binding d [PBActive] (uint (gen_get (rb_revision b))) q" for q
        using staling_succeeds [OF run_bindings [OF assms(1)] c(1) that, of E D now] m failed(1) by auto
      ultimately show ?thesis using active failed(2) by blast
    next
      case (staled v)
      then have "\<forall>n. \<not> list_ex (active_device_binding d n) (td_bindings db')"
        by (auto simp: binding_staled_def active_device_binding_def list_ex_iff)
      with staled(1,3) r(2) active staled(2) r(3) show ?thesis by (fastforce simp: is_ok_def)
    qed
  qed
qed

section \<open>A sample run\<close>

text \<open>The owner bootstraps a root and an authority, a device is adopted, activated and revoked.\<close>

definition sample_trust_env :: trust_env where
  "sample_trust_env = \<lparr>te_store = sample_store_env, te_argon = reference_argon\<rparr>"

definition sample_n5_draws :: "uuid \<Rightarrow> n5_draws" where
  "sample_n5_draws k =
     \<lparr>nd5_device_id = TypedId k, nd5_binding_id = TypedId k, nd5_root_id = TypedId 8,
      nd5_action_id = TypedId k, nd5_decision_id = TypedId k, nd5_audit = TypedId k,
      nd5_secret = replicate 32 9, nd5_salt = replicate 16 5\<rparr>"

definition sample_root_token :: OwnerTrustRootToken where
  "sample_root_token = OwnerTrustRootToken (TypedId 8) (replicate 32 9)"

definition sample_root_text :: string where
  "sample_root_text =
     ''$argon2id$v=19$m=19456,t=2,p=1$BQUFBQUFBQUFBQUFBQUFBQ$CQkJCQkJCQkJCQkJCQkJCQkJCQkJCQkJCQkJCQkJCQk''"

lemma sample_root_phc: "phc_text standard_no_pad (costs_prefix 2) (replicate 16 5) (pad32 (replicate 32 9)) = sample_root_text"
  unfolding sample_root_text_def by code_simp

lemma sample_root_secret:
  "from_trust_root_token reference_argon (replicate 16 5) sample_root_token = Inr (SecretVerifier sample_root_text)"
  "SecretVerifier_parse reference_argon sample_root_text = Inr (SecretVerifier sample_root_text)"
  "verify_trust_root reference_argon (SecretVerifier sample_root_text) sample_root_token = Inr True"
proof -
  obtain v where v: "from_secret reference_argon (replicate 16 5) (replicate 32 9) = Inr v" "is_n4 reference_argon v"
      "verify_secret reference_argon v (replicate 32 9) = Inr True"
    using from_secret_ok [OF reference_argon_laws, of "replicate 16 5" "replicate 32 9"] by auto
  have p: "SecretVerifier_parse reference_argon (verifier_str v) = Inr v"
    using v(2) by (auto simp: is_n4_def SecretVerifier_parse_def is_ok_iff guard_simps)
  have h: "argon_hash reference_argon q (replicate 32 9) (replicate 16 5) = Some sample_root_text" if "ap_time q = 2" for q
    using that sample_root_phc by (simp add: reference_argon_def)
  have "v = SecretVerifier sample_root_text"
    using v(1) by (auto simp: from_secret_def from_secret_with_time_cost_def guard_simps argon_params_for_def argon_costs
        SecretVerifier_parse_def Let_def h split: if_splits)
  with v p show "from_trust_root_token reference_argon (replicate 16 5) sample_root_token = Inr (SecretVerifier sample_root_text)"
    "SecretVerifier_parse reference_argon sample_root_text = Inr (SecretVerifier sample_root_text)"
    "verify_trust_root reference_argon (SecretVerifier sample_root_text) sample_root_token = Inr True"
    by (simp_all add: from_trust_root_token_def sample_root_token_def verify_trust_root_def)
qed

definition sample_trust_start :: trust_db where
  "sample_trust_start =
     \<lparr>td_n4 =
        \<lparr>ad_imports = [], ad_configurations = [], ad_capabilities = [], ad_events = [],
         ad_fail_before_audit = False, ad_fail_before_n4_confirmation_audit = False,
         nd_networks = [(TypedId 2,
           \<lparr>nw_network_id = TypedId 2, nw_name = ''home'', nw_state = NSCreating,
            nw_provider_kind = PKHeadscale, nw_provider_instance_id = TypedId 7,
            nw_membership_generation = Generation 1, nw_policy_generation = Generation 1,
            nw_default_roles = Roles [], nw_baseline_operations = [], nw_created_at = 0, nw_updated_at = 0\<rparr>)],
         nd_invitations = [], nd_details = [], nd_sessions = [], nd_dispatches = [], nd_references = [],
         nd_metadata = [], nd_correlations = []\<rparr>,
      td_devices = [(TypedId 3, sample_device PSNotRequested)], td_roots = [], td_authorities = [],
      td_capabilities = [], td_trust = [], td_authorizations = [], td_decisions = [], td_bindings = [],
      td_provenance = [], td_adoptions = [], td_identities = [], td_origins = [], td_events = []\<rparr>"

definition sample_trust_owner :: AuditActor where
  "sample_trust_owner = \<lparr>au_source = ''operator'', au_actor_id = Some ''owner''\<rparr>"

definition sample_root_row :: root_row where
  "sample_root_row =
     \<lparr>tr_trust_root_id = TypedId 8, tr_network_id = TypedId 2, tr_principal_source = ''operator'',
      tr_principal_id = ''owner'', tr_secret_verifier = sample_root_text, tr_enabled = True,
      tr_revoked_at_ms = None, tr_created_at_ms = 1\<rparr>"

definition sample_rooted :: trust_db where
  "sample_rooted = sample_trust_start\<lparr>td_roots := [sample_root_row],
     td_events := [audit_row (sample_n5_draws 8) (TypedId 2) None AuditActor_system
       ''device.owner_trust_root_bootstrapped'' (Some Generation_initial)]\<rparr>"

definition sample_powers :: "u64 \<Rightarrow> DateTime \<Rightarrow> N5TrustAuthorityConfiguration" where
  "sample_powers g start =
     \<lparr>na5_authority_id = TypedId (ucast g), na5_network_id = TypedId 2, na5_principal_source = ''operator'',
      na5_principal_id = ''owner'', na5_generation = Generation g, na5_not_before = start,
      na5_expires_at = start + 1000000000, na5_capabilities = [ActivateDeviceTrust, RevokeDeviceTrust],
      na5_created_at = 0\<rparr>"

definition sample_configured :: "u64 \<Rightarrow> DateTime \<Rightarrow> trust_db" where
  "sample_configured g start = sample_rooted\<lparr>
     td_authorities := [sealed_authority (unsealed_authority sample_root_token (sample_powers g start) (uint g))],
     td_capabilities := [(TypedId (ucast g), ActivateDeviceTrust), (TypedId (ucast g), RevokeDeviceTrust)],
     td_events := td_events sample_rooted @ [audit_row (sample_n5_draws 9) (TypedId 2) None sample_trust_owner
       ''device.trust_authority_configured'' (Some (Generation g))]\<rparr>"

lemmas sample_trust_parts =
  sample_trust_env_def sample_n5_draws_def sample_root_token_def sample_trust_start_def sample_trust_owner_def
  sample_root_row_def sample_rooted_def sample_powers_def sample_configured_def

lemma sample_event_ids [simp]:
  "tre_event_id (audit_row D n d actor kind g) = nd5_audit D" "tre_event_id (decision_event q) = trd_audit q"
  by (simp_all add: audit_row_def decision_event_def)

lemma sample_column: "verifier_column sample_root_text"
  by (simp add: verifier_column_def sample_root_text_def)

lemma sample_principal: "bounded_safe 64 ''operator''" "bounded_safe 255 ''owner''"
  by (simp_all add: bounded_safe_def safe_id_byte_def is_ascii_alphanumeric_def is_ascii_digit_def byte_val_def)

lemma sample_bootstraps:
  "n5_perform sample_trust_env 1000000
     (CallBootstrap (sample_n5_draws 8) (TypedId 2) ''operator'' ''owner'' AuditActor_system) sample_trust_start =
   (TokenAnswer (Inr sample_root_token), sample_rooted)"
proof -
  have t: "OwnerTrustRootToken_generate (nd5_secret (sample_n5_draws 8)) (nd5_root_id (sample_n5_draws 8)) = sample_root_token"
    "nd5_salt (sample_n5_draws 8) = replicate 16 5" "te_argon sample_trust_env = reference_argon"
    by (simp_all add: sample_trust_parts OwnerTrustRootToken_generate_def)
  have "root_check sample_root_row"
    by (simp add: root_check_def sample_root_row_def sample_principal sample_column since_def)
  then have "bootstrap_tx sample_trust_env (sample_n5_draws 8) sample_root_token (SecretVerifier sample_root_text)
      (TypedId 2) ''operator'' ''owner'' 1000000 AuditActor_system sample_trust_start =
      Inr (sample_root_token, sample_rooted)"
    by (simp add: bootstrap_tx_def guard_simps trust_effects sample_trust_parts audit_accepts_def timestamp_millis_def
        Generation_initial_def)
  then show ?thesis
    by (simp add: bootstrap_n5_owner_trust_root_def validate_n5_principal_def validate_n5_audit_actor_def
        AuditActor_system_def sample_principal t sample_root_secret domain_conflict_def transactional_def)
qed

lemma sample_verifies:
  "td_roots db = [sample_root_row] \<Longrightarrow>
     verify_n5_owner_root (te_argon sample_trust_env) sample_root_token (TypedId 2) (td_roots db) = Inr sample_trust_owner"
  by (simp add: verify_n5_owner_root_def active_root_def sample_root_row_def sample_root_token_def sample_trust_env_def
      sample_root_secret(2) sample_root_secret(3) [unfolded sample_root_token_def] domain_conflict_def sample_trust_owner_def)

lemma sample_configures:
  assumes "(g, start) = (9, 0) \<or> (g, start) = (10, 5000000000)"
  shows "n5_perform sample_trust_env 1000000
     (CallConfigure (sample_n5_draws 9) sample_root_token (sample_powers g start)) sample_rooted =
   (DoneAnswer (Inr ()), sample_configured g start)"
proof -
  have "configure_authority_tx sample_trust_env (sample_n5_draws 9) sample_root_token (sample_powers g start)
      sample_rooted = Inr ((), sample_configured g start)"
    using assms sample_verifies [of sample_rooted]
    by (elim disjE)
      (simp_all add: configure_authority_tx_def guard_simps trust_effects sample_trust_parts audit_accepts_def
        timestamp_millis_def unsealed_authority_def trust_authority_check_def sample_principal since_def active_root_def
        insert_trust_capability_def to_i64_def sealable_def trust_authority_update_ok_def sealed_authority_def Let_def)
  then show ?thesis by (simp add: configure_n5_trust_authority_def transactional_def)
qed

definition sample_key :: string where
  "sample_key = ''sha256:'' @ hex_text (replicate 32 0)"

definition sample_identity :: device_identity_row where
  "sample_identity =
     \<lparr>tri_device_id = TypedId 3, tri_network_id = TypedId 2, tri_origin = OriginAdoption ''o'',
      tri_confirmed_at_ms = 2, tri_digest = sample_key\<rparr>"

definition sample_device_binding :: device_binding_row where
  "sample_device_binding =
     \<lparr>trb_binding_id = TypedId 30, trb_device_id = TypedId 3, trb_network_id = TypedId 2,
      trb_provenance_kind = ProvenanceAdoption, trb_provider_instance_id = TypedId 7,
      trb_provider_node_id = ProviderNodeId ''n1'', trb_machine_key = sample_key, trb_state = PBActive,
      trb_revision = 1, trb_observed_at_ms = 2, trb_stale_at_ms = None, trb_cleanup_at_ms = None,
      trb_removed_at_ms = None, trb_last_audit = None, trb_actor_source = None, trb_actor_id = None\<rparr>"

definition sample_adoption_row :: adopted_provenance_row where
  "sample_adoption_row =
     \<lparr>tra_binding_id = TypedId 30, tra_device_id = TypedId 3, tra_network_id = TypedId 2,
      tra_provider_instance_id = TypedId 7, tra_provider_node_id = ProviderNodeId ''n1'',
      tra_machine_key = sample_key, tra_node_key = sample_key\<rparr>"

definition sample_adopted :: trust_db where
  "sample_adopted = (sample_configured 9 0)\<lparr>td_trust := [untrusted_state (TypedId 3) (TypedId 2) 2000000],
     td_bindings := [sample_device_binding], td_adoptions := [sample_adoption_row],
     td_identities := [sample_identity]\<rparr>"

lemmas sample_device_parts = sample_identity_def sample_device_binding_def sample_adoption_row_def sample_adopted_def

lemma sample_key_ok: "hash_column sample_key" "length sample_key = 71"
  unfolding sample_key_def by code_simp+

lemma sample_adopts:
  "adopt_device sample_identity sample_device_binding sample_adoption_row 2000000 (sample_configured 9 0) = Inr sample_adopted"
  by (simp add: adopt_device_def guard_simps insert_effects sample_trust_parts sample_device_parts sample_key_ok
      device_binding_check_def since_def device_binding_indexes_def active_bindings_def trust_state_check_def
      untrusted_state_def timestamp_millis_def)

definition sample_permit :: "uuid \<Rightarrow> DateTime \<Rightarrow> DeviceTrustCapability \<Rightarrow> DeviceTrustAuthorization" where
  "sample_permit k now capability =
     \<lparr>da_action_id = TypedId k, da_authority_id = TypedId 9, da_authority_generation = Generation 9,
      da_device_id = TypedId 3, da_network_id = TypedId 2,
      da_expected_state = (if capability = ActivateDeviceTrust then DTUntrusted else DTTrusted),
      da_expected_revision = Generation (if capability = ActivateDeviceTrust then 1 else 2),
      da_capability = capability, da_principal_source = ''operator'', da_principal_id = ''owner'',
      da_issued_at = now, da_expires_at = 1000000000\<rparr>"

definition issued_to :: "trust_db \<Rightarrow> uuid \<Rightarrow> DateTime \<Rightarrow> DeviceTrustCapability \<Rightarrow> trust_db" where
  "issued_to db k now capability = db\<lparr>
     td_authorizations := td_authorizations db @ [issued_trust_row (sample_permit k now capability) 9
       (if capability = ActivateDeviceTrust then 1 else 2)],
     td_events := td_events db @ [audit_row (sample_n5_draws k) (TypedId 2) (Some (TypedId 3)) sample_trust_owner
       ''device.trust_authorization_issued'' (Some (da_expected_revision (sample_permit k now capability)))]\<rparr>"

definition sample_trust_decision :: "uuid \<Rightarrow> DateTime \<Rightarrow> TrustDecisionKind \<Rightarrow> DeviceTrustAuthorization \<Rightarrow> trust_decision_row" where
  "sample_trust_decision k now kind z = trust_decision sample_trust_env (sample_n5_draws k) z now kind
     (if kind = TDActivate then OwnerApproved else OwnerRevoked) 9
     (uint (gen_get (da_expected_revision z))) (uint (gen_get (da_expected_revision z)) + 1)"

definition decided_in :: "trust_db \<Rightarrow> trust_decision_row \<Rightarrow> trust_db" where
  "decided_in db d = db\<lparr>td_decisions := td_decisions db @ [d], td_events := td_events db @ [decision_event d],
     td_authorizations := map (\<lambda>z. if spends d z then spent_authorization d z else z) (td_authorizations db),
     td_trust := map (\<lambda>s. if decides d s then decided_state d s else s) (td_trust db)\<rparr>"

abbreviation "sample_activation \<equiv> sample_permit 10 10000000 ActivateDeviceTrust"
abbreviation "sample_revocation_permit \<equiv> sample_permit 12 12000000 RevokeDeviceTrust"

definition sample_permitted :: trust_db where
  "sample_permitted = issued_to sample_adopted 10 10000000 ActivateDeviceTrust"

definition sample_trusted :: trust_db where
  "sample_trusted = decided_in sample_permitted (sample_trust_decision 11 11000000 TDActivate sample_activation)"

definition sample_revocable :: trust_db where
  "sample_revocable = issued_to sample_trusted 12 12000000 RevokeDeviceTrust"

definition sample_untrusted :: trust_db where
  "sample_untrusted = decided_in sample_revocable (sample_trust_decision 13 13000000 TDRevoke sample_revocation_permit)"

lemmas sample_trust_steps =
  sample_permitted_def sample_trusted_def sample_revocable_def sample_untrusted_def issued_to_def decided_in_def
  sample_permit_def sample_trust_decision_def trust_decision_def issued_trust_row_def spends_def decides_def
  spent_authorization_def decided_state_def untrusted_state_def

lemma sample_digest: "hash_column (safe_n5_digest sample_trust_env parts)"
  using sample_key_ok(1) by (simp add: safe_n5_digest_def sha256_fingerprint_def sample_trust_env_def sample_store_env_def
      sample_key_def)

lemma sample_issues_activation:
  "n5_perform sample_trust_env 10000000 (CallIssueTrust (sample_n5_draws 10) sample_root_token (TypedId 9) (TypedId 3)
     (Generation 1) ActivateDeviceTrust) sample_adopted = (PermitAnswer (Inr sample_activation), sample_permitted)"
proof -
  have "issue_trust_tx sample_trust_env (sample_n5_draws 10) sample_root_token (TypedId 9) (TypedId 3) (Generation 1)
      ActivateDeviceTrust 10000000 sample_adopted = Inr (sample_activation, sample_permitted)"
    using sample_verifies [of sample_adopted]
    by (simp add: issue_trust_tx_def issuing_rows_def guard_simps trust_effects sample_trust_parts sample_device_parts
        sample_trust_steps audit_accepts_def timestamp_millis_def unsealed_authority_def sealed_authority_def
        column_u64_def domain_conflict_def Generation_new_def actionable_def to_i64_def authorization_lifetime_def
        trust_authorization_valid_def authority_in_force_def active_root_def trust_authorization_check_def Let_def)
  then show ?thesis by (simp add: issue_device_trust_authorization_def transactional_def)
qed

lemma sample_issues_revocation:
  "n5_perform sample_trust_env 12000000 (CallIssueTrust (sample_n5_draws 12) sample_root_token (TypedId 9) (TypedId 3)
     (Generation 2) RevokeDeviceTrust) sample_trusted = (PermitAnswer (Inr sample_revocation_permit), sample_revocable)"
proof -
  have "td_roots sample_trusted = [sample_root_row]"
    by (simp add: sample_trust_parts sample_device_parts sample_trust_steps)
  from sample_verifies [OF this]
  have "issue_trust_tx sample_trust_env (sample_n5_draws 12) sample_root_token (TypedId 9) (TypedId 3) (Generation 2)
      RevokeDeviceTrust 12000000 sample_trusted = Inr (sample_revocation_permit, sample_revocable)"
    by (simp add: issue_trust_tx_def issuing_rows_def guard_simps trust_effects sample_trust_parts sample_device_parts
        sample_trust_steps audit_accepts_def timestamp_millis_def unsealed_authority_def sealed_authority_def
        column_u64_def domain_conflict_def Generation_new_def actionable_def to_i64_def authorization_lifetime_def
        trust_authorization_valid_def authority_in_force_def active_root_def trust_authorization_check_def Let_def)
  then show ?thesis by (simp add: issue_device_trust_authorization_def transactional_def)
qed

lemmas trust_decision_eval =
  decide_trust_tx_def injected_failure_def guard_simps trust_effects sample_trust_parts sample_device_parts
  sample_trust_steps timestamp_millis_def unsealed_authority_def sealed_authority_def column_u64_def bind_u64_def
  domain_conflict_def Generation_new_def to_i64_def checked_add_u64_def DeviceTrustState_transition_def
  enum_transition_def insert_trust_decision_def trust_decision_valid_def authority_in_force_def active_root_def
  authorizes_def active_device_binding_def trust_decision_check_def apply_decision_trigger_def update_where_Inr
  consumption_bound_def decision_bound_def trust_authorization_check_def trust_state_check_def since_def
  load_device_trust_view_def trust_state_of_def binding_joins_def Let_def

definition sample_trust_view :: "DeviceTrustState \<Rightarrow> u64 \<Rightarrow> DeviceTrustView" where
  "sample_trust_view state revision =
     \<lparr>tv_device_id = TypedId 3, tv_network_id = TypedId 2, tv_state = state, tv_revision = Generation revision,
      tv_provider_binding = None, tv_currently_trusted = False\<rparr>"

lemma sample_activates:
  "n5_perform sample_trust_env 11000000 (CallActivate (sample_n5_draws 11) sample_activation OwnerApproved) sample_permitted =
   (ViewAnswer (Inr (sample_trust_view DTTrusted 2)), sample_trusted)"
proof -
  have "decide_trust_tx sample_trust_env (sample_n5_draws 11) sample_activation 11000000 TDActivate OwnerApproved
      sample_permitted = Inr (sample_trust_view DTTrusted 2, sample_trusted)"
    using sample_digest sample_principal by (simp add: trust_decision_eval sample_trust_view_def)
  then show ?thesis
    by (simp add: activate_device_trust_def apply_n5_trust_decision_def transactional_def sample_permit_def)
qed

lemma sample_revokes_trust:
  "n5_perform sample_trust_env 13000000 (CallRevokeTrust (sample_n5_draws 13) sample_revocation_permit OwnerRevoked)
     sample_revocable = (ViewAnswer (Inr (sample_trust_view DTRevoked 3)), sample_untrusted)"
proof -
  have "decide_trust_tx sample_trust_env (sample_n5_draws 13) sample_revocation_permit 13000000 TDRevoke OwnerRevoked
      sample_revocable = Inr (sample_trust_view DTRevoked 3, sample_untrusted)"
    using sample_digest sample_principal by (simp add: trust_decision_eval sample_trust_view_def)
  then show ?thesis
    by (simp add: revoke_device_trust_def apply_n5_trust_decision_def transactional_def sample_permit_def)
qed

definition sample_trust_entry :: "DateTime \<Rightarrow> n5_call \<Rightarrow> trust_db \<Rightarrow> n5_answer \<Rightarrow> n5_entry" where
  "sample_trust_entry now c db a = \<lparr>tn_now = now, tn_call = c, tn_db = db, tn_answer = a\<rparr>"

lemma n5_run_called:
  assumes "n5_run E (db, es)" "n5_perform E now c db = (a, db')"
    and "\<And>before. asked_at c = Some before \<Longrightarrow> before = db \<or> before \<in> tn_db ` set es"
  shows "n5_step E (db, es) (db', es @ [sample_trust_entry now c db a])"
    "n5_run E (db', es @ [sample_trust_entry now c db a])"
proof -
  show s: "n5_step E (db, es) (db', es @ [sample_trust_entry now c db a])"
    unfolding sample_trust_entry_def by (rule n5_step.called [OF assms(2,3)])
  from assms(1) s show "n5_run E (db', es @ [sample_trust_entry now c db a])"
    unfolding n5_run_def by (meson rtranclp.rtrancl_into_rtrancl)
qed

definition sample_owner_entries :: "u64 \<Rightarrow> DateTime \<Rightarrow> n5_entry list" where
  "sample_owner_entries g start =
     [sample_trust_entry 1000000 (CallBootstrap (sample_n5_draws 8) (TypedId 2) ''operator'' ''owner'' AuditActor_system)
        sample_trust_start (TokenAnswer (Inr sample_root_token)),
      sample_trust_entry 1000000 (CallConfigure (sample_n5_draws 9) sample_root_token (sample_powers g start))
        sample_rooted (DoneAnswer (Inr ()))]"

definition sample_issue_entry :: n5_entry where
  "sample_issue_entry = sample_trust_entry 10000000 (CallIssueTrust (sample_n5_draws 10) sample_root_token (TypedId 9)
     (TypedId 3) (Generation 1) ActivateDeviceTrust) sample_adopted (PermitAnswer (Inr sample_activation))"

definition sample_activate_entry :: n5_entry where
  "sample_activate_entry = sample_trust_entry 11000000 (CallActivate (sample_n5_draws 11) sample_activation OwnerApproved)
     sample_permitted (ViewAnswer (Inr (sample_trust_view DTTrusted 2)))"

definition sample_reissue_entry :: n5_entry where
  "sample_reissue_entry = sample_trust_entry 12000000 (CallIssueTrust (sample_n5_draws 12) sample_root_token (TypedId 9)
     (TypedId 3) (Generation 2) RevokeDeviceTrust) sample_trusted (PermitAnswer (Inr sample_revocation_permit))"

definition sample_revoke_entry :: n5_entry where
  "sample_revoke_entry = sample_trust_entry 13000000
     (CallRevokeTrust (sample_n5_draws 13) sample_revocation_permit OwnerRevoked) sample_revocable
     (ViewAnswer (Inr (sample_trust_view DTRevoked 3)))"

lemma sample_owner_runs:
  assumes "(g, start) = (9, 0) \<or> (g, start) = (10, 5000000000)"
  shows "n5_run sample_trust_env (sample_configured g start, sample_owner_entries g start)"
proof -
  have "n5_run sample_trust_env (sample_trust_start, [])"
    unfolding n5_run_def by (intro exI [of _ sample_trust_start])
      (simp add: fresh_trust_def trust_tables_def sample_trust_start_def)
  from n5_run_called(2) [OF n5_run_called(2) [OF this sample_bootstraps] sample_configures [OF assms]]
  show ?thesis by (simp add: sample_owner_entries_def)
qed

lemma sample_adopted_runs: "n5_run sample_trust_env (sample_adopted, sample_owner_entries 9 0)"
proof -
  have "n5_run sample_trust_env (sample_configured 9 0, sample_owner_entries 9 0)" by (rule sample_owner_runs) simp
  moreover have "n5_step sample_trust_env (sample_configured 9 0, sample_owner_entries 9 0)
      (sample_adopted, sample_owner_entries 9 0)" by (rule n5_step.adopted [OF sample_adopts])
  ultimately show ?thesis unfolding n5_run_def by (meson rtranclp.rtrancl_into_rtrancl)
qed

lemma sample_permitted_runs:
  "n5_run sample_trust_env (sample_permitted, sample_owner_entries 9 0 @ [sample_issue_entry])"
  unfolding sample_issue_entry_def
  by (rule n5_run_called(2) [OF sample_adopted_runs sample_issues_activation]) simp

lemma sample_trusted_runs:
  "n5_step sample_trust_env (sample_permitted, sample_owner_entries 9 0 @ [sample_issue_entry])
     (sample_trusted, sample_owner_entries 9 0 @ [sample_issue_entry, sample_activate_entry])"
  "n5_run sample_trust_env (sample_trusted, sample_owner_entries 9 0 @ [sample_issue_entry, sample_activate_entry])"
  using n5_run_called [OF sample_permitted_runs sample_activates] by (simp_all add: sample_activate_entry_def)

lemma sample_revocable_runs:
  "n5_run sample_trust_env (sample_revocable,
     sample_owner_entries 9 0 @ [sample_issue_entry, sample_activate_entry, sample_reissue_entry])"
  using n5_run_called(2) [OF sample_trusted_runs(2) sample_issues_revocation] by (simp add: sample_reissue_entry_def)

lemma sample_untrusted_runs:
  "n5_run sample_trust_env (sample_untrusted,
     sample_owner_entries 9 0 @ [sample_issue_entry, sample_activate_entry, sample_reissue_entry, sample_revoke_entry])"
  using n5_run_called(2) [OF sample_revocable_runs sample_revokes_trust] by (simp add: sample_revoke_entry_def)

text \<open>What the provider shows of the adopted device.\<close>

definition sample_node :: ProviderNode where
  "sample_node =
     \<lparr>pn_identity = \<lparr>pi_provider_instance_id = TypedId 7, pi_node_id = ProviderNodeId ''n1'',
        pi_stable_key_fingerprint = sample_key\<rparr>,
      pn_identity_evidence = \<lparr>ie_machine_key = Some (ConditionalIdentityEvidence ''m''),
        ie_node_key = Some (MutableIdentityEvidence ''n''), ie_disco_key = None\<rparr>,
      pn_hostname = ''h'', pn_given_name = ''h'', pn_addresses = [], pn_user = None, pn_pre_auth = None,
      pn_tags = [], pn_registered_at = None, pn_last_seen = None, pn_expires_at = None,
      pn_observed_at = 5, pn_online = None, pn_expired = False\<rparr>"

definition sample_provider :: "ProviderNode list \<Rightarrow> NodeProvider" where
  "sample_provider nodes =
     \<lparr>ro_instance_id = TypedId 7, ro_inspect_server = Inl PETimeout, ro_list_nodes = Inr nodes,
      ro_get_node = (\<lambda>_. Inr None)\<rparr>"

definition sample_adoption :: reconciliation_binding where
  "sample_adoption = ReconcileAdoption (pn_identity sample_node) (Generation 1) PBActive sample_key"

lemma sample_reconciliation_start:
  "reconciliation_start sample_trust_env (sample_provider nodes) (TypedId 3) AuditActor_system sample_trusted =
     Inr (sample_trust_view DTTrusted 2, Some sample_adoption)"
proof -
  have v: "load_device_trust_view sample_trust_env (TypedId 3) sample_trusted = Inr (sample_trust_view DTTrusted 2)"
    by (simp add: trust_decision_eval sample_trust_view_def)
  show ?thesis
    unfolding reconciliation_start_def v
    by (simp add: validate_n5_audit_actor_def AuditActor_system_def sample_provider_def binding_to_reconcile_def
        adoption_binding_def adoption_rows_def live_binding_state_def trust_decision_eval ProviderIdentity_new_def
        sample_key_ok sample_adoption_def sample_node_def) (simp add: sample_key_def)
qed

lemma sample_exact:
  "observe_binding (sample_provider [sample_node]) sample_adoption = Inr (Some sample_node)"
  "remains_exact sample_trust_env sample_adoption now sample_node"
  "observe_binding (sample_provider []) sample_adoption = Inr None"
  by (simp_all add: observe_binding_def sample_provider_def sample_adoption_def sample_node_def remains_exact_def
      adopted_provider_node_remains_exact_def unexpired_def machine_fingerprint_def node_fingerprint_def
      sha256_fingerprint_def sample_trust_env_def sample_store_env_def sample_key_def)

lemma sample_affirms:
  "reconcile_n5_provider_binding_from_provider sample_trust_env D (sample_provider [sample_node]) (TypedId 3) now
     AuditActor_system sample_trusted db = (Inr (affirmed (sample_trust_view DTTrusted 2)), db)"
  using sample_exact(1) sample_exact(2) [of now]
  by (simp add: reconcile_n5_provider_binding_from_provider_def sample_reconciliation_start reconcile_answer_def)
    (simp add: sample_adoption_def)

lemma sample_stales:
  "\<exists>v db'. reconcile_n5_provider_binding_from_provider sample_trust_env (sample_n5_draws 14) (sample_provider [])
     (TypedId 3) 14000000 AuditActor_system sample_trusted sample_trusted = (Inr v, db')"
proof -
  have "\<exists>v db'. move_binding_tx sample_trust_env (sample_n5_draws 14) (TypedId 3) (Generation 1) [PBActive]
      (staled_binding 14000000) AuditActor_system sample_trusted = Inr (v, db')"
    by (simp add: move_binding_tx_def update_device_bindings_def expected_binding_def device_binding_update_ok_def
        moved_binding_def staled_binding_def device_binding_check_def device_binding_indexes_def active_bindings_def
        binding_event_def trust_decision_eval sample_key_ok AuditActor_system_def sample_principal bounded_safe_def
        safe_id_byte_def is_ascii_alphanumeric_def is_ascii_digit_def byte_val_def)
  then obtain v db' where m: "move_binding_tx sample_trust_env (sample_n5_draws 14) (TypedId 3) (Generation 1) [PBActive]
      (staled_binding 14000000) AuditActor_system sample_trusted = Inr (v, db')" by blast
  have "validate_n5_audit_actor AuditActor_system = Inr ()"
    by (simp add: validate_n5_audit_actor_def AuditActor_system_def)
  moreover have "rb_state sample_adoption = PBActive" "rb_revision sample_adoption = Generation 1"
    by (simp_all add: sample_adoption_def)
  ultimately show ?thesis
    by (simp add: reconcile_n5_provider_binding_from_provider_def sample_reconciliation_start reconcile_answer_def sample_exact(3)
        mark_n5_provider_binding_stale_def move_binding_def transactional_def m)
qed

definition sample_frozen :: trust_db where
  "sample_frozen = sample_revocable\<lparr>td_roots := [revoked_root 14000000 sample_root_row],
     td_authorities := [revoked_authority 14000000
       (sealed_authority (unsealed_authority sample_root_token (sample_powers 9 0) 9))],
     td_events := td_events sample_revocable @ [audit_row (sample_n5_draws 14) (TypedId 2) None sample_trust_owner
       ''device.owner_trust_root_revoked'' None]\<rparr>"

lemma sample_freezes:
  "n5_perform sample_trust_env 14000000 (CallRevokeRoot (sample_n5_draws 14) sample_root_token) sample_revocable =
   (DoneAnswer (Inr ()), sample_frozen)"
proof -
  have "td_roots sample_revocable = [sample_root_row]"
    by (simp add: sample_trust_parts sample_device_parts sample_trust_steps)
  from sample_verifies [OF this]
  have "revoke_root_tx sample_trust_env (sample_n5_draws 14) sample_root_token 14000000 sample_revocable =
      Inr ((), sample_frozen)"
    by (simp add: revoke_root_tx_def guard_simps trust_effects sample_trust_parts sample_device_parts sample_trust_steps
        audit_accepts_def timestamp_millis_def unsealed_authority_def sealed_authority_def revoked_authority_def
        revoked_root_def enabled_root_def trust_authority_update_ok_def trust_authority_check_def root_update_ok_def
        root_check_def since_def sample_principal sample_column sample_frozen_def Let_def)
  then show ?thesis by (simp add: revoke_n5_owner_trust_root_def transactional_def)
qed

section \<open>Affirmations and witnesses\<close>

text \<open>C19: An affirmation rests on the trust read before the provider was asked: there are runs in which a
  device is affirmed as currently trusted by a call that returns after its trust was revoked.\<close>
theorem affirmation_overlooks_revocation:
  "\<exists>E db entries e v d. n5_run E (db, entries) \<and> e \<in> set entries \<and> tn_answer e = ViewAnswer (Inr v) \<and>
     tv_device_id v = d \<and> tv_currently_trusted v \<and> trust_abs d (tn_db e) = Some (DTRevoked, 3)"
proof -
  let ?es = "sample_owner_entries 9 0 @ [sample_issue_entry, sample_activate_entry, sample_reissue_entry, sample_revoke_entry]"
  let ?c = "CallReconcile (sample_n5_draws 14) (sample_provider [sample_node]) (TypedId 3) AuditActor_system sample_trusted"
  let ?v = "affirmed (sample_trust_view DTTrusted 2)"
  let ?e = "sample_trust_entry 14000000 ?c sample_untrusted (ViewAnswer (Inr ?v))"
  have "n5_perform sample_trust_env 14000000 ?c sample_untrusted =
      (ViewAnswer (Inr ?v), sample_untrusted)"
    by (simp add: sample_affirms)
  moreover have "sample_trusted \<in> tn_db ` set ?es" by (simp add: sample_reissue_entry_def sample_trust_entry_def)
  ultimately have r: "n5_run sample_trust_env (sample_untrusted, ?es @ [?e])"
    by (intro n5_run_called(2) [OF sample_untrusted_runs]) auto
  have "tn_answer ?e = ViewAnswer (Inr ?v)" "tn_db ?e = sample_untrusted" "tv_device_id ?v = TypedId 3" "tv_currently_trusted ?v"
    by (simp_all add: sample_trust_entry_def affirmed_def sample_trust_view_def)
  moreover have "trust_abs (TypedId 3) sample_untrusted = Some (DTRevoked, 3)"
    by (simp add: trust_abs_def trust_decision_eval)
  moreover have "?e \<in> set (?es @ [?e])" by simp
  ultimately show ?thesis using r by metis
qed

theorem trust_refines_lifecycle_witness:
  "\<exists>E db es db' es'. n5_run E (db, es) \<and> n5_step E (db, es) (db', es') \<and>
     trust_abs (TypedId 3) db = Some (DTUntrusted, 1) \<and> trust_abs (TypedId 3) db' = Some (DTTrusted, 2) \<and>
     trust_move (trust_abs (TypedId 3) db) (trust_abs (TypedId 3) db')"
proof -
  have "trust_abs (TypedId 3) sample_permitted = Some (DTUntrusted, 1)"
    "trust_abs (TypedId 3) sample_trusted = Some (DTTrusted, 2)"
    by (simp_all add: trust_abs_def trust_decision_eval)
  with trust_refines_lifecycle [OF sample_permitted_runs sample_trusted_runs(1), of "TypedId 3"]
    sample_permitted_runs sample_trusted_runs(1) show ?thesis by blast
qed

theorem trust_decisions_authorized_witness:
  "\<exists>E db earlier e later z. n5_run E (db, earlier @ e # later) \<and> trust_decided e = Some z \<and>
     da_capability z = ActivateDeviceTrust \<and> backed_decision E earlier e z"
proof -
  have "trust_decided sample_activate_entry = Some sample_activation" "da_capability sample_activation = ActivateDeviceTrust"
    by (simp_all add: sample_activate_entry_def sample_trust_entry_def trust_decided_def sample_permit_def)
  moreover from this trust_decisions_authorized [OF sample_trusted_runs(2)]
  have "backed_decision sample_trust_env (sample_owner_entries 9 0 @ [sample_issue_entry]) sample_activate_entry sample_activation"
    by fastforce
  moreover have "n5_run sample_trust_env
      (sample_trusted, (sample_owner_entries 9 0 @ [sample_issue_entry]) @ sample_activate_entry # [])"
    using sample_trusted_runs(2) by simp
  ultimately show ?thesis by blast
qed

theorem revoked_root_freezes_trust_witness:
  "\<exists>E db es db' es' c. n5_run E (db, es) \<and> n5_step E (db, es) (db', es') \<and>
     tn_call (last es') = CallRevokeTrust (sample_n5_draws 13) sample_revocation_permit OwnerRevoked \<and>
     decisions_in (TypedId 2) db' = decisions_in (TypedId 2) db \<and> length (decisions_in (TypedId 2) db) = 1"
proof -
  let ?c = "CallRevokeTrust (sample_n5_draws 13) sample_revocation_permit OwnerRevoked"
  obtain es where r: "n5_run sample_trust_env (sample_frozen, es)"
    using n5_run_called(2) [OF sample_revocable_runs sample_freezes] by auto
  obtain a db' where p: "n5_perform sample_trust_env 15000000 ?c sample_frozen = (a, db')"
    by (cases "n5_perform sample_trust_env 15000000 ?c sample_frozen")
  let ?es = "es @ [sample_trust_entry 15000000 ?c sample_frozen a]"
  have s: "n5_step sample_trust_env (sample_frozen, es) (db', ?es)" by (rule n5_run_called(1) [OF r p]) simp
  have "revoked_root 14000000 sample_root_row \<in> set (td_roots sample_frozen)"
    "tr_network_id (revoked_root 14000000 sample_root_row) = TypedId 2" "\<not> tr_enabled (revoked_root 14000000 sample_root_row)"
    by (simp_all add: sample_frozen_def revoked_root_def sample_root_row_def)
  from revoked_root_freezes_trust [OF r this r_into_rtranclp [where r = "n5_step sample_trust_env", OF s]]
  have "decisions_in (TypedId 2) db' = decisions_in (TypedId 2) sample_frozen" by blast
  moreover have "length (decisions_in (TypedId 2) sample_frozen) = 1"
    by (simp add: decisions_in_def sample_frozen_def trust_decision_eval)
  moreover have "tn_call (last ?es) = ?c" by (simp add: sample_trust_entry_def)
  ultimately show ?thesis using r s by blast
qed

theorem future_authority_blocks_root_revocation_witness:
  "\<exists>E db es e. n5_run E (db, es) \<and>
     revoke_n5_owner_trust_root E (sample_n5_draws 20) sample_root_token 2000000 db = (Inl e, db)"
proof -
  have r: "n5_run sample_trust_env (sample_configured 10 5000000000, sample_owner_entries 10 5000000000)"
    by (rule sample_owner_runs) simp
  let ?a = "sealed_authority (unsealed_authority sample_root_token (sample_powers 10 5000000000) 10)"
  have "?a \<in> set (td_authorities (sample_configured 10 5000000000))" "ta_trust_root_id ?a = ot_trust_root_id sample_root_token"
    "ta_enabled ?a" "timestamp_millis 2000000 < ta_not_before_ms ?a"
    by (simp_all add: sample_configured_def sealed_authority_def unsealed_authority_def sample_powers_def timestamp_millis_def)
  from future_authority_blocks_root_revocation [OF r this] r show ?thesis by blast
qed

theorem affirmed_trust_is_fresh_witness:
  "\<exists>v b node. reconcile_n5_provider_binding_from_provider sample_trust_env (sample_n5_draws 14)
       (sample_provider [sample_node]) (TypedId 3) 14000000 AuditActor_system sample_trusted sample_trusted =
       (Inr v, sample_trusted) \<and> tv_currently_trusted v \<and> tv_state v = DTTrusted \<and>
     observe_binding (sample_provider [sample_node]) b = Inr (Some node) \<and> unexpired 14000000 node \<and>
     machine_fingerprint sample_trust_env node = Some (pi_stable_key_fingerprint (rb_identity b))"
proof -
  have t: "tv_currently_trusted (affirmed (sample_trust_view DTTrusted 2))"
    by (simp add: affirmed_def sample_trust_view_def)
  note r = sample_affirms [of "sample_n5_draws 14" 14000000 sample_trusted]
  from affirmed_trust_is_fresh [OF r t] r t show ?thesis by blast
qed

theorem unconfirmed_binding_fails_closed_witness:
  "\<exists>v db'. reconcile_n5_provider_binding_from_provider sample_trust_env (sample_n5_draws 14) (sample_provider [])
       (TypedId 3) 14000000 AuditActor_system sample_trusted sample_trusted = (Inr v, db') \<and>
     \<not> tv_currently_trusted v \<and> list_ex (active_device_binding (TypedId 3) (TypedId 2)) (td_bindings sample_trusted) \<and>
     \<not> list_ex (active_device_binding (TypedId 3) (TypedId 2)) (td_bindings db') \<and>
     binding_staled (sample_n5_draws 14) (TypedId 3) (Generation 1) 14000000 AuditActor_system sample_trusted db'"
proof -
  obtain v db' where r: "reconcile_n5_provider_binding_from_provider sample_trust_env (sample_n5_draws 14)
      (sample_provider []) (TypedId 3) 14000000 AuditActor_system sample_trusted sample_trusted = (Inr v, db')"
    using sample_stales by blast
  have "rb_state sample_adoption = PBActive" "rb_revision sample_adoption = Generation 1"
    by (simp_all add: sample_adoption_def)
  moreover have "list_ex (active_device_binding (TypedId 3) (TypedId 2)) (td_bindings sample_trusted)"
    by (simp add: trust_decision_eval active_device_binding_def)
  ultimately show ?thesis
    using r unconfirmed_binding_fails_closed [OF sample_trusted_runs(2) sample_reconciliation_start _ r] sample_exact(3)
    by (auto simp: is_ok_def)
qed

end
