(* ===== verification/Spec2Isabelle.thy ===== *)
theory Spec2Isabelle
  imports Fleet_Projection Projection_Service Redemption_Ingress N6_Commands Invitations N4_Service
    Discovery_Properties Binding_Properties Trust_Properties
begin

text \<open>
  Nodescale is the control plane of a private device network: it records networks, devices and
  invitations, issues provider credentials, binds devices to authenticated Keryx peers, and
  projects the resulting desired state to a Fleet service. This library models its core from
  the sources under \<^verbatim>\<open>crates/\<close> and proves what makes the parts correct.

  Domain model (\<^verbatim>\<open>nodescale-domain/src/lib.rs\<close> and \<^verbatim>\<open>n7.rs\<close>):
    \<^item> \<open>Nodescale_Prelude\<close>: machine integers, results and the question-mark operator, Rust
      strings, big-endian digits, decimal and hexadecimal text, length prefixes;
    \<^item> \<open>Domain_Core\<close>: errors, identifiers, generations, roles and operations;
    \<^item> \<open>Lifecycle\<close>: the transition tables, one datatype and one table per enum, and the locale
      \<open>lifecycle\<close> of closed states that every table instantiates;
    \<^item> \<open>Keryx_Identity\<close>: persisted binding identities and their validation, device generation
      counters, networks and devices;
    \<^item> \<open>Tokens\<close>: bearer tokens and nonces, Argon2 verifiers;
    \<^item> \<open>N6_Commands\<close>: challenge requests, deliveries, authorizations and intents;
    \<^item> \<open>Invitations\<close>: invitations, join sessions, revocations;
    \<^item> \<open>Fleet_Projection\<close>: the desired Fleet projection and its content digest;
    \<^item> \<open>Reference_Codecs\<close>: instances of the external codecs, for the witnesses only.

  Projection to Fleet:
    \<^item> \<open>Fleet_Client\<close> (\<^verbatim>\<open>nodescale-fleet-client/src/lib.rs\<close>): the canonical JSON writer, projection
      documents and their hash, frames of at most 32768 bytes, and how an exchange over a socket
      becomes a result or one of the four apply errors;
    \<^item> \<open>Fleet_Tables\<close> (\<^verbatim>\<open>nodescale-state/migrations/0007_fleet_projection.sql\<close>): the tables as lists
      of rows with their constraints and triggers, the statements as steps \<open>fleet_write\<close>, and
      the invariant \<open>fleet_inv\<close> every accepted statement keeps;
    \<^item> \<open>Projection_Store\<close> (\<^verbatim>\<open>nodescale-state/src/n7.rs\<close>): the three transactions on those tables;
      \<open>run_store\<close> interleaves them with writes of other components, and \<open>store_inv\<close> adds to
      \<open>fleet_inv\<close> what only the transactions guarantee;
    \<^item> \<open>Projection_Service\<close> (\<^verbatim>\<open>nodescale-projection/src/lib.rs\<close>): one reconciliation over that store
      and the Fleet transport. The locale \<open>projection_records\<close> holds the laws the service needs;
      its interpretation on the store's transactions makes the service's lemmas hold for the
      composed system, under any interference of other store connections.

  Invitations and provider credentials:
    \<^item> \<open>Mutation_Authority\<close> (\<^verbatim>\<open>nodescale-state/src/lib.rs\<close>, migration 0003): the owner's
      configuration of provider mutations, replaced by compare-and-swap, and the authorizations
      minted from it; a later replacement makes every earlier authorization invalid;
    \<^item> \<open>N4_Store\<close> (the same file, migration 0004): the tables of invitations, join sessions,
      dispatches, credential references, metadata and audit correlations with their triggers,
      and the transactions that issue, reserve, dispatch, confirm, fail, revoke, expire and
      settle an invitation;
    \<^item> \<open>N4_Lifecycle\<close>: runs of those transactions. The locale \<open>n4_preorder\<close> carries any relation
      every single write respects to every transaction and run; it is interpreted for the
      dispatches, which only advance, and for the evidence, which only grows;
    \<^item> \<open>N4_Service\<close> (\<^verbatim>\<open>nodescale-invitation/src/lib.rs\<close>): the service over that store and a
      mutation provider, which is a parameter: creating, redeeming, revoking and expiring.

  Redemption of invitations over the network:
    \<^item> \<open>Admission\<close> (\<^verbatim>\<open>nodescale-redemption-ingress/src/lib.rs\<close>): limits, token buckets and the
      controller; the lemmas follow the tokens a bucket pays, and hold for any order of instants;
    \<^item> \<open>Redemption_Ingress\<close> (the same file): the HTTP handler behind that controller, and the worker
      that redeems one command at a time over the invitation service, which is a parameter; the
      worker asks for a revocation once and discards its result.

  Discovery of provider nodes (\<^verbatim>\<open>nodescale-state/src/lib.rs\<close>, migrations 0001, 0002, 0008, 0010):
    \<^item> \<open>Provider_Contract\<close> (\<^verbatim>\<open>nodescale-provider/src/lib.rs\<close>): what a read-only provider answers,
      its inspections, the evidence about a node, and its errors;
    \<^item> \<open>Discovery_Store\<close>: import configurations, the observation and adoption tables, importing a
      Headscale or Tailscale network, reconciling its nodes, recording failures, the report and
      the pages of observations;
    \<^item> \<open>Discovery\<close>: the invariant \<open>discovery_inv\<close> of those tables and the effect of one snapshot, first
      for one row, then through the loop over listed nodes and the loop over missing ones;
    \<^item> \<open>Discovery_Runs\<close>: runs of imports, reconciliations whose provider answers while other calls
      commit, and writes of the adoption code;
    \<^item> \<open>Discovery_Properties\<close>: what every run guarantees, with a sample run for the witnesses.

  Bindings of devices to Keryx peers (\<^verbatim>\<open>nodescale-state/src/n6.rs\<close>, migrations 0006 and 0009):
    \<^item> \<open>Binding_Tables\<close>: binding records, challenges, authorizations, reservations, operations and
      decisions, each statement with the triggers, checks and indexes of its table;
    \<^item> \<open>Binding_Store\<close>: reserving, completing and confirming a challenge, granting and issuing
      authorizations, rotating and revoking a binding, and the queries;
    \<^item> \<open>Binding_Lifecycle\<close>: the locale \<open>binding_preorder\<close> carries any relation every statement
      respects to every transaction; it is interpreted for the history, which only grows, and for
      the invariant \<open>tables_ok\<close> of the tables;
    \<^item> \<open>Binding_Runs\<close>: calls and runs of that store, what each transaction does to the binding
      records, and the abstract lineage of a device, which every call refines;
    \<^item> \<open>Binding_Properties\<close>: what every run guarantees, with a sample run for the witnesses.

  Trust of devices (\<^verbatim>\<open>nodescale-state/src/n5.rs\<close>, migrations 0005, 0008, 0009 and 0011):
    \<^item> \<open>Trust_Tables\<close>: owner roots, trust authorities, authorizations, decisions, the trust state and
      the provider binding of a device, each statement with its triggers, checks and indexes;
    \<^item> \<open>Trust_Store\<close>: bootstrapping and revoking an owner root, configuring and revoking
      authorities, issuing and spending authorizations, memberships, and the four transitions of
      a provider binding;
    \<^item> \<open>Trust_Reconciliation\<close>: confirming the identity of a joined device and reconciling its
      binding from what the provider shows, and the device identity service
      (\<^verbatim>\<open>nodescale-device-trust/src/lib.rs\<close>); a provider answers while other calls commit;
    \<^item> \<open>Trust_Runs\<close>: calls and runs of that store, with adoptions as steps of another component,
      and what each transaction writes;
    \<^item> \<open>Trust_Invariants\<close>: the trust of a device is the outcome of its decisions, in every run;
    \<^item> \<open>Trust_Bindings\<close>: how a provider binding goes stale, and when the store must accept it;
    \<^item> \<open>Trust_Properties\<close>: what every run guarantees, with a sample run for the witnesses.

  A Rust struct is a record, an enum a datatype with the variants' names after a short prefix,
  a \<^verbatim>\<open>Result\<close> a sum with the error on the left, \<^verbatim>\<open>u64\<close> a 64-bit word, a string the list of
  its UTF-8 bytes, a \<^verbatim>\<open>DateTime\<close> an integer count of nanoseconds. A method that mutates
  \<^verbatim>\<open>self\<close> returns the updated value, and on error the caller keeps the old one, as in the code.
  A panic is the value \<open>None\<close> around the result. The crates \<^verbatim>\<open>uuid\<close>, \<^verbatim>\<open>base64\<close>,
  \<^verbatim>\<open>argon2\<close> and \<^verbatim>\<open>sha2\<close> are parameters with named laws where the code relies on them.

  No fuel is used: every loop is structural recursion, and a reconciliation makes at most five
  store calls, one dispatch and two inspections. Other writers may act between its store calls,
  but no call is placed between the commit of an attempt and the request that it permits.

  Left out: serde derives and the JSON text of records, plain accessors, redacted formatting and
  zeroizing, SQLite's own behaviour beyond the constraints and triggers named (the triggers that
  refuse secret words in metadata are not), identifiers and times of audit events, threads and
  queues, the code that adopts existing provider devices (in the runs of device trust an adoption is
  a step that inserts the rows of an untrusted device), and the crates not named above
  (provider adapters, binding actor, runtime and command-line tools) with the legacy records of
  the first migration.
\<close>

end
